(* ===== verification/Prelude.thy ===== *)
theory Prelude
  imports Main "HOL-Library.Word" "HOL-Library.List_Lexorder" "HOL-Library.Char_ord"
begin

text \<open>
  Shared vocabulary of the development: the names of the machine types, the faults a C++
  operation can end in, and the generic lemmas on lists the components share.

  \<open>std::string\<close> is \<open>string\<close> (a list of bytes); \<open>std::less<std::string>\<close> compares bytes as
  unsigned values, which is the lexicographic order that List_Lexorder and Char_ord put on
  \<open>string\<close>.
\<close>

named_theorems fault_simps "rewrite rules for operations that may fault"
named_theorems chars "facts that tell the separator and digit characters apart"

section \<open>Machine integers\<close>

type_synonym u32 = "32 word"

section \<open>Faults\<close>

text \<open>
  What a call can do instead of returning: undefined behaviour of the language, or an
  exception of the standard library that nothing on the way up catches.
\<close>

datatype fault = Undefined_behaviour | Out_of_range | Null_string | Out_of_memory | Kernel_exception

type_synonym 'a res = "fault + 'a"

primrec bind_res :: "'a res \<Rightarrow> ('a \<Rightarrow> 'b res) \<Rightarrow> 'b res" where
  "bind_res (Inl e) f = Inl e"
| "bind_res (Inr x) f = f x"

declare bind_res.simps [fault_simps]

lemma bind_res_Inr_iff: "bind_res m f = Inr y \<longleftrightarrow> (\<exists>x. m = Inr x \<and> f x = Inr y)"
  by (cases m) auto

text \<open>The loop that stops at the first fault.\<close>

primrec map_res :: "('a \<Rightarrow> 'b res) \<Rightarrow> 'a list \<Rightarrow> 'b list res" where
  "map_res f [] = Inr []"
| "map_res f (x # xs) = bind_res (f x) (\<lambda>y. bind_res (map_res f xs) (\<lambda>ys. Inr (y # ys)))"

lemma map_res_all: "(\<And>x. x \<in> set xs \<Longrightarrow> f x = Inr (g x)) \<Longrightarrow> map_res f xs = Inr (map g xs)"
  by (induction xs) auto

lemma map_res_cong: "(\<And>x. x \<in> set xs \<Longrightarrow> f x = g x) \<Longrightarrow> map_res f xs = map_res g xs"
  by (induction xs) auto

lemma map_res_fault:
  "x \<in> set xs \<Longrightarrow> (\<And>y. y \<in> set xs \<Longrightarrow> f y = Inl e \<or> (\<exists>z. f y = Inr z)) \<Longrightarrow> f x = Inl e \<Longrightarrow> map_res f xs = Inl e"
  by (induction xs) (fastforce split: sum.splits)+

section \<open>Lists\<close>

lemma takeWhile_all_append: "\<forall>x\<in>set xs. P x \<Longrightarrow> takeWhile P (xs @ ys) = xs @ takeWhile P ys"
  by (induction xs) auto

lemma dropWhile_all_append: "\<forall>x\<in>set xs. P x \<Longrightarrow> dropWhile P (xs @ ys) = dropWhile P ys"
  by (induction xs) auto

lemma dropWhile_stop: "xs \<noteq> [] \<Longrightarrow> \<not> P (hd xs) \<Longrightarrow> dropWhile P xs = xs"
  by (cases xs) auto

lemma length_dropWhile_less: "xs \<noteq> [] \<Longrightarrow> P (hd xs) \<Longrightarrow> length (dropWhile P xs) < length xs"
  by (cases xs) (auto simp: le_imp_less_Suc length_dropWhile_le)

lemma length_dropWhile_hd:
  "xs \<noteq> [] \<Longrightarrow> length (dropWhile P xs) = length xs \<Longrightarrow> \<not> P (hd xs)"
  using length_dropWhile_less by fastforce

lemma append_eq_same_length:
  "length xs = length ys \<Longrightarrow> xs @ us = ys @ vs \<longleftrightarrow> xs = ys \<and> us = vs"
  by simp

lemma set_takeWhile_dropWhile: "set (takeWhile P xs) \<union> set (dropWhile P xs) = set xs"
  by (metis set_append takeWhile_dropWhile_id)

end
