(* ===== verification/Converter.thy ===== *)
theory Converter
  imports Prelude "HOL-Library.Signed_Division"
begin

text \<open>
  \<open>include/converter.h\<close>: the binary text encoding of keys and values (\<open>to_bin\<close>,
  \<open>to_string\<close>), the decimal conversions and the validators of numeric arguments.  The
  lemmas give the round trip of the encoding, its injectivity, and the characters it uses.
\<close>

section \<open>The binary text encoding\<close>

definition bit_char :: "bool \<Rightarrow> char" where
  "bit_char b = (if b then CHR ''1'' else CHR ''0'')"

definition is_bit :: "char \<Rightarrow> bool" where
  "is_bit c \<longleftrightarrow> c = CHR ''0'' \<or> c = CHR ''1''"

text \<open>\<open>std::bitset<8>(c).to_string()\<close>: the most significant bit first.\<close>

primrec bitset8 :: "char \<Rightarrow> string" where
  "bitset8 (Char b0 b1 b2 b3 b4 b5 b6 b7) = map bit_char [b7, b6, b5, b4, b3, b2, b1, b0]"

primrec to_bin :: "string \<Rightarrow> string" where
  "to_bin [] = []"
| "to_bin (c # cs) = bitset8 c @ to_bin cs"

text \<open>\<open>std::isspace\<close> in the C locale: what a formatted input operation skips first.\<close>

definition isspace :: "char \<Rightarrow> bool" where
  "isspace c \<longleftrightarrow> c = CHR '' '' \<or> (9 \<le> (of_char c :: nat) \<and> (of_char c :: nat) \<le> 13)"

text \<open>
  \<open>sstream >> bits\<close> for a \<open>bitset<8>\<close>: skip white space, then take at most eight characters
  as long as they are binary digits; it fails when there was none.
\<close>

fun read_bits :: "nat \<Rightarrow> string \<Rightarrow> string \<times> string" where
  "read_bits (Suc n) (c # s) =
     (if is_bit c then (let (b, r) = read_bits n s in (c # b, r)) else ([], c # s))"
| "read_bits n s = ([], s)"

definition bits_to_char :: "string \<Rightarrow> char" where
  "bits_to_char b = char_of (foldl (\<lambda>n c. 2 * n + (if c = CHR ''1'' then 1 else 0)) 0 b :: nat)"

lemma read_bits_append: "read_bits n s = (b, r) \<Longrightarrow> s = b @ r"
  by (induction n s arbitrary: b r rule: read_bits.induct)
    (auto split: if_splits prod.splits)

lemma read_bits_length: "read_bits n s = (b, r) \<Longrightarrow> length r = length s - length b \<and> length b \<le> length s"
  by (drule read_bits_append) simp

function to_string :: "string \<Rightarrow> string" where
  "to_string s =
     (let (b, r) = read_bits 8 (dropWhile isspace s)
      in if b = [] then [] else bits_to_char b # to_string r)"
  by pat_completeness auto
termination
proof (relation "measure length", simp)
  fix s x b r
  assume x: "x = read_bits 8 (dropWhile isspace s)" and br: "(b, r) = x" and b: "b \<noteq> []"
  from x br have "dropWhile isspace s = b @ r" by (metis read_bits_append)
  then have "length b + length r \<le> length s"
    by (metis length_append length_dropWhile_le)
  with b show "(r, s) \<in> measure length"
    by (cases b) auto
qed

declare to_string.simps [simp del]

lemma bit_char_is_bit [simp]: "is_bit (bit_char b)"
  by (simp add: bit_char_def is_bit_def)

lemma bit_char_eq_1 [simp]: "bit_char b = CHR ''1'' \<longleftrightarrow> b"
  by (simp add: bit_char_def)

lemma length_bitset8 [simp]: "length (bitset8 c) = 8"
  by (cases c) simp

lemma set_bitset8: "\<forall>x\<in>set (bitset8 c). is_bit x"
  by (cases c) simp

lemma bitset8_not_Nil [simp]: "bitset8 c \<noteq> []"
  using length_bitset8 [of c] by (metis list.size(3) zero_neq_numeral)

lemma bits_to_char_bitset8 [simp]: "bits_to_char (bitset8 c) = c"
proof (cases c)
  case (Char b0 b1 b2 b3 b4 b5 b6 b7)
  have "foldl (\<lambda>n c. 2 * n + (if c = CHR ''1'' then 1 else 0)) 0 (bitset8 c) = (of_char c :: nat)"
    by (simp add: Char algebra_simps of_char_def )
  then show ?thesis
    by (simp add: bits_to_char_def)
qed

lemma inj_bitset8: "bitset8 c = bitset8 d \<longleftrightarrow> c = d"
  by (metis bits_to_char_bitset8)

lemma read_bits_exact: "\<forall>x\<in>set b. is_bit x \<Longrightarrow> read_bits (length b) (b @ r) = (b, r)"
  by (induction b) auto

lemma is_bit_not_space: "is_bit c \<Longrightarrow> \<not> isspace c"
  by (auto simp: is_bit_def isspace_def)

lemma dropWhile_space_bits: "b \<noteq> [] \<Longrightarrow> is_bit (hd b) \<Longrightarrow> dropWhile isspace (b @ r) = b @ r"
  by (cases b) (auto simp: is_bit_not_space)

lemma hd_bitset8 [simp]: "is_bit (hd (bitset8 c))"
  by (cases c) simp

lemma to_string_Nil [simp]: "to_string [] = []"
  by (subst to_string.simps) simp

lemma to_string_bitset8: "to_string (bitset8 c @ r) = c # to_string r"
proof -
  have "dropWhile isspace (bitset8 c @ r) = bitset8 c @ r"
    by (rule dropWhile_space_bits) simp_all
  moreover have "read_bits 8 (bitset8 c @ r) = (bitset8 c, r)"
    using read_bits_exact [OF set_bitset8, of c r] by simp
  ultimately show ?thesis
    by (subst to_string.simps) simp
qed

lemma to_string_to_bin [simp]: "to_string (to_bin s) = s"
  by (induction s) (simp_all add: to_string_bitset8)

lemma to_bin_inject [simp]: "to_bin s = to_bin t \<longleftrightarrow> s = t"
  by (metis to_string_to_bin)

lemma to_bin_append: "to_bin (s @ t) = to_bin s @ to_bin t"
  by (induction s) auto

lemma set_to_bin: "x \<in> set (to_bin s) \<Longrightarrow> is_bit x"
  using set_bitset8 by (induction s) auto

lemma to_bin_eq_Nil [simp]: "to_bin s = [] \<longleftrightarrow> s = []"
  by (cases s) auto

lemma length_to_bin: "length (to_bin s) = 8 * length s"
  by (induction s) auto


section \<open>Decimal output\<close>

definition digit_char :: "nat \<Rightarrow> char" where
  "digit_char n = char_of (48 + n)"

definition is_digit :: "char \<Rightarrow> bool" where
  "is_digit c \<longleftrightarrow> CHR ''0'' \<le> c \<and> c \<le> CHR ''9''"

text \<open>What \<open>operator<<\<close> writes for an unsigned value.\<close>

fun dec_of_nat :: "nat \<Rightarrow> string" where
  "dec_of_nat n =
     (if n < 10 then [digit_char n] else dec_of_nat (n div 10) @ [digit_char (n mod 10)])"

declare dec_of_nat.simps [simp del]

text \<open>
  \<open>convto_string\<close>: an \<open>unsigned int\<close> takes the stream template; an \<open>int\<close> takes
  \<open>conv_numeric\<close>, whose loop collects the digits from the right and reverses them.
\<close>

definition convto_string :: "u32 \<Rightarrow> string" where
  "convto_string x = dec_of_nat (unat x)"

function conv_digits :: "int \<Rightarrow> string \<Rightarrow> string" where
  "conv_digits q out =
     (if q = 0 then out
      else conv_digits (q sdiv 10) (out @ [digit_char (nat \<bar>q smod 10\<bar>)]))"
  by pat_completeness auto
termination
proof (relation "measure (\<lambda>(q, out). nat \<bar>q\<bar>)", simp)
  fix q :: int and out :: string
  assume "q \<noteq> 0"
  then have "\<bar>q sdiv 10\<bar> < \<bar>q\<bar>"
    by (cases "0 < q") (auto simp: signed_divide_int_def abs_mult sgn_if zdiv_zminus1_eq_if
        intro: int_div_less_self)
  then show "((q sdiv 10, out @ [digit_char (nat \<bar>q smod 10\<bar>)]), (q, out))
      \<in> measure (\<lambda>(q, out). nat \<bar>q\<bar>)"
    by simp
qed

declare conv_digits.simps [simp del]

definition conv_numeric :: "int \<Rightarrow> string" where
  "conv_numeric n =
     (if n = 0 then ''0''
      else rev (conv_digits n [] @ (if n < 0 then ''-'' else [])))"

section \<open>Decimal input\<close>

primrec dec_value :: "string \<Rightarrow> nat \<Rightarrow> nat" where
  "dec_value [] n = n"
| "dec_value (c # cs) n = dec_value cs (10 * n + (of_char c - 48))"

text \<open>
  The integer extraction of \<open>std::istringstream\<close>: white space, an optional sign, then digits.
  \<open>None\<close> when no digit was found.
\<close>

definition scan_int :: "string \<Rightarrow> (bool \<times> nat) option" where
  "scan_int str =
     (let s = dropWhile isspace str;
          neg = (s \<noteq> [] \<and> hd s = CHR ''-'');
          t = (if s \<noteq> [] \<and> (hd s = CHR ''-'' \<or> hd s = CHR ''+'') then tl s else s);
          ds = takeWhile is_digit t
      in if ds = [] then None else Some (neg, dec_value ds 0))"

text \<open>
  \<open>convto_num<unsigned int>\<close> and \<open>convto_num<signed int>\<close>: 0 when the extraction fails,
  which a value out of the type's range makes it do.  A minus sign before an unsigned value
  negates it modulo \<open>2^32\<close>.
\<close>

definition convto_num_uint :: "string \<Rightarrow> u32" where
  "convto_num_uint str =
     (case scan_int str of
        None \<Rightarrow> 0
      | Some (neg, v) \<Rightarrow>
          if v \<ge> 2 ^ 32 then 0 else if neg then - of_nat v else of_nat v)"

definition convto_num_int :: "string \<Rightarrow> int" where
  "convto_num_int str =
     (case scan_int str of
        None \<Rightarrow> 0
      | Some (neg, v) \<Rightarrow>
          if neg then (if v > 2 ^ 31 then 0 else - int v)
          else (if v \<ge> 2 ^ 31 then 0 else int v))"

section \<open>Validators\<close>

definition is_correct :: "string \<Rightarrow> bool" where
  "is_correct str \<longleftrightarrow>
     str \<noteq> [] \<and> hd str = CHR 0x22 \<and> last str = CHR 0x22"

fun is_number_from :: "nat \<Rightarrow> bool \<Rightarrow> string \<Rightarrow> bool" where
  "is_number_from counter allowdots [] = True"
| "is_number_from counter allowdots (c # cs) =
     (if counter = 0 \<and> (c = CHR ''-'' \<or> c = CHR ''+'') then is_number_from counter allowdots cs
      else if allowdots \<and> (c = CHR '','' \<or> c = CHR ''.'' \<or> c = CHR ''+'' \<or> c = CHR ''e'')
      then is_number_from (Suc counter) allowdots cs
      else if \<not> is_digit c then False
      else is_number_from (Suc counter) allowdots cs)"

definition is_number :: "string \<Rightarrow> bool \<Rightarrow> bool" where
  "is_number str allowdots = is_number_from 0 allowdots str"

definition is_positive_number :: "string \<Rightarrow> bool" where
  "is_positive_number str = list_all is_digit str"

definition is_zero_or_great :: "string \<Rightarrow> bool" where
  "is_zero_or_great str \<longleftrightarrow>
     (if \<not> is_number str False then False
      else str = ''0'' \<or> is_positive_number str)"

definition is_zero_or_great_or_mone :: "string \<Rightarrow> bool" where
  "is_zero_or_great_or_mone str \<longleftrightarrow>
     (if \<not> is_number str False then False
      else str = ''0'' \<or> str = ''-1'' \<or> is_positive_number str)"

section \<open>Facts about decimal text\<close>

lemma of_char_digit_char: "n < 10 \<Longrightarrow> of_char (digit_char n) = 48 + n"
  by (simp add: digit_char_def)

lemma is_digit_iff: "is_digit c \<longleftrightarrow> 48 \<le> (of_char c :: nat) \<and> (of_char c :: nat) \<le> 57"
  by (simp add: is_digit_def less_eq_char_def)

lemma is_digit_digit_char [simp]: "n < 10 \<Longrightarrow> is_digit (digit_char n)"
  by (simp add: is_digit_iff of_char_digit_char)

lemma is_digit_not_special [chars]:
  "is_digit c \<Longrightarrow> c \<noteq> CHR '':''" "is_digit c \<Longrightarrow> c \<noteq> CHR '' ''"
  "is_digit c \<Longrightarrow> c \<noteq> CHR ''-''" "is_digit c \<Longrightarrow> c \<noteq> CHR ''+''" "is_digit c \<Longrightarrow> c \<noteq> CHR ''/''"
  by (auto simp: is_digit_iff)

lemma is_bit_not_special [chars]:
  "is_bit c \<Longrightarrow> c \<noteq> CHR '':''" "is_bit c \<Longrightarrow> c \<noteq> CHR ''/''"
  by (auto simp: is_bit_def)

lemma is_digit_not_space: "is_digit c \<Longrightarrow> \<not> isspace c"
  by (auto simp: is_digit_iff isspace_def)

lemma dec_of_nat_digits: "x \<in> set (dec_of_nat n) \<Longrightarrow> is_digit x"
proof (induction n rule: dec_of_nat.induct)
  case (1 n)
  then show ?case
    by (subst (asm) dec_of_nat.simps) (auto split: if_splits)
qed

lemma dec_of_nat_not_Nil [simp]: "dec_of_nat n \<noteq> []"
  by (subst dec_of_nat.simps) simp

lemma dec_value_append: "dec_value (s @ t) n = dec_value t (dec_value s n)"
  by (induction s arbitrary: n) auto

lemma dec_value_dec_of_nat [simp]: "dec_value (dec_of_nat n) 0 = n"
proof (induction n rule: dec_of_nat.induct)
  case (1 n)
  then show ?case
    by (subst dec_of_nat.simps) (auto simp: dec_value_append of_char_digit_char)
qed

lemma dec_of_nat_inject [simp]: "dec_of_nat m = dec_of_nat n \<longleftrightarrow> m = n"
  by (metis dec_value_dec_of_nat)

lemma convto_string_inject [simp]: "convto_string x = convto_string y \<longleftrightarrow> x = y"
  by (simp add: convto_string_def word_unat_eq_iff)

lemma convto_string_not_Nil [simp]: "convto_string x \<noteq> []"
  by (simp add: convto_string_def)

lemma set_convto_string: "c \<in> set (convto_string x) \<Longrightarrow> is_digit c"
  by (auto simp: convto_string_def dec_of_nat_digits)

lemma takeWhile_digits: "\<forall>x\<in>set s. is_digit x \<Longrightarrow> takeWhile is_digit s = s"
  by (simp add: takeWhile_eq_all_conv)

lemma scan_int_dec_of_nat: "scan_int (dec_of_nat n) = Some (False, n)"
proof -
  have d: "\<forall>x\<in>set (dec_of_nat n). is_digit x"
    by (simp add: dec_of_nat_digits)
  then have h: "is_digit (hd (dec_of_nat n))"
    by simp
  then have "dropWhile isspace (dec_of_nat n) = dec_of_nat n"
    by (intro dropWhile_stop) (simp_all add: is_digit_not_space)
  with h show ?thesis
    by (simp add: scan_int_def takeWhile_digits d is_digit_not_special)
qed

lemma convto_num_uint_convto_string [simp]: "convto_num_uint (convto_string x) = x"
proof -
  have "unat x < 2 ^ 32"
    by (rule order_less_le_trans [OF unsigned_less]) simp
  then show ?thesis
    by (simp add: convto_num_uint_def convto_string_def scan_int_dec_of_nat)
qed

lemma convto_num_int_convto_string:
  "convto_num_int (convto_string x) = (if unat x < 2 ^ 31 then int (unat x) else 0)"
  by (simp add: convto_num_int_def convto_string_def scan_int_dec_of_nat)

lemma conv_digits_nat:
  "n \<noteq> 0 \<Longrightarrow> conv_digits n out = out @ rev (dec_of_nat (nat \<bar>n\<bar>))"
proof (induction n out rule: conv_digits.induct)
  case (1 n out)
  have q: "nat \<bar>n sdiv 10\<bar> = nat \<bar>n\<bar> div 10" and r: "nat \<bar>n smod 10\<bar> = nat \<bar>n\<bar> mod 10"
    by (auto simp: signed_divide_int_def signed_modulo_int_def sgn_if abs_mult nat_div_distrib
        nat_mod_distrib minus_mult_div_eq_mod algebra_simps)
  show ?case
  proof (cases "n sdiv 10 = 0")
    case True
    then have "nat \<bar>n\<bar> < 10"
      using q by (simp add: div_eq_0_iff)
    with True 1(2) r show ?thesis
      by (simp add: conv_digits.simps [of n] conv_digits.simps [of 0] dec_of_nat.simps)
  next
    case False
    then have "\<not> nat \<bar>n\<bar> < 10"
      using q by auto
    with False 1 q r show ?thesis
      by (simp add: conv_digits.simps [of n] dec_of_nat.simps [of "nat \<bar>n\<bar>"])
  qed
qed

lemma conv_numeric_eq:
  "conv_numeric n = (if n < 0 then CHR ''-'' # dec_of_nat (nat (- n)) else dec_of_nat (nat n))"
proof (cases "n = 0")
  case True
  have "(char_of (48 :: nat) :: char) = CHR ''0''"
    by (simp add: char_of_eq_iff)
  with True show ?thesis
    by (simp add: conv_numeric_def dec_of_nat.simps digit_char_def)
next
  case False
  then show ?thesis
    by (simp add: conv_numeric_def conv_digits_nat)
qed

section \<open>Round trips\<close>

text \<open>
  C32: to_string gives back every byte string from its binary text; the binary text is injective,
  eight characters per byte, all of them 0 or 1.
\<close>

theorem binary_roundtrip:
  "to_string (to_bin s) = s \<and> (to_bin s = to_bin t \<longleftrightarrow> s = t) \<and>
   length (to_bin s) = 8 * length s \<and> set (to_bin s) \<subseteq> {CHR ''0'', CHR ''1''}"
  using set_to_bin [of _ s] by (auto simp: length_to_bin is_bit_def)

text \<open>
  Reading back the decimal text of a 32-bit unsigned number gives the number for every value
  of its width, and different numbers have different texts.
\<close>

theorem decimal_roundtrip:
  "convto_num_uint (convto_string x) = x \<and> (convto_string x = convto_string y \<longleftrightarrow> x = y)"
  by simp

end
