(* ===== verification/Extras.thy ===== *)
theory Extras
  imports Converter
begin

text \<open>
  \<open>include/extras.h\<close>: quote stripping, case conversion, substring search and the count of
  occurrences behind the OCCURS command.  The loop of \<open>count_occur\<close> does not end when the
  searched text is empty, so it is a partial function into \<open>option\<close>.

  Sizes are cast to \<open>int\<close> in the code; the model takes them as integers, which agrees for
  strings shorter than \<open>2^31\<close> bytes.
\<close>

section \<open>Case and quotes\<close>

definition toupper :: "char \<Rightarrow> char" where
  "toupper c = (if CHR ''a'' \<le> c \<and> c \<le> CHR ''z'' then char_of ((of_char c :: nat) - 32) else c)"

definition tolower :: "char \<Rightarrow> char" where
  "tolower c = (if CHR ''A'' \<le> c \<and> c \<le> CHR ''Z'' then char_of ((of_char c :: nat) + 32) else c)"

definition to_upper :: "string \<Rightarrow> string" where
  "to_upper t_value = map toupper t_value"

definition to_lower :: "string \<Rightarrow> string" where
  "to_lower t_value = map tolower t_value"

definition isalnum :: "char \<Rightarrow> bool" where
  "isalnum c \<longleftrightarrow> is_digit c \<or> (CHR ''a'' \<le> c \<and> c \<le> CHR ''z'') \<or> (CHR ''A'' \<le> c \<and> c \<le> CHR ''Z'')"

text \<open>The loop of \<open>isalpha\<close> runs up to the first NUL of \<open>str\<close>.\<close>

definition isalpha :: "string \<Rightarrow> bool" where
  "isalpha str \<longleftrightarrow>
     (if length str = 0 then False
      else list_all isalnum (takeWhile (\<lambda>c. c \<noteq> CHR 0x00) str))"

definition ValidLong :: "int \<Rightarrow> bool" where
  "ValidLong number \<longleftrightarrow> number \<le> 180 \<and> number \<ge> - 180"

definition ValidLat :: "int \<Rightarrow> bool" where
  "ValidLat number \<longleftrightarrow> number \<le> 90 \<and> number \<ge> - 90"

definition stripe :: "string \<Rightarrow> string" where
  "stripe str =
     (if is_number str True then str
      else if length str = 1 then str
      else if length str < 1 then []
      else butlast (tl str))"

section \<open>Substring search\<close>

text \<open>\<open>std::string::find(sub, pos)\<close>; \<open>None\<close> is \<open>npos\<close>.\<close>

primrec find_sub :: "string \<Rightarrow> string \<Rightarrow> nat option" where
  "find_sub sub [] = (if sub = [] then Some 0 else None)"
| "find_sub sub (c # s) =
     (if take (length sub) (c # s) = sub then Some 0 else map_option Suc (find_sub sub s))"

definition std_find :: "string \<Rightarrow> string \<Rightarrow> nat \<Rightarrow> nat option" where
  "std_find str sub pos =
     (if pos \<le> length str then map_option (\<lambda>i. pos + i) (find_sub sub (drop pos str)) else None)"

definition set_index :: "int \<Rightarrow> int \<Rightarrow> int \<Rightarrow> int \<times> int" where
  "set_index start end' len =
     ((if start < 0 then (if start + len < 0 then 0 else start + len) else start),
      (if end' > len then len
       else if end' < 0 then (if end' + len < 0 then 0 else end' + len)
       else end'))"

definition find_in :: "string \<Rightarrow> string \<Rightarrow> int \<Rightarrow> int \<Rightarrow> int" where
  "find_in str sub start end' =
     (let (start, end') = set_index start end' (int (length str))
      in case std_find str sub (nat start) of
           None \<Rightarrow> -1
         | Some result \<Rightarrow> if int (result + length sub) > end' then -1 else int result)"

definition MAX_32BIT_INT :: int where
  "MAX_32BIT_INT = 2147483647"

partial_function (option) count_occur_loop ::
    "string \<Rightarrow> string \<Rightarrow> int \<Rightarrow> int \<Rightarrow> int \<Rightarrow> int option" where
  "count_occur_loop str substr end' cursor matches =
     (let cursor = find_in str substr cursor end'
      in if cursor < 0 then Some matches
         else count_occur_loop str substr end' (cursor + int (length substr)) (matches + 1))"

definition count_occur :: "string \<Rightarrow> string \<Rightarrow> int \<Rightarrow> int \<Rightarrow> int option" where
  "count_occur str substr start end' = count_occur_loop str substr end' start 0"

section \<open>What the count is\<close>

text \<open>The number of non-overlapping occurrences, taken from the left.\<close>

function occurrences :: "string \<Rightarrow> string \<Rightarrow> nat" where
  "occurrences sub s =
     (if s = [] \<or> sub = [] then 0
      else if take (length sub) s = sub then Suc (occurrences sub (drop (length sub) s))
      else occurrences sub (tl s))"
  by pat_completeness auto
termination
  by (relation "measure (\<lambda>(sub, s). length s)") auto

declare occurrences.simps [simp del]

lemma find_sub_Nil [simp]: "find_sub [] s = Some 0"
  by (cases s) auto

lemma find_sub_Some: "find_sub sub s = Some i \<Longrightarrow> i + length sub \<le> length s"
proof (induction s arbitrary: i)
  case Nil
  then show ?case by (simp split: if_splits)
next
  case (Cons c s)
  show ?case
  proof (cases "take (length sub) (c # s) = sub")
    case True
    then have "length sub \<le> length (c # s)"
      by (metis length_take min.cobounded1)
    with True Cons.prems show ?thesis by auto
  next
    case False
    with Cons show ?thesis by auto
  qed
qed

lemma occurrences_find_sub_None:
  "sub \<noteq> [] \<Longrightarrow> find_sub sub s = None \<Longrightarrow> occurrences sub s = 0"
proof (induction s)
  case Nil
  then show ?case by (simp add: occurrences.simps)
next
  case (Cons c s)
  then show ?case
    by (subst occurrences.simps) (auto split: if_splits)
qed

lemma occurrences_find_sub_Some:
  "sub \<noteq> [] \<Longrightarrow> find_sub sub s = Some i \<Longrightarrow>
   occurrences sub s = Suc (occurrences sub (drop (i + length sub) s))"
proof (induction s arbitrary: i)
  case Nil
  then show ?case by simp
next
  case (Cons c s)
  show ?case
  proof (cases "take (length sub) (c # s) = sub")
    case True
    with Cons.prems show ?thesis
      by (subst occurrences.simps) auto
  next
    case False
    with Cons.prems obtain j where "find_sub sub s = Some j" and "i = Suc j"
      by auto
    with Cons False show ?thesis
      by (subst occurrences.simps) auto
  qed
qed

lemma find_in_forward:
  assumes "0 \<le> c" and "c \<le> int (length str)" and "int (length str) \<le> e"
  shows "find_in str sub c e =
    (case find_sub sub (drop (nat c) str) of None \<Rightarrow> -1 | Some i \<Rightarrow> c + int i)"
  using assms
  by (auto simp: find_in_def set_index_def std_find_def Let_def split: option.splits
      dest: find_sub_Some)

text \<open>A cursor inside the string and a non-empty pattern: the loop returns the count.\<close>

lemma count_occur_loop_eq:
  assumes "sub \<noteq> []" and "n \<le> length str" and "int (length str) \<le> e"
  shows "count_occur_loop str sub e (int n) m = Some (m + int (occurrences sub (drop n str)))"
  using assms(2)
proof (induction "length str - n" arbitrary: n m rule: less_induct)
  case less
  have f: "find_in str sub (int n) e =
      (case find_sub sub (drop n str) of None \<Rightarrow> -1 | Some i \<Rightarrow> int n + int i)"
    using less.prems assms(3) find_in_forward [of "int n" str e sub] by simp
  show ?case
  proof (cases "find_sub sub (drop n str)")
    case None
    then show ?thesis
      using assms(1)
      by (subst count_occur_loop.simps) (simp add: f occurrences_find_sub_None)
  next
    case (Some i)
    then have le: "n + i + length sub \<le> length str"
      using find_sub_Some [OF Some] less.prems by simp
    moreover from assms(1) have "0 < length sub" by simp
    ultimately have "length str - (n + i + length sub) < length str - n" by linarith
    from less.hyps [OF this le, of "m + 1"] show ?thesis
      using Some assms(1)
      by (subst count_occur_loop.simps)
        (simp add: f occurrences_find_sub_Some add.commute add.left_commute)
  qed
qed

lemma find_in_Nil: "0 \<le> c \<Longrightarrow> c \<le> int (length str) \<Longrightarrow> int (length str) \<le> e \<Longrightarrow> find_in str [] c e = c"
  by (simp add: find_in_forward find_sub_Nil)

lemma count_occur_loop_Nil:
  assumes ret: "count_occur_loop str sub e c m = Some r"
  shows "sub = [] \<longrightarrow> 0 \<le> c \<longrightarrow> c \<le> int (length str) \<longrightarrow> int (length str) \<le> e \<longrightarrow> False"
proof (rule count_occur_loop.raw_induct
    [where P = "\<lambda>str sub e c m r.
        sub = [] \<longrightarrow> 0 \<le> c \<longrightarrow> c \<le> int (length str) \<longrightarrow> int (length str) \<le> e \<longrightarrow> False", OF _ ret])
  fix f str sub e c m r
  assume IH: "\<And>str sub e c m r. f str sub e c m = Some r \<Longrightarrow>
      sub = [] \<longrightarrow> 0 \<le> c \<longrightarrow> c \<le> int (length str) \<longrightarrow> int (length str) \<le> e \<longrightarrow> False"
    and eq: "(let cursor = find_in str sub c e
      in if cursor < 0 then Some m else f str sub e (cursor + int (length sub)) (m + 1)) = Some r"
  show "sub = [] \<longrightarrow> 0 \<le> c \<longrightarrow> c \<le> int (length str) \<longrightarrow> int (length str) \<le> e \<longrightarrow> False"
  proof (intro impI)
    assume "sub = []" "0 \<le> c" "c \<le> int (length str)" "int (length str) \<le> e"
    with eq have "f str [] e c (m + 1) = Some r"
      by (simp add: find_in_Nil)
    from IH [OF this] \<open>0 \<le> c\<close> \<open>c \<le> int (length str)\<close> \<open>int (length str) \<le> e\<close> show False by simp
  qed
qed

lemma stripe_quoted: "stripe (CHR 0x22 # v @ [CHR 0x22]) = v"
proof -
  have "\<not> is_number (CHR 0x22 # v @ [CHR 0x22]) True"
    by (simp add: is_number_def is_digit_iff)
  then show ?thesis
    by (simp add: stripe_def)
qed

end
