(* ===== verification/Nodes.thy ===== *)
theory Nodes
  imports Converter
begin

text \<open>
  \<open>src/nodes.cpp\<close>: the separator streams that cut keys and values into tokens, and the case
  tables of the wildcard matcher.  The stream's loop is shown to yield exactly the non-empty
  pieces (or all pieces) of the source between separators.
\<close>

section \<open>Separator streams\<close>

record node_stream =
  ns_tokens :: string
  ns_sep :: char
  ns_pos :: nat
  ns_allow_empty :: bool

definition node_stream :: "string \<Rightarrow> char \<Rightarrow> bool \<Rightarrow> node_stream" where
  "node_stream source separator allowempty =
     \<lparr>ns_tokens = source, ns_sep = separator, ns_pos = 0, ns_allow_empty = allowempty\<rparr>"

definition colon_node_stream :: "string \<Rightarrow> node_stream" where
  "colon_node_stream source = node_stream source CHR '':'' False"

definition space_node_stream :: "string \<Rightarrow> node_stream" where
  "space_node_stream source = node_stream source CHR '' '' False"

definition stream_finish :: "node_stream \<Rightarrow> bool" where
  "stream_finish st \<longleftrightarrow> ns_pos st > length (ns_tokens st)"

text \<open>\<open>find_first_not_of(sep, pos)\<close> and \<open>find(sep, pos)\<close> of \<open>std::string\<close>; \<open>None\<close> is \<open>npos\<close>.\<close>

definition find_first_not_of :: "char \<Rightarrow> string \<Rightarrow> nat \<Rightarrow> nat option" where
  "find_first_not_of c s pos =
     (let i = pos + length (takeWhile (\<lambda>x. x = c) (drop pos s))
      in if i < length s then Some i else None)"

definition find_char :: "char \<Rightarrow> string \<Rightarrow> nat \<Rightarrow> nat option" where
  "find_char c s pos =
     (let i = pos + length (takeWhile (\<lambda>x. x \<noteq> c) (drop pos s))
      in if i < length s then Some i else None)"

text \<open>The cut at \<open>pos\<close>: up to the next separator or to the end of the source.\<close>

definition cut_token :: "node_stream \<Rightarrow> string \<times> node_stream" where
  "cut_token st =
     (let p = (case find_char (ns_sep st) (ns_tokens st) (ns_pos st) of
                 None \<Rightarrow> length (ns_tokens st) | Some p \<Rightarrow> p)
      in (take (p - ns_pos st) (drop (ns_pos st) (ns_tokens st)), st\<lparr>ns_pos := p + 1\<rparr>))"

text \<open>\<open>items_extract\<close>: the result, the token it assigns, and the stream after the call.\<close>

definition items_extract :: "node_stream \<Rightarrow> bool \<times> string \<times> node_stream" where
  "items_extract st =
     (if stream_finish st then (False, [], st)
      else if \<not> ns_allow_empty st then
        (case find_first_not_of (ns_sep st) (ns_tokens st) (ns_pos st) of
           None \<Rightarrow> (False, [], st\<lparr>ns_pos := length (ns_tokens st) + 1\<rparr>)
         | Some p \<Rightarrow> (let (token, st') = cut_token (st\<lparr>ns_pos := p\<rparr>) in (True, token, st')))
      else (let (token, st') = cut_token st in (True, token, st')))"

definition get_remaining :: "node_stream \<Rightarrow> string" where
  "get_remaining st = (if \<not> stream_finish st then drop (ns_pos st) (ns_tokens st) else [])"

lemma find_char_ge: "find_char c s pos = Some p \<Longrightarrow> pos \<le> p \<and> p < length s"
  by (auto simp: find_char_def Let_def split: if_splits)

lemma find_first_not_of_ge: "find_first_not_of c s pos = Some p \<Longrightarrow> pos \<le> p \<and> p < length s"
  by (auto simp: find_first_not_of_def Let_def split: if_splits)

lemma cut_token_pos:
  "cut_token st = (token, st') \<Longrightarrow> ns_pos st \<le> length (ns_tokens st) \<Longrightarrow>
   ns_pos st < ns_pos st' \<and> ns_tokens st' = ns_tokens st"
  by (auto simp: cut_token_def Let_def split: option.splits dest: find_char_ge)

lemma items_extract_progress:
  assumes "items_extract st = (True, token, st')"
  shows "ns_pos st < ns_pos st' \<and> ns_tokens st' = ns_tokens st \<and> ns_pos st \<le> length (ns_tokens st)"
  using assms
  by (auto simp: items_extract_def stream_finish_def split: if_splits option.splits prod.splits
      dest!: cut_token_pos find_first_not_of_ge)

text \<open>
  \<open>while (stream.items_extract(token)) \<dots>\<close>: the tokens the loop body sees, in order.
\<close>

function extract_all :: "node_stream \<Rightarrow> string list" where
  "extract_all st =
     (case items_extract st of (ok, token, st') \<Rightarrow> if ok then token # extract_all st' else [])"
  by pat_completeness auto
termination
proof (relation "measure (\<lambda>st. Suc (length (ns_tokens st)) - ns_pos st)", goal_cases)
  case 1
  show ?case by simp
next
  case 2
  then show ?case
    by (auto dest!: items_extract_progress [OF sym])
qed

declare extract_all.simps [simp del]

definition node_contains :: "node_stream \<Rightarrow> string \<Rightarrow> bool" where
  "node_contains st val \<longleftrightarrow> val \<in> set (extract_all st)"

section \<open>The tokens of a stream\<close>

text \<open>The pieces of a text between separators.\<close>

primrec split_on :: "char \<Rightarrow> string \<Rightarrow> string list" where
  "split_on c [] = [[]]"
| "split_on c (x # xs) =
     (if x = c then [] # split_on c xs
      else (case split_on c xs of [] \<Rightarrow> [[x]] | y # ys \<Rightarrow> (x # y) # ys))"

lemma split_on_not_Nil [simp]: "split_on c s \<noteq> []"
  by (induction s) (auto split: list.splits)

lemma split_on_no_sep: "c \<notin> set s \<Longrightarrow> split_on c s = [s]"
  by (induction s) auto

lemma split_on_append: "c \<notin> set s \<Longrightarrow> split_on c (s @ c # t) = s # split_on c t"
  by (induction s) auto

lemma split_on_dropWhile:
  "filter (\<lambda>t. t \<noteq> []) (split_on c (dropWhile (\<lambda>x. x = c) s)) = filter (\<lambda>t. t \<noteq> []) (split_on c s)"
  by (induction s) (auto split: list.splits)

text \<open>One extraction against the pieces of the rest of the source.\<close>

lemma cut_token_split:
  assumes "ns_pos st \<le> length (ns_tokens st)"
  shows "cut_token st =
    (takeWhile (\<lambda>x. x \<noteq> ns_sep st) (drop (ns_pos st) (ns_tokens st)),
     st\<lparr>ns_pos := Suc (ns_pos st + length (takeWhile (\<lambda>x. x \<noteq> ns_sep st) (drop (ns_pos st) (ns_tokens st))))\<rparr>)"
proof -
  let ?d = "drop (ns_pos st) (ns_tokens st)"
  let ?t = "takeWhile (\<lambda>x. x \<noteq> ns_sep st) ?d"
  have take_t: "take (length ?t) ?d = ?t"
    by (metis takeWhile_eq_take)
  show ?thesis
  proof (cases "ns_pos st + length ?t < length (ns_tokens st)")
    case True
    with take_t show ?thesis
      by (simp add: cut_token_def find_char_def Let_def)
  next
    case False
    then have "length ?d \<le> length ?t"
      by simp
    then have td: "?t = ?d"
      using take_t by (metis take_all)
    then have "length ?t = length (ns_tokens st) - ns_pos st"
      by (metis length_drop)
    then have len: "ns_pos st + length ?t = length (ns_tokens st)"
      using assms by simp
    with take_t td show ?thesis
      by (simp only: cut_token_def find_char_def Let_def) simp
  qed
qed

lemma split_on_takeWhile:
  "split_on c s = takeWhile (\<lambda>x. x \<noteq> c) s #
     (case dropWhile (\<lambda>x. x \<noteq> c) s of [] \<Rightarrow> [] | _ # t \<Rightarrow> split_on c t)"
  by (induction s) (auto split: list.splits)


lemma drop_Suc_takeWhile:
  "drop (Suc (length (takeWhile P d))) d = tl (dropWhile P d)"
  by (induction d) (auto simp: drop_Suc)

lemma split_on_rest:
  "split_on c s = takeWhile (\<lambda>x. x \<noteq> c) s #
     (if length (takeWhile (\<lambda>x. x \<noteq> c) s) = length s then []
      else split_on c (drop (Suc (length (takeWhile (\<lambda>x. x \<noteq> c) s))) s))"
proof (cases "dropWhile (\<lambda>x. x \<noteq> c) s")
  case Nil
  then have "length (takeWhile (\<lambda>x. x \<noteq> c) s) = length s"
    by (metis append_Nil2 takeWhile_dropWhile_id)
  then show ?thesis
    by (subst split_on_takeWhile) (simp only: Nil list.case if_True refl)
next
  case (Cons x t)
  have "s = takeWhile (\<lambda>x. x \<noteq> c) s @ x # t"
    using Cons by (metis takeWhile_dropWhile_id)
  then have "length s = length (takeWhile (\<lambda>x. x \<noteq> c) s) + Suc (length t)"
    by (metis length_append length_Cons)
  then have "length (takeWhile (\<lambda>x. x \<noteq> c) s) \<noteq> length s"
    by linarith
  moreover have "drop (Suc (length (takeWhile (\<lambda>x. x \<noteq> c) s))) s = t"
    by (simp only: drop_Suc_takeWhile Cons list.sel)
  ultimately show ?thesis
    using Cons by (subst split_on_takeWhile) simp
qed

text \<open>The stream that skips empty tokens.\<close>

lemma extract_all_skip:
  assumes "\<not> ns_allow_empty st"
  shows "extract_all st =
    (if stream_finish st then []
     else filter (\<lambda>t. t \<noteq> []) (split_on (ns_sep st) (drop (ns_pos st) (ns_tokens st))))"
  using assms
proof (induction st rule: extract_all.induct)
  case (1 st)
  let ?c = "ns_sep st" and ?s = "ns_tokens st"
  let ?d = "drop (ns_pos st) ?s"
  let ?p = "ns_pos st + length (takeWhile (\<lambda>x. x = ?c) ?d)"
  let ?e = "drop ?p ?s"
  let ?t = "takeWhile (\<lambda>x. x \<noteq> ?c) ?e"
  show ?case
  proof (cases "stream_finish st")
    case True
    then show ?thesis
      by (subst extract_all.simps) (simp add: items_extract_def)
  next
    case inside: False
    then have le: "ns_pos st \<le> length ?s"
      by (simp add: stream_finish_def)
    have e: "?e = dropWhile (\<lambda>x. x = ?c) ?d"
      by (simp add: dropWhile_eq_drop add.commute)
    have split_e: "filter (\<lambda>t. t \<noteq> []) (split_on ?c ?d) = filter (\<lambda>t. t \<noteq> []) (split_on ?c ?e)"
      by (simp only: e split_on_dropWhile)
    show ?thesis
    proof (cases "?p < length ?s")
      case False
      then have "items_extract st = (False, [], st\<lparr>ns_pos := length ?s + 1\<rparr>)"
        using inside 1(2) by (simp add: items_extract_def find_first_not_of_def Let_def)
      moreover from False have "?e = []"
        by simp
      ultimately show ?thesis
        using inside split_e by (subst extract_all.simps) simp
    next
      case True
      let ?st' = "st\<lparr>ns_pos := Suc (?p + length ?t)\<rparr>"
      have it: "items_extract st = (True, ?t, ?st')"
        using inside 1(2) True
        by (simp add: items_extract_def find_first_not_of_def Let_def cut_token_split)
      have "?e \<noteq> []"
        using True by simp
      then have "dropWhile (\<lambda>x. x = ?c) ?d \<noteq> []"
        by (simp only: e not_False_eq_True)
      from hd_dropWhile [OF this] have "hd ?e \<noteq> ?c"
        by (simp only: e not_False_eq_True)
      with \<open>?e \<noteq> []\<close> have t: "?t \<noteq> []"
        by (cases ?e) auto
      have fin: "stream_finish ?st' \<longleftrightarrow> length ?t = length ?e"
        using True length_takeWhile_le [of "\<lambda>x. x \<noteq> ?c" ?e]
        by (auto simp: stream_finish_def)
      have dr: "drop (ns_pos ?st') ?s = drop (Suc (length ?t)) ?e"
        by (simp add: add.commute)
      have "extract_all st = ?t # extract_all ?st'"
        by (subst extract_all.simps) (simp add: it)
      also have "extract_all ?st' =
          (if length ?t = length ?e then []
           else filter (\<lambda>t. t \<noteq> []) (split_on ?c (drop (Suc (length ?t)) ?e)))"
        using 1(1) [OF it [symmetric] refl] 1(2) fin dr by simp
      also have "?t # \<dots> = filter (\<lambda>t. t \<noteq> []) (split_on ?c ?e)"
        using t by (subst split_on_rest [of ?c ?e]) simp
      finally show ?thesis
        using inside split_e by simp
    qed
  qed
qed

text \<open>The stream that keeps empty tokens.\<close>

lemma extract_all_keep:
  assumes "ns_allow_empty st"
  shows "extract_all st =
    (if stream_finish st then [] else split_on (ns_sep st) (drop (ns_pos st) (ns_tokens st)))"
  using assms
proof (induction st rule: extract_all.induct)
  case (1 st)
  let ?c = "ns_sep st" and ?s = "ns_tokens st"
  let ?d = "drop (ns_pos st) ?s"
  let ?t = "takeWhile (\<lambda>x. x \<noteq> ?c) ?d"
  show ?case
  proof (cases "stream_finish st")
    case True
    then show ?thesis
      by (subst extract_all.simps) (simp add: items_extract_def)
  next
    case inside: False
    then have le: "ns_pos st \<le> length ?s"
      by (simp add: stream_finish_def)
    let ?st' = "st\<lparr>ns_pos := Suc (ns_pos st + length ?t)\<rparr>"
    have it: "items_extract st = (True, ?t, ?st')"
      using inside 1(2) le by (simp add: items_extract_def cut_token_split)
    have fin: "stream_finish ?st' \<longleftrightarrow> length ?t = length ?d"
      using le length_takeWhile_le [of "\<lambda>x. x \<noteq> ?c" ?d]
      by (auto simp: stream_finish_def)
    have dr: "drop (ns_pos ?st') ?s = drop (Suc (length ?t)) ?d"
      by (simp add: add.commute)
    have "extract_all st = ?t # extract_all ?st'"
      by (subst extract_all.simps) (simp add: it)
    also have "extract_all ?st' =
        (if length ?t = length ?d then [] else split_on ?c (drop (Suc (length ?t)) ?d))"
      using 1(1) [OF it [symmetric] refl] 1(2) fin dr by simp
    also have "?t # \<dots> = split_on ?c ?d"
      by (rule split_on_rest [symmetric])
    finally show ?thesis
      using inside by simp
  qed
qed

text \<open>The two streams of the database code, as functions of their source.\<close>

definition colon_tokens :: "string \<Rightarrow> string list" where
  "colon_tokens source = extract_all (colon_node_stream source)"

definition space_tokens :: "string \<Rightarrow> string list" where
  "space_tokens source = extract_all (space_node_stream source)"

lemma colon_tokens_eq: "colon_tokens s = filter (\<lambda>t. t \<noteq> []) (split_on CHR '':'' s)"
  by (simp add: colon_tokens_def colon_node_stream_def node_stream_def extract_all_skip
      stream_finish_def)

lemma space_tokens_eq: "space_tokens s = filter (\<lambda>t. t \<noteq> []) (split_on CHR '' '' s)"
  by (simp add: space_tokens_def space_node_stream_def node_stream_def extract_all_skip
      stream_finish_def)

lemma colon_tokens_Nil [simp]: "colon_tokens [] = []"
  by (simp add: colon_tokens_eq)

lemma colon_tokens_Cons:
  "CHR '':'' \<notin> set s \<Longrightarrow> s \<noteq> [] \<Longrightarrow> colon_tokens (s @ CHR '':'' # t) = s # colon_tokens t"
  by (simp add: colon_tokens_eq split_on_append)

lemma colon_tokens_single: "CHR '':'' \<notin> set s \<Longrightarrow> s \<noteq> [] \<Longrightarrow> colon_tokens s = [s]"
  by (simp add: colon_tokens_eq split_on_no_sep)

lemma colon_not_in_to_bin [simp]: "CHR '':'' \<notin> set (to_bin s)"
  using set_to_bin is_bit_not_special by blast

lemma slash_not_in_to_bin [simp]: "CHR ''/'' \<notin> set (to_bin s)"
  using set_to_bin is_bit_not_special by blast

lemma colon_not_in_convto_string [simp]: "CHR '':'' \<notin> set (convto_string x)"
  using set_convto_string is_digit_not_special by blast

text \<open>
  C33: Draining a node_stream, at a colon or at a space, yields exactly the non-empty pieces
  between the separators, in order.
\<close>

theorem tokens_are_pieces:
  "colon_tokens s = filter (\<lambda>t. t \<noteq> []) (split_on CHR '':'' s) \<and>
   space_tokens s = filter (\<lambda>t. t \<noteq> []) (split_on CHR '' '' s)"
  by (simp add: colon_tokens_eq space_tokens_eq)

end
