(* ===== verification/Wildcard.thy ===== *)
theory Wildcard
  imports Nodes
begin

text \<open>
  The wildcard matcher of \<open>src/daemon.cpp\<close> (\<open>MatchInternal\<close>, \<open>Daemon::Match\<close>) with its case
  tables from \<open>src/nodes.cpp\<close>.  The pointers into the two NUL-terminated texts are the suffixes
  they point at.  The matcher is shown to decide the usual meaning of \<open>*\<close> and \<open>?\<close>, to
  return on every input, and never to follow its unset restart pointers.
\<close>

section \<open>Case tables\<close>

definition ascii_case_insensitive :: "nat list" where
  "ascii_case_insensitive = [
    0, 1, 2, 3, 4, 5, 6, 7, 8, 9, 10, 11, 12, 13, 14, 15,
    16, 17, 18, 19, 20, 21, 22, 23, 24, 25, 26, 27, 28, 29, 30, 31,
    32, 33, 34, 35, 36, 37, 38, 39, 40, 41, 42, 43, 44, 45, 46, 47,
    48, 49, 50, 51, 52, 53, 54, 55, 56, 57, 58, 59, 60, 61, 62, 63,
    64, 97, 98, 99, 100, 101, 102, 103, 104, 105, 106, 107, 108, 109, 110, 111,
    112, 113, 114, 115, 116, 117, 118, 119, 120, 121, 122, 91, 92, 93, 94, 95,
    96, 97, 98, 99, 100, 101, 102, 103, 104, 105, 106, 107, 108, 109, 110, 111,
    112, 113, 114, 115, 116, 117, 118, 119, 120, 121, 122, 123, 124, 125, 126, 127,
    128, 129, 130, 131, 132, 133, 134, 135, 136, 137, 138, 139, 140, 141, 142, 143,
    144, 145, 146, 147, 148, 149, 150, 151, 152, 153, 154, 155, 156, 157, 158, 159,
    160, 161, 162, 163, 164, 165, 166, 167, 168, 169, 170, 171, 172, 173, 174, 175,
    176, 177, 178, 179, 180, 181, 182, 183, 184, 185, 186, 187, 188, 189, 190, 191,
    192, 193, 194, 195, 196, 197, 198, 199, 200, 201, 202, 203, 204, 205, 206, 207,
    208, 209, 210, 211, 212, 213, 214, 215, 216, 217, 218, 219, 220, 221, 222, 223,
    224, 225, 226, 227, 228, 229, 230, 231, 232, 233, 234, 235, 236, 237, 238, 239,
    240, 241, 242, 243, 244, 245, 246, 247, 248, 249, 250, 251, 252, 253, 254, 255]"

definition brld_case_insensitive_map :: "nat list" where
  "brld_case_insensitive_map = [
    0, 1, 2, 3, 4, 5, 6, 7, 8, 9, 10, 11, 12, 13, 14, 15,
    16, 17, 18, 19, 20, 21, 22, 23, 24, 25, 26, 27, 28, 29, 30, 31,
    32, 33, 34, 35, 36, 37, 38, 39, 40, 41, 42, 43, 44, 45, 46, 47,
    48, 49, 50, 51, 52, 53, 54, 55, 56, 57, 58, 59, 60, 61, 62, 63,
    64, 97, 98, 99, 100, 101, 102, 103, 104, 105, 106, 107, 108, 109, 110, 111,
    112, 113, 114, 115, 116, 117, 118, 119, 120, 121, 122, 123, 124, 125, 94, 95,
    96, 97, 98, 99, 100, 101, 102, 103, 104, 105, 106, 107, 108, 109, 110, 111,
    112, 113, 114, 115, 116, 117, 118, 119, 120, 121, 122, 123, 124, 125, 126, 127,
    128, 129, 130, 131, 132, 133, 134, 135, 136, 137, 138, 139, 140, 141, 142, 143,
    144, 145, 146, 147, 148, 149, 150, 151, 152, 153, 154, 155, 156, 157, 158, 159,
    160, 161, 162, 163, 164, 165, 166, 167, 168, 169, 170, 171, 172, 173, 174, 175,
    176, 177, 178, 179, 180, 181, 182, 183, 184, 185, 186, 187, 188, 189, 190, 191,
    192, 193, 194, 195, 196, 197, 198, 199, 200, 201, 202, 203, 204, 205, 206, 207,
    208, 209, 210, 211, 212, 213, 214, 215, 216, 217, 218, 219, 220, 221, 222, 223,
    224, 225, 226, 227, 228, 229, 230, 231, 232, 233, 234, 235, 236, 237, 238, 239,
    240, 241, 242, 243, 244, 245, 246, 247, 248, 249, 250, 251, 252, 253, 254, 255]"

definition locale_case_insensitive_map :: "nat list" where
  "locale_case_insensitive_map = brld_case_insensitive_map"

definition fold_char :: "nat list \<Rightarrow> char \<Rightarrow> nat" where
  "fold_char tab c = tab ! of_char c"

text \<open>\<open>*p\<close> for a pointer into a NUL-terminated text.\<close>

definition deref :: "string \<Rightarrow> char" where
  "deref p = (case p of [] \<Rightarrow> CHR 0x00 | c # _ \<Rightarrow> c)"

section \<open>The matcher\<close>

text \<open>The loop up to the first \<open>*\<close> of the mask; \<open>None\<close> when it returns 0.\<close>

fun match_head :: "nat list \<Rightarrow> string \<Rightarrow> string \<Rightarrow> (string \<times> string) option" where
  "match_head tab [] wildcard = Some ([], wildcard)"
| "match_head tab (c # base) wildcard =
     (if deref wildcard = CHR ''*'' then Some (c # base, wildcard)
      else if fold_char tab (deref wildcard) \<noteq> fold_char tab c \<and> deref wildcard \<noteq> CHR ''?''
      then None
      else match_head tab base (tl wildcard))"

text \<open>
  The backtracking loop.  \<open>saved\<close> holds \<open>mp\<close> and \<open>cp\<close>, which are null before the first \<open>*\<close>.
\<close>

datatype loop_end = Return_true | Finished string | Null_pointer

definition stars :: "string \<Rightarrow> nat" where
  "stars s = length (filter (\<lambda>c. c = CHR ''*'') s)"

lemma stars_tl: "stars (tl w) \<le> stars w"
  by (cases w) (auto simp: stars_def)

lemma stars_tl_less: "deref w = CHR ''*'' \<Longrightarrow> stars (tl w) < stars w"
  by (cases w) (auto simp: stars_def deref_def)

function match_loop :: "nat list \<Rightarrow> string \<Rightarrow> string \<Rightarrow> (string \<times> string) option \<Rightarrow> loop_end" where
  "match_loop tab base wildcard saved =
     (if base = [] then Finished wildcard
      else if deref wildcard = CHR ''*'' then
        (if tl wildcard = [] then Return_true
         else match_loop tab base (tl wildcard) (Some (tl wildcard, tl base)))
      else if fold_char tab (deref wildcard) = fold_char tab (hd base) \<or> deref wildcard = CHR ''?''
      then match_loop tab (tl base) (tl wildcard) saved
      else (case saved of
              None \<Rightarrow> Null_pointer
            | Some (mp, cp) \<Rightarrow> match_loop tab cp mp (Some (mp, tl cp))))"
  by pat_completeness auto

termination
proof (relation "measures
    [\<lambda>(tab, base, w, saved). max (stars w) (case saved of None \<Rightarrow> 0 | Some (mp, cp) \<Rightarrow> stars mp),
     \<lambda>(tab, base, w, saved). case saved of None \<Rightarrow> 0 | Some (mp, cp) \<Rightarrow> length cp,
     \<lambda>(tab, base, w, saved). length base]", goal_cases)
  case 1
  show ?case by simp
next
  case (2 tab base w saved)
  then show ?case
    using stars_tl_less [of w] by (simp add: less_max_iff_disj)
next
  case (3 tab base w saved)
  then have "length (tl base) < length base" by simp
  with stars_tl [of w] show ?case
    by (cases saved) (auto simp: max_def)
next
  case (4 tab base w saved x mp cp)
  then show ?case
    by (cases cp) (auto simp: max_def)
qed

declare match_loop.simps [simp del]

definition MatchInternal :: "nat list \<Rightarrow> string \<Rightarrow> string \<Rightarrow> bool res" where
  "MatchInternal tab str msk =
     (case match_head tab str msk of
        None \<Rightarrow> Inr False
      | Some (base, wildcard) \<Rightarrow>
          (case match_loop tab base wildcard None of
             Return_true \<Rightarrow> Inr True
           | Finished w \<Rightarrow> Inr (dropWhile (\<lambda>c. c = CHR ''*'') w = [])
           | Null_pointer \<Rightarrow> Inl Undefined_behaviour))"

text \<open>\<open>c_str()\<close>: the text as its C readers see it, up to the first NUL.\<close>

definition c_str :: "string \<Rightarrow> string" where
  "c_str s = takeWhile (\<lambda>c. c \<noteq> CHR 0x00) s"

definition Match :: "string \<Rightarrow> string \<Rightarrow> bool" where
  "Match str msk \<longleftrightarrow>
     MatchInternal locale_case_insensitive_map (c_str str) (c_str msk) = Inr True"

section \<open>What a mask means\<close>

definition char_ok :: "nat list \<Rightarrow> char \<Rightarrow> char \<Rightarrow> bool" where
  "char_ok tab m c \<longleftrightarrow> fold_char tab m = fold_char tab c \<or> m = CHR ''?''"

inductive wild :: "nat list \<Rightarrow> string \<Rightarrow> string \<Rightarrow> bool" for tab where
  wild_end: "wild tab [] []"
| wild_char: "char_ok tab m c \<Longrightarrow> m \<noteq> CHR ''*'' \<Longrightarrow> wild tab ms cs \<Longrightarrow>
    wild tab (m # ms) (c # cs)"
| wild_star: "wild tab ms cs \<Longrightarrow> wild tab (CHR ''*'' # ms) (us @ cs)"

inductive_cases wild_ConsE: "wild tab (m # ms) s"
inductive_simps wild_Nil_iff [simp]: "wild tab [] s"

lemma wild_Cons_iff:
  "m \<noteq> CHR ''*'' \<Longrightarrow>
   wild tab (m # ms) s \<longleftrightarrow> s \<noteq> [] \<and> char_ok tab m (hd s) \<and> wild tab ms (tl s)"
  by (cases s) (auto intro: wild_char elim: wild_ConsE)

definition star_wild :: "nat list \<Rightarrow> string \<Rightarrow> string \<Rightarrow> bool" where
  "star_wild tab ms s \<longleftrightarrow> (\<exists>k\<le>length s. wild tab ms (drop k s))"

lemma star_wildI: "k \<le> length s \<Longrightarrow> wild tab ms (drop k s) \<Longrightarrow> star_wild tab ms s"
  by (auto simp: star_wild_def)

lemma wild_star_iff: "wild tab (CHR ''*'' # ms) s \<longleftrightarrow> star_wild tab ms s"
proof
  assume "wild tab (CHR ''*'' # ms) s"
  then show "star_wild tab ms s"
    by (auto elim!: wild_ConsE intro: star_wildI [of "length us" "us @ cs" for us cs])
next
  assume "star_wild tab ms s"
  then obtain k where "wild tab ms (drop k s)"
    by (auto simp: star_wild_def)
  from wild_star [OF this, of "take k s"] show "wild tab (CHR ''*'' # ms) s"
    by simp
qed

lemma star_wild_step: "star_wild tab ms s \<longleftrightarrow> wild tab ms s \<or> s \<noteq> [] \<and> star_wild tab ms (tl s)"
proof
  assume "star_wild tab ms s"
  then obtain k where k: "k \<le> length s" "wild tab ms (drop k s)"
    by (auto simp: star_wild_def)
  show "wild tab ms s \<or> s \<noteq> [] \<and> star_wild tab ms (tl s)"
  proof (cases k)
    case (Suc j)
    then have "star_wild tab ms (tl s)"
      using k by (intro star_wildI [of j]) (auto simp: drop_Suc)
    with k Suc show ?thesis by auto
  qed (use k in auto)
next
  assume "wild tab ms s \<or> s \<noteq> [] \<and> star_wild tab ms (tl s)"
  then show "star_wild tab ms s"
  proof
    assume "wild tab ms s"
    then show ?thesis by (intro star_wildI [of 0]) auto
  next
    assume "s \<noteq> [] \<and> star_wild tab ms (tl s)"
    then obtain k where "s \<noteq> []" "k \<le> length (tl s)" "wild tab ms (drop k (tl s))"
      by (auto simp: star_wild_def)
    then show ?thesis by (intro star_wildI [of "Suc k"]) (cases s, auto simp: drop_Suc)+
  qed
qed

lemma star_wild_drop: "star_wild tab ms (drop k s) \<Longrightarrow> star_wild tab ms s"
proof (induction k arbitrary: s)
  case (Suc k)
  then have "star_wild tab ms (tl s)"
    by (simp add: drop_Suc)
  with Suc.prems show ?case
    by (cases s) (simp_all add: star_wild_step [of tab ms "x # xs" for x xs])
qed simp

lemma wild_only_stars: "wild tab w [] \<longleftrightarrow> dropWhile (\<lambda>c. c = CHR ''*'') w = []"
proof (induction w)
  case (Cons m w)
  then show ?case
    by (cases "m = CHR ''*''") (simp_all add: wild_Cons_iff wild_star_iff star_wild_def)
qed simp

text \<open>A star-free prefix of the mask consumes exactly its own length.\<close>

lemma wild_prefix:
  "CHR ''*'' \<notin> set u \<Longrightarrow>
   wild tab (u @ w) s \<longleftrightarrow>
     length u \<le> length s \<and> list_all2 (char_ok tab) u (take (length u) s) \<and> wild tab w (drop (length u) s)"
proof (induction u arbitrary: s)
  case (Cons m u)
  then have m: "m \<noteq> CHR ''*''" and IH: "\<And>s. wild tab (u @ w) s \<longleftrightarrow>
     length u \<le> length s \<and> list_all2 (char_ok tab) u (take (length u) s) \<and> wild tab w (drop (length u) s)"
    by auto
  from m show ?case
    by (cases s) (simp_all add: wild_Cons_iff IH conj_ac)
qed simp

section \<open>The matcher decides it\<close>

definition loop_value :: "loop_end \<Rightarrow> bool res" where
  "loop_value r =
     (case r of
        Return_true \<Rightarrow> Inr True
      | Finished w \<Rightarrow> Inr (dropWhile (\<lambda>c. c = CHR ''*'') w = [])
      | Null_pointer \<Rightarrow> Inl Undefined_behaviour)"

lemma MatchInternal_alt:
  "MatchInternal tab str msk =
     (case match_head tab str msk of
        None \<Rightarrow> Inr False
      | Some (base, wildcard) \<Rightarrow> loop_value (match_loop tab base wildcard None))"
  unfolding MatchInternal_def loop_value_def by (rule refl)

text \<open>A table under which no character is confused with the terminator.\<close>

definition nul_apart :: "nat list \<Rightarrow> bool" where
  "nul_apart tab \<longleftrightarrow> (\<forall>c. c \<noteq> CHR 0x00 \<longrightarrow> fold_char tab CHR 0x00 \<noteq> fold_char tab c)"

text \<open>
  The restart invariant: \<open>u\<close> is the part of the mask after the last \<open>*\<close> that has been matched
  against the front of \<open>b0\<close>, and \<open>cp\<close> is one past the start of \<open>b0\<close>.
\<close>

lemma match_loop_restart:
  assumes "nul_apart tab" "CHR 0x00 \<notin> set b0" "CHR 0x00 \<notin> set (u @ w)"
    and "CHR ''*'' \<notin> set u" "length u \<le> length b0"
    and "list_all2 (char_ok tab) u (take (length u) b0)"
    and "base = drop (length u) b0" "saved = Some (u @ w, tl b0)"
  shows "loop_value (match_loop tab base w saved) = Inr (star_wild tab (u @ w) b0)"
  using assms
proof (induction tab base w saved arbitrary: u b0 rule: match_loop.induct)
  case (1 tab base w saved)
  note prems = 1(4-11)
  have here: "wild tab (u @ w) b0 \<longleftrightarrow> wild tab w base"
    using prems by (simp add: wild_prefix)
  show ?case
  proof (cases "base = []")
    case True
    then have "length b0 = length u"
      using prems(5,7) by simp
    then have "star_wild tab (u @ w) b0 \<longleftrightarrow> wild tab (u @ w) b0"
      using prems(4) by (auto simp: star_wild_def wild_prefix intro: exI [of _ 0])
        (metis diff_diff_cancel diff_is_0_eq' drop0 le_antisym length_drop diff_le_self)
    with here True show ?thesis
      by (simp add: match_loop.simps loop_value_def wild_only_stars)
  next
    case base: False
    show ?thesis
    proof (cases "deref w = CHR ''*''")
      case star: True
      then obtain w' where w: "w = CHR ''*'' # w'"
        by (cases w) (auto simp: deref_def)
      have sw: "star_wild tab (u @ w) b0 \<longleftrightarrow> star_wild tab w' base"
      proof
        assume "star_wild tab (u @ w) b0"
        then obtain k where "wild tab (u @ w) (drop k b0)"
          by (auto simp: star_wild_def)
        then have "star_wild tab w' (drop k (drop (length u) b0))"
          using prems(4) by (simp add: wild_prefix w wild_star_iff add.commute)
        then show "star_wild tab w' base"
          using prems(7) star_wild_drop by blast
      next
        assume "star_wild tab w' base"
        then have "wild tab (u @ w) b0"
          using here by (simp add: w wild_star_iff)
        then show "star_wild tab (u @ w) b0"
          by (subst star_wild_step) simp
      qed
      show ?thesis
      proof (cases "w' = []")
        case True
        have "star_wild tab [] base"
          by (rule star_wildI [of "length base"]) auto
        with True sw star base show ?thesis
          by (simp add: match_loop.simps [of tab base "''*''"] loop_value_def w)
      next
        case False
        have nul: "CHR 0x00 \<notin> set base" "CHR 0x00 \<notin> set ([] @ tl w)"
          by (metis prems(2,7) in_set_dropD) (use prems(3) in \<open>simp add: w\<close>)
        have "tl w \<noteq> []"
          using False w by simp
        from 1(1) [OF base star this prems(1) nul]
        have "loop_value (match_loop tab base (tl w) (Some (tl w, tl base))) = Inr (star_wild tab w' base)"
          by (simp add: w)
        with False sw star base w show ?thesis
          by (simp add: match_loop.simps [of tab base "CHR ''*'' # w'"])
      qed
    next
      case nostar: False
      obtain c base' where b: "base = c # base'"
        using base by (cases base) auto
      show ?thesis
      proof (cases "fold_char tab (deref w) = fold_char tab (hd base) \<or> deref w = CHR ''?''")
        case hit: True
        have "c \<noteq> CHR 0x00"
          using prems(2,7) b by (metis in_set_dropD list.set_intros(1))
        have "w \<noteq> []"
        proof
          assume "w = []"
          then have "fold_char tab CHR 0x00 = fold_char tab c"
            using hit b by (simp add: deref_def)
          with prems(1) \<open>c \<noteq> CHR 0x00\<close> show False
            unfolding nul_apart_def by blast
        qed
        then obtain m w' where w: "w = m # w'"
          by (cases w) auto
        have len: "length u < length b0"
          using b prems(7) by (metis drop_all leI list.distinct(1))
        then have "take (Suc (length u)) b0 = take (length u) b0 @ [c]"
          using b prems(7) by (simp add: take_Suc_conv_app_nth flip: hd_drop_conv_nth)
        moreover have "drop (Suc (length u)) b0 = base'" "tl (drop (length u) b0) = base'"
          using b prems(7) by (metis drop_Suc list.sel(3) tl_drop)+
        moreover have "char_ok tab m c"
          using hit w b by (simp add: char_ok_def deref_def)
        ultimately have "loop_value (match_loop tab (tl base) (tl w) saved)
            = Inr (star_wild tab ((u @ [m]) @ w') b0)"
          using 1(2) [OF base nostar hit, of b0 "u @ [m]"] prems len nostar w b
          by (simp add: deref_def list_all2_appendI del: tl_drop)
        then show ?thesis
          using base nostar hit w by (simp add: match_loop.simps [of tab base "m # w'"])
      next
        case miss: False
        have "\<not> wild tab w base"
          using miss nostar b by (cases w) (auto simp: deref_def wild_Cons_iff char_ok_def)
        then have "star_wild tab (u @ w) b0 \<longleftrightarrow> star_wild tab (u @ w) (tl b0)"
          using here b prems(7) by (subst star_wild_step) auto
        moreover have "loop_value (match_loop tab (tl b0) (u @ w) (Some (u @ w, tl (tl b0))))
            = Inr (star_wild tab (u @ w) (tl b0))"
          using 1(3) [OF base nostar miss prems(8) refl, of "tl b0" "[]"] prems
          by (cases b0) auto
        ultimately show ?thesis
          using base nostar miss prems(8) by (simp add: match_loop.simps [of tab base w])
      qed
    qed
  qed
qed

lemma match_head_eq:
  assumes "nul_apart tab" "CHR 0x00 \<notin> set str" "CHR 0x00 \<notin> set msk"
  shows "MatchInternal tab str msk = Inr (wild tab msk str)"
  using assms
proof (induction tab str msk rule: match_head.induct)
  case (1 tab w)
  then show ?case
    by (simp add: MatchInternal_alt match_loop.simps loop_value_def wild_only_stars)
next
  case (2 tab c base w)
  have c: "c \<noteq> CHR 0x00"
    using 2 by auto
  show ?case
  proof (cases "deref w = CHR ''*''")
    case True
    then obtain w' where w: "w = CHR ''*'' # w'"
      by (cases w) (auto simp: deref_def)
    have "loop_value (match_loop tab (c # base) w None) = Inr (wild tab w (c # base))"
    proof (cases "w' = []")
      case True
      have "star_wild tab [] (c # base)"
        by (rule star_wildI [of "length (c # base)"]) auto
      then show ?thesis
        by (simp add: match_loop.simps loop_value_def wild_star_iff w True deref_def)
    next
      case False
      have "loop_value (match_loop tab (c # base) w' (Some (w', base))) = Inr (star_wild tab w' (c # base))"
        using match_loop_restart [of tab "c # base" "[]" w' "c # base" "Some (w', base)"]
          2(2-4) w by simp
      with False show ?thesis
        by (simp add: match_loop.simps [of tab "c # base" "_ # _"] wild_star_iff w deref_def)
    qed
    with True show ?thesis
      by (simp add: MatchInternal_alt)
  next
    case False
    show ?thesis
    proof (cases w)
      case Nil
      then show ?thesis
        using False c 2(2) by (simp add: MatchInternal_alt deref_def nul_apart_def)
    next
      case (Cons m w')
      with False 2 show ?thesis
        by (auto simp: MatchInternal_alt deref_def wild_Cons_iff char_ok_def)
    qed
  qed
qed


lemma length_tables [simp]:
  "length ascii_case_insensitive = 256" "length brld_case_insensitive_map = 256"
  by (simp_all add: ascii_case_insensitive_def brld_case_insensitive_map_def)

lemma of_char_pos: "c \<noteq> CHR 0x00 \<Longrightarrow> 0 < (of_char c :: nat)"
proof (rule ccontr)
  assume "c \<noteq> CHR 0x00" "\<not> 0 < (of_char c :: nat)"
  then have "of_char c = (of_char (CHR 0x00) :: nat)"
    by simp
  with \<open>c \<noteq> CHR 0x00\<close> show False by (simp only: of_char_eq_iff)
qed

lemma nul_apartI:
  assumes "length tab = 256" "tab ! 0 = 0" "0 \<notin> set (tl tab)"
  shows "nul_apart tab"
proof -
  have "fold_char tab c \<noteq> 0" if "c \<noteq> CHR 0x00" for c
  proof -
    have pos: "0 < (of_char c :: nat)" using that by (rule of_char_pos)
    moreover have "(of_char c :: nat) < 256" by simp
    ultimately have "of_char c - 1 < length (tl tab)"
      using assms(1) by (simp only: length_tl)
    moreover from this have "tl tab ! (of_char c - 1) \<in> set (tl tab)"
      by (rule nth_mem)
    ultimately have "fold_char tab c \<in> set (tl tab)"
      using pos by (simp add: fold_char_def nth_tl)
    with assms(3) show ?thesis by metis
  qed
  moreover have "fold_char tab CHR 0x00 = 0"
    using assms(2) by (simp add: fold_char_def of_char_def)
  ultimately show ?thesis by (simp add: nul_apart_def)
qed

lemma nul_apart_tables:
  "nul_apart ascii_case_insensitive" "nul_apart brld_case_insensitive_map"
  "nul_apart locale_case_insensitive_map"
  by (auto intro!: nul_apartI simp: locale_case_insensitive_map_def)
    (simp_all add: ascii_case_insensitive_def brld_case_insensitive_map_def)

lemma c_str_no_nul [simp]: "CHR 0x00 \<notin> set (c_str s)"
  by (auto simp: c_str_def dest: set_takeWhileD)

lemma c_str_id: "CHR 0x00 \<notin> set s \<Longrightarrow> c_str s = s"
  by (auto simp: c_str_def takeWhile_eq_all_conv)

text \<open>
  C15: For every text and every mask, whatever their bytes, Daemon::Match returns, never follows
  its unset restart pointers, and answers true exactly when the text is in the language of the
  mask, where a question mark stands for one character, a star for any number of them and every
  other character for itself up to the case table.
\<close>

theorem Match_decides_wild:
  "MatchInternal locale_case_insensitive_map (c_str str) (c_str msk) =
     Inr (wild locale_case_insensitive_map (c_str msk) (c_str str))
   \<and> Match str msk = wild locale_case_insensitive_map (c_str msk) (c_str str)"
  by (simp add: Match_def match_head_eq nul_apart_tables)

end
