(* ===== verification/Handler_Base.thy ===== *)
theory Handler_Base
  imports Wildcard
begin

text \<open>
  What the four container handlers of \<open>src/brldb/*_handler.cpp\<close> share: their message code,
  \<open>std::map\<close> and \<open>std::multimap\<close> as key-ordered lists, and the contract between the text a
  handler writes and the one it loads, which the queries rely on.
\<close>

datatype HANDLER_MSG = HANDLER_MSG_NOT_FOUND | HANDLER_MSG_OK | HANDLER_MSG_INVALID

text \<open>\<open>LastMsg\<close> is not set by the constructors; \<open>None\<close> is the indeterminate value.\<close>

type_synonym last_msg = "HANDLER_MSG option"

definition GetLast :: "last_msg \<Rightarrow> HANDLER_MSG res" where
  "GetLast m = (case m of None \<Rightarrow> Inl Undefined_behaviour | Some x \<Rightarrow> Inr x)"

section \<open>Ordered containers of the standard library\<close>

definition map_insert :: "'k::linorder \<Rightarrow> 'v \<Rightarrow> ('k \<times> 'v) list \<Rightarrow> ('k \<times> 'v) list" where
  "map_insert k v m =
     (if k \<in> fst ` set m then m
      else takeWhile (\<lambda>p. fst p < k) m @ (k, v) # dropWhile (\<lambda>p. fst p < k) m)"

definition multimap_insert :: "'k::linorder \<Rightarrow> 'v \<Rightarrow> ('k \<times> 'v) list \<Rightarrow> ('k \<times> 'v) list" where
  "multimap_insert k v m =
     takeWhile (\<lambda>p. fst p \<le> k) m @ (k, v) # dropWhile (\<lambda>p. fst p \<le> k) m"

definition erase_key :: "'k \<Rightarrow> ('k \<times> 'v) list \<Rightarrow> ('k \<times> 'v) list" where
  "erase_key k m = filter (\<lambda>p. fst p \<noteq> k) m"

abbreviation keys_sorted :: "('k::linorder \<times> 'v) list \<Rightarrow> bool" where
  "keys_sorted m \<equiv> sorted (map fst m)"

abbreviation keys_strict :: "('k::linorder \<times> 'v) list \<Rightarrow> bool" where
  "keys_strict m \<equiv> sorted_wrt (<) (map fst m)"

lemma takeWhile_dropWhile_less:
  "sorted (map fst m) \<Longrightarrow> p \<in> set (dropWhile (\<lambda>p. fst p < k) m) \<Longrightarrow> k \<le> fst p"
  by (induction m) (auto split: if_splits)

lemma dropWhile_le_greater:
  "sorted (map fst m) \<Longrightarrow> p \<in> set (dropWhile (\<lambda>p. fst p \<le> k) m) \<Longrightarrow> k < fst p"
  by (induction m) (auto split: if_splits)

lemma set_map_insert:
  "set (map_insert k v m) = (if k \<in> fst ` set m then set m else insert (k, v) (set m))"
  using set_takeWhile_dropWhile [of "\<lambda>p. fst p < k" m] by (auto simp: map_insert_def)

lemma set_multimap_insert: "set (multimap_insert k v m) = insert (k, v) (set m)"
  using set_takeWhile_dropWhile [of "\<lambda>p. fst p \<le> k" m] by (auto simp: multimap_insert_def)

lemma keys_sorted_multimap_insert:
  assumes "keys_sorted m" shows "keys_sorted (multimap_insert k v m)"
proof -
  let ?a = "takeWhile (\<lambda>p. fst p \<le> k) m" and ?b = "dropWhile (\<lambda>p. fst p \<le> k) m"
  have "keys_sorted (?a @ ?b)" using assms by simp
  then have "keys_sorted ?a" "keys_sorted ?b"
    by (metis map_append sorted_append)+
  moreover have "\<forall>p\<in>set ?a. fst p \<le> k" "\<forall>p\<in>set ?b. k < fst p"
    using assms by (auto dest: set_takeWhileD dropWhile_le_greater)
  ultimately show ?thesis
    unfolding multimap_insert_def by (fastforce simp: sorted_append)
qed

lemma keys_strict_map_insert:
  assumes "keys_strict m" shows "keys_strict (map_insert k v m)"
proof (cases "k \<in> fst ` set m")
  case False
  let ?a = "takeWhile (\<lambda>p. fst p < k) m" and ?b = "dropWhile (\<lambda>p. fst p < k) m"
  have "keys_strict (?a @ ?b)" using assms by simp
  then have "keys_strict ?a" "keys_strict ?b" "\<forall>p\<in>set ?a. \<forall>q\<in>set ?b. fst p < fst q"
    unfolding map_append sorted_wrt_append by auto
  moreover have "\<forall>p\<in>set ?b. k < fst p"
    using assms False takeWhile_dropWhile_less [of m _ k]
    by (force simp: strict_sorted_iff le_less dest: set_dropWhileD)
  moreover have "\<forall>p\<in>set ?a. fst p < k"
    by (auto dest: set_takeWhileD)
  ultimately show ?thesis
    using False by (auto simp: map_insert_def sorted_wrt_append)
qed (use assms in \<open>simp add: map_insert_def\<close>)

lemma keys_strict_erase [simp]: "keys_strict m \<Longrightarrow> keys_strict (erase_key k m)"
  by (simp add: erase_key_def sorted_wrt_map sorted_wrt_filter)

lemma keys_sorted_erase [simp]: "keys_sorted m \<Longrightarrow> keys_sorted (erase_key k m)"
  by (simp add: erase_key_def sorted_filter)

lemma erase_key_set [simp]: "set (erase_key k m) = {p \<in> set m. fst p \<noteq> k}"
  by (auto simp: erase_key_def)

lemma map_insert_last:
  "\<forall>p\<in>set m. fst p < k \<Longrightarrow> map_insert k v m = m @ [(k, v)]"
  by (auto simp: map_insert_def takeWhile_eq_all_conv [THEN iffD2] dropWhile_eq_Nil_conv [THEN iffD2])

lemma multimap_insert_last:
  "\<forall>p\<in>set m. fst p \<le> k \<Longrightarrow> multimap_insert k v m = m @ [(k, v)]"
  by (simp add: multimap_insert_def takeWhile_eq_all_conv [THEN iffD2] dropWhile_eq_Nil_conv [THEN iffD2])

text \<open>The entries of one key, in their order.\<close>

definition entries :: "'k \<Rightarrow> ('k \<times> 'v) list \<Rightarrow> 'v list" where
  "entries k m = map snd (filter (\<lambda>p. fst p = k) m)"

lemma entries_multimap_insert:
  assumes "keys_sorted m"
  shows "entries j (multimap_insert k v m) = entries j m @ (if j = k then [v] else [])"
proof -
  let ?a = "takeWhile (\<lambda>p. fst p \<le> k) m" and ?b = "dropWhile (\<lambda>p. fst p \<le> k) m"
  have "entries j m = entries j ?a @ entries j ?b"
    unfolding entries_def by (metis filter_append map_append takeWhile_dropWhile_id)
  moreover have "entries k ?b = []"
    using dropWhile_le_greater [OF assms] by (force simp: entries_def filter_empty_conv)
  ultimately show ?thesis
    by (simp add: multimap_insert_def entries_def)
qed

lemma map_of_map_insert:
  "map_of (map_insert k v m) j = (if j = k \<and> k \<notin> fst ` set m then Some v else map_of m j)"
proof (cases "k \<in> fst ` set m")
  case False
  have "map_of (a @ (k, v) # b) j = (if j = k then Some v else map_of (a @ b) j)"
    if "k \<notin> fst ` set a" for a b
    using that by (auto simp: map_add_def map_of_eq_None_iff [symmetric] split: option.splits)
  note split = this [of "takeWhile (\<lambda>p. fst p < k) m" "dropWhile (\<lambda>p. fst p < k) m"]
  have "k \<notin> fst ` set (takeWhile (\<lambda>p. fst p < k) m)"
    by (auto dest: set_takeWhileD)
  from split [OF this] False show ?thesis
    unfolding map_insert_def takeWhile_dropWhile_id by simp
qed (simp add: map_insert_def)

lemma map_of_erase_key: "map_of (erase_key k m) j = (if j = k then None else map_of m j)"
  by (induction m) (auto simp: erase_key_def)

section \<open>The text contract of the handlers\<close>

text \<open>
  A query loads a handler from the stored text, works on it and stores its text again.
\<close>

definition stored_op :: "(string \<Rightarrow> 'h) \<Rightarrow> ('h \<Rightarrow> string) \<Rightarrow> ('h \<Rightarrow> 'h) \<Rightarrow> string \<Rightarrow> string" where
  "stored_op load save f s = save (f (load s))"

locale handler_codec =
  fixes load :: "string \<Rightarrow> 'h"
    and save :: "'h \<Rightarrow> string"
    and content :: "'h \<Rightarrow> 'c"
    and wf :: "'h \<Rightarrow> bool"
  assumes wf_load: "wf (load s)"
    and load_save: "wf h \<Longrightarrow> content (load (save h)) = content h"
    and save_cong: "content h = content h' \<Longrightarrow> save h = save h'"
begin

lemma save_load_save: "wf h \<Longrightarrow> save (load (save h)) = save h"
  by (rule save_cong) (rule load_save)

lemma save_inject: "wf h \<Longrightarrow> wf h' \<Longrightarrow> save h = save h' \<longleftrightarrow> content h = content h'"
  by (metis load_save save_cong)

text \<open>
  A history of queries on the stored text is the history of their operations on the container,
  as long as each operation keeps the container well formed and looks only at its content.
\<close>

lemma stored_history:
  assumes "\<And>f h. f \<in> set fs \<Longrightarrow> wf h \<Longrightarrow> wf (f h)"
    and "\<And>f h h'. f \<in> set fs \<Longrightarrow> content h = content h' \<Longrightarrow> content (f h) = content (f h')"
    and "wf h" "content (load s) = content h"
  shows "content (load (fold (stored_op load save) fs s)) = content (fold (\<lambda>f. f) fs h)"
  using assms
proof (induction fs arbitrary: s h)
  case (Cons f fs)
  have "content (load (stored_op load save f s)) = content (f (load s))"
    using Cons.prems(1) wf_load by (auto simp: stored_op_def intro: load_save)
  also have "\<dots> = content (f h)"
    by (rule Cons.prems(2)) (auto intro: Cons.prems(4))
  finally have "content (load (fold (stored_op load save) fs (stored_op load save f s)))
      = content (fold (\<lambda>f. f) fs (f h))"
    by (intro Cons.IH) (auto intro: Cons.prems(1,3) Cons.prems(2))
  then show ?case
    by (simp only: fold_simps o_apply)
qed simp

end

end
