(* ===== verification/Timers.thy ===== *)
theory Timers
  imports Handler_Base
begin

text \<open>
  \<open>src/brldb/expires.cpp\<close> and \<open>src/brldb/futures.cpp\<close>: the two registries of pending timers,
  \<open>std::multimap<time_t, Entry>\<close> kept as lists ordered by time.  A database is a handle
  (the identity its \<open>shared_ptr\<close> compares by), \<open>DBM->Find\<close> is an argument, and a query that is
  pushed is the \<open>request\<close> it carries.  Both registries are shown to meet one contract: a lookup
  answers what the last call for that timer said.
\<close>

type_synonym db = nat

text \<open>\<open>time_t\<close> and \<open>int\<close> values are integers; \<open>to_signed\<close> is the conversion to \<open>signed int\<close>.\<close>

definition to_signed :: "int \<Rightarrow> int" where
  "to_signed t = signed_take_bit 31 t"

lemma to_signed_id: "0 \<le> t \<Longrightarrow> t < 2 ^ 31 \<Longrightarrow> to_signed t = t"
  by (simp add: to_signed_def signed_take_bit_int_eq_self)

text \<open>The queries the registries push (\<open>GlobalHelper\<close>, \<open>ExpireHelper\<close>).\<close>

datatype request =
    Push_del db u32 string
  | Push_expire_del db u32 string
  | Push_future_exec db u32 string
  | Push_future_del db u32 string

section \<open>The loops over a registry\<close>

primrec timer_find :: "('e \<Rightarrow> bool) \<Rightarrow> (int \<times> 'e) list \<Rightarrow> (int \<times> 'e) option" where
  "timer_find P [] = None"
| "timer_find P (it # its) = (if P (snd it) then Some it else timer_find P its)"

primrec timer_erase :: "('e \<Rightarrow> bool) \<Rightarrow> (int \<times> 'e) list \<Rightarrow> (int \<times> 'e) list option" where
  "timer_erase P [] = None"
| "timer_erase P (it # its) =
     (if P (snd it) then Some its else map_option ((#) it) (timer_erase P its))"

section \<open>Expires\<close>

record ExpireEntry =
  e_schedule :: int
  e_added :: int
  e_epoch :: bool
  e_secs :: u32
  e_select :: u32
  e_key :: string
  e_database :: db

type_synonym ExpireMap = "(int \<times> ExpireEntry) list"

definition expire_is :: "db \<Rightarrow> string \<Rightarrow> u32 \<Rightarrow> ExpireEntry \<Rightarrow> bool" where
  "expire_is d key select e \<longleftrightarrow> e_key e = key \<and> e_select e = select \<and> e_database e = d"

definition ExpireManager_Delete :: "db \<Rightarrow> string \<Rightarrow> u32 \<Rightarrow> ExpireMap \<Rightarrow> bool \<times> ExpireMap" where
  "ExpireManager_Delete d key select m =
     (if m = [] then (False, m)
      else (case timer_erase (expire_is d key select) m of
              Some m' \<Rightarrow> (True, m') | None \<Rightarrow> (False, m)))"

definition ExpireManager_GetTIME :: "db \<Rightarrow> string \<Rightarrow> u32 \<Rightarrow> ExpireMap \<Rightarrow> int" where
  "ExpireManager_GetTIME d key select m =
     (case timer_find (expire_is d key select) m of Some it \<Rightarrow> to_signed (fst it) | None \<Rightarrow> - 1)"

definition ExpireManager_Add ::
  "int \<Rightarrow> db \<Rightarrow> int \<Rightarrow> string \<Rightarrow> u32 \<Rightarrow> bool \<Rightarrow> ExpireMap \<Rightarrow> int \<times> ExpireMap" where
  "ExpireManager_Add now d schedule key select epoch m =
     (if schedule < 0 then (- 1, m)
      else
        (let m1 = (if ExpireManager_GetTIME d key select m > 0
                   then snd (ExpireManager_Delete d key select m) else m);
             sched = (if epoch then schedule else now + schedule);
             New = \<lparr>e_schedule = sched, e_added = now, e_epoch = epoch, e_secs = of_int schedule,
                    e_select = select, e_key = key, e_database = d\<rparr>
         in (to_signed sched, multimap_insert sched New m1)))"

text \<open>\<open>Find\<close> throws when there is no such entry: \<open>None\<close>.\<close>

definition ExpireManager_Find :: "db \<Rightarrow> string \<Rightarrow> u32 \<Rightarrow> ExpireMap \<Rightarrow> ExpireEntry option" where
  "ExpireManager_Find d key select m = map_option snd (timer_find (expire_is d key select) m)"

primrec expire_flush_loop :: "int \<Rightarrow> ExpireMap \<Rightarrow> request list" where
  "expire_flush_loop TIME [] = []"
| "expire_flush_loop TIME (it # its) =
     (if fst it \<ge> TIME then []
      else Push_del (e_database (snd it)) (e_select (snd it)) (e_key (snd it))
             # expire_flush_loop TIME its)"

definition ExpireManager_Flush :: "int \<Rightarrow> ExpireMap \<Rightarrow> request list" where
  "ExpireManager_Flush TIME m = (if m = [] then [] else expire_flush_loop TIME m)"

definition ExpireManager_PreDBClose :: "(string \<Rightarrow> db option) \<Rightarrow> string \<Rightarrow> ExpireMap \<Rightarrow> ExpireMap" where
  "ExpireManager_PreDBClose find_db dbname m =
     (if m = [] then m
      else (case find_db dbname of
              None \<Rightarrow> m
            | Some d \<Rightarrow> filter (\<lambda>it. e_database (snd it) \<noteq> d) m))"

definition expire_del_request :: "ExpireEntry \<Rightarrow> request" where
  "expire_del_request e = Push_expire_del (e_database e) (e_select e) (e_key e)"

definition ExpireManager_DatabaseReset ::
  "(string \<Rightarrow> db option) \<Rightarrow> string \<Rightarrow> ExpireMap \<Rightarrow> u32 \<times> request list" where
  "ExpireManager_DatabaseReset find_db dbname m =
     (if m = [] then (0, [])
      else (case find_db dbname of
              None \<Rightarrow> (0, [])
            | Some d \<Rightarrow>
                (let hits = filter (\<lambda>it. e_database (snd it) = d) m
                 in (of_nat (length hits), map (\<lambda>it. expire_del_request (snd it)) hits))))"

definition ExpireManager_DatabaseDestroy ::
  "(string \<Rightarrow> db option) \<Rightarrow> string \<Rightarrow> ExpireMap \<Rightarrow> ExpireMap" where
  "ExpireManager_DatabaseDestroy find_db dbname m =
     (if m = [] then m
      else (case find_db dbname of
              None \<Rightarrow> m
            | Some d \<Rightarrow> filter (\<lambda>it. e_database (snd it) \<noteq> d) m))"

definition ExpireManager_SelectReset ::
  "(string \<Rightarrow> db option) \<Rightarrow> string \<Rightarrow> u32 \<Rightarrow> ExpireMap \<Rightarrow> u32 \<times> request list" where
  "ExpireManager_SelectReset find_db dbname select m =
     (if m = [] then (0, [])
      else (case find_db dbname of
              None \<Rightarrow> (0, [])
            | Some d \<Rightarrow>
                (let hits = filter (\<lambda>it. e_select (snd it) = select \<and> e_database (snd it) = d) m
                 in (of_nat (length hits), map (\<lambda>it. expire_del_request (snd it)) hits))))"

definition ExpireManager_Reset :: "ExpireMap \<Rightarrow> request list" where
  "ExpireManager_Reset m = map (\<lambda>it. expire_del_request (snd it)) m"

definition ExpireManager_Count ::
  "(string \<Rightarrow> db option) \<Rightarrow> string \<Rightarrow> u32 \<Rightarrow> ExpireMap \<Rightarrow> u32" where
  "ExpireManager_Count find_db dbname select m =
     (case find_db dbname of
        None \<Rightarrow> 0
      | Some d \<Rightarrow>
          of_nat (length (filter (\<lambda>it. e_select (snd it) = select \<and> e_database (snd it) = d) m)))"

section \<open>Futures\<close>

record FutureEntry =
  f_schedule :: int
  f_added :: int
  f_epoch :: bool
  f_secs :: u32
  f_select :: u32
  f_key :: string
  f_value :: string
  f_database :: db

type_synonym FutureMap = "(int \<times> FutureEntry) list"

definition future_is :: "db \<Rightarrow> string \<Rightarrow> u32 \<Rightarrow> FutureEntry \<Rightarrow> bool" where
  "future_is d key select e \<longleftrightarrow> f_key e = key \<and> f_select e = select \<and> f_database e = d"

definition FutureManager_Delete :: "db \<Rightarrow> string \<Rightarrow> u32 \<Rightarrow> FutureMap \<Rightarrow> bool \<times> FutureMap" where
  "FutureManager_Delete d key select m =
     (if m = [] then (False, m)
      else (case timer_erase (future_is d key select) m of
              Some m' \<Rightarrow> (True, m') | None \<Rightarrow> (False, m)))"

definition FutureManager_GetTIME :: "db \<Rightarrow> string \<Rightarrow> u32 \<Rightarrow> FutureMap \<Rightarrow> int" where
  "FutureManager_GetTIME d key select m =
     (case timer_find (future_is d key select) m of Some it \<Rightarrow> to_signed (fst it) | None \<Rightarrow> - 1)"

text \<open>\<open>value\<close> is an argument of \<open>Add\<close> that no statement of it reads.\<close>

definition FutureManager_Add ::
  "int \<Rightarrow> db \<Rightarrow> int \<Rightarrow> string \<Rightarrow> string \<Rightarrow> u32 \<Rightarrow> bool \<Rightarrow> FutureMap \<Rightarrow> int \<times> FutureMap" where
  "FutureManager_Add now d schedule key val select epoch m =
     (if schedule < 0 then (- 1, m)
      else
        (let m1 = (if FutureManager_GetTIME d key select m > 0
                   then snd (FutureManager_Delete d key select m) else m);
             sched = (if epoch then schedule else now + schedule);
             New = \<lparr>f_schedule = sched, f_added = now, f_epoch = epoch, f_secs = of_int schedule,
                    f_select = select, f_key = key, f_value = [], f_database = d\<rparr>
         in (to_signed sched, multimap_insert sched New m1)))"

primrec future_flush_loop :: "int \<Rightarrow> FutureMap \<Rightarrow> request list" where
  "future_flush_loop TIME [] = []"
| "future_flush_loop TIME (it # its) =
     (if fst it \<ge> TIME then []
      else Push_future_exec (f_database (snd it)) (f_select (snd it)) (f_key (snd it))
             # future_flush_loop TIME its)"

definition FutureManager_Flush :: "int \<Rightarrow> FutureMap \<Rightarrow> request list" where
  "FutureManager_Flush TIME m = (if m = [] then [] else future_flush_loop TIME m)"

definition FutureManager_Find :: "db \<Rightarrow> string \<Rightarrow> u32 \<Rightarrow> FutureMap \<Rightarrow> FutureEntry option" where
  "FutureManager_Find d key select m = map_option snd (timer_find (future_is d key select) m)"

definition FutureManager_GetVal :: "db \<Rightarrow> string \<Rightarrow> u32 \<Rightarrow> FutureMap \<Rightarrow> int \<times> string" where
  "FutureManager_GetVal d key select m =
     (case FutureManager_Find d key select m of None \<Rightarrow> (0, []) | Some e \<Rightarrow> (1, f_value e))"

definition FutureManager_Exec :: "db \<Rightarrow> string \<Rightarrow> u32 \<Rightarrow> FutureMap \<Rightarrow> bool \<times> FutureMap" where
  "FutureManager_Exec d key select m =
     (case FutureManager_Find d key select m of
        None \<Rightarrow> (False, m)
      | Some e \<Rightarrow> (True, snd (FutureManager_Delete d key select m)))"

definition future_del_request :: "FutureEntry \<Rightarrow> request" where
  "future_del_request e = Push_future_del (f_database e) (f_select e) (f_key e)"

definition FutureManager_Reset :: "FutureMap \<Rightarrow> request list" where
  "FutureManager_Reset m = map (\<lambda>it. future_del_request (snd it)) m"

definition FutureManager_DatabaseReset ::
  "(string \<Rightarrow> db option) \<Rightarrow> string \<Rightarrow> FutureMap \<Rightarrow> u32 \<times> request list" where
  "FutureManager_DatabaseReset find_db dbname m =
     (if m = [] then (0, [])
      else (case find_db dbname of
              None \<Rightarrow> (0, [])
            | Some d \<Rightarrow>
                (let hits = filter (\<lambda>it. f_database (snd it) = d) m
                 in (of_nat (length hits), map (\<lambda>it. future_del_request (snd it)) hits))))"

definition FutureManager_SelectReset ::
  "(string \<Rightarrow> db option) \<Rightarrow> string \<Rightarrow> u32 \<Rightarrow> FutureMap \<Rightarrow> u32 \<times> request list" where
  "FutureManager_SelectReset find_db dbname select m =
     (case find_db dbname of
        None \<Rightarrow> (0, [])
      | Some d \<Rightarrow>
          (let hits = filter (\<lambda>it. f_select (snd it) = select \<and> f_database (snd it) = d) m
           in (of_nat (length hits), map (\<lambda>it. future_del_request (snd it)) hits)))"

definition FutureManager_PreDBClose :: "(string \<Rightarrow> db option) \<Rightarrow> string \<Rightarrow> FutureMap \<Rightarrow> FutureMap" where
  "FutureManager_PreDBClose find_db dbname m =
     (if m = [] then m
      else (case find_db dbname of
              None \<Rightarrow> m
            | Some d \<Rightarrow> filter (\<lambda>it. f_database (snd it) \<noteq> d) m))"

definition FutureManager_Count :: "db \<Rightarrow> u32 \<Rightarrow> FutureMap \<Rightarrow> u32" where
  "FutureManager_Count d select m =
     of_nat (length (filter (\<lambda>it. f_select (snd it) = select \<and> f_database (snd it) = d) m))"

definition FutureManager_DatabaseDestroy ::
  "(string \<Rightarrow> db option) \<Rightarrow> string \<Rightarrow> FutureMap \<Rightarrow> FutureMap" where
  "FutureManager_DatabaseDestroy find_db dbname m =
     (if m = [] then m
      else (case find_db dbname of
              None \<Rightarrow> m
            | Some d \<Rightarrow> filter (\<lambda>it. f_database (snd it) \<noteq> d) m))"

section \<open>Lists of timers with distinct owners\<close>

text \<open>\<open>own\<close> is the identity of an entry: its key, its select and its database.\<close>

type_synonym timer_id = "string \<times> u32 \<times> db"

definition timers_ok :: "('e \<Rightarrow> timer_id) \<Rightarrow> (int \<times> 'e) list \<Rightarrow> bool" where
  "timers_ok own m \<longleftrightarrow>
     keys_sorted m \<and> distinct (map (\<lambda>it. own (snd it)) m) \<and>
     (\<forall>it\<in>set m. 0 < fst it \<and> fst it < 2 ^ 31)"

definition timer_at :: "('e \<Rightarrow> timer_id) \<Rightarrow> (int \<times> 'e) list \<Rightarrow> timer_id \<Rightarrow> int" where
  "timer_at own m i = (case timer_find (\<lambda>e. own e = i) m of Some it \<Rightarrow> to_signed (fst it) | None \<Rightarrow> - 1)"

lemma timer_find_iff:
  "distinct (map (\<lambda>it. own (snd it)) m) \<Longrightarrow>
   timer_find (\<lambda>e. own e = i) m = Some it \<longleftrightarrow> it \<in> set m \<and> own (snd it) = i"
  by (induction m) (auto simp: rev_image_eqI)

lemma timer_find_None: "timer_find P m = None \<longleftrightarrow> (\<forall>it\<in>set m. \<not> P (snd it))"
  by (induction m) auto

lemma timer_erase_eq:
  "distinct (map (\<lambda>it. own (snd it)) m) \<Longrightarrow>
   timer_erase (\<lambda>e. own e = i) m =
     (if \<exists>it\<in>set m. own (snd it) = i then Some (filter (\<lambda>it. own (snd it) \<noteq> i) m) else None)"
proof (induction m)
  case (Cons a m)
  show ?case
  proof (cases "own (snd a) = i")
    case True
    with Cons.prems have "\<forall>it\<in>set m. own (snd it) \<noteq> i"
      by (auto simp: rev_image_eqI)
    then have "filter (\<lambda>it. own (snd it) \<noteq> i) m = m"
      by (simp add: filter_True)
    with True show ?thesis by simp
  qed (use Cons in auto)
qed simp

lemma distinct_multimap_insert:
  "distinct (map f (multimap_insert k v m)) \<longleftrightarrow> f (k, v) \<notin> f ` set m \<and> distinct (map f m)"
proof -
  have "distinct (map f (a @ (k, v) # b)) \<longleftrightarrow> f (k, v) \<notin> f ` set (a @ b) \<and> distinct (map f (a @ b))"
    for a b by auto
  from this [of "takeWhile (\<lambda>p. fst p \<le> k) m" "dropWhile (\<lambda>p. fst p \<le> k) m"] show ?thesis
    by (simp add: multimap_insert_def)
qed

definition timer_drop :: "('e \<Rightarrow> timer_id) \<Rightarrow> timer_id \<Rightarrow> (int \<times> 'e) list \<Rightarrow> (int \<times> 'e) list" where
  "timer_drop own i m = filter (\<lambda>it. own (snd it) \<noteq> i) m"

lemma timers_ok_filter: "timers_ok own m \<Longrightarrow> timers_ok own (filter P m)"
  by (auto simp: timers_ok_def sorted_filter distinct_map_filter)

lemma timers_ok_drop: "timers_ok own m \<Longrightarrow> timers_ok own (timer_drop own i m)"
  by (simp add: timer_drop_def timers_ok_filter)

lemma timer_at_drop:
  "timers_ok own m \<Longrightarrow> timer_at own (timer_drop own i m) j = (if j = i then - 1 else timer_at own m j)"
proof -
  assume ok: "timers_ok own m"
  have "timer_find (\<lambda>e. own e = j) (timer_drop own i m) =
      (if j = i then None else timer_find (\<lambda>e. own e = j) m)"
    by (induction m) (auto simp: timer_drop_def)
  then show ?thesis
    by (simp add: timer_at_def)
qed

lemma timers_ok_insert:
  "timers_ok own m \<Longrightarrow> \<forall>it\<in>set m. own (snd it) \<noteq> own e \<Longrightarrow> 0 < t \<Longrightarrow> t < 2 ^ 31 \<Longrightarrow>
   timers_ok own (multimap_insert t e m)"
  by (auto simp: timers_ok_def keys_sorted_multimap_insert distinct_multimap_insert
      set_multimap_insert)

lemma timer_at_insert:
  assumes "timers_ok own m" "\<forall>it\<in>set m. own (snd it) \<noteq> own e" "0 < t" "t < 2 ^ 31"
  shows "timer_at own (multimap_insert t e m) j = (if j = own e then t else timer_at own m j)"
proof -
  have d: "distinct (map (\<lambda>it. own (snd it)) (multimap_insert t e m))"
    "distinct (map (\<lambda>it. own (snd it)) m)"
    using timers_ok_insert [OF assms] assms(1) by (auto simp: timers_ok_def)
  have same: "timer_find (\<lambda>x. own x = j) (multimap_insert t e m) =
      (if j = own e then Some (t, e) else timer_find (\<lambda>x. own x = j) m)"
  proof (cases "j = own e")
    case True
    then show ?thesis by (simp add: timer_find_iff [OF d(1)] set_multimap_insert)
  next
    case False
    then have "timer_find (\<lambda>x. own x = j) (multimap_insert t e m) = Some it \<longleftrightarrow>
        timer_find (\<lambda>x. own x = j) m = Some it" for it
      by (auto simp: timer_find_iff [OF d(1)] timer_find_iff [OF d(2)] set_multimap_insert)
    then have "timer_find (\<lambda>x. own x = j) (multimap_insert t e m) = timer_find (\<lambda>x. own x = j) m"
      by (metis option.exhaust)
    with False show ?thesis by simp
  qed
  with assms(3,4) show ?thesis
    by (simp add: timer_at_def to_signed_id)
qed

lemma timer_at_pos:
  "timers_ok own m \<Longrightarrow> timer_at own m i > 0 \<longleftrightarrow> (\<exists>it\<in>set m. own (snd it) = i)"
proof -
  assume ok: "timers_ok own m"
  then have pos: "0 < to_signed (fst it)" if "it \<in> set m" for it
    using that by (auto simp: timers_ok_def to_signed_id)
  show ?thesis
  proof (cases "timer_find (\<lambda>e. own e = i) m")
    case None
    then have "\<forall>it\<in>set m. own (snd it) \<noteq> i"
      by (simp add: timer_find_None)
    moreover have "timer_at own m i = - 1"
      using None by (simp add: timer_at_def)
    ultimately show ?thesis by auto
  next
    case (Some it)
    with ok have "it \<in> set m \<and> own (snd it) = i"
      by (simp add: timers_ok_def timer_find_iff)
    with Some pos show ?thesis by (auto simp: timer_at_def)
  qed
qed

section \<open>The contract of a registry\<close>

text \<open>
  What the queries rely on: \<open>at\<close> answers the deadline of a timer or -1.  An addition happens at a
  time \<open>now\<close>, and its schedule is a deadline (\<open>epoch\<close>) or counts from now.
\<close>

datatype timer_call = Set_timer int bool timer_id int | Cancel_timer timer_id

definition due_at :: "int \<Rightarrow> bool \<Rightarrow> int \<Rightarrow> int" where
  "due_at now epoch t = (if epoch then t else now + t)"

text \<open>A schedule whose deadline is neither 0 nor past the 31 bits that \<open>GetTIME\<close> answers.\<close>

definition schedule_ok :: "int \<Rightarrow> bool \<Rightarrow> int \<Rightarrow> bool" where
  "schedule_ok now epoch t \<longleftrightarrow> 0 \<le> t \<and> 0 < due_at now epoch t \<and> due_at now epoch t < 2 ^ 31"

definition timer_step ::
  "(int \<Rightarrow> bool \<Rightarrow> timer_id \<Rightarrow> int \<Rightarrow> 'r \<Rightarrow> 'r) \<Rightarrow> (timer_id \<Rightarrow> 'r \<Rightarrow> 'r) \<Rightarrow> timer_call \<Rightarrow> 'r \<Rightarrow> 'r" where
  "timer_step add del c r =
     (case c of Set_timer now epoch i t \<Rightarrow> add now epoch i t r | Cancel_timer i \<Rightarrow> del i r)"

definition timer_spec :: "timer_call \<Rightarrow> (timer_id \<Rightarrow> int) \<Rightarrow> timer_id \<Rightarrow> int" where
  "timer_spec c f =
     (case c of
        Set_timer now epoch i t \<Rightarrow> if t < 0 then f else f(i := due_at now epoch t)
      | Cancel_timer i \<Rightarrow> f(i := - 1))"

definition call_in_range :: "timer_call \<Rightarrow> bool" where
  "call_in_range c \<longleftrightarrow>
     (case c of Set_timer now epoch i t \<Rightarrow> t < 0 \<or> schedule_ok now epoch t | Cancel_timer i \<Rightarrow> True)"

locale timer_registry =
  fixes add :: "int \<Rightarrow> bool \<Rightarrow> timer_id \<Rightarrow> int \<Rightarrow> 'r \<Rightarrow> 'r"
    and del :: "timer_id \<Rightarrow> 'r \<Rightarrow> 'r"
    and at :: "'r \<Rightarrow> timer_id \<Rightarrow> int"
    and ok :: "'r \<Rightarrow> bool"
  assumes ok_add: "ok r \<Longrightarrow> schedule_ok now epoch t \<Longrightarrow> ok (add now epoch i t r)"
    and ok_del: "ok r \<Longrightarrow> ok (del i r)"
    and at_add: "ok r \<Longrightarrow> schedule_ok now epoch t \<Longrightarrow> at (add now epoch i t r) = (at r)(i := due_at now epoch t)"
    and at_del: "ok r \<Longrightarrow> at (del i r) = (at r)(i := - 1)"
    and add_negative: "t < 0 \<Longrightarrow> add now epoch i t r = r"
begin

lemma ok_step: "ok r \<Longrightarrow> call_in_range c \<Longrightarrow> ok (timer_step add del c r)"
  by (cases c) (auto simp: timer_step_def call_in_range_def ok_add ok_del add_negative)

lemma at_step: "ok r \<Longrightarrow> call_in_range c \<Longrightarrow> at (timer_step add del c r) = timer_spec c (at r)"
  by (cases c) (auto simp: timer_step_def timer_spec_def call_in_range_def at_add at_del add_negative schedule_ok_def)

lemma history:
  "ok r \<Longrightarrow> \<forall>c\<in>set cs. call_in_range c \<Longrightarrow>
   ok (fold (timer_step add del) cs r) \<and>
   at (fold (timer_step add del) cs r) = fold timer_spec cs (at r)"
  by (induction cs arbitrary: r) (auto simp: ok_step at_step)

text \<open>With a deadline for a schedule, as the queries give it.\<close>

lemma deadline:
  assumes "ok r" "0 < t" "t < 2 ^ 31"
  shows "ok (add now True i t r)" "at (add now True i t r) = (at r)(i := t)"
  using ok_add [OF assms(1), of now True t] at_add [OF assms(1), of now True t] assms(2,3)
  by (simp_all add: schedule_ok_def due_at_def)

lemma add_del: "ok r \<Longrightarrow> schedule_ok now epoch t \<Longrightarrow> at (del i (add now epoch i t r)) = (at r)(i := - 1)"
  by (simp add: at_del at_add ok_add)

end

section \<open>Both registries meet it\<close>

definition expire_own :: "ExpireEntry \<Rightarrow> timer_id" where
  "expire_own e = (e_key e, e_select e, e_database e)"

definition future_own :: "FutureEntry \<Rightarrow> timer_id" where
  "future_own e = (f_key e, f_select e, f_database e)"

lemma expire_is_own: "expire_is d k s = (\<lambda>e. expire_own e = (k, s, d))"
  by (auto simp: expire_is_def expire_own_def)

lemma future_is_own: "future_is d k s = (\<lambda>e. future_own e = (k, s, d))"
  by (auto simp: future_is_def future_own_def)

abbreviation expires_ok :: "ExpireMap \<Rightarrow> bool" where
  "expires_ok \<equiv> timers_ok expire_own"

abbreviation futures_ok :: "FutureMap \<Rightarrow> bool" where
  "futures_ok \<equiv> timers_ok future_own"

lemma ExpireManager_GetTIME_at: "ExpireManager_GetTIME d k s m = timer_at expire_own m (k, s, d)"
  by (simp add: ExpireManager_GetTIME_def timer_at_def expire_is_own)

lemma FutureManager_GetTIME_at: "FutureManager_GetTIME d k s m = timer_at future_own m (k, s, d)"
  by (simp add: FutureManager_GetTIME_def timer_at_def future_is_own)

lemma timer_drop_idle: "\<not> (\<exists>it\<in>set m. own (snd it) = i) \<Longrightarrow> timer_drop own i m = m"
  by (auto simp: timer_drop_def intro!: filter_True)

lemma ExpireManager_Delete_drop:
  "expires_ok m \<Longrightarrow> ExpireManager_Delete d k s m =
     (\<exists>it\<in>set m. expire_own (snd it) = (k, s, d), timer_drop expire_own (k, s, d) m)"
  by (auto simp: ExpireManager_Delete_def expire_is_own timer_erase_eq timers_ok_def
      timer_drop_idle timer_drop_def)

lemma FutureManager_Delete_drop:
  "futures_ok m \<Longrightarrow> FutureManager_Delete d k s m =
     (\<exists>it\<in>set m. future_own (snd it) = (k, s, d), timer_drop future_own (k, s, d) m)"
  by (auto simp: FutureManager_Delete_def future_is_own timer_erase_eq timers_ok_def
      timer_drop_idle timer_drop_def)

lemma timer_drop_free: "it \<in> set (timer_drop own i m) \<Longrightarrow> own (snd it) \<noteq> i"
  by (simp add: timer_drop_def)

lemma expire_cleared:
  "expires_ok m \<Longrightarrow>
   (if ExpireManager_GetTIME d k s m > 0 then snd (ExpireManager_Delete d k s m) else m) =
   timer_drop expire_own (k, s, d) m"
  by (simp add: ExpireManager_GetTIME_at timer_at_pos ExpireManager_Delete_drop timer_drop_idle)

lemma future_cleared:
  "futures_ok m \<Longrightarrow>
   (if FutureManager_GetTIME d k s m > 0 then snd (FutureManager_Delete d k s m) else m) =
   timer_drop future_own (k, s, d) m"
  by (simp add: FutureManager_GetTIME_at timer_at_pos FutureManager_Delete_drop timer_drop_idle)

text \<open>An accepted \<open>Add\<close> answers and files the schedule, in place of an older one.\<close>

lemma ExpireManager_Add_ok:
  assumes "expires_ok m" "0 \<le> t" "sched = (if epoch then t else now + t)" "0 < sched" "sched < 2 ^ 31"
  shows "fst (ExpireManager_Add now d t k s epoch m) = sched \<and>
    expires_ok (snd (ExpireManager_Add now d t k s epoch m)) \<and>
    timer_at expire_own (snd (ExpireManager_Add now d t k s epoch m)) =
      (timer_at expire_own m)((k, s, d) := sched)"
proof -
  obtain e where e: "snd (ExpireManager_Add now d t k s epoch m) =
      multimap_insert sched e (timer_drop expire_own (k, s, d) m)" "expire_own e = (k, s, d)"
    using assms(2,3)
    by (simp only: ExpireManager_Add_def Let_def expire_cleared [OF assms(1)])
      (simp add: expire_own_def del: split_paired_Ex)
  have "\<forall>it\<in>set (timer_drop expire_own (k, s, d) m). expire_own (snd it) \<noteq> expire_own e"
    using e(2) by (auto dest: timer_drop_free)
  note ins = timers_ok_insert [OF timers_ok_drop [OF assms(1)] this assms(4,5)]
    timer_at_insert [OF timers_ok_drop [OF assms(1)] this assms(4,5)]
  have "fst (ExpireManager_Add now d t k s epoch m) = sched"
    using assms(2-5) by (simp add: ExpireManager_Add_def Let_def to_signed_id)
  with ins show ?thesis
    by (auto simp: e timer_at_drop [OF assms(1)])
qed

lemma FutureManager_Add_ok:
  assumes "futures_ok m" "0 \<le> t" "sched = (if epoch then t else now + t)" "0 < sched" "sched < 2 ^ 31"
  shows "fst (FutureManager_Add now d t k v s epoch m) = sched \<and>
    futures_ok (snd (FutureManager_Add now d t k v s epoch m)) \<and>
    timer_at future_own (snd (FutureManager_Add now d t k v s epoch m)) =
      (timer_at future_own m)((k, s, d) := sched)"
proof -
  obtain e where e: "snd (FutureManager_Add now d t k v s epoch m) =
      multimap_insert sched e (timer_drop future_own (k, s, d) m)" "future_own e = (k, s, d)"
    using assms(2,3)
    by (simp only: FutureManager_Add_def Let_def future_cleared [OF assms(1)])
      (simp add: future_own_def del: split_paired_Ex)
  have "\<forall>it\<in>set (timer_drop future_own (k, s, d) m). future_own (snd it) \<noteq> future_own e"
    using e(2) by (auto dest: timer_drop_free)
  note ins = timers_ok_insert [OF timers_ok_drop [OF assms(1)] this assms(4,5)]
    timer_at_insert [OF timers_ok_drop [OF assms(1)] this assms(4,5)]
  have "fst (FutureManager_Add now d t k v s epoch m) = sched"
    using assms(2-5) by (simp add: FutureManager_Add_def Let_def to_signed_id)
  with ins show ?thesis
    by (auto simp: e timer_at_drop [OF assms(1)])
qed

definition expire_add :: "int \<Rightarrow> bool \<Rightarrow> timer_id \<Rightarrow> int \<Rightarrow> ExpireMap \<Rightarrow> ExpireMap" where
  "expire_add now epoch i t m = (case i of (k, s, d) \<Rightarrow> snd (ExpireManager_Add now d t k s epoch m))"

definition expire_delete :: "timer_id \<Rightarrow> ExpireMap \<Rightarrow> ExpireMap" where
  "expire_delete i m = (case i of (k, s, d) \<Rightarrow> snd (ExpireManager_Delete d k s m))"

definition expire_time :: "ExpireMap \<Rightarrow> timer_id \<Rightarrow> int" where
  "expire_time m i = (case i of (k, s, d) \<Rightarrow> ExpireManager_GetTIME d k s m)"

definition future_add :: "string \<Rightarrow> int \<Rightarrow> bool \<Rightarrow> timer_id \<Rightarrow> int \<Rightarrow> FutureMap \<Rightarrow> FutureMap" where
  "future_add v now epoch i t m = (case i of (k, s, d) \<Rightarrow> snd (FutureManager_Add now d t k v s epoch m))"

definition future_delete :: "timer_id \<Rightarrow> FutureMap \<Rightarrow> FutureMap" where
  "future_delete i m = (case i of (k, s, d) \<Rightarrow> snd (FutureManager_Delete d k s m))"

definition future_time :: "FutureMap \<Rightarrow> timer_id \<Rightarrow> int" where
  "future_time m i = (case i of (k, s, d) \<Rightarrow> FutureManager_GetTIME d k s m)"

lemma expire_time_at: "expire_time m = timer_at expire_own m"
  by (auto simp: expire_time_def ExpireManager_GetTIME_at)

lemma future_time_at: "future_time m = timer_at future_own m"
  by (auto simp: future_time_def FutureManager_GetTIME_at)

lemma timer_at_drop_fun:
  "timers_ok own m \<Longrightarrow> timer_at own (timer_drop own i m) = (timer_at own m)(i := - 1)"
  by (auto simp: timer_at_drop)

interpretation expires: timer_registry expire_add expire_delete expire_time expires_ok
proof (unfold_locales, goal_cases)
  case (1 r now epoch t i)
  then show ?case
    using ExpireManager_Add_ok [of r t "due_at now epoch t" epoch now] by (cases i) (simp add: expire_add_def schedule_ok_def due_at_def)
next
  case (2 r i)
  then show ?case
    by (cases i) (simp add: expire_delete_def ExpireManager_Delete_drop timers_ok_drop)
next
  case (3 r now epoch t i)
  then show ?case
    using ExpireManager_Add_ok [of r t "due_at now epoch t" epoch now]
    by (cases i) (simp add: expire_add_def expire_time_at schedule_ok_def due_at_def)
next
  case (4 r i)
  then show ?case
    by (cases i)
      (simp add: expire_delete_def ExpireManager_Delete_drop expire_time_at timer_at_drop_fun)
next
  case (5 t now epoch i r)
  then show ?case
    by (cases i) (simp add: expire_add_def ExpireManager_Add_def)
qed

interpretation futures: timer_registry "future_add v" future_delete future_time futures_ok for v
proof (unfold_locales, goal_cases)
  case (1 r now epoch t i)
  then show ?case
    using FutureManager_Add_ok [of r t "due_at now epoch t" epoch now] by (cases i) (simp add: future_add_def schedule_ok_def due_at_def)
next
  case (2 r i)
  then show ?case
    by (cases i) (simp add: future_delete_def FutureManager_Delete_drop timers_ok_drop)
next
  case (3 r now epoch t i)
  then show ?case
    using FutureManager_Add_ok [of r t "due_at now epoch t" epoch now]
    by (cases i) (simp add: future_add_def future_time_at schedule_ok_def due_at_def)
next
  case (4 r i)
  then show ?case
    by (cases i)
      (simp add: future_delete_def FutureManager_Delete_drop future_time_at timer_at_drop_fun)
next
  case (5 t now epoch i r)
  then show ?case
    by (cases i) (simp add: future_add_def FutureManager_Add_def)
qed

section \<open>The sweep\<close>

lemma expire_flush_loop_eq:
  "keys_sorted m \<Longrightarrow> expire_flush_loop TIME m =
     map (\<lambda>it. Push_del (e_database (snd it)) (e_select (snd it)) (e_key (snd it)))
       (filter (\<lambda>it. fst it < TIME) m)"
proof (induction m)
  case (Cons it m)
  then show ?case
    by (cases "fst it < TIME") (auto simp: filter_empty_conv)
qed simp

lemma future_flush_loop_eq:
  "keys_sorted m \<Longrightarrow> future_flush_loop TIME m =
     map (\<lambda>it. Push_future_exec (f_database (snd it)) (f_select (snd it)) (f_key (snd it)))
       (filter (\<lambda>it. fst it < TIME) m)"
proof (induction m)
  case (Cons it m)
  then show ?case
    by (cases "fst it < TIME") (auto simp: filter_empty_conv)
qed simp

text \<open>
  C20: Over every sequence of additions and deletions, made at any times and with absolute
  deadlines or with times to live, the expire registry, a collection sorted by time, refines a map
  from (database, select, key) to its deadline: an addition replaces the old deadline of that key
  by the given one, or by the time of the addition plus the time to live, a negative schedule is
  ignored, a deletion forgets the deadline of its key, and no other key is touched. The deadlines
  of the additions that are not ignored are between 1 and 2^31 - 1, the range GetTIME can answer.
\<close>

lemma expire_history:
  assumes "expires_ok m" "\<forall>c\<in>set cs. call_in_range c"
  shows "expire_time (fold (timer_step expire_add expire_delete) cs m) = fold timer_spec cs (expire_time m)"
  using expires.history [OF assms] by blast

lemma expire_history_witness:
  "expire_time (fold (timer_step expire_add expire_delete)
     [Set_timer 5 True (''a'', 1, 0) 90, Set_timer 6 True (''b'', 1, 0) 70, Set_timer 7 True (''a'', 1, 0) (- 2),
      Set_timer 8 False (''a'', 1, 0) 52, Cancel_timer (''b'', 1, 0)] []) (''a'', 1, 0) = 60"
proof -
  let ?cs = "[Set_timer 5 True (''a'', 1, 0) 90, Set_timer 6 True (''b'', 1, 0) 70, Set_timer 7 True (''a'', 1, 0) (- 2),
      Set_timer 8 False (''a'', 1, 0) 52, Cancel_timer (''b'', 1, 0)]"
  have "\<forall>c\<in>set ?cs. call_in_range c" by (simp add: call_in_range_def schedule_ok_def due_at_def)
  from expire_history [OF _ this, of "[]"] show ?thesis by (simp add: timers_ok_def timer_spec_def due_at_def)
qed

text \<open>
  Over every sequence of additions and deletions, the future registry refines a map from
  (database, select, key) to its deadline, whatever value the futures carry.
\<close>

lemma future_history:
  assumes "futures_ok m" "\<forall>c\<in>set cs. call_in_range c"
  shows "future_time (fold (timer_step (future_add v) future_delete) cs m) = fold timer_spec cs (future_time m)"
  using futures.history [OF assms] by blast

lemma future_history_witness:
  "future_time (fold (timer_step (future_add ''v'') future_delete)
     [Set_timer 5 True (''a'', 1, 0) 90, Set_timer 5 False (''a'', 1, 0) 55, Cancel_timer (''b'', 1, 0)] []) (''a'', 1, 0) = 60"
proof -
  let ?cs = "[Set_timer 5 True (''a'', 1, 0) 90, Set_timer 5 False (''a'', 1, 0) 55, Cancel_timer (''b'', 1, 0)]"
  have "\<forall>c\<in>set ?cs. call_in_range c" by (simp add: call_in_range_def schedule_ok_def due_at_def)
  from future_history [OF _ this, of "[]" "''v''"] show ?thesis by (simp add: timers_ok_def timer_spec_def due_at_def)
qed

text \<open>
  C21: A sweep of the expire registry at time now asks for the deletion of exactly the keys whose
  deadline is before now, each once and in the order of their deadlines, and for no other key.
\<close>

lemma expire_flush_exact:
  assumes "keys_sorted m"
  shows "ExpireManager_Flush now m =
    map (\<lambda>it. Push_del (e_database (snd it)) (e_select (snd it)) (e_key (snd it)))
      (filter (\<lambda>it. fst it < now) m)"
  using expire_flush_loop_eq [OF assms] by (simp add: ExpireManager_Flush_def)

lemma expire_flush_witness:
  "ExpireManager_Flush 80
     [(70, \<lparr>e_schedule = 70, e_added = 0, e_epoch = True, e_secs = 70, e_select = 1, e_key = ''a'', e_database = 0\<rparr>),
      (90, \<lparr>e_schedule = 90, e_added = 0, e_epoch = True, e_secs = 90, e_select = 1, e_key = ''b'', e_database = 0\<rparr>)]
     = [Push_del 0 1 ''a'']"
  by (subst expire_flush_exact) simp_all

end
