(* ===== verification/QueryBase.thy ===== *)
theory QueryBase
  imports Timers Extras
begin

text \<open>
  \<open>src/brldb/query.cpp\<close> and the base class of \<open>include/brldb/query.h\<close>: the query object, the
  store and the timers it works on, its reads and writes, and \<open>Prepare\<close>, which finds the stored
  type of the key and decides whether \<open>Run\<close> is called.

  RocksDB is a library outside the sources: its calls are the fields of a parameter record
  \<open>rocks\<close>, and what the code relies on is the predicate \<open>rocks_ok\<close>.  A member function takes the
  query (\<open>this\<close>) and the world and returns them updated; \<open>Run\<close>, which is virtual, is an argument
  of \<open>Prepare\<close>.  Queries are run one at a time (\<open>DataThread\<close> holds \<open>query_mute\<close> around \<open>Prepare\<close>).
\<close>

section \<open>The store\<close>

datatype wop = WPut string string | WDelete string

text \<open>
  \<open>rget\<close>: whether the status is OK and the text left in \<open>dbvalue\<close>; \<open>rwrite\<close>: whether the status
  is OK and the store after the batch; \<open>riter\<close>: the pairs an iterator made now goes through.
\<close>

record 'd rocks =
  rget :: "'d \<Rightarrow> string \<Rightarrow> bool \<times> string"
  rwrite :: "'d \<Rightarrow> wop list \<Rightarrow> bool \<times> 'd"
  riter :: "'d \<Rightarrow> (string \<times> string) list"

definition apply_wop :: "wop \<Rightarrow> (string \<rightharpoonup> string) \<Rightarrow> string \<rightharpoonup> string" where
  "apply_wop b m = (case b of WPut k v \<Rightarrow> m(k \<mapsto> v) | WDelete k \<Rightarrow> m(k := None))"

text \<open>
  Documented behaviour: a read answers the current value, or \<open>NotFound\<close> and leaves the text
  empty; a batch is applied in order, as a whole or not at all; an iterator goes through the
  current pairs in key order.
\<close>

definition rocks_ok :: "'d rocks \<Rightarrow> ('d \<Rightarrow> string \<rightharpoonup> string) \<Rightarrow> bool" where
  "rocks_ok R view \<longleftrightarrow>
     (\<forall>s k. rget R s k = (case view s k of Some v \<Rightarrow> (True, v) | None \<Rightarrow> (False, []))) \<and>
     (\<forall>s b ok s'. rwrite R s b = (ok, s') \<longrightarrow>
        view s' = (if ok then fold apply_wop b (view s) else view s)) \<and>
     (\<forall>s. keys_strict (riter R s) \<and> map_of (riter R s) = view s)"

section \<open>Data\<close>

definition INT_KEY :: string where "INT_KEY = ''1''"
definition INT_MAP :: string where "INT_MAP = ''2''"
definition INT_LIST :: string where "INT_LIST = ''3''"
definition INT_GEO :: string where "INT_GEO = ''4''"
definition INT_MMAP :: string where "INT_MMAP = ''5''"
definition INT_VECTOR :: string where "INT_VECTOR = ''6''"
definition INT_EXPIRE :: string where "INT_EXPIRE = ''8''"
definition INT_FUTURE :: string where "INT_FUTURE = ''9''"
definition PROCESS_NULL :: string where "PROCESS_NULL = ''NULL''"

lemmas INT_defs = INT_KEY_def INT_MAP_def INT_LIST_def INT_GEO_def INT_MMAP_def INT_VECTOR_def
  INT_EXPIRE_def INT_FUTURE_def PROCESS_NULL_def

definition TypeRegs :: "string list" where
  "TypeRegs = [INT_LIST, INT_KEY, INT_GEO, INT_MAP, INT_MMAP, INT_VECTOR, INT_EXPIRE, INT_FUTURE]"

definition ITER_LIMIT :: u32 where "ITER_LIMIT = 50"

datatype STR_FUNCTION = STR_TO_LOW | STR_TO_UPPER | STR_TO_CAP

datatype QUERY_TYPE =
    QUERY_TYPE_RENAME | QUERY_TYPE_COPY | QUERY_TYPE_TYPE | QUERY_TYPE_DELETE | QUERY_TYPE_ITER
  | QUERY_TYPE_WRITE | QUERY_TYPE_TEST | QUERY_TYPE_DBSIZE | QUERY_TYPE_OP | QUERY_TYPE_READ
  | QUERY_TYPE_EXPIRE | QUERY_TYPE_EXISTS | QUERY_TYPE_SKIP | QUERY_TYPE_SETEX | QUERY_TYPE_MOVE
  | QUERY_TYPE_CLONE | QUERY_TYPE_FUTURE | QUERY_TYPE_FUTURE_RUN | QUERY_TYPE_READ_ALLOW
  | QUERY_TYPE_RENAMENX | QUERY_TYPE_DIFF | QUERY_TYPE_LAT | QUERY_TYPE_LONG
  | QUERY_TYPE_TRANSFER | QUERY_TYPE_SORT

datatype QUERY_FLAGS =
    QUERY_FLAGS_NONE | QUERY_FLAGS_QUIET | QUERY_FLAGS_CORE | QUERY_FLAGS_COUNT | QUERY_FLAGS_GLOBAL

datatype OP_TYPE = OP_NONE | OP_INCR | OP_DECR | OP_ADD | OP_MIN | OP_AVG | OP_DIV | OP_MULT | OP_SQRT

datatype DBL_CODE =
    DBL_NONE | DBL_STATUS_FAILED | DBL_STATUS_OK | DBL_MISS_ARGS | DBL_NOT_FOUND | DBL_ENTRY_EXISTS
  | DBL_MANAGER_OK | DBL_STATUS_BROKEN | DBL_NOT_NUM | DBL_QUERY_LARGE | DBL_INTERRUPT
  | DBL_INVALID_TYPE | DBL_UNABLE_WRITE | DBL_INVALID_FORMAT | DBL_INVALID_RANGE
  | DBL_ENTRY_EXPIRES | DBL_NOT_EXPIRING | DBL_BATCH_FAILED

record RocksData =
  rd_status :: bool
  rd_value :: string
  rd_loaded :: bool

record query =
  q_finished :: bool
  q_key_required :: bool
  q_mapped :: RocksData
  q_function :: STR_FUNCTION
  q_flags :: QUERY_FLAGS
  q_type :: QUERY_TYPE
  q_access :: DBL_CODE
  q_identified :: string
  q_dest :: string
  q_base_request :: string
  q_subresult :: u32
  q_partial :: bool
  q_hesh :: string
  q_newkey :: string
  q_key :: string
  q_value :: string
  q_offset :: int
  q_limit :: int
  q_mlist :: "(string \<times> string) list"
  q_select_query :: u32
  q_id :: u32
  q_response :: string
  q_VecData :: "string list"
  q_mmap :: "(string \<times> string) list"
  q_nmap :: "(string \<times> u32) list"
  q_database :: db
  q_transf_db :: "db option"
  q_user :: nat
  q_operation :: OP_TYPE
  q_counter :: u32
  q_data :: int

record 'd database =
  d_name :: string
  d_closing :: bool
  d_rocks :: 'd

text \<open>
  The world of a query: the open databases, the two registries, the clock, the partial results
  attached to the users, and the answers the other threads' flags will give to the iteration
  checks of this query (none left: no interruption).
\<close>

record 'd world =
  w_dbs :: "db \<Rightarrow> 'd database"
  w_expires :: ExpireMap
  w_futures :: FutureMap
  w_now :: int
  w_results :: "query list"
  w_interrupts :: "bool list"

abbreviation access_set :: "DBL_CODE \<Rightarrow> query \<Rightarrow> query" where
  "access_set c q \<equiv> q\<lparr>q_access := c\<rparr>"

abbreviation SetOK :: "query \<Rightarrow> query" where
  "SetOK q \<equiv> q\<lparr>q_finished := True\<rparr>"

abbreviation rocks_of :: "db \<Rightarrow> 'd world \<Rightarrow> 'd" where
  "rocks_of d w \<equiv> d_rocks (w_dbs w d)"

abbreviation set_rocks :: "db \<Rightarrow> 'd \<Rightarrow> 'd world \<Rightarrow> 'd world" where
  "set_rocks d s w \<equiv> w\<lparr>w_dbs := (w_dbs w)(d := (w_dbs w d)\<lparr>d_rocks := s\<rparr>)\<rparr>"

text \<open>The texts the code builds inline.\<close>

definition raw_key :: "string \<Rightarrow> u32 \<Rightarrow> string \<Rightarrow> string" where
  "raw_key k select t = to_bin k @ '':'' @ convto_string select @ '':'' @ t"

definition expire_record :: "string \<Rightarrow> u32 \<Rightarrow> string \<Rightarrow> string" where
  "expire_record k select dbname =
     to_bin k @ '':'' @ convto_string select @ '':'' @ INT_EXPIRE @ '':'' @ dbname"

definition future_record :: "string \<Rightarrow> u32 \<Rightarrow> string \<Rightarrow> string" where
  "future_record k select dbname =
     to_bin k @ '':'' @ convto_string select @ '':'' @ INT_FUTURE @ '':'' @ dbname"

section \<open>Reads and writes\<close>

definition batch_on :: "'d rocks \<Rightarrow> db \<Rightarrow> wop list \<Rightarrow> 'd world \<Rightarrow> bool \<times> 'd world" where
  "batch_on R d b w = (let (ok, s) = rwrite R (rocks_of d w) b in (ok, set_rocks d s w))"

definition Swap ::
  "'d rocks \<Rightarrow> string \<Rightarrow> string \<Rightarrow> string \<Rightarrow> db option \<Rightarrow> query \<Rightarrow> 'd world \<Rightarrow> bool \<times> 'd world" where
  "Swap R newdest ldest lvalue dbo q w =
     batch_on R (case dbo of None \<Rightarrow> q_database q | Some d \<Rightarrow> d) [WPut newdest lvalue, WDelete ldest] w"

definition SwapWithExpire ::
  "'d rocks \<Rightarrow> string \<Rightarrow> string \<Rightarrow> string \<Rightarrow> u32 \<Rightarrow> string \<Rightarrow> u32 \<Rightarrow> string \<Rightarrow> query \<Rightarrow> 'd world
     \<Rightarrow> bool \<times> 'd world" where
  "SwapWithExpire R newdest ldest lvalue select lkey ttl oldkey q w =
     (let d = q_database q;
          lookup = expire_record lkey select (d_name (w_dbs w d));
          (ok, w1) = batch_on R d [WPut newdest lvalue, WDelete ldest, WPut lookup (convto_string ttl)] w
      in if ok
         then (let e1 = snd (ExpireManager_Delete d oldkey select (w_expires w1));
                   e2 = snd (ExpireManager_Add (w_now w1) d (sint ttl) lkey select True e1)
               in (True, w1\<lparr>w_expires := e2\<rparr>))
         else (False, w1))"

definition ExpireBatch ::
  "'d rocks \<Rightarrow> string \<Rightarrow> string \<Rightarrow> string \<Rightarrow> u32 \<Rightarrow> u32 \<Rightarrow> query \<Rightarrow> 'd world \<Rightarrow> 'd world" where
  "ExpireBatch R wdest lvalue ekey select ttl q w =
     (let d = q_database q;
          lookup = expire_record ekey select (d_name (w_dbs w d));
          (ok, w1) = batch_on R d [WPut lookup (convto_string ttl), WPut wdest (to_bin lvalue)] w
      in if ok
         then w1\<lparr>w_expires := snd (ExpireManager_Add (w_now w1) d (sint ttl) ekey select True (w_expires w1))\<rparr>
         else w1)"

definition Write :: "'d rocks \<Rightarrow> string \<Rightarrow> string \<Rightarrow> query \<Rightarrow> 'd world \<Rightarrow> bool \<times> 'd world" where
  "Write R wdest lvalue q w = batch_on R (q_database q) [WPut wdest lvalue] w"

definition Delete :: "'d rocks \<Rightarrow> string \<Rightarrow> query \<Rightarrow> 'd world \<Rightarrow> 'd world" where
  "Delete R wdest q w = snd (batch_on R (q_database q) [WDelete wdest] w)"

definition WriteExpire ::
  "'d rocks \<Rightarrow> string \<Rightarrow> u32 \<Rightarrow> u32 \<Rightarrow> db option \<Rightarrow> query \<Rightarrow> 'd world \<Rightarrow> 'd world" where
  "WriteExpire R ekey select ttl dbo q w =
     (let d = (case dbo of None \<Rightarrow> q_database q | Some d \<Rightarrow> d);
          lookup = expire_record ekey select (d_name (w_dbs w d));
          (ok, w1) = Write R lookup (convto_string ttl) q w
      in if ok
         then w1\<lparr>w_expires := snd (ExpireManager_Add (w_now w1) d (sint ttl) ekey select True (w_expires w1))\<rparr>
         else w1)"

definition WriteFuture ::
  "'d rocks \<Rightarrow> string \<Rightarrow> u32 \<Rightarrow> u32 \<Rightarrow> string \<Rightarrow> query \<Rightarrow> 'd world \<Rightarrow> 'd world" where
  "WriteFuture R ekey select ttl fvalue q w =
     (let d = q_database q;
          lookup = future_record ekey select (d_name (w_dbs w d));
          (ok, w1) = Write R lookup (convto_string ttl @ '':'' @ fvalue) q w
      in if ok
         then w1\<lparr>w_futures :=
                snd (FutureManager_Add (w_now w1) d (sint ttl) ekey fvalue select True (w_futures w1))\<rparr>
         else w1)"

definition DelFuture :: "'d rocks \<Rightarrow> query \<Rightarrow> 'd world \<Rightarrow> 'd world" where
  "DelFuture R q w =
     (let d = q_database q;
          w1 = w\<lparr>w_futures := snd (FutureManager_Delete d (q_key q) (q_select_query q) (w_futures w))\<rparr>
      in Delete R (future_record (q_key q) (q_select_query q) (d_name (w_dbs w d))) q w1)"

definition IsExpiring :: "query \<Rightarrow> 'd world \<Rightarrow> int" where
  "IsExpiring q w =
     (let ttl = ExpireManager_GetTIME (q_database q) (q_key q) (q_select_query q) (w_expires w)
      in if ttl > 0 then ttl else - 1)"

definition DelExpire :: "'d rocks \<Rightarrow> query \<Rightarrow> 'd world \<Rightarrow> 'd world" where
  "DelExpire R q w =
     (let d = q_database q;
          w1 = w\<lparr>w_expires := snd (ExpireManager_Delete d (q_key q) (q_select_query q) (w_expires w))\<rparr>
      in Delete R (expire_record (q_key q) (q_select_query q) (d_name (w_dbs w d))) q w1)"

definition Get :: "'d rocks \<Rightarrow> string \<Rightarrow> query \<Rightarrow> 'd world \<Rightarrow> RocksData" where
  "Get R where' q w =
     (if rd_loaded (q_mapped q) then q_mapped q
      else (let (ok, v) = rget R (rocks_of (q_database q) w) where'
            in \<lparr>rd_status = ok, rd_value = v, rd_loaded = False\<rparr>))"

section \<open>The type of a key\<close>

text \<open>
  \<open>CheckDest\<close>: 1 when the name is free for the type \<open>ltype\<close> to go on with, 2 when another type
  holds it, 0 when no type holds it with a non-empty text.
\<close>

primrec check_dest_loop ::
  "'d rocks \<Rightarrow> 'd \<Rightarrow> u32 \<Rightarrow> string \<Rightarrow> string \<Rightarrow> string list \<Rightarrow> nat" where
  "check_dest_loop R s select regkey ltype [] = 0"
| "check_dest_loop R s select regkey ltype (found_type # ts) =
     (let dbvalue = snd (rget R s (raw_key regkey select found_type))
      in if dbvalue \<noteq> [] then (if found_type = ltype then 1 else 2)
         else check_dest_loop R s select regkey ltype ts)"

definition CheckDest ::
  "'d rocks \<Rightarrow> u32 \<Rightarrow> string \<Rightarrow> string \<Rightarrow> db option \<Rightarrow> query \<Rightarrow> 'd world \<Rightarrow> nat" where
  "CheckDest R select regkey ltype dbo q w =
     (let d = (case dbo of None \<Rightarrow> q_database q | Some d \<Rightarrow> d)
      in if d = q_database q \<and> select = q_select_query q \<and> q_key q = regkey \<and> ltype = q_identified q
         then 1
         else check_dest_loop R (rocks_of d w) select regkey ltype TypeRegs)"

definition SetDest :: "string \<Rightarrow> u32 \<Rightarrow> string \<Rightarrow> query \<Rightarrow> query" where
  "SetDest regkey regselect regtype q = q\<lparr>q_dest := raw_key regkey regselect regtype\<rparr>"

primrec registry_loop ::
  "'d rocks \<Rightarrow> 'd \<Rightarrow> u32 \<Rightarrow> string \<Rightarrow> string list \<Rightarrow> (string \<times> string) option" where
  "registry_loop R s select regkey [] = None"
| "registry_loop R s select regkey (found_type # ts) =
     (case rget R s (raw_key regkey select found_type) of
        (ok, dbvalue) \<Rightarrow> if ok then Some (found_type, dbvalue)
                         else registry_loop R s select regkey ts)"

definition GetRegistry ::
  "'d rocks \<Rightarrow> u32 \<Rightarrow> string \<Rightarrow> bool \<Rightarrow> query \<Rightarrow> 'd world \<Rightarrow> bool \<times> query" where
  "GetRegistry R select regkey do_load q w =
     (case registry_loop R (rocks_of (q_database q) w) select regkey TypeRegs of
        Some (found_type, dbvalue) \<Rightarrow>
          (let q1 = SetDest regkey select found_type (q\<lparr>q_identified := found_type\<rparr>)
           in (True, if do_load
                     then q1\<lparr>q_mapped := \<lparr>rd_status = True, rd_value = dbvalue, rd_loaded = True\<rparr>\<rparr>
                     else q1))
      | None \<Rightarrow> (False, q\<lparr>q_identified := PROCESS_NULL\<rparr>))"

section \<open>Prepare\<close>

definition Check :: "query \<Rightarrow> 'd world \<Rightarrow> bool \<times> query" where
  "Check q w =
     (if d_closing (w_dbs w (q_database q)) then (False, access_set DBL_STATUS_BROKEN q)
      else (True, access_set DBL_STATUS_OK q))"

definition CheckKey :: "query \<Rightarrow> bool \<times> query" where
  "CheckKey q =
     (if q_key_required q then
        (if q_key q = [] then (False, access_set DBL_MISS_ARGS q) else (True, q))
      else (True, q))"

type_synonym 'd run = "query \<Rightarrow> 'd world \<Rightarrow> (query \<times> 'd world) res"
type_synonym 'd prepared = "(bool \<times> query \<times> 'd world) res"

text \<open>\<open>Run(); return b\<close> and the refusals.\<close>

definition run_then :: "bool \<Rightarrow> 'd run \<Rightarrow> query \<Rightarrow> 'd world \<Rightarrow> 'd prepared" where
  "run_then b run q w = bind_res (run q w) (\<lambda>(q', w'). Inr (b, q', w'))"

abbreviation refuse :: "query \<Rightarrow> 'd world \<Rightarrow> 'd prepared" where
  "refuse q w \<equiv> Inr (False, q, w)"

definition invalid_type :: "query \<Rightarrow> query" where
  "invalid_type q = (access_set DBL_INVALID_TYPE q)\<lparr>q_response := q_identified q\<rparr>"

definition not_found_null :: "query \<Rightarrow> query" where
  "not_found_null q = (access_set DBL_NOT_FOUND q)\<lparr>q_response := q_identified q\<rparr>"

definition Prepare_write :: "'d rocks \<Rightarrow> 'd run \<Rightarrow> query \<Rightarrow> 'd world \<Rightarrow> 'd prepared" where
  "Prepare_write R run q w =
     (let (found, q1) = GetRegistry R (q_select_query q) (q_key q) True q w
      in if found then
           (if q_identified q1 = q_base_request q1 then run_then True run q1 w
            else refuse (invalid_type q1) w)
         else if q_identified q1 = PROCESS_NULL then
           run_then True run
             (q1\<lparr>q_dest := raw_key (q_key q1) (q_select_query q1) (q_base_request q1)\<rparr>) w
         else refuse q1 w)"

definition Prepare_read :: "'d rocks \<Rightarrow> 'd run \<Rightarrow> query \<Rightarrow> 'd world \<Rightarrow> 'd prepared" where
  "Prepare_read R run q w =
     (let (found, q1) = GetRegistry R (q_select_query q) (q_key q) True q w
      in if found then
           (if q_identified q1 = q_base_request q1 then run_then True run q1 w
            else refuse (invalid_type q1) w)
         else if q_identified q1 = PROCESS_NULL then refuse (access_set DBL_NOT_FOUND q1) w
         else refuse q1 w)"

definition Prepare_read_allow :: "'d rocks \<Rightarrow> 'd run \<Rightarrow> query \<Rightarrow> 'd world \<Rightarrow> 'd prepared" where
  "Prepare_read_allow R run q w =
     (let (found, q1) = GetRegistry R (q_select_query q) (q_key q) True q w
      in if found then
           (if q_identified q1 = q_base_request q1 then run_then False run q1 w
            else refuse (invalid_type q1) w)
         else if q_identified q1 = PROCESS_NULL then run_then False run q1 w
         else refuse q1 w)"

definition Prepare_diff :: "'d rocks \<Rightarrow> 'd run \<Rightarrow> query \<Rightarrow> 'd world \<Rightarrow> 'd prepared" where
  "Prepare_diff R run q w =
     (let q1 = snd (GetRegistry R (q_select_query q) (q_key q) True q w)
      in if q_identified q1 = PROCESS_NULL then refuse (not_found_null q1) w
         else (let result = CheckDest R (q_select_query q1) (q_value q1) (q_identified q1) None q1 w
               in if result = 1 then run_then True run q1 w
                  else if result = 2 then refuse (invalid_type q1) w
                  else refuse (not_found_null q1) w))"

definition Prepare_rename :: "'d rocks \<Rightarrow> 'd run \<Rightarrow> query \<Rightarrow> 'd world \<Rightarrow> 'd prepared" where
  "Prepare_rename R run q w =
     (let q1 = snd (GetRegistry R (q_select_query q) (q_key q) True q w)
      in if q_identified q1 = PROCESS_NULL then refuse (access_set DBL_NOT_FOUND q1) w
         else (let result = CheckDest R (q_select_query q1) (q_value q1) (q_identified q1) None q1 w
               in if result = 0 \<or> result = 1 then run_then True run q1 w
                  else if result = 2 then refuse (invalid_type q1) w
                  else refuse q1 w))"

definition Prepare_transfer :: "'d rocks \<Rightarrow> 'd run \<Rightarrow> query \<Rightarrow> 'd world \<Rightarrow> 'd prepared" where
  "Prepare_transfer R run q w =
     (let q1 = snd (GetRegistry R (q_select_query q) (q_key q) True q w)
      in if q_identified q1 = PROCESS_NULL then refuse (access_set DBL_NOT_FOUND q1) w
         else (case q_transf_db q1 of
                 None \<Rightarrow> refuse (access_set DBL_UNABLE_WRITE q1) w
               | Some d \<Rightarrow>
                   (let result = CheckDest R (q_select_query q1) (q_key q1) (q_identified q1) (Some d) q1 w
                    in if result = 0 \<or> result = 1 then run_then True run q1 w
                       else if result = 2 then refuse (invalid_type q1) w
                       else refuse q1 w)))"

definition Prepare_renamenx :: "'d rocks \<Rightarrow> 'd run \<Rightarrow> query \<Rightarrow> 'd world \<Rightarrow> 'd prepared" where
  "Prepare_renamenx R run q w =
     (let q1 = snd (GetRegistry R (q_select_query q) (q_key q) True q w)
      in if q_identified q1 = PROCESS_NULL then refuse (access_set DBL_NOT_FOUND q1) w
         else (let result = CheckDest R (q_select_query q1) (q_value q1) (q_identified q1) None q1 w
               in if result = 0 then run_then True run q1 w
                  else refuse (access_set DBL_ENTRY_EXISTS q1) w))"

definition Prepare_clone :: "'d rocks \<Rightarrow> 'd run \<Rightarrow> query \<Rightarrow> 'd world \<Rightarrow> 'd prepared" where
  "Prepare_clone R run q w =
     (let q1 = snd (GetRegistry R (q_select_query q) (q_key q) True q w);
          result = CheckDest R (convto_num_uint (q_value q1)) (q_key q1) (q_identified q1) None q1 w
      in if q_identified q1 = PROCESS_NULL then refuse (not_found_null q1) w
         else if result = 0 \<or> result = 1 then run_then True run q1 w
         else if result = 2 then refuse (invalid_type q1) w
         else refuse q1 w)"

definition Prepare_move :: "'d rocks \<Rightarrow> 'd run \<Rightarrow> query \<Rightarrow> 'd world \<Rightarrow> 'd prepared" where
  "Prepare_move R run q w =
     (let q1 = snd (GetRegistry R (q_select_query q) (q_key q) True q w)
      in if q_identified q1 = PROCESS_NULL then refuse (access_set DBL_NOT_FOUND q1) w
         else (let result = CheckDest R (convto_num_uint (q_value q1)) (q_key q1) (q_identified q1) None q1 w
               in if result = 0 \<or> result = 1 then run_then True run q1 w
                  else if result = 2 then refuse (invalid_type q1) w
                  else refuse q1 w))"

definition Prepare_copy :: "'d rocks \<Rightarrow> 'd run \<Rightarrow> query \<Rightarrow> 'd world \<Rightarrow> 'd prepared" where
  "Prepare_copy R run q w =
     (let q1 = snd (GetRegistry R (q_select_query q) (q_key q) True q w);
          result = CheckDest R (q_select_query q1) (q_value q1) (q_identified q1) None q1 w
      in if result = 0 \<or> result = 1 then run_then True run q1 w
         else if result = 2 then refuse (invalid_type q1) w
         else if q_identified q1 = PROCESS_NULL then refuse (not_found_null q1) w
         else refuse q1 w)"

definition Prepare_future :: "'d rocks \<Rightarrow> 'd run \<Rightarrow> query \<Rightarrow> 'd world \<Rightarrow> 'd prepared" where
  "Prepare_future R run q w =
     (let (found, q1) = GetRegistry R (q_select_query q) (q_key q) False q w
      in if found then
           (if q_identified q1 = q_base_request q1 then run_then True run q1 w
            else refuse (invalid_type q1) w)
         else run_then True run q1 w)"

definition Prepare_future_run :: "'d rocks \<Rightarrow> 'd run \<Rightarrow> query \<Rightarrow> 'd world \<Rightarrow> 'd prepared" where
  "Prepare_future_run R run q w =
     (let (found, q1) = GetRegistry R (q_select_query q) (q_key q) False q w
      in if found then
           (if q_identified q1 = q_base_request q1 then run_then True run q1 w
            else refuse (invalid_type q1) (DelFuture R q1 w))
         else run_then False run q1 w)"

definition Prepare_expire :: "'d rocks \<Rightarrow> 'd run \<Rightarrow> query \<Rightarrow> 'd world \<Rightarrow> 'd prepared" where
  "Prepare_expire R run q w =
     (let (found, q1) = GetRegistry R (q_select_query q) (q_key q) False q w
      in if found then
           (if q_identified q1 = q_base_request q1 then run_then True run q1 w
            else refuse (invalid_type q1) w)
         else refuse (access_set DBL_NOT_FOUND q1) w)"

definition Prepare_iter :: "'d rocks \<Rightarrow> 'd run \<Rightarrow> query \<Rightarrow> 'd world \<Rightarrow> 'd prepared" where
  "Prepare_iter R run q w =
     (let (found, q1) = GetRegistry R (q_select_query q) (q_key q) True q w
      in if found then
           (if q_identified q1 = q_base_request q1 then run_then True run q1 w
            else refuse (invalid_type q1) w)
         else refuse q1 w)"

definition Prepare_delete :: "'d rocks \<Rightarrow> 'd run \<Rightarrow> query \<Rightarrow> 'd world \<Rightarrow> 'd prepared" where
  "Prepare_delete R run q w =
     (let (found, q1) = GetRegistry R (q_select_query q) (q_key q) False q w
      in if found then run_then True run q1 w
         else if q_identified q1 = PROCESS_NULL then refuse (not_found_null q1) w
         else refuse q1 w)"

definition Prepare :: "'d rocks \<Rightarrow> 'd run \<Rightarrow> query \<Rightarrow> 'd world \<Rightarrow> 'd prepared" where
  "Prepare R run q w =
     (let (ok, q1) = Check q w
      in if \<not> ok then refuse q1 w
         else (let (ok, q2) = CheckKey q1
               in if \<not> ok then refuse q2 w
                  else (case q_type q2 of
                      QUERY_TYPE_WRITE \<Rightarrow> Prepare_write R run q2 w
                    | QUERY_TYPE_LAT \<Rightarrow> Prepare_read R run q2 w
                    | QUERY_TYPE_LONG \<Rightarrow> Prepare_read R run q2 w
                    | QUERY_TYPE_READ \<Rightarrow> Prepare_read R run q2 w
                    | QUERY_TYPE_READ_ALLOW \<Rightarrow> Prepare_read_allow R run q2 w
                    | QUERY_TYPE_DIFF \<Rightarrow> Prepare_diff R run q2 w
                    | QUERY_TYPE_RENAME \<Rightarrow> Prepare_rename R run q2 w
                    | QUERY_TYPE_TRANSFER \<Rightarrow> Prepare_transfer R run q2 w
                    | QUERY_TYPE_RENAMENX \<Rightarrow> Prepare_renamenx R run q2 w
                    | QUERY_TYPE_CLONE \<Rightarrow> Prepare_clone R run q2 w
                    | QUERY_TYPE_MOVE \<Rightarrow> Prepare_move R run q2 w
                    | QUERY_TYPE_COPY \<Rightarrow> Prepare_copy R run q2 w
                    | QUERY_TYPE_EXISTS \<Rightarrow>
                        run_then True run (snd (GetRegistry R (q_select_query q2) (q_key q2) False q2 w)) w
                    | QUERY_TYPE_TYPE \<Rightarrow>
                        run_then True run (snd (GetRegistry R (q_select_query q2) (q_key q2) False q2 w)) w
                    | QUERY_TYPE_SKIP \<Rightarrow> run_then True run q2 w
                    | QUERY_TYPE_FUTURE \<Rightarrow> Prepare_future R run q2 w
                    | QUERY_TYPE_FUTURE_RUN \<Rightarrow> Prepare_future_run R run q2 w
                    | QUERY_TYPE_EXPIRE \<Rightarrow> Prepare_expire R run q2 w
                    | QUERY_TYPE_ITER \<Rightarrow> Prepare_iter R run q2 w
                    | QUERY_TYPE_DELETE \<Rightarrow> Prepare_delete R run q2 w
                    | _ \<Rightarrow> refuse q2 w)))"

section \<open>The keys of the store\<close>

lemma append_colon_inject:
  "CHR '':'' \<notin> set a \<Longrightarrow> CHR '':'' \<notin> set b \<Longrightarrow> a @ CHR '':'' # x = b @ CHR '':'' # y \<longleftrightarrow> a = b \<and> x = y"
proof (induction a arbitrary: b)
  case Nil
  then show ?case by (cases b) auto
next
  case (Cons c a)
  then show ?case by (cases b) auto
qed

lemma raw_key_inject [simp]: "raw_key k s t = raw_key k' s' t' \<longleftrightarrow> k = k' \<and> s = s' \<and> t = t'"
  by (simp add: raw_key_def append_colon_inject)

lemma expire_record_raw: "expire_record k s n = raw_key k s (INT_EXPIRE @ '':'' @ n)"
  by (simp add: expire_record_def raw_key_def)

lemma future_record_raw: "future_record k s n = raw_key k s (INT_FUTURE @ '':'' @ n)"
  by (simp add: future_record_def raw_key_def)

lemma TypeRegs_no_record:
  "t \<in> set TypeRegs \<Longrightarrow> t \<noteq> INT_EXPIRE @ '':'' @ n" "t \<in> set TypeRegs \<Longrightarrow> t \<noteq> INT_FUTURE @ '':'' @ n"
  by (auto simp: TypeRegs_def INT_defs)

lemma records_apart [simp]:
  "t \<in> set TypeRegs \<Longrightarrow> raw_key k s t \<noteq> expire_record k' s' n"
  "t \<in> set TypeRegs \<Longrightarrow> raw_key k s t \<noteq> future_record k' s' n"
  "expire_record k s n \<noteq> future_record k' s' n'"
  "expire_record k s n = expire_record k' s' n' \<longleftrightarrow> k = k' \<and> s = s' \<and> n = n'"
  "future_record k s n = future_record k' s' n' \<longleftrightarrow> k = k' \<and> s = s' \<and> n = n'"
  using TypeRegs_no_record by (auto simp: expire_record_raw future_record_raw INT_defs)

lemmas records_apart_sym [simp] = records_apart(1,2) [THEN not_sym]

text \<open>
  C29: The names under which the store keeps data are unambiguous: key, select and type are
  determined by the stored name, and the names of values, expire records and future records never
  coincide, whatever bytes the keys have.
\<close>

theorem stored_names_apart:
  assumes "t \<in> set TypeRegs"
  shows "(raw_key k s t = raw_key k' s' t' \<longleftrightarrow> k = k' \<and> s = s' \<and> t = t') \<and>
    raw_key k s t \<noteq> expire_record k' s' n \<and> raw_key k s t \<noteq> future_record k' s' n \<and>
    expire_record k s n \<noteq> future_record k' s' n'"
  using assms by simp

lemma stored_names_apart_witness:
  "raw_key ''a'' 1 INT_KEY \<noteq> raw_key ''a'' 1 INT_LIST \<and> raw_key ''a'' 1 INT_KEY \<noteq> expire_record ''a'' 1 ''db''"
proof -
  have "INT_KEY \<in> set TypeRegs" "INT_KEY \<noteq> INT_LIST" by (simp_all add: TypeRegs_def INT_defs)
  with stored_names_apart [of INT_KEY "''a''" 1 "''a''" 1 INT_LIST "''db''" "''db''"] show ?thesis by blast
qed

lemma PROCESS_NULL_no_type: "PROCESS_NULL \<notin> set TypeRegs"
  by (simp add: TypeRegs_def INT_defs)

lemma INT_in_TypeRegs [simp]:
  "INT_KEY \<in> set TypeRegs" "INT_MAP \<in> set TypeRegs" "INT_LIST \<in> set TypeRegs"
  "INT_GEO \<in> set TypeRegs" "INT_MMAP \<in> set TypeRegs" "INT_VECTOR \<in> set TypeRegs"
  "INT_FUTURE \<in> set TypeRegs"
  by (simp_all add: TypeRegs_def)

section \<open>What the store operations do to the contents\<close>

abbreviation holds :: "('d \<Rightarrow> string \<rightharpoonup> string) \<Rightarrow> db \<Rightarrow> 'd world \<Rightarrow> string \<rightharpoonup> string" where
  "holds view d w \<equiv> view (rocks_of d w)"

lemma rget_view: "rocks_ok R view \<Longrightarrow>
  rget R s k = (case view s k of Some v \<Rightarrow> (True, v) | None \<Rightarrow> (False, []))"
  by (simp add: rocks_ok_def)

lemma rwrite_view: "rocks_ok R view \<Longrightarrow> rwrite R s b = (ok, s') \<Longrightarrow>
  view s' = (if ok then fold apply_wop b (view s) else view s)"
  unfolding rocks_ok_def by blast

lemma batch_on_eq:
  "batch_on R d b w = (ok, w') \<Longrightarrow> \<exists>s. rwrite R (rocks_of d w) b = (ok, s) \<and> w' = set_rocks d s w"
  by (auto simp: batch_on_def split: prod.splits)

lemma batch_on_view:
  assumes "rocks_ok R view" "batch_on R d b w = (ok, w')"
  shows "holds view d' w' = (if d' = d \<and> ok then fold apply_wop b (holds view d w) else holds view d' w)"
    and "w_expires w' = w_expires w" "w_futures w' = w_futures w" "w_now w' = w_now w"
    "w_results w' = w_results w" "w_interrupts w' = w_interrupts w"
    "d_name (w_dbs w' d') = d_name (w_dbs w d')" "d_closing (w_dbs w' d') = d_closing (w_dbs w d')"
  using batch_on_eq [OF assms(2)] by (auto simp: rwrite_view [OF assms(1)] split: if_splits)

lemma Write_view:
  assumes "rocks_ok R view" "Write R k v q w = (ok, w')"
  shows "holds view d w' =
      (if d = q_database q \<and> ok then (holds view d w)(k \<mapsto> v) else holds view d w)"
    and "w_expires w' = w_expires w" "w_futures w' = w_futures w" "w_now w' = w_now w"
    "w_results w' = w_results w" "w_interrupts w' = w_interrupts w"
    "d_name (w_dbs w' d) = d_name (w_dbs w d)" "d_closing (w_dbs w' d) = d_closing (w_dbs w d)"
  using batch_on_view [OF assms(1) assms(2) [unfolded Write_def]] by (auto simp: apply_wop_def)

lemma Delete_view:
  assumes "rocks_ok R view"
  obtains (deleted) "\<And>d. holds view d (Delete R k q w) =
      (if d = q_database q then (holds view d w)(k := None) else holds view d w)"
  | (failed) "\<And>d. holds view d (Delete R k q w) = holds view d w"
proof -
  obtain ok w' where b: "batch_on R (q_database q) [WDelete k] w = (ok, w')"
    by fastforce
  then have w': "Delete R k q w = w'" by (simp add: Delete_def)
  note v = batch_on_view(1) [OF assms b]
  show thesis
  proof (cases ok)
    case True
    show thesis by (rule deleted) (use True in \<open>simp add: w' v apply_wop_def\<close>)
  next
    case False
    show thesis by (rule failed) (use False in \<open>simp add: w' v\<close>)
  qed
qed

lemma Delete_frame [simp]:
  "w_expires (Delete R k q w) = w_expires w" "w_futures (Delete R k q w) = w_futures w"
  "w_now (Delete R k q w) = w_now w" "w_results (Delete R k q w) = w_results w"
  "w_interrupts (Delete R k q w) = w_interrupts w"
  "d_name (w_dbs (Delete R k q w) d) = d_name (w_dbs w d)"
  by (auto simp: Delete_def batch_on_def split: prod.splits)

lemma Get_view:
  "rocks_ok R view \<Longrightarrow> \<not> rd_loaded (q_mapped q) \<Longrightarrow>
   Get R k q w =
     (case holds view (q_database q) w k of
        Some v \<Rightarrow> \<lparr>rd_status = True, rd_value = v, rd_loaded = False\<rparr>
      | None \<Rightarrow> \<lparr>rd_status = False, rd_value = [], rd_loaded = False\<rparr>)"
  by (simp add: Get_def rget_view split: option.splits)

text \<open>The stored types of a key, in the order the registry is searched.\<close>

definition types_of :: "(string \<rightharpoonup> string) \<Rightarrow> string \<Rightarrow> u32 \<Rightarrow> string list" where
  "types_of m k s = filter (\<lambda>t. m (raw_key k s t) \<noteq> None) TypeRegs"

lemma types_of_set: "t \<in> set (types_of m k s) \<longleftrightarrow> t \<in> set TypeRegs \<and> m (raw_key k s t) \<noteq> None"
  by (auto simp: types_of_def)

lemma registry_loop_eq:
  "rocks_ok R view \<Longrightarrow>
   registry_loop R st s k ts =
     (case filter (\<lambda>t. view st (raw_key k s t) \<noteq> None) ts of
        [] \<Rightarrow> None
      | t # _ \<Rightarrow> Some (t, the (view st (raw_key k s t))))"
  by (induction ts) (auto simp: rget_view split: option.splits)

text \<open>What the query knows after a lookup that found the key, and after one that did not.\<close>

definition located :: "query \<Rightarrow> string \<Rightarrow> string option \<Rightarrow> query" where
  "located q t loaded =
     (let q1 = q\<lparr>q_identified := t, q_dest := raw_key (q_key q) (q_select_query q) t\<rparr>
      in case loaded of
           None \<Rightarrow> q1
         | Some v \<Rightarrow> q1\<lparr>q_mapped := \<lparr>rd_status = True, rd_value = v, rd_loaded = True\<rparr>\<rparr>)"

lemma GetRegistry_eq:
  assumes "rocks_ok R view"
  shows "GetRegistry R (q_select_query q) (q_key q) do_load q w =
    (case types_of (holds view (q_database q) w) (q_key q) (q_select_query q) of
       [] \<Rightarrow> (False, q\<lparr>q_identified := PROCESS_NULL\<rparr>)
     | t # _ \<Rightarrow>
         (True, located q t
            (if do_load then holds view (q_database q) w (raw_key (q_key q) (q_select_query q) t) else None)))"
proof (cases "types_of (holds view (q_database q) w) (q_key q) (q_select_query q)")
  case Nil
  then show ?thesis
    by (simp add: GetRegistry_def registry_loop_eq [OF assms] types_of_def)
next
  case (Cons t ts)
  then have "holds view (q_database q) w (raw_key (q_key q) (q_select_query q) t) \<noteq> None"
    using types_of_set [of t] by (metis list.set_intros(1))
  with Cons show ?thesis
    by (auto simp: GetRegistry_def registry_loop_eq [OF assms] types_of_def SetDest_def located_def
        Let_def)
qed

lemma located_fields [simp]:
  "q_identified (located q t l) = t" "q_base_request (located q t l) = q_base_request q"
  "q_dest (located q t l) = raw_key (q_key q) (q_select_query q) t"
  "q_key (located q t l) = q_key q" "q_select_query (located q t l) = q_select_query q"
  "q_database (located q t l) = q_database q" "q_value (located q t l) = q_value q"
  "q_access (located q t l) = q_access q" "q_id (located q t l) = q_id q"
  by (auto simp: located_def Let_def split: option.splits)

lemma located_mapped [simp]:
  "q_mapped (located q t (Some v)) = \<lparr>rd_status = True, rd_value = v, rd_loaded = True\<rparr>"
  "q_mapped (located q t None) = q_mapped q"
  by (simp_all add: located_def)

lemma Get_located [simp]:
  "Get R k (located q t (Some v)) w = \<lparr>rd_status = True, rd_value = v, rd_loaded = True\<rparr>"
  by (simp add: Get_def)

section \<open>One type per key\<close>

text \<open>
  The invariant of the store: no name in a select is held by two types.  \<open>Run\<close> of a query that
  writes keeps it when it changes the text of its own \<open>dest\<close> only.
\<close>

definition one_type :: "(string \<rightharpoonup> string) \<Rightarrow> bool" where
  "one_type m \<longleftrightarrow> (\<forall>k s. length (types_of m k s) \<le> 1)"

definition touches_only :: "('d \<Rightarrow> string \<rightharpoonup> string) \<Rightarrow> db \<Rightarrow> string \<Rightarrow> 'd world \<Rightarrow> 'd world \<Rightarrow> bool" where
  "touches_only view d0 dest w w' \<longleftrightarrow>
     (\<forall>d k s t. t \<in> set TypeRegs \<longrightarrow> \<not> (d = d0 \<and> raw_key k s t = dest) \<longrightarrow>
        holds view d w' (raw_key k s t) = holds view d w (raw_key k s t))"

definition own_dest :: "('d \<Rightarrow> string \<rightharpoonup> string) \<Rightarrow> 'd run \<Rightarrow> bool" where
  "own_dest view run \<longleftrightarrow>
     (\<forall>q w q' w'. run q w = Inr (q', w') \<longrightarrow> touches_only view (q_database q) (q_dest q) w w')"

lemma own_destD:
  "own_dest view run \<Longrightarrow> run q w = Inr (q', w') \<Longrightarrow> touches_only view (q_database q) (q_dest q) w w'"
  by (simp add: own_dest_def)

lemma touches_only_refl [simp, intro]: "touches_only view d dest w w"
  by (simp add: touches_only_def)

lemma touches_only_trans:
  "touches_only view d dest w w' \<Longrightarrow> touches_only view d dest w' w'' \<Longrightarrow> touches_only view d dest w w''"
  by (simp add: touches_only_def)

lemma touches_only_Write:
  "rocks_ok R view \<Longrightarrow> Write R (q_dest q) v q w = (ok, w') \<Longrightarrow>
   touches_only view (q_database q) (q_dest q) w w'"
  by (auto simp: touches_only_def Write_view)

lemma touches_only_Delete:
  "rocks_ok R view \<Longrightarrow> touches_only view (q_database q) (q_dest q) w (Delete R (q_dest q) q w)"
  by (rule Delete_view [of R view "q_dest q" q w]) (auto simp: touches_only_def)

lemma touches_only_frame:
  "touches_only view d dest w w' \<Longrightarrow> w_dbs w'' = w_dbs w' \<Longrightarrow> touches_only view d dest w w''"
  by (simp add: touches_only_def)

lemma distinct_TypeRegs: "distinct TypeRegs"
  by (simp add: TypeRegs_def INT_defs)

lemma one_type_iff:
  "one_type m \<longleftrightarrow> (\<forall>k s. \<forall>t\<in>set TypeRegs. \<forall>t'\<in>set TypeRegs.
     m (raw_key k s t) \<noteq> None \<longrightarrow> m (raw_key k s t') \<noteq> None \<longrightarrow> t = t')"
proof -
  have le1: "length (filter P xs) \<le> 1 \<longleftrightarrow> (\<forall>t\<in>set xs. \<forall>t'\<in>set xs. P t \<longrightarrow> P t' \<longrightarrow> t = t')"
    if "distinct xs" for xs :: "string list" and P
    using that by (induction xs) (auto simp: filter_empty_conv le_Suc_eq)
  show ?thesis
    unfolding one_type_def types_of_def le1 [OF distinct_TypeRegs] ..
qed

lemma one_type_touch:
  assumes "touches_only view d0 (raw_key k0 s0 t0) w w'" "\<forall>d. one_type (holds view d w)"
    and "t0 \<in> set TypeRegs" "\<forall>t \<in> set (types_of (holds view d0 w) k0 s0). t = t0"
  shows "\<forall>d. one_type (holds view d w')"
proof
  fix d
  have same: "holds view d w' (raw_key k s t) = holds view d w (raw_key k s t)"
    if "t \<in> set TypeRegs" "\<not> (d = d0 \<and> k = k0 \<and> s = s0 \<and> t = t0)" for k s t
    using assms(1) that by (auto simp: touches_only_def)
  show "one_type (holds view d w')"
    unfolding one_type_iff
  proof (intro allI ballI impI)
    fix k s t t'
    assume t: "t \<in> set TypeRegs" "t' \<in> set TypeRegs"
      "holds view d w' (raw_key k s t) \<noteq> None" "holds view d w' (raw_key k s t') \<noteq> None"
    show "t = t'"
    proof (cases "d = d0 \<and> k = k0 \<and> s = s0")
      case True
      have "u = t0" if "u \<in> set TypeRegs" "holds view d w' (raw_key k s u) \<noteq> None" for u
      proof (rule ccontr)
        assume "u \<noteq> t0"
        with same [OF that(1)] that have "holds view d w (raw_key k s u) \<noteq> None" by metis
        with True that(1) have "u \<in> set (types_of (holds view d0 w) k0 s0)"
          by (simp add: types_of_set)
        with assms(4) \<open>u \<noteq> t0\<close> show False by blast
      qed
      with t show ?thesis by metis
    next
      case False
      with t same have "holds view d w (raw_key k s t) \<noteq> None" "holds view d w (raw_key k s t') \<noteq> None"
        by metis+
      with assms(2) t show ?thesis unfolding one_type_iff by metis
    qed
  qed
qed

text \<open>Every outcome of the WRITE case: refused with the type it found, or run on its own text.\<close>

lemma Prepare_write_cases:
  assumes "rocks_ok R view"
  shows "Prepare_write R run q w =
    (case types_of (holds view (q_database q) w) (q_key q) (q_select_query q) of
       [] \<Rightarrow> run_then True run
              (q\<lparr>q_identified := PROCESS_NULL,
                 q_dest := raw_key (q_key q) (q_select_query q) (q_base_request q)\<rparr>) w
     | t # _ \<Rightarrow>
         (let q1 = located q t (holds view (q_database q) w (raw_key (q_key q) (q_select_query q) t))
          in if t = q_base_request q then run_then True run q1 w else refuse (invalid_type q1) w))"
  by (auto simp: Prepare_write_def GetRegistry_eq [OF assms] Let_def split: list.splits)

lemma Prepare_read_cases:
  assumes "rocks_ok R view"
  shows "Prepare_read R run q w =
    (case types_of (holds view (q_database q) w) (q_key q) (q_select_query q) of
       [] \<Rightarrow> refuse (access_set DBL_NOT_FOUND (q\<lparr>q_identified := PROCESS_NULL\<rparr>)) w
     | t # _ \<Rightarrow>
         (let q1 = located q t (holds view (q_database q) w (raw_key (q_key q) (q_select_query q) t))
          in if t = q_base_request q then run_then True run q1 w else refuse (invalid_type q1) w))"
  by (auto simp: Prepare_read_def GetRegistry_eq [OF assms] Let_def split: list.splits)

lemma Prepare_iter_cases:
  assumes "rocks_ok R view"
  shows "Prepare_iter R run q w =
    (case types_of (holds view (q_database q) w) (q_key q) (q_select_query q) of
       [] \<Rightarrow> refuse (q\<lparr>q_identified := PROCESS_NULL\<rparr>) w
     | t # _ \<Rightarrow>
         (let q1 = located q t (holds view (q_database q) w (raw_key (q_key q) (q_select_query q) t))
          in if t = q_base_request q then run_then True run q1 w else refuse (invalid_type q1) w))"
  by (auto simp: Prepare_iter_def GetRegistry_eq [OF assms] Let_def split: list.splits)

lemma Prepare_delete_cases:
  assumes "rocks_ok R view"
  shows "Prepare_delete R run q w =
    (case types_of (holds view (q_database q) w) (q_key q) (q_select_query q) of
       [] \<Rightarrow> refuse (not_found_null (q\<lparr>q_identified := PROCESS_NULL\<rparr>)) w
     | t # _ \<Rightarrow> run_then True run (located q t None) w)"
  by (auto simp: Prepare_delete_def GetRegistry_eq [OF assms] Let_def split: list.splits)

lemma Prepare_write_one_type:
  assumes "rocks_ok R view" "own_dest view run" "q_base_request q \<in> set TypeRegs"
    and "\<forall>d. one_type (holds view d w)" "Prepare_write R run q w = Inr (b, q', w')"
  shows "\<forall>d. one_type (holds view d w')"
proof (cases "types_of (holds view (q_database q) w) (q_key q) (q_select_query q)")
  case Nil
  with assms(2,5) have "touches_only view (q_database q)
      (raw_key (q_key q) (q_select_query q) (q_base_request q)) w w'"
    by (auto simp: Prepare_write_cases [OF assms(1)] run_then_def bind_res_Inr_iff dest!: own_destD)
  from one_type_touch [OF this assms(4,3)] Nil show ?thesis by simp
next
  case (Cons t ts)
  then have t: "t \<in> set TypeRegs"
    using types_of_set [of t] by (metis list.set_intros(1))
  have only: "\<forall>u \<in> set (types_of (holds view (q_database q) w) (q_key q) (q_select_query q)). u = t"
    using assms(4) Cons by (auto simp: one_type_def dest!: spec [of _ "q_database q"] spec [of _ "q_key q"]
        spec [of _ "q_select_query q"])
  show ?thesis
  proof (cases "t = q_base_request q")
    case True
    with assms(2,5) Cons have "touches_only view (q_database q) (raw_key (q_key q) (q_select_query q) t) w w'"
      by (auto simp: Prepare_write_cases [OF assms(1)] run_then_def bind_res_Inr_iff dest!: own_destD)
    from one_type_touch [OF this assms(4) t only] show ?thesis .
  next
    case False
    with assms(4,5) Cons show ?thesis
      by (simp add: Prepare_write_cases [OF assms(1)])
  qed
qed

section \<open>The database a client sees\<close>

text \<open>
  The abstract database of one handle: a name in a select holds nothing, or one type and a text.
\<close>

definition key_view :: "(string \<rightharpoonup> string) \<Rightarrow> string \<Rightarrow> u32 \<Rightarrow> (string \<times> string) option" where
  "key_view m k s =
     (case types_of m k s of [] \<Rightarrow> None | t # _ \<Rightarrow> Some (t, the (m (raw_key k s t))))"

lemma key_view_None: "key_view m k s = None \<longleftrightarrow> types_of m k s = []"
  by (auto simp: key_view_def split: list.splits)

lemma key_view_Some:
  "key_view m k s = Some (t, v) \<Longrightarrow>
   t \<in> set TypeRegs \<and> m (raw_key k s t) = Some v \<and> (\<exists>ts. types_of m k s = t # ts)"
proof -
  assume a: "key_view m k s = Some (t, v)"
  then obtain ts where ts: "types_of m k s = t # ts" "v = the (m (raw_key k s t))"
    by (auto simp: key_view_def split: list.splits)
  then have "t \<in> set (types_of m k s)" by simp
  then have "t \<in> set TypeRegs" "m (raw_key k s t) \<noteq> None"
    unfolding types_of_set by simp_all
  with ts show ?thesis by auto
qed

lemma key_view_cong:
  "(\<And>t. t \<in> set TypeRegs \<Longrightarrow> m (raw_key k s t) = m' (raw_key k s t)) \<Longrightarrow> key_view m k s = key_view m' k s"
proof -
  assume a: "\<And>t. t \<in> set TypeRegs \<Longrightarrow> m (raw_key k s t) = m' (raw_key k s t)"
  have t: "types_of m k s = types_of m' k s"
    unfolding types_of_def by (rule filter_cong) (auto simp: a)
  have "the (m (raw_key k s t)) = the (m' (raw_key k s t))" if "t \<in> set (types_of m' k s)" for t
    using that by (simp add: types_of_set a)
  with t show ?thesis
    by (auto simp: key_view_def split: list.splits)
qed

lemma key_view_put:
  assumes "t \<in> set TypeRegs" "key_view m k s = None \<or> (\<exists>v0. key_view m k s = Some (t, v0))"
  shows "key_view (m(raw_key k s t \<mapsto> v)) k' s' =
    (if k' = k \<and> s' = s then Some (t, v) else key_view m k' s')"
proof (cases "k' = k \<and> s' = s")
  case False
  then show ?thesis by (subst key_view_cong [of _ _ _ m]) auto
next
  case True
  have "types_of (m(raw_key k s t \<mapsto> v)) k s = (if key_view m k s = None then [t] else types_of m k s)"
  proof (cases "key_view m k s = None")
    case True
    then have "\<forall>u\<in>set TypeRegs. m (raw_key k s u) = None"
      by (simp add: key_view_None types_of_def filter_empty_conv)
    then have "filter (\<lambda>u. (m(raw_key k s t \<mapsto> v)) (raw_key k s u) \<noteq> None) TypeRegs
        = filter (\<lambda>u. u = t) TypeRegs"
      by (intro filter_cong) auto
    also have "\<dots> = [t]"
      using assms(1) by (auto simp: TypeRegs_def INT_defs)
    finally show ?thesis
      using True by (simp add: types_of_def)
  next
    case False
    with assms(2) have "m (raw_key k s t) \<noteq> None"
      using key_view_Some by fastforce
    then have "types_of (m(raw_key k s t \<mapsto> v)) k s = types_of m k s"
      unfolding types_of_def by (intro filter_cong) auto
    with False show ?thesis by (simp only: if_False)
  qed
  with True assms(2) show ?thesis
    by (auto simp: key_view_def split: list.splits if_splits)
qed

lemma key_view_delete:
  assumes "one_type m" "key_view m k s = Some (t, v)"
  shows "key_view (m(raw_key k s t := None)) k' s' =
    (if k' = k \<and> s' = s then None else key_view m k' s')"
proof (cases "k' = k \<and> s' = s")
  case False
  then show ?thesis by (subst key_view_cong [of _ _ _ m]) auto
next
  case True
  have "m (raw_key k s u) = None" if "u \<in> set TypeRegs" "u \<noteq> t" for u
    using assms that key_view_Some [OF assms(2)] unfolding one_type_iff by (metis option.distinct(1))
  then have "types_of (m(raw_key k s t := None)) k s = []"
    by (auto simp: types_of_def filter_empty_conv)
  with True show ?thesis by (simp add: key_view_None)
qed

lemma key_view_record [simp]:
  "key_view (m(expire_record k s n := x)) k' s' = key_view m k' s'"
  "key_view (m(future_record k s n := x)) k' s' = key_view m k' s'"
  by (rule key_view_cong; simp)+

abbreviation view_of :: "('d \<Rightarrow> string \<rightharpoonup> string) \<Rightarrow> query \<Rightarrow> 'd world \<Rightarrow> string \<Rightarrow> u32 \<Rightarrow> (string \<times> string) option" where
  "view_of view q w \<equiv> key_view (holds view (q_database q) w)"

abbreviation own_view :: "('d \<Rightarrow> string \<rightharpoonup> string) \<Rightarrow> query \<Rightarrow> 'd world \<Rightarrow> (string \<times> string) option" where
  "own_view view q w \<equiv> view_of view q w (q_key q) (q_select_query q)"

text \<open>A query as it reaches \<open>Prepare\<close> on an open database, with its key when it needs one.\<close>

definition ready :: "query \<Rightarrow> 'd world \<Rightarrow> bool" where
  "ready q w \<longleftrightarrow>
     \<not> d_closing (w_dbs w (q_database q)) \<and> (q_key_required q \<longrightarrow> q_key q \<noteq> []) \<and>
     \<not> rd_loaded (q_mapped q) \<and> \<not> q_finished q"

text \<open>\<open>found_as\<close>: the query after a lookup that found and loaded its key.\<close>

definition found_as :: "query \<Rightarrow> string \<Rightarrow> string \<Rightarrow> query" where
  "found_as q t v = located (access_set DBL_STATUS_OK q) t (Some v)"

definition created_as :: "query \<Rightarrow> query" where
  "created_as q = q\<lparr>q_access := DBL_STATUS_OK, q_identified := PROCESS_NULL,
     q_dest := raw_key (q_key q) (q_select_query q) (q_base_request q)\<rparr>"

lemma found_as_fields [simp]:
  "q_identified (found_as q t v) = t" "q_base_request (found_as q t v) = q_base_request q"
  "q_dest (found_as q t v) = raw_key (q_key q) (q_select_query q) t"
  "q_key (found_as q t v) = q_key q" "q_select_query (found_as q t v) = q_select_query q"
  "q_database (found_as q t v) = q_database q" "q_value (found_as q t v) = q_value q"
  "q_access (found_as q t v) = DBL_STATUS_OK" "q_id (found_as q t v) = q_id q"
  "q_mapped (found_as q t v) = \<lparr>rd_status = True, rd_value = v, rd_loaded = True\<rparr>"
  "q_finished (found_as q t v) = q_finished q" "q_hesh (found_as q t v) = q_hesh q"
  "q_offset (found_as q t v) = q_offset q" "q_limit (found_as q t v) = q_limit q"
  "q_function (found_as q t v) = q_function q" "q_flags (found_as q t v) = q_flags q"
  "q_response (found_as q t v) = q_response q" "q_newkey (found_as q t v) = q_newkey q"
  by (simp_all add: found_as_def located_def)

lemma created_as_fields [simp]:
  "q_dest (created_as q) = raw_key (q_key q) (q_select_query q) (q_base_request q)"
  "q_key (created_as q) = q_key q" "q_select_query (created_as q) = q_select_query q"
  "q_database (created_as q) = q_database q" "q_value (created_as q) = q_value q"
  "q_access (created_as q) = DBL_STATUS_OK" "q_id (created_as q) = q_id q"
  "q_mapped (created_as q) = q_mapped q" "q_finished (created_as q) = q_finished q"
  "q_hesh (created_as q) = q_hesh q" "q_base_request (created_as q) = q_base_request q"
  "q_identified (created_as q) = PROCESS_NULL" "q_response (created_as q) = q_response q"
  by (simp_all add: created_as_def)

lemma Get_found_as [simp]:
  "Get R k (found_as q t v) w = \<lparr>rd_status = True, rd_value = v, rd_loaded = True\<rparr>"
  by (simp add: Get_def)

lemma Get_created_as:
  assumes "rocks_ok R view" "ready q w" "own_view view q w = None" "q_base_request q \<in> set TypeRegs"
  shows "Get R (raw_key (q_key q) (q_select_query q) (q_base_request q)) (created_as q) w =
    \<lparr>rd_status = False, rd_value = [], rd_loaded = False\<rparr>"
proof -
  have "holds view (q_database q) w (raw_key (q_key q) (q_select_query q) (q_base_request q)) = None"
    using assms(3,4) by (simp add: key_view_None types_of_def filter_empty_conv)
  with assms(1,2) show ?thesis
    by (subst Get_view [OF assms(1)]) (auto simp: ready_def)
qed

lemma Prepare_ready:
  assumes "ready q w"
  shows "Check q w = (True, access_set DBL_STATUS_OK q)"
    "CheckKey (access_set DBL_STATUS_OK q) = (True, access_set DBL_STATUS_OK q)"
  using assms by (auto simp: ready_def Check_def CheckKey_def)

text \<open>The outcome of \<open>Prepare\<close> by what the abstract database holds under the name.\<close>

lemma Prepare_WRITE:
  assumes "rocks_ok R view" "ready q w" "q_type q = QUERY_TYPE_WRITE"
  shows "Prepare R run q w =
    (case own_view view q w of
       None \<Rightarrow> run_then True run (created_as q) w
     | Some (t, v) \<Rightarrow>
         if t = q_base_request q then run_then True run (found_as q t v) w
         else refuse (invalid_type (found_as q t v)) w)"
proof (cases "own_view view q w")
  case None
  then show ?thesis
    using assms(3) key_view_None [of "holds view (q_database q) w" "q_key q" "q_select_query q"]
    by (simp add: Prepare_def Prepare_ready [OF assms(2)] Prepare_write_cases [OF assms(1)] created_as_def)
next
  case (Some a)
  then obtain t v where tv: "own_view view q w = Some (t, v)" by (cases a) auto
  from key_view_Some [OF tv] obtain ts where
    "types_of (holds view (q_database q) w) (q_key q) (q_select_query q) = t # ts"
    "holds view (q_database q) w (raw_key (q_key q) (q_select_query q) t) = Some v" by auto
  with tv show ?thesis
    using assms(3)
    by (simp add: Prepare_def Prepare_ready [OF assms(2)] Prepare_write_cases [OF assms(1)]
        found_as_def Let_def)
qed

lemma Prepare_READ:
  assumes "rocks_ok R view" "ready q w" "q_type q = QUERY_TYPE_READ"
  shows "Prepare R run q w =
    (case own_view view q w of
       None \<Rightarrow> refuse (q\<lparr>q_access := DBL_NOT_FOUND, q_identified := PROCESS_NULL\<rparr>) w
     | Some (t, v) \<Rightarrow>
         if t = q_base_request q then run_then True run (found_as q t v) w
         else refuse (invalid_type (found_as q t v)) w)"
proof (cases "own_view view q w")
  case None
  then show ?thesis
    using assms(3) key_view_None [of "holds view (q_database q) w" "q_key q" "q_select_query q"]
    by (simp add: Prepare_def Prepare_ready [OF assms(2)] Prepare_read_cases [OF assms(1)] created_as_def)
next
  case (Some a)
  then obtain t v where tv: "own_view view q w = Some (t, v)" by (cases a) auto
  from key_view_Some [OF tv] obtain ts where
    "types_of (holds view (q_database q) w) (q_key q) (q_select_query q) = t # ts"
    "holds view (q_database q) w (raw_key (q_key q) (q_select_query q) t) = Some v" by auto
  with tv show ?thesis
    using assms(3)
    by (simp add: Prepare_def Prepare_ready [OF assms(2)] Prepare_read_cases [OF assms(1)]
        found_as_def Let_def)
qed

lemma Prepare_ITER:
  assumes "rocks_ok R view" "ready q w" "q_type q = QUERY_TYPE_ITER"
  shows "Prepare R run q w =
    (case own_view view q w of
       None \<Rightarrow> refuse (q\<lparr>q_access := DBL_STATUS_OK, q_identified := PROCESS_NULL\<rparr>) w
     | Some (t, v) \<Rightarrow>
         if t = q_base_request q then run_then True run (found_as q t v) w
         else refuse (invalid_type (found_as q t v)) w)"
proof (cases "own_view view q w")
  case None
  then show ?thesis
    using assms(3) key_view_None [of "holds view (q_database q) w" "q_key q" "q_select_query q"]
    by (simp add: Prepare_def Prepare_ready [OF assms(2)] Prepare_iter_cases [OF assms(1)] created_as_def)
next
  case (Some a)
  then obtain t v where tv: "own_view view q w = Some (t, v)" by (cases a) auto
  from key_view_Some [OF tv] obtain ts where
    "types_of (holds view (q_database q) w) (q_key q) (q_select_query q) = t # ts"
    "holds view (q_database q) w (raw_key (q_key q) (q_select_query q) t) = Some v" by auto
  with tv show ?thesis
    using assms(3)
    by (simp add: Prepare_def Prepare_ready [OF assms(2)] Prepare_iter_cases [OF assms(1)]
        found_as_def Let_def)
qed

lemma Prepare_DELETE:
  assumes "rocks_ok R view" "ready q w" "q_type q = QUERY_TYPE_DELETE"
  shows "Prepare R run q w =
    (case own_view view q w of
       None \<Rightarrow> refuse (not_found_null (q\<lparr>q_access := DBL_STATUS_OK, q_identified := PROCESS_NULL\<rparr>)) w
     | Some (t, v) \<Rightarrow> run_then True run (located (access_set DBL_STATUS_OK q) t None) w)"
proof (cases "own_view view q w")
  case None
  then show ?thesis
    using assms(3) key_view_None [of "holds view (q_database q) w" "q_key q" "q_select_query q"]
    by (simp add: Prepare_def Prepare_ready [OF assms(2)] Prepare_delete_cases [OF assms(1)] created_as_def)
next
  case (Some a)
  then obtain t v where tv: "own_view view q w = Some (t, v)" by (cases a) auto
  from key_view_Some [OF tv] obtain ts where
    "types_of (holds view (q_database q) w) (q_key q) (q_select_query q) = t # ts"
    "holds view (q_database q) w (raw_key (q_key q) (q_select_query q) t) = Some v" by auto
  with tv show ?thesis
    using assms(3)
    by (simp add: Prepare_def Prepare_ready [OF assms(2)] Prepare_delete_cases [OF assms(1)]
        found_as_def Let_def)
qed

end
