(* ===== verification/QueryOutcomes.thy ===== *)
theory QueryOutcomes
  imports QueryBase
begin

text \<open>
  What the \<open>Run\<close> bodies share: the write-or-report idiom and the replies; and the vocabulary in
  which their theorems are stated: every branch of \<open>Prepare\<close> and \<open>Run\<close> as an outcome on the
  abstract database of \<open>key_view\<close>.
\<close>

section \<open>Shared idioms\<close>

abbreviation of_class :: "QUERY_TYPE \<Rightarrow> string \<Rightarrow> query \<Rightarrow> query" where
  "of_class t base q \<equiv> q\<lparr>q_type := t, q_base_request := base\<rparr>"

text \<open>\<open>if (this->Write(this->dest, v)) SetOK(); else access_set(DBL_UNABLE_WRITE);\<close>\<close>

definition write_dest :: "'d rocks \<Rightarrow> string \<Rightarrow> query \<Rightarrow> 'd world \<Rightarrow> query \<times> 'd world" where
  "write_dest R v q w =
     (let (ok, w1) = Write R (q_dest q) v q w
      in (if ok then SetOK q else access_set DBL_UNABLE_WRITE q, w1))"

definition Helpers_Format :: "string \<Rightarrow> string" where
  "Helpers_Format fmt = CHR 0x22 # c_str fmt @ [CHR 0x22]"

definition PROCESS_OK :: string where "PROCESS_OK = ''OK''"

section \<open>What a write does to the abstract database\<close>

lemma write_dest_cases:
  assumes "rocks_ok R view" "write_dest R v q w = (q', w')"
  obtains (written) "q' = SetOK q"
      "\<And>d. holds view d w' = (if d = q_database q then (holds view d w)(q_dest q \<mapsto> v) else holds view d w)"
      "w_expires w' = w_expires w" "w_futures w' = w_futures w"
  | (failed) "q' = access_set DBL_UNABLE_WRITE q" "\<And>d. holds view d w' = holds view d w"
      "w_expires w' = w_expires w" "w_futures w' = w_futures w"
proof -
  obtain ok w1 where w: "Write R (q_dest q) v q w = (ok, w1)" by fastforce
  with assms(2) have e: "w1 = w'" "q' = (if ok then SetOK q else access_set DBL_UNABLE_WRITE q)"
    by (auto simp: write_dest_def)
  note W = Write_view [OF assms(1) w, unfolded e(1)]
  show thesis
  proof (cases ok)
    case True
    show thesis by (rule written) (use e True W in auto)
  next
    case False
    show thesis by (rule failed) (use e False W in auto)
  qed
qed

text \<open>
  The world after one batch on one database: the batch is in, as a whole, or the store refused it;
  of the rest of the world (the other databases, the registries, the clock, the queues) nothing
  differs.
\<close>

definition submitted ::
  "'d rocks \<Rightarrow> ('d \<Rightarrow> string \<rightharpoonup> string) \<Rightarrow> db \<Rightarrow> wop list \<Rightarrow> 'd world \<Rightarrow> bool \<Rightarrow> 'd world \<Rightarrow> bool" where
  "submitted R view d b w ok w' \<longleftrightarrow> batch_on R d b w = (ok, w') \<and>
     holds view d w' = (if ok then fold apply_wop b (holds view d w) else holds view d w) \<and>
     (\<exists>s. w' = set_rocks d s w)"

lemma batch_submitted:
  assumes "rocks_ok R view" "batch_on R d b w = (ok, w')"
  shows "submitted R view d b w ok w'"
  using batch_on_view(1) [OF assms, of d] batch_on_eq [OF assms(2)] assms(2)
  by (auto simp: submitted_def)

lemma submittedD:
  assumes "submitted R view d b w ok w'"
  shows "holds view d w' = (if ok then fold apply_wop b (holds view d w) else holds view d w)"
    "d' \<noteq> d \<Longrightarrow> w_dbs w' d' = w_dbs w d'" "w_expires w' = w_expires w" "w_futures w' = w_futures w"
    "w_now w' = w_now w" "w_results w' = w_results w" "w_interrupts w' = w_interrupts w"
  using assms by (auto simp: submitted_def)

text \<open>The same up to the registry of timers, which goes with some of the batches.\<close>

definition submitted_timed ::
  "'d rocks \<Rightarrow> ('d \<Rightarrow> string \<rightharpoonup> string) \<Rightarrow> db \<Rightarrow> wop list \<Rightarrow> 'd world \<Rightarrow> bool \<Rightarrow> 'd world \<Rightarrow> bool" where
  "submitted_timed R view d b w ok w' \<longleftrightarrow>
     (\<exists>w1 e. submitted R view d b w ok w1 \<and> w' = (if ok then w1\<lparr>w_expires := e\<rparr> else w1))"

text \<open>
  The outcome of the write-or-report idiom: exactly the one write, and the status that the store's
  answer gives.
\<close>

definition wrote ::
  "'d rocks \<Rightarrow> ('d \<Rightarrow> string \<rightharpoonup> string) \<Rightarrow> query \<Rightarrow> 'd world \<Rightarrow> string \<Rightarrow> string \<Rightarrow> query \<Rightarrow> 'd world \<Rightarrow> bool" where
  "wrote R view q w t v q' w' \<longleftrightarrow>
     (\<exists>ok. submitted R view (q_database q) [WPut (raw_key (q_key q) (q_select_query q) t) v] w ok w' \<and>
        (if ok then q_finished q' else \<not> q_finished q' \<and> q_access q' = DBL_UNABLE_WRITE))"

lemma write_dest_wrote:
  assumes "rocks_ok R view" "write_dest R v q1 w = (q', w')"
    and "q_dest q1 = raw_key (q_key q) (q_select_query q) t" "q_database q1 = q_database q" "\<not> q_finished q1"
  shows "wrote R view q w t v q' w'"
proof -
  obtain ok where b: "batch_on R (q_database q) [WPut (raw_key (q_key q) (q_select_query q) t) v] w = (ok, w')"
    "q' = (if ok then SetOK q1 else access_set DBL_UNABLE_WRITE q1)"
    using assms(2-4) by (auto simp: write_dest_def Write_def split: prod.splits)
  with batch_submitted [OF assms(1) b(1)] assms(5) show ?thesis
    unfolding wrote_def by (intro exI [of _ ok]) auto
qed

text \<open>
  The contract of a query that stores the text \<open>v\<close> under its own name with type \<open>t\<close>: it
  finished and the abstract database changed there and nowhere else, or it reports the failed
  write and nothing changed.
\<close>

definition stored_or_failed ::
  "('d \<Rightarrow> string \<rightharpoonup> string) \<Rightarrow> query \<Rightarrow> 'd world \<Rightarrow> string \<Rightarrow> string \<Rightarrow> query \<Rightarrow> 'd world \<Rightarrow> bool" where
  "stored_or_failed view q w t v q' w' \<longleftrightarrow>
     (if q_finished q'
      then \<forall>k s. view_of view q w' k s =
             (if k = q_key q \<and> s = q_select_query q then Some (t, v) else view_of view q w k s)
      else q_access q' = DBL_UNABLE_WRITE \<and> (\<forall>k s. view_of view q w' k s = view_of view q w k s))
     \<and> w_expires w' = w_expires w"

lemma write_dest_stored:
  assumes "rocks_ok R view" "write_dest R v q1 w = (q', w')"
    and "q_dest q1 = raw_key (q_key q) (q_select_query q) t" "q_database q1 = q_database q"
    and "\<not> q_finished q1" "t \<in> set TypeRegs"
    and "own_view view q w = None \<or> (\<exists>v0. own_view view q w = Some (t, v0))"
  shows "stored_or_failed view q w t v q' w'"
  using assms(1,2)
proof (cases rule: write_dest_cases)
  case written
  then show ?thesis
    using assms(3,4) key_view_put [OF assms(6,7)] by (simp add: stored_or_failed_def)
next
  case failed
  then show ?thesis
    using assms(4,5) by (simp add: stored_or_failed_def)
qed

lemma own_dest_write_dest:
  assumes "rocks_ok R view" "write_dest R v q1 w = (q', w')" "q_dest q1 = dest" "q_database q1 = d0"
  shows "touches_only view d0 dest w w'"
  using assms(1,2)
  by (cases rule: write_dest_cases) (use assms(3,4) in \<open>auto simp: touches_only_def\<close>)

section \<open>Outcomes\<close>

text \<open>
  What a client of one key sees: \<open>refused\<close> is the outcome when a name is held by another type than
  the query's; the response, from which the error line is made, is the type \<open>t\<close> that \<open>Prepare\<close> found
  under the query's own name.
\<close>

definition refused :: "string \<Rightarrow> query \<Rightarrow> 'd world \<Rightarrow> bool \<times> query \<times> 'd world \<Rightarrow> bool" where
  "refused t q w r \<longleftrightarrow>
     (case r of (b, q', w') \<Rightarrow>
        \<not> b \<and> \<not> q_finished q' \<and> q_access q' = DBL_INVALID_TYPE \<and> q_identified q' = t \<and>
        q_response q' = t \<and> w' = w)"

definition write_outcome ::
  "('d \<Rightarrow> string \<rightharpoonup> string) \<Rightarrow> string \<Rightarrow> (string option \<Rightarrow> query \<Rightarrow> 'd world \<Rightarrow> bool)
     \<Rightarrow> query \<Rightarrow> 'd world \<Rightarrow> bool \<times> query \<times> 'd world \<Rightarrow> bool" where
  "write_outcome view base P q w r \<longleftrightarrow>
     (case own_view view q w of
        None \<Rightarrow> (case r of (b, q', w') \<Rightarrow> b \<and> P None q' w')
      | Some (t, v) \<Rightarrow>
          if t = base then (case r of (b, q', w') \<Rightarrow> b \<and> P (Some v) q' w') else refused t q w r)"

definition read_outcome ::
  "('d \<Rightarrow> string \<rightharpoonup> string) \<Rightarrow> string \<Rightarrow> DBL_CODE \<Rightarrow> (string \<Rightarrow> query \<Rightarrow> 'd world \<Rightarrow> bool)
     \<Rightarrow> query \<Rightarrow> 'd world \<Rightarrow> bool \<times> query \<times> 'd world \<Rightarrow> bool" where
  "read_outcome view base missing P q w r \<longleftrightarrow>
     (case own_view view q w of
        None \<Rightarrow> (case r of (b, q', w') \<Rightarrow>
          \<not> b \<and> \<not> q_finished q' \<and> q_access q' = missing \<and> w' = w)
      | Some (t, v) \<Rightarrow>
          if t = base then (case r of (b, q', w') \<Rightarrow> b \<and> P v q' w') else refused t q w r)"

lemma refused_found_as:
  "\<not> q_finished q \<Longrightarrow> refused t q w (False, invalid_type (found_as (of_class ty base q) t v), w)"
  by (simp add: refused_def invalid_type_def)

lemma ready_of_class [simp]: "ready (of_class ty base q) w \<longleftrightarrow> ready q w"
  by (simp add: ready_def)

lemma WRITE_outcome:
  assumes "rocks_ok R view" "ready q w"
    and "own_view view q w = None \<Longrightarrow>
      \<exists>q' w'. run (created_as (of_class QUERY_TYPE_WRITE base q)) w = Inr (q', w') \<and> P None q' w'"
    and "\<And>v. own_view view q w = Some (base, v) \<Longrightarrow>
      \<exists>q' w'. run (found_as (of_class QUERY_TYPE_WRITE base q) base v) w = Inr (q', w') \<and> P (Some v) q' w'"
  shows "\<exists>r. Prepare R run (of_class QUERY_TYPE_WRITE base q) w = Inr r \<and> write_outcome view base P q w r"
proof -
  let ?q = "of_class QUERY_TYPE_WRITE base q"
  have "ready ?q w" "q_type ?q = QUERY_TYPE_WRITE" and nf: "\<not> q_finished q"
    using assms(2) by (simp_all add: ready_def)
  note P = Prepare_WRITE [OF assms(1) this(1,2), where run = run]
  show ?thesis
  proof (cases "own_view view q w")
    case None
    with assms(3) P show ?thesis
      by (auto simp: write_outcome_def run_then_def)
  next
    case (Some a)
    then obtain t v where tv: "own_view view q w = Some (t, v)" by (cases a) auto
    show ?thesis
    proof (cases "t = base")
      case True
      with assms(4) [of v] tv P show ?thesis
        by (auto simp: write_outcome_def run_then_def)
    next
      case False
      with tv P refused_found_as [OF nf] show ?thesis
        by (simp add: write_outcome_def)
    qed
  qed
qed

lemma READ_outcome:
  assumes "rocks_ok R view" "ready q w"
    and "\<And>v. own_view view q w = Some (base, v) \<Longrightarrow>
      \<exists>q' w'. run (found_as (of_class QUERY_TYPE_READ base q) base v) w = Inr (q', w') \<and> P v q' w'"
  shows "\<exists>r. Prepare R run (of_class QUERY_TYPE_READ base q) w = Inr r \<and>
    read_outcome view base DBL_NOT_FOUND P q w r"
proof -
  let ?q = "of_class QUERY_TYPE_READ base q"
  have "ready ?q w" "q_type ?q = QUERY_TYPE_READ" and nf: "\<not> q_finished q"
    using assms(2) by (simp_all add: ready_def)
  note P = Prepare_READ [OF assms(1) this(1,2), where run = run]
  show ?thesis
  proof (cases "own_view view q w")
    case None
    with P nf show ?thesis
      by (simp add: read_outcome_def)
  next
    case (Some a)
    then obtain t v where tv: "own_view view q w = Some (t, v)" by (cases a) auto
    show ?thesis
    proof (cases "t = base")
      case True
      with assms(3) [of v] tv P show ?thesis
        by (auto simp: read_outcome_def run_then_def)
    next
      case False
      with tv P refused_found_as [OF nf] show ?thesis
        by (simp add: read_outcome_def)
    qed
  qed
qed

lemma write_dest_ex:
  assumes "rocks_ok R view" "ready q w" "base \<in> set TypeRegs"
    and "own_view view q w = None \<or> (\<exists>v0. own_view view q w = Some (base, v0))"
    and "q_dest q1 = raw_key (q_key q) (q_select_query q) base" "q_database q1 = q_database q"
    and "q_finished q1 = q_finished q"
  shows "\<exists>q' w'. write_dest R v q1 w = (q', w') \<and> stored_or_failed view q w base v q' w' \<and>
    q_response q' = q_response q1"
proof -
  obtain q' w' where wd: "write_dest R v q1 w = (q', w')" by fastforce
  then have "q_response q' = q_response q1"
    by (auto simp: write_dest_def split: prod.splits)
  moreover have "stored_or_failed view q w base v q' w'"
    by (rule write_dest_stored [OF assms(1) wd assms(5,6)])
      (use assms(2-4,7) in \<open>auto simp: ready_def\<close>)
  ultimately show ?thesis using wd by blast
qed

end
