(* ===== verification/Paging.thy ===== *)
theory Paging
  imports QueryOutcomes
begin

text \<open>
  The loop that \<open>keys_query\<close>, \<open>lkeys_query\<close>, \<open>vkeys_query\<close>, \<open>search_query\<close>, \<open>lget_query\<close> and
  their kin repeat: offset and limit, pages of \<open>ITER_LIMIT\<close> items attached to the user as they
  fill, the rest left for the query itself; and the token loop that selects raw keys.  The pages
  are shown to carry exactly the requested items, in order, in chunks of fifty.
\<close>

section \<open>The page loop\<close>

text \<open>A page that was attached: its \<open>subresult\<close> and its items.\<close>

type_synonym 'x sheet = "u32 \<times> 'x list"

record 'x page =
  p_total :: u32
  p_aux :: u32
  p_tracker :: u32
  p_result :: "'x list"
  p_sent :: "'x sheet list"

definition page_start :: "'x page" where
  "page_start = \<lparr>p_total = 0, p_aux = 0, p_tracker = 0, p_result = [], p_sent = []\<rparr>"

text \<open>Add one item; a full page is attached and the result cleared.\<close>

definition page_push :: "('x \<Rightarrow> 'x list \<Rightarrow> 'x list) \<Rightarrow> 'x \<Rightarrow> 'x page \<Rightarrow> 'x page" where
  "page_push ins x p =
     (let aux = p_aux p + 1; result = ins x (p_result p)
      in if aux mod ITER_LIMIT = 0
         then p\<lparr>p_aux := aux, p_tracker := p_tracker p + 1, p_result := [],
                p_sent := p_sent p @ [(p_tracker p + 1, result)]\<rparr>
         else p\<lparr>p_aux := aux, p_result := result\<rparr>)"

text \<open>One round for a selected item; the flag is \<open>break\<close>.\<close>

definition page_item ::
  "('x \<Rightarrow> 'x list \<Rightarrow> 'x list) \<Rightarrow> int \<Rightarrow> int \<Rightarrow> 'x \<Rightarrow> 'x page \<Rightarrow> bool \<times> 'x page" where
  "page_item ins offset limit x p =
     (if limit \<noteq> - 1 \<and> sint (p_total p) \<ge> offset then
        (if sint (p_aux p) < limit then
           (let p1 = page_push ins x p
            in if p_aux p1 = of_int limit then (True, p1)
               else (False, p1\<lparr>p_total := p_total p1 + 1\<rparr>))
         else (False, p\<lparr>p_total := p_total p + 1\<rparr>))
      else if limit = - 1 then
        (let p1 = page_push ins x p in (False, p1\<lparr>p_total := p_total p1 + 1\<rparr>))
      else (False, p\<lparr>p_total := p_total p + 1\<rparr>))"

primrec page_items ::
  "('x \<Rightarrow> 'x list \<Rightarrow> 'x list) \<Rightarrow> int \<Rightarrow> int \<Rightarrow> 'x list \<Rightarrow> 'x page \<Rightarrow> 'x page" where
  "page_items ins offset limit [] p = p"
| "page_items ins offset limit (x # xs) p =
     (let (stop, p1) = page_item ins offset limit x p
      in if stop then p1 else page_items ins offset limit xs p1)"

definition push_back :: "'x \<Rightarrow> 'x list \<Rightarrow> 'x list" where
  "push_back x r = r @ [x]"

section \<open>The scan of the raw keys\<close>

text \<open>
  \<open>Dispatcher::CheckIterator\<close> (\<open>src/engine.cpp\<close>).  The user's and the flusher's flags are set by
  other threads: their answers are taken from the world.
\<close>

definition CheckIterator :: "query \<Rightarrow> 'd world \<Rightarrow> bool \<times> query \<times> 'd world" where
  "CheckIterator q w =
     (let stop = (w_interrupts w \<noteq> [] \<and> hd (w_interrupts w));
          w1 = w\<lparr>w_interrupts := tl (w_interrupts w)\<rparr>
      in if stop \<or> d_closing (w_dbs w (q_database q)) then (False, access_set DBL_INTERRUPT q, w1)
         else (True, q, w1))"

text \<open>
  The \<open>switch (strcounter)\<close> over the tokens of a raw key: the key's name and whether to skip it.
\<close>

primrec scan_tokens ::
  "(string \<Rightarrow> bool) \<Rightarrow> u32 \<Rightarrow> string \<Rightarrow> string list \<Rightarrow> nat \<Rightarrow> bool \<Rightarrow> string \<Rightarrow> bool \<times> string" where
  "scan_tokens wanted select ty [] strcounter skip name = (skip, name)"
| "scan_tokens wanted select ty (token # ts) strcounter skip name =
     (if skip then (skip, name)
      else
        (let name' = (if strcounter = 0 then to_string token else name);
             skip' = (if strcounter = 0 then \<not> wanted name'
                      else if strcounter = 1 then convto_string select \<noteq> token
                      else if strcounter = 2 then token \<noteq> ty
                      else False)
         in scan_tokens wanted select ty ts (strcounter + 1) skip' name'))"

definition scan_key :: "(string \<Rightarrow> bool) \<Rightarrow> u32 \<Rightarrow> string \<Rightarrow> string \<Rightarrow> string option" where
  "scan_key wanted select ty rawmap =
     (let (skip, name) = scan_tokens wanted select ty (colon_tokens rawmap) 0 False []
      in if skip then None else Some name)"

primrec scan_pages ::
  "(string \<times> string \<Rightarrow> 'x option) \<Rightarrow> ('x \<Rightarrow> 'x list \<Rightarrow> 'x list) \<Rightarrow> int \<Rightarrow> int
     \<Rightarrow> (string \<times> string) list \<Rightarrow> 'x page \<Rightarrow> query \<Rightarrow> 'd world \<Rightarrow> bool \<times> 'x page \<times> query \<times> 'd world" where
  "scan_pages pick ins offset limit [] p q w = (True, p, q, w)"
| "scan_pages pick ins offset limit (it # its) p q w =
     (let (go, q1, w1) = CheckIterator q w
      in if \<not> go then (False, p, q1, w1)
         else (case pick it of
                 None \<Rightarrow> scan_pages pick ins offset limit its p q1 w1
               | Some x \<Rightarrow>
                   (let (stop, p1) = page_item ins offset limit x p
                    in if stop then (True, p1, q1, w1)
                       else scan_pages pick ins offset limit its p1 q1 w1)))"

text \<open>What is attached to the user for a page, and what the query keeps at the end.\<close>

definition attach_pages :: "('x sheet \<Rightarrow> query) \<Rightarrow> 'x page \<Rightarrow> 'd world \<Rightarrow> 'd world" where
  "attach_pages request p w = w\<lparr>w_results := w_results w @ map request (p_sent p)\<rparr>"

section \<open>What the pages carry\<close>

definition page_data :: "'x page \<Rightarrow> 'x list" where
  "page_data p = concat (map snd (p_sent p)) @ p_result p"

text \<open>The selected items: all of them for a limit of -1, else the slice.\<close>

definition page_slice :: "int \<Rightarrow> int \<Rightarrow> 'x list \<Rightarrow> 'x list" where
  "page_slice offset limit xs = (if limit = - 1 then xs else take (nat limit) (drop (nat offset) xs))"

text \<open>
  The shape of the pages after \<open>n\<close> items went by and \<open>m\<close> were taken: full pages numbered from
  one, and fewer than fifty items left.
\<close>

definition page_ok :: "nat \<Rightarrow> nat \<Rightarrow> 'x page \<Rightarrow> bool" where
  "page_ok n m p \<longleftrightarrow>
     p_total p = of_nat n \<and> p_aux p = of_nat m \<and> length (page_data p) = m \<and>
     (\<forall>s\<in>set (p_sent p). length (snd s) = 50) \<and> length (p_result p) < 50 \<and>
     map fst (p_sent p) = map of_nat [1..<Suc (length (p_sent p))] \<and>
     p_tracker p = of_nat (length (p_sent p))"

lemma page_ok_start: "page_ok 0 0 page_start"
  by (simp add: page_ok_def page_start_def page_data_def)

lemma sum_list_const: "\<forall>s\<in>set xs. length (snd s) = n \<Longrightarrow> length (concat (map snd xs)) = n * length xs"
  by (induction xs) auto

lemma of_nat_mod_limit:
  assumes "m < 2 ^ 32"
  shows "(of_nat m :: u32) mod ITER_LIMIT = 0 \<longleftrightarrow> m mod 50 = 0"
proof -
  have "unat ((of_nat m :: u32) mod ITER_LIMIT) = m mod 50"
    using assms by (simp add: ITER_LIMIT_def unat_mod unat_of_nat)
  then show ?thesis by (metis unat_0 unat_eq_zero)
qed

lemma page_push_ok:
  assumes "page_ok n m p" "Suc m < 2 ^ 32"
  shows "page_ok n (Suc m) (page_push push_back x p) \<and>
    page_data (page_push push_back x p) = page_data p @ [x]"
proof -
  have len: "m = 50 * length (p_sent p) + length (p_result p)"
    using assms(1) sum_list_const [of "p_sent p" 50] by (auto simp: page_ok_def page_data_def)
  have small: "length (p_result p) < 50"
    using assms(1) by (simp add: page_ok_def)
  have "Suc m mod 50 = 0 \<longleftrightarrow> Suc r = 50" if "m = 50 * l + r" "r < 50" for l r
    using that by presburger
  from this [OF len small]
  have mod: "(of_nat (Suc m) :: u32) mod ITER_LIMIT = 0 \<longleftrightarrow> Suc (length (p_result p)) = 50"
    by (simp only: of_nat_mod_limit [OF assms(2)])
  have aux: "p_aux p + 1 = of_nat (Suc m)"
    using assms(1) by (simp add: page_ok_def)
  show ?thesis
  proof (cases "Suc (length (p_result p)) = 50")
    case True
    then have "page_push push_back x p =
        p\<lparr>p_aux := of_nat (Suc m), p_tracker := p_tracker p + 1, p_result := [],
          p_sent := p_sent p @ [(p_tracker p + 1, p_result p @ [x])]\<rparr>"
      using mod by (simp only: page_push_def Let_def aux push_back_def if_True simp_thms)
    with assms(1) True show ?thesis
      by (auto simp: page_ok_def page_data_def)
  next
    case False
    then have "page_push push_back x p = p\<lparr>p_aux := of_nat (Suc m), p_result := p_result p @ [x]\<rparr>"
      using mod by (simp only: page_push_def Let_def aux push_back_def if_False simp_thms)
    with assms(1) False small show ?thesis
      by (auto simp: page_ok_def page_data_def)
  qed
qed

lemma sint_of_nat: "n < 2 ^ 31 \<Longrightarrow> sint (of_nat n :: u32) = int n"
  by (simp add: signed_of_nat signed_take_bit_int_eq_self)

lemma of_nat_eq_of_int:
  assumes "n < 2 ^ 31" "0 \<le> lim" "lim < 2 ^ 31"
  shows "(of_nat n :: u32) = of_int lim \<longleftrightarrow> int n = lim"
proof
  assume "(of_nat n :: u32) = of_int lim"
  then have "uint (of_nat n :: u32) = uint (of_int lim :: u32)" by simp
  with assms show "int n = lim"
    by (simp add: uint_word_of_int unsigned_of_nat take_bit_eq_mod)
next
  assume "int n = lim"
  then have "lim = int n" by simp
  then show "(of_nat n :: u32) = of_int lim" by simp
qed

lemma page_ok_tick: "page_ok n m p \<Longrightarrow> page_ok (Suc n) m (p\<lparr>p_total := p_total p + 1\<rparr>)"
  by (simp add: page_ok_def page_data_def)

lemma page_data_tick [simp]: "page_data (p\<lparr>p_total := x\<rparr>) = page_data p"
  by (simp add: page_data_def)

text \<open>From \<open>n\<close> items seen and \<open>m\<close> taken, the loop takes the rest of the slice.\<close>

lemma page_items_all:
  assumes "page_ok n m p" "m + length xs < 2 ^ 31"
  shows "page_data (page_items push_back off (- 1) xs p) = page_data p @ xs \<and>
    (\<exists>n'. page_ok n' (m + length xs) (page_items push_back off (- 1) xs p))"
  using assms
proof (induction xs arbitrary: n m p)
  case (Cons x xs)
  let ?p = "page_push push_back x p"
  have ok: "page_ok n (Suc m) ?p" "page_data ?p = page_data p @ [x]"
    using page_push_ok [OF Cons.prems(1)] Cons.prems(2) by auto
  have "page_items push_back off (- 1) (x # xs) p =
      page_items push_back off (- 1) xs (?p\<lparr>p_total := p_total ?p + 1\<rparr>)"
    by (simp add: page_item_def Let_def)
  with Cons.IH [OF page_ok_tick [OF ok(1)]] Cons.prems(2) ok(2) show ?case
    by simp
qed auto

lemma page_items_limited:
  assumes "page_ok n m p" "n + length xs < 2 ^ 31" "0 \<le> lim" "lim < 2 ^ 31" "0 \<le> off"
    and "m = min (nat lim) (n - nat off)" "m < nat lim \<or> lim = 0"
  shows "page_data (page_items push_back off lim xs p) =
      page_data p @ take (nat lim - m) (drop (nat off - n) xs) \<and>
    (\<exists>n' m'. page_ok n' m' (page_items push_back off lim xs p))"
  using assms
proof (induction xs arbitrary: n m p)
  case (Cons x xs)
  note ok = Cons.prems(1)
  have tot: "sint (p_total p) = int n" and aux: "sint (p_aux p) = int m"
    using Cons.prems by (auto simp: page_ok_def sint_of_nat)
  show ?case
  proof (cases "int n \<ge> off \<and> int m < lim")
    case take: True
    let ?p = "page_push push_back x p"
    have ok': "page_ok n (Suc m) ?p" "page_data ?p = page_data p @ [x]"
      using page_push_ok [OF ok] Cons.prems by auto
    have stop: "p_aux ?p = of_int lim \<longleftrightarrow> int (Suc m) = lim"
      using ok'(1) of_nat_eq_of_int [of "Suc m" lim] Cons.prems by (simp add: page_ok_def)
    have drop0: "nat off - n = 0"
      using take by (simp add: nat_le_iff)
    show ?thesis
    proof (cases "int (Suc m) = lim")
      case True
      then have "page_items push_back off lim (x # xs) p = ?p"
        using take tot aux stop Cons.prems(3) by (simp add: page_item_def Let_def)
      moreover have "nat lim - m = 1"
        using True by simp
      ultimately show ?thesis
        using ok' drop0 by auto
    next
      case False
      then have "page_items push_back off lim (x # xs) p =
          page_items push_back off lim xs (?p\<lparr>p_total := p_total ?p + 1\<rparr>)"
        using take tot aux stop Cons.prems(3) by (simp add: page_item_def Let_def)
      moreover have lm: "nat lim - m = Suc (nat lim - Suc m)" "Suc m < nat lim"
        using take False by linarith+
      moreover have "Suc m = min (nat lim) (Suc n - nat off)"
        using take False Cons.prems(5,6) by (simp add: min_def split: if_splits) linarith
      then have "page_data (page_items push_back off lim xs (?p\<lparr>p_total := p_total ?p + 1\<rparr>)) =
          page_data (?p\<lparr>p_total := p_total ?p + 1\<rparr>) @ take (nat lim - Suc m) (drop (nat off - Suc n) xs) \<and>
          (\<exists>n' m'. page_ok n' m' (page_items push_back off lim xs (?p\<lparr>p_total := p_total ?p + 1\<rparr>)))"
        using Cons.prems(2-5) lm(2)
        by (intro Cons.IH [OF page_ok_tick [OF ok'(1)]]) (assumption | rule disjI1 | simp)+
      moreover have "nat off - Suc n = 0"
        using drop0 by simp
      ultimately show ?thesis
        using drop0 ok'(2) by (simp only: page_data_tick drop_0 take_Suc_Cons append_assoc append.simps)
    qed
  next
    case skip: False
    then have "page_items push_back off lim (x # xs) p =
        page_items push_back off lim xs (p\<lparr>p_total := p_total p + 1\<rparr>)"
      using tot aux Cons.prems(3) by (auto simp: page_item_def Let_def)
    moreover have "m = min (nat lim) (Suc n - nat off)"
      using skip Cons.prems(3,5,6,7) by (simp add: min_def split: if_splits) linarith+
    moreover have "take (nat lim - m) (drop (nat off - n) (x # xs)) =
        take (nat lim - m) (drop (nat off - Suc n) xs)"
    proof (cases "int n \<ge> off")
      case True
      with skip have "nat lim - m = 0" by linarith
      then show ?thesis by (simp only: take_0)
    next
      case False
      then have "nat off - n = Suc (nat off - Suc n)" by linarith
      then show ?thesis by (simp only: drop_Suc_Cons)
    qed
    moreover from calculation(2) have
      "page_data (page_items push_back off lim xs (p\<lparr>p_total := p_total p + 1\<rparr>)) =
        page_data (p\<lparr>p_total := p_total p + 1\<rparr>) @ take (nat lim - m) (drop (nat off - Suc n) xs) \<and>
        (\<exists>n' m'. page_ok n' m' (page_items push_back off lim xs (p\<lparr>p_total := p_total p + 1\<rparr>)))"
      using Cons.prems(2-5,7) by (intro Cons.IH [OF page_ok_tick [OF ok]]) (assumption | rule disjI1 | simp)+
    ultimately show ?thesis
      by (simp only: page_data_tick)
  qed
qed auto

lemma page_items_slice:
  assumes "length xs < 2 ^ 31" "lim = - 1 \<or> 0 \<le> lim \<and> lim < 2 ^ 31 \<and> 0 \<le> off"
  shows "page_data (page_items push_back off lim xs page_start) = page_slice off lim xs \<and>
    (\<exists>n m. page_ok n m (page_items push_back off lim xs page_start))"
proof -
  have start: "page_data page_start = []"
    by (simp add: page_data_def page_start_def)
  show ?thesis
  proof (cases "lim = - 1")
    case True
    with page_items_all [OF page_ok_start, of xs off] assms(1) start show ?thesis
      by (auto simp: page_slice_def)
  next
    case False
    with assms(2) have lim: "0 \<le> lim" "lim < 2 ^ 31" "0 \<le> off" "0 < nat lim \<or> lim = 0"
      by auto
    from page_items_limited [OF page_ok_start, of xs lim off] lim assms(1) False start show ?thesis
      by (auto simp: page_slice_def)
  qed
qed

text \<open>An undisturbed scan runs the page loop over the picked items.\<close>

lemma scan_pages_quiet:
  assumes "w_interrupts w = []" "\<not> d_closing (w_dbs w (q_database q))"
  shows "scan_pages pick ins off lim its p q w =
    (True, page_items ins off lim (List.map_filter pick its) p, q, w)"
proof -
  have "CheckIterator q w = (True, q, w)"
    using assms by (simp add: CheckIterator_def)
  then show ?thesis
    by (induction its arbitrary: p)
      (auto simp: List.map_filter_def split: option.splits prod.splits)
qed

end
