(* ===== verification/Sample_Store.thy ===== *)
theory Sample_Store
  imports QueryOutcomes
begin

text \<open>
  A store in memory that meets \<open>rocks_ok\<close>, and small worlds and queries over it: the inputs the
  witnesses evaluate the theorems at.
\<close>

section \<open>An association list as the store\<close>

type_synonym table = "(string \<times> string) list"

definition table_rocks :: "table rocks" where
  "table_rocks = \<lparr>
     rget = (\<lambda>s k. case map_of s k of Some v \<Rightarrow> (True, v) | None \<Rightarrow> (False, [])),
     rwrite = (\<lambda>s b. (True, fold (\<lambda>op t. case op of WPut k v \<Rightarrow> (k, v) # t | WDelete k \<Rightarrow> erase_key k t) b s)),
     riter = (\<lambda>s. foldr (\<lambda>(k, v) m. map_insert k v (erase_key k m)) s [])\<rparr>"

lemma fold_table: "map_of (fold (\<lambda>op t. case op of WPut k v \<Rightarrow> (k, v) # t | WDelete k \<Rightarrow> erase_key k t) b s)
    = fold apply_wop b (map_of s)"
proof (induction b arbitrary: s)
  case (Cons a b)
  have "map_of (case a of WPut k v \<Rightarrow> (k, v) # s | WDelete k \<Rightarrow> erase_key k s) = apply_wop a (map_of s)"
    by (cases a) (auto simp: apply_wop_def map_of_erase_key)
  with Cons show ?case by simp
qed simp

lemma sorted_table:
  "keys_strict (foldr (\<lambda>(k, v) m. map_insert k v (erase_key k m)) s []) \<and>
   map_of (foldr (\<lambda>(k, v) m. map_insert k v (erase_key k m)) s []) = map_of s"
proof (induction s)
  case (Cons p s)
  have "k \<notin> fst ` set (erase_key k m)" for k :: string and m :: table
    by (auto simp: erase_key_def)
  with Cons show ?case
    by (cases p) (auto simp: map_of_map_insert map_of_erase_key keys_strict_map_insert)
qed simp

lemma table_rocks_ok: "rocks_ok table_rocks map_of"
  unfolding rocks_ok_def
proof (intro conjI allI impI)
  show "rget table_rocks s k = (case map_of s k of Some v \<Rightarrow> (True, v) | None \<Rightarrow> (False, []))" for s k
    by (simp add: table_rocks_def)
  show "map_of s' = (if ok then fold apply_wop b (map_of s) else map_of s)"
    if "rwrite table_rocks s b = (ok, s')" for s b ok s'
    using that by (auto simp: table_rocks_def fold_table)
  show "keys_strict (riter table_rocks s)" "map_of (riter table_rocks s) = map_of s" for s
    using sorted_table [of s] by (simp_all add: table_rocks_def)
qed

section \<open>Queries and worlds\<close>

text \<open>The fields \<open>QueryBase()\<close> sets; the others are empty or arbitrary before a command sets them.\<close>

definition new_query :: query where
  "new_query = \<lparr>q_finished = False, q_key_required = False,
     q_mapped = \<lparr>rd_status = False, rd_value = [], rd_loaded = False\<rparr>, q_function = STR_TO_LOW,
     q_flags = QUERY_FLAGS_NONE, q_type = QUERY_TYPE_SKIP, q_access = DBL_NONE, q_identified = [],
     q_dest = [], q_base_request = [], q_subresult = 0, q_partial = False, q_hesh = [], q_newkey = [],
     q_key = [], q_value = [], q_offset = 0, q_limit = 0, q_mlist = [], q_select_query = 0, q_id = 0,
     q_response = [], q_VecData = [], q_mmap = [], q_nmap = [], q_database = 0, q_transf_db = None, q_user = 0, q_operation = OP_NONE,
     q_counter = 0, q_data = 0\<rparr>"

definition ask :: "string \<Rightarrow> string \<Rightarrow> query" where
  "ask k v = new_query\<lparr>q_key_required := True, q_key := k, q_value := v, q_select_query := 1\<rparr>"

definition world_of :: "table \<Rightarrow> ExpireMap \<Rightarrow> table world" where
  "world_of s timers = \<lparr>w_dbs = (\<lambda>_. \<lparr>d_name = ''default'', d_closing = False, d_rocks = s\<rparr>),
     w_expires = timers, w_futures = [], w_now = 0, w_results = [], w_interrupts = []\<rparr>"

text \<open>A database with one entry, and one with the two names \<open>a\<close> and \<open>b\<close>.\<close>

definition one_entry :: "string \<Rightarrow> string \<Rightarrow> table" where
  "one_entry t v = [(raw_key ''a'' 1 t, v)]"

definition two_entries :: "string \<Rightarrow> string \<Rightarrow> string \<Rightarrow> string \<Rightarrow> table" where
  "two_entries t v t2 v2 = [(raw_key ''a'' 1 t, v), (raw_key ''b'' 1 t2, v2)]"

definition timer_a :: ExpireMap where
  "timer_a = [(90, \<lparr>e_schedule = 90, e_added = 0, e_epoch = True, e_secs = 90, e_select = 1,
     e_key = ''a'', e_database = 0\<rparr>)]"

lemma ask_fields [simp]:
  "q_key (ask k v) = k" "q_value (ask k v) = v" "q_select_query (ask k v) = 1"
  "q_database (ask k v) = 0" "q_finished (ask k v) = False" "q_key_required (ask k v) = True"
  "rd_loaded (q_mapped (ask k v)) = False" "q_id (ask k v) = 0" "q_offset (ask k v) = 0"
  "q_limit (ask k v) = 0" "q_flags (ask k v) = QUERY_FLAGS_NONE"
  by (simp_all add: ask_def new_query_def)

lemma world_of_fields [simp]:
  "w_dbs (world_of s ts) d = \<lparr>d_name = ''default'', d_closing = False, d_rocks = s\<rparr>"
  "w_expires (world_of s ts) = ts" "w_results (world_of s ts) = []" "w_interrupts (world_of s ts) = []" "w_now (world_of s ts) = 0"
  by (simp_all add: world_of_def)

lemma ready_ask: "k \<noteq> [] \<Longrightarrow> ready (ask k v) (world_of s ts)"
  by (simp add: ready_def)

lemma one_type_one: "one_type (map_of (one_entry t v))"
  by (auto simp: one_type_iff one_entry_def)

lemma one_type_two: "one_type (map_of (two_entries t v t2 v2))"
  by (auto simp: one_type_iff two_entries_def split: if_splits)

lemma one_type_none: "one_type (map_of [])"
  by (simp add: one_type_iff)

lemma key_view_one: "t \<in> set TypeRegs \<Longrightarrow>
  key_view (map_of (one_entry t v)) k s = (if k = ''a'' \<and> s = 1 then Some (t, v) else None)"
  using key_view_put [of t "Map.empty" "''a''" 1 v k s]
  by (auto simp: one_entry_def key_view_None types_of_def)

lemma key_view_two:
  assumes "t \<in> set TypeRegs" "t2 \<in> set TypeRegs"
  shows "key_view (map_of (two_entries t v t2 v2)) k s =
    (if k = ''a'' \<and> s = 1 then Some (t, v) else if k = ''b'' \<and> s = 1 then Some (t2, v2) else None)"
proof -
  have "key_view [raw_key ''b'' 1 t2 \<mapsto> v2] k s = (if k = ''b'' \<and> s = 1 then Some (t2, v2) else None)" for k s
    using key_view_put [of t2 "Map.empty" "''b''" 1 v2 k s] assms(2)
    by (auto simp: key_view_None types_of_def)
  then show ?thesis
    using key_view_put [of t "[raw_key ''b'' 1 t2 \<mapsto> v2]" "''a''" 1 v k s] assms(1)
    by (auto simp: two_entries_def)
qed

lemma timer_a_ok: "expires_ok timer_a"
  by (simp add: timers_ok_def timer_a_def)

text \<open>The database with the one name \<open>a\<close> in select 1.\<close>

abbreviation one_world :: "string \<Rightarrow> string \<Rightarrow> table world" where
  "one_world t v \<equiv> world_of (one_entry t v) []"

abbreviation two_world :: "string \<Rightarrow> string \<Rightarrow> string \<Rightarrow> string \<Rightarrow> table world" where
  "two_world t v t2 v2 \<equiv> world_of (two_entries t v t2 v2) []"

declare ready_ask [simp] one_type_one [simp] one_type_two [simp] one_type_none [simp]
  key_view_one [simp] key_view_two [simp] timer_a_ok [simp]

lemma ready_cong [simp]:
  "ready (q\<lparr>q_id := i\<rparr>) w = ready q w" "ready (q\<lparr>q_offset := a\<rparr>) w = ready q w"
  "ready (q\<lparr>q_limit := b\<rparr>) w = ready q w" "ready (q\<lparr>q_hesh := h\<rparr>) w = ready q w"
  by (simp_all add: ready_def)

end
