(* ===== verification/ScanQueries.thy ===== *)
theory ScanQueries
  imports Paging Sample_Store
begin

text \<open>
  The queries that go through every raw key of a database: \<open>keys_query\<close>, \<open>search_query\<close>,
  \<open>count_query\<close>, \<open>wdel_query\<close>, \<open>random_query\<close> and \<open>expire_list_query\<close> of
  \<open>src/brldb/keys.cpp\<close>, \<open>lkeys_query\<close> of \<open>lists.cpp\<close> and \<open>vkeys_query\<close> of \<open>vectors.cpp\<close>.
\<close>

section \<open>Pages of keys\<close>

text \<open>The request made for a page: a new object with the fields the loop sets.\<close>

definition vec_request :: "query \<Rightarrow> nat \<Rightarrow> string \<Rightarrow> string sheet \<Rightarrow> query" where
  "vec_request fresh user key s =
     fresh\<lparr>q_user := user, q_key := key, q_partial := True, q_subresult := fst s,
           q_VecData := snd s, q_finished := True\<rparr>"

text \<open>What the loop leaves in the query itself.\<close>

definition last_page :: "string page \<Rightarrow> query \<Rightarrow> query" where
  "last_page p q =
     SetOK (q\<lparr>q_subresult := p_tracker p + 1, q_partial := False, q_counter := p_aux p,
              q_VecData := p_result p\<rparr>)"

definition run_pages ::
  "'d rocks \<Rightarrow> (string \<times> string \<Rightarrow> string option) \<Rightarrow> (string sheet \<Rightarrow> query) \<Rightarrow> 'd run" where
  "run_pages R pick request q w =
     (case scan_pages pick push_back (q_offset q) (q_limit q) (riter R (rocks_of (q_database q) w))
             page_start q w of
        (done, p, q1, w1) \<Rightarrow>
          Inr (if done then last_page p q1 else q1, attach_pages request p w1))"

text \<open>The raw keys of one type in the select of the query whose name is in a mask.\<close>

definition pick_name :: "query \<Rightarrow> string \<Rightarrow> string \<times> string \<Rightarrow> string option" where
  "pick_name q ty it = scan_key (\<lambda>name. Match name (q_key q)) (q_select_query q) ty (fst it)"

lemma pick_name_class [simp]: "pick_name (access_set c (of_class ty base q)) = pick_name q"
  by (simp add: pick_name_def fun_eq_iff)

lemma vec_request_data [simp]: "q_VecData (vec_request fresh user key s) = snd s"
  by (simp add: vec_request_def)

definition keys_query :: "query \<Rightarrow> query" where
  "keys_query q = of_class QUERY_TYPE_SKIP INT_KEY q"

text \<open>\<open>fresh\<close> is the object \<open>std::make_shared<keys_query>()\<close> gives.\<close>

definition keys_query_Run :: "query \<Rightarrow> 'd rocks \<Rightarrow> 'd run" where
  "keys_query_Run fresh R q w =
     run_pages R (pick_name q INT_KEY) (vec_request (keys_query fresh) (q_user q) (q_key q)) q w"

definition lkeys_query :: "query \<Rightarrow> query" where
  "lkeys_query q = of_class QUERY_TYPE_SKIP INT_LIST q"

text \<open>Here the key of the page is not set.\<close>

definition lkeys_query_Run :: "query \<Rightarrow> 'd rocks \<Rightarrow> 'd run" where
  "lkeys_query_Run fresh R q w =
     run_pages R (pick_name q INT_LIST) (vec_request (lkeys_query fresh) (q_user q) (q_key fresh)) q w"

definition vkeys_query :: "query \<Rightarrow> query" where
  "vkeys_query q = of_class QUERY_TYPE_SKIP INT_LIST q"

definition vkeys_query_Run :: "query \<Rightarrow> 'd rocks \<Rightarrow> 'd run" where
  "vkeys_query_Run fresh R q w =
     run_pages R (pick_name q INT_VECTOR) (vec_request (vkeys_query fresh) (q_user q) (q_key q)) q w"

section \<open>Search by value\<close>

definition search_query :: "query \<Rightarrow> query" where
  "search_query q = of_class QUERY_TYPE_SKIP INT_KEY q"

definition pick_value :: "query \<Rightarrow> string \<times> string \<Rightarrow> (string \<times> string) option" where
  "pick_value q it =
     (let rawvalue = to_string (snd it)
      in if \<not> Match rawvalue (q_key q) then None
         else map_option (\<lambda>name. (name, rawvalue))
                (scan_key (\<lambda>_. True) (q_select_query q) INT_KEY (fst it)))"

definition insert_pair :: "string \<times> string \<Rightarrow> (string \<times> string) list \<Rightarrow> (string \<times> string) list" where
  "insert_pair x r = multimap_insert (fst x) (snd x) r"

definition search_query_Run :: "query \<Rightarrow> 'd rocks \<Rightarrow> 'd run" where
  "search_query_Run fresh R q w =
     (case scan_pages (pick_value q) insert_pair (q_offset q) (q_limit q)
             (riter R (rocks_of (q_database q) w)) page_start q w of
        (done, p, q1, w1) \<Rightarrow>
          Inr (if done
               then SetOK (q1\<lparr>q_subresult := p_tracker p + 1, q_partial := False,
                              q_counter := p_aux p, q_mmap := p_result p\<rparr>)
               else q1,
               attach_pages (\<lambda>s. (search_query fresh)\<lparr>q_user := q_user q, q_partial := True,
                 q_subresult := fst s, q_mmap := snd s, q_finished := True\<rparr>) p w1))"

section \<open>Count\<close>

definition count_query :: "query \<Rightarrow> query" where
  "count_query q = of_class QUERY_TYPE_SKIP INT_KEY q"

primrec count_loop ::
  "(string \<times> string) list \<Rightarrow> u32 \<Rightarrow> query \<Rightarrow> 'd world \<Rightarrow> query \<times> 'd world" where
  "count_loop [] tot q w = (SetOK (q\<lparr>q_counter := tot\<rparr>), w)"
| "count_loop (it # its) tot q w =
     (let (go, q1, w1) = CheckIterator q w
      in if \<not> go then (q1, w1)
         else count_loop its (if pick_name q INT_KEY it = None then tot else tot + 1) q1 w1)"

definition count_query_Run :: "'d rocks \<Rightarrow> 'd run" where
  "count_query_Run R q w = Inr (count_loop (riter R (rocks_of (q_database q) w)) 0 q w)"

section \<open>Delete by mask\<close>

definition wdel_query :: "query \<Rightarrow> query" where
  "wdel_query q = of_class QUERY_TYPE_SKIP INT_KEY q"

text \<open>
  For a key that matches: its raw key is deleted, its timer too, and \<open>DelExpire\<close> is called, which
  works on \<open>this->key\<close>, the mask.
\<close>

definition wdel_one :: "'d rocks \<Rightarrow> string \<Rightarrow> string \<Rightarrow> query \<Rightarrow> 'd world \<Rightarrow> 'd world" where
  "wdel_one R rawmap name q w =
     (let w1 = Delete R rawmap q w;
          w2 = w1\<lparr>w_expires :=
                 snd (ExpireManager_Delete (q_database q) name (q_select_query q) (w_expires w1))\<rparr>
      in DelExpire R q w2)"

primrec wdel_loop ::
  "'d rocks \<Rightarrow> (string \<times> string) list \<Rightarrow> u32 \<Rightarrow> query \<Rightarrow> 'd world \<Rightarrow> query \<times> 'd world" where
  "wdel_loop R [] tot q w = (SetOK (q\<lparr>q_counter := tot\<rparr>), w)"
| "wdel_loop R (it # its) tot q w =
     (let (go, q1, w1) = CheckIterator q w
      in if \<not> go then (q1, w1)
         else (case pick_name q INT_KEY it of
                 None \<Rightarrow> wdel_loop R its tot q1 w1
               | Some name \<Rightarrow> wdel_loop R its (tot + 1) q1 (wdel_one R (fst it) name q1 w1)))"

definition wdel_query_Run :: "'d rocks \<Rightarrow> 'd run" where
  "wdel_query_Run R q w = Inr (wdel_loop R (riter R (rocks_of (q_database q) w)) 0 q w)"

section \<open>A random key\<close>

definition random_query :: "query \<Rightarrow> query" where
  "random_query q = of_class QUERY_TYPE_SKIP INT_KEY q"

text \<open>
  \<open>draws\<close> lists the answers of \<open>IntRand(0, 1)\<close> and \<open>IntRand(2, 1000)\<close> for each round that asks.
\<close>

fun random_loop ::
  "(string \<times> string) list \<Rightarrow> (u32 \<times> u32) list \<Rightarrow> u32 \<Rightarrow> string \<Rightarrow> query \<Rightarrow> 'd world
     \<Rightarrow> bool \<times> u32 \<times> string \<times> query \<times> 'd world" where
  "random_loop [] draws tot found q w = (True, tot, found, q, w)"
| "random_loop (it # its) draws tot found q w =
     (let (go, q1, w1) = CheckIterator q w
      in if \<not> go then (False, tot, found, q1, w1)
         else (case scan_key (\<lambda>_. True) (q_select_query q) INT_KEY (fst it) of
                 None \<Rightarrow> random_loop its draws tot found q1 w1
               | Some name \<Rightarrow>
                   if found = [] then random_loop its draws (tot + 1) name q1 w1
                   else (case draws of
                           [] \<Rightarrow> (True, tot + 1, found, q1, w1)
                         | (rvalue, stopvalue) # ds \<Rightarrow>
                             (let found' = (if rvalue = 0 then name else found)
                              in if stopvalue = tot + 1 then (True, tot + 1, found', q1, w1)
                                 else random_loop its ds (tot + 1) found' q1 w1))))"

definition random_query_Run :: "(u32 \<times> u32) list \<Rightarrow> 'd rocks \<Rightarrow> 'd run" where
  "random_query_Run draws R q w =
     (case random_loop (riter R (rocks_of (q_database q) w)) draws 0 [] q w of
        (done, tot, found, q1, w1) \<Rightarrow>
          if \<not> done then Inr (q1, w1)
          else if tot = 0 \<and> found = [] then Inr (access_set DBL_NOT_FOUND q1, w1)
          else Inr (SetOK (q1\<lparr>q_response := found\<rparr>), w1))"

section \<open>Loading the expire records at start\<close>

definition expire_list_query :: "query \<Rightarrow> query" where
  "expire_list_query q = q\<lparr>q_type := QUERY_TYPE_SKIP\<rparr>"

record expire_scan =
  x_key :: string
  x_select :: string
  x_db :: string

primrec expire_tokens ::
  "string \<Rightarrow> string list \<Rightarrow> nat \<Rightarrow> bool \<Rightarrow> expire_scan \<Rightarrow> bool \<times> expire_scan" where
  "expire_tokens dbname [] strcounter skip x = (skip, x)"
| "expire_tokens dbname (token # ts) strcounter skip x =
     (if skip then (skip, x)
      else if strcounter = 0 then expire_tokens dbname ts 1 False (x\<lparr>x_key := to_string token\<rparr>)
      else if strcounter = 1 then expire_tokens dbname ts 2 False (x\<lparr>x_select := token\<rparr>)
      else if strcounter = 3 then
        expire_tokens dbname ts 4 (token = [] \<or> token \<noteq> dbname) (x\<lparr>x_db := token\<rparr>)
      else if strcounter = 2 then expire_tokens dbname ts 3 (token \<noteq> INT_EXPIRE) x
      else expire_tokens dbname ts (strcounter + 1) False x)"

primrec expire_load_loop ::
  "'d rocks \<Rightarrow> bool \<Rightarrow> (string \<times> string) list \<Rightarrow> query \<Rightarrow> 'd world \<Rightarrow> query \<times> 'd world" where
  "expire_load_loop R KeepExpires [] q w = (q, w)"
| "expire_load_loop R KeepExpires (it # its) q w =
     (let (go, q1, w1) = CheckIterator q w
      in if \<not> go then (q1, w1)
         else (case expire_tokens (d_name (w_dbs w1 (q_database q1))) (colon_tokens (fst it)) 0 False
                      \<lparr>x_key = [], x_select = [], x_db = []\<rparr> of
                 (skip, x) \<Rightarrow>
                   if skip then expire_load_loop R KeepExpires its q1 w1
                   else if KeepExpires then
                     expire_load_loop R KeepExpires its q1
                       (w1\<lparr>w_expires := snd (ExpireManager_Add (w_now w1) (q_database q1)
                             (convto_num_int (snd it)) (x_key x) (convto_num_uint (x_select x)) True
                             (w_expires w1))\<rparr>)
                   else expire_load_loop R KeepExpires its q1 (Delete R (fst it) q1 w1)))"

definition expire_list_query_Run :: "bool \<Rightarrow> 'd rocks \<Rightarrow> 'd run" where
  "expire_list_query_Run KeepExpires R q w =
     Inr (expire_load_loop R KeepExpires (riter R (rocks_of (q_database q) w)) q w)"

section \<open>Which raw keys are selected\<close>

lemma scan_tokens_skipped [simp]: "scan_tokens wanted select ty ts n True name = (True, name)"
  by (cases ts) auto

lemma scan_tokens_late: "3 \<le> n \<Longrightarrow> scan_tokens wanted select ty ts n False name = (False, name)"
  by (induction ts arbitrary: n) auto

lemma colon_tokens_raw_key:
  "k \<noteq> [] \<Longrightarrow> colon_tokens (raw_key k s t) = to_bin k # convto_string s # colon_tokens t"
proof -
  assume "k \<noteq> []"
  have "raw_key k s t = to_bin k @ CHR '':'' # (convto_string s @ CHR '':'' # t)"
    by (simp add: raw_key_def)
  also have "colon_tokens \<dots> = to_bin k # convto_string s # colon_tokens t"
    using \<open>k \<noteq> []\<close> by (subst colon_tokens_Cons) (simp_all add: colon_tokens_Cons)
  finally show ?thesis .
qed

text \<open>
  A stored value is selected exactly when its name is wanted, its select is the query's and its
  type is the one asked for; a timer record is never selected.
\<close>

lemma scan_key_raw_key:
  assumes "k \<noteq> []" "t \<noteq> []" "CHR '':'' \<notin> set t"
  shows "scan_key wanted select ty (raw_key k s t) =
    (if wanted k \<and> s = select \<and> t = ty then Some k else None)"
  using assms
  by (auto simp: scan_key_def colon_tokens_raw_key colon_tokens_single Let_def)

lemma colon_tokens_record:
  "k \<noteq> [] \<Longrightarrow> CHR '':'' \<notin> set t \<Longrightarrow> t \<noteq> [] \<Longrightarrow>
   colon_tokens (raw_key k s (t @ CHR '':'' # n)) = to_bin k # convto_string s # t # colon_tokens n"
  by (simp add: colon_tokens_raw_key colon_tokens_Cons)

lemma scan_key_expire_record:
  "k \<noteq> [] \<Longrightarrow> ty \<noteq> INT_EXPIRE \<Longrightarrow> scan_key wanted select ty (expire_record k s n) = None"
  using colon_tokens_record [of k INT_EXPIRE s n]
  by (auto simp: scan_key_def expire_record_raw INT_EXPIRE_def Let_def)

lemma scan_key_future_record:
  "k \<noteq> [] \<Longrightarrow> ty \<noteq> INT_FUTURE \<Longrightarrow> scan_key wanted select ty (future_record k s n) = None"
  using colon_tokens_record [of k INT_FUTURE s n]
  by (auto simp: scan_key_def future_record_raw INT_FUTURE_def Let_def)

section \<open>What the listing queries answer\<close>

text \<open>The pages attached for this query followed by what it keeps.\<close>

definition listed :: "nat \<Rightarrow> query \<Rightarrow> 'd world \<Rightarrow> string list" where
  "listed old q' w' = concat (map q_VecData (drop old (w_results w'))) @ q_VecData q'"

lemma run_pages_quiet:
  assumes "w_interrupts w = []" "\<not> d_closing (w_dbs w (q_database q))"
    and "length (List.map_filter pick (riter R (rocks_of (q_database q) w))) < 2 ^ 31"
    and "q_limit q = - 1 \<or> 0 \<le> q_limit q \<and> q_limit q < 2 ^ 31 \<and> 0 \<le> q_offset q"
    and "\<And>s. q_VecData (request s) = snd s"
  shows "\<exists>q' w'. run_pages R pick request q w = Inr (q', w') \<and> q_finished q' \<and> \<not> q_partial q' \<and>
    listed (length (w_results w)) q' w' =
      page_slice (q_offset q) (q_limit q) (List.map_filter pick (riter R (rocks_of (q_database q) w))) \<and>
    (\<forall>r\<in>set (drop (length (w_results w)) (w_results w')). length (q_VecData r) = 50) \<and>
    length (q_VecData q') < 50 \<and> w_dbs w' = w_dbs w"
proof -
  let ?xs = "List.map_filter pick (riter R (rocks_of (q_database q) w))"
  let ?p = "page_items push_back (q_offset q) (q_limit q) ?xs page_start"
  have p: "page_data ?p = page_slice (q_offset q) (q_limit q) ?xs"
    "\<forall>s\<in>set (p_sent ?p). length (snd s) = 50" "length (p_result ?p) < 50"
    using page_items_slice [OF assms(3,4)] by (auto simp: page_ok_def)
  have run: "run_pages R pick request q w = Inr (last_page ?p q, attach_pages request ?p w)"
    by (simp add: run_pages_def scan_pages_quiet [OF assms(1,2)])
  have "concat (map q_VecData (map request (p_sent ?p))) = concat (map snd (p_sent ?p))"
    by (simp add: comp_def assms(5))
  with p run show ?thesis
    by (auto simp: listed_def attach_pages_def last_page_def page_data_def assms(5))
qed

text \<open>
  The shape of the raw keys the queries write: values under a non-empty name, and timer records.
\<close>

definition raw_keys_ok :: "(string \<rightharpoonup> string) \<Rightarrow> bool" where
  "raw_keys_ok m \<longleftrightarrow>
     (\<forall>raw \<in> dom m. \<exists>k s. k \<noteq> [] \<and>
        ((\<exists>t\<in>set TypeRegs. raw = raw_key k s t) \<or>
         (\<exists>n. raw = expire_record k s n) \<or> (\<exists>n. raw = future_record k s n)))"

lemma TypeRegs_plain: "t \<in> set TypeRegs \<Longrightarrow> t \<noteq> [] \<and> CHR '':'' \<notin> set t"
  by (auto simp: TypeRegs_def INT_defs)

lemma scan_key_some:
  assumes "raw_keys_ok m" "raw \<in> dom m" "ty \<noteq> INT_EXPIRE" "ty \<noteq> INT_FUTURE"
  shows "scan_key wanted select ty raw = Some k \<longleftrightarrow> wanted k \<and> raw = raw_key k select ty \<and> ty \<in> set TypeRegs \<and> k \<noteq> []"
proof -
  from assms(1,2) obtain k0 s0 where k0: "k0 \<noteq> []" and
    raw: "(\<exists>t\<in>set TypeRegs. raw = raw_key k0 s0 t) \<or> (\<exists>n. raw = expire_record k0 s0 n) \<or>
      (\<exists>n. raw = future_record k0 s0 n)"
    unfolding raw_keys_ok_def by blast
  from raw show ?thesis
  proof (elim disjE exE bexE)
    fix t assume t: "t \<in> set TypeRegs" "raw = raw_key k0 s0 t"
    then show ?thesis
      using k0 TypeRegs_plain [OF t(1)] by (auto simp: scan_key_raw_key)
  next
    fix n assume "raw = expire_record k0 s0 n"
    then show ?thesis
      using k0 assms(3) records_apart(1) [of ty k select k0 s0 n] by (auto simp: scan_key_expire_record)
  next
    fix n assume "raw = future_record k0 s0 n"
    then show ?thesis
      using k0 assms(4) records_apart(2) [of ty k select k0 s0 n] by (auto simp: scan_key_future_record)
  qed
qed

lemma set_map_filter': "set (List.map_filter f xs) = {y. \<exists>x\<in>set xs. f x = Some y}"
  by (induction xs) (auto simp: List.map_filter_def split: option.splits)

lemma distinct_map_filter_inj:
  assumes "distinct (map g xs)"
    and "\<And>x x' y. x \<in> set xs \<Longrightarrow> x' \<in> set xs \<Longrightarrow> f x = Some y \<Longrightarrow> f x' = Some y \<Longrightarrow> g x = g x'"
  shows "distinct (List.map_filter f xs)"
  using assms
proof (induction xs)
  case (Cons x xs)
  then have IH: "distinct (List.map_filter f xs)" by (auto intro: Cons.IH)
  show ?case
  proof (cases "f x")
    case None
    with IH show ?thesis by (simp add: List.map_filter_def)
  next
    case (Some y)
    have "y \<notin> set (List.map_filter f xs)"
    proof
      assume "y \<in> set (List.map_filter f xs)"
      then obtain x' where "x' \<in> set xs" "f x' = Some y" by (auto simp: set_map_filter')
      with Cons.prems Some have "g x = g x'" by (meson list.set_intros)
      with Cons.prems(1) \<open>x' \<in> set xs\<close> show False by (auto simp: image_iff)
    qed
    with IH Some show ?thesis by (simp add: List.map_filter_def)
  qed
qed (simp add: List.map_filter_def)

lemma picked_names:
  assumes "rocks_ok R view" "raw_keys_ok (view s)" "ty \<in> set TypeRegs" "ty \<noteq> INT_EXPIRE" "ty \<noteq> INT_FUTURE"
  shows "set (List.map_filter (pick_name q ty) (riter R s)) =
      {k. k \<noteq> [] \<and> Match k (q_key q) \<and> view s (raw_key k (q_select_query q) ty) \<noteq> None}"
    and "distinct (List.map_filter (pick_name q ty) (riter R s))"
proof -
  have it: "keys_strict (riter R s)" "map_of (riter R s) = view s"
    using assms(1) by (auto simp: rocks_ok_def)
  then have dist: "distinct (map fst (riter R s))" by (simp add: strict_sorted_iff)
  have dom: "fst x \<in> dom (view s)" if "x \<in> set (riter R s)" for x
    using that it(2) by (metis dom_map_of_conv_image_fst image_eqI)
  have pick: "pick_name q ty x = Some k \<longleftrightarrow>
      Match k (q_key q) \<and> fst x = raw_key k (q_select_query q) ty \<and> k \<noteq> []" if "x \<in> set (riter R s)" for x k
    using scan_key_some [OF assms(2) dom [OF that] assms(4,5)] assms(3) by (simp add: pick_name_def)
  have "view s raw \<noteq> None \<longleftrightarrow> (\<exists>x\<in>set (riter R s). fst x = raw)" for raw
    using it(2) by (metis (no_types, lifting) image_iff map_of_eq_None_iff)
  with pick show "set (List.map_filter (pick_name q ty) (riter R s)) =
      {k. k \<noteq> [] \<and> Match k (q_key q) \<and> view s (raw_key k (q_select_query q) ty) \<noteq> None}"
    unfolding set_map_filter' by blast
  show "distinct (List.map_filter (pick_name q ty) (riter R s))"
    by (rule distinct_map_filter_inj [OF dist]) (auto simp: pick)
qed

text \<open>
  The outcome of a listing query of the type \<open>ty\<close>: every name that holds a value of that type and
  matches the mask, once, in pages of fifty; the databases are not touched.
\<close>

definition names_listed ::
  "('d \<Rightarrow> string \<rightharpoonup> string) \<Rightarrow> string \<Rightarrow> query \<Rightarrow> 'd world \<Rightarrow> query \<Rightarrow> 'd world \<Rightarrow> bool" where
  "names_listed view ty q w q' w' \<longleftrightarrow>
     q_finished q' \<and> w_dbs w' = w_dbs w \<and> distinct (listed (length (w_results w)) q' w') \<and>
     set (listed (length (w_results w)) q' w') =
       {k. k \<noteq> [] \<and> Match k (q_key q) \<and>
           holds view (q_database q) w (raw_key k (q_select_query q) ty) \<noteq> None} \<and>
     (\<forall>r\<in>set (drop (length (w_results w)) (w_results w')). length (q_VecData r) = 50)"

lemma listing_query_lists:
  assumes "rocks_ok R view" "ready q w" "w_interrupts w = []"
    and "raw_keys_ok (holds view (q_database q) w)" "q_limit q = - 1"
    and "length (riter R (rocks_of (q_database q) w)) < 2 ^ 31"
    and "ty \<in> set TypeRegs" "ty \<noteq> INT_EXPIRE" "ty \<noteq> INT_FUTURE"
    and "run (access_set DBL_STATUS_OK (of_class QUERY_TYPE_SKIP base q)) w =
      run_pages R (pick_name q ty) request (access_set DBL_STATUS_OK (of_class QUERY_TYPE_SKIP base q)) w"
    and "\<And>s. q_VecData (request s) = snd s"
  shows "\<exists>q' w'. Prepare R run (of_class QUERY_TYPE_SKIP base q) w = Inr (True, q', w') \<and>
    names_listed view ty q w q' w'"
proof -
  let ?q = "access_set DBL_STATUS_OK (of_class QUERY_TYPE_SKIP base q)"
  have q: "ready (of_class QUERY_TYPE_SKIP base q) w"
    using assms(2) by simp
  have P: "Prepare R run (of_class QUERY_TYPE_SKIP base q) w = run_then True run ?q w"
    by (simp add: Prepare_def Prepare_ready [OF q])
  let ?it = "riter R (rocks_of (q_database q) w)"
  have "length (List.map_filter (pick_name q ty) ?it) \<le> length ?it"
    by (simp add: List.map_filter_def)
  with assms(6) have len: "length (List.map_filter (pick_name q ty) (riter R (rocks_of (q_database ?q) w))) < 2 ^ 31"
    by simp
  have "\<not> d_closing (w_dbs w (q_database ?q))"
    using assms(2) by (simp add: ready_def)
  from run_pages_quiet [OF assms(3) this len _ assms(11)] assms(5)
  obtain q' w' where r: "run ?q w = Inr (q', w')" "q_finished q'"
    "listed (length (w_results w)) q' w' = List.map_filter (pick_name q ty) ?it"
    "\<forall>r\<in>set (drop (length (w_results w)) (w_results w')). length (q_VecData r) = 50" "w_dbs w' = w_dbs w"
    by (auto simp: assms(10) page_slice_def)
  with picked_names [OF assms(1,4,7-9), of q] P show ?thesis
    by (auto simp: names_listed_def run_then_def)
qed


lemma raw_keys_ok_one: "t \<in> set TypeRegs \<Longrightarrow> raw_keys_ok (map_of (one_entry t v))"
  by (auto simp: raw_keys_ok_def one_entry_def)


end
