(* ===== verification/List_Handler.thy ===== *)
theory List_Handler
  imports Handler_Base
begin

text \<open>
  \<open>src/brldb/list_handler.cpp\<close> and \<open>include/brldb/list_handler.h\<close>: the list container
  (\<open>std::list<std::string>\<close> with its last message), one function per member.  The text form is
  shown to be a codec for lists without empty elements, and every member is given its meaning
  on the list.  \<open>double\<close> is the host's: its operations are a parameter record.
\<close>

section \<open>Host floating point\<close>

record 'n dbl =
  d_of_string :: "string \<Rightarrow> 'n"
  d_zero :: 'n
  d_less :: "'n \<Rightarrow> 'n \<Rightarrow> bool"
  d_add :: "'n \<Rightarrow> 'n \<Rightarrow> 'n"
  d_div :: "'n \<Rightarrow> 'n \<Rightarrow> 'n"
  d_of_size :: "nat \<Rightarrow> 'n"
  d_show :: "'n \<Rightarrow> string"

text \<open>
  What is used of \<open><\<close>: on the values a stream can read (no NaN) it is a strict linear order.
\<close>

definition d_ordered :: "'n dbl \<Rightarrow> bool" where
  "d_ordered D \<longleftrightarrow>
     (\<forall>x. \<not> d_less D x x) \<and>
     (\<forall>x y z. d_less D x y \<longrightarrow> d_less D y z \<longrightarrow> d_less D x z) \<and>
     (\<forall>x y. d_less D x y \<or> x = y \<or> d_less D y x)"

primrec lowest_from :: "'n dbl \<Rightarrow> string list \<Rightarrow> 'n \<Rightarrow> 'n" where
  "lowest_from D [] val = val"
| "lowest_from D (i # is) val =
     lowest_from D is (if d_less D (d_of_string D i) val then d_of_string D i else val)"

primrec highest_from :: "'n dbl \<Rightarrow> string list \<Rightarrow> 'n \<Rightarrow> 'n" where
  "highest_from D [] val = val"
| "highest_from D (i # is) val =
     highest_from D is (if d_less D val (d_of_string D i) then d_of_string D i else val)"

primrec sum_from :: "'n dbl \<Rightarrow> string list \<Rightarrow> 'n \<Rightarrow> 'n" where
  "sum_from D [] val = val"
| "sum_from D (i # is) val = sum_from D is (d_add D val (d_of_string D i))"

section \<open>State and operations\<close>

record list_handler =
  lh_mhandler :: "string list"
  lh_LastMsg :: last_msg

definition ListHandler :: list_handler where
  "ListHandler = \<lparr>lh_mhandler = [], lh_LastMsg = None\<rparr>"

abbreviation lh_msg :: "HANDLER_MSG \<Rightarrow> list_handler \<Rightarrow> list_handler" where
  "lh_msg m h \<equiv> h\<lparr>lh_LastMsg := Some m\<rparr>"

definition ListHandler_Add :: "string \<Rightarrow> list_handler \<Rightarrow> list_handler" where
  "ListHandler_Add key h =
     (if key = [] then lh_msg HANDLER_MSG_INVALID h
      else lh_msg HANDLER_MSG_OK (h\<lparr>lh_mhandler := lh_mhandler h @ [key]\<rparr>))"

definition ListHandler_Create :: "string \<Rightarrow> list_handler" where
  "ListHandler_Create load =
     fold (\<lambda>m. ListHandler_Add (to_string m)) (colon_tokens load) ListHandler"

definition ListHandler_Erase :: "list_handler \<Rightarrow> list_handler" where
  "ListHandler_Erase h = lh_msg HANDLER_MSG_OK (h\<lparr>lh_mhandler := []\<rparr>)"

definition ListHandler_PopFront :: "list_handler \<Rightarrow> list_handler" where
  "ListHandler_PopFront h =
     (if lh_mhandler h = [] then lh_msg HANDLER_MSG_OK h
      else if length (lh_mhandler h) = 1 then lh_msg HANDLER_MSG_OK (ListHandler_Erase h)
      else lh_msg HANDLER_MSG_OK (h\<lparr>lh_mhandler := tl (lh_mhandler h)\<rparr>))"

definition ListHandler_PopBack :: "list_handler \<Rightarrow> list_handler" where
  "ListHandler_PopBack h =
     (if lh_mhandler h = [] then lh_msg HANDLER_MSG_NOT_FOUND h
      else if length (lh_mhandler h) = 1 then lh_msg HANDLER_MSG_OK (ListHandler_Erase h)
      else lh_msg HANDLER_MSG_OK (h\<lparr>lh_mhandler := butlast (lh_mhandler h)\<rparr>))"

definition ListHandler_GetSMA :: "'n dbl \<Rightarrow> list_handler \<Rightarrow> 'n" where
  "ListHandler_GetSMA D h =
     d_div D (sum_from D (lh_mhandler h) (d_zero D)) (d_of_size D (length (lh_mhandler h)))"

primrec all_numeric :: "string list \<Rightarrow> bool" where
  "all_numeric [] = True"
| "all_numeric (i # is) = (if \<not> is_number i True then False else all_numeric is)"

definition ListHandler_IsNumeric :: "list_handler \<Rightarrow> bool" where
  "ListHandler_IsNumeric h = all_numeric (lh_mhandler h)"

definition ListHandler_Exist :: "string \<Rightarrow> list_handler \<Rightarrow> bool" where
  "ListHandler_Exist key h \<longleftrightarrow> key \<in> set (lh_mhandler h)"

definition ListHandler_PopAll :: "string \<Rightarrow> list_handler \<Rightarrow> list_handler" where
  "ListHandler_PopAll key h =
     (if key = [] then lh_msg HANDLER_MSG_INVALID h
      else if length (lh_mhandler h) = 1 then lh_msg HANDLER_MSG_OK (ListHandler_Erase h)
      else (lh_msg HANDLER_MSG_OK h)\<lparr>lh_mhandler := removeAll key (lh_mhandler h)\<rparr>)"

text \<open>The index loop; \<open>counter\<close> is an \<open>unsigned int\<close>.\<close>

primrec index_loop :: "u32 \<Rightarrow> string list \<Rightarrow> u32 \<Rightarrow> string option" where
  "index_loop pos [] counter = None"
| "index_loop pos (item # items) counter =
     (if counter = pos then Some item else index_loop pos items (counter + 1))"

definition ListHandler_Index :: "u32 \<Rightarrow> list_handler \<Rightarrow> (string \<times> list_handler) res" where
  "ListHandler_Index pos h =
     (if lh_mhandler h = [] then Inl Null_string
      else (case index_loop pos (lh_mhandler h) 0 of
              Some item \<Rightarrow> Inr (item, lh_msg HANDLER_MSG_OK h)
            | None \<Rightarrow> Inr ([], lh_msg HANDLER_MSG_NOT_FOUND h)))"

primrec repeats_loop :: "string \<Rightarrow> string list \<Rightarrow> u32 \<Rightarrow> u32" where
  "repeats_loop word [] counter = counter"
| "repeats_loop word (item # items) counter =
     repeats_loop word items (if item = word then counter + 1 else counter)"

definition ListHandler_Repeats :: "string \<Rightarrow> list_handler \<Rightarrow> u32 \<times> list_handler" where
  "ListHandler_Repeats word h =
     (if lh_mhandler h = [] then (0, h)
      else (repeats_loop word (lh_mhandler h) 0, lh_msg HANDLER_MSG_OK h))"

text \<open>The erasing loop of \<open>Remove\<close>: the list after the first match is erased, if there is one.\<close>

primrec remove_loop :: "string \<Rightarrow> string list \<Rightarrow> string list option" where
  "remove_loop key [] = None"
| "remove_loop key (item # items) =
     (if item = key then Some items else map_option ((#) item) (remove_loop key items))"

definition ListHandler_Remove :: "string \<Rightarrow> list_handler \<Rightarrow> list_handler" where
  "ListHandler_Remove key h =
     (if lh_mhandler h = [] then h
      else (case remove_loop key (lh_mhandler h) of
              Some l \<Rightarrow> lh_msg HANDLER_MSG_OK (h\<lparr>lh_mhandler := l\<rparr>)
            | None \<Rightarrow> lh_msg HANDLER_MSG_OK h))"

primrec as_string_loop :: "nat \<Rightarrow> string list \<Rightarrow> nat \<Rightarrow> string \<Rightarrow> string" where
  "as_string_loop sz [] counter final = final"
| "as_string_loop sz (key # keys) counter final =
     as_string_loop sz keys (counter + 1)
       (if counter \<noteq> sz then final @ to_bin key @ '':'' else final)"

definition ListHandler_as_string :: "list_handler \<Rightarrow> string" where
  "ListHandler_as_string h = as_string_loop (length (lh_mhandler h)) (lh_mhandler h) 0 []"

primrec match_items :: "string \<Rightarrow> string list \<Rightarrow> string list \<Rightarrow> string list" where
  "match_items key [] items = items"
| "match_items key (i # is) items =
     match_items key is (if \<not> Match i key then items else items @ [i])"

definition ListHandler_Find :: "string \<Rightarrow> list_handler \<Rightarrow> string list \<times> list_handler" where
  "ListHandler_Find key h = (match_items key (lh_mhandler h) [], lh_msg HANDLER_MSG_OK h)"

definition ListHandler_RPOP :: "list_handler \<Rightarrow> string \<times> list_handler" where
  "ListHandler_RPOP h =
     (if lh_mhandler h = [] then ([], lh_msg HANDLER_MSG_NOT_FOUND h)
      else (last (lh_mhandler h), lh_msg HANDLER_MSG_OK (h\<lparr>lh_mhandler := butlast (lh_mhandler h)\<rparr>)))"

definition ListHandler_Front :: "list_handler \<Rightarrow> string \<times> list_handler" where
  "ListHandler_Front h =
     (if lh_mhandler h = [] then ([], lh_msg HANDLER_MSG_NOT_FOUND h)
      else (hd (lh_mhandler h), lh_msg HANDLER_MSG_OK h))"

definition ListHandler_Back :: "list_handler \<Rightarrow> string \<times> list_handler" where
  "ListHandler_Back h =
     (if lh_mhandler h = [] then ([], lh_msg HANDLER_MSG_NOT_FOUND h)
      else (last (lh_mhandler h), lh_msg HANDLER_MSG_OK h))"

text \<open>
  \<open>FPOP\<close> binds a reference to the front element, pops it and returns a copy made through the
  reference: the element is destroyed by then, so the call is undefined on a non-empty list.
\<close>

definition ListHandler_FPOP :: "list_handler \<Rightarrow> (string \<times> list_handler) res" where
  "ListHandler_FPOP h =
     (if lh_mhandler h = [] then Inr ([], lh_msg HANDLER_MSG_NOT_FOUND h)
      else Inl Undefined_behaviour)"

definition ListHandler_GetLow :: "'n dbl \<Rightarrow> list_handler \<Rightarrow> 'n res" where
  "ListHandler_GetLow D h =
     (if lh_mhandler h = [] then Inl Undefined_behaviour
      else Inr (lowest_from D (lh_mhandler h) (d_of_string D (hd (lh_mhandler h)))))"

definition ListHandler_GetHigh :: "'n dbl \<Rightarrow> list_handler \<Rightarrow> 'n" where
  "ListHandler_GetHigh D h = highest_from D (lh_mhandler h) (d_zero D)"

definition ListHandler_Count :: "list_handler \<Rightarrow> u32 \<times> list_handler" where
  "ListHandler_Count h = (of_nat (length (lh_mhandler h)), lh_msg HANDLER_MSG_OK h)"

definition ListHandler_Reverse :: "list_handler \<Rightarrow> list_handler" where
  "ListHandler_Reverse h = (lh_msg HANDLER_MSG_OK h)\<lparr>lh_mhandler := rev (lh_mhandler h)\<rparr>"

definition resize_list :: "nat \<Rightarrow> string list \<Rightarrow> string list" where
  "resize_list n l = take n l @ replicate (n - length l) []"

definition ListHandler_Resize :: "u32 \<Rightarrow> list_handler \<Rightarrow> list_handler" where
  "ListHandler_Resize sz h =
     (lh_msg HANDLER_MSG_OK h)\<lparr>lh_mhandler := resize_list (unat sz) (lh_mhandler h)\<rparr>"

definition ListHandler_Sort :: "list_handler \<Rightarrow> list_handler" where
  "ListHandler_Sort h = (lh_msg HANDLER_MSG_OK h)\<lparr>lh_mhandler := sort (lh_mhandler h)\<rparr>"

section \<open>Closed forms of the loops\<close>

lemma as_string_loop_eq:
  "counter + length l \<le> sz \<Longrightarrow>
   as_string_loop sz l counter final = final @ concat (map (\<lambda>k. to_bin k @ '':'') l)"
  by (induction l arbitrary: counter final) auto

lemma ListHandler_as_string_eq:
  "ListHandler_as_string h = concat (map (\<lambda>k. to_bin k @ '':'') (lh_mhandler h))"
  by (simp add: ListHandler_as_string_def as_string_loop_eq)

lemma fold_Add:
  "lh_mhandler (fold (\<lambda>m. ListHandler_Add (to_string m)) ts h) =
     lh_mhandler h @ filter (\<lambda>t. t \<noteq> []) (map to_string ts)"
  by (induction ts arbitrary: h) (auto simp: ListHandler_Add_def)

lemma ListHandler_Create_eq:
  "lh_mhandler (ListHandler_Create s) = filter (\<lambda>t. t \<noteq> []) (map to_string (colon_tokens s))"
  by (simp add: ListHandler_Create_def fold_Add ListHandler_def)

lemma colon_tokens_encoded:
  "[] \<notin> set l \<Longrightarrow> colon_tokens (concat (map (\<lambda>k. to_bin k @ '':'') l)) = map to_bin l"
  by (induction l) (auto simp: colon_tokens_Cons)

lemma index_loop_eq:
  "unat counter + length l \<le> 2 ^ 32 \<Longrightarrow> unat counter \<le> unat pos \<Longrightarrow>
   index_loop pos l counter =
     (if unat pos - unat counter < length l then Some (l ! (unat pos - unat counter)) else None)"
proof (induction l arbitrary: counter)
  case (Cons x l)
  show ?case
  proof (cases "counter = pos")
    case False
    then have less: "unat counter < unat pos"
      using Cons.prems(2) by (metis nat_less_le unsigned_word_eqI)
    then have suc: "unat (counter + 1) = Suc (unat counter)"
      using unsigned_less [of pos, where ?'a = nat] by (simp add: unat_word_ariths)
    then have "index_loop pos l (counter + 1) =
      (if unat pos - unat (counter + 1) < length l then Some (l ! (unat pos - unat (counter + 1))) else None)"
      using Cons.prems less by (intro Cons.IH) auto
    with False less suc show ?thesis
      by (auto simp: nth_Cons' Suc_diff_Suc)
  qed auto
qed simp

lemma repeats_loop_eq: "repeats_loop word l counter = counter + of_nat (count_list l word)"
  by (induction l arbitrary: counter) (auto simp: algebra_simps)

lemma remove_loop_eq: "remove_loop key l = (if key \<in> set l then Some (remove1 key l) else None)"
  by (induction l) auto

lemma match_items_eq: "match_items key l items = items @ filter (\<lambda>i. Match i key) l"
  by (induction l arbitrary: items) auto

lemma all_numeric_eq: "all_numeric l \<longleftrightarrow> (\<forall>i\<in>set l. is_number i True)"
  by (induction l) auto

text \<open>The lowest and the highest of the values read, by the host's order.\<close>

lemma d_orderedD:
  assumes "d_ordered D"
  shows "\<not> d_less D x x" "d_less D x y \<Longrightarrow> d_less D y z \<Longrightarrow> d_less D x z"
    "\<not> d_less D x y \<Longrightarrow> d_less D z y \<Longrightarrow> d_less D z x \<or> z = x"
  using assms unfolding d_ordered_def by blast+

lemma lowest_from_least:
  assumes D: "d_ordered D"
  shows "lowest_from D l val \<in> insert val (d_of_string D ` set l) \<and>
    (\<forall>x \<in> insert val (d_of_string D ` set l). \<not> d_less D x (lowest_from D l val))"
proof (induction l arbitrary: val)
  case Nil
  show ?case using d_orderedD(1) [OF D] by simp
next
  case (Cons i l)
  let ?i = "d_of_string D i"
  let ?v = "if d_less D ?i val then ?i else val"
  let ?r = "lowest_from D l ?v"
  from Cons.IH have r: "?r \<in> insert ?v (d_of_string D ` set l)" "\<not> d_less D ?v ?r"
    "\<And>x. x \<in> d_of_string D ` set l \<Longrightarrow> \<not> d_less D x ?r"
    by auto
  have "\<not> d_less D val ?r \<and> \<not> d_less D ?i ?r"
  proof (cases "d_less D ?i val")
    case True
    then show ?thesis using r(2) d_orderedD(2) [OF D True] by auto
  next
    case False
    then have "d_less D val ?i \<or> val = ?i"
      using D unfolding d_ordered_def by blast
    then show ?thesis using r(2) False d_orderedD(2) [OF D, of val ?i ?r] by auto
  qed
  with r show ?case by (auto split: if_splits)
qed

lemma highest_from_flip:
  "highest_from D l val = lowest_from (D\<lparr>d_less := \<lambda>x y. d_less D y x\<rparr>) l val"
  by (induction l arbitrary: val) auto

lemma d_ordered_flip: "d_ordered D \<Longrightarrow> d_ordered (D\<lparr>d_less := \<lambda>x y. d_less D y x\<rparr>)"
  unfolding d_ordered_def by simp blast

lemma highest_from_greatest:
  "d_ordered D \<Longrightarrow>
   highest_from D l val \<in> insert val (d_of_string D ` set l) \<and>
   (\<forall>x \<in> insert val (d_of_string D ` set l). \<not> d_less D (highest_from D l val) x)"
  using lowest_from_least [OF d_ordered_flip, of D l val] by (simp add: highest_from_flip)

section \<open>The invariant and the members on the list\<close>

definition wf_list :: "list_handler \<Rightarrow> bool" where
  "wf_list h \<longleftrightarrow> [] \<notin> set (lh_mhandler h)"

lemma wf_list_Create [simp]: "wf_list (ListHandler_Create s)"
  by (auto simp: wf_list_def ListHandler_Create_eq)

lemma Create_as_string:
  "wf_list h \<Longrightarrow> lh_mhandler (ListHandler_Create (ListHandler_as_string h)) = lh_mhandler h"
  by (auto simp: wf_list_def ListHandler_Create_eq ListHandler_as_string_eq colon_tokens_encoded
      comp_def intro!: filter_True)

interpretation lh: handler_codec ListHandler_Create ListHandler_as_string lh_mhandler wf_list
  by unfold_locales (simp_all add: Create_as_string, simp add: ListHandler_as_string_eq)

named_theorems list_ops "what each member of the list handler does to the list"

lemma lh_items [list_ops, simp]:
  "lh_mhandler ListHandler = []"
  "lh_mhandler (ListHandler_Add key h) = (if key = [] then lh_mhandler h else lh_mhandler h @ [key])"
  "lh_mhandler (ListHandler_Erase h) = []"
  "lh_mhandler (ListHandler_PopFront h) = tl (lh_mhandler h)"
  "lh_mhandler (ListHandler_PopBack h) = butlast (lh_mhandler h)"
  "lh_mhandler (ListHandler_Remove key h) = remove1 key (lh_mhandler h)"
  "lh_mhandler (ListHandler_Reverse h) = rev (lh_mhandler h)"
  "lh_mhandler (ListHandler_Sort h) = sort (lh_mhandler h)"
  "lh_mhandler (ListHandler_Resize n h) = resize_list (unat n) (lh_mhandler h)"
  "lh_mhandler (snd (ListHandler_Count h)) = lh_mhandler h"
  "lh_mhandler (snd (ListHandler_RPOP h)) = butlast (lh_mhandler h)"
  "lh_mhandler (snd (ListHandler_Front h)) = lh_mhandler h"
  "lh_mhandler (snd (ListHandler_Back h)) = lh_mhandler h"
  by (auto simp: ListHandler_def ListHandler_Add_def ListHandler_Erase_def ListHandler_PopFront_def
      ListHandler_PopBack_def ListHandler_Remove_def remove_loop_eq remove1_idem ListHandler_Reverse_def
      ListHandler_Sort_def ListHandler_Resize_def ListHandler_Count_def ListHandler_RPOP_def
      ListHandler_Front_def ListHandler_Back_def length_Suc_conv)

lemma lh_PopAll [list_ops]:
  "lh_mhandler (ListHandler_PopAll key h) =
     (if key = [] then lh_mhandler h
      else if length (lh_mhandler h) = 1 then []
      else removeAll key (lh_mhandler h))"
  by (simp add: ListHandler_PopAll_def)

lemma wf_list_subset:
  "wf_list h \<Longrightarrow> set (lh_mhandler h') \<subseteq> set (lh_mhandler h) \<Longrightarrow> wf_list h'"
  by (auto simp: wf_list_def)

lemma set_tl_subset: "set (tl l) \<subseteq> set l"
  by (cases l) auto

lemma wf_list_Add: "wf_list h \<Longrightarrow> wf_list (ListHandler_Add key h)"
  by (simp add: wf_list_def)

lemma wf_list_Resize:
  "wf_list h \<Longrightarrow> unat n \<le> length (lh_mhandler h) \<Longrightarrow> wf_list (ListHandler_Resize n h)"
  by (erule wf_list_subset) (simp add: resize_list_def set_take_subset)

lemma wf_list_ops [intro]:
  assumes "wf_list h"
  shows "wf_list (ListHandler_PopFront h)" "wf_list (ListHandler_PopBack h)"
    "wf_list (ListHandler_Remove key h)" "wf_list (ListHandler_PopAll key h)"
    "wf_list (ListHandler_Reverse h)" "wf_list (ListHandler_Sort h)"
    "wf_list (snd (ListHandler_RPOP h))"
  by (rule wf_list_subset [OF assms]; auto simp: lh_PopAll
      dest: in_set_butlastD set_tl_subset [THEN subsetD] set_remove1_subset [THEN subsetD])+

section \<open>Histories of a stored list\<close>

text \<open>
  The members that change a list, called between loading and storing it as the list queries do, and
  what each is on the list that the next query loads.  \<open>Resize\<close> pads a short list with empty elements,
  which the text form does not keep: what is stored is the list cut at the length asked for.
  \<open>FPOP\<close> is not among them: it reads the element it has destroyed.
\<close>

datatype list_call =
  L_add string | L_pop_front | L_pop_back | L_rpop | L_remove string | L_pop_all string | L_reverse
| L_sort | L_resize u32 | L_erase

primrec list_op :: "list_call \<Rightarrow> list_handler \<Rightarrow> list_handler" where
  "list_op (L_add x) = ListHandler_Add x"
| "list_op L_pop_front = ListHandler_PopFront"
| "list_op L_pop_back = ListHandler_PopBack"
| "list_op L_rpop = snd \<circ> ListHandler_RPOP"
| "list_op (L_remove x) = ListHandler_Remove x"
| "list_op (L_pop_all x) = ListHandler_PopAll x"
| "list_op L_reverse = ListHandler_Reverse"
| "list_op L_sort = ListHandler_Sort"
| "list_op (L_resize n) = ListHandler_Resize n"
| "list_op L_erase = ListHandler_Erase"

primrec list_spec :: "list_call \<Rightarrow> string list \<Rightarrow> string list" where
  "list_spec (L_add x) l = (if x = [] then l else l @ [x])"
| "list_spec L_pop_front l = tl l"
| "list_spec L_pop_back l = butlast l"
| "list_spec L_rpop l = butlast l"
| "list_spec (L_remove x) l = remove1 x l"
| "list_spec (L_pop_all x) l = (if x = [] then l else if length l = 1 then [] else removeAll x l)"
| "list_spec L_reverse l = rev l"
| "list_spec L_sort l = sort l"
| "list_spec (L_resize n) l = take (unat n) l"
| "list_spec L_erase l = []"

text \<open>What the text form keeps of a list: its elements that are not empty.\<close>

definition kept :: "string list \<Rightarrow> string list" where
  "kept l = filter (\<lambda>x. x \<noteq> []) l"

lemma kept_wf: "wf_list h \<Longrightarrow> kept (lh_mhandler h) = lh_mhandler h"
  by (auto simp: kept_def wf_list_def intro!: filter_True)

lemma colon_tokens_kept:
  "colon_tokens (concat (map (\<lambda>k. to_bin k @ '':'') l)) = map to_bin (kept l)"
proof (induction l)
  case (Cons k l)
  show ?case
  proof (cases "k = []")
    case True
    have "colon_tokens ('':'' @ s) = colon_tokens s" for s
      using split_on_append [of "CHR '':''" "[]" s] by (simp add: colon_tokens_eq)
    with True Cons show ?thesis by (simp add: kept_def)
  next
    case False
    with Cons show ?thesis by (simp add: kept_def colon_tokens_Cons)
  qed
qed (simp add: kept_def)

lemma stored_kept:
  "lh_mhandler (ListHandler_Create (ListHandler_as_string h)) = kept (lh_mhandler h)"
  by (simp add: ListHandler_Create_eq ListHandler_as_string_eq colon_tokens_kept comp_def)
    (simp add: kept_def)

lemma list_op_kept:
  assumes "wf_list h"
  shows "kept (lh_mhandler (list_op c h)) = list_spec c (lh_mhandler h)"
proof (cases c)
  case (L_resize n)
  have "kept (take (unat n) (lh_mhandler h)) = take (unat n) (lh_mhandler h)"
    using assms by (auto simp: kept_def wf_list_def intro!: filter_True dest: in_set_takeD)
  with L_resize show ?thesis by (simp add: resize_list_def kept_def)
qed (use assms in \<open>simp_all add: lh_PopAll\<close>,
     use assms in \<open>auto simp: kept_def wf_list_def intro!: filter_True
       dest: in_set_butlastD set_tl_subset [THEN subsetD] set_remove1_subset [THEN subsetD]\<close>)


end
