(* ===== verification/Map_Handler.thy ===== *)
theory Map_Handler
  imports List_Handler
begin

text \<open>
  \<open>src/brldb/map_handler.cpp\<close> and \<open>include/brldb/map_handler.h\<close>: the field/value container, a
  \<open>std::map\<close> kept as a list ordered by its keys.  Its text form is shown to be a codec for maps
  without an empty field, and its members to be those of a finite map.
\<close>

section \<open>State and operations\<close>

record map_handler =
  mh_mhandler :: "(string \<times> string) list"
  mh_LastMsg :: last_msg

definition MapHandler :: map_handler where
  "MapHandler = \<lparr>mh_mhandler = [], mh_LastMsg = None\<rparr>"

abbreviation mh_msg :: "HANDLER_MSG \<Rightarrow> map_handler \<Rightarrow> map_handler" where
  "mh_msg m h \<equiv> h\<lparr>mh_LastMsg := Some m\<rparr>"

primrec has_field :: "string \<Rightarrow> (string \<times> string) list \<Rightarrow> bool" where
  "has_field word [] = False"
| "has_field word (i # is) = (if word = fst i then True else has_field word is)"

definition MapHandler_Exists :: "string \<Rightarrow> map_handler \<Rightarrow> bool \<times> map_handler" where
  "MapHandler_Exists word h =
     (if mh_mhandler h = [] then (False, mh_msg HANDLER_MSG_NOT_FOUND h)
      else if has_field word (mh_mhandler h) then (True, mh_msg HANDLER_MSG_OK h)
      else (False, mh_msg HANDLER_MSG_NOT_FOUND h))"

text \<open>The erasing loop: the container without the first entry of the field, if it has one.\<close>

primrec delete_loop :: "string \<Rightarrow> (string \<times> string) list \<Rightarrow> (string \<times> string) list option" where
  "delete_loop key [] = None"
| "delete_loop key (i # is) =
     (if fst i = key then Some is else map_option ((#) i) (delete_loop key is))"

definition MapHandler_Delete :: "string \<Rightarrow> map_handler \<Rightarrow> bool \<times> map_handler" where
  "MapHandler_Delete key h =
     (if mh_mhandler h = [] then (False, h)
      else (case delete_loop key (mh_mhandler h) of
              Some m \<Rightarrow> (True, mh_msg HANDLER_MSG_OK (h\<lparr>mh_mhandler := m\<rparr>))
            | None \<Rightarrow> (False, mh_msg HANDLER_MSG_NOT_FOUND h)))"

definition MapHandler_Add :: "string \<Rightarrow> string \<Rightarrow> map_handler \<Rightarrow> map_handler" where
  "MapHandler_Add key val h =
     (if key = [] then mh_msg HANDLER_MSG_INVALID h
      else mh_msg HANDLER_MSG_OK
             (h\<lparr>mh_mhandler := map_insert key val (erase_key key (mh_mhandler h))\<rparr>))"

text \<open>
  \<open>substr(0, find_first_of("/"))\<close> and \<open>substr(found + 1)\<close>; when there is no slash \<open>found\<close> is
  \<open>npos\<close>, so that both are the whole token.
\<close>

definition split_entry :: "string \<Rightarrow> string \<times> string" where
  "split_entry token =
     (case find_char CHR ''/'' token 0 of
        Some found \<Rightarrow> (take found token, drop (found + 1) token)
      | None \<Rightarrow> (token, token))"

definition MapHandler_Create :: "string \<Rightarrow> map_handler" where
  "MapHandler_Create load =
     fold (\<lambda>token. case split_entry token of
             (path, file) \<Rightarrow> MapHandler_Add (to_string path) (to_string file))
       (colon_tokens load) MapHandler"

primrec get_loop :: "string \<Rightarrow> (string \<times> string) list \<Rightarrow> string option" where
  "get_loop key [] = None"
| "get_loop key (i # is) = (if fst i = key then Some (snd i) else get_loop key is)"

definition MapHandler_Get :: "string \<Rightarrow> map_handler \<Rightarrow> string \<times> map_handler" where
  "MapHandler_Get key h =
     (case get_loop key (mh_mhandler h) of
        Some val \<Rightarrow> (val, mh_msg HANDLER_MSG_OK h)
      | None \<Rightarrow> ([], mh_msg HANDLER_MSG_NOT_FOUND h))"

definition MapHandler_Strlen :: "string \<Rightarrow> map_handler \<Rightarrow> u32 \<times> map_handler" where
  "MapHandler_Strlen key h =
     (let (val, h') = MapHandler_Get key h in (of_nat (length val), h'))"

definition MapHandler_Erase :: "map_handler \<Rightarrow> map_handler" where
  "MapHandler_Erase h = mh_msg HANDLER_MSG_OK (h\<lparr>mh_mhandler := []\<rparr>)"

definition MapHandler_Remove :: "string \<Rightarrow> map_handler \<Rightarrow> map_handler" where
  "MapHandler_Remove key h =
     (if key = [] then mh_msg HANDLER_MSG_INVALID h
      else if length (mh_mhandler h) = 1 then mh_msg HANDLER_MSG_OK (MapHandler_Erase h)
      else (mh_msg HANDLER_MSG_OK h)\<lparr>mh_mhandler := erase_key key (mh_mhandler h)\<rparr>)"

primrec map_as_string_loop ::
  "nat \<Rightarrow> (string \<times> string) list \<Rightarrow> nat \<Rightarrow> string \<Rightarrow> string" where
  "map_as_string_loop sz [] counter final = final"
| "map_as_string_loop sz (i # is) counter final =
     map_as_string_loop sz is (counter + 1)
       (if counter \<noteq> sz then final @ to_bin (fst i) @ ''/'' @ to_bin (snd i) @ '':'' else final)"

definition MapHandler_as_string :: "map_handler \<Rightarrow> string" where
  "MapHandler_as_string h = map_as_string_loop (length (mh_mhandler h)) (mh_mhandler h) 0 []"

definition MapHandler_GetAll :: "map_handler \<Rightarrow> (string \<times> string) list \<times> map_handler" where
  "MapHandler_GetAll h =
     (fold (\<lambda>i. map_insert (fst i) (snd i)) (mh_mhandler h) [], mh_msg HANDLER_MSG_OK h)"

definition MapHandler_GetValues :: "map_handler \<Rightarrow> string list \<times> map_handler" where
  "MapHandler_GetValues h = (map snd (mh_mhandler h), mh_msg HANDLER_MSG_OK h)"

definition MapHandler_Count :: "map_handler \<Rightarrow> u32 \<times> map_handler" where
  "MapHandler_Count h = (of_nat (length (mh_mhandler h)), mh_msg HANDLER_MSG_OK h)"

section \<open>Closed forms of the loops\<close>

lemma has_field_eq: "has_field word m \<longleftrightarrow> word \<in> fst ` set m"
  by (induction m) auto

lemma get_loop_eq: "get_loop key m = map_of m key"
  by (induction m) auto

lemma delete_loop_strict:
  "distinct (map fst m) \<Longrightarrow>
   delete_loop key m = (if key \<in> fst ` set m then Some (erase_key key m) else None)"
proof (induction m)
  case (Cons i m)
  then show ?case
    by (auto simp: erase_key_def intro!: filter_True [symmetric]) (metis fst_conv image_eqI)+
qed simp

abbreviation entry_text :: "string \<times> string \<Rightarrow> string" where
  "entry_text i \<equiv> to_bin (fst i) @ ''/'' @ to_bin (snd i)"

lemma map_as_string_loop_eq:
  "counter + length m \<le> sz \<Longrightarrow>
   map_as_string_loop sz m counter final = final @ concat (map (\<lambda>i. entry_text i @ '':'') m)"
  by (induction m arbitrary: counter final) auto

lemma split_entry_text [simp]: "split_entry (to_bin k @ CHR ''/'' # to_bin v) = (to_bin k, to_bin v)"
proof -
  have "takeWhile (\<lambda>x. x \<noteq> CHR ''/'') (to_bin k @ CHR ''/'' # to_bin v) = to_bin k"
    using slash_not_in_to_bin [of k] by (subst takeWhile_append2) auto
  then show ?thesis
    by (simp add: split_entry_def find_char_def)
qed

lemma colon_tokens_entries:
  "colon_tokens (concat (map (\<lambda>i. entry_text i @ '':'') m)) = map entry_text m"
proof (induction m)
  case (Cons i m)
  have "colon_tokens ((entry_text i) @ CHR '':'' # concat (map (\<lambda>i. entry_text i @ '':'') m)) =
      entry_text i # colon_tokens (concat (map (\<lambda>i. entry_text i @ '':'') m))"
    by (rule colon_tokens_Cons) auto
  with Cons show ?case by simp
qed simp

section \<open>The text form and the members on the map\<close>

definition wf_map :: "map_handler \<Rightarrow> bool" where
  "wf_map h \<longleftrightarrow> keys_strict (mh_mhandler h) \<and> [] \<notin> fst ` set (mh_mhandler h)"

lemma wf_map_new [simp]: "wf_map MapHandler"
  by (simp add: wf_map_def MapHandler_def)

lemma MapHandler_Add_items:
  "mh_mhandler (MapHandler_Add key val h) =
     (if key = [] then mh_mhandler h else map_insert key val (erase_key key (mh_mhandler h)))"
  by (simp add: MapHandler_Add_def)

lemma wf_map_Add: "wf_map h \<Longrightarrow> wf_map (MapHandler_Add key val h)"
  by (auto simp: wf_map_def MapHandler_Add_items keys_strict_map_insert set_map_insert)

lemma wf_map_fold: "wf_map h \<Longrightarrow>
  wf_map (fold (\<lambda>token. case split_entry token of
     (path, file) \<Rightarrow> MapHandler_Add (to_string path) (to_string file)) ts h)"
  by (induction ts arbitrary: h) (auto simp: wf_map_Add split: prod.splits)

lemma wf_map_Create [simp]: "wf_map (MapHandler_Create s)"
  by (simp add: MapHandler_Create_def wf_map_fold)

lemma fold_map_Add:
  assumes "keys_strict (mh_mhandler h @ m)" "[] \<notin> fst ` set m"
  shows "mh_mhandler (fold (\<lambda>token. case split_entry token of
     (path, file) \<Rightarrow> MapHandler_Add (to_string path) (to_string file)) (map entry_text m) h) =
     mh_mhandler h @ m"
  using assms
proof (induction m arbitrary: h)
  case (Cons i m)
  have less: "\<forall>p\<in>set (mh_mhandler h). fst p < fst i"
    using Cons.prems(1) by (auto simp: sorted_wrt_append)
  then have "erase_key (fst i) (mh_mhandler h) = mh_mhandler h"
    by (auto simp: erase_key_def intro!: filter_True)
  then have "mh_mhandler (MapHandler_Add (fst i) (snd i) h) = mh_mhandler h @ [i]"
    using less Cons.prems(2) by (auto simp: MapHandler_Add_items map_insert_last)
  with Cons.prems Cons.IH [of "MapHandler_Add (fst i) (snd i) h"] show ?case
    by simp
qed simp

lemma MapHandler_as_string_eq:
  "MapHandler_as_string h = concat (map (\<lambda>i. entry_text i @ '':'') (mh_mhandler h))"
  by (simp add: MapHandler_as_string_def map_as_string_loop_eq)

lemma Create_as_string_map:
  "wf_map h \<Longrightarrow> mh_mhandler (MapHandler_Create (MapHandler_as_string h)) = mh_mhandler h"
  unfolding MapHandler_Create_def MapHandler_as_string_eq colon_tokens_entries
  by (subst fold_map_Add) (auto simp: wf_map_def MapHandler_def)

interpretation mh: handler_codec MapHandler_Create MapHandler_as_string mh_mhandler wf_map
  by unfold_locales (simp_all add: Create_as_string_map, simp add: MapHandler_as_string_eq)

text \<open>The finite map a handler stands for.\<close>

definition map_view :: "map_handler \<Rightarrow> string \<rightharpoonup> string" where
  "map_view h = map_of (mh_mhandler h)"

lemma map_view_Add: "key \<noteq> [] \<Longrightarrow> map_view (MapHandler_Add key val h) = (map_view h)(key \<mapsto> val)"
  by (rule ext) (auto simp: map_view_def MapHandler_Add_items map_of_map_insert map_of_erase_key)

lemma wf_map_distinct: "wf_map h \<Longrightarrow> distinct (map fst (mh_mhandler h))"
  by (simp add: wf_map_def strict_sorted_iff)

lemma map_view_Delete:
  assumes "wf_map h"
  shows "MapHandler_Delete key h = (b, h') \<Longrightarrow>
    (b \<longleftrightarrow> map_view h key \<noteq> None) \<and> map_view h' = (map_view h)(key := None) \<and> wf_map h'"
  using delete_loop_strict [OF wf_map_distinct [OF assms], of key] assms
  by (auto simp: MapHandler_Delete_def map_view_def map_of_erase_key map_of_eq_None_iff wf_map_def
      fun_eq_iff split: if_splits)

lemma map_view_Get:
  "MapHandler_Get key h =
     (case map_view h key of
        Some val \<Rightarrow> (val, mh_msg HANDLER_MSG_OK h) | None \<Rightarrow> ([], mh_msg HANDLER_MSG_NOT_FOUND h))"
  by (simp add: MapHandler_Get_def map_view_def get_loop_eq)

lemma map_view_Exists:
  "MapHandler_Exists key h =
     (map_view h key \<noteq> None,
      mh_msg (if map_view h key \<noteq> None then HANDLER_MSG_OK else HANDLER_MSG_NOT_FOUND) h)"
  by (auto simp: MapHandler_Exists_def map_view_def has_field_eq map_of_eq_None_iff)

section \<open>Histories of a stored map\<close>

text \<open>
  The members that change a map: \<open>Add\<close> (\<open>HSET\<close>, \<open>HSETNX\<close>), \<open>Remove\<close> (\<open>HDEL\<close>), and \<open>Delete\<close> and
  \<open>Erase\<close>, which no command calls.  \<open>Remove\<close> empties a map of one field whatever the field asked
  for; \<open>Delete\<close> does not.
\<close>

datatype map_call = M_set string string | M_remove string | M_delete string | M_erase

primrec map_op :: "map_call \<Rightarrow> map_handler \<Rightarrow> map_handler" where
  "map_op (M_set k v) h = MapHandler_Add k v h"
| "map_op (M_remove k) h = MapHandler_Remove k h"
| "map_op (M_delete k) h = snd (MapHandler_Delete k h)"
| "map_op M_erase h = MapHandler_Erase h"

primrec map_spec :: "map_call \<Rightarrow> (string \<rightharpoonup> string) \<Rightarrow> string \<rightharpoonup> string" where
  "map_spec (M_set k v) m = (if k = [] then m else m(k \<mapsto> v))"
| "map_spec (M_remove k) m =
     (if k = [] then m else if card (dom m) = 1 then Map.empty else m(k := None))"
| "map_spec (M_delete k) m = m(k := None)"
| "map_spec M_erase m = Map.empty"

lemma card_map_view: "wf_map h \<Longrightarrow> card (dom (map_view h)) = length (mh_mhandler h)"
  by (simp add: map_view_def dom_map_of_conv_image_fst distinct_card [OF wf_map_distinct, simplified])

lemma MapHandler_Remove_items:
  "mh_mhandler (MapHandler_Remove k h) =
     (if k = [] then mh_mhandler h
      else if length (mh_mhandler h) = 1 then [] else erase_key k (mh_mhandler h))"
  by (simp add: MapHandler_Remove_def MapHandler_Erase_def)

lemma map_view_Remove:
  "wf_map h \<Longrightarrow> map_view (MapHandler_Remove k h) = map_spec (M_remove k) (map_view h)"
  by (auto simp: card_map_view) (auto simp: map_view_def MapHandler_Remove_items map_of_erase_key fun_eq_iff)

lemma wf_map_Remove: "wf_map h \<Longrightarrow> wf_map (MapHandler_Remove k h)"
  by (auto simp: wf_map_def MapHandler_Remove_items)

lemma map_op_wf: "wf_map h \<Longrightarrow> wf_map (map_op c h)"
  using map_view_Delete [OF _ surjective_pairing [of "MapHandler_Delete _ h"]]
  by (cases c) (auto simp: wf_map_Add wf_map_Remove, simp add: wf_map_def MapHandler_Erase_def)

lemma map_op_view: "wf_map h \<Longrightarrow> map_view (map_op c h) = map_spec c (map_view h)"
proof (cases c)
  case (M_set k v)
  then show ?thesis
    by (cases "k = []") (simp_all add: map_view_Add, simp add: MapHandler_Add_def map_view_def)
next
  case (M_delete k)
  assume "wf_map h"
  with M_delete map_view_Delete [OF this surjective_pairing [of "MapHandler_Delete k h"]]
  show ?thesis by simp
next
  case (M_remove k)
  assume "wf_map h"
  with M_remove map_view_Remove [OF this] show ?thesis by simp
next
  case M_erase
  then show ?thesis by (simp add: map_view_def MapHandler_Erase_def)
qed

lemma map_op_content: "mh_mhandler h = mh_mhandler h' \<Longrightarrow> mh_mhandler (map_op c h) = mh_mhandler (map_op c h')"
  by (cases c) (auto simp: MapHandler_Add_items MapHandler_Delete_def MapHandler_Remove_items
      MapHandler_Erase_def split: option.splits)

lemma fold_map_op:
  "wf_map h \<Longrightarrow> map_view (fold (\<lambda>f. f) (map map_op cs) h) = fold map_spec cs (map_view h)"
  by (induction cs arbitrary: h) (simp_all add: map_op_view map_op_wf)

text \<open>
  C23: Over every sequence of the operations that change a map (Add, Remove as HDEL calls it,
  Delete, Erase), each decoding the stored text, applying the operation of MapHandler and encoding
  the result, and from any stored text, the text that results decodes to the finite map that the
  same sequence makes of the map the first text decodes to: Add sets a field unless its name is
  empty, Delete forgets one, and Remove forgets one except that it ignores an empty name and
  empties a map of one field whatever the name.
\<close>

lemma map_stored_history:
  "map_view (MapHandler_Create
     (fold (stored_op MapHandler_Create MapHandler_as_string) (map map_op cs) s)) =
   fold map_spec cs (map_view (MapHandler_Create s))"
proof -
  have "mh_mhandler (MapHandler_Create
      (fold (stored_op MapHandler_Create MapHandler_as_string) (map map_op cs) s)) =
    mh_mhandler (fold (\<lambda>f. f) (map map_op cs) (MapHandler_Create s))"
  proof (rule mh.stored_history)
    show "wf_map (f h)" if "f \<in> set (map map_op cs)" "wf_map h" for f h
      using that map_op_wf by auto
    show "mh_mhandler (f h) = mh_mhandler (f h')"
      if "f \<in> set (map map_op cs)" "mh_mhandler h = mh_mhandler h'" for f h h'
      using that map_op_content by auto
  qed simp_all
  then have "map_view (MapHandler_Create
      (fold (stored_op MapHandler_Create MapHandler_as_string) (map map_op cs) s)) =
    map_view (fold (\<lambda>f. f) (map map_op cs) (MapHandler_Create s))"
    by (simp only: map_view_def)
  also have "\<dots> = fold map_spec cs (map_view (MapHandler_Create s))"
    by (rule fold_map_op) simp
  finally show ?thesis .
qed

end
