(* ===== verification/MapQueries.thy ===== *)
theory MapQueries
  imports ScanQueries Map_Handler
begin

text \<open>
  The queries of \<open>src/brldb/maps.cpp\<close>: the constructor of each class, its \<open>Run\<close> over the map
  handler, and the reply of its \<open>Process\<close> where that is one text.
\<close>

section \<open>Pages over a container that is cleared on the way\<close>

text \<open>
  \<open>hlist_query\<close>, \<open>hvals_query\<close>, \<open>hgetall_query\<close> and the multimap queries page as \<open>lget_query\<close>
  does, but when a page is full they clear \<open>result\<close>, the container they iterate over, instead of
  the page.  The page goes on with its items, and the next \<open>++i\<close> is on an iterator that is gone.
\<close>

definition stale_push :: "('x \<Rightarrow> 'x list \<Rightarrow> 'x list) \<Rightarrow> 'x \<Rightarrow> 'x page \<Rightarrow> bool \<times> 'x page" where
  "stale_push ins x p =
     (let aux = p_aux p + 1; result = ins x (p_result p)
      in if aux mod ITER_LIMIT = 0
         then (True, p\<lparr>p_aux := aux, p_tracker := p_tracker p + 1, p_result := result,
                       p_sent := p_sent p @ [(p_tracker p + 1, result)]\<rparr>)
         else (False, p\<lparr>p_aux := aux, p_result := result\<rparr>))"

primrec stale_items ::
  "('x \<Rightarrow> 'x list \<Rightarrow> 'x list) \<Rightarrow> int \<Rightarrow> int \<Rightarrow> 'x list \<Rightarrow> 'x page \<Rightarrow> 'x page res" where
  "stale_items ins offset limit [] p = Inr p"
| "stale_items ins offset limit (x # xs) p =
     (if limit \<noteq> - 1 \<and> sint (p_total p) \<ge> offset then
        (if sint (p_aux p) < limit then
           (let (cleared, p1) = stale_push ins x p
            in if p_aux p1 = of_int limit then Inr p1
               else if cleared then Inl Undefined_behaviour
               else stale_items ins offset limit xs (p1\<lparr>p_total := p_total p1 + 1\<rparr>))
         else stale_items ins offset limit xs (p\<lparr>p_total := p_total p + 1\<rparr>))
      else if limit = - 1 then
        (let (cleared, p1) = stale_push ins x p
         in if cleared then Inl Undefined_behaviour
            else stale_items ins offset limit xs (p1\<lparr>p_total := p_total p1 + 1\<rparr>))
      else stale_items ins offset limit xs (p\<lparr>p_total := p_total p + 1\<rparr>))"

text \<open>The end of these \<open>Run\<close>s: the last page stays in the query.\<close>

definition stale_vector :: "(string sheet \<Rightarrow> query) \<Rightarrow> string page res \<Rightarrow> 'd run" where
  "stale_vector request items q w =
     bind_res items (\<lambda>p. Inr (SetOK (q\<lparr>q_subresult := p_tracker p + 1, q_partial := False,
       q_counter := p_total p, q_VecData := p_result p\<rparr>), attach_pages request p w))"

definition stale_map :: "((string \<times> string) sheet \<Rightarrow> query) \<Rightarrow> (string \<times> string) page res \<Rightarrow> 'd run" where
  "stale_map request items q w =
     bind_res items (\<lambda>p. Inr (SetOK (q\<lparr>q_subresult := p_tracker p + 1, q_partial := False,
       q_counter := p_total p, q_mmap := p_result p\<rparr>), attach_pages request p w))"

definition map_request :: "query \<Rightarrow> nat \<Rightarrow> (string \<times> string) sheet \<Rightarrow> query" where
  "map_request fresh user s =
     fresh\<lparr>q_user := user, q_partial := True, q_subresult := fst s, q_mmap := snd s, q_finished := True\<rparr>"

section \<open>Scanning\<close>

definition hfind_query :: "query \<Rightarrow> query" where
  "hfind_query q = of_class QUERY_TYPE_SKIP INT_MAP q"

definition hfind_query_Run :: "query \<Rightarrow> 'd rocks \<Rightarrow> 'd run" where
  "hfind_query_Run fresh R q w =
     run_pages R (pick_name q INT_MAP) (vec_request (hfind_query fresh) (q_user q) (q_key q)) q w"

section \<open>Setting fields\<close>

definition hset_query :: "query \<Rightarrow> query" where
  "hset_query q = of_class QUERY_TYPE_WRITE INT_MAP q"

text \<open>On a new key a failed write leaves the access code of \<open>Check\<close>.\<close>

definition hset_query_Run :: "'d rocks \<Rightarrow> 'd run" where
  "hset_query_Run R q w =
     (if q_value q = [] \<or> q_hesh q = [] then Inr (access_set DBL_MISS_ARGS q, w)
      else
        (let resultq = Get R (q_dest q) q w
         in if \<not> rd_status resultq then
              (let handler = MapHandler_Add (q_hesh q) (q_value q) MapHandler
               in bind_res (GetLast (mh_LastMsg handler)) (\<lambda>msg.
                    if msg = HANDLER_MSG_OK
                    then (let (ok, w1) = Write R (q_dest q) (MapHandler_as_string handler) q w
                          in Inr (if ok then SetOK q else q, w1))
                    else Inr (access_set DBL_UNABLE_WRITE q, w)))
            else
              (let handler = MapHandler_Add (q_hesh q) (q_value q) (MapHandler_Create (rd_value resultq))
               in bind_res (GetLast (mh_LastMsg handler)) (\<lambda>msg.
                    if msg = HANDLER_MSG_OK
                    then Inr (write_dest R (MapHandler_as_string handler) q w)
                    else Inr (access_set DBL_UNABLE_WRITE q, w)))))"

definition hset_query_Process :: "query \<Rightarrow> string" where
  "hset_query_Process q = PROCESS_OK"

definition hsetnx_query :: "query \<Rightarrow> query" where
  "hsetnx_query q = of_class QUERY_TYPE_READ_ALLOW INT_MAP q"

definition hsetnx_query_Run :: "'d rocks \<Rightarrow> 'd run" where
  "hsetnx_query_Run R q w =
     (let resultq = Get R (q_dest q) q w;
          handler = MapHandler_Create (rd_value resultq);
          (present, handler1) = MapHandler_Exists (q_hesh q) handler
      in if rd_status resultq \<and> present then Inr (access_set DBL_ENTRY_EXISTS q, w)
         else
           (let handler2 = MapHandler_Add (q_hesh q) (q_value q)
                  (if rd_status resultq then handler1 else handler)
            in bind_res (GetLast (mh_LastMsg handler2)) (\<lambda>msg.
                 if msg = HANDLER_MSG_OK
                 then (let (ok, w1) = Write R (q_dest q) (MapHandler_as_string handler2) q w
                       in Inr (if ok then SetOK q else q, w1))
                 else Inr (access_set DBL_UNABLE_WRITE q, w))))"

definition hsetnx_query_Process :: "query \<Rightarrow> string" where
  "hsetnx_query_Process q = PROCESS_OK"

section \<open>Reading fields\<close>

definition hexists_query :: "query \<Rightarrow> query" where
  "hexists_query q = of_class QUERY_TYPE_EXISTS INT_MAP q"

definition hexists_query_Run :: "'d rocks \<Rightarrow> 'd run" where
  "hexists_query_Run R q w =
     (if q_hesh q = [] then Inr (access_set DBL_MISS_ARGS q, w)
      else
        (let resultq = Get R (q_dest q) q w
         in if rd_status resultq \<and> fst (MapHandler_Exists (q_hesh q) (MapHandler_Create (rd_value resultq)))
            then Inr (SetOK (q\<lparr>q_response := ''1''\<rparr>), w)
            else Inr (SetOK (q\<lparr>q_response := ''0''\<rparr>), w)))"

definition hexists_query_Process :: "query \<Rightarrow> string" where
  "hexists_query_Process q = q_response q"

definition hstrlen_query :: "query \<Rightarrow> query" where
  "hstrlen_query q = of_class QUERY_TYPE_READ INT_MAP q"

definition hstrlen_query_Run :: "'d rocks \<Rightarrow> 'd run" where
  "hstrlen_query_Run R q w =
     (if q_hesh q = [] then Inr (access_set DBL_MISS_ARGS q, w)
      else
        (let result = Get R (q_dest q) q w
         in if \<not> rd_status result then Inr (access_set DBL_NOT_FOUND q, w)
            else
              (let (len, handler) = MapHandler_Strlen (q_hesh q) (MapHandler_Create (rd_value result));
                   q1 = q\<lparr>q_response := convto_string len\<rparr>
               in bind_res (GetLast (mh_LastMsg handler)) (\<lambda>msg.
                    if msg = HANDLER_MSG_OK then Inr (SetOK q1, w)
                    else Inr (access_set DBL_NOT_FOUND q1, w)))))"

definition hstrlen_query_Process :: "query \<Rightarrow> string" where
  "hstrlen_query_Process q = q_response q"

definition hget_query :: "query \<Rightarrow> query" where
  "hget_query q = of_class QUERY_TYPE_READ INT_MAP q"

definition hget_query_Run :: "'d rocks \<Rightarrow> 'd run" where
  "hget_query_Run R q w =
     (if q_hesh q = [] then Inr (access_set DBL_MISS_ARGS q, w)
      else
        (let result = Get R (q_dest q) q w
         in if \<not> rd_status result then Inr (access_set DBL_NOT_FOUND q, w)
            else
              (let (response, handler) = MapHandler_Get (q_hesh q) (MapHandler_Create (rd_value result));
                   q1 = q\<lparr>q_response := response\<rparr>
               in bind_res (GetLast (mh_LastMsg handler)) (\<lambda>msg.
                    if msg = HANDLER_MSG_OK then Inr (SetOK q1, w)
                    else Inr (access_set DBL_NOT_FOUND q1, w)))))"

definition hget_query_Process :: "query \<Rightarrow> string" where
  "hget_query_Process q = Helpers_Format (q_response q)"

section \<open>Removing fields\<close>

text \<open>A container with elements is stored, an empty one has its key deleted.\<close>

definition store_map :: "'d rocks \<Rightarrow> map_handler \<Rightarrow> query \<Rightarrow> 'd world \<Rightarrow> query \<times> 'd world" where
  "store_map R handler q w =
     (let (count, handler) = MapHandler_Count handler
      in if count > 0 then write_dest R (MapHandler_as_string handler) q w
         else (SetOK q, Delete R (q_dest q) q w))"

definition hdel_query :: "query \<Rightarrow> query" where
  "hdel_query q = of_class QUERY_TYPE_DELETE INT_MAP q"

definition hdel_query_Run :: "'d rocks \<Rightarrow> 'd run" where
  "hdel_query_Run R q w =
     (let result = Get R (q_dest q) q w;
          (val, handler) = MapHandler_Get (q_hesh q) (MapHandler_Create (rd_value result))
      in if val = [] then
           bind_res (GetLast (mh_LastMsg handler)) (\<lambda>msg.
             if msg = HANDLER_MSG_NOT_FOUND then Inr (access_set DBL_NOT_FOUND q, w)
             else Inr (store_map R handler q w))
         else Inr (store_map R (MapHandler_Remove (q_hesh q) handler) q w))"

definition hdel_query_Process :: "query \<Rightarrow> string" where
  "hdel_query_Process q = PROCESS_OK"

section \<open>Listing a map\<close>

definition hlist_query :: "query \<Rightarrow> query" where
  "hlist_query q = of_class QUERY_TYPE_READ INT_MAP q"

definition hlist_items :: "query \<Rightarrow> string list \<Rightarrow> string page res" where
  "hlist_items q items =
     (if q_flags q = QUERY_FLAGS_CORE
      then Inr (page_start\<lparr>p_result := items, p_total := of_nat (length items)\<rparr>)
      else if q_flags q = QUERY_FLAGS_COUNT
      then Inr (page_start\<lparr>p_total := of_nat (length items)\<rparr>)
      else stale_items push_back (q_offset q) (q_limit q) items page_start)"

definition hlist_query_Run :: "query \<Rightarrow> 'd rocks \<Rightarrow> 'd run" where
  "hlist_query_Run fresh R q w =
     (let handler = MapHandler_Create (rd_value (Get R (q_dest q) q w))
      in stale_vector (vec_request (hlist_query fresh) (q_user q) (q_key q))
           (hlist_items q (map fst (mh_mhandler handler))) q w)"

definition hvals_query :: "query \<Rightarrow> query" where
  "hvals_query q = of_class QUERY_TYPE_READ INT_MAP q"

definition hvals_query_Run :: "query \<Rightarrow> 'd rocks \<Rightarrow> 'd run" where
  "hvals_query_Run fresh R q w =
     (let (result, handler) = MapHandler_GetValues (MapHandler_Create (rd_value (Get R (q_dest q) q w)))
      in stale_vector (vec_request (hvals_query fresh) (q_user q) (q_key q))
           (stale_items push_back (q_offset q) (q_limit q) result page_start) q w)"

definition hgetall_query :: "query \<Rightarrow> query" where
  "hgetall_query q = of_class QUERY_TYPE_READ INT_MAP q"

definition hgetall_query_Run :: "query \<Rightarrow> 'd rocks \<Rightarrow> 'd run" where
  "hgetall_query_Run fresh R q w =
     (let (result, handler) = MapHandler_GetAll (MapHandler_Create (rd_value (Get R (q_dest q) q w)))
      in stale_map (map_request (hgetall_query fresh) (q_user q))
           (stale_items insert_pair (q_offset q) (q_limit q) result page_start) q w)"

end
