(* ===== verification/MultiMap_Handler.thy ===== *)
theory MultiMap_Handler
  imports Map_Handler
begin

text \<open>
  \<open>src/brldb/multimap_handler.cpp\<close> and \<open>include/brldb/multimap_handler.h\<close>: the field/values
  container, a \<open>std::multimap\<close> kept as a list ordered by its keys, equal keys in insertion
  order.  The text form is shown to keep that order through a store and a load.
\<close>

section \<open>State and operations\<close>

record multimap_handler =
  mm_mhandler :: "(string \<times> string) list"
  mm_LastMsg :: last_msg

definition MultiMapHandler :: multimap_handler where
  "MultiMapHandler = \<lparr>mm_mhandler = [], mm_LastMsg = None\<rparr>"

abbreviation mm_msg :: "HANDLER_MSG \<Rightarrow> multimap_handler \<Rightarrow> multimap_handler" where
  "mm_msg m h \<equiv> h\<lparr>mm_LastMsg := Some m\<rparr>"

definition MultiMapHandler_Exists :: "string \<Rightarrow> multimap_handler \<Rightarrow> bool \<times> multimap_handler" where
  "MultiMapHandler_Exists word h =
     (if mm_mhandler h = [] then (False, h)
      else if has_field word (mm_mhandler h) then (True, mm_msg HANDLER_MSG_OK h)
      else (False, mm_msg HANDLER_MSG_NOT_FOUND h))"

definition MultiMapHandler_Delete :: "string \<Rightarrow> multimap_handler \<Rightarrow> bool \<times> multimap_handler" where
  "MultiMapHandler_Delete key h =
     (if mm_mhandler h = [] then (False, h)
      else (case delete_loop key (mm_mhandler h) of
              Some m \<Rightarrow> (True, mm_msg HANDLER_MSG_OK (h\<lparr>mm_mhandler := m\<rparr>))
            | None \<Rightarrow> (False, mm_msg HANDLER_MSG_NOT_FOUND h)))"

definition MultiMapHandler_Add :: "string \<Rightarrow> string \<Rightarrow> multimap_handler \<Rightarrow> multimap_handler" where
  "MultiMapHandler_Add key val h =
     (if key = [] then mm_msg HANDLER_MSG_INVALID h
      else mm_msg HANDLER_MSG_OK (h\<lparr>mm_mhandler := multimap_insert key val (mm_mhandler h)\<rparr>))"

definition MultiMapHandler_Create :: "string \<Rightarrow> multimap_handler" where
  "MultiMapHandler_Create load =
     fold (\<lambda>token. case split_entry token of
             (path, file) \<Rightarrow> MultiMapHandler_Add (to_string path) (to_string file))
       (colon_tokens load) MultiMapHandler"

definition MultiMapHandler_Get :: "string \<Rightarrow> multimap_handler \<Rightarrow> string \<times> multimap_handler" where
  "MultiMapHandler_Get key h =
     (case get_loop key (mm_mhandler h) of
        Some val \<Rightarrow> (val, mm_msg HANDLER_MSG_OK h)
      | None \<Rightarrow> ([], mm_msg HANDLER_MSG_NOT_FOUND h))"

definition MultiMapHandler_Erase :: "multimap_handler \<Rightarrow> multimap_handler" where
  "MultiMapHandler_Erase h = mm_msg HANDLER_MSG_OK (h\<lparr>mm_mhandler := []\<rparr>)"

definition MultiMapHandler_Remove :: "string \<Rightarrow> multimap_handler \<Rightarrow> multimap_handler" where
  "MultiMapHandler_Remove key h =
     (if key = [] then mm_msg HANDLER_MSG_INVALID h
      else if length (mm_mhandler h) = 1 then mm_msg HANDLER_MSG_OK (MultiMapHandler_Erase h)
      else (mm_msg HANDLER_MSG_OK h)\<lparr>mm_mhandler := erase_key key (mm_mhandler h)\<rparr>)"

definition MultiMapHandler_as_string :: "multimap_handler \<Rightarrow> string" where
  "MultiMapHandler_as_string h = map_as_string_loop (length (mm_mhandler h)) (mm_mhandler h) 0 []"

definition MultiMapHandler_Repeats :: "string \<Rightarrow> multimap_handler \<Rightarrow> u32 \<times> multimap_handler" where
  "MultiMapHandler_Repeats key h =
     (of_nat (length (entries key (mm_mhandler h))), mm_msg HANDLER_MSG_OK h)"

primrec find_vals :: "string \<Rightarrow> (string \<times> string) list \<Rightarrow> string list \<Rightarrow> string list" where
  "find_vals key [] results = results"
| "find_vals key (i # is) results =
     find_vals key is (if Match (snd i) key then results @ [fst i] else results)"

definition MultiMapHandler_Find :: "string \<Rightarrow> multimap_handler \<Rightarrow> string list \<times> multimap_handler" where
  "MultiMapHandler_Find key h = (find_vals key (mm_mhandler h) [], mm_msg HANDLER_MSG_OK h)"

definition MultiMapHandler_GetValues :: "multimap_handler \<Rightarrow> string list \<times> multimap_handler" where
  "MultiMapHandler_GetValues h = (map snd (mm_mhandler h), mm_msg HANDLER_MSG_OK h)"

definition MultiMapHandler_GetAll ::
  "multimap_handler \<Rightarrow> (string \<times> string) list \<times> multimap_handler" where
  "MultiMapHandler_GetAll h =
     (fold (\<lambda>i. multimap_insert (fst i) (snd i)) (mm_mhandler h) [], mm_msg HANDLER_MSG_OK h)"

primrec get_vals :: "string \<Rightarrow> (string \<times> string) list \<Rightarrow> string list \<Rightarrow> string list" where
  "get_vals key [] results = results"
| "get_vals key (i # is) results =
     get_vals key is (if key = fst i then results @ [snd i] else results)"

definition MultiMapHandler_GetVals :: "string \<Rightarrow> multimap_handler \<Rightarrow> string list \<times> multimap_handler" where
  "MultiMapHandler_GetVals key h = (get_vals key (mm_mhandler h) [], mm_msg HANDLER_MSG_OK h)"

definition MultiMapHandler_Count :: "multimap_handler \<Rightarrow> u32 \<times> multimap_handler" where
  "MultiMapHandler_Count h = (of_nat (length (mm_mhandler h)), mm_msg HANDLER_MSG_OK h)"

section \<open>Closed forms of the loops\<close>

lemma find_vals_eq: "find_vals key m results = results @ map fst (filter (\<lambda>i. Match (snd i) key) m)"
  by (induction m arbitrary: results) auto

lemma get_vals_eq: "get_vals key m results = results @ entries key m"
  by (induction m arbitrary: results) (auto simp: entries_def)

lemma fold_multimap_insert:
  "keys_sorted (acc @ m) \<Longrightarrow> fold (\<lambda>i. multimap_insert (fst i) (snd i)) m acc = acc @ m"
proof (induction m arbitrary: acc)
  case (Cons i m)
  then have "multimap_insert (fst i) (snd i) acc = acc @ [i]"
    by (subst multimap_insert_last) (auto simp: sorted_append)
  with Cons show ?case by simp
qed simp

section \<open>The text form and the members on the multimap\<close>

definition wf_multimap :: "multimap_handler \<Rightarrow> bool" where
  "wf_multimap h \<longleftrightarrow> keys_sorted (mm_mhandler h) \<and> [] \<notin> fst ` set (mm_mhandler h)"

lemma wf_multimap_new [simp]: "wf_multimap MultiMapHandler"
  by (simp add: wf_multimap_def MultiMapHandler_def)

lemma MultiMapHandler_Add_items:
  "mm_mhandler (MultiMapHandler_Add key val h) =
     (if key = [] then mm_mhandler h else multimap_insert key val (mm_mhandler h))"
  by (simp add: MultiMapHandler_Add_def)

lemma wf_multimap_Add: "wf_multimap h \<Longrightarrow> wf_multimap (MultiMapHandler_Add key val h)"
  by (auto simp: wf_multimap_def MultiMapHandler_Add_items keys_sorted_multimap_insert
      set_multimap_insert)

lemma wf_multimap_fold: "wf_multimap h \<Longrightarrow>
  wf_multimap (fold (\<lambda>token. case split_entry token of
     (path, file) \<Rightarrow> MultiMapHandler_Add (to_string path) (to_string file)) ts h)"
  by (induction ts arbitrary: h) (auto simp: wf_multimap_Add split: prod.splits)

lemma wf_multimap_Create [simp]: "wf_multimap (MultiMapHandler_Create s)"
  by (simp add: MultiMapHandler_Create_def wf_multimap_fold)

lemma fold_multimap_Add:
  assumes "[] \<notin> fst ` set m"
  shows "mm_mhandler (fold (\<lambda>token. case split_entry token of
     (path, file) \<Rightarrow> MultiMapHandler_Add (to_string path) (to_string file)) (map entry_text m) h) =
     fold (\<lambda>i. multimap_insert (fst i) (snd i)) m (mm_mhandler h)"
  using assms by (induction m arbitrary: h) (auto simp: MultiMapHandler_Add_items)

lemma MultiMapHandler_as_string_eq:
  "MultiMapHandler_as_string h = concat (map (\<lambda>i. entry_text i @ '':'') (mm_mhandler h))"
  by (simp add: MultiMapHandler_as_string_def map_as_string_loop_eq)

lemma Create_as_string_multimap:
  "wf_multimap h \<Longrightarrow>
   mm_mhandler (MultiMapHandler_Create (MultiMapHandler_as_string h)) = mm_mhandler h"
  unfolding MultiMapHandler_Create_def MultiMapHandler_as_string_eq colon_tokens_entries
  by (subst fold_multimap_Add)
    (auto simp: wf_multimap_def MultiMapHandler_def fold_multimap_insert)

interpretation mm: handler_codec
  MultiMapHandler_Create MultiMapHandler_as_string mm_mhandler wf_multimap
  by unfold_locales
    (simp_all add: Create_as_string_multimap, simp add: MultiMapHandler_as_string_eq)

text \<open>The values of each field, oldest first.\<close>

definition multimap_view :: "multimap_handler \<Rightarrow> string \<Rightarrow> string list" where
  "multimap_view h k = entries k (mm_mhandler h)"

lemma multimap_view_Add:
  "wf_multimap h \<Longrightarrow> key \<noteq> [] \<Longrightarrow>
   multimap_view (MultiMapHandler_Add key val h) =
     (multimap_view h)(key := multimap_view h key @ [val])"
  by (rule ext) (auto simp: multimap_view_def MultiMapHandler_Add_items entries_multimap_insert
      wf_multimap_def)

lemma multimap_view_GetVals: "fst (MultiMapHandler_GetVals key h) = multimap_view h key"
  by (simp add: MultiMapHandler_GetVals_def get_vals_eq multimap_view_def)

lemma entries_Nil: "entries k [] = []"
  by (simp add: entries_def)

lemma entries_erase_key: "entries j (erase_key k m) = (if j = k then [] else entries j m)"
  by (auto simp: entries_def erase_key_def intro!: arg_cong [where f = "map snd"] filter_cong)

text \<open>\<open>Remove\<close> is the erasure of one field only on containers with several entries.\<close>

lemma multimap_view_Remove:
  "key \<noteq> [] \<Longrightarrow>
   multimap_view (MultiMapHandler_Remove key h) =
     (if length (mm_mhandler h) = 1 then (\<lambda>_. []) else (multimap_view h)(key := []))"
  by (rule ext) (auto simp: multimap_view_def MultiMapHandler_Remove_def MultiMapHandler_Erase_def
      entries_erase_key entries_Nil)

section \<open>Histories of a stored multimap\<close>

text \<open>\<open>Remove\<close> empties a container of one entry whatever the field asked for.\<close>

datatype multimap_call = MM_add string string | MM_remove string

primrec multimap_op :: "multimap_call \<Rightarrow> multimap_handler \<Rightarrow> multimap_handler" where
  "multimap_op (MM_add k v) = MultiMapHandler_Add k v"
| "multimap_op (MM_remove k) = MultiMapHandler_Remove k"

primrec multimap_spec :: "multimap_call \<Rightarrow> (string \<times> string) list \<Rightarrow> (string \<times> string) list" where
  "multimap_spec (MM_add k v) m = (if k = [] then m else multimap_insert k v m)"
| "multimap_spec (MM_remove k) m = (if k = [] then m else if length m = 1 then [] else erase_key k m)"

lemma multimap_op_items: "mm_mhandler (multimap_op c h) = multimap_spec c (mm_mhandler h)"
  by (cases c) (auto simp: MultiMapHandler_Add_items MultiMapHandler_Remove_def MultiMapHandler_Erase_def
      MultiMapHandler_Add_def)

lemma multimap_op_wf: "wf_multimap h \<Longrightarrow> wf_multimap (multimap_op c h)"
proof (cases c)
  case (MM_remove k)
  assume "wf_multimap h"
  with MM_remove show ?thesis
    by (auto simp: wf_multimap_def MultiMapHandler_Remove_def MultiMapHandler_Erase_def)
qed (simp add: wf_multimap_Add)

lemma fold_multimap_op:
  "mm_mhandler (fold (\<lambda>f. f) (map multimap_op cs) h) = fold multimap_spec cs (mm_mhandler h)"
  by (induction cs arbitrary: h) (simp_all add: multimap_op_items)


end
