(* ===== verification/MultiQueries.thy ===== *)
theory MultiQueries
  imports MapQueries MultiMap_Handler
begin

text \<open>
  The queries of \<open>src/brldb/multis.cpp\<close>: the constructor of each class, its \<open>Run\<close> over the
  multimap handler, and the reply of its \<open>Process\<close> where that is one text.
\<close>

section \<open>Setting and removing\<close>

definition mdel_query :: "query \<Rightarrow> query" where
  "mdel_query q = of_class QUERY_TYPE_DELETE INT_MMAP q"

definition mdel_query_Run :: "'d rocks \<Rightarrow> 'd run" where
  "mdel_query_Run R q w =
     (let result = Get R (q_dest q) q w;
          handler = MultiMapHandler_Remove (q_value q) (MultiMapHandler_Create (rd_value result));
          (count, handler) = MultiMapHandler_Count handler
      in Inr (if count > 0 then write_dest R (MultiMapHandler_as_string handler) q w
              else (SetOK q, Delete R (q_dest q) q w)))"

definition mdel_query_Process :: "query \<Rightarrow> string" where
  "mdel_query_Process q = PROCESS_OK"

text \<open>
  What \<open>mset_query\<close> and \<open>msetnx_query\<close> do with a new key, and with a key that holds a multimap.
\<close>

definition multi_first :: "'d rocks \<Rightarrow> 'd run" where
  "multi_first R q w =
     (let handler = MultiMapHandler_Add (q_hesh q) (q_value q) MultiMapHandler
      in bind_res (GetLast (mm_LastMsg handler)) (\<lambda>msg.
           if msg = HANDLER_MSG_OK then Inr (write_dest R (MultiMapHandler_as_string handler) q w)
           else Inr (q, w)))"

definition multi_add :: "'d rocks \<Rightarrow> multimap_handler \<Rightarrow> 'd run" where
  "multi_add R handler q w =
     (let handler = MultiMapHandler_Add (q_hesh q) (q_value q) handler
      in bind_res (GetLast (mm_LastMsg handler)) (\<lambda>msg.
           if msg = HANDLER_MSG_OK then Inr (write_dest R (MultiMapHandler_as_string handler) q w)
           else Inr (SetOK q, w)))"

definition msetnx_query :: "query \<Rightarrow> query" where
  "msetnx_query q = of_class QUERY_TYPE_WRITE INT_MMAP q"

definition msetnx_query_Run :: "'d rocks \<Rightarrow> 'd run" where
  "msetnx_query_Run R q w =
     (let result = Get R (q_dest q) q w
      in if \<not> rd_status result then multi_first R q w
         else (let (present, handler) =
                 MultiMapHandler_Exists (q_hesh q) (MultiMapHandler_Create (rd_value result))
               in if present then Inr (access_set DBL_ENTRY_EXISTS q, w)
                  else multi_add R handler q w))"

definition msetnx_query_Process :: "query \<Rightarrow> string" where
  "msetnx_query_Process q = PROCESS_OK"

definition mset_query :: "query \<Rightarrow> query" where
  "mset_query q = of_class QUERY_TYPE_WRITE INT_MMAP q"

definition mset_query_Run :: "'d rocks \<Rightarrow> 'd run" where
  "mset_query_Run R q w =
     (let result = Get R (q_dest q) q w
      in if \<not> rd_status result then multi_first R q w
         else multi_add R (MultiMapHandler_Create (rd_value result)) q w)"

definition mset_query_Process :: "query \<Rightarrow> string" where
  "mset_query_Process q = PROCESS_OK"

section \<open>Listing\<close>

definition mkeys_query :: "query \<Rightarrow> query" where
  "mkeys_query q = of_class QUERY_TYPE_SKIP INT_MMAP q"

text \<open>The third token is compared with \<open>base_request\<close>; the key of a page is not set.\<close>

definition mkeys_query_Run :: "query \<Rightarrow> 'd rocks \<Rightarrow> 'd run" where
  "mkeys_query_Run fresh R q w =
     run_pages R (pick_name q (q_base_request q)) (vec_request (mkeys_query fresh) (q_user q) (q_key fresh)) q w"

definition mget_query :: "query \<Rightarrow> query" where
  "mget_query q = of_class QUERY_TYPE_READ INT_MMAP q"

definition mget_query_Run :: "query \<Rightarrow> 'd rocks \<Rightarrow> 'd run" where
  "mget_query_Run fresh R q w =
     (let query_result = Get R (q_dest q) q w
      in if \<not> rd_status query_result then Inr (access_set DBL_NOT_FOUND q, w)
         else stale_vector (vec_request (mget_query fresh) (q_user q) (q_key fresh))
                (hlist_items q (map fst (mm_mhandler (MultiMapHandler_Create (rd_value query_result))))) q w)"

definition mrepeats_query :: "query \<Rightarrow> query" where
  "mrepeats_query q = of_class QUERY_TYPE_READ INT_MMAP q"

definition mrepeats_query_Run :: "'d rocks \<Rightarrow> 'd run" where
  "mrepeats_query_Run R q w =
     (let handler = MultiMapHandler_Create (rd_value (Get R (q_dest q) q w))
      in Inr (SetOK (q\<lparr>q_response := convto_string (fst (MultiMapHandler_Repeats (q_value q) handler))\<rparr>), w))"

definition mrepeats_query_Process :: "query \<Rightarrow> string" where
  "mrepeats_query_Process q = c_str (q_response q)"

text \<open>Its pages are objects of the class \<open>hvals_query\<close>.\<close>

definition mvals_query :: "query \<Rightarrow> query" where
  "mvals_query q = of_class QUERY_TYPE_READ INT_MMAP q"

definition mvals_query_Run :: "query \<Rightarrow> 'd rocks \<Rightarrow> 'd run" where
  "mvals_query_Run fresh R q w =
     (let (result, handler) =
        MultiMapHandler_GetValues (MultiMapHandler_Create (rd_value (Get R (q_dest q) q w)))
      in stale_vector (vec_request (hvals_query fresh) (q_user q) (q_key fresh))
           (stale_items push_back (q_offset q) (q_limit q) result page_start) q w)"

definition mgetall_query :: "query \<Rightarrow> query" where
  "mgetall_query q = of_class QUERY_TYPE_READ INT_MMAP q"

definition mgetall_query_Run :: "query \<Rightarrow> 'd rocks \<Rightarrow> 'd run" where
  "mgetall_query_Run fresh R q w =
     (let (result, handler) =
        MultiMapHandler_GetAll (MultiMapHandler_Create (rd_value (Get R (q_dest q) q w)))
      in stale_map (map_request (mgetall_query fresh) (q_user q))
           (stale_items insert_pair (q_offset q) (q_limit q) result page_start) q w)"

definition miter_query :: "query \<Rightarrow> query" where
  "miter_query q = of_class QUERY_TYPE_READ INT_MMAP q"

definition miter_query_Run :: "query \<Rightarrow> 'd rocks \<Rightarrow> 'd run" where
  "miter_query_Run fresh R q w =
     (let (result, handler) =
        MultiMapHandler_GetVals (q_value q) (MultiMapHandler_Create (rd_value (Get R (q_dest q) q w)))
      in stale_vector (vec_request (miter_query fresh) (q_user q) (q_key fresh))
           (stale_items push_back (q_offset q) (q_limit q) result page_start) q w)"

end
