(* ===== verification/ListQueries.thy ===== *)
theory ListQueries
  imports Paging List_Handler
begin

text \<open>
  The queries of \<open>src/brldb/lists.cpp\<close>: the constructor of each class, its \<open>Run\<close> over the list
  handler, and the reply of its \<open>Process\<close>.  The theorems carry the handler's contract to the
  stored text: what a query does to the list it finds, and what is left in the store.
\<close>

section \<open>Shared endings\<close>

text \<open>
  A handler with elements left is stored; an empty one has its key deleted.  \<open>deleted_ok\<close> is
  whether the code reaches \<open>SetOK\<close> after the deletion.
\<close>

definition store_list :: "'d rocks \<Rightarrow> list_handler \<Rightarrow> bool \<Rightarrow> query \<Rightarrow> 'd world \<Rightarrow> query \<times> 'd world" where
  "store_list R handler deleted_ok q w =
     (let (count, handler) = ListHandler_Count handler
      in if count > 0 then write_dest R (ListHandler_as_string handler) q w
         else (if deleted_ok then SetOK q else q, Delete R (q_dest q) q w))"

text \<open>The reply texts: \<open>Process\<close> sends them with \<open>BRLD_OK\<close>.\<close>

section \<open>Adding elements\<close>

definition lpush_query :: "query \<Rightarrow> query" where
  "lpush_query q = of_class QUERY_TYPE_WRITE INT_LIST q"

definition lpush_query_Run :: "'d rocks \<Rightarrow> 'd run" where
  "lpush_query_Run R q w =
     (if q_value q = [] then Inr (access_set DBL_MISS_ARGS q, w)
      else
        (let result = Get R (q_dest q) q w
         in if \<not> rd_status result then
              (let handler = ListHandler_Add (q_value q) ListHandler
               in bind_res (GetLast (lh_LastMsg handler)) (\<lambda>msg.
                    if msg = HANDLER_MSG_OK
                    then Inr (SetOK q, snd (Write R (q_dest q) (ListHandler_as_string handler) q w))
                    else Inr (access_set DBL_UNABLE_WRITE q, w)))
            else
              (let handler = ListHandler_Add (q_value q) (ListHandler_Create (rd_value result))
               in bind_res (GetLast (lh_LastMsg handler)) (\<lambda>msg.
                    if msg = HANDLER_MSG_OK
                    then Inr (write_dest R (ListHandler_as_string handler) q w)
                    else Inr (access_set DBL_UNABLE_WRITE q, w)))))"

definition lpush_query_Process :: "query \<Rightarrow> string" where
  "lpush_query_Process q = PROCESS_OK"

definition lpushnx_query :: "query \<Rightarrow> query" where
  "lpushnx_query q = of_class QUERY_TYPE_WRITE INT_LIST q"

definition lpushnx_query_Run :: "'d rocks \<Rightarrow> 'd run" where
  "lpushnx_query_Run R q w =
     (let handler = ListHandler_Create (rd_value (Get R (q_dest q) q w))
      in if ListHandler_Exist (q_value q) handler then Inr (access_set DBL_ENTRY_EXISTS q, w)
         else Inr (write_dest R (ListHandler_as_string (ListHandler_Add (q_value q) handler)) q w))"

definition lpushnx_query_Process :: "query \<Rightarrow> string" where
  "lpushnx_query_Process q = PROCESS_OK"

section \<open>Rearranging and removing elements\<close>

definition lreverse_query :: "query \<Rightarrow> query" where
  "lreverse_query q = of_class QUERY_TYPE_READ INT_LIST q"

definition lreverse_query_Run :: "'d rocks \<Rightarrow> 'd run" where
  "lreverse_query_Run R q w =
     (let result = Get R (q_dest q) q w
      in if \<not> rd_status result then Inr (access_set DBL_NOT_FOUND q, w)
         else Inr (write_dest R (ListHandler_as_string
                (ListHandler_Reverse (ListHandler_Create (rd_value result)))) q w))"

definition lreverse_query_Process :: "query \<Rightarrow> string" where
  "lreverse_query_Process q = PROCESS_OK"

text \<open>\<open>lsort_query::Run\<close> calls \<open>Reverse\<close>.\<close>

definition lsort_query :: "query \<Rightarrow> query" where
  "lsort_query q = of_class QUERY_TYPE_READ INT_LIST q"

definition lsort_query_Run :: "'d rocks \<Rightarrow> 'd run" where
  "lsort_query_Run R q w =
     (let result = Get R (q_dest q) q w
      in if \<not> rd_status result then Inr (access_set DBL_NOT_FOUND q, w)
         else Inr (write_dest R (ListHandler_as_string
                (ListHandler_Reverse (ListHandler_Create (rd_value result)))) q w))"

definition lsort_query_Process :: "query \<Rightarrow> string" where
  "lsort_query_Process q = PROCESS_OK"

definition lresize_query :: "query \<Rightarrow> query" where
  "lresize_query q = of_class QUERY_TYPE_READ INT_LIST q"

definition lresize_query_Run :: "'d rocks \<Rightarrow> 'd run" where
  "lresize_query_Run R q w =
     (let result = Get R (q_dest q) q w
      in if \<not> rd_status result then Inr (access_set DBL_NOT_FOUND q, w)
         else Inr (store_list R (ListHandler_Resize (convto_num_uint (q_value q))
                (ListHandler_Create (rd_value result))) False q w))"

definition lresize_query_Process :: "query \<Rightarrow> string" where
  "lresize_query_Process q = PROCESS_OK"

definition lpop_front_query :: "query \<Rightarrow> query" where
  "lpop_front_query q = of_class QUERY_TYPE_READ INT_LIST q"

definition lpop_front_query_Run :: "'d rocks \<Rightarrow> 'd run" where
  "lpop_front_query_Run R q w =
     (let result = Get R (q_dest q) q w
      in if \<not> rd_status result then Inr (access_set DBL_NOT_FOUND q, w)
         else Inr (store_list R (ListHandler_PopFront (ListHandler_Create (rd_value result))) False q w))"

definition lpop_front_query_Process :: "query \<Rightarrow> string" where
  "lpop_front_query_Process q = PROCESS_OK"

definition lpop_back_query :: "query \<Rightarrow> query" where
  "lpop_back_query q = of_class QUERY_TYPE_READ INT_LIST q"

definition lpop_back_query_Run :: "'d rocks \<Rightarrow> 'd run" where
  "lpop_back_query_Run R q w =
     (let result = Get R (q_dest q) q w
      in if \<not> rd_status result then Inr (access_set DBL_NOT_FOUND q, w)
         else Inr (store_list R (ListHandler_PopBack (ListHandler_Create (rd_value result))) False q w))"

definition lpop_back_query_Process :: "query \<Rightarrow> string" where
  "lpop_back_query_Process q = PROCESS_OK"

definition lpopall_query :: "query \<Rightarrow> query" where
  "lpopall_query q = of_class QUERY_TYPE_ITER INT_LIST q"

definition lpopall_query_Run :: "'d rocks \<Rightarrow> 'd run" where
  "lpopall_query_Run R q w =
     (let result = Get R (q_dest q) q w
      in if \<not> rd_status result then Inr (access_set DBL_NOT_FOUND q, w)
         else Inr (store_list R (ListHandler_PopAll (q_value q)
                (ListHandler_Create (rd_value result))) True q w))"

definition lpopall_query_Process :: "query \<Rightarrow> string" where
  "lpopall_query_Process q = PROCESS_OK"

definition ldel_query :: "query \<Rightarrow> query" where
  "ldel_query q = of_class QUERY_TYPE_DELETE INT_LIST q"

definition ldel_query_Run :: "'d rocks \<Rightarrow> 'd run" where
  "ldel_query_Run R q w =
     (let result = Get R (q_dest q) q w
      in if \<not> rd_status result then Inr (access_set DBL_NOT_FOUND q, w)
         else (let handler = ListHandler_Create (rd_value result)
               in if \<not> ListHandler_Exist (q_value q) handler then Inr (access_set DBL_NOT_FOUND q, w)
                  else Inr (store_list R (ListHandler_Remove (q_value q) handler) True q w)))"

definition ldel_query_Process :: "query \<Rightarrow> string" where
  "ldel_query_Process q = PROCESS_OK"

definition lrop_query :: "query \<Rightarrow> query" where
  "lrop_query q = of_class QUERY_TYPE_READ INT_LIST q"

definition lrop_query_Run :: "'d rocks \<Rightarrow> 'd run" where
  "lrop_query_Run R q w =
     (let result = Get R (q_dest q) q w
      in if \<not> rd_status result then Inr (access_set DBL_NOT_FOUND q, w)
         else (let (response, handler) = ListHandler_RPOP (ListHandler_Create (rd_value result));
                    q1 = q\<lparr>q_response := response\<rparr>
               in bind_res (GetLast (lh_LastMsg handler)) (\<lambda>msg.
                    if msg = HANDLER_MSG_NOT_FOUND then Inr (access_set DBL_NOT_FOUND q1, w)
                    else Inr (store_list R handler True q1 w))))"

definition lrop_query_Process :: "query \<Rightarrow> string" where
  "lrop_query_Process q = Helpers_Format (q_response q)"

text \<open>\<open>lrfront_query\<close> takes the front element with \<open>FPOP\<close>.\<close>

definition lrfront_query :: "query \<Rightarrow> query" where
  "lrfront_query q = of_class QUERY_TYPE_READ INT_LIST q"

definition lrfront_query_Run :: "'d rocks \<Rightarrow> 'd run" where
  "lrfront_query_Run R q w =
     (let result = Get R (q_dest q) q w
      in if \<not> rd_status result then Inr (access_set DBL_NOT_FOUND q, w)
         else bind_res (ListHandler_FPOP (ListHandler_Create (rd_value result))) (\<lambda>(response, handler).
              (let q1 = q\<lparr>q_response := response\<rparr>
               in bind_res (GetLast (lh_LastMsg handler)) (\<lambda>msg.
                    if msg = HANDLER_MSG_NOT_FOUND then Inr (access_set DBL_NOT_FOUND q1, w)
                    else Inr (store_list R handler True q1 w)))))"

definition lrfront_query_Process :: "query \<Rightarrow> string" where
  "lrfront_query_Process q = Helpers_Format (q_response q)"

section \<open>Reading elements\<close>

definition lpos_query :: "query \<Rightarrow> query" where
  "lpos_query q = of_class QUERY_TYPE_READ INT_LIST q"

definition lpos_query_Run :: "'d rocks \<Rightarrow> 'd run" where
  "lpos_query_Run R q w =
     bind_res (ListHandler_Index (convto_num_uint (q_value q))
                 (ListHandler_Create (rd_value (Get R (q_dest q) q w)))) (\<lambda>(reply, handler).
       bind_res (GetLast (lh_LastMsg handler)) (\<lambda>msg.
         if msg = HANDLER_MSG_NOT_FOUND then Inr (access_set DBL_NOT_FOUND q, w)
         else Inr (SetOK (q\<lparr>q_response := reply\<rparr>), w)))"

definition lpos_query_Process :: "query \<Rightarrow> string" where
  "lpos_query_Process q = Helpers_Format (q_response q)"

definition lcount_query :: "query \<Rightarrow> query" where
  "lcount_query q = of_class QUERY_TYPE_READ INT_LIST q"

definition lcount_query_Run :: "'d rocks \<Rightarrow> 'd run" where
  "lcount_query_Run R q w =
     (let result = Get R (q_dest q) q w
      in if \<not> rd_status result then Inr (access_set DBL_NOT_FOUND q, w)
         else Inr (SetOK (q\<lparr>q_counter :=
                fst (ListHandler_Count (ListHandler_Create (rd_value result)))\<rparr>), w))"

definition lcount_query_Process :: "query \<Rightarrow> string" where
  "lcount_query_Process q = c_str (convto_string (q_counter q))"

definition lexist_query :: "query \<Rightarrow> query" where
  "lexist_query q = of_class QUERY_TYPE_READ INT_LIST q"

definition lexist_query_Run :: "'d rocks \<Rightarrow> 'd run" where
  "lexist_query_Run R q w =
     (let result = Get R (q_dest q) q w
      in if \<not> rd_status result then Inr (access_set DBL_NOT_FOUND q, w)
         else Inr (SetOK (q\<lparr>q_response :=
                (if ListHandler_Exist (q_value q) (ListHandler_Create (rd_value result))
                 then ''1'' else ''0'')\<rparr>), w))"

definition lexist_query_Process :: "query \<Rightarrow> string" where
  "lexist_query_Process q = c_str (q_response q)"

definition lrepeats_query :: "query \<Rightarrow> query" where
  "lrepeats_query q = of_class QUERY_TYPE_READ INT_LIST q"

definition lrepeats_query_Run :: "'d rocks \<Rightarrow> 'd run" where
  "lrepeats_query_Run R q w =
     (let result = Get R (q_dest q) q w
      in if \<not> rd_status result then Inr (access_set DBL_NOT_FOUND q, w)
         else Inr (SetOK (q\<lparr>q_response := convto_string
                (fst (ListHandler_Repeats (q_value q) (ListHandler_Create (rd_value result))))\<rparr>), w))"

definition lrepeats_query_Process :: "query \<Rightarrow> string" where
  "lrepeats_query_Process q = c_str (q_response q)"

definition lback_query :: "query \<Rightarrow> query" where
  "lback_query q = of_class QUERY_TYPE_READ INT_LIST q"

definition lback_query_Run :: "'d rocks \<Rightarrow> 'd run" where
  "lback_query_Run R q w =
     (let result = Get R (q_dest q) q w
      in if \<not> rd_status result then Inr (access_set DBL_NOT_FOUND q, w)
         else (let (response, handler) = ListHandler_Back (ListHandler_Create (rd_value result));
                    q1 = q\<lparr>q_response := response\<rparr>
               in bind_res (GetLast (lh_LastMsg handler)) (\<lambda>msg.
                    if msg = HANDLER_MSG_NOT_FOUND then Inr (access_set DBL_NOT_FOUND q1, w)
                    else Inr (SetOK q1, w))))"

definition lback_query_Process :: "query \<Rightarrow> string" where
  "lback_query_Process q = Helpers_Format (q_response q)"

definition lfront_query :: "query \<Rightarrow> query" where
  "lfront_query q = of_class QUERY_TYPE_READ INT_LIST q"

definition lfront_query_Run :: "'d rocks \<Rightarrow> 'd run" where
  "lfront_query_Run R q w =
     (let result = Get R (q_dest q) q w
      in if \<not> rd_status result then Inr (access_set DBL_NOT_FOUND q, w)
         else (let (response, handler) = ListHandler_Front (ListHandler_Create (rd_value result));
                    q1 = q\<lparr>q_response := response\<rparr>
               in bind_res (GetLast (lh_LastMsg handler)) (\<lambda>msg.
                    if msg = HANDLER_MSG_NOT_FOUND then Inr (access_set DBL_NOT_FOUND q1, w)
                    else Inr (SetOK q1, w))))"

definition lfront_query_Process :: "query \<Rightarrow> string" where
  "lfront_query_Process q = Helpers_Format (q_response q)"

definition lavg_query :: "query \<Rightarrow> query" where
  "lavg_query q = of_class QUERY_TYPE_READ INT_LIST q"

definition lavg_query_Run :: "'n dbl \<Rightarrow> 'd rocks \<Rightarrow> 'd run" where
  "lavg_query_Run D R q w =
     (let result = Get R (q_dest q) q w
      in if \<not> rd_status result then Inr (access_set DBL_NOT_FOUND q, w)
         else (let handler = ListHandler_Create (rd_value result)
               in if \<not> ListHandler_IsNumeric handler then Inr (access_set DBL_INVALID_RANGE q, w)
                  else Inr (SetOK (q\<lparr>q_response := d_show D (ListHandler_GetSMA D handler)\<rparr>), w)))"

definition lavg_query_Process :: "query \<Rightarrow> string" where
  "lavg_query_Process q = c_str (q_response q)"

definition lhigh_query :: "query \<Rightarrow> query" where
  "lhigh_query q = of_class QUERY_TYPE_READ INT_LIST q"

definition lhigh_query_Run :: "'n dbl \<Rightarrow> 'd rocks \<Rightarrow> 'd run" where
  "lhigh_query_Run D R q w =
     (let result = Get R (q_dest q) q w
      in if \<not> rd_status result then Inr (access_set DBL_NOT_FOUND q, w)
         else (let handler = ListHandler_Create (rd_value result)
               in if \<not> ListHandler_IsNumeric handler then Inr (access_set DBL_INVALID_RANGE q, w)
                  else Inr (SetOK (q\<lparr>q_response := d_show D (ListHandler_GetHigh D handler)\<rparr>), w)))"

definition lhigh_query_Process :: "query \<Rightarrow> string" where
  "lhigh_query_Process q = c_str (q_response q)"

definition llow_query :: "query \<Rightarrow> query" where
  "llow_query q = of_class QUERY_TYPE_READ INT_LIST q"

definition llow_query_Run :: "'n dbl \<Rightarrow> 'd rocks \<Rightarrow> 'd run" where
  "llow_query_Run D R q w =
     (let result = Get R (q_dest q) q w
      in if \<not> rd_status result then Inr (access_set DBL_NOT_FOUND q, w)
         else (let handler = ListHandler_Create (rd_value result)
               in if \<not> ListHandler_IsNumeric handler then Inr (access_set DBL_INVALID_RANGE q, w)
                  else bind_res (ListHandler_GetLow D handler) (\<lambda>low.
                         Inr (SetOK (q\<lparr>q_response := d_show D low\<rparr>), w))))"

definition llow_query_Process :: "query \<Rightarrow> string" where
  "llow_query_Process q = c_str (q_response q)"

text \<open>
  \<open>lget_query\<close>: in the \<open>CORE\<close> mode every element is kept, in the \<open>COUNT\<close> mode none; otherwise the
  elements are paged.
\<close>

definition lget_query :: "query \<Rightarrow> query" where
  "lget_query q = of_class QUERY_TYPE_READ INT_LIST q"

definition lget_items :: "query \<Rightarrow> string list \<Rightarrow> string page" where
  "lget_items q items =
     (if q_flags q = QUERY_FLAGS_CORE
      then page_start\<lparr>p_result := items, p_total := of_nat (length items)\<rparr>
      else if q_flags q = QUERY_FLAGS_COUNT then page_start\<lparr>p_total := of_nat (length items)\<rparr>
      else page_items push_back (q_offset q) (q_limit q) items page_start)"

definition lget_query_Run :: "query \<Rightarrow> 'd rocks \<Rightarrow> 'd run" where
  "lget_query_Run fresh R q w =
     (let result = Get R (q_dest q) q w
      in if \<not> rd_status result then Inr (access_set DBL_NOT_FOUND q, w)
         else (let p = lget_items q (lh_mhandler (ListHandler_Create (rd_value result)));
                    request = (\<lambda>s. (lget_query fresh)\<lparr>q_key := q_key q, q_user := q_user q,
                      q_partial := True, q_subresult := fst s, q_VecData := snd s, q_finished := True\<rparr>)
               in Inr (SetOK (q\<lparr>q_subresult := p_tracker p + 1, q_partial := False,
                               q_counter := p_total p, q_VecData := p_result p\<rparr>),
                       attach_pages request p w)))"

end
