(* ===== verification/ListFacts.thy ===== *)
theory ListFacts
  imports ListQueries Sample_Store
begin

text \<open>
  What the list queries do to the list stored under their key, for every branch of \<open>Prepare\<close>
  and \<open>Run\<close>.  They rest on the codec contract of the list handler.
\<close>

section \<open>Outcomes on the stored list\<close>

text \<open>The list a stored text stands for.\<close>

definition list_text :: "string \<Rightarrow> string list" where
  "list_text v = lh_mhandler (ListHandler_Create v)"

lemma list_text_as_string: "wf_list h \<Longrightarrow> list_text (ListHandler_as_string h) = lh_mhandler h"
  by (simp add: list_text_def lh.load_save)

lemma list_text_nonempty: "[] \<notin> set (list_text v)"
  using wf_list_Create [of v] by (simp add: wf_list_def list_text_def)

definition deleted_or_failed ::
  "('d \<Rightarrow> string \<rightharpoonup> string) \<Rightarrow> query \<Rightarrow> 'd world \<Rightarrow> 'd world \<Rightarrow> bool" where
  "deleted_or_failed view q w w' \<longleftrightarrow>
     w_expires w' = w_expires w \<and>
     ((\<forall>k s. view_of view q w' k s =
         (if k = q_key q \<and> s = q_select_query q then None else view_of view q w k s)) \<or>
      (\<forall>k s. view_of view q w' k s = view_of view q w k s))"

text \<open>The list \<open>xs\<close> is what is left; an empty one has its key deleted.\<close>

definition list_left ::
  "('d \<Rightarrow> string \<rightharpoonup> string) \<Rightarrow> query \<Rightarrow> 'd world \<Rightarrow> string list \<Rightarrow> bool \<Rightarrow> query \<Rightarrow> 'd world \<Rightarrow> bool" where
  "list_left view q w xs deleted_ok q' w' \<longleftrightarrow>
     (if xs \<noteq> [] then \<exists>v. list_text v = xs \<and> stored_or_failed view q w INT_LIST v q' w'
      else q_finished q' = deleted_ok \<and> deleted_or_failed view q w w')"

lemma Delete_deleted:
  assumes "rocks_ok R view" "one_type (holds view (q_database q) w)"
    and "own_view view q w = Some (t, v)"
    and "q_database q1 = q_database q" "dest = raw_key (q_key q) (q_select_query q) t"
  shows "deleted_or_failed view q w (Delete R dest q1 w)"
  by (rule Delete_view [OF assms(1), of dest q1 w])
    (use assms(4,5) key_view_delete [OF assms(2,3)] in \<open>auto simp: deleted_or_failed_def\<close>)

lemma of_nat_pos: "n < 2 ^ 32 \<Longrightarrow> (0 :: u32) < of_nat n \<longleftrightarrow> n \<noteq> 0"
  by (auto simp: word_less_nat_alt unat_of_nat)

lemma store_list_left:
  assumes "rocks_ok R view" "ready q w" "one_type (holds view (q_database q) w)"
    and "own_view view q w = Some (INT_LIST, v)"
    and "q_dest q1 = raw_key (q_key q) (q_select_query q) INT_LIST" "q_database q1 = q_database q"
    and "q_finished q1 = q_finished q" "wf_list h" "length (lh_mhandler h) < 2 ^ 32"
  shows "\<exists>q' w'. store_list R h ok q1 w = (q', w') \<and> list_left view q w (lh_mhandler h) ok q' w' \<and>
    q_response q' = q_response q1"
proof (cases "lh_mhandler h = []")
  case True
  then have "store_list R h ok q1 w = (if ok then SetOK q1 else q1, Delete R (q_dest q1) q1 w)"
    by (simp add: store_list_def ListHandler_Count_def)
  moreover have "deleted_or_failed view q w (Delete R (q_dest q1) q1 w)"
    by (rule Delete_deleted [OF assms(1,3,4,6,5)])
  ultimately show ?thesis
    using True assms(2,7) by (auto simp: list_left_def ready_def)
next
  case False
  have "ListHandler_as_string (h\<lparr>lh_LastMsg := x\<rparr>) = ListHandler_as_string h" for x
    by (rule lh.save_cong) simp
  with False have "store_list R h ok q1 w = write_dest R (ListHandler_as_string h) q1 w"
    using of_nat_pos [OF assms(9)] by (simp add: store_list_def ListHandler_Count_def)
  moreover have "own_view view q w = None \<or> (\<exists>v0. own_view view q w = Some (INT_LIST, v0))"
    using assms(4) by simp
  note write_dest_ex [OF assms(1,2) INT_in_TypeRegs(3) this assms(5,6,7), of "ListHandler_as_string h"]
  ultimately show ?thesis
    using False list_text_as_string [OF assms(8)] by (auto simp: list_left_def)
qed

text \<open>A stored list of three elements, for the witnesses.\<close>

definition sample_list :: string where
  "sample_list = ListHandler_as_string
     (ListHandler_Add ''y'' (ListHandler_Add ''z'' (ListHandler_Add ''x'' ListHandler)))"

lemma list_text_sample [simp]: "list_text sample_list = [''x'', ''z'', ''y'']"
  unfolding sample_list_def
  by (subst list_text_as_string) (simp_all add: wf_list_def ListHandler_Add_def ListHandler_def)

section \<open>Pushing\<close>

definition old_list :: "string option \<Rightarrow> string list" where
  "old_list stored = (case stored of None \<Rightarrow> [] | Some v \<Rightarrow> list_text v)"

lemma GetLast_Add: "key \<noteq> [] \<Longrightarrow> GetLast (lh_LastMsg (ListHandler_Add key h)) = Inr HANDLER_MSG_OK"
  by (simp add: GetLast_def ListHandler_Add_def)

text \<open>
  LPUSH appends the value at the end of the stored list, or of the empty list when the name
  is free. A push on an existing list reports a failed write; the first push of a name reports
  success whatever the store answered.
\<close>

lemma lpush_query_outcome:
  assumes "rocks_ok R view" "ready q w" "q_value q \<noteq> []"
  shows "\<exists>r. Prepare R (lpush_query_Run R) (lpush_query q) w = Inr r \<and>
    write_outcome view INT_LIST
      (\<lambda>stored q' w'. \<exists>v. list_text v = old_list stored @ [q_value q] \<and>
         (if stored = None
          then q_finished q' \<and> (stored_or_failed view q w INT_LIST v q' w' \<or>
                                 (\<forall>k s. view_of view q w' k s = view_of view q w k s))
          else stored_or_failed view q w INT_LIST v q' w')) q w r"
  unfolding lpush_query_def
proof (rule WRITE_outcome [OF assms(1,2)], goal_cases)
  case 1
  let ?h = "ListHandler_Add (q_value q) ListHandler" and ?q = "created_as (of_class QUERY_TYPE_WRITE INT_LIST q)"
  have v: "list_text (ListHandler_as_string ?h) = old_list None @ [q_value q]"
    using assms(3) by (subst list_text_as_string) (simp_all add: wf_list_def old_list_def)
  obtain ok w1 where wr: "Write R (q_dest ?q) (ListHandler_as_string ?h) ?q w = (ok, w1)"
    by fastforce
  have run: "lpush_query_Run R ?q w = Inr (SetOK ?q, w1)"
    using Get_created_as [OF assms(1), of "of_class QUERY_TYPE_WRITE INT_LIST q" w] assms 1 wr
    by (simp add: lpush_query_Run_def GetLast_Add)
  have "stored_or_failed view q w INT_LIST (ListHandler_as_string ?h) (SetOK ?q) w1 \<or>
      (\<forall>k s. view_of view q w1 k s = view_of view q w k s)"
    using Write_view [OF assms(1) wr] key_view_put [OF INT_in_TypeRegs(3) disjI1 [OF 1]]
    by (cases ok) (auto simp: stored_or_failed_def)
  with run v show ?case by auto
next
  case (2 v)
  let ?h = "ListHandler_Add (q_value q) (ListHandler_Create v)"
  let ?q = "found_as (of_class QUERY_TYPE_WRITE INT_LIST q) INT_LIST v"
  have "list_text (ListHandler_as_string ?h) = old_list (Some v) @ [q_value q]"
    using assms(3) by (subst list_text_as_string) (simp_all add: wf_list_Add old_list_def list_text_def)
  with write_dest_ex [OF assms(1,2) INT_in_TypeRegs(3), of ?q "ListHandler_as_string ?h"] 2 assms(3)
  show ?case
    by (auto simp: lpush_query_Run_def GetLast_Add)
qed

lemma lpush_query_witness:
  "\<exists>q' w'. Prepare table_rocks (lpush_query_Run table_rocks) (lpush_query (ask ''a'' ''z'')) (one_world INT_LIST sample_list) = Inr (True, q', w') \<and>
     (\<exists>v. list_text v = [''x'', ''z'', ''y'', ''z''] \<and> stored_or_failed map_of (ask ''a'' ''z'') (one_world INT_LIST sample_list) INT_LIST v q' w')"
  using lpush_query_outcome [OF table_rocks_ok, of "ask ''a'' ''z''" "one_world INT_LIST sample_list"]
  by (auto simp: write_outcome_def old_list_def)

section \<open>Popping and rearranging\<close>

lemma list_query_outcome:
  assumes "rocks_ok R view" "ready q w" "one_type (holds view (q_database q) w)"
    and "\<And>v. own_view view q w = Some (INT_LIST, v) \<Longrightarrow>
      run (found_as (of_class QUERY_TYPE_READ INT_LIST q) INT_LIST v) w =
        Inr (store_list R (f (ListHandler_Create v)) ok (found_as (of_class QUERY_TYPE_READ INT_LIST q) INT_LIST v) w)"
    and "\<And>v. wf_list (f (ListHandler_Create v))"
    and "\<And>v. own_view view q w = Some (INT_LIST, v) \<Longrightarrow> length (lh_mhandler (f (ListHandler_Create v))) < 2 ^ 32"
  shows "\<exists>r. Prepare R run (of_class QUERY_TYPE_READ INT_LIST q) w = Inr r \<and>
    read_outcome view INT_LIST DBL_NOT_FOUND
      (\<lambda>v. list_left view q w (lh_mhandler (f (ListHandler_Create v))) ok) q w r"
proof (rule READ_outcome [OF assms(1,2)], goal_cases)
  case (1 v)
  from store_list_left [OF assms(1-3) 1 _ _ _ assms(5) assms(6) [OF 1],
      of "found_as (of_class QUERY_TYPE_READ INT_LIST q) INT_LIST v" ok] assms(4) [OF 1]
  show ?case by auto
qed

text \<open>
  LPOPFRONT removes exactly the first element of the stored list: the rest is written back,
  or the name is deleted when nothing is left, or the store refused and nothing changed.
\<close>

lemma lpop_front_query_outcome:
  assumes "rocks_ok R view" "ready q w" "one_type (holds view (q_database q) w)"
    and "\<And>v. own_view view q w = Some (INT_LIST, v) \<Longrightarrow> length (list_text v) < 2 ^ 32"
  shows "\<exists>r. Prepare R (lpop_front_query_Run R) (lpop_front_query q) w = Inr r \<and>
    read_outcome view INT_LIST DBL_NOT_FOUND (\<lambda>v. list_left view q w (tl (list_text v)) False) q w r"
  using list_query_outcome [OF assms(1-3), of "lpop_front_query_Run R" ListHandler_PopFront False] assms(4)
  by (force simp: lpop_front_query_def lpop_front_query_Run_def list_text_def)

lemma lpop_front_query_witness:
  "\<exists>q' w'. Prepare table_rocks (lpop_front_query_Run table_rocks) (lpop_front_query (ask ''a'' ''z'')) (one_world INT_LIST sample_list) = Inr (True, q', w') \<and>
     list_left map_of (ask ''a'' ''z'') (one_world INT_LIST sample_list) [''z'', ''y''] False q' w'"
  using lpop_front_query_outcome [OF table_rocks_ok, of "ask ''a'' ''z''" "one_world INT_LIST sample_list"]
  by (auto simp: read_outcome_def )

lemma lpop_back_query_outcome:
  assumes "rocks_ok R view" "ready q w" "one_type (holds view (q_database q) w)"
    and "\<And>v. own_view view q w = Some (INT_LIST, v) \<Longrightarrow> length (list_text v) < 2 ^ 32"
  shows "\<exists>r. Prepare R (lpop_back_query_Run R) (lpop_back_query q) w = Inr r \<and>
    read_outcome view INT_LIST DBL_NOT_FOUND (\<lambda>v. list_left view q w (butlast (list_text v)) False) q w r"
  using list_query_outcome [OF assms(1-3), of "lpop_back_query_Run R" ListHandler_PopBack False] assms(4)
  by (force simp: lpop_back_query_def lpop_back_query_Run_def list_text_def)

lemma lpop_back_query_witness:
  "\<exists>q' w'. Prepare table_rocks (lpop_back_query_Run table_rocks) (lpop_back_query (ask ''a'' ''z'')) (one_world INT_LIST sample_list) = Inr (True, q', w') \<and>
     list_left map_of (ask ''a'' ''z'') (one_world INT_LIST sample_list) [''x'', ''z''] False q' w'"
  using lpop_back_query_outcome [OF table_rocks_ok, of "ask ''a'' ''z''" "one_world INT_LIST sample_list"]
  by (auto simp: read_outcome_def )

text \<open>\<open>LSORT\<close> stores the list in reverse.\<close>

lemma reversing_query_outcome:
  assumes "rocks_ok R view" "ready q w"
    and "\<And>q v. run (found_as q INT_LIST v) w =
      Inr (write_dest R (ListHandler_as_string (ListHandler_Reverse (ListHandler_Create v)))
             (found_as q INT_LIST v) w)"
  shows "\<exists>r. Prepare R run (of_class QUERY_TYPE_READ INT_LIST q) w = Inr r \<and>
    read_outcome view INT_LIST DBL_NOT_FOUND
      (\<lambda>v q' w'. \<exists>v'. list_text v' = rev (list_text v) \<and> stored_or_failed view q w INT_LIST v' q' w') q w r"
proof (rule READ_outcome [OF assms(1,2)], goal_cases)
  case (1 v)
  let ?h = "ListHandler_Reverse (ListHandler_Create v)"
  have "list_text (ListHandler_as_string ?h) = rev (list_text v)"
    by (subst list_text_as_string) (auto simp: list_text_def)
  with write_dest_ex [OF assms(1,2) INT_in_TypeRegs(3),
      of "found_as (of_class QUERY_TYPE_READ INT_LIST q) INT_LIST v" "ListHandler_as_string ?h"] 1
  show ?case by (auto simp: assms(3))
qed

text \<open>
  LSORT stores the list reversed, not sorted: its Run calls Reverse.
\<close>

lemma lsort_query_outcome:
  assumes "rocks_ok R view" "ready q w"
  shows "\<exists>r. Prepare R (lsort_query_Run R) (lsort_query q) w = Inr r \<and>
    read_outcome view INT_LIST DBL_NOT_FOUND
      (\<lambda>v q' w'. \<exists>v'. list_text v' = rev (list_text v) \<and> stored_or_failed view q w INT_LIST v' q' w') q w r"
  unfolding lsort_query_def
  by (rule reversing_query_outcome [OF assms]) (simp add: lsort_query_Run_def)

lemma lsort_query_witness:
  "\<exists>q' w'. Prepare table_rocks (lsort_query_Run table_rocks) (lsort_query (ask ''a'' ''z'')) (one_world INT_LIST sample_list) = Inr (True, q', w') \<and>
     (\<exists>v. list_text v = [''y'', ''z'', ''x''] \<and> stored_or_failed map_of (ask ''a'' ''z'') (one_world INT_LIST sample_list) INT_LIST v q' w')"
  using lsort_query_outcome [OF table_rocks_ok, of "ask ''a'' ''z''" "one_world INT_LIST sample_list"]
  by (auto simp: read_outcome_def )

text \<open>
  LRFRONT on a list with elements reads the element that ListHandler::FPOP has already
  destroyed: the behaviour is undefined.
\<close>

lemma lrfront_query_undefined:
  assumes "rocks_ok R view" "ready q w" "own_view view q w = Some (INT_LIST, v)" "list_text v \<noteq> []"
  shows "Prepare R (lrfront_query_Run R) (lrfront_query q) w = Inl Undefined_behaviour"
  using Prepare_READ [OF assms(1), of "of_class QUERY_TYPE_READ INT_LIST q" w "lrfront_query_Run R"] assms
  by (simp add: lrfront_query_def run_then_def lrfront_query_Run_def ListHandler_FPOP_def list_text_def)

lemma lrfront_query_witness:
  "Prepare table_rocks (lrfront_query_Run table_rocks) (lrfront_query (ask ''a'' ''z'')) (one_world INT_LIST sample_list)
     = Inl Undefined_behaviour"
  by (rule lrfront_query_undefined [OF table_rocks_ok, where v = sample_list]) simp_all

lemma colon_tokens_to_bin: "x \<noteq> [] \<Longrightarrow> colon_tokens (to_bin x) = [to_bin x]"
  by (simp add: colon_tokens_single)

lemma list_text_plain: "x \<noteq> [] \<Longrightarrow> list_text (to_bin x) = [x]"
  by (simp add: list_text_def ListHandler_Create_eq colon_tokens_to_bin)

lemma list_text_plain_x: "list_text (to_bin ''x'') = [''x'']"
  by (rule list_text_plain) simp

text \<open>\<open>LPOPALL\<close> empties a list of one element whatever the value asked for.\<close>

lemma lpopall_query_left:
  assumes "rocks_ok R view" "ready q w" "one_type (holds view (q_database q) w)"
    and "own_view view q w = Some (INT_LIST, v)" "q_value q \<noteq> []" "length (list_text v) < 2 ^ 32"
  shows "\<exists>q' w'. Prepare R (lpopall_query_Run R) (lpopall_query q) w = Inr (True, q', w') \<and>
    list_left view q w
      (if length (list_text v) = 1 then [] else removeAll (q_value q) (list_text v)) True q' w'"
proof -
  let ?q = "found_as (of_class QUERY_TYPE_ITER INT_LIST q) INT_LIST v"
  let ?h = "ListHandler_PopAll (q_value q) (ListHandler_Create v)"
  have items: "lh_mhandler ?h =
      (if length (list_text v) = 1 then [] else removeAll (q_value q) (list_text v))"
    using assms(5) by (simp add: lh_PopAll list_text_def)
  have "length (removeAll (q_value q) (list_text v)) < 2 ^ 32"
    using assms(6) length_removeAll_less_eq [of "q_value q" "list_text v"] by linarith
  with items assms(6) have "length (lh_mhandler ?h) < 2 ^ 32" by (simp split: if_splits)
  from store_list_left [OF assms(1-4) _ _ _ _ this, of ?q True]
  obtain q' w' where sl: "store_list R ?h True ?q w = (q', w')" "list_left view q w (lh_mhandler ?h) True q' w'"
    using wf_list_ops(4) [OF wf_list_Create, of "q_value q" v] by auto
  have "Prepare R (lpopall_query_Run R) (lpopall_query q) w = Inr (True, q', w')"
    using Prepare_ITER [OF assms(1), of "of_class QUERY_TYPE_ITER INT_LIST q" w "lpopall_query_Run R"]
      assms(2,4) sl(1)
    by (simp add: lpopall_query_def run_then_def lpopall_query_Run_def)
  with sl(2) items show ?thesis by auto
qed

lemma lpopall_query_witness:
  "\<exists>q' w'. Prepare table_rocks (lpopall_query_Run table_rocks) (lpopall_query (ask ''a'' ''z''))
       (one_world INT_LIST (to_bin ''x'')) = Inr (True, q', w') \<and>
     list_left map_of (ask ''a'' ''z'') (one_world INT_LIST (to_bin ''x'')) [] True q' w'"
  using lpopall_query_left [OF table_rocks_ok, of "ask ''a'' ''z''" "one_world INT_LIST (to_bin ''x'')" "to_bin ''x''"]
    list_text_plain_x
  by (simp del: to_bin.simps)

text \<open>
  LDEL does not check the type of the key: run with a value equal to the text of a plain key,
  it deletes that key, or the store refused the deletion, and reports success.
\<close>

lemma ldel_query_plain_key:
  assumes "rocks_ok R view" "ready q w" "one_type (holds view (q_database q) w)"
    and "own_view view q w = Some (INT_KEY, to_bin x)" "q_value q = x" "x \<noteq> []"
  shows "\<exists>q' w'. Prepare R (ldel_query_Run R) (ldel_query q) w = Inr (True, q', w') \<and>
    q_finished q' \<and> deleted_or_failed view q w w'"
proof -
  let ?q = "located (access_set DBL_STATUS_OK (of_class QUERY_TYPE_DELETE INT_LIST q)) INT_KEY None"
  have held: "holds view (q_database q) w (raw_key (q_key q) (q_select_query q) INT_KEY) = Some (to_bin x)"
    using key_view_Some [OF assms(4)] by simp
  then have get: "Get R (q_dest ?q) ?q w = \<lparr>rd_status = True, rd_value = to_bin x, rd_loaded = False\<rparr>"
    using assms(2) by (subst Get_view [OF assms(1)]) (auto simp: ready_def)
  have one: "lh_mhandler (ListHandler_Create (to_bin x)) = [x]"
    using list_text_plain [OF assms(6)] by (simp add: list_text_def)
  have "ldel_query_Run R ?q w = Inr (SetOK ?q, Delete R (q_dest ?q) ?q w)"
    unfolding ldel_query_Run_def get
    by (simp add: ListHandler_Exist_def one assms(5) store_list_def ListHandler_Count_def)
  moreover have "deleted_or_failed view q w (Delete R (q_dest ?q) ?q w)"
    by (rule Delete_deleted [OF assms(1,3,4)]) auto
  ultimately show ?thesis
    using Prepare_DELETE [OF assms(1), of "of_class QUERY_TYPE_DELETE INT_LIST q" w "ldel_query_Run R"]
      assms(2,4)
    by (auto simp: ldel_query_def run_then_def)
qed

lemma ldel_query_witness:
  "\<exists>q' w'. Prepare table_rocks (ldel_query_Run table_rocks) (ldel_query (ask ''a'' ''x''))
       (one_world INT_KEY (to_bin ''x'')) = Inr (True, q', w') \<and> q_finished q' \<and>
     deleted_or_failed map_of (ask ''a'' ''x'') (one_world INT_KEY (to_bin ''x'')) w'"
  using ldel_query_plain_key [OF table_rocks_ok, of "ask ''a'' ''x''" "one_world INT_KEY (to_bin ''x'')" "''x''"]
  by (simp del: to_bin.simps)

section \<open>Reading\<close>

text \<open>
  LPOS answers the element at the given position of a non-empty list when the position is
  inside the list and not found otherwise, and never changes the world.
\<close>

lemma lpos_query_outcome:
  assumes "rocks_ok R view" "ready q w"
    and "\<And>v. own_view view q w = Some (INT_LIST, v) \<Longrightarrow> list_text v \<noteq> [] \<and> length (list_text v) < 2 ^ 32"
  shows "\<exists>r. Prepare R (lpos_query_Run R) (lpos_query q) w = Inr r \<and>
    read_outcome view INT_LIST DBL_NOT_FOUND
      (\<lambda>v q' w'. w' = w \<and>
         (if unat (convto_num_uint (q_value q)) < length (list_text v)
          then q_finished q' \<and> q_response q' = list_text v ! unat (convto_num_uint (q_value q))
          else \<not> q_finished q' \<and> q_access q' = DBL_NOT_FOUND)) q w r"
  unfolding lpos_query_def
proof (rule READ_outcome [OF assms(1,2)], goal_cases)
  case (1 v)
  let ?l = "lh_mhandler (ListHandler_Create v)" and ?n = "convto_num_uint (q_value q)"
  have l: "?l \<noteq> []" "index_loop ?n ?l 0 = (if unat ?n < length ?l then Some (?l ! unat ?n) else None)"
    using assms(3) [OF 1] index_loop_eq [of 0 ?l ?n] by (auto simp: list_text_def)
  with assms(2) show ?case
    by (auto simp: lpos_query_Run_def ListHandler_Index_def list_text_def GetLast_def ready_def)
qed

lemma lpos_query_witness:
  "\<exists>q' w'. Prepare table_rocks (lpos_query_Run table_rocks) (lpos_query (ask ''a'' ''1'')) (one_world INT_LIST sample_list) = Inr (True, q', w') \<and>
     q_finished q' \<and> q_response q' = ''z''"
proof -
  have "convto_string 1 = ''1''" by code_simp
  then have "convto_num_uint ''1'' = 1" by (metis convto_num_uint_convto_string)
  then show ?thesis
    using lpos_query_outcome [OF table_rocks_ok, of "ask ''a'' ''1''" "one_world INT_LIST sample_list"]
    by (auto simp: read_outcome_def)
qed

text \<open>
  C26: LGET answers, over its pages, exactly the slice of the list that its offset and limit name,
  in order and without loss at a page boundary; the last page holds fewer than 50 elements and the
  databases are not touched.
\<close>

lemma lget_query_outcome:
  assumes "rocks_ok R view" "ready q w" "q_flags q = QUERY_FLAGS_NONE"
    and "\<And>v. own_view view q w = Some (INT_LIST, v) \<Longrightarrow> length (list_text v) < 2 ^ 31"
    and "q_limit q = - 1 \<or> 0 \<le> q_limit q \<and> q_limit q < 2 ^ 31 \<and> 0 \<le> q_offset q"
  shows "\<exists>r. Prepare R (lget_query_Run fresh R) (lget_query q) w = Inr r \<and>
    read_outcome view INT_LIST DBL_NOT_FOUND
      (\<lambda>v q' w'. q_finished q' \<and>
         concat (map q_VecData (drop (length (w_results w)) (w_results w'))) @ q_VecData q' =
           page_slice (q_offset q) (q_limit q) (list_text v) \<and>
         length (q_VecData q') < 50 \<and> w_dbs w' = w_dbs w) q w r"
  unfolding lget_query_def
proof (rule READ_outcome [OF assms(1,2)], goal_cases)
  case (1 v)
  let ?p = "page_items push_back (q_offset q) (q_limit q) (list_text v) page_start"
  have p: "page_data ?p = page_slice (q_offset q) (q_limit q) (list_text v)" "length (p_result ?p) < 50"
    using page_items_slice [OF assms(4) [OF 1] assms(5)] by (auto simp: page_ok_def)
  have "lget_items (found_as (of_class QUERY_TYPE_READ INT_LIST q) INT_LIST v) (list_text v) = ?p"
    using assms(3) by (simp add: lget_items_def)
  with p show ?case
    by (auto simp: lget_query_Run_def list_text_def attach_pages_def page_data_def comp_def Let_def)
qed

lemma lget_query_witness:
  "\<exists>q' w'. Prepare table_rocks (lget_query_Run new_query table_rocks)
       (lget_query ((ask ''a'' [])\<lparr>q_limit := - 1\<rparr>)) (one_world INT_LIST sample_list) = Inr (True, q', w') \<and>
     concat (map q_VecData (w_results w')) @ q_VecData q' = [''x'', ''z'', ''y'']"
  using lget_query_outcome [OF table_rocks_ok, of "(ask ''a'' [])\<lparr>q_limit := - 1\<rparr>" "one_world INT_LIST sample_list" new_query]
  by (auto simp: read_outcome_def page_slice_def)

end
