(* ===== verification/MapFacts.thy ===== *)
theory MapFacts
  imports MapQueries ListFacts
begin

text \<open>
  What the map queries do to the map stored under their key, for every branch of \<open>Prepare\<close> and
  \<open>Run\<close>; and what becomes of a listing whose container is cleared while it is iterated over.
\<close>

section \<open>Pages over a cleared container\<close>

lemma of_nat_page: "0 < m \<Longrightarrow> m < 50 \<Longrightarrow> (of_nat m :: u32) mod ITER_LIMIT \<noteq> 0"
  using of_nat_mod_limit [of m] by simp

lemma stale_push_open:
  assumes "p_aux p = of_nat m" "Suc m < 50"
  shows "stale_push ins x p = (False, page_push ins x p) \<and> p_aux (page_push ins x p) = of_nat (Suc m)"
proof -
  have aux: "p_aux p + 1 = of_nat (Suc m)" using assms(1) by simp
  have "(of_nat (Suc m) :: u32) mod ITER_LIMIT \<noteq> 0" using of_nat_page [of "Suc m"] assms(2) by simp
  then show ?thesis
    by (simp only: stale_push_def page_push_def Let_def aux if_False) simp
qed

text \<open>Fewer than fifty items: the clearing is never reached.\<close>

lemma stale_items_short:
  "p_aux p = of_nat m \<Longrightarrow> m + length xs < 50 \<Longrightarrow>
   stale_items ins off lim xs p = Inr (page_items ins off lim xs p)"
proof (induction xs arbitrary: p m lim)
  case (Cons x xs)
  have push: "stale_push ins x p = (False, page_push ins x p)"
    "p_aux (page_push ins x p) = of_nat (Suc m)"
    using stale_push_open [OF Cons.prems(1)] Cons.prems(2) by auto
  have step: "stale_items ins off lim xs (r\<lparr>p_total := c\<rparr>) = Inr (page_items ins off lim xs (r\<lparr>p_total := c\<rparr>))"
    if "p_aux r = of_nat m \<or> p_aux r = of_nat (Suc m)" for r c lim
    using that Cons.IH [of "r\<lparr>p_total := c\<rparr>" m lim] Cons.IH [of "r\<lparr>p_total := c\<rparr>" "Suc m" lim] Cons.prems(2) by auto
  show ?case
    by (simp add: page_item_def push step Cons.prems(1) Let_def)
qed simp

text \<open>Fifty items and no limit: the iterator is used after its container was cleared.\<close>

lemma stale_items_long:
  "p_aux p = of_nat m \<Longrightarrow> m < 50 \<Longrightarrow> 50 \<le> m + length xs \<Longrightarrow>
   stale_items ins off (- 1) xs p = Inl Undefined_behaviour"
proof (induction xs arbitrary: p m)
  case (Cons x xs)
  show ?case
  proof (cases "Suc m < 50")
    case True
    with stale_push_open [OF Cons.prems(1) True, of ins x]
      Cons.IH [of "(page_push ins x p)\<lparr>p_total := p_total (page_push ins x p) + 1\<rparr>" "Suc m"] Cons.prems
    show ?thesis by (simp add: Let_def)
  next
    case False
    with Cons.prems(2) have "Suc m = 50" by simp
    then have "p_aux p + 1 = 50" using Cons.prems(1) by (metis of_nat_Suc of_nat_numeral add.commute)
    then show ?thesis by (simp add: stale_push_def ITER_LIMIT_def Let_def)
  qed
qed simp

lemma stale_items_quiet:
  assumes "length xs < 50" "lim = - 1 \<or> 0 \<le> lim \<and> lim < 2 ^ 31 \<and> 0 \<le> off"
  shows "\<exists>p. stale_items push_back off lim xs page_start = Inr p \<and> p_sent p = [] \<and>
    p_result p = page_slice off lim xs"
proof -
  let ?p = "page_items push_back off lim xs page_start"
  have "length xs < 2 ^ 31" using assms(1) by simp
  from page_items_slice [OF this assms(2)] have data: "page_data ?p = page_slice off lim xs"
    and ok: "\<forall>s\<in>set (p_sent ?p). length (snd s) = 50"
    by (auto simp: page_ok_def)
  have "length (page_data ?p) < 50"
    using assms(1) by (auto simp: data page_slice_def)
  with ok have "p_sent ?p = []"
    by (cases "p_sent ?p") (auto simp: page_data_def)
  with data have "p_result ?p = page_slice off lim xs" by (simp add: page_data_def)
  with \<open>p_sent ?p = []\<close> show ?thesis
    using stale_items_short [of page_start 0 xs push_back off lim] assms(1) by (auto simp: page_start_def)
qed

section \<open>The stored map\<close>

definition map_text :: "string \<Rightarrow> string \<rightharpoonup> string" where
  "map_text v = map_view (MapHandler_Create v)"

definition old_map :: "string option \<Rightarrow> string \<rightharpoonup> string" where
  "old_map stored = (case stored of None \<Rightarrow> Map.empty | Some v \<Rightarrow> map_text v)"

lemma map_text_as_string: "wf_map h \<Longrightarrow> map_text (MapHandler_as_string h) = map_view h"
  by (simp add: map_text_def map_view_def mh.load_save)

lemma GetLast_map_Add: "key \<noteq> [] \<Longrightarrow> GetLast (mh_LastMsg (MapHandler_Add key val h)) = Inr HANDLER_MSG_OK"
  by (simp add: GetLast_def MapHandler_Add_def)

text \<open>A stored map of two fields, for the witnesses.\<close>

definition sample_map :: string where
  "sample_map = MapHandler_as_string (MapHandler_Add ''f'' ''x'' (MapHandler_Add ''g'' ''y'' MapHandler))"

lemma map_text_sample [simp]: "map_text sample_map = [''g'' \<mapsto> ''y'', ''f'' \<mapsto> ''x'']"
  unfolding sample_map_def
  by (subst map_text_as_string)
    (simp_all add: wf_map_Add map_view_Add, simp add: map_view_def MapHandler_def)

section \<open>Setting and getting a field\<close>

text \<open>Stored, or nothing changed and the query is not finished.\<close>

definition stored_or_kept ::
  "('d \<Rightarrow> string \<rightharpoonup> string) \<Rightarrow> query \<Rightarrow> 'd world \<Rightarrow> string \<Rightarrow> string \<Rightarrow> query \<Rightarrow> 'd world \<Rightarrow> bool" where
  "stored_or_kept view q w t v q' w' \<longleftrightarrow>
     (\<forall>k s. view_of view q w' k s =
        (if q_finished q' \<and> k = q_key q \<and> s = q_select_query q then Some (t, v) else view_of view q w k s))
     \<and> w_expires w' = w_expires w"

lemma stored_or_kept_write:
  assumes "rocks_ok R view" "Write R (raw_key (q_key q) (q_select_query q) t) v q1 w = (ok, w')"
    and "q_database q1 = q_database q" "t \<in> set TypeRegs" "q_finished q' = ok"
    and "own_view view q w = None \<or> (\<exists>v0. own_view view q w = Some (t, v0))"
  shows "stored_or_kept view q w t v q' w'"
  using Write_view [OF assms(1,2)] key_view_put [OF assms(4,6)] assms(3,5)
  by (cases ok) (auto simp: stored_or_kept_def)

lemma stored_or_failed_kept:
  "stored_or_failed view q w t v q' w' \<Longrightarrow> stored_or_kept view q w t v q' w'"
  by (auto simp: stored_or_failed_def stored_or_kept_def split: if_splits)

lemma hset_outcome:
  assumes "rocks_ok R view" "ready q w" "q_hesh q \<noteq> []" "q_value q \<noteq> []"
  shows "\<exists>r. Prepare R (hset_query_Run R) (hset_query q) w = Inr r \<and>
    write_outcome view INT_MAP
      (\<lambda>stored q' w'. \<exists>v. map_text v = (old_map stored)(q_hesh q \<mapsto> q_value q) \<and>
         stored_or_kept view q w INT_MAP v q' w') q w r"
  unfolding hset_query_def
proof (rule WRITE_outcome [OF assms(1,2)], goal_cases)
  case 1
  let ?h = "MapHandler_Add (q_hesh q) (q_value q) MapHandler"
  let ?q = "created_as (of_class QUERY_TYPE_WRITE INT_MAP q)"
  have v: "map_text (MapHandler_as_string ?h) = (old_map None)(q_hesh q \<mapsto> q_value q)"
    using assms(3) by (subst map_text_as_string)
      (simp_all add: wf_map_Add map_view_Add old_map_def, simp add: map_view_def MapHandler_def)
  obtain ok w1 where wr: "Write R (q_dest ?q) (MapHandler_as_string ?h) ?q w = (ok, w1)" by fastforce
  have run: "hset_query_Run R ?q w = Inr (if ok then SetOK ?q else ?q, w1)"
    using Get_created_as [OF assms(1), of "of_class QUERY_TYPE_WRITE INT_MAP q" w] assms 1 wr
    by (simp add: hset_query_Run_def GetLast_map_Add)
  have "stored_or_kept view q w INT_MAP (MapHandler_as_string ?h) (if ok then SetOK ?q else ?q) w1"
    by (rule stored_or_kept_write [OF assms(1), where ?q1.0 = ?q and ok = ok])
      (use wr 1 assms(2) in \<open>auto simp: ready_def\<close>)
  with run v show ?case by blast
next
  case (2 v)
  let ?h = "MapHandler_Add (q_hesh q) (q_value q) (MapHandler_Create v)"
  let ?q = "found_as (of_class QUERY_TYPE_WRITE INT_MAP q) INT_MAP v"
  have t: "map_text (MapHandler_as_string ?h) = (old_map (Some v))(q_hesh q \<mapsto> q_value q)"
    using assms(3) by (subst map_text_as_string) (simp_all add: wf_map_Add map_view_Add old_map_def map_text_def)
  from write_dest_ex [OF assms(1,2), of INT_MAP ?q "MapHandler_as_string ?h"] 2
  obtain q' w' where wd: "write_dest R (MapHandler_as_string ?h) ?q w = (q', w')"
    "stored_or_failed view q w INT_MAP (MapHandler_as_string ?h) q' w'"
    by auto
  have "hset_query_Run R ?q w = Inr (q', w')"
    using assms(3,4) wd(1) by (simp add: hset_query_Run_def GetLast_map_Add)
  with t stored_or_failed_kept [OF wd(2)] show ?case by blast
qed

lemma hget_outcome:
  assumes "rocks_ok R view" "ready q w" "q_hesh q \<noteq> []"
  shows "\<exists>r. Prepare R (hget_query_Run R) (hget_query q) w = Inr r \<and>
    read_outcome view INT_MAP DBL_NOT_FOUND
      (\<lambda>v q' w'. w' = w \<and>
         (case map_text v (q_hesh q) of
            Some x \<Rightarrow> q_finished q' \<and> q_response q' = x
          | None \<Rightarrow> \<not> q_finished q' \<and> q_access q' = DBL_NOT_FOUND)) q w r"
  unfolding hget_query_def
proof (rule READ_outcome [OF assms(1,2)], goal_cases)
  case (1 v)
  with assms(2,3) show ?case
    by (auto simp: hget_query_Run_def map_view_Get map_text_def GetLast_def ready_def split: option.splits)
qed

lemma hget_query_outcome:
  assumes "rocks_ok R view" "ready q w" "q_hesh q \<noteq> []"
  shows "\<exists>r. Prepare R (hget_query_Run R) (hget_query q) w = Inr r \<and>
    read_outcome view INT_MAP DBL_NOT_FOUND
      (\<lambda>v q' w'. w' = w \<and>
         (case map_text v (q_hesh q) of
            Some x \<Rightarrow> q_finished q' \<and> q_response q' = x
          | None \<Rightarrow> \<not> q_finished q' \<and> q_access q' = DBL_NOT_FOUND)) q w r"
  by (rule hget_outcome [OF assms])

lemma hget_query_witness:
  "\<exists>q'. Prepare table_rocks (hget_query_Run table_rocks) (hget_query ((ask ''a'' [])\<lparr>q_hesh := ''g''\<rparr>))
       (one_world INT_MAP sample_map) = Inr (True, q', one_world INT_MAP sample_map) \<and>
     q_finished q' \<and> q_response q' = ''y''"
  using hget_query_outcome [OF table_rocks_ok, of "(ask ''a'' [])\<lparr>q_hesh := ''g''\<rparr>" "one_world INT_MAP sample_map"]
  by (auto simp: read_outcome_def)

text \<open>
  HSET with a field and a value: on a free name or a map it stores a map that is the old one
  with the field set to the value and everything else kept, or the store refused the write and
  nothing changed; a name of another type is refused and the world is unchanged.
\<close>

lemma hset_query_outcome:
  assumes "rocks_ok R view" "ready q w" "q_hesh q \<noteq> []" "q_value q \<noteq> []"
  shows "\<exists>r. Prepare R (hset_query_Run R) (hset_query q) w = Inr r \<and>
    write_outcome view INT_MAP
      (\<lambda>stored q' w'. \<exists>v. map_text v = (old_map stored)(q_hesh q \<mapsto> q_value q) \<and>
         stored_or_kept view q w INT_MAP v q' w') q w r"
  by (rule hset_outcome [OF assms])

lemma hset_query_witness:
  "\<exists>q' w'. Prepare table_rocks (hset_query_Run table_rocks) (hset_query ((ask ''a'' ''z'')\<lparr>q_hesh := ''g''\<rparr>))
       (one_world INT_MAP sample_map) = Inr (True, q', w') \<and>
     (\<exists>v. map_text v = [''g'' \<mapsto> ''z'', ''f'' \<mapsto> ''x''] \<and>
        stored_or_kept map_of ((ask ''a'' ''z'')\<lparr>q_hesh := ''g''\<rparr>) (one_world INT_MAP sample_map) INT_MAP v q' w')"
proof -
  have "[''g'' \<mapsto> ''y'', ''f'' \<mapsto> ''x'', ''g'' \<mapsto> ''z''] = [''g'' \<mapsto> ''z'', ''f'' \<mapsto> ''x'']"
    by (auto simp: fun_eq_iff)
  then show ?thesis
    using hset_query_outcome [OF table_rocks_ok, of "(ask ''a'' ''z'')\<lparr>q_hesh := ''g''\<rparr>" "one_world INT_MAP sample_map"]
    by (auto simp: write_outcome_def old_map_def)
qed

lemma hset_then_hget:
  assumes "rocks_ok R view" "ready q w" "q_hesh q \<noteq> []" "q_value q \<noteq> []"
    and "Prepare R (hset_query_Run R) (hset_query q) w = Inr (True, q', w')" "q_finished q'"
    and "ready q2 w'" "q_key q2 = q_key q" "q_select_query q2 = q_select_query q" "q_database q2 = q_database q"
    and "q_hesh q2 \<noteq> []"
  shows "\<exists>m q3. map_text m (q_hesh q) = Some (q_value q) \<and>
    view_of view q w' (q_key q) (q_select_query q) = Some (INT_MAP, m) \<and>
    Prepare R (hget_query_Run R) (hget_query q2) w' = Inr (True, q3, w') \<and>
    (case map_text m (q_hesh q2) of
       Some x \<Rightarrow> q_finished q3 \<and> q_response q3 = x | None \<Rightarrow> \<not> q_finished q3)"
proof -
  from hset_outcome [OF assms(1-4)] assms(5) obtain stored v where
    v: "map_text v = (old_map stored)(q_hesh q \<mapsto> q_value q)" "stored_or_kept view q w INT_MAP v q' w'"
    by (auto simp: write_outcome_def refused_def split: option.splits prod.splits if_splits)
  from v(2) assms(6) have held: "view_of view q w' (q_key q) (q_select_query q) = Some (INT_MAP, v)"
    by (simp add: stored_or_kept_def)
  with hget_outcome [OF assms(1,7,11)] assms(8-10) have "\<exists>q3. Prepare R (hget_query_Run R) (hget_query q2) w' = Inr (True, q3, w') \<and>
    (case map_text v (q_hesh q2) of
       Some x \<Rightarrow> q_finished q3 \<and> q_response q3 = x | None \<Rightarrow> \<not> q_finished q3)"
    by (auto simp: read_outcome_def split: option.splits)
  with v(1) held show ?thesis by (metis fun_upd_same)
qed

section \<open>A new field of a free name\<close>

text \<open>
  \<open>HSETNX\<close> runs with the permission to work on a missing key, but the destination is set only
  when the registry finds the key: on a free name the map is stored under the empty text, which no
  lookup reads.
\<close>

lemma raw_key_not_Nil [simp]: "raw_key k s t \<noteq> []" "[] \<noteq> raw_key k s t"
  by (simp_all add: raw_key_def)

lemma view_of_Nil: "key_view (m([] \<mapsto> v)) k s = key_view m k s"
  by (rule key_view_cong) (simp add: raw_key_not_Nil)

lemma Prepare_READ_ALLOW_free:
  assumes "rocks_ok R view" "ready q w" "own_view view q w = None"
  shows "Prepare R run (of_class QUERY_TYPE_READ_ALLOW base q) w =
    run_then False run (of_class QUERY_TYPE_READ_ALLOW base q\<lparr>q_access := DBL_STATUS_OK, q_identified := PROCESS_NULL\<rparr>) w"
proof -
  have q: "ready (of_class QUERY_TYPE_READ_ALLOW base q) w" using assms(2) by simp
  show ?thesis
    using GetRegistry_eq [OF assms(1), of "access_set DBL_STATUS_OK (of_class QUERY_TYPE_READ_ALLOW base q)" True w] assms(3)
    by (simp add: Prepare_def Prepare_ready [OF q] Prepare_read_allow_def key_view_None)
qed

text \<open>
  HSETNX on a free name stores nothing under that name: QUERY_TYPE_READ_ALLOW never computes
  the destination, so the map is written under the empty record name and no name changes, while
  the command may report success.
\<close>

lemma hsetnx_query_free_name:
  assumes "rocks_ok R view" "ready q w" "own_view view q w = None" "q_dest q = []"
    and "holds view (q_database q) w [] = None" "q_hesh q \<noteq> []"
  shows "\<exists>q' w'. Prepare R (hsetnx_query_Run R) (hsetnx_query q) w = Inr (False, q', w') \<and>
    (\<forall>k s. view_of view q w' k s = view_of view q w k s) \<and>
    (if q_finished q' then \<exists>v. holds view (q_database q) w' [] = Some v \<and> map_text v = [q_hesh q \<mapsto> q_value q]
     else holds view (q_database q) w' = holds view (q_database q) w)"
proof -
  let ?q = "of_class QUERY_TYPE_READ_ALLOW INT_MAP q\<lparr>q_access := DBL_STATUS_OK, q_identified := PROCESS_NULL\<rparr>"
  let ?h = "MapHandler_Add (q_hesh q) (q_value q) (MapHandler_Create [])"
  obtain ok w1 where wr: "Write R [] (MapHandler_as_string ?h) ?q w = (ok, w1)" by fastforce
  have "Get R [] ?q w = \<lparr>rd_status = False, rd_value = [], rd_loaded = False\<rparr>"
    using assms(2,5) by (subst Get_view [OF assms(1)]) (auto simp: ready_def)
  then have run: "hsetnx_query_Run R ?q w = Inr (if ok then SetOK ?q else ?q, w1)"
    using assms(4,6) wr by (simp add: hsetnx_query_Run_def GetLast_map_Add split: prod.splits)
  have contents: "map_text (MapHandler_as_string ?h) = [q_hesh q \<mapsto> q_value q]"
    using assms(6) by (subst map_text_as_string)
      (simp_all add: wf_map_Add map_view_Add, simp add: map_view_def MapHandler_Create_def MapHandler_def)
  note W = Write_view(1) [OF assms(1) wr, of "q_database q"]
  have "Prepare R (hsetnx_query_Run R) (hsetnx_query q) w = Inr (False, (if ok then SetOK ?q else ?q), w1)"
    unfolding hsetnx_query_def Prepare_READ_ALLOW_free [OF assms(1-3)] using run by (simp add: run_then_def)
  moreover have "\<not> q_finished q" using assms(2) by (simp add: ready_def)
  ultimately show ?thesis
    using W contents by (cases ok) (auto simp: view_of_Nil)
qed

lemma hsetnx_query_witness:
  "\<exists>q' w'. Prepare table_rocks (hsetnx_query_Run table_rocks) (hsetnx_query ((ask ''b'' ''z'')\<lparr>q_hesh := ''g''\<rparr>))
       (one_world INT_MAP sample_map) = Inr (False, q', w') \<and>
     (\<forall>k s. view_of map_of (ask ''b'' ''z'') w' k s =
        view_of map_of (ask ''b'' ''z'') (one_world INT_MAP sample_map) k s)"
proof -
  have d: "q_dest (ask ''b'' ''z'') = []" by (simp add: ask_def new_query_def)
  have n: "map_of (one_entry INT_MAP sample_map) [] = None"
    by (simp add: one_entry_def raw_key_not_Nil)
  show ?thesis
    using hsetnx_query_free_name [OF table_rocks_ok, of "(ask ''b'' ''z'')\<lparr>q_hesh := ''g''\<rparr>" "one_world INT_MAP sample_map"] d n
    by auto
qed

section \<open>Removing a field\<close>

text \<open>The map that is left; an empty one has its key deleted.\<close>

definition map_left ::
  "('d \<Rightarrow> string \<rightharpoonup> string) \<Rightarrow> query \<Rightarrow> 'd world \<Rightarrow> (string \<rightharpoonup> string) \<Rightarrow> query \<Rightarrow> 'd world \<Rightarrow> bool" where
  "map_left view q w m q' w' \<longleftrightarrow>
     (if m \<noteq> Map.empty then \<exists>v. map_text v = m \<and> stored_or_failed view q w INT_MAP v q' w'
      else q_finished q' \<and> deleted_or_failed view q w w')"

lemma store_map_left:
  assumes "rocks_ok R view" "ready q w" "one_type (holds view (q_database q) w)"
    and "own_view view q w = Some (INT_MAP, v)"
    and "q_dest q1 = raw_key (q_key q) (q_select_query q) INT_MAP" "q_database q1 = q_database q"
    and "q_finished q1 = q_finished q" "wf_map h" "length (mh_mhandler h) < 2 ^ 32"
  shows "\<exists>q' w'. store_map R h q1 w = (q', w') \<and> map_left view q w (map_view h) q' w'"
proof (cases "mh_mhandler h = []")
  case True
  then have "store_map R h q1 w = (SetOK q1, Delete R (q_dest q1) q1 w)"
    by (simp add: store_map_def MapHandler_Count_def)
  moreover have "deleted_or_failed view q w (Delete R (q_dest q1) q1 w)"
    by (rule Delete_deleted [OF assms(1,3,4,6,5)])
  moreover have "map_view h = Map.empty" using True by (simp add: map_view_def)
  ultimately show ?thesis by (simp add: map_left_def)
next
  case False
  then have ne: "map_view h \<noteq> Map.empty" by (cases "mh_mhandler h") (auto simp: map_view_def)
  have "MapHandler_as_string (h\<lparr>mh_LastMsg := x\<rparr>) = MapHandler_as_string h" for x
    by (rule mh.save_cong) simp
  with False have "store_map R h q1 w = write_dest R (MapHandler_as_string h) q1 w"
    using of_nat_pos [OF assms(9)] by (simp add: store_map_def MapHandler_Count_def)
  moreover have "own_view view q w = None \<or> (\<exists>v0. own_view view q w = Some (INT_MAP, v0))"
    using assms(4) by simp
  note write_dest_ex [OF assms(1,2) INT_in_TypeRegs(2) this assms(5,6,7), of "MapHandler_as_string h"]
  ultimately show ?thesis
    using ne map_text_as_string [OF assms(8)] by (auto simp: map_left_def)
qed

lemma MapHandler_Remove_present:
  assumes "key \<noteq> []" "map_view h key \<noteq> None"
  shows "mh_mhandler (MapHandler_Remove key h) = erase_key key (mh_mhandler h)"
proof (cases "length (mh_mhandler h) = 1")
  case True
  then obtain i where "mh_mhandler h = [i]" by (auto simp: length_Suc_conv)
  with assms show ?thesis
    by (auto simp: MapHandler_Remove_def MapHandler_Erase_def map_view_def erase_key_def split: if_splits)
qed (use assms(1) in \<open>simp add: MapHandler_Remove_def\<close>)

text \<open>
  HDEL on a name that holds a map: an absent field is not found and nothing changes; a
  present field is removed, the rest is stored or the name is freed when nothing is left; a field
  whose value is empty is not removed although the command goes on to write.
\<close>

lemma hdel_query_outcome:
  assumes "rocks_ok R view" "ready q w" "one_type (holds view (q_database q) w)"
    and "own_view view q w = Some (INT_MAP, v)" "card (dom (map_text v)) < 2 ^ 32"
  shows "\<exists>q' w'. Prepare R (hdel_query_Run R) (hdel_query q) w = Inr (True, q', w') \<and>
    (case map_text v (q_hesh q) of
       None \<Rightarrow> \<not> q_finished q' \<and> q_access q' = DBL_NOT_FOUND \<and> w' = w
     | Some x \<Rightarrow> map_left view q w (if x = [] then map_text v else (map_text v)(q_hesh q := None)) q' w')"
proof -
  let ?q = "located (access_set DBL_STATUS_OK (of_class QUERY_TYPE_DELETE INT_MAP q)) INT_MAP None"
  let ?h = "MapHandler_Create v"
  have held: "holds view (q_database q) w (raw_key (q_key q) (q_select_query q) INT_MAP) = Some v"
    using key_view_Some [OF assms(4)] by simp
  then have get: "Get R (q_dest ?q) ?q w = \<lparr>rd_status = True, rd_value = v, rd_loaded = False\<rparr>"
    using assms(2) by (subst Get_view [OF assms(1)]) (auto simp: ready_def)
  have P: "Prepare R (hdel_query_Run R) (hdel_query q) w = run_then True (hdel_query_Run R) ?q w"
    using Prepare_DELETE [OF assms(1), of "of_class QUERY_TYPE_DELETE INT_MAP q" w "hdel_query_Run R"] assms(2,4)
    by (simp add: hdel_query_def)
  have nf: "\<not> q_finished q" using assms(2) by (simp add: ready_def)
  have "length (mh_mhandler ?h) = card (dom (map_text v))"
    using distinct_card [OF wf_map_distinct [of ?h]]
    by (simp add: map_text_def map_view_def dom_map_of_conv_image_fst)
  with assms(5) have len: "length (mh_mhandler ?h) < 2 ^ 32" by simp
  have store: "\<exists>q' w'. store_map R h ?q w = (q', w') \<and> map_left view q w (map_view h) q' w'"
    if "wf_map h" "length (mh_mhandler h) \<le> length (mh_mhandler ?h)" for h
    by (rule store_map_left [OF assms(1-4)]) (use that len in \<open>auto simp: located_def\<close>)
  show ?thesis
  proof (cases "map_text v (q_hesh q)")
    case None
    then show ?thesis
      unfolding P run_then_def hdel_query_Run_def get
      using nf by (simp add: map_view_Get map_text_def GetLast_def located_def Let_def)
  next
    case (Some x)
    then have key: "q_hesh q \<noteq> []" "map_view (mh_msg HANDLER_MSG_OK ?h) (q_hesh q) \<noteq> None"
      using wf_map_Create [of v] by (force simp: map_text_def map_view_def wf_map_def dest: map_of_SomeD)+
    show ?thesis
    proof (cases "x = []")
      case True
      have "map_view (mh_msg HANDLER_MSG_OK ?h) = map_text v" by (simp add: map_text_def map_view_def)
      with store [of "mh_msg HANDLER_MSG_OK ?h"] show ?thesis
        unfolding P run_then_def hdel_query_Run_def get
        using Some True wf_map_Create [of v]
        by (auto simp: map_view_Get map_text_def GetLast_def wf_map_def located_def Let_def)
    next
      case False
      let ?r = "MapHandler_Remove (q_hesh q) (mh_msg HANDLER_MSG_OK ?h)"
      have r: "mh_mhandler ?r = erase_key (q_hesh q) (mh_mhandler ?h)"
        using MapHandler_Remove_present [OF key] by simp
      have "wf_map ?r" using wf_map_Create [of v] by (auto simp: wf_map_def r)
      moreover have "map_view ?r = (map_text v)(q_hesh q := None)"
        by (auto simp: fun_eq_iff map_view_def r map_of_erase_key map_text_def)
      moreover have "length (mh_mhandler ?r) \<le> length (mh_mhandler ?h)" by (simp add: r erase_key_def)
      ultimately show ?thesis
        using store [of ?r] Some False unfolding P run_then_def hdel_query_Run_def get
        by (auto simp: map_view_Get map_text_def located_def Let_def)
    qed
  qed
qed

lemma hdel_query_witness:
  "\<exists>q' w'. Prepare table_rocks (hdel_query_Run table_rocks) (hdel_query ((ask ''a'' [])\<lparr>q_hesh := ''f''\<rparr>))
       (one_world INT_MAP sample_map) = Inr (True, q', w') \<and>
     map_left map_of ((ask ''a'' [])\<lparr>q_hesh := ''f''\<rparr>) (one_world INT_MAP sample_map) [''g'' \<mapsto> ''y''] q' w'"
proof -
  have "card (dom (map_text sample_map)) < 2 ^ 32" by simp
  moreover have "[''g'' \<mapsto> ''y'', ''f'' \<mapsto> ''x''](''f'' := None) = [''g'' \<mapsto> ''y'']"
    by (auto simp: fun_eq_iff)
  ultimately show ?thesis
    using hdel_query_outcome [OF table_rocks_ok, of "(ask ''a'' [])\<lparr>q_hesh := ''f''\<rparr>" "one_world INT_MAP sample_map" sample_map]
    by auto
qed

section \<open>Listing a map\<close>

lemma map_fields_sorted:
  "map fst (mh_mhandler (MapHandler_Create v)) = sorted_list_of_set (dom (map_text v))"
proof -
  have "sorted_wrt (<) (map fst (mh_mhandler (MapHandler_Create v)))"
    using wf_map_Create [of v] by (simp add: wf_map_def)
  then have "sorted (map fst (mh_mhandler (MapHandler_Create v)))"
    "distinct (map fst (mh_mhandler (MapHandler_Create v)))"
    by (simp_all add: strict_sorted_iff)
  then have "sorted_list_of_set (set (map fst (mh_mhandler (MapHandler_Create v)))) =
      map fst (mh_mhandler (MapHandler_Create v))"
    by (rule sorted_list_of_set.idem_if_sorted_distinct)
  then show ?thesis by (simp add: map_text_def map_view_def dom_map_of_conv_image_fst)
qed

text \<open>
  C36: HLIST without a limit answers the fields of a map in order when there are fewer than 50;
  with 50 or more it clears the container it iterates over when the first page is full, and the
  behaviour is undefined.
\<close>

lemma hlist_query_pages:
  assumes "rocks_ok R view" "ready q w" "own_view view q w = Some (INT_MAP, v)"
    and "q_flags q = QUERY_FLAGS_NONE" "q_limit q = - 1"
  shows "if card (dom (map_text v)) < 50
    then \<exists>q'. Prepare R (hlist_query_Run fresh R) (hlist_query q) w = Inr (True, q', w) \<and>
      q_finished q' \<and> q_VecData q' = sorted_list_of_set (dom (map_text v))
    else Prepare R (hlist_query_Run fresh R) (hlist_query q) w = Inl Undefined_behaviour"
proof -
  let ?q = "found_as (of_class QUERY_TYPE_READ INT_MAP q) INT_MAP v"
  let ?xs = "sorted_list_of_set (dom (map_text v))"
  have P: "Prepare R (hlist_query_Run fresh R) (hlist_query q) w = run_then True (hlist_query_Run fresh R) ?q w"
    using Prepare_READ [OF assms(1), of "of_class QUERY_TYPE_READ INT_MAP q" w "hlist_query_Run fresh R"] assms(2,3)
    by (simp add: hlist_query_def)
  have items: "hlist_items ?q (map fst (mh_mhandler (MapHandler_Create v))) =
      stale_items push_back (q_offset q) (- 1) ?xs page_start"
    using assms(4,5) by (simp add: hlist_items_def map_fields_sorted)
  have len: "length ?xs = card (dom (map_text v))" by simp
  show ?thesis
  proof (cases "card (dom (map_text v)) < 50")
    case True
    then obtain p where "stale_items push_back (q_offset q) (- 1) ?xs page_start = Inr p"
      "p_sent p = []" "p_result p = ?xs"
      using stale_items_quiet [of ?xs "- 1" "q_offset q"] by (auto simp: page_slice_def)
    with True show ?thesis
      by (simp add: P run_then_def hlist_query_Run_def items stale_vector_def attach_pages_def)
  next
    case False
    then have "stale_items push_back (q_offset q) (- 1) ?xs page_start = Inl Undefined_behaviour"
      by (intro stale_items_long [where m = 0]) (simp_all add: page_start_def)
    with False show ?thesis
      by (simp add: P run_then_def hlist_query_Run_def items stale_vector_def)
  qed
qed

lemma hlist_query_witness:
  "\<exists>q'. Prepare table_rocks (hlist_query_Run new_query table_rocks) (hlist_query ((ask ''a'' [])\<lparr>q_limit := - 1\<rparr>))
       (one_world INT_MAP sample_map) = Inr (True, q', one_world INT_MAP sample_map) \<and>
     q_VecData q' = [''f'', ''g'']"
proof -
  have "sorted_list_of_set {''f'', ''g''} = [''f'', ''g'']" by code_simp
  then show ?thesis
    using hlist_query_pages [OF table_rocks_ok, of "(ask ''a'' [])\<lparr>q_limit := - 1\<rparr>" "one_world INT_MAP sample_map"
        sample_map new_query]
    by (auto simp: insert_commute)
qed

lemma hfind_query_lists:
  assumes "rocks_ok R view" "ready q w" "w_interrupts w = []"
    and "raw_keys_ok (holds view (q_database q) w)" "q_limit q = - 1"
    and "length (riter R (rocks_of (q_database q) w)) < 2 ^ 31"
  shows "\<exists>q' w'. Prepare R (hfind_query_Run fresh R) (hfind_query q) w = Inr (True, q', w') \<and>
    names_listed view INT_MAP q w q' w'"
  unfolding hfind_query_def
  by (rule listing_query_lists [OF assms, where request = "vec_request (hfind_query fresh) (q_user q) (q_key q)"])
    (simp_all add: INT_defs hfind_query_Run_def TypeRegs_def)

end
