(* ===== verification/MultiFacts.thy ===== *)
theory MultiFacts
  imports MultiQueries MapFacts
begin

text \<open>
  What the multimap queries do to the multimap stored under their key: a field keeps its values in
  the order they were set; and the removal that empties a multimap of one entry.
\<close>

section \<open>The stored multimap\<close>

definition multi_text :: "string \<Rightarrow> string \<Rightarrow> string list" where
  "multi_text v = multimap_view (MultiMapHandler_Create v)"

definition old_multi :: "string option \<Rightarrow> string \<Rightarrow> string list" where
  "old_multi stored = (case stored of None \<Rightarrow> (\<lambda>_. []) | Some v \<Rightarrow> multi_text v)"

lemma multi_text_as_string: "wf_multimap h \<Longrightarrow> multi_text (MultiMapHandler_as_string h) = multimap_view h"
  by (simp add: multi_text_def multimap_view_def fun_eq_iff mm.load_save)

lemma GetLast_multi_Add:
  "key \<noteq> [] \<Longrightarrow> GetLast (mm_LastMsg (MultiMapHandler_Add key val h)) = Inr HANDLER_MSG_OK"
  by (simp add: GetLast_def MultiMapHandler_Add_def)

lemma multimap_view_new: "multimap_view MultiMapHandler = (\<lambda>_. [])"
  by (simp add: multimap_view_def MultiMapHandler_def entries_Nil fun_eq_iff)

text \<open>A stored multimap of one field with two values, for the witnesses.\<close>

definition sample_multi :: string where
  "sample_multi = MultiMapHandler_as_string
     (MultiMapHandler_Add ''f'' ''y'' (MultiMapHandler_Add ''f'' ''x'' MultiMapHandler))"

lemma multi_text_sample [simp]: "multi_text sample_multi = (\<lambda>_. [])(''f'' := [''x'', ''y''])"
  unfolding sample_multi_def
  by (subst multi_text_as_string) (simp_all add: wf_multimap_Add multimap_view_Add multimap_view_new)

section \<open>Setting\<close>

lemma multi_added:
  assumes "wf_multimap h" "key \<noteq> []"
  shows "multi_text (MultiMapHandler_as_string (MultiMapHandler_Add key val h)) =
    (multimap_view h)(key := multimap_view h key @ [val])"
  using assms by (simp add: multi_text_as_string wf_multimap_Add multimap_view_Add)

text \<open>
  MSET on a free name or a multimap appends the value to the values of the field and keeps
  every other field, or the store refused the write and nothing changed; a name of another type is
  refused.
\<close>

lemma mset_query_outcome:
  assumes "rocks_ok R view" "ready q w" "q_hesh q \<noteq> []"
  shows "\<exists>r. Prepare R (mset_query_Run R) (mset_query q) w = Inr r \<and>
    write_outcome view INT_MMAP
      (\<lambda>stored q' w'. \<exists>v.
         multi_text v = (old_multi stored)(q_hesh q := old_multi stored (q_hesh q) @ [q_value q]) \<and>
         stored_or_failed view q w INT_MMAP v q' w') q w r"
  unfolding mset_query_def
proof (rule WRITE_outcome [OF assms(1,2)], goal_cases)
  case 1
  let ?h = "MultiMapHandler_Add (q_hesh q) (q_value q) MultiMapHandler"
  let ?q = "created_as (of_class QUERY_TYPE_WRITE INT_MMAP q)"
  from write_dest_ex [OF assms(1,2), of INT_MMAP ?q "MultiMapHandler_as_string ?h"] 1
  obtain q' w' where wd: "write_dest R (MultiMapHandler_as_string ?h) ?q w = (q', w')"
    "stored_or_failed view q w INT_MMAP (MultiMapHandler_as_string ?h) q' w'" by auto
  have "mset_query_Run R ?q w = Inr (q', w')"
    using Get_created_as [OF assms(1), of "of_class QUERY_TYPE_WRITE INT_MMAP q" w] assms 1 wd(1)
    by (simp add: mset_query_Run_def multi_first_def GetLast_multi_Add)
  with wd(2) multi_added [of MultiMapHandler "q_hesh q" "q_value q"] assms(3) show ?case
    by (auto simp: old_multi_def multimap_view_new)
next
  case (2 v)
  let ?h = "MultiMapHandler_Add (q_hesh q) (q_value q) (MultiMapHandler_Create v)"
  let ?q = "found_as (of_class QUERY_TYPE_WRITE INT_MMAP q) INT_MMAP v"
  from write_dest_ex [OF assms(1,2), of INT_MMAP ?q "MultiMapHandler_as_string ?h"] 2
  obtain q' w' where wd: "write_dest R (MultiMapHandler_as_string ?h) ?q w = (q', w')"
    "stored_or_failed view q w INT_MMAP (MultiMapHandler_as_string ?h) q' w'" by auto
  have "mset_query_Run R ?q w = Inr (q', w')"
    using assms(3) wd(1) by (simp add: mset_query_Run_def multi_add_def GetLast_multi_Add)
  with wd(2) multi_added [of "MultiMapHandler_Create v" "q_hesh q" "q_value q"] assms(3) show ?case
    by (auto simp: old_multi_def multi_text_def)
qed

lemma mset_query_witness:
  "\<exists>q' w'. Prepare table_rocks (mset_query_Run table_rocks) (mset_query ((ask ''a'' ''z'')\<lparr>q_hesh := ''f''\<rparr>))
       (one_world INT_MMAP sample_multi) = Inr (True, q', w') \<and>
     (\<exists>v. multi_text v ''f'' = [''x'', ''y'', ''z''] \<and>
        stored_or_failed map_of ((ask ''a'' ''z'')\<lparr>q_hesh := ''f''\<rparr>) (one_world INT_MMAP sample_multi) INT_MMAP v q' w')"
proof -
  let ?P = "\<lambda>q' w' v. multi_text v = (\<lambda>_. [])(''f'' := [''x'', ''y'', ''z'']) \<and>
    stored_or_failed map_of ((ask ''a'' ''z'')\<lparr>q_hesh := ''f''\<rparr>) (one_world INT_MMAP sample_multi) INT_MMAP v q' w'"
  have "\<exists>q' w' v. Prepare table_rocks (mset_query_Run table_rocks) (mset_query ((ask ''a'' ''z'')\<lparr>q_hesh := ''f''\<rparr>))
       (one_world INT_MMAP sample_multi) = Inr (True, q', w') \<and> ?P q' w' v"
    using mset_query_outcome [OF table_rocks_ok, of "(ask ''a'' ''z'')\<lparr>q_hesh := ''f''\<rparr>" "one_world INT_MMAP sample_multi"]
    by (auto simp: write_outcome_def old_multi_def)
  then show ?thesis by (metis fun_upd_same)
qed

section \<open>Removing\<close>

text \<open>
  MDEL on a multimap of one entry deletes the name whatever value it is asked to remove, and
  reports success.
\<close>

lemma mdel_query_last_entry:
  assumes "rocks_ok R view" "ready q w" "one_type (holds view (q_database q) w)"
    and "own_view view q w = Some (INT_MMAP, v)" "mm_mhandler (MultiMapHandler_Create v) = [(f, x)]"
    and "q_value q \<noteq> []"
  shows "\<exists>q' w'. Prepare R (mdel_query_Run R) (mdel_query q) w = Inr (True, q', w') \<and>
    q_finished q' \<and> deleted_or_failed view q w w'"
proof -
  let ?q = "located (access_set DBL_STATUS_OK (of_class QUERY_TYPE_DELETE INT_MMAP q)) INT_MMAP None"
  have held: "holds view (q_database q) w (raw_key (q_key q) (q_select_query q) INT_MMAP) = Some v"
    using key_view_Some [OF assms(4)] by simp
  then have get: "Get R (q_dest ?q) ?q w = \<lparr>rd_status = True, rd_value = v, rd_loaded = False\<rparr>"
    using assms(2) by (subst Get_view [OF assms(1)]) (auto simp: ready_def)
  have P: "Prepare R (mdel_query_Run R) (mdel_query q) w = run_then True (mdel_query_Run R) ?q w"
    using Prepare_DELETE [OF assms(1), of "of_class QUERY_TYPE_DELETE INT_MMAP q" w "mdel_query_Run R"] assms(2,4)
    by (simp add: mdel_query_def)
  have "mm_mhandler (MultiMapHandler_Remove (q_value ?q) (MultiMapHandler_Create v)) = []"
    using assms(5,6) by (simp add: MultiMapHandler_Remove_def MultiMapHandler_Erase_def located_def)
  then have "mdel_query_Run R ?q w = Inr (SetOK ?q, Delete R (q_dest ?q) ?q w)"
    unfolding mdel_query_Run_def get by (simp add: MultiMapHandler_Count_def Let_def)
  moreover have "deleted_or_failed view q w (Delete R (q_dest ?q) ?q w)"
    by (rule Delete_deleted [OF assms(1,3,4)]) auto
  ultimately show ?thesis by (simp add: P run_then_def)
qed

lemma mdel_query_witness:
  "\<exists>q' w'. Prepare table_rocks (mdel_query_Run table_rocks) (mdel_query (ask ''a'' ''other''))
       (one_world INT_MMAP (MultiMapHandler_as_string (MultiMapHandler_Add ''f'' ''x'' MultiMapHandler))) =
         Inr (True, q', w') \<and> q_finished q' \<and>
     deleted_or_failed map_of (ask ''a'' ''other'')
       (one_world INT_MMAP (MultiMapHandler_as_string (MultiMapHandler_Add ''f'' ''x'' MultiMapHandler))) w'"
proof -
  let ?h = "MultiMapHandler_Add ''f'' ''x'' MultiMapHandler"
  have "mm_mhandler (MultiMapHandler_Create (MultiMapHandler_as_string ?h)) = mm_mhandler ?h"
    by (rule mm.load_save) (simp add: wf_multimap_Add)
  then have "mm_mhandler (MultiMapHandler_Create (MultiMapHandler_as_string ?h)) = [(''f'', ''x'')]"
    by (simp add: MultiMapHandler_Add_def MultiMapHandler_def multimap_insert_def)
  then show ?thesis
    using mdel_query_last_entry [OF table_rocks_ok, of "ask ''a'' ''other''"
        "one_world INT_MMAP (MultiMapHandler_as_string ?h)"] by simp
qed

end
