(* ===== verification/KeyQueries.thy ===== *)
theory KeyQueries
  imports QueryOutcomes
begin

text \<open>
  The queries of \<open>src/brldb/keys.cpp\<close> that work on one plain key: the constructor of each class
  (\<open>include/brldb/query.h\<close>), its \<open>Run\<close>, and the reply its \<open>Process\<close> sends.  A plain key is
  stored as the binary text of its value under the type \<open>INT_KEY\<close>.
\<close>

text \<open>\<open>std::string::substr\<close> with \<open>int\<close> arguments, which convert to \<open>size_t\<close>.\<close>

definition std_substr :: "string \<Rightarrow> int \<Rightarrow> int \<Rightarrow> string res" where
  "std_substr s off n =
     (if off < 0 \<or> off > int (length s) then Inl Out_of_range
      else Inr (if n < 0 then drop (nat off) s else take (nat n) (drop (nat off) s)))"

section \<open>Writing a value\<close>

definition set_query :: "query \<Rightarrow> query" where
  "set_query q = of_class QUERY_TYPE_WRITE INT_KEY q"

definition set_query_Run :: "'d rocks \<Rightarrow> 'd run" where
  "set_query_Run R q w = Inr (write_dest R (to_bin (q_value q)) q w)"

definition set_query_Process :: "query \<Rightarrow> string" where
  "set_query_Process q = PROCESS_OK"

definition setex_query :: "query \<Rightarrow> query" where
  "setex_query q = of_class QUERY_TYPE_WRITE INT_KEY q"

definition setex_query_Run :: "'d rocks \<Rightarrow> 'd run" where
  "setex_query_Run R q w =
     Inr (SetOK q, ExpireBatch R (q_dest q) (q_value q) (q_key q) (q_select_query q) (q_id q) q w)"

definition setnx_query :: "query \<Rightarrow> query" where
  "setnx_query q = of_class QUERY_TYPE_WRITE INT_KEY q"

definition setnx_query_Run :: "'d rocks \<Rightarrow> 'd run" where
  "setnx_query_Run R q w =
     (if \<not> rd_status (Get R (q_dest q) q w) then Inr (write_dest R (to_bin (q_value q)) q w)
      else Inr (access_set DBL_ENTRY_EXISTS q, w))"

definition settx_query :: "query \<Rightarrow> query" where
  "settx_query q = of_class QUERY_TYPE_WRITE INT_KEY q"

definition settx_query_Run :: "'d rocks \<Rightarrow> 'd run" where
  "settx_query_Run R q w =
     (if IsExpiring q w < 0
      then Inr (SetOK q, snd (Write R (q_dest q) (to_bin (q_value q)) q w))
      else Inr (access_set DBL_ENTRY_EXPIRES q, w))"

definition getset_query :: "query \<Rightarrow> query" where
  "getset_query q = of_class QUERY_TYPE_READ INT_KEY q"

definition getset_query_Run :: "'d rocks \<Rightarrow> 'd run" where
  "getset_query_Run R q w =
     (let result = Get R (q_dest q) q w
      in Inr (write_dest R (to_bin (q_value q)) (q\<lparr>q_response := to_string (rd_value result)\<rparr>) w))"

definition append_query :: "query \<Rightarrow> query" where
  "append_query q = of_class QUERY_TYPE_WRITE INT_KEY q"

definition append_query_Run :: "'d rocks \<Rightarrow> 'd run" where
  "append_query_Run R q w =
     (let response = to_string (rd_value (Get R (q_dest q) q w)) @ q_value q
      in Inr (write_dest R (to_bin response) (q\<lparr>q_response := response\<rparr>) w))"

definition insert_query :: "query \<Rightarrow> query" where
  "insert_query q = of_class QUERY_TYPE_READ INT_KEY q"

definition insert_query_Run :: "'d rocks \<Rightarrow> 'd run" where
  "insert_query_Run R q w =
     (let as_str = to_string (rd_value (Get R (q_dest q) q w))
      in if length as_str < unat (q_id q) then Inr (access_set DBL_INVALID_RANGE q, w)
         else (let as_str = take (unat (q_id q)) as_str @ q_value q @ drop (unat (q_id q)) as_str
               in Inr (write_dest R (to_bin as_str) (q\<lparr>q_response := as_str\<rparr>) w)))"

definition modify_query :: "query \<Rightarrow> query" where
  "modify_query q = of_class QUERY_TYPE_READ INT_KEY q"

definition modify_query_Run :: "'d rocks \<Rightarrow> 'd run" where
  "modify_query_Run R q w =
     (let response = to_string (rd_value (Get R (q_dest q) q w));
          response = (case q_function q of
                        STR_TO_UPPER \<Rightarrow> to_upper response
                      | STR_TO_LOW \<Rightarrow> to_lower response
                      | STR_TO_CAP \<Rightarrow> (case response of [] \<Rightarrow> [] | c # cs \<Rightarrow> toupper c # cs))
      in Inr (write_dest R (to_bin response) (q\<lparr>q_response := response\<rparr>) w))"

text \<open>\<open>SUBSTR\<close>: the range test is on the 32-bit sum, the cut on the signed arguments.\<close>

definition get_substr_query :: "query \<Rightarrow> query" where
  "get_substr_query q = of_class QUERY_TYPE_WRITE INT_KEY q"

definition get_substr_query_Run :: "'d rocks \<Rightarrow> 'd run" where
  "get_substr_query_Run R q w =
     (let response = to_string (rd_value (Get R (q_dest q) q w));
          sum = q_offset q + q_limit q;
          q1 = q\<lparr>q_response := response\<rparr>
      in if sum < - (2 ^ 31) \<or> sum \<ge> 2 ^ 31 then Inl Undefined_behaviour
         else if unat (of_int sum :: u32) > length response
         then Inr (access_set DBL_INVALID_RANGE q1, w)
         else bind_res (std_substr response (q_offset q) (q_limit q)) (\<lambda>response.
                Inr (write_dest R (to_bin response) (q1\<lparr>q_response := response\<rparr>) w)))"

section \<open>Reading a value\<close>

definition get_query :: "query \<Rightarrow> query" where
  "get_query q = of_class QUERY_TYPE_READ INT_KEY q"

definition get_query_Run :: "'d rocks \<Rightarrow> 'd run" where
  "get_query_Run R q w =
     Inr (SetOK (q\<lparr>q_response := to_string (rd_value (Get R (q_dest q) q w))\<rparr>), w)"

definition get_query_Process :: "query \<Rightarrow> string" where
  "get_query_Process q = Helpers_Format (q_response q)"

definition strlen_query :: "query \<Rightarrow> query" where
  "strlen_query q = of_class QUERY_TYPE_READ INT_KEY q"

definition strlen_query_Run :: "'d rocks \<Rightarrow> 'd run" where
  "strlen_query_Run R q w =
     Inr (SetOK (q\<lparr>q_response := dec_of_nat (length (to_string (rd_value (Get R (q_dest q) q w))))\<rparr>), w)"

definition get_occurs_query :: "query \<Rightarrow> query" where
  "get_occurs_query q = of_class QUERY_TYPE_READ INT_KEY q"

text \<open>\<open>None\<close>: the counting loop does not end and neither does \<open>Run\<close>.\<close>

definition get_occurs_query_Run ::
  "'d rocks \<Rightarrow> query \<Rightarrow> 'd world \<Rightarrow> (query \<times> 'd world) option" where
  "get_occurs_query_Run R q w =
     map_option (\<lambda>n. (SetOK (q\<lparr>q_response := conv_numeric n\<rparr>), w))
       (count_occur (to_string (rd_value (Get R (q_dest q) q w))) (q_value q) 0 MAX_32BIT_INT)"

definition truth :: "bool \<Rightarrow> string" where
  "truth b = (if b then ''1'' else ''0'')"

definition alpha_query :: "query \<Rightarrow> query" where
  "alpha_query q = of_class QUERY_TYPE_READ INT_KEY q"

definition alpha_query_Run :: "'d rocks \<Rightarrow> 'd run" where
  "alpha_query_Run R q w =
     Inr (SetOK (q\<lparr>q_response := truth (isalpha (to_string (rd_value (Get R (q_dest q) q w))))\<rparr>), w)"

definition char_query :: "query \<Rightarrow> query" where
  "char_query q = of_class QUERY_TYPE_READ INT_KEY q"

definition char_query_Run :: "'d rocks \<Rightarrow> 'd run" where
  "char_query_Run R q w =
     (let found = to_string (rd_value (Get R (q_dest q) q w));
          flength = unat (convto_num_uint (q_value q))
      in if flength \<ge> length found then Inr (access_set DBL_INVALID_RANGE q, w)
         else Inr (SetOK (q\<lparr>q_response := [found ! flength]\<rparr>), w))"

definition isnum_query :: "query \<Rightarrow> query" where
  "isnum_query q = of_class QUERY_TYPE_READ INT_KEY q"

definition isnum_query_Run :: "'d rocks \<Rightarrow> 'd run" where
  "isnum_query_Run R q w =
     Inr (SetOK (q\<lparr>q_response := truth (is_number (to_string (rd_value (Get R (q_dest q) q w))) True)\<rparr>), w)"

definition isbool_query :: "query \<Rightarrow> query" where
  "isbool_query q = of_class QUERY_TYPE_READ INT_KEY q"

definition isbool_query_Run :: "'d rocks \<Rightarrow> 'd run" where
  "isbool_query_Run R q w =
     (let as_str = to_string (rd_value (Get R (q_dest q) q w))
      in Inr (SetOK (q\<lparr>q_response :=
           truth (as_str \<in> set [''0'', ''1'', ''true'', ''false'', ''on'', ''off''])\<rparr>), w))"

definition asbool_query :: "query \<Rightarrow> query" where
  "asbool_query q = of_class QUERY_TYPE_READ INT_KEY q"

definition asbool_query_Run :: "'d rocks \<Rightarrow> 'd run" where
  "asbool_query_Run R q w =
     (let as_str = to_string (rd_value (Get R (q_dest q) q w))
      in Inr (SetOK (q\<lparr>q_response :=
           (if as_str \<in> set [''1'', ''true'', ''on''] then ''true'' else ''false'')\<rparr>), w))"

definition ismatch_query :: "query \<Rightarrow> query" where
  "ismatch_query q = of_class QUERY_TYPE_READ INT_KEY q"

definition ismatch_query_Run :: "'d rocks \<Rightarrow> 'd run" where
  "ismatch_query_Run R q w =
     Inr (SetOK (q\<lparr>q_response :=
       truth (Match (to_string (rd_value (Get R (q_dest q) q w))) (q_value q))\<rparr>), w)"

section \<open>Removing a key, expiring a key\<close>

definition getdel_query :: "query \<Rightarrow> query" where
  "getdel_query q = of_class QUERY_TYPE_READ INT_KEY q"

definition getdel_query_Run :: "'d rocks \<Rightarrow> 'd run" where
  "getdel_query_Run R q w =
     (let q1 = q\<lparr>q_response := to_string (rd_value (Get R (q_dest q) q w))\<rparr>
      in Inr (SetOK q1, Delete R (q_dest q) q w))"

definition getpersist_query :: "query \<Rightarrow> query" where
  "getpersist_query q = of_class QUERY_TYPE_READ INT_KEY q"

definition getpersist_query_Run :: "'d rocks \<Rightarrow> 'd run" where
  "getpersist_query_Run R q w =
     (let q1 = q\<lparr>q_response := to_string (rd_value (Get R (q_dest q) q w))\<rparr>
      in Inr (SetOK q1, DelExpire R q w))"

definition getexp_query :: "query \<Rightarrow> query" where
  "getexp_query q = of_class QUERY_TYPE_READ INT_KEY q"

definition getexp_query_Run :: "'d rocks \<Rightarrow> 'd run" where
  "getexp_query_Run R q w =
     (let q1 = q\<lparr>q_response := to_string (rd_value (Get R (q_dest q) q w))\<rparr>
      in Inr (SetOK q1, WriteExpire R (q_key q) (q_select_query q) (q_id q) None q w))"

definition expireat_query :: "query \<Rightarrow> query" where
  "expireat_query q = of_class QUERY_TYPE_READ INT_KEY q"

definition expireat_query_Run :: "'d rocks \<Rightarrow> 'd run" where
  "expireat_query_Run R q w =
     Inr (SetOK q, WriteExpire R (q_key q) (q_select_query q) (q_id q) None q w)"

definition expire_del_query :: "query \<Rightarrow> query" where
  "expire_del_query q = of_class QUERY_TYPE_READ INT_KEY q"

definition expire_del_query_Run :: "'d rocks \<Rightarrow> 'd run" where
  "expire_del_query_Run R q w = Inr (SetOK q, DelExpire R q w)"

definition expire_del_query_Process :: "query \<Rightarrow> string option" where
  "expire_del_query_Process q = (if q_flags q \<noteq> QUERY_FLAGS_QUIET then Some PROCESS_OK else None)"

section \<open>Writes stay under the own name\<close>

lemma own_dest_set: "rocks_ok R view \<Longrightarrow> own_dest view (set_query_Run R)"
  by (auto simp: own_dest_def set_query_Run_def intro: own_dest_write_dest)

lemma own_dest_setnx: "rocks_ok R view \<Longrightarrow> own_dest view (setnx_query_Run R)"
  by (auto simp: own_dest_def setnx_query_Run_def intro: own_dest_write_dest split: if_splits)

lemma own_dest_append: "rocks_ok R view \<Longrightarrow> own_dest view (append_query_Run R)"
  by (auto simp: own_dest_def append_query_Run_def Let_def intro: own_dest_write_dest)

lemma own_dest_substr: "rocks_ok R view \<Longrightarrow> own_dest view (get_substr_query_Run R)"
  by (auto simp: own_dest_def get_substr_query_Run_def Let_def bind_res_Inr_iff
      intro: own_dest_write_dest split: if_splits)

lemma own_dest_settx: "rocks_ok R view \<Longrightarrow> own_dest view (settx_query_Run R)"
  unfolding own_dest_def settx_query_Run_def
  by (auto split: if_splits intro: touches_only_Write prod.collapse [symmetric])

lemma touches_only_ExpireBatch:
  assumes "rocks_ok R view"
  shows "touches_only view (q_database q) (q_dest q) w (ExpireBatch R (q_dest q) v k s ttl q w)"
proof -
  let ?b = "[WPut (expire_record k s (d_name (w_dbs w (q_database q)))) (convto_string ttl),
    WPut (q_dest q) (to_bin v)]"
  obtain ok w1 where b: "batch_on R (q_database q) ?b w = (ok, w1)" by fastforce
  have "touches_only view (q_database q) (q_dest q) w w1"
    using batch_on_view(1) [OF assms b] by (auto simp: touches_only_def apply_wop_def)
  then show ?thesis
    using b by (auto simp: ExpireBatch_def Let_def intro: touches_only_frame)
qed

lemma own_dest_setex: "rocks_ok R view \<Longrightarrow> own_dest view (setex_query_Run R)"
  by (auto simp: own_dest_def setex_query_Run_def intro: touches_only_ExpireBatch)

end
