(* ===== verification/KeyFacts.thy ===== *)
theory KeyFacts
  imports KeyQueries Sample_Store
begin

text \<open>
  What the queries on a plain key do to the database a client sees, for every branch of
  \<open>Prepare\<close> and \<open>Run\<close>, and each theorem at a small database.
\<close>

section \<open>The commands on the abstract database\<close>

text \<open>The value a plain key holds.\<close>

definition old_value :: "string option \<Rightarrow> string" where
  "old_value stored = (case stored of None \<Rightarrow> [] | Some v \<Rightarrow> to_string v)"

lemma set_outcome:
  assumes "rocks_ok R view" "ready q w"
  shows "\<exists>r. Prepare R (set_query_Run R) (set_query q) w = Inr r \<and>
    write_outcome view INT_KEY
      (\<lambda>_ q' w'. stored_or_failed view q w INT_KEY (to_bin (q_value q)) q' w' \<and>
         wrote R view q w INT_KEY (to_bin (q_value q)) q' w') q w r"
proof -
  have run: "\<exists>q' w'. write_dest R (to_bin (q_value q)) q1 w = (q', w') \<and>
      stored_or_failed view q w INT_KEY (to_bin (q_value q)) q' w' \<and> wrote R view q w INT_KEY (to_bin (q_value q)) q' w'"
    if "own_view view q w = None \<or> (\<exists>v0. own_view view q w = Some (INT_KEY, v0))"
      "q_dest q1 = raw_key (q_key q) (q_select_query q) INT_KEY" "q_database q1 = q_database q"
      "q_finished q1 = q_finished q" for q1
    using write_dest_ex [OF assms INT_in_TypeRegs(1) that, of "to_bin (q_value q)"]
      write_dest_wrote [OF assms(1) _ that(2,3)] that(4) assms(2) by (metis ready_def)
  show ?thesis
    unfolding set_query_def
  proof (rule WRITE_outcome [OF assms], goal_cases)
    case 1
    with run [of "created_as (of_class QUERY_TYPE_WRITE INT_KEY q)"] show ?case
      by (auto simp: set_query_Run_def)
  next
    case (2 v)
    with run [of "found_as (of_class QUERY_TYPE_WRITE INT_KEY q) INT_KEY v"] show ?case
      by (auto simp: set_query_Run_def)
  qed
qed

text \<open>
  C13: SET, from Prepare to the end of Run, always comes back. On a free name or a plain key it
  submits exactly one batch, the record of the value, and changes nothing else of the world,
  neither another record or database nor a registry: when the store takes it the query is
  finished, and when it does not the store is as it was, the query is not finished and its status
  is UNABLE_WRITE. On a name that holds another type it is refused: the status is INVALID_TYPE,
  the response is the type that is there, and the world is unchanged.
\<close>

lemma set_query_outcome:
  assumes "rocks_ok R view" "ready q w"
  shows "\<exists>r. Prepare R (set_query_Run R) (set_query q) w = Inr r \<and>
    write_outcome view INT_KEY
      (\<lambda>_ q' w'. stored_or_failed view q w INT_KEY (to_bin (q_value q)) q' w' \<and>
         wrote R view q w INT_KEY (to_bin (q_value q)) q' w') q w r"
  by (rule set_outcome [OF assms])

lemma set_query_witness:
  "\<exists>q' w'. Prepare table_rocks (set_query_Run table_rocks) (set_query (ask ''a'' ''z'')) (one_world INT_KEY (to_bin ''xy'')) = Inr (True, q', w') \<and>
     wrote table_rocks map_of (ask ''a'' ''z'') (one_world INT_KEY (to_bin ''xy'')) INT_KEY (to_bin ''z'') q' w' \<and>
     stored_or_failed map_of (ask ''a'' ''z'') (one_world INT_KEY (to_bin ''xy'')) INT_KEY (to_bin ''z'') q' w'"
  using set_query_outcome [OF table_rocks_ok, of "ask ''a'' ''z''" "one_world INT_KEY (to_bin ''xy'')"] by (auto simp: write_outcome_def old_value_def Let_def simp del: to_bin.simps)

text \<open>
  APPEND stores and answers the old value followed by the new text, taking the old value of a
  free name as empty.
\<close>

lemma append_query_outcome:
  assumes "rocks_ok R view" "ready q w"
  shows "\<exists>r. Prepare R (append_query_Run R) (append_query q) w = Inr r \<and>
    write_outcome view INT_KEY
      (\<lambda>stored q' w'. stored_or_failed view q w INT_KEY (to_bin (old_value stored @ q_value q)) q' w' \<and>
         q_response q' = old_value stored @ q_value q) q w r"
  unfolding append_query_def
proof (rule WRITE_outcome [OF assms], goal_cases)
  case 1
  then show ?case
    using Get_created_as [OF assms(1), of "of_class QUERY_TYPE_WRITE INT_KEY q" w] assms(2)
      write_dest_ex [OF assms INT_in_TypeRegs(1), of "(created_as (of_class QUERY_TYPE_WRITE INT_KEY q))
        \<lparr>q_response := q_value q\<rparr>" "to_bin (q_value q)"]
    by (auto simp: append_query_Run_def old_value_def)
next
  case (2 v)
  then show ?case
    using write_dest_ex [OF assms INT_in_TypeRegs(1), of "(found_as (of_class QUERY_TYPE_WRITE INT_KEY q)
        INT_KEY v)\<lparr>q_response := to_string v @ q_value q\<rparr>" "to_bin (to_string v @ q_value q)"]
    by (auto simp: append_query_Run_def old_value_def)
qed

lemma append_query_witness:
  "\<exists>q' w'. Prepare table_rocks (append_query_Run table_rocks) (append_query (ask ''a'' ''z'')) (one_world INT_KEY (to_bin ''xy'')) = Inr (True, q', w') \<and>
     stored_or_failed map_of (ask ''a'' ''z'') (one_world INT_KEY (to_bin ''xy'')) INT_KEY (to_bin ''xyz'') q' w' \<and> q_response q' = ''xyz''"
  using append_query_outcome [OF table_rocks_ok, of "ask ''a'' ''z''" "one_world INT_KEY (to_bin ''xy'')"] by (auto simp: write_outcome_def old_value_def Let_def simp del: to_bin.simps)

text \<open>
  SETNX stores the value only on a free name; on an existing plain key it reports that the
  entry exists and the world is unchanged.
\<close>

lemma setnx_query_outcome:
  assumes "rocks_ok R view" "ready q w"
  shows "\<exists>r. Prepare R (setnx_query_Run R) (setnx_query q) w = Inr r \<and>
    write_outcome view INT_KEY
      (\<lambda>stored q' w'.
         if stored = None then stored_or_failed view q w INT_KEY (to_bin (q_value q)) q' w'
         else \<not> q_finished q' \<and> q_access q' = DBL_ENTRY_EXISTS \<and> w' = w) q w r"
  unfolding setnx_query_def
proof (rule WRITE_outcome [OF assms], goal_cases)
  case 1
  then show ?case
    using Get_created_as [OF assms(1), of "of_class QUERY_TYPE_WRITE INT_KEY q" w] assms(2)
      write_dest_ex [OF assms INT_in_TypeRegs(1),
        of "created_as (of_class QUERY_TYPE_WRITE INT_KEY q)" "to_bin (q_value q)"]
    by (auto simp: setnx_query_Run_def)
next
  case (2 v)
  with assms(2) show ?case
    by (auto simp: setnx_query_Run_def ready_def)
qed

lemma setnx_query_witness:
  "\<exists>q' w'. Prepare table_rocks (setnx_query_Run table_rocks) (setnx_query (ask ''a'' ''z'')) (one_world INT_KEY (to_bin ''xy'')) = Inr (True, q', w') \<and>
     \<not> q_finished q' \<and> q_access q' = DBL_ENTRY_EXISTS \<and> w' = one_world INT_KEY (to_bin ''xy'')"
  using setnx_query_outcome [OF table_rocks_ok, of "ask ''a'' ''z''" "one_world INT_KEY (to_bin ''xy'')"] by (auto simp: write_outcome_def old_value_def Let_def simp del: to_bin.simps)

lemma get_outcome:
  assumes "rocks_ok R view" "ready q w"
  shows "\<exists>r. Prepare R (get_query_Run R) (get_query q) w = Inr r \<and>
    read_outcome view INT_KEY DBL_NOT_FOUND
      (\<lambda>v q' w'. q_finished q' \<and> q_response q' = to_string v \<and> w' = w) q w r"
  unfolding get_query_def
  by (rule READ_outcome [OF assms]) (auto simp: get_query_Run_def)

text \<open>
  C14: GET always comes back: it answers the stored value of a plain key and finishes, answers not
  found on a free name, is refused on a name of another type, and never changes the world.
\<close>

lemma get_query_outcome:
  assumes "rocks_ok R view" "ready q w"
  shows "\<exists>r. Prepare R (get_query_Run R) (get_query q) w = Inr r \<and>
    read_outcome view INT_KEY DBL_NOT_FOUND
      (\<lambda>v q' w'. q_finished q' \<and> q_response q' = to_string v \<and> w' = w) q w r"
  by (rule get_outcome [OF assms])

lemma get_query_witness:
  "\<exists>q' w'. Prepare table_rocks (get_query_Run table_rocks) (get_query (ask ''a'' ''z'')) (one_world INT_KEY (to_bin ''xy'')) = Inr (True, q', w') \<and>
     q_finished q' \<and> q_response q' = ''xy'' \<and> w' = one_world INT_KEY (to_bin ''xy'')"
  using get_query_outcome [OF table_rocks_ok, of "ask ''a'' ''z''" "one_world INT_KEY (to_bin ''xy'')"] by (auto simp: read_outcome_def old_value_def Let_def simp del: to_bin.simps)

text \<open>
  GETSET answers the old value of an existing key and stores the new one in its place; it is
  not found on a free name.
\<close>

lemma getset_query_outcome:
  assumes "rocks_ok R view" "ready q w"
  shows "\<exists>r. Prepare R (getset_query_Run R) (getset_query q) w = Inr r \<and>
    read_outcome view INT_KEY DBL_NOT_FOUND
      (\<lambda>v q' w'. stored_or_failed view q w INT_KEY (to_bin (q_value q)) q' w' \<and>
         q_response q' = to_string v) q w r"
  unfolding getset_query_def
proof (rule READ_outcome [OF assms], goal_cases)
  case (1 v)
  then show ?case
    using write_dest_ex [OF assms INT_in_TypeRegs(1), of "(found_as (of_class QUERY_TYPE_READ INT_KEY q)
        INT_KEY v)\<lparr>q_response := to_string v\<rparr>" "to_bin (q_value q)"]
    by (auto simp: getset_query_Run_def)
qed

lemma getset_query_witness:
  "\<exists>q' w'. Prepare table_rocks (getset_query_Run table_rocks) (getset_query (ask ''a'' ''z'')) (one_world INT_KEY (to_bin ''xy'')) = Inr (True, q', w') \<and>
     stored_or_failed map_of (ask ''a'' ''z'') (one_world INT_KEY (to_bin ''xy'')) INT_KEY (to_bin ''z'') q' w' \<and> q_response q' = ''xy''"
  using getset_query_outcome [OF table_rocks_ok, of "ask ''a'' ''z''" "one_world INT_KEY (to_bin ''xy'')"] by (auto simp: read_outcome_def old_value_def Let_def simp del: to_bin.simps)

text \<open>
  INSERT stores and answers the old value with the text spliced in at the given position, the
  end included; a position beyond the value is an invalid range and changes nothing.
\<close>

lemma insert_query_outcome:
  assumes "rocks_ok R view" "ready q w"
  shows "\<exists>r. Prepare R (insert_query_Run R) (insert_query q) w = Inr r \<and>
    read_outcome view INT_KEY DBL_NOT_FOUND
      (\<lambda>v q' w'.
         if unat (q_id q) \<le> length (to_string v)
         then (let new = take (unat (q_id q)) (to_string v) @ q_value q @ drop (unat (q_id q)) (to_string v)
               in stored_or_failed view q w INT_KEY (to_bin new) q' w' \<and> q_response q' = new)
         else \<not> q_finished q' \<and> q_access q' = DBL_INVALID_RANGE \<and> w' = w) q w r"
  unfolding insert_query_def
proof (rule READ_outcome [OF assms], goal_cases)
  case (1 v)
  let ?new = "take (unat (q_id q)) (to_string v) @ q_value q @ drop (unat (q_id q)) (to_string v)"
  from 1 show ?case
    using write_dest_ex [OF assms INT_in_TypeRegs(1), of "(found_as (of_class QUERY_TYPE_READ INT_KEY q)
        INT_KEY v)\<lparr>q_response := ?new\<rparr>" "to_bin ?new"] assms(2)
    by (auto simp: insert_query_Run_def ready_def Let_def)
qed

lemma insert_query_witness:
  "\<exists>q' w'. Prepare table_rocks (insert_query_Run table_rocks) (insert_query ((ask ''a'' ''z'')\<lparr>q_id := 1\<rparr>)) (one_world INT_KEY (to_bin ''xy'')) = Inr (True, q', w') \<and>
     stored_or_failed map_of ((ask ''a'' ''z'')\<lparr>q_id := 1\<rparr>) (one_world INT_KEY (to_bin ''xy'')) INT_KEY (to_bin ''xzy'') q' w' \<and> q_response q' = ''xzy''"
  using insert_query_outcome [OF table_rocks_ok, of "(ask ''a'' ''z'')\<lparr>q_id := 1\<rparr>" "one_world INT_KEY (to_bin ''xy'')"] by (auto simp: read_outcome_def old_value_def Let_def simp del: to_bin.simps)

text \<open>
  GETDEL answers the value and frees the name, every other name untouched, or the store
  refused; in both cases the expire registry keeps its entry.
\<close>

lemma getdel_query_outcome:
  assumes "rocks_ok R view" "ready q w" "\<forall>d. one_type (holds view d w)"
  shows "\<exists>r. Prepare R (getdel_query_Run R) (getdel_query q) w = Inr r \<and>
    read_outcome view INT_KEY DBL_NOT_FOUND
      (\<lambda>v q' w'. q_finished q' \<and> q_response q' = to_string v \<and> w_expires w' = w_expires w \<and>
         ((\<forall>k s. view_of view q w' k s =
             (if k = q_key q \<and> s = q_select_query q then None else view_of view q w k s)) \<or>
          (\<forall>k s. view_of view q w' k s = view_of view q w k s))) q w r"
  unfolding getdel_query_def
proof (rule READ_outcome [OF assms(1,2)], goal_cases)
  case (1 v)
  note del = key_view_delete [OF assms(3) [rule_format] 1]
  show ?case
    using del
    by (rule_tac Delete_view [OF assms(1), of "raw_key (q_key q) (q_select_query q) INT_KEY"
          "found_as (of_class QUERY_TYPE_READ INT_KEY q) INT_KEY v" w])
      (auto simp: getdel_query_Run_def)
qed

lemma getdel_query_witness:
  "\<exists>q' w'. Prepare table_rocks (getdel_query_Run table_rocks) (getdel_query (ask ''a'' ''z'')) (one_world INT_KEY (to_bin ''xy'')) = Inr (True, q', w') \<and>
     q_finished q' \<and> q_response q' = ''xy''"
  using getdel_query_outcome [OF table_rocks_ok, of "ask ''a'' ''z''" "one_world INT_KEY (to_bin ''xy'')"] by (auto simp: read_outcome_def old_value_def Let_def simp del: to_bin.simps)

text \<open>
  SUBSTR tests only the sum of offset and limit: whenever that sum is inside the value and
  the offset is negative, the command ends in std::out_of_range.
\<close>

lemma get_substr_query_throws:
  assumes "rocks_ok R view" "ready q w" "own_view view q w = Some (INT_KEY, v)"
    and "q_offset q < 0" "0 \<le> q_offset q + q_limit q"
    and "q_offset q + q_limit q \<le> int (length (to_string v))" "q_offset q + q_limit q < 2 ^ 31"
  shows "Prepare R (get_substr_query_Run R) (get_substr_query q) w = Inl Out_of_range"
proof -
  let ?q = "found_as (of_class QUERY_TYPE_WRITE INT_KEY q) INT_KEY v"
  have small: "unat (word_of_int x :: u32) = nat x" if "0 \<le> x" "x < 2 ^ 31" for x
    using that by (simp add: uint_word_of_int flip: nat_uint_eq)
  have le: "unat (of_int (q_offset q + q_limit q) :: u32) \<le> length (to_string v)"
    using assms(5,6) by (subst small [OF assms(5,7)]) simp
  have "std_substr (to_string v) (q_offset q) (q_limit q) = Inl Out_of_range"
    using assms(4) by (simp add: std_substr_def)
  with le assms(5,7) have "get_substr_query_Run R ?q w = Inl Out_of_range"
    by (simp only: get_substr_query_Run_def Let_def Get_found_as found_as_fields) simp
  with assms(3) show ?thesis
    using Prepare_WRITE [OF assms(1), of "of_class QUERY_TYPE_WRITE INT_KEY q" w
      "get_substr_query_Run R"] assms(2)
    by (simp add: get_substr_query_def run_then_def)
qed

lemma get_substr_query_throws_witness:
  "Prepare table_rocks (get_substr_query_Run table_rocks) (get_substr_query ((ask ''a'' ''z'')\<lparr>q_offset := - 1, q_limit := 2\<rparr>)) (one_world INT_KEY (to_bin ''xy''))
     = Inl Out_of_range"
  by (rule get_substr_query_throws [OF table_rocks_ok, where v = "to_bin ''xy''"]) (simp_all del: to_bin.simps)

text \<open>
  C34: OCCURS returns exactly when the pattern is not empty, and then answers the number of non-
  overlapping occurrences of the pattern in the value; on an empty pattern its loop never ends.
\<close>

lemma get_occurs_query_Run_value:
  assumes "length (to_string (rd_value (Get R (q_dest q) q w))) < 2 ^ 31"
  shows "get_occurs_query_Run R q w =
    (if q_value q = [] then None
     else Some (SetOK (q\<lparr>q_response :=
       conv_numeric (int (occurrences (q_value q) (to_string (rd_value (Get R (q_dest q) q w)))))\<rparr>), w))"
proof (cases "q_value q = []")
  case True
  have "count_occur_loop s [] MAX_32BIT_INT 0 0 = None" if "length s < 2 ^ 31" for s
    using count_occur_loop_Nil [of s "[]" MAX_32BIT_INT 0 0] that
    by (cases "count_occur_loop s [] MAX_32BIT_INT 0 0") (auto simp: MAX_32BIT_INT_def)
  with assms True show ?thesis
    by (simp add: get_occurs_query_Run_def count_occur_def)
next
  case False
  with assms show ?thesis
    using count_occur_loop_eq [of "q_value q" 0 "to_string (rd_value (Get R (q_dest q) q w))" MAX_32BIT_INT 0]
    by (simp add: get_occurs_query_Run_def count_occur_def MAX_32BIT_INT_def)
qed

lemma get_occurs_query_witness:
  "map_option (q_response \<circ> fst) (get_occurs_query_Run table_rocks
     (found_as (get_occurs_query (ask ''a'' ''aba'')) INT_KEY (to_bin ''ababab'')) (one_world INT_KEY (to_bin ''ababab'')))
     = Some ''1''"
proof -
  let ?q = "found_as (get_occurs_query (ask ''a'' ''aba'')) INT_KEY (to_bin ''ababab'')"
    and ?w = "one_world INT_KEY (to_bin ''ababab'')"
  have "conv_numeric (int (occurrences ''aba'' ''ababab'')) = ''1''" by code_simp
  with get_occurs_query_Run_value [of table_rocks ?q ?w] show ?thesis
    by (simp add: get_occurs_query_def del: to_bin.simps)
qed

section \<open>A value that expires\<close>

text \<open>
  \<open>SETEX\<close>: the value, the expire record and the timer go in together, or nothing changes; the
  reply is the same.  A time past the 31 bits of the registry is recorded without a timer.
\<close>

definition setex_done ::
  "('d \<Rightarrow> string \<rightharpoonup> string) \<Rightarrow> query \<Rightarrow> 'd world \<Rightarrow> 'd world \<Rightarrow> bool" where
  "setex_done view q w w' \<longleftrightarrow>
     (\<forall>k s. view_of view q w' k s =
        (if k = q_key q \<and> s = q_select_query q then Some (INT_KEY, to_bin (q_value q)) else view_of view q w k s)) \<and>
     holds view (q_database q) w'
       (expire_record (q_key q) (q_select_query q) (d_name (w_dbs w (q_database q)))) =
         Some (convto_string (q_id q)) \<and>
     expire_time (w_expires w') =
       (if 0 < sint (q_id q)
        then (expire_time (w_expires w))((q_key q, q_select_query q, q_database q) := sint (q_id q))
        else expire_time (w_expires w))"

lemma expire_time_Add:
  assumes "expires_ok m" "(n :: u32) \<noteq> 0"
  shows "expire_time (snd (ExpireManager_Add now d (sint n) k s True m)) =
    (if 0 < sint n then (expire_time m)((k, s, d) := sint n) else expire_time m)"
proof (cases "0 < sint n")
  case True
  moreover have "sint n < 2 ^ 31" using sint_lt [of n] by simp
  ultimately show ?thesis
    using expires.deadline(2) [OF assms(1), of "sint n" now "(k, s, d)"] by (simp add: expire_add_def)
next
  case False
  moreover have "sint n \<noteq> 0" using assms(2) signed_word_eqI [of n 0] by auto
  ultimately have "sint n < 0" by simp
  then show ?thesis by (simp add: ExpireManager_Add_def)
qed

text \<open>
  C19: SETEX with a deadline (the absolute time the query carries, not 0), on a free name or a
  plain key, submits exactly one batch, the expire record with the deadline and the record of the
  value. When the store takes it, the name holds the value, its expire record the deadline, and
  the registry the same deadline for that key when it is positive as a signed 32-bit number (one
  of 2^31 or more is recorded and registered nowhere), no other name or timer changing; when it
  does not, no name and no timer changed. The query is finished in either case: a failed batch is
  answered OK. Names of another type are refused with that type, the world unchanged.
\<close>

lemma setex_query_outcome:
  assumes "rocks_ok R view" "ready q w" "expires_ok (w_expires w)" "q_id q \<noteq> 0"
  shows "\<exists>r. Prepare R (setex_query_Run R) (setex_query q) w = Inr r \<and>
    write_outcome view INT_KEY
      (\<lambda>_ q' w'. q_finished q' \<and>
         (\<exists>ok. submitted_timed R view (q_database q)
              [WPut (expire_record (q_key q) (q_select_query q) (d_name (w_dbs w (q_database q))))
                 (convto_string (q_id q)),
               WPut (raw_key (q_key q) (q_select_query q) INT_KEY) (to_bin (q_value q))] w ok w' \<and>
            (if ok then setex_done view q w w'
             else (\<forall>k s. view_of view q w' k s = view_of view q w k s) \<and> w_expires w' = w_expires w))) q w r"
proof -
  let ?rec = "expire_record (q_key q) (q_select_query q) (d_name (w_dbs w (q_database q)))"
  let ?dest = "raw_key (q_key q) (q_select_query q) INT_KEY"
  obtain ok w1 where b: "batch_on R (q_database q) [WPut ?rec (convto_string (q_id q)),
      WPut ?dest (to_bin (q_value q))] w = (ok, w1)" by fastforce
  note V = batch_on_view [OF assms(1) b]
  define w2 where "w2 = (if ok then w1\<lparr>w_expires := snd (ExpireManager_Add (w_now w1) (q_database q)
      (sint (q_id q)) (q_key q) (q_select_query q) True (w_expires w1))\<rparr> else w1)"
  have run: "setex_query_Run R q1 w = Inr (SetOK q1, w2)"
    if "q_dest q1 = ?dest" "q_database q1 = q_database q" "q_key q1 = q_key q"
      "q_select_query q1 = q_select_query q" "q_value q1 = q_value q" "q_id q1 = q_id q" for q1
    using that b by (simp add: setex_query_Run_def ExpireBatch_def w2_def)
  have batch: "submitted_timed R view (q_database q) [WPut ?rec (convto_string (q_id q)),
      WPut ?dest (to_bin (q_value q))] w ok w2"
    unfolding submitted_timed_def w2_def using batch_submitted [OF assms(1) b] by blast
  have out: "if ok then setex_done view q w w2
      else (\<forall>k s. view_of view q w2 k s = view_of view q w k s) \<and> w_expires w2 = w_expires w"
    if own: "own_view view q w = None \<or> (\<exists>v0. own_view view q w = Some (INT_KEY, v0))"
  proof (cases ok)
    case True
    let ?m = "holds view (q_database q) w"
    have key: "key_view (?m(?rec \<mapsto> x)) k s = key_view ?m k s" for k s x by simp
    have "holds view (q_database q) w2 = ?m(?rec \<mapsto> convto_string (q_id q), ?dest \<mapsto> to_bin (q_value q))"
      using True V(1) by (simp add: w2_def apply_wop_def)
    moreover have "w_expires w2 = snd (ExpireManager_Add (w_now w1) (q_database q)
        (sint (q_id q)) (q_key q) (q_select_query q) True (w_expires w))"
      using True V(2) by (simp add: w2_def)
    ultimately have "setex_done view q w w2"
      using key_view_put [OF INT_in_TypeRegs(1), of "?m(?rec \<mapsto> convto_string (q_id q))", unfolded key, OF own]
        expire_time_Add [OF assms(3,4)]
      by (simp add: setex_done_def)
    with True show ?thesis by simp
  next
    case False
    with V show ?thesis by (simp add: w2_def)
  qed
  have ends: "\<exists>q' w'. setex_query_Run R q1 w = Inr (q', w') \<and> q_finished q' \<and>
      (\<exists>ok. submitted_timed R view (q_database q) [WPut ?rec (convto_string (q_id q)),
          WPut ?dest (to_bin (q_value q))] w ok w' \<and>
        (if ok then setex_done view q w w'
         else (\<forall>k s. view_of view q w' k s = view_of view q w k s) \<and> w_expires w' = w_expires w))"
    if "own_view view q w = None \<or> (\<exists>v0. own_view view q w = Some (INT_KEY, v0))"
      "q_dest q1 = ?dest" "q_database q1 = q_database q" "q_key q1 = q_key q"
      "q_select_query q1 = q_select_query q" "q_value q1 = q_value q" "q_id q1 = q_id q" for q1
    by (rule exI [of _ "SetOK q1"], rule exI [of _ w2], intro conjI exI [of _ ok])
      (use run [OF that(2-)] batch out [OF that(1)] in simp_all)
  show ?thesis
    unfolding setex_query_def
    by (rule WRITE_outcome [OF assms(1,2)]; rule ends) simp_all
qed

lemma setex_query_witness:
  "\<exists>q' w'. Prepare table_rocks (setex_query_Run table_rocks)
       (setex_query ((ask ''a'' ''z'')\<lparr>q_id := 70\<rparr>)) (one_world INT_KEY (to_bin ''xy'')) = Inr (True, q', w') \<and>
     q_finished q' \<and> setex_done map_of ((ask ''a'' ''z'')\<lparr>q_id := 70\<rparr>) (one_world INT_KEY (to_bin ''xy'')) w'"
  using setex_query_outcome [OF table_rocks_ok, of "(ask ''a'' ''z'')\<lparr>q_id := 70\<rparr>"
      "one_world INT_KEY (to_bin ''xy'')"]
  by (auto simp: write_outcome_def timers_ok_def submitted_timed_def submitted_def batch_on_def table_rocks_def
      simp del: to_bin.simps split: if_splits)

section \<open>Reading back\<close>

text \<open>
  After a SET that finished, a GET of the same name in the same select and database is
  admitted by Prepare, finishes and answers the value that was set.
\<close>

lemma set_then_get:
  assumes "rocks_ok R view" "ready q w"
    and "Prepare R (set_query_Run R) (set_query q) w = Inr (True, q', w')" "q_finished q'"
    and "ready q2 w'" "q_key q2 = q_key q" "q_select_query q2 = q_select_query q" "q_database q2 = q_database q"
  shows "\<exists>q3. Prepare R (get_query_Run R) (get_query q2) w' = Inr (True, q3, w') \<and>
    q_finished q3 \<and> q_response q3 = q_value q"
proof -
  have "view_of view q w' (q_key q) (q_select_query q) = Some (INT_KEY, to_bin (q_value q))"
    using set_outcome [OF assms(1,2)] assms(3,4)
    by (auto simp: write_outcome_def stored_or_failed_def refused_def split: option.splits prod.splits if_splits)
  with get_outcome [OF assms(1,5)] assms(6-8) show ?thesis
    by (auto simp: read_outcome_def)
qed

lemma set_then_get_witness:
  "\<exists>q' w' q3. Prepare table_rocks (set_query_Run table_rocks) (set_query (ask ''a'' ''z'')) (one_world INT_KEY (to_bin ''xy''))
       = Inr (True, q', w') \<and>
     Prepare table_rocks (get_query_Run table_rocks) (get_query (ask ''a'' [])) w' = Inr (True, q3, w') \<and>
     q_response q3 = ''z''"
proof -
  have "case Prepare table_rocks (set_query_Run table_rocks) (set_query (ask ''a'' ''z''))
      (one_world INT_KEY (to_bin ''xy'')) of
      Inl _ \<Rightarrow> False | Inr (b, q', w') \<Rightarrow> b \<and> q_finished q' \<and> ready (ask ''a'' []) w'"
    by code_simp
  then obtain q' w' where r: "Prepare table_rocks (set_query_Run table_rocks) (set_query (ask ''a'' ''z''))
      (one_world INT_KEY (to_bin ''xy'')) = Inr (True, q', w')" "q_finished q'" "ready (ask ''a'' []) w'"
    by (auto split: sum.splits)
  have "ready (ask ''a'' ''z'') (one_world INT_KEY (to_bin ''xy''))" by simp
  from set_then_get [OF table_rocks_ok this r] r(1) show ?thesis by auto
qed

end
