(* ===== verification/Hints.thy ===== *)
theory Hints
  imports KeyFacts
begin

text \<open>
  The queries that work on a key of any type (\<open>src/brldb/*_hints.cpp\<close>): each \<open>Run\<close> looks at the
  type \<open>Prepare\<close> identified.  Only the branch of the plain key has code of its own, for a key
  that expires; \<open>Maps\<close>, \<open>Multis\<close>, \<open>Geos\<close>, \<open>Lists\<close> and \<open>Vectors\<close> are empty, so every other type
  goes on to the common end of \<open>Run\<close>.
\<close>

abbreviation routed :: "QUERY_TYPE \<Rightarrow> query \<Rightarrow> query" where
  "routed ty q \<equiv> q\<lparr>q_type := ty\<rparr>"

text \<open>The result of a batch: done, or \<open>DBL_BATCH_FAILED\<close>.\<close>

definition batch_reply :: "query \<Rightarrow> bool \<times> 'd world \<Rightarrow> query \<times> 'd world" where
  "batch_reply q r = (if fst r then SetOK q else access_set DBL_BATCH_FAILED q, snd r)"

section \<open>The classes\<close>

definition rename_query :: "query \<Rightarrow> query" where
  "rename_query q = routed QUERY_TYPE_RENAME q"

definition rename_query_Keys :: "'d rocks \<Rightarrow> query \<Rightarrow> 'd world \<Rightarrow> query \<times> 'd world" where
  "rename_query_Keys R q w =
     (let result = Get R (q_dest q) q w;
          newdest = raw_key (q_value q) (q_select_query q) (q_identified q)
      in batch_reply q (SwapWithExpire R newdest (q_dest q) (rd_value result) (q_select_query q)
           (q_value q) (q_id q) (q_key q) q w))"

definition rename_query_Run :: "'d rocks \<Rightarrow> 'd run" where
  "rename_query_Run R q w =
     (if q_identified q = INT_KEY \<and> IsExpiring q w > 0
      then Inr (rename_query_Keys R (q\<lparr>q_id := of_int (IsExpiring q w)\<rparr>) w)
      else (let result = Get R (q_dest q) q w;
                newdest = raw_key (q_value q) (q_select_query q) (q_identified q)
            in Inr (batch_reply q (Swap R newdest (q_dest q) (rd_value result) None q w))))"

definition renamenx_query :: "query \<Rightarrow> query" where
  "renamenx_query q = routed QUERY_TYPE_RENAMENX q"

definition renamenx_query_Keys :: "'d rocks \<Rightarrow> query \<Rightarrow> 'd world \<Rightarrow> query \<times> 'd world" where
  "renamenx_query_Keys R q w =
     (let result = Get R (q_dest q) q w;
          newdest = raw_key (q_value q) (q_select_query q) (q_identified q)
      in batch_reply q (SwapWithExpire R newdest (q_dest q) (rd_value result) (q_select_query q)
           (q_value q) (q_id q) (q_key q) q w))"

definition renamenx_query_Run :: "'d rocks \<Rightarrow> 'd run" where
  "renamenx_query_Run R q w =
     (if q_identified q = INT_KEY \<and> IsExpiring q w > 0
      then Inr (renamenx_query_Keys R (q\<lparr>q_id := of_int (IsExpiring q w)\<rparr>) w)
      else (let result = Get R (q_dest q) q w;
                newdest = raw_key (q_value q) (q_select_query q) (q_identified q)
            in Inr (batch_reply q (Swap R newdest (q_dest q) (rd_value result) None q w))))"

definition del_query :: "query \<Rightarrow> query" where
  "del_query q = routed QUERY_TYPE_DELETE q"

definition del_query_Keys :: "'d rocks \<Rightarrow> query \<Rightarrow> 'd world \<Rightarrow> query \<times> 'd world" where
  "del_query_Keys R q w =
     (let d = q_database q;
          lookup = expire_record (q_key q) (q_select_query q) (d_name (w_dbs w d));
          (ok, w1) = batch_on R d [WDelete (q_dest q), WDelete lookup] w
      in if ok
         then (SetOK q, w1\<lparr>w_expires := snd (ExpireManager_Delete d (q_key q) (q_select_query q) (w_expires w1))\<rparr>)
         else (access_set DBL_BATCH_FAILED q, w1))"

definition del_query_Run :: "'d rocks \<Rightarrow> 'd run" where
  "del_query_Run R q w =
     (if q_identified q = INT_KEY \<and> IsExpiring q w > 0
      then Inr (del_query_Keys R (q\<lparr>q_id := of_int (IsExpiring q w)\<rparr>) w)
      else Inr (SetOK q, Delete R (q_dest q) q w))"

definition move_query :: "query \<Rightarrow> query" where
  "move_query q = routed QUERY_TYPE_MOVE q"

text \<open>\<open>move\<close> and \<open>clone\<close> take the text of the new select as it came (\<open>this->value\<close>).\<close>

definition select_key :: "string \<Rightarrow> string \<Rightarrow> string \<Rightarrow> string" where
  "select_key k select_text t = to_bin k @ '':'' @ select_text @ '':'' @ t"

definition move_query_Keys :: "'d rocks \<Rightarrow> query \<Rightarrow> 'd world \<Rightarrow> query \<times> 'd world" where
  "move_query_Keys R q w =
     (let d = q_database q;
          result = Get R (q_dest q) q w;
          newdest = select_key (q_key q) (q_value q) (q_identified q);
          lookup = select_key (q_key q) (q_value q) (INT_EXPIRE @ '':'' @ d_name (w_dbs w d));
          (ok, w1) = batch_on R d
            [WPut newdest (rd_value result), WDelete (q_dest q), WPut lookup (convto_string (q_id q))] w
      in if ok
         then (let e1 = snd (ExpireManager_Delete d (q_key q) (q_select_query q) (w_expires w1));
                   e2 = snd (ExpireManager_Add (w_now w1) d (sint (q_id q)) (q_key q)
                          (convto_num_uint (q_value q)) True e1)
               in (SetOK q, w1\<lparr>w_expires := e2\<rparr>))
         else (access_set DBL_BATCH_FAILED q, w1))"

definition move_query_Run :: "'d rocks \<Rightarrow> 'd run" where
  "move_query_Run R q w =
     (if q_identified q = INT_KEY \<and> IsExpiring q w > 0
      then Inr (move_query_Keys R (q\<lparr>q_id := of_int (IsExpiring q w)\<rparr>) w)
      else (let result = Get R (q_dest q) q w;
                newdest = select_key (q_key q) (q_value q) (q_identified q)
            in Inr (batch_reply q (Swap R newdest (q_dest q) (rd_value result) None q w))))"

definition clone_query :: "query \<Rightarrow> query" where
  "clone_query q = routed QUERY_TYPE_CLONE q"

text \<open>The text written for an expiring key is \<open>this->value\<close>, the new select; \<open>result\<close> is unused.\<close>

definition clone_query_Keys :: "'d rocks \<Rightarrow> query \<Rightarrow> 'd world \<Rightarrow> query \<times> 'd world" where
  "clone_query_Keys R q w =
     (let newdest = select_key (q_key q) (q_value q) (q_identified q)
      in (SetOK q, ExpireBatch R newdest (q_value q) (q_key q) (convto_num_uint (q_value q)) (q_id q) q w))"

definition clone_query_Run :: "'d rocks \<Rightarrow> 'd run" where
  "clone_query_Run R q w =
     (if q_identified q = INT_KEY \<and> IsExpiring q w > 0
      then Inr (clone_query_Keys R (q\<lparr>q_id := of_int (IsExpiring q w)\<rparr>) w)
      else (let result = Get R (q_dest q) q w;
                newdest = select_key (q_key q) (q_value q) (q_identified q)
            in Inr (SetOK q, snd (Write R newdest (rd_value result) q w))))"

definition copy_query :: "query \<Rightarrow> query" where
  "copy_query q = routed QUERY_TYPE_COPY q"

definition copy_query_Keys :: "'d rocks \<Rightarrow> query \<Rightarrow> 'd world \<Rightarrow> 'd world" where
  "copy_query_Keys R q w =
     (let ttl = IsExpiring q w
      in if ttl > 0 then WriteExpire R (q_value q) (q_select_query q) (of_int ttl) None q w else w)"

definition copy_query_Run :: "'d rocks \<Rightarrow> 'd run" where
  "copy_query_Run R q w =
     (let w1 = (if q_identified q = INT_KEY then copy_query_Keys R q w else w);
          result = Get R (q_dest q) q w1;
          newdest = raw_key (q_value q) (q_select_query q) (q_identified q)
      in Inr (q, snd (Write R newdest (rd_value result) q w1)))"

definition transfer_query :: "query \<Rightarrow> query" where
  "transfer_query q = routed QUERY_TYPE_TRANSFER q"

definition transfer_query_Keys :: "'d rocks \<Rightarrow> query \<Rightarrow> 'd world \<Rightarrow> 'd world" where
  "transfer_query_Keys R q w =
     (let ttl = IsExpiring q w
      in if ttl > 0
         then WriteExpire R (q_key q) (q_select_query q) (of_int ttl) (q_transf_db q) q (DelExpire R q w)
         else w)"

text \<open>\<open>Prepare\<close> refuses the query when \<open>transf_db\<close> is null; \<open>Run\<close> dereferences it.\<close>

definition transfer_query_Run :: "'d rocks \<Rightarrow> 'd run" where
  "transfer_query_Run R q w =
     (let w1 = (if q_identified q = INT_KEY then transfer_query_Keys R q w else w);
          result = Get R (q_dest q) q w1;
          newdest = raw_key (q_key q) (q_select_query q) (q_identified q)
      in case q_transf_db q of
           None \<Rightarrow> Inl Undefined_behaviour
         | Some d \<Rightarrow> Inr (q, Delete R (q_dest q) q (snd (batch_on R d [WPut newdest (rd_value result)] w1))))"

definition exists_query :: "query \<Rightarrow> query" where
  "exists_query q = routed QUERY_TYPE_EXISTS q"

definition exists_query_Run :: "'d run" where
  "exists_query_Run q w =
     Inr (SetOK (q\<lparr>q_response :=
       (if q_identified q = [] \<or> q_identified q = PROCESS_NULL then ''0'' else ''1'')\<rparr>), w)"

definition rename_query_Process :: "query \<Rightarrow> string" where
  "rename_query_Process q = PROCESS_OK"

definition renamenx_query_Process :: "query \<Rightarrow> string" where
  "renamenx_query_Process q = PROCESS_OK"

definition del_query_Process :: "query \<Rightarrow> string" where
  "del_query_Process q = PROCESS_OK"

definition move_query_Process :: "query \<Rightarrow> string" where
  "move_query_Process q = PROCESS_OK"

definition clone_query_Process :: "query \<Rightarrow> string" where
  "clone_query_Process q = PROCESS_OK"

definition copy_query_Process :: "query \<Rightarrow> string" where
  "copy_query_Process q = PROCESS_OK"

definition transfer_query_Process :: "query \<Rightarrow> string" where
  "transfer_query_Process q = PROCESS_OK"

definition exists_query_Process :: "query \<Rightarrow> string" where
  "exists_query_Process q = c_str (q_response q)"

section \<open>The destination check\<close>

lemma check_dest_loop_eq:
  assumes "rocks_ok R view"
  shows "check_dest_loop R st s k lt ts =
    (case filter (\<lambda>t. view st (raw_key k s t) \<notin> {None, Some []}) ts of
       [] \<Rightarrow> 0 | t # _ \<Rightarrow> if t = lt then 1 else 2)"
  by (induction ts) (auto simp: rget_view [OF assms] split: option.splits)

lemma check_dest_view:
  assumes "rocks_ok R view" "one_type (view st)"
  shows "check_dest_loop R st s k lt TypeRegs =
    (case key_view (view st) k s of
       None \<Rightarrow> 0 | Some (t, v) \<Rightarrow> if v = [] then 0 else if t = lt then 1 else 2)"
proof (cases "types_of (view st) k s")
  case Nil
  then have "\<forall>t\<in>set TypeRegs. view st (raw_key k s t) = None"
    by (simp add: types_of_def filter_empty_conv)
  then have "filter (\<lambda>t. view st (raw_key k s t) \<notin> {None, Some []}) TypeRegs = []"
    by (simp add: filter_empty_conv)
  with Nil show ?thesis
    by (simp add: check_dest_loop_eq [OF assms(1)] key_view_def)
next
  case (Cons t ts)
  have "length (types_of (view st) k s) \<le> 1"
    using assms(2) by (simp add: one_type_def)
  with Cons have one: "types_of (view st) k s = [t]" by simp
  have "filter (\<lambda>u. view st (raw_key k s u) \<notin> {None, Some []}) TypeRegs =
      filter (\<lambda>u. view st (raw_key k s u) \<noteq> Some []) (types_of (view st) k s)"
    by (auto simp: types_of_def intro!: filter_cong)
  moreover have "t \<in> set (types_of (view st) k s)"
    by (simp add: one)
  then obtain v where "view st (raw_key k s t) = Some v"
    unfolding types_of_set by auto
  ultimately show ?thesis
    by (simp add: check_dest_loop_eq [OF assms(1)] key_view_def one)
qed

text \<open>What a destination must not hold: a non-empty value of another type.\<close>

definition dest_taken :: "(string \<times> string) option \<Rightarrow> string \<Rightarrow> bool" where
  "dest_taken dest t = (case dest of None \<Rightarrow> False | Some (t2, v2) \<Rightarrow> v2 \<noteq> [] \<and> t2 \<noteq> t)"

lemma CheckDest_own:
  assumes "rocks_ok R view" "\<forall>d. one_type (holds view d w)"
    and "own_view view q w = Some (t, v)" "q_identified q1 = t"
    and "q_database q1 = q_database q" "q_select_query q1 = q_select_query q" "q_key q1 = q_key q"
  shows "CheckDest R s k t None q1 w = 2 \<longleftrightarrow> dest_taken (view_of view q w k s) t"
    and "CheckDest R s k t None q1 w \<in> {0, 1, 2}"
  using assms(3-)
  by (auto simp: CheckDest_def check_dest_view [OF assms(1) assms(2) [rule_format]] dest_taken_def
      split: option.splits)

lemma key_view_move:
  assumes "one_type m" "key_view m k s = Some (t, v)"
    and "key_view m k2 s2 = None \<or> (\<exists>v0. key_view m k2 s2 = Some (t, v0))"
  shows "key_view (m(raw_key k2 s2 t \<mapsto> v, raw_key k s t := None)) k' s' =
    (if k' = k \<and> s' = s then None else if k' = k2 \<and> s' = s2 then Some (t, v) else key_view m k' s')"
proof -
  let ?m = "m(raw_key k2 s2 t \<mapsto> v)"
  have t: "t \<in> set TypeRegs" using key_view_Some [OF assms(2)] by blast
  note put = key_view_put [OF t assms(3), of v]
  have "one_type ?m"
    unfolding one_type_iff
  proof (intro allI ballI impI)
    fix k1 s1 a b
    assume ab: "a \<in> set TypeRegs" "b \<in> set TypeRegs" "?m (raw_key k1 s1 a) \<noteq> None" "?m (raw_key k1 s1 b) \<noteq> None"
    have at: "u = t" if "u \<in> set TypeRegs" "m (raw_key k2 s2 u) \<noteq> None" for u
    proof -
      from that have "u \<in> set (types_of m k2 s2)" by (simp add: types_of_set)
      with assms(1,3) that show ?thesis
        by (metis key_view_None key_view_Some list.set_cases list.distinct(1) one_type_iff option.distinct(1))
    qed
    show "a = b"
    proof (cases "k1 = k2 \<and> s1 = s2")
      case True
      with ab at have "a = t" "b = t" by (metis fun_upd_other raw_key_inject)+
      then show ?thesis by simp
    next
      case False
      with ab have "m (raw_key k1 s1 a) \<noteq> None" "m (raw_key k1 s1 b) \<noteq> None"
        by (auto split: if_splits)
      with ab(1,2) assms(1) show ?thesis unfolding one_type_iff by blast
    qed
  qed
  moreover have "key_view ?m k s = Some (t, v)"
    using assms(2) by (simp add: put)
  ultimately show ?thesis
    by (simp add: key_view_delete put)
qed

section \<open>Prepare\<close>

lemma GetRegistry_found:
  assumes "rocks_ok R view" "own_view view q w = Some (t, v)"
  shows "GetRegistry R (q_select_query q) (q_key q) True (access_set DBL_STATUS_OK q) w = (True, found_as q t v)"
    and "t \<noteq> PROCESS_NULL" "t \<in> set TypeRegs"
proof -
  from key_view_Some [OF assms(2)] obtain ts where
    ts: "types_of (holds view (q_database q) w) (q_key q) (q_select_query q) = t # ts"
    "holds view (q_database q) w (raw_key (q_key q) (q_select_query q) t) = Some v" "t \<in> set TypeRegs" by auto
  then show "GetRegistry R (q_select_query q) (q_key q) True (access_set DBL_STATUS_OK q) w = (True, found_as q t v)"
    using GetRegistry_eq [OF assms(1), of "access_set DBL_STATUS_OK q" True w] by (simp add: found_as_def)
  show "t \<noteq> PROCESS_NULL" "t \<in> set TypeRegs" using ts(3) PROCESS_NULL_no_type by auto
qed

lemma Prepare_RENAME:
  assumes "rocks_ok R view" "ready q w" "\<forall>d. one_type (holds view d w)" "q_type q = QUERY_TYPE_RENAME"
    and "own_view view q w = Some (t, v)"
  shows "Prepare R run q w =
    (if dest_taken (view_of view q w (q_value q) (q_select_query q)) t
     then refuse (invalid_type (found_as q t v)) w else run_then True run (found_as q t v) w)"
proof -
  note G = GetRegistry_found [OF assms(1,5)]
  let ?c = "CheckDest R (q_select_query q) (q_value q) t None (found_as q t v) w"
  note C = CheckDest_own [OF assms(1,3,5), where ?q1.0 = "found_as q t v" and s = "q_select_query q" and k = "q_value q", simplified]
  have "Prepare R run q w = Prepare_rename R run (access_set DBL_STATUS_OK q) w"
    using assms(4) by (simp add: Prepare_def Prepare_ready [OF assms(2)])
  also have "\<dots> = (if ?c = 2 then refuse (invalid_type (found_as q t v)) w
      else run_then True run (found_as q t v) w)"
    using C(2) G(2) by (auto simp: Prepare_rename_def G(1) Let_def)
  finally show ?thesis by (simp only: C(1))
qed

section \<open>A key moves\<close>

text \<open>
  \<open>moved_or_failed\<close>: the name is free and the destination holds its type and text, or the batch
  failed and nothing changed.  When the destination is the name itself the key is gone.
\<close>

definition moved_or_failed ::
  "('d \<Rightarrow> string \<rightharpoonup> string) \<Rightarrow> query \<Rightarrow> 'd world \<Rightarrow> string \<Rightarrow> string \<Rightarrow> string \<Rightarrow> u32
     \<Rightarrow> query \<Rightarrow> 'd world \<Rightarrow> bool" where
  "moved_or_failed view q w t v k2 s2 q' w' \<longleftrightarrow>
     (if q_finished q'
      then \<forall>k s. view_of view q w' k s =
             (if k = q_key q \<and> s = q_select_query q then None
              else if k = k2 \<and> s = s2 then Some (t, v) else view_of view q w k s)
      else q_access q' = DBL_BATCH_FAILED \<and> (\<forall>k s. view_of view q w' k s = view_of view q w k s))"

text \<open>The timers after it: an expiring plain key takes its timer along.\<close>

definition timer_moved ::
  "query \<Rightarrow> 'd world \<Rightarrow> string \<Rightarrow> string \<Rightarrow> u32 \<Rightarrow> query \<Rightarrow> 'd world \<Rightarrow> bool" where
  "timer_moved q w t k2 s2 q' w' \<longleftrightarrow>
     (let T = expire_time (w_expires w); i = (q_key q, q_select_query q, q_database q)
      in expire_time (w_expires w') =
           (if q_finished q' \<and> t = INT_KEY \<and> T i > 0
            then T(i := - 1, (k2, s2, q_database q) := T i) else T))"

text \<open>The batch of it: the text under the new name, the old name, and the record of a timer that goes along.\<close>

definition move_ops :: "query \<Rightarrow> 'd world \<Rightarrow> string \<Rightarrow> string \<Rightarrow> string \<Rightarrow> u32 \<Rightarrow> wop list" where
  "move_ops q w t v k2 s2 =
     (let T = expire_time (w_expires w) (q_key q, q_select_query q, q_database q)
      in WPut (raw_key k2 s2 t) v # WDelete (raw_key (q_key q) (q_select_query q) t) #
         (if t = INT_KEY \<and> T > 0
          then [WPut (expire_record k2 s2 (d_name (w_dbs w (q_database q)))) (convto_string (of_int T))] else []))"

definition swapped ::
  "'d rocks \<Rightarrow> ('d \<Rightarrow> string \<rightharpoonup> string) \<Rightarrow> query \<Rightarrow> 'd world \<Rightarrow> string \<Rightarrow> string \<Rightarrow> string \<Rightarrow> u32
     \<Rightarrow> query \<Rightarrow> 'd world \<Rightarrow> bool" where
  "swapped R view q w t v k2 s2 q' w' \<longleftrightarrow>
     (\<exists>ok. submitted_timed R view (q_database q) (move_ops q w t v k2 s2) w ok w' \<and>
        (if ok then q_finished q' else \<not> q_finished q' \<and> q_access q' = DBL_BATCH_FAILED)) \<and>
     timer_moved q w t k2 s2 q' w'"

lemma moved_batch:
  assumes "rocks_ok R view" "\<forall>d. one_type (holds view d w)" "own_view view q w = Some (t, v)"
    and "view_of view q w k2 s2 = None \<or> (\<exists>v0. view_of view q w k2 s2 = Some (t, v0))"
    and "batch_on R (q_database q)
      (WPut (raw_key k2 s2 t) v # WDelete (raw_key (q_key q) (q_select_query q) t) # rest) w = (ok, w1)"
    and "rest = [] \<or> (\<exists>a b n x. rest = [WPut (expire_record a b n) x])"
  shows "view_of view q w1 k s =
    (if ok then if k = q_key q \<and> s = q_select_query q then None
       else if k = k2 \<and> s = s2 then Some (t, v) else view_of view q w k s
     else view_of view q w k s)"
  using key_view_move [OF assms(2) [rule_format] assms(3,4)] assms(6)
  by (auto simp: batch_on_view(1) [OF assms(1,5)] apply_wop_def)

lemma IsExpiring_time:
  "IsExpiring q w > 0 \<longleftrightarrow> expire_time (w_expires w) (q_key q, q_select_query q, q_database q) > 0"
  "IsExpiring q w > 0 \<Longrightarrow>
   IsExpiring q w = expire_time (w_expires w) (q_key q, q_select_query q, q_database q)"
  by (auto simp: IsExpiring_def expire_time_def Let_def split: if_splits)

lemma expire_time_range:
  assumes "expires_ok m" "0 < expire_time m i"
  shows "expire_time m i < 2 ^ 31" "sint (of_int (expire_time m i) :: u32) = expire_time m i"
proof -
  from assms(2) obtain it where it: "timer_find (\<lambda>e. expire_own e = i) m = Some it"
    "expire_time m i = to_signed (fst it)"
    by (auto simp: expire_time_at timer_at_def split: option.splits)
  with assms(1) have "0 < fst it" "fst it < 2 ^ 31"
    by (auto simp: timers_ok_def timer_find_iff)
  with it show "expire_time m i < 2 ^ 31"
    by (simp add: to_signed_id)
  with assms(2) show "sint (of_int (expire_time m i) :: u32) = expire_time m i"
    by (simp add: int_word_sint signed_take_bit_int_eq_self)
qed

lemma timer_move:
  assumes "expires_ok m" "t = expire_time m i" "0 < t"
  shows "expire_time (expire_add now True i2 t (expire_delete i m)) = (expire_time m)(i := - 1, i2 := t)"
  using expires.deadline(2) [OF expires.ok_del [OF assms(1)], of t] assms(2,3) expire_time_range(1) [OF assms(1)]
  by (simp add: expires.at_del [OF assms(1)])

lemma batch_timed:
  assumes "rocks_ok R view" "batch_on R d b w = (ok, w1)"
  shows "submitted_timed R view d b w ok w1" "ok \<Longrightarrow> submitted_timed R view d b w ok (w1\<lparr>w_expires := e\<rparr>)"
proof -
  have s: "submitted R view d b w ok w1" by (rule batch_submitted [OF assms])
  have "w1 = (if ok then w1\<lparr>w_expires := w_expires w1\<rparr> else w1)" by simp
  with s show "submitted_timed R view d b w ok w1" unfolding submitted_timed_def by blast
  show "submitted_timed R view d b w ok (w1\<lparr>w_expires := e\<rparr>)" if ok
    using s that unfolding submitted_timed_def by (intro exI [of _ w1] exI [of _ e]) simp
qed

lemma submitted_timed_view:
  assumes "rocks_ok R view" "submitted_timed R view d b w ok w'"
  obtains w1 where "batch_on R d b w = (ok, w1)" "\<And>d'. holds view d' w' = holds view d' w1"
  using assms(2) that by (auto simp: submitted_timed_def submitted_def split: if_splits)

text \<open>Onto a name that holds nothing or the same type, the value moves.\<close>

lemma swapped_moved:
  assumes "rocks_ok R view" "\<forall>d. one_type (holds view d w)" "own_view view q w = Some (t, v)"
    and "view_of view q w k2 s2 = None \<or> (\<exists>v0. view_of view q w k2 s2 = Some (t, v0))"
    and "swapped R view q w t v k2 s2 q' w'"
  shows "moved_or_failed view q w t v k2 s2 q' w'"
proof -
  obtain ok where s: "submitted_timed R view (q_database q) (move_ops q w t v k2 s2) w ok w'"
    "if ok then q_finished q' else \<not> q_finished q' \<and> q_access q' = DBL_BATCH_FAILED"
    using assms(5) by (auto simp: swapped_def)
  obtain w1 where b: "batch_on R (q_database q) (move_ops q w t v k2 s2) w = (ok, w1)"
    "\<And>d'. holds view d' w' = holds view d' w1"
    using submitted_timed_view [OF assms(1) s(1)] by blast
  obtain rest where ops: "move_ops q w t v k2 s2 =
      WPut (raw_key k2 s2 t) v # WDelete (raw_key (q_key q) (q_select_query q) t) # rest"
    "rest = [] \<or> (\<exists>a b n x. rest = [WPut (expire_record a b n) x])"
    by (auto simp: move_ops_def Let_def)
  from moved_batch [OF assms(1-4) b(1) [unfolded ops(1)] ops(2)] s(2) b(2) show ?thesis
    by (auto simp: moved_or_failed_def split: if_splits)
qed

lemma rename_query_Run_swaps:
  assumes "rocks_ok R view" "expires_ok (w_expires w)" "\<not> q_finished q"
  shows "\<exists>q' w'. rename_query_Run R (found_as q t v) w = Inr (q', w') \<and>
    swapped R view q w t v (q_value q) (q_select_query q) q' w'"
proof (cases "t = INT_KEY \<and> IsExpiring q w > 0")
  case False
  have E: "IsExpiring (found_as q t v) w = IsExpiring q w" by (simp add: IsExpiring_def)
  obtain ok w1 where b: "batch_on R (q_database q) [WPut (raw_key (q_value q) (q_select_query q) t) v,
      WDelete (raw_key (q_key q) (q_select_query q) t)] w = (ok, w1)" by fastforce
  have ops: "move_ops q w t v (q_value q) (q_select_query q) = [WPut (raw_key (q_value q) (q_select_query q) t) v,
      WDelete (raw_key (q_key q) (q_select_query q) t)]"
    using False IsExpiring_time(1) [of q w] by (auto simp: move_ops_def Let_def)
  have run: "rename_query_Run R (found_as q t v) w = Inr (batch_reply (found_as q t v) (ok, w1))"
    using False E by (auto simp: rename_query_Run_def Let_def Swap_def b)
  show ?thesis
    unfolding run swapped_def ops using batch_timed [OF assms(1) b] batch_on_view(2) [OF assms(1) b] False
      assms(3) IsExpiring_time(1) [of q w]
    by (cases ok) (auto simp: batch_reply_def timer_moved_def Let_def)
next
  case True
  define T where "T = expire_time (w_expires w) (q_key q, q_select_query q, q_database q)"
  have T: "IsExpiring (found_as q t v) w = T" "0 < T"
    using True IsExpiring_time [of q w] by (simp_all add: IsExpiring_def T_def)
  note T2 = expire_time_range(2) [OF assms(2), of "(q_key q, q_select_query q, q_database q)",
      folded T_def, OF T(2)]
  let ?rec = "WPut (expire_record (q_value q) (q_select_query q) (d_name (w_dbs w (q_database q))))
      (convto_string (of_int T))"
  have Q: "0 < IsExpiring q w" "t = INT_KEY" using True by simp_all
  obtain ok w1 where b: "batch_on R (q_database q) (move_ops q w t v (q_value q) (q_select_query q)) w = (ok, w1)"
    by fastforce
  have ops: "move_ops q w t v (q_value q) (q_select_query q) = [WPut (raw_key (q_value q) (q_select_query q) t) v,
      WDelete (raw_key (q_key q) (q_select_query q) t), ?rec]"
    using Q T(2) by (simp add: move_ops_def T_def Let_def)
  note M = timer_move [OF assms(2) T_def T(2), where now = "w_now w1" and
      ?i2.0 = "(q_value q, q_select_query q, q_database q)",
      simplified expire_add_def expire_delete_def prod.case]
  have run: "rename_query_Run R (found_as q t v) w = Inr
      (if ok then (SetOK ((found_as q t v)\<lparr>q_id := of_int T\<rparr>), w1\<lparr>w_expires :=
          snd (ExpireManager_Add (w_now w1) (q_database q) T (q_value q) (q_select_query q) True
            (snd (ExpireManager_Delete (q_database q) (q_key q) (q_select_query q) (w_expires w1))))\<rparr>)
       else (access_set DBL_BATCH_FAILED ((found_as q t v)\<lparr>q_id := of_int T\<rparr>), w1))"
    using b [unfolded ops] T2 by (simp add: rename_query_Run_def rename_query_Keys_def SwapWithExpire_def
        batch_reply_def Let_def T [unfolded Q(2)] Q Get_def)
  show ?thesis
    unfolding run swapped_def using batch_timed [OF assms(1) b] batch_on_view(2) [OF assms(1) b] M T(2) assms(3)
    by (cases ok) (auto simp: timer_moved_def Q T_def Let_def)
qed

text \<open>A destination that holds nothing, or a value of the same type.\<close>

definition dest_free :: "(string \<times> string) option \<Rightarrow> string \<Rightarrow> bool" where
  "dest_free dest t \<longleftrightarrow> dest = None \<or> (\<exists>v0. dest = Some (t, v0))"

lemma dest_free_not_taken: "dest_free dest t \<Longrightarrow> \<not> dest_taken dest t"
  by (auto simp: dest_free_def dest_taken_def)

definition moves ::
  "'d rocks \<Rightarrow> ('d \<Rightarrow> string \<rightharpoonup> string) \<Rightarrow> query \<Rightarrow> 'd world \<Rightarrow> string \<Rightarrow> string \<Rightarrow> string \<Rightarrow> u32
     \<Rightarrow> bool \<times> query \<times> 'd world \<Rightarrow> bool" where
  "moves R view q w t v k2 s2 r \<longleftrightarrow>
     (case r of (b, q', w') \<Rightarrow>
        b \<and> swapped R view q w t v k2 s2 q' w' \<and>
        (dest_free (view_of view q w k2 s2) t \<longrightarrow> moved_or_failed view q w t v k2 s2 q' w'))"

lemma swapped_moves:
  assumes "rocks_ok R view" "\<forall>d. one_type (holds view d w)" "own_view view q w = Some (t, v)"
    and "swapped R view q w t v k2 s2 q' w'"
  shows "moves R view q w t v k2 s2 (True, q', w')"
  using swapped_moved [OF assms(1-3) _ assms(4)] assms(4) by (auto simp: moves_def dest_free_def)

lemma routed_ops [simp]: "move_ops (routed ty q) w t v k s = move_ops q w t v k s"
  by (simp add: move_ops_def cong: if_cong)

lemma routed_same [simp]:
  "own_view view (routed ty q) w = own_view view q w" "ready (routed ty q) w = ready q w"
  "moved_or_failed view (routed ty q) w = moved_or_failed view q w"
  "timer_moved (routed ty q) w = timer_moved q w" "swapped R view (routed ty q) w = swapped R view q w"
proof -
  show timer: "timer_moved (routed ty q) w = timer_moved q w" by (simp add: timer_moved_def fun_eq_iff)
  show "swapped R view (routed ty q) w = swapped R view q w"
    by (intro ext) (simp add: swapped_def timer)
qed (simp_all add: ready_def moved_or_failed_def fun_eq_iff)



text \<open>
  RENAME of a name to itself, when the batch succeeds, reports success and leaves the name
  empty: the value is lost.
\<close>

lemma rename_query_itself:
  assumes "rocks_ok R view" "ready q w" "\<forall>d. one_type (holds view d w)" "expires_ok (w_expires w)"
    and "own_view view q w = Some (t, v)" "q_value q = q_key q"
  shows "\<exists>q' w'. Prepare R (rename_query_Run R) (rename_query q) w = Inr (True, q', w') \<and>
    (if q_finished q' then own_view view q w' = None else q_access q' = DBL_BATCH_FAILED)"
proof -
  let ?q = "rename_query q"
  have q: "ready ?q w" "q_type ?q = QUERY_TYPE_RENAME" "own_view view ?q w = Some (t, v)" "\<not> q_finished ?q"
    "view_of view ?q w (q_value ?q) (q_select_query ?q) = Some (t, v)"
    using assms(2,5,6) by (simp_all add: rename_query_def ready_def)
  obtain q' w' where r0: "rename_query_Run R (found_as ?q t v) w = Inr (q', w')"
    "swapped R view ?q w t v (q_value ?q) (q_select_query ?q) q' w'"
    using rename_query_Run_swaps [OF assms(1,4) q(4)] by blast
  with swapped_moved [OF assms(1,3) q(3) _ r0(2)] q(5)
  have r: "rename_query_Run R (found_as ?q t v) w = Inr (q', w')"
    "moved_or_failed view ?q w t v (q_value ?q) (q_select_query ?q) q' w'" by auto
  have "Prepare R (rename_query_Run R) ?q w = Inr (True, q', w')"
    using Prepare_RENAME [OF assms(1) q(1) assms(3) q(2,3), where run = "rename_query_Run R"] q(5) r(1)
    by (simp add: dest_taken_def run_then_def)
  with r(2) show ?thesis
    by (auto simp: moved_or_failed_def rename_query_def)
qed

lemma rename_query_itself_witness:
  "\<exists>q' w'. Prepare table_rocks (rename_query_Run table_rocks) (rename_query (ask ''a'' ''a''))
       (one_world INT_KEY (to_bin ''x'')) = Inr (True, q', w') \<and>
     q_finished q' \<and> own_view map_of (ask ''a'' ''a'') w' = None"
proof -
  have "case Prepare table_rocks (rename_query_Run table_rocks) (rename_query (ask ''a'' ''a''))
      (one_world INT_KEY (to_bin ''x'')) of Inl _ \<Rightarrow> False | Inr (b, q', w') \<Rightarrow> q_finished q'"
    by code_simp
  with rename_query_itself [OF table_rocks_ok, of "ask ''a'' ''a''" "one_world INT_KEY (to_bin ''x'')"
      INT_KEY "to_bin ''x''"]
  show ?thesis by (auto simp: timers_ok_def simp del: to_bin.simps)
qed

text \<open>
  RENAME onto a name that holds an empty text of another type is admitted, because CheckDest
  takes an empty text for a free name, and when the batch succeeds the destination holds records
  of two types.
\<close>

lemma rename_query_two_types:
  assumes "rocks_ok R view" "ready q w" "\<forall>d. one_type (holds view d w)"
    and "own_view view q w = Some (t, v)" "view_of view q w (q_value q) (q_select_query q) = Some (t2, [])"
    and "t2 \<noteq> t" "IsExpiring q w \<le> 0"
  shows "\<exists>q' w'. Prepare R (rename_query_Run R) (rename_query q) w = Inr (True, q', w') \<and>
    (if q_finished q' then \<not> one_type (holds view (q_database q) w') else q_access q' = DBL_BATCH_FAILED)"
proof -
  let ?q = "rename_query q" and ?new = "raw_key (q_value q) (q_select_query q)"
  have q: "ready ?q w" "q_type ?q = QUERY_TYPE_RENAME" "own_view view ?q w = Some (t, v)" "\<not> q_finished q"
    using assms(2,4) by (simp_all add: rename_query_def ready_def)
  have E: "IsExpiring (found_as ?q t v) w \<le> 0"
    using assms(7) by (simp add: IsExpiring_def) (simp add: rename_query_def)
  obtain ok w1 where b: "batch_on R (q_database q) [WPut (?new t) v,
      WDelete (raw_key (q_key q) (q_select_query q) t)] w = (ok, w1)" by fastforce
  have "dest_taken (view_of view ?q w (q_value ?q) (q_select_query ?q)) t = False"
    using assms(5) by (simp add: rename_query_def dest_taken_def)
  then have P: "Prepare R (rename_query_Run R) ?q w = Inr (True, fst (batch_reply (found_as ?q t v) (ok, w1)), w1)"
    using Prepare_RENAME [OF assms(1) q(1) assms(3) q(2,3), where run = "rename_query_Run R"] E b
    by (simp add: rename_query_Run_def run_then_def Swap_def batch_reply_def rename_query_def)
  have keys: "t \<in> set TypeRegs" "t2 \<in> set TypeRegs"
    "holds view (q_database q) w (?new t2) = Some []"
    using key_view_Some [OF assms(4)] key_view_Some [OF assms(5)] by auto
  have "q_value q \<noteq> q_key q" using assms(4,5,6) by auto
  with keys assms(6) have "holds view (q_database q) w1 (?new t) \<noteq> None"
      "holds view (q_database q) w1 (?new t2) \<noteq> None" if ok
    using that by (auto simp: batch_on_view(1) [OF assms(1) b] apply_wop_def)
  with keys(1,2) assms(6) have "\<not> one_type (holds view (q_database q) w1)" if ok
    using that unfolding one_type_iff by blast
  with P q(4) show ?thesis
    by (auto simp: batch_reply_def rename_query_def)
qed

lemma rename_query_two_types_witness:
  "\<exists>q' w'. Prepare table_rocks (rename_query_Run table_rocks) (rename_query (ask ''a'' ''b''))
       (two_world INT_LIST (to_bin ''x'') INT_KEY []) = Inr (True, q', w') \<and>
     q_finished q' \<and> \<not> one_type (holds map_of 0 w')"
proof -
  have "case Prepare table_rocks (rename_query_Run table_rocks) (rename_query (ask ''a'' ''b''))
      (two_world INT_LIST (to_bin ''x'') INT_KEY []) of Inl _ \<Rightarrow> False | Inr (b, q', w') \<Rightarrow> q_finished q'"
    by code_simp
  moreover have differ: "INT_KEY \<noteq> INT_LIST" by (simp add: INT_defs)
  moreover have "IsExpiring (ask ''a'' ''b'') (two_world INT_LIST (to_bin ''x'') INT_KEY []) \<le> 0"
    by (simp add: IsExpiring_def ExpireManager_GetTIME_def)
  ultimately show ?thesis
    using rename_query_two_types [OF table_rocks_ok, of "ask ''a'' ''b''"
        "two_world INT_LIST (to_bin ''x'') INT_KEY []" INT_LIST "to_bin ''x''" INT_KEY] differ
    by (auto simp del: to_bin.simps)
qed

lemma renamenx_Run_eq: "renamenx_query_Run R = rename_query_Run R"
  by (simp add: renamenx_query_Run_def rename_query_Run_def renamenx_query_Keys_def
      rename_query_Keys_def fun_eq_iff)

text \<open>\<open>RENAMENX\<close> is refused when the new name holds a non-empty value, of any type.\<close>

definition dest_exists :: "(string \<times> string) option \<Rightarrow> bool" where
  "dest_exists dest = (case dest of None \<Rightarrow> False | Some (t, v) \<Rightarrow> v \<noteq> [])"

text \<open>
  RENAMENX of a name that holds something answers that the entry exists, and changes nothing,
  when the destination holds a non-empty text or is the name itself; otherwise it moves value,
  type and timer as RENAME does.
\<close>

lemma renamenx_query_outcome:
  assumes "rocks_ok R view" "ready q w" "\<forall>d. one_type (holds view d w)" "expires_ok (w_expires w)"
    and "own_view view q w = Some (t, v)"
    and "D = view_of view q w (q_value q) (q_select_query q)"
  shows "\<exists>r. Prepare R (renamenx_query_Run R) (renamenx_query q) w = Inr r \<and>
    (if dest_exists D \<or> q_value q = q_key q
     then (case r of (b, q', w') \<Rightarrow> \<not> b \<and> \<not> q_finished q' \<and> q_access q' = DBL_ENTRY_EXISTS \<and> w' = w)
     else moves R view q w t v (q_value q) (q_select_query q) r)"
proof -
  let ?q = "renamenx_query q"
  have q: "ready ?q w" "own_view view ?q w = Some (t, v)" "\<not> q_finished q"
    using assms(2,5) by (simp_all add: renamenx_query_def ready_def)
  note G = GetRegistry_found [OF assms(1) q(2)]
  have C: "CheckDest R (q_select_query q) (q_value q) t None (found_as ?q t v) w = 0 \<longleftrightarrow>
      \<not> (dest_exists D \<or> q_value q = q_key q)"
    by (auto simp: CheckDest_def check_dest_view [OF assms(1) assms(3) [rule_format]] assms(6)
      renamenx_query_def dest_exists_def split: option.splits)
  have "Prepare R (renamenx_query_Run R) ?q w =
      Prepare_renamenx R (renamenx_query_Run R) (access_set DBL_STATUS_OK ?q) w"
    by (simp add: Prepare_def Prepare_ready [OF q(1)]) (simp add: renamenx_query_def)
  also have "\<dots> = (if dest_exists D \<or> q_value q = q_key q
      then refuse (access_set DBL_ENTRY_EXISTS (found_as ?q t v)) w
      else run_then True (renamenx_query_Run R) (found_as ?q t v) w)"
    using G(1,2) C by (simp add: Prepare_renamenx_def Let_def) (auto simp: renamenx_query_def)
  finally have P: "Prepare R (renamenx_query_Run R) ?q w = \<dots>" .
  show ?thesis
  proof (cases "dest_exists D \<or> q_value q = q_key q")
    case True
    with P q(3) show ?thesis
      by (simp add: renamenx_query_def) 
  next
    case False
    obtain q' w' where run: "rename_query_Run R (found_as ?q t v) w = Inr (q', w')"
      "swapped R view q w t v (q_value q) (q_select_query q) q' w'"
      using rename_query_Run_swaps [OF assms(1,4), of ?q t v] q(3) by (auto simp: renamenx_query_def)
    with swapped_moves [OF assms(1,3,5) run(2)] False P show ?thesis
      by (auto simp: renamenx_query_def run_then_def renamenx_Run_eq)
  qed
qed

lemma renamenx_query_witness:
  "\<exists>r. Prepare table_rocks (renamenx_query_Run table_rocks) (renamenx_query (ask ''a'' ''c''))
       (world_of (two_entries INT_KEY (to_bin ''x'') INT_KEY (to_bin ''y'')) timer_a) = Inr r \<and>
     moves table_rocks map_of (ask ''a'' ''c'') (world_of (two_entries INT_KEY (to_bin ''x'') INT_KEY (to_bin ''y'')) timer_a)
       INT_KEY (to_bin ''x'') ''c'' 1 r"
  using renamenx_query_outcome [OF table_rocks_ok, of "ask ''a'' ''c''"
      "world_of (two_entries INT_KEY (to_bin ''x'') INT_KEY (to_bin ''y'')) timer_a" INT_KEY "to_bin ''x''" None]
  by (simp add: dest_free_def dest_exists_def del: to_bin.simps)

lemma move_select_key: "select_key k (convto_string n) t = raw_key k n t"
  by (simp add: select_key_def raw_key_def)

text \<open>On the decimal text of a select, \<open>move\<close> does what \<open>rename\<close> would do with that select.\<close>

lemma move_query_Run_swaps:
  assumes "rocks_ok R view" "q_value q = convto_string n" "expires_ok (w_expires w)" "\<not> q_finished q"
  shows "\<exists>q' w'. move_query_Run R (found_as q t v) w = Inr (q', w') \<and> swapped R view q w t v (q_key q) n q' w'"
proof (cases "t = INT_KEY \<and> IsExpiring q w > 0")
  case False
  have E: "IsExpiring (found_as q t v) w = IsExpiring q w" by (simp add: IsExpiring_def)
  obtain ok w1 where b: "batch_on R (q_database q) [WPut (raw_key (q_key q) n t) v,
      WDelete (raw_key (q_key q) (q_select_query q) t)] w = (ok, w1)" by fastforce
  have ops: "move_ops q w t v (q_key q) n = [WPut (raw_key (q_key q) n t) v,
      WDelete (raw_key (q_key q) (q_select_query q) t)]"
    using False IsExpiring_time(1) [of q w] by (auto simp: move_ops_def Let_def)
  have run: "move_query_Run R (found_as q t v) w = Inr (batch_reply (found_as q t v) (ok, w1))"
    using False E assms(2) by (auto simp: move_query_Run_def Let_def Swap_def b move_select_key)
  show ?thesis
    unfolding run swapped_def ops using batch_timed [OF assms(1) b] batch_on_view(2) [OF assms(1) b] False
      assms(4) IsExpiring_time(1) [of q w]
    by (cases ok) (auto simp: batch_reply_def timer_moved_def Let_def)
next
  case True
  define T where "T = expire_time (w_expires w) (q_key q, q_select_query q, q_database q)"
  have T: "IsExpiring (found_as q t v) w = T" "0 < T"
    using True IsExpiring_time [of q w] by (simp_all add: IsExpiring_def T_def)
  note T2 = expire_time_range(2) [OF assms(3), of "(q_key q, q_select_query q, q_database q)",
      folded T_def, OF T(2)]
  let ?rec = "WPut (expire_record (q_key q) n (d_name (w_dbs w (q_database q)))) (convto_string (of_int T))"
  have Q: "0 < IsExpiring q w" "t = INT_KEY" using True by simp_all
  obtain ok w1 where b: "batch_on R (q_database q) (move_ops q w t v (q_key q) n) w = (ok, w1)" by fastforce
  have ops: "move_ops q w t v (q_key q) n = [WPut (raw_key (q_key q) n t) v,
      WDelete (raw_key (q_key q) (q_select_query q) t), ?rec]"
    using Q T(2) by (simp add: move_ops_def T_def Let_def)
  note M = timer_move [OF assms(3) T_def T(2), where now = "w_now w1" and ?i2.0 = "(q_key q, n, q_database q)",
      simplified expire_add_def expire_delete_def prod.case]
  have run: "move_query_Run R (found_as q t v) w = Inr
      (if ok then (SetOK ((found_as q t v)\<lparr>q_id := of_int T\<rparr>), w1\<lparr>w_expires :=
          snd (ExpireManager_Add (w_now w1) (q_database q) T (q_key q) n True
            (snd (ExpireManager_Delete (q_database q) (q_key q) (q_select_query q) (w_expires w1))))\<rparr>)
       else (access_set DBL_BATCH_FAILED ((found_as q t v)\<lparr>q_id := of_int T\<rparr>), w1))"
    using b [unfolded ops expire_record_raw] T2 by (simp add: move_query_Run_def move_query_Keys_def
        move_select_key assms(2) Let_def T [unfolded Q(2)] Q Get_def)
  show ?thesis
    unfolding run swapped_def using batch_timed [OF assms(1) b] batch_on_view(2) [OF assms(1) b] M T(2) assms(4)
    by (cases ok) (auto simp: timer_moved_def Q T_def Let_def)
qed

text \<open>
  MOVE of a name that holds something to another select: it is refused when the select holds a
  non-empty text of another type under that name; otherwise the value moves with its type and its
  timer in one batch and nothing else changes, or the batch was refused and nothing changed.
\<close>

lemma move_query_outcome:
  assumes "rocks_ok R view" "ready q w" "\<forall>d. one_type (holds view d w)" "expires_ok (w_expires w)"
    and "own_view view q w = Some (t, v)" "q_value q = convto_string n"
    and "D = view_of view q w (q_key q) n"
  shows "\<exists>r. Prepare R (move_query_Run R) (move_query q) w = Inr r \<and>
    (if dest_taken D t then refused t q w r else moves R view q w t v (q_key q) n r)"
proof -
  let ?q = "move_query q"
  have q: "ready ?q w" "own_view view ?q w = Some (t, v)" "\<not> q_finished q"
    using assms(2,5) by (simp_all add: move_query_def ready_def)
  note G = GetRegistry_found [OF assms(1) q(2)]
  note C = CheckDest_own [OF assms(1,3) q(2), where ?q1.0 = "found_as ?q t v" and s = n and k = "q_key q", simplified]
  let ?c = "CheckDest R n (q_key q) t None (found_as ?q t v) w"
  have D: "?c = 2 \<longleftrightarrow> dest_taken D t"
    using C(1) assms(7) by (simp add: move_query_def)
  have "Prepare R (move_query_Run R) ?q w =
      Prepare_move R (move_query_Run R) (access_set DBL_STATUS_OK ?q) w"
    by (simp add: Prepare_def Prepare_ready [OF q(1)]) (simp add: move_query_def)
  also have "\<dots> = (if ?c = 2 then refuse (invalid_type (found_as ?q t v)) w
      else run_then True (move_query_Run R) (found_as ?q t v) w)"
    using G(1,2) C(2) assms(6)
    by (simp add: Prepare_move_def Let_def) (auto simp: move_query_def)
  finally have P: "Prepare R (move_query_Run R) ?q w = \<dots>" .
  show ?thesis
  proof (cases "dest_taken D t")
    case True
    with P q(3) D show ?thesis
      by (simp add: move_query_def refused_def invalid_type_def)
  next
    case False
    obtain q' w' where run: "move_query_Run R (found_as ?q t v) w = Inr (q', w')"
      "swapped R view q w t v (q_key q) n q' w'"
      using move_query_Run_swaps [OF assms(1) _ assms(4), of ?q n t v] q(3) assms(6) by (auto simp: move_query_def)
    with swapped_moves [OF assms(1,3,5) run(2)] False P D show ?thesis
      by (auto simp: move_query_def run_then_def)
  qed
qed

lemma move_query_witness:
  "\<exists>r. Prepare table_rocks (move_query_Run table_rocks) (move_query (ask ''a'' ''2''))
       (world_of (one_entry INT_KEY (to_bin ''x'')) timer_a) = Inr r \<and>
     moves table_rocks map_of (ask ''a'' ''2'') (world_of (one_entry INT_KEY (to_bin ''x'')) timer_a)
       INT_KEY (to_bin ''x'') ''a'' 2 r"
proof -
  have "''2'' = convto_string 2" by code_simp
  then show ?thesis
    using move_query_outcome [OF table_rocks_ok, of "ask ''a'' ''2''"
        "world_of (one_entry INT_KEY (to_bin ''x'')) timer_a" INT_KEY "to_bin ''x''" 2 None]
    by (simp add: dest_free_def dest_taken_def del: to_bin.simps)
qed

section \<open>A key goes\<close>

text \<open>
  \<open>DEL\<close>: of an expiring plain key the text, the expire record and the timer go together or the
  failure is reported; any other key is deleted without a status.
\<close>

definition key_gone :: "('d \<Rightarrow> string \<rightharpoonup> string) \<Rightarrow> query \<Rightarrow> 'd world \<Rightarrow> 'd world \<Rightarrow> bool" where
  "key_gone view q w w' \<longleftrightarrow> (\<forall>k s. view_of view q w' k s =
     (if k = q_key q \<and> s = q_select_query q then None else view_of view q w k s))"

definition key_same :: "('d \<Rightarrow> string \<rightharpoonup> string) \<Rightarrow> query \<Rightarrow> 'd world \<Rightarrow> 'd world \<Rightarrow> bool" where
  "key_same view q w w' \<longleftrightarrow> (\<forall>k s. view_of view q w' k s = view_of view q w k s)"

text \<open>
  What is written is one batch: the deletion of the record of the key, with that of the expire
  record when a timer runs.
\<close>

definition deleted_key ::
  "'d rocks \<Rightarrow> ('d \<Rightarrow> string \<rightharpoonup> string) \<Rightarrow> query \<Rightarrow> 'd world \<Rightarrow> string \<Rightarrow> query \<Rightarrow> 'd world \<Rightarrow> bool" where
  "deleted_key R view q w t q' w' \<longleftrightarrow>
     (let T = expire_time (w_expires w); i = (q_key q, q_select_query q, q_database q);
          raw = raw_key (q_key q) (q_select_query q) t;
          rec = expire_record (q_key q) (q_select_query q) (d_name (w_dbs w (q_database q)))
      in if t = INT_KEY \<and> T i > 0
         then \<exists>ok. submitted_timed R view (q_database q) [WDelete raw, WDelete rec] w ok w' \<and>
           (if ok
            then q_finished q' \<and> key_gone view q w w' \<and> expire_time (w_expires w') = T(i := - 1) \<and>
                 holds view (q_database q) w' rec = None
            else \<not> q_finished q' \<and> q_access q' = DBL_BATCH_FAILED \<and> key_same view q w w' \<and>
                 w_expires w' = w_expires w)
         else \<exists>ok. submitted R view (q_database q) [WDelete raw] w ok w' \<and> q_finished q' \<and>
           (if ok then key_gone view q w w' else key_same view q w w'))"



section \<open>A key is copied or looked for\<close>

text \<open>
  COPY of a name that holds nothing onto a free name is not refused: it reports the status OK
  and writes a record of the type NULL under the destination name, or the store refused the write.
\<close>

lemma copy_query_missing:
  assumes "rocks_ok R view" "ready q w" "\<forall>d. one_type (holds view d w)"
    and "own_view view q w = None" "view_of view q w (q_value q) (q_select_query q) = None"
  shows "\<exists>q' w'. Prepare R (copy_query_Run R) (copy_query q) w = Inr (True, q', w') \<and>
    q_access q' = DBL_STATUS_OK \<and>
    (holds view (q_database q) w' (raw_key (q_value q) (q_select_query q) PROCESS_NULL) \<noteq> None \<or>
     (\<forall>d. holds view d w' = holds view d w))"
proof -
  let ?q = "access_set DBL_STATUS_OK ((copy_query q)\<lparr>q_identified := PROCESS_NULL\<rparr>)"
  have q: "ready (copy_query q) w" using assms(2) by (simp add: copy_query_def)
  have G: "GetRegistry R (q_select_query q) (q_key q) True (access_set DBL_STATUS_OK (copy_query q)) w = (False, ?q)"
    using GetRegistry_eq [OF assms(1), of "access_set DBL_STATUS_OK (copy_query q)" True w] assms(4)
    by (simp add: copy_query_def key_view_None)
  have C: "CheckDest R (q_select_query q) (q_value q) PROCESS_NULL None ?q w \<in> {0, 1}"
    using assms(5)
    by (auto simp: CheckDest_def check_dest_view [OF assms(1) assms(3) [rule_format]] copy_query_def)
  have "Prepare R (copy_query_Run R) (copy_query q) w =
      Prepare_copy R (copy_query_Run R) (access_set DBL_STATUS_OK (copy_query q)) w"
    by (simp add: Prepare_def Prepare_ready [OF q]) (simp add: copy_query_def)
  also have "\<dots> = run_then True (copy_query_Run R) ?q w"
    using G C by (auto simp: Prepare_copy_def copy_query_def Let_def)
  finally have P: "Prepare R (copy_query_Run R) (copy_query q) w = \<dots>" .
  have "PROCESS_NULL \<noteq> INT_KEY" by (simp add: INT_defs)
  obtain ok w1 where w: "Write R (raw_key (q_value q) (q_select_query q) PROCESS_NULL)
      (rd_value (Get R (q_dest ?q) ?q w)) ?q w = (ok, w1)" by fastforce
  with \<open>PROCESS_NULL \<noteq> INT_KEY\<close> have "run_then True (copy_query_Run R) ?q w = Inr (True, ?q, w1)"
    by (simp add: copy_query_Run_def run_then_def copy_query_def)
  then show ?thesis
    unfolding P using Write_view(1) [OF assms(1) w] by (cases ok) (auto simp: copy_query_def)
qed

lemma copy_query_missing_witness:
  "\<exists>q' w'. Prepare table_rocks (copy_query_Run table_rocks) (copy_query (ask ''b'' ''c''))
       (one_world INT_KEY (to_bin ''x'')) = Inr (True, q', w') \<and>
     map_of (rocks_of 0 w') (raw_key ''c'' 1 PROCESS_NULL) \<noteq> None"
proof -
  have "case Prepare table_rocks (copy_query_Run table_rocks) (copy_query (ask ''b'' ''c''))
      (one_world INT_KEY (to_bin ''x'')) of Inl _ \<Rightarrow> False
      | Inr (b, q', w') \<Rightarrow> map_of (rocks_of 0 w') (raw_key ''c'' 1 PROCESS_NULL) = Some []"
    by code_simp
  with copy_query_missing [OF table_rocks_ok, of "ask ''b'' ''c''" "one_world INT_KEY (to_bin ''x'')"]
  show ?thesis by (auto simp del: to_bin.simps)
qed

text \<open>
  EXISTS always finishes, never changes the world and answers 1 when the name holds something
  of any type and 0 otherwise.
\<close>

lemma exists_query_outcome:
  assumes "rocks_ok R view" "ready q w"
  shows "\<exists>q'. Prepare R exists_query_Run (exists_query q) w = Inr (True, q', w) \<and> q_finished q' \<and>
    q_response q' = (if own_view view q w = None then ''0'' else ''1'')"
proof -
  have q: "ready (exists_query q) w" using assms(2) by (simp add: exists_query_def)
  let ?q = "access_set DBL_STATUS_OK (exists_query q)"
  have P: "Prepare R exists_query_Run (exists_query q) w =
      run_then True exists_query_Run (snd (GetRegistry R (q_select_query q) (q_key q) False ?q w)) w"
    by (simp add: Prepare_def Prepare_ready [OF q]) (simp add: exists_query_def)
  show ?thesis
  proof (cases "types_of (holds view (q_database q) w) (q_key q) (q_select_query q)")
    case Nil
    then show ?thesis
      using GetRegistry_eq [OF assms(1), of ?q False w]
      by (simp add: P [unfolded exists_query_def] exists_query_def exists_query_Run_def run_then_def key_view_None)
  next
    case (Cons t ts)
    then have "t \<in> set (types_of (holds view (q_database q) w) (q_key q) (q_select_query q))" by simp
    then have t: "t \<in> set TypeRegs" unfolding types_of_set by blast
    then have "t \<noteq> []" "t \<noteq> PROCESS_NULL" by (auto simp: TypeRegs_def INT_defs)
    with Cons show ?thesis
      using GetRegistry_eq [OF assms(1), of ?q False w]
      by (simp add: P [unfolded exists_query_def] exists_query_def exists_query_Run_def run_then_def key_view_None)
  qed
qed

lemma exists_query_witness:
  "\<exists>q'. Prepare table_rocks exists_query_Run (exists_query (ask ''a'' [])) (one_world INT_KEY (to_bin ''x''))
       = Inr (True, q', one_world INT_KEY (to_bin ''x'')) \<and> q_response q' = ''1''"
  using exists_query_outcome [OF table_rocks_ok, of "ask ''a'' []" "one_world INT_KEY (to_bin ''x'')"]
  by (auto simp del: to_bin.simps)

end
