(* ===== verification/Vector_Handler.thy ===== *)
theory Vector_Handler
  imports List_Handler
begin

text \<open>
  \<open>src/brldb/vector_handler.cpp\<close> and \<open>include/brldb/vector_handler.h\<close>: the vector container.
  It differs from the list handler in \<open>Remove\<close>, which erases the iterator \<open>std::find\<close> returns
  without looking at it, and in what leaves \<open>LastMsg\<close> alone.
\<close>

section \<open>State and operations\<close>

record vector_handler =
  vh_mhandler :: "string list"
  vh_LastMsg :: last_msg

definition VectorHandler :: vector_handler where
  "VectorHandler = \<lparr>vh_mhandler = [], vh_LastMsg = None\<rparr>"

abbreviation vh_msg :: "HANDLER_MSG \<Rightarrow> vector_handler \<Rightarrow> vector_handler" where
  "vh_msg m h \<equiv> h\<lparr>vh_LastMsg := Some m\<rparr>"

definition VectorHandler_Add :: "string \<Rightarrow> vector_handler \<Rightarrow> vector_handler" where
  "VectorHandler_Add key h =
     (if key = [] then vh_msg HANDLER_MSG_INVALID h
      else vh_msg HANDLER_MSG_OK (h\<lparr>vh_mhandler := vh_mhandler h @ [key]\<rparr>))"

definition VectorHandler_Create :: "string \<Rightarrow> vector_handler" where
  "VectorHandler_Create load =
     fold (\<lambda>m. VectorHandler_Add (to_string m)) (colon_tokens load) VectorHandler"

definition VectorHandler_Erase :: "vector_handler \<Rightarrow> vector_handler" where
  "VectorHandler_Erase h = vh_msg HANDLER_MSG_OK (h\<lparr>vh_mhandler := []\<rparr>)"

definition VectorHandler_PopFront :: "vector_handler \<Rightarrow> vector_handler" where
  "VectorHandler_PopFront h =
     (if vh_mhandler h = [] then vh_msg HANDLER_MSG_OK h
      else if length (vh_mhandler h) = 1 then vh_msg HANDLER_MSG_OK (VectorHandler_Erase h)
      else vh_msg HANDLER_MSG_OK (h\<lparr>vh_mhandler := tl (vh_mhandler h)\<rparr>))"

definition VectorHandler_PopBack :: "vector_handler \<Rightarrow> vector_handler" where
  "VectorHandler_PopBack h =
     (if vh_mhandler h = [] then vh_msg HANDLER_MSG_NOT_FOUND h
      else if length (vh_mhandler h) = 1 then vh_msg HANDLER_MSG_OK (VectorHandler_Erase h)
      else vh_msg HANDLER_MSG_OK (h\<lparr>vh_mhandler := butlast (vh_mhandler h)\<rparr>))"

definition VectorHandler_Exist :: "string \<Rightarrow> vector_handler \<Rightarrow> bool" where
  "VectorHandler_Exist key h \<longleftrightarrow> key \<in> set (vh_mhandler h)"

text \<open>\<open>erase(find(\<dots>))\<close>: erasing the end iterator is undefined.\<close>

definition VectorHandler_Remove :: "string \<Rightarrow> vector_handler \<Rightarrow> vector_handler res" where
  "VectorHandler_Remove key h =
     (if key = [] then Inr (vh_msg HANDLER_MSG_INVALID h)
      else if length (vh_mhandler h) = 1 then Inr (vh_msg HANDLER_MSG_OK (VectorHandler_Erase h))
      else (case remove_loop key (vh_mhandler h) of
              Some l \<Rightarrow> Inr ((vh_msg HANDLER_MSG_OK h)\<lparr>vh_mhandler := l\<rparr>)
            | None \<Rightarrow> Inl Undefined_behaviour))"

definition VectorHandler_Index :: "u32 \<Rightarrow> vector_handler \<Rightarrow> (string \<times> vector_handler) res" where
  "VectorHandler_Index pos h =
     (if vh_mhandler h = [] then Inl Null_string
      else (case index_loop pos (vh_mhandler h) 0 of
              Some item \<Rightarrow> Inr (item, vh_msg HANDLER_MSG_OK h)
            | None \<Rightarrow> Inr ([], vh_msg HANDLER_MSG_NOT_FOUND h)))"

definition VectorHandler_IsNumeric :: "vector_handler \<Rightarrow> bool" where
  "VectorHandler_IsNumeric h = all_numeric (vh_mhandler h)"

definition VectorHandler_GetSMA :: "'n dbl \<Rightarrow> vector_handler \<Rightarrow> 'n" where
  "VectorHandler_GetSMA D h =
     d_div D (sum_from D (vh_mhandler h) (d_zero D)) (d_of_size D (length (vh_mhandler h)))"

definition VectorHandler_GetHigh :: "'n dbl \<Rightarrow> vector_handler \<Rightarrow> 'n" where
  "VectorHandler_GetHigh D h = highest_from D (vh_mhandler h) (d_zero D)"

definition VectorHandler_Sum :: "'n dbl \<Rightarrow> vector_handler \<Rightarrow> 'n" where
  "VectorHandler_Sum D h = sum_from D (vh_mhandler h) (d_zero D)"

definition VectorHandler_GetLow :: "'n dbl \<Rightarrow> vector_handler \<Rightarrow> 'n res" where
  "VectorHandler_GetLow D h =
     (if vh_mhandler h = [] then Inl Undefined_behaviour
      else Inr (lowest_from D (vh_mhandler h) (d_of_string D (hd (vh_mhandler h)))))"

definition VectorHandler_as_string :: "vector_handler \<Rightarrow> string" where
  "VectorHandler_as_string h = as_string_loop (length (vh_mhandler h)) (vh_mhandler h) 0 []"

definition VectorHandler_Find :: "string \<Rightarrow> vector_handler \<Rightarrow> string list \<times> vector_handler" where
  "VectorHandler_Find key h = (match_items key (vh_mhandler h) [], vh_msg HANDLER_MSG_OK h)"

definition VectorHandler_Reverse :: "vector_handler \<Rightarrow> vector_handler" where
  "VectorHandler_Reverse h = h\<lparr>vh_mhandler := rev (vh_mhandler h)\<rparr>"

definition VectorHandler_Repeats :: "string \<Rightarrow> vector_handler \<Rightarrow> u32 \<times> vector_handler" where
  "VectorHandler_Repeats word h =
     (if vh_mhandler h = [] then (0, h)
      else (repeats_loop word (vh_mhandler h) 0, vh_msg HANDLER_MSG_OK h))"

definition VectorHandler_Front :: "vector_handler \<Rightarrow> string \<times> vector_handler" where
  "VectorHandler_Front h =
     (if vh_mhandler h = [] then ([], vh_msg HANDLER_MSG_NOT_FOUND h)
      else (hd (vh_mhandler h), vh_msg HANDLER_MSG_OK h))"

definition VectorHandler_Back :: "vector_handler \<Rightarrow> string \<times> vector_handler" where
  "VectorHandler_Back h =
     (if vh_mhandler h = [] then ([], vh_msg HANDLER_MSG_NOT_FOUND h)
      else (last (vh_mhandler h), vh_msg HANDLER_MSG_OK h))"

definition VectorHandler_Count :: "vector_handler \<Rightarrow> u32 \<times> vector_handler" where
  "VectorHandler_Count h = (of_nat (length (vh_mhandler h)), vh_msg HANDLER_MSG_OK h)"

definition VectorHandler_Resize :: "u32 \<Rightarrow> vector_handler \<Rightarrow> vector_handler" where
  "VectorHandler_Resize sz h =
     (vh_msg HANDLER_MSG_OK h)\<lparr>vh_mhandler := resize_list (unat sz) (vh_mhandler h)\<rparr>"

definition VectorHandler_Sort :: "vector_handler \<Rightarrow> vector_handler" where
  "VectorHandler_Sort h = (vh_msg HANDLER_MSG_OK h)\<lparr>vh_mhandler := sort (vh_mhandler h)\<rparr>"

section \<open>The text form and the members on the vector\<close>

definition wf_vector :: "vector_handler \<Rightarrow> bool" where
  "wf_vector h \<longleftrightarrow> [] \<notin> set (vh_mhandler h)"

lemma VectorHandler_as_string_eq:
  "VectorHandler_as_string h = concat (map (\<lambda>k. to_bin k @ '':'') (vh_mhandler h))"
  by (simp add: VectorHandler_as_string_def as_string_loop_eq)

lemma fold_Add_vector:
  "vh_mhandler (fold (\<lambda>m. VectorHandler_Add (to_string m)) ts h) =
     vh_mhandler h @ filter (\<lambda>t. t \<noteq> []) (map to_string ts)"
  by (induction ts arbitrary: h) (auto simp: VectorHandler_Add_def)

lemma VectorHandler_Create_eq:
  "vh_mhandler (VectorHandler_Create s) = filter (\<lambda>t. t \<noteq> []) (map to_string (colon_tokens s))"
  by (simp add: VectorHandler_Create_def fold_Add_vector VectorHandler_def)

lemma wf_vector_Create [simp]: "wf_vector (VectorHandler_Create s)"
  by (auto simp: wf_vector_def VectorHandler_Create_eq)

lemma Create_as_string_vector:
  "wf_vector h \<Longrightarrow> vh_mhandler (VectorHandler_Create (VectorHandler_as_string h)) = vh_mhandler h"
  by (auto simp: wf_vector_def VectorHandler_Create_eq VectorHandler_as_string_eq colon_tokens_encoded
      comp_def intro!: filter_True)

interpretation vh: handler_codec VectorHandler_Create VectorHandler_as_string vh_mhandler wf_vector
  by unfold_locales (simp_all add: Create_as_string_vector, simp add: VectorHandler_as_string_eq)

named_theorems vector_ops "what each member of the vector handler does to the vector"

lemma vh_items [vector_ops, simp]:
  "vh_mhandler VectorHandler = []"
  "vh_mhandler (VectorHandler_Add key h) = (if key = [] then vh_mhandler h else vh_mhandler h @ [key])"
  "vh_mhandler (VectorHandler_Erase h) = []"
  "vh_mhandler (VectorHandler_PopFront h) = tl (vh_mhandler h)"
  "vh_mhandler (VectorHandler_PopBack h) = butlast (vh_mhandler h)"
  "vh_mhandler (VectorHandler_Reverse h) = rev (vh_mhandler h)"
  "vh_mhandler (VectorHandler_Sort h) = sort (vh_mhandler h)"
  "vh_mhandler (VectorHandler_Resize n h) = resize_list (unat n) (vh_mhandler h)"
  "vh_mhandler (snd (VectorHandler_Count h)) = vh_mhandler h"
  "vh_mhandler (snd (VectorHandler_Front h)) = vh_mhandler h"
  "vh_mhandler (snd (VectorHandler_Back h)) = vh_mhandler h"
  by (auto simp: VectorHandler_def VectorHandler_Add_def VectorHandler_Erase_def VectorHandler_PopFront_def
      VectorHandler_PopBack_def VectorHandler_Reverse_def VectorHandler_Sort_def VectorHandler_Resize_def
      VectorHandler_Count_def VectorHandler_Front_def VectorHandler_Back_def length_Suc_conv)

text \<open>\<open>Remove\<close> is safe exactly on the vectors its callers have tested with \<open>Exist\<close>.\<close>

lemma VectorHandler_Remove_present:
  assumes "VectorHandler_Exist key h" "key \<noteq> []"
  obtains h' where "VectorHandler_Remove key h = Inr h'"
    "vh_mhandler h' = remove1 key (vh_mhandler h)" "vh_LastMsg h' = Some HANDLER_MSG_OK"
proof (cases "length (vh_mhandler h) = 1")
  case True
  with assms have "remove1 key (vh_mhandler h) = []"
    by (auto simp: VectorHandler_Exist_def length_Suc_conv)
  with True assms show thesis
    by (intro that [of "vh_msg HANDLER_MSG_OK (VectorHandler_Erase h)"])
      (simp_all add: VectorHandler_Remove_def)
next
  case False
  with assms show thesis
    by (intro that [of "(vh_msg HANDLER_MSG_OK h)\<lparr>vh_mhandler := remove1 key (vh_mhandler h)\<rparr>"])
      (simp_all add: VectorHandler_Remove_def VectorHandler_Exist_def remove_loop_eq)
qed

lemma VectorHandler_Remove_absent:
  "\<not> VectorHandler_Exist key h \<Longrightarrow> key \<noteq> [] \<Longrightarrow> length (vh_mhandler h) \<noteq> 1 \<Longrightarrow>
   VectorHandler_Remove key h = Inl Undefined_behaviour"
  by (simp add: VectorHandler_Remove_def VectorHandler_Exist_def remove_loop_eq)

end
