(* ===== verification/VectorQueries.thy ===== *)
theory VectorQueries
  imports Paging Vector_Handler Sample_Store
begin

text \<open>
  The queries of \<open>src/brldb/vectors.cpp\<close>: the constructor of each class, its \<open>Run\<close> over the
  vector handler, and the reply of its \<open>Process\<close>.  Their endings differ from those of the list
  queries: most report success after deleting an emptied key, and \<open>vdel_query\<close> reports it even
  after a failed write.
\<close>

section \<open>Shared endings\<close>

definition store_vector :: "'d rocks \<Rightarrow> vector_handler \<Rightarrow> query \<Rightarrow> 'd world \<Rightarrow> query \<times> 'd world" where
  "store_vector R handler q w =
     (let (count, handler) = VectorHandler_Count handler
      in if count > 0 then write_dest R (VectorHandler_as_string handler) q w
         else (SetOK q, Delete R (q_dest q) q w))"

section \<open>Adding elements\<close>

definition vpush_query :: "query \<Rightarrow> query" where
  "vpush_query q = of_class QUERY_TYPE_WRITE INT_VECTOR q"

definition vpush_query_Run :: "'d rocks \<Rightarrow> 'd run" where
  "vpush_query_Run R q w =
     (if q_value q = [] then Inr (access_set DBL_MISS_ARGS q, w)
      else
        (let result = Get R (q_dest q) q w;
             handler = VectorHandler_Add (q_value q)
               (if \<not> rd_status result then VectorHandler else VectorHandler_Create (rd_value result))
         in bind_res (GetLast (vh_LastMsg handler)) (\<lambda>msg.
              if msg = HANDLER_MSG_OK then Inr (write_dest R (VectorHandler_as_string handler) q w)
              else Inr (access_set DBL_UNABLE_WRITE q, w))))"

definition vpush_query_Process :: "query \<Rightarrow> string" where
  "vpush_query_Process q = PROCESS_OK"

definition vpushnx_query :: "query \<Rightarrow> query" where
  "vpushnx_query q = of_class QUERY_TYPE_WRITE INT_VECTOR q"

definition vpushnx_query_Run :: "'d rocks \<Rightarrow> 'd run" where
  "vpushnx_query_Run R q w =
     (let handler = VectorHandler_Create (rd_value (Get R (q_dest q) q w))
      in if VectorHandler_Exist (q_value q) handler then Inr (access_set DBL_ENTRY_EXISTS q, w)
         else Inr (write_dest R (VectorHandler_as_string (VectorHandler_Add (q_value q) handler)) q w))"

definition vpushnx_query_Process :: "query \<Rightarrow> string" where
  "vpushnx_query_Process q = PROCESS_OK"

section \<open>Rearranging and removing elements\<close>

definition vsort_query :: "query \<Rightarrow> query" where
  "vsort_query q = of_class QUERY_TYPE_READ INT_VECTOR q"

definition vsort_query_Run :: "'d rocks \<Rightarrow> 'd run" where
  "vsort_query_Run R q w =
     (let result = Get R (q_dest q) q w
      in if \<not> rd_status result then Inr (access_set DBL_NOT_FOUND q, w)
         else Inr (write_dest R (VectorHandler_as_string
                (VectorHandler_Sort (VectorHandler_Create (rd_value result)))) q w))"

definition vsort_query_Process :: "query \<Rightarrow> string" where
  "vsort_query_Process q = PROCESS_OK"

definition vreverse_query :: "query \<Rightarrow> query" where
  "vreverse_query q = of_class QUERY_TYPE_READ INT_VECTOR q"

definition vreverse_query_Run :: "'d rocks \<Rightarrow> 'd run" where
  "vreverse_query_Run R q w =
     (let result = Get R (q_dest q) q w
      in if \<not> rd_status result then Inr (access_set DBL_NOT_FOUND q, w)
         else Inr (write_dest R (VectorHandler_as_string
                (VectorHandler_Reverse (VectorHandler_Create (rd_value result)))) q w))"

definition vreverse_query_Process :: "query \<Rightarrow> string" where
  "vreverse_query_Process q = PROCESS_OK"

definition vresize_query :: "query \<Rightarrow> query" where
  "vresize_query q = of_class QUERY_TYPE_READ INT_VECTOR q"

definition vresize_query_Run :: "'d rocks \<Rightarrow> 'd run" where
  "vresize_query_Run R q w =
     (let result = Get R (q_dest q) q w
      in if \<not> rd_status result then Inr (access_set DBL_NOT_FOUND q, w)
         else Inr (store_vector R (VectorHandler_Resize (convto_num_uint (q_value q))
                (VectorHandler_Create (rd_value result))) q w))"

definition vresize_query_Process :: "query \<Rightarrow> string" where
  "vresize_query_Process q = PROCESS_OK"

definition vpop_front_query :: "query \<Rightarrow> query" where
  "vpop_front_query q = of_class QUERY_TYPE_READ INT_VECTOR q"

definition vpop_front_query_Run :: "'d rocks \<Rightarrow> 'd run" where
  "vpop_front_query_Run R q w =
     Inr (store_vector R (VectorHandler_PopFront (VectorHandler_Create (rd_value (Get R (q_dest q) q w)))) q w)"

definition vpop_front_query_Process :: "query \<Rightarrow> string" where
  "vpop_front_query_Process q = PROCESS_OK"

definition vpop_back_query :: "query \<Rightarrow> query" where
  "vpop_back_query q = of_class QUERY_TYPE_READ INT_VECTOR q"

definition vpop_back_query_Run :: "'d rocks \<Rightarrow> 'd run" where
  "vpop_back_query_Run R q w =
     Inr (store_vector R (VectorHandler_PopBack (VectorHandler_Create (rd_value (Get R (q_dest q) q w)))) q w)"

definition vpop_back_query_Process :: "query \<Rightarrow> string" where
  "vpop_back_query_Process q = PROCESS_OK"

definition vdel_query :: "query \<Rightarrow> query" where
  "vdel_query q = of_class QUERY_TYPE_DELETE INT_VECTOR q"

definition vdel_query_Run :: "'d rocks \<Rightarrow> 'd run" where
  "vdel_query_Run R q w =
     (let handler = VectorHandler_Create (rd_value (Get R (q_dest q) q w))
      in if \<not> VectorHandler_Exist (q_value q) handler then Inr (access_set DBL_NOT_FOUND q, w)
         else bind_res (VectorHandler_Remove (q_value q) handler) (\<lambda>handler.
           (let (q1, w1) = store_vector R handler q w in Inr (SetOK q1, w1))))"

definition vdel_query_Process :: "query \<Rightarrow> string" where
  "vdel_query_Process q = PROCESS_OK"

section \<open>Reading elements\<close>

definition vpos_query :: "query \<Rightarrow> query" where
  "vpos_query q = of_class QUERY_TYPE_READ INT_VECTOR q"

definition vpos_query_Run :: "'d rocks \<Rightarrow> 'd run" where
  "vpos_query_Run R q w =
     bind_res (VectorHandler_Index (convto_num_uint (q_value q))
                 (VectorHandler_Create (rd_value (Get R (q_dest q) q w)))) (\<lambda>(reply, handler).
       bind_res (GetLast (vh_LastMsg handler)) (\<lambda>msg.
         if msg = HANDLER_MSG_NOT_FOUND then Inr (access_set DBL_NOT_FOUND q, w)
         else Inr (SetOK (q\<lparr>q_response := reply\<rparr>), w)))"

definition vpos_query_Process :: "query \<Rightarrow> string" where
  "vpos_query_Process q = Helpers_Format (q_response q)"

definition vcount_query :: "query \<Rightarrow> query" where
  "vcount_query q = of_class QUERY_TYPE_READ INT_VECTOR q"

definition vcount_query_Run :: "'d rocks \<Rightarrow> 'd run" where
  "vcount_query_Run R q w =
     (let result = Get R (q_dest q) q w
      in if \<not> rd_status result then Inr (access_set DBL_NOT_FOUND q, w)
         else Inr (SetOK (q\<lparr>q_counter :=
                fst (VectorHandler_Count (VectorHandler_Create (rd_value result)))\<rparr>), w))"

definition vcount_query_Process :: "query \<Rightarrow> string" where
  "vcount_query_Process q = c_str (convto_string (q_counter q))"

definition vexist_query :: "query \<Rightarrow> query" where
  "vexist_query q = of_class QUERY_TYPE_READ INT_VECTOR q"

definition vexist_query_Run :: "'d rocks \<Rightarrow> 'd run" where
  "vexist_query_Run R q w =
     (let result = Get R (q_dest q) q w
      in if \<not> rd_status result then Inr (access_set DBL_NOT_FOUND q, w)
         else Inr (SetOK (q\<lparr>q_response :=
                (if VectorHandler_Exist (q_value q) (VectorHandler_Create (rd_value result))
                 then ''1'' else ''0'')\<rparr>), w))"

definition vexist_query_Process :: "query \<Rightarrow> string" where
  "vexist_query_Process q = c_str (q_response q)"

definition vrepeats_query :: "query \<Rightarrow> query" where
  "vrepeats_query q = of_class QUERY_TYPE_READ INT_VECTOR q"

definition vrepeats_query_Run :: "'d rocks \<Rightarrow> 'd run" where
  "vrepeats_query_Run R q w =
     (let result = Get R (q_dest q) q w
      in if \<not> rd_status result then Inr (access_set DBL_NOT_FOUND q, w)
         else Inr (SetOK (q\<lparr>q_response := convto_string
                (fst (VectorHandler_Repeats (q_value q) (VectorHandler_Create (rd_value result))))\<rparr>), w))"

definition vrepeats_query_Process :: "query \<Rightarrow> string" where
  "vrepeats_query_Process q = c_str (q_response q)"

definition vback_query :: "query \<Rightarrow> query" where
  "vback_query q = of_class QUERY_TYPE_READ INT_VECTOR q"

definition vback_query_Run :: "'d rocks \<Rightarrow> 'd run" where
  "vback_query_Run R q w =
     (let result = Get R (q_dest q) q w
      in if \<not> rd_status result then Inr (access_set DBL_NOT_FOUND q, w)
         else (let (response, handler) = VectorHandler_Back (VectorHandler_Create (rd_value result));
                    q1 = q\<lparr>q_response := response\<rparr>
               in bind_res (GetLast (vh_LastMsg handler)) (\<lambda>msg.
                    if msg = HANDLER_MSG_NOT_FOUND then Inr (access_set DBL_NOT_FOUND q1, w)
                    else Inr (SetOK q1, w))))"

definition vback_query_Process :: "query \<Rightarrow> string" where
  "vback_query_Process q = Helpers_Format (q_response q)"

definition vfront_query :: "query \<Rightarrow> query" where
  "vfront_query q = of_class QUERY_TYPE_READ INT_VECTOR q"

definition vfront_query_Run :: "'d rocks \<Rightarrow> 'd run" where
  "vfront_query_Run R q w =
     (let result = Get R (q_dest q) q w
      in if \<not> rd_status result then Inr (access_set DBL_NOT_FOUND q, w)
         else (let (response, handler) = VectorHandler_Front (VectorHandler_Create (rd_value result));
                    q1 = q\<lparr>q_response := response\<rparr>
               in bind_res (GetLast (vh_LastMsg handler)) (\<lambda>msg.
                    if msg = HANDLER_MSG_NOT_FOUND then Inr (access_set DBL_NOT_FOUND q1, w)
                    else Inr (SetOK q1, w))))"

definition vfront_query_Process :: "query \<Rightarrow> string" where
  "vfront_query_Process q = Helpers_Format (q_response q)"

definition vavg_query :: "query \<Rightarrow> query" where
  "vavg_query q = of_class QUERY_TYPE_READ INT_VECTOR q"

definition vavg_query_Run :: "'n dbl \<Rightarrow> 'd rocks \<Rightarrow> 'd run" where
  "vavg_query_Run D R q w =
     (let result = Get R (q_dest q) q w
      in if \<not> rd_status result then Inr (access_set DBL_NOT_FOUND q, w)
         else (let handler = VectorHandler_Create (rd_value result)
               in if \<not> VectorHandler_IsNumeric handler then Inr (access_set DBL_INVALID_RANGE q, w)
                  else Inr (SetOK (q\<lparr>q_response := d_show D (VectorHandler_GetSMA D handler)\<rparr>), w)))"

definition vavg_query_Process :: "query \<Rightarrow> string" where
  "vavg_query_Process q = c_str (q_response q)"

definition vhigh_query :: "query \<Rightarrow> query" where
  "vhigh_query q = of_class QUERY_TYPE_READ INT_VECTOR q"

definition vhigh_query_Run :: "'n dbl \<Rightarrow> 'd rocks \<Rightarrow> 'd run" where
  "vhigh_query_Run D R q w =
     (let result = Get R (q_dest q) q w
      in if \<not> rd_status result then Inr (access_set DBL_NOT_FOUND q, w)
         else (let handler = VectorHandler_Create (rd_value result)
               in if \<not> VectorHandler_IsNumeric handler then Inr (access_set DBL_INVALID_RANGE q, w)
                  else Inr (SetOK (q\<lparr>q_response := d_show D (VectorHandler_GetHigh D handler)\<rparr>), w)))"

definition vhigh_query_Process :: "query \<Rightarrow> string" where
  "vhigh_query_Process q = c_str (q_response q)"

definition vsum_query :: "query \<Rightarrow> query" where
  "vsum_query q = of_class QUERY_TYPE_READ INT_VECTOR q"

definition vsum_query_Run :: "'n dbl \<Rightarrow> 'd rocks \<Rightarrow> 'd run" where
  "vsum_query_Run D R q w =
     (let result = Get R (q_dest q) q w
      in if \<not> rd_status result then Inr (access_set DBL_NOT_FOUND q, w)
         else (let handler = VectorHandler_Create (rd_value result)
               in if \<not> VectorHandler_IsNumeric handler then Inr (access_set DBL_INVALID_RANGE q, w)
                  else Inr (SetOK (q\<lparr>q_response := d_show D (VectorHandler_Sum D handler)\<rparr>), w)))"

definition vsum_query_Process :: "query \<Rightarrow> string" where
  "vsum_query_Process q = c_str (q_response q)"

definition vlow_query :: "query \<Rightarrow> query" where
  "vlow_query q = of_class QUERY_TYPE_READ INT_VECTOR q"

definition vlow_query_Run :: "'n dbl \<Rightarrow> 'd rocks \<Rightarrow> 'd run" where
  "vlow_query_Run D R q w =
     (let result = Get R (q_dest q) q w
      in if \<not> rd_status result then Inr (access_set DBL_NOT_FOUND q, w)
         else (let handler = VectorHandler_Create (rd_value result)
               in if \<not> VectorHandler_IsNumeric handler then Inr (access_set DBL_INVALID_RANGE q, w)
                  else bind_res (VectorHandler_GetLow D handler) (\<lambda>low.
                         Inr (SetOK (q\<lparr>q_response := d_show D low\<rparr>), w))))"

definition vlow_query_Process :: "query \<Rightarrow> string" where
  "vlow_query_Process q = c_str (q_response q)"

definition vget_query :: "query \<Rightarrow> query" where
  "vget_query q = of_class QUERY_TYPE_READ INT_VECTOR q"

definition vget_items :: "query \<Rightarrow> string list \<Rightarrow> string page" where
  "vget_items q items =
     (if q_flags q = QUERY_FLAGS_CORE
      then page_start\<lparr>p_result := items, p_total := of_nat (length items)\<rparr>
      else if q_flags q = QUERY_FLAGS_COUNT then page_start\<lparr>p_total := of_nat (length items)\<rparr>
      else page_items push_back (q_offset q) (q_limit q) items page_start)"

definition vget_query_Run :: "query \<Rightarrow> 'd rocks \<Rightarrow> 'd run" where
  "vget_query_Run fresh R q w =
     (let result = Get R (q_dest q) q w
      in if \<not> rd_status result then Inr (access_set DBL_NOT_FOUND q, w)
         else (let p = vget_items q (vh_mhandler (VectorHandler_Create (rd_value result)));
                    request = (\<lambda>s. (vget_query fresh)\<lparr>q_key := q_key q, q_user := q_user q,
                      q_partial := True, q_subresult := fst s, q_VecData := snd s, q_finished := True\<rparr>)
               in Inr (SetOK (q\<lparr>q_subresult := p_tracker p + 1, q_partial := False,
                               q_counter := p_total p, q_VecData := p_result p\<rparr>),
                       attach_pages request p w)))"

text \<open>\<open>vfind_query\<close> reads the store itself, not the loaded copy.\<close>

definition vfind_query :: "query \<Rightarrow> query" where
  "vfind_query q = of_class QUERY_TYPE_ITER INT_VECTOR q"

definition vfind_query_Run :: "query \<Rightarrow> 'd rocks \<Rightarrow> 'd run" where
  "vfind_query_Run fresh R q w =
     (let (ok, dbvalue) = rget R (rocks_of (q_database q) w) (q_dest q)
      in if \<not> ok then Inr (access_set DBL_NOT_FOUND q, w)
         else
           (let query_result = fst (VectorHandler_Find (q_value q) (VectorHandler_Create dbvalue));
                p = page_items push_back (q_offset q) (q_limit q) query_result page_start;
                request = (\<lambda>s. (vfind_query fresh)\<lparr>q_key := q_key q, q_user := q_user q,
                  q_partial := True, q_subresult := fst s, q_VecData := snd s, q_finished := True\<rparr>)
            in Inr (SetOK (q\<lparr>q_subresult := p_tracker p + 1, q_partial := False,
                            q_counter := p_aux p, q_VecData := p_result p\<rparr>),
                    attach_pages request p w)))"

section \<open>What the vector queries leave\<close>

text \<open>The vector a stored text stands for.\<close>

definition vector_text :: "string \<Rightarrow> string list" where
  "vector_text v = vh_mhandler (VectorHandler_Create v)"

lemma vector_text_as_string: "wf_vector h \<Longrightarrow> vector_text (VectorHandler_as_string h) = vh_mhandler h"
  by (simp add: vector_text_def vh.load_save)

lemma wf_vector_Sort: "wf_vector h \<Longrightarrow> wf_vector (VectorHandler_Sort h)"
  by (simp add: wf_vector_def)

text \<open>
  VSORT leaves the stored vector sorted, or reports the refused write and changes nothing.
\<close>

lemma vsort_query_outcome:
  assumes "rocks_ok R view" "ready q w"
  shows "\<exists>r. Prepare R (vsort_query_Run R) (vsort_query q) w = Inr r \<and>
    read_outcome view INT_VECTOR DBL_NOT_FOUND
      (\<lambda>v q' w'. \<exists>v'. vector_text v' = sort (vector_text v) \<and>
         stored_or_failed view q w INT_VECTOR v' q' w') q w r"
  unfolding vsort_query_def
proof (rule READ_outcome [OF assms], goal_cases)
  case (1 v)
  let ?h = "VectorHandler_Sort (VectorHandler_Create v)"
  have "vector_text (VectorHandler_as_string ?h) = sort (vector_text v)"
    by (subst vector_text_as_string) (auto simp: vector_text_def wf_vector_Sort)
  with write_dest_ex [OF assms INT_in_TypeRegs(6),
      of "found_as (of_class QUERY_TYPE_READ INT_VECTOR q) INT_VECTOR v" "VectorHandler_as_string ?h"] 1
  show ?case by (auto simp: vsort_query_Run_def)
qed

definition sample_vector :: string where
  "sample_vector = VectorHandler_as_string
     (VectorHandler_Add ''y'' (VectorHandler_Add ''z'' (VectorHandler_Add ''x'' VectorHandler)))"

lemma vector_text_sample [simp]: "vector_text sample_vector = [''x'', ''z'', ''y'']"
  unfolding sample_vector_def
  by (subst vector_text_as_string) (simp_all add: wf_vector_def VectorHandler_Add_def VectorHandler_def)

lemma vsort_query_witness:
  "\<exists>q' w'. Prepare table_rocks (vsort_query_Run table_rocks) (vsort_query (ask ''a'' [])) (one_world INT_VECTOR sample_vector)
       = Inr (True, q', w') \<and>
     (\<exists>v. vector_text v = [''x'', ''y'', ''z''] \<and>
        stored_or_failed map_of (ask ''a'' []) (one_world INT_VECTOR sample_vector) INT_VECTOR v q' w')"
proof -
  have "sort [''x'', ''z'', ''y''] = [''x'', ''y'', ''z'']" by code_simp
  then show ?thesis
    using vsort_query_outcome [OF table_rocks_ok, of "ask ''a'' []" "one_world INT_VECTOR sample_vector"]
    by (auto simp: read_outcome_def simp del: sort_key_simps)
qed

end
