(* ===== verification/Store_Invariant.thy ===== *)
theory Store_Invariant
  imports Hints VectorQueries MapFacts MultiQueries
begin

text \<open>
  The invariant of the store over every sequence of commands that read or write one key: no name
  is ever held by two types.  The step relation runs a query as \<open>DataThread\<close> does, through
  \<open>Prepare\<close>; the invariant follows by rule induction from the contract \<open>own_dest\<close> of each \<open>Run\<close>.
\<close>

section \<open>Runs that stay under their own name\<close>

lemma touches_only_record:
  assumes "rocks_ok R view"
    and "rec = expire_record k s n \<or> rec = future_record k s n"
  shows "Write R rec x q w = (ok, w') \<Longrightarrow> touches_only view d dest w w'"
    and "touches_only view d dest w (Delete R rec q w)"
proof -
  show "touches_only view d dest w w'" if "Write R rec x q w = (ok, w')"
    using assms(2) by (auto simp: touches_only_def Write_view(1) [OF assms(1) that])
  show "touches_only view d dest w (Delete R rec q w)"
    using assms(2)
    by (rule_tac Delete_view [OF assms(1), of rec q w]) (auto simp: touches_only_def)
qed

lemma touches_only_DelExpire: "rocks_ok R view \<Longrightarrow> touches_only view d dest w (DelExpire R q w)"
proof -
  assume R: "rocks_ok R view"
  show ?thesis
    using touches_only_record(2) [OF R disjI1 [OF refl], of d dest]
    by (simp add: DelExpire_def Let_def touches_only_def)
qed

lemma touches_only_WriteExpire: "rocks_ok R view \<Longrightarrow> touches_only view d dest w (WriteExpire R k s t dbo q w)"
proof -
  assume R: "rocks_ok R view"
  let ?rec = "expire_record k s (d_name (w_dbs w (case dbo of None \<Rightarrow> q_database q | Some d \<Rightarrow> d)))"
  obtain ok w1 where w: "Write R ?rec (convto_string t) q w = (ok, w1)" by fastforce
  from touches_only_record(1) [OF R disjI1 [OF refl] w, of d dest] w show ?thesis
    by (auto simp: WriteExpire_def touches_only_def)
qed

text \<open>A run that only answers, or only writes or deletes its own \<open>dest\<close>.\<close>

lemma own_dest_same: "(\<And>q w q' w'. run q w = Inr (q', w') \<Longrightarrow> w_dbs w' = w_dbs w) \<Longrightarrow> own_dest view run"
  by (auto simp: own_dest_def touches_only_def)

lemma own_dest_getset: "rocks_ok R view \<Longrightarrow> own_dest view (getset_query_Run R)"
  by (auto simp: own_dest_def getset_query_Run_def Let_def intro: own_dest_write_dest)

lemma own_dest_insert: "rocks_ok R view \<Longrightarrow> own_dest view (insert_query_Run R)"
  by (auto simp: own_dest_def insert_query_Run_def Let_def intro: own_dest_write_dest split: if_splits)

lemma own_dest_modify: "rocks_ok R view \<Longrightarrow> own_dest view (modify_query_Run R)"
  by (auto simp: own_dest_def modify_query_Run_def Let_def intro: own_dest_write_dest)

lemma own_dest_getdel: "rocks_ok R view \<Longrightarrow> own_dest view (getdel_query_Run R)"
  by (auto simp: own_dest_def getdel_query_Run_def Let_def intro: touches_only_Delete)

lemma own_dest_expires:
  assumes "rocks_ok R view"
  shows "own_dest view (getpersist_query_Run R)" "own_dest view (getexp_query_Run R)"
    "own_dest view (expireat_query_Run R)" "own_dest view (expire_del_query_Run R)"
  using touches_only_DelExpire [OF assms] touches_only_WriteExpire [OF assms]
  by (auto simp: own_dest_def getpersist_query_Run_def getexp_query_Run_def expireat_query_Run_def
      expire_del_query_Run_def)

lemma own_dest_reads:
  "own_dest view (get_query_Run R)" "own_dest view (strlen_query_Run R)" "own_dest view (alpha_query_Run R)"
  "own_dest view (isnum_query_Run R)" "own_dest view (isbool_query_Run R)" "own_dest view (asbool_query_Run R)"
  "own_dest view (ismatch_query_Run R)" "own_dest view (char_query_Run R)"
  by (rule own_dest_same; auto simp: get_query_Run_def strlen_query_Run_def alpha_query_Run_def
      isnum_query_Run_def isbool_query_Run_def asbool_query_Run_def ismatch_query_Run_def
      char_query_Run_def Let_def split: if_splits)+

lemma own_dest_del: "rocks_ok R view \<Longrightarrow> own_dest view (del_query_Run R)"
  unfolding own_dest_def
proof (intro allI impI)
  fix q w q' w'
  assume R: "rocks_ok R view" and run: "del_query_Run R q w = Inr (q', w')"
  show "touches_only view (q_database q) (q_dest q) w w'"
  proof (cases "q_identified q = INT_KEY \<and> IsExpiring q w > 0")
    case False
    with run touches_only_Delete [OF R, of q w] show ?thesis
      by (auto simp: del_query_Run_def)
  next
    case True
    let ?rec = "expire_record (q_key q) (q_select_query q) (d_name (w_dbs w (q_database q)))"
    obtain ok w1 where b: "batch_on R (q_database q) [WDelete (q_dest q), WDelete ?rec] w = (ok, w1)"
      by fastforce
    have "touches_only view (q_database q) (q_dest q) w w1"
      using batch_on_view(1) [OF R b] by (auto simp: touches_only_def apply_wop_def)
    with True run b show ?thesis
      by (auto simp: del_query_Run_def del_query_Keys_def Let_def touches_only_def split: if_splits)
  qed
qed

lemma own_dest_store_list:
  assumes "rocks_ok R view" "store_list R h ok q1 w = (q', w')" "q_dest q1 = q_dest q" "q_database q1 = q_database q"
  shows "touches_only view (q_database q) (q_dest q) w w'"
proof (cases "0 < fst (ListHandler_Count h)")
  case True
  with assms(2) have "write_dest R (ListHandler_as_string (snd (ListHandler_Count h))) q1 w = (q', w')"
    by (simp add: store_list_def case_prod_beta)
  from own_dest_write_dest [OF assms(1) this assms(3,4)] show ?thesis .
next
  case False
  with assms(2) have "w' = Delete R (q_dest q1) q1 w"
    by (simp add: store_list_def case_prod_beta split: if_splits)
  with touches_only_Delete [OF assms(1), of q1 w] assms(3,4) show ?thesis by simp
qed

lemma own_dest_list_writes:
  assumes "rocks_ok R view"
  shows "own_dest view (lreverse_query_Run R)" "own_dest view (lsort_query_Run R)"
    "own_dest view (lresize_query_Run R)" "own_dest view (lpop_front_query_Run R)"
    "own_dest view (lpop_back_query_Run R)" "own_dest view (lpushnx_query_Run R)"
    "own_dest view (lpopall_query_Run R)" "own_dest view (lrop_query_Run R)"
    "own_dest view (ldel_query_Run R)" "own_dest view (lpush_query_Run R)"
  unfolding own_dest_def lreverse_query_Run_def lsort_query_Run_def lresize_query_Run_def
    lpop_front_query_Run_def lpop_back_query_Run_def lpushnx_query_Run_def lpopall_query_Run_def
    lrop_query_Run_def ldel_query_Run_def lpush_query_Run_def
  by (auto simp: Let_def bind_res_Inr_iff
      intro: own_dest_write_dest [OF assms] own_dest_store_list [OF assms] touches_only_Write [OF assms]
        prod.collapse [symmetric] split: if_splits prod.splits option.splits HANDLER_MSG.splits)

lemma own_dest_list_reads:
  "own_dest view (lpos_query_Run R)" "own_dest view (lcount_query_Run R)" "own_dest view (lexist_query_Run R)"
  "own_dest view (lrepeats_query_Run R)" "own_dest view (lback_query_Run R)" "own_dest view (lfront_query_Run R)"
  "own_dest view (lget_query_Run fresh R)"
  by (rule own_dest_same; auto simp: lpos_query_Run_def lcount_query_Run_def lexist_query_Run_def
      lrepeats_query_Run_def lback_query_Run_def lfront_query_Run_def lget_query_Run_def attach_pages_def
      Let_def bind_res_Inr_iff split: if_splits prod.splits HANDLER_MSG.splits)+

lemma own_dest_store_vector:
  assumes "rocks_ok R view" "store_vector R h q1 w = (q', w')" "q_dest q1 = q_dest q" "q_database q1 = q_database q"
  shows "touches_only view (q_database q) (q_dest q) w w'"
  using assms(2) own_dest_write_dest [OF assms(1) _ assms(3,4)] touches_only_Delete [OF assms(1), of q1 w] assms(3,4)
  by (auto simp: store_vector_def split: if_splits prod.splits)

lemma own_dest_vector_writes:
  assumes "rocks_ok R view"
  shows "own_dest view (vpush_query_Run R)" "own_dest view (vpushnx_query_Run R)"
    "own_dest view (vsort_query_Run R)" "own_dest view (vreverse_query_Run R)"
    "own_dest view (vresize_query_Run R)" "own_dest view (vpop_front_query_Run R)"
    "own_dest view (vpop_back_query_Run R)"
  unfolding own_dest_def vpush_query_Run_def vpushnx_query_Run_def vsort_query_Run_def
    vreverse_query_Run_def vresize_query_Run_def vpop_front_query_Run_def vpop_back_query_Run_def
  by (auto simp: Let_def bind_res_Inr_iff
      intro: own_dest_write_dest [OF assms] own_dest_store_vector [OF assms] touches_only_Write [OF assms]
        prod.collapse [symmetric] split: if_splits prod.splits option.splits HANDLER_MSG.splits)

lemma own_dest_vdel: "rocks_ok R view \<Longrightarrow> own_dest view (vdel_query_Run R)"
  unfolding own_dest_def vdel_query_Run_def
  by (auto simp: Let_def bind_res_Inr_iff split: if_splits prod.splits)
    (metis own_dest_store_vector surj_pair)

lemma own_dest_vector_reads:
  "own_dest view (vpos_query_Run R)" "own_dest view (vcount_query_Run R)" "own_dest view (vexist_query_Run R)"
  "own_dest view (vrepeats_query_Run R)" "own_dest view (vback_query_Run R)" "own_dest view (vfront_query_Run R)"
  "own_dest view (vget_query_Run fresh R)" "own_dest view (vfind_query_Run fresh R)"
  by (rule own_dest_same; auto simp: vpos_query_Run_def vcount_query_Run_def vexist_query_Run_def
      vrepeats_query_Run_def vback_query_Run_def vfront_query_Run_def vget_query_Run_def
      vfind_query_Run_def attach_pages_def Let_def bind_res_Inr_iff
      split: if_splits prod.splits HANDLER_MSG.splits)+

lemma own_dest_store_map:
  assumes "rocks_ok R view" "store_map R h q1 w = (q', w')" "q_dest q1 = q_dest q" "q_database q1 = q_database q"
  shows "touches_only view (q_database q) (q_dest q) w w'"
  using assms(2) own_dest_write_dest [OF assms(1) _ assms(3,4)] touches_only_Delete [OF assms(1), of q1 w] assms(3,4)
  by (auto simp: store_map_def split: if_splits prod.splits)

lemma own_dest_map_writes:
  assumes "rocks_ok R view"
  shows "own_dest view (hset_query_Run R)" "own_dest view (hsetnx_query_Run R)" "own_dest view (hdel_query_Run R)"
  unfolding own_dest_def hset_query_Run_def hsetnx_query_Run_def hdel_query_Run_def
  by (auto simp: Let_def bind_res_Inr_iff
      intro: own_dest_write_dest [OF assms] own_dest_store_map [OF assms] touches_only_Write [OF assms]
        prod.collapse [symmetric] split: if_splits prod.splits option.splits HANDLER_MSG.splits)

lemma own_dest_multi_writes:
  assumes "rocks_ok R view"
  shows "own_dest view (mdel_query_Run R)" "own_dest view (mset_query_Run R)" "own_dest view (msetnx_query_Run R)"
  unfolding own_dest_def mdel_query_Run_def mset_query_Run_def msetnx_query_Run_def multi_first_def multi_add_def
  by (auto simp: Let_def bind_res_Inr_iff
      intro: own_dest_write_dest [OF assms] touches_only_Delete [OF assms]
        prod.collapse [symmetric] split: if_splits prod.splits option.splits HANDLER_MSG.splits)

lemma stale_same_dbs:
  "stale_vector request items q w = Inr (q', w') \<Longrightarrow> w_dbs w' = w_dbs w"
  "stale_map request2 items2 q w = Inr (q', w') \<Longrightarrow> w_dbs w' = w_dbs w"
  by (auto simp: stale_vector_def stale_map_def attach_pages_def bind_res_Inr_iff)

lemma own_dest_map_reads:
  "own_dest view (hget_query_Run R)" "own_dest view (hstrlen_query_Run R)"
  "own_dest view (hlist_query_Run fresh R)" "own_dest view (hvals_query_Run fresh R)"
  "own_dest view (hgetall_query_Run fresh R)"
  by (rule own_dest_same; auto simp: hget_query_Run_def hstrlen_query_Run_def hlist_query_Run_def
      hvals_query_Run_def hgetall_query_Run_def Let_def bind_res_Inr_iff
      dest!: stale_same_dbs split: if_splits prod.splits HANDLER_MSG.splits)+

lemma own_dest_multi_reads:
  "own_dest view (mget_query_Run fresh R)" "own_dest view (mrepeats_query_Run R)"
  "own_dest view (mvals_query_Run fresh R)" "own_dest view (mgetall_query_Run fresh R)"
  "own_dest view (miter_query_Run fresh R)"
  by (rule own_dest_same; auto simp: mget_query_Run_def mrepeats_query_Run_def mvals_query_Run_def
      mgetall_query_Run_def miter_query_Run_def Let_def bind_res_Inr_iff
      dest!: stale_same_dbs split: if_splits prod.splits HANDLER_MSG.splits)+

section \<open>Runs that only take records away\<close>

definition shrinks :: "('d \<Rightarrow> string \<rightharpoonup> string) \<Rightarrow> 'd world \<Rightarrow> 'd world \<Rightarrow> bool" where
  "shrinks view w w' \<longleftrightarrow>
     (\<forall>d k s t. t \<in> set TypeRegs \<longrightarrow>
        holds view d w' (raw_key k s t) = None \<or>
        holds view d w' (raw_key k s t) = holds view d w (raw_key k s t))"

lemma shrinks_same: "w_dbs w' = w_dbs w \<Longrightarrow> shrinks view w w'"
  by (simp add: shrinks_def)

lemma shrinks_trans: "shrinks view w w' \<Longrightarrow> shrinks view w' w'' \<Longrightarrow> shrinks view w w''"
  unfolding shrinks_def by metis

lemma shrinks_Delete: "rocks_ok R view \<Longrightarrow> shrinks view w (Delete R k q w)"
  by (rule Delete_view [of R view k q w]) (auto simp: shrinks_def)

lemma shrinks_one_type: "shrinks view w w' \<Longrightarrow> \<forall>d. one_type (holds view d w) \<Longrightarrow> \<forall>d. one_type (holds view d w')"
  unfolding one_type_iff shrinks_def by metis

definition run_shrinks :: "('d \<Rightarrow> string \<rightharpoonup> string) \<Rightarrow> 'd run \<Rightarrow> bool" where
  "run_shrinks view run \<longleftrightarrow> (\<forall>q w q' w'. run q w = Inr (q', w') \<longrightarrow> shrinks view w w')"

lemma run_shrinks_same: "(\<And>q w q' w'. run q w = Inr (q', w') \<Longrightarrow> w_dbs w' = w_dbs w) \<Longrightarrow> run_shrinks view run"
  by (auto simp: run_shrinks_def intro: shrinks_same)

lemma CheckIterator_dbs [simp]: "CheckIterator q w = (go, q1, w1) \<Longrightarrow> w_dbs w1 = w_dbs w"
  by (auto simp: CheckIterator_def Let_def split: if_splits)

lemma scan_pages_dbs: "scan_pages pick ins off lim its p q w = (done, p', q', w') \<Longrightarrow> w_dbs w' = w_dbs w"
  by (induction its arbitrary: p q w) (fastforce split: prod.splits option.splits if_splits)+

lemma run_pages_dbs: "run_pages R pick request q w = Inr (q', w') \<Longrightarrow> w_dbs w' = w_dbs w"
  by (auto simp: run_pages_def attach_pages_def dest: scan_pages_dbs split: prod.splits)

lemma count_loop_dbs: "count_loop its tot q w = (q', w') \<Longrightarrow> w_dbs w' = w_dbs w"
  by (induction its arbitrary: tot q w) (auto split: prod.splits if_splits)

lemma run_shrinks_scans:
  "run_shrinks view (keys_query_Run fresh R)" "run_shrinks view (lkeys_query_Run fresh R)"
  "run_shrinks view (vkeys_query_Run fresh R)" "run_shrinks view (hfind_query_Run fresh R)"
  "run_shrinks view (mkeys_query_Run fresh R)" "run_shrinks view (search_query_Run fresh R)"
  "run_shrinks view (count_query_Run R)" "run_shrinks view exists_query_Run"
  "run_shrinks view (hexists_query_Run R)"
  by (rule run_shrinks_same; auto simp: keys_query_Run_def lkeys_query_Run_def vkeys_query_Run_def
      hfind_query_Run_def mkeys_query_Run_def search_query_Run_def count_query_Run_def
      exists_query_Run_def hexists_query_Run_def attach_pages_def Let_def
      dest: run_pages_dbs scan_pages_dbs count_loop_dbs split: prod.splits if_splits)+

lemma shrinks_DelExpire: "rocks_ok R view \<Longrightarrow> shrinks view w (DelExpire R q w)"
  unfolding DelExpire_def Let_def
  by (rule shrinks_trans [OF shrinks_same shrinks_Delete]) simp_all

lemma shrinks_wdel_one: "rocks_ok R view \<Longrightarrow> shrinks view w (wdel_one R rawmap name q w)"
  unfolding wdel_one_def Let_def
  by (rule shrinks_trans [OF shrinks_trans [OF shrinks_Delete shrinks_same] shrinks_DelExpire]) simp_all

lemma run_shrinks_wdel:
  assumes "rocks_ok R view" shows "run_shrinks view (wdel_query_Run R)"
proof -
  have "shrinks view w w'" if "wdel_loop R its tot q w = (q', w')" for its tot q w q' w'
    using that
  proof (induction its arbitrary: tot q w)
    case (Cons it its)
    obtain go q1 w1 where c: "CheckIterator q w = (go, q1, w1)" by (metis prod_cases3)
    have w1: "shrinks view w w1" by (rule shrinks_same) (simp add: CheckIterator_dbs [OF c])
    show ?case
    proof (cases "go \<and> pick_name q INT_KEY it \<noteq> None")
      case True
      then obtain name where "pick_name q INT_KEY it = Some name" by blast
      with True Cons.prems c have "wdel_loop R its (tot + 1) q1 (wdel_one R (fst it) name q1 w1) = (q', w')"
        by simp
      from Cons.IH [OF this] shrinks_wdel_one [OF assms] w1 show ?thesis by (meson shrinks_trans)
    next
      case False
      with Cons.prems c w1 show ?thesis
        by (cases go) (auto dest!: Cons.IH intro: shrinks_trans)
    qed
  qed (auto intro: shrinks_same)
  then show ?thesis by (auto simp: run_shrinks_def wdel_query_Run_def)
qed

section \<open>Prepare keeps one type per name\<close>

lemma run_then_one_type:
  assumes "own_dest view run" "\<forall>d. one_type (holds view d w)" "t \<in> set TypeRegs"
    and "\<forall>u\<in>set (types_of (holds view (q_database q) w) k s). u = t" "q_dest q = raw_key k s t"
    and "run_then b run q w = Inr (b', q', w')"
  shows "\<forall>d. one_type (holds view d w')"
proof -
  from assms(6) have "run q w = Inr (q', w')" by (auto simp: run_then_def bind_res_Inr_iff)
  from own_destD [OF assms(1) this] assms(5)
  have "touches_only view (q_database q) (raw_key k s t) w w'" by simp
  from one_type_touch [OF this assms(2,3,4)] show ?thesis .
qed

lemma located_one_type:
  assumes "own_dest view run" "\<forall>d. one_type (holds view d w)"
    and "types_of (holds view (q_database q) w) (q_key q) (q_select_query q) = t # ts"
    and "run_then b run (located q t l) w = Inr (b', q', w')"
  shows "\<forall>d. one_type (holds view d w')"
proof (rule run_then_one_type [OF assms(1,2) _ _ _ assms(4)])
  have "t \<in> set (types_of (holds view (q_database q) w) (q_key q) (q_select_query q))"
    using assms(3) by simp
  then show "t \<in> set TypeRegs" unfolding types_of_set by blast
  have "length (types_of (holds view (q_database q) w) (q_key q) (q_select_query q)) \<le> 1"
    using assms(2) by (simp add: one_type_def)
  with assms(3) show "\<forall>u\<in>set (types_of (holds view (q_database (located q t l)) w) (q_key q) (q_select_query q)). u = t"
    by simp
qed simp

lemma Prepare_keeps_one_type:
  assumes "rocks_ok R view" "own_dest view run"
    and "q_type q = QUERY_TYPE_WRITE \<longrightarrow> q_base_request q \<in> set TypeRegs"
    and "q_type q \<in> {QUERY_TYPE_WRITE, QUERY_TYPE_READ, QUERY_TYPE_ITER, QUERY_TYPE_DELETE, QUERY_TYPE_READ_ALLOW}"
    and "\<forall>d. one_type (holds view d w)" "Prepare R run q w = Inr (b, q', w')" "q_dest q = []"
  shows "\<forall>d. one_type (holds view d w')"
proof (cases "fst (Check q w) \<and> fst (CheckKey (snd (Check q w)))")
  case False
  with assms(5,6) show ?thesis
    by (auto simp: Prepare_def Check_def CheckKey_def split: if_splits)
next
  case True
  let ?q = "access_set DBL_STATUS_OK q"
  from True have ok: "Check q w = (True, ?q)" "CheckKey ?q = (True, ?q)"
    by (auto simp: Check_def CheckKey_def split: if_splits)
  note loc = located_one_type [OF assms(2,5), of ?q]
  consider "q_type q = QUERY_TYPE_WRITE \<and> Prepare_write R run ?q w = Inr (b, q', w')" | "Prepare_read R run ?q w = Inr (b, q', w')"
    | "Prepare_iter R run ?q w = Inr (b, q', w')" | "Prepare_delete R run ?q w = Inr (b, q', w')"
    | "Prepare_read_allow R run ?q w = Inr (b, q', w')"
    using assms(4,6) ok by (auto simp: Prepare_def)
  then show ?thesis
  proof cases
    case 1
    with assms(3) show ?thesis
      by (intro Prepare_write_one_type [OF assms(1,2) _ assms(5), of ?q b q' w']) simp_all
  next
    case 2
    with loc assms(5) show ?thesis
      by (auto simp: Prepare_read_cases [OF assms(1)] Let_def split: list.splits if_splits)
  next
    case 3
    with loc assms(5) show ?thesis
      by (auto simp: Prepare_iter_cases [OF assms(1)] Let_def split: list.splits if_splits)
  next
    case 4
    with loc assms(5) show ?thesis
      by (auto simp: Prepare_delete_cases [OF assms(1)] split: list.splits if_splits)
  next
    case 5
    show ?thesis
    proof (cases "types_of (holds view (q_database q) w) (q_key q) (q_select_query q)")
      case Nil
      with 5 have "run_then False run (?q\<lparr>q_identified := PROCESS_NULL\<rparr>) w = Inr (b, q', w')"
        by (simp add: Prepare_read_allow_def GetRegistry_eq [OF assms(1), of ?q, simplified])
      then have "run (?q\<lparr>q_identified := PROCESS_NULL\<rparr>) w = Inr (q', w')"
        by (auto simp: run_then_def bind_res_Inr_iff)
      from own_destD [OF assms(2) this] assms(7) have "touches_only view (q_database q) [] w w'" by simp
      then have "shrinks view w w'" by (auto simp: touches_only_def shrinks_def)
      from shrinks_one_type [OF this assms(5)] show ?thesis .
    next
      case (Cons t ts)
      with 5 loc assms(5) show ?thesis
        by (auto simp: Prepare_read_allow_def GetRegistry_eq [OF assms(1), of ?q, simplified] split: if_splits)
    qed
  qed
qed

lemma Prepare_shrinks:
  assumes "run_shrinks view run" "q_type q \<in> {QUERY_TYPE_EXISTS, QUERY_TYPE_SKIP}"
    and "Prepare R run q w = Inr (b, q', w')"
  shows "shrinks view w w'"
proof -
  have "w' = w \<or> (\<exists>q0. run_then True run q0 w = Inr (b, q', w'))"
    using assms(2,3) by (auto simp: Prepare_def Check_def CheckKey_def split: if_splits prod.splits)
  with assms(1) show ?thesis
    by (auto simp: run_then_def bind_res_Inr_iff run_shrinks_def intro: shrinks_same)
qed

section \<open>Every sequence of commands\<close>

text \<open>
  The commands covered: the constructor of the query's class and its \<open>Run\<close>.  \<open>commands\<close> work on
  one key; \<open>scans\<close> walk the store or ask for a key without loading it.
\<close>

definition commands :: "'d rocks \<Rightarrow> ((query \<Rightarrow> query) \<times> 'd run) list" where
  "commands R =
     [(set_query, set_query_Run R), (setex_query, setex_query_Run R), (setnx_query, setnx_query_Run R),
      (settx_query, settx_query_Run R), (append_query, append_query_Run R),
      (get_substr_query, get_substr_query_Run R), (getset_query, getset_query_Run R),
      (insert_query, insert_query_Run R), (modify_query, modify_query_Run R),
      (getdel_query, getdel_query_Run R), (getpersist_query, getpersist_query_Run R),
      (getexp_query, getexp_query_Run R), (expireat_query, expireat_query_Run R),
      (expire_del_query, expire_del_query_Run R), (get_query, get_query_Run R),
      (strlen_query, strlen_query_Run R), (alpha_query, alpha_query_Run R), (isnum_query, isnum_query_Run R),
      (isbool_query, isbool_query_Run R), (asbool_query, asbool_query_Run R),
      (ismatch_query, ismatch_query_Run R), (char_query, char_query_Run R),
      (lpush_query, lpush_query_Run R), (lpushnx_query, lpushnx_query_Run R),
      (lreverse_query, lreverse_query_Run R), (lsort_query, lsort_query_Run R),
      (lresize_query, lresize_query_Run R), (lpop_front_query, lpop_front_query_Run R),
      (lpop_back_query, lpop_back_query_Run R), (lpopall_query, lpopall_query_Run R),
      (lrop_query, lrop_query_Run R), (ldel_query, ldel_query_Run R), (lpos_query, lpos_query_Run R),
      (lcount_query, lcount_query_Run R), (lexist_query, lexist_query_Run R),
      (lrepeats_query, lrepeats_query_Run R), (lback_query, lback_query_Run R),
      (lfront_query, lfront_query_Run R), (lget_query, lget_query_Run new_query R),
      (vpush_query, vpush_query_Run R), (vpushnx_query, vpushnx_query_Run R),
      (vsort_query, vsort_query_Run R), (vreverse_query, vreverse_query_Run R),
      (vresize_query, vresize_query_Run R), (vpop_front_query, vpop_front_query_Run R),
      (vpop_back_query, vpop_back_query_Run R), (vdel_query, vdel_query_Run R),
      (vpos_query, vpos_query_Run R), (vcount_query, vcount_query_Run R), (vexist_query, vexist_query_Run R),
      (vrepeats_query, vrepeats_query_Run R), (vback_query, vback_query_Run R),
      (vfront_query, vfront_query_Run R), (vget_query, vget_query_Run new_query R),
      (vfind_query, vfind_query_Run new_query R),
      (hset_query, hset_query_Run R), (hsetnx_query, hsetnx_query_Run R), (hdel_query, hdel_query_Run R),
      (hget_query, hget_query_Run R), (hstrlen_query, hstrlen_query_Run R),
      (hlist_query, hlist_query_Run new_query R), (hvals_query, hvals_query_Run new_query R),
      (hgetall_query, hgetall_query_Run new_query R),
      (mset_query, mset_query_Run R), (msetnx_query, msetnx_query_Run R), (mdel_query, mdel_query_Run R),
      (mget_query, mget_query_Run new_query R), (mrepeats_query, mrepeats_query_Run R),
      (mvals_query, mvals_query_Run new_query R), (mgetall_query, mgetall_query_Run new_query R),
      (miter_query, miter_query_Run new_query R), (del_query, del_query_Run R)]"

definition scans :: "'d rocks \<Rightarrow> ((query \<Rightarrow> query) \<times> 'd run) list" where
  "scans R =
     [(keys_query, keys_query_Run new_query R), (lkeys_query, lkeys_query_Run new_query R),
      (vkeys_query, vkeys_query_Run new_query R), (hfind_query, hfind_query_Run new_query R),
      (mkeys_query, mkeys_query_Run new_query R), (search_query, search_query_Run new_query R),
      (count_query, count_query_Run R), (wdel_query, wdel_query_Run R),
      (exists_query, exists_query_Run), (hexists_query, hexists_query_Run R)]"

lemmas command_classes = set_query_def setex_query_def setnx_query_def settx_query_def append_query_def
  get_substr_query_def getset_query_def insert_query_def modify_query_def getdel_query_def
  getpersist_query_def getexp_query_def expireat_query_def expire_del_query_def get_query_def
  strlen_query_def alpha_query_def isnum_query_def isbool_query_def asbool_query_def ismatch_query_def
  char_query_def lpush_query_def lpushnx_query_def lreverse_query_def lsort_query_def
  lresize_query_def lpop_front_query_def lpop_back_query_def lpopall_query_def lrop_query_def
  ldel_query_def lpos_query_def lcount_query_def lexist_query_def lrepeats_query_def lback_query_def
  lfront_query_def lget_query_def vpush_query_def vpushnx_query_def vsort_query_def vreverse_query_def
  vresize_query_def vpop_front_query_def vpop_back_query_def vdel_query_def vpos_query_def
  vcount_query_def vexist_query_def vrepeats_query_def vback_query_def vfront_query_def vget_query_def
  vfind_query_def hset_query_def hsetnx_query_def hdel_query_def hget_query_def hstrlen_query_def
  hlist_query_def hvals_query_def hgetall_query_def mset_query_def msetnx_query_def mdel_query_def
  mget_query_def mrepeats_query_def mvals_query_def mgetall_query_def miter_query_def del_query_def

text \<open>
  One query of a client, whatever its fields; its destination is empty until \<open>Prepare\<close> sets it.
  Queries that fault have no step.
\<close>

inductive client_step :: "'d rocks \<Rightarrow> 'd world \<Rightarrow> 'd world \<Rightarrow> bool" for R where
  command: "(cls, run) \<in> set (commands R) \<or> (cls, run) \<in> set (scans R) \<Longrightarrow> q_dest q = [] \<Longrightarrow>
    Prepare R run (cls q) w = Inr (b, q', w') \<Longrightarrow> client_step R w w'"

lemma commands_type:
  "(cls, run) \<in> set (commands R) \<Longrightarrow>
   q_type (cls q) \<in> {QUERY_TYPE_WRITE, QUERY_TYPE_READ, QUERY_TYPE_ITER, QUERY_TYPE_DELETE, QUERY_TYPE_READ_ALLOW} \<and>
   (q_type (cls q) = QUERY_TYPE_WRITE \<longrightarrow> q_base_request (cls q) \<in> set TypeRegs) \<and>
   q_dest (cls q) = q_dest q"
  by (auto simp: commands_def command_classes)

lemma commands_own_dest:
  "rocks_ok R view \<Longrightarrow> (cls, run) \<in> set (commands R) \<Longrightarrow> own_dest view run"
  by (auto simp: commands_def own_dest_set own_dest_setex own_dest_setnx own_dest_settx own_dest_append
      own_dest_substr own_dest_getset own_dest_insert own_dest_modify own_dest_getdel own_dest_expires
      own_dest_reads own_dest_list_writes own_dest_list_reads own_dest_vector_writes own_dest_vdel
      own_dest_vector_reads own_dest_map_writes own_dest_map_reads own_dest_multi_writes
      own_dest_multi_reads own_dest_del)

lemma scans_shrink:
  "rocks_ok R view \<Longrightarrow> (cls, run) \<in> set (scans R) \<Longrightarrow>
   run_shrinks view run \<and> q_type (cls q) \<in> {QUERY_TYPE_EXISTS, QUERY_TYPE_SKIP}"
  by (auto simp: scans_def run_shrinks_scans run_shrinks_wdel keys_query_def lkeys_query_def vkeys_query_def
      hfind_query_def mkeys_query_def search_query_def count_query_def wdel_query_def exists_query_def
      hexists_query_def)

lemma client_step_one_type:
  assumes "rocks_ok R view" "client_step R w w'" "\<forall>d. one_type (holds view d w)"
  shows "\<forall>d. one_type (holds view d w')"
  using assms(2)
proof cases
  case (command cls run q b q')
  from command(1) show ?thesis
  proof
    assume c: "(cls, run) \<in> set (commands R)"
    from Prepare_keeps_one_type [OF assms(1) commands_own_dest [OF assms(1) c] _ _ assms(3) command(3)]
      commands_type [OF c] command(2) show ?thesis by metis
  next
    assume "(cls, run) \<in> set (scans R)"
    with Prepare_shrinks [of view run "cls q", OF _ _ command(3)] scans_shrink [OF assms(1)]
    show ?thesis using shrinks_one_type [OF _ assms(3)] by blast
  qed
qed

text \<open>
  C1: Whatever commands clients run, in whatever order and with whatever arguments, among the key,
  list, vector, map and multimap commands of the model and the scans of the store, each through
  QueryBase::Prepare with its own Run, a store in which every name holds records of at most one
  type in each database stays such a store: the type check of Prepare is enough to keep the
  invariant over every history of successful, refused and failed commands.
\<close>

lemma client_history_one_type:
  assumes "rocks_ok R view" "(client_step R)\<^sup>*\<^sup>* w w'" "\<forall>d. one_type (holds view d w)"
  shows "\<forall>d. one_type (holds view d w')"
  using assms(2)
proof (induction rule: rtranclp_induct)
  case base
  show ?case by (rule assms(3))
next
  case (step y z)
  from client_step_one_type [OF assms(1) step(2,3)] show ?case .
qed

lemma client_history_witness:
  "\<exists>w'. (client_step table_rocks)\<^sup>*\<^sup>* (world_of [] []) w' \<and> map_of (rocks_of 0 w') \<noteq> Map.empty \<and>
     (\<forall>d. one_type (holds map_of d w'))"
proof -
  have "case Prepare table_rocks (lpush_query_Run table_rocks) (lpush_query (ask ''a'' ''x'')) (world_of [] []) of
      Inl _ \<Rightarrow> False | Inr (b, q', w') \<Rightarrow> rocks_of 0 w' \<noteq> []"
    by code_simp
  then obtain b q' w' where r: "Prepare table_rocks (lpush_query_Run table_rocks) (lpush_query (ask ''a'' ''x''))
      (world_of [] []) = Inr (b, q', w')" "rocks_of 0 w' \<noteq> []"
    by (auto split: sum.splits)
  have "(lpush_query, lpush_query_Run table_rocks) \<in> set (commands table_rocks)"
    by (simp add: commands_def)
  then have "(lpush_query, lpush_query_Run table_rocks) \<in> set (commands table_rocks) \<or>
      (lpush_query, lpush_query_Run table_rocks) \<in> set (scans table_rocks)" ..
  from client_step.command [OF this _ r(1)] have "client_step table_rocks (world_of [] []) w'"
    by (simp add: ask_def new_query_def)
  then have "(client_step table_rocks)\<^sup>*\<^sup>* (world_of [] []) w'" by blast
  moreover have "\<forall>d. one_type (holds map_of d (world_of [] []))"
    using one_type_none by simp
  ultimately show ?thesis
    using client_history_one_type [OF table_rocks_ok] r(2) by auto
qed

declare CheckIterator_dbs [simp del]

end
