(* ===== verification/Replies.thy ===== *)
theory Replies
  imports Store_Invariant
begin

text \<open>
  What a client receives.  \<open>CheckFlush\<close> (\<open>src/brldb/dbflush.cpp\<close>) turns the access code a query
  ended with into an error line (\<open>src/brldb/flush.cpp\<close>) or calls the \<open>Process\<close> of its class;
  the classes that answer lists send them through \<open>Dispatcher::VectorFlush\<close> and
  \<open>Dispatcher::MMapFlush\<close> (\<open>src/daemon.cpp\<close>), page by page.  A line is its protocol code
  (\<open>include/protocols.h\<close>) and its text.
\<close>

section \<open>Protocol codes and messages\<close>

type_synonym reply = "nat \<times> string"

definition BRLD_OK :: nat where "BRLD_OK = 164"
definition BRLD_ITEM_LIST :: nat where "BRLD_ITEM_LIST = 215"
definition BRLD_START_LIST :: nat where "BRLD_START_LIST = 282"
definition BRLD_END_LIST :: nat where "BRLD_END_LIST = 283"
definition ERR_INPUT :: nat where "ERR_INPUT = 586"

definition BATCH_FAIL :: string where "BATCH_FAIL = ''SYNC_FAILED''"
definition PROCESS_EMPTY :: string where "PROCESS_EMPTY = ''EMPTY''"
definition ENTRY_NOT_EXPIRING :: string where "ENTRY_NOT_EXPIRING = ''ENTRY_NOT_EXPIRING''"
definition ENTRY_EXPIRES :: string where "ENTRY_EXPIRES = ''ENTRY_EXPIRES''"
definition INVALID_RANGE :: string where "INVALID_RANGE = ''INVALID_RANGE''"
definition ENTRY_DEFINED :: string where "ENTRY_DEFINED = ''ENTRY_DEFINED''"
definition INVALID_FORMAT :: string where "INVALID_FORMAT = ''INVALID_TYPE''"
definition DB_NULL :: string where "DB_NULL = ''DATABASE_NULL''"
definition MIS_ARGS :: string where "MIS_ARGS = ''MISSING_ARGUMENTS''"
definition PROCESS_FALSE :: string where "PROCESS_FALSE = ''FALSE''"
definition PROCESS_NOT_NUM :: string where "PROCESS_NOT_NUM = ''NOT_NUMERIC''"
definition DEFAULT_EMERALD :: string where "DEFAULT_EMERALD = ''emerald''"

lemmas codes = BRLD_OK_def BRLD_ITEM_LIST_def BRLD_START_LIST_def BRLD_END_LIST_def ERR_INPUT_def

text \<open>\<open>Helpers::TypeString\<close> (\<open>src/settings.cpp\<close>).\<close>

definition TypeString :: "string \<Rightarrow> bool \<Rightarrow> string" where
  "TypeString type plural =
     (let s = (if plural then ''S'' else [])
      in if type = [] \<or> type = PROCESS_NULL then PROCESS_NULL
         else if type = INT_KEY then ''KEY'' @ s
         else if type = INT_GEO then ''GEO'' @ s
         else if type = INT_LIST then ''LIST'' @ s
         else if type = INT_MAP then ''MAP'' @ s
         else if type = INT_VECTOR then ''VECTOR'' @ s
         else if type = INT_MMAP then ''MULTIMAP'' @ s
         else if type = INT_FUTURE then ''FUTURE'' @ s
         else if type = INT_EXPIRE then ''EXPIRE'' @ s
         else ''UNKNOWN'')"

section \<open>Error lines\<close>

definition DataFlush_BatchFailed :: "reply list" where
  "DataFlush_BatchFailed = [(ERR_INPUT, BATCH_FAIL)]"

definition DataFlush_InvalidRange :: "reply list" where
  "DataFlush_InvalidRange = [(ERR_INPUT, INVALID_RANGE)]"

definition DataFlush_InvalidFormat :: "reply list" where
  "DataFlush_InvalidFormat = [(ERR_INPUT, INVALID_FORMAT)]"

definition DataFlush_EntryExists :: "reply list" where
  "DataFlush_EntryExists = [(ERR_INPUT, ENTRY_DEFINED)]"

definition DataFlush_EntryNOExpires :: "reply list" where
  "DataFlush_EntryNOExpires = [(ERR_INPUT, ENTRY_NOT_EXPIRING)]"

definition DataFlush_NotFound :: "reply list" where
  "DataFlush_NotFound = [(ERR_INPUT, PROCESS_NULL)]"

definition DataFlush_EntryExpires :: "reply list" where
  "DataFlush_EntryExpires = [(ERR_INPUT, ENTRY_EXPIRES)]"

definition DataFlush_StatusFailed :: "reply list" where
  "DataFlush_StatusFailed = [(ERR_INPUT, DB_NULL)]"

definition DataFlush_MissStringVector :: "reply list" where
  "DataFlush_MissStringVector = [(ERR_INPUT, MIS_ARGS)]"

definition DataFlush_InvalidType :: "query \<Rightarrow> reply list" where
  "DataFlush_InvalidType signal = [(ERR_INPUT, INVALID_FORMAT @ '':'' @ TypeString (q_response signal) False)]"

definition DataFlush_UnableWrite :: "reply list" where
  "DataFlush_UnableWrite = [(ERR_INPUT, PROCESS_FALSE)]"

definition DataFlush_NotNumeric :: "reply list" where
  "DataFlush_NotNumeric = [(ERR_INPUT, PROCESS_NOT_NUM)]"

text \<open>\<open>process\<close> is the \<open>Process\<close> of the query's class, which \<open>DataFlush::Flush\<close> calls.\<close>

definition CheckFlush :: "(query \<Rightarrow> reply list res) \<Rightarrow> query \<Rightarrow> reply list res" where
  "CheckFlush process signal =
     (case q_access signal of
        DBL_NOT_FOUND \<Rightarrow> Inr DataFlush_NotFound
      | DBL_INVALID_RANGE \<Rightarrow> Inr DataFlush_InvalidRange
      | DBL_BATCH_FAILED \<Rightarrow> Inr DataFlush_BatchFailed
      | DBL_INVALID_FORMAT \<Rightarrow> Inr DataFlush_InvalidFormat
      | DBL_MISS_ARGS \<Rightarrow> Inr DataFlush_MissStringVector
      | DBL_INVALID_TYPE \<Rightarrow> Inr (DataFlush_InvalidType signal)
      | DBL_ENTRY_EXISTS \<Rightarrow> Inr DataFlush_EntryExists
      | DBL_STATUS_BROKEN \<Rightarrow> Inr DataFlush_StatusFailed
      | DBL_UNABLE_WRITE \<Rightarrow> Inr DataFlush_UnableWrite
      | DBL_ENTRY_EXPIRES \<Rightarrow> Inr DataFlush_EntryExpires
      | DBL_NOT_EXPIRING \<Rightarrow> Inr DataFlush_EntryNOExpires
      | DBL_NOT_NUM \<Rightarrow> Inr DataFlush_NotNumeric
      | _ \<Rightarrow> process signal)"

section \<open>Lists in the format of the client\<close>

text \<open>
  \<open>Daemon::Format\<close> (\<open>src/engine.cpp\<close>), given the text \<open>vsnprintf\<close> produces.  Its loop takes the
  length 0 of an empty text for a buffer that is too small, and doubles the buffer until the
  allocation throws.
\<close>

definition Daemon_Format :: "string \<Rightarrow> string res" where
  "Daemon_Format text = (if text \<noteq> [] then Inr text else Inl Out_of_memory)"

text \<open>\<open>Dispatcher::Repeat\<close>, and the conversion \<open>%-ns\<close>.\<close>

primrec Repeat :: "string \<Rightarrow> nat \<Rightarrow> string" where
  "Repeat str 0 = []"
| "Repeat str (Suc n) = str @ Repeat str n"

definition pad :: "nat \<Rightarrow> string \<Rightarrow> string" where
  "pad n s = c_str s @ replicate (n - length (c_str s)) CHR '' ''"

text \<open>The client's \<open>agent\<close> tells the interactive client from the others.\<close>

definition JustEmerald :: "string \<Rightarrow> nat \<Rightarrow> string \<Rightarrow> reply list" where
  "JustEmerald agent brld msg = (if agent \<noteq> DEFAULT_EMERALD then [] else [(brld, msg)])"

definition JustAPI :: "string \<Rightarrow> nat \<Rightarrow> reply list" where
  "JustAPI agent brld = (if agent = DEFAULT_EMERALD then [] else [(brld, [])])"

definition ListDepend :: "string \<Rightarrow> nat \<Rightarrow> string \<Rightarrow> string \<Rightarrow> reply" where
  "ListDepend agent brld msg msg2 = (if agent = DEFAULT_EMERALD then (brld, msg) else (brld, msg2))"

definition quoted :: "bool \<Rightarrow> string \<Rightarrow> string" where
  "quoted comillas item = (if comillas then CHR 0x22 # item @ [CHR 0x22] else item)"

text \<open>One round of the loops over the elements; both texts are formatted whatever the agent.\<close>

definition vector_line :: "string \<Rightarrow> bool \<Rightarrow> string \<Rightarrow> reply res" where
  "vector_line agent comillas i =
     bind_res (Daemon_Format (''| '' @ pad 22 (quoted comillas i) @ ''|'')) (\<lambda>one.
     bind_res (Daemon_Format (c_str (quoted comillas i))) (\<lambda>two.
       Inr (ListDepend agent BRLD_ITEM_LIST one two)))"

definition mmap_line :: "string \<Rightarrow> bool \<Rightarrow> string \<times> string \<Rightarrow> reply res" where
  "mmap_line agent comillas i =
     bind_res (Daemon_Format (''| '' @ pad 16 (fst i) @ ''| '' @ pad 29 (quoted comillas (snd i)) @ ''|'')) (\<lambda>one.
     bind_res (Daemon_Format (c_str (fst i) @ '' '' @ c_str (quoted comillas (snd i)))) (\<lambda>two.
       Inr (ListDepend agent BRLD_ITEM_LIST one two)))"

definition VectorFlush :: "string \<Rightarrow> bool \<Rightarrow> string \<Rightarrow> query \<Rightarrow> reply list res" where
  "VectorFlush agent comillas title q =
     (let rule = ''+'' @ pad 22 (Repeat ''-'' 23) @ ''+'';
          start = JustAPI agent BRLD_START_LIST;
          header = JustEmerald agent BRLD_START_LIST rule @
                   JustEmerald agent BRLD_START_LIST (''| '' @ pad 22 title @ ''|'') @
                   JustEmerald agent BRLD_START_LIST rule;
          finish = (if \<not> q_partial q then JustAPI agent BRLD_END_LIST @ JustEmerald agent BRLD_END_LIST rule else [])
      in if q_subresult q = 1 \<and> q_VecData q = [] then
           Inr (start @ JustAPI agent BRLD_END_LIST @ JustEmerald agent BRLD_OK PROCESS_EMPTY)
         else bind_res (map_res (vector_line agent comillas) (q_VecData q)) (\<lambda>items.
                Inr ((if q_subresult q = 1 then start @ header else []) @ items @ finish)))"

definition MMapFlush :: "string \<Rightarrow> bool \<Rightarrow> string \<Rightarrow> string \<Rightarrow> query \<Rightarrow> reply list res" where
  "MMapFlush agent comillas title subtitle q =
     (let rule = ''+'' @ pad 16 (Repeat ''-'' 17) @ ''+'' @ pad 29 (Repeat ''-'' 30) @ ''+'';
          start = JustAPI agent BRLD_START_LIST;
          header = JustEmerald agent BRLD_START_LIST rule @
                   JustEmerald agent BRLD_START_LIST (''| '' @ pad 16 title @ ''| '' @ pad 29 subtitle @ ''|'') @
                   JustEmerald agent BRLD_START_LIST rule;
          finish = (if \<not> q_partial q then JustAPI agent BRLD_END_LIST @ JustEmerald agent BRLD_END_LIST rule else [])
      in if q_subresult q = 1 \<and> q_mmap q = [] then
           Inr (start @ JustAPI agent BRLD_END_LIST @ JustEmerald agent BRLD_OK PROCESS_EMPTY)
         else bind_res (map_res (mmap_line agent comillas) (q_mmap q)) (\<lambda>items.
                Inr ((if q_subresult q = 1 then start @ header else []) @ items @ finish)))"

section \<open>The classes that answer lists\<close>

definition counted where
  "counted q list = (if q_flags q = QUERY_FLAGS_COUNT then Inr [(BRLD_OK, convto_string (q_counter q))] else list)"

definition keys_query_Process :: "string \<Rightarrow> query \<Rightarrow> reply list res" where
  "keys_query_Process agent q = VectorFlush agent False (q_key q) q"

definition search_query_Process :: "string \<Rightarrow> query \<Rightarrow> reply list res" where
  "search_query_Process agent q = MMapFlush agent True ''Key'' ''Value'' q"

definition lkeys_query_Process :: "string \<Rightarrow> query \<Rightarrow> reply list res" where
  "lkeys_query_Process agent q = VectorFlush agent False (q_key q) q"

definition lget_query_Process :: "string \<Rightarrow> query \<Rightarrow> reply list res" where
  "lget_query_Process agent q = counted q (VectorFlush agent True (q_key q) q)"

definition vkeys_query_Process :: "string \<Rightarrow> query \<Rightarrow> reply list res" where
  "vkeys_query_Process agent q = VectorFlush agent False (q_key q) q"

definition vfind_query_Process :: "string \<Rightarrow> query \<Rightarrow> reply list res" where
  "vfind_query_Process agent q = VectorFlush agent False (q_key q) q"

definition vget_query_Process :: "string \<Rightarrow> query \<Rightarrow> reply list res" where
  "vget_query_Process agent q = counted q (VectorFlush agent True (q_key q) q)"

definition hfind_query_Process :: "string \<Rightarrow> query \<Rightarrow> reply list res" where
  "hfind_query_Process agent q = VectorFlush agent False (q_key q) q"

definition hlist_query_Process :: "string \<Rightarrow> query \<Rightarrow> reply list res" where
  "hlist_query_Process agent q = counted q (VectorFlush agent False (q_key q) q)"

definition hvals_query_Process :: "string \<Rightarrow> query \<Rightarrow> reply list res" where
  "hvals_query_Process agent q = VectorFlush agent False (q_key q) q"

definition hgetall_query_Process :: "string \<Rightarrow> query \<Rightarrow> reply list res" where
  "hgetall_query_Process agent q = MMapFlush agent False ''Hash'' ''Value'' q"

definition mkeys_query_Process :: "string \<Rightarrow> query \<Rightarrow> reply list res" where
  "mkeys_query_Process agent q = VectorFlush agent False (q_key q) q"

definition mget_query_Process :: "string \<Rightarrow> query \<Rightarrow> reply list res" where
  "mget_query_Process agent q = counted q (VectorFlush agent False (q_key q) q)"

definition mvals_query_Process :: "string \<Rightarrow> query \<Rightarrow> reply list res" where
  "mvals_query_Process agent q = VectorFlush agent True ''Multi'' q"

definition mgetall_query_Process :: "string \<Rightarrow> query \<Rightarrow> reply list res" where
  "mgetall_query_Process agent q = MMapFlush agent True (q_key q) ''Value'' q"

definition miter_query_Process :: "string \<Rightarrow> query \<Rightarrow> reply list res" where
  "miter_query_Process agent q = VectorFlush agent True (q_key q) q"

end
