(* ===== verification/ReplyFacts.thy ===== *)
theory ReplyFacts
  imports Replies
begin

text \<open>
  Facts on the replies: the frame a listing arrives in, the error lines of refused commands, a
  write that failed and is acknowledged, and the element no reply can be formatted from.
\<close>

section \<open>The frame of a listing\<close>

definition items_lines :: "bool \<Rightarrow> string list \<Rightarrow> reply list" where
  "items_lines comillas xs = map (\<lambda>i. (BRLD_ITEM_LIST, c_str (quoted comillas i))) xs"

lemma vector_line_api:
  "agent \<noteq> DEFAULT_EMERALD \<Longrightarrow> c_str (quoted comillas i) \<noteq> [] \<Longrightarrow>
   vector_line agent comillas i = Inr (BRLD_ITEM_LIST, c_str (quoted comillas i))"
  by (simp add: vector_line_def Daemon_Format_def ListDepend_def)

lemma VectorFlush_api:
  assumes "agent \<noteq> DEFAULT_EMERALD" "\<forall>i\<in>set (q_VecData q). c_str (quoted comillas i) \<noteq> []"
  shows "VectorFlush agent comillas title q =
    Inr ((if q_subresult q = 1 then [(BRLD_START_LIST, [])] else []) @ items_lines comillas (q_VecData q) @
      (if \<not> q_partial q \<or> q_subresult q = 1 \<and> q_VecData q = [] then [(BRLD_END_LIST, [])] else []))"
proof -
  have "map_res (vector_line agent comillas) (q_VecData q) = Inr (items_lines comillas (q_VecData q))"
    unfolding items_lines_def by (rule map_res_all) (use assms in \<open>simp add: vector_line_api\<close>)
  with assms(1) show ?thesis
    by (simp add: VectorFlush_def JustAPI_def JustEmerald_def Let_def items_lines_def)
qed

text \<open>The pages of a listing as the page loops number them.\<close>

definition numbered :: "query list \<Rightarrow> query \<Rightarrow> bool" where
  "numbered ps q' \<longleftrightarrow>
     map q_subresult ps = map of_nat [1..<Suc (length ps)] \<and> q_subresult q' = of_nat (Suc (length ps)) \<and>
     (\<forall>p\<in>set ps. q_partial p \<and> q_VecData p \<noteq> []) \<and> \<not> q_partial q' \<and> Suc (length ps) < 2 ^ 32"

lemma of_nat_not_one: "1 < n \<Longrightarrow> n < 2 ^ 32 \<Longrightarrow> (of_nat n :: u32) \<noteq> 1"
proof
  assume n: "1 < n" "n < 2 ^ 32" "(of_nat n :: u32) = 1"
  have "unat (of_nat n :: u32) = n" using n(2) by (simp add: unat_of_nat)
  with n(3) have "n = unat (1 :: u32)" by metis
  with n(1) show False by simp
qed

lemma numbered_frame:
  assumes "agent \<noteq> DEFAULT_EMERALD" "numbered ps q'"
    and "\<forall>p\<in>set (ps @ [q']). \<forall>i\<in>set (q_VecData p). c_str (quoted comillas i) \<noteq> []"
  shows "\<exists>ls. map_res (\<lambda>p. VectorFlush agent comillas (title p) p) (ps @ [q']) = Inr ls \<and>
    concat ls = (BRLD_START_LIST, []) # items_lines comillas (concat (map q_VecData ps) @ q_VecData q') @
      [(BRLD_END_LIST, [])]"
proof -
  define line where "line p = (if q_subresult p = 1 then [(BRLD_START_LIST, [])] else []) @
      items_lines comillas (q_VecData p) @ (if \<not> q_partial p then [(BRLD_END_LIST, [])] else [])" for p :: query
  have sub: "q_subresult ((ps @ [q']) ! i) = of_nat (Suc i)" if "i \<le> length ps" for i
  proof (cases "i = length ps")
    case False
    with that have "i < length ps" by simp
    moreover have "map q_subresult ps ! i = of_nat ([1..<Suc (length ps)] ! i)"
      using assms(2) calculation by (simp del: upt_Suc add: numbered_def)
    moreover have "[1..<Suc (length ps)] ! i = Suc i"
      using calculation(1) by (subst nth_upt) simp_all
    ultimately show ?thesis by (simp del: upt_Suc add: nth_append)
  qed (use assms(2) in \<open>simp add: numbered_def nth_append\<close>)
  have flush: "VectorFlush agent comillas (title p) p = Inr (line p)" if "p \<in> set (ps @ [q'])" for p
    using that assms(2,3) by (subst VectorFlush_api [OF assms(1)]) (auto simp: line_def numbered_def)
  have lines: "concat (map line ps') = (if ps' = [] then [] else [(BRLD_START_LIST, [])]) @
      items_lines comillas (concat (map q_VecData ps')) @
      (if length ps' = Suc (length ps) then [(BRLD_END_LIST, [])] else [])"
    if "n \<le> Suc (length ps)" "ps' = take n (ps @ [q'])" for n ps'
    using that
  proof (induction n arbitrary: ps')
    case (Suc n)
    let ?p = "(ps @ [q']) ! n"
    have n: "n \<le> length ps" using Suc.prems(1) by simp
    have ps': "ps' = take n (ps @ [q']) @ [?p]"
      unfolding Suc.prems(2) by (rule take_Suc_conv_app_nth) (use n in simp)
    have one: "q_subresult ?p = 1 \<longleftrightarrow> n = 0"
      using sub [OF n] of_nat_not_one [of "Suc n"] n assms(2) by (cases n) (auto simp: numbered_def)
    have part: "q_partial ?p \<longleftrightarrow> n \<noteq> length ps"
      using n assms(2) by (auto simp: nth_append numbered_def)
    show ?case
      using Suc.IH [OF _ refl] n one part unfolding ps' line_def
      by (auto simp: items_lines_def)
  qed (simp add: items_lines_def)
  have "map_res (\<lambda>p. VectorFlush agent comillas (title p) p) (ps @ [q']) = Inr (map line (ps @ [q']))"
    by (rule map_res_all) (rule flush)
  with lines [of "Suc (length ps)" "ps @ [q']"] show ?thesis by auto
qed

lemma quoted_visible: "c_str (quoted True i) \<noteq> []"
  by (simp add: quoted_def c_str_def)

text \<open>What the page loop leaves is numbered.\<close>

lemma page_ok_numbered:
  assumes "page_ok n m p" "m < 2 ^ 32 - 1" "\<And>s. q_subresult (request s) = fst s \<and> q_VecData (request s) = snd s \<and> q_partial (request s)"
    and "q_subresult q' = p_tracker p + 1" "\<not> q_partial q'"
  shows "numbered (map request (p_sent p)) q'"
proof -
  have m: "m = 50 * length (p_sent p) + length (p_result p)"
    using assms(1) sum_list_const [of "p_sent p" 50] by (auto simp: page_ok_def page_data_def)
  have "map (\<lambda>s. q_subresult (request s)) (p_sent p) = map fst (p_sent p)"
    using assms(3) by simp
  moreover have "\<forall>s\<in>set (p_sent p). q_VecData (request s) \<noteq> []"
    using assms(1,3) by (fastforce simp: page_ok_def)
  ultimately show ?thesis
    using assms m unfolding numbered_def page_ok_def by (auto simp: comp_def)
qed

text \<open>
  C27: What a client that is not the interactive one receives for LGET: over all the pages of the
  command together, one line that starts the list, one line for each element of the requested
  slice of the stored list, in order and quoted, and one line that ends it.
\<close>

lemma lget_query_reply:
  assumes "rocks_ok R view" "ready q w" "q_flags q = QUERY_FLAGS_NONE"
    and "own_view view q w = Some (INT_LIST, v)" "length (list_text v) < 2 ^ 31"
    and "q_limit q = - 1 \<or> 0 \<le> q_limit q \<and> q_limit q < 2 ^ 31 \<and> 0 \<le> q_offset q"
    and "agent \<noteq> DEFAULT_EMERALD"
  shows "\<exists>q' w' ls. Prepare R (lget_query_Run new_query R) (lget_query q) w = Inr (True, q', w') \<and>
    map_res (CheckFlush (lget_query_Process agent)) (drop (length (w_results w)) (w_results w') @ [q']) = Inr ls \<and>
    concat ls = (BRLD_START_LIST, []) #
      items_lines True (page_slice (q_offset q) (q_limit q) (list_text v)) @ [(BRLD_END_LIST, [])]"
proof -
  let ?q = "found_as (of_class QUERY_TYPE_READ INT_LIST q) INT_LIST v"
  let ?p = "page_items push_back (q_offset q) (q_limit q) (list_text v) page_start"
  define request where "request s = (lget_query new_query)\<lparr>q_key := q_key q, q_user := q_user q,
      q_partial := True, q_subresult := fst s, q_VecData := snd s, q_finished := True\<rparr>" for s :: "string sheet"
  define q' where "q' = SetOK (?q\<lparr>q_subresult := p_tracker ?p + 1, q_partial := False,
      q_counter := p_total ?p, q_VecData := p_result ?p\<rparr>)"
  from page_items_slice [OF assms(5,6)] obtain n m where
    p: "page_data ?p = page_slice (q_offset q) (q_limit q) (list_text v)" "page_ok n m ?p" by auto
  have "m = length (page_data ?p)" using p(2) by (simp add: page_ok_def)
  also have "\<dots> \<le> length (list_text v)" by (auto simp: p(1) page_slice_def)
  finally have m: "m < 2 ^ 32 - 1" using assms(5) by simp
  have num: "numbered (map request (p_sent ?p)) q'"
    by (rule page_ok_numbered [OF p(2) m]) (simp_all add: request_def q'_def)
  have P: "Prepare R (lget_query_Run new_query R) (lget_query q) w =
      run_then True (lget_query_Run new_query R) ?q w"
    using Prepare_READ [OF assms(1), of "of_class QUERY_TYPE_READ INT_LIST q" w "lget_query_Run new_query R"] assms(2,4)
    by (simp add: lget_query_def)
  have user: "q_user ?q = q_user q" by (simp add: found_as_def located_def)
  have "lget_items ?q (list_text v) = ?p" using assms(3) by (simp add: lget_items_def)
  then have run: "lget_query_Run new_query R ?q w = Inr (q', attach_pages request ?p w)"
    by (simp add: lget_query_Run_def list_text_def q'_def request_def [abs_def] user Let_def)
  have flush: "CheckFlush (lget_query_Process agent) r = VectorFlush agent True (q_key r) r"
    if "r \<in> set (map request (p_sent ?p) @ [q'])" for r
    using that assms(3) by (auto simp: CheckFlush_def lget_query_Process_def counted_def request_def q'_def
        lget_query_def new_query_def found_as_def located_def)
  have "map_res (CheckFlush (lget_query_Process agent)) (map request (p_sent ?p) @ [q']) =
      map_res (\<lambda>r. VectorFlush agent True (q_key r) r) (map request (p_sent ?p) @ [q'])"
    using flush by (intro map_res_cong) auto
  moreover have "concat (map q_VecData (map request (p_sent ?p))) @ q_VecData q' = page_data ?p"
    by (simp add: page_data_def request_def q'_def comp_def)
  ultimately show ?thesis
    using numbered_frame [OF assms(7) num, of True q_key] quoted_visible run P
    by (auto simp: run_then_def attach_pages_def p(1))
qed

section \<open>Refusals\<close>

text \<open>
  The classes whose \<open>Prepare\<close> compares the type that is there with the one the query is for, and does
  nothing else when they differ.  \<open>DELETE\<close> does not compare them, \<open>FUTURE_RUN\<close> deletes the future
  first, and the classes of the hints have no type of their own.
\<close>

definition typed_classes :: "QUERY_TYPE set" where
  "typed_classes = {QUERY_TYPE_WRITE, QUERY_TYPE_READ, QUERY_TYPE_LAT, QUERY_TYPE_LONG, QUERY_TYPE_READ_ALLOW,
     QUERY_TYPE_ITER, QUERY_TYPE_EXPIRE, QUERY_TYPE_FUTURE}"

lemma located_types: "q_identified (located q t x) = t" "q_base_request (located q t x) = q_base_request q"
  by (simp_all add: located_def Let_def split: option.split)

lemma Prepare_wrong_type:
  assumes "rocks_ok R view" "ready q w" "own_view view q w = Some (t, v)"
    and "q_type q \<in> typed_classes" "q_base_request q \<noteq> t"
  shows "\<exists>x. Prepare R run q w = refuse (invalid_type (located (access_set DBL_STATUS_OK q) t x)) w"
proof -
  obtain ts where ts: "types_of (holds view (q_database q) w) (q_key q) (q_select_query q) = t # ts"
    using key_view_Some [OF assms(3)] by auto
  note G = GetRegistry_eq [OF assms(1), where q = "access_set DBL_STATUS_OK q" and w = w, simplified, unfolded ts, simplified]
  show ?thesis
    using assms(4,5)
    by (auto simp: typed_classes_def Prepare_def Prepare_ready [OF assms(2)] Prepare_write_def Prepare_read_def
        Prepare_read_allow_def Prepare_iter_def Prepare_expire_def Prepare_future_def G Let_def located_types)
qed

text \<open>
  C28: A query whose class has its type checked for a match (WRITE, READ, LAT, LONG, READ_ALLOW,
  ITER, EXPIRE, FUTURE), with any Run and Process, on a name where the registry finds another type
  than the one it works on, changes nothing, and its client receives the one error INVALID_TYPE
  with the name of the type that is there. Of the modelled commands on one type these are all but
  those of the classes DELETE (LDEL, VDEL, HDEL, MDEL), EXISTS (HEXISTS) and FUTURE_RUN, which
  check otherwise, the scans of the store, which look no key up, and the commands that work on any
  type.
\<close>

lemma wrong_type_reply:
  assumes "rocks_ok R view" "ready q w" "own_view view q w = Some (t, v)"
    and "q_type q \<in> typed_classes" "q_base_request q \<noteq> t"
  shows "\<exists>q'. Prepare R run q w = Inr (False, q', w) \<and>
    CheckFlush process q' = Inr [(ERR_INPUT, ''INVALID_TYPE:'' @ TypeString t False)]"
  using Prepare_wrong_type [OF assms, of run]
  by (auto simp: CheckFlush_def DataFlush_InvalidType_def INVALID_FORMAT_def invalid_type_def located_types)

lemma wrong_type_witness:
  "(\<exists>q'. Prepare table_rocks (lpush_query_Run table_rocks) (lpush_query (ask ''a'' ''x'')) (one_world INT_KEY ''v'') =
       Inr (False, q', one_world INT_KEY ''v'') \<and>
     CheckFlush (\<lambda>q. Inr [(BRLD_OK, lpush_query_Process q)]) q' = Inr [(ERR_INPUT, ''INVALID_TYPE:KEY'')]) \<and>
   (\<exists>q'. Prepare table_rocks (hsetnx_query_Run table_rocks) (hsetnx_query (ask ''a'' ''x'')) (one_world INT_KEY ''v'') =
       Inr (False, q', one_world INT_KEY ''v''))"
proof -
  have t: "INT_LIST \<noteq> INT_KEY" "INT_MAP \<noteq> INT_KEY" "TypeString INT_KEY False = ''KEY''"
    by (simp_all add: INT_defs TypeString_def PROCESS_NULL_def)
  have l: "ready (lpush_query (ask ''a'' ''x'')) (one_world INT_KEY ''v'')"
    "own_view map_of (lpush_query (ask ''a'' ''x'')) (one_world INT_KEY ''v'') = Some (INT_KEY, ''v'')"
    "q_type (lpush_query (ask ''a'' ''x'')) \<in> typed_classes" "q_base_request (lpush_query (ask ''a'' ''x'')) \<noteq> INT_KEY"
    using t by (simp_all add: lpush_query_def typed_classes_def)
  have h: "ready (hsetnx_query (ask ''a'' ''x'')) (one_world INT_KEY ''v'')"
    "own_view map_of (hsetnx_query (ask ''a'' ''x'')) (one_world INT_KEY ''v'') = Some (INT_KEY, ''v'')"
    "q_type (hsetnx_query (ask ''a'' ''x'')) \<in> typed_classes" "q_base_request (hsetnx_query (ask ''a'' ''x'')) \<noteq> INT_KEY"
    using t by (simp_all add: hsetnx_query_def typed_classes_def)
  show ?thesis
    using wrong_type_reply [OF table_rocks_ok l, of "lpush_query_Run table_rocks" "\<lambda>q. Inr [(BRLD_OK, lpush_query_Process q)]"]
      wrong_type_reply [OF table_rocks_ok h, of "hsetnx_query_Run table_rocks"] by (auto simp: t(3))
qed

section \<open>An acknowledged failure\<close>

text \<open>
  The first HSET of a name whose write the store refuses leaves every name as it was, and its
  client receives OK.
\<close>

lemma hset_query_acknowledged:
  assumes "rocks_ok R view" "ready q w" "own_view view q w = None" "q_hesh q \<noteq> []" "q_value q \<noteq> []"
    and "\<And>s b. fst (rwrite R s b) = False"
  shows "\<exists>q'. \<exists>w'. Prepare R (hset_query_Run R) (hset_query q) w = Inr (True, q', w') \<and> \<not> q_finished q' \<and>
    (\<forall>k s. view_of view q w' k s = view_of view q w k s) \<and>
    CheckFlush (\<lambda>q. Inr [(BRLD_OK, hset_query_Process q)]) q' = Inr [(BRLD_OK, ''OK'')]"
proof -
  let ?h = "MapHandler_Add (q_hesh q) (q_value q) MapHandler"
  let ?q = "created_as (of_class QUERY_TYPE_WRITE INT_MAP q)"
  obtain ok w' where "Write R (q_dest ?q) (MapHandler_as_string ?h) ?q w = (ok, w')" by fastforce
  moreover from this have "\<not> ok" using assms(6) by (auto simp: Write_def batch_on_def split: prod.splits) (metis fst_conv)
  ultimately have wr: "Write R (q_dest ?q) (MapHandler_as_string ?h) ?q w = (False, w')" by simp
  have run: "hset_query_Run R ?q w = Inr (?q, w')"
    using Get_created_as [OF assms(1), of "of_class QUERY_TYPE_WRITE INT_MAP q" w] assms wr
    by (simp add: hset_query_Run_def GetLast_map_Add)
  have P: "Prepare R (hset_query_Run R) (hset_query q) w = run_then True (hset_query_Run R) ?q w"
    using Prepare_WRITE [OF assms(1), of "of_class QUERY_TYPE_WRITE INT_MAP q" w "hset_query_Run R"] assms(2,3)
    by (simp add: hset_query_def)
  have "\<forall>k s. view_of view q w' k s = view_of view q w k s"
    using Write_view(1) [OF assms(1) wr, of "q_database q"] by simp
  moreover have "CheckFlush (\<lambda>q. Inr [(BRLD_OK, hset_query_Process q)]) ?q = Inr [(BRLD_OK, ''OK'')]"
    by (simp add: CheckFlush_def created_as_def hset_query_Process_def PROCESS_OK_def)
  moreover have "\<not> q_finished ?q" using assms(2) by (simp add: ready_def created_as_def)
  ultimately show ?thesis using P run by (auto simp: run_then_def)
qed

definition refusing_rocks :: "table rocks" where
  "refusing_rocks = table_rocks\<lparr>rwrite := \<lambda>s b. (False, s)\<rparr>"

lemma refusing_rocks_ok: "rocks_ok refusing_rocks map_of"
  using table_rocks_ok by (simp add: rocks_ok_def refusing_rocks_def)

lemma refusing_rocks_write [simp]: "fst (rwrite refusing_rocks s b) = False"
  by (simp add: refusing_rocks_def)

lemma hset_acknowledged_witness:
  "\<exists>q' w'. Prepare refusing_rocks (hset_query_Run refusing_rocks) (hset_query ((ask ''a'' ''x'')\<lparr>q_hesh := ''f''\<rparr>))
       (world_of [] []) = Inr (True, q', w') \<and>
     CheckFlush (\<lambda>q. Inr [(BRLD_OK, hset_query_Process q)]) q' = Inr [(BRLD_OK, ''OK'')]"
  using hset_query_acknowledged [OF refusing_rocks_ok, of "(ask ''a'' ''x'')\<lparr>q_hesh := ''f''\<rparr>" "world_of [] []"]
  by (auto simp: key_view_def types_of_def)

section \<open>An element that cannot be formatted\<close>

lemma vector_line_total: "vector_line agent c i = Inl Out_of_memory \<or> (\<exists>l. vector_line agent c i = Inr l)"
  by (simp add: vector_line_def Daemon_Format_def)

text \<open>
  HVALS of a map that has an empty value finishes, but formatting its reply never ends short
  of the memory: Daemon::Format takes an empty text for a buffer that is too small.
\<close>

lemma hvals_query_exhausts:
  assumes "rocks_ok R view" "ready q w" "own_view view q w = Some (INT_MAP, v)"
    and "q_limit q = - 1" "[] \<in> ran (map_text v)" "card (dom (map_text v)) < 50"
  shows "\<exists>q'. Prepare R (hvals_query_Run new_query R) (hvals_query q) w = Inr (True, q', w) \<and> q_finished q' \<and>
    CheckFlush (hvals_query_Process agent) q' = Inl Out_of_memory"
proof -
  let ?q = "found_as (of_class QUERY_TYPE_READ INT_MAP q) INT_MAP v"
  let ?xs = "map snd (mh_mhandler (MapHandler_Create v))"
  have P: "Prepare R (hvals_query_Run new_query R) (hvals_query q) w = run_then True (hvals_query_Run new_query R) ?q w"
    using Prepare_READ [OF assms(1), of "of_class QUERY_TYPE_READ INT_MAP q" w "hvals_query_Run new_query R"] assms(2,3)
    by (simp add: hvals_query_def)
  have "length (map fst (mh_mhandler (MapHandler_Create v))) = card (dom (map_text v))"
    by (simp add: map_fields_sorted)
  then have "length ?xs < 50" using assms(6) by simp
  from stale_items_quiet [OF this, of "- 1" "q_offset q"] obtain p where
    p: "stale_items push_back (q_offset q) (- 1) ?xs page_start = Inr p" "p_sent p = []" "p_result p = ?xs"
    by (auto simp: page_slice_def)
  define q' where "q' = SetOK (?q\<lparr>q_subresult := p_tracker p + 1, q_partial := False,
       q_counter := p_total p, q_VecData := p_result p\<rparr>)"
  have "[] \<in> set ?xs"
    using assms(5) by (auto simp: ran_def map_text_def map_view_def dest: map_of_SomeD intro!: image_eqI)
  then have "map_res (vector_line agent False) ?xs = Inl Out_of_memory"
    by (rule map_res_fault) (use vector_line_total in \<open>auto simp: vector_line_def Daemon_Format_def quoted_def c_str_def\<close>)
  moreover have "?xs \<noteq> []" using \<open>[] \<in> set ?xs\<close> by auto
  moreover have "hvals_query_Run new_query R ?q w = Inr (q', w)"
    using p assms(4) by (simp add: hvals_query_Run_def MapHandler_GetValues_def stale_vector_def attach_pages_def q'_def)
  moreover have "q_access q' = DBL_STATUS_OK" "q_VecData q' = ?xs" "q_finished q'"
    by (simp_all add: q'_def p(3) found_as_def located_def)
  ultimately show ?thesis
    by (auto simp: P run_then_def CheckFlush_def hvals_query_Process_def VectorFlush_def Let_def)
qed

lemma hvals_exhausts_witness:
  "\<exists>q'. Prepare table_rocks (hvals_query_Run new_query table_rocks) (hvals_query ((ask ''a'' [])\<lparr>q_limit := - 1\<rparr>))
       (one_world INT_MAP (MapHandler_as_string (MapHandler_Add ''f'' [] MapHandler))) =
       Inr (True, q', one_world INT_MAP (MapHandler_as_string (MapHandler_Add ''f'' [] MapHandler))) \<and>
     CheckFlush (hvals_query_Process ''api'') q' = Inl Out_of_memory"
proof -
  let ?v = "MapHandler_as_string (MapHandler_Add ''f'' [] MapHandler)"
  have v: "map_text ?v = [''f'' \<mapsto> []]"
    by (subst map_text_as_string) (simp_all add: wf_map_Add map_view_Add, simp add: map_view_def MapHandler_def)
  show ?thesis
    using hvals_query_exhausts [OF table_rocks_ok, of "(ask ''a'' [])\<lparr>q_limit := - 1\<rparr>" "one_world INT_MAP ?v" ?v "''api''"]
    by (auto simp: v)
qed

lemma lget_reply_witness:
  "\<exists>q' w' ls. Prepare table_rocks (lget_query_Run new_query table_rocks) (lget_query ((ask ''a'' [])\<lparr>q_limit := - 1\<rparr>))
       (one_world INT_LIST sample_list) = Inr (True, q', w') \<and>
     map_res (CheckFlush (lget_query_Process ''api'')) (w_results w' @ [q']) = Inr ls \<and>
     concat ls = (BRLD_START_LIST, []) # items_lines True [''x'', ''z'', ''y''] @ [(BRLD_END_LIST, [])]"
  using lget_query_reply [OF table_rocks_ok, of "(ask ''a'' [])\<lparr>q_limit := - 1\<rparr>" "one_world INT_LIST sample_list"
      sample_list "''api''"]
  by (auto simp: page_slice_def DEFAULT_EMERALD_def)

end
