(* ===== verification/QueryFrame.thy ===== *)
theory QueryFrame
  imports Store_Invariant
begin

text \<open>
  What no query changes: its user, its flags, and that it is not a page.  Whatever a \<open>Run\<close>
  attaches are pages of the same user.  Proved once for \<open>Prepare\<close> and every command and scan of
  the model; the dispatcher rests on it.
\<close>

definition same_client :: "query \<Rightarrow> 'd world \<Rightarrow> query \<Rightarrow> 'd world \<Rightarrow> bool" where
  "same_client q w q' w' \<longleftrightarrow>
     q_user q' = q_user q \<and> q_flags q' = q_flags q \<and> (q_partial q' \<longrightarrow> q_partial q) \<and>
     (\<exists>ps. w_results w' = w_results w @ ps \<and> (\<forall>p\<in>set ps. q_user p = q_user q \<and> q_partial p))"

definition frame_run :: "'d run \<Rightarrow> bool" where
  "frame_run run \<longleftrightarrow> (\<forall>q w q' w'. run q w = Inr (q', w') \<longrightarrow> same_client q w q' w')"

text \<open>Steps that leave the results alone.\<close>

definition quiet :: "query \<Rightarrow> 'd world \<Rightarrow> query \<Rightarrow> 'd world \<Rightarrow> bool" where
  "quiet q w q' w' \<longleftrightarrow>
     q_user q' = q_user q \<and> q_flags q' = q_flags q \<and> (q_partial q' \<longrightarrow> q_partial q) \<and>
     w_results w' = w_results w"

lemma quiet_same_client: "quiet q w q' w' \<Longrightarrow> same_client q w q' w'"
  by (simp add: quiet_def same_client_def)

lemma frame_quiet: "(\<And>q w q' w'. run q w = Inr (q', w') \<Longrightarrow> quiet q w q' w') \<Longrightarrow> frame_run run"
  by (simp add: frame_run_def quiet_same_client)

lemma Write_results: "Write R k v q w = (ok, w') \<Longrightarrow> w_results w' = w_results w"
  by (auto simp: Write_def dest: batch_on_eq)

lemma Write_results_snd [simp]: "w_results (snd (Write R k v q w)) = w_results w"
  by (rule Write_results) (rule prod.collapse [symmetric])

lemma same_client_access [simp]: "same_client q w (access_set c q) w"
  by (simp add: same_client_def)

lemma write_dest_frame:
  "write_dest R v q w = (q', w') \<Longrightarrow>
   q_user q' = q_user q \<and> q_flags q' = q_flags q \<and> q_partial q' = q_partial q \<and> w_results w' = w_results w"
  by (auto simp: write_dest_def dest: Write_results split: prod.splits if_splits)

lemma store_frame:
  "store_list R h ok q w = (q', w') \<Longrightarrow>
   q_user q' = q_user q \<and> q_flags q' = q_flags q \<and> q_partial q' = q_partial q \<and> w_results w' = w_results w"
  "store_vector R h2 q w = (q', w') \<Longrightarrow>
   q_user q' = q_user q \<and> q_flags q' = q_flags q \<and> q_partial q' = q_partial q \<and> w_results w' = w_results w"
  "store_map R h3 q w = (q', w') \<Longrightarrow>
   q_user q' = q_user q \<and> q_flags q' = q_flags q \<and> q_partial q' = q_partial q \<and> w_results w' = w_results w"
  by (auto simp: store_list_def store_vector_def store_map_def dest: write_dest_frame split: prod.splits if_splits)

lemma WriteExpire_results [simp]: "w_results (WriteExpire R k s t dbo q w) = w_results w"
  by (auto simp: WriteExpire_def Let_def dest: Write_results split: prod.splits)

lemma DelExpire_results [simp]: "w_results (DelExpire R q w) = w_results w"
  by (simp add: DelExpire_def Let_def)

lemma batch_on_results: "batch_on R d b w = (ok, w') \<Longrightarrow> w_results w' = w_results w"
  by (auto dest: batch_on_eq)

lemma WriteFuture_results [simp]: "w_results (WriteFuture R k s t v q w) = w_results w"
  by (auto simp: WriteFuture_def Let_def dest: Write_results split: prod.splits)

lemma ExpireBatch_results [simp]: "w_results (ExpireBatch R dest v k s t q w) = w_results w"
  by (auto simp: ExpireBatch_def Let_def dest: batch_on_results split: prod.splits)

lemmas frame_dests = Write_results batch_on_results write_dest_frame store_frame

lemma frame_keys:
  "frame_run (set_query_Run R)" "frame_run (setex_query_Run R)" "frame_run (setnx_query_Run R)"
  "frame_run (settx_query_Run R)" "frame_run (append_query_Run R)" "frame_run (get_substr_query_Run R)"
  "frame_run (getset_query_Run R)" "frame_run (insert_query_Run R)" "frame_run (modify_query_Run R)"
  "frame_run (getdel_query_Run R)" "frame_run (getpersist_query_Run R)" "frame_run (getexp_query_Run R)"
  "frame_run (expireat_query_Run R)" "frame_run (expire_del_query_Run R)" "frame_run (get_query_Run R)"
  "frame_run (strlen_query_Run R)" "frame_run (alpha_query_Run R)" "frame_run (isnum_query_Run R)"
  "frame_run (isbool_query_Run R)" "frame_run (asbool_query_Run R)" "frame_run (ismatch_query_Run R)"
  "frame_run (char_query_Run R)"
  by (rule frame_quiet; auto simp: quiet_def Let_def bind_res_Inr_iff set_query_Run_def setex_query_Run_def
      setnx_query_Run_def settx_query_Run_def append_query_Run_def get_substr_query_Run_def
      getset_query_Run_def insert_query_Run_def modify_query_Run_def getdel_query_Run_def
      getpersist_query_Run_def getexp_query_Run_def expireat_query_Run_def expire_del_query_Run_def
      get_query_Run_def strlen_query_Run_def alpha_query_Run_def isnum_query_Run_def
      isbool_query_Run_def asbool_query_Run_def ismatch_query_Run_def char_query_Run_def
      dest!: frame_dests split: if_splits prod.splits option.splits)+

lemma frame_lists:
  "frame_run (lpush_query_Run R)" "frame_run (lpushnx_query_Run R)" "frame_run (lreverse_query_Run R)"
  "frame_run (lsort_query_Run R)" "frame_run (lresize_query_Run R)" "frame_run (lpop_front_query_Run R)"
  "frame_run (lpop_back_query_Run R)" "frame_run (lpopall_query_Run R)" "frame_run (lrop_query_Run R)"
  "frame_run (ldel_query_Run R)" "frame_run (lpos_query_Run R)" "frame_run (lcount_query_Run R)"
  "frame_run (lexist_query_Run R)" "frame_run (lrepeats_query_Run R)" "frame_run (lback_query_Run R)"
  "frame_run (lfront_query_Run R)"
  by (rule frame_quiet; auto simp: quiet_def Let_def bind_res_Inr_iff lpush_query_Run_def
      lpushnx_query_Run_def lreverse_query_Run_def lsort_query_Run_def lresize_query_Run_def
      lpop_front_query_Run_def lpop_back_query_Run_def lpopall_query_Run_def lrop_query_Run_def
      ldel_query_Run_def lpos_query_Run_def lcount_query_Run_def lexist_query_Run_def
      lrepeats_query_Run_def lback_query_Run_def lfront_query_Run_def
      dest!: frame_dests split: if_splits prod.splits option.splits HANDLER_MSG.splits)+

lemma frame_vectors:
  "frame_run (vpush_query_Run R)" "frame_run (vpushnx_query_Run R)" "frame_run (vsort_query_Run R)"
  "frame_run (vreverse_query_Run R)" "frame_run (vresize_query_Run R)" "frame_run (vpop_front_query_Run R)"
  "frame_run (vpop_back_query_Run R)" "frame_run (vpos_query_Run R)"
  "frame_run (vcount_query_Run R)" "frame_run (vexist_query_Run R)" "frame_run (vrepeats_query_Run R)"
  "frame_run (vback_query_Run R)" "frame_run (vfront_query_Run R)"
  by (rule frame_quiet; auto simp: quiet_def Let_def bind_res_Inr_iff vpush_query_Run_def
      vpushnx_query_Run_def vsort_query_Run_def vreverse_query_Run_def vresize_query_Run_def
      vpop_front_query_Run_def vpop_back_query_Run_def vpos_query_Run_def
      vcount_query_Run_def vexist_query_Run_def vrepeats_query_Run_def vback_query_Run_def
      vfront_query_Run_def
      dest!: frame_dests split: if_splits prod.splits option.splits HANDLER_MSG.splits)+

lemma frame_vdel: "frame_run (vdel_query_Run R)"
proof (rule frame_quiet)
  fix q w q' w' assume run: "vdel_query_Run R q w = Inr (q', w')"
  have st: "quiet q w (SetOK (fst (store_vector R h q w))) (snd (store_vector R h q w))" for h
    using store_frame(2) [of R h q w, OF prod.collapse [symmetric]] by (simp add: quiet_def)
  from run show "quiet q w q' w'"
    unfolding vdel_query_Run_def Let_def
    by (auto simp: bind_res_Inr_iff case_prod_beta st split: if_splits) (auto simp: quiet_def)
qed

lemma frame_maps:
  "frame_run (hset_query_Run R)" "frame_run (hsetnx_query_Run R)" "frame_run (hdel_query_Run R)"
  "frame_run (hget_query_Run R)" "frame_run (hstrlen_query_Run R)" "frame_run (mset_query_Run R)"
  "frame_run (msetnx_query_Run R)" "frame_run (mdel_query_Run R)" "frame_run (mrepeats_query_Run R)"
  "frame_run (hexists_query_Run R)" "frame_run exists_query_Run"
  by (rule frame_quiet; auto simp: quiet_def Let_def bind_res_Inr_iff hset_query_Run_def
      hsetnx_query_Run_def hdel_query_Run_def hget_query_Run_def hstrlen_query_Run_def mset_query_Run_def
      msetnx_query_Run_def mdel_query_Run_def mrepeats_query_Run_def hexists_query_Run_def
      exists_query_Run_def multi_first_def multi_add_def
      dest!: frame_dests split: if_splits prod.splits option.splits HANDLER_MSG.splits)+

lemma frame_del: "frame_run (del_query_Run R)"
  by (rule frame_quiet) (auto simp: quiet_def Let_def del_query_Run_def del_query_Keys_def batch_reply_def
      dest!: frame_dests split: if_splits prod.splits)

section \<open>Runs that attach pages\<close>


lemma frame_pages:
  assumes "\<And>s. q_user (request s) = q_user q \<and> q_partial (request s)"
    and "q_user q' = q_user q" "q_flags q' = q_flags q" "q_partial q' \<longrightarrow> q_partial q"
  shows "same_client q w q' (attach_pages request p w)"
  using assms by (auto simp: same_client_def attach_pages_def intro!: exI [of _ "map request (p_sent p)"])

lemma CheckIterator_frame:
  "CheckIterator q w = (go, q1, w1) \<Longrightarrow>
   q_user q1 = q_user q \<and> q_flags q1 = q_flags q \<and> q_partial q1 = q_partial q \<and> w_results w1 = w_results w"
  by (auto simp: CheckIterator_def Let_def split: if_splits)

lemma scan_pages_frame:
  "scan_pages pick ins off lim its p q w = (done, p', q', w') \<Longrightarrow>
   q_user q' = q_user q \<and> q_flags q' = q_flags q \<and> q_partial q' = q_partial q \<and> w_results w' = w_results w"
proof (induction its arbitrary: p q w)
  case (Cons it its)
  obtain go q1 w1 where c: "CheckIterator q w = (go, q1, w1)" by (metis prod_cases3)
  note f = CheckIterator_frame [OF c]
  consider "q' = q1 \<and> w' = w1" | p1 where "scan_pages pick ins off lim its p1 q1 w1 = (done, p', q', w')"
    using Cons.prems c by (auto split: if_splits option.splits prod.splits)
  then show ?case
  proof cases
    case 1
    with f show ?thesis by blast
  next
    case 2
    from Cons.IH [OF this] f show ?thesis by metis
  qed
qed simp

lemma attach_pages_results: "w_results w1 = w_results w \<Longrightarrow>
  w_results (attach_pages request p w1) = w_results w @ map request (p_sent p)"
  by (simp add: attach_pages_def)

lemma frame_run_pages:
  assumes "run_pages R pick request q w = Inr (q', w')"
    and "\<And>s. q_user (request s) = q_user q \<and> q_partial (request s)"
  shows "same_client q w q' w'"
proof -
  obtain fin p q1 w1 where s: "scan_pages pick push_back (q_offset q) (q_limit q)
      (riter R (rocks_of (q_database q) w)) page_start q w = (fin, p, q1, w1)"
    by (metis prod_cases4)
  note f = scan_pages_frame [OF s]
  from assms(1) s have q': "q' = (if fin then last_page p q1 else q1)" and w': "w' = attach_pages request p w1"
    by (auto simp: run_pages_def)
  have "w_results w' = w_results w @ map request (p_sent p)"
    unfolding w' by (rule attach_pages_results) (use f in simp)
  with f assms(2) q' show ?thesis
    by (auto simp: same_client_def last_page_def)
qed

lemma frame_scans:
  "frame_run (keys_query_Run fresh R)" "frame_run (lkeys_query_Run fresh R)" "frame_run (vkeys_query_Run fresh R)"
  "frame_run (hfind_query_Run fresh R)" "frame_run (mkeys_query_Run fresh R)"
  by (auto simp: frame_run_def keys_query_Run_def lkeys_query_Run_def vkeys_query_Run_def hfind_query_Run_def
      mkeys_query_Run_def vec_request_def intro: frame_run_pages)

lemma frame_lget: "frame_run (lget_query_Run fresh R)" "frame_run (vget_query_Run fresh R)"
  "frame_run (vfind_query_Run fresh R)"
  by (auto simp: frame_run_def lget_query_Run_def vget_query_Run_def vfind_query_Run_def vec_request_def Let_def
      bind_res_Inr_iff intro!: frame_pages split: if_splits prod.splits)

lemma frame_stale:
  "stale_vector request items q w = Inr (q', w') \<Longrightarrow>
   (\<And>s. q_user (request s) = q_user q \<and> q_partial (request s)) \<Longrightarrow> same_client q w q' w'"
  "stale_map request2 items2 q w = Inr (q', w') \<Longrightarrow>
   (\<And>s. q_user (request2 s) = q_user q \<and> q_partial (request2 s)) \<Longrightarrow> same_client q w q' w'"
  by (auto simp: stale_vector_def stale_map_def bind_res_Inr_iff intro!: frame_pages)

lemma frame_map_lists:
  "frame_run (hlist_query_Run fresh R)" "frame_run (hvals_query_Run fresh R)" "frame_run (hgetall_query_Run fresh R)"
  "frame_run (mget_query_Run fresh R)" "frame_run (mvals_query_Run fresh R)" "frame_run (mgetall_query_Run fresh R)"
  "frame_run (miter_query_Run fresh R)"
  by (auto simp: frame_run_def hlist_query_Run_def hvals_query_Run_def hgetall_query_Run_def mget_query_Run_def
      mvals_query_Run_def mgetall_query_Run_def miter_query_Run_def vec_request_def map_request_def Let_def
      elim!: frame_stale split: if_splits prod.splits)

lemma count_loop_frame: "count_loop its tot q w = (q', w') \<Longrightarrow> quiet q w q' w'"
proof (induction its arbitrary: tot q w)
  case (Cons it its)
  obtain go q1 w1 where c: "CheckIterator q w = (go, q1, w1)" by (metis prod_cases3)
  from Cons.prems Cons.IH [of _ q1 w1] CheckIterator_frame [OF c] show ?case
    by (auto simp: c quiet_def split: if_splits)
qed (auto simp: quiet_def)

lemma frame_count: "frame_run (count_query_Run R)"
  by (auto simp: frame_run_def count_query_Run_def dest: count_loop_frame intro: quiet_same_client)

lemma wdel_one_results [simp]: "w_results (wdel_one R raw name q w) = w_results w"
  by (simp add: wdel_one_def Let_def)

lemma wdel_loop_frame: "wdel_loop R its tot q w = (q', w') \<Longrightarrow> quiet q w q' w'"
proof (induction its arbitrary: tot q w)
  case (Cons it its)
  obtain go q1 w1 where c: "CheckIterator q w = (go, q1, w1)" by (metis prod_cases3)
  from Cons.prems Cons.IH [of _ q1] CheckIterator_frame [OF c] show ?case
    by (auto simp: c quiet_def split: if_splits option.splits)
qed (auto simp: quiet_def)

lemma frame_wdel: "frame_run (wdel_query_Run R)"
  by (auto simp: frame_run_def wdel_query_Run_def dest: wdel_loop_frame intro: quiet_same_client)

lemma frame_search: "frame_run (search_query_Run fresh R)"
  unfolding frame_run_def
proof (intro allI impI)
  fix q w q' w' assume run: "search_query_Run fresh R q w = Inr (q', w')"
  let ?request = "\<lambda>s. (search_query fresh)\<lparr>q_user := q_user q, q_partial := True,
      q_subresult := fst s, q_mmap := snd s, q_finished := True\<rparr>"
  obtain fin p q1 w1 where s: "scan_pages (pick_value q) insert_pair (q_offset q) (q_limit q)
      (riter R (rocks_of (q_database q) w)) page_start q w = (fin, p, q1, w1)"
    by (metis prod_cases4)
  note f = scan_pages_frame [OF s]
  have "w_results (attach_pages ?request p w1) = w_results w @ map ?request (p_sent p)"
    by (rule attach_pages_results) (use f in simp)
  with run s f show "same_client q w q' w'"
    by (cases fin) (auto simp: search_query_Run_def same_client_def)
qed

lemma all_frame_run:
  "(cls, run) \<in> set (commands R) \<or> (cls, run) \<in> set (scans R) \<Longrightarrow> frame_run run"
  by (auto simp: commands_def scans_def frame_keys frame_lists frame_vectors frame_vdel frame_maps frame_del
      frame_scans frame_lget frame_map_lists frame_count frame_wdel frame_search)

section \<open>Prepare\<close>

lemma GetRegistry_frame:
  "GetRegistry R s k load q w = (found, q1) \<Longrightarrow> q_user q1 = q_user q \<and> q_flags q1 = q_flags q \<and> q_partial q1 = q_partial q"
  by (auto simp: GetRegistry_def SetDest_def Let_def split: option.splits prod.splits if_splits)

lemma GetRegistry_fields [simp]:
  "q_user (snd (GetRegistry R s k load q w)) = q_user q" "q_flags (snd (GetRegistry R s k load q w)) = q_flags q"
  "q_partial (snd (GetRegistry R s k load q w)) = q_partial q"
  using GetRegistry_frame [OF prod.collapse [symmetric], of R s k load q w] by simp_all

lemma run_then_frame:
  "frame_run run \<Longrightarrow> run_then b run q w = Inr (b', q', w') \<Longrightarrow> same_client q w q' w'"
  by (auto simp: run_then_def frame_run_def bind_res_Inr_iff)

lemma same_client_from:
  "same_client q1 w q' w' \<Longrightarrow> q_user q1 = q_user q \<Longrightarrow> q_flags q1 = q_flags q \<Longrightarrow> q_partial q1 = q_partial q \<Longrightarrow>
   same_client q w q' w'"
  by (simp add: same_client_def)

lemma same_client_refuse [simp]:
  "q_user q1 = q_user q \<Longrightarrow> q_flags q1 = q_flags q \<Longrightarrow> q_partial q1 = q_partial q \<Longrightarrow> same_client q w q1 w"
  by (simp add: same_client_def)

lemma DelFuture_results [simp]: "w_results (DelFuture R q w) = w_results w"
  by (simp add: DelFuture_def Let_def)

lemma Prepare_simple_frames:
  assumes "frame_run run"
  shows "Prepare_write R run q w = Inr (b, q', w') \<Longrightarrow> same_client q w q' w'"
    "Prepare_read R run q w = Inr (b, q', w') \<Longrightarrow> same_client q w q' w'"
    "Prepare_read_allow R run q w = Inr (b, q', w') \<Longrightarrow> same_client q w q' w'"
    "Prepare_iter R run q w = Inr (b, q', w') \<Longrightarrow> same_client q w q' w'"
    "Prepare_delete R run q w = Inr (b, q', w') \<Longrightarrow> same_client q w q' w'"
    "Prepare_future R run q w = Inr (b, q', w') \<Longrightarrow> same_client q w q' w'"
    "Prepare_expire R run q w = Inr (b, q', w') \<Longrightarrow> same_client q w q' w'"
  by (auto simp: Prepare_write_def Prepare_read_def Prepare_read_allow_def Prepare_iter_def Prepare_delete_def
      Prepare_future_def Prepare_expire_def Let_def invalid_type_def not_found_null_def
      dest!: GetRegistry_frame dest: run_then_frame [OF assms]
      split: prod.splits if_splits intro: same_client_from)

lemma Prepare_dest_frames:
  assumes "frame_run run"
  shows "Prepare_diff R run q w = Inr (b, q', w') \<Longrightarrow> same_client q w q' w'"
    "Prepare_rename R run q w = Inr (b, q', w') \<Longrightarrow> same_client q w q' w'"
    "Prepare_transfer R run q w = Inr (b, q', w') \<Longrightarrow> same_client q w q' w'"
    "Prepare_renamenx R run q w = Inr (b, q', w') \<Longrightarrow> same_client q w q' w'"
    "Prepare_clone R run q w = Inr (b, q', w') \<Longrightarrow> same_client q w q' w'"
    "Prepare_move R run q w = Inr (b, q', w') \<Longrightarrow> same_client q w q' w'"
    "Prepare_copy R run q w = Inr (b, q', w') \<Longrightarrow> same_client q w q' w'"
  by (auto simp: Prepare_diff_def Prepare_rename_def Prepare_transfer_def Prepare_renamenx_def Prepare_clone_def
      Prepare_move_def Prepare_copy_def Let_def invalid_type_def not_found_null_def
      dest: run_then_frame [OF assms] split: if_splits option.splits intro: same_client_from)

lemma Prepare_future_run_frame:
  assumes "frame_run run" "Prepare_future_run R run q w = Inr (b, q', w')"
  shows "same_client q w q' w'"
  using assms(2)
  by (auto simp: Prepare_future_run_def same_client_def invalid_type_def dest!: GetRegistry_frame
      dest: run_then_frame [OF assms(1)] split: prod.splits if_splits intro: same_client_from)

lemma registry_run_frame:
  assumes "frame_run run" "run_then c run (snd (GetRegistry R s k load q w)) w = Inr (b, q', w')"
  shows "same_client q w q' w'"
  by (rule same_client_from [OF run_then_frame [OF assms]]) simp_all

lemma Prepare_frame:
  assumes "frame_run run" "Prepare R run q w = Inr (b, q', w')"
  shows "same_client q w q' w'"
proof -
  obtain ok q1 where c: "Check q w = (ok, q1)" by fastforce
  obtain ok2 q2 where k: "CheckKey q1 = (ok2, q2)" by fastforce
  have q2: "q_user q2 = q_user q" "q_flags q2 = q_flags q" "q_partial q2 = q_partial q"
    "q_user q1 = q_user q" "q_flags q1 = q_flags q" "q_partial q1 = q_partial q"
    using c k by (auto simp: Check_def CheckKey_def split: if_splits)
  consider "q' = q1 \<and> w' = w" | "q' = q2 \<and> w' = w" | "same_client q2 w q' w'"
    using assms(2) c k
    by (auto simp: Prepare_def Let_def
        dest: Prepare_simple_frames [OF assms(1)] Prepare_dest_frames [OF assms(1)]
          Prepare_future_run_frame [OF assms(1)] registry_run_frame [OF assms(1)] run_then_frame [OF assms(1)]
        split: if_splits QUERY_TYPE.splits intro: same_client_from)
  then show ?thesis
    using q2 by cases (auto intro: same_client_from)
qed

end
