(* ===== verification/Dispatch.thy ===== *)
theory Dispatch
  imports QueryFrame Replies
begin

text \<open>
  How queries travel (\<open>src/brldb/dbflush.cpp\<close>, \<open>database.cpp\<close>, \<open>src/clients.cpp\<close>,
  \<open>reducer.cpp\<close>): a command pushes a query to its user's \<open>pending\<close>; the main loop posts the
  front of it to a data thread and locks the user; the thread prepares the query and attaches
  the result to the user's \<open>notifications\<close>; the main loop sends the reply and unlocks the user.
  A user that leaves while locked waits in \<open>AwaitingExit\<close>.

  Users are objects at addresses, and an access through the address of an object that was deleted
  is undefined behaviour.  The main loop is one thread; a data thread takes a query, prepares it
  (\<open>query_mute\<close> keeps the others from preparing meanwhile, so this is one step) and hands it over,
  and anything may happen between these three steps.
\<close>

section \<open>State\<close>

text \<open>
  A query object: its fields and its virtual functions, with the \<open>Process\<close> of the pages its \<open>Run\<close>
  makes.  \<open>sg_seq\<close> numbers the pushes; no operation looks at it.
\<close>

record 'd signal =
  sg_query :: query
  sg_run :: "'d run"
  sg_process :: "string \<Rightarrow> query \<Rightarrow> reply list res"
  sg_page_process :: "string \<Rightarrow> query \<Rightarrow> reply list res"
  sg_seq :: nat

record 'd user =
  u_agent :: string
  u_quitting :: bool
  u_locked :: bool
  u_pending :: "'d signal list"
  u_notifications :: "'d signal list"

text \<open>Where a data thread is in the body of its loop.\<close>

datatype 'd phase = Waiting | Taken "'d signal" | Prepared "'d signal"

record 'd data_thread =
  t_busy :: bool
  t_queue :: "'d signal list"
  t_phase :: "'d phase"

text \<open>
  \<open>s_sent\<close> is the log of replies: the user, the number of the push, whether it was the last reply
  to it, and the lines.
\<close>

type_synonym sent = "nat \<times> nat \<times> bool \<times> reply list"

record 'd server =
  s_heap :: "nat \<Rightarrow> 'd user option"
  s_clients :: "nat list"
  s_awaiting :: "nat list"
  s_reducer :: "nat list"
  s_threads :: "'d data_thread list"
  s_running :: bool
  s_world :: "'d world"
  s_sent :: "sent list"
  s_count :: nat

text \<open>The user the server's own queries belong to.\<close>

definition Global :: nat where "Global = 0"

abbreviation sg_user :: "'d signal \<Rightarrow> nat" where
  "sg_user sg \<equiv> q_user (sg_query sg)"

definition user_of :: "'d server \<Rightarrow> nat \<Rightarrow> 'd user res" where
  "user_of s u = (case s_heap s u of None \<Rightarrow> Inl Undefined_behaviour | Some x \<Rightarrow> Inr x)"

definition put_user :: "nat \<Rightarrow> 'd user \<Rightarrow> 'd server \<Rightarrow> 'd server" where
  "put_user u x s = s\<lparr>s_heap := (s_heap s)(u \<mapsto> x)\<rparr>"

text \<open>\<open>SendProtocol\<close> has no effect on a user that is not local.\<close>

definition send_reply :: "nat \<Rightarrow> 'd signal \<Rightarrow> reply list \<Rightarrow> 'd server \<Rightarrow> 'd server" where
  "send_reply u sg lines s =
     (if u = Global then s
      else s\<lparr>s_sent := s_sent s @ [(u, sg_seq sg, \<not> q_partial (sg_query sg), lines)]\<rparr>)"

primrec for_users :: "(nat \<Rightarrow> 'd server \<Rightarrow> 'd server res) \<Rightarrow> nat list \<Rightarrow> 'd server \<Rightarrow> 'd server res" where
  "for_users f [] s = Inr s"
| "for_users f (u # us) s = bind_res (f u s) (for_users f us)"

section \<open>Attaching\<close>

definition StoreManager_Push :: "'d signal \<Rightarrow> 'd server \<Rightarrow> 'd server res" where
  "StoreManager_Push request s =
     bind_res (user_of s (sg_user request)) (\<lambda>user.
       Inr (if u_quitting user then s
            else put_user (sg_user request) (user\<lparr>u_pending := u_pending user @ [request]\<rparr>) s))"

definition DataFlush_AttachResult :: "'d signal \<Rightarrow> 'd server \<Rightarrow> 'd server res" where
  "DataFlush_AttachResult signal s =
     bind_res (user_of s (sg_user signal)) (\<lambda>user.
       Inr (put_user (sg_user signal) (user\<lparr>u_notifications := u_notifications user @ [signal]\<rparr>) s))"

definition DataFlush_AttachGlobal :: "'d signal \<Rightarrow> 'd server \<Rightarrow> 'd server res" where
  "DataFlush_AttachGlobal signal s =
     bind_res (user_of s (sg_user signal)) (\<lambda>user.
     bind_res (sg_process signal (u_agent user) (sg_query signal)) (\<lambda>lines.
       Inr (send_reply (sg_user signal) signal lines (put_user (sg_user signal) (user\<lparr>u_locked := False\<rparr>) s))))"

section \<open>The main loop\<close>

definition get_result :: "nat \<Rightarrow> 'd server \<Rightarrow> 'd server res" where
  "get_result u s =
     bind_res (user_of s u) (\<lambda>user.
       if u_quitting user \<or> u_notifications user = [] then Inr s
       else (let signal = hd (u_notifications user);
                 user1 = user\<lparr>u_notifications := tl (u_notifications user)\<rparr>
             in bind_res (CheckFlush (sg_process signal (u_agent user)) (sg_query signal)) (\<lambda>lines.
                  Inr (send_reply u signal lines
                    (put_user u (if q_partial (sg_query signal) then user1 else user1\<lparr>u_locked := False\<rparr>) s)))))"

definition DataFlush_GetResults :: "'d server \<Rightarrow> 'd server res" where
  "DataFlush_GetResults s = for_users get_result (s_clients s) s"

definition DataThread_Post :: "nat \<Rightarrow> 'd signal \<Rightarrow> 'd server \<Rightarrow> 'd server res" where
  "DataThread_Post i query s =
     (if d_closing (w_dbs (s_world s) (q_database (sg_query query)))
      then bind_res (user_of s (sg_user query)) (\<lambda>user.
             Inr (send_reply (sg_user query) query [(ERR_INPUT, DB_NULL)]
               (put_user (sg_user query) (user\<lparr>u_locked := False\<rparr>) s)))
      else (let thread = s_threads s ! i
            in Inr (s\<lparr>s_threads := (s_threads s)[i := thread\<lparr>t_queue := t_queue thread @ [query]\<rparr>]\<rparr>)))"

text \<open>The first thread that is not busy.\<close>

primrec free_thread :: "'d data_thread list \<Rightarrow> nat \<Rightarrow> nat option" where
  "free_thread [] i = None"
| "free_thread (t # ts) i = (if \<not> t_busy t then Some i else free_thread ts (i + 1))"

text \<open>\<open>pick\<close> is the random index; a random item of no threads is read past the end.\<close>

definition DataFlush_Process :: "nat \<Rightarrow> nat \<Rightarrow> 'd signal \<Rightarrow> 'd server \<Rightarrow> 'd server res" where
  "DataFlush_Process pick u signal s =
     (if \<not> s_running s then Inr s
      else if s_threads s = [] then Inl Undefined_behaviour
      else (let i = (case free_thread (s_threads s) 0 of Some i \<Rightarrow> i | None \<Rightarrow> pick mod length (s_threads s))
            in bind_res (user_of s u) (\<lambda>user.
                 DataThread_Post i signal (put_user u (user\<lparr>u_pending := tl (u_pending user)\<rparr>) s))))"

definition get_pending :: "(nat \<Rightarrow> nat) \<Rightarrow> nat \<Rightarrow> 'd server \<Rightarrow> 'd server res" where
  "get_pending pick u s =
     bind_res (user_of s u) (\<lambda>user.
       if \<not> u_quitting user \<and> (u_pending user = [] \<or> u_locked user) then Inr s
       else if u_pending user = [] then Inl Undefined_behaviour
       else DataFlush_Process (pick u) u (hd (u_pending user)) (put_user u (user\<lparr>u_locked := True\<rparr>) s))"

definition DataFlush_GetPending :: "(nat \<Rightarrow> nat) \<Rightarrow> 'd server \<Rightarrow> 'd server res" where
  "DataFlush_GetPending pick s =
     bind_res (user_of s Global) (\<lambda>global.
       if u_pending global \<noteq> []
       then DataFlush_Process (pick Global) Global (hd (u_pending global)) s
       else for_users (get_pending pick) (s_clients s) s)"

text \<open>\<open>DataFlush::Process()\<close>, called on every round of the main loop.\<close>

definition DataFlush_round :: "(nat \<Rightarrow> nat) \<Rightarrow> 'd server \<Rightarrow> 'd server res" where
  "DataFlush_round pick s =
     (if \<not> s_running s then Inr s
      else bind_res (DataFlush_GetResults s) (DataFlush_GetPending pick))"

text \<open>
  A push gets the next number.  \<open>ExpireManager::Reset\<close> pushes a query of the server for every
  running timer (\<open>ExpireHelper::Persist\<close>).
\<close>

definition numbered_push :: "'d signal \<Rightarrow> 'd server \<Rightarrow> 'd server res" where
  "numbered_push sg s = StoreManager_Push (sg\<lparr>sg_seq := s_count s\<rparr>) (s\<lparr>s_count := s_count s + 1\<rparr>)"

primrec push_all :: "'d signal list \<Rightarrow> 'd server \<Rightarrow> 'd server res" where
  "push_all [] s = Inr s"
| "push_all (sg # sgs) s = bind_res (numbered_push sg s) (push_all sgs)"

definition ExpireHelper_Persist :: "'d rocks \<Rightarrow> db \<Rightarrow> u32 \<Rightarrow> string \<Rightarrow> 'd signal" where
  "ExpireHelper_Persist R database select entry =
     \<lparr>sg_query = (expire_del_query new_query)\<lparr>q_database := database, q_flags := QUERY_FLAGS_QUIET,
        q_select_query := select, q_user := Global, q_key := entry\<rparr>,
      sg_run = expire_del_query_Run R,
      sg_process = (\<lambda>agent q. Inr (case expire_del_query_Process q of None \<Rightarrow> [] | Some l \<Rightarrow> [(BRLD_OK, l)])),
      sg_page_process = (\<lambda>agent q. Inr []), sg_seq = 0\<rparr>"

fun persist_request :: "'d rocks \<Rightarrow> request \<Rightarrow> 'd signal list" where
  "persist_request R (Push_expire_del d select key) = [ExpireHelper_Persist R d select key]"
| "persist_request R _ = []"

definition clear_user :: "'d user \<Rightarrow> 'd user" where
  "clear_user user = user\<lparr>u_pending := [], u_notifications := []\<rparr>"

definition DataFlush_ResetAll :: "'d rocks \<Rightarrow> 'd server \<Rightarrow> 'd server res" where
  "DataFlush_ResetAll R s =
     (let s1 = s\<lparr>s_running := False,
                 s_heap := (\<lambda>u. map_option (\<lambda>user. if u = Global \<or> u \<in> set (s_clients s) \<and> \<not> u_quitting user
                                              then clear_user user else user) (s_heap s u))\<rparr>
      in bind_res (push_all (concat (map (persist_request R) (ExpireManager_Reset (w_expires (s_world s))))) s1)
           (\<lambda>s2. Inr (s2\<lparr>s_running := True\<rparr>)))"

section \<open>A data thread\<close>

text \<open>
  \<open>DataThread::Process\<close> in three steps.  The test for a quitting user is never true, since it asks
  for a user that is null.
\<close>

definition set_thread :: "nat \<Rightarrow> 'd data_thread \<Rightarrow> 'd server \<Rightarrow> 'd server" where
  "set_thread i t s = s\<lparr>s_threads := (s_threads s)[i := t]\<rparr>"

definition thread_take :: "nat \<Rightarrow> 'd server \<Rightarrow> 'd server" where
  "thread_take i s =
     (let t = s_threads s ! i
      in if t_phase t = Waiting \<and> t_queue t \<noteq> [] \<and> s_running s
         then set_thread i (t\<lparr>t_busy := True, t_phase := Taken (hd (t_queue t)), t_queue := tl (t_queue t)\<rparr>) s
         else s)"

text \<open>The pages that \<open>Run\<close> attached, as objects; \<open>stops\<close> are the answers to the iteration checks.\<close>

definition page_signal :: "'d signal \<Rightarrow> query \<Rightarrow> 'd signal" where
  "page_signal sg p = sg\<lparr>sg_query := p, sg_process := sg_page_process sg\<rparr>"

primrec attach_all :: "'d signal list \<Rightarrow> 'd server \<Rightarrow> 'd server res" where
  "attach_all [] s = Inr s"
| "attach_all (p # ps) s = bind_res (DataFlush_AttachResult p s) (attach_all ps)"

definition thread_prepare :: "'d rocks \<Rightarrow> nat \<Rightarrow> bool list \<Rightarrow> 'd server \<Rightarrow> 'd server res" where
  "thread_prepare R i stops s =
     (let t = s_threads s ! i
      in case t_phase t of
           Taken sg \<Rightarrow>
             if q_access (sg_query sg) = DBL_INVALID_FORMAT
             then Inr (set_thread i (t\<lparr>t_busy := False, t_phase := Prepared sg\<rparr>) s)
             else bind_res (Prepare R (sg_run sg) (sg_query sg)
                              ((s_world s)\<lparr>w_results := [], w_interrupts := stops\<rparr>)) (\<lambda>(b, q', w').
                    attach_all (map (page_signal sg) (w_results w'))
                      (set_thread i (t\<lparr>t_busy := False, t_phase := Prepared (sg\<lparr>sg_query := q'\<rparr>)\<rparr>)
                        (s\<lparr>s_world := w'\<lparr>w_results := [], w_interrupts := []\<rparr>\<rparr>)))
         | _ \<Rightarrow> Inr s)"

definition thread_attach :: "nat \<Rightarrow> 'd server \<Rightarrow> 'd server res" where
  "thread_attach i s =
     (let t = s_threads s ! i
      in case t_phase t of
           Prepared sg \<Rightarrow>
             (let s1 = set_thread i (t\<lparr>t_phase := Waiting\<rparr>) s
              in if q_flags (sg_query sg) = QUERY_FLAGS_QUIET then Inr s1
                 else if q_flags (sg_query sg) = QUERY_FLAGS_GLOBAL then DataFlush_AttachGlobal sg s1
                 else if q_access (sg_query sg) \<noteq> DBL_INTERRUPT then DataFlush_AttachResult sg s1
                 else Inr s1)
         | _ \<Rightarrow> Inr s)"

section \<open>Users that come and go\<close>

definition new_user :: "string \<Rightarrow> 'd user" where
  "new_user agent = \<lparr>u_agent = agent, u_quitting = False, u_locked = False, u_pending = [], u_notifications = []\<rparr>"

text \<open>The map of clients is hashed: a new one may come anywhere in its order.\<close>

definition ClientManager_AddUser :: "nat \<Rightarrow> nat \<Rightarrow> string \<Rightarrow> 'd server \<Rightarrow> 'd server" where
  "ClientManager_AddUser u pos agent s =
     (put_user u (new_user agent) s)\<lparr>s_clients := take pos (s_clients s) @ u # drop pos (s_clients s)\<rparr>"

text \<open>\<open>veto\<close> is the answer of the modules to \<open>OnUserPreExit\<close>.\<close>

definition ClientManager_Disconnect :: "bool \<Rightarrow> nat \<Rightarrow> 'd server \<Rightarrow> 'd server res" where
  "ClientManager_Disconnect veto u s =
     bind_res (user_of s u) (\<lambda>user.
       if u_quitting user \<or> u = Global \<or> veto then Inr s
       else (let s1 = (put_user u (user\<lparr>u_quitting := True\<rparr>) s)\<lparr>s_clients := filter (\<lambda>v. v \<noteq> u) (s_clients s)\<rparr>
             in Inr (if \<not> u_locked user then s1\<lparr>s_reducer := s_reducer s @ [u]\<rparr>
                     else s1\<lparr>s_awaiting := s_awaiting s @ [u]\<rparr>)))"

text \<open>The loop erases the element its iterator is on, and goes on with the iterator.\<close>

definition force_exit :: "nat \<Rightarrow> 'd server \<Rightarrow> 'd server res" where
  "force_exit u s =
     bind_res (user_of s u) (\<lambda>user.
       if u_quitting user \<and> \<not> u_locked user then Inl Undefined_behaviour else Inr s)"

definition ClientManager_ForceExits :: "'d server \<Rightarrow> 'd server res" where
  "ClientManager_ForceExits s = for_users force_exit (s_awaiting s) s"

definition ReducerHandler_Apply :: "'d server \<Rightarrow> 'd server" where
  "ReducerHandler_Apply s =
     s\<lparr>s_heap := (\<lambda>u. if u \<in> set (s_reducer s) then None else s_heap s u), s_reducer := []\<rparr>"

section \<open>The server\<close>

text \<open>
  The commands of a client are those of the model, with any \<open>Process\<close>; the server's own queries
  carry any flag.  \<open>closing\<close> is \<open>Database::SetClosing\<close>.
\<close>

definition set_closing :: "db \<Rightarrow> bool \<Rightarrow> 'd server \<Rightarrow> 'd server" where
  "set_closing d flag s =
     s\<lparr>s_world := (s_world s)\<lparr>w_dbs := (w_dbs (s_world s))(d := (w_dbs (s_world s) d)\<lparr>d_closing := flag\<rparr>)\<rparr>\<rparr>"

inductive server_step :: "'d rocks \<Rightarrow> 'd server \<Rightarrow> 'd server \<Rightarrow> bool" for R where
  command: "(cls, run) \<in> set (commands R) \<or> (cls, run) \<in> set (scans R) \<Longrightarrow> sg_run sg = run \<Longrightarrow>
    sg_query sg = cls q \<Longrightarrow> sg_user sg \<in> set (s_clients s) \<Longrightarrow> \<not> q_partial (sg_query sg) \<Longrightarrow>
    q_flags (sg_query sg) \<notin> {QUERY_FLAGS_QUIET, QUERY_FLAGS_GLOBAL} \<Longrightarrow>
    numbered_push sg s = Inr s' \<Longrightarrow> server_step R s s'"
| own_query: "frame_run (sg_run sg) \<Longrightarrow> sg_user sg = Global \<Longrightarrow> \<not> q_partial (sg_query sg) \<Longrightarrow>
    numbered_push sg s = Inr s' \<Longrightarrow> server_step R s s'"
| main_round: "DataFlush_round pick s = Inr s' \<Longrightarrow> server_step R s s'"
| taken: "i < length (s_threads s) \<Longrightarrow> server_step R s (thread_take i s)"
| prepared: "i < length (s_threads s) \<Longrightarrow> thread_prepare R i stops s = Inr s' \<Longrightarrow> server_step R s s'"
| attached: "i < length (s_threads s) \<Longrightarrow> thread_attach i s = Inr s' \<Longrightarrow> server_step R s s'"
| connected: "s_heap s u = None \<Longrightarrow> u \<noteq> Global \<Longrightarrow> server_step R s (ClientManager_AddUser u pos agent s)"
| disconnected: "u \<in> set (s_clients s) \<Longrightarrow> ClientManager_Disconnect veto u s = Inr s' \<Longrightarrow> server_step R s s'"
| exits: "ClientManager_ForceExits s = Inr s' \<Longrightarrow> server_step R s s'"
| reduced: "server_step R s (ReducerHandler_Apply s)"
| reset: "DataFlush_ResetAll R s = Inr s' \<Longrightarrow> server_step R s s'"
| paused: "server_step R s (s\<lparr>s_running := False\<rparr>)"
| resumed: "server_step R s (s\<lparr>s_running := True\<rparr>)"
| closing: "server_step R s (set_closing d flag s)"

text \<open>A server with its threads opened and no client.\<close>

definition server_start :: "nat \<Rightarrow> 'd world \<Rightarrow> 'd server" where
  "server_start n w =
     \<lparr>s_heap = [Global \<mapsto> new_user []], s_clients = [], s_awaiting = [], s_reducer = [],
      s_threads = replicate n \<lparr>t_busy = False, t_queue = [], t_phase = Waiting\<rparr>,
      s_running = True, s_world = w, s_sent = [], s_count = 0\<rparr>"

definition reachable :: "'d rocks \<Rightarrow> 'd server \<Rightarrow> bool" where
  "reachable R s \<longleftrightarrow> (\<exists>n w. 0 < n \<and> (server_step R)\<^sup>*\<^sup>* (server_start n w) s)"

end
