(* ===== verification/DispatchFacts.thy ===== *)
theory DispatchFacts
  imports Dispatch
begin

text \<open>
  What holds of the dispatcher in every reachable state: a connected user has at most one query
  under way and is locked while it has one, the objects the data threads and the lists refer to
  exist, and the replies to a user come in the order of its commands.
\<close>

section \<open>The invariant\<close>

text \<open>The signals a thread holds, and the numbers of a user's signals in the threads.\<close>

definition work :: "'d data_thread \<Rightarrow> 'd signal list" where
  "work t = (case t_phase t of Waiting \<Rightarrow> [] | Taken sg \<Rightarrow> [sg] | Prepared sg \<Rightarrow> [sg]) @ t_queue t"

definition in_threads :: "'d data_thread list \<Rightarrow> 'd signal list" where
  "in_threads ts = concat (map work ts)"

definition seqs :: "nat \<Rightarrow> 'd signal list \<Rightarrow> nat list" where
  "seqs u sgs = map sg_seq (filter (\<lambda>sg. sg_user sg = u) sgs)"

definition replies_of :: "nat \<Rightarrow> sent list \<Rightarrow> (nat \<times> bool) list" where
  "replies_of u log = map (\<lambda>(v, n, last, lines). (n, last)) (filter (\<lambda>e. fst e = u) log)"

text \<open>The way of a user's queries: replies sent, waiting, in the threads, pending.\<close>

definition track :: "(nat \<times> bool) list \<Rightarrow> nat list \<Rightarrow> 'd user \<Rightarrow> (nat \<times> bool) list" where
  "track sent flying x =
     sent @ map (\<lambda>sg. (sg_seq sg, \<not> q_partial (sg_query sg))) (u_notifications x) @
     map (\<lambda>n. (n, True)) flying @ map (\<lambda>sg. (sg_seq sg, True)) (u_pending x)"

text \<open>A later command, or a page and then more of the same command.\<close>

definition before :: "nat \<times> bool \<Rightarrow> nat \<times> bool \<Rightarrow> bool" where
  "before a b \<longleftrightarrow> fst a < fst b \<or> fst a = fst b \<and> \<not> snd a"

definition in_order :: "nat \<Rightarrow> (nat \<times> bool) list \<Rightarrow> bool" where
  "in_order count es \<longleftrightarrow> sorted_wrt before es \<and> (\<forall>e\<in>set es. fst e < count)"

definition finals :: "'d user \<Rightarrow> 'd signal list" where
  "finals x = filter (\<lambda>sg. \<not> q_partial (sg_query sg)) (u_notifications x)"

definition signal_ok :: "'d signal \<Rightarrow> bool" where
  "signal_ok sg \<longleftrightarrow> \<not> q_partial (sg_query sg) \<and> frame_run (sg_run sg) \<and>
     (sg_user sg \<noteq> Global \<longrightarrow> q_flags (sg_query sg) \<notin> {QUERY_FLAGS_QUIET, QUERY_FLAGS_GLOBAL})"

definition pending_ok :: "nat \<Rightarrow> 'd user \<Rightarrow> bool" where
  "pending_ok u x \<longleftrightarrow> (\<forall>sg\<in>set (u_pending x). signal_ok sg \<and> sg_user sg = u)"

definition client_ok :: "nat \<Rightarrow> (nat \<times> bool) list \<Rightarrow> nat list \<Rightarrow> 'd user \<Rightarrow> bool" where
  "client_ok count sent flying x \<longleftrightarrow>
     length flying + length (finals x) \<le> 1 \<and>
     (\<not> u_locked x \<longrightarrow> flying = [] \<and> u_notifications x = []) \<and>
     (\<forall>sg\<in>set (butlast (u_notifications x)). q_partial (sg_query sg)) \<and>
     in_order count (track sent flying x)"

definition server_ok :: "'d server \<Rightarrow> bool" where
  "server_ok s \<longleftrightarrow>
     s_threads s \<noteq> [] \<and>
     (\<exists>g. s_heap s Global = Some g \<and> \<not> u_quitting g) \<and>
     Global \<notin> set (s_clients s) \<union> set (s_awaiting s) \<union> set (s_reducer s) \<and> distinct (s_clients s) \<and>
     (\<forall>u\<in>set (s_clients s). \<exists>x. s_heap s u = Some x \<and> \<not> u_quitting x) \<and>
     (\<forall>u\<in>set (s_awaiting s). \<exists>x. s_heap s u = Some x \<and> u_quitting x \<and> u_locked x) \<and>
     (\<forall>u\<in>set (s_reducer s). \<exists>x. s_heap s u = Some x \<and> u_quitting x \<and> \<not> u_locked x) \<and>
     (\<forall>sg\<in>set (in_threads (s_threads s)). signal_ok sg \<and> s_heap s (sg_user sg) \<noteq> None) \<and>
     (\<forall>u x. s_heap s u = Some x \<longrightarrow> pending_ok u x) \<and>
     (\<forall>u x. u \<noteq> Global \<longrightarrow> s_heap s u = Some x \<longrightarrow>
        client_ok (s_count s) (replies_of u (s_sent s)) (seqs u (in_threads (s_threads s))) x) \<and>
     (\<forall>u. in_order (s_count s) (replies_of u (s_sent s)))"

lemma in_order_simps:
  "in_order c [] " "in_order c (es @ fs) \<longleftrightarrow>
     in_order c es \<and> in_order c fs \<and> (\<forall>e\<in>set es. \<forall>f\<in>set fs. before e f)"
  by (auto simp: in_order_def sorted_wrt_append)

lemma in_order_new: "in_order c es \<Longrightarrow> in_order (c + 1) (es @ [(c, True)])"
  by (auto simp: in_order_def sorted_wrt_append before_def less_Suc_eq)

lemma in_order_mono: "in_order c es \<Longrightarrow> c \<le> c' \<Longrightarrow> in_order c' es"
  by (auto simp: in_order_def)

lemma client_ok_mono: "client_ok c sent fl x \<Longrightarrow> c \<le> c' \<Longrightarrow> client_ok c' sent fl x"
  by (auto simp: client_ok_def intro: in_order_mono)

lemma in_order_drop: "in_order c (es @ fs @ gs) \<Longrightarrow> in_order c (es @ gs)"
  by (auto simp: in_order_simps)

text \<open>The parts of the invariant, one by one.\<close>

lemma server_okD:
  assumes "server_ok s"
  shows "s_threads s \<noteq> []" "\<exists>g. s_heap s Global = Some g \<and> \<not> u_quitting g"
    "Global \<notin> set (s_clients s)" "Global \<notin> set (s_awaiting s)" "Global \<notin> set (s_reducer s)" "distinct (s_clients s)"
    "u \<in> set (s_clients s) \<Longrightarrow> \<exists>x. s_heap s u = Some x \<and> \<not> u_quitting x"
    "u \<in> set (s_awaiting s) \<Longrightarrow> \<exists>x. s_heap s u = Some x \<and> u_quitting x \<and> u_locked x"
    "u \<in> set (s_reducer s) \<Longrightarrow> \<exists>x. s_heap s u = Some x \<and> u_quitting x \<and> \<not> u_locked x"
    "sg \<in> set (in_threads (s_threads s)) \<Longrightarrow> signal_ok sg \<and> s_heap s (sg_user sg) \<noteq> None"
    "s_heap s u = Some x \<Longrightarrow> pending_ok u x"
    "u \<noteq> Global \<Longrightarrow> s_heap s u = Some x \<Longrightarrow>
       client_ok (s_count s) (replies_of u (s_sent s)) (seqs u (in_threads (s_threads s))) x"
    "in_order (s_count s) (replies_of u (s_sent s))"
  using assms unfolding server_ok_def by blast+

section \<open>Threads\<close>

lemma in_threads_split:
  "i < length ts \<Longrightarrow> ts ! i = t \<Longrightarrow>
   in_threads ts = in_threads (take i ts) @ work t @ in_threads (drop (Suc i) ts)"
  unfolding in_threads_def by (metis concat.simps(2) concat_append id_take_nth_drop list.simps(9) map_append)

lemma in_threads_update:
  "i < length ts \<Longrightarrow>
   in_threads (ts[i := t']) = in_threads (take i ts) @ work t' @ in_threads (drop (Suc i) ts)"
  by (simp add: in_threads_def upd_conv_take_nth_drop)

lemma seqs_append [simp]: "seqs u (xs @ ys) = seqs u xs @ seqs u ys"
  by (simp add: seqs_def)

lemma seqs_update:
  assumes "i < length ts" "seqs u (work t') = seqs u (work (ts ! i))"
  shows "seqs u (in_threads (ts[i := t'])) = seqs u (in_threads ts)"
  using in_threads_split [OF assms(1) refl] in_threads_update [OF assms(1)] assms(2) by simp

lemma set_update:
  assumes "i < length ts"
  shows "set (in_threads (ts[i := t'])) = set (in_threads (take i ts)) \<union> set (work t') \<union> set (in_threads (drop (Suc i) ts))"
    "set (in_threads ts) = set (in_threads (take i ts)) \<union> set (work (ts ! i)) \<union> set (in_threads (drop (Suc i) ts))"
  using in_threads_split [OF assms refl] in_threads_update [OF assms] by auto

section \<open>Steps of one user\<close>

lemma server_ok_user:
  assumes ok: "server_ok s" and x: "s_heap s u = Some x"
    and lists: "s_heap s' = (s_heap s)(u \<mapsto> x')" "s_clients s' = s_clients s" "s_awaiting s' = s_awaiting s"
      "s_reducer s' = s_reducer s" "s_count s \<le> s_count s'"
    and threads: "s_threads s' \<noteq> []"
      "\<And>sg. sg \<in> set (in_threads (s_threads s')) \<Longrightarrow> signal_ok sg \<and> s_heap s (sg_user sg) \<noteq> None"
      "\<And>v. v \<noteq> u \<Longrightarrow> seqs v (in_threads (s_threads s')) = seqs v (in_threads (s_threads s))"
    and sent: "\<And>v. v \<noteq> u \<or> u = Global \<Longrightarrow> replies_of v (s_sent s') = replies_of v (s_sent s)"
    and user: "u_quitting x' = u_quitting x" "u_locked x' = u_locked x \<or> \<not> u_quitting x" "pending_ok u x'"
      "u \<noteq> Global \<Longrightarrow> client_ok (s_count s') (replies_of u (s_sent s')) (seqs u (in_threads (s_threads s'))) x'"
  shows "server_ok s'"
proof -
  note D = server_okD [OF ok]
  have replies: "in_order (s_count s') (replies_of v (s_sent s'))" for v
  proof (cases "v \<noteq> u \<or> u = Global")
    case True
    with sent D(13) [of v] lists(5) show ?thesis by (metis in_order_mono)
  next
    case False
    with user(4) show ?thesis by (auto simp: client_ok_def track_def in_order_simps)
  qed
  have clients: "client_ok (s_count s') (replies_of v (s_sent s')) (seqs v (in_threads (s_threads s'))) y"
    if "v \<noteq> Global" "s_heap s' v = Some y" for v y
    using that D(12) [of v y] sent [of v] threads(3) [of v] user(4) lists(1,5)
    by (cases "v = u") (auto intro: client_ok_mono)
  have pend: "pending_ok v y" if "s_heap s' v = Some y" for v y
    using that D(11) [of v y] user(3) lists(1) by (auto split: if_splits)
  have g: "\<exists>g. s_heap s' Global = Some g \<and> \<not> u_quitting g"
    using D(2) x lists(1) user(1) by auto
  have cl: "\<exists>y. s_heap s' v = Some y \<and> \<not> u_quitting y" if "v \<in> set (s_clients s)" for v
    using D(7) [OF that] x lists(1) user(1) by auto
  have aw: "\<exists>y. s_heap s' v = Some y \<and> u_quitting y \<and> u_locked y" if "v \<in> set (s_awaiting s)" for v
    using D(8) [OF that] x lists(1) user(1,2) that by auto
  have re: "\<exists>y. s_heap s' v = Some y \<and> u_quitting y \<and> \<not> u_locked y" if "v \<in> set (s_reducer s)" for v
    using D(9) [OF that] x lists(1) user(1,2) that by auto
  have th: "signal_ok sg \<and> s_heap s' (sg_user sg) \<noteq> None" if "sg \<in> set (in_threads (s_threads s'))" for sg
    using threads(2) [OF that] lists(1) by auto
  from D(3-6) show ?thesis
    unfolding server_ok_def lists(2-4)
    using threads(1) replies clients pend g cl aw re th by blast
qed

lemma user_of_Some [simp]: "s_heap s u = Some x \<Longrightarrow> user_of s u = Inr x"
  by (simp add: user_of_def)

lemma user_of_Inr: "user_of s u = Inr x \<longleftrightarrow> s_heap s u = Some x"
  by (simp add: user_of_def split: option.splits)

lemma put_user_fields [simp]:
  "s_heap (put_user u x s) = (s_heap s)(u \<mapsto> x)" "s_clients (put_user u x s) = s_clients s"
  "s_awaiting (put_user u x s) = s_awaiting s" "s_reducer (put_user u x s) = s_reducer s"
  "s_threads (put_user u x s) = s_threads s" "s_running (put_user u x s) = s_running s"
  "s_world (put_user u x s) = s_world s" "s_sent (put_user u x s) = s_sent s" "s_count (put_user u x s) = s_count s"
  by (simp_all add: put_user_def)

lemma put_user_twice [simp]: "put_user u b (put_user u a s) = put_user u b s"
  by (simp add: put_user_def)

lemma send_reply_fields [simp]:
  "s_heap (send_reply u sg l s) = s_heap s" "s_clients (send_reply u sg l s) = s_clients s"
  "s_awaiting (send_reply u sg l s) = s_awaiting s" "s_reducer (send_reply u sg l s) = s_reducer s"
  "s_threads (send_reply u sg l s) = s_threads s" "s_running (send_reply u sg l s) = s_running s"
  "s_world (send_reply u sg l s) = s_world s" "s_count (send_reply u sg l s) = s_count s"
  by (simp_all add: send_reply_def)

lemma replies_of_send:
  "replies_of v (s_sent (send_reply u sg l s)) =
    (if v = u \<and> u \<noteq> Global then replies_of v (s_sent s) @ [(sg_seq sg, \<not> q_partial (sg_query sg))]
     else replies_of v (s_sent s))"
  by (simp add: send_reply_def replies_of_def)

text \<open>The threads as they are.\<close>

lemma server_ok_put:
  assumes ok: "server_ok s" and x: "s_heap s u = Some x"
    and lists: "s_heap s' = (s_heap s)(u \<mapsto> x')" "s_clients s' = s_clients s" "s_awaiting s' = s_awaiting s"
      "s_reducer s' = s_reducer s" "s_count s \<le> s_count s'" "s_threads s' = s_threads s"
    and sent: "\<And>v. v \<noteq> u \<or> u = Global \<Longrightarrow> replies_of v (s_sent s') = replies_of v (s_sent s)"
    and user: "u_quitting x' = u_quitting x" "u_locked x' = u_locked x \<or> \<not> u_quitting x" "pending_ok u x'"
      "u \<noteq> Global \<Longrightarrow> client_ok (s_count s') (replies_of u (s_sent s')) (seqs u (in_threads (s_threads s))) x'"
  shows "server_ok s'"
proof (rule server_ok_user [OF ok x lists(1-5)])
  fix sg assume "sg \<in> set (in_threads (s_threads s'))"
  then show "signal_ok sg \<and> s_heap s (sg_user sg) \<noteq> None"
    unfolding lists(6) by (rule server_okD(10) [OF ok])
qed (use server_okD(1) [OF ok] lists(6) sent user in auto)

text \<open>A push.\<close>

lemma push_ok:
  assumes ok: "server_ok s" and x: "s_heap s (sg_user sg) = Some x" and sg: "signal_ok sg"
    and push: "numbered_push sg s = Inr s'"
  shows "server_ok s'"
proof -
  note D = server_okD [OF ok]
  define x' where "x' = (if u_quitting x then x else x\<lparr>u_pending := u_pending x @ [sg\<lparr>sg_seq := s_count s\<rparr>]\<rparr>)"
  have client: "client_ok (s_count s + 1) (replies_of (sg_user sg) (s_sent s))
      (seqs (sg_user sg) (in_threads (s_threads s))) x'" if "sg_user sg \<noteq> Global"
    using D(12) [OF that x] client_ok_mono [OF D(12) [OF that x], of "s_count s + 1"]
    by (auto simp: client_ok_def track_def finals_def x'_def dest: in_order_new)
  show ?thesis
  proof (rule server_ok_put [OF ok x, where x' = x'])
    show "s_heap s' = (s_heap s)(sg_user sg \<mapsto> x')"
      using push x by (auto simp: numbered_push_def StoreManager_Push_def x'_def fun_upd_idem split: if_splits)
    show "pending_ok (sg_user sg) x'"
      using D(11) [OF x] sg by (auto simp: pending_ok_def signal_ok_def x'_def)
  qed (use push x client in \<open>auto simp: numbered_push_def StoreManager_Push_def x'_def split: if_splits\<close>)
qed

lemma numbered_push_ex:
  "s_heap s (sg_user sg) = Some x \<Longrightarrow>
   \<exists>s'. numbered_push sg s = Inr s' \<and> (\<forall>u. s_heap s' u = None \<longleftrightarrow> s_heap s u = None)"
  by (auto simp: numbered_push_def StoreManager_Push_def)

section \<open>The main loop\<close>

text \<open>Sending the first notification.\<close>

lemma client_ok_page:
  assumes "client_ok c sent fl x" "u_notifications x = sg # ns" "q_partial (sg_query sg)"
  shows "client_ok c (sent @ [(sg_seq sg, False)]) fl (x\<lparr>u_notifications := ns\<rparr>)"
  using assms by (auto simp: client_ok_def track_def finals_def split: if_splits)

lemma client_ok_final:
  assumes "client_ok c sent fl x" "u_notifications x = sg # ns" "\<not> q_partial (sg_query sg)"
  shows "client_ok c (sent @ [(sg_seq sg, True)]) fl (x\<lparr>u_notifications := ns, u_locked := False\<rparr>)"
    and "ns = []" "fl = []"
proof -
  show ns: "ns = []" using assms by (cases ns) (auto simp: client_ok_def)
  show fl: "fl = []" using assms by (auto simp: client_ok_def finals_def)
  show "client_ok c (sent @ [(sg_seq sg, True)]) fl (x\<lparr>u_notifications := ns, u_locked := False\<rparr>)"
    using assms ns fl by (simp add: client_ok_def track_def finals_def)
qed

lemma get_result_ok:
  assumes ok: "server_ok s" and u: "u \<in> set (s_clients s)" and step: "get_result u s = Inr s'"
  shows "server_ok s' \<and> s_clients s' = s_clients s \<and> s_running s' = s_running s"
proof -
  note D = server_okD [OF ok]
  obtain x where x: "s_heap s u = Some x" "\<not> u_quitting x" using D(7) [OF u] by blast
  have ug: "u \<noteq> Global" using u D(3) by blast
  show ?thesis
  proof (cases "u_notifications x")
    case Nil
    with step x ok show ?thesis by (simp add: get_result_def)
  next
    case (Cons sg ns)
    let ?x = "if q_partial (sg_query sg) then x\<lparr>u_notifications := ns\<rparr> else x\<lparr>u_notifications := ns, u_locked := False\<rparr>"
    from step x Cons obtain lines where s': "s' = send_reply u sg lines (put_user u ?x s)"
      by (auto simp: get_result_def bind_res_Inr_iff Let_def)
    have "client_ok (s_count s) (replies_of u (s_sent s) @ [(sg_seq sg, \<not> q_partial (sg_query sg))])
        (seqs u (in_threads (s_threads s))) ?x"
      using client_ok_page [OF D(12) [OF ug x(1)] Cons] client_ok_final(1) [OF D(12) [OF ug x(1)] Cons] by auto
    moreover have "pending_ok u ?x" using D(11) [OF x(1)] by (simp add: pending_ok_def)
    ultimately have "server_ok s'"
      unfolding s' by (intro server_ok_put [OF ok x(1), where x' = ?x]) (use x(2) ug in \<open>auto simp: replies_of_send\<close>)
    then show ?thesis by (simp add: s')
  qed
qed

text \<open>A query posted to a thread, by a user that is locked for it or by the server.\<close>

lemma pop_client:
  assumes "client_ok c sent [] x" "u_notifications x = []" "u_pending x = sg # ps"
  shows "client_ok c sent [sg_seq sg] (x\<lparr>u_locked := True, u_pending := ps\<rparr>)"
    "client_ok c (sent @ [(sg_seq sg, True)]) [] (x\<lparr>u_pending := ps, u_locked := False\<rparr>)"
  using assms by (auto simp: client_ok_def track_def finals_def)

lemma free_thread_less: "free_thread ts n = Some i \<Longrightarrow> n \<le> i \<and> i < n + length ts"
  by (induction ts arbitrary: n) (fastforce split: if_splits)+

definition chosen :: "nat \<Rightarrow> 'd data_thread list \<Rightarrow> nat" where
  "chosen pick ts = (case free_thread ts 0 of Some i \<Rightarrow> i | None \<Rightarrow> pick mod length ts)"

lemma chosen_less: "ts \<noteq> [] \<Longrightarrow> chosen pick ts < length ts"
  using free_thread_less [of ts 0] by (auto simp: chosen_def split: option.splits)

text \<open>What posting the front of a user's queue comes to.\<close>

definition queued :: "nat \<Rightarrow> 'd signal \<Rightarrow> 'd server \<Rightarrow> 'd server" where
  "queued i sg s = set_thread i ((s_threads s ! i)\<lparr>t_queue := t_queue (s_threads s ! i) @ [sg]\<rparr>) s"

lemma Process_outcome:
  assumes "s_running s" "s_threads s \<noteq> []" "s_heap s u = Some x" "sg_user sg = u" "u_pending x = sg # ps"
  shows "DataFlush_Process pick u sg s =
    Inr (if d_closing (w_dbs (s_world s) (q_database (sg_query sg)))
      then send_reply u sg [(ERR_INPUT, DB_NULL)] (put_user u (x\<lparr>u_pending := ps, u_locked := False\<rparr>) s)
      else queued (chosen pick (s_threads s)) sg (put_user u (x\<lparr>u_pending := ps\<rparr>) s))"
  using assms
  by (simp add: DataFlush_Process_def DataThread_Post_def chosen_def queued_def set_thread_def put_user_def Let_def)

lemma set_thread_fields [simp]:
  "s_heap (set_thread i t s) = s_heap s" "s_clients (set_thread i t s) = s_clients s"
  "s_awaiting (set_thread i t s) = s_awaiting s" "s_reducer (set_thread i t s) = s_reducer s"
  "s_threads (set_thread i t s) = (s_threads s)[i := t]" "s_running (set_thread i t s) = s_running s"
  "s_world (set_thread i t s) = s_world s" "s_sent (set_thread i t s) = s_sent s" "s_count (set_thread i t s) = s_count s"
  by (simp_all add: set_thread_def)

lemma work_queue: "work (t\<lparr>t_queue := t_queue t @ [sg]\<rparr>) = work t @ [sg]"
  by (simp add: work_def)

lemma seqs_post:
  assumes "i < length ts" "v \<noteq> sg_user sg"
  shows "seqs v (in_threads (ts[i := (ts ! i)\<lparr>t_queue := t_queue (ts ! i) @ [sg]\<rparr>])) = seqs v (in_threads ts)"
  by (rule seqs_update [OF assms(1)]) (use assms(2) in \<open>simp add: work_queue seqs_def\<close>)

lemma seqs_post_own:
  assumes "i < length ts" "seqs (sg_user sg) (in_threads ts) = []"
  shows "seqs (sg_user sg) (in_threads (ts[i := (ts ! i)\<lparr>t_queue := t_queue (ts ! i) @ [sg]\<rparr>])) = [sg_seq sg]"
  using assms in_threads_split [OF assms(1) refl] in_threads_update [OF assms(1)]
  by (simp add: work_queue) (simp add: seqs_def)

lemma queued_fields [simp]:
  "s_heap (queued i sg s) = s_heap s" "s_clients (queued i sg s) = s_clients s"
  "s_awaiting (queued i sg s) = s_awaiting s" "s_reducer (queued i sg s) = s_reducer s"
  "s_running (queued i sg s) = s_running s" "s_world (queued i sg s) = s_world s"
  "s_sent (queued i sg s) = s_sent s" "s_count (queued i sg s) = s_count s"
  "s_threads (queued i sg s) = [] \<longleftrightarrow> s_threads s = []"
  by (simp_all add: queued_def)

text \<open>The state after \<open>Process\<close>, for a user with nothing under way.\<close>

lemma posted_ok:
  assumes ok: "server_ok s" and x: "s_heap s u = Some x" "\<not> u_quitting x" "u_pending x = sg # ps"
    and idle: "u \<noteq> Global \<Longrightarrow> \<not> u_locked x"
    and s': "s' = (if stop then send_reply u sg l (put_user u (x\<lparr>u_pending := ps, u_locked := False\<rparr>) s)
        else queued (chosen pick (s_threads s)) sg (put_user u (x\<lparr>u_locked := u \<noteq> Global \<or> u_locked x, u_pending := ps\<rparr>) s))"
  shows "server_ok s'"
proof -
  note D = server_okD [OF ok]
  let ?i = "chosen pick (s_threads s)"
  have i: "?i < length (s_threads s)" by (rule chosen_less [OF D(1)])
  have sg: "signal_ok sg" "sg_user sg = u" "pending_ok u (x\<lparr>u_pending := ps, u_locked := b\<rparr>)"
    "pending_ok u (x\<lparr>u_locked := b, u_pending := ps\<rparr>)" for b
    using D(11) [OF x(1)] x(3) by (auto simp: pending_ok_def)
  have idle_notes: "seqs u (in_threads (s_threads s)) = []" "u_notifications x = []" if "u \<noteq> Global"
    using D(12) [OF that x(1)] idle [OF that] by (simp_all add: client_ok_def)
  have client: "client_ok (s_count s) (replies_of u (s_sent s)) [] x" if "u \<noteq> Global"
    using D(12) [OF that x(1)] idle_notes(1) [OF that] by simp
  have partial: "\<not> q_partial (sg_query sg)" using sg(1) by (simp add: signal_ok_def)
  show ?thesis
  proof (cases stop)
    case True
    then show ?thesis
      unfolding s' using sg(3) x(2) partial
      by (intro server_ok_put [OF ok x(1), where x' = "x\<lparr>u_pending := ps, u_locked := False\<rparr>"])
        (auto simp: replies_of_send idle_notes intro!: pop_client(2) [OF client idle_notes(2) x(3)])
  next
    case False
    let ?x = "x\<lparr>u_locked := u \<noteq> Global \<or> u_locked x, u_pending := ps\<rparr>"
    have "s' = queued ?i sg (put_user u ?x s)" using False s' by simp
    moreover have "server_ok (queued ?i sg (put_user u ?x s))"
    proof (rule server_ok_user [OF ok x(1), where x' = ?x])
      fix sg' assume "sg' \<in> set (in_threads (s_threads (queued ?i sg (put_user u ?x s))))"
      then have "sg' = sg \<or> sg' \<in> set (in_threads (s_threads s))"
        using set_update [OF i] by (auto simp: queued_def work_queue)
      then show "signal_ok sg' \<and> s_heap s (sg_user sg') \<noteq> None" using D(10) sg x(1) by auto
    next
      fix v assume "v \<noteq> u"
      then show "seqs v (in_threads (s_threads (queued ?i sg (put_user u ?x s)))) = seqs v (in_threads (s_threads s))"
        using seqs_post [OF i] sg(2) by (simp add: queued_def)
    next
      assume ug: "u \<noteq> Global"
      have "seqs u (in_threads (s_threads (queued ?i sg (put_user u ?x s)))) = [sg_seq sg]"
        using seqs_post_own [OF i, of sg] idle_notes(1) [OF ug] sg(2) by (simp add: queued_def)
      with pop_client(1) [OF client [OF ug] idle_notes(2) [OF ug] x(3)] ug
      show "client_ok (s_count (queued ?i sg (put_user u ?x s))) (replies_of u (s_sent (queued ?i sg (put_user u ?x s))))
          (seqs u (in_threads (s_threads (queued ?i sg (put_user u ?x s))))) ?x"
        by (simp add: put_user_def queued_def set_thread_def)
    qed (use D(1) sg(4) x(2) in auto)
    ultimately show ?thesis by simp
  qed
qed

lemma get_pending_ok:
  assumes ok: "server_ok s" and u: "u \<in> set (s_clients s)" and run: "s_running s"
  shows "\<exists>s'. get_pending pick u s = Inr s' \<and> server_ok s' \<and> s_clients s' = s_clients s \<and> s_running s'"
proof -
  note D = server_okD [OF ok]
  obtain x where x: "s_heap s u = Some x" "\<not> u_quitting x" using D(7) [OF u] by blast
  have ug: "u \<noteq> Global" using u D(3) by blast
  show ?thesis
  proof (cases "u_pending x = [] \<or> u_locked x")
    case True
    with x ok run show ?thesis by (simp add: get_pending_def)
  next
    case False
    then obtain sg ps where ps: "u_pending x = sg # ps" "\<not> u_locked x" by (cases "u_pending x") auto
    have sg: "sg_user sg = u" using D(11) [OF x(1)] ps(1) by (simp add: pending_ok_def)
    let ?stop = "d_closing (w_dbs (s_world s) (q_database (sg_query sg)))"
    let ?s' = "if ?stop then send_reply u sg [(ERR_INPUT, DB_NULL)] (put_user u (x\<lparr>u_pending := ps, u_locked := False\<rparr>) s)
        else queued (chosen (pick u) (s_threads s)) sg (put_user u (x\<lparr>u_locked := u \<noteq> Global \<or> u_locked x, u_pending := ps\<rparr>) s)"
    have "get_pending pick u s = Inr ?s'"
      using x ps ug run D(1)
      by (simp add: get_pending_def Process_outcome [OF _ _ _ sg, where x = "x\<lparr>u_locked := True\<rparr>"])
    moreover have "server_ok ?s'" by (rule posted_ok [OF ok x ps(1) _ refl]) (use ps in simp)
    ultimately show ?thesis using run by auto
  qed
qed

lemma for_users_ok:
  assumes step: "\<And>u t t'. P t \<Longrightarrow> u \<in> U \<Longrightarrow> f u t = Inr t' \<Longrightarrow> P t'"
  shows "set us \<subseteq> U \<Longrightarrow> P s \<Longrightarrow> for_users f us s = Inr s' \<Longrightarrow> P s'"
proof (induction us arbitrary: s)
  case (Cons u us)
  from Cons.prems(3) obtain s1 where "f u s = Inr s1" "for_users f us s1 = Inr s'"
    by (auto simp: bind_res_Inr_iff)
  with Cons.IH [of s1] step [of s u s1] Cons.prems(1,2) show ?case by simp
qed simp

lemma for_users_total:
  assumes "\<And>u s. P s \<Longrightarrow> u \<in> set us \<Longrightarrow> \<exists>s'. f u s = Inr s' \<and> P s'"
  shows "P s \<Longrightarrow> \<exists>s'. for_users f us s = Inr s' \<and> P s'"
  using assms
proof (induction us arbitrary: s)
  case (Cons u us)
  from Cons.prems obtain s1 where "f u s = Inr s1" "P s1" by (meson list.set_intros(1))
  with Cons.IH [of s1] Cons.prems(2) show ?case by auto
qed simp

lemma GetResults_ok:
  assumes "server_ok s" "DataFlush_GetResults s = Inr s'"
  shows "server_ok s' \<and> s_running s' = s_running s"
proof -
  let ?P = "\<lambda>t. server_ok t \<and> s_clients t = s_clients s \<and> s_running t = s_running s"
  have step: "?P t'" if "?P t" "u \<in> set (s_clients s)" "get_result u t = Inr t'" for u t t'
    using get_result_ok [of t u t'] that by simp
  have "?P s'"
    by (rule for_users_ok [where P = ?P and U = "set (s_clients s)" and f = get_result and us = "s_clients s" and s = s])
      (use step assms in \<open>simp_all add: DataFlush_GetResults_def\<close>)
  then show ?thesis by simp
qed

lemma GetPending_ok:
  assumes ok: "server_ok s" and run: "s_running s"
  shows "\<exists>s'. DataFlush_GetPending pick s = Inr s' \<and> server_ok s' \<and> s_running s'"
proof -
  note D = server_okD [OF ok]
  obtain g where g: "s_heap s Global = Some g" "\<not> u_quitting g" using D(2) by blast
  show ?thesis
  proof (cases "u_pending g")
    case Nil
    let ?P = "\<lambda>t. server_ok t \<and> s_clients t = s_clients s \<and> s_running t"
    have step: "\<exists>t'. get_pending pick u t = Inr t' \<and> ?P t'" if "?P t" "u \<in> set (s_clients s)" for u t
      using get_pending_ok [of t u pick] that by fastforce
    have "\<exists>s'. for_users (get_pending pick) (s_clients s) s = Inr s' \<and> ?P s'"
      by (rule for_users_total [where P = ?P]) (use step ok run in simp_all)
    with g Nil show ?thesis by (auto simp: DataFlush_GetPending_def)
  next
    case (Cons sg ps)
    have sg: "sg_user sg = Global" using D(11) [OF g(1)] Cons by (simp add: pending_ok_def)
    let ?stop = "d_closing (w_dbs (s_world s) (q_database (sg_query sg)))"
    let ?s' = "if ?stop then send_reply Global sg [(ERR_INPUT, DB_NULL)] (put_user Global (g\<lparr>u_pending := ps, u_locked := False\<rparr>) s)
        else queued (chosen (pick Global) (s_threads s)) sg
          (put_user Global (g\<lparr>u_locked := Global \<noteq> Global \<or> u_locked g, u_pending := ps\<rparr>) s)"
    have "DataFlush_GetPending pick s = Inr ?s'"
      using Process_outcome [OF run D(1) g(1) sg Cons] g(1) Cons by (simp add: DataFlush_GetPending_def)
    moreover have "server_ok ?s'" by (rule posted_ok [OF ok g Cons _ refl]) simp
    ultimately show ?thesis using run by auto
  qed
qed

lemma round_ok:
  assumes "server_ok s" "DataFlush_round pick s = Inr s'"
  shows "server_ok s'"
proof (cases "s_running s")
  case True
  with assms(2) obtain s1 where s1: "DataFlush_GetResults s = Inr s1" "DataFlush_GetPending pick s1 = Inr s'"
    by (auto simp: DataFlush_round_def bind_res_Inr_iff)
  from GetResults_ok [OF assms(1) s1(1)] GetPending_ok [of s1 pick] s1(2) True show ?thesis by auto
qed (use assms in \<open>simp add: DataFlush_round_def\<close>)

section \<open>The data threads\<close>

text \<open>A thread whose work changes and no user.\<close>

lemma server_ok_thread:
  assumes ok: "server_ok s" and i: "i < length (s_threads s)"
    and work: "\<And>v. v \<noteq> Global \<Longrightarrow> seqs v (work t) = seqs v (work (s_threads s ! i))"
      "\<And>sg. sg \<in> set (work t) \<Longrightarrow> signal_ok sg \<and> s_heap s (sg_user sg) \<noteq> None"
  shows "server_ok (set_thread i t s)"
proof -
  note D = server_okD [OF ok]
  obtain g where g: "s_heap s Global = Some g" "\<not> u_quitting g" using D(2) by blast
  show ?thesis
  proof (rule server_ok_user [OF ok g(1), where x' = g])
    fix sg assume "sg \<in> set (in_threads (s_threads (set_thread i t s)))"
    then show "signal_ok sg \<and> s_heap s (sg_user sg) \<noteq> None"
      using set_update [OF i] work(2) D(10) by auto
  next
    fix v assume "v \<noteq> Global"
    then show "seqs v (in_threads (s_threads (set_thread i t s))) = seqs v (in_threads (s_threads s))"
      using seqs_update [OF i] work(1) by simp
  qed (use D(1) D(11) [OF g(1)] g in \<open>simp_all add: fun_upd_idem\<close>)
qed

lemma thread_work_ok:
  assumes "server_ok s" "i < length (s_threads s)" "sg \<in> set (work (s_threads s ! i))"
  shows "signal_ok sg" "s_heap s (sg_user sg) \<noteq> None"
  using server_okD(10) [OF assms(1), of sg] assms(3) set_update(2) [OF assms(2)] by auto

lemma take_ok:
  assumes "server_ok s" "i < length (s_threads s)"
  shows "server_ok (thread_take i s)"
proof (cases "t_phase (s_threads s ! i) = Waiting \<and> t_queue (s_threads s ! i) \<noteq> [] \<and> s_running s")
  case True
  let ?t = "s_threads s ! i"
  have "work (?t\<lparr>t_busy := True, t_phase := Taken (hd (t_queue ?t)), t_queue := tl (t_queue ?t)\<rparr>) = work ?t"
    using True by (simp add: work_def)
  with True thread_work_ok [OF assms] show ?thesis
    by (auto simp: thread_take_def Let_def intro!: server_ok_thread [OF assms])
next
  case False
  with assms(1) show ?thesis by (auto simp: thread_take_def Let_def)
qed

text \<open>The pages, all of the query's user.\<close>

lemma attach_all_eq:
  "s_heap s u = Some x \<Longrightarrow> \<forall>p\<in>set ps. sg_user p = u \<Longrightarrow>
   attach_all ps s = Inr (if ps = [] then s else put_user u (x\<lparr>u_notifications := u_notifications x @ ps\<rparr>) s)"
  by (induction ps arbitrary: s x) (simp_all add: DataFlush_AttachResult_def put_user_def)

lemma sorted_wrt_all: "\<forall>x\<in>set xs. \<forall>y\<in>set xs. R x y \<Longrightarrow> sorted_wrt R xs"
  by (induction xs) auto

lemma in_order_insert:
  assumes "in_order c (as @ (n, True) # bs)" "\<forall>p\<in>set ps. p = (n, False)"
  shows "in_order c (as @ ps @ (n, True) # bs)"
proof -
  have as: "sorted_wrt before as" "\<And>a. a \<in> set as \<Longrightarrow> before a (n, True) \<and> fst a < c"
    "\<And>a b. a \<in> set as \<Longrightarrow> b \<in> set bs \<Longrightarrow> before a b"
    and bs: "sorted_wrt before bs" "\<And>b. b \<in> set bs \<Longrightarrow> n < fst b \<and> fst b < c" and n: "n < c"
    using assms(1) by (auto simp: in_order_def sorted_wrt_append before_def)
  have "sorted_wrt before ps" 
  proof (rule sorted_wrt_all, intro ballI)
    fix p q assume "p \<in> set ps" "q \<in> set ps"
    with assms(2) have "p = (n, False)" "q = (n, False)" by blast+
    then show "before p q" by (simp add: before_def)
  qed
  moreover have "before a p" if "a \<in> set as" "p \<in> set ps" for a p
    using as(2) [OF that(1)] assms(2) that(2) by (auto simp: before_def)
  moreover have "before p b" if "p \<in> set ps" "b \<in> insert (n, True) (set bs)" for p b
  proof -
    have "p = (n, False)" using assms(2) that(1) by blast
    with that(2) bs(2) [of b] show ?thesis by (auto simp: before_def)
  qed
  moreover have "before (n, True) b" if "b \<in> set bs" for b
    using bs(2) [OF that] by (simp add: before_def)
  ultimately show ?thesis
    using as bs n assms(2) by (auto simp: in_order_def sorted_wrt_append)
qed

lemma client_ok_pages:
  assumes "client_ok c sent [n] x" "\<forall>p\<in>set ps. q_partial (sg_query p) \<and> sg_seq p = n"
  shows "client_ok c sent [n] (x\<lparr>u_notifications := u_notifications x @ ps\<rparr>)"
proof -
  let ?e = "\<lambda>sg. (sg_seq sg, \<not> q_partial (sg_query sg))"
  have fin: "finals x = []" "finals (x\<lparr>u_notifications := u_notifications x @ ps\<rparr>) = []"
    using assms by (auto simp: client_ok_def finals_def)
  then have all: "\<forall>sg\<in>set (u_notifications x @ ps). q_partial (sg_query sg)"
    by (auto simp: finals_def filter_empty_conv)
  have "in_order c ((sent @ map ?e (u_notifications x)) @ (n, True) # map (\<lambda>sg. (sg_seq sg, True)) (u_pending x))"
    using assms(1) by (simp add: client_ok_def track_def)
  from in_order_insert [OF this, of "map ?e ps"] assms(2)
  have "in_order c (track sent [n] (x\<lparr>u_notifications := u_notifications x @ ps\<rparr>))"
    by (simp add: track_def)
  moreover have "u_locked x" using assms(1) by (auto simp: client_ok_def)
  moreover have "\<forall>sg\<in>set (butlast (u_notifications x @ ps)). q_partial (sg_query sg)"
    using all by (blast dest: in_set_butlastD)
  ultimately show ?thesis
    using fin(2) by (simp add: client_ok_def)
qed

lemma seqs_single: "seqs u [sg] = (if sg_user sg = u then [sg_seq sg] else [])"
  by (simp add: seqs_def)

text \<open>A thread whose one signal in hand was replaced by another of the same user and number.\<close>

lemma server_ok_hand:
  assumes ok: "server_ok s" and i: "i < length (s_threads s)"
    and old: "work (s_threads s ! i) = sg # rest" and new: "work t = sg' # rest"
    and same: "sg_user sg' = sg_user sg" "sg_seq sg' = sg_seq sg" "signal_ok sg'"
  shows "server_ok (set_thread i t s)"
proof (rule server_ok_thread [OF ok i])
  show "seqs v (work t) = seqs v (work (s_threads s ! i))" for v
    using same(1,2) unfolding old new by (simp add: seqs_def)
  show "signal_ok r \<and> s_heap s (sg_user r) \<noteq> None" if "r \<in> set (work t)" for r
    using that same thread_work_ok [OF ok i, of sg] thread_work_ok [OF ok i, of r] unfolding old new by auto
qed

text \<open>The number of the signal in hand is the only one of its user.\<close>

lemma seqs_hand:
  assumes ok: "server_ok s" and i: "i < length (s_threads s)" and old: "work (s_threads s ! i) = sg # rest"
    and u: "sg_user sg \<noteq> Global" "s_heap s (sg_user sg) = Some x"
  shows "seqs (sg_user sg) (in_threads (s_threads s)) = [sg_seq sg]"
proof -
  have "sg_seq sg \<in> set (seqs (sg_user sg) (in_threads (s_threads s)))"
    using set_update(2) [OF i] old by (auto simp: seqs_def)
  moreover have "length (seqs (sg_user sg) (in_threads (s_threads s))) \<le> 1"
    using server_okD(12) [OF ok u] by (simp add: client_ok_def)
  ultimately show ?thesis by (cases "seqs (sg_user sg) (in_threads (s_threads s))") auto
qed

lemma server_ok_world: "server_ok (s\<lparr>s_world := w\<rparr>) = server_ok s"
  by (simp add: server_ok_def)

lemma attach_pages_ok:
  assumes ok: "server_ok s" and i: "i < length (s_threads s)" and old: "work (s_threads s ! i) = sg # rest"
    and ps: "\<forall>p\<in>set ps. sg_user p = sg_user sg \<and> q_partial (sg_query p) \<and> sg_seq p = sg_seq sg"
  shows "\<exists>s'. attach_all ps s = Inr s' \<and> server_ok s'"
proof (cases "ps = []")
  case False
  from thread_work_ok(2) [OF ok i, of sg] old obtain x where x: "s_heap s (sg_user sg) = Some x" by auto
  let ?x = "x\<lparr>u_notifications := u_notifications x @ ps\<rparr>"
  have "attach_all ps s = Inr (put_user (sg_user sg) ?x s)"
    using attach_all_eq [OF x, of ps] ps False by simp
  moreover have "server_ok (put_user (sg_user sg) ?x s)"
  proof (rule server_ok_put [OF ok x, where x' = ?x])
    show "pending_ok (sg_user sg) ?x" using server_okD(11) [OF ok x] by (simp add: pending_ok_def)
    assume u: "sg_user sg \<noteq> Global"
    show "client_ok (s_count (put_user (sg_user sg) ?x s)) (replies_of (sg_user sg) (s_sent (put_user (sg_user sg) ?x s)))
        (seqs (sg_user sg) (in_threads (s_threads s))) ?x"
      using client_ok_pages [of _ _ "sg_seq sg" x ps] server_okD(12) [OF ok u x] seqs_hand [OF ok i old u x] ps by simp
  qed simp_all
  ultimately show ?thesis by blast
qed (use ok in simp)

lemma prepare_ok:
  assumes ok: "server_ok s" and i: "i < length (s_threads s)"
  shows "thread_prepare R i stops s = Inr s' \<Longrightarrow> server_ok s'"
    and "thread_prepare R i stops s = Inl e \<Longrightarrow> \<exists>sg. t_phase (s_threads s ! i) = Taken sg \<and>
      Prepare R (sg_run sg) (sg_query sg) ((s_world s)\<lparr>w_results := [], w_interrupts := stops\<rparr>) = Inl e"
proof -
  let ?t = "s_threads s ! i" and ?w = "(s_world s)\<lparr>w_results := [], w_interrupts := stops\<rparr>"
  have main: "(\<exists>s'. thread_prepare R i stops s = Inr s' \<and> server_ok s') \<or>
      (\<exists>sg e. t_phase ?t = Taken sg \<and> thread_prepare R i stops s = Inl e \<and> Prepare R (sg_run sg) (sg_query sg) ?w = Inl e)"
  proof (cases "t_phase ?t")
    case (Taken sg)
    have old: "work ?t = sg # t_queue ?t" by (simp add: work_def Taken)
    have sg: "signal_ok sg" using thread_work_ok(1) [OF ok i, of sg] old by simp
    show ?thesis
    proof (cases "q_access (sg_query sg) = DBL_INVALID_FORMAT")
      case True
      have "server_ok (set_thread i (?t\<lparr>t_busy := False, t_phase := Prepared sg\<rparr>) s)"
        by (rule server_ok_hand [OF ok i old, where sg' = sg]) (simp_all add: work_def sg)
      with True Taken show ?thesis by (simp add: thread_prepare_def Let_def)
    next
      case False
      show ?thesis
      proof (cases "Prepare R (sg_run sg) (sg_query sg) ?w")
        case (Inl e)
        with False Taken show ?thesis by (auto simp: thread_prepare_def Let_def)
      next
        case (Inr r)
        obtain b q' w' where r: "r = (b, q', w')" by (metis prod_cases3)
        have "frame_run (sg_run sg)" using sg by (simp add: signal_ok_def)
        from Prepare_frame [OF this Inr [unfolded r]]
        have q': "q_user q' = sg_user sg" "q_flags q' = q_flags (sg_query sg)" "\<not> q_partial q'"
          and pages: "\<forall>p\<in>set (w_results w'). q_user p = sg_user sg \<and> q_partial p"
          using sg by (auto simp: same_client_def signal_ok_def)
        let ?sg = "sg\<lparr>sg_query := q'\<rparr>" and ?w' = "w'\<lparr>w_results := [], w_interrupts := []\<rparr>"
        let ?s = "set_thread i (?t\<lparr>t_busy := False, t_phase := Prepared ?sg\<rparr>) (s\<lparr>s_world := ?w'\<rparr>)"
        have "server_ok ?s"
          by (rule server_ok_hand [where sg = sg and sg' = ?sg and rest = "t_queue ?t"])
            (use ok i old q' sg in \<open>simp_all add: server_ok_world work_def signal_ok_def\<close>)
        moreover have "work (s_threads ?s ! i) = ?sg # t_queue ?t" using i by (simp add: work_def)
        ultimately have "\<exists>s'. attach_all (map (page_signal sg) (w_results w')) ?s = Inr s' \<and> server_ok s'"
          using attach_pages_ok [of ?s i ?sg "t_queue ?t" "map (page_signal sg) (w_results w')"] i pages q'
          by (auto simp: page_signal_def)
        with False Taken Inr r show ?thesis by (simp add: thread_prepare_def Let_def)
      qed
    qed
  qed (use ok in \<open>simp_all add: thread_prepare_def Let_def\<close>)
  from main show "thread_prepare R i stops s = Inr s' \<Longrightarrow> server_ok s'"
    and "thread_prepare R i stops s = Inl e \<Longrightarrow> \<exists>sg. t_phase ?t = Taken sg \<and> Prepare R (sg_run sg) (sg_query sg) ?w = Inl e"
    by auto
qed

text \<open>The result of the query in hand becomes a notification, or is dropped.\<close>

lemma client_ok_result:
  assumes "client_ok c sent [n] x" "sg_seq sg = n" "\<not> q_partial (sg_query sg)"
  shows "client_ok c sent [] (x\<lparr>u_notifications := u_notifications x @ [sg]\<rparr>)"
proof -
  have "finals x = []" "u_locked x" using assms by (auto simp: client_ok_def)
  with assms show ?thesis
    by (auto simp: client_ok_def track_def finals_def filter_empty_conv)
qed

lemma client_ok_dropped: "client_ok c sent [n] x \<Longrightarrow> client_ok c sent [] x"
  using in_order_drop [of c "sent @ map (\<lambda>sg. (sg_seq sg, \<not> q_partial (sg_query sg))) (u_notifications x)" "[(n, True)]"]
  by (auto simp: client_ok_def track_def)

lemma attach_ok:
  assumes ok: "server_ok s" and i: "i < length (s_threads s)"
  shows "thread_attach i s = Inr s' \<Longrightarrow> server_ok s'"
    and "thread_attach i s = Inl e \<Longrightarrow> \<exists>sg agent. t_phase (s_threads s ! i) = Prepared sg \<and> sg_user sg = Global \<and>
      sg_process sg agent (sg_query sg) = Inl e"
proof -
  let ?t = "s_threads s ! i"
  let ?s1 = "set_thread i (?t\<lparr>t_phase := Waiting\<rparr>) s"
  have main: "(\<exists>s'. thread_attach i s = Inr s' \<and> server_ok s') \<or>
      (\<exists>sg agent e. t_phase ?t = Prepared sg \<and> sg_user sg = Global \<and> thread_attach i s = Inl e \<and>
        sg_process sg agent (sg_query sg) = Inl e)"
  proof (cases "t_phase ?t")
    case (Prepared sg)
    have old: "work ?t = sg # t_queue ?t" by (simp add: work_def Prepared)
    have new: "work (?t\<lparr>t_phase := Waiting\<rparr>) = t_queue ?t" by (simp add: work_def)
    from thread_work_ok [OF ok i, of sg] old obtain x where sg: "signal_ok sg" and x: "s_heap s (sg_user sg) = Some x"
      by auto
    have thr: "signal_ok r \<and> s_heap s (sg_user r) \<noteq> None" if "r \<in> set (in_threads (s_threads ?s1))" for r
      using that set_update [OF i] new server_okD(10) [OF ok, of r] old by auto
    have other: "seqs v (in_threads (s_threads ?s1)) = seqs v (in_threads (s_threads s))" if "v \<noteq> sg_user sg" for v
      using that seqs_update [OF i, of v "?t\<lparr>t_phase := Waiting\<rparr>"] new old by (simp add: seqs_def)
    have own: "seqs (sg_user sg) (in_threads (s_threads ?s1)) = []" if u: "sg_user sg \<noteq> Global"
    proof -
      let ?u = "sg_user sg" and ?l = "in_threads (take i (s_threads s))" and ?r = "in_threads (drop (Suc i) (s_threads s))"
      have "seqs ?u ?l @ sg_seq sg # seqs ?u (t_queue ?t) @ seqs ?u ?r = [sg_seq sg]"
        using seqs_hand [OF ok i old u x] unfolding in_threads_split [OF i refl] old by (simp add: seqs_def)
      then have "seqs ?u ?l = [] \<and> seqs ?u (t_queue ?t) = [] \<and> seqs ?u ?r = []"
        by (auto dest: arg_cong [where f = length])
      then show ?thesis using in_threads_update [OF i] new by simp
    qed
    have client: "client_ok (s_count s) (replies_of (sg_user sg) (s_sent s)) [sg_seq sg] x" if u: "sg_user sg \<noteq> Global"
      using server_okD(12) [OF ok u x] seqs_hand [OF ok i old u x] by simp
    have keep: "server_ok s'" if "s_heap s' = (s_heap s)(sg_user sg \<mapsto> x')" "s_clients s' = s_clients s"
      "s_awaiting s' = s_awaiting s" "s_reducer s' = s_reducer s" "s_count s' = s_count s"
      "s_threads s' = s_threads ?s1" "s_sent s' = s_sent s" "pending_ok (sg_user sg) x'" "u_quitting x' = u_quitting x"
      "u_locked x' = u_locked x \<or> sg_user sg = Global"
      "sg_user sg \<noteq> Global \<Longrightarrow> client_ok (s_count s) (replies_of (sg_user sg) (s_sent s)) [] x'" for s' x'
    proof (rule server_ok_user [OF ok x, where x' = x'])
      show "u_locked x' = u_locked x \<or> \<not> u_quitting x"
        using that(10) server_okD(2) [OF ok] x by auto
    qed (use that thr other own server_okD(1) [OF ok] i in auto)
    have pend: "pending_ok (sg_user sg) (x\<lparr>u_notifications := ns, u_locked := l\<rparr>)"
      "pending_ok (sg_user sg) (x\<lparr>u_notifications := ns\<rparr>)" "pending_ok (sg_user sg) (x\<lparr>u_locked := l\<rparr>)" "pending_ok (sg_user sg) x" for ns l
      using server_okD(11) [OF ok x] by (simp_all add: pending_ok_def)
    have dropped: "server_ok ?s1"
      by (rule keep [where x' = x]) (use x client client_ok_dropped pend in \<open>auto simp: fun_upd_idem\<close>)
    have partial: "\<not> q_partial (sg_query sg)" using sg by (simp add: signal_ok_def)
    have flags: "sg_user sg = Global" if "q_flags (sg_query sg) = QUERY_FLAGS_GLOBAL"
      using sg that by (auto simp: signal_ok_def)
    consider "q_flags (sg_query sg) = QUERY_FLAGS_QUIET" | "q_flags (sg_query sg) = QUERY_FLAGS_GLOBAL"
      | "q_flags (sg_query sg) \<notin> {QUERY_FLAGS_QUIET, QUERY_FLAGS_GLOBAL}" by blast
    then show ?thesis
    proof cases
      case 1
      with Prepared dropped show ?thesis by (simp add: thread_attach_def Let_def)
    next
      case 2
      note g = flags [OF 2]
      show ?thesis
      proof (cases "sg_process sg (u_agent x) (sg_query sg)")
        case (Inl e)
        with Prepared 2 g x show ?thesis
          by (auto simp: thread_attach_def DataFlush_AttachGlobal_def Let_def)
      next
        case (Inr lines)
        have "thread_attach i s = Inr (send_reply Global sg lines (put_user Global (x\<lparr>u_locked := False\<rparr>) ?s1))"
          using Prepared 2 g x Inr by (simp add: thread_attach_def DataFlush_AttachGlobal_def Let_def)
        moreover have "server_ok (send_reply Global sg lines (put_user Global (x\<lparr>u_locked := False\<rparr>) ?s1))"
          by (rule keep [where x' = "x\<lparr>u_locked := False\<rparr>"]) (use g pend in \<open>auto simp: send_reply_def\<close>)
        ultimately show ?thesis by blast
      qed
    next
      case 3
      show ?thesis
      proof (cases "q_access (sg_query sg) = DBL_INTERRUPT")
        case True
        with Prepared 3 dropped show ?thesis by (simp add: thread_attach_def Let_def)
      next
        case False
        let ?x = "x\<lparr>u_notifications := u_notifications x @ [sg]\<rparr>"
        have "thread_attach i s = Inr (put_user (sg_user sg) ?x ?s1)"
          using Prepared 3 False x by (simp add: thread_attach_def DataFlush_AttachResult_def Let_def)
        moreover have "server_ok (put_user (sg_user sg) ?x ?s1)"
          by (rule keep [where x' = ?x]) (use client client_ok_result [OF _ refl partial] pend in auto)
        ultimately show ?thesis by blast
      qed
    qed
  qed (use ok in \<open>simp_all add: thread_attach_def Let_def\<close>)
  from main show "thread_attach i s = Inr s' \<Longrightarrow> server_ok s'"
    and "thread_attach i s = Inl e \<Longrightarrow> \<exists>sg agent. t_phase ?t = Prepared sg \<and> sg_user sg = Global \<and>
      sg_process sg agent (sg_query sg) = Inl e"
    by auto
qed

section \<open>Users\<close>

lemma seqs_gone: "server_ok s \<Longrightarrow> s_heap s u = None \<Longrightarrow> seqs u (in_threads (s_threads s)) = []"
  using server_okD(10) [of s] by (fastforce simp: seqs_def filter_empty_conv)

lemma connect_ok:
  assumes ok: "server_ok s" and u: "s_heap s u = None" "u \<noteq> Global"
  shows "server_ok (ClientManager_AddUser u pos agent s)"
proof -
  note D = server_okD [OF ok]
  have fresh: "u \<notin> set (s_clients s)" "u \<notin> set (s_awaiting s)" "u \<notin> set (s_reducer s)"
    using D(7-9) [of u] u(1) by auto
  have clients: "set (take pos (s_clients s) @ u # drop pos (s_clients s)) = insert u (set (s_clients s))"
    by (metis Un_insert_right append_take_drop_id list.simps(15) set_append)
  have "distinct (take pos (s_clients s) @ u # drop pos (s_clients s))"
    using D(6) fresh(1) by (simp add: set_take_disj_set_drop_if_distinct)
      (meson in_set_dropD in_set_takeD)
  moreover have "client_ok (s_count s) (replies_of u (s_sent s)) (seqs u (in_threads (s_threads s))) (new_user agent)"
    using D(13) [of u] seqs_gone [OF ok u(1)] by (simp add: client_ok_def track_def new_user_def finals_def)
  ultimately show ?thesis
    using D u fresh clients unfolding server_ok_def
    by (auto simp: ClientManager_AddUser_def put_user_def new_user_def pending_ok_def)
qed

lemma Disconnect_ok:
  assumes ok: "server_ok s" and u: "u \<in> set (s_clients s)"
  shows "\<exists>s'. ClientManager_Disconnect veto u s = Inr s' \<and> server_ok s'"
proof -
  note D = server_okD [OF ok]
  obtain x where x: "s_heap s u = Some x" "\<not> u_quitting x" using D(7) [OF u] by blast
  have ug: "u \<noteq> Global" using u D(3) by blast
  have other: "u \<notin> set (s_awaiting s)" "u \<notin> set (s_reducer s)" using D(8,9) [of u] x by auto
  have x': "client_ok c sent fl (x\<lparr>u_quitting := True\<rparr>) = client_ok c sent fl x"
    "pending_ok u (x\<lparr>u_quitting := True\<rparr>) = pending_ok u x" for c sent fl
    by (simp_all add: client_ok_def track_def finals_def pending_ok_def)
  from x ug D other have "server_ok ((put_user u (x\<lparr>u_quitting := True\<rparr>) s)\<lparr>s_clients := filter (\<lambda>v. v \<noteq> u) (s_clients s),
      s_reducer := s_reducer s @ (if u_locked x then [] else [u]), s_awaiting := s_awaiting s @ (if u_locked x then [u] else [])\<rparr>)"
    unfolding server_ok_def by (auto simp: put_user_def x')
  with x ug ok show ?thesis by (cases veto) (auto simp: ClientManager_Disconnect_def put_user_def Let_def)
qed

lemma force_exits_total:
  assumes "server_ok s"
  shows "ClientManager_ForceExits s = Inr s"
proof -
  have "for_users force_exit us s = Inr s" if "set us \<subseteq> set (s_awaiting s)" for us
    using that
  proof (induction us)
    case (Cons u us)
    with server_okD(8) [OF assms, of u] show ?case by (auto simp: force_exit_def)
  qed simp
  then show ?thesis by (simp add: ClientManager_ForceExits_def)
qed

lemma reducer_ok:
  assumes ok: "server_ok s"
  shows "server_ok (ReducerHandler_Apply s)"
proof -
  note D = server_okD [OF ok]
  have gone: "u \<notin> set (s_reducer s)" if "s_heap s u = Some x" "\<not> u_quitting x \<or> u_locked x" for u x
    using that D(9) [of u] by auto
  have busy: "sg_user sg \<notin> set (s_reducer s)" if "sg \<in> set (in_threads (s_threads s))" for sg
  proof
    assume u: "sg_user sg \<in> set (s_reducer s)"
    then obtain x where x: "s_heap s (sg_user sg) = Some x" "\<not> u_locked x" using D(9) by blast
    have "sg_user sg \<noteq> Global" using u D(5) by metis
    from D(12) [OF this x(1)] x(2) have "seqs (sg_user sg) (in_threads (s_threads s)) = []"
      by (simp add: client_ok_def)
    with that show False by (auto simp: seqs_def filter_empty_conv)
  qed
  show ?thesis
    using D gone busy unfolding server_ok_def ReducerHandler_Apply_def by auto (metis D(7) D(8) gone)+
qed

section \<open>The reset, and every step\<close>

lemma client_ok_cleared: "client_ok c sent fl x \<Longrightarrow> client_ok c sent fl (clear_user x)"
  by (auto simp: client_ok_def track_def finals_def clear_user_def in_order_simps)

lemma clear_users_ok:
  assumes ok: "server_ok s"
  shows "server_ok (s\<lparr>s_running := r,
    s_heap := (\<lambda>u. map_option (\<lambda>x. if C u x then clear_user x else x) (s_heap s u))\<rparr>)"
proof -
  note D = server_okD [OF ok]
  let ?s = "s\<lparr>s_running := r, s_heap := (\<lambda>u. map_option (\<lambda>x. if C u x then clear_user x else x) (s_heap s u))\<rparr>"
  have same: "u_quitting (clear_user x) = u_quitting x" "u_locked (clear_user x) = u_locked x"
    "pending_ok u (clear_user x)" for u and x :: "'a user"
    by (simp_all add: clear_user_def pending_ok_def)
  have pend: "pending_ok u y" if "s_heap ?s u = Some y" for u y
    using that D(11) [of u] same(3) by auto
  have client: "client_ok (s_count s) (replies_of u (s_sent s)) (seqs u (in_threads (s_threads s))) y"
    if "u \<noteq> Global" "s_heap ?s u = Some y" for u y
    using that D(12) [of u] client_ok_cleared by (auto split: if_splits)
  have threads: "signal_ok sg \<and> s_heap ?s (sg_user sg) \<noteq> None" if "sg \<in> set (in_threads (s_threads s))" for sg
    using D(10) [OF that] by auto
  have lists: "u \<in> set (s_clients s) \<Longrightarrow> \<exists>y. s_heap ?s u = Some y \<and> \<not> u_quitting y"
    "u \<in> set (s_awaiting s) \<Longrightarrow> \<exists>y. s_heap ?s u = Some y \<and> u_quitting y \<and> u_locked y"
    "u \<in> set (s_reducer s) \<Longrightarrow> \<exists>y. s_heap ?s u = Some y \<and> u_quitting y \<and> \<not> u_locked y" for u
    by (use D(7-9) [of u] same in fastforce)+
  have g: "\<exists>g. s_heap ?s Global = Some g \<and> \<not> u_quitting g" using D(2) same by fastforce
  have fields: "s_threads ?s = s_threads s" "s_clients ?s = s_clients s" "s_awaiting ?s = s_awaiting s"
    "s_reducer ?s = s_reducer s" "s_count ?s = s_count s" "s_sent ?s = s_sent s" by simp_all
  show ?thesis
    unfolding server_ok_def fields
    using D(1,3-6,13) pend client threads lists g by blast
qed

lemma push_all_ok:
  "server_ok s \<Longrightarrow> \<forall>sg\<in>set sgs. sg_user sg = Global \<and> signal_ok sg \<Longrightarrow>
   \<exists>s'. push_all sgs s = Inr s' \<and> server_ok s'"
proof (induction sgs arbitrary: s)
  case (Cons sg sgs)
  obtain g where g: "s_heap s (sg_user sg) = Some g" using server_okD(2) [OF Cons.prems(1)] Cons.prems(2) by auto
  from numbered_push_ex [of s sg, OF g] obtain s1 where "numbered_push sg s = Inr s1" by blast
  with push_ok [OF Cons.prems(1) g _ this] Cons.IH [of s1] Cons.prems(2) show ?case by auto
qed simp

lemma persist_request_ok: "sg \<in> set (persist_request R r) \<Longrightarrow> sg_user sg = Global \<and> signal_ok sg"
  by (cases "(R, r)" rule: persist_request.cases)
    (auto simp: ExpireHelper_Persist_def signal_ok_def expire_del_query_def new_query_def
      Global_def frame_keys)

lemma reset_total:
  assumes ok: "server_ok s"
  shows "\<exists>s'. DataFlush_ResetAll R s = Inr s' \<and> server_ok s'"
proof -
  let ?s1 = "s\<lparr>s_running := False, s_heap := (\<lambda>u. map_option (\<lambda>user. if u = Global \<or> u \<in> set (s_clients s) \<and> \<not> u_quitting user
                                              then clear_user user else user) (s_heap s u))\<rparr>"
  let ?sgs = "concat (map (persist_request R) (ExpireManager_Reset (w_expires (s_world s))))"
  have all: "\<forall>sg\<in>set ?sgs. sg_user sg = Global \<and> signal_ok sg"
  proof
    fix sg assume "sg \<in> set ?sgs"
    then obtain r where "sg \<in> set (persist_request R r)" by auto
    then show "sg_user sg = Global \<and> signal_ok sg" by (rule persist_request_ok)
  qed
  from push_all_ok [OF clear_users_ok [OF ok, of "\<lambda>u user. u = Global \<or> u \<in> set (s_clients s) \<and> \<not> u_quitting user" False] all]
  obtain s2 where s2: "push_all ?sgs ?s1 = Inr s2" "server_ok s2" by blast
  have "server_ok (s2\<lparr>s_running := True\<rparr>)" using s2(2) by (simp add: server_ok_def)
  with s2(1) show ?thesis by (simp add: DataFlush_ResetAll_def Let_def)
qed

lemma server_ok_running: "server_ok (s\<lparr>s_running := r\<rparr>) = server_ok s"
  by (simp add: server_ok_def)

lemma server_ok_start: "0 < n \<Longrightarrow> server_ok (server_start n w)"
  by (auto simp: server_ok_def server_start_def new_user_def pending_ok_def in_order_def replies_of_def
      in_threads_def work_def)

lemma step_ok:
  assumes "server_step R s s'" "server_ok s"
  shows "server_ok s'"
  using assms
proof (induction rule: server_step.induct)
  case (command cls run sg q s s')
  then obtain x where "s_heap s (sg_user sg) = Some x" using server_okD(7) [of s "sg_user sg"] by auto
  moreover have "signal_ok sg" using command all_frame_run [OF command.hyps(1)] by (simp add: signal_ok_def)
  ultimately show ?case using push_ok command by blast
next
  case (own_query sg s s')
  then obtain g where "s_heap s (sg_user sg) = Some g" using server_okD(2) [of s] by auto
  with own_query push_ok [of s sg g s'] show ?case by (simp add: signal_ok_def)
next
  case (disconnected u s veto s')
  with Disconnect_ok [of s u veto] show ?case by auto
next
  case (exits s s')
  with force_exits_total [of s] show ?case by simp
next
  case (reset s s')
  with reset_total [of s R] show ?case by auto
next
  case (closing s d flag)
  then show ?case by (simp add: set_closing_def server_ok_world)
next
  case (main_round pick s s')
  then show ?case by (blast intro: round_ok)
next
  case (prepared i s stops s')
  then show ?case by (blast intro: prepare_ok(1))
next
  case (attached i s s')
  then show ?case by (blast intro: attach_ok(1))
qed (simp_all add: take_ok connect_ok reducer_ok server_ok_running)

lemma reachable_ok: "reachable R s \<Longrightarrow> server_ok s"
proof -
  assume "reachable R s"
  then obtain n w where n: "0 < n" and steps: "(server_step R)\<^sup>*\<^sup>* (server_start n w) s" by (auto simp: reachable_def)
  from steps show "server_ok s"
    by induction (use n in \<open>auto intro: server_ok_start step_ok\<close>)
qed

end
