(* ===== verification/ServerFacts.thy ===== *)
theory ServerFacts
  imports DispatchFacts
begin

text \<open>
  The properties of the dispatcher: what can fault, one query at a time, the order of the replies,
  the answer to a prepared query, and the users that stay locked.
\<close>

section \<open>Where the main loop can fault\<close>

lemma get_result_others:
  "get_result v s = Inr s' \<Longrightarrow> u \<noteq> v \<Longrightarrow> s_heap s' u = s_heap s u"
  by (auto simp: get_result_def bind_res_Inr_iff Let_def split: if_splits)

lemma get_result_local:
  "s_heap s' u = s_heap s u \<Longrightarrow> get_result u s' = Inl e \<Longrightarrow> get_result u s = Inl e"
  by (auto simp: get_result_def user_of_def bind_res_def Let_def split: option.splits sum.splits if_splits)

lemma get_results_fault:
  "for_users get_result us s = Inl e \<Longrightarrow> distinct us \<Longrightarrow> \<exists>u\<in>set us. get_result u s = Inl e"
proof (induction us arbitrary: s)
  case (Cons v us)
  show ?case
  proof (cases "get_result v s")
    case (Inl e')
    with Cons.prems show ?thesis by auto
  next
    case (Inr s1)
    with Cons obtain u where u: "u \<in> set us" "get_result u s1 = Inl e" by auto
    with Cons.prems(2) have "u \<noteq> v" by auto
    with u get_result_others [OF Inr] get_result_local [of s1 u s e] show ?thesis by auto
  qed
qed simp

lemma get_result_fault:
  assumes "get_result u s = Inl e" "s_heap s u = Some x"
  shows "\<exists>sg ns. u_notifications x = sg # ns \<and> CheckFlush (sg_process sg (u_agent x)) (sg_query sg) = Inl e"
  using assms by (cases "u_notifications x") (auto simp: get_result_def Let_def bind_res_def split: sum.splits if_splits)

text \<open>
  C5: In every reachable state the main loop touches no deleted user: the posting of pending
  queries, the forced exits, the reset and the disconnection of any client always come back, and a
  round faults only where formatting the reply of a client's first notification does.
\<close>

theorem main_loop_faults:
  assumes "reachable R s"
  shows "(\<forall>e. DataFlush_round pick s = Inl e \<longrightarrow> (\<exists>u\<in>set (s_clients s). \<exists>x sg ns. s_heap s u = Some x \<and>
      u_notifications x = sg # ns \<and> CheckFlush (sg_process sg (u_agent x)) (sg_query sg) = Inl e)) \<and>
    (s_running s \<longrightarrow> (\<exists>s'. DataFlush_GetPending pick s = Inr s')) \<and>
    ClientManager_ForceExits s = Inr s \<and>
    (\<exists>s'. DataFlush_ResetAll R s = Inr s') \<and>
    (\<forall>u\<in>set (s_clients s). \<exists>s'. ClientManager_Disconnect veto u s = Inr s')"
proof (intro conjI allI ballI impI)
  note ok = reachable_ok [OF assms]
  show "ClientManager_ForceExits s = Inr s" by (rule force_exits_total [OF ok])
  show "\<exists>s'. DataFlush_ResetAll R s = Inr s'" using reset_total [OF ok] by blast
  show "s_running s \<Longrightarrow> \<exists>s'. DataFlush_GetPending pick s = Inr s'" using GetPending_ok [OF ok] by blast
  show "\<exists>s'. ClientManager_Disconnect veto u s = Inr s'" if "u \<in> set (s_clients s)" for u
    using Disconnect_ok [OF ok that] by blast
  fix e assume f: "DataFlush_round pick s = Inl e"
  then have "DataFlush_GetResults s = Inl e"
  proof (cases "DataFlush_GetResults s")
    case (Inr s1)
    with GetResults_ok [OF ok Inr] GetPending_ok [of s1 pick] f show ?thesis
      by (auto simp: DataFlush_round_def split: if_splits)
  qed (auto simp: DataFlush_round_def split: if_splits)
  with get_results_fault [of "s_clients s" s e] server_okD(6) [OF ok]
  obtain u where u: "u \<in> set (s_clients s)" "get_result u s = Inl e" by (auto simp: DataFlush_GetResults_def)
  obtain x where "s_heap s u = Some x" using server_okD(7) [OF ok u(1)] by blast
  with u get_result_fault [OF u(2)] show "\<exists>u\<in>set (s_clients s). \<exists>x sg ns. s_heap s u = Some x \<and>
      u_notifications x = sg # ns \<and> CheckFlush (sg_process sg (u_agent x)) (sg_query sg) = Inl e" by blast
qed

section \<open>Users that stay locked\<close>

text \<open>What a step on the behalf of one user leaves of another.\<close>

definition stuck :: "nat \<Rightarrow> 'd server \<Rightarrow> bool" where
  "stuck u s \<longleftrightarrow> (\<exists>x. s_heap s u = Some x \<and> u_locked x \<and> finals x = []) \<and>
     seqs u (in_threads (s_threads s)) = []"

definition final_replies :: "nat \<Rightarrow> 'd server \<Rightarrow> (nat \<times> bool) list" where
  "final_replies u s = filter snd (replies_of u (s_sent s))"

definition stays_stuck :: "nat \<Rightarrow> 'd server \<Rightarrow> 'd server \<Rightarrow> bool" where
  "stays_stuck u s s' \<longleftrightarrow> (stuck u s \<longrightarrow> stuck u s' \<and> final_replies u s' = final_replies u s)"

lemma stays_stuck_refl [simp]: "stays_stuck u s s"
  by (simp add: stays_stuck_def)

lemma stays_stuck_trans: "stays_stuck u s s1 \<Longrightarrow> stays_stuck u s1 s2 \<Longrightarrow> stays_stuck u s s2"
  by (simp add: stays_stuck_def)

lemma stays_stuckI:
  assumes "\<And>x. s_heap s u = Some x \<Longrightarrow> u_locked x \<Longrightarrow> finals x = [] \<Longrightarrow>
      \<exists>x'. s_heap s' u = Some x' \<and> u_locked x' \<and> finals x' = []"
    "seqs u (in_threads (s_threads s)) = [] \<Longrightarrow> seqs u (in_threads (s_threads s')) = []"
    "replies_of u (s_sent s') = replies_of u (s_sent s)"
  shows "stays_stuck u s s'"
  using assms by (auto simp: stays_stuck_def stuck_def final_replies_def)

lemma push_stuck: "numbered_push sg s = Inr s' \<Longrightarrow> stays_stuck u s s'"
  by (rule stays_stuckI)
    (auto simp: numbered_push_def StoreManager_Push_def bind_res_Inr_iff user_of_Inr finals_def split: if_splits)

lemma push_all_stuck: "push_all sgs s = Inr s' \<Longrightarrow> stays_stuck u s s'"
  by (induction sgs arbitrary: s) (auto simp: bind_res_Inr_iff intro: stays_stuck_trans push_stuck)

lemma get_result_stuck:
  assumes "get_result v s = Inr s'"
  shows "stays_stuck u s s'"
proof -
  obtain x where x: "s_heap s v = Some x" using assms by (auto simp: get_result_def bind_res_Inr_iff user_of_Inr)
  show ?thesis
  proof (cases "u_quitting x \<or> u_notifications x = []")
    case True
    with assms x show ?thesis by (simp add: get_result_def)
  next
    case False
    then obtain sg ns where "u_notifications x = sg # ns" by (cases "u_notifications x") auto
    with assms x False show ?thesis
      by (auto simp: get_result_def bind_res_Inr_iff Let_def stays_stuck_def stuck_def final_replies_def
          replies_of_send finals_def split: if_splits)
  qed
qed

lemma Process_stuck:
  assumes "DataFlush_Process pick v sg s = Inr s'" "sg_user sg = v" "v \<noteq> u"
  shows "stays_stuck u s s'"
proof (rule stays_stuckI)
  have posted: "seqs u (in_threads (ts[i := (ts ! i)\<lparr>t_queue := t_queue (ts ! i) @ [sg]\<rparr>])) = seqs u (in_threads ts)" for ts i
    using seqs_post [of i ts u sg] assms(2,3) by (cases "i < length ts") (auto simp: not_less list_update_beyond)
  show "seqs u (in_threads (s_threads s)) = [] \<Longrightarrow> seqs u (in_threads (s_threads s')) = []"
    using assms posted
    by (auto simp: DataFlush_Process_def DataThread_Post_def bind_res_Inr_iff Let_def user_of_Inr
        split: if_splits option.splits)
qed (use assms in \<open>auto simp: DataFlush_Process_def DataThread_Post_def bind_res_Inr_iff Let_def user_of_Inr
        replies_of_send split: if_splits option.splits\<close>)

lemma get_pending_stuck:
  assumes ok: "server_ok s" and v: "v \<in> set (s_clients s)" and step: "get_pending pick v s = Inr s'"
  shows "stays_stuck u s s'"
proof -
  obtain x where x: "s_heap s v = Some x" "\<not> u_quitting x" using server_okD(7) [OF ok v] by blast
  show ?thesis
  proof (cases "u_pending x = [] \<or> u_locked x")
    case True
    with step x show ?thesis by (simp add: get_pending_def)
  next
    case False
    then obtain sg ps where ps: "u_pending x = sg # ps" "\<not> u_locked x" by (cases "u_pending x") auto
    have sg: "sg_user sg = v" using server_okD(11) [OF ok x(1)] ps(1) by (simp add: pending_ok_def)
    show ?thesis
    proof (cases "v = u")
      case True
      with ps x show ?thesis by (simp add: stays_stuck_def stuck_def)
    next
      case False
      from step x ps have "DataFlush_Process (pick v) v sg (put_user v (x\<lparr>u_locked := True\<rparr>) s) = Inr s'"
        by (simp add: get_pending_def)
      from Process_stuck [OF this sg False] False show ?thesis
        by (auto simp: stays_stuck_def stuck_def final_replies_def)
    qed
  qed
qed

lemma round_stuck:
  assumes ok: "server_ok s" and u: "u \<noteq> Global" and step: "DataFlush_round pick s = Inr s'"
  shows "stays_stuck u s s'"
proof (cases "s_running s")
  case True
  with step obtain s1 where s1: "DataFlush_GetResults s = Inr s1" "DataFlush_GetPending pick s1 = Inr s'"
    by (auto simp: DataFlush_round_def bind_res_Inr_iff)
  have results: "stays_stuck u s s1"
    by (rule for_users_ok [where P = "stays_stuck u s" and U = UNIV and f = get_result and us = "s_clients s" and s = s])
      (use s1(1) in \<open>auto simp: DataFlush_GetResults_def intro: stays_stuck_trans get_result_stuck\<close>)
  have ok1: "server_ok s1" "s_running s1" using GetResults_ok [OF ok s1(1)] True by auto
  obtain g where g: "s_heap s1 Global = Some g" using server_okD(2) [OF ok1(1)] by blast
  have "stays_stuck u s1 s'"
  proof (cases "u_pending g")
    case Nil
    let ?P = "\<lambda>t. server_ok t \<and> s_clients t = s_clients s1 \<and> s_running t \<and> stays_stuck u s1 t"
    have "?P t'" if "?P t" "v \<in> set (s_clients s1)" "get_pending pick v t = Inr t'" for v t t'
      using get_pending_ok [of t v pick] get_pending_stuck [of t v pick t' u] stays_stuck_trans [of u s1 t t'] that
      by auto
    then have "?P s'"
      by (rule for_users_ok [where P = ?P and U = "set (s_clients s1)" and f = "get_pending pick" and us = "s_clients s1" and s = s1])
        (use s1(2) g Nil ok1 in \<open>auto simp: DataFlush_GetPending_def\<close>)
    then show ?thesis by blast
  next
    case (Cons sg ps)
    have "sg_user sg = Global" using server_okD(11) [OF ok1(1) g] Cons by (simp add: pending_ok_def)
    with Process_stuck [of "pick Global" Global sg s1 s' u] s1(2) g Cons u show ?thesis
      by (simp add: DataFlush_GetPending_def)
  qed
  with results show ?thesis by (rule stays_stuck_trans)
qed (use step in \<open>simp add: DataFlush_round_def\<close>)

lemma take_stuck:
  assumes "i < length (s_threads s)"
  shows "stays_stuck u s (thread_take i s)"
proof (cases "t_phase (s_threads s ! i) = Waiting \<and> t_queue (s_threads s ! i) \<noteq> [] \<and> s_running s")
  case True
  let ?t = "s_threads s ! i"
  let ?t' = "?t\<lparr>t_busy := True, t_phase := Taken (hd (t_queue ?t)), t_queue := tl (t_queue ?t)\<rparr>"
  have "work ?t' = work ?t" using True by (simp add: work_def)
  with True seqs_update [OF assms, of u ?t'] show ?thesis
    by (intro stays_stuckI) (simp_all add: thread_take_def Let_def)
next
  case False
  then show ?thesis by (auto simp: thread_take_def Let_def)
qed

text \<open>A thread with a user's signal in hand is not one of a stuck user.\<close>

lemma stuck_hand:
  assumes "stuck u s" "i < length (s_threads s)" "sg \<in> set (work (s_threads s ! i))"
  shows "sg_user sg \<noteq> u"
  using assms set_update(2) [OF assms(2)] by (auto simp: stuck_def seqs_def filter_empty_conv)

lemma attach_all_others:
  "attach_all ps s = Inr s' \<Longrightarrow> \<forall>p\<in>set ps. sg_user p \<noteq> u \<Longrightarrow>
   s_heap s' u = s_heap s u \<and> s_threads s' = s_threads s \<and> s_sent s' = s_sent s"
  by (induction ps arbitrary: s) (auto simp: bind_res_Inr_iff DataFlush_AttachResult_def)

lemma stuck_thread:
  assumes "stuck u s" "i < length (s_threads s)" "seqs u (work t) = []"
  shows "seqs u (in_threads ((s_threads s)[i := t])) = []"
proof -
  have "seqs u (work (s_threads s ! i)) = []"
    using assms(1) in_threads_split [OF assms(2) refl] by (simp add: stuck_def)
  with assms seqs_update [OF assms(2), of u t] show ?thesis by (simp add: stuck_def)
qed

lemma prepare_stuck:
  assumes ok: "server_ok s" and i: "i < length (s_threads s)" and step: "thread_prepare R i stops s = Inr s'"
  shows "stays_stuck u s s'"
proof (cases "stuck u s")
  case True
  let ?t = "s_threads s ! i" and ?w = "(s_world s)\<lparr>w_results := [], w_interrupts := stops\<rparr>"
  show ?thesis
  proof (cases "t_phase ?t")
    case (Taken sg)
    have old: "work ?t = sg # t_queue ?t" by (simp add: work_def Taken)
    have other: "sg_user sg \<noteq> u" "seqs u (t_queue ?t) = []"
      using stuck_hand [OF True i] old by (auto simp: seqs_def filter_empty_conv)
    have sg: "signal_ok sg" using thread_work_ok(1) [OF ok i, of sg] old by simp
    show ?thesis
    proof (cases "q_access (sg_query sg) = DBL_INVALID_FORMAT")
      case True': True
      let ?t' = "?t\<lparr>t_busy := False, t_phase := Prepared sg\<rparr>"
      have "seqs u (work ?t') = []" using other by (simp add: work_def seqs_def)
      from stuck_thread [OF True i this] step True' Taken True show ?thesis
        by (auto simp: thread_prepare_def Let_def stays_stuck_def stuck_def final_replies_def)
    next
      case False
      from step False Taken obtain b q' w' where p: "Prepare R (sg_run sg) (sg_query sg) ?w = Inr (b, q', w')"
        and s': "attach_all (map (page_signal sg) (w_results w'))
          (set_thread i (?t\<lparr>t_busy := False, t_phase := Prepared (sg\<lparr>sg_query := q'\<rparr>)\<rparr>)
            (s\<lparr>s_world := w'\<lparr>w_results := [], w_interrupts := []\<rparr>\<rparr>)) = Inr s'"
        by (auto simp: thread_prepare_def Let_def bind_res_Inr_iff)
      have "frame_run (sg_run sg)" using sg by (simp add: signal_ok_def)
      from Prepare_frame [OF this p]
      have q': "q_user q' = sg_user sg" and pages: "\<forall>p\<in>set (w_results w'). q_user p = sg_user sg"
        by (auto simp: same_client_def)
      let ?t' = "?t\<lparr>t_busy := False, t_phase := Prepared (sg\<lparr>sg_query := q'\<rparr>)\<rparr>"
      have "seqs u (work ?t') = []" using other q' by (simp add: work_def seqs_def)
      with attach_all_others [OF s', of u] pages other True stuck_thread [OF True i, of ?t'] show ?thesis
        by (auto simp: stays_stuck_def stuck_def final_replies_def page_signal_def)
    qed
  qed (use step in \<open>simp_all add: thread_prepare_def Let_def\<close>)
qed (simp add: stays_stuck_def)

lemma attach_stuck:
  assumes i: "i < length (s_threads s)" and step: "thread_attach i s = Inr s'"
  shows "stays_stuck u s s'"
proof (cases "stuck u s")
  case True
  let ?t = "s_threads s ! i"
  show ?thesis
  proof (cases "t_phase ?t")
    case (Prepared sg)
    have old: "work ?t = sg # t_queue ?t" by (simp add: work_def Prepared)
    have other: "sg_user sg \<noteq> u" "seqs u (work (?t\<lparr>t_phase := Waiting\<rparr>)) = []"
      using stuck_hand [OF True i] old by (auto simp: seqs_def filter_empty_conv work_def)
    from stuck_thread [OF True i other(2)] other(1) step Prepared True show ?thesis
      by (auto simp: thread_attach_def Let_def DataFlush_AttachGlobal_def DataFlush_AttachResult_def bind_res_Inr_iff
          stays_stuck_def stuck_def final_replies_def replies_of_send split: if_splits)
  qed (use step in \<open>simp_all add: thread_attach_def Let_def\<close>)
qed (simp add: stays_stuck_def)

lemma reset_stuck:
  assumes "DataFlush_ResetAll R s = Inr s'"
  shows "stays_stuck u s s'"
proof -
  let ?s1 = "s\<lparr>s_running := False, s_heap := (\<lambda>u. map_option (\<lambda>user. if u = Global \<or> u \<in> set (s_clients s) \<and> \<not> u_quitting user
                                              then clear_user user else user) (s_heap s u))\<rparr>"
  let ?sgs = "concat (map (persist_request R) (ExpireManager_Reset (w_expires (s_world s))))"
  obtain s2 where s2: "push_all ?sgs ?s1 = Inr s2" "s' = s2\<lparr>s_running := True\<rparr>"
    using assms by (auto simp: DataFlush_ResetAll_def Let_def bind_res_Inr_iff)
  have "stays_stuck u s ?s1"
    by (rule stays_stuckI) (auto simp: clear_user_def finals_def)
  moreover have "stays_stuck u ?s1 s2" by (rule push_all_stuck [OF s2(1)])
  moreover have "stays_stuck u s2 s'" using s2(2) by (simp add: stays_stuck_def stuck_def final_replies_def)
  ultimately show ?thesis by (blast intro: stays_stuck_trans)
qed

lemma step_stuck:
  assumes "server_step R s s'" "server_ok s" "u \<noteq> Global"
  shows "stays_stuck u s s'"
  using assms
proof (induction rule: server_step.induct)
  case (main_round pick s s')
  then show ?case by (blast intro: round_stuck)
next
  case (prepared i s stops s')
  then show ?case by (blast intro: prepare_stuck)
next
  case (attached i s s')
  then show ?case by (blast intro: attach_stuck)
next
  case (connected s v pos agent)
  then show ?case
    by (intro stays_stuckI) (auto simp: ClientManager_AddUser_def)
next
  case (disconnected v s veto s')
  then show ?case
    by (intro stays_stuckI) (auto simp: ClientManager_Disconnect_def bind_res_Inr_iff user_of_Inr finals_def Let_def split: if_splits)
next
  case (exits s s')
  then show ?case using force_exits_total [of s] by simp
next
  case (reduced s)
  then show ?case
    using server_okD(9) [of s u] by (intro stays_stuckI) (auto simp: ReducerHandler_Apply_def)
next
  case (closing s d flag)
  then show ?case by (simp add: stays_stuck_def stuck_def final_replies_def set_closing_def)
qed (simp_all add: push_stuck take_stuck reset_stuck, simp_all add: stays_stuck_def stuck_def final_replies_def)

lemma steps_stuck:
  assumes "(server_step R)\<^sup>*\<^sup>* s s'" "server_ok s" "u \<noteq> Global"
  shows "server_ok s' \<and> stays_stuck u s s'"
  using assms(1)
proof induction
  case (step s1 s2)
  with step_ok [OF step.hyps(2)] step_stuck [OF step.hyps(2) _ assms(3)] show ?case
    by (blast intro: stays_stuck_trans)
qed (use assms in simp)

section \<open>The answer to a prepared query\<close>

text \<open>What the users wait for: their notifications, and the agents they are formatted for.\<close>

definition waiting_for :: "'d server \<Rightarrow> nat \<Rightarrow> (string \<times> 'd signal list) option" where
  "waiting_for s v = map_option (\<lambda>x. (u_agent x, u_notifications x)) (s_heap s v)"

definition formats :: "string \<Rightarrow> 'd signal \<Rightarrow> bool" where
  "formats agent sg \<longleftrightarrow> (\<exists>l. CheckFlush (sg_process sg agent) (sg_query sg) = Inr l)"

definition flushable :: "'d server \<Rightarrow> bool" where
  "flushable s \<longleftrightarrow> (\<forall>v\<in>set (s_clients s). \<forall>a ns. waiting_for s v = Some (a, ns) \<longrightarrow> (\<forall>sg\<in>set ns. formats a sg))"

primrec rounds :: "(nat \<Rightarrow> nat \<Rightarrow> nat) \<Rightarrow> nat \<Rightarrow> 'd server \<Rightarrow> 'd server res" where
  "rounds pick 0 s = Inr s"
| "rounds pick (Suc k) s = bind_res (DataFlush_round (pick k) s) (rounds pick k)"

lemma get_result_flush:
  assumes "server_ok s" "v \<in> set (s_clients s)" "waiting_for s v = Some (a, ns)" "\<forall>sg\<in>set ns. formats a sg"
  shows "\<exists>s'. get_result v s = Inr s' \<and> waiting_for s' v = Some (a, tl ns) \<and>
    replies_of v (s_sent s') = replies_of v (s_sent s) @
      map (\<lambda>sg. (sg_seq sg, \<not> q_partial (sg_query sg))) (take 1 ns) \<and>
    (\<forall>u. u \<noteq> v \<longrightarrow> waiting_for s' u = waiting_for s u \<and> replies_of u (s_sent s') = replies_of u (s_sent s))"
proof -
  obtain x where x: "s_heap s v = Some x" "\<not> u_quitting x" using server_okD(7) [OF assms(1,2)] by blast
  have ns: "u_notifications x = ns" "u_agent x = a" using assms(3) x by (simp_all add: waiting_for_def)
  have "v \<noteq> Global" using server_okD(3) [OF assms(1)] assms(2) by blast
  with x ns assms(4) show ?thesis
    by (cases ns) (auto simp: get_result_def formats_def Let_def waiting_for_def replies_of_send)
qed

lemma set_tl: "set (tl ns) \<subseteq> set ns"
  by (cases ns) auto

lemma get_results_flush:
  assumes "server_ok s" "set us \<subseteq> set (s_clients s)" "distinct us" "flushable s"
  shows "\<exists>s'. for_users get_result us s = Inr s' \<and>
    (\<forall>v a ns. waiting_for s v = Some (a, ns) \<longrightarrow>
       waiting_for s' v = Some (a, if v \<in> set us then tl ns else ns) \<and>
       replies_of v (s_sent s') = replies_of v (s_sent s) @
         (if v \<in> set us then map (\<lambda>sg. (sg_seq sg, \<not> q_partial (sg_query sg))) (take 1 ns) else []))"
  using assms
proof (induction us arbitrary: s)
  case (Cons v us)
  note D = server_okD [OF Cons.prems(1)]
  have v: "v \<in> set (s_clients s)" using Cons.prems(2) by simp
  obtain a ns where w: "waiting_for s v = Some (a, ns)" using D(7) [OF v] by (auto simp: waiting_for_def)
  have "\<forall>sg\<in>set ns. formats a sg" using Cons.prems(4) v w by (auto simp: flushable_def)
  from get_result_flush [OF Cons.prems(1) v w this] obtain s1 where s1: "get_result v s = Inr s1"
      "waiting_for s1 v = Some (a, tl ns)"
      "replies_of v (s_sent s1) = replies_of v (s_sent s) @ map (\<lambda>sg. (sg_seq sg, \<not> q_partial (sg_query sg))) (take 1 ns)"
      "\<And>u. u \<noteq> v \<Longrightarrow> waiting_for s1 u = waiting_for s u \<and> replies_of u (s_sent s1) = replies_of u (s_sent s)"
    by blast
  have ok1: "server_ok s1" "s_clients s1 = s_clients s" using get_result_ok [OF Cons.prems(1) v s1(1)] by simp_all
  have "\<forall>sg\<in>set ns'. formats a' sg" if "u \<in> set (s_clients s1)" "waiting_for s1 u = Some (a', ns')" for u a' ns'
    using that s1(2) s1(4) [of u] Cons.prems(4) w v ok1(2) set_tl [of ns] unfolding flushable_def
    by (cases "u = v") auto
  then have "flushable s1" by (simp add: flushable_def)
  from Cons.IH [OF ok1(1) _ _ this] Cons.prems(2,3) ok1(2) obtain s' where s': "for_users get_result us s1 = Inr s'"
      "\<And>u a ns. waiting_for s1 u = Some (a, ns) \<Longrightarrow>
       waiting_for s' u = Some (a, if u \<in> set us then tl ns else ns) \<and>
       replies_of u (s_sent s') = replies_of u (s_sent s1) @
         (if u \<in> set us then map (\<lambda>sg. (sg_seq sg, \<not> q_partial (sg_query sg))) (take 1 ns) else [])"
    by auto
  have "v \<notin> set us" using Cons.prems(3) by simp
  have "waiting_for s' u = Some (b, if u \<in> set (v # us) then tl ms else ms) \<and>
       replies_of u (s_sent s') = replies_of u (s_sent s) @
         (if u \<in> set (v # us) then map (\<lambda>sg. (sg_seq sg, \<not> q_partial (sg_query sg))) (take 1 ms) else [])"
    if "waiting_for s u = Some (b, ms)" for u b ms
  proof (cases "u = v")
    case True
    with that w s1(2,3) s'(2) [of v a "tl ns"] \<open>v \<notin> set us\<close> show ?thesis by simp
  next
    case False
    with that s1(4) [of u] s'(2) [of u b ms] show ?thesis by simp
  qed
  with s1(1) s'(1) show ?case by auto
qed simp

text \<open>Posting leaves the notifications and adds replies at most.\<close>

definition keeps_waiting :: "'d server \<Rightarrow> 'd server \<Rightarrow> bool" where
  "keeps_waiting s s' \<longleftrightarrow> waiting_for s' = waiting_for s \<and> set (s_sent s) \<subseteq> set (s_sent s')"

lemma Process_waiting:
  "DataFlush_Process pick v sg s = Inr s' \<Longrightarrow> sg_user sg = v \<Longrightarrow> keeps_waiting s s'"
  by (auto simp: DataFlush_Process_def DataThread_Post_def bind_res_Inr_iff user_of_Inr Let_def keeps_waiting_def
      waiting_for_def fun_eq_iff send_reply_def split: if_splits option.splits)

lemma get_pending_waiting:
  assumes ok: "server_ok s" and v: "v \<in> set (s_clients s)" and step: "get_pending pick v s = Inr s'"
  shows "keeps_waiting s s'"
proof -
  obtain x where x: "s_heap s v = Some x" "\<not> u_quitting x" using server_okD(7) [OF ok v] by blast
  show ?thesis
  proof (cases "u_pending x = [] \<or> u_locked x")
    case True
    with step x show ?thesis by (simp add: get_pending_def keeps_waiting_def)
  next
    case False
    then obtain sg ps where ps: "u_pending x = sg # ps" "\<not> u_locked x" by (cases "u_pending x") auto
    have sg: "sg_user sg = v" using server_okD(11) [OF ok x(1)] ps(1) by (simp add: pending_ok_def)
    from step x ps have "DataFlush_Process (pick v) v sg (put_user v (x\<lparr>u_locked := True\<rparr>) s) = Inr s'"
      by (simp add: get_pending_def)
    from Process_waiting [OF this sg] x show ?thesis
      by (auto simp: keeps_waiting_def waiting_for_def fun_eq_iff split: if_splits)
  qed
qed

lemma GetPending_waiting:
  assumes ok: "server_ok s" "s_running s" and step: "DataFlush_GetPending pick s = Inr s'"
  shows "keeps_waiting s s' \<and> s_clients s' = s_clients s"
proof -
  obtain g where g: "s_heap s Global = Some g" using server_okD(2) [OF ok(1)] by blast
  show ?thesis
  proof (cases "u_pending g")
    case Nil
    let ?P = "\<lambda>t. server_ok t \<and> s_clients t = s_clients s \<and> s_running t \<and> keeps_waiting s t"
    have "?P t'" if "?P t" "v \<in> set (s_clients s)" "get_pending pick v t = Inr t'" for v t t'
      using get_pending_ok [of t v pick] get_pending_waiting [of t v pick t'] that
      by (auto simp: keeps_waiting_def)
    then have "?P s'"
      by (rule for_users_ok [where P = ?P and U = "set (s_clients s)" and f = "get_pending pick" and us = "s_clients s" and s = s])
        (use step g Nil ok in \<open>auto simp: DataFlush_GetPending_def keeps_waiting_def\<close>)
    then show ?thesis by blast
  next
    case (Cons sg ps)
    have sg: "sg_user sg = Global" using server_okD(11) [OF ok(1) g] Cons by (simp add: pending_ok_def)
    from step g Cons have p: "DataFlush_Process (pick Global) Global sg s = Inr s'"
      by (simp add: DataFlush_GetPending_def)
    have "s_clients s' = s_clients s"
      using p by (auto simp: DataFlush_Process_def DataThread_Post_def bind_res_Inr_iff Let_def split: if_splits)
    with Process_waiting [OF p sg] show ?thesis by blast
  qed
qed

lemma round_flush:
  assumes ok: "server_ok s" "s_running s" "flushable s" and u: "u \<in> set (s_clients s)" "waiting_for s u = Some (a, sg # ns)"
  shows "\<exists>s'. DataFlush_round pick s = Inr s' \<and> server_ok s' \<and> s_running s' \<and> flushable s' \<and>
    s_clients s' = s_clients s \<and> waiting_for s' u = Some (a, ns) \<and>
    insert (sg_seq sg, \<not> q_partial (sg_query sg)) (set (replies_of u (s_sent s))) \<subseteq> set (replies_of u (s_sent s'))"
proof -
  from get_results_flush [OF ok(1) order.refl server_okD(6) [OF ok(1)] ok(3)] obtain s1 where
    s1: "DataFlush_GetResults s = Inr s1" and w1: "\<And>v a ns. waiting_for s v = Some (a, ns) \<Longrightarrow>
       waiting_for s1 v = Some (a, if v \<in> set (s_clients s) then tl ns else ns) \<and>
       replies_of v (s_sent s1) = replies_of v (s_sent s) @
         (if v \<in> set (s_clients s) then map (\<lambda>sg. (sg_seq sg, \<not> q_partial (sg_query sg))) (take 1 ns) else [])"
    by (auto simp: DataFlush_GetResults_def)
  let ?P = "\<lambda>t. server_ok t \<and> s_clients t = s_clients s \<and> s_running t"
  have "?P t'" if "?P t" "v \<in> set (s_clients s)" "get_result v t = Inr t'" for v t t'
    using get_result_ok [of t v t'] that by simp
  then have ok1: "?P s1"
    by (rule for_users_ok [where P = ?P and U = "set (s_clients s)" and f = get_result and us = "s_clients s" and s = s])
      (use ok s1 in \<open>simp_all add: DataFlush_GetResults_def\<close>)
  from GetPending_ok [of s1 pick] ok1 obtain s' where s': "DataFlush_GetPending pick s1 = Inr s'" "server_ok s'" "s_running s'"
    by blast
  from GetPending_waiting [OF _ _ s'(1)] ok1 have k: "keeps_waiting s1 s'" "s_clients s' = s_clients s" by simp_all
  have "\<forall>r\<in>set ms. formats b r" if "v \<in> set (s_clients s')" "waiting_for s' v = Some (b, ms)" for v b ms
  proof -
    have v: "v \<in> set (s_clients s)" using that(1) k(2) by simp
    obtain c ks where ks: "waiting_for s v = Some (c, ks)"
      using server_okD(7) [OF ok(1) v] by (auto simp: waiting_for_def)
    with w1 [OF ks] v k(1) that(2) have "b = c" "ms = tl ks" by (simp_all add: keeps_waiting_def)
    moreover have "\<forall>r\<in>set ks. formats c r" using ok(3) v ks by (simp add: flushable_def)
    ultimately show ?thesis by (cases ks) auto
  qed
  then have "flushable s'" by (simp add: flushable_def)
  moreover have "set (replies_of u (s_sent s1)) \<subseteq> set (replies_of u (s_sent s'))"
    using k(1) by (auto simp: keeps_waiting_def replies_of_def intro!: image_eqI)
  ultimately show ?thesis
    using s1 s' k w1 [OF u(2)] u(1) ok(2) by (auto simp: DataFlush_round_def keeps_waiting_def)
qed

lemma rounds_flush:
  "server_ok s \<Longrightarrow> s_running s \<Longrightarrow> flushable s \<Longrightarrow> u \<in> set (s_clients s) \<Longrightarrow> waiting_for s u = Some (a, ns) \<Longrightarrow>
   \<exists>s'. rounds pick (length ns) s = Inr s' \<and>
     set (replies_of u (s_sent s)) \<union> (\<lambda>sg. (sg_seq sg, \<not> q_partial (sg_query sg))) ` set ns \<subseteq> set (replies_of u (s_sent s'))"
proof (induction ns arbitrary: s)
  case (Cons sg ns)
  from round_flush [OF Cons.prems, of "pick (length ns)"] obtain s1 where s1: "DataFlush_round (pick (length ns)) s = Inr s1"
    "server_ok s1" "s_running s1" "flushable s1" "s_clients s1 = s_clients s" "waiting_for s1 u = Some (a, ns)"
    "insert (sg_seq sg, \<not> q_partial (sg_query sg)) (set (replies_of u (s_sent s))) \<subseteq> set (replies_of u (s_sent s1))"
    by blast
  from Cons.IH [OF s1(2-4) _ s1(6)] Cons.prems(4) s1(5) obtain s' where "rounds pick (length ns) s1 = Inr s'"
    "set (replies_of u (s_sent s1)) \<union> (\<lambda>sg. (sg_seq sg, \<not> q_partial (sg_query sg))) ` set ns \<subseteq> set (replies_of u (s_sent s'))"
    by auto
  with s1(1,7) show ?case by auto
qed simp

section \<open>Properties\<close>

text \<open>
  C3: In every reachable state, at most one query of a connected user is with the data threads or
  answered and not yet sent, and the user is locked whenever there is one, or a page of one, under
  way.
\<close>

theorem one_query_under_way:
  assumes "reachable R s" "u \<in> set (s_clients s)" "s_heap s u = Some x"
  shows "length (filter (\<lambda>sg. sg_user sg = u) (in_threads (s_threads s))) +
      length (filter (\<lambda>sg. \<not> q_partial (sg_query sg)) (u_notifications x)) \<le> 1 \<and>
    (u_locked x \<or> filter (\<lambda>sg. sg_user sg = u) (in_threads (s_threads s)) = [] \<and> u_notifications x = [])"
proof -
  note D = server_okD [OF reachable_ok [OF assms(1)]]
  have "u \<noteq> Global" using D(3) assms(2) by blast
  from D(12) [OF this assms(3)] show ?thesis by (auto simp: client_ok_def seqs_def finals_def)
qed

text \<open>
  C2: In every reachable state of the server, whatever the interleaving of clients, main loop and
  data threads, the replies sent to a user follow the order in which its commands were pushed: of
  two replies the later one is to a later command, or both are to the same command and the earlier
  one was a page. So no command is answered twice and none is answered after a later one.
\<close>

theorem replies_in_order:
  assumes "reachable R s" "i < j" "j < length (replies_of u (s_sent s))"
  shows "fst (replies_of u (s_sent s) ! i) < fst (replies_of u (s_sent s) ! j) \<or>
    fst (replies_of u (s_sent s) ! i) = fst (replies_of u (s_sent s) ! j) \<and> \<not> snd (replies_of u (s_sent s) ! i)"
  using server_okD(13) [OF reachable_ok [OF assms(1)], of u] assms(2,3)
  by (auto simp: in_order_def before_def dest: sorted_wrt_nth_less)

text \<open>
  C4: A query that a thread has prepared for a connected client, and that was not interrupted, is
  answered: attaching it and running one round of the main loop for each notification of the
  client sends its last reply, when every reply that waits can be formatted.
\<close>

theorem prepared_query_answered:
  assumes "reachable R s" "s_running s" "i < length (s_threads s)" "t_phase (s_threads s ! i) = Prepared sg"
    and "sg_user sg \<in> set (s_clients s)" "s_heap s (sg_user sg) = Some x" "q_access (sg_query sg) \<noteq> DBL_INTERRUPT"
    and "flushable s" "formats (u_agent x) sg"
  shows "\<exists>s1 s'. thread_attach i s = Inr s1 \<and> rounds pick (length (u_notifications x) + 1) s1 = Inr s' \<and>
    (sg_seq sg, True) \<in> set (replies_of (sg_user sg) (s_sent s'))"
proof -
  note ok = reachable_ok [OF assms(1)]
  have "sg_user sg \<noteq> Global" using server_okD(3) [OF ok] assms(5) by metis
  moreover have "signal_ok sg"
    by (rule thread_work_ok(1) [OF ok assms(3)]) (simp add: work_def assms(4))
  ultimately have sg: "q_flags (sg_query sg) \<notin> {QUERY_FLAGS_QUIET, QUERY_FLAGS_GLOBAL}" "\<not> q_partial (sg_query sg)"
    by (auto simp: signal_ok_def)
  let ?x = "x\<lparr>u_notifications := u_notifications x @ [sg]\<rparr>"
  let ?s = "put_user (sg_user sg) ?x (set_thread i ((s_threads s ! i)\<lparr>t_phase := Waiting\<rparr>) s)"
  have s1: "thread_attach i s = Inr ?s"
    using assms(4,6,7) sg by (simp add: thread_attach_def DataFlush_AttachResult_def Let_def)
  have "waiting_for ?s v = Some (a, ns) \<Longrightarrow> v \<in> set (s_clients s) \<Longrightarrow> r \<in> set ns \<Longrightarrow> formats a r" for v a ns r
    using assms(6,8,9) unfolding flushable_def by (auto simp: waiting_for_def split: if_splits)
  then have "flushable ?s" by (simp add: flushable_def)
  from rounds_flush [OF attach_ok(1) [OF ok assms(3) s1] _ this, of "sg_user sg" "u_agent x" "u_notifications x @ [sg]" pick]
  show ?thesis using s1 assms(2,5) sg(2) by (auto simp: waiting_for_def)
qed

text \<open>
  C35: A query that ends interrupted is not answered and its user is never unlocked: in every
  later state the user is still locked and no command of it has got its last reply since.
\<close>

theorem interrupted_locks_user:
  assumes "reachable R s" "i < length (s_threads s)" "t_phase (s_threads s ! i) = Prepared sg"
    and "sg_user sg \<noteq> Global" "q_access (sg_query sg) = DBL_INTERRUPT"
    and "thread_attach i s = Inr s1" "(server_step R)\<^sup>*\<^sup>* s1 s'"
  shows "(\<exists>x. s_heap s' (sg_user sg) = Some x \<and> u_locked x) \<and>
    filter snd (replies_of (sg_user sg) (s_sent s')) = filter snd (replies_of (sg_user sg) (s_sent s))"
proof -
  note ok = reachable_ok [OF assms(1)]
  have old: "work (s_threads s ! i) = sg # t_queue (s_threads s ! i)" by (simp add: work_def assms(3))
  then obtain x where x: "s_heap s (sg_user sg) = Some x" using thread_work_ok(2) [OF ok assms(2), of sg] by auto
  have "signal_ok sg" by (rule thread_work_ok(1) [OF ok assms(2)]) (simp add: old)
  then have flags: "q_flags (sg_query sg) \<notin> {QUERY_FLAGS_QUIET, QUERY_FLAGS_GLOBAL}"
    using assms(4) by (simp add: signal_ok_def)
  have s1: "s1 = set_thread i ((s_threads s ! i)\<lparr>t_phase := Waiting\<rparr>) s"
    using assms(3,5,6) flags by (simp add: thread_attach_def Let_def)
  have c: "client_ok (s_count s) (replies_of (sg_user sg) (s_sent s)) [sg_seq sg] x"
    using server_okD(12) [OF ok assms(4) x] seqs_hand [OF ok assms(2) old assms(4) x] by simp
  have "seqs (sg_user sg) (in_threads (s_threads s1)) = []"
    using seqs_hand [OF ok assms(2) old assms(4) x] in_threads_split [OF assms(2) refl] old
      in_threads_update [OF assms(2), of "(s_threads s ! i)\<lparr>t_phase := Waiting\<rparr>"]
    by (auto simp: s1 work_def seqs_def append_eq_Cons_conv)
  then have "stuck (sg_user sg) s1"
    using x c by (auto simp: stuck_def s1 client_ok_def)
  with steps_stuck [OF assms(7) attach_ok(1) [OF ok assms(2,6)] assms(4)]
  show ?thesis by (auto simp: stays_stuck_def stuck_def final_replies_def s1)
qed

text \<open>No step takes a user out of \<open>AwaitingExit\<close>.\<close>

lemma main_awaiting:
  "get_result v s = Inr s' \<Longrightarrow> s_awaiting s' = s_awaiting s"
  "DataFlush_Process k v sg s = Inr s' \<Longrightarrow> s_awaiting s' = s_awaiting s"
  "get_pending pick v s = Inr s' \<Longrightarrow> s_awaiting s' = s_awaiting s"
proof -
  show "get_result v s = Inr s' \<Longrightarrow> s_awaiting s' = s_awaiting s"
    by (auto simp: get_result_def bind_res_Inr_iff Let_def split: if_splits)
  show process: "DataFlush_Process k v sg s = Inr s' \<Longrightarrow> s_awaiting s' = s_awaiting s" for k sg s
    by (auto simp: DataFlush_Process_def DataThread_Post_def bind_res_Inr_iff Let_def split: if_splits)
  show "get_pending pick v s = Inr s' \<Longrightarrow> s_awaiting s' = s_awaiting s"
    by (auto simp: get_pending_def bind_res_Inr_iff dest!: process split: if_splits)
qed

lemma for_users_awaiting:
  assumes "\<And>v t t'. f v t = Inr t' \<Longrightarrow> s_awaiting t' = s_awaiting t" "for_users f us s = Inr s'"
  shows "s_awaiting s' = s_awaiting s"
  by (rule for_users_ok [where P = "\<lambda>t. s_awaiting t = s_awaiting s" and U = UNIV and f = f and us = us and s = s])
    (use assms in auto)

lemma round_awaiting: "DataFlush_round pick s = Inr s' \<Longrightarrow> s_awaiting s' = s_awaiting s"
  by (auto simp: DataFlush_round_def DataFlush_GetResults_def DataFlush_GetPending_def bind_res_Inr_iff main_awaiting
      dest!: for_users_awaiting [where f = get_result, rotated] for_users_awaiting [where f = "get_pending pick", rotated]
      split: if_splits)

lemma push_awaiting: "numbered_push sg s = Inr s' \<Longrightarrow> s_awaiting s' = s_awaiting s"
  by (auto simp: numbered_push_def StoreManager_Push_def bind_res_Inr_iff split: if_splits)

lemma push_all_awaiting: "push_all sgs s = Inr s' \<Longrightarrow> s_awaiting s' = s_awaiting s"
  by (induction sgs arbitrary: s) (auto simp: bind_res_Inr_iff dest!: push_awaiting)

lemma attach_all_awaiting: "attach_all ps s = Inr s' \<Longrightarrow> s_awaiting s' = s_awaiting s"
  by (induction ps arbitrary: s) (auto simp: bind_res_Inr_iff DataFlush_AttachResult_def)

lemma thread_awaiting:
  "s_awaiting (thread_take i s) = s_awaiting s"
  "thread_prepare R i stops s = Inr s' \<Longrightarrow> s_awaiting s' = s_awaiting s"
  "thread_attach i s = Inr s' \<Longrightarrow> s_awaiting s' = s_awaiting s"
  by (auto simp: thread_take_def thread_prepare_def thread_attach_def Let_def bind_res_Inr_iff DataFlush_AttachGlobal_def
      DataFlush_AttachResult_def dest!: attach_all_awaiting split: if_splits phase.splits)

lemma step_awaiting:
  assumes "server_step R s s'" "server_ok s"
  shows "set (s_awaiting s) \<subseteq> set (s_awaiting s')"
  using assms
proof (induction rule: server_step.induct)
  case (exits s s')
  then show ?case using force_exits_total [of s] by simp
qed (auto simp: round_awaiting push_awaiting thread_awaiting ClientManager_AddUser_def ClientManager_Disconnect_def
      ReducerHandler_Apply_def DataFlush_ResetAll_def set_closing_def Let_def bind_res_Inr_iff
      dest!: push_all_awaiting split: if_splits)

text \<open>
  A user that leaves while one of its queries is under way waits in AwaitingExit for ever: in
  every later state it is still there, locked, and its object has not been freed.
\<close>

theorem quitting_user_leaks:
  assumes "reachable R s" "u \<in> set (s_awaiting s)" "(server_step R)\<^sup>*\<^sup>* s s'"
  shows "u \<in> set (s_awaiting s') \<and> (\<exists>x. s_heap s' u = Some x \<and> u_quitting x \<and> u_locked x)"
proof -
  from assms(3) have "server_ok s' \<and> u \<in> set (s_awaiting s')"
  proof induction
    case (step s1 s2)
    with step_ok [OF step.hyps(2)] step_awaiting [OF step.hyps(2)] show ?case by blast
  qed (use reachable_ok [OF assms(1)] assms(2) in simp)
  with server_okD(8) [of s' u] show ?thesis by blast
qed

section \<open>A session\<close>

text \<open>
  One client, one thread, a \<open>KEYS\<close> of the mask \<open>z\<close>: the inputs of the witnesses.  The world is a
  parameter: a store with no entry, or one whose scan is interrupted.
\<close>

definition demo_signal :: "table signal" where
  "demo_signal = \<lparr>sg_query = keys_query ((ask ''z'' [])\<lparr>q_limit := - 1, q_user := 1\<rparr>),
     sg_run = keys_query_Run new_query table_rocks, sg_process = keys_query_Process,
     sg_page_process = keys_query_Process, sg_seq = 0\<rparr>"

abbreviation demo_user :: "bool \<Rightarrow> table signal list \<Rightarrow> table user" where
  "demo_user locked pending \<equiv> \<lparr>u_agent = ''api'', u_quitting = False, u_locked = locked, u_pending = pending, u_notifications = []\<rparr>"

abbreviation demo_thread :: "bool \<Rightarrow> table signal list \<Rightarrow> table phase \<Rightarrow> table data_thread" where
  "demo_thread busy q ph \<equiv> \<lparr>t_busy = busy, t_queue = q, t_phase = ph\<rparr>"

definition demo :: "table world \<Rightarrow> table user \<Rightarrow> table data_thread \<Rightarrow> nat \<Rightarrow> table server" where
  "demo w x t n = \<lparr>s_heap = [Global \<mapsto> new_user [], 1 \<mapsto> x], s_clients = [1], s_awaiting = [], s_reducer = [],
     s_threads = [t], s_running = True, s_world = w, s_sent = [], s_count = n\<rparr>"

lemma reachable_start: "0 < n \<Longrightarrow> reachable R (server_start n w)"
  by (auto simp: reachable_def)

lemma reachable_step: "reachable R s \<Longrightarrow> server_step R s s' \<Longrightarrow> reachable R s'"
  by (meson reachable_def rtranclp.rtrancl_into_rtrancl)

lemma one_step: "server_step R s s' \<Longrightarrow> (server_step R)\<^sup>*\<^sup>* s s'"
  by blast

lemma demo_signal_fields [simp]:
  "sg_seq demo_signal = 0" "sg_user demo_signal = 1" "\<not> q_partial (sg_query demo_signal)"
  "q_flags (sg_query demo_signal) = QUERY_FLAGS_NONE" "sg_seq_update (\<lambda>_. 0) demo_signal = demo_signal"
  "sg_run demo_signal = keys_query_Run new_query table_rocks" "sg_process demo_signal = keys_query_Process"
  "q_access (sg_query demo_signal) = DBL_NONE"
  by (simp_all add: demo_signal_def keys_query_def ask_def new_query_def)

lemma demo_connected: "reachable R (demo w (demo_user False []) (demo_thread False [] Waiting) 0)"
proof -
  have "ClientManager_AddUser 1 0 ''api'' (server_start 1 w) = demo w (demo_user False []) (demo_thread False [] Waiting) 0"
    by (simp add: ClientManager_AddUser_def server_start_def put_user_def demo_def new_user_def)
  with reachable_step [OF reachable_start [of 1 R w] connected [of "server_start 1 w" 1 R 0 "''api''"]] show ?thesis
    by (simp add: server_start_def Global_def)
qed

lemma demo_push:
  assumes "reachable table_rocks s" "1 \<in> set (s_clients s)" "numbered_push demo_signal s = Inr s'"
  shows "reachable table_rocks s'"
proof (rule reachable_step [OF assms(1) command])
  show "(keys_query, keys_query_Run new_query table_rocks) \<in> set (commands table_rocks) \<or>
      (keys_query, keys_query_Run new_query table_rocks) \<in> set (scans table_rocks)"
    by (simp add: scans_def)
  show "sg_query demo_signal = keys_query ((ask ''z'' [])\<lparr>q_limit := - 1, q_user := 1\<rparr>)"
    by (simp add: demo_signal_def)
  show "numbered_push demo_signal s = Inr s'" by (rule assms(3))
qed (use assms(2) in simp_all)

lemma demo_pushed: "reachable table_rocks (demo w (demo_user False [demo_signal]) (demo_thread False [] Waiting) 1)"
  by (rule demo_push [OF demo_connected [of table_rocks w]])
    (simp_all add: demo_def numbered_push_def StoreManager_Push_def user_of_def put_user_def)

lemma demo_posted:
  assumes "\<not> d_closing (w_dbs w 0)"
  shows "reachable table_rocks (demo w (demo_user True []) (demo_thread False [demo_signal] Waiting) 1)"
proof -
  have "q_database (sg_query demo_signal) = 0" by (simp add: demo_signal_def keys_query_def)
  with assms have "DataFlush_round (\<lambda>_. 0) (demo w (demo_user False [demo_signal]) (demo_thread False [] Waiting) 1) =
      Inr (demo w (demo_user True []) (demo_thread False [demo_signal] Waiting) 1)"
    by (simp add: DataFlush_round_def DataFlush_GetResults_def DataFlush_GetPending_def demo_def get_result_def
        get_pending_def user_of_def put_user_def DataFlush_Process_def DataThread_Post_def Let_def new_user_def Global_def fun_eq_iff)
  from reachable_step [OF demo_pushed main_round [OF this]] show ?thesis .
qed

lemma demo_taken:
  assumes "\<not> d_closing (w_dbs w 0)"
  shows "reachable table_rocks (demo w (demo_user True []) (demo_thread True [] (Taken demo_signal)) 1)"
proof -
  have "thread_take 0 (demo w (demo_user True []) (demo_thread False [demo_signal] Waiting) 1) =
      demo w (demo_user True []) (demo_thread True [] (Taken demo_signal)) 1"
    by (simp add: thread_take_def demo_def set_thread_def)
  with reachable_step [OF demo_posted [OF assms] taken [of 0]] show ?thesis by (simp add: demo_def)
qed

text \<open>The scan of a store with no entry, and the interrupted scan of a store with one.\<close>

definition demo_result :: "table signal" where
  "demo_result = demo_signal\<lparr>sg_query := fst (snd (projr (Prepare table_rocks (sg_run demo_signal) (sg_query demo_signal) (world_of [] []))))\<rparr>"

definition demo_interrupt :: "table signal" where
  "demo_interrupt = demo_signal\<lparr>sg_query := fst (snd (projr (Prepare table_rocks (sg_run demo_signal) (sg_query demo_signal)
     ((one_world INT_KEY [])\<lparr>w_interrupts := [True]\<rparr>))))\<rparr>"

lemma demo_Prepare:
  "Prepare table_rocks (sg_run demo_signal) (sg_query demo_signal) (world_of [] []) =
     Inr (True, sg_query demo_result, world_of [] [])" (is ?a)
  "q_access (sg_query demo_result) = DBL_STATUS_OK" (is ?b)
  "formats ''api'' demo_result" (is ?c)
  "Prepare table_rocks (sg_run demo_signal) (sg_query demo_signal) ((one_world INT_KEY [])\<lparr>w_interrupts := [True]\<rparr>) =
     Inr (True, sg_query demo_interrupt, one_world INT_KEY [])" (is ?d)
  "q_access (sg_query demo_interrupt) = DBL_INTERRUPT" (is ?e)
proof -
  let ?q = "access_set DBL_STATUS_OK (sg_query demo_signal)"
  note evals = Prepare_def Check_def CheckKey_def run_then_def keys_query_Run_def run_pages_def demo_signal_def keys_query_def
    ask_def new_query_def table_rocks_def attach_pages_def page_start_def last_page_def world_of_def
  show ?a ?b ?c
    unfolding demo_result_def
    by (simp_all add: evals formats_def CheckFlush_def keys_query_Process_def VectorFlush_def Let_def)
  show ?d ?e
    unfolding demo_interrupt_def
    by (simp_all add: evals CheckIterator_def one_entry_def map_insert_def erase_key_def)
qed

lemma demo_result_fields [simp]:
  "sg_user demo_result = 1" "sg_seq demo_result = 0" "\<not> q_partial (sg_query demo_result)"
  "sg_user demo_interrupt = 1" "sg_seq demo_interrupt = 0"
proof -
  have frame: "frame_run (sg_run demo_signal)"
    using all_frame_run [of keys_query "keys_query_Run new_query table_rocks" table_rocks] by (simp add: scans_def)
  show "sg_user demo_result = 1" "\<not> q_partial (sg_query demo_result)"
    using Prepare_frame [OF frame demo_Prepare(1)] by (auto simp: same_client_def)
  show "sg_user demo_interrupt = 1"
    using Prepare_frame [OF frame demo_Prepare(4)] by (auto simp: same_client_def)
qed (simp_all add: demo_result_def demo_interrupt_def)

lemma demo_update:
  "demo_signal\<lparr>sg_query := sg_query demo_result\<rparr> = demo_result"
  "demo_signal\<lparr>sg_query := sg_query demo_interrupt\<rparr> = demo_interrupt"
  by (simp_all add: demo_result_def demo_interrupt_def)

text \<open>The session after \<open>Prepare\<close>, in the two cases.\<close>

abbreviation demo_prepared :: "table server" where
  "demo_prepared \<equiv> demo (world_of [] []) (demo_user True []) (demo_thread False [] (Prepared demo_result)) 1"

abbreviation demo_stopped :: "table server" where
  "demo_stopped \<equiv> demo (one_world INT_KEY []) (demo_user True []) (demo_thread False [] (Prepared demo_interrupt)) 1"

lemma demo_prepared: "reachable table_rocks demo_prepared"
proof -
  have "thread_prepare table_rocks 0 [] (demo (world_of [] []) (demo_user True []) (demo_thread True [] (Taken demo_signal)) 1) =
      Inr demo_prepared"
    using demo_Prepare(1) by (simp add: thread_prepare_def demo_def set_thread_def demo_update world_of_def)
  from reachable_step [OF demo_taken prepared [OF _ this]] show ?thesis by (simp add: demo_def)
qed

lemma demo_stopped: "reachable table_rocks demo_stopped"
proof -
  have "thread_prepare table_rocks 0 [True] (demo (one_world INT_KEY []) (demo_user True []) (demo_thread True [] (Taken demo_signal)) 1) =
      Inr demo_stopped"
    using demo_Prepare(4) by (simp add: thread_prepare_def demo_def set_thread_def demo_update world_of_def)
  from reachable_step [OF demo_taken prepared [OF _ this]] show ?thesis by (simp add: demo_def)
qed

lemma main_loop_faults_witness:
  "ClientManager_ForceExits demo_prepared = Inr demo_prepared \<and> (\<exists>s'. DataFlush_GetPending (\<lambda>_. 0) demo_prepared = Inr s') \<and>
   (\<exists>s'. DataFlush_ResetAll table_rocks demo_prepared = Inr s') \<and> (\<exists>s'. ClientManager_Disconnect False 1 demo_prepared = Inr s')"
  using main_loop_faults [OF demo_prepared, of "\<lambda>_. 0" False] by (simp add: demo_def)

lemma one_query_witness:
  "length (filter (\<lambda>sg. sg_user sg = 1) (in_threads (s_threads demo_prepared))) = 1 \<and> u_locked (demo_user True [])"
  using one_query_under_way [OF demo_prepared, of 1 "demo_user True []"] by (simp add: demo_def in_threads_def work_def)

lemma prepared_query_witness:
  "\<exists>s1 s'. thread_attach 0 demo_prepared = Inr s1 \<and> rounds (\<lambda>_ _. 0) 1 s1 = Inr s' \<and> (0, True) \<in> set (replies_of 1 (s_sent s'))"
  using prepared_query_answered [OF demo_prepared, of 0 demo_result "demo_user True []" "\<lambda>_ _. 0"] demo_Prepare(2,3)
  by (simp add: demo_def flushable_def waiting_for_def)

lemma interrupted_witness:
  "\<exists>s1 s'. thread_attach 0 demo_stopped = Inr s1 \<and> DataFlush_ResetAll table_rocks s1 = Inr s' \<and>
     (\<exists>x. s_heap s' 1 = Some x \<and> u_locked x) \<and> filter snd (replies_of 1 (s_sent s')) = []"
proof -
  let ?s1 = "demo (one_world INT_KEY []) (demo_user True []) (demo_thread False [] Waiting) 1"
  have "q_flags (sg_query demo_interrupt) = QUERY_FLAGS_NONE"
    using Prepare_frame [OF _ demo_Prepare(4)] all_frame_run [of keys_query "keys_query_Run new_query table_rocks" table_rocks]
    by (auto simp: same_client_def scans_def)
  then have s1: "thread_attach 0 demo_stopped = Inr ?s1"
    using demo_Prepare(5) by (simp add: thread_attach_def demo_def set_thread_def)
  from reachable_step [OF demo_stopped attached [OF _ s1]] have "reachable table_rocks ?s1" by (simp add: demo_def)
  from reset_total [OF reachable_ok [OF this], of table_rocks] obtain s' where s': "DataFlush_ResetAll table_rocks ?s1 = Inr s'"
    by blast
  from interrupted_locks_user [OF demo_stopped _ _ _ demo_Prepare(5) s1 one_step [OF reset [OF s']]] s1 s'
  show ?thesis by (simp add: demo_def replies_of_def Global_def)
qed

text \<open>The client leaves while the thread has its query.\<close>

definition demo_left :: "table server" where
  "demo_left = (demo (world_of [] []) (demo_user True [] \<lparr>u_quitting := True\<rparr>) (demo_thread True [] (Taken demo_signal)) 1)
     \<lparr>s_clients := [], s_awaiting := [1]\<rparr>"

lemma demo_left: "reachable table_rocks demo_left"
proof -
  have "ClientManager_Disconnect False 1 (demo (world_of [] []) (demo_user True []) (demo_thread True [] (Taken demo_signal)) 1) = Inr demo_left"
    by (simp add: ClientManager_Disconnect_def demo_def demo_left_def user_of_def put_user_def Global_def)
  from reachable_step [OF demo_taken disconnected [OF _ this]] show ?thesis by (simp add: demo_def)
qed

lemma quitting_user_witness:
  "1 \<in> set (s_awaiting (thread_take 0 demo_left)) \<and> (\<exists>x. s_heap (thread_take 0 demo_left) 1 = Some x \<and> u_quitting x \<and> u_locked x)"
proof -
  have "server_step table_rocks demo_left (thread_take 0 demo_left)"
    by (rule taken) (simp add: demo_left_def demo_def)
  from quitting_user_leaks [OF demo_left _ one_step [OF this], of 1] show ?thesis
    by (simp add: demo_left_def)
qed

text \<open>Two commands at a database that is closing: two replies.\<close>

definition closed_world :: "table world" where
  "closed_world = (world_of [] [])\<lparr>w_dbs := (\<lambda>_. \<lparr>d_name = ''default'', d_closing = True, d_rocks = []\<rparr>)\<rparr>"

definition demo_refused :: "table signal list \<Rightarrow> nat \<Rightarrow> table server" where
  "demo_refused pending n = (demo closed_world (demo_user False pending) (demo_thread False [] Waiting) 2)
     \<lparr>s_sent := map (\<lambda>i. (1, i, True, [(ERR_INPUT, DB_NULL)])) [0..<n]\<rparr>"

abbreviation demo_second :: "table signal" where
  "demo_second \<equiv> demo_signal\<lparr>sg_seq := 1\<rparr>"

lemma demo_refused: "reachable table_rocks (demo_refused [] 2)"
proof -
  have "numbered_push demo_signal (demo closed_world (demo_user False [demo_signal]) (demo_thread False [] Waiting) 1) =
      Inr (demo_refused [demo_signal, demo_second] 0)"
    by (simp add: numbered_push_def StoreManager_Push_def demo_def user_of_def put_user_def demo_refused_def)
  from demo_push [OF demo_pushed _ this] have pushed: "reachable table_rocks (demo_refused [demo_signal, demo_second] 0)"
    by (simp add: demo_def)
  have refuse: "DataFlush_round (\<lambda>_. 0) (demo_refused (sg # sgs) n) = Inr (demo_refused sgs (n + 1))"
    if "sg_user sg = 1" "sg_seq sg = n" "\<not> q_partial (sg_query sg)" for sg sgs n
    using that
    by (simp add: DataFlush_round_def DataFlush_GetResults_def DataFlush_GetPending_def demo_def demo_refused_def closed_world_def
        get_result_def get_pending_def user_of_def put_user_def DataFlush_Process_def DataThread_Post_def Let_def new_user_def
        Global_def fun_eq_iff send_reply_def)
  from reachable_step [OF pushed main_round [OF refuse]]
  have "reachable table_rocks (demo_refused [demo_second] (0 + 1))" by simp
  from reachable_step [OF this main_round [OF refuse]] show ?thesis by (simp add: numeral_2_eq_2)
qed

lemma replies_in_order_witness:
  "replies_of 1 (s_sent (demo_refused [] 2)) = [(0, True), (1, True)] \<and>
   (fst (replies_of 1 (s_sent (demo_refused [] 2)) ! 0) < fst (replies_of 1 (s_sent (demo_refused [] 2)) ! 1))"
proof -
  have r: "replies_of 1 (s_sent (demo_refused [] 2)) = [(0, True), (1, True)]"
    by (simp add: demo_refused_def replies_of_def upt_rec)
  with replies_in_order [OF demo_refused, of 0 1 1] show ?thesis by simp
qed

end
