(* ===== verification/DiffQueries.thy ===== *)
theory DiffQueries
  imports ReplyFacts
begin

text \<open>
  \<open>DIFF\<close> (\<open>src/brldb/diff.cpp\<close>, \<open>diff_hints.cpp\<close>): the elements of the second container that the
  first one does not have, by type, paged like the other listings.
\<close>

section \<open>Comparing containers\<close>

definition DiffHandler_CompareList :: "string list \<Rightarrow> string list \<Rightarrow> string list" where
  "DiffHandler_CompareList list list2 = filter (\<lambda>item. item \<notin> set list2) list"

definition DiffHandler_CompareVector :: "string list \<Rightarrow> string list \<Rightarrow> string list" where
  "DiffHandler_CompareVector list list2 = filter (\<lambda>item. item \<notin> set list2) list"

text \<open>For the maps \<open>found\<close> is set by an entry whose key differs.\<close>

definition DiffHandler_CompareMultiMap :: "(string \<times> string) list \<Rightarrow> (string \<times> string) list \<Rightarrow> string list" where
  "DiffHandler_CompareMultiMap list list2 =
     map fst (filter (\<lambda>i. list_ex (\<lambda>i2. fst i2 \<noteq> fst i) list2) list)"

definition DiffHandler_CompareMap :: "(string \<times> string) list \<Rightarrow> (string \<times> string) list \<Rightarrow> string list" where
  "DiffHandler_CompareMap list list2 =
     map fst (filter (\<lambda>i. list_ex (\<lambda>i2. fst i2 \<noteq> fst i) list2) list)"

section \<open>The class\<close>

definition diff_query :: "query \<Rightarrow> query" where
  "diff_query q = q\<lparr>q_type := QUERY_TYPE_DIFF\<rparr>"

text \<open>The record of the key to compare with, read past the registry.\<close>

definition diff_lookup :: "'d rocks \<Rightarrow> query \<Rightarrow> 'd world \<Rightarrow> bool \<times> string" where
  "diff_lookup R q w =
     rget R (rocks_of (q_database q) w) (raw_key (q_value q) (q_select_query q) (q_identified q))"

text \<open>The loop over the differing elements; \<open>fresh\<close> is a new \<open>diff_query\<close>, whose key and type are not set.\<close>

definition diff_pages :: "query \<Rightarrow> string list \<Rightarrow> query \<Rightarrow> 'd world \<Rightarrow> query \<times> 'd world" where
  "diff_pages fresh flist q w =
     (case scan_pages (\<lambda>it. Some (fst it)) push_back (q_offset q) (q_limit q) (map (\<lambda>i. (i, [])) flist)
             page_start q w of
        (done, p, q1, w1) \<Rightarrow>
          (if done then last_page p q1 else q1,
           attach_pages (vec_request (diff_query fresh) (q_user q) (q_key fresh)) p w1))"

definition diff_query_Keys :: "'d rocks \<Rightarrow> query \<Rightarrow> 'd world \<Rightarrow> query \<times> 'd world" where
  "diff_query_Keys R q w =
     (let (ok, dbvalue) = diff_lookup R q w
      in if \<not> ok then (access_set DBL_NOT_FOUND q, w)
         else (q\<lparr>q_response := (if rd_value (Get R (q_dest q) q w) = dbvalue then ''0'' else ''1'')\<rparr>, w))"

definition diff_query_Geos :: "'d rocks \<Rightarrow> query \<Rightarrow> 'd world \<Rightarrow> query \<times> 'd world" where
  "diff_query_Geos R q w =
     (let (ok, dbvalue) = diff_lookup R q w
      in if \<not> ok then (access_set DBL_NOT_FOUND q, w)
         else (q\<lparr>q_response := (if rd_value (Get R (q_dest q) q w) = dbvalue then ''1'' else ''0'')\<rparr>, w))"

definition diff_query_Maps :: "query \<Rightarrow> 'd rocks \<Rightarrow> query \<Rightarrow> 'd world \<Rightarrow> query \<times> 'd world" where
  "diff_query_Maps fresh R q w =
     (let handler1 = MapHandler_Create (rd_value (Get R (q_dest q) q w));
          (ok, dbvalue) = diff_lookup R q w
      in if \<not> ok then (access_set DBL_NOT_FOUND q, w)
         else diff_pages fresh
                (DiffHandler_CompareMap (mh_mhandler (MapHandler_Create dbvalue)) (mh_mhandler handler1)) q w)"

definition diff_query_Multis :: "query \<Rightarrow> 'd rocks \<Rightarrow> query \<Rightarrow> 'd world \<Rightarrow> query \<times> 'd world" where
  "diff_query_Multis fresh R q w =
     (let handler1 = MultiMapHandler_Create (rd_value (Get R (q_dest q) q w));
          (ok, dbvalue) = diff_lookup R q w
      in if \<not> ok then (access_set DBL_NOT_FOUND q, w)
         else diff_pages fresh
                (DiffHandler_CompareMultiMap (mm_mhandler (MultiMapHandler_Create dbvalue)) (mm_mhandler handler1)) q w)"

definition diff_query_Vectors :: "query \<Rightarrow> 'd rocks \<Rightarrow> query \<Rightarrow> 'd world \<Rightarrow> query \<times> 'd world" where
  "diff_query_Vectors fresh R q w =
     (let handler1 = VectorHandler_Create (rd_value (Get R (q_dest q) q w));
          (ok, dbvalue) = diff_lookup R q w
      in if \<not> ok then (access_set DBL_NOT_FOUND q, w)
         else diff_pages fresh
                (DiffHandler_CompareVector (vh_mhandler (VectorHandler_Create dbvalue)) (vh_mhandler handler1)) q w)"

definition diff_query_Lists :: "query \<Rightarrow> 'd rocks \<Rightarrow> query \<Rightarrow> 'd world \<Rightarrow> query \<times> 'd world" where
  "diff_query_Lists fresh R q w =
     (let handler1 = ListHandler_Create (rd_value (Get R (q_dest q) q w));
          (ok, dbvalue) = diff_lookup R q w
      in if \<not> ok then (access_set DBL_NOT_FOUND q, w)
         else diff_pages fresh
                (DiffHandler_CompareList (lh_mhandler (ListHandler_Create dbvalue)) (lh_mhandler handler1)) q w)"

definition diff_query_Run :: "query \<Rightarrow> 'd rocks \<Rightarrow> 'd run" where
  "diff_query_Run fresh R q w =
     Inr (if q_identified q = INT_KEY then diff_query_Keys R q w
          else if q_identified q = INT_MAP then diff_query_Maps fresh R q w
          else if q_identified q = INT_MMAP then diff_query_Multis fresh R q w
          else if q_identified q = INT_GEO then diff_query_Geos R q w
          else if q_identified q = INT_LIST then diff_query_Lists fresh R q w
          else if q_identified q = INT_VECTOR then diff_query_Vectors fresh R q w
          else (q, w))"

definition BRLD_ITEM :: nat where "BRLD_ITEM = 196"

definition diff_query_Process :: "string \<Rightarrow> query \<Rightarrow> reply list res" where
  "diff_query_Process agent q =
     (if q_identified q = INT_LIST then VectorFlush agent False ''List'' q
      else if q_identified q = INT_VECTOR then VectorFlush agent False ''Vector'' q
      else if q_identified q = INT_MMAP \<or> q_identified q = INT_MAP then MMapFlush agent False ''Map'' ''Key'' q
      else if q_identified q = INT_KEY \<or> q_identified q = INT_GEO
        then Inr (JustAPI agent BRLD_START_LIST @ [(BRLD_ITEM, c_str (q_response q))] @ JustAPI agent BRLD_END_LIST)
      else Inr [])"

section \<open>What is compared\<close>

lemma Prepare_DIFF:
  assumes "rocks_ok R view" "ready q w" "\<forall>d. one_type (holds view d w)" "q_type q = QUERY_TYPE_DIFF"
    and "own_view view q w = Some (t, v)"
    and "view_of view q w (q_value q) (q_select_query q) = Some (t, v2)" "v2 \<noteq> []"
  shows "Prepare R run q w = run_then True run (found_as q t v) w"
proof -
  note G = GetRegistry_found [OF assms(1,5)]
  have "CheckDest R (q_select_query q) (q_value q) t None (found_as q t v) w = 1"
    using assms(6,7) by (simp add: CheckDest_def check_dest_view [OF assms(1) assms(3) [rule_format]])
  with G(2) have "Prepare_diff R run (access_set DBL_STATUS_OK q) w = run_then True run (found_as q t v) w"
    by (simp add: Prepare_diff_def G(1) Let_def)
  with assms(4) show ?thesis by (simp add: Prepare_def Prepare_ready [OF assms(2)])
qed

lemma diff_lookup_found:
  assumes "rocks_ok R view" "view_of view q w (q_value q) (q_select_query q) = Some (t, v2)"
  shows "diff_lookup R (found_as q t v) w = (True, v2)"
  using key_view_Some [OF assms(2)] rget_view [OF assms(1)]
  by (auto simp: diff_lookup_def found_as_def located_def)

lemma diff_pages_quiet:
  assumes "w_interrupts w = []" "\<not> d_closing (w_dbs w (q_database q))" "length xs < 2 ^ 31" "q_limit q = - 1"
  shows "\<exists>p n m. diff_pages fresh xs q w =
      (last_page p q, attach_pages (vec_request (diff_query fresh) (q_user q) (q_key fresh)) p w) \<and>
    page_data p = xs \<and> page_ok n m p"
proof -
  have "List.map_filter (\<lambda>it. Some (fst it)) (map (\<lambda>i. (i, [] :: string)) xs) = xs"
    by (induction xs) (simp_all add: List.map_filter_def)
  with scan_pages_quiet [OF assms(1,2), of "\<lambda>it. Some (fst it)" push_back "q_offset q" "q_limit q" "map (\<lambda>i. (i, [])) xs" page_start]
    page_items_slice [OF assms(3), of "- 1" "q_offset q"] assms(4)
  show ?thesis by (auto simp: diff_pages_def page_slice_def)
qed

section \<open>What the client receives\<close>

text \<open>A listing of which only the part after the full pages is sent.\<close>

lemma page_rest:
  assumes "page_ok n m p"
  shows "p_result p = drop (50 * (length (page_data p) div 50)) (page_data p)"
    "p_tracker p + 1 = of_nat (Suc (length (page_data p) div 50))" "length (page_data p) = m"
proof -
  have len: "length (concat (map snd (p_sent p))) = 50 * length (p_sent p)" "length (p_result p) < 50"
    using assms sum_list_const [of "p_sent p" 50] by (auto simp: page_ok_def length_concat comp_def)
  then have l: "length (page_data p) div 50 = length (p_sent p)" by (simp add: page_data_def)
  show "p_result p = drop (50 * (length (page_data p) div 50)) (page_data p)"
    unfolding l using len by (simp add: page_data_def)
  show "p_tracker p + 1 = of_nat (Suc (length (page_data p) div 50))" "length (page_data p) = m"
    unfolding l using assms by (simp_all add: page_ok_def)
qed

lemma diff_page_silent:
  "CheckFlush (diff_query_Process agent) (vec_request (diff_query new_query) u k s) = Inr []"
  by (simp add: CheckFlush_def diff_query_Process_def vec_request_def diff_query_def new_query_def INT_defs)

text \<open>The end of every container comparison.\<close>

lemma diff_listing:
  assumes "rocks_ok R view" "ready q w" "\<forall>d. one_type (holds view d w)" "w_interrupts w = []" "q_limit q = - 1"
    and "own_view view q w = Some (t, v)"
    and "view_of view q w (q_value q) (q_select_query q) = Some (t, v2)" "v2 \<noteq> []" "length xs < 2 ^ 31"
    and run: "diff_lookup R (found_as (diff_query q) t v) w = (True, v2) \<Longrightarrow>
      diff_query_Run new_query R (found_as (diff_query q) t v) w = Inr (diff_pages new_query xs (found_as (diff_query q) t v) w)"
  shows "\<exists>q' rs. Prepare R (diff_query_Run new_query R) (diff_query q) w = Inr (True, q', w\<lparr>w_results := w_results w @ rs\<rparr>) \<and>
    q_finished q' \<and> \<not> q_partial q' \<and> q_identified q' = t \<and> q_access q' = DBL_STATUS_OK \<and> q_mmap q' = q_mmap q \<and>
    (q_subresult q' = 1 \<longleftrightarrow> length xs < 50) \<and> concat (map q_VecData rs) @ q_VecData q' = xs \<and>
    q_VecData q' = drop (50 * (length xs div 50)) xs \<and>
    (\<forall>agent ls. CheckFlush (diff_query_Process agent) q' = Inr ls \<longrightarrow>
      (\<exists>lss. map_res (CheckFlush (diff_query_Process agent)) (rs @ [q']) = Inr lss \<and> concat lss = ls))"
proof -
  let ?q = "found_as (diff_query q) t v"
  have q: "ready (diff_query q) w" "q_type (diff_query q) = QUERY_TYPE_DIFF" "own_view view (diff_query q) w = Some (t, v)"
    "view_of view (diff_query q) w (q_value (diff_query q)) (q_select_query (diff_query q)) = Some (t, v2)"
    using assms(2,6,7) by (simp_all add: diff_query_def ready_def)
  note P = Prepare_DIFF [OF assms(1) q(1) assms(3) q(2-4) assms(8), where run = "diff_query_Run new_query R"]
  have "\<not> d_closing (w_dbs w (q_database ?q))" "q_limit ?q = - 1"
    using assms(2,5) by (simp_all add: ready_def found_as_def located_def diff_query_def)
  from diff_pages_quiet [OF assms(4) this(1) assms(9) this(2), of new_query] obtain p n m where
    p: "diff_pages new_query xs ?q w =
      (last_page p ?q, attach_pages (vec_request (diff_query new_query) (q_user ?q) (q_key new_query)) p w)"
    "page_data p = xs" "page_ok n m p" by blast
  note run = run [OF diff_lookup_found [OF assms(1) q(4)], unfolded p(1)]
  define q' where "q' = last_page p ?q"
  define rs where "rs = map (vec_request (diff_query new_query) (q_user ?q) (q_key new_query)) (p_sent p)"
  have q': "q_VecData q' = p_result p" "\<not> q_partial q'" "q_subresult q' = p_tracker p + 1" "q_finished q'"
    "q_identified q' = t" "q_access q' = DBL_STATUS_OK" "q_mmap q' = q_mmap q"
    by (simp_all add: q'_def last_page_def found_as_def located_def diff_query_def)
  have one: "q_subresult q' = 1 \<longleftrightarrow> length xs < 50"
  proof (cases "length xs < 50")
    case True
    then show ?thesis using page_rest(2) [OF p(3)] p(2) q'(3) by simp
  next
    case False
    then have "1 < Suc (length xs div 50)" "Suc (length xs div 50) < 2 ^ 32" using assms(9) by simp_all
    from of_nat_not_one [OF this] show ?thesis
      using page_rest(2) [OF p(3)] p(2) q'(3) False by simp
  qed
  have flush: "\<exists>lss. map_res (CheckFlush (diff_query_Process agent)) (rs @ [q']) = Inr lss \<and> concat lss = ls"
    if last: "CheckFlush (diff_query_Process agent) q' = Inr ls" for agent ls
  proof -
    have silent: "CheckFlush (diff_query_Process agent) r = Inr []" "r \<noteq> q'" if "r \<in> set rs" for r
      using that diff_page_silent q'(2) by (auto simp: rs_def vec_request_def)
    have "map_res (CheckFlush (diff_query_Process agent)) (rs @ [q']) = Inr (map (\<lambda>r. if r = q' then ls else []) (rs @ [q']))"
      by (rule map_res_all) (use silent last in auto)
    moreover have "concat (map (\<lambda>r. if r = q' then ls else []) (rs @ [q'])) = ls" using silent(2) by (induction rs) auto
    ultimately show ?thesis by blast
  qed
  have "concat (map q_VecData rs) = concat (map snd (p_sent p))" by (simp add: rs_def vec_request_def comp_def)
  then have "concat (map q_VecData rs) @ q_VecData q' = xs" using p(2) q'(1) by (simp add: page_data_def)
  moreover have "q_VecData q' = drop (50 * (length xs div 50)) xs" using page_rest(1) [OF p(3)] p(2) q'(1) by simp
  moreover have "Prepare R (diff_query_Run new_query R) (diff_query q) w = Inr (True, q', w\<lparr>w_results := w_results w @ rs\<rparr>)"
    using P run by (simp add: run_then_def attach_pages_def q'_def rs_def)
  ultimately show ?thesis using q' one flush by blast
qed

text \<open>
  DIFF of two lists that differ in fifty elements or more: its client receives only the
  elements after the last full page, and no line that starts the list, because the requests made
  for the pages carry no type.
\<close>

lemma diff_lists_reply:
  assumes "rocks_ok R view" "ready q w" "\<forall>d. one_type (holds view d w)" "w_interrupts w = []" "q_limit q = - 1"
    and "own_view view q w = Some (INT_LIST, v)"
    and "view_of view q w (q_value q) (q_select_query q) = Some (INT_LIST, v2)" "v2 \<noteq> []"
    and "xs = filter (\<lambda>x. x \<notin> set (list_text v)) (list_text v2)" "length (list_text v2) < 2 ^ 31"
    and "agent \<noteq> DEFAULT_EMERALD" "\<forall>x\<in>set xs. c_str x \<noteq> []"
  shows "\<exists>q' w' lss. Prepare R (diff_query_Run new_query R) (diff_query q) w = Inr (True, q', w') \<and>
    q_finished q' \<and> w_dbs w' = w_dbs w \<and> listed (length (w_results w)) q' w' = xs \<and>
    map_res (CheckFlush (diff_query_Process agent)) (drop (length (w_results w)) (w_results w') @ [q']) = Inr lss \<and>
    concat lss = (if length xs < 50 then [(BRLD_START_LIST, [])] else []) @
      items_lines False (drop (50 * (length xs div 50)) xs) @ [(BRLD_END_LIST, [])]"
proof -
  have "length xs \<le> length (list_text v2)" unfolding assms(9) by (rule length_filter_le)
  then have xs: "length xs < 2 ^ 31" using assms(10) by simp
  have run: "diff_query_Run new_query R (found_as (diff_query q) INT_LIST v) w =
      Inr (diff_pages new_query xs (found_as (diff_query q) INT_LIST v) w)"
    if "diff_lookup R (found_as (diff_query q) INT_LIST v) w = (True, v2)"
    using that assms(9)
    by (simp add: diff_query_Run_def diff_query_Lists_def INT_defs DiffHandler_CompareList_def list_text_def)
  from diff_listing [OF assms(1-8) xs run] obtain q' rs where
    P: "Prepare R (diff_query_Run new_query R) (diff_query q) w = Inr (True, q', w\<lparr>w_results := w_results w @ rs\<rparr>)"
    and q': "q_finished q'" "\<not> q_partial q'" "q_identified q' = INT_LIST" "q_access q' = DBL_STATUS_OK"
      "q_subresult q' = 1 \<longleftrightarrow> length xs < 50" "concat (map q_VecData rs) @ q_VecData q' = xs"
      "q_VecData q' = drop (50 * (length xs div 50)) xs"
    and flush: "\<And>agent ls. CheckFlush (diff_query_Process agent) q' = Inr ls \<Longrightarrow>
      \<exists>lss. map_res (CheckFlush (diff_query_Process agent)) (rs @ [q']) = Inr lss \<and> concat lss = ls"
    by blast
  have vis: "\<forall>i\<in>set (q_VecData q'). c_str (quoted False i) \<noteq> []"
    using assms(12) q'(7) by (auto simp: quoted_def dest: in_set_dropD)
  have "CheckFlush (diff_query_Process agent) q' = VectorFlush agent False ''List'' q'"
    using q'(3,4) by (simp add: CheckFlush_def diff_query_Process_def)
  also have "\<dots> = Inr ((if length xs < 50 then [(BRLD_START_LIST, [])] else []) @
      items_lines False (drop (50 * (length xs div 50)) xs) @ [(BRLD_END_LIST, [])])"
    using VectorFlush_api [OF assms(11) vis] q'(2,5,7) by simp
  finally obtain lss where "map_res (CheckFlush (diff_query_Process agent)) (rs @ [q']) = Inr lss"
    "concat lss = (if length xs < 50 then [(BRLD_START_LIST, [])] else []) @
      items_lines False (drop (50 * (length xs div 50)) xs) @ [(BRLD_END_LIST, [])]"
    using flush by blast
  with P q'(1,6) show ?thesis by (auto simp: listed_def)
qed

text \<open>
  The elements of the maps are collected in \<open>VecData\<close> and the reply is made of \<open>mmap\<close>, which is
  empty.
\<close>

lemma MMapFlush_empty:
  "q_mmap q = [] \<Longrightarrow> agent \<noteq> DEFAULT_EMERALD \<Longrightarrow> \<not> q_partial q \<Longrightarrow>
   MMapFlush agent c t1 t2 q = Inr ((if q_subresult q = 1 then [(BRLD_START_LIST, [])] else []) @ [(BRLD_END_LIST, [])])"
  by (simp add: MMapFlush_def JustAPI_def JustEmerald_def Let_def)

lemma set_CompareMap:
  "set (DiffHandler_CompareMap a b) = {k \<in> fst ` set a. \<exists>k1\<in>fst ` set b. k1 \<noteq> k}"
proof -
  have "k \<in> set (DiffHandler_CompareMap a b) \<longleftrightarrow> (\<exists>v. (k, v) \<in> set a \<and> (\<exists>i2\<in>set b. fst i2 \<noteq> k))" for k
    unfolding DiffHandler_CompareMap_def list_ex_iff set_map set_filter image_iff by (force simp del: split_paired_Ex)
  then show ?thesis by force
qed

lemma diff_maps_reply:
  assumes "rocks_ok R view" "ready q w" "\<forall>d. one_type (holds view d w)" "w_interrupts w = []" "q_limit q = - 1"
    and "own_view view q w = Some (INT_MAP, v)"
    and "view_of view q w (q_value q) (q_select_query q) = Some (INT_MAP, v2)" "v2 \<noteq> []"
    and "card (dom (map_text v2)) < 2 ^ 31" "q_mmap q = []" "agent \<noteq> DEFAULT_EMERALD"
  shows "\<exists>q' w' lss. Prepare R (diff_query_Run new_query R) (diff_query q) w = Inr (True, q', w') \<and>
    q_finished q' \<and> set (listed (length (w_results w)) q' w') =
      {k \<in> dom (map_text v2). \<exists>k1\<in>dom (map_text v). k1 \<noteq> k} \<and>
    map_res (CheckFlush (diff_query_Process agent)) (drop (length (w_results w)) (w_results w') @ [q']) = Inr lss \<and>
    concat lss \<in> {[(BRLD_START_LIST, []), (BRLD_END_LIST, [])], [(BRLD_END_LIST, [])]}"
proof -
  let ?h = "mh_mhandler (MapHandler_Create v)" and ?h2 = "mh_mhandler (MapHandler_Create v2)"
  define xs where "xs = DiffHandler_CompareMap ?h2 ?h"
  have keys: "fst ` set (mh_mhandler (MapHandler_Create u)) = dom (map_text u)" for u
    by (simp add: map_text_def map_view_def dom_map_of_conv_image_fst)
  have set: "set xs = {k \<in> dom (map_text v2). \<exists>k1\<in>dom (map_text v). k1 \<noteq> k}"
    unfolding xs_def set_CompareMap keys ..
  have "length xs \<le> length (map fst ?h2)" by (simp add: xs_def DiffHandler_CompareMap_def)
  also have "\<dots> = card (dom (map_text v2))" by (simp only: map_fields_sorted) simp
  finally have len: "length xs < 2 ^ 31" using assms(9) by simp
  have run: "diff_query_Run new_query R (found_as (diff_query q) INT_MAP v) w =
      Inr (diff_pages new_query xs (found_as (diff_query q) INT_MAP v) w)"
    if "diff_lookup R (found_as (diff_query q) INT_MAP v) w = (True, v2)"
    using that by (simp add: diff_query_Run_def diff_query_Maps_def INT_defs xs_def)
  from diff_listing [OF assms(1-8) len run] obtain q' rs where
    P: "Prepare R (diff_query_Run new_query R) (diff_query q) w = Inr (True, q', w\<lparr>w_results := w_results w @ rs\<rparr>)"
    and q': "q_finished q'" "\<not> q_partial q'" "q_identified q' = INT_MAP" "q_access q' = DBL_STATUS_OK" "q_mmap q' = q_mmap q"
      "concat (map q_VecData rs) @ q_VecData q' = xs"
    and flush: "\<And>agent ls. CheckFlush (diff_query_Process agent) q' = Inr ls \<Longrightarrow>
      \<exists>lss. map_res (CheckFlush (diff_query_Process agent)) (rs @ [q']) = Inr lss \<and> concat lss = ls"
    by blast
  have "CheckFlush (diff_query_Process agent) q' = MMapFlush agent False ''Map'' ''Key'' q'"
    using q'(3,4) by (simp add: CheckFlush_def diff_query_Process_def INT_defs)
  then have "CheckFlush (diff_query_Process agent) q' =
      Inr ((if q_subresult q' = 1 then [(BRLD_START_LIST, [])] else []) @ [(BRLD_END_LIST, [])])"
    using MMapFlush_empty [OF _ assms(11) q'(2)] q'(5) assms(10) by simp
  from flush [OF this] obtain lss where "map_res (CheckFlush (diff_query_Process agent)) (rs @ [q']) = Inr lss"
    "concat lss = (if q_subresult q' = 1 then [(BRLD_START_LIST, [])] else []) @ [(BRLD_END_LIST, [])]" by blast
  moreover have "listed (length (w_results w)) q' (w\<lparr>w_results := w_results w @ rs\<rparr>) = xs"
    using q'(6) by (simp add: listed_def)
  ultimately show ?thesis
    unfolding set [symmetric] using P q'(1) by (intro exI [of _ q'] exI [of _ "w\<lparr>w_results := w_results w @ rs\<rparr>"]) auto
qed

text \<open>Plain keys and geographical keys answer the same question the opposite way.\<close>

lemma diff_values_reply:
  assumes "rocks_ok R view" "ready q w" "\<forall>d. one_type (holds view d w)" "t = INT_KEY \<or> t = INT_GEO"
    and "own_view view q w = Some (t, v)"
    and "view_of view q w (q_value q) (q_select_query q) = Some (t, v2)" "v2 \<noteq> []"
  shows "\<exists>q'. Prepare R (diff_query_Run new_query R) (diff_query q) w = Inr (True, q', w) \<and>
    (\<not> q_finished q') \<and> CheckFlush (diff_query_Process agent) q' =
      Inr (JustAPI agent BRLD_START_LIST @ [(BRLD_ITEM, if (v = v2) = (t = INT_GEO) then ''1'' else ''0'')] @
        JustAPI agent BRLD_END_LIST)"
proof -
  let ?q = "found_as (diff_query q) t v"
  have q: "ready (diff_query q) w" "q_type (diff_query q) = QUERY_TYPE_DIFF" "own_view view (diff_query q) w = Some (t, v)"
    "view_of view (diff_query q) w (q_value (diff_query q)) (q_select_query (diff_query q)) = Some (t, v2)"
    using assms(2,5,6) by (simp_all add: diff_query_def ready_def)
  note P = Prepare_DIFF [OF assms(1) q(1) assms(3) q(2-4) assms(7), where run = "diff_query_Run new_query R"]
  have get: "rd_value (Get R (q_dest ?q) ?q w) = v" by (simp add: Get_def found_as_def located_def)
  have run: "diff_query_Run new_query R ?q w =
      Inr (?q\<lparr>q_response := (if (v = v2) = (t = INT_GEO) then ''1'' else ''0'')\<rparr>, w)"
    using assms(4) diff_lookup_found [OF assms(1) q(4)] get
    by (auto simp: diff_query_Run_def diff_query_Keys_def diff_query_Geos_def INT_defs found_as_def located_def)
  have "\<not> q_finished q" using assms(2) by (simp add: ready_def)
  then show ?thesis
    using P run assms(4)
    by (auto simp: run_then_def CheckFlush_def diff_query_Process_def found_as_def located_def diff_query_def INT_defs c_str_def)
qed

section \<open>Inputs\<close>

lemma one_item: "list_text (ListHandler_as_string (ListHandler_Add ''z'' ListHandler)) = [''z'']"
  by (subst list_text_as_string) (simp_all add: wf_list_def ListHandler_Add_def ListHandler_def)

lemma stored_nonempty: "list_text v \<noteq> [] \<Longrightarrow> v \<noteq> []" "map_text v \<noteq> Map.empty \<Longrightarrow> v \<noteq> []"
  by (auto simp: list_text_def ListHandler_Create_def ListHandler_def map_text_def map_view_def MapHandler_Create_def MapHandler_def)

lemma diff_lists_witness:
  "\<exists>q' w' lss. Prepare table_rocks (diff_query_Run new_query table_rocks) (diff_query ((ask ''a'' ''b'')\<lparr>q_limit := - 1\<rparr>))
       (two_world INT_LIST (ListHandler_as_string (ListHandler_Add ''z'' ListHandler)) INT_LIST sample_list) = Inr (True, q', w') \<and>
     map_res (CheckFlush (diff_query_Process ''api'')) (w_results w' @ [q']) = Inr lss \<and>
     concat lss = (BRLD_START_LIST, []) # items_lines False [''x'', ''y''] @ [(BRLD_END_LIST, [])]"
proof -
  let ?v = "ListHandler_as_string (ListHandler_Add ''z'' ListHandler)"
  have "sample_list \<noteq> []" by (rule stored_nonempty(1)) simp
  then show ?thesis
    using diff_lists_reply [OF table_rocks_ok, of "(ask ''a'' ''b'')\<lparr>q_limit := - 1\<rparr>" "two_world INT_LIST ?v INT_LIST sample_list"
        ?v sample_list "[''x'', ''y'']" "''api''"]
    by (auto simp: one_item DEFAULT_EMERALD_def c_str_def)
qed

text \<open>A map compared with itself: every field is collected and none is sent.\<close>

lemma diff_maps_witness:
  "\<exists>q' w' lss. Prepare table_rocks (diff_query_Run new_query table_rocks) (diff_query ((ask ''a'' ''b'')\<lparr>q_limit := - 1\<rparr>))
       (two_world INT_MAP (MapHandler_as_string (MapHandler_Add ''g'' ''y'' (MapHandler_Add ''f'' ''x'' MapHandler)))
         INT_MAP (MapHandler_as_string (MapHandler_Add ''g'' ''y'' (MapHandler_Add ''f'' ''x'' MapHandler)))) = Inr (True, q', w') \<and>
     set (listed 0 q' w') = {''f'', ''g''} \<and>
     map_res (CheckFlush (diff_query_Process ''api'')) (w_results w' @ [q']) = Inr lss \<and>
     concat lss \<in> {[(BRLD_START_LIST, []), (BRLD_END_LIST, [])], [(BRLD_END_LIST, [])]}"
proof -
  let ?v = "MapHandler_as_string (MapHandler_Add ''g'' ''y'' (MapHandler_Add ''f'' ''x'' MapHandler))"
  have v: "map_text ?v = [''f'' \<mapsto> ''x'', ''g'' \<mapsto> ''y'']"
    by (subst map_text_as_string) (simp_all add: wf_map_Add map_view_Add, simp add: map_view_def MapHandler_def)
  have ne: "?v \<noteq> []" by (rule stored_nonempty(2)) (simp add: v)
  have "{k \<in> dom (map_text ?v). \<exists>k1\<in>dom (map_text ?v). k1 \<noteq> k} = {''f'', ''g''}"
    unfolding v by auto
  moreover have "card (dom (map_text ?v)) < 2 ^ 31" unfolding v by simp
  moreover have "q_mmap ((ask ''a'' ''b'')\<lparr>q_limit := - 1\<rparr>) = []" by (simp add: ask_def new_query_def)
  ultimately show ?thesis
    using diff_maps_reply [OF table_rocks_ok, of "(ask ''a'' ''b'')\<lparr>q_limit := - 1\<rparr>" "two_world INT_MAP ?v INT_MAP ?v"
        ?v ?v "''api''"] ne
    by (auto simp: DEFAULT_EMERALD_def)
qed

lemma diff_values_witness:
  "\<exists>q'. Prepare table_rocks (diff_query_Run new_query table_rocks) (diff_query (ask ''a'' ''b''))
       (two_world INT_KEY (to_bin ''x'') INT_KEY (to_bin ''x'')) =
       Inr (True, q', two_world INT_KEY (to_bin ''x'') INT_KEY (to_bin ''x'')) \<and>
     CheckFlush (diff_query_Process ''emerald'') q' = Inr [(BRLD_ITEM, ''0'')]"
proof -
  have "INT_KEY \<noteq> INT_GEO" by (simp add: INT_defs)
  then show ?thesis
    using diff_values_reply [OF table_rocks_ok, of "ask ''a'' ''b''" "two_world INT_KEY (to_bin ''x'') INT_KEY (to_bin ''x'')"
        INT_KEY "to_bin ''x''" "to_bin ''x''" "''emerald''"]
    by (auto simp: JustAPI_def DEFAULT_EMERALD_def simp del: to_bin.simps)
qed

end
