(* ===== verification/Operations.thy ===== *)
theory Operations
  imports DiffQueries
begin

text \<open>
  \<open>src/brldb/operation.cpp\<close>: the queries on the type of a key and on whole selects, and the
  arithmetic on a plain key.  The size of a database (\<open>dbsize_query\<close>) is not modelled: it is a
  quotient of doubles.
\<close>

section \<open>Types and counts\<close>

definition NOT_FOUND :: string where "NOT_FOUND = ''NOT_FOUND''"
definition BRLD_USER_ITEM :: nat where "BRLD_USER_ITEM = 176"

definition type_query :: "query \<Rightarrow> query" where
  "type_query q = q\<lparr>q_type := QUERY_TYPE_TYPE\<rparr>"

definition type_query_Run :: "'d run" where
  "type_query_Run q w = Inr (SetOK q, w)"

definition type_query_Process :: "query \<Rightarrow> reply list" where
  "type_query_Process q =
     (if q_identified q \<noteq> PROCESS_NULL then [(BRLD_OK, TypeString (q_identified q) False)]
      else [(ERR_INPUT, NOT_FOUND)])"

text \<open>The scans by select: whether a raw key is to be skipped.\<close>

primrec select_tokens :: "string \<Rightarrow> string list \<Rightarrow> nat \<Rightarrow> bool \<Rightarrow> bool" where
  "select_tokens select [] strcounter skip = skip"
| "select_tokens select (token # ts) strcounter skip =
     (if skip then True
      else select_tokens select ts (strcounter + 1) (strcounter = 1 \<and> select \<noteq> token))"

definition total_query :: "query \<Rightarrow> query" where
  "total_query q = q\<lparr>q_type := QUERY_TYPE_SKIP\<rparr>"

primrec total_loop :: "(string \<times> string) list \<Rightarrow> u32 \<Rightarrow> query \<Rightarrow> 'd world \<Rightarrow> query \<times> 'd world" where
  "total_loop [] total_counter q w = (SetOK (q\<lparr>q_counter := total_counter\<rparr>), w)"
| "total_loop (it # its) total_counter q w =
     (let (go, q1, w1) = CheckIterator q w
      in if \<not> go then (q1, w1)
         else total_loop its
                (if select_tokens (convto_string (q_select_query q)) (colon_tokens (fst it)) 0 False
                 then total_counter else total_counter + 1) q1 w1)"

definition total_query_Run :: "'d rocks \<Rightarrow> 'd run" where
  "total_query_Run R q w = Inr (total_loop (riter R (rocks_of (q_database q) w)) 0 q w)"

definition total_query_Process :: "query \<Rightarrow> reply list" where
  "total_query_Process q = [(BRLD_OK, convto_string (q_counter q))]"

text \<open>\<open>result[token]++\<close> on a \<open>std::map\<close>.\<close>

definition count_up :: "string \<Rightarrow> (string \<times> u32) list \<Rightarrow> (string \<times> u32) list" where
  "count_up token m = map_insert token (case map_of m token of None \<Rightarrow> 1 | Some n \<Rightarrow> n + 1) (erase_key token m)"

definition zero_counts :: "(string \<times> u32) list" where
  "zero_counts = fold (\<lambda>t m. map_insert t 0 (erase_key t m)) TypeRegs []"

text \<open>\<open>only\<close> is the select, for \<open>list_query\<close>; \<open>glist_query\<close> counts in all of them.\<close>

primrec type_tokens ::
  "string option \<Rightarrow> string list \<Rightarrow> nat \<Rightarrow> bool \<Rightarrow> (string \<times> u32) list \<Rightarrow> (string \<times> u32) list" where
  "type_tokens only [] strcounter skip m = m"
| "type_tokens only (token # ts) strcounter skip m =
     (if skip then m
      else type_tokens only ts (strcounter + 1)
             (strcounter = 1 \<and> (case only of None \<Rightarrow> False | Some select \<Rightarrow> select \<noteq> token))
             (if strcounter = 2 then count_up token m else m))"

primrec type_loop ::
  "string option \<Rightarrow> (string \<times> string) list \<Rightarrow> (string \<times> u32) list \<Rightarrow> query \<Rightarrow> 'd world \<Rightarrow> query \<times> 'd world" where
  "type_loop only [] result q w = (SetOK (q\<lparr>q_nmap := result\<rparr>), w)"
| "type_loop only (it # its) result q w =
     (let (go, q1, w1) = CheckIterator q w
      in if \<not> go then (q1, w1)
         else type_loop only its (type_tokens only (colon_tokens (fst it)) 0 False result) q1 w1)"

definition list_query :: "query \<Rightarrow> query" where
  "list_query q = q\<lparr>q_type := QUERY_TYPE_SKIP\<rparr>"

definition list_query_Run :: "'d rocks \<Rightarrow> 'd run" where
  "list_query_Run R q w =
     Inr (type_loop (Some (convto_string (q_select_query q))) (riter R (rocks_of (q_database q) w)) zero_counts q w)"

definition glist_query :: "query \<Rightarrow> query" where
  "glist_query q = q\<lparr>q_type := QUERY_TYPE_SKIP\<rparr>"

definition glist_query_Run :: "'d rocks \<Rightarrow> 'd run" where
  "glist_query_Run R q w = Inr (type_loop None (riter R (rocks_of (q_database q) w)) zero_counts q w)"

text \<open>The lines of a table of counts; none of their texts is empty.\<close>

definition type_line :: "string \<Rightarrow> string \<times> u32 \<Rightarrow> reply" where
  "type_line agent i =
     (let ikey = TypeString (fst i) True; item = convto_string (snd i)
      in ListDepend agent BRLD_USER_ITEM (''| '' @ pad 16 ikey @ ''| '' @ pad 29 item @ ''|'') (ikey @ '' '' @ item))"

definition list_query_Process :: "string \<Rightarrow> query \<Rightarrow> reply list" where
  "list_query_Process agent q =
     (let rule = ''+'' @ pad 16 (Repeat ''-'' 17) @ ''+'' @ pad 29 (Repeat ''-'' 30) @ ''+''
      in JustAPI agent BRLD_START_LIST @
         JustEmerald agent BRLD_START_LIST rule @
         JustEmerald agent BRLD_START_LIST (''| '' @ pad 16 ''Type'' @ ''| '' @ pad 29 ''Count'' @ ''|'') @
         JustEmerald agent BRLD_START_LIST rule @
         map (type_line agent) (q_nmap q) @
         JustAPI agent BRLD_END_LIST @ JustEmerald agent BRLD_END_LIST rule)"

definition glist_query_Process :: "string \<Rightarrow> query \<Rightarrow> reply list" where
  "glist_query_Process agent q = list_query_Process agent q"

section \<open>Emptying a select\<close>

definition sflush_query :: "query \<Rightarrow> query" where
  "sflush_query q = q\<lparr>q_type := QUERY_TYPE_SKIP\<rparr>"

text \<open>The select is the text \<open>this->key\<close>.\<close>

primrec sflush_loop :: "'d rocks \<Rightarrow> (string \<times> string) list \<Rightarrow> query \<Rightarrow> 'd world \<Rightarrow> query \<times> 'd world" where
  "sflush_loop R [] q w = (SetOK q, w)"
| "sflush_loop R (it # its) q w =
     (let (go, q1, w1) = CheckIterator q w
      in if \<not> go then (q1, w1)
         else if select_tokens (q_key q) (colon_tokens (fst it)) 0 False then sflush_loop R its q1 w1
         else sflush_loop R its q1 (Delete R (fst it) q1 w1))"

definition sflush_query_Run :: "'d rocks \<Rightarrow> 'd run" where
  "sflush_query_Run R q w = Inr (sflush_loop R (riter R (rocks_of (q_database q) w)) q w)"

definition sflush_query_Process :: "query \<Rightarrow> reply list" where
  "sflush_query_Process q = [(BRLD_OK, PROCESS_OK)]"

section \<open>Counting names that exist\<close>

definition touch_query :: "query \<Rightarrow> query" where
  "touch_query q = q\<lparr>q_type := QUERY_TYPE_SKIP\<rparr>"

definition touch_query_Run :: "'d rocks \<Rightarrow> 'd run" where
  "touch_query_Run R q w =
     Inr (SetOK (q\<lparr>q_counter := fold (\<lambda>token n.
       if CheckDest R (q_select_query q) token (q_base_request q) None q w = 0 then n else n + 1)
       (space_tokens (q_value q)) 0\<rparr>), w)"

definition ntouch_query :: "query \<Rightarrow> query" where
  "ntouch_query q = q\<lparr>q_type := QUERY_TYPE_SKIP\<rparr>"

definition ntouch_query_Run :: "'d rocks \<Rightarrow> 'd run" where
  "ntouch_query_Run R q w =
     Inr (SetOK (q\<lparr>q_counter := fold (\<lambda>token n.
       if CheckDest R (q_select_query q) token (q_base_request q) None q w \<noteq> 0 then n else n + 1)
       (space_tokens (q_value q)) 0\<rparr>), w)"

definition touch_query_Process :: "query \<Rightarrow> reply list" where
  "touch_query_Process q = [(BRLD_OK, convto_string (q_counter q))]"

definition ntouch_query_Process :: "query \<Rightarrow> reply list" where
  "ntouch_query_Process q = [(BRLD_OK, convto_string (q_counter q))]"

section \<open>Arithmetic\<close>

text \<open>The operations on doubles beside those the containers use.\<close>

record 'n dbl_ops = "'n dbl" +
  d_one :: 'n
  d_sub :: "'n \<Rightarrow> 'n \<Rightarrow> 'n"
  d_mult :: "'n \<Rightarrow> 'n \<Rightarrow> 'n"
  d_sqrt :: "'n \<Rightarrow> 'n"

definition op_value :: "('n, 'x) dbl_ops_scheme \<Rightarrow> OP_TYPE \<Rightarrow> 'n \<Rightarrow> 'n \<Rightarrow> 'n" where
  "op_value D operation real_value real_oper =
     (case operation of
        OP_INCR \<Rightarrow> d_add D real_value (d_one D)
      | OP_DECR \<Rightarrow> d_sub D real_value (d_one D)
      | OP_MULT \<Rightarrow> d_mult D real_value real_oper
      | OP_AVG \<Rightarrow> d_div D (d_add D real_value real_oper) (d_add D (d_one D) (d_one D))
      | OP_DIV \<Rightarrow> d_div D real_value real_oper
      | OP_ADD \<Rightarrow> d_add D real_value real_oper
      | OP_MIN \<Rightarrow> d_sub D real_value real_oper
      | OP_SQRT \<Rightarrow> d_sqrt D real_value
      | OP_NONE \<Rightarrow> real_value)"

definition op_query :: "query \<Rightarrow> query" where
  "op_query q = of_class QUERY_TYPE_WRITE INT_KEY q"

definition op_query_Run :: "('n, 'x) dbl_ops_scheme \<Rightarrow> 'd rocks \<Rightarrow> 'd run" where
  "op_query_Run D R q w =
     (let real_oper = (if q_value q \<noteq> [] then d_of_string D (q_value q) else d_zero D);
          result = Get R (q_dest q) q w;
          q1 = q\<lparr>q_response := to_string (rd_value result)\<rparr>;
          dbvalue = (if \<not> rd_status result then ''0'' else to_string (rd_value result))
      in if \<not> is_number dbvalue True then Inr (access_set DBL_NOT_NUM q1, w)
         else (let inserting = d_show D (op_value D (q_operation q1) (d_of_string D dbvalue) real_oper);
                   (ok, w1) = Write R (q_dest q1) (to_bin inserting) q1 w
               in Inr (if ok then (SetOK (q1\<lparr>q_response := inserting\<rparr>), w1)
                       else (access_set DBL_UNABLE_WRITE q1, w1))))"

definition op_query_Process :: "query \<Rightarrow> reply list" where
  "op_query_Process q = (if q_finished q then [(BRLD_OK, c_str (q_response q))] else [])"

end
