(* ===== verification/OperationFacts.thy ===== *)
theory OperationFacts
  imports Operations
begin

text \<open>
  The counts of a select agree with each other and with the store; a flush empties one select; the
  arithmetic on a key, and the counter that stops being a number.
\<close>

section \<open>The records of a select\<close>

definition in_select :: "u32 \<Rightarrow> string \<Rightarrow> bool" where
  "in_select s raw \<longleftrightarrow> (\<exists>k t. k \<noteq> [] \<and> raw = raw_key k s t)"

lemma raw_keys_form:
  assumes "raw_keys_ok m" "raw \<in> dom m"
  obtains k s t where "k \<noteq> []" "raw = raw_key k s t" "colon_tokens t \<noteq> []"
proof -
  have "\<And>t. t \<in> set TypeRegs \<Longrightarrow> colon_tokens t \<noteq> []"
    using TypeRegs_plain colon_tokens_single by fastforce
  moreover have "colon_tokens (INT_EXPIRE @ '':'' @ n) \<noteq> []" "colon_tokens (INT_FUTURE @ '':'' @ n) \<noteq> []" for n
    using colon_tokens_Cons [of INT_EXPIRE n] colon_tokens_Cons [of INT_FUTURE n] by (simp_all add: INT_defs)
  ultimately show ?thesis
    using assms that unfolding raw_keys_ok_def expire_record_raw future_record_raw by metis
qed

lemma select_tokens_late: "2 \<le> n \<Longrightarrow> select_tokens sel ts n skip = skip"
  by (induction ts arbitrary: n skip) auto

lemma select_tokens_raw:
  "k \<noteq> [] \<Longrightarrow> select_tokens sel (colon_tokens (raw_key k s t)) 0 False \<longleftrightarrow> sel \<noteq> convto_string s"
  by (simp add: colon_tokens_raw_key select_tokens_late)

lemma select_tokens_in:
  assumes "raw_keys_ok m" "raw \<in> dom m"
  shows "select_tokens (convto_string s) (colon_tokens raw) 0 False \<longleftrightarrow> \<not> in_select s raw"
  using raw_keys_form [OF assms] by (metis convto_string_inject in_select_def raw_key_inject select_tokens_raw)

text \<open>What an iterator goes through.\<close>

lemma riter_dom:
  assumes "rocks_ok R view"
  shows "distinct (map fst (riter R s))" "fst ` set (riter R s) = dom (view s)"
    "x \<in> set (riter R s) \<Longrightarrow> fst x \<in> dom (view s)"
proof -
  have it: "keys_strict (riter R s)" "map_of (riter R s) = view s"
    using assms by (auto simp: rocks_ok_def)
  show "distinct (map fst (riter R s))" using it(1) by (simp add: strict_sorted_iff)
  show all: "fst ` set (riter R s) = dom (view s)" using it(2) by (metis dom_map_of_conv_image_fst)
  show "x \<in> set (riter R s) \<Longrightarrow> fst x \<in> dom (view s)" using all by blast
qed

lemma length_filter_dom:
  assumes "rocks_ok R view"
  shows "length (filter (\<lambda>it. P (fst it)) (riter R s)) = card {raw \<in> dom (view s). P raw}"
proof -
  have "distinct (map fst (filter (\<lambda>it. P (fst it)) (riter R s)))"
    using riter_dom(1) [OF assms, of s] by (rule distinct_map_filter)
  from distinct_card [OF this] have "length (filter (\<lambda>it. P (fst it)) (riter R s)) =
      card (fst ` {it \<in> set (riter R s). P (fst it)})" by simp
  also have "fst ` {it \<in> set (riter R s). P (fst it)} = {raw \<in> dom (view s). P raw}"
    unfolding riter_dom(2) [OF assms, symmetric] by auto
  finally show ?thesis .
qed

lemma CheckIterator_quiet:
  "w_interrupts w = [] \<Longrightarrow> \<not> d_closing (w_dbs w (q_database q)) \<Longrightarrow> CheckIterator q w = (True, q, w)"
  by (simp add: CheckIterator_def)

section \<open>Counting\<close>

lemma total_loop_quiet:
  assumes "w_interrupts w = []" "\<not> d_closing (w_dbs w (q_database q))"
  shows "total_loop its n q w = (SetOK (q\<lparr>q_counter := n + of_nat (length (filter
    (\<lambda>it. \<not> select_tokens (convto_string (q_select_query q)) (colon_tokens (fst it)) 0 False) its))\<rparr>), w)"
  by (induction its arbitrary: n) (simp_all add: CheckIterator_quiet [OF assms])

lemma type_loop_quiet:
  assumes "w_interrupts w = []" "\<not> d_closing (w_dbs w (q_database q))"
  shows "type_loop only its m q w =
    (SetOK (q\<lparr>q_nmap := fold (\<lambda>it. type_tokens only (colon_tokens (fst it)) 0 False) its m\<rparr>), w)"
  by (induction its arbitrary: m) (simp_all add: CheckIterator_quiet [OF assms])

lemma sum_erase_insert:
  fixes m :: "(string \<times> u32) list"
  assumes "distinct (map fst m)"
  shows "sum_list (map snd (map_insert k v (erase_key k m))) + (case map_of m k of None \<Rightarrow> 0 | Some n \<Rightarrow> n) =
    v + sum_list (map snd m)"
proof -
  have ins: "sum_list (map snd (map_insert k v m')) = v + sum_list (map snd m')" if "k \<notin> fst ` set m'" for m' :: "(string \<times> u32) list"
  proof -
    have "sum_list (map snd (takeWhile (\<lambda>p. fst p < k) m' @ dropWhile (\<lambda>p. fst p < k) m')) =
        sum_list (map snd (takeWhile (\<lambda>p. fst p < k) m')) + sum_list (map snd (dropWhile (\<lambda>p. fst p < k) m'))"
      by (simp only: map_append sum_list_append)
    then have "sum_list (map snd m') = sum_list (map snd (takeWhile (\<lambda>p. fst p < k) m')) +
        sum_list (map snd (dropWhile (\<lambda>p. fst p < k) m'))" by (simp only: takeWhile_dropWhile_id)
    with that show ?thesis by (simp add: map_insert_def)
  qed
  have era: "sum_list (map snd (erase_key k m)) + (case map_of m k of None \<Rightarrow> 0 | Some n \<Rightarrow> n) = sum_list (map snd m)"
    using assms
  proof (induction m)
    case (Cons p m)
    show ?case
    proof (cases "fst p = k")
      case True
      then have "\<forall>x\<in>set m. fst x \<noteq> k" using Cons.prems by (metis distinct.simps(2) image_eqI list.set_map list.simps(9))
      then have "erase_key k m = m" by (simp add: erase_key_def filter_id_conv)
      with True show ?thesis by (simp add: erase_key_def)
    next
      case False
      with Cons show ?thesis by (auto simp: erase_key_def algebra_simps)
    qed
  qed (simp add: erase_key_def)
  have "k \<notin> fst ` set (erase_key k m)" by (auto simp: erase_key_def)
  then show ?thesis using ins [of "erase_key k m"] by (simp add: era [symmetric] add.assoc)
qed

lemma count_up_facts:
  assumes "keys_strict m"
  shows "keys_strict (count_up t m)" "sum_list (map snd (count_up t m)) = sum_list (map snd m) + 1"
    "map_of (count_up t m) j = (if j = t then Some ((case map_of m t of None \<Rightarrow> 0 | Some n \<Rightarrow> n) + 1) else map_of m j)"
proof -
  have er: "keys_strict (erase_key t m)" using assms by (simp add: erase_key_def sorted_wrt_filter sorted_wrt_map)
  then show "keys_strict (count_up t m)" by (simp add: count_up_def keys_strict_map_insert)
  have "distinct (map fst m)" using assms by (simp add: strict_sorted_iff)
  from sum_erase_insert [OF this, of t "case map_of m t of None \<Rightarrow> 1 | Some n \<Rightarrow> n + 1"]
  show "sum_list (map snd (count_up t m)) = sum_list (map snd m) + 1"
    by (simp add: count_up_def algebra_simps split: option.splits)
  have "t \<notin> fst ` set (erase_key t m)" by (auto simp: erase_key_def)
  then show "map_of (count_up t m) j = (if j = t then Some ((case map_of m t of None \<Rightarrow> 0 | Some n \<Rightarrow> n) + 1) else map_of m j)"
    by (auto simp: count_up_def map_of_map_insert map_of_erase_key split: option.splits)
qed


text \<open>The type of a raw key is its third token.\<close>

definition record_type :: "string \<Rightarrow> string" where
  "record_type raw = colon_tokens raw ! 2"

lemma type_tokens_late: "3 \<le> n \<Longrightarrow> type_tokens only ts n skip m = m"
  by (induction ts arbitrary: n skip) auto

lemma type_tokens_raw:
  assumes "k \<noteq> []" "colon_tokens t \<noteq> []"
  shows "type_tokens only (colon_tokens (raw_key k s t)) 0 False m =
    (if only = None \<or> only = Some (convto_string s) then count_up (record_type (raw_key k s t)) m else m)"
proof -
  obtain a as where "colon_tokens t = a # as" using assms(2) by (cases "colon_tokens t") auto
  with assms(1) show ?thesis
    by (auto simp: colon_tokens_raw_key record_type_def type_tokens_late split: option.splits)
qed

lemma record_type_keys:
  assumes "raw_keys_ok m" "t \<in> set TypeRegs" "t \<noteq> INT_EXPIRE" "t \<noteq> INT_FUTURE"
  shows "{raw \<in> dom m. in_select s raw \<and> record_type raw = t} = (\<lambda>k. raw_key k s t) ` {k. k \<noteq> [] \<and> raw_key k s t \<in> dom m}"
proof -
  have plain: "record_type (raw_key k s' u) = u" if "k \<noteq> []" "u \<in> set TypeRegs" for k s' u
    using that TypeRegs_plain [OF that(2)] by (simp add: record_type_def colon_tokens_raw_key colon_tokens_single)
  have rec: "record_type (expire_record k s' n) = INT_EXPIRE" "record_type (future_record k s' n) = INT_FUTURE"
    if "k \<noteq> []" for k s' n
    using that colon_tokens_Cons [of INT_EXPIRE n] colon_tokens_Cons [of INT_FUTURE n]
    by (simp_all add: record_type_def expire_record_raw future_record_raw colon_tokens_raw_key INT_defs)
  show ?thesis
  proof (intro set_eqI iffI)
    fix raw assume "raw \<in> {raw \<in> dom m. in_select s raw \<and> record_type raw = t}"
    then have raw: "raw \<in> dom m" "in_select s raw" "record_type raw = t" by auto
    then obtain k s' where k: "k \<noteq> []" and f: "(\<exists>u\<in>set TypeRegs. raw = raw_key k s' u) \<or>
        (\<exists>n. raw = expire_record k s' n) \<or> (\<exists>n. raw = future_record k s' n)"
      using assms(1) unfolding raw_keys_ok_def by blast
    with rec [OF k] raw(3) assms(3,4) plain [OF k] have "raw = raw_key k s' t" by metis
    with raw(1,2) k show "raw \<in> (\<lambda>k. raw_key k s t) ` {k. k \<noteq> [] \<and> raw_key k s t \<in> dom m}"
      by (auto simp: in_select_def)
  next
    fix raw assume "raw \<in> (\<lambda>k. raw_key k s t) ` {k. k \<noteq> [] \<and> raw_key k s t \<in> dom m}"
    with assms(2) plain show "raw \<in> {raw \<in> dom m. in_select s raw \<and> record_type raw = t}"
      by (auto simp: in_select_def)
  qed
qed

section \<open>What the loops over a table compute\<close>

lemma type_fold_facts:
  assumes "\<And>it m. it \<in> set its \<Longrightarrow>
      type_tokens only (colon_tokens (fst it)) 0 False m = (if P (fst it) then count_up (record_type (fst it)) m else m)"
    and "keys_strict m"
  shows "keys_strict (fold (\<lambda>it. type_tokens only (colon_tokens (fst it)) 0 False) its m)"
    and "sum_list (map snd (fold (\<lambda>it. type_tokens only (colon_tokens (fst it)) 0 False) its m)) =
      sum_list (map snd m) + of_nat (length (filter (\<lambda>it. P (fst it)) its))"
    and "map_of m t = Some n \<Longrightarrow>
      map_of (fold (\<lambda>it. type_tokens only (colon_tokens (fst it)) 0 False) its m) t =
      Some (n + of_nat (length (filter (\<lambda>it. P (fst it) \<and> record_type (fst it) = t) its)))"
proof -
  let ?f = "\<lambda>it. type_tokens only (colon_tokens (fst it)) 0 False"
  from assms show "keys_strict (fold ?f its m)"
  proof (induction its arbitrary: m)
    case (Cons it its) then show ?case by (simp add: count_up_facts)
  qed simp
  from assms show "sum_list (map snd (fold ?f its m)) = sum_list (map snd m) + of_nat (length (filter (\<lambda>it. P (fst it)) its))"
  proof (induction its arbitrary: m)
    case (Cons it its) then show ?case by (simp add: count_up_facts)
  qed simp
  from assms show "map_of m t = Some n \<Longrightarrow>
      map_of (fold ?f its m) t = Some (n + of_nat (length (filter (\<lambda>it. P (fst it) \<and> record_type (fst it) = t) its)))"
  proof (induction its arbitrary: m n)
    case (Cons it its)
    show ?case
    proof (cases "P (fst it)")
      case True
      let ?n = "if record_type (fst it) = t then n + 1 else n"
      have "map_of (count_up (record_type (fst it)) m) t = Some ?n"
        using Cons.prems by (auto simp: count_up_facts)
      from Cons.IH [OF this] show ?thesis
        using Cons.prems True by (cases "record_type (fst it) = t") (simp_all add: count_up_facts algebra_simps)
    next
      case False
      with Cons.prems Cons.IH [of m n] show ?thesis by simp
    qed
  qed simp
qed

lemma zero_fold:
  assumes "keys_strict m" "\<forall>p\<in>set m. snd p = (0 :: u32)"
  shows "keys_strict (fold (\<lambda>t m. map_insert t 0 (erase_key t m)) ts m) \<and>
    (\<forall>p\<in>set (fold (\<lambda>t m. map_insert t 0 (erase_key t m)) ts m). snd p = 0) \<and>
    (t \<in> set ts \<or> map_of m t = Some 0 \<longrightarrow>
      map_of (fold (\<lambda>t m. map_insert t 0 (erase_key t m)) ts m) t = Some 0)"
  using assms
proof (induction ts arbitrary: m)
  case (Cons u ts)
  let ?m = "map_insert u 0 (erase_key u m)"
  have fresh: "u \<notin> fst ` set (erase_key u m)" by (auto simp: erase_key_def)
  have "keys_strict (erase_key u m)" using Cons.prems by (simp add: erase_key_def sorted_wrt_filter sorted_wrt_map)
  then have m: "keys_strict ?m" "\<forall>p\<in>set ?m. snd p = 0"
    using Cons.prems fresh by (auto simp: keys_strict_map_insert set_map_insert erase_key_def)
  from Cons.IH [OF m] fresh show ?case by (auto simp: map_of_map_insert map_of_erase_key)
qed auto

lemma sum_list_zero: "\<forall>p\<in>set m. snd p = (0 :: u32) \<Longrightarrow> sum_list (map snd m) = 0"
  by (induction m) auto

lemma zero_counts_eq: "keys_strict zero_counts" "sum_list (map snd zero_counts) = 0"
  "t \<in> set TypeRegs \<Longrightarrow> map_of zero_counts t = Some 0"
  using zero_fold [of "[]" TypeRegs t] by (auto simp: zero_counts_def intro: sum_list_zero)


section \<open>What the store holds after a flush\<close>

lemma Delete_ok:
  assumes "rocks_ok R view" "\<And>s k. fst (rwrite R s [WDelete k])"
  shows "holds view d (Delete R k q w) =
    (if d = q_database q then (holds view d w)(k := None) else holds view d w)"
    and "d_closing (w_dbs (Delete R k q w) d) = d_closing (w_dbs w d)"
proof -
  obtain ok w' where b: "batch_on R (q_database q) [WDelete k] w = (ok, w')" by fastforce
  then have "ok" using assms(2) [of "rocks_of (q_database q) w" k] by (auto simp: batch_on_def split: prod.splits)
  then show "holds view d (Delete R k q w) = (if d = q_database q then (holds view d w)(k := None) else holds view d w)"
    using batch_on_view(1) [OF assms(1) b, of d] b by (simp add: Delete_def apply_wop_def)
  show "d_closing (w_dbs (Delete R k q w) d) = d_closing (w_dbs w d)"
    using batch_on_view(8) [OF assms(1) b, of d] b by (simp add: Delete_def)
qed

lemma sflush_loop_store:
  assumes "rocks_ok R view" "\<And>s k. fst (rwrite R s [WDelete k])"
    and "w_interrupts w = []" "\<not> d_closing (w_dbs w (q_database q))"
  shows "\<exists>w'. sflush_loop R its q w = (SetOK q, w') \<and> w_expires w' = w_expires w \<and> w_futures w' = w_futures w \<and>
    (\<forall>d raw. holds view d w' raw =
      (if d = q_database q \<and> raw \<in> fst ` set its \<and> \<not> select_tokens (q_key q) (colon_tokens raw) 0 False
       then None else holds view d w raw))"
  using assms(3,4)
proof (induction its arbitrary: w)
  case (Cons it its)
  note step = CheckIterator_quiet [OF Cons.prems]
  show ?case
  proof (cases "select_tokens (q_key q) (colon_tokens (fst it)) 0 False")
    case True
    with Cons.IH [OF Cons.prems] show ?thesis by (fastforce simp: step)
  next
    case False
    let ?w = "Delete R (fst it) q w"
    obtain w' where "sflush_loop R its q ?w = (SetOK q, w')" "w_expires w' = w_expires w" "w_futures w' = w_futures w"
      "\<forall>d raw. holds view d w' raw =
        (if d = q_database q \<and> raw \<in> fst ` set its \<and> \<not> select_tokens (q_key q) (colon_tokens raw) 0 False
         then None else holds view d ?w raw)"
      using Cons.IH [of ?w] Cons.prems Delete_ok(2) [OF assms(1,2)] by auto
    with False show ?thesis by (auto simp: step Delete_ok(1) [OF assms(1,2)])
  qed
qed simp

section \<open>Properties\<close>




definition op_text :: "string option \<Rightarrow> string" where
  "op_text stored = (case stored of None \<Rightarrow> ''0'' | Some v \<Rightarrow> to_string v)"

definition op_result :: "('n, 'x) dbl_ops_scheme \<Rightarrow> query \<Rightarrow> string \<Rightarrow> string" where
  "op_result D q dbvalue = d_show D (op_value D (q_operation q) (d_of_string D dbvalue)
     (if q_value q \<noteq> [] then d_of_string D (q_value q) else d_zero D))"

definition op_done ::
  "('n, 'x) dbl_ops_scheme \<Rightarrow> 'd rocks \<Rightarrow> ('d \<Rightarrow> string \<rightharpoonup> string) \<Rightarrow> query \<Rightarrow> 'd world \<Rightarrow> string option \<Rightarrow> query \<Rightarrow> 'd world \<Rightarrow> bool" where
  "op_done D R view q w stored q' w' \<longleftrightarrow>
     (if is_number (op_text stored) True
      then stored_or_failed view q w INT_KEY (to_bin (op_result D q (op_text stored))) q' w' \<and>
        (q_finished q' \<longrightarrow> q_response q' = op_result D q (op_text stored)) \<and>
        ((\<forall>s b. fst (rwrite R s b)) \<longrightarrow> q_finished q') \<and>
        (\<forall>d. d_closing (w_dbs w' d) = d_closing (w_dbs w d))
      else \<not> q_finished q' \<and> q_access q' = DBL_NOT_NUM \<and> w' = w)"

lemma op_write_ex:
  assumes "rocks_ok R view" "ready q w"
    and "own_view view q w = None \<or> (\<exists>v0. own_view view q w = Some (INT_KEY, v0))"
    and "q_dest q1 = raw_key (q_key q) (q_select_query q) INT_KEY" "q_database q1 = q_database q"
    and "q_finished q1 = q_finished q"
  shows "\<exists>q' w'. (case Write R (q_dest q1) (to_bin x) q1 w of (ok, w1) \<Rightarrow>
      Inr (if ok then (SetOK (q1\<lparr>q_response := x\<rparr>), w1) else (access_set DBL_UNABLE_WRITE q1, w1))) = Inr (q', w') \<and>
    stored_or_failed view q w INT_KEY (to_bin x) q' w' \<and> (q_finished q' \<longrightarrow> q_response q' = x) \<and>
    ((\<forall>s b. fst (rwrite R s b)) \<longrightarrow> q_finished q') \<and>
    (\<forall>d. d_closing (w_dbs w' d) = d_closing (w_dbs w d))"
proof -
  obtain ok w1 where wr: "Write R (q_dest q1) (to_bin x) q1 w = (ok, w1)" by fastforce
  then have "(\<forall>s b. fst (rwrite R s b)) \<longrightarrow> ok"
    by (auto simp: Write_def batch_on_def split: prod.splits) (metis fst_conv)
  moreover have "d_closing (w_dbs w1 d) = d_closing (w_dbs w d)" for d
    by (rule Write_view(8) [OF assms(1) wr])
  moreover
  note write_dest_ex [OF assms(1,2) INT_in_TypeRegs(1) assms(3-6), of "to_bin x"]
  ultimately show ?thesis using assms(2,6)
    by (auto simp: write_dest_def wr stored_or_failed_def ready_def)
qed

lemma op_query_Run_eq:
  assumes "Get R (q_dest q) q w = g" "dbvalue = (if \<not> rd_status g then ''0'' else to_string (rd_value g))"
    and "is_number dbvalue True" "old = to_string (rd_value g)" "x = op_result D q dbvalue"
  shows "op_query_Run D R q w =
    (case Write R (q_dest q) (to_bin x) (q\<lparr>q_response := old\<rparr>) w of
      (ok, w1) \<Rightarrow> Inr (if ok then (SetOK (q\<lparr>q_response := old, q_response := x\<rparr>), w1)
        else (access_set DBL_UNABLE_WRITE (q\<lparr>q_response := old\<rparr>), w1)))"
  using assms unfolding op_query_Run_def Let_def op_result_def by (auto split: prod.split)

lemma op_result_cong [simp]:
  "op_result D (created_as q) = op_result D q" "op_result D (found_as q t v) = op_result D q"
  "op_result D (of_class ty base q) = op_result D q"
  by (simp_all add: op_result_def fun_eq_iff created_as_def found_as_def located_def)

text \<open>
  The arithmetic commands take a free name as zero: they store and answer the printed result
  of the operation, or report the store's refusal and change nothing; a plain key whose text is no
  number is refused and unchanged, another type is refused.
\<close>

theorem op_query_outcome:
  assumes "rocks_ok R view" "ready q w"
  shows "\<exists>r. Prepare R (op_query_Run D R) (op_query q) w = Inr r \<and>
    write_outcome view INT_KEY (op_done D R view q w) q w r"
  unfolding op_query_def
proof (rule WRITE_outcome [OF assms], goal_cases)
  case 1
  let ?q = "created_as (of_class QUERY_TYPE_WRITE INT_KEY q)"
  have num: "is_number ''0'' True" by (simp add: is_number_def is_digit_def)
  have "Get R (q_dest ?q) ?q w = \<lparr>rd_status = False, rd_value = [], rd_loaded = False\<rparr>"
    using 1 Get_created_as [OF assms(1), of "of_class QUERY_TYPE_WRITE INT_KEY q" w] assms(2) by simp
  then have "op_query_Run D R ?q w =
    (case Write R (q_dest ?q) (to_bin (op_result D q ''0'')) (?q\<lparr>q_response := []\<rparr>) w of
      (ok, w1) \<Rightarrow> Inr (if ok then (SetOK (?q\<lparr>q_response := [], q_response := op_result D q ''0''\<rparr>), w1)
        else (access_set DBL_UNABLE_WRITE (?q\<lparr>q_response := []\<rparr>), w1)))"
    by (rule op_query_Run_eq) (use num in simp_all)
  then show ?case
    using 1 num op_write_ex [OF assms, of "?q\<lparr>q_response := []\<rparr>" "op_result D q ''0''"]
    by (simp add: op_done_def op_text_def del: query.update_convs)
next
  case (2 v)
  let ?q = "found_as (of_class QUERY_TYPE_WRITE INT_KEY q) INT_KEY v"
  show ?case
  proof (cases "is_number (to_string v) True")
    case True
    have "Get R (q_dest ?q) ?q w = \<lparr>rd_status = True, rd_value = v, rd_loaded = True\<rparr>" by simp
    then have "op_query_Run D R ?q w =
      (case Write R (q_dest ?q) (to_bin (op_result D q (to_string v))) (?q\<lparr>q_response := to_string v\<rparr>) w of
        (ok, w1) \<Rightarrow> Inr (if ok then (SetOK (?q\<lparr>q_response := to_string v, q_response := op_result D q (to_string v)\<rparr>), w1)
          else (access_set DBL_UNABLE_WRITE (?q\<lparr>q_response := to_string v\<rparr>), w1)))"
      by (rule op_query_Run_eq) (use True in simp_all)
    then show ?thesis
      using 2 True op_write_ex [OF assms, of "?q\<lparr>q_response := to_string v\<rparr>" "op_result D q (to_string v)"]
      by (simp add: op_done_def op_text_def del: query.update_convs)
  next
    case False
    with assms(2) show ?thesis by (simp add: op_query_Run_def op_done_def op_text_def ready_def Let_def)
  qed
qed


text \<open>Numbers in hundred-thousandths, with the two forms the default stream format prints.\<close>

definition fixed_ops :: "int dbl_ops" where
  "fixed_ops = \<lparr>d_of_string = (\<lambda>s. foldl (\<lambda>n c. 10 * n + (of_char c - 48)) 0 s * 100000), d_zero = 0,
     d_less = (\<lambda>a b. a < b), d_add = (\<lambda>a b. a + b), d_div = (\<lambda>a b. a * 100000 div b),
     d_of_size = (\<lambda>n. int n * 100000),
     d_show = (\<lambda>n. if n = 1 then ''1e-05'' else dec_of_nat (nat (n div 100000))),
     d_one = 100000, d_sub = (\<lambda>a b. a - b), d_mult = (\<lambda>a b. a * b div 100000), d_sqrt = (\<lambda>a. a)\<rparr>"

definition ask_op :: "OP_TYPE \<Rightarrow> string \<Rightarrow> query" where
  "ask_op oper v = (ask ''a'' v)\<lparr>q_operation := oper\<rparr>"

lemma ask_op_fields [simp]:
  "ready (ask_op oper v) (world_of s ts)" "q_key (ask_op oper v) = ''a''" "q_select_query (ask_op oper v) = 1"
  "q_database (ask_op oper v) = 0" "q_value (ask_op oper v) = v" "q_operation (ask_op oper v) = oper"
  by (simp_all add: ask_op_def ready_def)

lemma fixed_results:
  "op_result fixed_ops (ask_op OP_INCR []) ''1'' = ''2''" "op_result fixed_ops (ask_op OP_DIV ''100000'') ''1'' = ''1e-05''"
  "is_number ''1'' True" "\<not> is_number ''1e-05'' True"
  by (simp_all add: op_result_def fixed_ops_def op_value_def dec_of_nat.simps digit_char_def char_of_def bit_0 is_number_def is_digit_def)

lemma op_query_witness:
  "\<exists>q' w'. Prepare table_rocks (op_query_Run fixed_ops table_rocks) (op_query (ask_op OP_INCR [])) (one_world INT_KEY (to_bin ''1'')) = Inr (True, q', w') \<and>
     stored_or_failed map_of (ask_op OP_INCR []) (one_world INT_KEY (to_bin ''1'')) INT_KEY (to_bin ''2'') q' w'"
  using op_query_outcome [OF table_rocks_ok, of "ask_op OP_INCR []" "one_world INT_KEY (to_bin ''1'')" fixed_ops]
  by (auto simp: write_outcome_def op_done_def op_text_def fixed_results simp del: to_bin.simps)

text \<open>
  a quotient that is no number any more.
\<close>
theorem op_result_refused:
  assumes "rocks_ok R view" "ready q w" "own_view view q w = Some (INT_KEY, v)"
    and "is_number (to_string v) True" "\<not> is_number (op_result D q (to_string v)) True"
    and "Prepare R (op_query_Run D R) (op_query q) w = Inr (b, q', w')" "q_finished q'"
    and "ready q2 w" "q_key q2 = q_key q" "q_select_query q2 = q_select_query q" "q_database q2 = q_database q"
  shows "own_view view q w' = Some (INT_KEY, to_bin (op_result D q (to_string v))) \<and>
    (\<exists>b2 q2'. Prepare R (op_query_Run D R) (op_query q2) w' = Inr (b2, q2', w') \<and>
      \<not> q_finished q2' \<and> q_access q2' = DBL_NOT_NUM)"
proof -
  let ?x = "op_result D q (to_string v)"
  from op_query_outcome [OF assms(1,2), of D] assms(3-7)
  have x: "own_view view q w' = Some (INT_KEY, to_bin ?x)"
    by (auto simp: write_outcome_def op_done_def op_text_def stored_or_failed_def)
  from op_query_outcome [OF assms(1,2), of D] assms(3-8) have "ready q2 w'"
    by (auto simp: write_outcome_def op_done_def op_text_def ready_def assms(11))
  moreover from x have "own_view view q2 w' = Some (INT_KEY, to_bin ?x)" by (simp add: assms(9-11))
  ultimately show ?thesis using op_query_outcome [OF assms(1), of q2 w' D] assms(5) x by (auto simp: write_outcome_def op_done_def op_text_def)
qed

lemma op_result_refused_witness:
  "\<exists>w' b2 q2'. own_view map_of (ask ''a'' []) w' = Some (INT_KEY, to_bin ''1e-05'') \<and>
    Prepare table_rocks (op_query_Run fixed_ops table_rocks) (op_query (ask_op OP_INCR [])) w' = Inr (b2, q2', w') \<and>
    \<not> q_finished q2' \<and> q_access q2' = DBL_NOT_NUM"
proof -
  let ?q = "ask_op OP_DIV ''100000''" and ?w = "one_world INT_KEY (to_bin ''1'')"
  have own: "own_view map_of ?q ?w = Some (INT_KEY, to_bin ''1'')" by simp
  have "\<forall>s b. fst (rwrite table_rocks s b)" by (simp add: table_rocks_def)
  with op_query_outcome [OF table_rocks_ok, of ?q ?w fixed_ops] own
  obtain b q' w' where "Prepare table_rocks (op_query_Run fixed_ops table_rocks) (op_query ?q) ?w = Inr (b, q', w')"
    "q_finished q'"
    by (auto simp: write_outcome_def op_done_def op_text_def fixed_results simp del: to_bin.simps)
  from op_result_refused [OF table_rocks_ok _ own _ _ this, of "ask_op OP_INCR []"]
  show ?thesis by (auto simp: fixed_results simp del: to_bin.simps)
qed


definition nonempty_key :: "(string \<rightharpoonup> string) \<Rightarrow> u32 \<Rightarrow> string \<Rightarrow> bool" where
  "nonempty_key m s k \<longleftrightarrow> (case key_view m k s of None \<Rightarrow> False | Some (t, v) \<Rightarrow> v \<noteq> [])"

lemma count_fold:
  "fold (\<lambda>token n. if P token then n else n + 1) ts (n :: u32) = n + of_nat (length (filter (\<lambda>t. \<not> P t) ts))"
  by (induction ts arbitrary: n) simp_all

lemma CheckDest_touch:
  assumes "rocks_ok R view" "one_type (holds view (q_database q) w)" "q_key q = []" "token \<noteq> []"
  shows "CheckDest R (q_select_query q) token base None q w = 0 \<longleftrightarrow>
    \<not> nonempty_key (holds view (q_database q) w) (q_select_query q) token"
  using assms(3,4)
  by (auto simp: CheckDest_def check_dest_view [OF assms(1,2)] nonempty_key_def split: option.splits)

text \<open>
  TOUCH and NTOUCH.
\<close>
theorem touch_counts:
  assumes "rocks_ok R view" "one_type (holds view (q_database q) w)" "q_key q = []"
  shows "\<exists>q1 q2. touch_query_Run R q w = Inr (q1, w) \<and> ntouch_query_Run R q w = Inr (q2, w) \<and>
    q_finished q1 \<and> q_finished q2 \<and>
    q_counter q1 = of_nat (length (filter (nonempty_key (holds view (q_database q) w) (q_select_query q))
      (space_tokens (q_value q)))) \<and>
    q_counter q1 + q_counter q2 = of_nat (length (space_tokens (q_value q)))"
proof -
  let ?P = "nonempty_key (holds view (q_database q) w) (q_select_query q)" and ?ts = "space_tokens (q_value q)"
  let ?c = "\<lambda>t. CheckDest R (q_select_query q) t (q_base_request q) None q w"
  have c: "?c t = 0 \<longleftrightarrow> \<not> ?P t" if "t \<in> set ?ts" for t
    using that CheckDest_touch [OF assms, of t] by (auto simp: space_tokens_eq)
  have "filter (\<lambda>t. \<not> ?c t = 0) ?ts = filter ?P ?ts" "filter (\<lambda>t. \<not> ?c t \<noteq> 0) ?ts = filter (\<lambda>t. \<not> ?P t) ?ts"
    by (intro filter_cong refl; simp only: c not_not simp_thms)+
  then have "fold (\<lambda>t n. if ?c t = 0 then n else n + 1) ?ts (0 :: u32) = of_nat (length (filter ?P ?ts))"
    "fold (\<lambda>t n. if ?c t \<noteq> 0 then n else n + 1) ?ts (0 :: u32) = of_nat (length (filter (\<lambda>t. \<not> ?P t) ?ts))"
    by (simp_all only: count_fold add_0)
  moreover have "(of_nat (length (filter ?P ?ts)) :: u32) + of_nat (length (filter (\<lambda>t. \<not> ?P t) ?ts)) = of_nat (length ?ts)"
    by (simp only: sum_length_filter_compl of_nat_add [symmetric])
  ultimately show ?thesis
    by (simp add: touch_query_Run_def ntouch_query_Run_def)
qed

lemma touch_counts_witness:
  "\<exists>q1 q2. touch_query_Run table_rocks (ask [] ''a b'') (one_world INT_KEY (to_bin ''1'')) = Inr (q1, one_world INT_KEY (to_bin ''1'')) \<and>
    ntouch_query_Run table_rocks (ask [] ''a b'') (one_world INT_KEY (to_bin ''1'')) = Inr (q2, one_world INT_KEY (to_bin ''1'')) \<and>
    q_counter q1 = 1 \<and> q_counter q1 + q_counter q2 = 2"
  using touch_counts [OF table_rocks_ok, where q = "ask [] ''a b''" and w = "one_world INT_KEY (to_bin ''1'')"]
  by (auto simp: nonempty_key_def space_tokens_eq)



end
