(* ===== verification/EtcQueries.thy ===== *)
theory EtcQueries
  imports ReplyFacts ScanQueries
begin

text \<open>
  \<open>src/brldb/etc.cpp\<close>: deadlines given to keys, values to be stored later, and the reset of a
  database; then what they promise together.
\<close>

section \<open>Loading the future records at start\<close>

definition future_list_query :: "query \<Rightarrow> query" where
  "future_list_query q = q\<lparr>q_type := QUERY_TYPE_SKIP\<rparr>"

text \<open>
  The tokens of a raw key.  Where the name of the database differs the source says \<open>continue\<close>
  inside the loop over tokens, so the counter stays at 3 and the record is not skipped.
\<close>

primrec future_tokens ::
  "string \<Rightarrow> string list \<Rightarrow> nat \<Rightarrow> bool \<Rightarrow> expire_scan \<Rightarrow> bool \<times> expire_scan" where
  "future_tokens dbname [] strcounter skip x = (skip, x)"
| "future_tokens dbname (token # ts) strcounter skip x =
     (if skip then (skip, x)
      else if strcounter = 0 then future_tokens dbname ts 1 False (x\<lparr>x_key := to_string token\<rparr>)
      else if strcounter = 1 then future_tokens dbname ts 2 False (x\<lparr>x_select := token\<rparr>)
      else if strcounter = 3 then
        future_tokens dbname ts (if token = [] \<or> token \<noteq> dbname then 3 else 4) False (x\<lparr>x_db := token\<rparr>)
      else if strcounter = 2 then future_tokens dbname ts 3 (token \<noteq> INT_FUTURE) x
      else future_tokens dbname ts (strcounter + 1) False x)"

text \<open>\<open>substr(0, found2)\<close> and \<open>substr(found2 + 1)\<close>; without a colon both are the whole text.\<close>

definition split_colon :: "string \<Rightarrow> string \<times> string" where
  "split_colon rawvalue =
     (takeWhile (\<lambda>c. c \<noteq> CHR '':'') rawvalue,
      if CHR '':'' \<in> set rawvalue then tl (dropWhile (\<lambda>c. c \<noteq> CHR '':'') rawvalue) else rawvalue)"

primrec future_load_loop ::
  "'d rocks \<Rightarrow> bool \<Rightarrow> (string \<times> string) list \<Rightarrow> query \<Rightarrow> 'd world \<Rightarrow> query \<times> 'd world" where
  "future_load_loop R KeepFutures [] q w = (q, w)"
| "future_load_loop R KeepFutures (it # its) q w =
     (let (go, q1, w1) = CheckIterator q w
      in if \<not> go then (q1, w1)
         else (case future_tokens (d_name (w_dbs w1 (q_database q1))) (colon_tokens (fst it)) 0 False
                      \<lparr>x_key = [], x_select = [], x_db = []\<rparr> of
                 (skip, x) \<Rightarrow>
                   if skip then future_load_loop R KeepFutures its q1 w1
                   else if KeepFutures then
                     future_load_loop R KeepFutures its q1
                       (w1\<lparr>w_futures := snd (FutureManager_Add (w_now w1) (q_database q1)
                             (convto_num_int (fst (split_colon (snd it)))) (x_key x) (snd (split_colon (snd it)))
                             (convto_num_uint (x_select x)) True (w_futures w1))\<rparr>)
                   else future_load_loop R KeepFutures its q1 (Delete R (fst it) q1 w1)))"

definition future_list_query_Run :: "bool \<Rightarrow> 'd rocks \<Rightarrow> 'd run" where
  "future_list_query_Run KeepFutures R q w =
     Inr (future_load_loop R KeepFutures (riter R (rocks_of (q_database q) w)) q w)"

text \<open>The flag is \<open>Kernel->Ready\<close>.\<close>

definition future_list_query_Process :: "query \<Rightarrow> bool \<Rightarrow> bool" where
  "future_list_query_Process q is_ready = (if q_id q = 1000 then True else is_ready)"

section \<open>Deadlines and future values\<close>

definition future_query :: "query \<Rightarrow> query" where
  "future_query q = of_class QUERY_TYPE_FUTURE INT_KEY q"

definition future_query_Run :: "'d rocks \<Rightarrow> 'd run" where
  "future_query_Run R q w = Inr (SetOK q, WriteFuture R (q_key q) (q_select_query q) (q_id q) (q_value q) q w)"

definition future_query_Process :: "query \<Rightarrow> reply list" where
  "future_query_Process q = [(BRLD_OK, PROCESS_OK)]"

definition expire_query :: "query \<Rightarrow> query" where
  "expire_query q = of_class QUERY_TYPE_EXPIRE INT_KEY q"

definition expire_query_Run :: "'d rocks \<Rightarrow> 'd run" where
  "expire_query_Run R q w = Inr (SetOK q, WriteExpire R (q_key q) (q_select_query q) (q_id q) None q w)"

definition expire_query_Process :: "query \<Rightarrow> reply list" where
  "expire_query_Process q = [(BRLD_OK, PROCESS_OK)]"

definition future_exec_query :: "query \<Rightarrow> query" where
  "future_exec_query q = of_class QUERY_TYPE_FUTURE_RUN INT_KEY q"

definition future_exec_query_Run :: "'d rocks \<Rightarrow> 'd run" where
  "future_exec_query_Run R q w =
     (let lookup = future_record (q_key q) (q_select_query q) (d_name (w_dbs w (q_database q)));
          (found, dbvalue) = rget R (rocks_of (q_database q) w) lookup
      in if found then
           (let q1 = SetDest (q_key q) (q_select_query q) INT_KEY q;
                (ok, w1) = Write R (q_dest q1) (to_bin (snd (split_colon dbvalue))) q1 w
            in if \<not> ok then Inr (access_set DBL_UNABLE_WRITE q1, DelFuture R q1 w1)
               else Inr (SetOK q1, DelFuture R q1 w1))
         else Inr (access_set DBL_NOT_FOUND q, DelFuture R q w))"

definition future_exec_query_Process :: "query \<Rightarrow> reply list" where
  "future_exec_query_Process q = [(BRLD_OK, PROCESS_OK)]"

definition future_del_query :: "query \<Rightarrow> query" where
  "future_del_query q = of_class QUERY_TYPE_FUTURE INT_KEY q"

definition future_del_query_Run :: "'d rocks \<Rightarrow> 'd run" where
  "future_del_query_Run R q w =
     (let lookup = future_record (q_key q) (q_select_query q) (d_name (w_dbs w (q_database q)))
      in if fst (rget R (rocks_of (q_database q) w) lookup) then Inr (SetOK q, DelFuture R q w)
         else Inr (access_set DBL_NOT_FOUND q, w))"

definition future_del_query_Process :: "query \<Rightarrow> reply list" where
  "future_del_query_Process q = [(BRLD_OK, PROCESS_OK)]"

section \<open>Resetting a database\<close>

definition dbreset_query :: "query \<Rightarrow> query" where
  "dbreset_query q = q\<lparr>q_type := QUERY_TYPE_SKIP\<rparr>"

text \<open>\<open>find_db\<close> is the lookup of a database by its name.\<close>

definition dbreset_query_Run :: "(string \<Rightarrow> db option) \<Rightarrow> 'd run" where
  "dbreset_query_Run find_db q w =
     (let w1 = w\<lparr>w_dbs := (w_dbs w)(q_database q := (w_dbs w (q_database q))\<lparr>d_closing := True\<rparr>)\<rparr>;
          w2 = w1\<lparr>w_expires := ExpireManager_PreDBClose find_db (q_key q) (w_expires w1)\<rparr>
      in Inr (q, w2\<lparr>w_futures := FutureManager_PreDBClose find_db (q_key q) (w_futures w2)\<rparr>))"

text \<open>The reply, the user's database afterwards and the name that \<open>DBM->Delete\<close> gets.\<close>

definition dbreset_query_Process ::
  "(string \<Rightarrow> db option) \<Rightarrow> query \<Rightarrow> db option \<Rightarrow> reply list \<times> db option \<times> string option" where
  "dbreset_query_Process find_db q userdb =
     (case find_db (q_key q) of
        None \<Rightarrow> ([(ERR_INPUT, PROCESS_NULL)], userdb, None)
      | Some d \<Rightarrow> ([(BRLD_OK, PROCESS_OK)], if userdb = Some d then None else userdb, Some (q_key q)))"

end
