(* ===== verification/EtcFacts.thy ===== *)
theory EtcFacts
  imports EtcQueries Sample_Store
begin

text \<open>
  What the deadlines and the future values promise: a restart recovers them from the store, a
  future value is stored exactly as it was given, and what happens when the store refuses a write.
\<close>

section \<open>Loading a registry\<close>

definition deadline_in :: "(timer_id \<times> int) list \<Rightarrow> (timer_id \<Rightarrow> int) \<Rightarrow> timer_id \<Rightarrow> int \<Rightarrow> bool" where
  "deadline_in ds f i t \<longleftrightarrow> (i, t) \<in> set ds \<or> i \<notin> fst ` set ds \<and> t = f i"

context timer_registry
begin

lemma loads:
  assumes "ok r" "\<forall>(i, t)\<in>set ds. 0 < t \<and> t < 2 ^ 31"
  shows "ok (fold (\<lambda>(i, t). add now True i t) ds r) \<and>
    deadline_in ds (at r) i (at (fold (\<lambda>(i, t). add now True i t) ds r) i)"
  using assms
proof (induction ds arbitrary: r)
  case (Cons d ds)
  obtain j t where d: "d = (j, t)" by fastforce
  with Cons.prems have r: "ok (add now True j t r)" "at (add now True j t r) = (at r)(j := t)"
    by (auto simp: deadline)
  with Cons.IH [OF r(1)] Cons.prems d show ?case by (auto simp: deadline_in_def split: if_splits)
qed (simp add: deadline_in_def)

end

section \<open>The scans\<close>

definition expire_entry :: "string \<Rightarrow> db \<Rightarrow> string \<times> string \<Rightarrow> (timer_id \<times> int) option" where
  "expire_entry dbname d it =
     (case expire_tokens dbname (colon_tokens (fst it)) 0 False \<lparr>x_key = [], x_select = [], x_db = []\<rparr> of
        (skip, x) \<Rightarrow> if skip then None
          else Some ((x_key x, convto_num_uint (x_select x), d), convto_num_int (snd it)))"

definition future_entry :: "string \<Rightarrow> db \<Rightarrow> string \<times> string \<Rightarrow> (timer_id \<times> int) option" where
  "future_entry dbname d it =
     (case future_tokens dbname (colon_tokens (fst it)) 0 False \<lparr>x_key = [], x_select = [], x_db = []\<rparr> of
        (skip, x) \<Rightarrow> if skip then None
          else Some ((x_key x, convto_num_uint (x_select x), d), convto_num_int (fst (split_colon (snd it)))))"

lemma FutureManager_Add_value: "FutureManager_Add now d t k v s e m = FutureManager_Add now d t k [] s e m"
  by (simp add: FutureManager_Add_def)

lemma expire_load_loop_eq:
  assumes "w_interrupts w = []" "\<not> d_closing (w_dbs w (q_database q))"
  shows "expire_load_loop R True its q w = (q, w\<lparr>w_expires := fold (\<lambda>(i, t). expire_add (w_now w) True i t)
    (List.map_filter (expire_entry (d_name (w_dbs w (q_database q))) (q_database q)) its) (w_expires w)\<rparr>)"
  using assms
proof (induction its arbitrary: w)
  case (Cons it its)
  have go: "CheckIterator q w = (True, q, w)" using Cons.prems by (simp add: CheckIterator_def)
  show ?case
    using Cons.IH Cons.prems
    by (auto simp: go expire_entry_def expire_add_def List.map_filter_simps split: prod.split)
qed (simp add: List.map_filter_simps)

lemma future_load_loop_eq:
  assumes "w_interrupts w = []" "\<not> d_closing (w_dbs w (q_database q))"
  shows "future_load_loop R True its q w = (q, w\<lparr>w_futures := fold (\<lambda>(i, t). future_add [] (w_now w) True i t)
    (List.map_filter (future_entry (d_name (w_dbs w (q_database q))) (q_database q)) its) (w_futures w)\<rparr>)"
  using assms
proof (induction its arbitrary: w)
  case (Cons it its)
  have go: "CheckIterator q w = (True, q, w)" using Cons.prems by (simp add: CheckIterator_def)
  show ?case
    using Cons.IH Cons.prems
    by (auto simp: go future_entry_def future_add_def List.map_filter_simps
        FutureManager_Add_value [of _ _ _ _ "snd (split_colon (snd it))"] split: prod.split)
qed (simp add: List.map_filter_simps)

text \<open>What a scan makes of each shape of raw key.\<close>

lemma expire_tokens_skip [simp]: "expire_tokens n ts c True x = (True, x)"
  by (cases ts) auto

lemma future_tokens_skip [simp]: "future_tokens n ts c True x = (True, x)"
  by (cases ts) auto

lemma future_tokens_late:
  "3 \<le> c \<Longrightarrow> \<not> fst (future_tokens n ts c False x) \<and>
    x_key (snd (future_tokens n ts c False x)) = x_key x \<and>
    x_select (snd (future_tokens n ts c False x)) = x_select x"
  by (induction ts arbitrary: c x) auto

lemma third_token:
  "k \<noteq> [] \<Longrightarrow> t \<in> set TypeRegs \<Longrightarrow> colon_tokens (raw_key k s t) = [to_bin k, convto_string s, t]"
  "k \<noteq> [] \<Longrightarrow> colon_tokens (expire_record k s n) = to_bin k # convto_string s # INT_EXPIRE # colon_tokens n"
  "k \<noteq> [] \<Longrightarrow> colon_tokens (future_record k s n) = to_bin k # convto_string s # INT_FUTURE # colon_tokens n"
  using colon_tokens_record [of k INT_EXPIRE s n] colon_tokens_record [of k INT_FUTURE s n] TypeRegs_plain [of t]
  by (auto simp: colon_tokens_raw_key colon_tokens_single expire_record_raw future_record_raw INT_EXPIRE_def INT_FUTURE_def)

lemma expire_entry_raw:
  assumes "k \<noteq> []"
  shows "t \<in> set TypeRegs \<Longrightarrow> t \<noteq> INT_EXPIRE \<Longrightarrow> expire_entry n d (raw_key k s t, v) = None"
    and "expire_entry n d (future_record k s m, v) = None"
    and "n \<noteq> [] \<Longrightarrow> CHR '':'' \<notin> set n \<Longrightarrow>
      expire_entry n d (expire_record k s n, v) = Some ((k, s, d), convto_num_int v)"
  using assms by (auto simp: expire_entry_def third_token colon_tokens_single INT_defs)

lemma future_entry_raw:
  assumes "k \<noteq> []"
  shows "t \<in> set TypeRegs \<Longrightarrow> t \<noteq> INT_FUTURE \<Longrightarrow> future_entry n d (raw_key k s t, v) = None"
    and "future_entry n d (expire_record k s m, v) = None"
    and "future_entry n d (future_record k s m, v) = Some ((k, s, d), convto_num_int (fst (split_colon v)))"
proof -
  from assms show "t \<in> set TypeRegs \<Longrightarrow> t \<noteq> INT_FUTURE \<Longrightarrow> future_entry n d (raw_key k s t, v) = None"
    "future_entry n d (expire_record k s m, v) = None"
    by (auto simp: future_entry_def third_token INT_defs)
  show "future_entry n d (future_record k s m, v) = Some ((k, s, d), convto_num_int (fst (split_colon v)))"
    using assms future_tokens_late [of 3 n "colon_tokens m" "\<lparr>x_key = k, x_select = convto_string s, x_db = []\<rparr>"]
    by (auto simp: future_entry_def third_token split: prod.splits)
qed


text \<open>The store of a database called \<open>n\<close>: values, and timer records that carry its own name.\<close>

definition own_records :: "string \<Rightarrow> (string \<rightharpoonup> string) \<Rightarrow> bool" where
  "own_records n m \<longleftrightarrow>
     n \<noteq> [] \<and> CHR '':'' \<notin> set n \<and>
     (\<forall>raw v. m raw = Some v \<longrightarrow> (\<exists>k s. k \<noteq> [] \<and>
        ((\<exists>t\<in>set TypeRegs - {INT_EXPIRE, INT_FUTURE}. raw = raw_key k s t) \<or>
         raw = expire_record k s n \<and> 0 < convto_num_int v \<or>
         raw = future_record k s n \<and> 0 < convto_num_int (fst (split_colon v)))))"

lemma own_records_cases:
  assumes "own_records n m" "m raw = Some v"
  obtains (kept) k s t where "k \<noteq> []" "t \<in> set TypeRegs" "t \<noteq> INT_EXPIRE" "t \<noteq> INT_FUTURE" "raw = raw_key k s t"
  | (expire) k s where "k \<noteq> []" "raw = expire_record k s n" "0 < convto_num_int v"
  | (future) k s where "k \<noteq> []" "raw = future_record k s n" "0 < convto_num_int (fst (split_colon v))"
  using assms unfolding own_records_def by blast

lemma in_map_filter: "y \<in> set (List.map_filter f xs) \<longleftrightarrow> (\<exists>a b. (a, b) \<in> set xs \<and> f (a, b) = Some y)"
  by (induction xs) (auto simp: List.map_filter_simps split: option.splits)

lemma in_fst_set: "i \<in> fst ` set xs \<longleftrightarrow> (\<exists>t. (i, t) \<in> set xs)"
  by force

lemma expire_entries:
  assumes "own_records n m" "keys_strict its" "map_of its = m"
  shows "(i, t) \<in> set (List.map_filter (expire_entry n d) its) \<longleftrightarrow>
    (\<exists>k s v. i = (k, s, d) \<and> m (expire_record k s n) = Some v \<and> t = convto_num_int v)"
proof -
  have n: "n \<noteq> []" "CHR '':'' \<notin> set n" using assms(1) by (simp_all add: own_records_def)
  have its: "(raw, v) \<in> set its \<longleftrightarrow> m raw = Some v" for raw v
    using assms(2,3) by (auto simp: strict_sorted_iff map_of_eq_Some_iff)
  have H: "expire_entry n d (raw, v) = Some (i, t) \<longleftrightarrow>
      (\<exists>k s. raw = expire_record k s n \<and> i = (k, s, d) \<and> t = convto_num_int v)" if "m raw = Some v" for raw v
    using assms(1) that
  proof (cases rule: own_records_cases)
    case (kept k s t) then show ?thesis by (auto simp: expire_entry_raw)
  next
    case (expire k s) then show ?thesis using n by (auto simp: expire_entry_raw)
  next
    case (future k s) then show ?thesis by (auto simp: expire_entry_raw records_apart(3) [symmetric])
  qed
  show ?thesis by (simp add: in_map_filter its H cong: conj_cong) blast
qed

lemma future_entries:
  assumes "own_records n m" "keys_strict its" "map_of its = m"
  shows "(i, t) \<in> set (List.map_filter (future_entry n d) its) \<longleftrightarrow>
    (\<exists>k s v. i = (k, s, d) \<and> m (future_record k s n) = Some v \<and> t = convto_num_int (fst (split_colon v)))"
proof -
  have its: "(raw, v) \<in> set its \<longleftrightarrow> m raw = Some v" for raw v
    using assms(2,3) by (auto simp: strict_sorted_iff map_of_eq_Some_iff)
  have H: "future_entry n d (raw, v) = Some (i, t) \<longleftrightarrow>
      (\<exists>k s. raw = future_record k s n \<and> i = (k, s, d) \<and> t = convto_num_int (fst (split_colon v)))"
    if "m raw = Some v" for raw v
    using assms(1) that
  proof (cases rule: own_records_cases)
    case (kept k s t) then show ?thesis by (auto simp: future_entry_raw)
  next
    case (expire k s) then show ?thesis by (auto simp: future_entry_raw)
  next
    case (future k s) then show ?thesis by (auto simp: future_entry_raw)
  qed
  show ?thesis by (simp add: in_map_filter its H cong: conj_cong) blast
qed

lemma convto_num_int_less: "convto_num_int v < 2 ^ 31"
  by (auto simp: convto_num_int_def split: option.splits)


lemma expire_deleted:
  assumes "own_records n m" "keys_strict its" "map_of its = m"
  shows "raw \<in> fst ` set (filter (\<lambda>it. expire_entry n d it \<noteq> None) its) \<longleftrightarrow>
    m raw \<noteq> None \<and> (\<exists>k s. raw = expire_record k s n)"
proof -
  have n: "n \<noteq> []" "CHR '':'' \<notin> set n" using assms(1) by (simp_all add: own_records_def)
  have its: "(raw, v) \<in> set its \<longleftrightarrow> m raw = Some v" for raw v
    using assms(2,3) by (auto simp: strict_sorted_iff map_of_eq_Some_iff)
  have H: "expire_entry n d (raw, v) \<noteq> None \<longleftrightarrow> (\<exists>k s. raw = expire_record k s n)" if "m raw = Some v" for v
    using assms(1) that
  proof (cases rule: own_records_cases)
    case (kept k s t) then show ?thesis by (auto simp: expire_entry_raw)
  next
    case (expire k s) then show ?thesis using n by (auto simp: expire_entry_raw)
  next
    case (future k s) then show ?thesis by (auto simp: expire_entry_raw records_apart(3) [symmetric])
  qed
  have "raw \<in> fst ` set (filter (\<lambda>it. expire_entry n d it \<noteq> None) its) \<longleftrightarrow>
      (\<exists>v. m raw = Some v \<and> expire_entry n d (raw, v) \<noteq> None)"
    by (force simp: its)
  then show ?thesis using H by auto
qed

lemma keep_reload:
  assumes "rocks_ok R view" "own_records (d_name (w_dbs w (q_database q))) (holds view (q_database q) w)"
    and "w_interrupts w = []" "\<not> d_closing (w_dbs w (q_database q))" "expires_ok (w_expires w)"
  shows "\<exists>w'. expire_list_query_Run True R q w = Inr (q, w') \<and> w' = w\<lparr>w_expires := w_expires w'\<rparr> \<and> expires_ok (w_expires w') \<and>
    (\<forall>k s d. ExpireManager_GetTIME d k s (w_expires w') =
      (if d = q_database q
       then (case holds view d w (expire_record k s (d_name (w_dbs w d))) of
               Some v \<Rightarrow> convto_num_int v | None \<Rightarrow> ExpireManager_GetTIME d k s (w_expires w))
       else ExpireManager_GetTIME d k s (w_expires w)))"
proof -
  let ?d = "q_database q" and ?n = "d_name (w_dbs w (q_database q))"
  let ?its = "riter R (rocks_of ?d w)" and ?m = "holds view ?d w"
  let ?ds = "List.map_filter (expire_entry ?n ?d) ?its"
  let ?r = "fold (\<lambda>(i, t). expire_add (w_now w) True i t) ?ds (w_expires w)"
  have its: "keys_strict ?its" "map_of ?its = ?m" using assms(1) by (auto simp: rocks_ok_def)
  note E = expire_entries [OF assms(2) its, where d = ?d]
  have "0 < t \<and> t < 2 ^ 31" if "(i, t) \<in> set ?ds" for i t
  proof -
    from that obtain k s v where "?m (expire_record k s ?n) = Some v" "t = convto_num_int v" unfolding E by blast
    with assms(2) show ?thesis
      using convto_num_int_less by (elim own_records_cases) (auto simp: records_apart(3) [symmetric])
  qed
  then have "\<forall>(i, t)\<in>set ?ds. 0 < t \<and> t < 2 ^ 31" by blast
  note L = expires.loads [OF assms(5) this, of "w_now w"]
  have F: "(k, s, d) \<in> fst ` set ?ds \<longleftrightarrow> d = ?d \<and> ?m (expire_record k s ?n) \<noteq> None" for k s d
    unfolding in_fst_set E by auto
  have "ExpireManager_GetTIME d k s ?r = (if d = ?d
       then (case ?m (expire_record k s ?n) of Some v \<Rightarrow> convto_num_int v | None \<Rightarrow> ExpireManager_GetTIME d k s (w_expires w))
       else ExpireManager_GetTIME d k s (w_expires w))" for d k s
    using L [of "(k, s, d)"] by (auto simp: deadline_in_def E F expire_time_def split: option.splits)
  then show ?thesis
    using L by (auto simp: expire_list_query_Run_def expire_load_loop_eq [OF assms(3,4)])
qed


text \<open>
  Without \<open>KeepExpires\<close> the scan deletes the records it finds, each with a batch of its own.
\<close>

text \<open>A store that takes every batch.\<close>

definition never_fails :: "'d rocks \<Rightarrow> bool" where
  "never_fails R \<longleftrightarrow> (\<forall>s b. fst (rwrite R s b))"

lemma Delete_never_fails:
  assumes "rocks_ok R view" "never_fails R"
  shows "holds view d (Delete R k q w) = (if d = q_database q then (holds view d w)(k := None) else holds view d w)"
proof -
  obtain ok w' where b: "batch_on R (q_database q) [WDelete k] w = (ok, w')" by fastforce
  then have "ok" using assms(2) by (auto simp: batch_on_def never_fails_def split: prod.splits) (metis fst_conv)
  then show ?thesis
    using batch_on_view(1) [OF assms(1) b, of d] b by (simp add: Delete_def apply_wop_def)
qed

lemma Delete_closing [simp]: "d_closing (w_dbs (Delete R k q w) d) = d_closing (w_dbs w d)"
  by (auto simp: Delete_def batch_on_def split: prod.splits)

lemma expire_unload_loop_eq:
  assumes "w_interrupts w = []" "\<not> d_closing (w_dbs w (q_database q))"
  shows "expire_load_loop R False its q w = (q, fold (\<lambda>it. Delete R (fst it) q)
    (filter (\<lambda>it. expire_entry (d_name (w_dbs w (q_database q))) (q_database q) it \<noteq> None) its) w)"
  using assms
proof (induction its arbitrary: w)
  case (Cons it its)
  have go: "CheckIterator q w = (True, q, w)" using Cons.prems by (simp add: CheckIterator_def)
  show ?case
    using Cons.IH [of "Delete R (fst it) q w"] Cons.IH [of w] Cons.prems
    by (auto simp: go expire_entry_def split: prod.split)
qed simp

text \<open>The records \<open>P\<close> of a database are gone, as far as the store took their deletion, and nothing else.\<close>

definition unloaded ::
  "'d rocks \<Rightarrow> ('d \<Rightarrow> string \<rightharpoonup> string) \<Rightarrow> db \<Rightarrow> (string \<Rightarrow> bool) \<Rightarrow> 'd world \<Rightarrow> 'd world \<Rightarrow> bool" where
  "unloaded R view d0 P w w' \<longleftrightarrow>
     w_expires w' = w_expires w \<and> w_futures w' = w_futures w \<and>
     (\<forall>d raw. holds view d w' raw = holds view d w raw \<or> d = d0 \<and> P raw \<and> holds view d w' raw = None) \<and>
     (never_fails R \<longrightarrow> (\<forall>raw. P raw \<longrightarrow> holds view d0 w' raw = None))"

lemma Deletes_unloaded:
  assumes "rocks_ok R view"
  shows "unloaded R view (q_database q) (\<lambda>raw. raw \<in> fst ` set its) w (fold (\<lambda>it. Delete R (fst it) q) its w)"
proof (induction its rule: rev_induct)
  case (snoc it its)
  let ?w = "fold (\<lambda>it. Delete R (fst it) q) its w"
  have one: "holds view d (Delete R (fst it) q ?w) raw = holds view d ?w raw \<or>
      d = q_database q \<and> raw = fst it \<and> holds view d (Delete R (fst it) q ?w) raw = None" for d raw
    by (rule Delete_view [OF assms, of "fst it" q ?w]) auto
  have all: "never_fails R \<Longrightarrow> raw \<in> fst ` set (its @ [it]) \<Longrightarrow>
      holds view (q_database q) (Delete R (fst it) q ?w) raw = None" for raw
    using snoc Delete_never_fails [OF assms, where d = "q_database q" and k = "fst it" and q = q and w = ?w] by (auto simp: unloaded_def)
  have "holds view d (Delete R (fst it) q ?w) raw = holds view d w raw \<or>
      d = q_database q \<and> raw \<in> fst ` set (its @ [it]) \<and> holds view d (Delete R (fst it) q ?w) raw = None" for d raw
    using one [of d raw] snoc unfolding unloaded_def by auto (metis image_eqI)+
  with snoc all show ?case by (simp add: unloaded_def)
qed (simp add: unloaded_def)

text \<open>
  C37: A restart recovers the deadlines. Loading the expire records of a database comes back; with
  KeepExpires set it leaves the stores and everything but the expire registry alone and gives
  every key of the database that has an expire record exactly the deadline of the record, keys
  without one and other databases keeping what the registry had. With KeepExpires off the
  registries stay as they were, and the expire records of the database are deleted: nothing else
  is removed or changed in any database, and all of them are gone when the store fails no batch.
  The database is not closing, the scan is not interrupted, and the records are those the queries
  write: of a known type, those of the timers with the database's own name and a positive deadline
  (as a signed 32-bit number).
\<close>

theorem expire_reload:
  assumes "rocks_ok R view" "own_records (d_name (w_dbs w (q_database q))) (holds view (q_database q) w)"
    and "w_interrupts w = []" "\<not> d_closing (w_dbs w (q_database q))" "expires_ok (w_expires w)"
  shows "\<exists>w'. expire_list_query_Run KeepExpires R q w = Inr (q, w') \<and>
    (if KeepExpires
     then w' = w\<lparr>w_expires := w_expires w'\<rparr> \<and> expires_ok (w_expires w') \<and>
       (\<forall>k s d. ExpireManager_GetTIME d k s (w_expires w') =
         (if d = q_database q
          then (case holds view d w (expire_record k s (d_name (w_dbs w d))) of
                  Some v \<Rightarrow> convto_num_int v | None \<Rightarrow> ExpireManager_GetTIME d k s (w_expires w))
          else ExpireManager_GetTIME d k s (w_expires w)))
     else unloaded R view (q_database q) (\<lambda>raw. holds view (q_database q) w raw \<noteq> None \<and>
       (\<exists>k s. raw = expire_record k s (d_name (w_dbs w (q_database q))))) w w')"
proof (cases KeepExpires)
  case True
  then show ?thesis using keep_reload [OF assms] by auto
next
  case False
  let ?n = "d_name (w_dbs w (q_database q))" and ?its = "riter R (rocks_of (q_database q) w)"
  let ?ds = "filter (\<lambda>it. expire_entry ?n (q_database q) it \<noteq> None) ?its"
  have its: "keys_strict ?its" "map_of ?its = holds view (q_database q) w" using assms(1) by (auto simp: rocks_ok_def)
  have mem: "raw \<in> fst ` set ?ds \<longleftrightarrow> holds view (q_database q) w raw \<noteq> None \<and> (\<exists>k s. raw = expire_record k s ?n)" for raw
    using expire_deleted [OF assms(2) its] by blast
  have "expire_list_query_Run False R q w = Inr (q, fold (\<lambda>it. Delete R (fst it) q) ?ds w)"
    by (simp only: expire_list_query_Run_def expire_unload_loop_eq [OF assms(3,4)])
  with Deletes_unloaded [OF assms(1), of q ?ds w] False show ?thesis unfolding mem by auto
qed


text \<open>
  and the future values.
\<close>
theorem future_reload:
  assumes "rocks_ok R view" "own_records (d_name (w_dbs w (q_database q))) (holds view (q_database q) w)"
    and "w_interrupts w = []" "\<not> d_closing (w_dbs w (q_database q))" "futures_ok (w_futures w)"
  shows "\<exists>w'. future_list_query_Run True R q w = Inr (q, w') \<and> w_dbs w' = w_dbs w \<and> futures_ok (w_futures w') \<and>
    (\<forall>k s d. FutureManager_GetTIME d k s (w_futures w') =
      (if d = q_database q
       then (case holds view d w (future_record k s (d_name (w_dbs w d))) of
               Some v \<Rightarrow> convto_num_int (fst (split_colon v)) | None \<Rightarrow> FutureManager_GetTIME d k s (w_futures w))
       else FutureManager_GetTIME d k s (w_futures w)))"
proof -
  let ?d = "q_database q" and ?n = "d_name (w_dbs w (q_database q))"
  let ?its = "riter R (rocks_of ?d w)" and ?m = "holds view ?d w"
  let ?ds = "List.map_filter (future_entry ?n ?d) ?its"
  let ?r = "fold (\<lambda>(i, t). future_add [] (w_now w) True i t) ?ds (w_futures w)"
  have its: "keys_strict ?its" "map_of ?its = ?m" using assms(1) by (auto simp: rocks_ok_def)
  note E = future_entries [OF assms(2) its, where d = ?d]
  have "0 < t \<and> t < 2 ^ 31" if "(i, t) \<in> set ?ds" for i t
  proof -
    from that obtain k s v where "?m (future_record k s ?n) = Some v" "t = convto_num_int (fst (split_colon v))"
      unfolding E by blast
    with assms(2) show ?thesis
      using convto_num_int_less by (elim own_records_cases) (auto simp: records_apart(3) [symmetric])
  qed
  then have "\<forall>(i, t)\<in>set ?ds. 0 < t \<and> t < 2 ^ 31" by blast
  note L = futures.loads [OF assms(5) this, of "[]" "w_now w"]
  have F: "(k, s, d) \<in> fst ` set ?ds \<longleftrightarrow> d = ?d \<and> ?m (future_record k s ?n) \<noteq> None" for k s d
    unfolding in_fst_set E by auto
  have "FutureManager_GetTIME d k s ?r = (if d = ?d
       then (case ?m (future_record k s ?n) of Some v \<Rightarrow> convto_num_int (fst (split_colon v))
             | None \<Rightarrow> FutureManager_GetTIME d k s (w_futures w))
       else FutureManager_GetTIME d k s (w_futures w))" for d k s
    using L [of "(k, s, d)"] by (auto simp: deadline_in_def E F future_time_def split: option.splits)
  then show ?thesis
    using L by (auto simp: future_list_query_Run_def future_load_loop_eq [OF assms(3,4)])
qed

section \<open>A value stored later\<close>

lemma split_colon_record: "split_colon (convto_string t @ CHR '':'' # v) = (convto_string t, v)"
proof -
  have "CHR '':'' \<notin> set (convto_string t)" by simp
  then have "takeWhile (\<lambda>c. c \<noteq> CHR '':'') (convto_string t @ CHR '':'' # v) = convto_string t"
    "dropWhile (\<lambda>c. c \<noteq> CHR '':'') (convto_string t @ CHR '':'' # v) = CHR '':'' # v"
    by (subst takeWhile_append2 dropWhile_append2; auto)+
  then show ?thesis by (simp add: split_colon_def)
qed

text \<open>\<open>Prepare\<close> for these classes: any name that no other type holds.\<close>

definition for_plain :: "('d \<Rightarrow> string \<rightharpoonup> string) \<Rightarrow> query \<Rightarrow> 'd world \<Rightarrow> bool" where
  "for_plain view q w \<longleftrightarrow> own_view view q w = None \<or> (\<exists>v. own_view view q w = Some (INT_KEY, v))"

definition looked_up :: "('d \<Rightarrow> string \<rightharpoonup> string) \<Rightarrow> query \<Rightarrow> 'd world \<Rightarrow> query" where
  "looked_up view q w =
     (case own_view view q w of
        None \<Rightarrow> q\<lparr>q_access := DBL_STATUS_OK, q_identified := PROCESS_NULL\<rparr>
      | Some (t, v) \<Rightarrow> located (access_set DBL_STATUS_OK q) t None)"

lemma looked_up_fields [simp]:
  "q_key (looked_up view q w) = q_key q" "q_select_query (looked_up view q w) = q_select_query q"
  "q_database (looked_up view q w) = q_database q" "q_value (looked_up view q w) = q_value q"
  "q_id (looked_up view q w) = q_id q" "q_finished (looked_up view q w) = q_finished q"
  by (simp_all add: looked_up_def located_def split: option.splits)

lemma Prepare_FUTURE:
  assumes "rocks_ok R view" "ready q w" "for_plain view q w"
  shows "Prepare R run (of_class QUERY_TYPE_FUTURE INT_KEY q) w =
      run_then True run (looked_up view (of_class QUERY_TYPE_FUTURE INT_KEY q) w) w"
    and "Prepare R run (of_class QUERY_TYPE_FUTURE_RUN INT_KEY q) w =
      run_then (own_view view q w \<noteq> None) run (looked_up view (of_class QUERY_TYPE_FUTURE_RUN INT_KEY q) w) w"
proof -
  have r: "ready (of_class t INT_KEY q) w" for t using assms(2) by simp
  note G = GetRegistry_eq [OF assms(1), where do_load = False and q = "access_set DBL_STATUS_OK (of_class t INT_KEY q)" for t]
  show "Prepare R run (of_class QUERY_TYPE_FUTURE INT_KEY q) w =
      run_then True run (looked_up view (of_class QUERY_TYPE_FUTURE INT_KEY q) w) w"
    "Prepare R run (of_class QUERY_TYPE_FUTURE_RUN INT_KEY q) w =
      run_then (own_view view q w \<noteq> None) run (looked_up view (of_class QUERY_TYPE_FUTURE_RUN INT_KEY q) w) w"
    using G [of QUERY_TYPE_FUTURE w] G [of QUERY_TYPE_FUTURE_RUN w] assms(3)
    by (auto simp: Prepare_def Prepare_ready [OF r] Prepare_future_def Prepare_future_run_def looked_up_def
        for_plain_def key_view_def located_def Let_def split: list.splits)
qed

lemma sint_range: "sint (x :: u32) < 2 ^ 31"
  using sint_lt [of x] by simp

text \<open>
  After FUTURE: one batch, with the record of the value; the timer is registered when the store
  took it.
\<close>

definition future_done ::
  "'d rocks \<Rightarrow> ('d \<Rightarrow> string \<rightharpoonup> string) \<Rightarrow> query \<Rightarrow> 'd world \<Rightarrow> bool \<Rightarrow> query \<Rightarrow> 'd world \<Rightarrow> bool" where
  "future_done R view q w ok q1 w1 \<longleftrightarrow> q_finished q1 \<and>
     (\<forall>k s. view_of view q w1 k s = view_of view q w k s) \<and>
     (\<exists>u. submitted R view (q_database q)
          [WPut (future_record (q_key q) (q_select_query q) (d_name (w_dbs w (q_database q))))
             (convto_string (q_id q) @ '':'' @ q_value q)] w ok u \<and>
        w1 = (if ok then u\<lparr>w_futures := w_futures w1\<rparr> else u)) \<and>
     (ok \<longrightarrow> futures_ok (w_futures w1) \<and>
        FutureManager_GetTIME (q_database q) (q_key q) (q_select_query q) (w_futures w1) = sint (q_id q))"

text \<open>
  After its execution in the world \<open>w\<close>: two batches, the value under the name and then the deletion
  of the record, each taken or not; the timer is gone.
\<close>

definition exec_done ::
  "'d rocks \<Rightarrow> ('d \<Rightarrow> string \<rightharpoonup> string) \<Rightarrow> query \<Rightarrow> 'd world \<Rightarrow> query \<Rightarrow> 'd world \<Rightarrow> bool" where
  "exec_done R view q w q3 w3 \<longleftrightarrow>
     (let rec = future_record (q_key q) (q_select_query q) (d_name (w_dbs w (q_database q)))
      in \<exists>stored w2 e cleared.
        submitted R view (q_database q) [WPut (raw_key (q_key q) (q_select_query q) INT_KEY) (to_bin (q_value q))] w stored w2 \<and>
        submitted R view (q_database q) [WDelete rec] (w2\<lparr>w_futures := e\<rparr>) cleared w3 \<and>
        (if stored then q_finished q3 else \<not> q_finished q3 \<and> q_access q3 = DBL_UNABLE_WRITE) \<and>
        (\<forall>k s. view_of view q w3 k s = (if stored \<and> k = q_key q \<and> s = q_select_query q
           then Some (INT_KEY, to_bin (q_value q)) else view_of view q w k s)) \<and>
        (cleared \<longrightarrow> holds view (q_database q) w3 rec = None) \<and>
        FutureManager_GetTIME (q_database q) (q_key q) (q_select_query q) (w_futures w3) = - 1)"

lemma future_Run_done:
  assumes "rocks_ok R view" "futures_ok (w_futures w)" "0 < sint (q_id q)" "\<not> q_finished q"
    and "q_key q1 = q_key q" "q_select_query q1 = q_select_query q" "q_database q1 = q_database q"
    and "q_id q1 = q_id q" "q_value q1 = q_value q"
  shows "\<exists>ok w1. future_query_Run R q1 w = Inr (SetOK q1, w1) \<and> future_done R view q w ok (SetOK q1) w1"
proof -
  let ?rec = "future_record (q_key q) (q_select_query q) (d_name (w_dbs w (q_database q)))"
  obtain ok u where b: "batch_on R (q_database q) [WPut ?rec (convto_string (q_id q) @ '':'' @ q_value q)] w = (ok, u)"
    by fastforce
  note V = batch_on_view [OF assms(1) b]
  define w1 where "w1 = (if ok then u\<lparr>w_futures := snd (FutureManager_Add (w_now u) (q_database q) (sint (q_id q))
      (q_key q) (q_value q) (q_select_query q) True (w_futures u))\<rparr> else u)"
  have run: "future_query_Run R q1 w = Inr (SetOK q1, w1)"
    using b assms(5-9) by (simp add: future_query_Run_def WriteFuture_def Write_def w1_def Let_def)
  note A = FutureManager_Add_ok [OF assms(2), of "sint (q_id q)" "sint (q_id q)" True "w_now w" "q_database q" "q_key q"
      "q_value q" "q_select_query q"]
  have "view_of view q w1 k s = view_of view q w k s" for k s
    by (simp add: w1_def V(1) apply_wop_def)
  moreover have "w1 = (if ok then u\<lparr>w_futures := w_futures w1\<rparr> else u)" by (simp add: w1_def)
  moreover have "ok \<Longrightarrow> futures_ok (w_futures w1) \<and>
      FutureManager_GetTIME (q_database q) (q_key q) (q_select_query q) (w_futures w1) = sint (q_id q)"
    using A assms(3) sint_range [of "q_id q"] V by (simp add: w1_def FutureManager_GetTIME_at)
  ultimately have "future_done R view q w ok (SetOK q1) w1"
    using batch_submitted [OF assms(1) b] unfolding future_done_def
    by (intro conjI exI [of _ u]) simp_all
  with run show ?thesis by blast
qed

lemma exec_Run_done:
  assumes "rocks_ok R view" "futures_ok (w_futures w)" "for_plain view q w" "\<not> q_finished q2"
    and "q_key q2 = q_key q" "q_select_query q2 = q_select_query q" "q_database q2 = q_database q"
    and "holds view (q_database q) w (future_record (q_key q) (q_select_query q) (d_name (w_dbs w (q_database q)))) =
      Some (convto_string (q_id q) @ '':'' @ q_value q)"
  shows "\<exists>q3 w3. future_exec_query_Run R q2 w = Inr (q3, w3) \<and> exec_done R view q w q3 w3"
proof -
  let ?d = "q_database q" and ?k = "q_key q" and ?s = "q_select_query q"
  let ?rec = "future_record ?k ?s (d_name (w_dbs w ?d))" and ?q3 = "SetDest (q_key q) (q_select_query q) INT_KEY q2"
  obtain stored w2 where b: "batch_on R ?d [WPut (raw_key ?k ?s INT_KEY) (to_bin (q_value q))] w = (stored, w2)" by fastforce
  note V = batch_on_view [OF assms(1) b]
  define e where "e = snd (FutureManager_Delete ?d ?k ?s (w_futures w2))"
  obtain cleared w3 where c: "batch_on R ?d [WDelete ?rec] (w2\<lparr>w_futures := e\<rparr>) = (cleared, w3)" by fastforce
  note C = batch_on_view [OF assms(1) c]
  have rec: "rget R (rocks_of ?d w) ?rec = (True, convto_string (q_id q) @ '':'' @ q_value q)"
    using assms(8) by (simp add: rget_view [OF assms(1)])
  let ?r = "if stored then SetOK ?q3 else access_set DBL_UNABLE_WRITE ?q3"
  have run: "future_exec_query_Run R q2 w = Inr (?r, w3)"
    using rec b c V(7) by (simp add: future_exec_query_Run_def SetDest_def Write_def DelFuture_def Delete_def e_def
        split_colon_record assms(5-7) Let_def)
  have "view_of view q w3 k s = (if stored \<and> k = ?k \<and> s = ?s then Some (INT_KEY, to_bin (q_value q))
      else view_of view q w k s)" for k s
    using key_view_put [of INT_KEY "holds view ?d w" ?k ?s "to_bin (q_value q)" k s] assms(3) V(1)
    by (auto simp: C(1) apply_wop_def for_plain_def)
  moreover have "FutureManager_GetTIME ?d ?k ?s (w_futures w3) = - 1"
    using FutureManager_Delete_drop [OF assms(2)] timer_at_drop [OF assms(2)] V(3) C(3)
    by (simp add: e_def FutureManager_GetTIME_at)
  moreover have "if stored then q_finished ?r else \<not> q_finished ?r \<and> q_access ?r = DBL_UNABLE_WRITE"
    using assms(4) by (simp add: SetDest_def)
  moreover have "cleared \<longrightarrow> holds view ?d w3 ?rec = None" by (simp add: C(1) apply_wop_def)
  ultimately have "exec_done R view q w ?r w3"
    unfolding exec_done_def Let_def using batch_submitted [OF assms(1) b] batch_submitted [OF assms(1) c] by blast
  with run show ?thesis by blast
qed

text \<open>
  C38: FUTURE on a free name or a plain key, with a positive deadline (as a signed 32-bit number),
  submits exactly one batch, the future record of the deadline and the value, shows no value under
  any name yet, registers the deadline when the store takes the batch, and is finished whatever
  the store answers. When its record was taken, executing the future of that key right afterwards
  comes back: it submits the value under that name, colons included, forgets the deadline in the
  registry, and submits the deletion of the record; the name holds the value and the query is
  finished when the store took the value, is unchanged and UNABLE_WRITE otherwise, the record is
  gone when the store took the deletion, and every other name is as it was.
\<close>

theorem future_then_exec:
  assumes "rocks_ok R view" "futures_ok (w_futures w)"
    and "ready q w" "for_plain view q w" "0 < sint (q_id q)"
    and "ready q2 w" "q_key q2 = q_key q" "q_select_query q2 = q_select_query q" "q_database q2 = q_database q"
  shows "\<exists>q1 w1 ok. Prepare R (future_query_Run R) (future_query q) w = Inr (True, q1, w1) \<and>
    future_done R view q w ok q1 w1 \<and>
    (ok \<longrightarrow> (\<exists>b q3 w3. Prepare R (future_exec_query_Run R) (future_exec_query q2) w1 = Inr (b, q3, w3) \<and>
       exec_done R view q w1 q3 w3))"
proof -
  let ?q1 = "looked_up view (of_class QUERY_TYPE_FUTURE INT_KEY q) w"
  have nf: "\<not> q_finished q" "\<not> q_finished q2" using assms(3,6) by (simp_all add: ready_def)
  obtain ok w1 where 1: "future_query_Run R ?q1 w = Inr (SetOK ?q1, w1)" "future_done R view q w ok (SetOK ?q1) w1"
    using future_Run_done [OF assms(1,2,5) nf(1), of ?q1] by auto
  have p1: "Prepare R (future_query_Run R) (future_query q) w = Inr (True, SetOK ?q1, w1)"
    using Prepare_FUTURE(1) [OF assms(1,3,4)] 1(1) by (simp add: future_query_def run_then_def)
  obtain u where u: "submitted R view (q_database q)
        [WPut (future_record (q_key q) (q_select_query q) (d_name (w_dbs w (q_database q))))
             (convto_string (q_id q) @ '':'' @ q_value q)] w ok u" "w1 = (if ok then u\<lparr>w_futures := w_futures w1\<rparr> else u)"
    using 1(2) unfolding future_done_def by blast
  then have b: "batch_on R (q_database q) [WPut (future_record (q_key q) (q_select_query q) (d_name (w_dbs w (q_database q))))
             (convto_string (q_id q) @ '':'' @ q_value q)] w = (ok, u)" by (simp add: submitted_def)
  note V = batch_on_view [OF assms(1) b]
  have same: "w_dbs w1 = w_dbs u" by (subst u(2)) simp
  have v1: "view_of view q w1 k s = view_of view q w k s" for k s using 1(2) by (simp add: future_done_def)
  have r2: "ready q2 w1" "for_plain view q2 w1" "for_plain view q w1"
    using assms(4,6-9) v1 [of "q_key q" "q_select_query q"] by (auto simp: ready_def same V(8) for_plain_def)
  let ?q2 = "looked_up view (of_class QUERY_TYPE_FUTURE_RUN INT_KEY q2) w1"
  have "\<exists>b q3 w3. Prepare R (future_exec_query_Run R) (future_exec_query q2) w1 = Inr (b, q3, w3) \<and>
       exec_done R view q w1 q3 w3" if ok
  proof -
    have "futures_ok (w_futures w1)" using 1(2) that by (simp add: future_done_def)
    moreover have "holds view (q_database q) w1 (future_record (q_key q) (q_select_query q) (d_name (w_dbs w1 (q_database q)))) =
        Some (convto_string (q_id q) @ '':'' @ q_value q)"
      using V that by (simp add: same apply_wop_def)
    ultimately obtain q3 w3 where "future_exec_query_Run R ?q2 w1 = Inr (q3, w3)" "exec_done R view q w1 q3 w3"
      using exec_Run_done [OF assms(1) _ r2(3), of ?q2] nf(2) assms(7-9) by auto
    then show ?thesis
      using Prepare_FUTURE(2) [OF assms(1) r2(1,2)] by (auto simp: future_exec_query_def run_then_def)
  qed
  with p1 1(2) show ?thesis by blast
qed


section \<open>A deadline on a key\<close>

lemma Prepare_EXPIRE:
  assumes "rocks_ok R view" "ready q w"
  shows "Prepare R run (of_class QUERY_TYPE_EXPIRE INT_KEY q) w =
    (let q1 = looked_up view (of_class QUERY_TYPE_EXPIRE INT_KEY q) w
     in case own_view view q w of
          None \<Rightarrow> refuse (access_set DBL_NOT_FOUND q1) w
        | Some (t, v) \<Rightarrow> if t = INT_KEY then run_then True run q1 w else refuse (invalid_type q1) w)"
proof -
  have r: "ready (of_class QUERY_TYPE_EXPIRE INT_KEY q) w" using assms(2) by simp
  note G = GetRegistry_eq [OF assms(1), where do_load = False and q = "access_set DBL_STATUS_OK (of_class QUERY_TYPE_EXPIRE INT_KEY q)"]
  show ?thesis
    using G [of w]
    by (auto simp: Prepare_def Prepare_ready [OF r] Prepare_expire_def looked_up_def key_view_def located_def Let_def
        split: list.splits)
qed

definition deadline_set :: "('d \<Rightarrow> string \<rightharpoonup> string) \<Rightarrow> query \<Rightarrow> 'd world \<Rightarrow> 'd world \<Rightarrow> bool" where
  "deadline_set view q w w' \<longleftrightarrow>
     (\<forall>d. holds view d w' = (if d = q_database q then (holds view d w)
        (expire_record (q_key q) (q_select_query q) (d_name (w_dbs w d)) \<mapsto> convto_string (q_id q)) else holds view d w)) \<and>
     (0 < sint (q_id q) \<longrightarrow>
        (\<forall>k s d. ExpireManager_GetTIME d k s (w_expires w') =
           (if (k, s, d) = (q_key q, q_select_query q, q_database q) then sint (q_id q)
            else ExpireManager_GetTIME d k s (w_expires w))))"

definition store_as_before :: "('d \<Rightarrow> string \<rightharpoonup> string) \<Rightarrow> 'd world \<Rightarrow> 'd world \<Rightarrow> bool" where
  "store_as_before view w w' \<longleftrightarrow>
     (\<forall>d. holds view d w' = holds view d w) \<and> w_expires w' = w_expires w \<and> w_futures w' = w_futures w"

text \<open>
  EXPIRE on a free name is not found and on another type refused, the world unchanged; on a
  plain key it finishes, and either the record and the timer of that key and no other are both
  set, or, when the store refused the record, neither is.
\<close>

theorem expire_query_outcome:
  assumes "rocks_ok R view" "ready q w" "expires_ok (w_expires w)"
  shows "\<exists>b q' w'. Prepare R (expire_query_Run R) (expire_query q) w = Inr (b, q', w') \<and>
    (case own_view view q w of
       None \<Rightarrow> \<not> q_finished q' \<and> q_access q' = DBL_NOT_FOUND \<and> w' = w
     | Some (t, v) \<Rightarrow>
         if t \<noteq> INT_KEY then \<not> q_finished q' \<and> q_access q' = DBL_INVALID_TYPE \<and> w' = w
         else q_finished q' \<and> (deadline_set view q w w' \<or> store_as_before view w w') \<and>
           (never_fails R \<longrightarrow> deadline_set view q w w') \<and>
           ((\<forall>s b. \<not> fst (rwrite R s b)) \<longrightarrow> store_as_before view w w'))"
proof -
  let ?d = "q_database q" and ?q1 = "looked_up view (of_class QUERY_TYPE_EXPIRE INT_KEY q) w"
  let ?rec = "expire_record (q_key q) (q_select_query q) (d_name (w_dbs w (q_database q)))"
  note P = Prepare_EXPIRE [OF assms(1,2), of "expire_query_Run R"]
  show ?thesis
  proof (cases "\<exists>v. own_view view q w = Some (INT_KEY, v)")
    case False
    then show ?thesis
      using assms(2) by (cases "own_view view q w")
        (auto simp: P Let_def invalid_type_def ready_def expire_query_def)
  next
    case True
    obtain ok w1 where wr: "Write R ?rec (convto_string (q_id q)) ?q1 w = (ok, w1)" by fastforce
    note W = Write_view [OF assms(1) wr]
    let ?w = "WriteExpire R (q_key q) (q_select_query q) (q_id q) None ?q1 w"
    have eq: "?w = (if ok then w1\<lparr>w_expires := snd (ExpireManager_Add (w_now w1) ?d (sint (q_id q)) (q_key q)
        (q_select_query q) True (w_expires w1))\<rparr> else w1)"
      using wr by (simp add: WriteExpire_def Let_def)
    have run: "Prepare R (expire_query_Run R) (expire_query q) w = Inr (True, SetOK ?q1, ?w)"
      using True by (auto simp: P Let_def run_then_def expire_query_Run_def expire_query_def)
    have "deadline_set view q w ?w" if ok
      using ExpireManager_Add_ok [OF assms(3), of "sint (q_id q)" "sint (q_id q)" True "w_now w1" ?d "q_key q" "q_select_query q"] that sint_range [of "q_id q"]
      by (auto simp: deadline_set_def eq W(1,2) ExpireManager_GetTIME_at)
    moreover have "store_as_before view w ?w" if "\<not> ok"
      using that by (simp add: store_as_before_def eq W)
    moreover have "ok = fst (rwrite R (rocks_of ?d w) [WPut ?rec (convto_string (q_id q))])"
      using wr by (auto simp: Write_def batch_on_def split: prod.splits)
    ultimately show ?thesis using True by (auto simp: run never_fails_def)
  qed
qed

text \<open>
  EXPIRE on a plain key whose record the store refuses finishes all the same, nothing is set,
  and the client receives OK.
\<close>

theorem expire_acknowledged:
  assumes "rocks_ok R view" "ready q w" "expires_ok (w_expires w)"
    and "\<And>s b. \<not> fst (rwrite R s b)" "own_view view q w = Some (INT_KEY, v)"
  shows "\<exists>b q' w'. Prepare R (expire_query_Run R) (expire_query q) w = Inr (b, q', w') \<and> q_finished q' \<and>
    store_as_before view w w' \<and> expire_query_Process q' = [(BRLD_OK, PROCESS_OK)]"
  using expire_query_outcome [OF assms(1-3)] assms(4,5) by (auto simp: expire_query_Process_def)

text \<open>
  a record that another database left.
\<close>
theorem foreign_future_loaded:
  assumes "k \<noteq> []" "n \<noteq> m" "m \<noteq> []" "CHR '':'' \<notin> set m"
  shows "expire_entry n d (expire_record k s m, v) = None \<and>
    future_entry n d (future_record k s m, v) = Some ((k, s, d), convto_num_int (fst (split_colon v)))"
  using assms by (simp add: future_entry_raw expire_entry_def third_token colon_tokens_single)


section \<open>The theorems at a small database\<close>

definition timed_entries :: table where
  "timed_entries = [(raw_key ''a'' 1 INT_KEY, ''1''), (expire_record ''a'' 1 ''default'', ''90''),
     (future_record ''b'' 1 ''default'', ''80:x:y'')]"

definition read_only :: "table rocks" where
  "read_only = table_rocks\<lparr>rwrite := (\<lambda>s b. (False, s))\<rparr>"

lemma read_only_ok: "rocks_ok read_only map_of"
  using table_rocks_ok by (auto simp: rocks_ok_def read_only_def)

lemma table_never_fails: "never_fails table_rocks"
  by (simp add: never_fails_def table_rocks_def)

lemma ninety: "convto_num_int ''90'' = 90" "convto_num_int ''80'' = 80" "split_colon ''80:x:y'' = (''80'', ''x:y'')"
  by (simp_all add: convto_num_int_def scan_int_def is_digit_def isspace_def split_colon_def)

lemma timed_entries_own: "own_records ''default'' (map_of timed_entries)"
  using INT_in_TypeRegs(1) by (auto simp: own_records_def timed_entries_def ninety INT_defs split: if_splits)

lemma timed_entries_values:
  "map_of timed_entries (expire_record ''a'' 1 ''default'') = Some ''90''"
  "map_of timed_entries (future_record ''b'' 1 ''default'') = Some ''80:x:y''"
  using records_apart(1) [of INT_KEY "''a''" 1 "''a''" 1 "''default''"] records_apart(2) [of INT_KEY "''a''" 1 "''b''" 1 "''default''"]
  by (auto simp: timed_entries_def records_apart(3) [symmetric] simp del: records_apart(1,2))

lemma timed_world: "own_records (d_name (w_dbs (world_of timed_entries []) 0)) (holds map_of 0 (world_of timed_entries []))"
  "expires_ok (w_expires (world_of timed_entries []))" "futures_ok (w_futures (world_of timed_entries []))"
  by (simp_all add: timed_entries_own timers_ok_def world_of_def)

lemma expire_reload_witness:
  "\<exists>w'. expire_list_query_Run True table_rocks (ask [] []) (world_of timed_entries []) = Inr (ask [] [], w') \<and>
    ExpireManager_GetTIME 0 ''a'' 1 (w_expires w') = 90"
  using expire_reload [OF table_rocks_ok, where KeepExpires = True and q = "ask [] []" and w = "world_of timed_entries []"] timed_world
  by (auto simp: timed_entries_values ninety)

lemma future_reload_witness:
  "\<exists>w'. future_list_query_Run True table_rocks (ask [] []) (world_of timed_entries []) = Inr (ask [] [], w') \<and>
    FutureManager_GetTIME 0 ''b'' 1 (w_futures w') = 80"
  using future_reload [OF table_rocks_ok, where q = "ask [] []" and w = "world_of timed_entries []"] timed_world
  by (auto simp: timed_entries_values ninety)

lemma foreign_future_witness:
  "expire_entry ''default'' 0 (expire_record ''a'' 1 ''other'', ''90'') = None \<and>
    future_entry ''default'' 0 (future_record ''a'' 1 ''other'', ''90:x'') =
      Some ((''a'', 1, 0), convto_num_int (fst (split_colon ''90:x'')))"
  using foreign_future_loaded [of "''a''" "''default''" "''other''" 0 1] by auto

lemma future_then_exec_witness:
  "\<exists>q1 w1 b q3 w3. Prepare table_rocks (future_query_Run table_rocks) (future_query (ask ''b'' ''x:y''\<lparr>q_id := 80\<rparr>)) (one_world INT_KEY (to_bin ''1'')) = Inr (True, q1, w1) \<and>
    Prepare table_rocks (future_exec_query_Run table_rocks) (future_exec_query (ask ''b'' [])) w1 = Inr (b, q3, w3) \<and>
    q_finished q3 \<and> view_of map_of (ask ''b'' []) w3 ''b'' 1 = Some (INT_KEY, to_bin ''x:y'')"
proof -
  let ?q = "ask ''b'' ''x:y''\<lparr>q_id := 80\<rparr>" and ?w = "one_world INT_KEY (to_bin ''1'')"
  have took: "ok" if "submitted table_rocks map_of d b w ok w'" for d b ok and w w' :: "table world"
    using that by (simp add: submitted_def batch_on_def table_rocks_def)
  have h: "futures_ok (w_futures ?w)" "ready ?q ?w" "for_plain map_of ?q ?w" "0 < sint (q_id ?q)" "ready (ask ''b'' []) ?w"
    by (simp add: timers_ok_def world_of_def, simp_all add: for_plain_def del: to_bin.simps)
  obtain q1 w1 ok where 1: "Prepare table_rocks (future_query_Run table_rocks) (future_query ?q) ?w = Inr (True, q1, w1)"
    "future_done table_rocks map_of ?q ?w ok q1 w1"
    "ok \<Longrightarrow> \<exists>b q3 w3. Prepare table_rocks (future_exec_query_Run table_rocks) (future_exec_query (ask ''b'' [])) w1 = Inr (b, q3, w3) \<and>
       exec_done table_rocks map_of ?q w1 q3 w3"
    using future_then_exec [OF table_rocks_ok h] by auto
  have ok using 1(2) took unfolding future_done_def by blast
  then obtain b q3 w3 where 3: "Prepare table_rocks (future_exec_query_Run table_rocks) (future_exec_query (ask ''b'' [])) w1 = Inr (b, q3, w3)"
    "exec_done table_rocks map_of ?q w1 q3 w3" using 1(3) by blast
  have "q_finished q3 \<and> view_of map_of ?q w3 ''b'' 1 = Some (INT_KEY, to_bin ''x:y'')"
    using 3(2) took unfolding exec_done_def Let_def by (fastforce simp del: to_bin.simps)
  with 1(1) 3(1) show ?thesis by auto
qed

lemma expire_query_witness:
  "\<exists>b q' w'. Prepare table_rocks (expire_query_Run table_rocks) (expire_query (ask ''a'' []\<lparr>q_id := 90\<rparr>)) (one_world INT_KEY (to_bin ''1'')) = Inr (b, q', w') \<and>
    q_finished q' \<and> deadline_set map_of (ask ''a'' []\<lparr>q_id := 90\<rparr>) (one_world INT_KEY (to_bin ''1'')) w'"
  using expire_query_outcome [OF table_rocks_ok, of "ask ''a'' []\<lparr>q_id := 90\<rparr>" "one_world INT_KEY (to_bin ''1'')"] table_never_fails
  by (auto simp: timers_ok_def simp del: to_bin.simps)

lemma expire_acknowledged_witness:
  "\<exists>b q' w'. Prepare read_only (expire_query_Run read_only) (expire_query (ask ''a'' []\<lparr>q_id := 90\<rparr>)) (one_world INT_KEY (to_bin ''1'')) = Inr (b, q', w') \<and>
    q_finished q' \<and> w_expires w' = [] \<and> expire_query_Process q' = [(BRLD_OK, PROCESS_OK)]"
  using expire_acknowledged [OF read_only_ok, of "ask ''a'' []\<lparr>q_id := 90\<rparr>" "one_world INT_KEY (to_bin ''1'')" "to_bin ''1''"]
  by (auto simp: timers_ok_def read_only_def store_as_before_def simp del: to_bin.simps)

end
