(* ===== verification/Validators.thy ===== *)
theory Validators
  imports Wildcard Extras
begin

text \<open>
  What the server accepts as a name: the validators \<open>Daemon\<close> installs for logins, keys, agents,
  databases, channels, groups, hosts and server ids (\<open>src/daemon.cpp\<close>, \<open>src/engine.cpp\<close>), the
  comparisons of texts, and the durations of the configuration with their two directions.
\<close>

section \<open>Validators\<close>

text \<open>\<open>letter\<close>: from \<open>A\<close> to the closing brace, as the signed \<open>char\<close> comparisons have it.\<close>

definition letter :: "char \<Rightarrow> bool" where
  "letter c \<longleftrightarrow> CHR ''A'' \<le> c \<and> c \<le> CHR 0x7D"

primrec login_chars :: "bool \<Rightarrow> string \<Rightarrow> bool" where
  "login_chars first [] = True"
| "login_chars first (c # cs) =
     (if letter c then login_chars False cs
      else if (is_digit c \<or> c = CHR ''-'') \<and> \<not> first then login_chars False cs
      else False)"

definition LoginValidator :: "string \<Rightarrow> bool" where
  "LoginValidator login =
     (if login = [] \<or> length login < 3 \<or> length login > 15 then False else login_chars True login)"

primrec key_chars :: "string \<Rightarrow> bool" where
  "key_chars [] = True"
| "key_chars (c # cs) = (if c = CHR ''*'' \<or> c = CHR '':'' then False else key_chars cs)"

definition KeyValidator :: "string \<Rightarrow> bool" where
  "KeyValidator key = (if key = [] then False else key_chars key)"

definition agent_char :: "char \<Rightarrow> bool" where
  "agent_char c \<longleftrightarrow> letter c \<or> is_digit c \<or> c = CHR ''-'' \<or> c = CHR ''.''"

definition AgentValidator :: "string \<Rightarrow> bool" where
  "AgentValidator agent =
     (if agent = [] \<or> length agent < 3 \<or> length agent > 15 then False else list_all agent_char agent)"

definition DBValidator :: "string \<Rightarrow> bool" where
  "DBValidator name =
     (if name = [] \<or> length name < 3 \<or> length name > 15 then False else list_all agent_char name)"

text \<open>
  The loop over a host: \<open>i\<close> is the position, \<open>dots\<close> the count, \<open>was_dot\<close> and \<open>dashes\<close> what the
  characters before it left.
\<close>

primrec host_chars :: "nat \<Rightarrow> nat \<Rightarrow> nat \<Rightarrow> bool \<Rightarrow> nat \<Rightarrow> string \<Rightarrow> bool" where
  "host_chars hostend i dots was_dot dashes [] = (dots \<noteq> 0)"
| "host_chars hostend i dots was_dot dashes (c # cs) =
     (if c = CHR ''.''
      then (if was_dot \<or> dashes \<noteq> 0 \<or> i = 0 \<or> i = hostend then False
            else host_chars hostend (Suc i) (Suc dots) True dashes cs)
      else if c = CHR ''-''
      then (if dashes \<ge> 2 \<or> i = 0 \<or> i = hostend then False
            else host_chars hostend (Suc i) dots False (dashes + 1) cs)
      else if isalnum c then host_chars hostend (Suc i) dots False 0 cs
      else False)"

definition ValidHost :: "string \<Rightarrow> bool" where
  "ValidHost host =
     (if host = [] \<or> length host > 96 then False
      else host_chars (length host - 1) 0 0 False 0 host)"

definition Valid_SID :: "string \<Rightarrow> bool" where
  "Valid_SID str \<longleftrightarrow>
     (let upper = (\<lambda>c. CHR ''A'' \<le> c \<and> c \<le> CHR ''Z'')
      in length str = 3 \<and> is_digit (str ! 0) \<and> (upper (str ! 1) \<or> is_digit (str ! 1)) \<and>
         (upper (str ! 2) \<or> is_digit (str ! 2)))"

definition SameChars :: "string \<Rightarrow> bool" where
  "SameChars str = list_all (\<lambda>c. c = hd str) (tl str)"

definition no_separators :: "string \<Rightarrow> bool" where
  "no_separators = list_all (\<lambda>c. c \<noteq> CHR '' '' \<and> c \<noteq> CHR '','' \<and> c \<noteq> CHR 0x07)"

definition ChannelValidator :: "string \<Rightarrow> bool" where
  "ChannelValidator chname =
     (if chname = [] \<or> length chname > 15 then False
      else if hd chname \<noteq> CHR 0x23 \<or> chname = [CHR 0x23] \<or> (chname ! 1 = CHR 0x23 \<and> SameChars chname) then False
      else no_separators (tl chname))"

definition GroupValidator :: "string \<Rightarrow> bool" where
  "GroupValidator gname =
     (if gname = [] \<or> length gname > 15 then False
      else if \<not> isalpha gname then False
      else no_separators (tl gname))"

section \<open>Comparing texts\<close>

text \<open>\<open>diff\<close> gathers the bits in which two bytes differ.\<close>

primrec compare_diff :: "string \<Rightarrow> string \<Rightarrow> nat \<Rightarrow> nat" where
  "compare_diff [] js diff = diff"
| "compare_diff (a # is) js diff =
     compare_diff is (tl js) (Bit_Operations.or diff (Bit_Operations.xor (of_char a) (of_char (hd js))))"

definition TimingSafeCompare :: "string \<Rightarrow> string \<Rightarrow> bool" where
  "TimingSafeCompare one two = (if length one \<noteq> length two then False else compare_diff one two 0 = 0)"

text \<open>\<open>engine::equals\<close>, by which commands are looked up, on the texts up to their first NUL.\<close>

primrec equals_from :: "string \<Rightarrow> string \<Rightarrow> bool" where
  "equals_from [] n2 = (fold_char locale_case_insensitive_map (CHR 0x00) =
                        fold_char locale_case_insensitive_map (deref n2))"
| "equals_from (c # n1) n2 =
     (case n2 of
        [] \<Rightarrow> fold_char locale_case_insensitive_map c = fold_char locale_case_insensitive_map (CHR 0x00)
      | d # n2' \<Rightarrow> if fold_char locale_case_insensitive_map c \<noteq> fold_char locale_case_insensitive_map d
                   then False else equals_from n1 n2')"

definition engine_equals :: "string \<Rightarrow> string \<Rightarrow> bool" where
  "engine_equals s1 s2 = equals_from (c_str s1) (c_str s2)"

section \<open>Durations\<close>

type_synonym u64 = "64 word"

definition num_duration :: "char \<Rightarrow> u32" where
  "num_duration c =
     (if c \<in> {CHR ''D'', CHR ''d''} then 86400
      else if c \<in> {CHR ''H'', CHR ''h''} then 3600
      else if c \<in> {CHR ''M'', CHR ''m''} then 60
      else if c \<in> {CHR ''S'', CHR ''s''} then 1
      else if c \<in> {CHR ''W'', CHR ''w''} then 604800
      else if c \<in> {CHR ''Y'', CHR ''y''} then 31557600
      else 0)"

text \<open>\<open>None\<close>: the text is refused and the result left as it was.\<close>

primrec duration_loop :: "u64 \<Rightarrow> u64 \<Rightarrow> string \<Rightarrow> u64 option" where
  "duration_loop tot subtotal [] = Some (tot + subtotal)"
| "duration_loop tot subtotal (c # cs) =
     (if is_digit c then duration_loop tot (subtotal * 10 + of_nat (of_char c - 48)) cs
      else if num_duration c = 0 then None
      else duration_loop (tot + subtotal * ucast (num_duration c)) 0 cs)"

definition Daemon_Duration :: "string \<Rightarrow> u64 option" where
  "Daemon_Duration str = duration_loop 0 0 str"

definition Duration_or_zero :: "string \<Rightarrow> u64" where
  "Duration_or_zero str = (case Daemon_Duration str of Some d \<Rightarrow> d | None \<Rightarrow> 0)"

definition IsValidDuration :: "string \<Rightarrow> bool" where
  "IsValidDuration duration = list_all (\<lambda>c. is_digit c \<or> num_duration c \<noteq> 0) duration"

text \<open>\<open>time_t\<close> is signed; \<open>/\<close> and \<open>%\<close> cut towards zero.\<close>

definition dec_of_int :: "int \<Rightarrow> string" where
  "dec_of_int n = (if n < 0 then CHR ''-'' # dec_of_nat (nat (- n)) else dec_of_nat (nat n))"

definition duration_part :: "int \<Rightarrow> char \<Rightarrow> string" where
  "duration_part n unit = (if n \<noteq> 0 then dec_of_int n @ [unit] else [])"

definition duration_as_string :: "int \<Rightarrow> string" where
  "duration_as_string duration =
     (if duration = 0 then ''0s''
      else duration_part (duration sdiv 31449600) (CHR ''y'') @
           duration_part (duration sdiv 604800 smod 52) (CHR ''w'') @
           duration_part (duration sdiv 86400 smod 7) (CHR ''d'') @
           duration_part (duration sdiv 3600 smod 24) (CHR ''h'') @
           duration_part (duration sdiv 60 smod 60) (CHR ''m'') @
           duration_part (duration smod 60) (CHR ''s''))"

end
