(* ===== verification/Accounts.thy ===== *)
theory Accounts
  imports Validators MapQueries Hints Operations
begin

text \<open>
  Who may do what: the groups and their flags (\<open>src/group.cpp\<close>), the sessions and theirs
  (\<open>src/login.cpp\<close>), the questions a user is asked (\<open>src/instances.cpp\<close>), and the maps of the
  core database in which logins, groups and settings are kept (\<open>managers/c_maps.cpp\<close>,
  \<open>managers/settings.cpp\<close>, \<open>managers/user.cpp\<close>).  These run their query at once, in the main
  loop, and not through a data thread.
\<close>

section \<open>The environment\<close>

text \<open>
  What a command works in: the store, the core database, the databases by name, the memory a new
  query object is made in, the value of a null database pointer (a thread refuses a query without
  a database as it refuses one whose database is closing, so it is the number of a database that
  is), the arithmetic of \<open>double\<close>, the numbers the random generator draws next, and a time as
  \<open>strftime\<close> prints it.
\<close>

record ('d, 'n) env =
  e_rocks :: "'d rocks"
  e_core :: db
  e_find :: "string \<Rightarrow> db option"
  e_raw :: query
  e_null :: db
  e_dbl :: "'n dbl_ops"
  e_draws :: "(u32 \<times> u32) list"
  e_human :: "int \<Rightarrow> string"

text \<open>The constructor of \<open>QueryBase\<close>; numbers that it does not set are what the memory holds.\<close>

definition QueryBase :: "query \<Rightarrow> query" where
  "QueryBase raw = raw\<lparr>q_finished := False, q_key_required := False,
     q_mapped := \<lparr>rd_status = False, rd_value = [], rd_loaded = False\<rparr>, q_flags := QUERY_FLAGS_NONE,
     q_access := DBL_NONE, q_identified := [], q_dest := [], q_base_request := [], q_subresult := 0,
     q_partial := False, q_hesh := [], q_newkey := [], q_key := [], q_value := [], q_offset := 0,
     q_limit := 0, q_mlist := [], q_response := [], q_VecData := [], q_mmap := [], q_nmap := [],
     q_transf_db := None, q_user := 0, q_operation := OP_NONE, q_counter := 0, q_data := 0\<rparr>"

abbreviation new_object :: "('d, 'n) env \<Rightarrow> query" where
  "new_object E \<equiv> QueryBase (e_raw E)"

section \<open>Settings as truth values\<close>

definition equalsci :: "string \<Rightarrow> string \<Rightarrow> bool" where
  "equalsci a b \<longleftrightarrow> to_lower (c_str a) = to_lower (c_str b)"

definition Helpers_as_bool :: "string \<Rightarrow> bool \<Rightarrow> bool" where
  "Helpers_as_bool key def =
     (if key = [] then def
      else if equalsci key ''yes'' \<or> equalsci key ''true'' \<or> equalsci key ''on'' \<or> key = ''1'' then True
      else if equalsci key ''no'' \<or> equalsci key ''false'' \<or> equalsci key ''off'' \<or> key = ''0'' then False
      else def)"

definition Helpers_to_bool :: "bool \<Rightarrow> string" where
  "Helpers_to_bool boolean = (if boolean then ''true'' else ''false'')"

section \<open>Maps of the core database\<close>

definition Helpers_make_cmap :: "('d, 'n) env \<Rightarrow> string \<Rightarrow> string \<Rightarrow> query \<Rightarrow> query" where
  "Helpers_make_cmap E key hesh base =
     (let base = base\<lparr>q_database := e_core E, q_select_query := 1, q_flags := QUERY_FLAGS_CORE\<rparr>
      in if key \<noteq> [] \<and> hesh \<noteq> []
         then (let base = base\<lparr>q_key := key, q_hesh := hesh\<rparr>
               in if \<not> KeyValidator key then access_set DBL_INVALID_FORMAT base else base)
         else base)"

definition Helpers_make_cquery :: "('d, 'n) env \<Rightarrow> string \<Rightarrow> query \<Rightarrow> query" where
  "Helpers_make_cquery E key base =
     (let base = base\<lparr>q_database := e_core E, q_select_query := 1, q_flags := QUERY_FLAGS_CORE\<rparr>
      in if key \<noteq> []
         then (let base = base\<lparr>q_key := key\<rparr>
               in if \<not> KeyValidator key then access_set DBL_INVALID_FORMAT base else base)
         else base)"

record MapData =
  md_code :: DBL_CODE
  md_response :: string
  md_list :: "string list"

type_synonym ('d, 'r) on_core = "'d world \<Rightarrow> ('r \<times> 'd world) res"

definition CMapsHelper_Set ::
  "('d, 'n) env \<Rightarrow> string \<Rightarrow> string \<Rightarrow> string \<Rightarrow> ('d, MapData) on_core" where
  "CMapsHelper_Set E entry hesh value w =
     bind_res (Prepare (e_rocks E) (hset_query_Run (e_rocks E))
                 ((Helpers_make_cmap E entry hesh (hset_query (new_object E)))\<lparr>q_value := value\<rparr>) w)
       (\<lambda>(_, q, w'). Inr (\<lparr>md_code = DBL_MANAGER_OK, md_response = [], md_list = []\<rparr>, w'))"

definition CMapsHelper_Get :: "('d, 'n) env \<Rightarrow> string \<Rightarrow> string \<Rightarrow> ('d, MapData) on_core" where
  "CMapsHelper_Get E key hesh w =
     bind_res (Prepare (e_rocks E) (hget_query_Run (e_rocks E))
                 (Helpers_make_cmap E key hesh (hget_query (new_object E))) w)
       (\<lambda>(_, q, w'). Inr (\<lparr>md_code = q_access q, md_response = q_response q, md_list = []\<rparr>, w'))"

definition CMapsHelper_Del :: "('d, 'n) env \<Rightarrow> string \<Rightarrow> string \<Rightarrow> ('d, MapData) on_core" where
  "CMapsHelper_Del E key hesh w =
     bind_res (Prepare (e_rocks E) (hdel_query_Run (e_rocks E))
                 (Helpers_make_cmap E key hesh (hdel_query (new_object E))) w)
       (\<lambda>(_, q, w'). Inr (\<lparr>md_code = q_access q, md_response = [], md_list = []\<rparr>, w'))"

definition CMapsHelper_HList :: "('d, 'n) env \<Rightarrow> string \<Rightarrow> ('d, MapData) on_core" where
  "CMapsHelper_HList E entry w =
     bind_res (Prepare (e_rocks E) (hlist_query_Run (new_object E) (e_rocks E))
                 ((Helpers_make_cmap E entry [] (hlist_query (new_object E)))\<lparr>q_key := entry\<rparr>) w)
       (\<lambda>(_, q, w'). Inr (\<lparr>md_code = q_access q, md_response = [], md_list = q_VecData q\<rparr>, w'))"

definition CMapsHelper_Erase :: "('d, 'n) env \<Rightarrow> string \<Rightarrow> ('d, MapData) on_core" where
  "CMapsHelper_Erase E entry w =
     bind_res (Prepare (e_rocks E) (del_query_Run (e_rocks E))
                 ((Helpers_make_cmap E entry [] (del_query (new_object E)))\<lparr>q_key := entry\<rparr>) w)
       (\<lambda>(_, q, w'). Inr (\<lparr>md_code = q_access q, md_response = [], md_list = []\<rparr>, w'))"

definition STHelper_Set ::
  "('d, 'n) env \<Rightarrow> string \<Rightarrow> string \<Rightarrow> string \<Rightarrow> 'd world \<Rightarrow> 'd world res" where
  "STHelper_Set E type key value w = bind_res (CMapsHelper_Set E type key value w) (\<lambda>(_, w'). Inr w')"

definition STHelper_Get :: "('d, 'n) env \<Rightarrow> string \<Rightarrow> string \<Rightarrow> ('d, string) on_core" where
  "STHelper_Get E type key w = bind_res (CMapsHelper_Get E type key w) (\<lambda>(m, w'). Inr (md_response m, w'))"

definition STHelper_HList :: "('d, 'n) env \<Rightarrow> string \<Rightarrow> ('d, string list) on_core" where
  "STHelper_HList E key w = bind_res (CMapsHelper_HList E key w) (\<lambda>(m, w'). Inr (md_list m, w'))"

definition STHelper_Delete :: "('d, 'n) env \<Rightarrow> string \<Rightarrow> string \<Rightarrow> 'd world \<Rightarrow> 'd world res" where
  "STHelper_Delete E type key w = bind_res (CMapsHelper_Del E type key w) (\<lambda>(_, w'). Inr w')"

definition STHelper_Erase :: "('d, 'n) env \<Rightarrow> string \<Rightarrow> 'd world \<Rightarrow> 'd world res" where
  "STHelper_Erase E type w = bind_res (CMapsHelper_Erase E type w) (\<lambda>(_, w'). Inr w')"

definition UserHelper_Find :: "('d, 'n) env \<Rightarrow> string \<Rightarrow> string \<Rightarrow> ('d, string) on_core" where
  "UserHelper_Find E key value w =
     bind_res (CMapsHelper_Get E key value w) (\<lambda>(m, w'). Inr (md_response m, w'))"

definition UserHelper_Exists :: "('d, 'n) env \<Rightarrow> string \<Rightarrow> ('d, bool) on_core" where
  "UserHelper_Exists E user w =
     bind_res (UserHelper_Find E user ''created'' w) (\<lambda>(created, w'). Inr (created \<noteq> [], w'))"

text \<open>\<open>DBHelper::CType\<close> calls \<open>Run\<close> again after \<open>Prepare\<close>.\<close>

definition DBHelper_CType :: "('d, 'n) env \<Rightarrow> string \<Rightarrow> ('d, MapData) on_core" where
  "DBHelper_CType E key w =
     bind_res (Prepare (e_rocks E) type_query_Run
                 (Helpers_make_cquery E key (type_query (new_object E))) w) (\<lambda>(_, q, w1).
     bind_res (type_query_Run q w1) (\<lambda>(q', w').
       Inr (\<lparr>md_code = q_access q', md_response = TypeString (q_identified q') False, md_list = []\<rparr>, w')))"

section \<open>Groups\<close>

record Group =
  g_created :: int
  g_name :: string
  g_rawflags :: string
  can_do_all :: bool
  can_keys :: bool
  can_list :: bool
  can_geo :: bool
  can_vector :: bool
  can_expire :: bool
  can_future :: bool
  can_map :: bool
  can_mmap :: bool
  can_publish_chan :: bool
  can_publish_clients :: bool
  can_hints :: bool
  can_dual_exec :: bool

definition Group_Init :: "Group \<Rightarrow> Group" where
  "Group_Init g = g\<lparr>can_do_all := False, can_keys := False, can_list := False, can_geo := False,
     can_vector := False, can_expire := False, can_future := False, can_map := False,
     can_mmap := False, can_publish_chan := False, can_publish_clients := False,
     can_hints := False, can_dual_exec := False\<rparr>"

text \<open>The body of the loop over the flags, which stops at one it does not know, and the loop.\<close>

definition group_flag :: "char \<Rightarrow> Group \<Rightarrow> Group option" where
  "group_flag c g =
     (if c = CHR ''k'' then Some (g\<lparr>can_keys := True\<rparr>)
      else if c = CHR ''z'' then Some (g\<lparr>can_do_all := True\<rparr>)
      else if c = CHR ''l'' then Some (g\<lparr>can_list := True\<rparr>)
      else if c = CHR ''g'' then Some (g\<lparr>can_geo := True\<rparr>)
      else if c = CHR ''v'' then Some (g\<lparr>can_vector := True\<rparr>)
      else if c = CHR ''e'' then Some (g\<lparr>can_expire := True\<rparr>)
      else if c = CHR ''f'' then Some (g\<lparr>can_future := True\<rparr>)
      else if c = CHR ''m'' then Some (g\<lparr>can_map := True\<rparr>)
      else if c = CHR ''x'' then Some (g\<lparr>can_mmap := True\<rparr>)
      else if c = CHR ''p'' then Some (g\<lparr>can_publish_chan := True\<rparr>)
      else if c = CHR ''c'' then Some (g\<lparr>can_publish_clients := True\<rparr>)
      else if c = CHR ''h'' then Some (g\<lparr>can_hints := True\<rparr>)
      else if c = CHR ''w'' then Some (g\<lparr>can_dual_exec := True\<rparr>)
      else None)"

primrec group_flags :: "string \<Rightarrow> Group \<Rightarrow> bool \<times> Group" where
  "group_flags [] g = (True, g)"
| "group_flags (c # cs) g =
     (case group_flag c g of None \<Rightarrow> (False, g) | Some g' \<Rightarrow> group_flags cs g')"

text \<open>The new flags are appended to the old ones; only the new ones are written to the database.\<close>

definition Group_UpdateFlags ::
  "('d, 'n) env \<Rightarrow> string \<Rightarrow> Group \<Rightarrow> 'd world \<Rightarrow> (bool \<times> Group \<times> 'd world) res" where
  "Group_UpdateFlags E flags g w =
     (let g1 = (Group_Init g)\<lparr>g_rawflags := g_rawflags g @ flags\<rparr>;
          (ok, g2) = group_flags (g_rawflags g1) g1
      in if \<not> ok then Inr (False, g2, w)
         else bind_res (STHelper_Set E ''groups'' (g_name g2) flags w) (\<lambda>w'. Inr (True, g2, w')))"

definition Group_CanDo :: "char \<Rightarrow> Group \<Rightarrow> bool" where
  "Group_CanDo flag g =
     (if can_do_all g then True
      else if flag = CHR ''k'' \<and> can_keys g then True
      else if flag = CHR ''l'' \<and> can_list g then True
      else if flag = CHR ''g'' \<and> can_geo g then True
      else if flag = CHR ''v'' \<and> can_vector g then True
      else if flag = CHR ''e'' \<and> can_expire g then True
      else if flag = CHR ''f'' \<and> can_future g then True
      else if flag = CHR ''m'' \<and> can_map g then True
      else if flag = CHR ''x'' \<and> can_mmap g then True
      else if flag = CHR ''p'' \<and> can_publish_chan g then True
      else if flag = CHR ''c'' \<and> can_publish_clients g then True
      else if flag = CHR ''h'' \<and> can_hints g then True
      else if flag = CHR ''w'' \<and> can_dual_exec g then True
      else False)"

section \<open>Sessions\<close>

record Session =
  ss_rawflags :: string
  can_admin :: bool
  can_execute :: bool
  can_manage :: bool

primrec session_flags :: "string \<Rightarrow> Session \<Rightarrow> Session" where
  "session_flags [] new = new"
| "session_flags (c # cs) new =
     session_flags cs (if c = CHR ''r'' then new\<lparr>can_admin := True\<rparr>
                       else if c = CHR ''e'' then new\<lparr>can_execute := True\<rparr>
                       else if c = CHR ''m'' then new\<lparr>can_manage := True\<rparr>
                       else new)"

definition Session_SetFlags :: "Session \<Rightarrow> string \<Rightarrow> Session" where
  "Session_SetFlags new flags =
     session_flags flags (new\<lparr>can_admin := False, can_execute := False, can_manage := False\<rparr>)"

section \<open>Users\<close>

text \<open>
  What the command layer keeps of a local user.  A parsed command is its name and its parameters.
\<close>

type_synonym PendingCMD = "string \<times> string list"

definition REG_NONE :: nat where "REG_NONE = 0"
definition REG_USER :: nat where "REG_USER = 1"
definition REG_LOGIN :: nat where "REG_LOGIN = 2"
definition REG_LOGINUSER :: nat where "REG_LOGINUSER = 3"
definition REG_OK :: nat where "REG_OK = 7"

record client =
  cl_id :: nat
  cl_agent :: string
  cl_login :: string
  cl_database :: "db option"
  cl_select :: u32
  cl_registered :: nat
  cl_Paused :: bool
  cl_Locked :: bool
  cl_quitting :: bool
  cl_Groups :: "Group list"
  cl_session :: "Session option"
  cl_Multi :: bool
  cl_MultiRunning :: bool
  cl_PendingList :: "PendingCMD list"
  cl_PendingMulti :: "PendingCMD list"
  cl_touchbase :: int
  cl_next_ping_check :: int

definition User_InGroup :: "char \<Rightarrow> client \<Rightarrow> bool" where
  "User_InGroup flag user \<longleftrightarrow> (\<exists>group\<in>set (cl_Groups user). Group_CanDo flag group)"

definition User_CanPerform :: "char \<Rightarrow> client \<Rightarrow> bool" where
  "User_CanPerform flag user =
     (case cl_session user of
        None \<Rightarrow> False
      | Some s \<Rightarrow>
          if can_admin s then True
          else if flag = CHR ''m'' \<and> can_manage s then True
          else if flag = CHR ''e'' \<and> (can_execute s \<or> can_manage s) then True
          else False)"

definition User_IsAdmin :: "client \<Rightarrow> bool" where
  "User_IsAdmin user = (case cl_session user of None \<Rightarrow> False | Some s \<Rightarrow> can_admin s)"

definition User_GetFirstFlag :: "client \<Rightarrow> nat" where
  "User_GetFirstFlag user =
     (case cl_session user of
        None \<Rightarrow> 0
      | Some s \<Rightarrow> if can_admin s then 3 else if can_execute s then 2 else if can_manage s then 1 else 0)"

section \<open>What the flags of a group allow\<close>

text \<open>A group may do exactly what its flags say, up to the first flag that is not one.\<close>

abbreviation known_flags :: "char set" where
  "known_flags \<equiv> set ''kzlgvefmxpchw''"

lemma if_Some_E: "(if b then x else y) = Some z \<Longrightarrow> (b \<Longrightarrow> x = Some z \<Longrightarrow> P) \<Longrightarrow> (y = Some z \<Longrightarrow> P) \<Longrightarrow> P"
  by (auto split: if_splits)

lemma if_Some_None: "(if b then Some x else y) = None \<longleftrightarrow> \<not> b \<and> y = None"
  by auto

lemma CanDo_disj: "Group_CanDo flag g \<longleftrightarrow>
   can_do_all g \<or>
   flag = CHR ''k'' \<and> can_keys g \<or>
   flag = CHR ''l'' \<and> can_list g \<or>
   flag = CHR ''g'' \<and> can_geo g \<or>
   flag = CHR ''v'' \<and> can_vector g \<or>
   flag = CHR ''e'' \<and> can_expire g \<or>
   flag = CHR ''f'' \<and> can_future g \<or>
   flag = CHR ''m'' \<and> can_map g \<or>
   flag = CHR ''x'' \<and> can_mmap g \<or>
   flag = CHR ''p'' \<and> can_publish_chan g \<or>
   flag = CHR ''c'' \<and> can_publish_clients g \<or>
   flag = CHR ''h'' \<and> can_hints g \<or>
   flag = CHR ''w'' \<and> can_dual_exec g"
  by (simp only: Group_CanDo_def if_bool_eq_disj simp_thms) argo

lemma CanDo_update:
  "Group_CanDo flag (g\<lparr>can_keys := True\<rparr>) \<longleftrightarrow> Group_CanDo flag g \<or> flag = CHR ''k''"
  "Group_CanDo flag (g\<lparr>can_list := True\<rparr>) \<longleftrightarrow> Group_CanDo flag g \<or> flag = CHR ''l''"
  "Group_CanDo flag (g\<lparr>can_geo := True\<rparr>) \<longleftrightarrow> Group_CanDo flag g \<or> flag = CHR ''g''"
  "Group_CanDo flag (g\<lparr>can_vector := True\<rparr>) \<longleftrightarrow> Group_CanDo flag g \<or> flag = CHR ''v''"
  "Group_CanDo flag (g\<lparr>can_expire := True\<rparr>) \<longleftrightarrow> Group_CanDo flag g \<or> flag = CHR ''e''"
  "Group_CanDo flag (g\<lparr>can_future := True\<rparr>) \<longleftrightarrow> Group_CanDo flag g \<or> flag = CHR ''f''"
  "Group_CanDo flag (g\<lparr>can_map := True\<rparr>) \<longleftrightarrow> Group_CanDo flag g \<or> flag = CHR ''m''"
  "Group_CanDo flag (g\<lparr>can_mmap := True\<rparr>) \<longleftrightarrow> Group_CanDo flag g \<or> flag = CHR ''x''"
  "Group_CanDo flag (g\<lparr>can_publish_chan := True\<rparr>) \<longleftrightarrow> Group_CanDo flag g \<or> flag = CHR ''p''"
  "Group_CanDo flag (g\<lparr>can_publish_clients := True\<rparr>) \<longleftrightarrow> Group_CanDo flag g \<or> flag = CHR ''c''"
  "Group_CanDo flag (g\<lparr>can_hints := True\<rparr>) \<longleftrightarrow> Group_CanDo flag g \<or> flag = CHR ''h''"
  "Group_CanDo flag (g\<lparr>can_dual_exec := True\<rparr>) \<longleftrightarrow> Group_CanDo flag g \<or> flag = CHR ''w''"
  "Group_CanDo flag (g\<lparr>can_do_all := True\<rparr>)"
  unfolding CanDo_disj by simp_all argo+

lemma CanDo_flag:
  assumes "group_flag c g = Some g'"
  shows "Group_CanDo flag g' \<longleftrightarrow> Group_CanDo flag g \<or> c = CHR ''z'' \<or> flag = c"
  using assms unfolding group_flag_def
  by (elim if_Some_E) (auto simp: CanDo_update)

lemma known_flags_iff: "c \<in> known_flags \<longleftrightarrow> c = CHR ''k'' \<or> c = CHR ''z'' \<or> c = CHR ''l'' \<or>
    c = CHR ''g'' \<or> c = CHR ''v'' \<or> c = CHR ''e'' \<or> c = CHR ''f'' \<or> c = CHR ''m'' \<or> c = CHR ''x'' \<or>
    c = CHR ''p'' \<or> c = CHR ''c'' \<or> c = CHR ''h'' \<or> c = CHR ''w''"
  by simp

lemma group_flag_known: "group_flag c g = None \<longleftrightarrow> c \<notin> known_flags"
  unfolding known_flags_iff group_flag_def if_Some_None by simp

lemma group_flags_CanDo:
  assumes "group_flags cs g = (True, g')"
  shows "Group_CanDo flag g' \<longleftrightarrow> Group_CanDo flag g \<or> CHR ''z'' \<in> set cs \<or> flag \<in> set cs"
  using assms
proof (induction cs arbitrary: g)
  case (Cons c cs)
  then obtain g1 where "group_flag c g = Some g1" "group_flags cs g1 = (True, g')"
    by (auto split: option.splits)
  from Cons.IH [OF this(2)] CanDo_flag [OF this(1), of flag] show ?case by auto
qed simp

text \<open>Whether or not the loop came to the end of the flags: those up to the first unknown one count.\<close>

lemma group_flags_powers:
  "Group_CanDo flag (snd (group_flags cs g)) \<longleftrightarrow> Group_CanDo flag g \<or>
     CHR ''z'' \<in> set (takeWhile (\<lambda>c. c \<in> known_flags) cs) \<or> flag \<in> set (takeWhile (\<lambda>c. c \<in> known_flags) cs)"
proof (induction cs arbitrary: g)
  case (Cons c cs)
  show ?case
  proof (cases "group_flag c g")
    case None
    then have "c \<notin> known_flags" using group_flag_known by blast
    with None show ?thesis by simp
  next
    case (Some g')
    then have "c \<in> known_flags" using group_flag_known [of c g] by fastforce
    with Some Cons.IH [of g'] CanDo_flag [OF Some, of flag] show ?thesis by auto
  qed
qed simp

lemma group_flag_raw: "group_flag c g = Some g' \<Longrightarrow> g_rawflags g' = g_rawflags g"
  unfolding group_flag_def by (elim if_Some_E) auto

lemma group_flags_raw: "g_rawflags (snd (group_flags cs g)) = g_rawflags g"
  by (induction cs arbitrary: g) (auto split: option.split dest: group_flag_raw)

lemma group_flags_known: "fst (group_flags cs g) \<longleftrightarrow> set cs \<subseteq> known_flags"
proof (induction cs arbitrary: g)
  case (Cons c cs)
  then show ?case using group_flag_known [of c g]
    by (cases "group_flag c g") (simp_all del: known_flags_iff)
qed simp

lemma CanDo_Init: "\<not> Group_CanDo flag ((Group_Init g)\<lparr>g_rawflags := r\<rparr>)"
  by (simp add: Group_CanDo_def Group_Init_def)

lemma Session_flags: 
  "can_admin (session_flags fs s) \<longleftrightarrow> can_admin s \<or> CHR ''r'' \<in> set fs"
  "can_execute (session_flags fs s) \<longleftrightarrow> can_execute s \<or> CHR ''e'' \<in> set fs"
  "can_manage (session_flags fs s) \<longleftrightarrow> can_manage s \<or> CHR ''m'' \<in> set fs"
  by (induction fs arbitrary: s) auto

end
