(* ===== verification/Requests.thy ===== *)
theory Requests
  imports Accounts Dispatch KeyQueries ListQueries VectorQueries MultiQueries ScanQueries DiffQueries EtcQueries
begin

text \<open>
  From a command to the query it pushes: the reply of every class that answers one line
  (\<open>src/brldb/keys.cpp\<close>), query objects as the dispatcher takes them, the functions that fill in
  who asks (\<open>Helpers::make_query\<close> and its kin, \<open>src/settings.cpp\<close>), and those that fill in what is
  asked and push it (\<open>managers/keys.cpp\<close>, \<open>globals.cpp\<close>, \<open>expires.cpp\<close>, \<open>databases.cpp\<close>).  A
  helper returns the object it pushes.
\<close>

section \<open>Replies of one line\<close>

definition setex_query_Process :: "query \<Rightarrow> string" where "setex_query_Process q = PROCESS_OK"
definition expireat_query_Process :: "query \<Rightarrow> string" where "expireat_query_Process q = PROCESS_OK"
definition setnx_query_Process :: "query \<Rightarrow> string" where "setnx_query_Process q = PROCESS_OK"
definition settx_query_Process :: "query \<Rightarrow> string" where "settx_query_Process q = PROCESS_OK"
definition modify_query_Process :: "query \<Rightarrow> string" where "modify_query_Process q = PROCESS_OK"

definition get_substr_query_Process :: "query \<Rightarrow> string" where
  "get_substr_query_Process q = c_str (Helpers_Format (q_response q))"

definition append_query_Process :: "query \<Rightarrow> string" where
  "append_query_Process q = c_str (Helpers_Format (q_response q))"

definition getpersist_query_Process :: "query \<Rightarrow> string" where
  "getpersist_query_Process q = Helpers_Format (q_response q)"

definition getdel_query_Process :: "query \<Rightarrow> string" where
  "getdel_query_Process q = Helpers_Format (q_response q)"

definition getset_query_Process :: "query \<Rightarrow> string" where
  "getset_query_Process q = Helpers_Format (c_str (q_response q))"

definition getexp_query_Process :: "query \<Rightarrow> string" where
  "getexp_query_Process q = Helpers_Format (q_response q)"

definition insert_query_Process :: "query \<Rightarrow> string" where
  "insert_query_Process q = Helpers_Format (q_response q)"

definition get_occurs_query_Process :: "query \<Rightarrow> string" where
  "get_occurs_query_Process q = c_str (q_response q)"

definition strlen_query_Process :: "query \<Rightarrow> string" where "strlen_query_Process q = c_str (q_response q)"
definition random_query_Process :: "query \<Rightarrow> string" where "random_query_Process q = c_str (q_response q)"
definition alpha_query_Process :: "query \<Rightarrow> string" where "alpha_query_Process q = q_response q"
definition char_query_Process :: "query \<Rightarrow> string" where "char_query_Process q = q_response q"
definition isnum_query_Process :: "query \<Rightarrow> string" where "isnum_query_Process q = q_response q"
definition isbool_query_Process :: "query \<Rightarrow> string" where "isbool_query_Process q = q_response q"
definition asbool_query_Process :: "query \<Rightarrow> string" where "asbool_query_Process q = q_response q"
definition ismatch_query_Process :: "query \<Rightarrow> string" where "ismatch_query_Process q = q_response q"

definition count_query_Process :: "query \<Rightarrow> string" where
  "count_query_Process q = convto_string (q_counter q)"

definition wdel_query_Process :: "query \<Rightarrow> string" where
  "wdel_query_Process q = convto_string (q_counter q)"

section \<open>Query objects\<close>

text \<open>\<open>std::make_shared\<close> of a class that answers one line, some lines, or pages of a list.\<close>

definition text_object ::
  "('d, 'n) env \<Rightarrow> (query \<Rightarrow> query) \<Rightarrow> 'd run \<Rightarrow> (query \<Rightarrow> string) \<Rightarrow> 'd signal" where
  "text_object E cls run process =
     \<lparr>sg_query = cls (new_object E), sg_run = run,
      sg_process = (\<lambda>agent q. Inr [(BRLD_OK, process q)]),
      sg_page_process = (\<lambda>agent q. Inr []), sg_seq = 0\<rparr>"

definition line_object ::
  "('d, 'n) env \<Rightarrow> (query \<Rightarrow> query) \<Rightarrow> 'd run \<Rightarrow> (query \<Rightarrow> reply list) \<Rightarrow> 'd signal" where
  "line_object E cls run process =
     \<lparr>sg_query = cls (new_object E), sg_run = run, sg_process = (\<lambda>agent q. Inr (process q)),
      sg_page_process = (\<lambda>agent q. Inr []), sg_seq = 0\<rparr>"

definition page_object ::
  "('d, 'n) env \<Rightarrow> (query \<Rightarrow> query) \<Rightarrow> 'd run \<Rightarrow> (string \<Rightarrow> query \<Rightarrow> reply list res) \<Rightarrow> 'd signal" where
  "page_object E cls run process =
     \<lparr>sg_query = cls (new_object E), sg_run = run, sg_process = process, sg_page_process = process,
      sg_seq = 0\<rparr>"

abbreviation on_query :: "(query \<Rightarrow> query) \<Rightarrow> 'd signal \<Rightarrow> 'd signal" where
  "on_query f sg \<equiv> sg\<lparr>sg_query := f (sg_query sg)\<rparr>"

section \<open>Who asks\<close>

definition GetDatabase :: "('d, 'n) env \<Rightarrow> client \<Rightarrow> db" where
  "GetDatabase E user = (case cl_database user of None \<Rightarrow> e_null E | Some d \<Rightarrow> d)"

definition from_user :: "('d, 'n) env \<Rightarrow> client \<Rightarrow> query \<Rightarrow> query" where
  "from_user E user base =
     base\<lparr>q_user := cl_id user, q_database := GetDatabase E user, q_select_query := cl_select user\<rparr>"

definition Helpers_make_query :: "('d, 'n) env \<Rightarrow> client \<Rightarrow> string \<Rightarrow> bool \<Rightarrow> query \<Rightarrow> query" where
  "Helpers_make_query E user key allow base =
     (let base = from_user E user base
      in if key \<noteq> []
         then (let base = base\<lparr>q_key := key\<rparr>
               in if \<not> allow \<and> \<not> KeyValidator key then access_set DBL_INVALID_FORMAT base else base)
         else base)"

definition Helpers_make_mmap :: "('d, 'n) env \<Rightarrow> client \<Rightarrow> string \<Rightarrow> bool \<Rightarrow> query \<Rightarrow> query" where
  "Helpers_make_mmap E user key allow base =
     (let base = from_user E user base
      in if key \<noteq> []
         then (let base = base\<lparr>q_key := key\<rparr>
               in if \<not> allow \<and> \<not> KeyValidator key then access_set DBL_INVALID_FORMAT base else base)
         else base)"

definition Helpers_make_list :: "('d, 'n) env \<Rightarrow> client \<Rightarrow> string \<Rightarrow> bool \<Rightarrow> query \<Rightarrow> query" where
  "Helpers_make_list E user key allow base =
     (let base = from_user E user base
      in if key \<noteq> []
         then (let base = base\<lparr>q_key := key\<rparr>
               in if \<not> allow \<and> \<not> KeyValidator key then access_set DBL_INVALID_FORMAT base else base)
         else base)"

definition Helpers_make_geo_query :: "('d, 'n) env \<Rightarrow> client \<Rightarrow> string \<Rightarrow> query \<Rightarrow> query" where
  "Helpers_make_geo_query E user key base =
     (let base = from_user E user base in if key \<noteq> [] then base\<lparr>q_key := key\<rparr> else base)"

definition Helpers_make_map :: "('d, 'n) env \<Rightarrow> client \<Rightarrow> string \<Rightarrow> string \<Rightarrow> bool \<Rightarrow> query \<Rightarrow> query" where
  "Helpers_make_map E user key hesh allow base =
     (let base = from_user E user base
      in if key \<noteq> [] \<and> hesh \<noteq> []
         then (let base = base\<lparr>q_key := key, q_hesh := hesh\<rparr>
               in if \<not> allow \<and> \<not> KeyValidator key then access_set DBL_INVALID_FORMAT base else base)
         else base)"

section \<open>What is asked\<close>

definition KeyHelper_HeshVal ::
  "('d, 'n) env \<Rightarrow> client \<Rightarrow> 'd signal \<Rightarrow> string \<Rightarrow> string \<Rightarrow> string \<Rightarrow> 'd signal" where
  "KeyHelper_HeshVal E user query key val1 val2 =
     on_query (\<lambda>q. (Helpers_make_geo_query E user key q)\<lparr>q_value := val1, q_hesh := val2\<rparr>) query"

definition KeyHelper_AddPub ::
  "('d, 'n) env \<Rightarrow> client \<Rightarrow> 'd signal \<Rightarrow> string \<Rightarrow> string \<Rightarrow> string \<Rightarrow> string \<Rightarrow> 'd signal" where
  "KeyHelper_AddPub E user query chan key val1 val2 =
     on_query (\<lambda>q. (Helpers_make_geo_query E user key q)\<lparr>q_newkey := chan, q_value := val1, q_hesh := val2\<rparr>) query"

definition KeyHelper_Simple ::
  "('d, 'n) env \<Rightarrow> client \<Rightarrow> 'd signal \<Rightarrow> string \<Rightarrow> string \<Rightarrow> bool \<Rightarrow> 'd signal" where
  "KeyHelper_Simple E user query entry value do_stripe =
     on_query (\<lambda>q. (Helpers_make_query E user entry False q)
       \<lparr>q_value := if do_stripe then stripe value else value\<rparr>) query"

definition KeyHelper_Quick :: "('d, 'n) env \<Rightarrow> client \<Rightarrow> 'd signal \<Rightarrow> 'd signal" where
  "KeyHelper_Quick E user query = on_query (Helpers_make_query E user [] False) query"

definition KeyHelper_SimpleType ::
  "('d, 'n) env \<Rightarrow> client \<Rightarrow> 'd signal \<Rightarrow> string \<Rightarrow> QUERY_TYPE \<Rightarrow> 'd signal" where
  "KeyHelper_SimpleType E user query entry type =
     on_query (\<lambda>q. (Helpers_make_query E user entry False q)\<lparr>q_type := type\<rparr>) query"

definition KeyHelper_RetroFunc ::
  "('d, 'n) env \<Rightarrow> client \<Rightarrow> 'd signal \<Rightarrow> string \<Rightarrow> STR_FUNCTION \<Rightarrow> bool \<Rightarrow> 'd signal" where
  "KeyHelper_RetroFunc E user query entry func allow =
     on_query (\<lambda>q. (Helpers_make_query E user entry allow q)\<lparr>q_function := func\<rparr>) query"

definition KeyHelper_Retro :: "('d, 'n) env \<Rightarrow> client \<Rightarrow> 'd signal \<Rightarrow> string \<Rightarrow> bool \<Rightarrow> 'd signal" where
  "KeyHelper_Retro E user query entry allow = on_query (Helpers_make_query E user entry allow) query"

definition KeyHelper_HeshLimits ::
  "('d, 'n) env \<Rightarrow> client \<Rightarrow> 'd signal \<Rightarrow> string \<Rightarrow> string \<Rightarrow> int \<Rightarrow> int \<Rightarrow> bool \<Rightarrow> 'd signal" where
  "KeyHelper_HeshLimits E user query entry value offset limit allow =
     on_query (\<lambda>q. (Helpers_make_query E user entry allow q)
       \<lparr>q_value := stripe value, q_offset := offset, q_limit := limit\<rparr>) query"

definition KeyHelper_RetroLimits ::
  "('d, 'n) env \<Rightarrow> client \<Rightarrow> 'd signal \<Rightarrow> string \<Rightarrow> int \<Rightarrow> int \<Rightarrow> bool \<Rightarrow> 'd signal" where
  "KeyHelper_RetroLimits E user query entry offset limit allow =
     on_query (\<lambda>q. (Helpers_make_query E user entry allow q)\<lparr>q_offset := offset, q_limit := limit\<rparr>) query"

definition KeyHelper_SimpleRetro ::
  "('d, 'n) env \<Rightarrow> client \<Rightarrow> 'd signal \<Rightarrow> string \<Rightarrow> string \<Rightarrow> 'd signal" where
  "KeyHelper_SimpleRetro E user query entry value =
     on_query (\<lambda>q. (Helpers_make_query E user entry False q)\<lparr>q_value := value\<rparr>) query"

definition KeyHelper_SimpleHesh ::
  "('d, 'n) env \<Rightarrow> client \<Rightarrow> 'd signal \<Rightarrow> string \<Rightarrow> string \<Rightarrow> string \<Rightarrow> 'd signal" where
  "KeyHelper_SimpleHesh E user query kmap entry value =
     on_query (\<lambda>q. (Helpers_make_map E user kmap entry False q)\<lparr>q_value := stripe value\<rparr>) query"

definition KeyHelper_HeshRetro ::
  "('d, 'n) env \<Rightarrow> client \<Rightarrow> 'd signal \<Rightarrow> string \<Rightarrow> string \<Rightarrow> 'd signal" where
  "KeyHelper_HeshRetro E user query entry value = on_query (Helpers_make_map E user entry value False) query"

text \<open>A time is kept in 32 bits: \<open>now\<close> is \<open>Kernel->Now()\<close>.\<close>

definition KeyHelper_IDRetro ::
  "('d, 'n) env \<Rightarrow> int \<Rightarrow> client \<Rightarrow> 'd signal \<Rightarrow> string \<Rightarrow> string \<Rightarrow> 'd signal" where
  "KeyHelper_IDRetro E now user query entry seconds =
     on_query (\<lambda>q. (Helpers_make_query E user entry False q)
       \<lparr>q_id := of_int now + convto_num_uint seconds\<rparr>) query"

definition KeyHelper_Operation ::
  "('d, 'n) env \<Rightarrow> client \<Rightarrow> string \<Rightarrow> OP_TYPE \<Rightarrow> string \<Rightarrow> 'd signal" where
  "KeyHelper_Operation E user key type oper =
     on_query (\<lambda>q. (Helpers_make_query E user key False q)\<lparr>q_value := oper, q_operation := type\<rparr>)
       (line_object E op_query (op_query_Run (e_dbl E) (e_rocks E)) op_query_Process)"

section \<open>Commands on keys of any type\<close>

definition GlobalHelper_Transfer :: "('d, 'n) env \<Rightarrow> client \<Rightarrow> string \<Rightarrow> db \<Rightarrow> 'd signal" where
  "GlobalHelper_Transfer E user entry d =
     on_query (\<lambda>q. (Helpers_make_query E user entry False q)\<lparr>q_transf_db := Some d, q_value := entry\<rparr>)
       (text_object E transfer_query (transfer_query_Run (e_rocks E)) transfer_query_Process)"

definition GlobalHelper_Touch :: "('d, 'n) env \<Rightarrow> client \<Rightarrow> string \<Rightarrow> 'd signal" where
  "GlobalHelper_Touch E user entry =
     on_query (\<lambda>q. (Helpers_make_query E user entry False q)\<lparr>q_value := entry\<rparr>)
       (line_object E touch_query (touch_query_Run (e_rocks E)) touch_query_Process)"

definition GlobalHelper_NTouch :: "('d, 'n) env \<Rightarrow> client \<Rightarrow> string \<Rightarrow> 'd signal" where
  "GlobalHelper_NTouch E user entry =
     on_query (\<lambda>q. (Helpers_make_query E user entry False q)\<lparr>q_value := entry\<rparr>)
       (line_object E ntouch_query (ntouch_query_Run (e_rocks E)) ntouch_query_Process)"

definition GlobalHelper_Clone :: "('d, 'n) env \<Rightarrow> client \<Rightarrow> string \<Rightarrow> string \<Rightarrow> 'd signal" where
  "GlobalHelper_Clone E user entry dest =
     on_query (\<lambda>q. (Helpers_make_query E user entry False q)\<lparr>q_value := dest\<rparr>)
       (text_object E clone_query (clone_query_Run (e_rocks E)) clone_query_Process)"

definition GlobalHelper_Copy :: "('d, 'n) env \<Rightarrow> client \<Rightarrow> string \<Rightarrow> string \<Rightarrow> 'd signal" where
  "GlobalHelper_Copy E user entry dest =
     on_query (\<lambda>q. (Helpers_make_query E user entry False q)\<lparr>q_value := dest\<rparr>)
       (text_object E copy_query (copy_query_Run (e_rocks E)) copy_query_Process)"

definition GlobalHelper_Delete :: "('d, 'n) env \<Rightarrow> client \<Rightarrow> string \<Rightarrow> 'd signal" where
  "GlobalHelper_Delete E user entry =
     on_query (Helpers_make_query E user entry False)
       (text_object E del_query (del_query_Run (e_rocks E)) del_query_Process)"

definition GlobalHelper_Rename :: "('d, 'n) env \<Rightarrow> client \<Rightarrow> string \<Rightarrow> string \<Rightarrow> 'd signal" where
  "GlobalHelper_Rename E user entry dest =
     on_query (\<lambda>q. (Helpers_make_query E user entry False q)\<lparr>q_value := dest\<rparr>)
       (text_object E rename_query (rename_query_Run (e_rocks E)) rename_query_Process)"

definition GlobalHelper_RenameNX :: "('d, 'n) env \<Rightarrow> client \<Rightarrow> string \<Rightarrow> string \<Rightarrow> 'd signal" where
  "GlobalHelper_RenameNX E user entry dest =
     on_query (\<lambda>q. (Helpers_make_query E user entry False q)\<lparr>q_value := dest\<rparr>)
       (text_object E renamenx_query (renamenx_query_Run (e_rocks E)) renamenx_query_Process)"

definition GlobalHelper_Move :: "('d, 'n) env \<Rightarrow> client \<Rightarrow> string \<Rightarrow> string \<Rightarrow> 'd signal" where
  "GlobalHelper_Move E user entry dest =
     on_query (\<lambda>q. (Helpers_make_query E user entry False q)\<lparr>q_value := dest\<rparr>)
       (text_object E move_query (move_query_Run (e_rocks E)) move_query_Process)"

definition GlobalHelper_Exists :: "('d, 'n) env \<Rightarrow> client \<Rightarrow> string \<Rightarrow> 'd signal" where
  "GlobalHelper_Exists E user entry =
     on_query (Helpers_make_query E user entry False)
       (text_object E exists_query exists_query_Run exists_query_Process)"

definition GlobalHelper_Diff ::
  "('d, 'n) env \<Rightarrow> client \<Rightarrow> string \<Rightarrow> string \<Rightarrow> int \<Rightarrow> int \<Rightarrow> 'd signal" where
  "GlobalHelper_Diff E user key value offset limit =
     on_query (\<lambda>q. (Helpers_make_query E user key False q)\<lparr>q_value := value, q_limit := limit, q_offset := offset\<rparr>)
       (page_object E diff_query (diff_query_Run (new_object E) (e_rocks E)) diff_query_Process)"

text \<open>The server's own deletions and executions, when a deadline has passed.\<close>

definition own_query :: "db \<Rightarrow> u32 \<Rightarrow> string \<Rightarrow> query \<Rightarrow> query" where
  "own_query database where' key q =
     q\<lparr>q_user := Global, q_database := database, q_select_query := where', q_flags := QUERY_FLAGS_QUIET, q_key := key\<rparr>"

definition GlobalHelper_ExpireDelete :: "('d, 'n) env \<Rightarrow> db \<Rightarrow> u32 \<Rightarrow> string \<Rightarrow> 'd signal" where
  "GlobalHelper_ExpireDelete E database where' key =
     on_query (own_query database where' key)
       (text_object E del_query (del_query_Run (e_rocks E)) del_query_Process)"

definition GlobalHelper_FutureExecute :: "('d, 'n) env \<Rightarrow> db \<Rightarrow> u32 \<Rightarrow> string \<Rightarrow> 'd signal" where
  "GlobalHelper_FutureExecute E database where' key =
     on_query (own_query database where' key)
       (line_object E future_exec_query (future_exec_query_Run (e_rocks E)) future_exec_query_Process)"

definition GlobalHelper_FutureGlobalCancel :: "('d, 'n) env \<Rightarrow> db \<Rightarrow> u32 \<Rightarrow> string \<Rightarrow> 'd signal" where
  "GlobalHelper_FutureGlobalCancel E database where' key =
     on_query (own_query database where' key)
       (line_object E future_del_query (future_del_query_Run (e_rocks E)) future_del_query_Process)"

definition GlobalHelper_UserFutureExecute :: "('d, 'n) env \<Rightarrow> client \<Rightarrow> string \<Rightarrow> 'd signal" where
  "GlobalHelper_UserFutureExecute E user key =
     on_query (Helpers_make_query E user key False)
       (line_object E future_exec_query (future_exec_query_Run (e_rocks E)) future_exec_query_Process)"

definition GlobalHelper_FutureCancel :: "('d, 'n) env \<Rightarrow> client \<Rightarrow> string \<Rightarrow> 'd signal" where
  "GlobalHelper_FutureCancel E user key =
     on_query (Helpers_make_query E user key False)
       (line_object E future_del_query (future_del_query_Run (e_rocks E)) future_del_query_Process)"

section \<open>Deadlines\<close>

definition ExpireHelper_Future :: "('d, 'n) env \<Rightarrow> int \<Rightarrow> client \<Rightarrow> string \<Rightarrow> u32 \<Rightarrow> string \<Rightarrow> 'd signal" where
  "ExpireHelper_Future E now user entry ttl value =
     on_query (\<lambda>q. (Helpers_make_query E user entry False q)\<lparr>q_value := stripe value, q_id := of_int now + ttl\<rparr>)
       (line_object E future_query (future_query_Run (e_rocks E)) future_query_Process)"

definition ExpireHelper_FutureAT :: "('d, 'n) env \<Rightarrow> client \<Rightarrow> string \<Rightarrow> u32 \<Rightarrow> string \<Rightarrow> 'd signal" where
  "ExpireHelper_FutureAT E user entry ttl value =
     on_query (\<lambda>q. (Helpers_make_query E user entry False q)\<lparr>q_value := stripe value, q_id := ttl\<rparr>)
       (line_object E future_query (future_query_Run (e_rocks E)) future_query_Process)"

definition ExpireHelper_Expire :: "('d, 'n) env \<Rightarrow> int \<Rightarrow> client \<Rightarrow> string \<Rightarrow> u32 \<Rightarrow> 'd signal" where
  "ExpireHelper_Expire E now user entry ttl =
     on_query (\<lambda>q. (Helpers_make_query E user entry False q)\<lparr>q_id := of_int now + ttl\<rparr>)
       (line_object E expire_query (expire_query_Run (e_rocks E)) expire_query_Process)"

definition ExpireHelper_Setex ::
  "('d, 'n) env \<Rightarrow> int \<Rightarrow> client \<Rightarrow> u32 \<Rightarrow> string \<Rightarrow> string \<Rightarrow> 'd signal" where
  "ExpireHelper_Setex E now user exp_usig key value =
     on_query (\<lambda>q. (Helpers_make_query E user key False q)\<lparr>q_value := stripe value, q_id := of_int now + exp_usig\<rparr>)
       (text_object E setex_query (setex_query_Run (e_rocks E)) setex_query_Process)"

definition ExpireHelper_ExpireAT :: "('d, 'n) env \<Rightarrow> client \<Rightarrow> string \<Rightarrow> u32 \<Rightarrow> 'd signal" where
  "ExpireHelper_ExpireAT E user entry ttl =
     on_query (\<lambda>q. (Helpers_make_query E user entry False q)\<lparr>q_id := ttl\<rparr>)
       (text_object E expireat_query (expireat_query_Run (e_rocks E)) expireat_query_Process)"

definition ExpireHelper_QuickPersist :: "('d, 'n) env \<Rightarrow> client \<Rightarrow> string \<Rightarrow> 'd signal" where
  "ExpireHelper_QuickPersist E user key =
     on_query (Helpers_make_query E user key False)
       (line_object E expire_del_query (expire_del_query_Run (e_rocks E))
         (\<lambda>q. case expire_del_query_Process q of None \<Rightarrow> [] | Some l \<Rightarrow> [(BRLD_OK, l)]))"

text \<open>The queries that load the timers of a database; \<open>keep\<close> is whether the timers are kept.\<close>

definition ExpireHelper_ListFutures :: "('d, 'n) env \<Rightarrow> bool \<Rightarrow> db \<Rightarrow> bool \<Rightarrow> 'd signal" where
  "ExpireHelper_ListFutures E keep d lst =
     on_query (\<lambda>q. let q = q\<lparr>q_database := d, q_user := Global, q_flags := QUERY_FLAGS_GLOBAL\<rparr>
                   in if lst then q\<lparr>q_id := 1000\<rparr> else q)
       (line_object E future_list_query (future_list_query_Run keep (e_rocks E)) (\<lambda>q. []))"

definition ExpireHelper_List :: "('d, 'n) env \<Rightarrow> bool \<Rightarrow> db \<Rightarrow> 'd signal" where
  "ExpireHelper_List E keep d =
     on_query (\<lambda>q. q\<lparr>q_database := d, q_user := Global\<rparr>)
       (line_object E expire_list_query (expire_list_query_Run keep (e_rocks E)) (\<lambda>q. []))"

section \<open>Queries on a select\<close>

definition DBHelper_SFlush :: "('d, 'n) env \<Rightarrow> client \<Rightarrow> string \<Rightarrow> 'd signal" where
  "DBHelper_SFlush E user key =
     on_query (Helpers_make_query E user key False)
       (line_object E sflush_query (sflush_query_Run (e_rocks E)) sflush_query_Process)"

definition DBHelper_List :: "('d, 'n) env \<Rightarrow> client \<Rightarrow> 'd signal" where
  "DBHelper_List E user =
     on_query (Helpers_make_query E user [] False)
       (page_object E list_query (list_query_Run (e_rocks E)) (\<lambda>agent q. Inr (list_query_Process agent q)))"

definition DBHelper_GList :: "('d, 'n) env \<Rightarrow> client \<Rightarrow> 'd signal" where
  "DBHelper_GList E user =
     on_query (Helpers_make_query E user [] False)
       (page_object E glist_query (glist_query_Run (e_rocks E)) (\<lambda>agent q. Inr (glist_query_Process agent q)))"

definition DBHelper_Total :: "('d, 'n) env \<Rightarrow> client \<Rightarrow> 'd signal" where
  "DBHelper_Total E user =
     on_query (Helpers_make_query E user [] False)
       (line_object E total_query (total_query_Run (e_rocks E)) total_query_Process)"

end
