(* ===== verification/Commands.thy ===== *)
theory Commands
  imports Requests
begin

text \<open>
  What every command shares: its fields and their defaults (\<open>include/chandler.h\<close>,
  \<open>src/commands.cpp\<close>), the session a handler works in, and the checks of arguments
  (\<open>include/maker.h\<close>, \<open>Daemon::CheckRange\<close>).
\<close>

section \<open>Codes and messages\<close>

definition ERR_INPUT2 :: nat where "ERR_INPUT2 = 587"
definition ERR_INVALID_RANGE :: nat where "ERR_INVALID_RANGE = 549"
definition ERR_NO_FLAGS :: nat where "ERR_NO_FLAGS = 539"
definition ERR_MISS_PARAMS :: nat where "ERR_MISS_PARAMS = 521"
definition ERR_MULTI :: nat where "ERR_MULTI = 581"
definition BRLD_SYNTAX :: nat where "BRLD_SYNTAX = 135"
definition BRLD_QUEUED :: nat where "BRLD_QUEUED = 162"
definition BRLD_MULTI_START :: nat where "BRLD_MULTI_START = 165"
definition BRLD_MULTI_STOP :: nat where "BRLD_MULTI_STOP = 169"

definition MUST_BE_NUMERIC :: string where "MUST_BE_NUMERIC = ''MUST_BE_NUMERIC''"
definition MUST_BE_POSIT :: string where "MUST_BE_POSIT = ''MUST_BE_POSIT''"
definition MUST_BE_GREAT_ZERO :: string where "MUST_BE_GREAT_ZERO = ''GREATER_THAN_ZERO''"
definition INVALID_TYPE :: string where "INVALID_TYPE = ''INVALID''"
definition INVALID_VALUE :: string where "INVALID_VALUE = ''INVALID_VALUE''"
definition INVALID_KEY :: string where "INVALID_KEY = ''INVALID_KEY''"
definition INVALID_UNAME :: string where "INVALID_UNAME = ''INVALID_LOGIN''"
definition USER_MIMMAX_LENGTH :: string where "USER_MIMMAX_LENGTH = ''EXCEED_RANGE''"
definition ACCESS_DENIED :: string where "ACCESS_DENIED = ''ACCESS_DENIED''"
definition NO_AUTH :: string where "NO_AUTH = ''NOT_LOGGED''"
definition NO_SYNTAX :: string where "NO_SYNTAX = ''NO_SYNTAX''"
definition PROCESS_ERROR :: string where "PROCESS_ERROR = ''ERROR''"
definition DATABASE_BUSY :: string where "DATABASE_BUSY = ''DATABASE_BUSY''"
definition ROOT_USER :: string where "ROOT_USER = ''root''"

definition PING_INTVL :: int where "PING_INTVL = 10"

section \<open>The session of a handler\<close>

datatype COMMAND_RESULT = FAILED | SUCCESS | INVALID

datatype MONITOR = MONITOR_DEFAULT | MONITOR_DEBUG

text \<open>
  What a command does to the outside, in order: it sends a line to a user (\<open>SendProtocol\<close> takes a
  code and its arguments), pushes a query, tells the administrators something, and is reported to
  the monitors and to the modules.
\<close>

datatype 'd event =
    Send nat nat "string list"
  | Push "'d signal"
  | Notify string
  | Monitored string MONITOR "string list"
  | OnCommandBlocked string "string list"
  | OnPostCommand string "string list" COMMAND_RESULT

record 'd session =
  se_user :: client
  se_world :: "'d world"
  se_log :: "'d event list"

type_synonym ('d, 'n) handler =
  "('d, 'n) env \<Rightarrow> int \<times> int \<Rightarrow> string list \<Rightarrow> 'd session \<Rightarrow> (COMMAND_RESULT \<times> 'd session) res"

definition happens :: "'d event \<Rightarrow> 'd session \<Rightarrow> 'd session" where
  "happens e s = s\<lparr>se_log := se_log s @ [e]\<rparr>"

definition SendProtocol :: "nat \<Rightarrow> string list \<Rightarrow> 'd session \<Rightarrow> 'd session" where
  "SendProtocol code args s = happens (Send (cl_id (se_user s)) code args) s"

abbreviation push :: "'d signal \<Rightarrow> 'd session \<Rightarrow> 'd session" where
  "push sg \<equiv> happens (Push sg)"

text \<open>A parameter is read with \<open>operator[]\<close>, which does not check its index.\<close>

definition param :: "string list \<Rightarrow> int \<Rightarrow> string res" where
  "param ps i = (if 0 \<le> i \<and> i < int (length ps) then Inr (ps ! nat i) else Inl Undefined_behaviour)"

definition params_back :: "string list \<Rightarrow> string res" where
  "params_back ps = (if ps \<noteq> [] then Inr (last ps) else Inl Undefined_behaviour)"

definition sent_lines :: "nat \<Rightarrow> 'd event list \<Rightarrow> (nat \<times> string list) list" where
  "sent_lines u es = concat (map (\<lambda>e. case e of Send v c l \<Rightarrow> if v = u then [(c, l)] else [] | _ \<Rightarrow> []) es)"

definition pushed :: "'d event list \<Rightarrow> 'd signal list" where
  "pushed es = concat (map (\<lambda>e. case e of Push sg \<Rightarrow> [sg] | _ \<Rightarrow> []) es)"

section \<open>Checks of arguments\<close>

text \<open>Each sends its error line when it fails.\<close>

definition CheckValidPos :: "string \<Rightarrow> 'd session \<Rightarrow> bool \<times> 'd session" where
  "CheckValidPos number s =
     (if \<not> is_number number False then (False, SendProtocol ERR_INPUT [MUST_BE_NUMERIC] s)
      else if \<not> is_positive_number number then (False, SendProtocol ERR_INPUT [MUST_BE_POSIT] s)
      else (True, s))"

definition CheckValid :: "string \<Rightarrow> 'd session \<Rightarrow> bool \<times> 'd session" where
  "CheckValid number s =
     (if \<not> is_number number False then (False, SendProtocol ERR_INPUT [MUST_BE_NUMERIC] s) else (True, s))"

definition CheckFormat :: "string \<Rightarrow> bool \<Rightarrow> 'd session \<Rightarrow> bool \<times> 'd session" where
  "CheckFormat val notify s =
     (if length val = 0 then (False, if notify then SendProtocol ERR_INPUT [INVALID_TYPE] s else s)
      else if length val = 1 then (True, s)
      else if is_number val True then (True, s)
      else if is_correct val then (True, s)
      else (False, if notify then SendProtocol ERR_INPUT [INVALID_VALUE] s else s))"

definition maker_CheckKey :: "string \<Rightarrow> bool \<Rightarrow> 'd session \<Rightarrow> bool \<times> 'd session" where
  "maker_CheckKey val notify s =
     (if val = [] then (False, if notify then SendProtocol ERR_INPUT [INVALID_KEY] s else s)
      else if KeyValidator val then (True, s)
      else (False, if notify then SendProtocol ERR_INPUT [INVALID_KEY] s else s))"

definition CheckRange :: "string \<Rightarrow> string \<Rightarrow> int \<Rightarrow> int \<Rightarrow> 'd session \<Rightarrow> bool \<times> 'd session" where
  "CheckRange val reason lo hi s =
     (let to_num = convto_num_int val
      in if to_num \<ge> lo \<and> to_num \<le> hi then (True, s)
         else (False, SendProtocol ERR_INPUT2 [dec_of_nat ERR_INVALID_RANGE, c_str reason] s))"

record Limiter =
  li_error :: bool
  li_limit :: int
  li_offset :: int

definition GetLimits ::
  "nat \<Rightarrow> string list \<Rightarrow> 'd session \<Rightarrow> (Limiter \<times> 'd session) res" where
  "GetLimits maxp ps s =
     (let limiter = \<lparr>li_error = False, li_limit = 0, li_offset = 0\<rparr>;
          one = (int maxp - 1) mod 2 ^ 32;
          two = (int maxp - 2) mod 2 ^ 32;
          refused = (limiter\<lparr>li_error := True\<rparr>, SendProtocol ERR_INPUT [MUST_BE_GREAT_ZERO] s)
      in if int (length ps) = one
         then bind_res (param ps two) (\<lambda>a.
                if \<not> is_zero_or_great_or_mone a then Inr refused
                else Inr (limiter\<lparr>li_limit := convto_num_int a\<rparr>, s))
         else if length ps = maxp
         then bind_res (param ps one) (\<lambda>a.
                if \<not> is_zero_or_great_or_mone a then Inr refused
                else bind_res (param ps two) (\<lambda>b.
                  if \<not> is_zero_or_great b then Inr refused
                  else Inr (limiter\<lparr>li_limit := convto_num_int a, li_offset := convto_num_int b\<rparr>, s)))
         else Inr (limiter\<lparr>li_limit := - 1\<rparr>, s))"

section \<open>Commands\<close>

record ('d, 'n) command =
  cm_name :: string
  cm_min_params :: nat
  cm_max_params :: nat
  cm_last_empty_ok :: bool
  cm_alias :: string
  cm_check_exists :: bool
  cm_check_root :: bool
  cm_run_conf :: bool
  cm_check_value :: bool
  cm_offset :: int
  cm_limit :: int
  cm_check_login :: int
  cm_check_hash :: int
  cm_check_key :: int
  cm_check_num :: int
  cm_flags :: char
  cm_group :: char
  cm_groups :: "char list"
  cm_syntax :: string
  cm_pre_reg_ok :: bool
  cm_no_hint_until_reg :: bool
  cm_Handle :: "('d, 'n) handler"

definition Command :: "string \<Rightarrow> nat \<Rightarrow> nat \<Rightarrow> ('d, 'n) handler \<Rightarrow> ('d, 'n) command" where
  "Command cmd minpara maxpara handle =
     \<lparr>cm_name = cmd, cm_min_params = minpara, cm_max_params = maxpara, cm_last_empty_ok = True,
      cm_alias = [], cm_check_exists = False, cm_check_root = False, cm_run_conf = False,
      cm_check_value = False, cm_offset = - 1, cm_limit = - 1, cm_check_login = - 1,
      cm_check_hash = - 1, cm_check_key = - 1, cm_check_num = - 1, cm_flags = CHR 0x00,
      cm_group = CHR 0x00, cm_groups = [], cm_syntax = NO_SYNTAX, cm_pre_reg_ok = False,
      cm_no_hint_until_reg = False, cm_Handle = handle\<rparr>"

text \<open>\<open>syntaxhints\<close> is the setting of that name; a text for \<open>Daemon::Format\<close> is never empty here.\<close>

definition Command_MissingParameters ::
  "bool \<Rightarrow> ('d, 'n) command \<Rightarrow> 'd session \<Rightarrow> 'd session" where
  "Command_MissingParameters syntaxhints c s =
     (let user = se_user s
      in if cl_registered user \<noteq> REG_OK \<and> cm_no_hint_until_reg c then s
         else if cl_agent user \<noteq> DEFAULT_EMERALD then SendProtocol ERR_MISS_PARAMS [] s
         else (let s1 = (if syntaxhints
                         then SendProtocol ERR_MISS_PARAMS [cm_name c, ''Missing parameters. Syntax:''] s
                         else SendProtocol ERR_MISS_PARAMS [cm_name c, MIS_ARGS] s)
               in if syntaxhints \<and> cl_registered user = REG_OK \<and> cm_syntax c \<noteq> []
                  then SendProtocol BRLD_SYNTAX [cm_name c, c_str (cm_name c) @ '' '' @ c_str (cm_syntax c)] s1
                  else s1))"

definition Command_NotLogged :: "('d, 'n) command \<Rightarrow> 'd session \<Rightarrow> 'd session" where
  "Command_NotLogged c s = SendProtocol ERR_INPUT [NO_AUTH] s"

end
