(* ===== verification/KeyCommands.thy ===== *)
theory KeyCommands
  imports Commands
begin

text \<open>
  The commands on plain keys (\<open>core_keys\<close>) and the arithmetic ones (\<open>core_operations\<close>): for each
  class its constructor, which says what \<open>Execute\<close> checks, and its \<open>Handle\<close>, which pushes the query.
\<close>

text \<open>
  A loop without side effects that does not end is undefined behaviour; that is what \<open>OCCURS\<close> of an
  empty text is.
\<close>

definition occurs_run :: "('d, 'n) env \<Rightarrow> 'd run" where
  "occurs_run E q w =
     (case get_occurs_query_Run (e_rocks E) q w of None \<Rightarrow> Inl Undefined_behaviour | Some x \<Rightarrow> Inr x)"

section \<open>Keys\<close>

definition CommandChar_Handle :: "('d, 'n) handler" where
  "CommandChar_Handle E lim ps s =
     bind_res (param ps 1) (\<lambda>p1.
     if \<not> is_positive_number p1 then Inr (FAILED, SendProtocol ERR_INPUT [MUST_BE_NUMERIC] s) else (
     bind_res (param ps 0) (\<lambda>p0.
     Inr (SUCCESS, push (KeyHelper_Simple E (se_user s)
         (text_object E char_query (char_query_Run (e_rocks E)) char_query_Process)
         p0 p1 False) s))))"

definition CommandChar :: "('d, 'n) command" where
  "CommandChar = (Command ''CHAR'' 2 2 CommandChar_Handle)
     \<lparr>cm_check_key := 0, cm_group := CHR ''k'', cm_syntax := ''<key> <value>''\<rparr>"

definition CommandSet_Handle :: "('d, 'n) handler" where
  "CommandSet_Handle E lim ps s =
     bind_res (param ps 0) (\<lambda>p0.
     bind_res (params_back ps) (\<lambda>last_p.
     Inr (SUCCESS, push (KeyHelper_Simple E (se_user s)
         (text_object E set_query (set_query_Run (e_rocks E)) set_query_Process)
         p0 last_p True) s)))"

definition CommandSet :: "('d, 'n) command" where
  "CommandSet = (Command ''SET'' 2 2 CommandSet_Handle)
     \<lparr>cm_check_value := True, cm_check_key := 0, cm_group := CHR ''k'', cm_syntax := ''<key> '' @ [CHR 0x22] @ ''value'' @ [CHR 0x22]\<rparr>"

definition CommandSetNX_Handle :: "('d, 'n) handler" where
  "CommandSetNX_Handle E lim ps s =
     bind_res (param ps 0) (\<lambda>p0.
     bind_res (params_back ps) (\<lambda>last_p.
     Inr (SUCCESS, push (KeyHelper_Simple E (se_user s)
         (text_object E setnx_query (setnx_query_Run (e_rocks E)) setnx_query_Process)
         p0 last_p True) s)))"

definition CommandSetNX :: "('d, 'n) command" where
  "CommandSetNX = (Command ''SETNX'' 2 2 CommandSetNX_Handle)
     \<lparr>cm_check_value := True, cm_check_key := 0, cm_group := CHR ''k'', cm_syntax := ''<key> '' @ [CHR 0x22] @ ''value'' @ [CHR 0x22]\<rparr>"

definition CommandSetTX_Handle :: "('d, 'n) handler" where
  "CommandSetTX_Handle E lim ps s =
     bind_res (param ps 0) (\<lambda>p0.
     bind_res (params_back ps) (\<lambda>last_p.
     Inr (SUCCESS, push (KeyHelper_Simple E (se_user s)
         (text_object E settx_query (settx_query_Run (e_rocks E)) settx_query_Process)
         p0 last_p True) s)))"

definition CommandSetTX :: "('d, 'n) command" where
  "CommandSetTX = (Command ''SETTX'' 2 2 CommandSetTX_Handle)
     \<lparr>cm_check_value := True, cm_check_key := 0, cm_group := CHR ''k'', cm_syntax := ''<key> '' @ [CHR 0x22] @ ''value'' @ [CHR 0x22]\<rparr>"

definition CommandGetSet_Handle :: "('d, 'n) handler" where
  "CommandGetSet_Handle E lim ps s =
     bind_res (param ps 0) (\<lambda>p0.
     bind_res (params_back ps) (\<lambda>last_p.
     Inr (SUCCESS, push (KeyHelper_Simple E (se_user s)
         (text_object E getset_query (getset_query_Run (e_rocks E)) getset_query_Process)
         p0 last_p True) s)))"

definition CommandGetSet :: "('d, 'n) command" where
  "CommandGetSet = (Command ''GETSET'' 2 2 CommandGetSet_Handle)
     \<lparr>cm_check_value := True, cm_check_key := 0, cm_group := CHR ''k'', cm_syntax := ''<key> '' @ [CHR 0x22] @ ''value'' @ [CHR 0x22]\<rparr>"

definition CommandAppend_Handle :: "('d, 'n) handler" where
  "CommandAppend_Handle E lim ps s =
     bind_res (param ps 0) (\<lambda>p0.
     bind_res (params_back ps) (\<lambda>last_p.
     Inr (SUCCESS, push (KeyHelper_Simple E (se_user s)
         (text_object E append_query (append_query_Run (e_rocks E)) append_query_Process)
         p0 last_p True) s)))"

definition CommandAppend :: "('d, 'n) command" where
  "CommandAppend = (Command ''APPEND'' 2 2 CommandAppend_Handle)
     \<lparr>cm_check_value := True, cm_check_key := 0, cm_group := CHR ''k'', cm_syntax := ''<key> '' @ [CHR 0x22] @ ''value'' @ [CHR 0x22]\<rparr>"

definition CommandCount_Handle :: "('d, 'n) handler" where
  "CommandCount_Handle E lim ps s =
     (let key = (if ps = [] then ''*'' else hd ps)
      in Inr (SUCCESS, push (KeyHelper_Retro E (se_user s)
         (text_object E count_query (count_query_Run (e_rocks E)) count_query_Process)
         key True) s))"

definition CommandCount :: "('d, 'n) command" where
  "CommandCount = (Command ''COUNT'' 0 1 CommandCount_Handle)
     \<lparr>cm_group := CHR ''k'', cm_syntax := ''<%key>''\<rparr>"

definition CommandGetOccurs_Handle :: "('d, 'n) handler" where
  "CommandGetOccurs_Handle E lim ps s =
     bind_res (param ps 0) (\<lambda>p0.
     bind_res (params_back ps) (\<lambda>last_p.
     Inr (SUCCESS, push (KeyHelper_Simple E (se_user s)
         (text_object E get_occurs_query (occurs_run E) get_occurs_query_Process)
         p0 last_p True) s)))"

definition CommandGetOccurs :: "('d, 'n) command" where
  "CommandGetOccurs = (Command ''OCCURS'' 2 2 CommandGetOccurs_Handle)
     \<lparr>cm_check_value := True, cm_check_key := 0, cm_group := CHR ''k'', cm_syntax := ''<key> '' @ [CHR 0x22] @ ''value'' @ [CHR 0x22]\<rparr>"

definition CommandGet_Handle :: "('d, 'n) handler" where
  "CommandGet_Handle E lim ps s =
     bind_res (param ps 0) (\<lambda>p0.
     Inr (SUCCESS, push (KeyHelper_Retro E (se_user s)
         (text_object E get_query (get_query_Run (e_rocks E)) get_query_Process)
         p0 False) s))"

definition CommandGet :: "('d, 'n) command" where
  "CommandGet = (Command ''GET'' 1 1 CommandGet_Handle)
     \<lparr>cm_check_key := 0, cm_group := CHR ''k'', cm_syntax := ''<key>''\<rparr>"

definition CommandStrlen_Handle :: "('d, 'n) handler" where
  "CommandStrlen_Handle E lim ps s =
     bind_res (param ps 0) (\<lambda>p0.
     Inr (SUCCESS, push (KeyHelper_Retro E (se_user s)
         (text_object E strlen_query (strlen_query_Run (e_rocks E)) strlen_query_Process)
         p0 False) s))"

definition CommandStrlen :: "('d, 'n) command" where
  "CommandStrlen = (Command ''STRLEN'' 1 1 CommandStrlen_Handle)
     \<lparr>cm_check_key := 0, cm_group := CHR ''k'', cm_syntax := ''<key>''\<rparr>"

definition CommandGetDel_Handle :: "('d, 'n) handler" where
  "CommandGetDel_Handle E lim ps s =
     bind_res (param ps 0) (\<lambda>p0.
     Inr (SUCCESS, push (KeyHelper_Retro E (se_user s)
         (text_object E getdel_query (getdel_query_Run (e_rocks E)) getdel_query_Process)
         p0 False) s))"

definition CommandGetDel :: "('d, 'n) command" where
  "CommandGetDel = (Command ''GETDEL'' 1 1 CommandGetDel_Handle)
     \<lparr>cm_check_key := 0, cm_group := CHR ''k'', cm_syntax := ''<key>''\<rparr>"

definition CommandGetSubstr_Handle :: "('d, 'n) handler" where
  "CommandGetSubstr_Handle E lim ps s =
     bind_res (param ps 0) (\<lambda>p0.
     bind_res (param ps 1) (\<lambda>p1.
     bind_res (param ps 2) (\<lambda>p2.
     Inr (SUCCESS, push (KeyHelper_RetroLimits E (se_user s)
         (text_object E get_substr_query (get_substr_query_Run (e_rocks E)) get_substr_query_Process)
         p0 (convto_num_int p1) (convto_num_int p2) False) s))))"

definition CommandGetSubstr :: "('d, 'n) command" where
  "CommandGetSubstr = (Command ''SUBSTR'' 3 3 CommandGetSubstr_Handle)
     \<lparr>cm_check_key := 0, cm_group := CHR ''k'', cm_syntax := ''<key> <from> <to>''\<rparr>"

definition CommandGetExp_Handle :: "('d, 'n) handler" where
  "CommandGetExp_Handle E lim ps s =
     bind_res (param ps 0) (\<lambda>p0.
     case CheckValidPos p0 s of (False, s) \<Rightarrow> Inr (FAILED, s) | (True, s) \<Rightarrow> (
     bind_res (param ps 1) (\<lambda>p1.
     Inr (SUCCESS, push (KeyHelper_IDRetro E (w_now (se_world s)) (se_user s)
         (text_object E getexp_query (getexp_query_Run (e_rocks E)) getexp_query_Process)
         p1 p0) s))))"

definition CommandGetExp :: "('d, 'n) command" where
  "CommandGetExp = (Command ''GETEXP'' 2 2 CommandGetExp_Handle)
     \<lparr>cm_check_key := 1, cm_group := CHR ''e'', cm_syntax := ''<seconds> <key>''\<rparr>"

definition CommandIsAlpha_Handle :: "('d, 'n) handler" where
  "CommandIsAlpha_Handle E lim ps s =
     bind_res (param ps 0) (\<lambda>p0.
     Inr (SUCCESS, push (KeyHelper_Retro E (se_user s)
         (text_object E alpha_query (alpha_query_Run (e_rocks E)) alpha_query_Process)
         p0 False) s))"

definition CommandIsAlpha :: "('d, 'n) command" where
  "CommandIsAlpha = (Command ''ISALPHA'' 1 1 CommandIsAlpha_Handle)
     \<lparr>cm_check_key := 0, cm_group := CHR ''k'', cm_syntax := ''<key>''\<rparr>"

definition CommandIsNum_Handle :: "('d, 'n) handler" where
  "CommandIsNum_Handle E lim ps s =
     bind_res (param ps 0) (\<lambda>p0.
     Inr (SUCCESS, push (KeyHelper_Retro E (se_user s)
         (text_object E isnum_query (isnum_query_Run (e_rocks E)) isnum_query_Process)
         p0 False) s))"

definition CommandIsNum :: "('d, 'n) command" where
  "CommandIsNum = (Command ''ISNUM'' 1 1 CommandIsNum_Handle)
     \<lparr>cm_check_key := 0, cm_group := CHR ''k'', cm_syntax := ''<key>''\<rparr>"

definition CommandGetPersist_Handle :: "('d, 'n) handler" where
  "CommandGetPersist_Handle E lim ps s =
     bind_res (param ps 0) (\<lambda>p0.
     Inr (SUCCESS, push (KeyHelper_Retro E (se_user s)
         (text_object E getpersist_query (getpersist_query_Run (e_rocks E)) getpersist_query_Process)
         p0 False) s))"

definition CommandGetPersist :: "('d, 'n) command" where
  "CommandGetPersist = (Command ''GETPERSIST'' 1 1 CommandGetPersist_Handle)
     \<lparr>cm_check_key := 0, cm_group := CHR ''k'', cm_syntax := ''<key>''\<rparr>"

definition CommandWDel_Handle :: "('d, 'n) handler" where
  "CommandWDel_Handle E lim ps s =
     bind_res (param ps 0) (\<lambda>p0.
     case CheckFormat p0 True s of (False, s) \<Rightarrow> Inr (FAILED, s) | (True, s) \<Rightarrow> (
     Inr (SUCCESS, push (KeyHelper_Retro E (se_user s)
         (text_object E wdel_query (wdel_query_Run (e_rocks E)) wdel_query_Process)
         (stripe p0) True) s)))"

definition CommandWDel :: "('d, 'n) command" where
  "CommandWDel = (Command ''WDEL'' 1 1 CommandWDel_Handle)
     \<lparr>cm_group := CHR ''k'', cm_syntax := ''<%key>''\<rparr>"

definition CommandIsBool_Handle :: "('d, 'n) handler" where
  "CommandIsBool_Handle E lim ps s =
     bind_res (param ps 0) (\<lambda>p0.
     Inr (SUCCESS, push (KeyHelper_Retro E (se_user s)
         (text_object E isbool_query (isbool_query_Run (e_rocks E)) isbool_query_Process)
         p0 False) s))"

definition CommandIsBool :: "('d, 'n) command" where
  "CommandIsBool = (Command ''ISBOOL'' 1 1 CommandIsBool_Handle)
     \<lparr>cm_check_key := 0, cm_group := CHR ''k'', cm_syntax := ''<key>''\<rparr>"

definition CommandAsBool_Handle :: "('d, 'n) handler" where
  "CommandAsBool_Handle E lim ps s =
     bind_res (param ps 0) (\<lambda>p0.
     Inr (SUCCESS, push (KeyHelper_Retro E (se_user s)
         (text_object E asbool_query (asbool_query_Run (e_rocks E)) asbool_query_Process)
         p0 False) s))"

definition CommandAsBool :: "('d, 'n) command" where
  "CommandAsBool = (Command ''ASBOOL'' 1 1 CommandAsBool_Handle)
     \<lparr>cm_check_key := 0, cm_group := CHR ''k'', cm_syntax := ''<key>''\<rparr>"

definition CommandIsMatch_Handle :: "('d, 'n) handler" where
  "CommandIsMatch_Handle E lim ps s =
     bind_res (param ps 0) (\<lambda>p0.
     bind_res (params_back ps) (\<lambda>last_p.
     Inr (SUCCESS, push (KeyHelper_Simple E (se_user s)
         (text_object E ismatch_query (ismatch_query_Run (e_rocks E)) ismatch_query_Process)
         p0 last_p True) s)))"

definition CommandIsMatch :: "('d, 'n) command" where
  "CommandIsMatch = (Command ''ISMATCH'' 2 2 CommandIsMatch_Handle)
     \<lparr>cm_check_value := True, cm_check_key := 0, cm_group := CHR ''k'', cm_syntax := ''<key> '' @ [CHR 0x22] @ ''value'' @ [CHR 0x22]\<rparr>"

definition CommandInsert_Handle :: "('d, 'n) handler" where
  "CommandInsert_Handle E lim ps s =
     bind_res (param ps 1) (\<lambda>p1.
     if \<not> is_number p1 False then Inr (FAILED, SendProtocol ERR_INPUT [MUST_BE_NUMERIC] s) else (
     bind_res (param ps 0) (\<lambda>p0.
     bind_res (params_back ps) (\<lambda>last_p.
     Inr (SUCCESS, push (KeyHelper_Simple E (se_user s)
         (on_query (\<lambda>q. q\<lparr>q_id := (convto_num_uint p1)\<rparr>) (text_object E insert_query (insert_query_Run (e_rocks E)) insert_query_Process))
         p0 last_p True) s)))))"

definition CommandInsert :: "('d, 'n) command" where
  "CommandInsert = (Command ''INSERT'' 3 3 CommandInsert_Handle)
     \<lparr>cm_check_value := True, cm_check_key := 0, cm_group := CHR ''k'', cm_syntax := ''<key> <where> '' @ [CHR 0x22] @ ''value'' @ [CHR 0x22]\<rparr>"

definition CommandToLower_Handle :: "('d, 'n) handler" where
  "CommandToLower_Handle E lim ps s =
     bind_res (param ps 0) (\<lambda>p0.
     Inr (SUCCESS, push (KeyHelper_RetroFunc E (se_user s)
         (text_object E modify_query (modify_query_Run (e_rocks E)) modify_query_Process)
         p0 STR_TO_LOW False) s))"

definition CommandToLower :: "('d, 'n) command" where
  "CommandToLower = (Command ''TOLOWER'' 1 1 CommandToLower_Handle)
     \<lparr>cm_check_key := 0, cm_group := CHR ''k'', cm_syntax := ''<key>''\<rparr>"

definition CommandToUpper_Handle :: "('d, 'n) handler" where
  "CommandToUpper_Handle E lim ps s =
     bind_res (param ps 0) (\<lambda>p0.
     Inr (SUCCESS, push (KeyHelper_RetroFunc E (se_user s)
         (text_object E modify_query (modify_query_Run (e_rocks E)) modify_query_Process)
         p0 STR_TO_UPPER False) s))"

definition CommandToUpper :: "('d, 'n) command" where
  "CommandToUpper = (Command ''TOUPPER'' 1 1 CommandToUpper_Handle)
     \<lparr>cm_check_key := 0, cm_group := CHR ''k'', cm_syntax := ''<key>''\<rparr>"

definition CommandToCap_Handle :: "('d, 'n) handler" where
  "CommandToCap_Handle E lim ps s =
     bind_res (param ps 0) (\<lambda>p0.
     Inr (SUCCESS, push (KeyHelper_RetroFunc E (se_user s)
         (text_object E modify_query (modify_query_Run (e_rocks E)) modify_query_Process)
         p0 STR_TO_CAP False) s))"

definition CommandToCap :: "('d, 'n) command" where
  "CommandToCap = (Command ''TOCAP'' 1 1 CommandToCap_Handle)
     \<lparr>cm_check_key := 0, cm_group := CHR ''k'', cm_syntax := ''<key>''\<rparr>"

section \<open>Scans of keys\<close>

definition CommandKeys_Handle :: "('d, 'n) handler" where
  "CommandKeys_Handle E lim ps s =
     bind_res (param ps 0) (\<lambda>p0.
     Inr (SUCCESS, push (KeyHelper_RetroLimits E (se_user s)
         (page_object E keys_query (keys_query_Run (new_object E) (e_rocks E)) keys_query_Process)
         p0 (fst lim) (snd lim) True) s))"

definition CommandKeys :: "('d, 'n) command" where
  "CommandKeys = (Command ''KEYS'' 1 3 CommandKeys_Handle)
     \<lparr>cm_run_conf := True, cm_group := CHR ''k'', cm_syntax := ''<%key> <offset> <limit>''\<rparr>"

definition CommandSearch_Handle :: "('d, 'n) handler" where
  "CommandSearch_Handle E lim ps s =
     bind_res (param ps 0) (\<lambda>p0.
     Inr (SUCCESS, push (KeyHelper_RetroLimits E (se_user s)
         (page_object E search_query (search_query_Run (new_object E) (e_rocks E)) search_query_Process)
         p0 (fst lim) (snd lim) True) s))"

definition CommandSearch :: "('d, 'n) command" where
  "CommandSearch = (Command ''SEARCH'' 1 3 CommandSearch_Handle)
     \<lparr>cm_run_conf := True, cm_group := CHR ''k'', cm_syntax := ''<%key> <offset> <limit>''\<rparr>"

definition CommandRKey_Handle :: "('d, 'n) handler" where
  "CommandRKey_Handle E lim ps s =
     Inr (SUCCESS, push (KeyHelper_Quick E (se_user s)
         (text_object E random_query (random_query_Run (e_draws E) (e_rocks E)) random_query_Process)
        ) s)"

definition CommandRKey :: "('d, 'n) command" where
  "CommandRKey = (Command ''RKEY'' 0 0 CommandRKey_Handle)
     \<lparr>cm_group := CHR ''k''\<rparr>"

section \<open>Arithmetic\<close>

definition CommandIncr_Handle :: "('d, 'n) handler" where
  "CommandIncr_Handle E lim ps s =
     bind_res (param ps 0) (\<lambda>p0.
     Inr (SUCCESS, push (KeyHelper_Operation E (se_user s) p0 OP_INCR []) s))"

definition CommandIncr :: "('d, 'n) command" where
  "CommandIncr = (Command ''INCR'' 1 0 CommandIncr_Handle)
     \<lparr>cm_check_key := 0, cm_group := CHR ''k'', cm_syntax := ''<key>''\<rparr>"

definition CommandIncrBy_Handle :: "('d, 'n) handler" where
  "CommandIncrBy_Handle E lim ps s =
     bind_res (param ps 0) (\<lambda>p0.
     bind_res (param ps 1) (\<lambda>p1.
     Inr (SUCCESS, push (KeyHelper_Operation E (se_user s) p0 OP_ADD p1) s)))"

definition CommandIncrBy :: "('d, 'n) command" where
  "CommandIncrBy = (Command ''INCRBY'' 2 2 CommandIncrBy_Handle)
     \<lparr>cm_check_key := 0, cm_check_num := 1, cm_group := CHR ''k'', cm_syntax := ''<key> <value>''\<rparr>"

definition CommandAvg_Handle :: "('d, 'n) handler" where
  "CommandAvg_Handle E lim ps s =
     bind_res (param ps 0) (\<lambda>p0.
     bind_res (param ps 1) (\<lambda>p1.
     Inr (SUCCESS, push (KeyHelper_Operation E (se_user s) p0 OP_AVG p1) s)))"

definition CommandAvg :: "('d, 'n) command" where
  "CommandAvg = (Command ''AVG'' 2 2 CommandAvg_Handle)
     \<lparr>cm_check_key := 0, cm_check_num := 1, cm_group := CHR ''k'', cm_syntax := ''<key> <value>''\<rparr>"

definition CommandDecr_Handle :: "('d, 'n) handler" where
  "CommandDecr_Handle E lim ps s =
     bind_res (param ps 0) (\<lambda>p0.
     Inr (SUCCESS, push (KeyHelper_Operation E (se_user s) p0 OP_DECR []) s))"

definition CommandDecr :: "('d, 'n) command" where
  "CommandDecr = (Command ''DECR'' 1 0 CommandDecr_Handle)
     \<lparr>cm_check_key := 0, cm_group := CHR ''k'', cm_syntax := ''<key>''\<rparr>"

definition CommandDecrBy_Handle :: "('d, 'n) handler" where
  "CommandDecrBy_Handle E lim ps s =
     bind_res (param ps 0) (\<lambda>p0.
     bind_res (param ps 1) (\<lambda>p1.
     Inr (SUCCESS, push (KeyHelper_Operation E (se_user s) p0 OP_MIN p1) s)))"

definition CommandDecrBy :: "('d, 'n) command" where
  "CommandDecrBy = (Command ''DECRBY'' 2 2 CommandDecrBy_Handle)
     \<lparr>cm_check_key := 0, cm_check_num := 1, cm_group := CHR ''k'', cm_syntax := ''<key> <value>''\<rparr>"

definition CommandDiv_Handle :: "('d, 'n) handler" where
  "CommandDiv_Handle E lim ps s =
     bind_res (param ps 0) (\<lambda>p0.
     bind_res (param ps 1) (\<lambda>p1.
     Inr (SUCCESS, push (KeyHelper_Operation E (se_user s) p0 OP_DIV p1) s)))"

definition CommandDiv :: "('d, 'n) command" where
  "CommandDiv = (Command ''DIV'' 2 2 CommandDiv_Handle)
     \<lparr>cm_check_key := 0, cm_check_num := 1, cm_group := CHR ''k'', cm_syntax := ''<key> <value>''\<rparr>"

definition CommandMult_Handle :: "('d, 'n) handler" where
  "CommandMult_Handle E lim ps s =
     bind_res (param ps 0) (\<lambda>p0.
     bind_res (param ps 1) (\<lambda>p1.
     Inr (SUCCESS, push (KeyHelper_Operation E (se_user s) p0 OP_MULT p1) s)))"

definition CommandMult :: "('d, 'n) command" where
  "CommandMult = (Command ''MULT'' 2 2 CommandMult_Handle)
     \<lparr>cm_check_key := 0, cm_check_num := 1, cm_group := CHR ''k'', cm_syntax := ''<key> <value>''\<rparr>"

definition CommandSqrt_Handle :: "('d, 'n) handler" where
  "CommandSqrt_Handle E lim ps s =
     bind_res (param ps 0) (\<lambda>p0.
     Inr (SUCCESS, push (KeyHelper_Operation E (se_user s) p0 OP_SQRT ''NULL'') s))"

definition CommandSqrt :: "('d, 'n) command" where
  "CommandSqrt = (Command ''SQRT'' 1 1 CommandSqrt_Handle)
     \<lparr>cm_check_key := 0, cm_group := CHR ''k'', cm_syntax := ''<key>''\<rparr>"

section \<open>The commands of these modules\<close>

definition key_commands :: "('d, 'n) command list" where
  "key_commands =
     [CommandChar, CommandSet, CommandSetNX, CommandSetTX, CommandGetSet, CommandAppend,
      CommandCount, CommandGetOccurs, CommandGet, CommandStrlen, CommandGetDel, CommandGetSubstr,
      CommandGetExp, CommandIsAlpha, CommandIsNum, CommandGetPersist, CommandWDel, CommandIsBool,
      CommandAsBool, CommandIsMatch, CommandInsert, CommandToLower, CommandToUpper, CommandToCap,
      CommandKeys, CommandSearch, CommandRKey, CommandIncr, CommandIncrBy, CommandAvg, CommandDecr,
      CommandDecrBy, CommandDiv, CommandMult, CommandSqrt]"

lemmas key_command_defs = CommandChar_def CommandSet_def CommandSetNX_def CommandSetTX_def
  CommandGetSet_def CommandAppend_def CommandCount_def CommandGetOccurs_def CommandGet_def
  CommandStrlen_def CommandGetDel_def CommandGetSubstr_def CommandGetExp_def CommandIsAlpha_def
  CommandIsNum_def CommandGetPersist_def CommandWDel_def CommandIsBool_def CommandAsBool_def
  CommandIsMatch_def CommandInsert_def CommandToLower_def CommandToUpper_def CommandToCap_def
  CommandKeys_def CommandSearch_def CommandRKey_def CommandIncr_def CommandIncrBy_def CommandAvg_def
  CommandDecr_def CommandDecrBy_def CommandDiv_def CommandMult_def CommandSqrt_def

lemmas key_command_handlers = CommandChar_Handle_def CommandSet_Handle_def CommandSetNX_Handle_def
  CommandSetTX_Handle_def CommandGetSet_Handle_def CommandAppend_Handle_def CommandCount_Handle_def
  CommandGetOccurs_Handle_def CommandGet_Handle_def CommandStrlen_Handle_def
  CommandGetDel_Handle_def CommandGetSubstr_Handle_def CommandGetExp_Handle_def
  CommandIsAlpha_Handle_def CommandIsNum_Handle_def CommandGetPersist_Handle_def
  CommandWDel_Handle_def CommandIsBool_Handle_def CommandAsBool_Handle_def CommandIsMatch_Handle_def
  CommandInsert_Handle_def CommandToLower_Handle_def CommandToUpper_Handle_def
  CommandToCap_Handle_def CommandKeys_Handle_def CommandSearch_Handle_def CommandRKey_Handle_def
  CommandIncr_Handle_def CommandIncrBy_Handle_def CommandAvg_Handle_def CommandDecr_Handle_def
  CommandDecrBy_Handle_def CommandDiv_Handle_def CommandMult_Handle_def CommandSqrt_Handle_def

end
