(* ===== verification/ListCommands.thy ===== *)
theory ListCommands
  imports Commands
begin

text \<open>
  The commands on lists (\<open>core_list\<close>) and on vectors (\<open>core_vector\<close>).  \<open>LFPOP\<close> and \<open>LRPOP\<close> push
  the same query, and \<open>VFIND\<close> pushes the one that deletes.
\<close>

section \<open>Lists\<close>

definition CommandLResize_Handle :: "('d, 'n) handler" where
  "CommandLResize_Handle E lim ps s =
     bind_res (param ps 1) (\<lambda>p1.
     case CheckValidPos p1 s of (False, s) \<Rightarrow> Inr (FAILED, s) | (True, s) \<Rightarrow> (
     bind_res (param ps 0) (\<lambda>p0.
     Inr (SUCCESS, push (KeyHelper_Simple E (se_user s)
         (text_object E lresize_query (lresize_query_Run (e_rocks E)) lresize_query_Process)
         p0 p1 True) s))))"

definition CommandLResize :: "('d, 'n) command" where
  "CommandLResize = (Command ''LRESIZE'' 2 2 CommandLResize_Handle)
     \<lparr>cm_check_key := 0, cm_group := CHR ''l'', cm_syntax := ''<key> <size>''\<rparr>"

definition CommandLGet_Handle :: "('d, 'n) handler" where
  "CommandLGet_Handle E lim ps s =
     bind_res (param ps 0) (\<lambda>p0.
     Inr (SUCCESS, push (KeyHelper_RetroLimits E (se_user s)
         (page_object E lget_query (lget_query_Run (new_object E) (e_rocks E)) lget_query_Process)
         p0 (fst lim) (snd lim) False) s))"

definition CommandLGet :: "('d, 'n) command" where
  "CommandLGet = (Command ''LGET'' 1 3 CommandLGet_Handle)
     \<lparr>cm_run_conf := True, cm_check_key := 0, cm_group := CHR ''l'', cm_syntax := ''<key>''\<rparr>"

definition CommandLKeys_Handle :: "('d, 'n) handler" where
  "CommandLKeys_Handle E lim ps s =
     bind_res (param ps 0) (\<lambda>p0.
     Inr (SUCCESS, push (KeyHelper_RetroLimits E (se_user s)
         (page_object E lkeys_query (lkeys_query_Run (new_object E) (e_rocks E)) lkeys_query_Process)
         p0 (fst lim) (snd lim) True) s))"

definition CommandLKeys :: "('d, 'n) command" where
  "CommandLKeys = (Command ''LKEYS'' 1 3 CommandLKeys_Handle)
     \<lparr>cm_run_conf := True, cm_group := CHR ''l'', cm_syntax := ''<%key> <offset> <limit>''\<rparr>"

definition CommandLPos_Handle :: "('d, 'n) handler" where
  "CommandLPos_Handle E lim ps s =
     bind_res (param ps 1) (\<lambda>p1.
     case CheckValidPos p1 s of (False, s) \<Rightarrow> Inr (FAILED, s) | (True, s) \<Rightarrow> (
     bind_res (param ps 0) (\<lambda>p0.
     Inr (SUCCESS, push (KeyHelper_SimpleRetro E (se_user s)
         (text_object E lpos_query (lpos_query_Run (e_rocks E)) lpos_query_Process)
         p0 p1) s))))"

definition CommandLPos :: "('d, 'n) command" where
  "CommandLPos = (Command ''LPOS'' 2 2 CommandLPos_Handle)
     \<lparr>cm_check_key := 0, cm_group := CHR ''l'', cm_syntax := ''<key> <value>''\<rparr>"

definition CommandLRepeats_Handle :: "('d, 'n) handler" where
  "CommandLRepeats_Handle E lim ps s =
     bind_res (param ps 0) (\<lambda>p0.
     bind_res (params_back ps) (\<lambda>last_p.
     Inr (SUCCESS, push (KeyHelper_SimpleRetro E (se_user s)
         (text_object E lrepeats_query (lrepeats_query_Run (e_rocks E)) lrepeats_query_Process)
         p0 last_p) s)))"

definition CommandLRepeats :: "('d, 'n) command" where
  "CommandLRepeats = (Command ''LREPEATS'' 2 2 CommandLRepeats_Handle)
     \<lparr>cm_check_value := True, cm_check_key := 0, cm_group := CHR ''l'', cm_syntax := ''<key> '' @ [CHR 0x22] @ ''value'' @ [CHR 0x22]\<rparr>"

definition CommandLRop_Handle :: "('d, 'n) handler" where
  "CommandLRop_Handle E lim ps s =
     bind_res (param ps 0) (\<lambda>p0.
     Inr (SUCCESS, push (KeyHelper_Retro E (se_user s)
         (text_object E lrop_query (lrop_query_Run (e_rocks E)) lrop_query_Process)
         p0 False) s))"

definition CommandLRop :: "('d, 'n) command" where
  "CommandLRop = (Command ''LRPOP'' 1 1 CommandLRop_Handle)
     \<lparr>cm_check_key := 0, cm_group := CHR ''l'', cm_syntax := ''<key>''\<rparr>"

definition CommandFRop_Handle :: "('d, 'n) handler" where
  "CommandFRop_Handle E lim ps s =
     bind_res (param ps 0) (\<lambda>p0.
     Inr (SUCCESS, push (KeyHelper_Retro E (se_user s)
         (text_object E lrop_query (lrop_query_Run (e_rocks E)) lrop_query_Process)
         p0 False) s))"

definition CommandFRop :: "('d, 'n) command" where
  "CommandFRop = (Command ''LFPOP'' 1 1 CommandFRop_Handle)
     \<lparr>cm_check_key := 0, cm_group := CHR ''l'', cm_syntax := ''<key>''\<rparr>"

definition CommandLPush_Handle :: "('d, 'n) handler" where
  "CommandLPush_Handle E lim ps s =
     bind_res (param ps 0) (\<lambda>p0.
     bind_res (params_back ps) (\<lambda>last_p.
     Inr (SUCCESS, push (KeyHelper_Simple E (se_user s)
         (text_object E lpush_query (lpush_query_Run (e_rocks E)) lpush_query_Process)
         p0 last_p True) s)))"

definition CommandLPush :: "('d, 'n) command" where
  "CommandLPush = (Command ''LPUSH'' 2 2 CommandLPush_Handle)
     \<lparr>cm_check_value := True, cm_check_key := 0, cm_group := CHR ''l'', cm_syntax := ''<key> '' @ [CHR 0x22] @ ''value'' @ [CHR 0x22]\<rparr>"

definition CommandLExist_Handle :: "('d, 'n) handler" where
  "CommandLExist_Handle E lim ps s =
     bind_res (param ps 0) (\<lambda>p0.
     bind_res (params_back ps) (\<lambda>last_p.
     Inr (SUCCESS, push (KeyHelper_Simple E (se_user s)
         (text_object E lexist_query (lexist_query_Run (e_rocks E)) lexist_query_Process)
         p0 last_p True) s)))"

definition CommandLExist :: "('d, 'n) command" where
  "CommandLExist = (Command ''LEXISTS'' 2 2 CommandLExist_Handle)
     \<lparr>cm_check_value := True, cm_check_key := 0, cm_group := CHR ''l'', cm_syntax := ''<key> '' @ [CHR 0x22] @ ''value'' @ [CHR 0x22]\<rparr>"

definition CommandLCount_Handle :: "('d, 'n) handler" where
  "CommandLCount_Handle E lim ps s =
     bind_res (param ps 0) (\<lambda>p0.
     Inr (SUCCESS, push (KeyHelper_Retro E (se_user s)
         (text_object E lcount_query (lcount_query_Run (e_rocks E)) lcount_query_Process)
         p0 False) s))"

definition CommandLCount :: "('d, 'n) command" where
  "CommandLCount = (Command ''LCOUNT'' 1 1 CommandLCount_Handle)
     \<lparr>cm_check_key := 0, cm_group := CHR ''l'', cm_syntax := ''<key>''\<rparr>"

definition CommandLBack_Handle :: "('d, 'n) handler" where
  "CommandLBack_Handle E lim ps s =
     bind_res (param ps 0) (\<lambda>p0.
     Inr (SUCCESS, push (KeyHelper_Retro E (se_user s)
         (text_object E lback_query (lback_query_Run (e_rocks E)) lback_query_Process)
         p0 False) s))"

definition CommandLBack :: "('d, 'n) command" where
  "CommandLBack = (Command ''LBACK'' 1 1 CommandLBack_Handle)
     \<lparr>cm_check_key := 0, cm_group := CHR ''l'', cm_syntax := ''<key>''\<rparr>"

definition CommandLFront_Handle :: "('d, 'n) handler" where
  "CommandLFront_Handle E lim ps s =
     bind_res (param ps 0) (\<lambda>p0.
     Inr (SUCCESS, push (KeyHelper_Retro E (se_user s)
         (text_object E lfront_query (lfront_query_Run (e_rocks E)) lfront_query_Process)
         p0 False) s))"

definition CommandLFront :: "('d, 'n) command" where
  "CommandLFront = (Command ''LFRONT'' 1 1 CommandLFront_Handle)
     \<lparr>cm_check_key := 0, cm_group := CHR ''l'', cm_syntax := ''<key>''\<rparr>"

definition CommandLPushNX_Handle :: "('d, 'n) handler" where
  "CommandLPushNX_Handle E lim ps s =
     bind_res (param ps 0) (\<lambda>p0.
     bind_res (params_back ps) (\<lambda>last_p.
     Inr (SUCCESS, push (KeyHelper_Simple E (se_user s)
         (text_object E lpushnx_query (lpushnx_query_Run (e_rocks E)) lpushnx_query_Process)
         p0 last_p True) s)))"

definition CommandLPushNX :: "('d, 'n) command" where
  "CommandLPushNX = (Command ''LPUSHNX'' 2 2 CommandLPushNX_Handle)
     \<lparr>cm_check_value := True, cm_check_key := 0, cm_group := CHR ''v'', cm_syntax := ''<key> '' @ [CHR 0x22] @ ''value'' @ [CHR 0x22]\<rparr>"

definition CommandLAvg_Handle :: "('d, 'n) handler" where
  "CommandLAvg_Handle E lim ps s =
     bind_res (param ps 0) (\<lambda>p0.
     Inr (SUCCESS, push (KeyHelper_Retro E (se_user s)
         (text_object E lavg_query (lavg_query_Run (dbl.truncate (e_dbl E)) (e_rocks E)) lavg_query_Process)
         p0 False) s))"

definition CommandLAvg :: "('d, 'n) command" where
  "CommandLAvg = (Command ''LAVG'' 1 1 CommandLAvg_Handle)
     \<lparr>cm_check_key := 0, cm_group := CHR ''v'', cm_syntax := ''<key>''\<rparr>"

definition CommandLHigh_Handle :: "('d, 'n) handler" where
  "CommandLHigh_Handle E lim ps s =
     bind_res (param ps 0) (\<lambda>p0.
     Inr (SUCCESS, push (KeyHelper_Retro E (se_user s)
         (text_object E lhigh_query (lhigh_query_Run (dbl.truncate (e_dbl E)) (e_rocks E)) lhigh_query_Process)
         p0 False) s))"

definition CommandLHigh :: "('d, 'n) command" where
  "CommandLHigh = (Command ''LHIGH'' 1 1 CommandLHigh_Handle)
     \<lparr>cm_check_key := 0, cm_group := CHR ''v'', cm_syntax := ''<key>''\<rparr>"

definition CommandLLow_Handle :: "('d, 'n) handler" where
  "CommandLLow_Handle E lim ps s =
     bind_res (param ps 0) (\<lambda>p0.
     Inr (SUCCESS, push (KeyHelper_Retro E (se_user s)
         (text_object E llow_query (llow_query_Run (dbl.truncate (e_dbl E)) (e_rocks E)) llow_query_Process)
         p0 False) s))"

definition CommandLLow :: "('d, 'n) command" where
  "CommandLLow = (Command ''LLOW'' 1 1 CommandLLow_Handle)
     \<lparr>cm_check_key := 0, cm_group := CHR ''v'', cm_syntax := ''<key>''\<rparr>"

section \<open>Lists: taking and ordering\<close>

definition CommandLPopBack_Handle :: "('d, 'n) handler" where
  "CommandLPopBack_Handle E lim ps s =
     bind_res (param ps 0) (\<lambda>p0.
     Inr (SUCCESS, push (KeyHelper_Retro E (se_user s)
         (text_object E lpop_back_query (lpop_back_query_Run (e_rocks E)) lpop_back_query_Process)
         p0 False) s))"

definition CommandLPopBack :: "('d, 'n) command" where
  "CommandLPopBack = (Command ''LPOPBACK'' 1 1 CommandLPopBack_Handle)
     \<lparr>cm_check_key := 0, cm_group := CHR ''l'', cm_syntax := ''<key>''\<rparr>"

definition CommandLPopFront_Handle :: "('d, 'n) handler" where
  "CommandLPopFront_Handle E lim ps s =
     bind_res (param ps 0) (\<lambda>p0.
     Inr (SUCCESS, push (KeyHelper_Retro E (se_user s)
         (text_object E lpop_front_query (lpop_front_query_Run (e_rocks E)) lpop_front_query_Process)
         p0 False) s))"

definition CommandLPopFront :: "('d, 'n) command" where
  "CommandLPopFront = (Command ''LPOPFRONT'' 1 1 CommandLPopFront_Handle)
     \<lparr>cm_check_key := 0, cm_group := CHR ''l'', cm_syntax := ''<key>''\<rparr>"

definition CommandPopAll_Handle :: "('d, 'n) handler" where
  "CommandPopAll_Handle E lim ps s =
     bind_res (param ps 0) (\<lambda>p0.
     bind_res (params_back ps) (\<lambda>last_p.
     Inr (SUCCESS, push (KeyHelper_Simple E (se_user s)
         (text_object E lpopall_query (lpopall_query_Run (e_rocks E)) lpopall_query_Process)
         p0 last_p True) s)))"

definition CommandPopAll :: "('d, 'n) command" where
  "CommandPopAll = (Command ''LPOPALL'' 2 2 CommandPopAll_Handle)
     \<lparr>cm_check_value := True, cm_check_key := 0, cm_group := CHR ''l'', cm_syntax := ''<key> '' @ [CHR 0x22] @ ''value'' @ [CHR 0x22]\<rparr>"

definition CommandLReverse_Handle :: "('d, 'n) handler" where
  "CommandLReverse_Handle E lim ps s =
     bind_res (param ps 0) (\<lambda>p0.
     Inr (SUCCESS, push (KeyHelper_Retro E (se_user s)
         (text_object E lreverse_query (lreverse_query_Run (e_rocks E)) lreverse_query_Process)
         p0 False) s))"

definition CommandLReverse :: "('d, 'n) command" where
  "CommandLReverse = (Command ''LREVERSE'' 1 1 CommandLReverse_Handle)
     \<lparr>cm_check_key := 0, cm_group := CHR ''l'', cm_syntax := ''<key>''\<rparr>"

definition CommandLSort_Handle :: "('d, 'n) handler" where
  "CommandLSort_Handle E lim ps s =
     bind_res (param ps 0) (\<lambda>p0.
     Inr (SUCCESS, push (KeyHelper_Retro E (se_user s)
         (text_object E lsort_query (lsort_query_Run (e_rocks E)) lsort_query_Process)
         p0 False) s))"

definition CommandLSort :: "('d, 'n) command" where
  "CommandLSort = (Command ''LSORT'' 1 1 CommandLSort_Handle)
     \<lparr>cm_check_key := 0, cm_group := CHR ''l'', cm_syntax := ''<key>''\<rparr>"

definition CommandLDel_Handle :: "('d, 'n) handler" where
  "CommandLDel_Handle E lim ps s =
     bind_res (param ps 0) (\<lambda>p0.
     bind_res (params_back ps) (\<lambda>last_p.
     Inr (SUCCESS, push (KeyHelper_Simple E (se_user s)
         (text_object E ldel_query (ldel_query_Run (e_rocks E)) ldel_query_Process)
         p0 last_p True) s)))"

definition CommandLDel :: "('d, 'n) command" where
  "CommandLDel = (Command ''LDEL'' 2 2 CommandLDel_Handle)
     \<lparr>cm_check_value := True, cm_check_key := 0, cm_group := CHR ''l'', cm_syntax := ''<key> '' @ [CHR 0x22] @ ''value'' @ [CHR 0x22]\<rparr>"

section \<open>Vectors: both ends\<close>

definition CommandVBack_Handle :: "('d, 'n) handler" where
  "CommandVBack_Handle E lim ps s =
     bind_res (param ps 0) (\<lambda>p0.
     Inr (SUCCESS, push (KeyHelper_Retro E (se_user s)
         (text_object E vback_query (vback_query_Run (e_rocks E)) vback_query_Process)
         p0 False) s))"

definition CommandVBack :: "('d, 'n) command" where
  "CommandVBack = (Command ''VBACK'' 1 1 CommandVBack_Handle)
     \<lparr>cm_check_key := 0, cm_group := CHR ''l'', cm_syntax := ''<vector>''\<rparr>"

definition CommandVFront_Handle :: "('d, 'n) handler" where
  "CommandVFront_Handle E lim ps s =
     bind_res (param ps 0) (\<lambda>p0.
     Inr (SUCCESS, push (KeyHelper_Retro E (se_user s)
         (text_object E vfront_query (vfront_query_Run (e_rocks E)) vfront_query_Process)
         p0 False) s))"

definition CommandVFront :: "('d, 'n) command" where
  "CommandVFront = (Command ''VFRONT'' 1 1 CommandVFront_Handle)
     \<lparr>cm_check_key := 0, cm_group := CHR ''l'', cm_syntax := ''<vector>''\<rparr>"

section \<open>Vectors\<close>

definition CommandVExist_Handle :: "('d, 'n) handler" where
  "CommandVExist_Handle E lim ps s =
     bind_res (param ps 0) (\<lambda>p0.
     bind_res (params_back ps) (\<lambda>last_p.
     Inr (SUCCESS, push (KeyHelper_Simple E (se_user s)
         (text_object E vexist_query (vexist_query_Run (e_rocks E)) vexist_query_Process)
         p0 last_p True) s)))"

definition CommandVExist :: "('d, 'n) command" where
  "CommandVExist = (Command ''VEXISTS'' 2 2 CommandVExist_Handle)
     \<lparr>cm_check_value := True, cm_check_key := 0, cm_group := CHR ''v'', cm_syntax := ''<vector> '' @ [CHR 0x22] @ ''value'' @ [CHR 0x22]\<rparr>"

definition CommandVPos_Handle :: "('d, 'n) handler" where
  "CommandVPos_Handle E lim ps s =
     bind_res (param ps 1) (\<lambda>p1.
     case CheckValidPos p1 s of (False, s) \<Rightarrow> Inr (FAILED, s) | (True, s) \<Rightarrow> (
     bind_res (param ps 0) (\<lambda>p0.
     Inr (SUCCESS, push (KeyHelper_SimpleRetro E (se_user s)
         (text_object E vpos_query (vpos_query_Run (e_rocks E)) vpos_query_Process)
         p0 p1) s))))"

definition CommandVPos :: "('d, 'n) command" where
  "CommandVPos = (Command ''VPOS'' 2 2 CommandVPos_Handle)
     \<lparr>cm_check_key := 0, cm_group := CHR ''v'', cm_syntax := ''<vector> <value>''\<rparr>"

definition CommandVGet_Handle :: "('d, 'n) handler" where
  "CommandVGet_Handle E lim ps s =
     bind_res (param ps 0) (\<lambda>p0.
     Inr (SUCCESS, push (KeyHelper_RetroLimits E (se_user s)
         (page_object E vget_query (vget_query_Run (new_object E) (e_rocks E)) vget_query_Process)
         p0 (fst lim) (snd lim) False) s))"

definition CommandVGet :: "('d, 'n) command" where
  "CommandVGet = (Command ''VGET'' 1 3 CommandVGet_Handle)
     \<lparr>cm_run_conf := True, cm_check_key := 0, cm_group := CHR ''v'', cm_syntax := ''<key> <offset> <limit>''\<rparr>"

definition CommandVCount_Handle :: "('d, 'n) handler" where
  "CommandVCount_Handle E lim ps s =
     bind_res (param ps 0) (\<lambda>p0.
     Inr (SUCCESS, push (KeyHelper_Retro E (se_user s)
         (text_object E vcount_query (vcount_query_Run (e_rocks E)) vcount_query_Process)
         p0 False) s))"

definition CommandVCount :: "('d, 'n) command" where
  "CommandVCount = (Command ''VCOUNT'' 1 1 CommandVCount_Handle)
     \<lparr>cm_check_key := 0, cm_group := CHR ''v'', cm_syntax := ''<key>''\<rparr>"

definition CommandVResize_Handle :: "('d, 'n) handler" where
  "CommandVResize_Handle E lim ps s =
     bind_res (param ps 1) (\<lambda>p1.
     case CheckValidPos p1 s of (False, s) \<Rightarrow> Inr (FAILED, s) | (True, s) \<Rightarrow> (
     bind_res (param ps 0) (\<lambda>p0.
     Inr (SUCCESS, push (KeyHelper_Simple E (se_user s)
         (text_object E vresize_query (vresize_query_Run (e_rocks E)) vresize_query_Process)
         p0 p1 True) s))))"

definition CommandVResize :: "('d, 'n) command" where
  "CommandVResize = (Command ''VRESIZE'' 2 2 CommandVResize_Handle)
     \<lparr>cm_check_key := 0, cm_group := CHR ''v'', cm_syntax := ''<key> <size>''\<rparr>"

definition CommandVKeys_Handle :: "('d, 'n) handler" where
  "CommandVKeys_Handle E lim ps s =
     bind_res (param ps 0) (\<lambda>p0.
     Inr (SUCCESS, push (KeyHelper_RetroLimits E (se_user s)
         (page_object E vkeys_query (vkeys_query_Run (new_object E) (e_rocks E)) vkeys_query_Process)
         p0 (fst lim) (snd lim) True) s))"

definition CommandVKeys :: "('d, 'n) command" where
  "CommandVKeys = (Command ''VKEYS'' 1 3 CommandVKeys_Handle)
     \<lparr>cm_run_conf := True, cm_group := CHR ''v'', cm_syntax := ''<%key> <offset> <limit>''\<rparr>"

definition CommandVDel_Handle :: "('d, 'n) handler" where
  "CommandVDel_Handle E lim ps s =
     bind_res (param ps 0) (\<lambda>p0.
     bind_res (params_back ps) (\<lambda>last_p.
     Inr (SUCCESS, push (KeyHelper_Simple E (se_user s)
         (text_object E vdel_query (vdel_query_Run (e_rocks E)) vdel_query_Process)
         p0 last_p True) s)))"

definition CommandVDel :: "('d, 'n) command" where
  "CommandVDel = (Command ''VDEL'' 2 2 CommandVDel_Handle)
     \<lparr>cm_check_value := True, cm_check_key := 0, cm_group := CHR ''v'', cm_syntax := ''<key> '' @ [CHR 0x22] @ ''value'' @ [CHR 0x22]\<rparr>"

definition CommandVReverse_Handle :: "('d, 'n) handler" where
  "CommandVReverse_Handle E lim ps s =
     bind_res (param ps 0) (\<lambda>p0.
     Inr (SUCCESS, push (KeyHelper_Retro E (se_user s)
         (text_object E vreverse_query (vreverse_query_Run (e_rocks E)) vreverse_query_Process)
         p0 False) s))"

definition CommandVReverse :: "('d, 'n) command" where
  "CommandVReverse = (Command ''VREVERSE'' 1 1 CommandVReverse_Handle)
     \<lparr>cm_check_key := 0, cm_group := CHR ''v'', cm_syntax := ''<key>''\<rparr>"

definition CommandVRepeats_Handle :: "('d, 'n) handler" where
  "CommandVRepeats_Handle E lim ps s =
     bind_res (param ps 0) (\<lambda>p0.
     bind_res (params_back ps) (\<lambda>last_p.
     Inr (SUCCESS, push (KeyHelper_Simple E (se_user s)
         (text_object E vrepeats_query (vrepeats_query_Run (e_rocks E)) vrepeats_query_Process)
         p0 last_p True) s)))"

definition CommandVRepeats :: "('d, 'n) command" where
  "CommandVRepeats = (Command ''VREPEATS'' 2 2 CommandVRepeats_Handle)
     \<lparr>cm_check_value := True, cm_check_key := 0, cm_group := CHR ''v'', cm_syntax := ''<key> '' @ [CHR 0x22] @ ''value'' @ [CHR 0x22]\<rparr>"

definition CommandVSort_Handle :: "('d, 'n) handler" where
  "CommandVSort_Handle E lim ps s =
     bind_res (param ps 0) (\<lambda>p0.
     Inr (SUCCESS, push (KeyHelper_Retro E (se_user s)
         (text_object E vsort_query (vsort_query_Run (e_rocks E)) vsort_query_Process)
         p0 False) s))"

definition CommandVSort :: "('d, 'n) command" where
  "CommandVSort = (Command ''VSORT'' 1 1 CommandVSort_Handle)
     \<lparr>cm_check_key := 0, cm_group := CHR ''v'', cm_syntax := ''<key>''\<rparr>"

definition CommandVPush_Handle :: "('d, 'n) handler" where
  "CommandVPush_Handle E lim ps s =
     bind_res (param ps 0) (\<lambda>p0.
     bind_res (params_back ps) (\<lambda>last_p.
     Inr (SUCCESS, push (KeyHelper_Simple E (se_user s)
         (text_object E vpush_query (vpush_query_Run (e_rocks E)) vpush_query_Process)
         p0 last_p True) s)))"

definition CommandVPush :: "('d, 'n) command" where
  "CommandVPush = (Command ''VPUSH'' 2 2 CommandVPush_Handle)
     \<lparr>cm_check_value := True, cm_check_key := 0, cm_group := CHR ''v'', cm_syntax := ''<key> '' @ [CHR 0x22] @ ''value'' @ [CHR 0x22]\<rparr>"

definition CommandVPopFront_Handle :: "('d, 'n) handler" where
  "CommandVPopFront_Handle E lim ps s =
     bind_res (param ps 0) (\<lambda>p0.
     Inr (SUCCESS, push (KeyHelper_Retro E (se_user s)
         (text_object E vpop_front_query (vpop_front_query_Run (e_rocks E)) vpop_front_query_Process)
         p0 False) s))"

definition CommandVPopFront :: "('d, 'n) command" where
  "CommandVPopFront = (Command ''VPOPFRONT'' 1 1 CommandVPopFront_Handle)
     \<lparr>cm_check_key := 0, cm_group := CHR ''v'', cm_syntax := ''<key> '' @ [CHR 0x22] @ ''value'' @ [CHR 0x22]\<rparr>"

definition CommandVPopBack_Handle :: "('d, 'n) handler" where
  "CommandVPopBack_Handle E lim ps s =
     bind_res (param ps 0) (\<lambda>p0.
     Inr (SUCCESS, push (KeyHelper_Retro E (se_user s)
         (text_object E vpop_back_query (vpop_back_query_Run (e_rocks E)) vpop_back_query_Process)
         p0 False) s))"

definition CommandVPopBack :: "('d, 'n) command" where
  "CommandVPopBack = (Command ''VPOPBACK'' 1 1 CommandVPopBack_Handle)
     \<lparr>cm_check_value := True, cm_check_key := 0, cm_group := CHR ''v'', cm_syntax := ''<key> '' @ [CHR 0x22] @ ''value'' @ [CHR 0x22]\<rparr>"

definition CommandVAvg_Handle :: "('d, 'n) handler" where
  "CommandVAvg_Handle E lim ps s =
     bind_res (param ps 0) (\<lambda>p0.
     Inr (SUCCESS, push (KeyHelper_Retro E (se_user s)
         (text_object E vavg_query (vavg_query_Run (dbl.truncate (e_dbl E)) (e_rocks E)) vavg_query_Process)
         p0 False) s))"

definition CommandVAvg :: "('d, 'n) command" where
  "CommandVAvg = (Command ''VAVG'' 1 1 CommandVAvg_Handle)
     \<lparr>cm_check_key := 0, cm_group := CHR ''v'', cm_syntax := ''<key>''\<rparr>"

definition CommandVHigh_Handle :: "('d, 'n) handler" where
  "CommandVHigh_Handle E lim ps s =
     bind_res (param ps 0) (\<lambda>p0.
     Inr (SUCCESS, push (KeyHelper_Retro E (se_user s)
         (text_object E vhigh_query (vhigh_query_Run (dbl.truncate (e_dbl E)) (e_rocks E)) vhigh_query_Process)
         p0 False) s))"

definition CommandVHigh :: "('d, 'n) command" where
  "CommandVHigh = (Command ''VHIGH'' 1 1 CommandVHigh_Handle)
     \<lparr>cm_check_key := 0, cm_group := CHR ''v'', cm_syntax := ''<key>''\<rparr>"

definition CommandVLow_Handle :: "('d, 'n) handler" where
  "CommandVLow_Handle E lim ps s =
     bind_res (param ps 0) (\<lambda>p0.
     Inr (SUCCESS, push (KeyHelper_Retro E (se_user s)
         (text_object E vlow_query (vlow_query_Run (dbl.truncate (e_dbl E)) (e_rocks E)) vlow_query_Process)
         p0 False) s))"

definition CommandVLow :: "('d, 'n) command" where
  "CommandVLow = (Command ''VLOW'' 1 1 CommandVLow_Handle)
     \<lparr>cm_check_key := 0, cm_group := CHR ''v'', cm_syntax := ''<key>''\<rparr>"

definition CommandVSum_Handle :: "('d, 'n) handler" where
  "CommandVSum_Handle E lim ps s =
     bind_res (param ps 0) (\<lambda>p0.
     Inr (SUCCESS, push (KeyHelper_Retro E (se_user s)
         (text_object E vsum_query (vsum_query_Run (dbl.truncate (e_dbl E)) (e_rocks E)) vsum_query_Process)
         p0 False) s))"

definition CommandVSum :: "('d, 'n) command" where
  "CommandVSum = (Command ''VSUM'' 1 1 CommandVSum_Handle)
     \<lparr>cm_check_key := 0, cm_group := CHR ''v'', cm_syntax := ''<key>''\<rparr>"

definition CommandVPushNX_Handle :: "('d, 'n) handler" where
  "CommandVPushNX_Handle E lim ps s =
     bind_res (param ps 0) (\<lambda>p0.
     bind_res (params_back ps) (\<lambda>last_p.
     Inr (SUCCESS, push (KeyHelper_Simple E (se_user s)
         (text_object E vpushnx_query (vpushnx_query_Run (e_rocks E)) vpushnx_query_Process)
         p0 last_p True) s)))"

definition CommandVPushNX :: "('d, 'n) command" where
  "CommandVPushNX = (Command ''VPUSHNX'' 2 2 CommandVPushNX_Handle)
     \<lparr>cm_check_value := True, cm_check_key := 0, cm_group := CHR ''v'', cm_syntax := ''<key> '' @ [CHR 0x22] @ ''value'' @ [CHR 0x22]\<rparr>"

definition CommandVFind_Handle :: "('d, 'n) handler" where
  "CommandVFind_Handle E lim ps s =
     bind_res (params_back ps) (\<lambda>last_p.
     bind_res (param ps 0) (\<lambda>p0.
     Inr (SUCCESS, push (KeyHelper_RetroLimits E (se_user s)
         (on_query (\<lambda>q. q\<lparr>q_value := (stripe last_p)\<rparr>) (text_object E vdel_query (vdel_query_Run (e_rocks E)) vdel_query_Process))
         p0 (fst lim) (snd lim) False) s)))"

definition CommandVFind :: "('d, 'n) command" where
  "CommandVFind = (Command ''VFIND'' 2 4 CommandVFind_Handle)
     \<lparr>cm_run_conf := True, cm_check_value := True, cm_check_key := 0, cm_group := CHR ''l'', cm_syntax := ''<key> '' @ [CHR 0x22] @ ''%value'' @ [CHR 0x22] @ '' <offset> <limit>''\<rparr>"

section \<open>The commands of these modules\<close>

definition list_commands :: "('d, 'n) command list" where
  "list_commands =
     [CommandLResize, CommandLGet, CommandLKeys, CommandLPos, CommandLRepeats, CommandLRop,
      CommandFRop, CommandLPush, CommandLExist, CommandLCount, CommandLBack, CommandLFront,
      CommandLPushNX, CommandLAvg, CommandLHigh, CommandLLow, CommandLPopBack, CommandLPopFront,
      CommandPopAll, CommandLReverse, CommandLSort, CommandLDel, CommandVBack, CommandVFront,
      CommandVExist, CommandVPos, CommandVGet, CommandVCount, CommandVResize, CommandVKeys,
      CommandVDel, CommandVReverse, CommandVRepeats, CommandVSort, CommandVPush, CommandVPopFront,
      CommandVPopBack, CommandVAvg, CommandVHigh, CommandVLow, CommandVSum, CommandVPushNX,
      CommandVFind]"

lemmas list_command_defs = CommandLResize_def CommandLGet_def CommandLKeys_def CommandLPos_def
  CommandLRepeats_def CommandLRop_def CommandFRop_def CommandLPush_def CommandLExist_def
  CommandLCount_def CommandLBack_def CommandLFront_def CommandLPushNX_def CommandLAvg_def
  CommandLHigh_def CommandLLow_def CommandLPopBack_def CommandLPopFront_def CommandPopAll_def
  CommandLReverse_def CommandLSort_def CommandLDel_def CommandVBack_def CommandVFront_def
  CommandVExist_def CommandVPos_def CommandVGet_def CommandVCount_def CommandVResize_def
  CommandVKeys_def CommandVDel_def CommandVReverse_def CommandVRepeats_def CommandVSort_def
  CommandVPush_def CommandVPopFront_def CommandVPopBack_def CommandVAvg_def CommandVHigh_def
  CommandVLow_def CommandVSum_def CommandVPushNX_def CommandVFind_def

lemmas list_command_handlers = CommandLResize_Handle_def CommandLGet_Handle_def
  CommandLKeys_Handle_def CommandLPos_Handle_def CommandLRepeats_Handle_def CommandLRop_Handle_def
  CommandFRop_Handle_def CommandLPush_Handle_def CommandLExist_Handle_def CommandLCount_Handle_def
  CommandLBack_Handle_def CommandLFront_Handle_def CommandLPushNX_Handle_def CommandLAvg_Handle_def
  CommandLHigh_Handle_def CommandLLow_Handle_def CommandLPopBack_Handle_def
  CommandLPopFront_Handle_def CommandPopAll_Handle_def CommandLReverse_Handle_def
  CommandLSort_Handle_def CommandLDel_Handle_def CommandVBack_Handle_def CommandVFront_Handle_def
  CommandVExist_Handle_def CommandVPos_Handle_def CommandVGet_Handle_def CommandVCount_Handle_def
  CommandVResize_Handle_def CommandVKeys_Handle_def CommandVDel_Handle_def
  CommandVReverse_Handle_def CommandVRepeats_Handle_def CommandVSort_Handle_def
  CommandVPush_Handle_def CommandVPopFront_Handle_def CommandVPopBack_Handle_def
  CommandVAvg_Handle_def CommandVHigh_Handle_def CommandVLow_Handle_def CommandVSum_Handle_def
  CommandVPushNX_Handle_def CommandVFind_Handle_def

end
