(* ===== verification/MapCommands.thy ===== *)
theory MapCommands
  imports Commands
begin

text \<open>
  The commands on maps (\<open>core_maps\<close>), on multimaps (\<open>core_mmaps\<close>) and on keys of any type
  (\<open>core_hints\<close>).
\<close>

section \<open>Maps\<close>

definition CommandHGet_Handle :: "('d, 'n) handler" where
  "CommandHGet_Handle E lim ps s =
     bind_res (param ps 0) (\<lambda>p0.
     bind_res (param ps 1) (\<lambda>p1.
     Inr (SUCCESS, push (KeyHelper_HeshRetro E (se_user s)
         (text_object E hget_query (hget_query_Run (e_rocks E)) hget_query_Process)
         p0 p1) s)))"

definition CommandHGet :: "('d, 'n) command" where
  "CommandHGet = (Command ''HGET'' 2 2 CommandHGet_Handle)
     \<lparr>cm_check_key := 0, cm_check_hash := 1, cm_group := CHR ''m'', cm_syntax := ''<map> <key>''\<rparr>"

definition CommandHCount_Handle :: "('d, 'n) handler" where
  "CommandHCount_Handle E lim ps s =
     bind_res (param ps 0) (\<lambda>p0.
     Inr (SUCCESS, push (KeyHelper_Retro E (se_user s)
         (on_query (\<lambda>q. q\<lparr>q_flags := QUERY_FLAGS_COUNT\<rparr>) (page_object E hlist_query (hlist_query_Run (new_object E) (e_rocks E)) hlist_query_Process))
         p0 False) s))"

definition CommandHCount :: "('d, 'n) command" where
  "CommandHCount = (Command ''HCOUNT'' 1 1 CommandHCount_Handle)
     \<lparr>cm_check_key := 0, cm_group := CHR ''m'', cm_syntax := ''<map>''\<rparr>"

definition CommandHExists_Handle :: "('d, 'n) handler" where
  "CommandHExists_Handle E lim ps s =
     bind_res (param ps 0) (\<lambda>p0.
     bind_res (param ps 1) (\<lambda>p1.
     Inr (SUCCESS, push (KeyHelper_HeshRetro E (se_user s)
         (text_object E hexists_query (hexists_query_Run (e_rocks E)) hexists_query_Process)
         p0 p1) s)))"

definition CommandHExists :: "('d, 'n) command" where
  "CommandHExists = (Command ''HEXISTS'' 2 2 CommandHExists_Handle)
     \<lparr>cm_check_key := 0, cm_check_hash := 1, cm_group := CHR ''m'', cm_syntax := ''<map> <key>''\<rparr>"

definition CommandHStrlen_Handle :: "('d, 'n) handler" where
  "CommandHStrlen_Handle E lim ps s =
     bind_res (param ps 0) (\<lambda>p0.
     bind_res (param ps 1) (\<lambda>p1.
     Inr (SUCCESS, push (KeyHelper_HeshRetro E (se_user s)
         (text_object E hstrlen_query (hstrlen_query_Run (e_rocks E)) hstrlen_query_Process)
         p0 p1) s)))"

definition CommandHStrlen :: "('d, 'n) command" where
  "CommandHStrlen = (Command ''HSTRLEN'' 2 2 CommandHStrlen_Handle)
     \<lparr>cm_check_key := 0, cm_check_hash := 1, cm_group := CHR ''m'', cm_syntax := ''<map> <key>''\<rparr>"

definition CommandHVals_Handle :: "('d, 'n) handler" where
  "CommandHVals_Handle E lim ps s =
     bind_res (param ps 0) (\<lambda>p0.
     Inr (SUCCESS, push (KeyHelper_RetroLimits E (se_user s)
         (page_object E hvals_query (hvals_query_Run (new_object E) (e_rocks E)) hvals_query_Process)
         p0 (fst lim) (snd lim) False) s))"

definition CommandHVals :: "('d, 'n) command" where
  "CommandHVals = (Command ''HVALS'' 1 3 CommandHVals_Handle)
     \<lparr>cm_run_conf := True, cm_check_key := 0, cm_group := CHR ''m'', cm_syntax := ''<map> <offset> <limit>''\<rparr>"

definition CommandHGetAll_Handle :: "('d, 'n) handler" where
  "CommandHGetAll_Handle E lim ps s =
     bind_res (param ps 0) (\<lambda>p0.
     Inr (SUCCESS, push (KeyHelper_RetroLimits E (se_user s)
         (page_object E hgetall_query (hgetall_query_Run (new_object E) (e_rocks E)) hgetall_query_Process)
         p0 (fst lim) (snd lim) False) s))"

definition CommandHGetAll :: "('d, 'n) command" where
  "CommandHGetAll = (Command ''HGETALL'' 1 3 CommandHGetAll_Handle)
     \<lparr>cm_run_conf := True, cm_check_key := 0, cm_group := CHR ''m'', cm_syntax := ''<map> <offset> <limit>''\<rparr>"

definition CommandHDel_Handle :: "('d, 'n) handler" where
  "CommandHDel_Handle E lim ps s =
     bind_res (param ps 0) (\<lambda>p0.
     bind_res (param ps 1) (\<lambda>p1.
     Inr (SUCCESS, push (KeyHelper_HeshRetro E (se_user s)
         (text_object E hdel_query (hdel_query_Run (e_rocks E)) hdel_query_Process)
         p0 p1) s)))"

definition CommandHDel :: "('d, 'n) command" where
  "CommandHDel = (Command ''HDEL'' 2 2 CommandHDel_Handle)
     \<lparr>cm_check_key := 0, cm_check_hash := 1, cm_group := CHR ''m'', cm_syntax := ''<map> <key>''\<rparr>"

definition CommandHSet_Handle :: "('d, 'n) handler" where
  "CommandHSet_Handle E lim ps s =
     bind_res (param ps 0) (\<lambda>p0.
     bind_res (param ps 1) (\<lambda>p1.
     bind_res (params_back ps) (\<lambda>last_p.
     Inr (SUCCESS, push (KeyHelper_SimpleHesh E (se_user s)
         (text_object E hset_query (hset_query_Run (e_rocks E)) hset_query_Process)
         p0 p1 last_p) s))))"

definition CommandHSet :: "('d, 'n) command" where
  "CommandHSet = (Command ''HSET'' 3 3 CommandHSet_Handle)
     \<lparr>cm_check_value := True, cm_check_key := 0, cm_check_hash := 1, cm_group := CHR ''m'', cm_syntax := ''<map> <key> '' @ [CHR 0x22] @ ''value'' @ [CHR 0x22]\<rparr>"

definition CommandHSetNX_Handle :: "('d, 'n) handler" where
  "CommandHSetNX_Handle E lim ps s =
     bind_res (param ps 0) (\<lambda>p0.
     bind_res (param ps 1) (\<lambda>p1.
     bind_res (params_back ps) (\<lambda>last_p.
     Inr (SUCCESS, push (KeyHelper_SimpleHesh E (se_user s)
         (text_object E hsetnx_query (hsetnx_query_Run (e_rocks E)) hsetnx_query_Process)
         p0 p1 last_p) s))))"

definition CommandHSetNX :: "('d, 'n) command" where
  "CommandHSetNX = (Command ''HSETNX'' 3 3 CommandHSetNX_Handle)
     \<lparr>cm_check_value := True, cm_check_key := 0, cm_check_hash := 1, cm_group := CHR ''m'', cm_syntax := ''<map> <key> '' @ [CHR 0x22] @ ''value'' @ [CHR 0x22]\<rparr>"

section \<open>Maps: listing\<close>

definition CommandHKeys_Handle :: "('d, 'n) handler" where
  "CommandHKeys_Handle E lim ps s =
     bind_res (param ps 0) (\<lambda>p0.
     Inr (SUCCESS, push (KeyHelper_RetroLimits E (se_user s)
         (page_object E hfind_query (hfind_query_Run (new_object E) (e_rocks E)) hfind_query_Process)
         p0 (fst lim) (snd lim) True) s))"

definition CommandHKeys :: "('d, 'n) command" where
  "CommandHKeys = (Command ''HKEYS'' 1 3 CommandHKeys_Handle)
     \<lparr>cm_run_conf := True, cm_group := CHR ''m'', cm_syntax := ''<map> <offset> <limit>''\<rparr>"

definition CommandHList_Handle :: "('d, 'n) handler" where
  "CommandHList_Handle E lim ps s =
     bind_res (param ps 0) (\<lambda>p0.
     Inr (SUCCESS, push (KeyHelper_RetroLimits E (se_user s)
         (page_object E hlist_query (hlist_query_Run (new_object E) (e_rocks E)) hlist_query_Process)
         p0 (fst lim) (snd lim) False) s))"

definition CommandHList :: "('d, 'n) command" where
  "CommandHList = (Command ''HLIST'' 1 3 CommandHList_Handle)
     \<lparr>cm_run_conf := True, cm_check_key := 0, cm_group := CHR ''m'', cm_syntax := ''<map> <offset> <limit>''\<rparr>"

section \<open>Multimaps\<close>

definition CommandMGet_Handle :: "('d, 'n) handler" where
  "CommandMGet_Handle E lim ps s =
     bind_res (param ps 0) (\<lambda>p0.
     Inr (SUCCESS, push (KeyHelper_RetroLimits E (se_user s)
         (page_object E mget_query (mget_query_Run (new_object E) (e_rocks E)) mget_query_Process)
         p0 (fst lim) (snd lim) False) s))"

definition CommandMGet :: "('d, 'n) command" where
  "CommandMGet = (Command ''MGET'' 1 3 CommandMGet_Handle)
     \<lparr>cm_run_conf := True, cm_check_key := 0, cm_group := CHR ''x'', cm_syntax := ''<map> <limit> <offset>''\<rparr>"

definition CommandMCount_Handle :: "('d, 'n) handler" where
  "CommandMCount_Handle E lim ps s =
     bind_res (param ps 0) (\<lambda>p0.
     Inr (SUCCESS, push (KeyHelper_Retro E (se_user s)
         (on_query (\<lambda>q. q\<lparr>q_flags := QUERY_FLAGS_COUNT\<rparr>) (page_object E mget_query (mget_query_Run (new_object E) (e_rocks E)) mget_query_Process))
         p0 False) s))"

definition CommandMCount :: "('d, 'n) command" where
  "CommandMCount = (Command ''MCOUNT'' 1 1 CommandMCount_Handle)
     \<lparr>cm_check_key := 0, cm_group := CHR ''x'', cm_syntax := ''<map>''\<rparr>"

definition CommandMPush_Handle :: "('d, 'n) handler" where
  "CommandMPush_Handle E lim ps s =
     bind_res (param ps 0) (\<lambda>p0.
     bind_res (param ps 1) (\<lambda>p1.
     bind_res (params_back ps) (\<lambda>last_p.
     Inr (SUCCESS, push (KeyHelper_SimpleHesh E (se_user s)
         (text_object E mset_query (mset_query_Run (e_rocks E)) mset_query_Process)
         p0 p1 last_p) s))))"

definition CommandMPush :: "('d, 'n) command" where
  "CommandMPush = (Command ''MPUSH'' 3 3 CommandMPush_Handle)
     \<lparr>cm_check_value := True, cm_check_key := 0, cm_check_hash := 1, cm_group := CHR ''x'', cm_syntax := ''<map> <hash> '' @ [CHR 0x22] @ ''value'' @ [CHR 0x22]\<rparr>"

definition CommandMPushNX_Handle :: "('d, 'n) handler" where
  "CommandMPushNX_Handle E lim ps s =
     bind_res (param ps 0) (\<lambda>p0.
     bind_res (param ps 1) (\<lambda>p1.
     bind_res (params_back ps) (\<lambda>last_p.
     Inr (SUCCESS, push (KeyHelper_SimpleHesh E (se_user s)
         (text_object E msetnx_query (msetnx_query_Run (e_rocks E)) msetnx_query_Process)
         p0 p1 last_p) s))))"

definition CommandMPushNX :: "('d, 'n) command" where
  "CommandMPushNX = (Command ''MPUSHNX'' 3 3 CommandMPushNX_Handle)
     \<lparr>cm_check_value := True, cm_check_key := 0, cm_check_hash := 1, cm_group := CHR ''v'', cm_syntax := ''<map> <hash> '' @ [CHR 0x22] @ ''value'' @ [CHR 0x22]\<rparr>"

definition CommandMKeys_Handle :: "('d, 'n) handler" where
  "CommandMKeys_Handle E lim ps s =
     bind_res (param ps 0) (\<lambda>p0.
     Inr (SUCCESS, push (KeyHelper_RetroLimits E (se_user s)
         (page_object E mkeys_query (mkeys_query_Run (new_object E) (e_rocks E)) mkeys_query_Process)
         p0 (fst lim) (snd lim) True) s))"

definition CommandMKeys :: "('d, 'n) command" where
  "CommandMKeys = (Command ''MKEYS'' 1 3 CommandMKeys_Handle)
     \<lparr>cm_run_conf := True, cm_group := CHR ''x'', cm_syntax := ''<map> <limit> <offset>''\<rparr>"

definition CommandMDel_Handle :: "('d, 'n) handler" where
  "CommandMDel_Handle E lim ps s =
     bind_res (param ps 0) (\<lambda>p0.
     bind_res (param ps 1) (\<lambda>p1.
     Inr (SUCCESS, push (KeyHelper_Simple E (se_user s)
         (text_object E mdel_query (mdel_query_Run (e_rocks E)) mdel_query_Process)
         p0 p1 True) s)))"

definition CommandMDel :: "('d, 'n) command" where
  "CommandMDel = (Command ''MDEL'' 2 2 CommandMDel_Handle)
     \<lparr>cm_check_key := 0, cm_check_hash := 1, cm_group := CHR ''x'', cm_syntax := ''<map> <hash>''\<rparr>"

definition CommandMRepeats_Handle :: "('d, 'n) handler" where
  "CommandMRepeats_Handle E lim ps s =
     bind_res (param ps 0) (\<lambda>p0.
     bind_res (param ps 1) (\<lambda>p1.
     Inr (SUCCESS, push (KeyHelper_Simple E (se_user s)
         (text_object E mrepeats_query (mrepeats_query_Run (e_rocks E)) mrepeats_query_Process)
         p0 p1 True) s)))"

definition CommandMRepeats :: "('d, 'n) command" where
  "CommandMRepeats = (Command ''MREPEATS'' 2 2 CommandMRepeats_Handle)
     \<lparr>cm_check_key := 0, cm_check_hash := 1, cm_group := CHR ''x'', cm_syntax := ''<map> <hash>''\<rparr>"

definition CommandMVals_Handle :: "('d, 'n) handler" where
  "CommandMVals_Handle E lim ps s =
     bind_res (param ps 0) (\<lambda>p0.
     Inr (SUCCESS, push (KeyHelper_RetroLimits E (se_user s)
         (page_object E mvals_query (mvals_query_Run (new_object E) (e_rocks E)) mvals_query_Process)
         p0 (fst lim) (snd lim) False) s))"

definition CommandMVals :: "('d, 'n) command" where
  "CommandMVals = (Command ''MVALS'' 1 3 CommandMVals_Handle)
     \<lparr>cm_run_conf := True, cm_check_key := 0, cm_group := CHR ''x'', cm_syntax := ''<map> <offset> <limit>''\<rparr>"

definition CommandMGetAll_Handle :: "('d, 'n) handler" where
  "CommandMGetAll_Handle E lim ps s =
     bind_res (param ps 0) (\<lambda>p0.
     Inr (SUCCESS, push (KeyHelper_RetroLimits E (se_user s)
         (page_object E mgetall_query (mgetall_query_Run (new_object E) (e_rocks E)) mgetall_query_Process)
         p0 (fst lim) (snd lim) False) s))"

definition CommandMGetAll :: "('d, 'n) command" where
  "CommandMGetAll = (Command ''MGETALL'' 1 3 CommandMGetAll_Handle)
     \<lparr>cm_run_conf := True, cm_check_key := 0, cm_group := CHR ''x'', cm_syntax := ''<map> <offset> <limit>''\<rparr>"

definition CommandMIter_Handle :: "('d, 'n) handler" where
  "CommandMIter_Handle E lim ps s =
     bind_res (param ps 1) (\<lambda>p1.
     bind_res (param ps 0) (\<lambda>p0.
     Inr (SUCCESS, push (KeyHelper_RetroLimits E (se_user s)
         (on_query (\<lambda>q. q\<lparr>q_value := p1\<rparr>) (page_object E miter_query (miter_query_Run (new_object E) (e_rocks E)) miter_query_Process))
         p0 (fst lim) (snd lim) False) s)))"

definition CommandMIter :: "('d, 'n) command" where
  "CommandMIter = (Command ''MITER'' 2 4 CommandMIter_Handle)
     \<lparr>cm_run_conf := True, cm_check_key := 0, cm_check_hash := 1, cm_group := CHR ''x'', cm_syntax := ''<map> <hash> <limit> <offset>''\<rparr>"

section \<open>Keys of any type\<close>

definition CommandTransfer_Handle :: "('d, 'n) handler" where
  "CommandTransfer_Handle E lim ps s =
     bind_res (param ps 1) (\<lambda>p1.
     case e_find E p1 of
       None \<Rightarrow> Inr (FAILED, SendProtocol ERR_INPUT [PROCESS_FALSE] s)
     | Some database \<Rightarrow>
         if Some database = cl_database (se_user s)
         then Inr (FAILED, SendProtocol ERR_INPUT [PROCESS_ERROR] s)
         else bind_res (param ps 0) (\<lambda>p0.
           Inr (SUCCESS, push (GlobalHelper_Transfer E (se_user s) p0 database) s)))"

definition CommandTransfer :: "('d, 'n) command" where
  "CommandTransfer = (Command ''TRANSFER'' 2 2 CommandTransfer_Handle)
     \<lparr>cm_check_key := 0, cm_group := CHR ''h'', cm_syntax := ''<key> <dest database>''\<rparr>"

definition CommandRename_Handle :: "('d, 'n) handler" where
  "CommandRename_Handle E lim ps s =
     bind_res (param ps 0) (\<lambda>p0.
     bind_res (param ps 1) (\<lambda>p1.
     Inr (SUCCESS, push (KeyHelper_SimpleRetro E (se_user s)
         (text_object E rename_query (rename_query_Run (e_rocks E)) rename_query_Process)
         p0 p1) s)))"

definition CommandRename :: "('d, 'n) command" where
  "CommandRename = (Command ''RENAME'' 2 2 CommandRename_Handle)
     \<lparr>cm_check_key := 0, cm_check_hash := 1, cm_group := CHR ''h'', cm_syntax := ''<key> <new key>''\<rparr>"

definition CommandRenameNX_Handle :: "('d, 'n) handler" where
  "CommandRenameNX_Handle E lim ps s =
     bind_res (param ps 0) (\<lambda>p0.
     bind_res (param ps 1) (\<lambda>p1.
     Inr (SUCCESS, push (KeyHelper_SimpleRetro E (se_user s)
         (text_object E renamenx_query (renamenx_query_Run (e_rocks E)) renamenx_query_Process)
         p0 p1) s)))"

definition CommandRenameNX :: "('d, 'n) command" where
  "CommandRenameNX = (Command ''RENAMENX'' 2 2 CommandRenameNX_Handle)
     \<lparr>cm_check_key := 0, cm_check_hash := 1, cm_group := CHR ''h'', cm_syntax := ''<key> <new key>''\<rparr>"

definition CommandDel_Handle :: "('d, 'n) handler" where
  "CommandDel_Handle E lim ps s =
     bind_res (param ps 0) (\<lambda>p0.
     Inr (SUCCESS, push (KeyHelper_Retro E (se_user s)
         (text_object E del_query (del_query_Run (e_rocks E)) del_query_Process)
         p0 False) s))"

definition CommandDel :: "('d, 'n) command" where
  "CommandDel = (Command ''DEL'' 1 0 CommandDel_Handle)
     \<lparr>cm_check_key := 0, cm_syntax := ''<key>''\<rparr>"

definition CommandCopy_Handle :: "('d, 'n) handler" where
  "CommandCopy_Handle E lim ps s =
     bind_res (param ps 0) (\<lambda>p0.
     bind_res (param ps 1) (\<lambda>p1.
     Inr (SUCCESS, push (KeyHelper_SimpleRetro E (se_user s)
         (text_object E copy_query (copy_query_Run (e_rocks E)) copy_query_Process)
         p0 p1) s)))"

definition CommandCopy :: "('d, 'n) command" where
  "CommandCopy = (Command ''COPY'' 2 2 CommandCopy_Handle)
     \<lparr>cm_check_key := 0, cm_check_hash := 1, cm_group := CHR ''h'', cm_syntax := ''<key> <dest key>''\<rparr>"

definition CommandExists_Handle :: "('d, 'n) handler" where
  "CommandExists_Handle E lim ps s =
     bind_res (param ps 0) (\<lambda>p0.
     Inr (SUCCESS, push (KeyHelper_Retro E (se_user s)
         (text_object E exists_query exists_query_Run exists_query_Process)
         p0 False) s))"

definition CommandExists :: "('d, 'n) command" where
  "CommandExists = (Command ''EXISTS'' 1 1 CommandExists_Handle)
     \<lparr>cm_check_key := 0, cm_group := CHR ''h'', cm_syntax := ''<key>''\<rparr>"

definition CommandMove_Handle :: "('d, 'n) handler" where
  "CommandMove_Handle E lim ps s =
     bind_res (param ps 1) (\<lambda>p1.
     case CheckValidPos p1 s of (False, s) \<Rightarrow> Inr (FAILED, s) | (True, s) \<Rightarrow> (
     case CheckRange p1 INVALID_RANGE 1 100 s of (False, s) \<Rightarrow> Inr (FAILED, s) | (True, s) \<Rightarrow> (
     bind_res (param ps 0) (\<lambda>p0.
     Inr (SUCCESS, push (KeyHelper_Simple E (se_user s)
         (text_object E move_query (move_query_Run (e_rocks E)) move_query_Process)
         p0 p1 False) s)))))"

definition CommandMove :: "('d, 'n) command" where
  "CommandMove = (Command ''MOVE'' 2 2 CommandMove_Handle)
     \<lparr>cm_check_key := 0, cm_group := CHR ''h'', cm_syntax := ''<key> <select>''\<rparr>"

definition CommandType_Handle :: "('d, 'n) handler" where
  "CommandType_Handle E lim ps s =
     bind_res (param ps 0) (\<lambda>p0.
     Inr (SUCCESS, push (KeyHelper_SimpleType E (se_user s)
         (line_object E type_query type_query_Run type_query_Process)
         p0 QUERY_TYPE_TYPE) s))"

definition CommandType :: "('d, 'n) command" where
  "CommandType = (Command ''TYPE'' 1 1 CommandType_Handle)
     \<lparr>cm_check_key := 0, cm_group := CHR ''h''\<rparr>"

definition CommandTouch_Handle :: "('d, 'n) handler" where
  "CommandTouch_Handle E lim ps s =
     bind_res (params_back ps) (\<lambda>last_p.
     Inr (SUCCESS, push (KeyHelper_Simple E (se_user s)
         (line_object E touch_query (touch_query_Run (e_rocks E)) touch_query_Process)
         [] last_p False) s))"

definition CommandTouch :: "('d, 'n) command" where
  "CommandTouch = (Command ''TOUCH'' 1 1 CommandTouch_Handle)
     \<lparr>cm_group := CHR ''h'', cm_syntax := ''[keys]''\<rparr>"

definition CommandNTouch_Handle :: "('d, 'n) handler" where
  "CommandNTouch_Handle E lim ps s =
     bind_res (params_back ps) (\<lambda>last_p.
     Inr (SUCCESS, push (KeyHelper_Simple E (se_user s)
         (line_object E ntouch_query (ntouch_query_Run (e_rocks E)) ntouch_query_Process)
         [] last_p False) s))"

definition CommandNTouch :: "('d, 'n) command" where
  "CommandNTouch = (Command ''NTOUCH'' 1 1 CommandNTouch_Handle)
     \<lparr>cm_syntax := ''[keys]'', cm_group := CHR ''h''\<rparr>"

definition CommandClone_Handle :: "('d, 'n) handler" where
  "CommandClone_Handle E lim ps s =
     bind_res (param ps 1) (\<lambda>p1.
     case CheckValidPos p1 s of (False, s) \<Rightarrow> Inr (FAILED, s) | (True, s) \<Rightarrow> (
     case CheckRange p1 INVALID_RANGE 1 100 s of (False, s) \<Rightarrow> Inr (FAILED, s) | (True, s) \<Rightarrow> (
     bind_res (param ps 0) (\<lambda>p0.
     Inr (SUCCESS, push (KeyHelper_SimpleRetro E (se_user s)
         (text_object E clone_query (clone_query_Run (e_rocks E)) clone_query_Process)
         p0 p1) s)))))"

definition CommandClone :: "('d, 'n) command" where
  "CommandClone = (Command ''CLONE'' 2 2 CommandClone_Handle)
     \<lparr>cm_check_key := 0, cm_group := CHR ''h'', cm_syntax := ''<key> <select>''\<rparr>"

definition CommandDiff_Handle :: "('d, 'n) handler" where
  "CommandDiff_Handle E lim ps s =
     bind_res (param ps 1) (\<lambda>p1.
     bind_res (param ps 0) (\<lambda>p0.
     Inr (SUCCESS, push (KeyHelper_RetroLimits E (se_user s)
         (on_query (\<lambda>q. q\<lparr>q_value := p1\<rparr>) (page_object E diff_query (diff_query_Run (new_object E) (e_rocks E)) diff_query_Process))
         p0 (fst lim) (snd lim) False) s)))"

definition CommandDiff :: "('d, 'n) command" where
  "CommandDiff = (Command ''DIFF'' 2 4 CommandDiff_Handle)
     \<lparr>cm_run_conf := True, cm_check_key := 0, cm_group := CHR ''h'', cm_syntax := ''<key> <select> <offset> <limit>''\<rparr>"

section \<open>The commands of these modules\<close>

definition map_commands :: "('d, 'n) command list" where
  "map_commands =
     [CommandHGet, CommandHCount, CommandHExists, CommandHStrlen, CommandHVals, CommandHGetAll,
      CommandHDel, CommandHSet, CommandHSetNX, CommandHKeys, CommandHList, CommandMGet,
      CommandMCount, CommandMPush, CommandMPushNX, CommandMKeys, CommandMDel, CommandMRepeats,
      CommandMVals, CommandMGetAll, CommandMIter, CommandTransfer, CommandRename, CommandRenameNX,
      CommandDel, CommandCopy, CommandExists, CommandMove, CommandType, CommandTouch,
      CommandNTouch, CommandClone, CommandDiff]"

lemmas map_command_defs = CommandHGet_def CommandHCount_def CommandHExists_def CommandHStrlen_def
  CommandHVals_def CommandHGetAll_def CommandHDel_def CommandHSet_def CommandHSetNX_def
  CommandHKeys_def CommandHList_def CommandMGet_def CommandMCount_def CommandMPush_def
  CommandMPushNX_def CommandMKeys_def CommandMDel_def CommandMRepeats_def CommandMVals_def
  CommandMGetAll_def CommandMIter_def CommandTransfer_def CommandRename_def CommandRenameNX_def
  CommandDel_def CommandCopy_def CommandExists_def CommandMove_def CommandType_def CommandTouch_def
  CommandNTouch_def CommandClone_def CommandDiff_def

lemmas map_command_handlers = CommandHGet_Handle_def CommandHCount_Handle_def
  CommandHExists_Handle_def CommandHStrlen_Handle_def CommandHVals_Handle_def
  CommandHGetAll_Handle_def CommandHDel_Handle_def CommandHSet_Handle_def CommandHSetNX_Handle_def
  CommandHKeys_Handle_def CommandHList_Handle_def CommandMGet_Handle_def CommandMCount_Handle_def
  CommandMPush_Handle_def CommandMPushNX_Handle_def CommandMKeys_Handle_def CommandMDel_Handle_def
  CommandMRepeats_Handle_def CommandMVals_Handle_def CommandMGetAll_Handle_def
  CommandMIter_Handle_def CommandTransfer_Handle_def CommandRename_Handle_def
  CommandRenameNX_Handle_def CommandDel_Handle_def CommandCopy_Handle_def CommandExists_Handle_def
  CommandMove_Handle_def CommandType_Handle_def CommandTouch_Handle_def CommandNTouch_Handle_def
  CommandClone_Handle_def CommandDiff_Handle_def

end
