(* ===== verification/TimerCommands.thy ===== *)
theory TimerCommands
  imports Commands
begin

text \<open>
  The commands on deadlines (\<open>core_expires\<close>) and on values to be set later (\<open>core_futures\<close>), which
  read and reset the two registries, and those that gather commands to run together
  (\<open>core_multi\<close>).
\<close>

section \<open>Listings\<close>

text \<open>
  The lines of a listing: the interactive client gets a table, another one plain fields.  \<open>dash\<close> is
  the horizontal bar in UTF-8.
\<close>

definition JustEmerald_to :: "nat \<Rightarrow> string \<Rightarrow> 'd session \<Rightarrow> 'd session" where
  "JustEmerald_to brld msg s =
     (if cl_agent (se_user s) \<noteq> DEFAULT_EMERALD then s else SendProtocol brld [msg] s)"

definition JustAPI_to :: "nat \<Rightarrow> 'd session \<Rightarrow> 'd session" where
  "JustAPI_to brld s = (if cl_agent (se_user s) = DEFAULT_EMERALD then s else SendProtocol brld [] s)"

definition ListDepend_to :: "nat \<Rightarrow> string \<Rightarrow> string \<Rightarrow> 'd session \<Rightarrow> 'd session" where
  "ListDepend_to brld msg msg2 s =
     (if cl_agent (se_user s) = DEFAULT_EMERALD then SendProtocol brld [msg] s else SendProtocol brld [msg2] s)"

definition dash :: string where "dash = [CHR 0xE2, CHR 0x80, CHR 0x95]"

definition border :: string where
  "border = ''+'' @ pad 25 (Repeat ''-'' 26) @ ''+'' @ pad 25 (Repeat ''-'' 26) @ ''+'' @
            pad 9 (Repeat ''-'' 10) @ ''+'' @ pad 10 (Repeat ''-'' 10) @ ''+''"

definition row :: "string \<Rightarrow> string \<Rightarrow> string \<Rightarrow> string \<Rightarrow> string" where
  "row a b c d = ''| '' @ pad 25 a @ ''| '' @ pad 25 b @ ''| '' @ pad 9 c @ ''| '' @ pad 9 d @ ''|''"

definition columns :: "string \<Rightarrow> string \<Rightarrow> string \<Rightarrow> string \<Rightarrow> string" where
  "columns a b c d = pad 25 a @ '' | '' @ pad 25 b @ '' | '' @ pad 9 c @ '' | '' @ pad 10 d"

definition fields :: "string \<Rightarrow> string \<Rightarrow> string \<Rightarrow> string \<Rightarrow> string" where
  "fields a b c d = c_str a @ '' '' @ c_str b @ '' '' @ c_str c @ '' '' @ c_str d"

definition list_head :: "'d session \<Rightarrow> 'd session" where
  "list_head s =
     JustEmerald_to BRLD_START_LIST border
       (JustEmerald_to BRLD_START_LIST (row ''Key'' ''Schedule'' ''Select'' ''Database'')
         (JustEmerald_to BRLD_START_LIST border (JustAPI_to BRLD_START_LIST s)))"

definition timer_line :: "string \<Rightarrow> string \<Rightarrow> u32 \<Rightarrow> string \<Rightarrow> 'd session \<Rightarrow> 'd session" where
  "timer_line dbname schedule select key s =
     ListDepend_to BRLD_ITEM_LIST (row key schedule (convto_string select) dbname)
       (fields key schedule (convto_string select) dbname) s"

definition select_line :: "string \<Rightarrow> string \<Rightarrow> u32 \<Rightarrow> string \<Rightarrow> 'd session \<Rightarrow> 'd session" where
  "select_line dbname schedule select key s =
     ListDepend_to BRLD_ITEM_LIST (columns key schedule (convto_string select) dbname)
       (fields key schedule (convto_string select) dbname) s"

text \<open>The queries the registries push when they are reset, and the name of the user's database.\<close>

fun request_signal :: "('d, 'n) env \<Rightarrow> request \<Rightarrow> 'd signal" where
  "request_signal E (Push_del d select key) = GlobalHelper_ExpireDelete E d select key"
| "request_signal E (Push_expire_del d select key) = ExpireHelper_Persist (e_rocks E) d select key"
| "request_signal E (Push_future_exec d select key) = GlobalHelper_FutureExecute E d select key"
| "request_signal E (Push_future_del d select key) = GlobalHelper_FutureGlobalCancel E d select key"

definition push_requests :: "('d, 'n) env \<Rightarrow> request list \<Rightarrow> 'd session \<Rightarrow> 'd session" where
  "push_requests E rs s = fold (\<lambda>r. push (request_signal E r)) rs s"

definition database_name :: "'d session \<Rightarrow> string res" where
  "database_name s =
     (case cl_database (se_user s) of
        None \<Rightarrow> Inl Undefined_behaviour
      | Some d \<Rightarrow> Inr (d_name (w_dbs (se_world s) d)))"

definition select_as_char :: "u32 \<Rightarrow> string" where
  "select_as_char select = [char_of (unat select)]"

text \<open>\<open>(int)ttl - (int)Kernel->Now()\<close>, converted to \<open>unsigned int\<close> and printed.\<close>

definition seconds_left :: "int \<Rightarrow> int \<Rightarrow> string res" where
  "seconds_left ttl now =
     (let n = ttl - to_signed now
      in if - (2 ^ 31) \<le> n \<and> n < 2 ^ 31 then Inr (convto_string (of_int n)) else Inl Undefined_behaviour)"

section \<open>Expires\<close>

definition CommandExpireFIND_Handle :: "('d, 'n) handler" where
  "CommandExpireFIND_Handle E lim ps s =
     bind_res (param ps 1) (\<lambda>arg.
     if length ps = 2 \<and> arg \<noteq> ''h'' \<and> arg \<noteq> ''r''
     then Inr (FAILED, SendProtocol ERR_INPUT [INVALID_TYPE] s)
     else bind_res (param ps 0) (\<lambda>p0.
       (let user = se_user s;
            s = JustAPI_to BRLD_START_LIST s;
            s = JustEmerald_to BRLD_START_LIST border s;
            s = JustEmerald_to BRLD_START_LIST (row ''Key'' ''Schedule'' ''Select'' ''Database'') s;
            s = JustEmerald_to BRLD_START_LIST (''+'' @ pad 30 (Repeat ''-'' 31) @ ''+'' @ pad 10 (Repeat ''-'' 11)) s;
            s = JustEmerald_to BRLD_START_LIST (''+'' @ pad 30 ''Expire'' @ '' | '' @ pad 10 ''Schedule'') s;
            s = JustEmerald_to BRLD_START_LIST (pad 30 (Repeat dash 30) @ '' | '' @ pad 10 (Repeat dash 10)) s;
            hits = filter (\<lambda>entry. e_database entry = GetDatabase E user \<and> e_select entry = cl_select user \<and>
                     Match (e_key entry) p0) (map snd (w_expires (se_world s)));
            s = fold (\<lambda>entry s.
                  let schedule = (if length ps = 2 \<and> arg = ''h'' then conv_numeric (e_schedule entry)
                                  else c_str (e_human E (e_schedule entry)))
                  in ListDepend_to BRLD_ITEM_LIST (pad 30 (e_key entry) @ '' | '' @ pad 10 schedule)
                       (c_str (e_key entry) @ '' '' @ c_str schedule) s) hits s
        in Inr (SUCCESS, JustAPI_to BRLD_END_LIST s))))"

definition CommandExpireFIND :: "('d, 'n) command" where
  "CommandExpireFIND = (Command ''EXPFIND'' 1 2 CommandExpireFIND_Handle)
     \<lparr>cm_last_empty_ok := True, cm_flags := CHR ''e'', cm_syntax := ''<%key> <argument>''\<rparr>"

definition CommandExpireLIST_Handle :: "('d, 'n) handler" where
  "CommandExpireLIST_Handle E lim ps s =
     bind_res (param ps 0) (\<lambda>arg.
     if ps \<noteq> [] \<and> arg \<noteq> ''h'' \<and> arg \<noteq> ''r''
     then Inr (FAILED, SendProtocol ERR_INPUT [INVALID_TYPE] s)
     else (let expiring = map snd (w_expires (se_world s))
           in if expiring = []
              then Inr (SUCCESS, JustAPI_to BRLD_END_LIST (JustEmerald_to BRLD_OK PROCESS_EMPTY
                     (JustAPI_to BRLD_START_LIST s)))
              else (let s = list_head s;
                        s = fold (\<lambda>entry s.
                              timer_line (d_name (w_dbs (se_world s) (e_database entry)))
                                (if ps \<noteq> [] \<and> arg = ''h'' then conv_numeric (e_schedule entry)
                                 else c_str (e_human E (e_schedule entry)))
                                (e_select entry) (e_key entry) s) expiring s
                    in Inr (SUCCESS, JustAPI_to BRLD_END_LIST (JustEmerald_to BRLD_END_LIST border s)))))"

definition CommandExpireLIST :: "('d, 'n) command" where
  "CommandExpireLIST = (Command ''EXPLIST'' 0 1 CommandExpireLIST_Handle)
     \<lparr>cm_last_empty_ok := True, cm_flags := CHR ''e'', cm_syntax := ''<*argument>''\<rparr>"

definition CommandReset_Handle :: "('d, 'n) handler" where
  "CommandReset_Handle E lim ps s =
     (let counter = of_nat (length (w_expires (se_world s))) :: u32;
          s = push_requests E (ExpireManager_Reset (w_expires (se_world s))) s
      in Inr (SUCCESS, happens (Notify (''All expires have been removed: '' @ convto_string counter))
                (SendProtocol BRLD_OK [PROCESS_OK] s)))"

definition CommandReset :: "('d, 'n) command" where
  "CommandReset = (Command ''RESET'' 0 0 CommandReset_Handle)
     \<lparr>cm_flags := CHR ''e''\<rparr>"

text \<open>Without an argument \<open>use = user->select\<close> assigns a number to a text: it becomes one character.\<close>

definition CommandSelectReset_Handle :: "('d, 'n) handler" where
  "CommandSelectReset_Handle E lim ps s =
     (let user = se_user s;
          use = (if ps \<noteq> [] then hd ps else select_as_char (cl_select user));
          checked = (if ps \<noteq> []
                     then (case CheckValidPos use s of
                             (False, s) \<Rightarrow> (False, s)
                           | (True, s) \<Rightarrow> CheckRange use INVALID_RANGE 1 100 s)
                     else (True, s))
      in case checked of
           (False, s) \<Rightarrow> Inr (FAILED, s)
         | (True, s) \<Rightarrow>
             bind_res (database_name s) (\<lambda>dbname.
               (let (counter, rs) = ExpireManager_SelectReset (e_find E) dbname (convto_num_uint use)
                                      (w_expires (se_world s));
                    s = push_requests E rs s
                in Inr (SUCCESS, happens (Notify (''Expires from select '' @ c_str use @
                          '' have been removed: '' @ convto_string counter))
                        (SendProtocol BRLD_OK [PROCESS_OK] s)))))"

definition CommandSelectReset :: "('d, 'n) command" where
  "CommandSelectReset = (Command ''SRESET'' 0 1 CommandSelectReset_Handle)
     \<lparr>cm_syntax := ''<select>''\<rparr>"

definition CommandExpire_Handle :: "('d, 'n) handler" where
  "CommandExpire_Handle E lim ps s =
     bind_res (param ps 1) (\<lambda>p1.
     case CheckValidPos p1 s of (False, s) \<Rightarrow> Inr (FAILED, s) | (True, s) \<Rightarrow> (
     bind_res (param ps 0) (\<lambda>p0.
     Inr (SUCCESS, push (ExpireHelper_Expire E (w_now (se_world s)) (se_user s) p0 (convto_num_uint p1)) s))))"

definition CommandExpire :: "('d, 'n) command" where
  "CommandExpire = (Command ''EXPIRE'' 2 2 CommandExpire_Handle)
     \<lparr>cm_check_key := 0, cm_group := CHR ''e'', cm_syntax := ''<key> <seconds>''\<rparr>"

definition CommandDBEReset_Handle :: "('d, 'n) handler" where
  "CommandDBEReset_Handle E lim ps s =
     bind_res (param ps 0) (\<lambda>p0.
     case e_find E p0 of
       None \<Rightarrow> Inr (FAILED, SendProtocol ERR_INPUT [PROCESS_NULL] s)
     | Some database \<Rightarrow>
         if d_closing (w_dbs (se_world s) database)
         then Inr (FAILED, SendProtocol ERR_INPUT [DATABASE_BUSY] s)
         else Inr (SUCCESS, push_requests E
                (snd (ExpireManager_DatabaseReset (e_find E) (d_name (w_dbs (se_world s) database))
                        (w_expires (se_world s)))) s))"

definition CommandDBEReset :: "('d, 'n) command" where
  "CommandDBEReset = (Command ''ERESET'' 1 1 CommandDBEReset_Handle)
     \<lparr>cm_group := CHR ''e'', cm_syntax := ''<database>''\<rparr>"

definition CommandSetex_Handle :: "('d, 'n) handler" where
  "CommandSetex_Handle E lim ps s =
     bind_res (param ps 0) (\<lambda>p0.
     case CheckValidPos p0 s of (False, s) \<Rightarrow> Inr (FAILED, s) | (True, s) \<Rightarrow> (
     bind_res (param ps 1) (\<lambda>p1.
     bind_res (params_back ps) (\<lambda>last_p.
     Inr (SUCCESS, push (ExpireHelper_Setex E (w_now (se_world s)) (se_user s) (convto_num_uint p0) p1 last_p) s)))))"

definition CommandSetex :: "('d, 'n) command" where
  "CommandSetex = (Command ''SETEX'' 3 3 CommandSetex_Handle)
     \<lparr>cm_check_key := 1, cm_check_value := True, cm_group := CHR ''e'', cm_syntax := ''<seconds> <key> '' @ [CHR 0x22] @ ''value'' @ [CHR 0x22]\<rparr>"

definition CommandExpireAT_Handle :: "('d, 'n) handler" where
  "CommandExpireAT_Handle E lim ps s =
     bind_res (param ps 1) (\<lambda>p1.
     case CheckValidPos p1 s of (False, s) \<Rightarrow> Inr (FAILED, s) | (True, s) \<Rightarrow> (
     if uint (convto_num_uint p1) < w_now (se_world s) then Inr (FAILED, SendProtocol ERR_INPUT [PROCESS_ERROR] s) else (
     bind_res (param ps 0) (\<lambda>p0.
     Inr (SUCCESS, push (ExpireHelper_ExpireAT E (se_user s) p0 (convto_num_uint p1)) s)))))"

definition CommandExpireAT :: "('d, 'n) command" where
  "CommandExpireAT = (Command ''EXPIREAT'' 2 2 CommandExpireAT_Handle)
     \<lparr>cm_check_key := 0, cm_group := CHR ''e'', cm_syntax := ''<key> <epoch time>''\<rparr>"

section \<open>Expires: questions\<close>

definition CommandTTL_Handle :: "('d, 'n) handler" where
  "CommandTTL_Handle E lim ps s =
     bind_res (param ps 0) (\<lambda>p0.
     (let user = se_user s;
          ttl = ExpireManager_GetTIME (GetDatabase E user) p0 (cl_select user) (w_expires (se_world s))
      in if ttl \<noteq> - 1 then bind_res (seconds_left ttl (w_now (se_world s))) (\<lambda>n. Inr (SUCCESS, SendProtocol BRLD_OK [n] s))
         else Inr (SUCCESS, SendProtocol ERR_INPUT [PROCESS_NULL] s)))"

definition CommandTTL :: "('d, 'n) command" where
  "CommandTTL = (Command ''TTL'' 1 0 CommandTTL_Handle)
     \<lparr>cm_check_key := 0, cm_group := CHR ''e'', cm_syntax := ''<key>''\<rparr>"

definition CommandExpires_Handle :: "('d, 'n) handler" where
  "CommandExpires_Handle E lim ps s =
     bind_res (param ps 0) (\<lambda>p0.
     (let user = se_user s;
          ttl = ExpireManager_GetTIME (GetDatabase E user) p0 (cl_select user) (w_expires (se_world s))
      in if ttl \<noteq> - 1 then Inr (SUCCESS, SendProtocol BRLD_OK [''1''] s)
         else Inr (SUCCESS, SendProtocol ERR_INPUT [''0''] s)))"

definition CommandExpires :: "('d, 'n) command" where
  "CommandExpires = (Command ''EXPIRES'' 1 0 CommandExpires_Handle)
     \<lparr>cm_check_key := 0, cm_group := CHR ''e'', cm_syntax := ''<key>''\<rparr>"

definition CommandTTLAT_Handle :: "('d, 'n) handler" where
  "CommandTTLAT_Handle E lim ps s =
     bind_res (param ps 0) (\<lambda>p0.
     (let user = se_user s;
          ttl = ExpireManager_GetTIME (GetDatabase E user) p0 (cl_select user) (w_expires (se_world s))
      in if ttl \<noteq> - 1 then Inr (SUCCESS, SendProtocol BRLD_OK [convto_string (of_int ttl)] s)
         else Inr (SUCCESS, SendProtocol ERR_INPUT [PROCESS_NULL] s)))"

definition CommandTTLAT :: "('d, 'n) command" where
  "CommandTTLAT = (Command ''TTLAT'' 1 0 CommandTTLAT_Handle)
     \<lparr>cm_check_key := 0, cm_group := CHR ''e'', cm_syntax := ''<key>''\<rparr>"

definition CommandPersist_Handle :: "('d, 'n) handler" where
  "CommandPersist_Handle E lim ps s =
     bind_res (param ps 0) (\<lambda>p0.
     (let user = se_user s;
          ttl = ExpireManager_GetTIME (GetDatabase E user) p0 (cl_select user) (w_expires (se_world s))
      in if ttl \<noteq> - 1 then Inr (SUCCESS, push (ExpireHelper_QuickPersist E user p0) s)
         else Inr (SUCCESS, SendProtocol ERR_INPUT [PROCESS_NULL] s)))"

definition CommandPersist :: "('d, 'n) command" where
  "CommandPersist = (Command ''PERSIST'' 1 1 CommandPersist_Handle)
     \<lparr>cm_check_key := 0, cm_group := CHR ''e'', cm_syntax := ''<key>''\<rparr>"

definition CommandSelectCount_Handle :: "('d, 'n) handler" where
  "CommandSelectCount_Handle E lim ps s =
     (let user = se_user s;
          select = (if ps = [] then cl_select user else convto_num_uint (hd ps));
          hits = filter (\<lambda>entry. e_select entry = select \<and> e_database entry = GetDatabase E user)
                   (map snd (w_expires (se_world s)));
          s = JustAPI_to BRLD_START_LIST s;
          s = JustEmerald_to BRLD_START_LIST (columns ''Key'' ''Schedule'' ''Select'' ''Database'') s;
          s = JustEmerald_to BRLD_START_LIST
                (columns (Repeat dash 25) (Repeat dash 25) (Repeat dash 9) (Repeat dash 10)) s;
          s = fold (\<lambda>entry s. select_line (d_name (w_dbs (se_world s) (e_database entry)))
                      (c_str (e_human E (e_schedule entry))) (e_select entry) (e_key entry) s) hits s
      in Inr (SUCCESS, JustAPI_to BRLD_END_LIST s))"

definition CommandSelectCount :: "('d, 'n) command" where
  "CommandSelectCount = (Command ''EXPSELECT'' 0 1 CommandSelectCount_Handle)
     \<lparr>cm_group := CHR ''e'', cm_syntax := ''<select>''\<rparr>"

section \<open>Futures\<close>

definition CommandFuture_Handle :: "('d, 'n) handler" where
  "CommandFuture_Handle E lim ps s =
     bind_res (param ps 0) (\<lambda>p0.
     case CheckValidPos p0 s of (False, s) \<Rightarrow> Inr (FAILED, s) | (True, s) \<Rightarrow> (
     bind_res (param ps 1) (\<lambda>p1.
     bind_res (params_back ps) (\<lambda>last_p.
     Inr (SUCCESS, push (ExpireHelper_Future E (w_now (se_world s)) (se_user s) p1 (convto_num_uint p0) last_p) s)))))"

definition CommandFuture :: "('d, 'n) command" where
  "CommandFuture = (Command ''FUTURE'' 3 3 CommandFuture_Handle)
     \<lparr>cm_check_value := True, cm_check_key := 1, cm_group := CHR ''f'', cm_syntax := ''<seconds> <key> '' @ [CHR 0x22] @ ''value'' @ [CHR 0x22]\<rparr>"

definition CommandTTE_Handle :: "('d, 'n) handler" where
  "CommandTTE_Handle E lim ps s =
     bind_res (param ps 0) (\<lambda>p0.
     (let user = se_user s;
          ttl = FutureManager_GetTIME (GetDatabase E user) p0 (cl_select user) (w_futures (se_world s))
      in if ttl \<noteq> - 1 then bind_res (seconds_left ttl (w_now (se_world s))) (\<lambda>n. Inr (SUCCESS, SendProtocol BRLD_OK [n] s))
         else Inr (FAILED, SendProtocol ERR_INPUT [PROCESS_NULL] s)))"

definition CommandTTE :: "('d, 'n) command" where
  "CommandTTE = (Command ''TTE'' 1 0 CommandTTE_Handle)
     \<lparr>cm_check_key := 0, cm_group := CHR ''f'', cm_syntax := ''<key>''\<rparr>"

definition CommandExec_Handle :: "('d, 'n) handler" where
  "CommandExec_Handle E lim ps s =
     bind_res (param ps 0) (\<lambda>p0.
     Inr (SUCCESS, push (GlobalHelper_UserFutureExecute E (se_user s) p0) s))"

definition CommandExec :: "('d, 'n) command" where
  "CommandExec = (Command ''EXEC'' 1 1 CommandExec_Handle)
     \<lparr>cm_check_key := 0, cm_group := CHR ''f'', cm_syntax := ''<key>''\<rparr>"

definition CommandFResetAll_Handle :: "('d, 'n) handler" where
  "CommandFResetAll_Handle E lim ps s =
     Inr (SUCCESS, SendProtocol BRLD_OK [PROCESS_OK]
       (push_requests E (FutureManager_Reset (w_futures (se_world s))) s))"

definition CommandFResetAll :: "('d, 'n) command" where
  "CommandFResetAll = (Command ''FRESETALL'' 0 0 CommandFResetAll_Handle)
     \<lparr>cm_flags := CHR ''e''\<rparr>"

definition CommandFReset_Handle :: "('d, 'n) handler" where
  "CommandFReset_Handle E lim ps s =
     (let user = se_user s;
          use = (if ps \<noteq> [] then hd ps else select_as_char (cl_select user));
          checked = (if ps \<noteq> []
                     then (case CheckValid use s of
                             (False, s) \<Rightarrow> (False, s)
                           | (True, s) \<Rightarrow> CheckRange use INVALID_RANGE 1 100 s)
                     else (True, s))
      in case checked of
           (False, s) \<Rightarrow> Inr (FAILED, s)
         | (True, s) \<Rightarrow>
             if (case cl_database user of None \<Rightarrow> False | Some d \<Rightarrow> d_closing (w_dbs (se_world s) d))
             then Inr (FAILED, SendProtocol ERR_INPUT [DATABASE_BUSY] s)
             else bind_res (database_name s) (\<lambda>dbname.
               Inr (SUCCESS, SendProtocol BRLD_OK [PROCESS_OK]
                 (push_requests E (snd (FutureManager_SelectReset (e_find E) dbname (convto_num_uint use)
                                          (w_futures (se_world s)))) s))))"

definition CommandFReset :: "('d, 'n) command" where
  "CommandFReset = (Command ''FRESET'' 0 1 CommandFReset_Handle)
     \<lparr>cm_group := CHR ''f'', cm_syntax := ''<*select>''\<rparr>"

definition CommandCancel_Handle :: "('d, 'n) handler" where
  "CommandCancel_Handle E lim ps s =
     bind_res (param ps 0) (\<lambda>p0.
     Inr (SUCCESS, push (GlobalHelper_FutureCancel E (se_user s) p0) s))"

definition CommandCancel :: "('d, 'n) command" where
  "CommandCancel = (Command ''CANCEL'' 1 1 CommandCancel_Handle)
     \<lparr>cm_check_key := 0, cm_group := CHR ''f'', cm_syntax := ''<key>''\<rparr>"

definition CommandFutureAT_Handle :: "('d, 'n) handler" where
  "CommandFutureAT_Handle E lim ps s =
     bind_res (param ps 0) (\<lambda>p0.
     case CheckValid p0 s of (False, s) \<Rightarrow> Inr (FAILED, s) | (True, s) \<Rightarrow> (
     if uint (convto_num_uint p0) < w_now (se_world s) then Inr (FAILED, SendProtocol ERR_INPUT [PROCESS_ERROR] s) else (
     bind_res (param ps 1) (\<lambda>p1.
     bind_res (params_back ps) (\<lambda>last_p.
     Inr (SUCCESS, push (ExpireHelper_FutureAT E (se_user s) p1 (convto_num_uint p0) last_p) s))))))"

definition CommandFutureAT :: "('d, 'n) command" where
  "CommandFutureAT = (Command ''FUTSET'' 3 3 CommandFutureAT_Handle)
     \<lparr>cm_check_value := True, cm_check_key := 1, cm_group := CHR ''f'', cm_syntax := ''<epoch time> <key> '' @ [CHR 0x22] @ ''value'' @ [CHR 0x22]\<rparr>"

definition CommandFutureList_Handle :: "('d, 'n) handler" where
  "CommandFutureList_Handle E lim ps s =
     bind_res (param ps 0) (\<lambda>arg.
     if ps \<noteq> [] \<and> arg \<noteq> ''h'' \<and> arg \<noteq> ''r''
     then Inr (FAILED, SendProtocol ERR_INPUT [INVALID_TYPE] s)
     else (let s = list_head s;
               s = fold (\<lambda>entry s.
                     timer_line (d_name (w_dbs (se_world s) (f_database entry)))
                       (if ps \<noteq> [] \<and> arg = ''h'' then conv_numeric (f_schedule entry)
                        else c_str (e_human E (f_schedule entry)))
                       (f_select entry) (f_key entry) s) (map snd (w_futures (se_world s))) s
           in Inr (SUCCESS, JustAPI_to BRLD_END_LIST (JustEmerald_to BRLD_START_LIST border s))))"

definition CommandFutureList :: "('d, 'n) command" where
  "CommandFutureList = (Command ''FTLIST'' 0 1 CommandFutureList_Handle)
     \<lparr>cm_last_empty_ok := True, cm_syntax := ''<*argument>''\<rparr>"

definition CommandFutureSelectCount_Handle :: "('d, 'n) handler" where
  "CommandFutureSelectCount_Handle E lim ps s =
     (let user = se_user s;
          select = (if ps = [] then cl_select user else convto_num_uint (hd ps));
          hits = filter (\<lambda>entry. f_select entry = select \<and> f_database entry = GetDatabase E user)
                   (map snd (w_futures (se_world s)));
          s = JustAPI_to BRLD_START_LIST s;
          s = JustEmerald_to BRLD_START_LIST (columns ''Key'' ''Schedule'' ''Select'' ''Database'') s;
          s = JustEmerald_to BRLD_START_LIST
                (columns (Repeat dash 25) (Repeat dash 25) (Repeat dash 9) (Repeat dash 10)) s;
          s = fold (\<lambda>entry s. select_line (d_name (w_dbs (se_world s) (f_database entry)))
                      (c_str (e_human E (f_schedule entry))) (f_select entry) (f_key entry) s) hits s
      in Inr (SUCCESS, JustAPI_to BRLD_END_LIST s))"

definition CommandFutureSelectCount :: "('d, 'n) command" where
  "CommandFutureSelectCount = (Command ''FTSELECT'' 0 1 CommandFutureSelectCount_Handle)
     \<lparr>cm_syntax := ''<select>''\<rparr>"

section \<open>Commands run together\<close>

definition CommandMulti_Handle :: "('d, 'n) handler" where
  "CommandMulti_Handle E lim ps s =
     (if cl_MultiRunning (se_user s) then Inr (FAILED, SendProtocol ERR_INPUT [PROCESS_ERROR] s)
      else Inr (SUCCESS, SendProtocol BRLD_OK [PROCESS_OK]
             (s\<lparr>se_user := (se_user s)\<lparr>cl_Multi := True\<rparr>\<rparr>)))"

definition CommandMulti :: "('d, 'n) command" where
  "CommandMulti = (Command ''MULTI'' 0 0 CommandMulti_Handle)
     \<lparr>cm_group := CHR ''w''\<rparr>"

definition CommandMultiReset_Handle :: "('d, 'n) handler" where
  "CommandMultiReset_Handle E lim ps s =
     (if cl_Multi (se_user s)
      then Inr (SUCCESS, SendProtocol BRLD_OK [PROCESS_OK]
             (s\<lparr>se_user := (se_user s)\<lparr>cl_Multi := False, cl_MultiRunning := False\<rparr>\<rparr>))
      else Inr (FAILED, SendProtocol ERR_INPUT [PROCESS_ERROR] s))"

definition CommandMultiReset :: "('d, 'n) command" where
  "CommandMultiReset = (Command ''MULTIRESET'' 0 0 CommandMultiReset_Handle)
     \<lparr>cm_group := CHR ''w''\<rparr>"

definition CommandMRUN_Handle :: "('d, 'n) handler" where
  "CommandMRUN_Handle E lim ps s =
     Inr (SUCCESS, s)"

definition CommandMRUN :: "('d, 'n) command" where
  "CommandMRUN = (Command ''MRUN'' 0 0 CommandMRUN_Handle)
     \<lparr>cm_group := CHR ''w''\<rparr>"

section \<open>The commands of these modules\<close>

definition timer_commands :: "('d, 'n) command list" where
  "timer_commands =
     [CommandExpireFIND, CommandExpireLIST, CommandReset, CommandSelectReset, CommandExpire,
      CommandDBEReset, CommandSetex, CommandExpireAT, CommandTTL, CommandExpires, CommandTTLAT,
      CommandPersist, CommandSelectCount, CommandFuture, CommandTTE, CommandExec, CommandFResetAll,
      CommandFReset, CommandCancel, CommandFutureAT, CommandFutureList, CommandFutureSelectCount,
      CommandMulti, CommandMultiReset, CommandMRUN]"

lemmas timer_command_defs = CommandExpireFIND_def CommandExpireLIST_def CommandReset_def
  CommandSelectReset_def CommandExpire_def CommandDBEReset_def CommandSetex_def CommandExpireAT_def
  CommandTTL_def CommandExpires_def CommandTTLAT_def CommandPersist_def CommandSelectCount_def
  CommandFuture_def CommandTTE_def CommandExec_def CommandFResetAll_def CommandFReset_def
  CommandCancel_def CommandFutureAT_def CommandFutureList_def CommandFutureSelectCount_def
  CommandMulti_def CommandMultiReset_def CommandMRUN_def

lemmas timer_command_handlers = CommandExpireFIND_Handle_def CommandExpireLIST_Handle_def
  CommandReset_Handle_def CommandSelectReset_Handle_def CommandExpire_Handle_def
  CommandDBEReset_Handle_def CommandSetex_Handle_def CommandExpireAT_Handle_def
  CommandTTL_Handle_def CommandExpires_Handle_def CommandTTLAT_Handle_def CommandPersist_Handle_def
  CommandSelectCount_Handle_def CommandFuture_Handle_def CommandTTE_Handle_def
  CommandExec_Handle_def CommandFResetAll_Handle_def CommandFReset_Handle_def
  CommandCancel_Handle_def CommandFutureAT_Handle_def CommandFutureList_Handle_def
  CommandFutureSelectCount_Handle_def CommandMulti_Handle_def CommandMultiReset_Handle_def
  CommandMRUN_Handle_def

end
