(* ===== verification/Protocol.thy ===== *)
theory Protocol
  imports Wildcard Extras
begin

text \<open>
  The line protocol: what a client sends is cut into lines (\<open>InstanceStream::StreamData\<close>,
  \<open>src/instances.cpp\<close>), a line into a command and its parameters (\<open>engine::token_node_stream\<close>,
  \<open>src/nodes.cpp\<close>, and \<open>Serializer::Parse\<close>, \<open>coremods/core_serialize.cpp\<close>), and a message of the
  server is put in a line (\<open>Serializer::Serialize\<close>).  Parameters are separated by spaces; the last
  one may begin with a colon and then runs to the end of the line.
\<close>

definition INPUT_LIMIT :: nat where "INPUT_LIMIT = 65530"
definition ERR_EXCEED_BUFFER :: nat where "ERR_EXCEED_BUFFER = 556"

section \<open>Tokens of a line\<close>

text \<open>A position of \<open>None\<close> is \<open>npos\<close>.\<close>

record token_node_stream =
  tn_message :: string
  tn_position :: "nat option"

definition token_node_stream :: "string \<Rightarrow> nat \<Rightarrow> nat \<Rightarrow> token_node_stream" where
  "token_node_stream msg start count = \<lparr>tn_message = take count (drop start msg), tn_position = Some 0\<rparr>"

definition tn_finished :: "token_node_stream \<Rightarrow> bool" where
  "tn_finished t = (case tn_position t of None \<Rightarrow> True | Some p \<Rightarrow> p \<ge> length (tn_message t))"

definition get_middle :: "token_node_stream \<Rightarrow> bool \<times> string \<times> token_node_stream" where
  "get_middle t =
     (if tn_finished t then (False, [], t)
      else (let p = the (tn_position t); message = tn_message t
            in case find_char CHR '' '' message p of
                 None \<Rightarrow> (True, drop p message, t\<lparr>tn_position := Some (length message)\<rparr>)
               | Some separator \<Rightarrow>
                   (True, take (separator - p) (drop p message),
                    t\<lparr>tn_position := find_first_not_of CHR '' '' message separator\<rparr>)))"

definition get_trailing :: "token_node_stream \<Rightarrow> bool \<times> string \<times> token_node_stream" where
  "get_trailing t =
     (if tn_finished t then (False, [], t)
      else (let p = the (tn_position t); message = tn_message t
            in if message ! p = CHR '':''
               then (True, drop (p + 1) message, t\<lparr>tn_position := Some (length message)\<rparr>)
               else get_middle t))"

text \<open>Every token moves the position on, so the loops over a line end.\<close>

definition tn_left :: "token_node_stream \<Rightarrow> nat" where
  "tn_left t = (case tn_position t of None \<Rightarrow> 0 | Some p \<Rightarrow> length (tn_message t) - p)"

lemma find_char_nth: "find_char c s pos = Some q \<Longrightarrow> pos \<le> q \<and> q < length s \<and> s ! q = c"
proof -
  assume q: "find_char c s pos = Some q"
  let ?n = "length (takeWhile (\<lambda>x. x \<noteq> c) (drop pos s))"
  from q have e: "q = pos + ?n" "q < length s"
    by (auto simp: find_char_def Let_def split: if_splits)
  then have "?n < length (drop pos s)" by simp
  from nth_length_takeWhile [OF this] e show ?thesis by simp
qed

lemma find_first_not_of_nth:
  "find_first_not_of c s pos = Some q \<Longrightarrow> pos \<le> q \<and> q < length s \<and> s ! q \<noteq> c"
proof -
  assume q: "find_first_not_of c s pos = Some q"
  let ?n = "length (takeWhile (\<lambda>x. x = c) (drop pos s))"
  from q have e: "q = pos + ?n" "q < length s"
    by (auto simp: find_first_not_of_def Let_def split: if_splits)
  then have "?n < length (drop pos s)" by simp
  from nth_length_takeWhile [OF this] e show ?thesis by simp
qed

lemma get_middle_less: "get_middle t = (True, token, t') \<Longrightarrow> tn_left t' < tn_left t"
proof -
  assume g: "get_middle t = (True, token, t')"
  then obtain p where p: "tn_position t = Some p" "p < length (tn_message t)"
    by (auto simp: get_middle_def tn_finished_def split: if_splits option.splits)
  show ?thesis
  proof (cases "find_char CHR '' '' (tn_message t) p")
    case None
    with g p show ?thesis by (auto simp: get_middle_def tn_finished_def tn_left_def Let_def)
  next
    case (Some separator)
    note sep = find_char_nth [OF this]
    show ?thesis
    proof (cases "find_first_not_of CHR '' '' (tn_message t) separator")
      case None
      with g p Some sep show ?thesis by (auto simp: get_middle_def tn_finished_def tn_left_def Let_def)
    next
      case (Some r)
      from find_first_not_of_nth [OF this] sep have "p < r" "r < length (tn_message t)"
        by (auto simp: le_less)
      with g p Some \<open>find_char CHR '' '' (tn_message t) p = Some separator\<close> show ?thesis
        by (auto simp: get_middle_def tn_finished_def tn_left_def Let_def)
    qed
  qed
qed

lemma get_trailing_less: "get_trailing t = (True, token, t') \<Longrightarrow> tn_left t' < tn_left t"
  by (auto simp: get_trailing_def Let_def dest: get_middle_less split: if_splits)
     (auto simp: tn_finished_def tn_left_def split: option.splits)

function trailing_tokens :: "token_node_stream \<Rightarrow> string list" where
  "trailing_tokens t =
     (case get_trailing t of (ok, token, t') \<Rightarrow> if ok then token # trailing_tokens t' else [])"
  by pat_completeness auto
termination
  by (relation "measure tn_left") (auto dest: get_trailing_less [OF sym])

declare trailing_tokens.simps [simp del]

section \<open>Lines\<close>

record ParseOutput =
  po_cmd :: string
  po_params :: "string list"
  po_tags :: "(string \<times> string) list"

text \<open>The pieces of the tags before \<open>HandleTag\<close>, which asks the modules about each.\<close>

definition tag_of :: "string \<Rightarrow> string \<times> string" where
  "tag_of token =
     (if CHR ''='' \<in> set token
      then (takeWhile (\<lambda>c. c \<noteq> CHR ''='') token, tl (dropWhile (\<lambda>c. c \<noteq> CHR ''='') token))
      else (token, []))"

definition line_tags :: "string \<Rightarrow> (string \<times> string) list" where
  "line_tags token = map tag_of (extract_all (node_stream (tl token) CHR '';'' False))"

datatype parsed = Parsed ParseOutput | Not_parsed | Too_long

text \<open>A message longer than the limit is cut where it stands in the stream.\<close>

definition cut_message :: "nat \<Rightarrow> token_node_stream \<Rightarrow> token_node_stream" where
  "cut_message maxbrldline t =
     (if length (tn_message t) > maxbrldline then t\<lparr>tn_message := take maxbrldline (tn_message t)\<rparr> else t)"

text \<open>The end of \<open>Parse\<close>: \<open>token\<close> is the first token, after any tags; a source is skipped.\<close>

definition parse_command :: "string \<Rightarrow> (string \<times> string) list \<Rightarrow> token_node_stream \<Rightarrow> parsed" where
  "parse_command token tags t =
     (if deref token = CHR '':''
      then (case get_middle t of
              (False, token, t) \<Rightarrow> Not_parsed
            | (True, token, t) \<Rightarrow> Parsed \<lparr>po_cmd = token, po_params = trailing_tokens t, po_tags = tags\<rparr>)
      else Parsed \<lparr>po_cmd = token, po_params = trailing_tokens t, po_tags = tags\<rparr>)"

definition Serializer_Parse :: "string \<Rightarrow> parsed" where
  "Serializer_Parse line =
     (case find_first_not_of CHR '' '' line 0 of
        None \<Rightarrow> Not_parsed
      | Some start \<Rightarrow>
          (let maxline = nat ((int INPUT_LIMIT - int start - 2) mod 2 ^ 64);
               maxline = (if line ! start = CHR 0x40 then nat ((int maxline + int INPUT_LIMIT + 1) mod 2 ^ 64)
                          else maxline);
               (_, token, tokens) = get_middle (token_node_stream line start maxline)
           in if deref token = CHR 0x40
              then (if length token > INPUT_LIMIT then Too_long
                    else (let tokens = cut_message (length token + INPUT_LIMIT - 1) tokens
                          in case get_middle tokens of
                               (False, _, _) \<Rightarrow> Not_parsed
                             | (True, token', tokens) \<Rightarrow> parse_command token' (line_tags token) tokens))
              else parse_command token [] tokens))"

text \<open>A message without tags: its source, its command and its parameters.\<close>

definition Serializer_Serialize :: "string option \<Rightarrow> string \<Rightarrow> string list \<Rightarrow> string" where
  "Serializer_Serialize source command params =
     (let line = (case source of None \<Rightarrow> [] | Some src \<Rightarrow> '':'' @ src @ '' '');
          line = line @ command;
          line = (if params = [] then line
                  else line @ concat (map (\<lambda>p. CHR '' '' # p) (butlast params)) @ '' :'' @ last params);
          line = (if length line > INPUT_LIMIT then take INPUT_LIMIT line else line)
      in line @ [CHR 0x0D, CHR 0x0A])"

section \<open>The receive queue\<close>

text \<open>A NUL becomes a space and carriage returns are dropped.\<close>

definition clean_line :: "string \<Rightarrow> string" where
  "clean_line = concat \<circ> map (\<lambda>c. if c = CHR 0x00 then '' '' else if c = CHR 0x0D then [] else [c])"

text \<open>The complete lines of \<open>recvq\<close>, and what is left of it.\<close>

function StreamData :: "string \<Rightarrow> string list \<times> string" where
  "StreamData recvq =
     (if CHR 0x0A \<in> set recvq
      then (let ipos = length (takeWhile (\<lambda>c. c \<noteq> CHR 0x0A) recvq);
                (lines, rest) = StreamData (drop (ipos + 1) recvq)
            in (clean_line (take ipos recvq) # lines, rest))
      else ([], recvq))"
  by pat_completeness auto
termination
  by (relation "measure length") (auto simp: less_Suc_eq_le intro!: diff_less length_pos_if_in_set)

declare StreamData.simps [simp del]

end
