(* ===== verification/CommandProc.thy ===== *)
theory CommandProc
  imports KeyCommands ListCommands MapCommands TimerCommands Protocol
begin

text \<open>
  The command processor (\<open>src/commandproc.cpp\<close>): the table of commands, the queues in which the
  commands of a user wait, \<open>Flush\<close>, which takes one command of each user on every round of the
  main loop, and \<open>Execute\<close>, which decides whether a command runs, checks its parameters and calls
  its handler.
\<close>

section \<open>The table of commands\<close>

type_synonym ('d, 'n) CommandMap = "(string \<times> ('d, 'n) command) list"

text \<open>Names are looked up up to their case (no name has a NUL, which \<open>StreamData\<close> takes out).\<close>

primrec GetBase :: "string \<Rightarrow> ('d, 'n) CommandMap \<Rightarrow> ('d, 'n) command option" where
  "GetBase commandname [] = None"
| "GetBase commandname (c # cs) =
     (if engine_equals (fst c) commandname then Some (snd c) else GetBase commandname cs)"

definition AddCommand :: "('d, 'n) command \<Rightarrow> ('d, 'n) CommandMap \<Rightarrow> bool \<times> ('d, 'n) CommandMap" where
  "AddCommand cmd cs =
     (case GetBase (cm_name cmd) cs of None \<Rightarrow> (True, cs @ [(cm_name cmd, cmd)]) | Some _ \<Rightarrow> (False, cs))"

datatype registered = Registered_command | Exit_error | Already_exists

definition RegisterService ::
  "('d, 'n) command \<Rightarrow> ('d, 'n) CommandMap \<Rightarrow> registered \<times> ('d, 'n) CommandMap" where
  "RegisterService c cs =
     (if cm_group c \<noteq> CHR 0x00 \<and> cm_groups c \<noteq> [] then (Exit_error, cs)
      else if cm_alias c \<noteq> [] \<and> cm_alias c = cm_name c then (Exit_error, cs)
      else (case AddCommand c cs of (True, cs) \<Rightarrow> (Registered_command, cs) | (False, cs) \<Rightarrow> (Already_exists, cs)))"

definition all_commands :: "('d, 'n) command list" where
  "all_commands = key_commands @ list_commands @ map_commands @ timer_commands"

definition CommandList :: "('d, 'n) CommandMap" where
  "CommandList = fold (\<lambda>c cs. snd (RegisterService c cs)) all_commands []"

primrec set_conf :: "string \<Rightarrow> int \<Rightarrow> int \<Rightarrow> ('d, 'n) CommandMap \<Rightarrow> ('d, 'n) CommandMap" where
  "set_conf name off lim [] = []"
| "set_conf name off lim (c # cs) =
     (if engine_equals (fst c) name then (fst c, (snd c)\<lparr>cm_offset := off, cm_limit := lim\<rparr>) # cs
      else c # set_conf name off lim cs)"

section \<open>Queues\<close>

definition on_user :: "(client \<Rightarrow> client) \<Rightarrow> 'd session \<Rightarrow> 'd session" where
  "on_user f s = s\<lparr>se_user := f (se_user s)\<rparr>"

definition CommandQueue_Add :: "string \<Rightarrow> string list \<Rightarrow> 'd session \<Rightarrow> 'd session" where
  "CommandQueue_Add command cmd_params s =
     (let user = se_user s;
          adding = (command, cmd_params);
          pend = on_user (\<lambda>u. u\<lparr>cl_PendingList := cl_PendingList u @ [adding]\<rparr>)
      in if cl_quitting user then s
         else if command = ''PONG'' then pend s
         else if command = ''MULTIRESET''
         then pend (on_user (\<lambda>u. u\<lparr>cl_PendingMulti := [], cl_MultiRunning := False\<rparr>) s)
         else if cl_Multi user \<and> command = ''MULTI''
         then SendProtocol ERR_INPUT2 [dec_of_nat ERR_MULTI, PROCESS_ERROR] s
         else if cl_Multi user \<and> command \<noteq> ''MRUN''
         then SendProtocol BRLD_QUEUED [''QUEUED'']
                (on_user (\<lambda>u. u\<lparr>cl_PendingMulti := cl_PendingMulti u @ [adding]\<rparr>) s)
         else if command = ''MRUN'' \<and> \<not> cl_Multi user
         then SendProtocol ERR_INPUT2 [dec_of_nat ERR_MULTI, PROCESS_ERROR] s
         else pend s)"

text \<open>A line from the client: what cannot be parsed is dropped.\<close>

definition CommandHandler_ProcessBuffer :: "string \<Rightarrow> 'd session \<Rightarrow> 'd session" where
  "CommandHandler_ProcessBuffer buffer s =
     (case Serializer_Parse buffer of
        Not_parsed \<Rightarrow> s
      | Too_long \<Rightarrow> SendProtocol ERR_EXCEED_BUFFER [''Input line was too long''] s
      | Parsed out \<Rightarrow> CommandQueue_Add (to_upper (po_cmd out)) (po_params out) s)"

section \<open>Execute\<close>

text \<open>
  The state of the processor, with the count of unknown commands.  Modules may stop a command
  before or after its parameters are known to be enough; none of the sources does, so what they
  say is an argument, as is the setting \<open>syntaxhints\<close>.
\<close>

record ('d, 'n) commander =
  co_session :: "'d session"
  co_commands :: "('d, 'n) CommandMap"
  co_unknown :: nat

record hooks =
  h_stop :: "bool \<Rightarrow> string \<Rightarrow> string list \<Rightarrow> client \<Rightarrow> bool"
  h_syntaxhints :: bool

definition on_session :: "('d session \<Rightarrow> 'd session) \<Rightarrow> ('d, 'n) commander \<Rightarrow> ('d, 'n) commander" where
  "on_session f k = k\<lparr>co_session := f (co_session k)\<rparr>"

text \<open>Parameters past the last one are appended to it, with one space before each.\<close>

definition join_excess :: "nat \<Rightarrow> string list \<Rightarrow> string list" where
  "join_excess maxp ps =
     (if maxp \<noteq> 0 \<and> length ps > maxp
      then take (maxp - 1) ps @ [foldl (\<lambda>base p. base @ '' '' @ p) (ps ! (maxp - 1)) (drop maxp ps)]
      else ps)"

text \<open>The loop over \<open>groups\<close> asks for \<open>group\<close> every time.\<close>

definition has_access :: "('d, 'n) command \<Rightarrow> client \<Rightarrow> bool" where
  "has_access handler user =
     (if cm_flags handler \<noteq> CHR 0x00 then User_CanPerform (cm_flags handler) user
      else if cm_group handler \<noteq> CHR 0x00 then User_InGroup (cm_group handler) user
      else list_all (\<lambda>i. User_InGroup (cm_group handler) user) (cm_groups handler))"

text \<open>
  A check of one parameter is made when \<open>size >= (unsigned int)index\<close>, which also holds when the
  index is the size; an index of -1 is a large number there.
\<close>

definition reaches :: "string list \<Rightarrow> int \<Rightarrow> bool" where
  "reaches ps i \<longleftrightarrow> int (length ps) \<ge> i mod 2 ^ 32"

text \<open>The checks, in order: each answers whether \<open>Execute\<close> goes on, or faults.\<close>

type_synonym 'd checked = "(bool \<times> 'd session) res"

definition and_then :: "'d checked \<Rightarrow> ('d session \<Rightarrow> 'd checked) \<Rightarrow> 'd checked" where
  "and_then m f = bind_res m (\<lambda>(ok, s). if ok then f s else Inr (False, s))"

definition check_key_param :: "int \<Rightarrow> string list \<Rightarrow> 'd session \<Rightarrow> 'd checked" where
  "check_key_param i ps s =
     (if i \<ge> 0 \<and> reaches ps i then bind_res (param ps i) (\<lambda>p. Inr (maker_CheckKey p True s)) else Inr (True, s))"

definition check_num_param :: "int \<Rightarrow> string list \<Rightarrow> 'd session \<Rightarrow> 'd checked" where
  "check_num_param i ps s =
     (if i \<noteq> 0 \<and> reaches ps i
      then bind_res (param ps i) (\<lambda>p.
             Inr (if \<not> is_number p True then (False, SendProtocol ERR_INPUT [MUST_BE_NUMERIC] s) else (True, s)))
      else Inr (True, s))"

definition check_value_param :: "bool \<Rightarrow> string list \<Rightarrow> 'd session \<Rightarrow> 'd checked" where
  "check_value_param on ps s =
     (if on then bind_res (params_back ps) (\<lambda>p. Inr (CheckFormat p True s)) else Inr (True, s))"

definition check_login_param ::
  "('d, 'n) env \<Rightarrow> ('d, 'n) command \<Rightarrow> string list \<Rightarrow> 'd session \<Rightarrow> 'd checked" where
  "check_login_param E handler ps s =
     (if cm_check_login handler \<ge> 0 \<and> reaches ps (cm_check_login handler)
      then bind_res (param ps (cm_check_login handler)) (\<lambda>p.
           and_then
             (if cm_check_exists handler
              then bind_res (UserHelper_Find E p ''created'' (se_world s)) (\<lambda>(exists, w).
                     let s = s\<lparr>se_world := w\<rparr>
                     in Inr (if exists = [] then (False, SendProtocol ERR_INPUT [PROCESS_FALSE] s) else (True, s)))
              else Inr (True, s))
             (\<lambda>s. Inr (if length p < 3 \<or> length p > 15
                       then (False, SendProtocol ERR_INPUT [USER_MIMMAX_LENGTH] s)
                       else if \<not> LoginValidator p then (False, SendProtocol ERR_INPUT [INVALID_UNAME] s)
                       else if cm_check_root handler \<and> p = ROOT_USER
                       then (False, SendProtocol ERR_INPUT [PROCESS_ERROR] s)
                       else (True, s))))
      else Inr (True, s))"

definition Execute_checks ::
  "('d, 'n) env \<Rightarrow> ('d, 'n) command \<Rightarrow> string list \<Rightarrow> 'd session \<Rightarrow> 'd checked" where
  "Execute_checks E handler ps s =
     and_then (check_key_param (cm_check_key handler) ps s) (\<lambda>s.
     and_then (check_num_param (cm_check_num handler) ps s) (\<lambda>s.
     and_then (check_value_param (cm_check_value handler) ps s) (\<lambda>s.
     and_then (check_login_param E handler ps s) (\<lambda>s.
       check_key_param (cm_check_hash handler) ps s))))"

text \<open>
  The limits, when the command takes them, are kept in the command; then the handler is called.
  Without parameters there is nothing to check.
\<close>

definition run_handler ::
  "('d, 'n) env \<Rightarrow> string \<Rightarrow> ('d, 'n) command \<Rightarrow> string list \<Rightarrow> ('d, 'n) commander \<Rightarrow> ('d, 'n) commander res" where
  "run_handler E command handler ps k =
     bind_res (cm_Handle handler E (cm_offset handler, cm_limit handler) ps (co_session k)) (\<lambda>(result, s).
       Inr (k\<lparr>co_session := happens (OnPostCommand command ps result) s\<rparr>))"

definition Execute_limits ::
  "('d, 'n) env \<Rightarrow> string \<Rightarrow> ('d, 'n) command \<Rightarrow> string list \<Rightarrow> ('d, 'n) commander \<Rightarrow> ('d, 'n) commander res" where
  "Execute_limits E command handler ps k =
     (if cm_run_conf handler
      then bind_res (GetLimits (cm_max_params handler) ps (co_session k)) (\<lambda>(conf, s).
             let k = k\<lparr>co_session := s\<rparr>
             in if li_error conf then Inr k
                else run_handler E command
                       (handler\<lparr>cm_offset := li_offset conf, cm_limit := li_limit conf\<rparr>) ps
                       (k\<lparr>co_commands := set_conf command (li_offset conf) (li_limit conf) (co_commands k)\<rparr>))
      else run_handler E command handler ps k)"

definition Execute_handler ::
  "('d, 'n) env \<Rightarrow> string \<Rightarrow> ('d, 'n) command \<Rightarrow> string list \<Rightarrow> ('d, 'n) commander \<Rightarrow> ('d, 'n) commander res" where
  "Execute_handler E command handler ps k =
     (if ps = [] then run_handler E command handler ps k
      else bind_res (Execute_checks E handler ps (co_session k)) (\<lambda>(ok, s).
             if \<not> ok then Inr (k\<lparr>co_session := s\<rparr>)
             else Execute_limits E command handler ps (k\<lparr>co_session := s\<rparr>)))"

definition blocked :: "string \<Rightarrow> string list \<Rightarrow> ('d, 'n) commander \<Rightarrow> ('d, 'n) commander" where
  "blocked command ps = on_session (happens (OnCommandBlocked command ps))"

definition Execute_found ::
  "hooks \<Rightarrow> ('d, 'n) env \<Rightarrow> string \<Rightarrow> ('d, 'n) command \<Rightarrow> string list \<Rightarrow> ('d, 'n) commander
     \<Rightarrow> ('d, 'n) commander res" where
  "Execute_found H E command handler cmd_params k =
     (let ps = join_excess (cm_max_params handler) cmd_params;
          stop = h_stop H False command ps (se_user (co_session k));
          k = on_session (happens (Monitored command MONITOR_DEFAULT ps)) k;
          now = w_now (se_world (co_session k));
          k1 = on_session (on_user (\<lambda>u. (if command \<noteq> ''PONG'' \<and> command \<noteq> ''PUBLISH''
                                        then u\<lparr>cl_touchbase := now\<rparr> else u)\<lparr>cl_next_ping_check := now + PING_INTVL\<rparr>)) k;
          user = se_user (co_session k1);
          ps1 = (if ps \<noteq> [] \<and> last ps = [] \<and> \<not> cm_last_empty_ok handler then butlast ps else ps)
      in if stop then Inr (blocked command ps k)
         else if \<not> has_access handler user
         then Inr (blocked command ps
                (on_session (SendProtocol ERR_INPUT2 [dec_of_nat ERR_NO_FLAGS, ACCESS_DENIED]) k1))
         else if length ps1 < cm_min_params handler
         then Inr (blocked command ps1 (on_session (Command_MissingParameters (h_syntaxhints H) handler) k1))
         else if cl_registered user \<noteq> REG_OK \<and> \<not> cm_pre_reg_ok handler
         then Inr (blocked command ps1 (on_session (Command_NotLogged handler) k1))
         else if h_stop H True command ps1 user then Inr (blocked command ps1 k1)
         else if cm_alias handler \<noteq> [] then Inr (on_session (CommandQueue_Add (cm_alias handler) ps1) k1)
         else Execute_handler E command handler ps1 k1)"

definition CommandHandler_Execute ::
  "hooks \<Rightarrow> ('d, 'n) env \<Rightarrow> string \<Rightarrow> string list \<Rightarrow> ('d, 'n) commander \<Rightarrow> ('d, 'n) commander res" where
  "CommandHandler_Execute H E command cmd_params k =
     (let user = se_user (co_session k)
      in if cl_Paused user \<and> command \<noteq> ''PONG'' then Inr k
         else case GetBase command (co_commands k) of
           None \<Rightarrow>
             if h_stop H False command cmd_params user then Inr (blocked command cmd_params k)
             else (let k = on_session (happens (Monitored command MONITOR_DEBUG cmd_params)) k;
                       k = (if cl_registered user = REG_OK
                            then on_session (SendProtocol ERR_INPUT [NOT_FOUND]) k else k)
                   in Inr (blocked command cmd_params (k\<lparr>co_unknown := co_unknown k + 1\<rparr>)))
         | Some handler \<Rightarrow> Execute_found H E command handler cmd_params k)"

text \<open>\<open>CallHandler\<close>: a command run by the server or by another command.\<close>

definition CommandHandler_CallHandler ::
  "('d, 'n) env \<Rightarrow> string \<Rightarrow> string list \<Rightarrow> ('d, 'n) commander \<Rightarrow> (COMMAND_RESULT \<times> ('d, 'n) commander) res" where
  "CommandHandler_CallHandler E commandname ps k =
     (case GetBase commandname (co_commands k) of
        None \<Rightarrow> Inr (INVALID, k)
      | Some n \<Rightarrow>
          if ps \<noteq> [] \<and> last ps = [] \<and> \<not> cm_last_empty_ok n then Inr (INVALID, k)
          else if length ps \<ge> cm_min_params n \<and>
                  (cm_flags n = CHR 0x00 \<or> User_CanPerform (cm_flags n) (se_user (co_session k)))
          then bind_res (cm_Handle n E (cm_offset n, cm_limit n) ps (co_session k)) (\<lambda>(result, s).
                 Inr (result, k\<lparr>co_session := s\<rparr>))
          else Inr (INVALID, k))"

section \<open>Flush\<close>

text \<open>What becomes of the loop over the users after one of them.\<close>

datatype turn = Next bool | Return_now

definition pop_multi :: "('d, 'n) commander \<Rightarrow> ('d, 'n) commander res" where
  "pop_multi k =
     (if cl_PendingMulti (se_user (co_session k)) = [] then Inl Undefined_behaviour
      else Inr (on_session (on_user (\<lambda>u. u\<lparr>cl_PendingMulti := tl (cl_PendingMulti u)\<rparr>)) k))"

definition flush_user ::
  "hooks \<Rightarrow> ('d, 'n) env \<Rightarrow> ('d, 'n) commander \<Rightarrow> (turn \<times> ('d, 'n) commander) res" where
  "flush_user H E k =
     (let k = (if cl_quitting (se_user (co_session k))
               then on_session (on_user (\<lambda>u. u\<lparr>cl_PendingList := []\<rparr>)) k else k);
          user = se_user (co_session k);
          pop = on_session (on_user (\<lambda>u. u\<lparr>cl_PendingList := tl (cl_PendingList u)\<rparr>))
      in case cl_PendingList user of
           [] \<Rightarrow> Inr (Next False, k)
         | event # _ \<Rightarrow>
             if fst event = ''PONG''
             then bind_res (CommandHandler_Execute H E (fst event) (snd event) (pop k)) (\<lambda>k. Inr (Return_now, k))
             else if cl_Locked user then Inr (Next False, k)
             else (let k = (if cl_Multi user \<and> fst event = ''MRUN''
                            then on_session (JustAPI_to BRLD_MULTI_START)
                                   (on_session (on_user (\<lambda>u. u\<lparr>cl_MultiRunning := True, cl_Multi := False\<rparr>)) k)
                            else k)
                   in if cl_MultiRunning (se_user (co_session k))
                      then (case cl_PendingMulti (se_user (co_session k)) of
                              [] \<Rightarrow> Inr (Next False, on_session (JustAPI_to BRLD_MULTI_STOP)
                                      (on_session (on_user (\<lambda>u. u\<lparr>cl_MultiRunning := False\<rparr>)) k))
                            | m_event # _ \<Rightarrow>
                                bind_res (CommandHandler_Execute H E (fst m_event) (snd m_event) k) (\<lambda>k.
                                bind_res (pop_multi k) (\<lambda>k. Inr (Next True, k))))
                      else bind_res (CommandHandler_Execute H E (fst event) (snd event) (pop k)) (\<lambda>k.
                             Inr (Next True, k))))"

text \<open>The users in turn; the session is that of the one whose turn it is.\<close>

primrec flush_users ::
  "hooks \<Rightarrow> ('d, 'n) env \<Rightarrow> client list \<Rightarrow> bool \<Rightarrow> ('d, 'n) commander
     \<Rightarrow> (bool \<times> client list \<times> ('d, 'n) commander) res" where
  "flush_users H E [] flag k = Inr (flag, [], k)"
| "flush_users H E (u # us) flag k =
     bind_res (flush_user H E (on_session (\<lambda>s. s\<lparr>se_user := u\<rparr>) k)) (\<lambda>(t, k).
       let u' = se_user (co_session k)
       in case t of
            Return_now \<Rightarrow> Inr (True, u' # us, k)
          | Next b \<Rightarrow> bind_res (flush_users H E us (flag \<or> b) k) (\<lambda>(flag, us', k). Inr (flag, u' # us', k)))"

definition CommandQueue_Flush ::
  "hooks \<Rightarrow> ('d, 'n) env \<Rightarrow> bool \<Rightarrow> client list \<Rightarrow> ('d, 'n) commander
     \<Rightarrow> (bool \<times> client list \<times> ('d, 'n) commander) res" where
  "CommandQueue_Flush H E is_ready users k =
     (if \<not> is_ready then Inr (False, users, k)
      else if users = [] then Inr (False, users, k)
      else flush_users H E users False k)"

definition CommandQueue_Reset :: "client list \<Rightarrow> client list" where
  "CommandQueue_Reset users = map (\<lambda>u. u\<lparr>cl_PendingList := []\<rparr>) users"

end
