(* ===== verification/CommandFacts.thy ===== *)
theory CommandFacts
  imports CommandProc
begin

text \<open>
  What holds of every command: its handler reads only parameters it was given, comes back, pushes
  queries and sends lines, and leaves its user and the world as they were; so \<open>Execute\<close> never
  faults on it, whatever the client sends.
\<close>

section \<open>What a handler may do\<close>

text \<open>\<open>s'\<close> is \<open>s\<close> with more in its log; a handler comes back in such a session.\<close>

definition extends :: "'d session \<Rightarrow> 'd session \<Rightarrow> bool" where
  "extends s s' \<longleftrightarrow> se_user s' = se_user s \<and> se_world s' = se_world s \<and> (\<exists>es. se_log s' = se_log s @ es)"

definition comes_back :: "'d session \<Rightarrow> ('r \<times> 'd session) res \<Rightarrow> bool" where
  "comes_back s m \<longleftrightarrow> (\<exists>r s'. m = Inr (r, s') \<and> extends s s')"

definition plain_handler :: "nat \<Rightarrow> ('d, 'n) handler \<Rightarrow> bool" where
  "plain_handler n h \<longleftrightarrow> (\<forall>E lim ps s. n \<le> length ps \<longrightarrow> comes_back s (h E lim ps s))"

lemma extends_refl [simp, intro]: "extends s s"
  by (simp add: extends_def)

lemma extends_trans [trans]: "extends s t \<Longrightarrow> extends t u \<Longrightarrow> extends s u"
  by (auto simp: extends_def)

lemma extends_happens [intro]: "extends s t \<Longrightarrow> extends s (happens e t)"
  by (auto simp: extends_def happens_def)

lemma extends_Send [intro]: "extends s t \<Longrightarrow> extends s (SendProtocol c l t)"
  by (auto simp: SendProtocol_def)

lemma extends_api [intro]: "extends s t \<Longrightarrow> extends s (JustAPI_to c t)"
  "extends s t \<Longrightarrow> extends s (JustEmerald_to c l t)" "extends s t \<Longrightarrow> extends s (ListDepend_to c l m t)"
  by (auto simp: JustAPI_to_def JustEmerald_to_def ListDepend_to_def)

lemmas extends_safe = extends_happens extends_Send extends_api

lemma extends_check [intro]: "CheckValidPos p s = (b, s') \<Longrightarrow> extends s s'"
  "CheckValid p s = (b, s') \<Longrightarrow> extends s s'" "CheckFormat p n s = (b, s') \<Longrightarrow> extends s s'"
  "CheckRange p r x y s = (b, s') \<Longrightarrow> extends s s'" "maker_CheckKey p n s = (b, s') \<Longrightarrow> extends s s'"
  by (auto simp: CheckValidPos_def CheckValid_def CheckFormat_def CheckRange_def maker_CheckKey_def Let_def
      split: if_splits)

lemma comes_back_return: "extends s t \<Longrightarrow> comes_back s (Inr (r, t))"
  by (auto simp: comes_back_def)

lemma comes_back_param:
  "0 \<le> i \<Longrightarrow> i < int (length ps) \<Longrightarrow> comes_back s (f (ps ! nat i)) \<Longrightarrow> comes_back s (bind_res (param ps i) f)"
  by (simp add: param_def)

lemma comes_back_back: "ps \<noteq> [] \<Longrightarrow> comes_back s (f (last ps)) \<Longrightarrow> comes_back s (bind_res (params_back ps) f)"
  by (simp add: params_back_def)

lemma comes_back_check:
  "(\<And>t. c = (False, t) \<Longrightarrow> comes_back s (Inr (r, t))) \<Longrightarrow> (\<And>t. c = (True, t) \<Longrightarrow> comes_back s (f t)) \<Longrightarrow>
   comes_back s (case c of (True, t) \<Rightarrow> f t | (False, t) \<Rightarrow> Inr (r, t))"
  by (cases c) (auto split: bool.splits)

lemma comes_back_if: "(b \<Longrightarrow> comes_back s x) \<Longrightarrow> (\<not> b \<Longrightarrow> comes_back s y) \<Longrightarrow> comes_back s (if b then x else y)"
  by simp

lemmas comes_back_rules = comes_back_return comes_back_param comes_back_back comes_back_check comes_back_if


definition well_formed :: "('d, 'n) command \<Rightarrow> bool" where
  "well_formed c \<longleftrightarrow>
     plain_handler (cm_min_params c) (cm_Handle c) \<and>
     cm_check_key c < int (cm_min_params c) \<and> cm_check_hash c < int (cm_min_params c) \<and>
     (cm_check_num c = - 1 \<or> 0 < cm_check_num c \<and> cm_check_num c < int (cm_min_params c)) \<and>
     cm_check_login c = - 1 \<and> cm_alias c = [] \<and> cm_last_empty_ok c \<and> \<not> cm_pre_reg_ok c \<and>
     (cm_max_params c = 0 \<or> cm_min_params c \<le> cm_max_params c) \<and>
     (cm_run_conf c \<longrightarrow> cm_max_params c = cm_min_params c + 2) \<and> cm_max_params c < 100"

lemma well_formed_list: "list_all well_formed cs \<longleftrightarrow>
    list_all (\<lambda>c. plain_handler (cm_min_params c) (cm_Handle c)) cs \<and>
    list_all (\<lambda>c. cm_check_key c < int (cm_min_params c) \<and> cm_check_hash c < int (cm_min_params c) \<and>
     (cm_check_num c = - 1 \<or> 0 < cm_check_num c \<and> cm_check_num c < int (cm_min_params c)) \<and>
     cm_check_login c = - 1 \<and> cm_alias c = [] \<and> cm_last_empty_ok c \<and> \<not> cm_pre_reg_ok c \<and>
     (cm_max_params c = 0 \<or> cm_min_params c \<le> cm_max_params c) \<and>
     (cm_run_conf c \<longrightarrow> cm_max_params c = cm_min_params c + 2) \<and> cm_max_params c < 100) cs"
  by (induction cs) (auto simp: well_formed_def)

lemma key_commands_well_formed: "list_all well_formed (key_commands :: ('d, 'n) command list)"
  unfolding well_formed_list
proof
  show "list_all (\<lambda>c. plain_handler (cm_min_params c) (cm_Handle c)) (key_commands :: ('d, 'n) command list)"
    unfolding key_commands_def key_command_defs Command_def
    by (simp add: plain_handler_def key_command_handlers)
       (auto intro!: comes_back_rules dest: extends_check intro: extends_trans)
qed (simp add: key_commands_def key_command_defs Command_def)

lemma list_commands_well_formed: "list_all well_formed (list_commands :: ('d, 'n) command list)"
  unfolding well_formed_list
proof
  show "list_all (\<lambda>c. plain_handler (cm_min_params c) (cm_Handle c)) (list_commands :: ('d, 'n) command list)"
    unfolding list_commands_def list_command_defs Command_def
    by (simp add: plain_handler_def list_command_handlers)
       (auto intro!: comes_back_rules extends_safe dest: extends_check intro: extends_trans split: option.split)
qed (simp add: list_commands_def list_command_defs Command_def)

lemma map_commands_well_formed: "list_all well_formed (map_commands :: ('d, 'n) command list)"
  unfolding well_formed_list
proof
  show "list_all (\<lambda>c. plain_handler (cm_min_params c) (cm_Handle c)) (map_commands :: ('d, 'n) command list)"
    unfolding map_commands_def map_command_defs Command_def
    by (simp add: plain_handler_def map_command_handlers)
       (auto intro!: comes_back_rules extends_safe dest: extends_check intro: extends_trans split: option.split)
qed (simp add: map_commands_def map_command_defs Command_def)

text \<open>
  Among the commands on timers, some read a parameter that need not be there (\<open>EXPFIND\<close>, \<open>EXPLIST\<close>,
  \<open>FTLIST\<close>), follow the pointer to the user's database (\<open>SRESET\<close>, \<open>FRESET\<close>), or subtract times
  (\<open>TTL\<close>, \<open>TTE\<close>); \<open>MULTI\<close> and \<open>MULTIRESET\<close> change their user.
\<close>

definition exceptions :: "string list" where
  "exceptions = [''EXPFIND'', ''EXPLIST'', ''FTLIST'', ''SRESET'', ''FRESET'', ''TTL'', ''TTE'', ''MULTI'', ''MULTIRESET'']"

lemma extends_fold: "(\<And>x t. extends s t \<Longrightarrow> extends s (f x t)) \<Longrightarrow> extends s t \<Longrightarrow> extends s (fold f xs t)"
  by (induction xs arbitrary: t) auto

lemma extends_lines [intro]: "extends s t \<Longrightarrow> extends s (select_line n d x k t)"
  "extends s t \<Longrightarrow> extends s (timer_line n d x k t)" "extends s t \<Longrightarrow> extends s (list_head t)"
  by (auto simp: select_line_def timer_line_def list_head_def)

lemma extends_requests [intro]: "extends s t \<Longrightarrow> extends s (push_requests E rs t)"
  by (auto simp: push_requests_def intro!: extends_fold)

lemma timer_commands_well_formed:
  "list_all well_formed (filter (\<lambda>c. cm_name c \<notin> set exceptions) (timer_commands :: ('d, 'n) command list))"
  unfolding well_formed_list
proof
  show "list_all (\<lambda>c. plain_handler (cm_min_params c) (cm_Handle c))
      (filter (\<lambda>c. cm_name c \<notin> set exceptions) (timer_commands :: ('d, 'n) command list))"
    unfolding timer_commands_def timer_command_defs Command_def
    by (simp add: exceptions_def plain_handler_def timer_command_handlers Let_def)
       (auto intro!: comes_back_rules extends_safe extends_fold extends_lines extends_requests dest: extends_check intro: extends_trans split: option.split prod.split)
qed (simp add: timer_commands_def exceptions_def timer_command_defs Command_def)

section \<open>Execute\<close>

text \<open>The commands of the table, with whatever limits were left in them.\<close>

definition served :: "('d, 'n) command \<Rightarrow> bool" where
  "served c \<longleftrightarrow>
     (\<exists>c0 off lim. c0 \<in> set all_commands \<and> cm_name c0 \<notin> set exceptions \<and> c = c0\<lparr>cm_offset := off, cm_limit := lim\<rparr>)"

lemma served_well_formed: "served c \<Longrightarrow> well_formed c"
proof -
  assume "served c"
  then obtain c0 off lim where c: "c0 \<in> set all_commands" "cm_name c0 \<notin> set exceptions"
      "c = c0\<lparr>cm_offset := off, cm_limit := lim\<rparr>"
    unfolding served_def by blast
  from c(1,2) have "well_formed c0"
    using key_commands_well_formed list_commands_well_formed map_commands_well_formed timer_commands_well_formed
    by (auto simp: all_commands_def list_all_iff)
  with c(3) show "well_formed c" by (simp add: well_formed_def)
qed

lemma and_then_back:
  assumes "comes_back s m" "\<And>t. extends s t \<Longrightarrow> comes_back t (f t)"
  shows "comes_back s (and_then m f)"
proof -
  from assms(1) obtain ok t where t: "m = Inr (ok, t)" "extends s t" by (auto simp: comes_back_def)
  with assms(2) [OF t(2)] show ?thesis
    by (cases ok) (auto simp: comes_back_def and_then_def intro: extends_trans)
qed

lemma check_back: "\<exists>r s'. CheckFormat p n s = (r, s') \<and> extends s s'"
  "\<exists>r s'. maker_CheckKey p n s = (r, s') \<and> extends s s'"
  by (cases "CheckFormat p n s", blast) (cases "maker_CheckKey p n s", blast)

lemma check_key_back:
  assumes "i < int (length ps)"
  shows "comes_back s (check_key_param i ps s)"
proof (cases "0 \<le> i")
  case True
  with assms show ?thesis
    by (auto simp: check_key_param_def comes_back_def param_def intro: check_back)
qed (auto simp: check_key_param_def comes_back_def)

lemma checks_back:
  fixes E :: "('d, 'n) env" and s :: "'d session"
  assumes "well_formed (c :: ('d, 'n) command)" "cm_min_params c \<le> length ps" "ps \<noteq> []" "length ps < 2 ^ 32 - 1"
  shows "comes_back s (Execute_checks E c ps s)"
proof -
  have key: "comes_back s (check_key_param (cm_check_key c) ps s)" for s :: "'d session"
    using assms(1,2) by (intro check_key_back) (auto simp: well_formed_def)
  have hash: "comes_back s (check_key_param (cm_check_hash c) ps s)" for s :: "'d session"
    using assms(1,2) by (intro check_key_back) (auto simp: well_formed_def)
  have num: "comes_back s (check_num_param (cm_check_num c) ps s)" for s :: "'d session"
  proof (cases "cm_check_num c = - 1")
    case True
    with assms(4) show ?thesis by (auto simp: check_num_param_def reaches_def comes_back_def)
  next
    case False
    with assms(1,2) show ?thesis
      by (auto simp: check_num_param_def comes_back_def param_def well_formed_def)
  qed
  have val: "comes_back s (check_value_param (cm_check_value c) ps s)" for s :: "'d session"
    using assms(3)
    by (auto simp: check_value_param_def comes_back_def params_back_def intro: check_back)
  have login: "comes_back s (check_login_param E c ps s)" for s :: "'d session"
    using assms(1) by (auto simp: check_login_param_def comes_back_def well_formed_def)
  show ?thesis unfolding Execute_checks_def
    by (intro and_then_back key num val login hash)
qed

lemma limits_back:
  assumes "well_formed c" "cm_run_conf c" "cm_min_params c \<le> length ps"
  shows "comes_back s (GetLimits (cm_max_params c) ps s)"
proof -
  obtain m where m: "cm_max_params c = m + 2" "m \<le> length ps" "m < 100"
    using assms by (auto simp: well_formed_def)
  have "(int (m + 2) - 1) mod 2 ^ 32 = int m + 1" "(int (m + 2) - 2) mod 2 ^ 32 = int m"
    using m(3) by simp_all
  with m show ?thesis
    by (auto simp: GetLimits_def Let_def comes_back_def param_def)
qed

text \<open>What \<open>Execute\<close> leaves alone: all of the user but the times of its last command, and the world.\<close>

definition same_table :: "('d, 'n) CommandMap \<Rightarrow> ('d, 'n) CommandMap \<Rightarrow> bool" where
  "same_table cs cs' \<longleftrightarrow>
     list_all2 (\<lambda>(n, c) (n', c'). n' = n \<and> (\<exists>off lim. c' = c\<lparr>cm_offset := off, cm_limit := lim\<rparr>)) cs cs'"

lemma same_command: "\<exists>off lim. c = c\<lparr>cm_offset := off, cm_limit := lim\<rparr>" for c :: "('d, 'n) command"
  by (rule exI [of _ "cm_offset c"], rule exI [of _ "cm_limit c"]) simp

lemma same_table_refl [simp]: "same_table cs cs"
  by (auto simp: same_table_def list_all2_same intro: same_command)

lemma same_table_set_conf: "same_table cs (set_conf n off lim cs)"
proof (induction cs)
  case (Cons p cs)
  show ?case
  proof (cases p)
    case (Pair a c)
    have "list_all2 (\<lambda>(n, c) (n', c'). n' = n \<and> (\<exists>off lim. c' = c\<lparr>cm_offset := off, cm_limit := lim\<rparr>)) cs cs"
      using same_table_refl [of cs] unfolding same_table_def .
    moreover have "\<exists>off lim. c = c\<lparr>cm_offset := off, cm_limit := lim\<rparr>" by (rule same_command)
    ultimately show ?thesis using Cons Pair unfolding same_table_def by auto
  qed
qed simp

definition touched :: "'d session \<Rightarrow> 'd session \<Rightarrow> bool" where
  "touched s s' \<longleftrightarrow>
     (\<exists>a b. se_user s' = (se_user s)\<lparr>cl_touchbase := a, cl_next_ping_check := b\<rparr>) \<and> se_world s' = se_world s \<and>
     (\<exists>es. se_log s' = se_log s @ es)"

lemma touched_extends: "touched s t \<Longrightarrow> extends t u \<Longrightarrow> touched s u"
  by (auto simp: touched_def extends_def)

lemma run_handler_touched:
  assumes "well_formed c" "cm_min_params c \<le> length ps" "touched s (co_session k)"
  shows "\<exists>k'. run_handler E command c ps k = Inr k' \<and> touched s (co_session k') \<and> co_commands k' = co_commands k"
proof -
  from assms(1,2) have "comes_back (co_session k)
      (cm_Handle c E (cm_offset c, cm_limit c) ps (co_session k))"
    by (auto simp: well_formed_def plain_handler_def)
  then obtain r t where "cm_Handle c E (cm_offset c, cm_limit c) ps (co_session k) = Inr (r, t)"
      "extends (co_session k) t" by (auto simp: comes_back_def)
  with assms(3) show ?thesis
    by (auto simp: run_handler_def intro!: touched_extends [OF assms(3)])
qed

lemma limits_touched:
  assumes "well_formed c" "cm_min_params c \<le> length ps" "touched s (co_session k)"
  shows "\<exists>k'. Execute_limits E command c ps k = Inr k' \<and> touched s (co_session k') \<and>
    same_table (co_commands k) (co_commands k')"
proof (cases "cm_run_conf c")
  case True
  from limits_back [OF assms(1) True assms(2)] obtain conf t
    where t: "GetLimits (cm_max_params c) ps (co_session k) = Inr (conf, t)" "extends (co_session k) t"
    unfolding comes_back_def by blast
  let ?c = "c\<lparr>cm_offset := li_offset conf, cm_limit := li_limit conf\<rparr>"
  let ?k = "k\<lparr>co_session := t, co_commands := set_conf command (li_offset conf) (li_limit conf) (co_commands k)\<rparr>"
  from t(2) have touch: "touched s t" by (rule touched_extends [OF assms(3)])
  have "\<exists>k'. run_handler E command ?c ps ?k = Inr k' \<and> touched s (co_session k') \<and> co_commands k' = co_commands ?k"
    using assms(1,2) touch by (intro run_handler_touched) (auto simp: well_formed_def)
  with True t touch show ?thesis by (auto simp: Execute_limits_def Let_def same_table_set_conf)
qed (use run_handler_touched [OF assms, of E command] in \<open>auto simp: Execute_limits_def\<close>)

lemma handler_touched:
  assumes "well_formed c" "cm_min_params c \<le> length ps" "length ps < 2 ^ 32 - 1" "touched s (co_session k)"
  shows "\<exists>k'. Execute_handler E command c ps k = Inr k' \<and> touched s (co_session k') \<and>
    same_table (co_commands k) (co_commands k')"
proof (cases "ps = []")
  case False
  from checks_back [OF assms(1,2) False assms(3)] obtain ok t
    where t: "Execute_checks E c ps (co_session k) = Inr (ok, t)" "extends (co_session k) t"
    unfolding comes_back_def by blast
  from t(2) have touch: "touched s t" by (rule touched_extends [OF assms(4)])
  then have "\<exists>k'. Execute_limits E command c ps (k\<lparr>co_session := t\<rparr>) = Inr k' \<and> touched s (co_session k') \<and>
      same_table (co_commands (k\<lparr>co_session := t\<rparr>)) (co_commands k')"
    using assms(1,2) by (intro limits_touched) auto
  with False t touch show ?thesis by (auto simp: Execute_handler_def)
qed (use run_handler_touched [OF assms(1,2,4), of E command] in \<open>auto simp: Execute_handler_def\<close>)

lemma join_excess_length: "length (join_excess maxp ps) = (if maxp \<noteq> 0 \<and> length ps > maxp then maxp else length ps)"
  by (auto simp: join_excess_def)

lemma times_same: "\<exists>a b. u = u\<lparr>cl_touchbase := a, cl_next_ping_check := b\<rparr>"
  "\<exists>a. u\<lparr>cl_next_ping_check := n\<rparr> = u\<lparr>cl_touchbase := a, cl_next_ping_check := n\<rparr>" for u :: client
  by (rule exI [of _ "cl_touchbase u"], rule exI [of _ "cl_next_ping_check u"], simp)
     (rule exI [of _ "cl_touchbase u"], simp)

lemma touched_happens: "touched s t \<Longrightarrow> touched s (happens e t)"
  by (auto simp: touched_def happens_def)

lemma touched_Send: "touched s t \<Longrightarrow> touched s (SendProtocol c l t)"
  by (simp add: SendProtocol_def touched_happens)

lemma touched_missing: "touched s t \<Longrightarrow> touched s (Command_MissingParameters h c t)"
  by (auto simp: Command_MissingParameters_def Let_def intro!: touched_Send)

lemma touched_blocked: "touched s (co_session k) \<Longrightarrow> touched s (co_session (blocked command ps k))"
  by (auto simp: blocked_def on_session_def intro!: touched_happens)

lemma touched_refl: "touched s s"
  by (auto simp: touched_def intro: times_same)

lemma blocked_table: "co_commands (blocked command ps k) = co_commands k"
  "co_commands (on_session f k) = co_commands k"
  by (simp_all add: blocked_def on_session_def)

lemma touched_now:
  "touched s (on_user (\<lambda>u. (if b then u\<lparr>cl_touchbase := n\<rparr> else u)\<lparr>cl_next_ping_check := m\<rparr>) (happens e s))"
  using times_same(2) [where u = "se_user s" and n = m] by (cases b) (auto simp: touched_def on_user_def happens_def)

lemma found_touched:
  assumes "well_formed c" "length ps < 2 ^ 32 - 1"
  shows "\<exists>k'. Execute_found H E command c ps k = Inr k' \<and> touched (co_session k) (co_session k') \<and>
    same_table (co_commands k) (co_commands k')"
proof -
  let ?ps = "join_excess (cm_max_params c) ps"
  let ?k = "on_session (happens (Monitored command MONITOR_DEFAULT ?ps)) k"
  let ?now = "w_now (se_world (co_session ?k))"
  let ?k1 = "on_session (on_user (\<lambda>u. (if command \<noteq> ''PONG'' \<and> command \<noteq> ''PUBLISH''
      then u\<lparr>cl_touchbase := ?now\<rparr> else u)\<lparr>cl_next_ping_check := ?now + PING_INTVL\<rparr>)) ?k"
  have t: "touched (co_session k) (co_session ?k)"
    by (simp add: on_session_def touched_happens touched_refl)
  have t1: "touched (co_session k) (co_session ?k1)"
    by (simp add: on_session_def touched_now)
  have len: "length ?ps < 2 ^ 32 - 1" using assms(2) by (auto simp: join_excess_length)
  have a: "cm_alias c = []" "cm_last_empty_ok c" using assms(1) by (auto simp: well_formed_def)
  have "\<exists>k'. Execute_handler E command c ?ps ?k1 = Inr k' \<and> touched (co_session k) (co_session k') \<and>
      same_table (co_commands ?k1) (co_commands k')"
    if "cm_min_params c \<le> length ?ps"
    using assms(1) that len t1 by (rule handler_touched)
  with t t1 a show ?thesis
    unfolding Execute_found_def Let_def
    by (auto simp: blocked_table not_less Command_NotLogged_def on_session_def intro!: touched_blocked touched_missing touched_Send)
qed

lemma GetBase_mem: "GetBase n cs = Some c \<Longrightarrow> c \<in> snd ` set cs"
  by (induction cs) (auto split: if_splits)

lemma served_same: "same_table cs cs' \<Longrightarrow> \<forall>c \<in> snd ` set cs. served c \<Longrightarrow> \<forall>c \<in> snd ` set cs'. served c"
  unfolding same_table_def
proof (induction cs cs' rule: list_all2_induct)
  case (Cons x xs y ys)
  then obtain off lim where y: "snd y = (snd x)\<lparr>cm_offset := off, cm_limit := lim\<rparr>" by auto
  from Cons.prems have "served (snd x)" by simp
  then have "served (snd y)" unfolding served_def y by force
  with Cons show ?case by auto
qed simp

text \<open>The table with every command that is served.\<close>

definition served_table :: "('d, 'n) CommandMap" where
  "served_table = map (\<lambda>c. (cm_name c, c)) (filter (\<lambda>c. cm_name c \<notin> set exceptions) all_commands)"

lemma served_table_served: "\<forall>c \<in> snd ` set served_table. served c"
  using same_command by (force simp: served_table_def served_def)

text \<open>A name that the table serves, or does not know.\<close>

definition serves :: "('d, 'n) CommandMap \<Rightarrow> string \<Rightarrow> bool" where
  "serves cs n \<longleftrightarrow> (\<forall>c. GetBase n cs = Some c \<longrightarrow> served c)"

lemma serves_all: "\<forall>c \<in> snd ` set cs. served c \<Longrightarrow> serves cs n"
  using GetBase_mem [of n cs] unfolding serves_def by blast

lemma served_conf:
  assumes "served c" shows "served (c\<lparr>cm_offset := off, cm_limit := lim\<rparr>)"
proof -
  obtain c0 x y where c0: "c0 \<in> set all_commands" "cm_name c0 \<notin> set exceptions"
    "c = c0\<lparr>cm_offset := x, cm_limit := y\<rparr>"
    using assms unfolding served_def by blast
  have "c\<lparr>cm_offset := off, cm_limit := lim\<rparr> = c0\<lparr>cm_offset := off, cm_limit := lim\<rparr>"
    unfolding c0(3) by simp
  with c0(1,2) show ?thesis unfolding served_def by blast
qed

lemma GetBase_same:
  assumes "same_table cs cs'" "GetBase n cs' = Some c'"
  shows "\<exists>c off lim. GetBase n cs = Some c \<and> c' = c\<lparr>cm_offset := off, cm_limit := lim\<rparr>"
  using assms unfolding same_table_def
proof (induction cs cs' rule: list_all2_induct)
  case (Cons x xs y ys)
  obtain m c m' d where xy: "x = (m, c)" "y = (m', d)" by (cases x, cases y)
  obtain off lim where d: "m' = m" "d = c\<lparr>cm_offset := off, cm_limit := lim\<rparr>" using Cons.hyps(1) xy by blast
  show ?case
  proof (cases "engine_equals m n")
    case True
    then have "GetBase n (x # xs) = Some c" "GetBase n (y # ys) = Some d" by (simp_all add: xy d(1))
    with Cons.prems have "c' = d" by (simp only: option.inject)
    with \<open>GetBase n (x # xs) = Some c\<close> d(2) show ?thesis by blast
  next
    case False
    then have "GetBase n (x # xs) = GetBase n xs" "GetBase n (y # ys) = GetBase n ys" by (simp_all add: xy d(1))
    with Cons.prems Cons.IH show ?thesis by simp
  qed
qed simp

lemma serves_same: "same_table cs cs' \<Longrightarrow> serves cs n \<Longrightarrow> serves cs' n"
  using GetBase_same served_conf unfolding serves_def by metis

lemma execute_touched:
  assumes "serves (co_commands k) command" "length ps < 2 ^ 32 - 1"
  shows "\<exists>k'. CommandHandler_Execute H E command ps k = Inr k' \<and> touched (co_session k) (co_session k') \<and>
    same_table (co_commands k) (co_commands k')"
proof (cases "GetBase command (co_commands k)")
  case None
  then show ?thesis
    unfolding CommandHandler_Execute_def Let_def
    by (auto simp: blocked_table touched_refl on_session_def
        intro!: touched_blocked touched_happens touched_Send)
next
  case (Some c)
  with assms(1) have "well_formed c" using served_well_formed by (auto simp: serves_def)
  from found_touched [OF this assms(2), of H E command k] Some touched_refl [of "co_session k"]
    same_table_refl [of "co_commands k"] show ?thesis
    unfolding CommandHandler_Execute_def Let_def by auto
qed

end
