(* ===== verification/Server.thy ===== *)
theory Server
  imports TimerCommands Protocol "HOL-Library.AList"
begin

text \<open>
  The main loop's own data: the users connected and the tables they are found in
  (\<open>src/clients.cpp\<close>, \<open>include/instances.h\<close>), the channels, the groups, the sessions, the cached
  logins and the settings; and \<open>HasLoop\<close> of the command processor, which runs a command once for
  each target of a list.
\<close>

section \<open>Codes and messages\<close>

definition BRLD_CONNECTED :: nat where "BRLD_CONNECTED = 108"
definition BRLD_ERROR :: nat where "BRLD_ERROR = 142"
definition BRLD_QUITTING :: nat where "BRLD_QUITTING = 158"
definition BRLD_LOGIN_FLAGS :: nat where "BRLD_LOGIN_FLAGS = 185"
definition BRLD_YOUR_FLAGS :: nat where "BRLD_YOUR_FLAGS = 186"
definition ERR_NO_INSTANCE :: nat where "ERR_NO_INSTANCE = 500"
definition ERR_NO_CHAN :: nat where "ERR_NO_CHAN = 502"
definition ERR_NORECIPIENT :: nat where "ERR_NORECIPIENT = 505"
definition ERR_PUB_NOT_PROVIDED :: nat where "ERR_PUB_NOT_PROVIDED = 506"
definition ERR_CANNOTSENDTOCHAN :: nat where "ERR_CANNOTSENDTOCHAN = 508"
definition ERR_NOSUCHSERVICE :: nat where "ERR_NOSUCHSERVICE = 510"
definition ERR_AGENT_IS_SET :: nat where "ERR_AGENT_IS_SET = 522"
definition ERR_BAD_FORMAT :: nat where "ERR_BAD_FORMAT = 534"
definition ERR_WRONG_PASS :: nat where "ERR_WRONG_PASS = 536"
definition ERR_NO_ORIGIN :: nat where "ERR_NO_ORIGIN = 555"
definition ERR_MUTED :: nat where "ERR_MUTED = 589"

definition NOT_DEFINED :: string where "NOT_DEFINED = ''NOT_DEFINED''"
definition PROCESS_ALREADY :: string where "PROCESS_ALREADY = ''ALREADY_USING''"

section \<open>Objects of the main loop\<close>

record Subscription =
  sub_user :: nat
  sub_chan :: string
  from_connect :: bool

record Channel =
  ch_name :: string
  ch_created :: int
  muted :: bool
  subscribedlist :: "(nat \<times> Subscription) list"

definition GetClientCounter :: "Channel \<Rightarrow> nat" where
  "GetClientCounter c = length (subscribedlist c)"

datatype UserType = CLIENT_TYPE_LOCAL | CLIENT_TYPE_REMOTE | CLIENT_TYPE_SERVER

text \<open>A connection class: what its tag in the configuration says of \<open>registered\<close>, and of the reason.\<close>

datatype class_type = CC_ALLOW | CC_DENY | CC_NAMED

record ConfigConnect =
  cc_type :: class_type
  cc_name :: string
  cc_host :: string
  cc_ports :: "int list"
  cc_registered :: "bool option"
  cc_reason :: string

text \<open>
  A user: what the command layer keeps of it, and the rest.  Groups and sessions are shared
  pointers, so that users have their addresses; a channel in \<open>chans\<close> is the name it is kept under,
  which no two channels share.
\<close>

record LocalUser =
  us_client :: client
  us_type :: UserType
  us_uuid :: string
  us_instance :: string
  us_auth :: string
  us_connected :: int
  us_logged :: int
  us_age :: int
  us_realhost :: string
  us_Groups :: "nat list"
  us_session :: "nat option"
  us_chans :: "string list"
  us_lastping :: bool
  us_class :: "ConfigConnect option"
  us_ip :: string
  us_port :: int

abbreviation us_login :: "LocalUser \<Rightarrow> string" where "us_login u \<equiv> cl_login (us_client u)"
abbreviation us_agent :: "LocalUser \<Rightarrow> string" where "us_agent u \<equiv> cl_agent (us_client u)"
abbreviation us_registered :: "LocalUser \<Rightarrow> nat" where "us_registered u \<equiv> cl_registered (us_client u)"
abbreviation us_quitting :: "LocalUser \<Rightarrow> bool" where "us_quitting u \<equiv> cl_quitting (us_client u)"

abbreviation on_client :: "(client \<Rightarrow> client) \<Rightarrow> LocalUser \<Rightarrow> LocalUser" where
  "on_client f u \<equiv> u\<lparr>us_client := f (us_client u)\<rparr>"

text \<open>What a user is sent besides numeric replies, and what becomes of the objects.\<close>

datatype message =
    Join_message nat string
  | Part_message nat string
  | Publish_message nat string string
  | Quit_message nat string
  | Error_message string
  | Pong_message string string

datatype 'd kernel_event =
    Told "'d event"
  | Wrote nat message
  | Culled nat
  | Closed nat
  | Post_command string "string list" COMMAND_RESULT
  | OnAdmin nat string
  | Cached

text \<open>
  The modules that may stop a join, in the order in which they are asked
  (\<open>src/modules/m_chanrestrict.cpp\<close>, \<open>m_chainjoin.cpp\<close>, \<open>m_forward.cpp\<close>); the last two have
  their tables.
\<close>

datatype join_module =
    ModuleChanRestrict
  | ModuleChainJoin "(string \<times> string) list"
  | ModuleForward "(string \<times> string) list"

text \<open>Who is told of commands, and of what happens, with what waits to be told.\<close>

datatype NOTIFY_LEVEL = NOTIFY_DEBUG | NOTIFY_VERBOSE | NOTIFY_DEFAULT

record CMDBuffer =
  cb_instance :: string
  cb_command :: string
  cb_level :: MONITOR
  cb_params :: "string list"

record Event =
  ev_skip :: "nat option"
  ev_command :: string
  ev_level :: NOTIFY_LEVEL

record 'd Kernel =
  sv_world :: "'d world"
  sv_user :: "nat \<Rightarrow> LocalUser"
  local_users :: "nat list"
  clientlist :: "(string \<times> nat) list"
  uuid_list :: "(string \<times> nat) list"
  logins :: "(string \<times> nat) list"
  AwaitingExit :: "nat list"
  not_registered_track :: u32
  ChannelList :: "(string \<times> Channel) list"
  sv_group :: "nat \<Rightarrow> Group"
  GroupList :: "(string \<times> nat) list"
  sv_session :: "nat \<Rightarrow> Session"
  sessions :: "(string \<times> nat) list"
  cache_logins :: "(string \<times> string) list"
  SetMap :: "(string \<times> string) list"
  sv_next :: nat
  ServerName :: string
  DefaultDB :: "db option"
  sv_modules :: "join_module list"
  Classes :: "ConfigConnect list"
  MonitorList :: "(nat \<times> MONITOR) list"
  monitor_buffer :: "CMDBuffer list"
  NotifyList :: "(nat \<times> NOTIFY_LEVEL) list"
  notify_events :: "Event list"
  sv_log :: "'d kernel_event list"

type_synonym 'd kernel_op = "'d Kernel \<Rightarrow> 'd Kernel res"

definition occurs :: "'d kernel_event \<Rightarrow> 'd Kernel \<Rightarrow> 'd Kernel" where
  "occurs e sv = sv\<lparr>sv_log := sv_log sv @ [e]\<rparr>"

abbreviation on_us :: "nat \<Rightarrow> (LocalUser \<Rightarrow> LocalUser) \<Rightarrow> 'd Kernel \<Rightarrow> 'd Kernel" where
  "on_us u f sv \<equiv> sv\<lparr>sv_user := (sv_user sv)(u := f (sv_user sv u))\<rparr>"

text \<open>The user as the command layer sees it, with its groups and its session read.\<close>

definition client_of :: "'d Kernel \<Rightarrow> nat \<Rightarrow> client" where
  "client_of sv u =
     (let us = sv_user sv u
      in (us_client us)\<lparr>cl_id := u, cl_Groups := map (sv_group sv) (us_Groups us),
           cl_session := map_option (sv_session sv) (us_session us)\<rparr>)"

abbreviation IS_LOCAL :: "'d Kernel \<Rightarrow> nat \<Rightarrow> bool" where
  "IS_LOCAL sv u \<equiv> us_type (sv_user sv u) = CLIENT_TYPE_LOCAL"

abbreviation IS_SERVER :: "'d Kernel \<Rightarrow> nat \<Rightarrow> bool" where
  "IS_SERVER sv u \<equiv> us_type (sv_user sv u) = CLIENT_TYPE_SERVER"

text \<open>
  A line sent to a user, by the functions that the commands use: only a local user is sent any.
\<close>

definition tell :: "nat \<Rightarrow> ('d session \<Rightarrow> 'd session) \<Rightarrow> 'd Kernel \<Rightarrow> 'd Kernel" where
  "tell u f sv =
     (if IS_LOCAL sv u
      then sv\<lparr>sv_log := sv_log sv @
             map Told (se_log (f \<lparr>se_user = client_of sv u, se_world = sv_world sv, se_log = []\<rparr>))\<rparr>
      else sv)"

abbreviation send :: "nat \<Rightarrow> nat \<Rightarrow> string list \<Rightarrow> 'd Kernel \<Rightarrow> 'd Kernel" where
  "send u code args \<equiv> tell u (SendProtocol code args)"

definition send_event :: "message \<Rightarrow> nat \<Rightarrow> 'd Kernel \<Rightarrow> 'd Kernel" where
  "send_event m u sv = (if IS_LOCAL sv u then occurs (Wrote u m) sv else sv)"

text \<open>\<open>Protocols::NoChannel\<close> and \<open>NoInstance\<close>.\<close>

definition NoChannel :: "string \<Rightarrow> nat \<Rightarrow> 'd Kernel \<Rightarrow> 'd Kernel" where
  "NoChannel chan u = send u ERR_NO_CHAN [if chan = [] then ''*'' else chan, PROCESS_NULL]"

definition NoInstance :: "string \<Rightarrow> nat \<Rightarrow> 'd Kernel \<Rightarrow> 'd Kernel" where
  "NoInstance inst u = send u ERR_NO_INSTANCE [if inst = [] then ''*'' else inst, PROCESS_NULL]"

section \<open>Tables up to case\<close>

primrec imap_find :: "string \<Rightarrow> (string \<times> 'a) list \<Rightarrow> 'a option" where
  "imap_find k [] = None"
| "imap_find k (p # ps) = (if engine_equals (fst p) k then Some (snd p) else imap_find k ps)"

definition imap_erase :: "string \<Rightarrow> (string \<times> 'a) list \<Rightarrow> (string \<times> 'a) list" where
  "imap_erase k ps = filter (\<lambda>p. \<not> engine_equals (fst p) k) ps"

primrec imap_set :: "string \<Rightarrow> 'a \<Rightarrow> (string \<times> 'a) list \<Rightarrow> (string \<times> 'a) list" where
  "imap_set k v [] = [(k, v)]"
| "imap_set k v (p # ps) = (if engine_equals (fst p) k then (fst p, v) # ps else p # imap_set k v ps)"

definition FindInstanceOnly :: "string \<Rightarrow> 'd Kernel \<Rightarrow> nat option" where
  "FindInstanceOnly inst sv = imap_find inst (clientlist sv)"

definition FindUUID :: "string \<Rightarrow> 'd Kernel \<Rightarrow> nat option" where
  "FindUUID uid sv = imap_find uid (uuid_list sv)"

definition FindInstance :: "string \<Rightarrow> 'd Kernel \<Rightarrow> nat option" where
  "FindInstance login sv =
     (if login \<noteq> [] \<and> is_digit (hd login) then FindUUID login sv else FindInstanceOnly login sv)"

text \<open>The logins are compared exactly, although they are hashed up to case.\<close>

definition FindLogin :: "string \<Rightarrow> nat \<Rightarrow> 'd Kernel \<Rightarrow> nat list" where
  "FindLogin login state sv =
     map snd (filter (\<lambda>p. fst p = login \<and> us_registered (sv_user sv (snd p)) = state) (logins sv))"

definition FirstLogin :: "string \<Rightarrow> nat \<Rightarrow> 'd Kernel \<Rightarrow> nat option" where
  "FirstLogin login state sv =
     map_option snd (find (\<lambda>p. fst p = login \<and> us_registered (sv_user sv (snd p)) = state) (logins sv))"

definition CountLogin :: "string \<Rightarrow> 'd Kernel \<Rightarrow> nat" where
  "CountLogin login sv = length (FindLogin login REG_OK sv)"

primrec erase_first :: "('a \<Rightarrow> bool) \<Rightarrow> 'a list \<Rightarrow> 'a list" where
  "erase_first P [] = []"
| "erase_first P (x # xs) = (if P x then xs else x # erase_first P xs)"

definition EraseLogin :: "nat \<Rightarrow> 'd Kernel \<Rightarrow> 'd Kernel" where
  "EraseLogin u sv = sv\<lparr>logins := erase_first (\<lambda>p. snd p = u) (logins sv)\<rparr>"

section \<open>Settings\<close>

definition Settings_Get :: "string \<Rightarrow> 'd Kernel \<Rightarrow> string" where
  "Settings_Get key sv = (case map_of (SetMap sv) (to_lower key) of None \<Rightarrow> [] | Some v \<Rightarrow> v)"

definition Settings_AsBool :: "string \<Rightarrow> 'd Kernel \<Rightarrow> bool" where
  "Settings_AsBool key sv = Helpers_as_bool (Settings_Get key sv) False"

definition on_world :: "('d world \<Rightarrow> 'd world res) \<Rightarrow> 'd kernel_op" where
  "on_world f sv = bind_res (f (sv_world sv)) (\<lambda>w. Inr (sv\<lparr>sv_world := w\<rparr>))"

definition from_world :: "('d world \<Rightarrow> ('r \<times> 'd world) res) \<Rightarrow> 'd Kernel \<Rightarrow> ('r \<times> 'd Kernel) res" where
  "from_world f sv = bind_res (f (sv_world sv)) (\<lambda>(r, w). Inr (r, sv\<lparr>sv_world := w\<rparr>))"

definition Settings_Set :: "('d, 'n) env \<Rightarrow> string \<Rightarrow> string \<Rightarrow> 'd kernel_op" where
  "Settings_Set E key value sv =
     on_world (STHelper_Set E ''conf'' (to_lower key) (to_lower value))
       (sv\<lparr>SetMap := AList.update (to_lower key) (to_lower value) (SetMap sv)\<rparr>)"

definition fold_res :: "('a \<Rightarrow> 's \<Rightarrow> 's res) \<Rightarrow> 'a list \<Rightarrow> 's \<Rightarrow> 's res" where
  "fold_res f xs s = foldl (\<lambda>r x. bind_res r (f x)) (Inr s) xs"

definition Settings_Load :: "('d, 'n) env \<Rightarrow> 'd kernel_op" where
  "Settings_Load E sv =
     bind_res (from_world (STHelper_HList E ''conf'') sv) (\<lambda>(confs, sv).
       fold_res (\<lambda>key sv.
         bind_res (from_world (STHelper_Get E ''conf'' key) sv) (\<lambda>(v, sv).
           Inr (sv\<lparr>SetMap := AList.update key v (SetMap sv)\<rparr>))) confs sv)"

definition chansync :: string where "chansync = ''chansync''"
definition autojoin :: string where "autojoin = ''autojoin''"

text \<open>The map of the defaults is walked in the order of its keys.\<close>

definition Settings_SetDefaults :: "('d, 'n) env \<Rightarrow> 'd kernel_op" where
  "Settings_SetDefaults E sv =
     bind_res (on_world (STHelper_Erase E ''conf'') (sv\<lparr>SetMap := []\<rparr>)) (\<lambda>sv.
       fold_res (\<lambda>(key, val). Settings_Set E key val)
         [(''allowchans'', ''true''), (autojoin, ''false''), (chansync, ''false''), (''syntaxhints'', ''true'')] sv)"

section \<open>A command on a list of targets\<close>

definition MAX_DEST :: nat where "MAX_DEST = 100"

definition comma_node_stream :: "string \<Rightarrow> bool \<Rightarrow> node_stream" where
  "comma_node_stream source allowempty = node_stream source CHR '','' allowempty"

type_synonym 'd on_params = "string list \<Rightarrow> 'd Kernel \<Rightarrow> (COMMAND_RESULT \<times> 'd Kernel) res"

type_synonym ('d, 'n) kernel_handler = "('d, 'n) env \<Rightarrow> nat \<Rightarrow> 'd on_params"

text \<open>
  The body of the loop for one token: duplicates are passed over when there is no second list,
  and the second list gives one more of its items.  \<open>loc\<close> says that the user is local.
\<close>

fun loop_tokens ::
  "'d on_params \<Rightarrow> string \<Rightarrow> bool \<Rightarrow> nat \<Rightarrow> int \<Rightarrow> string list \<Rightarrow> string list \<Rightarrow> node_stream \<Rightarrow> string list
     \<Rightarrow> 'd kernel_op" where
  "loop_tokens h name loc splithere extra dupes splitparams items2 [] sv = Inr sv"
| "loop_tokens h name loc splithere extra dupes splitparams items2 (item # items) sv =
     (if extra < 0 \<and> (\<exists>d\<in>set dupes. engine_equals d item)
      then loop_tokens h name loc splithere extra dupes splitparams items2 items sv
      else (let sp = splitparams[splithere := item];
                (item2, items2') = (if extra \<ge> 0 then snd (items_extract items2) else ([], items2));
                sp = (if extra \<ge> 0 then sp[nat extra := item2] else sp)
            in bind_res (h sp sv) (\<lambda>(result, sv).
                 loop_tokens h name loc splithere extra (item # dupes) sp items2' items
                   (if loc then occurs (Post_command name sp result) sv else sv))))"

text \<open>
  \<open>None\<close>: there is no list, and the handler goes on.  The handler is called again for each token;
  a token has no comma, so that this call finds no list: what it runs is the rest of the handler.
\<close>

definition HasLoop ::
  "'d on_params \<Rightarrow> string \<Rightarrow> nat \<Rightarrow> string list \<Rightarrow> nat \<Rightarrow> int \<Rightarrow> bool \<Rightarrow> 'd Kernel \<Rightarrow> ('d Kernel option) res" where
  "HasLoop h name u ps splithere extra usemax sv =
     (if splithere \<ge> length ps then Inr None
      else if CHR '','' \<notin> set (ps ! splithere) then Inr None
      else bind_res (if extra \<ge> 0 then param ps extra else Inr []) (\<lambda>second.
        let toks = extract_all (comma_node_stream (ps ! splithere) False)
        in bind_res (loop_tokens h name (IS_LOCAL sv u) splithere extra [] ps (comma_node_stream second True)
                       (if usemax then take MAX_DEST toks else toks) sv) (\<lambda>sv. Inr (Some sv))))"

text \<open>\<open>if (HasLoop(...)) return result;\<close> and the rest of the handler.\<close>

definition with_loop ::
  "COMMAND_RESULT \<Rightarrow> string \<Rightarrow> nat \<Rightarrow> nat \<Rightarrow> int \<Rightarrow> bool \<Rightarrow> 'd on_params \<Rightarrow> 'd on_params" where
  "with_loop result name u splithere extra usemax h ps sv =
     bind_res (HasLoop h name u ps splithere extra usemax sv) (\<lambda>done.
       case done of Some sv \<Rightarrow> Inr (result, sv) | None \<Rightarrow> h ps sv)"

end
