(* ===== verification/Channels.thy ===== *)
theory Channels
  imports Server
begin

text \<open>
  Channels (\<open>src/channels.cpp\<close>) and what the core database keeps of them
  (\<open>coremods/core_dbload.cpp\<close>), the modules that are asked before a join, and the operations on a
  channel for all the users of a login (\<open>src/clients.cpp\<close>).
\<close>

section \<open>The list of channels\<close>

text \<open>A pointer to a channel is the name under which it is kept.\<close>

definition Channels_Find :: "string \<Rightarrow> 'd Kernel \<Rightarrow> string option" where
  "Channels_Find chan sv = map_option fst (find (\<lambda>p. engine_equals (fst p) chan) (ChannelList sv))"

abbreviation channel_at :: "'d Kernel \<Rightarrow> string \<Rightarrow> Channel option" where
  "channel_at sv k \<equiv> map_of (ChannelList sv) k"

definition on_channel :: "string \<Rightarrow> (Channel \<Rightarrow> Channel) \<Rightarrow> 'd Kernel \<Rightarrow> 'd Kernel" where
  "on_channel k f sv =
     sv\<lparr>ChannelList := map (\<lambda>p. if fst p = k then (fst p, f (snd p)) else p) (ChannelList sv)\<rparr>"

definition new_Channel :: "string \<Rightarrow> 'd kernel_op" where
  "new_Channel cname sv =
     (case Channels_Find cname sv of
        Some _ \<Rightarrow> Inl Kernel_exception
      | None \<Rightarrow> Inr (sv\<lparr>ChannelList := ChannelList sv @
          [(cname, \<lparr>ch_name = cname, ch_created = w_now (sv_world sv), muted = False,
                    subscribedlist = []\<rparr>)]\<rparr>))"

definition Channels_CheckRemoval :: "string \<Rightarrow> 'd Kernel \<Rightarrow> 'd Kernel" where
  "Channels_CheckRemoval k sv =
     (case channel_at sv k of
        None \<Rightarrow> sv
      | Some c \<Rightarrow>
          if subscribedlist c \<noteq> [] then sv
          else if Channels_Find (ch_name c) sv \<noteq> Some k then sv
          else sv\<lparr>ChannelList := filter (\<lambda>p. fst p \<noteq> k) (ChannelList sv)\<rparr>)"

section \<open>One channel\<close>

definition Channel_GetUser :: "nat \<Rightarrow> Channel \<Rightarrow> Subscription option" where
  "Channel_GetUser u c = map_of (subscribedlist c) u"

definition Channel_IsSubscribed :: "nat \<Rightarrow> Channel \<Rightarrow> bool" where
  "Channel_IsSubscribed u c \<longleftrightarrow> u \<in> fst ` set (subscribedlist c)"

definition Channel_AddUser :: "nat \<Rightarrow> Channel \<Rightarrow> bool \<times> Channel" where
  "Channel_AddUser u c =
     (if Channel_IsSubscribed u c then (False, c)
      else (True, c\<lparr>subscribedlist := map_insert u
              \<lparr>sub_user = u, sub_chan = ch_name c, from_connect = False\<rparr> (subscribedlist c)\<rparr>))"

definition Channel_DeleteUser :: "nat \<Rightarrow> string \<Rightarrow> 'd Kernel \<Rightarrow> 'd Kernel" where
  "Channel_DeleteUser u k sv =
     (case channel_at sv k of
        None \<Rightarrow> sv
      | Some c \<Rightarrow>
          if Channel_IsSubscribed u c
          then Channels_CheckRemoval k
                 (on_channel k (\<lambda>c. c\<lparr>subscribedlist := erase_key u (subscribedlist c)\<rparr>) sv)
          else sv)"

text \<open>An event is written to every local subscriber who is not excepted.\<close>

definition Channel_Write :: "Channel \<Rightarrow> message \<Rightarrow> nat set \<Rightarrow> 'd Kernel \<Rightarrow> 'd Kernel" where
  "Channel_Write c m except_list sv =
     fold (\<lambda>p sv. if fst p \<in> except_list then sv else send_event m (fst p) sv) (subscribedlist c) sv"

section \<open>What the core database keeps\<close>

definition ModuleCoreDB_OnUserJoin :: "('d, 'n) env \<Rightarrow> Subscription \<Rightarrow> 'd kernel_op" where
  "ModuleCoreDB_OnUserJoin E memb sv =
     (if from_connect memb then Inr sv
      else if \<not> Settings_AsBool autojoin sv then Inr sv
      else on_world (STHelper_Set E (us_login (sv_user sv (sub_user memb)) @ ''/chans'') (sub_chan memb)
             (conv_numeric (w_now (sv_world sv)))) sv)"

definition ModuleCoreDB_OnUserPart :: "('d, 'n) env \<Rightarrow> Subscription \<Rightarrow> 'd kernel_op" where
  "ModuleCoreDB_OnUserPart E memb sv =
     (if \<not> Settings_AsBool autojoin sv then Inr sv
      else on_world (STHelper_Delete E (us_login (sv_user sv (sub_user memb)) @ ''/chans'') (sub_chan memb)) sv)"

section \<open>SLIST\<close>

definition list_top :: "string \<Rightarrow> 'd session \<Rightarrow> 'd session" where
  "list_top title s =
     JustEmerald_to BRLD_START_LIST (''+'' @ pad 22 (Repeat ''-'' 23) @ ''+'')
       (JustEmerald_to BRLD_START_LIST (''| '' @ pad 22 title @ ''|'')
         (JustEmerald_to BRLD_START_LIST (''+'' @ pad 22 (Repeat ''-'' 23) @ ''+'')
           (JustAPI_to BRLD_START_LIST s)))"

definition list_item :: "string \<Rightarrow> 'd session \<Rightarrow> 'd session" where
  "list_item x = ListDepend_to BRLD_ITEM_LIST (''| '' @ pad 22 x @ ''|'') (c_str x)"

definition list_end :: "'d session \<Rightarrow> 'd session" where
  "list_end s = JustEmerald_to BRLD_END_LIST (''+'' @ pad 22 (Repeat ''-'' 23) @ ''+'') s"

definition CommandSlist_SendSlist :: "nat \<Rightarrow> Channel \<Rightarrow> 'd Kernel \<Rightarrow> 'd Kernel" where
  "CommandSlist_SendSlist u c sv =
     tell u (\<lambda>s. JustAPI_to BRLD_END_LIST (list_end
       (fold (\<lambda>p. list_item (us_instance (sv_user sv (fst p)))) (subscribedlist c) (list_top (ch_name c) s)))) sv"

definition CoreModChannel_OnPostJoin :: "nat \<Rightarrow> string \<Rightarrow> 'd kernel_op" where
  "CoreModChannel_OnPostJoin u k sv =
     (if \<not> IS_LOCAL sv u then Inl Undefined_behaviour
      else if User_CanPerform CHR ''e'' (client_of sv u)
      then (case channel_at sv k of None \<Rightarrow> Inl Undefined_behaviour | Some c \<Rightarrow> Inr (CommandSlist_SendSlist u c sv))
      else Inr sv)"

section \<open>Joining\<close>

text \<open>\<open>ExecuteJoin\<close> writes to the new subscription before it asks whether there is one.\<close>

definition Channel_ExecuteJoin ::
  "('d, 'n) env \<Rightarrow> bool \<Rightarrow> nat \<Rightarrow> string \<Rightarrow> 'd kernel_op" where
  "Channel_ExecuteJoin E fromconnect u k sv =
     (if IS_SERVER sv u then Inr sv
      else case channel_at sv k of
        None \<Rightarrow> Inl Undefined_behaviour
      | Some c \<Rightarrow>
          (case Channel_AddUser u c of
             (False, _) \<Rightarrow> Inl Undefined_behaviour
           | (True, _) \<Rightarrow>
               (let memb = \<lparr>sub_user = u, sub_chan = ch_name c, from_connect = fromconnect\<rparr>;
                    sv = on_channel k (\<lambda>c. c\<lparr>subscribedlist := map_insert u memb (subscribedlist c)\<rparr>) sv;
                    sv = on_us u (\<lambda>us. us\<lparr>us_chans := k # us_chans us\<rparr>) sv
                in bind_res (ModuleCoreDB_OnUserJoin E memb sv) (\<lambda>sv.
                   case channel_at sv k of
                     None \<Rightarrow> Inl Undefined_behaviour
                   | Some c \<Rightarrow>
                       CoreModChannel_OnPostJoin u k (Channel_Write c (Join_message u (ch_name c)) {} sv)))))"

text \<open>
  \<open>JoinUser\<close> in two parts around the modules: \<open>Inl\<close> answers without a channel, \<open>Inr\<close> gives the
  name, cut to 15 bytes, and the channel found.  The second part makes the channel that was not
  found.
\<close>

definition join_target ::
  "nat \<Rightarrow> string \<Rightarrow> 'd Kernel \<Rightarrow> 'd Kernel + (string \<times> string option)" where
  "join_target u cname sv =
     (let cname = (if length cname > 15 then take 15 cname else cname);
          chan = Channels_Find cname sv
      in if us_registered (sv_user sv u) \<noteq> REG_OK then Inl sv
         else case chan of
           None \<Rightarrow> if \<not> Settings_AsBool ''allowchans'' sv then Inl (send u ERR_INPUT [ACCESS_DENIED] sv)
                    else Inr (cname, None)
         | Some k \<Rightarrow>
             (case channel_at sv k of
                None \<Rightarrow> Inl sv
              | Some c \<Rightarrow> if Channel_IsSubscribed u c then Inl sv else Inr (cname, Some k)))"

definition join_enter ::
  "('d, 'n) env \<Rightarrow> bool \<Rightarrow> nat \<Rightarrow> string \<Rightarrow> string option \<Rightarrow> 'd Kernel \<Rightarrow> (bool \<times> 'd Kernel) res" where
  "join_enter E fromconnect u cname chan sv =
     (case chan of
        None \<Rightarrow> bind_res (new_Channel cname sv) (\<lambda>sv.
                  bind_res (Channel_ExecuteJoin E fromconnect u cname sv) (\<lambda>sv. Inr (True, sv)))
      | Some k \<Rightarrow> bind_res (Channel_ExecuteJoin E fromconnect u k sv) (\<lambda>sv. Inr (True, sv)))"

text \<open>\<open>JoinUser\<close> with \<open>override\<close>; the first result says whether it answers a channel.\<close>

definition JoinUser_override ::
  "('d, 'n) env \<Rightarrow> bool \<Rightarrow> nat \<Rightarrow> string \<Rightarrow> 'd Kernel \<Rightarrow> (bool \<times> 'd Kernel) res" where
  "JoinUser_override E fromconnect u cname sv =
     (case join_target u cname sv of
        Inl sv \<Rightarrow> Inr (False, sv)
      | Inr (name, chan) \<Rightarrow> join_enter E fromconnect u name chan sv)"

text \<open>A module's answer: whether it stops the join.\<close>

primrec OnUserPreJoin ::
  "('d, 'n) env \<Rightarrow> nat \<Rightarrow> string option \<Rightarrow> string \<Rightarrow> join_module \<Rightarrow> 'd Kernel \<Rightarrow> (bool \<times> 'd Kernel) res" where
  "OnUserPreJoin E u chan cname ModuleChanRestrict = (\<lambda>sv.
     if chan = None \<and> \<not> User_CanPerform CHR ''e'' (client_of sv u)
     then Inr (True, send u ERR_INPUT [ACCESS_DENIED] sv) else Inr (False, sv))"
| "OnUserPreJoin E u chan cname (ModuleChainJoin chain) = (\<lambda>sv.
     case map_of chain (to_upper cname) of
       None \<Rightarrow> Inr (False, sv)
     | Some target \<Rightarrow> bind_res (JoinUser_override E False u target sv) (\<lambda>(_, sv). Inr (False, sv)))"
| "OnUserPreJoin E u chan cname (ModuleForward forwards) = (\<lambda>sv.
     case map_of forwards (to_upper cname) of
       None \<Rightarrow> Inr (False, sv)
     | Some target \<Rightarrow> bind_res (JoinUser_override E False u target sv) (\<lambda>(_, sv). Inr (True, sv)))"

primrec ask_modules ::
  "('d, 'n) env \<Rightarrow> nat \<Rightarrow> string option \<Rightarrow> string \<Rightarrow> join_module list \<Rightarrow> 'd Kernel \<Rightarrow> (bool \<times> 'd Kernel) res" where
  "ask_modules E u chan cname [] sv = Inr (False, sv)"
| "ask_modules E u chan cname (m # ms) sv =
     bind_res (OnUserPreJoin E u chan cname m sv) (\<lambda>(stop, sv).
       if stop then Inr (True, sv) else ask_modules E u chan cname ms sv)"

definition Channel_JoinUser ::
  "('d, 'n) env \<Rightarrow> bool \<Rightarrow> nat \<Rightarrow> string \<Rightarrow> bool \<Rightarrow> 'd Kernel \<Rightarrow> (bool \<times> 'd Kernel) res" where
  "Channel_JoinUser E fromconnect u cname override sv =
     (case join_target u cname sv of
        Inl sv \<Rightarrow> Inr (False, sv)
      | Inr (name, chan) \<Rightarrow>
          if override then join_enter E fromconnect u name chan sv
          else bind_res (ask_modules E u chan name (sv_modules sv) sv) (\<lambda>(stop, sv).
                 if stop then Inr (False, sv) else join_enter E fromconnect u name chan sv))"

section \<open>Leaving\<close>

definition Channel_PartUser :: "('d, 'n) env \<Rightarrow> nat \<Rightarrow> string \<Rightarrow> 'd Kernel \<Rightarrow> (bool \<times> 'd Kernel) res" where
  "Channel_PartUser E u k sv =
     (case channel_at sv k of
        None \<Rightarrow> Inr (False, sv)
      | Some c \<Rightarrow>
          (case Channel_GetUser u c of
             None \<Rightarrow> Inr (False, sv)
           | Some memb \<Rightarrow>
               bind_res (ModuleCoreDB_OnUserPart E memb sv) (\<lambda>sv.
                 let sv = Channel_Write c (Part_message u (ch_name c)) {} sv;
                     sv = on_us u (\<lambda>us. us\<lparr>us_chans := remove1 k (us_chans us)\<rparr>) sv
                 in Inr (True, Channel_DeleteUser u k sv))))"

text \<open>A user that disconnects is deleted from its channels; its own list is not touched.\<close>

definition User_CheckEmptyChannels :: "nat \<Rightarrow> 'd Kernel \<Rightarrow> 'd Kernel" where
  "User_CheckEmptyChannels u sv = fold (Channel_DeleteUser u) (us_chans (sv_user sv u)) sv"

definition User_CommonSubscription :: "nat \<Rightarrow> nat \<Rightarrow> 'd Kernel \<Rightarrow> bool" where
  "User_CommonSubscription u v sv \<longleftrightarrow>
     list_ex (\<lambda>k. case channel_at sv k of None \<Rightarrow> False | Some c \<Rightarrow> Channel_IsSubscribed v c)
       (us_chans (sv_user sv u))"

section \<open>The users of a login\<close>

definition ClientManager_Part :: "('d, 'n) env \<Rightarrow> nat \<Rightarrow> string \<Rightarrow> string \<Rightarrow> 'd kernel_op" where
  "ClientManager_Part E skip login channel sv =
     (case Channels_Find channel sv of
        None \<Rightarrow> Inr sv
      | Some k \<Rightarrow>
          fold_res (\<lambda>u sv. if u = skip then Inr sv
                           else bind_res (Channel_PartUser E u k sv) (\<lambda>(_, sv). Inr sv))
            (FindLogin login REG_OK sv) sv)"

definition ClientManager_Join :: "('d, 'n) env \<Rightarrow> nat \<Rightarrow> string \<Rightarrow> string \<Rightarrow> 'd kernel_op" where
  "ClientManager_Join E skip login channel sv =
     fold_res (\<lambda>u sv. if u = skip \<or> \<not> IS_LOCAL sv u then Inr sv
                      else bind_res (Channel_JoinUser E False u channel True sv) (\<lambda>(_, sv). Inr sv))
       (FindLogin login REG_OK sv) sv"

text \<open>\<open>Autojoin\<close> of \<open>core_dbload\<close>, and \<open>OnPostConnect\<close> of \<open>m_autojoin\<close>.\<close>

definition core_Autojoin :: "('d, 'n) env \<Rightarrow> nat \<Rightarrow> 'd kernel_op" where
  "core_Autojoin E u sv =
     bind_res (from_world (STHelper_HList E (us_login (sv_user sv u) @ ''/chans'')) sv) (\<lambda>(chans, sv).
       fold_res (\<lambda>channel sv. if \<not> ChannelValidator channel then Inr sv
                              else if \<not> IS_LOCAL sv u then Inl Undefined_behaviour
                              else bind_res (Channel_JoinUser E True u channel True sv) (\<lambda>(_, sv). Inr sv))
         chans sv)"

definition ModuleAutojoin_OnPostConnect :: "('d, 'n) env \<Rightarrow> string list \<Rightarrow> nat \<Rightarrow> 'd kernel_op" where
  "ModuleAutojoin_OnPostConnect E chans u sv =
     fold_res (\<lambda>channel sv. if \<not> IS_LOCAL sv u then Inr sv
                            else bind_res (Channel_JoinUser E False u channel True sv) (\<lambda>(_, sv). Inr sv))
       chans sv"

text \<open>The tables of \<open>m_chainjoin\<close> and \<open>m_forward\<close>, and the channels of \<open>m_autojoin\<close>, from the configuration; \<open>None\<close> ends the server.\<close>

primrec channel_table :: "(string \<times> string) list \<Rightarrow> (string \<times> string) list \<Rightarrow> (string \<times> string) list option" where
  "channel_table [] chain = Some chain"
| "channel_table (p # ps) chain =
     (if \<not> ChannelValidator (fst p) \<or> \<not> ChannelValidator (snd p) then None
      else channel_table ps (if to_upper (fst p) \<in> fst ` set chain then chain
                             else chain @ [(to_upper (fst p), snd p)]))"

definition ModuleChainJoin_ConfigReading :: "(string \<times> string) list \<Rightarrow> join_module option" where
  "ModuleChainJoin_ConfigReading tags = map_option ModuleChainJoin (channel_table tags [])"

definition ModuleForward_ConfigReading :: "(string \<times> string) list \<Rightarrow> join_module option" where
  "ModuleForward_ConfigReading tags = map_option ModuleForward (channel_table tags [])"

definition ModuleAutojoin_ConfigReading :: "string \<Rightarrow> string list option" where
  "ModuleAutojoin_ConfigReading reading =
     (let chans = extract_all (comma_node_stream reading False)
      in if list_ex (\<lambda>c. \<not> ChannelValidator c) chans \<or> chans = [] then None else Some chans)"

end
