(* ===== verification/Alerts.thy ===== *)
theory Alerts
  imports Server
begin

text \<open>
  The monitors, who are told of commands, and those who are notified of what happens
  (\<open>src/alerts.cpp\<close>), with the commands that make one of them (\<open>coremods/core_monitor\<close>,
  \<open>coremods/core_notifier\<close>).  What is told waits in a buffer, of which one item is taken each time.
\<close>

definition BRLD_MONITOR :: nat where "BRLD_MONITOR = 245"
definition BRLD_NOTIFICATION :: nat where "BRLD_NOTIFICATION = 277"
definition INVALID_MLEVEL :: string where "INVALID_MLEVEL = ''INVALID_MONITOR''"

section \<open>Monitors\<close>

primrec monitor_rank :: "MONITOR \<Rightarrow> nat" where
  "monitor_rank MONITOR_DEBUG = 10"
| "monitor_rank MONITOR_DEFAULT = 20"

text \<open>The list is a multimap: a user who is added twice is there twice.\<close>

definition MonitorHandler_Add :: "nat \<Rightarrow> MONITOR \<Rightarrow> 'd Kernel \<Rightarrow> bool \<times> 'd Kernel" where
  "MonitorHandler_Add u level sv =
     (if us_quitting (sv_user sv u) then (False, sv)
      else (True, sv\<lparr>MonitorList := multimap_insert u level (MonitorList sv)\<rparr>))"

definition MonitorHandler_Has :: "nat \<Rightarrow> 'd Kernel \<Rightarrow> bool" where
  "MonitorHandler_Has u sv \<longleftrightarrow> u \<in> fst ` set (MonitorList sv)"

definition MonitorHandler_Remove :: "nat \<Rightarrow> 'd Kernel \<Rightarrow> 'd Kernel" where
  "MonitorHandler_Remove u sv = sv\<lparr>MonitorList := erase_key u (MonitorList sv)\<rparr>"

definition MonitorHandler_Push :: "string \<Rightarrow> string \<Rightarrow> MONITOR \<Rightarrow> string list \<Rightarrow> 'd Kernel \<Rightarrow> 'd Kernel" where
  "MonitorHandler_Push inst cmd level ps sv =
     (if MonitorList sv = [] then sv
      else sv\<lparr>monitor_buffer := monitor_buffer sv @
             [\<lparr>cb_instance = inst, cb_command = cmd, cb_level = level, cb_params = ps\<rparr>]\<rparr>)"

definition MonitorHandler_GetList :: "string \<Rightarrow> 'd Kernel \<Rightarrow> (nat \<times> MONITOR) list" where
  "MonitorHandler_GetList arg sv =
     (if arg = [] then MonitorList sv
      else let monitor = (if arg = ''DEFAULT'' then MONITOR_DEFAULT
                          else if arg = ''DEBUG'' then MONITOR_DEBUG else MONITOR_DEFAULT)
           in filter (\<lambda>p. snd p = monitor) (MonitorList sv))"

primrec joined_params :: "string list \<Rightarrow> string" where
  "joined_params [] = []"
| "joined_params (p # ps) = p @ (if ps = [] then [] else '' '' @ joined_params ps)"

definition monitor_line :: "CMDBuffer \<Rightarrow> string" where
  "monitor_line b = c_str (cb_instance b) @ '' '' @ c_str (cb_command b) @ '' '' @ c_str (joined_params (cb_params b))"

definition MonitorHandler_Flush :: "'d Kernel \<Rightarrow> 'd Kernel" where
  "MonitorHandler_Flush sv =
     (case monitor_buffer sv of
        [] \<Rightarrow> sv
      | flushing # rest \<Rightarrow>
          if MonitorList sv = [] then sv\<lparr>monitor_buffer := []\<rparr>
          else (fold (\<lambda>p sv.
                  if us_quitting (sv_user sv (fst p)) then sv
                  else if us_instance (sv_user sv (fst p)) = cb_instance flushing then sv
                  else if monitor_rank (snd p) \<le> monitor_rank (cb_level flushing)
                  then send (fst p) BRLD_MONITOR [monitor_line flushing] sv else sv)
                (MonitorList sv) sv)\<lparr>monitor_buffer := rest\<rparr>)"

definition MonitorHandler_Reset :: "'d Kernel \<Rightarrow> 'd Kernel" where
  "MonitorHandler_Reset sv = sv\<lparr>MonitorList := [], monitor_buffer := []\<rparr>"

section \<open>Notifications\<close>

primrec notify_rank :: "NOTIFY_LEVEL \<Rightarrow> nat" where
  "notify_rank NOTIFY_DEBUG = 10"
| "notify_rank NOTIFY_VERBOSE = 20"
| "notify_rank NOTIFY_DEFAULT = 30"

definition Notifier_Add :: "NOTIFY_LEVEL \<Rightarrow> nat \<Rightarrow> 'd Kernel \<Rightarrow> bool \<times> 'd Kernel" where
  "Notifier_Add lvl u sv =
     (if us_quitting (sv_user sv u) then (False, sv)
      else (True, sv\<lparr>NotifyList := map_insert u lvl (NotifyList sv)\<rparr>))"

definition Notifier_Has :: "nat \<Rightarrow> 'd Kernel \<Rightarrow> bool" where
  "Notifier_Has u sv \<longleftrightarrow> u \<in> fst ` set (NotifyList sv)"

definition Notifier_Remove :: "nat \<Rightarrow> 'd Kernel \<Rightarrow> 'd Kernel" where
  "Notifier_Remove u sv = sv\<lparr>NotifyList := erase_key u (NotifyList sv)\<rparr>"

definition Notifier_SkipPush :: "nat option \<Rightarrow> NOTIFY_LEVEL \<Rightarrow> string \<Rightarrow> 'd Kernel \<Rightarrow> 'd Kernel" where
  "Notifier_SkipPush skip level buff sv =
     (case skip of
        None \<Rightarrow> sv
      | Some u \<Rightarrow>
          if NotifyList sv = [] \<or> buff = [] \<or> us_quitting (sv_user sv u) then sv
          else sv\<lparr>notify_events := notify_events sv @
                 [\<lparr>ev_skip = Some u, ev_command = buff, ev_level = level\<rparr>]\<rparr>)"

definition Notifier_Push :: "NOTIFY_LEVEL \<Rightarrow> string \<Rightarrow> 'd Kernel \<Rightarrow> 'd Kernel" where
  "Notifier_Push level buff sv =
     (if NotifyList sv = [] \<or> buff = [] then sv
      else sv\<lparr>notify_events := notify_events sv @
             [\<lparr>ev_skip = None, ev_command = buff, ev_level = level\<rparr>]\<rparr>)"

definition Notifier_Flush :: "'d Kernel \<Rightarrow> 'd Kernel" where
  "Notifier_Flush sv =
     (case notify_events sv of
        [] \<Rightarrow> sv
      | ev # rest \<Rightarrow>
          if NotifyList sv = [] then sv\<lparr>notify_events := []\<rparr>
          else (fold (\<lambda>p sv.
                  if us_quitting (sv_user sv (fst p)) then sv
                  else if (case ev_skip ev of
                             None \<Rightarrow> False
                           | Some s \<Rightarrow> \<not> us_quitting (sv_user sv s) \<and> s = fst p) then sv
                  else if notify_rank (snd p) \<le> notify_rank (ev_level ev)
                  then send (fst p) BRLD_NOTIFICATION [c_str (ev_command ev)] sv else sv)
                (NotifyList sv) sv)\<lparr>notify_events := rest\<rparr>)"

definition Notifier_Reset :: "'d Kernel \<Rightarrow> 'd Kernel" where
  "Notifier_Reset sv = sv\<lparr>NotifyList := [], notify_events := []\<rparr>"

section \<open>Commands\<close>



definition CommandMonitor_Handle :: "('d, 'n) kernel_handler" where
  "CommandMonitor_Handle E u ps sv =
     (let sv = MonitorHandler_Remove u sv;
          done = (\<lambda>level. Inr (SUCCESS, send u BRLD_OK [PROCESS_OK] (snd (MonitorHandler_Add u level sv))))
      in case ps of
           [] \<Rightarrow> done MONITOR_DEFAULT
         | p # _ \<Rightarrow>
             if to_upper p = ''DEFAULT'' then done MONITOR_DEFAULT
             else if to_upper p = ''DEBUG'' then done MONITOR_DEBUG
             else Inr (FAILED, send u ERR_INPUT [PROCESS_ERROR] sv))"

definition CommandMonitorReset_Handle :: "('d, 'n) kernel_handler" where
  "CommandMonitorReset_Handle E u ps sv =
     Inr (SUCCESS, send u BRLD_OK [PROCESS_OK] (MonitorHandler_Reset sv))"

primrec level_text :: "MONITOR \<Rightarrow> string" where
  "level_text MONITOR_DEFAULT = ''DEFAULT''"
| "level_text MONITOR_DEBUG = ''DEBUG''"

text \<open>An argument is not DEFAULT or it is not DEBUG, so that none is ever accepted.\<close>

definition CommandMonitorList_Handle :: "('d, 'n) kernel_handler" where
  "CommandMonitorList_Handle E u ps sv =
     (let arg = (case ps of [] \<Rightarrow> [] | p # _ \<Rightarrow> map toupper p)
      in if ps \<noteq> [] \<and> (arg \<noteq> ''DEFAULT'' \<or> arg \<noteq> ''DEBUG'')
         then Inr (FAILED, send u ERR_INPUT [INVALID_MLEVEL] sv)
         else Inr (SUCCESS, tell u (\<lambda>s. JustAPI_to BRLD_END_LIST
           (fold (\<lambda>p. ListDepend_to BRLD_ITEM_LIST
                   (pad 30 (us_instance (sv_user sv (fst p))) @ '' | '' @ pad 10 (level_text (snd p)))
                   (c_str (us_instance (sv_user sv (fst p))) @ '' '' @ level_text (snd p)))
             (MonitorHandler_GetList arg sv)
             (JustEmerald_to BRLD_START_LIST (pad 30 (Repeat dash 30) @ '' | '' @ pad 10 (Repeat dash 10))
               (JustEmerald_to BRLD_START_LIST (pad 30 ''Monitor'' @ '' | '' @ pad 10 ''Level'')
                 (JustAPI_to BRLD_START_LIST s))))) sv))"

definition CommandStopMonitor_Handle :: "('d, 'n) kernel_handler" where
  "CommandStopMonitor_Handle E u ps sv =
     (if \<not> MonitorHandler_Has u sv then Inr (FAILED, send u ERR_INPUT [PROCESS_FALSE] sv)
      else Inr (SUCCESS, send u BRLD_OK [PROCESS_OK] (MonitorHandler_Remove u sv)))"

definition notify_level :: "string \<Rightarrow> NOTIFY_LEVEL option" where
  "notify_level level =
     (if level = ''DEFAULT'' then Some NOTIFY_DEFAULT
      else if level = ''VERBOSE'' then Some NOTIFY_VERBOSE
      else if level = ''DEBUG'' then Some NOTIFY_DEBUG
      else None)"

definition CommandNotifier_Handle :: "('d, 'n) kernel_handler" where
  "CommandNotifier_Handle E u ps sv =
     (let sv = Notifier_Remove u sv;
          level = (case ps of [] \<Rightarrow> ''DEFAULT'' | p # _ \<Rightarrow> to_upper p)
      in case notify_level level of
           None \<Rightarrow> Inr (FAILED, send u ERR_INPUT [PROCESS_ERROR] sv)
         | Some lvl \<Rightarrow>
             bind_res (on_world (STHelper_Set E ''notify'' (us_login (sv_user sv u)) level) sv) (\<lambda>sv.
               Inr (SUCCESS, send u BRLD_OK [PROCESS_OK] (snd (Notifier_Add lvl u sv)))))"

definition CommandNotifyReset_Handle :: "('d, 'n) kernel_handler" where
  "CommandNotifyReset_Handle E u ps sv =
     bind_res (on_world (STHelper_Erase E ''notify'') (Notifier_Reset sv)) (\<lambda>sv.
       Inr (SUCCESS, send u BRLD_OK [PROCESS_OK] sv))"

definition CommandStopNotify_Handle :: "('d, 'n) kernel_handler" where
  "CommandStopNotify_Handle E u ps sv =
     (if \<not> Notifier_Has u sv then Inr (FAILED, send u ERR_INPUT [PROCESS_FALSE] sv)
      else bind_res (on_world (STHelper_Delete E ''notify'' (us_login (sv_user sv u))) sv) (\<lambda>sv.
             Inr (SUCCESS, send u BRLD_OK [PROCESS_OK] (Notifier_Remove u sv))))"

text \<open>\<open>LoadNotify\<close> of \<open>core_dbload\<close>.\<close>

definition LoadNotify :: "('d, 'n) env \<Rightarrow> nat \<Rightarrow> 'd kernel_op" where
  "LoadNotify E u sv =
     bind_res (from_world (STHelper_Get E ''notify'' (us_login (sv_user sv u))) sv) (\<lambda>(level, sv).
       if level = [] then Inr sv
       else case notify_level level of
         None \<Rightarrow> Inr sv
       | Some lvl \<Rightarrow> Inr (snd (Notifier_Add lvl u sv)))"

end
