(* ===== verification/Cidr.thy ===== *)
theory Cidr
  imports Server
begin

unbundle bit_operations_syntax

text \<open>
  Addresses and masks of addresses (\<open>src/socket.cpp\<close>, \<open>src/cidr.cpp\<close>): what an address is parsed
  to, the mask of its first bits, and the comparison by which a client is matched with the hosts of
  the configuration.
\<close>

section \<open>Addresses\<close>

type_synonym u8 = "8 word"

datatype sockaddrs =
    AF_UNSPEC
  | AF_INET "u8 list" nat
  | AF_INET6 "u8 list" nat
  | AF_UNIX string

text \<open>
  \<open>inet_pton\<close> of the two families, and the setting that says for which of them an empty address
  stands.
\<close>

record network =
  inet_pton4 :: "string \<Rightarrow> u8 list option"
  inet_pton6 :: "string \<Rightarrow> u8 list option"
  WildcardIPv6 :: bool

definition htons :: "int \<Rightarrow> nat" where "htons port = nat (port mod 2 ^ 16)"

definition aptosa :: "network \<Rightarrow> string \<Rightarrow> int \<Rightarrow> bool \<times> sockaddrs" where
  "aptosa N addr port =
     (if addr = [] \<or> deref addr = CHR ''*''
      then (True, if WildcardIPv6 N then AF_INET6 (replicate 16 0) (htons port)
                  else AF_INET (replicate 4 0) (htons port))
      else case inet_pton4 N (c_str addr) of
        Some bytes \<Rightarrow> (True, AF_INET bytes (htons port))
      | None \<Rightarrow>
          (case inet_pton6 N (c_str addr) of
             Some bytes \<Rightarrow> (True, AF_INET6 bytes (htons port))
           | None \<Rightarrow> (False, AF_UNSPEC)))"

definition untosa :: "string \<Rightarrow> bool \<times> sockaddrs" where
  "untosa path = (if length path \<ge> 108 then (False, AF_UNSPEC) else (True, AF_UNIX (c_str path)))"

text \<open>The numbers of the families are those of Linux.\<close>

primrec sa_family :: "sockaddrs \<Rightarrow> nat" where
  "sa_family AF_UNSPEC = 0"
| "sa_family (AF_UNIX path) = 1"
| "sa_family (AF_INET bytes p) = 2"
| "sa_family (AF_INET6 bytes p) = 10"

primrec sa_port :: "sockaddrs \<Rightarrow> nat" where
  "sa_port AF_UNSPEC = 0"
| "sa_port (AF_INET bytes p) = p"
| "sa_port (AF_INET6 bytes p) = p"
| "sa_port (AF_UNIX path) = 0"

definition sa_equal :: "sockaddrs \<Rightarrow> sockaddrs \<Rightarrow> bool" where
  "sa_equal a b \<longleftrightarrow>
     (case (a, b) of
        (AF_INET x p, AF_INET y q) \<Rightarrow> p = q \<and> x = y
      | (AF_INET6 x p, AF_INET6 y q) \<Rightarrow> p = q \<and> x = y
      | (AF_UNIX x, AF_UNIX y) \<Rightarrow> x = y
      | (AF_UNSPEC, AF_UNSPEC) \<Rightarrow> True
      | _ \<Rightarrow> False)"

section \<open>Masks\<close>

record cidr_mask =
  ci_type :: nat
  ci_length :: nat
  ci_bits :: "u8 list"

definition masked :: "u8 list \<Rightarrow> nat \<Rightarrow> nat \<Rightarrow> u8 list" where
  "masked base len rng =
     (let border = len div 8;
          bitmask = ucast ((drop_bit (rng mod 8) 0xFF00 :: u32) AND 0xFF)
      in map (\<lambda>i. if i < length base
                  then (if i < border then base ! i else if i = border then base ! i AND bitmask else 0)
                  else 0) [0..<16])"

definition sa2cidr :: "sockaddrs \<Rightarrow> nat \<Rightarrow> cidr_mask" where
  "sa2cidr sa rng =
     (case sa of
        AF_INET base p \<Rightarrow>
          (let len = (if rng > 32 then 32 else rng)
           in \<lparr>ci_type = sa_family sa, ci_length = len, ci_bits = masked base len rng\<rparr>)
      | AF_INET6 base p \<Rightarrow>
          (let len = (if rng > 128 then 128 else rng)
           in \<lparr>ci_type = sa_family sa, ci_length = len, ci_bits = masked base len rng\<rparr>)
      | _ \<Rightarrow> \<lparr>ci_type = sa_family sa, ci_length = 0, ci_bits = replicate 16 0\<rparr>)"

text \<open>\<open>convto_num<unsigned char>\<close> reads 16 bits and answers 0 when they are more than 255.\<close>

definition convto_num_uchar :: "string \<Rightarrow> nat" where
  "convto_num_uchar str =
     (let v = (case scan_int str of
                 None \<Rightarrow> 0
               | Some (neg, v) \<Rightarrow> if v \<ge> 2 ^ 16 then 0 else if neg then (2 ^ 16 - v) mod 2 ^ 16 else v)
      in if v \<le> 255 then v else 0)"

text \<open>\<open>rfind\<close>: what is before and after the last occurrence of a character.\<close>

definition rsplit :: "char \<Rightarrow> string \<Rightarrow> (string \<times> string) option" where
  "rsplit c s =
     (if c \<in> set s
      then (let post = rev (takeWhile (\<lambda>x. x \<noteq> c) (rev s)) in Some (take (length s - length post - 1) s, post))
      else None)"

definition cidr_of :: "network \<Rightarrow> string \<Rightarrow> cidr_mask" where
  "cidr_of N msk =
     (case rsplit CHR ''/'' msk of
        None \<Rightarrow> sa2cidr (snd (aptosa N msk 0)) 128
      | Some (addr, bits) \<Rightarrow> sa2cidr (snd (aptosa N addr 0)) (convto_num_uchar bits))"

definition cidr_match :: "cidr_mask \<Rightarrow> sockaddrs \<Rightarrow> bool" where
  "cidr_match m addr =
     (if sa_family addr \<noteq> ci_type m then False else sa2cidr addr (ci_length m) = m)"

section \<open>Matching an address\<close>

definition hex_or_sep :: "char \<Rightarrow> bool" where
  "hex_or_sep c \<longleftrightarrow> is_digit c \<or> c \<in> set ''abcdefABCDEF.:''"

definition match_address :: "network \<Rightarrow> string \<Rightarrow> string \<Rightarrow> bool" where
  "match_address N address msk =
     (case rsplit CHR ''/'' msk of
        None \<Rightarrow> False
      | Some (before, after) \<Rightarrow>
          if after = [] \<or> \<not> list_all is_digit after \<or> \<not> list_all hex_or_sep before then False
          else (case aptosa N address 0 of
                  (False, _) \<Rightarrow> False
                | (True, addr) \<Rightarrow> (let m = cidr_of N msk in m = sa2cidr addr (ci_length m))))"

text \<open>With \<open>check_agent\<close> an \<open>agent@\<close> before both is matched as a pattern, and left out otherwise.\<close>

definition after_at :: "string \<Rightarrow> string" where
  "after_at s = (case rsplit CHR ''@'' s of None \<Rightarrow> s | Some (_, post) \<Rightarrow> post)"

definition sockets_MatchCompactIP :: "network \<Rightarrow> string \<Rightarrow> string \<Rightarrow> bool \<Rightarrow> bool" where
  "sockets_MatchCompactIP N address msk check_agent =
     (if check_agent
      then (case (rsplit CHR ''@'' msk, rsplit CHR ''@'' address) of
              (Some (magent, maddr), Some (agent, addr)) \<Rightarrow>
                 MatchInternal ascii_case_insensitive (c_str agent) (c_str magent) = Inr True \<and>
                 match_address N addr maddr
            | _ \<Rightarrow> match_address N (after_at address) (after_at msk))
      else match_address N address msk)"

definition Daemon_MatchCompactIP :: "network \<Rightarrow> string \<Rightarrow> string \<Rightarrow> bool" where
  "Daemon_MatchCompactIP N str msk =
     (if sockets_MatchCompactIP N str msk True then True else Match str msk)"

definition Daemon_MatchMask :: "network \<Rightarrow> string \<Rightarrow> string \<Rightarrow> string \<Rightarrow> bool" where
  "Daemon_MatchMask N masks hostname ipaddr \<longleftrightarrow>
     list_ex (\<lambda>msk. MatchInternal ascii_case_insensitive (c_str hostname) (c_str msk) = Inr True \<or>
                      sockets_MatchCompactIP N ipaddr msk True \<or>
                      MatchInternal ascii_case_insensitive (c_str ipaddr) (c_str msk) = Inr True)
       (extract_all (space_node_stream masks))"

end
