(* ===== verification/Logins.thy ===== *)
theory Logins
  imports Channels Alerts Cidr
begin

text \<open>
  Who is who: the groups (\<open>src/group.cpp\<close>), the sessions and the cache of logins
  (\<open>src/login.cpp\<close>), the users kept in the core database (\<open>managers/user.cpp\<close>), and the life of a
  user from its connection to its end (\<open>src/instances.cpp\<close>, \<open>src/clients.cpp\<close>,
  \<open>coremods/core_dbload.cpp\<close>).  Group and session objects are shared: a user has their addresses.
\<close>

text \<open>
  \<open>HashProvider\<close>, the service by which passwords are hashed, when it is loaded.  \<open>Generate\<close> is
  salted: it is given the number of the call.
\<close>

record HashProvider =
  hp_Generate :: "nat \<Rightarrow> string \<Rightarrow> string"
  hp_Compare :: "string \<Rightarrow> string \<Rightarrow> bool"

section \<open>Groups\<close>

definition GroupManager_Find :: "string \<Rightarrow> 'd Kernel \<Rightarrow> nat option" where
  "GroupManager_Find name sv = imap_find name (GroupList sv)"

definition new_Group :: "int \<Rightarrow> string \<Rightarrow> Group" where
  "new_Group now name =
     \<lparr>g_created = now, g_name = name, g_rawflags = [], can_do_all = False, can_keys = False,
      can_list = False, can_geo = False, can_vector = False, can_expire = False, can_future = False,
      can_map = False, can_mmap = False, can_publish_chan = False, can_publish_clients = False,
      can_hints = False, can_dual_exec = False\<rparr>"

text \<open>\<open>UpdateFlags\<close> on the group at an address.\<close>

definition update_group :: "('d, 'n) env \<Rightarrow> string \<Rightarrow> nat \<Rightarrow> 'd Kernel \<Rightarrow> (bool \<times> 'd Kernel) res" where
  "update_group E flags a sv =
     bind_res (Group_UpdateFlags E flags (sv_group sv a) (sv_world sv)) (\<lambda>(ok, g, w).
       Inr (ok, sv\<lparr>sv_group := (sv_group sv)(a := g), sv_world := w\<rparr>))"

definition GroupManager_Add :: "('d, 'n) env \<Rightarrow> string \<Rightarrow> string \<Rightarrow> 'd Kernel \<Rightarrow> (bool \<times> 'd Kernel) res" where
  "GroupManager_Add E gname flags sv =
     (let name = to_lower gname; a = sv_next sv
      in if GroupManager_Find name sv \<noteq> None then Inr (False, sv)
         else bind_res (update_group E flags a
                (sv\<lparr>sv_group := (sv_group sv)(a := new_Group (w_now (sv_world sv)) name),
                    sv_next := sv_next sv + 1\<rparr>)) (\<lambda>(_, sv).
                Inr (True, sv\<lparr>GroupList := GroupList sv @ [(name, a)]\<rparr>)))"

definition GroupManager_ResetFlags :: "('d, 'n) env \<Rightarrow> string \<Rightarrow> 'd Kernel \<Rightarrow> (bool \<times> 'd Kernel) res" where
  "GroupManager_ResetFlags E name sv =
     (case GroupManager_Find name sv of
        None \<Rightarrow> Inr (False, sv)
      | Some a \<Rightarrow>
          bind_res (on_world (STHelper_Set E ''groups'' name [])
            (sv\<lparr>sv_group := (sv_group sv)(a := (Group_Init (sv_group sv a))\<lparr>g_rawflags := []\<rparr>)\<rparr>))
            (\<lambda>sv. Inr (True, sv)))"

definition User_HasGroup :: "nat \<Rightarrow> LocalUser \<Rightarrow> bool" where
  "User_HasGroup a us \<longleftrightarrow> a \<in> set (us_Groups us)"

definition User_PushGroup :: "nat \<Rightarrow> LocalUser \<Rightarrow> LocalUser" where
  "User_PushGroup a us = (if \<not> User_HasGroup a us then us\<lparr>us_Groups := us_Groups us @ [a]\<rparr> else us)"

definition User_RemoveGroup :: "nat \<Rightarrow> LocalUser \<Rightarrow> LocalUser" where
  "User_RemoveGroup a us = us\<lparr>us_Groups := remove1 a (us_Groups us)\<rparr>"

definition User_GetAllGroups :: "'d Kernel \<Rightarrow> LocalUser \<Rightarrow> string" where
  "User_GetAllGroups sv us =
     fst (foldl (\<lambda>(flags, counter) a.
            (flags @ g_name (sv_group sv a) @ (if counter + 1 \<noteq> length (us_Groups us) then '', '' else []),
             counter + 1)) ([], 0) (us_Groups us))"

definition ClientManager_RemoveGroup :: "nat \<Rightarrow> 'd Kernel \<Rightarrow> 'd Kernel" where
  "ClientManager_RemoveGroup a sv = fold (\<lambda>p. on_us (snd p) (User_RemoveGroup a)) (logins sv) sv"

definition ClientManager_FindGroup :: "nat \<Rightarrow> 'd Kernel \<Rightarrow> nat list" where
  "ClientManager_FindGroup a sv = filter (\<lambda>u. User_HasGroup a (sv_user sv u)) (map snd (logins sv))"

text \<open>Deleting a group takes it from the users of the database and from those who are logged in.\<close>

definition delete_from_user :: "('d, 'n) env \<Rightarrow> string \<Rightarrow> string \<Rightarrow> 'd kernel_op" where
  "delete_from_user E name login sv =
     bind_res (from_world (STHelper_HList E (login @ ''/groups'')) sv) (\<lambda>(groups, sv).
       fold_res (\<lambda>gdelete sv. if gdelete = name
                              then on_world (STHelper_Delete E (login @ ''/groups'') name) sv else Inr sv)
         groups sv)"

definition GroupManager_Delete :: "('d, 'n) env \<Rightarrow> string \<Rightarrow> 'd Kernel \<Rightarrow> (bool \<times> 'd Kernel) res" where
  "GroupManager_Delete E gname sv =
     (let name = to_lower gname
      in case GroupManager_Find name sv of
           None \<Rightarrow> Inr (False, sv)
         | Some InUse \<Rightarrow>
             bind_res (on_world (STHelper_Delete E ''groups'' name) sv) (\<lambda>sv.
             let sv = sv\<lparr>GroupList := imap_erase name (GroupList sv)\<rparr>
             in bind_res (from_world (STHelper_HList E ''userlist'') sv) (\<lambda>(users, sv).
                bind_res (fold_res (delete_from_user E name) users sv) (\<lambda>sv.
                  Inr (True, ClientManager_RemoveGroup InUse sv)))))"

section \<open>Sessions\<close>

definition SessionManager_Find :: "string \<Rightarrow> 'd Kernel \<Rightarrow> nat option" where
  "SessionManager_Find login sv = map_of (sessions sv) login"

text \<open>A null pointer is answered for the empty login.\<close>

definition SessionManager_Add :: "string \<Rightarrow> string \<Rightarrow> 'd Kernel \<Rightarrow> nat option \<times> 'd Kernel" where
  "SessionManager_Add login flags sv =
     (if login = [] then (None, sv)
      else let a = sv_next sv;
               s = (Session_SetFlags \<lparr>ss_rawflags = [], can_admin = False, can_execute = False,
                      can_manage = False\<rparr> flags)\<lparr>ss_rawflags := flags\<rparr>
           in (Some a, sv\<lparr>sv_session := (sv_session sv)(a := s), sv_next := a + 1,
                 sessions := (if SessionManager_Find login sv = None then sessions sv @ [(login, a)]
                              else sessions sv)\<rparr>))"

text \<open>An old session gets the new flags, but keeps its raw ones.\<close>

definition SessionManager_Attach :: "nat \<Rightarrow> string \<Rightarrow> string \<Rightarrow> 'd Kernel \<Rightarrow> 'd Kernel" where
  "SessionManager_Attach u login flags sv =
     (let (attach, sv) =
        (case SessionManager_Find login sv of
           None \<Rightarrow> SessionManager_Add login flags sv
         | Some a \<Rightarrow> (Some a, sv\<lparr>sv_session := (sv_session sv)(a := Session_SetFlags (sv_session sv a) flags)\<rparr>))
      in occurs (OnAdmin u flags) (on_us u (\<lambda>us. us\<lparr>us_session := attach\<rparr>) sv))"

definition SessionManager_AttachExternal :: "string \<Rightarrow> string \<Rightarrow> 'd Kernel \<Rightarrow> 'd Kernel" where
  "SessionManager_AttachExternal login flags sv =
     fold (\<lambda>u. SessionManager_Attach u login flags) (FindLogin login REG_OK sv) sv"

definition SessionManager_DetermineLifetime :: "string \<Rightarrow> 'd Kernel \<Rightarrow> 'd Kernel" where
  "SessionManager_DetermineLifetime login sv =
     (if CountLogin login sv > 0 then sv
      else sv\<lparr>sessions := erase_first (\<lambda>p. fst p = login) (sessions sv)\<rparr>)"

definition SessionManager_NotifyFlags :: "string \<Rightarrow> string \<Rightarrow> 'd Kernel \<Rightarrow> 'd Kernel" where
  "SessionManager_NotifyFlags login flags sv =
     fold (\<lambda>u. send u BRLD_YOUR_FLAGS [c_str flags]) (FindLogin login REG_OK sv) sv"

text \<open>
  \<open>FindPrivs\<close> asks the session of everyone who has logged in, and those who have not yet told
  their agent have none.
\<close>

definition with_session :: "nat \<Rightarrow> (Session \<Rightarrow> bool) \<Rightarrow> 'd Kernel \<Rightarrow> bool res" where
  "with_session u P sv =
     (case us_session (sv_user sv u) of
        None \<Rightarrow> Inl Undefined_behaviour | Some a \<Rightarrow> Inr (P (sv_session sv a)))"

definition has_priv :: "string \<Rightarrow> nat \<Rightarrow> 'd Kernel \<Rightarrow> bool res" where
  "has_priv flag u sv =
     (if flag = [] \<or> length flag > 1
      then with_session u (\<lambda>s. can_admin s \<or> can_execute s \<or> can_manage s) sv
      else if hd flag = CHR ''r'' then with_session u can_admin sv
      else if hd flag = CHR ''e'' then with_session u can_execute sv
      else if hd flag = CHR ''a'' then with_session u can_manage sv
      else Inr False)"

definition ClientManager_FindPrivs :: "string \<Rightarrow> 'd Kernel \<Rightarrow> nat list res" where
  "ClientManager_FindPrivs flag sv =
     foldl (\<lambda>r p. bind_res r (\<lambda>us. bind_res (has_priv flag (snd p) sv) (\<lambda>yes.
       Inr (if yes then us @ [snd p] else us)))) (Inr []) (logins sv)"

section \<open>The cache of logins\<close>

text \<open>
  The list stands for the order of the hash table, of which the standard says nothing; a new entry
  is put in front, and the last one is taken out when there are 1024.
\<close>

definition LoginCache_Reset :: "'d Kernel \<Rightarrow> 'd Kernel" where
  "LoginCache_Reset sv = sv\<lparr>cache_logins := []\<rparr>"

definition LoginCache_RemoveLastCache :: "'d Kernel \<Rightarrow> bool \<times> 'd Kernel" where
  "LoginCache_RemoveLastCache sv =
     (if cache_logins sv = [] then (False, sv)
      else (True, sv\<lparr>cache_logins := butlast (cache_logins sv)\<rparr>))"

definition LoginCache_Add :: "string \<Rightarrow> string \<Rightarrow> 'd Kernel \<Rightarrow> 'd Kernel" where
  "LoginCache_Add user pass sv =
     (let sv = occurs Cached sv;
          sv = (if user \<in> fst ` set (cache_logins sv) then sv
                else sv\<lparr>cache_logins := (user, pass) # cache_logins sv\<rparr>)
      in if length (cache_logins sv) \<ge> 1024 then snd (LoginCache_RemoveLastCache sv) else sv)"

definition LoginCache_Remove :: "string \<Rightarrow> 'd Kernel \<Rightarrow> 'd Kernel" where
  "LoginCache_Remove user sv = sv\<lparr>cache_logins := erase_key user (cache_logins sv)\<rparr>"

definition LoginCache_InCache :: "HashProvider option \<Rightarrow> string \<Rightarrow> string \<Rightarrow> 'd Kernel \<Rightarrow> int" where
  "LoginCache_InCache H user pass sv =
     (case map_of (cache_logins sv) user of
        None \<Rightarrow> 0
      | Some hashed \<Rightarrow>
          (case H of
             None \<Rightarrow> - 1
           | Some provider \<Rightarrow> if hp_Compare provider pass hashed then 1 else - 1))"

definition LoginCache_has :: "string \<Rightarrow> 'd Kernel \<Rightarrow> bool" where
  "LoginCache_has user sv \<longleftrightarrow> user \<in> fst ` set (cache_logins sv)"

section \<open>The users of the core database\<close>

definition get_field :: "('d, 'n) env \<Rightarrow> string \<Rightarrow> string \<Rightarrow> 'd Kernel \<Rightarrow> (string \<times> 'd Kernel) res" where
  "get_field E user key = from_world (UserHelper_Find E user key)"

definition set_field :: "('d, 'n) env \<Rightarrow> string \<Rightarrow> string \<Rightarrow> string \<Rightarrow> 'd kernel_op" where
  "set_field E user key val = on_world (STHelper_Set E user key val)"

definition del_field :: "('d, 'n) env \<Rightarrow> string \<Rightarrow> string \<Rightarrow> 'd kernel_op" where
  "del_field E user key = on_world (STHelper_Delete E user key)"

definition UserHelper_CheckPass ::
  "('d, 'n) env \<Rightarrow> HashProvider option \<Rightarrow> string \<Rightarrow> string \<Rightarrow> 'd Kernel \<Rightarrow> (bool \<times> 'd Kernel) res" where
  "UserHelper_CheckPass E H user key sv =
     (let cached = LoginCache_InCache H user key sv
      in if cached = - 1 then Inr (False, sv)
         else if cached = 1 then Inr (True, sv)
         else bind_res (get_field E user ''status'' sv) (\<lambda>(status, sv).
           if \<not> Helpers_as_bool status False then Inr (False, sv)
           else bind_res (get_field E user ''pass'' sv) (\<lambda>(passwd, sv).
             case H of
               None \<Rightarrow> Inr (False, sv)
             | Some provider \<Rightarrow>
                 if \<not> hp_Compare provider key passwd then Inr (False, sv)
                 else Inr (True, LoginCache_Add user passwd sv))))"

definition UserHelper_Add ::
  "('d, 'n) env \<Rightarrow> HashProvider option \<Rightarrow> string \<Rightarrow> string \<Rightarrow> 'd Kernel \<Rightarrow> (bool \<times> 'd Kernel) res" where
  "UserHelper_Add E H user pass sv =
     (if length user < 3 \<or> length user > 15 then Inr (False, sv)
      else case H of
        None \<Rightarrow> Inr (False, sv)
      | Some provider \<Rightarrow>
          (let hashed_pass = hp_Generate provider (sv_next sv) pass;
               now = conv_numeric (w_now (sv_world sv));
               sv = sv\<lparr>sv_next := sv_next sv + 1\<rparr>
           in bind_res (set_field E user ''userlogin'' user sv) (\<lambda>sv.
              bind_res (set_field E user ''pass'' hashed_pass sv) (\<lambda>sv.
              bind_res (set_field E user ''status'' ''1'' sv) (\<lambda>sv.
              bind_res (set_field E user ''created'' now sv) (\<lambda>sv.
              bind_res (set_field E ''userlist'' user ''login'' sv) (\<lambda>sv.
              bind_res (set_field E (user @ ''/groups'') ''default'' now sv) (\<lambda>sv. Inr (True, sv)))))))))"

definition UserHelper_ChangePass ::
  "('d, 'n) env \<Rightarrow> HashProvider option \<Rightarrow> string \<Rightarrow> string \<Rightarrow> 'd Kernel \<Rightarrow> (bool \<times> 'd Kernel) res" where
  "UserHelper_ChangePass E H user pass sv =
     (if length pass < 3 \<or> length pass > 30 then Inr (False, sv)
      else let sv = LoginCache_Remove user sv
      in case H of
           None \<Rightarrow> Inr (False, sv)
         | Some provider \<Rightarrow>
             bind_res (set_field E user ''pass'' (hp_Generate provider (sv_next sv) pass)
                         (sv\<lparr>sv_next := sv_next sv + 1\<rparr>)) (\<lambda>sv. Inr (True, sv)))"

definition UserHelper_SetFlags :: "('d, 'n) env \<Rightarrow> string \<Rightarrow> string \<Rightarrow> 'd kernel_op" where
  "UserHelper_SetFlags E user flags = set_field E user ''flags'' flags"

definition UserHelper_CheckFlags :: "('d, 'n) env \<Rightarrow> string \<Rightarrow> 'd Kernel \<Rightarrow> (string \<times> 'd Kernel) res" where
  "UserHelper_CheckFlags E user = get_field E user ''flags''"

definition UserHelper_HasFlags :: "('d, 'n) env \<Rightarrow> string \<Rightarrow> 'd Kernel \<Rightarrow> (bool \<times> 'd Kernel) res" where
  "UserHelper_HasFlags E user sv =
     bind_res (get_field E user ''flags'' sv) (\<lambda>(flags, sv). Inr (flags \<noteq> [], sv))"

definition UserHelper_DeleteFlags :: "('d, 'n) env \<Rightarrow> string \<Rightarrow> 'd kernel_op" where
  "UserHelper_DeleteFlags E user = del_field E user ''flags''"

definition UserHelper_Remove :: "('d, 'n) env \<Rightarrow> string \<Rightarrow> 'd kernel_op" where
  "UserHelper_Remove E user sv =
     bind_res (del_field E user ''pass'' (LoginCache_Remove user sv)) (\<lambda>sv.
     bind_res (del_field E user ''created'' sv) (\<lambda>sv.
     bind_res (del_field E user ''status'' sv) (\<lambda>sv.
     bind_res (del_field E user ''flags'' sv) (\<lambda>sv.
     bind_res (del_field E user ''userlogin'' sv) (\<lambda>sv.
     bind_res (del_field E ''userlist'' user sv) (\<lambda>sv.
     bind_res (del_field E ''notify'' user sv) (\<lambda>sv.
     bind_res (on_world (STHelper_Erase E (user @ ''/groups'')) sv) (\<lambda>sv.
       on_world (STHelper_Erase E (user @ ''/chans'')) sv))))))))"

definition user_exists :: "('d, 'n) env \<Rightarrow> string \<Rightarrow> 'd Kernel \<Rightarrow> (bool \<times> 'd Kernel) res" where
  "user_exists E user = from_world (UserHelper_Exists E user)"

section \<open>The end of a user\<close>

text \<open>
  \<open>for_each_neighbor\<close>: the user itself when it is to be included, then the administrators among
  those who share a channel with it, each once.
\<close>

definition neighbors :: "nat \<Rightarrow> bool \<Rightarrow> 'd Kernel \<Rightarrow> nat list" where
  "neighbors u include_self sv =
     (if IS_LOCAL sv u \<and> include_self \<and> \<not> us_quitting (sv_user sv u) then [u] else []) @
     fold (\<lambda>k found.
       case channel_at sv k of
         None \<Rightarrow> found
       | Some c \<Rightarrow> fold (\<lambda>p found.
             if IS_LOCAL sv (fst p) \<and> fst p \<noteq> u \<and> fst p \<notin> set found \<and> User_IsAdmin (client_of sv (fst p))
             then found @ [fst p] else found) (subscribedlist c) found)
       (us_chans (sv_user sv u)) []"

definition Clients_Disconnect :: "nat \<Rightarrow> string \<Rightarrow> 'd Kernel \<Rightarrow> 'd Kernel" where
  "Clients_Disconnect u quitmsg sv =
     (if us_quitting (sv_user sv u) then sv
      else if IS_SERVER sv u then sv
      else
        (let us = sv_user sv u;
             loc = IS_LOCAL sv u;
             sv = on_us u (on_client (\<lambda>c. c\<lparr>cl_quitting := True\<rparr>)) sv;
             sv = (if loc then send_event (Error_message (''Closing connection: ('' @ c_str (us_agent us) @ ''@'' @
                          c_str (us_realhost us) @ '') ['' @ c_str quitmsg @ '']'')) u
                          (send u BRLD_ERROR [quitmsg] sv) else sv);
             sv = (if \<not> cl_Locked (us_client us) then occurs (Culled u) sv
                   else sv\<lparr>AwaitingExit := AwaitingExit sv @ [u]\<rparr>);
             sv = (if us_registered us = REG_OK
                   then fold (send_event (Quit_message u quitmsg)) (neighbors u False sv) sv
                   else sv\<lparr>not_registered_track := not_registered_track sv - 1\<rparr>);
             sv = (if loc then (occurs (Closed u) sv)\<lparr>local_users := remove1 u (local_users sv)\<rparr> else sv);
             sv = EraseLogin u (sv\<lparr>clientlist := imap_erase (us_instance us) (clientlist sv)\<rparr>);
             sv = sv\<lparr>uuid_list := imap_erase (us_uuid us) (uuid_list sv)\<rparr>
         in User_CheckEmptyChannels u sv))"

definition Clients_ForceExits :: "'d Kernel \<Rightarrow> 'd Kernel" where
  "Clients_ForceExits sv =
     (let out = (\<lambda>u. us_quitting (sv_user sv u) \<and> \<not> cl_Locked (us_client (sv_user sv u)))
      in (fold (\<lambda>u. occurs (Culled u)) (filter out (AwaitingExit sv)) sv)
           \<lparr>AwaitingExit := filter (Not \<circ> out) (AwaitingExit sv)\<rparr>)"

definition ClientManager_DisconnectAll :: "string \<Rightarrow> string \<Rightarrow> 'd Kernel \<Rightarrow> u32 \<times> 'd Kernel" where
  "ClientManager_DisconnectAll login msg sv =
     fold (\<lambda>u (counter, sv).
       if us_login (sv_user sv u) \<noteq> login then (counter, sv)
       else (counter + 1, Clients_Disconnect u msg sv)) (FindLogin login REG_OK sv) (0, sv)"

definition ClientManager_ExitLogins :: "string \<Rightarrow> string \<Rightarrow> 'd Kernel \<Rightarrow> 'd Kernel" where
  "ClientManager_ExitLogins login reason sv =
     fold (\<lambda>u. Clients_Disconnect u reason) (FindLogin login REG_OK sv) sv"

definition ClientManager_NotifyAll :: "nat \<Rightarrow> string \<Rightarrow> 'd Kernel \<Rightarrow> 'd Kernel" where
  "ClientManager_NotifyAll protocol msg sv =
     fold (\<lambda>u sv. if us_registered (sv_user sv u) = REG_OK then send u protocol [c_str msg] sv else sv)
       (local_users sv) sv"

text \<open>The destructor of a user: \<open>DetermineLifetime\<close> ends a session that nobody has any more.\<close>

definition User_destroy :: "nat \<Rightarrow> 'd Kernel \<Rightarrow> 'd Kernel" where
  "User_destroy u sv =
     (let sv = on_us u (on_client (\<lambda>c. c\<lparr>cl_Locked := False\<rparr>)) sv;
          sv = Notifier_Remove u (MonitorHandler_Remove u sv);
          sv = on_us u (\<lambda>us. us\<lparr>us_Groups := [], us_instance := []\<rparr>) sv
      in SessionManager_DetermineLifetime (us_login (sv_user sv u)) sv)"

section \<open>The beginning of a user\<close>

definition User_SetAgent :: "string \<Rightarrow> LocalUser \<Rightarrow> LocalUser" where
  "User_SetAgent newagent us =
     (if us_agent us = newagent then us else on_client (\<lambda>c. c\<lparr>cl_agent := take 200 newagent\<rparr>) us)"

definition User_SetLogin ::
  "('d, 'n) env \<Rightarrow> HashProvider option \<Rightarrow> nat \<Rightarrow> string \<Rightarrow> 'd Kernel \<Rightarrow> (bool \<times> 'd Kernel) res" where
  "User_SetLogin E H u userlogin sv =
     (let us = sv_user sv u; now = w_now (sv_world sv)
      in if us_logged us \<noteq> 0 then Inr (False, send u ERR_INPUT [''ALREADY_LOGGED''] sv)
         else if us_quitting us then Inr (False, sv)
         else bind_res (UserHelper_CheckPass E H userlogin (us_auth us)
                (on_us u (\<lambda>us. (on_client (\<lambda>c. c\<lparr>cl_login := userlogin\<rparr>) us)\<lparr>us_logged := now\<rparr>) sv)) (\<lambda>(ok, sv).
           if \<not> ok
           then Inr (False, Clients_Disconnect u ''Wrong password.'' (send u ERR_WRONG_PASS [] sv))
           else
             (let newlogin = ''I-'' @ userlogin @ ''-'' @ us_uuid us;
                  InUse = FindInstanceOnly userlogin sv
              in if InUse = Some u \<and> newlogin = us_instance us then Inr (True, sv)
                 else if InUse \<noteq> None \<and> InUse \<noteq> Some u
                 then Inr (False, Clients_Disconnect (the InUse) ''Internal error.'' sv)
                 else
                   (let sv = (if InUse = None then on_us u (\<lambda>us. us\<lparr>us_age := now\<rparr>) sv else sv);
                        sv = on_us u (\<lambda>us. us\<lparr>us_instance := newlogin\<rparr>) sv
                    in Inr (True, sv\<lparr>clientlist := imap_set newlogin u (imap_erase (us_instance us) (clientlist sv)),
                                   logins := logins sv @ [(userlogin, u)]\<rparr>)))))"

text \<open>
  \<open>set_class\<close>: a named class is the last of its name; otherwise the first that admits the address,
  the port and the state of the registration.
\<close>

definition class_admits :: "network \<Rightarrow> LocalUser \<Rightarrow> ConfigConnect \<Rightarrow> bool" where
  "class_admits N us c =
     (if cc_type c = CC_NAMED then False
      else let regdone = (us_registered us \<noteq> REG_NONE)
      in if (case cc_registered c of None \<Rightarrow> regdone | Some b \<Rightarrow> b) \<noteq> regdone then False
         else if \<not> Daemon_MatchCompactIP N (us_ip us) (cc_host c) then False
         else if cc_ports c \<noteq> [] \<and> us_port us \<notin> set (cc_ports c) then False
         else True)"

definition LocalUser_set_class :: "network \<Rightarrow> string \<Rightarrow> nat \<Rightarrow> 'd Kernel \<Rightarrow> 'd Kernel" where
  "LocalUser_set_class N classname u sv =
     (let found = (if classname \<noteq> [] then find (\<lambda>c. classname = cc_name c) (rev (Classes sv))
                   else find (class_admits N (sv_user sv u)) (Classes sv))
      in case found of None \<Rightarrow> sv | Some c \<Rightarrow> on_us u (\<lambda>us. us\<lparr>us_class := Some c\<rparr>) sv)"

definition LocalUser_check_con_conf :: "nat \<Rightarrow> 'd Kernel \<Rightarrow> 'd Kernel" where
  "LocalUser_check_con_conf u sv =
     (case us_class (sv_user sv u) of
        None \<Rightarrow> Clients_Disconnect u ''Access denied by configuration'' sv
      | Some ac \<Rightarrow>
          if cc_type ac = CC_DENY then Clients_Disconnect u (cc_reason ac) sv
          else on_us u (on_client (\<lambda>c. c\<lparr>cl_next_ping_check := w_now (sv_world sv) + PING_INTVL\<rparr>)) sv)"

text \<open>\<open>LoadGroups\<close>: those of another user of the login, or those that the database has.\<close>

definition LoadGroups :: "('d, 'n) env \<Rightarrow> nat \<Rightarrow> 'd kernel_op" where
  "LoadGroups E u sv =
     (let login = us_login (sv_user sv u);
          from_database = bind_res (from_world (STHelper_HList E (login @ ''/groups'')) sv) (\<lambda>(groups, sv).
            Inr (fold (\<lambda>name sv. case GroupManager_Find name sv of
                                   None \<Rightarrow> sv | Some a \<Rightarrow> on_us u (User_PushGroup a) sv) groups sv))
      in case FirstLogin login REG_OK sv of
           None \<Rightarrow> from_database
         | Some InUse \<Rightarrow>
             if InUse = u then from_database
             else Inr (on_us u (\<lambda>us. us\<lparr>us_Groups := us_Groups (sv_user sv InUse)\<rparr>) sv))"

definition ModuleCoreDB_OnPostConnect :: "('d, 'n) env \<Rightarrow> string \<Rightarrow> nat \<Rightarrow> 'd kernel_op" where
  "ModuleCoreDB_OnPostConnect E version u sv =
     bind_res (LoadGroups E u sv) (\<lambda>sv.
     let sv = send u BRLD_CONNECTED [c_str version @ '' '' @ conv_numeric (w_now (sv_world sv))] sv;
         login = us_login (sv_user sv u)
     in case SessionManager_Find login sv of
          Some a \<Rightarrow> LoadNotify E u (SessionManager_Attach u login (ss_rawflags (sv_session sv a)) sv)
        | None \<Rightarrow>
            bind_res (UserHelper_CheckFlags E login sv) (\<lambda>(flags, sv).
            bind_res (LoadNotify E u (SessionManager_Attach u login flags sv)) (\<lambda>sv.
              if \<not> Settings_AsBool autojoin sv then Inr sv else core_Autojoin E u sv)))"

text \<open>
  \<open>ack_connection\<close>, with the channels that \<open>m_autojoin\<close> was configured with.
\<close>

definition LocalUser_ack_connection ::
  "('d, 'n) env \<Rightarrow> network \<Rightarrow> string \<Rightarrow> string list \<Rightarrow> nat \<Rightarrow> 'd kernel_op" where
  "LocalUser_ack_connection E N version chans u sv =
     (let now = w_now (sv_world sv);
          sv = on_us u (\<lambda>us. (on_client (\<lambda>c. c\<lparr>cl_touchbase := now\<rparr>) us)\<lparr>us_class := None\<rparr>) sv;
          sv = LocalUser_check_con_conf u (LocalUser_set_class N [] u sv)
      in if us_quitting (sv_user sv u) then Inr sv
         else
           (let sv = (if not_registered_track sv \<noteq> 0
                      then sv\<lparr>not_registered_track := not_registered_track sv - 1\<rparr> else sv);
                sv = on_us u (on_client (\<lambda>c. c\<lparr>cl_registered := REG_OK\<rparr>)) sv
            in bind_res (ModuleCoreDB_OnPostConnect E version u sv) (ModuleAutojoin_OnPostConnect E chans u)))"

definition VerifyRegistrationTimeout :: "nat \<Rightarrow> 'd Kernel \<Rightarrow> 'd Kernel" where
  "VerifyRegistrationTimeout u sv =
     (if us_class (sv_user sv u) \<noteq> None \<and> w_now (sv_world sv) > us_connected (sv_user sv u) + 10
      then Clients_Disconnect u ''Registration timeout'' sv else sv)"

text \<open>
  What \<open>Flush\<close> does with a user after its input was read: no module of the sources but that of TLS
  makes a user wait, so that one with an agent and a login is connected.  A \<open>modules_ready\<close> that
  says no is that module's.
\<close>

definition VerifyModules ::
  "('d, 'n) env \<Rightarrow> network \<Rightarrow> string \<Rightarrow> string list \<Rightarrow> (nat \<Rightarrow> bool) \<Rightarrow> nat \<Rightarrow> 'd kernel_op" where
  "VerifyModules E N version chans modules_ready u sv =
     (if modules_ready u then LocalUser_ack_connection E N version chans u sv
      else if \<not> us_quitting (sv_user sv u) then Inr (VerifyRegistrationTimeout u sv)
      else Inr sv)"

definition ClientManager_Flush ::
  "('d, 'n) env \<Rightarrow> network \<Rightarrow> string \<Rightarrow> string list \<Rightarrow> (nat \<Rightarrow> bool) \<Rightarrow> 'd kernel_op" where
  "ClientManager_Flush E N version chans modules_ready sv =
     fold_res (\<lambda>u sv.
       if us_registered (sv_user sv u) = REG_OK then Inr sv
       else if us_registered (sv_user sv u) = REG_LOGINUSER
       then VerifyModules E N version chans modules_ready u sv
       else Inr (VerifyRegistrationTimeout u sv)) (local_users sv) sv"

text \<open>
  A new connection: the user, with its unique identifier for instance and for agent, and the
  tables.  \<open>socket_ok\<close> is whether the descriptor could be added, \<open>hook_error\<close> what a socket module
  says against it.
\<close>

definition new_LocalUser :: "client \<Rightarrow> string \<Rightarrow> string \<Rightarrow> int \<Rightarrow> int \<Rightarrow> LocalUser" where
  "new_LocalUser raw uid ip port now =
     \<lparr>us_client = raw\<lparr>cl_agent := uid, cl_login := [], cl_database := None, cl_select := 1,
         cl_registered := REG_NONE, cl_Paused := False, cl_Locked := False, cl_quitting := False,
         cl_Groups := [], cl_session := None, cl_Multi := False, cl_MultiRunning := False,
         cl_PendingList := [], cl_PendingMulti := [], cl_touchbase := 0, cl_next_ping_check := 0\<rparr>,
      us_type = CLIENT_TYPE_LOCAL, us_uuid = uid, us_instance = uid, us_auth = [], us_connected = now,
      us_logged = 0, us_age = now, us_realhost = ip, us_Groups = [], us_session = None, us_chans = [],
      us_lastping = True, us_class = None, us_ip = ip, us_port = port\<rparr>"

definition Clients_AddUser ::
  "network \<Rightarrow> nat \<Rightarrow> client \<Rightarrow> string \<Rightarrow> string \<Rightarrow> int \<Rightarrow> bool \<Rightarrow> string option \<Rightarrow> 'd kernel_op" where
  "Clients_AddUser N MaxClients raw uid ip port socket_ok hook_error sv =
     (let u = sv_next sv
      in if imap_find uid (uuid_list sv) \<noteq> None then Inl Kernel_exception
         else
           (let sv = sv\<lparr>sv_user := (sv_user sv)(u := new_LocalUser raw uid ip port (w_now (sv_world sv))),
                  sv_next := u + 1, uuid_list := uuid_list sv @ [(uid, u)],
                  not_registered_track := not_registered_track sv + 1,
                  clientlist := imap_set uid u (clientlist sv), local_users := u # local_users sv\<rparr>
            in if \<not> socket_ok then Inr (Clients_Disconnect u ''Internal error handling connection'' sv)
               else case hook_error of
                 Some e \<Rightarrow> Inr (Clients_Disconnect u e sv)
               | None \<Rightarrow>
                   if length (local_users sv) > MaxClients
                   then Inr (Clients_Disconnect u ''New connections are not allowed.'' sv)
                   else Inr (LocalUser_set_class N [] u sv)))"

end
