(* ===== verification/CommandPaths.thy ===== *)
theory CommandPaths
  imports CommandFacts KeyFacts OperationFacts Logins
begin

text \<open>
  Commands from \<open>Execute\<close> to the store: it comes back whatever the client sends, who may push a
  query, what \<open>SET\<close> and \<open>GET\<close> ask for and answer, and the order in which \<open>MULTI\<close> runs what it
  queued.
\<close>

section \<open>Execute comes back\<close>

text \<open>
  C8: The main loop survives any client. Whatever the command and its parameters, Execute on a
  table of well formed commands (all those of the sources that are modelled, but the nine that
  exceptions lists, with any limits left in them by earlier calls) comes back: no check and no
  handler reads a parameter that is not there. It leaves of the user all but the times of its last
  command, and the databases and the registries as they were; everything else it does is in the
  log, as queries pushed and lines sent; and the table keeps its names and its commands.
\<close>

theorem execute_returns:
  assumes "\<forall>c \<in> snd ` set (co_commands k). served c" "length ps < 2 ^ 32 - 1"
  shows "\<exists>k' a b es. CommandHandler_Execute H E command ps k = Inr k' \<and>
    se_user (co_session k') = (se_user (co_session k))\<lparr>cl_touchbase := a, cl_next_ping_check := b\<rparr> \<and>
    se_world (co_session k') = se_world (co_session k) \<and> se_log (co_session k') = se_log (co_session k) @ es \<and>
    same_table (co_commands k) (co_commands k') \<and> (\<forall>c \<in> snd ` set (co_commands k'). served c)"
  using execute_touched [OF serves_all [OF assms(1)] assms(2), of H E command] served_same [OF _ assms(1)] unfolding touched_def by blast

section \<open>Who may push a query\<close>

text \<open>
  The groups there are: a new one, and what \<open>UpdateFlags\<close> (whether or not it knew all the flags)
  and \<open>ResetFlags\<close> make of one.
\<close>

inductive group_made :: "('d, 'n) env \<Rightarrow> Group \<Rightarrow> bool" for E :: "('d, 'n) env" where
  created: "group_made E (new_Group now name)"
| updated: "group_made E g'" if "group_made E g" "Group_UpdateFlags E flags g w = Inr (ok, g', w')"
| reset: "group_made E ((Group_Init g)\<lparr>g_rawflags := []\<rparr>)" if "group_made E g"

text \<open>The operations of the server that write a group make no other groups.\<close>

lemma manager_makes:
  assumes "\<forall>a. group_made E (sv_group sv a)"
  shows "update_group E flags b sv = Inr (ok, sv') \<Longrightarrow> \<forall>a. group_made E (sv_group sv' a)"
    "GroupManager_Add E gname flags sv = Inr (ok, sv') \<Longrightarrow> \<forall>a. group_made E (sv_group sv' a)"
    "GroupManager_ResetFlags E gname sv = Inr (ok, sv') \<Longrightarrow> \<forall>a. group_made E (sv_group sv' a)"
proof -
  have update: "\<forall>a. group_made E (sv_group s' a)"
    if "update_group E flags b s = Inr (ok, s')" "\<forall>a. group_made E (sv_group s a)" for b ok and s s' :: "'a Kernel"
    using that group_made.updated [of E "sv_group s b" flags "sv_world s"]
    by (auto simp: update_group_def bind_res_def split: sum.splits)
  then show "update_group E flags b sv = Inr (ok, sv') \<Longrightarrow> \<forall>a. group_made E (sv_group sv' a)"
    using assms by blast
  show "GroupManager_Add E gname flags sv = Inr (ok, sv') \<Longrightarrow> \<forall>a. group_made E (sv_group sv' a)"
    using assms by (auto simp: GroupManager_Add_def Let_def bind_res_def group_made.created
        split: sum.splits if_splits dest!: update)
  show "GroupManager_ResetFlags E gname sv = Inr (ok, sv') \<Longrightarrow> \<forall>a. group_made E (sv_group sv' a)"
    using assms by (auto simp: GroupManager_ResetFlags_def on_world_def bind_res_def group_made.reset
        split: sum.splits option.splits)
qed

text \<open>The flags of a group that count: those up to the first that is not a flag.\<close>

definition effective_flags :: "Group \<Rightarrow> string" where
  "effective_flags g = takeWhile (\<lambda>c. c \<in> known_flags) (g_rawflags g)"

lemma group_made_CanDo:
  assumes "group_made E g"
  shows "Group_CanDo flag g \<longleftrightarrow> CHR ''z'' \<in> set (effective_flags g) \<or> flag \<in> set (effective_flags g)"
  using assms
proof cases
  case (created now name)
  then show ?thesis by (simp add: Group_CanDo_def new_Group_def effective_flags_def)
next
  case (updated g0 flags w ok w')
  let ?g1 = "(Group_Init g0)\<lparr>g_rawflags := g_rawflags g0 @ flags\<rparr>"
  have "g = snd (group_flags (g_rawflags ?g1) ?g1)"
    using updated(2) by (auto simp: Group_UpdateFlags_def Let_def case_prod_beta bind_res_def split: if_splits sum.splits)
  then show ?thesis
    using group_flags_powers [of flag "g_rawflags ?g1" ?g1] group_flags_raw [of "g_rawflags ?g1" ?g1]
    by (simp add: CanDo_Init effective_flags_def del: known_flags_iff)
next
  case (reset g0)
  then show ?thesis by (simp add: CanDo_Init effective_flags_def)
qed

lemma pushed_happens [simp]:
  "pushed (se_log (happens e s)) = pushed (se_log s) @ (case e of Push sg \<Rightarrow> [sg] | _ \<Rightarrow> [])"
  by (simp add: pushed_def happens_def)

lemma pushed_quiet [simp]:
  "pushed (se_log (SendProtocol c l s)) = pushed (se_log s)"
  "pushed (se_log (on_user f s)) = pushed (se_log s)"
  "pushed (se_log (co_session (blocked command ps k))) = pushed (se_log (co_session k))"
  "pushed (se_log (co_session (on_session f' k))) = pushed (se_log (f' (co_session k)))"
  "pushed (se_log (Command_NotLogged h s)) = pushed (se_log s)"
  "pushed (se_log (Command_MissingParameters b h s)) = pushed (se_log s)"
  "pushed (se_log (CommandQueue_Add command ps s)) = pushed (se_log s)"
  by (simp_all add: SendProtocol_def on_user_def blocked_def on_session_def Command_NotLogged_def
      Command_MissingParameters_def CommandQueue_Add_def Let_def)

definition may_run :: "('d, 'n) command \<Rightarrow> client \<Rightarrow> bool" where
  "may_run c u \<longleftrightarrow>
     (cl_registered u = REG_OK \<or> cm_pre_reg_ok c) \<and>
     (cm_flags c \<noteq> CHR 0x00 \<longrightarrow> User_CanPerform (cm_flags c) u) \<and>
     (cm_flags c = CHR 0x00 \<and> cm_group c \<noteq> CHR 0x00 \<longrightarrow>
        (\<exists>g\<in>set (cl_Groups u). CHR ''z'' \<in> set (effective_flags g) \<or> cm_group c \<in> set (effective_flags g)))"

lemma may_run_access:
  assumes "\<forall>g\<in>set (cl_Groups u). group_made E g" "has_access c u" "cl_registered u = REG_OK \<or> cm_pre_reg_ok c"
  shows "may_run c u"
proof -
  have "Group_CanDo flag g \<longleftrightarrow> CHR ''z'' \<in> set (effective_flags g) \<or> flag \<in> set (effective_flags g)"
    if "g \<in> set (cl_Groups u)" for flag g
    using assms(1) that group_made_CanDo by blast
  then show ?thesis using assms(2,3)
    by (auto simp: may_run_def has_access_def User_InGroup_def split: if_splits)
qed

lemma same_rights:
  "may_run c (u\<lparr>cl_touchbase := a\<rparr>) = may_run c u" "may_run c (u\<lparr>cl_next_ping_check := b\<rparr>) = may_run c u"
  "has_access c (u\<lparr>cl_touchbase := a\<rparr>) = has_access c u"
  "has_access c (u\<lparr>cl_next_ping_check := b\<rparr>) = has_access c u"
  by (simp_all add: may_run_def has_access_def User_CanPerform_def User_InGroup_def)

lemma user_now [simp]:
  "se_user (co_session (on_session (on_user f) k)) = f (se_user (co_session k))"
  "se_user (co_session (on_session (happens e) k)) = se_user (co_session k)"
  "se_world (co_session (on_session (happens e) k)) = se_world (co_session k)"
  by (simp_all add: on_session_def on_user_def happens_def)

lemma found_pushes:
  assumes "Execute_found H E command c ps k = Inr k'" "pushed (se_log (co_session k')) \<noteq> pushed (se_log (co_session k))"
    and "\<forall>g\<in>set (cl_Groups (se_user (co_session k))). group_made E g"
  shows "may_run c (se_user (co_session k)) \<and> cm_min_params c \<le> length ps"
proof -
  let ?ps = "join_excess (cm_max_params c) ps"
  let ?u = "se_user (co_session k)"
  have len: "length ?ps \<le> length ps" by (simp add: join_excess_length)
  note may = may_run_access [OF assms(3), of c]
  have "has_access c ?u \<and> cm_min_params c \<le> length ?ps \<and> (cl_registered ?u = REG_OK \<or> cm_pre_reg_ok c)"
  proof (rule ccontr)
    assume no: "\<not> ?thesis"
    have "Execute_found H E command c ps k = Inr k' \<Longrightarrow> pushed (se_log (co_session k')) = pushed (se_log (co_session k))"
      unfolding Execute_found_def Let_def
      using no by (auto simp: user_now same_rights split: if_splits)
    with assms(1,2) show False by simp
  qed
  with may len show ?thesis by auto
qed

text \<open>
  C9: Nobody runs what it may not run: when Execute pushes a query, its command is in the table,
  the user is not paused (unless the command is PONG), is logged in unless the command needs no
  login, has the administrative flag the command asks for, and, where the command names a group,
  is in a group whose effective flags hold that group's letter or z; and it gave as many
  parameters as the command needs. The groups of the user are any that the group manager makes:
  new ones, with any updates of their flags, failed ones included, and resets. The effective flags
  are the recorded ones up to the first that is not a flag, since UpdateFlags records all it was
  given and stops enabling there.
\<close>

theorem pushes_are_allowed:
  assumes "CommandHandler_Execute H E command ps k = Inr k'"
    and "pushed (se_log (co_session k')) \<noteq> pushed (se_log (co_session k))"
    and "\<forall>g\<in>set (cl_Groups (se_user (co_session k))). group_made E g"
  shows "\<exists>c. GetBase command (co_commands k) = Some c \<and> may_run c (se_user (co_session k)) \<and>
    cm_min_params c \<le> length ps \<and> (cl_Paused (se_user (co_session k)) \<longrightarrow> command = ''PONG'')"
proof (cases "GetBase command (co_commands k)")
  case None
  with assms(1,2) show ?thesis
    unfolding CommandHandler_Execute_def Let_def by (auto simp: on_session_def split: if_splits)
next
  case (Some c)
  with assms found_pushes [of H E command c ps k k'] show ?thesis
    unfolding CommandHandler_Execute_def Let_def by (auto split: if_splits)
qed

section \<open>SET and GET\<close>

definition in_quotes :: "string \<Rightarrow> string" where
  "in_quotes x = [CHR 0x22] @ x @ [CHR 0x22]"

lemma in_quotes_simps [simp]: "stripe (in_quotes x) = x" "CheckFormat (in_quotes x) n s = (True, s)"
  "\<not> is_number (in_quotes x) True" "in_quotes x \<noteq> []"
proof -
  show n: "\<not> is_number (in_quotes x) True" by (simp add: in_quotes_def is_number_def is_digit_def)
  then show "stripe (in_quotes x) = x" by (simp add: stripe_def) (simp add: in_quotes_def)
  show "CheckFormat (in_quotes x) n s = (True, s)" using n
    by (simp add: CheckFormat_def is_correct_def) (simp add: in_quotes_def)
qed (simp add: in_quotes_def)

lemma key_check [simp]: "KeyValidator key \<Longrightarrow> maker_CheckKey key n s = (True, s)"
  by (auto simp: maker_CheckKey_def KeyValidator_def)

text \<open>A user that may run a command, which no module stops.\<close>

definition runs_freely :: "hooks \<Rightarrow> ('d, 'n) command \<Rightarrow> client \<Rightarrow> bool" where
  "runs_freely H c u \<longleftrightarrow>
     (\<forall>b n ps v. \<not> h_stop H b n ps v) \<and> \<not> cl_Paused u \<and> cl_registered u = REG_OK \<and> has_access c u"

lemma runs_freely_now [simp]:
  "runs_freely H c (u\<lparr>cl_touchbase := a\<rparr>) = runs_freely H c u"
  "runs_freely H c (u\<lparr>cl_next_ping_check := b\<rparr>) = runs_freely H c u"
  by (simp_all add: runs_freely_def same_rights)

definition same_but_times :: "client \<Rightarrow> client \<Rightarrow> bool" where
  "same_but_times u v \<longleftrightarrow> (\<exists>a b. v = u\<lparr>cl_touchbase := a, cl_next_ping_check := b\<rparr>)"

lemma times_now: "same_but_times u ((if p then u\<lparr>cl_touchbase := n\<rparr> else u)\<lparr>cl_next_ping_check := m\<rparr>)"
  unfolding same_but_times_def
  by (rule exI [of _ "if p then n else cl_touchbase u"], rule exI [of _ m]) simp

text \<open>What a command does whose handler is reached.\<close>

lemma execute_freely:
  assumes "GetBase command (co_commands k) = Some c" "runs_freely H c (se_user (co_session k))"
    and "cm_min_params c \<le> length ps" "cm_max_params c = length ps" "cm_last_empty_ok c" "cm_alias c = []"
  obtains k1 where "CommandHandler_Execute H E command ps k = Execute_handler E command c ps k1"
    "co_commands k1 = co_commands k"
    "pushed (se_log (co_session k1)) = pushed (se_log (co_session k))"
    "same_but_times (se_user (co_session k)) (se_user (co_session k1))"
    "se_world (co_session k1) = se_world (co_session k)"
proof -
  define k1 where "k1 = on_session (on_user (\<lambda>u. (if command \<noteq> ''PONG'' \<and> command \<noteq> ''PUBLISH''
      then u\<lparr>cl_touchbase := w_now (se_world (co_session k))\<rparr> else u)
      \<lparr>cl_next_ping_check := w_now (se_world (co_session k)) + PING_INTVL\<rparr>))
      (on_session (happens (Monitored command MONITOR_DEFAULT ps)) k)"
  have j: "join_excess (cm_max_params c) ps = ps" using assms(4) by (simp add: join_excess_def)
  have u: "se_user (co_session k1) = (if command \<noteq> ''PONG'' \<and> command \<noteq> ''PUBLISH''
      then (se_user (co_session k))\<lparr>cl_touchbase := w_now (se_world (co_session k))\<rparr> else se_user (co_session k))
      \<lparr>cl_next_ping_check := w_now (se_world (co_session k)) + PING_INTVL\<rparr>"
    by (simp add: k1_def)
  have r: "has_access c (se_user (co_session k1))" "cl_registered (se_user (co_session k1)) = REG_OK"
    using assms(2) unfolding u by (auto simp: runs_freely_def same_rights)
  have "Execute_found H E command c ps k = Execute_handler E command c ps k1"
    using assms r unfolding Execute_found_def Let_def j k1_def [symmetric] user_now(3)
    by (auto simp: runs_freely_def k1_def)
  with assms(1,2) have "CommandHandler_Execute H E command ps k = Execute_handler E command c ps k1"
    by (simp add: CommandHandler_Execute_def runs_freely_def)
  moreover have "co_commands k1 = co_commands k" "se_world (co_session k1) = se_world (co_session k)"
    "pushed (se_log (co_session k1)) = pushed (se_log (co_session k))"
    by (simp_all add: k1_def on_session_def on_user_def happens_def pushed_def)
  moreover have "same_but_times (se_user (co_session k)) (se_user (co_session k1))"
    unfolding u by (rule times_now)
  ultimately show ?thesis using that by blast
qed

definition set_request :: "('d, 'n) env \<Rightarrow> client \<Rightarrow> string \<Rightarrow> string \<Rightarrow> 'd signal" where
  "set_request E u key x =
     KeyHelper_Simple E u (text_object E set_query (set_query_Run (e_rocks E)) set_query_Process) key (in_quotes x) True"

definition get_request :: "('d, 'n) env \<Rightarrow> client \<Rightarrow> string \<Rightarrow> 'd signal" where
  "get_request E u key =
     KeyHelper_Retro E u (text_object E get_query (get_query_Run (e_rocks E)) get_query_Process) key False"

text \<open>The one query a client's command asks for.\<close>

definition asks_for :: "hooks \<Rightarrow> ('d, 'n) env \<Rightarrow> string \<Rightarrow> string list \<Rightarrow> ('d, 'n) commander \<Rightarrow> 'd signal
     \<Rightarrow> ('d, 'n) commander \<Rightarrow> bool" where
  "asks_for H E command ps k sg k' \<longleftrightarrow>
     CommandHandler_Execute H E command ps k = Inr k' \<and> co_commands k' = co_commands k \<and>
     pushed (se_log (co_session k')) = pushed (se_log (co_session k)) @ [sg] \<and>
     same_but_times (se_user (co_session k)) (se_user (co_session k')) \<and>
     se_world (co_session k') = se_world (co_session k)"

lemma request_times:
  "same_but_times u v \<Longrightarrow> set_request E v key x = set_request E u key x"
  "same_but_times u v \<Longrightarrow> get_request E v key = get_request E u key"
  by (auto simp: same_but_times_def set_request_def get_request_def KeyHelper_Simple_def KeyHelper_Retro_def
      Helpers_make_query_def from_user_def GetDatabase_def)

lemma set_asks_for:
  assumes "GetBase ''SET'' (co_commands k) = Some c" "c = CommandSet" "runs_freely H c (se_user (co_session k))"
    and "KeyValidator key"
  shows "\<exists>k'. asks_for H E ''SET'' [key, in_quotes x] k (set_request E (se_user (co_session k)) key x) k'"
proof -
  obtain k1 where k1: "CommandHandler_Execute H E ''SET'' [key, in_quotes x] k =
      Execute_handler E ''SET'' c [key, in_quotes x] k1" "co_commands k1 = co_commands k"
    "pushed (se_log (co_session k1)) = pushed (se_log (co_session k))"
    "same_but_times (se_user (co_session k)) (se_user (co_session k1))"
    "se_world (co_session k1) = se_world (co_session k)"
    by (rule execute_freely [OF assms(1,3), of "[key, in_quotes x]" E])
       (simp_all add: assms(2) CommandSet_def Command_def)
  have "set_request E (se_user (co_session k1)) key x = set_request E (se_user (co_session k)) key x"
    using request_times(1) [OF k1(4)] .
  then have h: "KeyHelper_Simple E (se_user (co_session k1))
      (text_object E set_query (set_query_Run (e_rocks E)) set_query_Process) key (in_quotes x) True =
      set_request E (se_user (co_session k)) key x" unfolding set_request_def [symmetric] .
  have "Execute_checks E c [key, in_quotes x] (co_session k1) = Inr (True, co_session k1)"
    using assms(2,4)
    by (simp add: Execute_checks_def and_then_def check_key_param_def check_num_param_def check_value_param_def
        check_login_param_def CommandSet_def Command_def reaches_def param_def params_back_def)
  then have "Execute_handler E ''SET'' c [key, in_quotes x] k1 = run_handler E ''SET'' c [key, in_quotes x] k1"
    by (simp add: Execute_handler_def Execute_limits_def) (simp add: assms(2) CommandSet_def Command_def)
  with k1 h assms(2) show ?thesis
    by (auto simp: asks_for_def run_handler_def CommandSet_def Command_def CommandSet_Handle_def param_def
        params_back_def) (simp_all add: happens_def)
qed

lemma get_asks_for:
  assumes "GetBase ''GET'' (co_commands k) = Some c" "c = CommandGet" "runs_freely H c (se_user (co_session k))"
    and "KeyValidator key"
  shows "\<exists>k'. asks_for H E ''GET'' [key] k (get_request E (se_user (co_session k)) key) k'"
proof -
  obtain k1 where k1: "CommandHandler_Execute H E ''GET'' [key] k = Execute_handler E ''GET'' c [key] k1"
    "co_commands k1 = co_commands k"
    "pushed (se_log (co_session k1)) = pushed (se_log (co_session k))"
    "same_but_times (se_user (co_session k)) (se_user (co_session k1))"
    "se_world (co_session k1) = se_world (co_session k)"
    by (rule execute_freely [OF assms(1,3), of "[key]" E]) (simp_all add: assms(2) CommandGet_def Command_def)
  have h: "KeyHelper_Retro E (se_user (co_session k1))
      (text_object E get_query (get_query_Run (e_rocks E)) get_query_Process) key False =
      get_request E (se_user (co_session k)) key"
    using request_times(2) [OF k1(4), of E key] unfolding get_request_def .
  have "Execute_checks E c [key] (co_session k1) = Inr (True, co_session k1)"
    using assms(2,4)
    by (simp add: Execute_checks_def and_then_def check_key_param_def check_num_param_def check_value_param_def
        check_login_param_def CommandGet_def Command_def reaches_def param_def params_back_def)
  then have "Execute_handler E ''GET'' c [key] k1 = run_handler E ''GET'' c [key] k1"
    by (simp add: Execute_handler_def Execute_limits_def) (simp add: assms(2) CommandGet_def Command_def)
  with k1 h assms(2) show ?thesis
    by (auto simp: asks_for_def run_handler_def CommandGet_def Command_def CommandGet_Handle_def param_def
        params_back_def) (simp_all add: happens_def)
qed

text \<open>The query of a request, as a query of its class.\<close>

definition asked :: "('d, 'n) env \<Rightarrow> client \<Rightarrow> string \<Rightarrow> string \<Rightarrow> query" where
  "asked E u key x = (Helpers_make_query E u key False (new_object E))\<lparr>q_value := x\<rparr>"

lemma asked_fields:
  assumes "KeyValidator key"
  shows "q_key (asked E u key x) = key" "q_value (asked E u key x) = x"
    "q_select_query (asked E u key x) = cl_select u" "q_database (asked E u key x) = GetDatabase E u"
    "\<not> d_closing (w_dbs w (GetDatabase E u)) \<Longrightarrow> ready (asked E u key x) w"
proof -
  from assms have "key \<noteq> []" by (auto simp: KeyValidator_def)
  with assms show "q_key (asked E u key x) = key" "q_value (asked E u key x) = x"
    "q_select_query (asked E u key x) = cl_select u" "q_database (asked E u key x) = GetDatabase E u"
    "\<not> d_closing (w_dbs w (GetDatabase E u)) \<Longrightarrow> ready (asked E u key x) w"
    by (simp_all add: asked_def Helpers_make_query_def from_user_def QueryBase_def ready_def Let_def)
qed

lemma set_request_asked:
  "KeyValidator key \<Longrightarrow> sg_query (set_request E u key x) = set_query (asked E u key x)"
  "sg_run (set_request E u key x) = set_query_Run (e_rocks E)"
  by (simp_all add: set_request_def KeyHelper_Simple_def text_object_def asked_def Helpers_make_query_def
      from_user_def QueryBase_def set_query_def Let_def)

lemma get_request_asked:
  "KeyValidator key \<Longrightarrow> sg_query (get_request E u key) = get_query (asked E u key [])"
  "sg_run (get_request E u key) = get_query_Run (e_rocks E)"
  "sg_process (get_request E u key) agent q = Inr [(BRLD_OK, get_query_Process q)]"
  by (simp_all add: get_request_def KeyHelper_Retro_def text_object_def asked_def Helpers_make_query_def
      from_user_def QueryBase_def get_query_def Let_def)

text \<open>
  C11: SET and then GET, from the client's commands to the reply: a user that may run both and
  sends SET key "x" and then GET key, for any valid key and any text, has exactly one query pushed
  for each; and when a data thread runs the first to its end and then the second, on any store,
  the reply to the second is the text, as Helpers::Format prints it.
\<close>

theorem set_get_commands:
  assumes "GetBase ''SET'' (co_commands k) = Some s" "s = CommandSet"
    and "GetBase ''GET'' (co_commands k) = Some g" "g = CommandGet"
    and "runs_freely H s (se_user (co_session k))" "runs_freely H g (se_user (co_session k))"
    and "KeyValidator key" "rocks_ok (e_rocks E) view"
  shows "\<exists>k1 k2 s1 s2. asks_for H E ''SET'' [key, in_quotes x] k s1 k1 \<and> asks_for H E ''GET'' [key] k1 s2 k2 \<and>
    (\<forall>w q w'. Prepare (e_rocks E) (sg_run s1) (sg_query s1) w = Inr (True, q, w') \<and> q_finished q \<and>
       \<not> d_closing (w_dbs w (GetDatabase E (se_user (co_session k)))) \<and>
       \<not> d_closing (w_dbs w' (GetDatabase E (se_user (co_session k)))) \<longrightarrow>
       (\<exists>q'. Prepare (e_rocks E) (sg_run s2) (sg_query s2) w' = Inr (True, q', w') \<and>
          sg_process s2 (cl_agent (se_user (co_session k))) q' = Inr [(BRLD_OK, Helpers_Format x)]))"
proof -
  let ?u = "se_user (co_session k)"
  obtain k1 where k1: "asks_for H E ''SET'' [key, in_quotes x] k (set_request E ?u key x) k1"
    using set_asks_for [OF assms(1,2,5,7)] by blast
  then have same: "co_commands k1 = co_commands k" "same_but_times ?u (se_user (co_session k1))"
    by (simp_all add: asks_for_def)
  from same(2) assms(6) have free: "runs_freely H g (se_user (co_session k1))"
    by (auto simp: same_but_times_def)
  from assms(3) same(1) have "GetBase ''GET'' (co_commands k1) = Some g" by simp
  from get_asks_for [OF this assms(4) free assms(7)] request_times(2) [OF same(2)]
  obtain k2 where k2: "asks_for H E ''GET'' [key] k1 (get_request E ?u key) k2" by metis
  have gets: "\<exists>q'. Prepare (e_rocks E) (get_query_Run (e_rocks E)) (get_query (asked E ?u key [])) w' = Inr (True, q', w') \<and>
      sg_process (get_request E ?u key) (cl_agent ?u) q' = Inr [(BRLD_OK, Helpers_Format x)]"
    if "Prepare (e_rocks E) (set_query_Run (e_rocks E)) (set_query (asked E ?u key x)) w = Inr (True, q, w')"
      "q_finished q" "\<not> d_closing (w_dbs w (GetDatabase E ?u))" "\<not> d_closing (w_dbs w' (GetDatabase E ?u))" for w q w'
    using set_then_get [OF assms(8) asked_fields(5) [OF assms(7) that(3)] that(1,2)
        asked_fields(5) [OF assms(7) that(4), of "[]"]] by (auto simp: asked_fields(1-4) [OF assms(7)] get_request_asked(3) get_query_Process_def)
  show ?thesis
    by (rule exI [of _ k1], rule exI [of _ k2], rule exI [of _ "set_request E ?u key x"],
        rule exI [of _ "get_request E ?u key"],
        use k1 k2 gets in \<open>simp add: set_request_asked get_request_asked(1,2) assms(7)\<close>, blast)
qed

text \<open>A user of the sample store, in a group that may do everything, and the processor before it.\<close>

definition sample_env :: "(table, int) env" where
  "sample_env = \<lparr>e_rocks = table_rocks, e_core = 1, e_find = (\<lambda>_. None), e_raw = new_query, e_null = 9,
     e_dbl = fixed_ops, e_draws = [], e_human = (\<lambda>_. [])\<rparr>"

definition sample_group :: "string \<Rightarrow> Group" where
  "sample_group flags = snd (group_flags flags
     \<lparr>g_created = 0, g_name = ''staff'', g_rawflags = flags, can_do_all = False, can_keys = False,
      can_list = False, can_geo = False, can_vector = False, can_expire = False, can_future = False,
      can_map = False, can_mmap = False, can_publish_chan = False, can_publish_clients = False,
      can_hints = False, can_dual_exec = False\<rparr>)"

definition sample_user :: "string \<Rightarrow> client" where
  "sample_user flags = \<lparr>cl_id = 7, cl_agent = ''agent'', cl_login = ''joe'', cl_database = Some 0, cl_select = 1,
     cl_registered = REG_OK, cl_Paused = False, cl_Locked = False, cl_quitting = False,
     cl_Groups = [sample_group flags], cl_session = None, cl_Multi = False, cl_MultiRunning = False,
     cl_PendingList = [], cl_PendingMulti = [], cl_touchbase = 0, cl_next_ping_check = 0\<rparr>"

definition sample_processor :: "string \<Rightarrow> (table, int) command list \<Rightarrow> (table, int) commander" where
  "sample_processor flags cs =
     \<lparr>co_session = \<lparr>se_user = sample_user flags, se_world = world_of [] [], se_log = []\<rparr>,
      co_commands = map (\<lambda>c. (cm_name c, c)) cs, co_unknown = 0\<rparr>"

definition no_hooks :: hooks where
  "no_hooks = \<lparr>h_stop = (\<lambda>_ _ _ _. False), h_syntaxhints = False\<rparr>"

lemma sample_lookup: "engine_equals ''SET'' ''SET''" "\<not> engine_equals ''SET'' ''GET''" "engine_equals ''GET'' ''GET''"
  by code_simp+

lemma sample_lookup_in:
  "GetBase ''SET'' (co_commands (sample_processor fs [CommandSet, CommandGet])) = Some CommandSet"
  "GetBase ''GET'' (co_commands (sample_processor fs [CommandSet, CommandGet])) = Some CommandGet"
  by (simp_all add: sample_processor_def CommandSet_def CommandGet_def Command_def sample_lookup)

lemma sample_free:
  "runs_freely no_hooks CommandSet (sample_user ''k'')" "runs_freely no_hooks CommandGet (sample_user ''k'')"
  by (simp_all add: runs_freely_def no_hooks_def sample_user_def has_access_def CommandSet_def CommandGet_def
      Command_def User_InGroup_def sample_group_def group_flag_def Group_CanDo_def)

lemma sample_key: "KeyValidator ''a''"
  by code_simp

lemma set_get_commands_witness:
  "\<exists>k1 k2 s1 s2. asks_for no_hooks sample_env ''SET'' [''a'', in_quotes ''x''] (sample_processor ''k'' [CommandSet, CommandGet]) s1 k1 \<and>
     asks_for no_hooks sample_env ''GET'' [''a''] k1 s2 k2"
proof -
  let ?k = "sample_processor ''k'' [CommandSet, CommandGet]"
  have u: "se_user (co_session ?k) = sample_user ''k''"
    by (simp add: sample_processor_def)
  have "rocks_ok (e_rocks sample_env) map_of" by (simp add: sample_env_def table_rocks_ok)
  from set_get_commands [of ?k, OF sample_lookup_in(1) refl sample_lookup_in(2) refl _ _ sample_key this, of no_hooks "''x''"]
    sample_free show ?thesis unfolding u by blast
qed


section \<open>MULTI\<close>

text \<open>Rounds of the main loop for one user whose queries have all been answered in between.\<close>

primrec flush_rounds :: "hooks \<Rightarrow> ('d, 'n) env \<Rightarrow> nat \<Rightarrow> ('d, 'n) commander \<Rightarrow> ('d, 'n) commander res" where
  "flush_rounds H E 0 k = Inr k"
| "flush_rounds H E (Suc n) k = bind_res (flush_user H E k) (\<lambda>(_, k). flush_rounds H E n k)"

text \<open>A user, up to its times and the state of its queue of commands.\<close>

definition core_of :: "client \<Rightarrow> client" where
  "core_of u = u\<lparr>cl_touchbase := 0, cl_next_ping_check := 0, cl_PendingMulti := [], cl_Multi := False,
     cl_MultiRunning := False\<rparr>"

definition same_client :: "client \<Rightarrow> client \<Rightarrow> bool" where
  "same_client u v \<longleftrightarrow> core_of v = core_of u"

text \<open>\<open>es\<close> is what \<open>Execute\<close> does on a command of \<open>u\<close> in the world \<open>w\<close>.\<close>

definition executed :: "hooks \<Rightarrow> ('d, 'n) env \<Rightarrow> client \<Rightarrow> 'd world \<Rightarrow> PendingCMD \<Rightarrow> 'd event list \<Rightarrow> bool" where
  "executed H E u w m es \<longleftrightarrow> (\<exists>(k :: ('d, 'n) commander) k'. same_client u (se_user (co_session k)) \<and> se_world (co_session k) = w \<and>
     CommandHandler_Execute H E (fst m) (snd m) k = Inr k' \<and> se_log (co_session k') = se_log (co_session k) @ es)"

definition in_multi :: "client \<Rightarrow> 'd world \<Rightarrow> PendingCMD list \<Rightarrow> ('d, 'n) commander \<Rightarrow> bool" where
  "in_multi u w ms k \<longleftrightarrow>
     same_client u (se_user (co_session k)) \<and> se_world (co_session k) = w \<and>
     cl_MultiRunning (se_user (co_session k)) \<and> \<not> cl_Multi (se_user (co_session k)) \<and>
     cl_PendingMulti (se_user (co_session k)) = ms \<and> (\<forall>m \<in> set ms. serves (co_commands k) (fst m))"

definition waits_for_mrun :: "client \<Rightarrow> bool" where
  "waits_for_mrun u \<longleftrightarrow>
     cl_PendingList u \<noteq> [] \<and> fst (hd (cl_PendingList u)) = ''MRUN'' \<and> \<not> cl_Locked u \<and> \<not> cl_quitting u"

lemma waits_core: "waits_for_mrun (core_of u) = waits_for_mrun u"
  by (simp add: waits_for_mrun_def core_of_def)

lemma waits_same: "same_client u v \<Longrightarrow> waits_for_mrun v = waits_for_mrun u"
  using waits_core by (metis same_client_def)

lemma same_client_refl: "same_client u u"
  by (simp add: same_client_def)

lemma same_client_step:
  assumes "same_client u v"
  shows "same_client u (v\<lparr>cl_PendingMulti := p\<rparr>)" "same_client u (v\<lparr>cl_Multi := m\<rparr>)"
    "same_client u (v\<lparr>cl_MultiRunning := r\<rparr>)" "same_client u (v\<lparr>cl_touchbase := a, cl_next_ping_check := b\<rparr>)"
  using assms unfolding same_client_def core_of_def by simp_all

lemma multi_round:
  assumes "in_multi u w (m # ms) k" "waits_for_mrun u" "length (snd m) < 2 ^ 32 - 1"
  shows "\<exists>k1 es. flush_user H E k = Inr (Next True, k1) \<and> in_multi u w ms k1 \<and>
    se_log (co_session k1) = se_log (co_session k) @ es \<and> executed H E u w m es"
proof -
  let ?v = "se_user (co_session k)"
  note k = assms(1) [unfolded in_multi_def]
  from k assms(2) have w: "waits_for_mrun ?v" using waits_same by blast
  from k have served: "serves (co_commands k) (fst m)" by simp
  obtain k' where e0: "CommandHandler_Execute H E (fst m) (snd m) k = Inr k'"
    "touched (co_session k) (co_session k')" "same_table (co_commands k) (co_commands k')"
    using execute_touched [OF served assms(3), of H E] by blast
  from e0(2) obtain a b es where e: "se_user (co_session k') = ?v\<lparr>cl_touchbase := a, cl_next_ping_check := b\<rparr>"
    "se_world (co_session k') = se_world (co_session k)" "se_log (co_session k') = se_log (co_session k) @ es"
    unfolding touched_def by blast
  note e = e0(1) e
  have "\<forall>m \<in> set ms. serves (co_commands k') (fst m)" using k serves_same [OF e0(3)] by simp
  note e = e this
  from e k have x: "executed H E u w m es" unfolding executed_def by blast
  let ?k1 = "on_session (on_user (\<lambda>u. u\<lparr>cl_PendingMulti := ms\<rparr>)) k'"
  have "flush_user H E k = Inr (Next True, ?k1)"
    using k w e(1,2) by (auto simp: flush_user_def pop_multi_def Let_def waits_for_mrun_def neq_Nil_conv
        on_session_def on_user_def)
  moreover have "in_multi u w ms ?k1"
    using k e by (auto simp: in_multi_def on_session_def on_user_def same_client_step)
  moreover have "se_log (co_session ?k1) = se_log (co_session k) @ es"
    using e(4) by (simp add: on_session_def on_user_def)
  ultimately show ?thesis using x by blast
qed

lemma multi_rounds:
  assumes "in_multi u w ms k" "waits_for_mrun u" "\<forall>m\<in>set ms. length (snd m) < 2 ^ 32 - 1"
  shows "\<exists>k1 ess. flush_rounds H E (length ms) k = Inr k1 \<and> in_multi u w [] k1 \<and>
    se_log (co_session k1) = se_log (co_session k) @ concat ess \<and> list_all2 (executed H E u w) ms ess"
  using assms(1,3)
proof (induction ms arbitrary: k)
  case (Cons m ms)
  obtain k1 es where 1: "flush_user H E k = Inr (Next True, k1)" "in_multi u w ms k1"
    "se_log (co_session k1) = se_log (co_session k) @ es" "executed H E u w m es"
    using multi_round [OF Cons.prems(1) assms(2)] Cons.prems(2) by fastforce
  obtain k2 ess where 2: "flush_rounds H E (length ms) k1 = Inr k2" "in_multi u w [] k2"
    "se_log (co_session k2) = se_log (co_session k1) @ concat ess" "list_all2 (executed H E u w) ms ess"
    using Cons.IH [OF 1(2)] Cons.prems(2) by fastforce
  from 1 2 show ?case by (intro exI [of _ k2] exI [of _ "es # ess"]) simp
qed (auto intro!: exI [of _ "[]"])

definition multi_line :: "nat \<Rightarrow> client \<Rightarrow> 'd event list" where
  "multi_line code u = (if cl_agent u = DEFAULT_EMERALD then [] else [Send (cl_id u) code []])"

lemma multi_line_log: "se_log (JustAPI_to code s) = se_log s @ multi_line code (se_user s)"
  "se_user (JustAPI_to code s) = se_user s" "se_world (JustAPI_to code s) = se_world s"
  by (auto simp: JustAPI_to_def multi_line_def SendProtocol_def happens_def)

lemma multi_line_core: "multi_line code (core_of u) = multi_line code u"
  by (simp add: multi_line_def core_of_def)

lemma multi_line_same: "same_client u v \<Longrightarrow> multi_line code v = multi_line code u"
  using multi_line_core by (metis same_client_def)

lemma multi_stop:
  assumes "in_multi u w [] k" "waits_for_mrun u"
  shows "\<exists>k1. flush_user H E k = Inr (Next False, k1) \<and> same_client u (se_user (co_session k1)) \<and>
    \<not> cl_MultiRunning (se_user (co_session k1)) \<and> \<not> cl_Multi (se_user (co_session k1)) \<and>
    cl_PendingMulti (se_user (co_session k1)) = [] \<and>
    se_log (co_session k1) = se_log (co_session k) @ multi_line BRLD_MULTI_STOP u"
proof -
  let ?v = "se_user (co_session k)"
  note k = assms(1) [unfolded in_multi_def]
  from k assms(2) have w: "waits_for_mrun ?v" using waits_same by blast
  let ?k1 = "on_session (JustAPI_to BRLD_MULTI_STOP) (on_session (on_user (\<lambda>u. u\<lparr>cl_MultiRunning := False\<rparr>)) k)"
  have "flush_user H E k = Inr (Next False, ?k1)"
    using k w by (auto simp: flush_user_def Let_def waits_for_mrun_def neq_Nil_conv)
  moreover have "same_client u (se_user (co_session ?k1))" "\<not> cl_MultiRunning (se_user (co_session ?k1))"
    "\<not> cl_Multi (se_user (co_session ?k1))" "cl_PendingMulti (se_user (co_session ?k1)) = []"
    using k by (auto simp: on_session_def on_user_def multi_line_log same_client_step)
  moreover have "se_log (co_session ?k1) = se_log (co_session k) @ multi_line BRLD_MULTI_STOP u"
    using k multi_line_same [OF same_client_step(3), of u ?v]
    by (simp add: on_session_def on_user_def multi_line_log)
  ultimately show ?thesis by blast
qed

lemma multi_start:
  assumes "waits_for_mrun u" "cl_Multi u" "se_user (co_session k) = u"
  shows "flush_user H E k = flush_user H E (on_session (JustAPI_to BRLD_MULTI_START)
    (on_session (on_user (\<lambda>u. u\<lparr>cl_MultiRunning := True, cl_Multi := False\<rparr>)) k))"
  using assms
  by (auto simp: flush_user_def Let_def waits_for_mrun_def neq_Nil_conv on_session_def on_user_def multi_line_log)

lemma flush_rounds_append: "flush_rounds H E (m + n) k = bind_res (flush_rounds H E m k) (flush_rounds H E n)"
  by (induction m arbitrary: k) (auto simp: bind_res_def split: sum.splits)

text \<open>
  C12: MULTI runs what it queued, in order: when MRUN of a user comes to the head of its list, the
  rounds of the main loop that follow announce the start, execute each command of the queue once,
  in the order given and in the unchanged world and user, and announce the stop; then the queue is
  empty and the user out of MULTI, and nothing else was sent or pushed in between. Each name in
  the queue is either unknown to the table of commands or resolves to a command on data of the
  model, with any limits left in it, that is not one of the nine that exceptions lists; the other
  entries of the table are free. Queues that hold other commands (MULTI itself, EXIT, TTL, those
  on channels and logins) are not covered.
\<close>

theorem multi_in_order:
  assumes "u = se_user (co_session k)" "waits_for_mrun u" "cl_Multi u" "cl_PendingMulti u = ms"
    and "\<forall>m\<in>set ms. length (snd m) < 2 ^ 32 - 1" "\<forall>m\<in>set ms. serves (co_commands k) (fst m)"
  shows "\<exists>k' ess. flush_rounds H E (length ms + 1) k = Inr k' \<and>
    list_all2 (executed H E u (se_world (co_session k))) ms ess \<and>
    se_log (co_session k') =
      se_log (co_session k) @ multi_line BRLD_MULTI_START u @ concat ess @ multi_line BRLD_MULTI_STOP u \<and>
    same_client u (se_user (co_session k')) \<and> cl_PendingMulti (se_user (co_session k')) = [] \<and>
    \<not> cl_Multi (se_user (co_session k')) \<and> \<not> cl_MultiRunning (se_user (co_session k'))"
proof -
  let ?k = "on_session (JustAPI_to BRLD_MULTI_START)
    (on_session (on_user (\<lambda>u. u\<lparr>cl_MultiRunning := True, cl_Multi := False\<rparr>)) k)"
  let ?w = "se_world (co_session k)"
  have u1: "se_user (co_session ?k) = u\<lparr>cl_MultiRunning := True, cl_Multi := False\<rparr>"
    using assms(1) by (simp add: on_session_def on_user_def multi_line_log)
  have same: "same_client u (u\<lparr>cl_MultiRunning := True, cl_Multi := False\<rparr>)"
    by (simp add: same_client_def core_of_def)
  have inm: "in_multi u ?w ms ?k"
    using assms(4,6) same unfolding in_multi_def u1
    by (auto simp: on_session_def on_user_def multi_line_log)
  have log: "se_log (co_session ?k) = se_log (co_session k) @ multi_line BRLD_MULTI_START u"
    using assms(1) multi_line_same [OF same, of BRLD_MULTI_START]
    by (simp add: on_session_def on_user_def multi_line_log)
  obtain k1 ess where 1: "flush_rounds H E (length ms) ?k = Inr k1" "in_multi u ?w [] k1"
    "se_log (co_session k1) = se_log (co_session ?k) @ concat ess" "list_all2 (executed H E u ?w) ms ess"
    using multi_rounds [OF inm assms(2,5)] by blast
  obtain k2 where 2: "flush_user H E k1 = Inr (Next False, k2)" "same_client u (se_user (co_session k2))"
    "\<not> cl_MultiRunning (se_user (co_session k2))" "\<not> cl_Multi (se_user (co_session k2))"
    "cl_PendingMulti (se_user (co_session k2)) = []"
    "se_log (co_session k2) = se_log (co_session k1) @ multi_line BRLD_MULTI_STOP u"
    using multi_stop [OF 1(2) assms(2)] by blast
  have "flush_rounds H E (length ms + 1) k = flush_rounds H E (length ms + 1) ?k"
    using multi_start [OF assms(2,3), of k H E] assms(1) by simp
  also have "\<dots> = Inr k2"
    unfolding flush_rounds_append using 1(1) 2(1) by simp
  finally show ?thesis using 1 2 log by auto
qed

section \<open>The theorems on the sample user\<close>

lemma sample_served: "\<forall>c \<in> snd ` set (co_commands (sample_processor fs [CommandSet, CommandGet])). served c"
proof -
  have "CommandSet \<in> set all_commands" "CommandGet \<in> set all_commands"
    by (simp_all add: all_commands_def key_commands_def)
  moreover have "cm_name CommandSet \<notin> set exceptions" "cm_name CommandGet \<notin> set exceptions"
    by (simp_all add: CommandSet_def CommandGet_def Command_def exceptions_def)
  ultimately have "served CommandSet" "served CommandGet" unfolding served_def using same_command by blast+
  then show ?thesis by (simp add: sample_processor_def)
qed

lemma execute_returns_witness:
  "\<exists>k'. CommandHandler_Execute no_hooks sample_env ''SET'' [''a''] (sample_processor ''k'' [CommandSet, CommandGet]) = Inr k' \<and>
     (\<forall>c \<in> snd ` set (co_commands k'). served c)"
proof -
  have "length [''a''] < 2 ^ 32 - 1" by simp
  from execute_returns [OF sample_served this] show ?thesis by blast
qed

text \<open>The group of the sample is one that an update with its flag makes of a new one.\<close>

lemma sample_group_made: "group_made sample_env (sample_group ''k'')"
proof -
  let ?new = "new_Group 0 ''staff''"
  have "case Group_UpdateFlags sample_env ''k'' ?new (world_of [] []) of
      Inr (ok, g, w) \<Rightarrow> g = sample_group ''k'' | Inl e \<Rightarrow> False"
    by code_simp
  then obtain ok w where "Group_UpdateFlags sample_env ''k'' ?new (world_of [] []) = Inr (ok, sample_group ''k'', w)"
    by (auto split: sum.splits)
  then show ?thesis by (rule group_made.updated [OF group_made.created])
qed

lemma pushes_are_allowed_witness:
  "\<exists>k'. CommandHandler_Execute no_hooks sample_env ''SET'' [''a'', in_quotes ''x''] (sample_processor ''k'' [CommandSet, CommandGet]) = Inr k' \<and>
     pushed (se_log (co_session k')) \<noteq> [] \<and>
     (\<exists>c. GetBase ''SET'' (co_commands (sample_processor ''k'' [CommandSet, CommandGet])) = Some c \<and> may_run c (sample_user ''k''))"
proof -
  let ?k = "sample_processor ''k'' [CommandSet, CommandGet]"
  have u: "se_user (co_session ?k) = sample_user ''k''" and l: "pushed (se_log (co_session ?k)) = []"
    by (simp_all add: sample_processor_def pushed_def)
  have free: "runs_freely no_hooks CommandSet (se_user (co_session ?k))" unfolding u by (rule sample_free)
  obtain k' where k': "CommandHandler_Execute no_hooks sample_env ''SET'' [''a'', in_quotes ''x''] ?k = Inr k'"
    "pushed (se_log (co_session k')) \<noteq> pushed (se_log (co_session ?k))"
    using set_asks_for [OF sample_lookup_in(1) refl free sample_key, of sample_env "''x''"] unfolding asks_for_def by auto
  have "\<forall>g\<in>set (cl_Groups (se_user (co_session ?k))). group_made sample_env g"
    unfolding u using sample_group_made by (simp add: sample_user_def)
  from pushes_are_allowed [OF k' this] k' show ?thesis unfolding u l by blast
qed

definition multi_processor :: "(table, int) commander" where
  "multi_processor = on_session (on_user (\<lambda>u. u\<lparr>cl_Multi := True, cl_PendingList := [(''MRUN'', [])],
     cl_PendingMulti := [(''SET'', [''a'', in_quotes ''x'']), (''GET'', [''a''])]\<rparr>))
     (sample_processor ''k'' [CommandSet, CommandGet])"

lemma multi_in_order_witness:
  "\<exists>k' ess. flush_rounds no_hooks sample_env 3 multi_processor = Inr k' \<and> length ess = 2 \<and>
     se_log (co_session k') = [Send 7 BRLD_MULTI_START []] @ concat ess @ [Send 7 BRLD_MULTI_STOP []]"
proof -
  let ?u = "se_user (co_session multi_processor)"
  have u: "?u = (sample_user ''k'')\<lparr>cl_Multi := True, cl_PendingList := [(''MRUN'', [])],
      cl_PendingMulti := [(''SET'', [''a'', in_quotes ''x'']), (''GET'', [''a''])]\<rparr>"
    and log: "se_log (co_session multi_processor) = []"
    and cs: "co_commands multi_processor = co_commands (sample_processor ''k'' [CommandSet, CommandGet])"
    by (simp_all add: multi_processor_def on_session_def on_user_def sample_processor_def)
  have w: "waits_for_mrun ?u" "cl_Multi ?u" "cl_PendingMulti ?u = [(''SET'', [''a'', in_quotes ''x'']), (''GET'', [''a''])]"
    unfolding u by (simp_all add: waits_for_mrun_def sample_user_def)
  have len: "\<forall>m\<in>set [(''SET'', [''a'', in_quotes ''x'']), (''GET'', [''a''])]. length (snd m) < 2 ^ 32 - 1" by simp
  have all: "\<forall>m\<in>set [(''SET'', [''a'', in_quotes ''x'']), (''GET'', [''a''])]. serves (co_commands multi_processor) (fst m)"
    unfolding cs using serves_all [OF sample_served] by simp
  have line: "multi_line c ?u = [Send 7 c []]" for c
    unfolding u by (simp add: multi_line_def sample_user_def DEFAULT_EMERALD_def)
  obtain k' ess where "flush_rounds no_hooks sample_env (length [(''SET'', [''a'', in_quotes ''x'']), (''GET'', [''a''])] + 1) multi_processor = Inr k'"
    "list_all2 (executed no_hooks sample_env ?u (se_world (co_session multi_processor))) [(''SET'', [''a'', in_quotes ''x'']), (''GET'', [''a''])] ess"
    "se_log (co_session k') = se_log (co_session multi_processor) @ multi_line BRLD_MULTI_START ?u @ concat ess @ multi_line BRLD_MULTI_STOP ?u"
    using multi_in_order [OF refl w len all, of no_hooks sample_env] by blast
  then show ?thesis unfolding line log
    by (intro exI [of _ k'] exI [of _ ess]) (auto simp: eval_nat_numeral dest: list_all2_lengthD)
qed

end
