(* ===== verification/ProtocolFacts.thy ===== *)
theory ProtocolFacts
  imports Protocol
begin

text \<open>
  A message put in a line and sent is read back: the lines of \<open>StreamData\<close>, and the command and
  the parameters of \<open>Serializer::Parse\<close>.
\<close>

section \<open>Tokens from a position\<close>

text \<open>The tokens, from what is left of the message.\<close>

lemma find_char_drop:
  assumes "drop p m = tok @ c # rest" "c \<notin> set tok"
  shows "find_char c m p = Some (p + length tok)"
proof -
  from assms(1) have "length (drop p m) = length tok + 1 + length rest" by simp
  then have len: "p + length tok < length m" by simp
  have "takeWhile (\<lambda>x. x \<noteq> c) (drop p m) = tok"
    unfolding assms(1) using assms(2) by (subst takeWhile_append2) auto
  with len show ?thesis by (simp add: find_char_def)
qed

lemma find_char_none: "c \<notin> set (drop p m) \<Longrightarrow> find_char c m p = None"
proof -
  assume "c \<notin> set (drop p m)"
  then have "takeWhile (\<lambda>x. x \<noteq> c) (drop p m) = drop p m" unfolding takeWhile_eq_all_conv by auto
  then show ?thesis by (simp only: find_char_def Let_def) simp
qed

lemma find_first_not_of_drop:
  assumes "drop p m = c # d # rest" "d \<noteq> c"
  shows "find_first_not_of c m p = Some (p + 1)"
proof -
  from assms(1) have "length (drop p m) = length rest + 2" by simp
  then have len: "p + 1 < length m" by simp
  have "takeWhile (\<lambda>x. x = c) (drop p m) = [c]"
    unfolding assms(1) using assms(2) by simp
  with len show ?thesis by (simp add: find_first_not_of_def)
qed

lemma drop_more: "drop p m = xs @ ys \<Longrightarrow> drop (p + length xs) m = ys"
  by (metis add.commute append_eq_conv_conj drop_drop)

abbreviation at :: "string \<Rightarrow> nat \<Rightarrow> token_node_stream" where
  "at m p \<equiv> \<lparr>tn_message = m, tn_position = Some p\<rparr>"

lemma get_middle_token:
  assumes "drop p m = tok @ CHR '' '' # d # rest" "CHR '' '' \<notin> set tok" "d \<noteq> CHR '' ''"
  shows "get_middle (at m p) = (True, tok, at m (p + length tok + 1))"
proof -
  from assms(1) have "length (drop p m) = length tok + 2 + length rest" by simp
  then have len: "p < length m" by simp
  have "drop (p + length tok) m = CHR '' '' # d # rest"
    using drop_more [OF assms(1)] .
  from find_first_not_of_drop [OF this assms(3)] find_char_drop [OF assms(1,2)] len assms(1)
  show ?thesis by (simp add: get_middle_def tn_finished_def)
qed

lemma get_middle_end:
  assumes "drop p m = tok" "tok \<noteq> []" "CHR '' '' \<notin> set tok"
  shows "get_middle (at m p) = (True, tok, at m (length m))"
proof -
  from assms(1,2) have len: "p < length m" by auto
  from assms find_char_none [of "CHR '' ''" p m] len show ?thesis
    by (simp add: get_middle_def tn_finished_def)
qed

lemma get_trailing_middle:
  assumes "drop p m = tok @ r" "tok \<noteq> []" "hd tok \<noteq> CHR '':''"
  shows "get_trailing (at m p) = get_middle (at m p)"
proof -
  from assms(1,2) have len: "p < length m" by (metis append_is_Nil_conv drop_all leI)
  from assms(1,2) have "m ! p = hd tok" by (metis hd_append2 hd_drop_conv_nth len)
  with assms(3) len show ?thesis by (simp add: get_trailing_def tn_finished_def)
qed

lemma get_trailing_last:
  assumes "drop p m = CHR '':'' # r"
  shows "get_trailing (at m p) = (True, r, at m (length m))"
proof -
  from assms have len: "p < length m" by (metis drop_all leI list.distinct(1))
  from assms have "m ! p = CHR '':''" by (metis hd_drop_conv_nth len list.sel(1))
  moreover from assms have "drop (p + 1) m = r" by (metis drop_Suc drop_tl list.sel(3) Suc_eq_plus1)
  ultimately show ?thesis using len by (simp add: get_trailing_def tn_finished_def)
qed

lemma trailing_tokens_end: "trailing_tokens (at m (length m)) = []"
  by (subst trailing_tokens.simps) (simp add: get_trailing_def tn_finished_def)

section \<open>Parameters\<close>

text \<open>A parameter that may stand before the last one.\<close>

definition plain_param :: "string \<Rightarrow> bool" where
  "plain_param p \<longleftrightarrow> p \<noteq> [] \<and> CHR '' '' \<notin> set p \<and> hd p \<noteq> CHR '':''"

lemma trailing_tokens_params:
  assumes "list_all plain_param qs" "drop p m = concat (map (\<lambda>q. q @ '' '') qs) @ CHR '':'' # r"
  shows "trailing_tokens (at m p) = qs @ [r]"
  using assms
proof (induction qs arbitrary: p)
  case Nil
  then show ?case
    by (subst trailing_tokens.simps) (simp add: get_trailing_last trailing_tokens_end)
next
  case (Cons q qs)
  let ?rest = "concat (map (\<lambda>q. q @ '' '') qs) @ CHR '':'' # r"
  have q: "plain_param q" "list_all plain_param qs" using Cons.prems by auto
  have d: "drop p m = q @ CHR '' '' # ?rest" using Cons.prems(2) by simp
  have ne: "\<exists>a rest. ?rest = a # rest \<and> a \<noteq> CHR '' ''"
  proof (cases qs)
    case (Cons q' qs')
    with q(2) have "plain_param q'" by simp
    with Cons show ?thesis by (cases q') (auto simp: plain_param_def)
  qed simp
  then obtain a rest where a: "?rest = a # rest" "a \<noteq> CHR '' ''" by blast
  have "get_trailing (at m p) = get_middle (at m p)"
    using get_trailing_middle [OF d] q(1) by (simp add: plain_param_def)
  also have "\<dots> = (True, q, at m (p + length q + 1))"
    using get_middle_token [of p m q a rest] d a q(1) by (simp add: plain_param_def)
  finally have g: "get_trailing (at m p) = (True, q, at m (p + length q + 1))" .
  have "drop (p + length q + 1) m = ?rest"
    using drop_more [of p m "q @ '' ''" ?rest] d by (simp add: add.assoc)
  from Cons.IH [OF q(2) this] g show ?case
    by (subst trailing_tokens.simps) simp
qed

lemma spaced: "concat (map (\<lambda>p. CHR '' '' # p) qs) @ CHR '' '' # r = CHR '' '' # concat (map (\<lambda>q. q @ '' '') qs) @ r"
  by (induction qs) auto

section \<open>Lines\<close>

definition line_safe :: "string \<Rightarrow> bool" where
  "line_safe s \<longleftrightarrow> CHR 0x00 \<notin> set s \<and> CHR 0x0A \<notin> set s \<and> CHR 0x0D \<notin> set s"

lemma clean_line_safe: "line_safe s \<Longrightarrow> clean_line s = s"
  by (induction s) (auto simp: clean_line_def line_safe_def)

lemma StreamData_line:
  assumes "line_safe s"
  shows "StreamData (s @ CHR 0x0D # CHR 0x0A # rest) = (case StreamData rest of (ls, r) \<Rightarrow> (s # ls, r))"
proof -
  let ?r = "s @ CHR 0x0D # CHR 0x0A # rest"
  have nl: "\<forall>c \<in> set s. c \<noteq> CHR 0x0A" using assms by (auto simp: line_safe_def)
  have t: "takeWhile (\<lambda>c. c \<noteq> CHR 0x0A) ?r = s @ [CHR 0x0D]"
    using nl by (subst takeWhile_append2) auto
  have "clean_line (s @ [CHR 0x0D]) = s"
    using clean_line_safe [OF assms] by (simp add: clean_line_def)
  with t show ?thesis
    by (subst StreamData.simps) (simp split: prod.split)
qed

lemma StreamData_none: "CHR 0x0A \<notin> set rest \<Longrightarrow> StreamData rest = ([], rest)"
  by (subst StreamData.simps) simp


definition plain_source :: "string option \<Rightarrow> bool" where
  "plain_source src = (case src of None \<Rightarrow> True | Some s \<Rightarrow> CHR '' '' \<notin> set s)"

definition source_part :: "string option \<Rightarrow> string" where
  "source_part src = (case src of None \<Rightarrow> [] | Some s \<Rightarrow> '':'' @ s @ '' '')"

definition params_part :: "string list \<Rightarrow> string" where
  "params_part ps = (if ps = [] then []
     else CHR '' '' # concat (map (\<lambda>q. q @ '' '') (butlast ps)) @ CHR '':'' # last ps)"

lemma params_line:
  "(if ps = [] then l else l @ concat (map (\<lambda>p. CHR '' '' # p) (butlast ps)) @ '' :'' @ last ps) = l @ params_part ps"
  using spaced [of "butlast ps" "CHR '':'' # last ps"] by (simp add: params_part_def)

lemma Serialize_eq:
  "Serializer_Serialize src command ps =
     (let line = source_part src @ command @ params_part ps
      in (if length line > INPUT_LIMIT then take INPUT_LIMIT line else line) @ [CHR 0x0D, CHR 0x0A])"
  unfolding Serializer_Serialize_def Let_def params_line
  by (cases src) (simp_all add: source_part_def)

lemma Serialize_parts:
  "length (source_part src @ command @ params_part ps) \<le> INPUT_LIMIT \<Longrightarrow>
   Serializer_Serialize src command ps = (source_part src @ command @ params_part ps) @ [CHR 0x0D, CHR 0x0A]"
  unfolding Serialize_eq by (simp only: Let_def) simp

lemma command_tokens:
  assumes "drop p m = command @ params_part ps" "plain_param command" "list_all plain_param (butlast ps)"
  obtains t where "get_middle (at m p) = (True, command, t)" "trailing_tokens t = ps"
proof (cases "ps = []")
  case True
  with assms that [of "at m (length m)"] show ?thesis
    by (simp add: params_part_def plain_param_def get_middle_end trailing_tokens_end)
next
  case False
  let ?rest = "concat (map (\<lambda>q. q @ '' '') (butlast ps)) @ CHR '':'' # last ps"
  have d: "drop p m = command @ CHR '' '' # ?rest" using assms(1) False by (simp add: params_part_def)
  have "\<exists>a rest. ?rest = a # rest \<and> a \<noteq> CHR '' ''"
  proof (cases "butlast ps")
    case (Cons q' qs')
    with assms(3) have "plain_param q'" by simp
    with Cons show ?thesis by (cases q') (auto simp: plain_param_def)
  qed simp
  then obtain a rest where a: "?rest = a # rest" "a \<noteq> CHR '' ''" by blast
  have g: "get_middle (at m p) = (True, command, at m (p + length command + 1))"
    using get_middle_token [of p m command a rest] d a assms(2) by (simp add: plain_param_def)
  have "drop (p + length command + 1) m = ?rest"
    using drop_more [of p m "command @ '' ''" ?rest] d by (simp add: add.assoc)
  from trailing_tokens_params [OF assms(3) this] g that False show ?thesis by simp
qed

lemma first_not_space: "c \<noteq> CHR '' '' \<Longrightarrow> find_first_not_of CHR '' '' (c # s) 0 = Some 0"
  by (simp add: find_first_not_of_def)

lemma Parse_line:
  assumes "plain_source src" "plain_param command" "hd command \<noteq> CHR 0x40" "list_all plain_param (butlast ps)"
    and "length (source_part src @ command @ params_part ps) \<le> INPUT_LIMIT - 2"
  shows "Serializer_Parse (source_part src @ command @ params_part ps) =
    Parsed \<lparr>po_cmd = command, po_params = ps, po_tags = []\<rparr>"
proof -
  define line where "line = source_part src @ command @ params_part ps"
  obtain c l where l: "line = c # l" "c \<noteq> CHR '' ''" "c \<noteq> CHR 0x40"
    using assms(2,3) by (cases src; cases command) (auto simp: line_def source_part_def plain_param_def)
  have whole: "token_node_stream line 0 (nat ((int INPUT_LIMIT - int 0 - 2) mod 2 ^ 64)) = at line 0"
    using assms(5) by (simp add: token_node_stream_def line_def [symmetric] INPUT_LIMIT_def)
  have parse: "Serializer_Parse line = (case get_middle (at line 0) of (_, token, tokens) \<Rightarrow>
      if deref token = CHR 0x40 then
        (if length token > INPUT_LIMIT then Too_long
         else (let tokens = cut_message (length token + INPUT_LIMIT - 1) tokens
               in case get_middle tokens of (False, _, _) \<Rightarrow> Not_parsed
                  | (True, token', tokens) \<Rightarrow> parse_command token' (line_tags token) tokens))
      else parse_command token [] tokens)"
    using whole l first_not_space [OF l(2), of l] by (simp add: Serializer_Parse_def Let_def)
  show ?thesis
  proof (cases src)
    case None
    then have "drop 0 line = command @ params_part ps" by (simp add: line_def source_part_def)
    from command_tokens [OF this assms(2,4)] obtain t
      where t: "get_middle (at line 0) = (True, command, t)" "trailing_tokens t = ps" by blast
    have "deref command \<noteq> CHR 0x40" "deref command \<noteq> CHR '':''"
      using assms(2,3) by (cases command; auto simp: deref_def plain_param_def)+
    with parse t show ?thesis by (simp add: parse_command_def line_def [symmetric])
  next
    case (Some s)
    let ?tok = "CHR '':'' # s"
    have d: "drop 0 line = ?tok @ CHR '' '' # command @ params_part ps"
      using Some by (simp add: line_def source_part_def)
    obtain a rest where a: "command @ params_part ps = a # rest" "a \<noteq> CHR '' ''"
      using assms(2) by (cases command) (auto simp: plain_param_def)
    have g: "get_middle (at line 0) = (True, ?tok, at line (length ?tok + 1))"
      using get_middle_token [of 0 line ?tok a rest] d a assms(1) Some by (simp add: plain_source_def)
    have "drop (length ?tok + 1) line = command @ params_part ps"
      using drop_more [of 0 line "?tok @ '' ''" "command @ params_part ps"] d by simp
    from command_tokens [OF this assms(2,4)] obtain t
      where t: "get_middle (at line (length ?tok + 1)) = (True, command, t)" "trailing_tokens t = ps" by blast
    with parse g show ?thesis by (simp add: parse_command_def deref_def line_def [symmetric])
  qed
qed

lemma safe_parts: "line_safe (a @ b) \<longleftrightarrow> line_safe a \<and> line_safe b"
  by (auto simp: line_safe_def)

lemma safe_params: "list_all line_safe ps \<Longrightarrow> line_safe (params_part ps)"
proof (cases ps rule: rev_cases)
  case (snoc qs q)
  assume "list_all line_safe ps"
  with snoc have "list_all line_safe qs" "line_safe q" by auto
  then have "line_safe (concat (map (\<lambda>q. q @ '' '') qs))" by (induction qs) (auto simp: line_safe_def)
  with \<open>line_safe q\<close> show ?thesis by (simp add: snoc params_part_def line_safe_def)
qed (simp add: params_part_def line_safe_def)

text \<open>
  C30: A message is read back: what Serialize makes of a source, a command and parameters is one
  complete line for the other side, and Parse of that line gives back the command and the
  parameters. The source is skipped; the last parameter may be empty, hold spaces and begin with a
  colon; no part holds a line break or a NUL and the line is within the limit.
\<close>

theorem parse_serialize:
  assumes "plain_source src" "plain_param command" "hd command \<noteq> CHR 0x40" "list_all plain_param (butlast ps)"
    and "line_safe (source_part src)" "line_safe command" "list_all line_safe ps"
    and "length (Serializer_Serialize src command ps) \<le> INPUT_LIMIT"
  shows "\<exists>line. StreamData (Serializer_Serialize src command ps) = ([line], []) \<and>
    Serializer_Parse line = Parsed \<lparr>po_cmd = command, po_params = ps, po_tags = []\<rparr>"
proof -
  let ?line = "source_part src @ command @ params_part ps"
  have short: "length ?line \<le> INPUT_LIMIT"
  proof (rule ccontr)
    assume "\<not> length ?line \<le> INPUT_LIMIT"
    then have "length (Serializer_Serialize src command ps) = INPUT_LIMIT + 2"
      unfolding Serialize_eq Let_def by (subst if_P) (simp_all add: not_le)
    with assms(8) show False by simp
  qed
  note ser = Serialize_parts [OF this]
  have "line_safe ?line" using assms(5-7) safe_params by (simp add: safe_parts)
  from StreamData_line [OF this, of "[]"] have "StreamData (Serializer_Serialize src command ps) = ([?line], [])"
    unfolding ser by (simp add: StreamData_none)
  moreover have "length ?line \<le> INPUT_LIMIT - 2" using assms(8) ser by simp
  ultimately show ?thesis using Parse_line [OF assms(1-4)] by blast
qed

lemma parse_serialize_witness:
  "\<exists>line. StreamData (Serializer_Serialize (Some ''srv'') ''SET'' [''k'', ''a :b c'']) = ([line], []) \<and>
    Serializer_Parse line = Parsed \<lparr>po_cmd = ''SET'', po_params = [''k'', ''a :b c''], po_tags = []\<rparr>"
  by (rule parse_serialize)
    (simp_all add: plain_source_def plain_param_def source_part_def line_safe_def Serializer_Serialize_def
      INPUT_LIMIT_def)

end
