(* ===== verification/ValidatorFacts.thy ===== *)
theory ValidatorFacts
  imports Validators
begin

text \<open>Durations: what is printed is read back.\<close>

lemma duration_digits:
  "duration_loop t 0 (dec_of_nat n @ rest) = duration_loop t (of_nat n) rest"
proof (induction n arbitrary: rest rule: dec_of_nat.induct)
  case (1 n)
  show ?case
  proof (cases "n < 10")
    case True
    then show ?thesis by (subst dec_of_nat.simps) (simp add: of_char_digit_char)
  next
    case False
    have joined: "(of_nat (n div 10) * 10 + of_nat (n mod 10) :: u64) = of_nat n"
      by (metis div_mult_mod_eq of_nat_add of_nat_mult of_nat_numeral)
    have "duration_loop t 0 (dec_of_nat n @ rest) =
        duration_loop t 0 (dec_of_nat (n div 10) @ digit_char (n mod 10) # rest)"
      using False by (subst dec_of_nat.simps) simp
    also have "\<dots> = duration_loop t (of_nat (n div 10)) (digit_char (n mod 10) # rest)"
      using 1 False by blast
    also have "\<dots> = duration_loop t (of_nat (n div 10) * 10 + of_nat (n mod 10)) rest"
      by (simp add: of_char_digit_char)
    finally show ?thesis unfolding joined .
  qed
qed

lemma duration_part_loop:
  "\<not> is_digit u \<Longrightarrow> num_duration u \<noteq> 0 \<Longrightarrow>
   duration_loop t 0 (duration_part (int n) u @ rest) = duration_loop (t + of_nat n * ucast (num_duration u)) 0 rest"
  by (cases "n = 0") (simp_all add: duration_part_def dec_of_int_def duration_digits)

lemma duration_units:
  "\<not> is_digit CHR ''y''" "\<not> is_digit CHR ''w''" "\<not> is_digit CHR ''d''" "\<not> is_digit CHR ''h''"
  "\<not> is_digit CHR ''m''" "\<not> is_digit CHR ''s''"
  "num_duration CHR ''y'' = 31557600" "num_duration CHR ''w'' = 604800" "num_duration CHR ''d'' = 86400"
  "num_duration CHR ''h'' = 3600" "num_duration CHR ''m'' = 60" "num_duration CHR ''s'' = 1"
  by (simp_all add: is_digit_def num_duration_def)

lemma duration_parts:
  "duration_loop t 0 (duration_part (int n) CHR ''y'' @ rest) = duration_loop (t + of_nat (31557600 * n)) 0 rest"
  "duration_loop t 0 (duration_part (int n) CHR ''w'' @ rest) = duration_loop (t + of_nat (604800 * n)) 0 rest"
  "duration_loop t 0 (duration_part (int n) CHR ''d'' @ rest) = duration_loop (t + of_nat (86400 * n)) 0 rest"
  "duration_loop t 0 (duration_part (int n) CHR ''h'' @ rest) = duration_loop (t + of_nat (3600 * n)) 0 rest"
  "duration_loop t 0 (duration_part (int n) CHR ''m'' @ rest) = duration_loop (t + of_nat (60 * n)) 0 rest"
  "duration_loop t 0 (duration_part (int n) CHR ''s'' @ rest) = duration_loop (t + of_nat n) 0 rest"
  by (simp_all add: duration_part_loop duration_units mult.commute)

lemma duration_sum: "d = 31449600 * (d div 31449600) + 604800 * (d div 604800 mod 52) + 86400 * (d div 86400 mod 7) +
    3600 * (d div 3600 mod 24) + 60 * (d div 60 mod 60) + d mod 60" for d :: nat
proof -
  define m h y w k where "m = d div 60" and "h = m div 60" and "y = h div 24" and "w = y div 7" and "k = w div 52"
  have c: "d div 3600 = h" "d div 86400 = y" "d div 604800 = w" "d div 31449600 = k" "d div 60 = m"
    unfolding m_def h_def y_def w_def k_def div_mult2_eq [symmetric] by simp_all
  have "d = 60 * m + d mod 60" "m = 60 * h + m mod 60" "h = 24 * y + h mod 24" "y = 7 * w + y mod 7" "w = 52 * k + w mod 52"
    unfolding m_def h_def y_def w_def k_def by (rule mult_div_mod_eq [symmetric])+
  then show ?thesis unfolding c by linarith
qed

lemma signed_parts:
  "int d sdiv int c = int (d div c)" "int d smod int c = int (d mod c)"
  "(- int d) sdiv int c = - int (d div c)" "(- int d) smod int c = - int (d mod c)"
  by (simp_all add: signed_divide_int_def signed_modulo_int_def sgn_if zdiv_int abs_if zmod_int flip: minus_div_mult_eq_mod)

text \<open>The seconds, minutes, hours, days, weeks and years of a time.\<close>

lemma duration_fields:
  "duration_as_string (int d) =
     (if d = 0 then ''0s''
      else duration_part (int (d div 31449600)) CHR ''y'' @ duration_part (int (d div 604800 mod 52)) CHR ''w'' @
        duration_part (int (d div 86400 mod 7)) CHR ''d'' @ duration_part (int (d div 3600 mod 24)) CHR ''h'' @
        duration_part (int (d div 60 mod 60)) CHR ''m'' @ duration_part (int (d mod 60)) CHR ''s'')"
  "0 < d \<Longrightarrow> duration_as_string (- int d) =
     duration_part (- int (d div 31449600)) CHR ''y'' @ duration_part (- int (d div 604800 mod 52)) CHR ''w'' @
     duration_part (- int (d div 86400 mod 7)) CHR ''d'' @ duration_part (- int (d div 3600 mod 24)) CHR ''h'' @
     duration_part (- int (d div 60 mod 60)) CHR ''m'' @ duration_part (- int (d mod 60)) CHR ''s''"
  unfolding duration_as_string_def
  using signed_parts [of _ 31449600] signed_parts [of _ 604800] signed_parts [of _ 86400] signed_parts [of _ 3600]
    signed_parts [of _ 60] signed_parts [of _ 52] signed_parts [of _ 7] signed_parts [of _ 24]
  by simp_all

lemma duration_negative:
  "duration_loop t 0 (duration_part (- int n) u @ rest) = (if n = 0 then duration_loop t 0 rest else None)"
  by (simp add: duration_part_def dec_of_int_def is_digit_def num_duration_def)

lemma negative_refused:
  assumes "0 < d"
  shows "Daemon_Duration (duration_as_string (- int d)) = None"
proof -
  have "Daemon_Duration (duration_as_string (- int d) @ []) = None"
    unfolding Daemon_Duration_def duration_fields(2) [OF assms] append_assoc duration_negative
    using duration_sum [of d] assms by (auto split: if_splits)
  then show ?thesis by simp
qed

text \<open>
  C31: Durations are read back: what duration_as_string prints of a time that is not negative,
  Duration reads as that time and 108000 seconds more for each of its years (modulo 2^64), since
  the one counts a year as 52 weeks and the other as 365 days and six hours; below a year the text
  is exact. The text of a negative time is refused.
\<close>

theorem duration_roundtrip:
  "Daemon_Duration (duration_as_string d) =
     (if d < 0 then None else Some (of_int (d + 108000 * (d div 31449600))))"
proof (cases "d < 0")
  case True
  with negative_refused [of "nat (- d)"] show ?thesis by simp
next
  case False
  then obtain n where n: "d = int n" by (metis nonneg_int_cases not_less)
  have "Daemon_Duration (duration_as_string (int n)) = Some (of_nat (n + 108000 * (n div 31449600)))"
  proof (cases "n = 0")
    case True
    have "duration_as_string 0 = duration_part 0 CHR ''s'' @ ''0s''" by (simp add: duration_as_string_def duration_part_def)
    then show ?thesis using True by (simp add: Daemon_Duration_def duration_part_def duration_units is_digit_def)
  next
    case False
    have "Daemon_Duration (duration_as_string (int n) @ []) = Some (of_nat (31557600 * (n div 31449600) +
        604800 * (n div 604800 mod 52) + 86400 * (n div 86400 mod 7) + 3600 * (n div 3600 mod 24) +
        60 * (n div 60 mod 60) + n mod 60))"
      unfolding Daemon_Duration_def duration_fields(1) if_not_P [OF False] append_assoc
      unfolding duration_parts by simp
    also have "31557600 * (n div 31449600) + 604800 * (n div 604800 mod 52) + 86400 * (n div 86400 mod 7) +
        3600 * (n div 3600 mod 24) + 60 * (n div 60 mod 60) + n mod 60 = n + 108000 * (n div 31449600)"
      using duration_sum [of n] by linarith
    finally show ?thesis by simp
  qed
  moreover have "int n + 108000 * (int n div 31449600) = int (n + 108000 * (n div 31449600))"
    by (simp add: zdiv_int)
  ultimately show ?thesis unfolding n by (simp only: of_int_of_nat_eq) simp
qed
end
