(* ===== verification/ChannelCommands.thy ===== *)
theory ChannelCommands
  imports Channels
begin

text \<open>
  The commands on channels (\<open>coremods/core_channel\<close>), publishing (\<open>coremods/core_publish.cpp\<close>) and
  the modules that move other users (\<open>modules/m_forcejoin.cpp\<close>, \<open>m_forcepart.cpp\<close>,
  \<open>m_massjoin.cpp\<close>).  A command is given the environment, the user and the parameters.
\<close>

definition INVALID_CHAN :: string where "INVALID_CHAN = ''INVALID_CHAN''"
definition NOT_SUBSCRIBED :: string where "NOT_SUBSCRIBED = ''NOT_SUBSCRIBED''"
definition NO_CHANS :: string where "NO_CHANS = ''NO_CHANS''"
definition CHAN_MUTED :: string where "CHAN_MUTED = ''CHAN_MUTED''"
definition NO_EXTERNAL :: string where "NO_EXTERNAL = ''NO_EXTERNAL''"
definition BRLD_MASS_JOIN :: nat where "BRLD_MASS_JOIN = 244"



definition find_channel :: "string \<Rightarrow> 'd Kernel \<Rightarrow> (string \<times> Channel) option" where
  "find_channel name sv =
     (case Channels_Find name sv of
        None \<Rightarrow> None
      | Some k \<Rightarrow> (case channel_at sv k of None \<Rightarrow> None | Some c \<Rightarrow> Some (k, c)))"

section \<open>JOIN, PART, HOP\<close>

text \<open>A command of a \<open>MultiCommand\<close> answers INVALID to a user that is not local.\<close>

definition MultiCommand_Handle :: "nat \<Rightarrow> 'd on_params \<Rightarrow> 'd on_params" where
  "MultiCommand_Handle u h ps sv = (if IS_LOCAL sv u then h ps sv else Inr (INVALID, sv))"

definition sync_join :: "('d, 'n) env \<Rightarrow> nat \<Rightarrow> string \<Rightarrow> 'd kernel_op" where
  "sync_join E u chan sv =
     (if Settings_AsBool chansync sv then ClientManager_Join E u (us_login (sv_user sv u)) chan sv
      else Inr sv)"

definition join_one :: "('d, 'n) kernel_handler" where
  "join_one E u ps sv =
     bind_res (param ps 0) (\<lambda>p0.
     if \<not> ChannelValidator p0 then Inr (FAILED, send u ERR_INPUT [INVALID_CHAN] sv)
     else if (case find_channel p0 sv of None \<Rightarrow> False | Some (_, c) \<Rightarrow> Channel_GetUser u c \<noteq> None)
     then Inr (FAILED, send u ERR_INPUT [PROCESS_ALREADY] sv)
     else bind_res (Channel_JoinUser E False u p0 False sv) (\<lambda>(_, sv).
          bind_res (sync_join E u p0 sv) (\<lambda>sv. Inr (SUCCESS, sv))))"

definition CommandJoin_HandleLocal :: "('d, 'n) kernel_handler" where
  "CommandJoin_HandleLocal E u ps sv =
     (if length ps > 1 then with_loop SUCCESS ''JOIN'' u 0 1 False (join_one E u) ps sv
      else with_loop SUCCESS ''JOIN'' u 0 (- 1) False (join_one E u) ps sv)"

definition sync_part :: "('d, 'n) env \<Rightarrow> nat \<Rightarrow> string \<Rightarrow> 'd kernel_op" where
  "sync_part E u chan sv =
     (if Settings_AsBool chansync sv then ClientManager_Part E u (us_login (sv_user sv u)) chan sv
      else Inr sv)"

definition part_one :: "('d, 'n) kernel_handler" where
  "part_one E u ps sv =
     bind_res (param ps 0) (\<lambda>p0.
     case find_channel p0 sv of
       None \<Rightarrow> Inr (FAILED, NoChannel p0 u sv)
     | Some (k, _) \<Rightarrow>
         bind_res (Channel_PartUser E u k sv) (\<lambda>(parted, sv).
           if \<not> parted then Inr (FAILED, send u ERR_INPUT [NOT_SUBSCRIBED] sv)
           else bind_res (sync_part E u p0 sv) (\<lambda>sv. Inr (SUCCESS, sv))))"

definition CommandPart_Handle :: "('d, 'n) kernel_handler" where
  "CommandPart_Handle E u ps sv = with_loop SUCCESS ''PART'' u 0 (- 1) True (part_one E u) ps sv"

definition CommandPartAll_Handle :: "('d, 'n) kernel_handler" where
  "CommandPartAll_Handle E u ps sv =
     (if us_chans (sv_user sv u) = [] then Inr (FAILED, send u ERR_INPUT [NO_CHANS] sv)
      else bind_res
             (fold_res (\<lambda>k sv. bind_res (Channel_PartUser E u k sv) (\<lambda>(_, sv). Inr sv))
                (us_chans (sv_user sv u)) (send u BRLD_OK [PROCESS_OK] sv))
             (\<lambda>sv. Inr (SUCCESS, sv)))"

definition hop_one :: "('d, 'n) kernel_handler" where
  "hop_one E u ps sv =
     bind_res (param ps 0) (\<lambda>p0.
     case find_channel p0 sv of
       None \<Rightarrow> Inr (FAILED, NoChannel p0 u sv)
     | Some (k, c) \<Rightarrow>
         if Channel_IsSubscribed u c
         then bind_res (Channel_PartUser E u k sv) (\<lambda>(_, sv).
              bind_res (Channel_JoinUser E False u p0 True sv) (\<lambda>(_, sv). Inr (SUCCESS, sv)))
         else Inr (FAILED, send u ERR_INPUT [NOT_SUBSCRIBED] sv))"

definition CommandHop_HandleLocal :: "('d, 'n) kernel_handler" where
  "CommandHop_HandleLocal E u ps sv = with_loop SUCCESS ''HOP'' u 0 (- 1) True (hop_one E u) ps sv"

section \<open>MUTE and UNMUTE\<close>

definition CommandMute_Handle :: "('d, 'n) kernel_handler" where
  "CommandMute_Handle E u ps sv =
     bind_res (param ps 0) (\<lambda>p0.
     case find_channel p0 sv of
       None \<Rightarrow> Inr (FAILED, NoChannel p0 u sv)
     | Some (k, c) \<Rightarrow>
         if muted c then Inr (FAILED, send u ERR_INPUT [PROCESS_ALREADY] sv)
         else Inr (SUCCESS, send u BRLD_OK [PROCESS_OK] (on_channel k (\<lambda>c. c\<lparr>muted := True\<rparr>) sv)))"

definition CommandUnmute_Handle :: "('d, 'n) kernel_handler" where
  "CommandUnmute_Handle E u ps sv =
     bind_res (param ps 0) (\<lambda>p0.
     case find_channel p0 sv of
       None \<Rightarrow> Inr (FAILED, NoChannel p0 u sv)
     | Some (k, c) \<Rightarrow>
         if \<not> muted c then Inr (FAILED, send u ERR_INPUT [PROCESS_FALSE] sv)
         else Inr (SUCCESS, send u BRLD_OK [PROCESS_OK] (on_channel k (\<lambda>c. c\<lparr>muted := False\<rparr>) sv)))"

section \<open>Listings\<close>

text \<open>\<open>INVALID\<close> in the reply of USERS is the command result of that name, sent as a number.\<close>

definition slist_one :: "('d, 'n) kernel_handler" where
  "slist_one E u ps sv =
     bind_res (param ps 0) (\<lambda>p0.
     case find_channel p0 sv of
       None \<Rightarrow> Inr (FAILED, NoChannel p0 u sv)
     | Some (k, c) \<Rightarrow> Inr (SUCCESS, CommandSlist_SendSlist u c sv))"

definition CommandSlist_HandleLocal :: "('d, 'n) kernel_handler" where
  "CommandSlist_HandleLocal E u ps sv =
     (if ps = [] then Inr (SUCCESS, send u ERR_INPUT [''[<channel>[,<channel>]+]''] sv)
      else with_loop SUCCESS ''SLIST'' u 0 (- 1) True (slist_one E u) ps sv)"

definition CommandMyChans_Handle :: "('d, 'n) kernel_handler" where
  "CommandMyChans_Handle E u ps sv =
     Inr (SUCCESS, tell u (\<lambda>s. JustAPI_to BRLD_END_LIST (list_end
       (fold list_item (us_chans (sv_user sv u)) (list_top ''Channel'' s)))) sv)"

definition CommandChans_Handle :: "('d, 'n) kernel_handler" where
  "CommandChans_Handle E u ps sv =
     bind_res (param ps 0) (\<lambda>p0.
     case FindInstanceOnly p0 sv of
       None \<Rightarrow> Inr (FAILED, send u ERR_INPUT [PROCESS_NULL] sv)
     | Some found \<Rightarrow>
         Inr (SUCCESS, tell u (\<lambda>s. JustAPI_to BRLD_END_LIST (list_end
           (fold list_item (us_chans (sv_user sv found))
              (list_top (us_instance (sv_user sv found)) s)))) sv))"

definition CommandUsers_Handle :: "('d, 'n) kernel_handler" where
  "CommandUsers_Handle E u ps sv =
     bind_res (param ps 0) (\<lambda>p0.
     if \<not> ChannelValidator p0 then Inr (FAILED, send u ERR_INPUT [''2''] sv)
     else case find_channel p0 sv of
       None \<Rightarrow> Inr (FAILED, send u ERR_INPUT [NOT_FOUND] sv)
     | Some (k, c) \<Rightarrow> Inr (SUCCESS, send u BRLD_OK [dec_of_nat (GetClientCounter c)] sv))"

text \<open>\<open>convto_num<size_t>\<close>.\<close>

definition convto_num_size :: "string \<Rightarrow> 64 word" where
  "convto_num_size str =
     (case scan_int str of
        None \<Rightarrow> 0
      | Some (neg, v) \<Rightarrow> if v \<ge> 2 ^ 64 then 0 else if neg then - of_nat v else of_nat v)"

definition chan_limits :: "string list \<Rightarrow> 64 word \<times> 64 word" where
  "chan_limits ps =
     foldl (\<lambda>(minusers, maxusers) constraint.
       if deref constraint = CHR ''<'' then (minusers, convto_num_size (c_str (tl constraint)))
       else if deref constraint = CHR ''>'' then (convto_num_size (c_str (tl constraint)), maxusers)
       else (minusers, maxusers)) (0, 0) ps"

definition CommandListChans_Handle :: "('d, 'n) kernel_handler" where
  "CommandListChans_Handle E u ps sv =
     (let (minusers, maxusers) = chan_limits ps;
          shown = filter (\<lambda>p. let users = of_nat (GetClientCounter (snd p))
                    in \<not> (minusers \<noteq> 0 \<and> users \<le> minusers \<or> maxusers \<noteq> 0 \<and> users \<ge> maxusers)) (ChannelList sv)
      in Inr (SUCCESS, tell u (\<lambda>s. JustAPI_to BRLD_END_LIST
           (fold (\<lambda>p. ListDepend_to BRLD_ITEM_LIST
                   (pad 30 (ch_name (snd p)) @ '' | '' @ pad 10 (dec_of_nat (GetClientCounter (snd p))))
                   (c_str (ch_name (snd p)) @ '' '' @ dec_of_nat (GetClientCounter (snd p)))) shown
             (JustEmerald_to BRLD_START_LIST (pad 30 (Repeat dash 30) @ '' | '' @ pad 10 (Repeat dash 10))
               (JustEmerald_to BRLD_START_LIST (pad 30 ''Name'' @ '' | '' @ pad 10 ''Clients'')
                 (JustAPI_to BRLD_START_LIST s))))) sv))"

section \<open>Publishing\<close>

datatype MessageTarget = TYPE_CHANNEL string | TYPE_INSTANCE nat | TYPE_SERVER string

text \<open>\<open>OnInstancePrePublish\<close> of the module, which alone is asked: whether it stops the message.\<close>

definition OnInstancePrePublish :: "nat \<Rightarrow> MessageTarget \<Rightarrow> 'd Kernel \<Rightarrow> bool \<times> 'd Kernel" where
  "OnInstancePrePublish u target sv =
     (case target of
        TYPE_CHANNEL k \<Rightarrow>
          (case channel_at sv k of
             None \<Rightarrow> (False, sv)
           | Some chan \<Rightarrow>
               if \<not> IS_LOCAL sv u then (False, sv)
               else if muted chan
               then (True, send u ERR_INPUT2 [dec_of_nat ERR_MUTED, CHAN_MUTED] sv)
               else if \<not> User_InGroup CHR ''p'' (client_of sv u) \<and> \<not> User_IsAdmin (client_of sv u) \<and>
                       \<not> Channel_IsSubscribed u chan
               then (True, send u ERR_INPUT2 [dec_of_nat ERR_CANNOTSENDTOCHAN, NO_EXTERNAL] sv)
               else (False, sv))
      | _ \<Rightarrow> (False, sv))"

definition AlertPreEvents :: "nat \<Rightarrow> MessageTarget \<Rightarrow> string \<Rightarrow> 'd Kernel \<Rightarrow> bool \<times> 'd Kernel" where
  "AlertPreEvents source msgtarget msg sv =
     (case OnInstancePrePublish source msgtarget sv of
        (True, sv) \<Rightarrow> (False, sv)
      | (False, sv) \<Rightarrow>
          if msg = [] then (False, send source ERR_INPUT2 [dec_of_nat ERR_PUB_NOT_PROVIDED, NOT_DEFINED] sv)
          else (True, sv))"

definition AlertPostEvent :: "nat \<Rightarrow> 'd Kernel \<Rightarrow> COMMAND_RESULT \<times> 'd Kernel" where
  "AlertPostEvent source sv =
     (SUCCESS,
      if IS_LOCAL sv source
      then on_us source (on_client (\<lambda>c. c\<lparr>cl_touchbase := w_now (sv_world sv)\<rparr>)) sv else sv)"

definition HandleChannelTarget :: "nat \<Rightarrow> string \<Rightarrow> string \<Rightarrow> 'd Kernel \<Rightarrow> COMMAND_RESULT \<times> 'd Kernel" where
  "HandleChannelTarget source p0 msg sv =
     (case find_channel (c_str p0) sv of
        None \<Rightarrow> (FAILED, NoChannel p0 source sv)
      | Some (k, chan) \<Rightarrow>
          (case AlertPreEvents source (TYPE_CHANNEL k) msg sv of
             (False, sv) \<Rightarrow> (FAILED, sv)
           | (True, sv) \<Rightarrow>
               AlertPostEvent source
                 (Channel_Write chan (Publish_message source (ch_name chan) msg) {source} sv)))"

definition HandleServerTarget :: "nat \<Rightarrow> string \<Rightarrow> string \<Rightarrow> 'd Kernel \<Rightarrow> COMMAND_RESULT \<times> 'd Kernel" where
  "HandleServerTarget source p0 msg sv =
     (if \<not> User_IsAdmin (client_of sv source)
      then (FAILED, send source ERR_INPUT2 [dec_of_nat ERR_NO_FLAGS, ACCESS_DENIED] sv)
      else (case AlertPreEvents source (TYPE_SERVER (tl p0)) msg sv of
              (False, sv) \<Rightarrow> (FAILED, sv)
            | (True, sv) \<Rightarrow>
                AlertPostEvent source
                  (if Match (ServerName sv) (tl p0)
                   then fold (\<lambda>u sv. if us_registered (sv_user sv u) \<noteq> REG_OK \<or> u = source then sv
                                      else send_event (Publish_message source ''$*'' msg) u sv)
                          (local_users sv) sv
                   else sv)))"

text \<open>
  \<open>instance@server\<close>: every user is on this server, so that another server's name finds nobody.
\<close>

definition local_target :: "string \<Rightarrow> 'd Kernel \<Rightarrow> nat option" where
  "local_target p0 sv =
     (let s = c_str p0
      in if CHR ''@'' \<in> set s
         then (let before = takeWhile (\<lambda>c. c \<noteq> CHR ''@'') s;
                   after = tl (dropWhile (\<lambda>c. c \<noteq> CHR ''@'') s)
               in case FindInstanceOnly before sv of
                    None \<Rightarrow> None
                  | Some t \<Rightarrow> if \<not> equalsci (ServerName sv) after then None else Some t)
         else FindInstanceOnly p0 sv)"

definition HandleUserTarget :: "nat \<Rightarrow> string \<Rightarrow> string \<Rightarrow> 'd Kernel \<Rightarrow> COMMAND_RESULT \<times> 'd Kernel" where
  "HandleUserTarget source p0 msg sv =
     (case (if IS_LOCAL sv source then local_target p0 sv else FindInstance p0 sv) of
        None \<Rightarrow> (FAILED, NoInstance p0 source sv)
      | Some target \<Rightarrow>
          if us_registered (sv_user sv target) \<noteq> REG_OK then (FAILED, NoInstance p0 source sv)
          else (case AlertPreEvents source (TYPE_INSTANCE target) msg sv of
                  (False, sv) \<Rightarrow> (FAILED, sv)
                | (True, sv) \<Rightarrow>
                    AlertPostEvent source
                      (send_event (Publish_message source (us_instance (sv_user sv target)) msg) target sv)))"

definition publish_one :: "('d, 'n) kernel_handler" where
  "publish_one E u ps sv =
     bind_res (param ps 1) (\<lambda>msg.
     bind_res (param ps 0) (\<lambda>p0.
       Inr (if msg = [] then (FAILED, send u ERR_INPUT2 [dec_of_nat ERR_PUB_NOT_PROVIDED, NOT_DEFINED] sv)
            else if deref p0 = CHR ''$'' then HandleServerTarget u p0 msg sv
            else if deref p0 = CHR 0x00 then (FAILED, send u ERR_INPUT2 [dec_of_nat ERR_NORECIPIENT, PROCESS_NULL] sv)
            else if deref p0 = CHR 0x23 then HandleChannelTarget u p0 msg sv
            else if \<not> User_InGroup CHR ''c'' (client_of sv u) \<and> \<not> User_IsAdmin (client_of sv u)
            then (FAILED, send u ERR_INPUT [ACCESS_DENIED] sv)
            else HandleUserTarget u p0 msg sv)))"

definition CommandMessage_Handle :: "('d, 'n) kernel_handler" where
  "CommandMessage_Handle E u ps sv = with_loop SUCCESS ''PUBLISH'' u 0 (- 1) True (publish_one E u) ps sv"

definition CommandSQuery_HandleLocal :: "('d, 'n) kernel_handler" where
  "CommandSQuery_HandleLocal E u ps sv =
     bind_res (param ps 1) (\<lambda>msg.
     bind_res (param ps 0) (\<lambda>p0.
       Inr (if msg = [] then (FAILED, send u ERR_INPUT2 [dec_of_nat ERR_PUB_NOT_PROVIDED, NOT_DEFINED] sv)
            else let none = (FAILED, send u ERR_INPUT2 [dec_of_nat ERR_NOSUCHSERVICE, p0, NOT_DEFINED] sv)
            in case local_target p0 sv of
                 None \<Rightarrow> none
               | Some target \<Rightarrow>
                   if us_registered (sv_user sv target) \<noteq> REG_OK then none
                   else (case AlertPreEvents u (TYPE_INSTANCE target) msg sv of
                           (False, sv) \<Rightarrow> (FAILED, sv) | (True, sv) \<Rightarrow> AlertPostEvent u sv))))"

section \<open>Moving other users\<close>

definition forcejoin_one :: "('d, 'n) kernel_handler" where
  "forcejoin_one E u ps sv =
     (let channelindex = (if length ps > 1 then 1 else 0 :: int)
      in bind_res (param ps channelindex) (\<lambda>channel.
         bind_res (if length ps > 1 then param ps 0 else Inr (us_instance (sv_user sv u))) (\<lambda>inst.
         let null = Inr (FAILED, send u ERR_INPUT [PROCESS_NULL] sv)
         in case FindInstance inst sv of
              None \<Rightarrow> null
            | Some dest \<Rightarrow>
                if us_registered (sv_user sv dest) \<noteq> REG_OK then null
                else if IS_LOCAL sv u \<and> \<not> ChannelValidator channel
                then Inr (FAILED, send u ERR_INPUT [INVALID_CHAN] sv)
                else if (case find_channel channel sv of None \<Rightarrow> False | Some (_, c) \<Rightarrow> Channel_IsSubscribed dest c)
                then Inr (FAILED, send u ERR_INPUT [PROCESS_ALREADY] sv)
                else if \<not> IS_LOCAL sv dest then Inr (SUCCESS, sv)
                else bind_res (Channel_JoinUser E False dest channel True sv) (\<lambda>(joined, sv).
                       if joined then Inr (SUCCESS, sv)
                       else Inr (FAILED, send u ERR_INPUT [PROCESS_ERROR] sv)))))"

definition CommandForceJoin_Handle :: "('d, 'n) kernel_handler" where
  "CommandForceJoin_Handle E u ps sv =
     with_loop FAILED ''FORCEJOIN'' u (if length ps > 1 then 1 else 0) (- 1) True (forcejoin_one E u) ps sv"

definition forcepart_one :: "('d, 'n) kernel_handler" where
  "forcepart_one E u ps sv =
     bind_res (param ps 0) (\<lambda>p0. bind_res (param ps 1) (\<lambda>p1.
       case find_channel p1 sv of
         None \<Rightarrow> Inr (FAILED, send u ERR_INPUT [PROCESS_NULL] sv)
       | Some (k, c) \<Rightarrow>
           (let invalid = Inr (FAILED, send u ERR_INPUT [INVALID_CHAN] sv)
            in case FindInstance p0 sv of
                 None \<Rightarrow> invalid
               | Some dest \<Rightarrow>
                   if us_registered (sv_user sv dest) \<noteq> REG_OK then invalid
                   else if \<not> Channel_IsSubscribed dest c
                   then Inr (FAILED, send u ERR_INPUT [NOT_SUBSCRIBED] sv)
                   else if IS_LOCAL sv dest
                   then bind_res (Channel_PartUser E dest k sv) (\<lambda>(_, sv). Inr (SUCCESS, sv))
                   else Inr (SUCCESS, sv))))"

definition CommandForcePart_Handle :: "('d, 'n) kernel_handler" where
  "CommandForcePart_Handle E u ps sv = with_loop FAILED ''FORCEPART'' u 1 (- 1) True (forcepart_one E u) ps sv"

definition massjoin_one :: "('d, 'n) env \<Rightarrow> string \<Rightarrow> nat \<Rightarrow> u32 \<times> 'd Kernel \<Rightarrow> (u32 \<times> 'd Kernel) res" where
  "massjoin_one E channel dest = (\<lambda>(count, sv).
     if us_quitting (sv_user sv dest) \<or> \<not> IS_LOCAL sv dest then Inr (count, sv)
     else bind_res (Channel_JoinUser E False dest channel True sv) (\<lambda>(joined, sv).
            if joined then Inr (count + 1, send dest BRLD_MASS_JOIN [''MASSJOIN:'' @ channel] sv)
            else Inr (count, sv)))"

definition CommandMassJoin_Handle :: "('d, 'n) kernel_handler" where
  "CommandMassJoin_Handle E u ps sv =
     bind_res (param ps 0) (\<lambda>channel.
     bind_res (fold_res (massjoin_one E channel) (map snd (clientlist sv)) (0, sv)) (\<lambda>(count, sv).
       Inr (SUCCESS, send u BRLD_OK [convto_string count] sv)))"

end
