(* ===== verification/LoginCommands.thy ===== *)
theory LoginCommands
  imports ChannelCommands Logins
begin

text \<open>
  The commands on groups (\<open>coremods/core_groups\<close>), on users (\<open>coremods/core_umanager\<close>) and those
  by which a user logs in and leaves (\<open>coremods/core_user\<close>), with the modules
  \<open>modules/m_setagent.cpp\<close> and \<open>m_quit_idlers.cpp\<close>.  Those that hash passwords are given the
  provider before the environment.
\<close>

definition DEFAULT_GFLAGS :: string where "DEFAULT_GFLAGS = ''klgvefmxphw''"
definition ENTRY_PROTECTED :: string where "ENTRY_PROTECTED = ''ENTRY_PROTECTED''"
definition ENTRY_DEFINED :: string where "ENTRY_DEFINED = ''ENTRY_DEFINED''"
definition WRONG_AGENT :: string where "WRONG_AGENT = ''INVALID_INPUT''"
definition VALID_AGENT :: string where "VALID_AGENT = ''INVALID_AGENT''"
definition PASS_MIMMAX_LENGTH :: string where "PASS_MIMMAX_LENGTH = ''EXCEED_RANGE''"
definition ALREADY_LOGGED :: string where "ALREADY_LOGGED = ''ALREADY_LOGGED''"

text \<open>What a handler does next: it fails with a line, or succeeds with one.\<close>

abbreviation fails :: "nat \<Rightarrow> string \<Rightarrow> 'd Kernel \<Rightarrow> (COMMAND_RESULT \<times> 'd Kernel) res" where
  "fails u msg sv \<equiv> Inr (FAILED, send u ERR_INPUT [msg] sv)"

abbreviation answers :: "nat \<Rightarrow> string \<Rightarrow> 'd Kernel \<Rightarrow> (COMMAND_RESULT \<times> 'd Kernel) res" where
  "answers u msg sv \<equiv> Inr (SUCCESS, send u BRLD_OK [msg] sv)"

section \<open>Groups\<close>

definition CommandGroupAdd_Handle :: "('d, 'n) kernel_handler" where
  "CommandGroupAdd_Handle E u ps sv =
     bind_res (param ps 0) (\<lambda>gname.
     if \<not> GroupValidator gname then fails u WRONG_AGENT sv
     else bind_res (GroupManager_Add E gname DEFAULT_GFLAGS sv) (\<lambda>(added, sv).
            if added then answers u PROCESS_OK sv else fails u PROCESS_ALREADY sv))"

definition CommandGroups_Handle :: "('d, 'n) kernel_handler" where
  "CommandGroups_Handle E u ps sv =
     Inr (SUCCESS, tell u (\<lambda>s. JustAPI_to BRLD_END_LIST
       (fold (\<lambda>p. ListDepend_to BRLD_ITEM_LIST (pad 30 (fst p)) (c_str (fst p))) (GroupList sv)
         (JustEmerald_to BRLD_START_LIST (pad 30 (Repeat dash 30))
           (JustEmerald_to BRLD_START_LIST (pad 30 ''Group'') (JustAPI_to BRLD_START_LIST s))))) sv)"

definition CommandDelGroup_Handle :: "('d, 'n) kernel_handler" where
  "CommandDelGroup_Handle E u ps sv =
     bind_res (param ps 0) (\<lambda>gname.
     if gname = ''default'' then fails u ENTRY_PROTECTED sv
     else bind_res (GroupManager_Delete E gname sv) (\<lambda>(deleted, sv).
            if deleted then answers u PROCESS_OK sv else fails u PROCESS_NULL sv))"

definition group_powers :: "Group \<Rightarrow> string list" where
  "group_powers g =
     (if can_keys g then [''can_keys''] else []) @ (if can_do_all g then [''can_do_all''] else []) @
     (if can_list g then [''can_list''] else []) @ (if can_geo g then [''can_geo''] else []) @
     (if can_vector g then [''can_vector''] else []) @ (if can_expire g then [''can_expire''] else []) @
     (if can_future g then [''can_future''] else []) @ (if can_map g then [''can_map''] else []) @
     (if can_mmap g then [''can_mmap''] else []) @
     (if can_publish_chan g then [''can_publish_chan''] else []) @
     (if can_publish_clients g then [''can_publish_clients''] else []) @
     (if can_hints g then [''can_hints''] else []) @ (if can_dual_exec g then [''can_dual_exec''] else [])"

text \<open>A list of items between the two ends, the same for every client.\<close>

definition send_items :: "nat \<Rightarrow> string list \<Rightarrow> 'd Kernel \<Rightarrow> 'd Kernel" where
  "send_items u items sv =
     tell u (\<lambda>s. JustAPI_to BRLD_END_LIST
       (fold (\<lambda>x. SendProtocol BRLD_ITEM_LIST [x]) items (JustAPI_to BRLD_START_LIST s))) sv"

definition CommandGShow_Handle :: "('d, 'n) kernel_handler" where
  "CommandGShow_Handle E u ps sv =
     bind_res (param ps 0) (\<lambda>gname.
     case GroupManager_Find gname sv of
       None \<Rightarrow> fails u PROCESS_NULL sv
     | Some a \<Rightarrow> Inr (SUCCESS, send_items u (group_powers (sv_group sv a)) sv))"

definition CommandGFlags_Handle :: "('d, 'n) kernel_handler" where
  "CommandGFlags_Handle E u ps sv =
     bind_res (param ps 0) (\<lambda>gname.
     case GroupManager_Find gname sv of
       None \<Rightarrow> fails u PROCESS_NULL sv
     | Some a \<Rightarrow> if g_rawflags (sv_group sv a) = [] then answers u PROCESS_EMPTY sv
                 else answers u (g_rawflags (sv_group sv a)) sv)"

definition CommandMyGroups_Handle :: "('d, 'n) kernel_handler" where
  "CommandMyGroups_Handle E u ps sv =
     Inr (SUCCESS, send_items u (map (\<lambda>a. c_str (g_name (sv_group sv a))) (us_Groups (sv_user sv u))) sv)"

text \<open>GSET, GDEL and GRESET answer FAILED when they have done what they were asked.\<close>

definition CommandAssign_Handle :: "('d, 'n) kernel_handler" where
  "CommandAssign_Handle E u ps sv =
     bind_res (param ps 0) (\<lambda>gname. bind_res (param ps 1) (\<lambda>dest.
     case GroupManager_Find gname sv of
       None \<Rightarrow> fails u PROCESS_NULL sv
     | Some a \<Rightarrow>
         bind_res (user_exists E dest sv) (\<lambda>(exists, sv).
         if \<not> exists then fails u NOT_FOUND sv
         else bind_res (from_world (STHelper_HList E (dest @ ''/groups'')) sv) (\<lambda>(grouplist, sv).
         if gname \<in> set grouplist then fails u PROCESS_ALREADY sv
         else bind_res (set_field E (dest @ ''/groups'') gname (conv_numeric (w_now (sv_world sv)))
                (fold (\<lambda>v. on_us v (User_PushGroup a)) (FindLogin dest REG_OK sv) sv)) (\<lambda>sv.
              Inr (FAILED, send u BRLD_OK [PROCESS_OK] sv))))))"

definition CommandGList_Handle :: "('d, 'n) kernel_handler" where
  "CommandGList_Handle E u ps sv =
     bind_res (param ps 0) (\<lambda>login.
     bind_res (user_exists E login sv) (\<lambda>(exists, sv).
     if \<not> exists then fails u NOT_FOUND sv
     else bind_res (from_world (STHelper_HList E (login @ ''/groups'')) sv) (\<lambda>(grouplist, sv).
            Inr (SUCCESS, send_items u (map c_str grouplist) sv))))"

definition CommandGReset_Handle :: "('d, 'n) kernel_handler" where
  "CommandGReset_Handle E u ps sv =
     bind_res (param ps 0) (\<lambda>gname.
     if gname = ''default'' then fails u PROCESS_ERROR sv
     else case GroupManager_Find gname sv of
       None \<Rightarrow> fails u PROCESS_NULL sv
     | Some a \<Rightarrow>
         bind_res (GroupManager_ResetFlags E gname sv) (\<lambda>(ok, sv).
           if \<not> ok then fails u NOT_FOUND sv else Inr (FAILED, send u BRLD_OK [PROCESS_OK] sv)))"

definition CommandUnAssign_Handle :: "('d, 'n) kernel_handler" where
  "CommandUnAssign_Handle E u ps sv =
     bind_res (param ps 0) (\<lambda>gname. bind_res (param ps 1) (\<lambda>dest.
     case GroupManager_Find gname sv of
       None \<Rightarrow> fails u PROCESS_NULL sv
     | Some a \<Rightarrow>
         bind_res (user_exists E dest sv) (\<lambda>(exists, sv).
         if \<not> exists then fails u PROCESS_NULL sv
         else bind_res (from_world (STHelper_HList E (dest @ ''/groups'')) sv) (\<lambda>(grouplist, sv).
         if gname \<notin> set grouplist then fails u PROCESS_NULL sv
         else bind_res (del_field E (dest @ ''/groups'') gname
                (fold (\<lambda>v. on_us v (User_RemoveGroup a)) (FindLogin dest REG_OK sv) sv)) (\<lambda>sv.
              Inr (FAILED, send u BRLD_OK [PROCESS_OK] sv))))))"

definition CommandFlagUpdate_Handle :: "('d, 'n) kernel_handler" where
  "CommandFlagUpdate_Handle E u ps sv =
     bind_res (param ps 0) (\<lambda>gname.
     case GroupManager_Find gname sv of
       None \<Rightarrow> fails u PROCESS_NULL sv
     | Some a \<Rightarrow> bind_res (param ps 1) (\<lambda>gflags. bind_res (update_group E gflags a sv) (\<lambda>(_, sv). answers u PROCESS_OK sv)))"

section \<open>Flags of users\<close>

definition flag_name :: "char \<Rightarrow> string option" where
  "flag_name c =
     (if c = CHR ''e'' then Some ''can_execute'' else if c = CHR ''r'' then Some ''can_root''
      else if c = CHR ''m'' then Some ''can_manage'' else None)"

definition CommandListFlags_Handle :: "('d, 'n) kernel_handler" where
  "CommandListFlags_Handle E u ps sv =
     bind_res (param ps 0) (\<lambda>newlogin.
     if length newlogin < 3 \<or> length newlogin > 15 then fails u USER_MIMMAX_LENGTH sv
     else bind_res (UserHelper_CheckFlags E newlogin sv) (\<lambda>(userflags, sv).
       if userflags \<noteq> []
       then Inr (SUCCESS, fold (\<lambda>c sv. case flag_name c of None \<Rightarrow> sv | Some n \<Rightarrow> send u BRLD_LOGIN_FLAGS [n] sv) userflags sv)
       else fails u (dec_of_nat ERR_NO_FLAGS) sv))"

definition CommandGetFlags_Handle :: "('d, 'n) kernel_handler" where
  "CommandGetFlags_Handle E u ps sv =
     bind_res (param ps 0) (\<lambda>login.
     bind_res (UserHelper_CheckFlags E login sv) (\<lambda>(userflags, sv).
       if userflags \<noteq> [] then answers u userflags sv else fails u PROCESS_NULL sv))"

definition known_flag :: "char \<Rightarrow> bool" where
  "known_flag c \<longleftrightarrow> c = CHR ''e'' \<or> c = CHR ''r'' \<or> c = CHR ''m''"

definition CommandDelFlags_Handle :: "('d, 'n) kernel_handler" where
  "CommandDelFlags_Handle E u ps sv =
     bind_res (param ps 0) (\<lambda>newlogin. bind_res (param ps 1) (\<lambda>flag.
     if flag = [] then fails u INVALID_TYPE sv
     else if length flag > 1 then fails u INVALID_TYPE sv
     else bind_res (user_exists E newlogin sv) (\<lambda>(exists, sv).
     if \<not> exists then fails u PROCESS_NULL sv
     else if newlogin = ROOT_USER then fails u PROCESS_ERROR sv
     else bind_res (UserHelper_HasFlags E newlogin sv) (\<lambda>(has, sv).
     if \<not> has then Inr (FAILED, send u ERR_NO_FLAGS [PROCESS_NULL] sv)
     else if \<not> list_all known_flag flag then fails u INVALID_TYPE sv
     else bind_res (UserHelper_CheckFlags E newlogin sv) (\<lambda>(adding, sv).
       let creating = filter (\<lambda>c. c \<noteq> hd flag) adding;
           sv = SessionManager_AttachExternal newlogin creating sv
       in bind_res (if creating = [] then UserHelper_DeleteFlags E newlogin sv
                    else UserHelper_SetFlags E newlogin creating sv) (\<lambda>sv. answers u PROCESS_OK sv))))))"

text \<open>An empty flag is a NUL byte to \<open>flag[0]\<close>, and is added as one.\<close>

definition CommandAddFlag_Handle :: "('d, 'n) kernel_handler" where
  "CommandAddFlag_Handle E u ps sv =
     bind_res (param ps 0) (\<lambda>newlogin. bind_res (param ps 1) (\<lambda>flag.
     if length flag > 1 then fails u INVALID_TYPE sv
     else if \<not> list_all known_flag flag then fails u INVALID_TYPE sv
     else bind_res (UserHelper_CheckFlags E newlogin sv) (\<lambda>(exists, sv).
       if deref flag \<in> set exists then fails u PROCESS_ALREADY sv
       else let adding = exists @ [deref flag]
       in bind_res (UserHelper_SetFlags E newlogin adding sv) (\<lambda>sv.
            answers u PROCESS_OK (SessionManager_NotifyFlags newlogin adding
              (SessionManager_AttachExternal newlogin adding sv))))))"

section \<open>Users\<close>

definition CommandAddUser_Handle :: "HashProvider option \<Rightarrow> ('d, 'n) kernel_handler" where
  "CommandAddUser_Handle H E u ps sv =
     bind_res (param ps 0) (\<lambda>login. bind_res (param ps 1) (\<lambda>pass.
     if length pass < 3 \<or> length pass > 30 then fails u INVALID_FORMAT sv
     else bind_res (get_field E login ''created'' sv) (\<lambda>(exists, sv).
       if exists \<noteq> [] then fails u ENTRY_DEFINED sv
       else bind_res (UserHelper_Add E H login pass sv) (\<lambda>(added, sv).
              Inr (SUCCESS, if added then send u BRLD_OK [PROCESS_OK] sv else sv)))))"

definition CommandDelUser_Handle :: "('d, 'n) kernel_handler" where
  "CommandDelUser_Handle E u ps sv =
     bind_res (param ps 0) (\<lambda>login.
     bind_res (UserHelper_Remove E login sv) (\<lambda>sv.
       Inr (SUCCESS, snd (ClientManager_DisconnectAll login PROCESS_OK (send u BRLD_OK [PROCESS_OK] sv)))))"

definition bool_digit :: "bool \<Rightarrow> string" where
  "bool_digit b = (if b then ''1'' else ''0'')"

definition CommandSetStatus_Handle :: "('d, 'n) kernel_handler" where
  "CommandSetStatus_Handle E u ps sv =
     bind_res (param ps 0) (\<lambda>login. bind_res (param ps 1) (\<lambda>val.
       let sv = (if Helpers_as_bool val False = False
                 then LoginCache_Remove login (snd (ClientManager_DisconnectAll login PROCESS_OK sv)) else sv)
       in bind_res (set_field E login ''status'' (bool_digit (Helpers_as_bool val False)) sv) (\<lambda>sv.
            answers u PROCESS_OK sv)))"

text \<open>The rows of the listings of users: a name and what is said of it.\<close>

definition user_row :: "nat \<Rightarrow> string \<Rightarrow> string \<Rightarrow> string \<Rightarrow> 'd Kernel \<Rightarrow> 'd Kernel" where
  "user_row u shown api name =
     tell u (ListDepend_to BRLD_ITEM_LIST (''| '' @ pad 16 name @ ''| '' @ pad 29 shown @ ''|'')
               (c_str name @ '' '' @ c_str api))"

definition wide_border :: string where
  "wide_border = ''+'' @ pad 16 (Repeat ''-'' 17) @ ''+'' @ pad 29 (Repeat ''-'' 30) @ ''+''"

definition wide_top :: "nat \<Rightarrow> string \<Rightarrow> string \<Rightarrow> 'd Kernel \<Rightarrow> 'd Kernel" where
  "wide_top u one two =
     tell u (\<lambda>s. JustEmerald_to BRLD_START_LIST wide_border
       (JustEmerald_to BRLD_START_LIST (''| '' @ pad 16 one @ ''| '' @ pad 29 two @ ''|'')
         (JustEmerald_to BRLD_START_LIST wide_border (JustAPI_to BRLD_START_LIST s))))"

definition wide_end :: "nat \<Rightarrow> 'd Kernel \<Rightarrow> 'd Kernel" where
  "wide_end u = tell u (\<lambda>s. JustEmerald_to BRLD_END_LIST wide_border (JustAPI_to BRLD_END_LIST s))"

text \<open>\<open>convto_num<time_t>\<close>.\<close>

definition convto_num_time :: "string \<Rightarrow> int" where
  "convto_num_time str =
     (case scan_int str of
        None \<Rightarrow> 0
      | Some (neg, v) \<Rightarrow>
          if neg then (if v > 2 ^ 63 then 0 else - int v) else (if v \<ge> 2 ^ 63 then 0 else int v))"

definition CommandListUsers_Handle :: "('d, 'n) kernel_handler" where
  "CommandListUsers_Handle E u ps sv =
     bind_res (from_world (STHelper_HList E ''userlist'') sv) (\<lambda>(users, sv).
     bind_res (fold_res (\<lambda>item sv.
        bind_res (get_field E item ''created'' sv) (\<lambda>(created, sv).
          Inr (if created = [] then sv
               else user_row u (e_human E (convto_num_time created)) created item sv)))
        users (wide_top u ''User'' ''Created'' sv)) (\<lambda>sv. Inr (SUCCESS, wide_end u sv)))"

definition CommandGetStatus_Handle :: "('d, 'n) kernel_handler" where
  "CommandGetStatus_Handle E u ps sv =
     bind_res (param ps 0) (\<lambda>login.
     bind_res (get_field E login ''status'' sv) (\<lambda>(status, sv).
       if status = [] then fails u PROCESS_ERROR sv else answers u status sv))"

text \<open>The rows of LISTSTATUS have their spaces elsewhere.\<close>

definition status_row :: "nat \<Rightarrow> string \<Rightarrow> string \<Rightarrow> 'd Kernel \<Rightarrow> 'd Kernel" where
  "status_row u digit name =
     tell u (ListDepend_to BRLD_ITEM_LIST (''|'' @ pad 16 name @ '' | '' @ pad 29 digit @ ''|'')
               (c_str name @ '' '' @ digit))"

definition CommandListStatus_Handle :: "('d, 'n) kernel_handler" where
  "CommandListStatus_Handle E u ps sv =
     bind_res (from_world (STHelper_HList E ''userlist'') sv) (\<lambda>(users, sv).
     bind_res (fold_res (\<lambda>item sv.
        bind_res (get_field E item ''status'' sv) (\<lambda>(status, sv).
          Inr (if status = [] then sv
               else if ps \<noteq> [] \<and> Helpers_as_bool status False \<noteq> Helpers_as_bool (hd ps) False then sv
               else status_row u (bool_digit (Helpers_as_bool status False)) item sv)))
        users (wide_top u ''Admin'' ''Status'' sv)) (\<lambda>sv. Inr (SUCCESS, wide_end u sv)))"

definition CommandListAdmins_Handle :: "('d, 'n) kernel_handler" where
  "CommandListAdmins_Handle E u ps sv =
     bind_res (from_world (STHelper_HList E ''userlist'') sv) (\<lambda>(users, sv).
     bind_res (fold_res (\<lambda>item sv.
        bind_res (UserHelper_CheckFlags E item sv) (\<lambda>(userflags, sv).
          Inr (if userflags = [] then sv else user_row u userflags userflags item sv)))
        users (wide_top u ''Admin'' ''Flag'' sv)) (\<lambda>sv. Inr (SUCCESS, wide_end u sv)))"

definition CommandPasswd_Handle :: "HashProvider option \<Rightarrow> ('d, 'n) kernel_handler" where
  "CommandPasswd_Handle H E u ps sv =
     (let change = (\<lambda>login pass sv.
            bind_res (UserHelper_ChangePass E H login pass sv) (\<lambda>(changed, sv).
              if changed then answers u PROCESS_OK sv else fails u PROCESS_ERROR sv))
      in if length ps < 2 then bind_res (param ps 0) (\<lambda>pass. change (us_login (sv_user sv u)) pass sv)
         else if \<not> User_IsAdmin (client_of sv u) then fails u ACCESS_DENIED sv
         else bind_res (param ps 0) (\<lambda>newlogin. bind_res (param ps 1) (\<lambda>pass.
           if length newlogin < 3 \<or> length newlogin > 15 then fails u USER_MIMMAX_LENGTH sv
           else if \<not> LoginValidator newlogin then fails u INVALID_UNAME sv
           else if length pass < 3 \<or> length pass > 30 then fails u PASS_MIMMAX_LENGTH sv
           else bind_res (get_field E newlogin ''created'' sv) (\<lambda>(exists, sv).
                  if exists = [] then fails u PROCESS_FALSE sv else change newlogin pass sv))))"

definition CommandResetCache_Handle :: "('d, 'n) kernel_handler" where
  "CommandResetCache_Handle E u ps sv = answers u PROCESS_OK (LoginCache_Reset sv)"

definition CommandInCache_Handle :: "('d, 'n) kernel_handler" where
  "CommandInCache_Handle E u ps sv =
     bind_res (param ps 0) (\<lambda>login. answers u (bool_digit (LoginCache_has login sv)) sv)"

section \<open>Logging in and leaving\<close>

definition CommandAgent_HandleLocal :: "('d, 'n) kernel_handler" where
  "CommandAgent_HandleLocal E u ps sv =
     bind_res (param ps 0) (\<lambda>agent.
     if Bit_Operations.and (us_registered (sv_user sv u)) REG_USER \<noteq> 0
     then fails u (dec_of_nat ERR_AGENT_IS_SET) sv
     else if agent = [] \<or> length agent < 3 \<or> length agent > 15 then fails u (dec_of_nat ERR_BAD_FORMAT) sv
     else if \<not> AgentValidator agent then fails u (dec_of_nat ERR_BAD_FORMAT) sv
     else Inr (SUCCESS, on_us u (\<lambda>us. on_client (\<lambda>c. c\<lparr>cl_registered :=
            Bit_Operations.or (cl_registered c) REG_USER\<rparr>) (User_SetAgent agent us)) sv))"

definition CommandLogin_HandleLocal :: "HashProvider option \<Rightarrow> ('d, 'n) kernel_handler" where
  "CommandLogin_HandleLocal H E u ps sv =
     bind_res (param ps 0) (\<lambda>newlogin.
     bind_res (User_SetLogin E H u newlogin sv) (\<lambda>(ok, sv).
     if \<not> ok then Inr (FAILED, sv)
     else bind_res (from_world (STHelper_Get E ''dbuser'' newlogin) sv) (\<lambda>(dbuser, sv).
       let database = (if dbuser = [] then DefaultDB sv
                       else case e_find E dbuser of None \<Rightarrow> DefaultDB sv | Some d \<Rightarrow> Some d);
           sv = on_us u (on_client (\<lambda>c. c\<lparr>cl_database := database\<rparr>)) sv
       in Inr (SUCCESS,
            if us_registered (sv_user sv u) < REG_LOGINUSER
            then on_us u (on_client (\<lambda>c. c\<lparr>cl_registered := Bit_Operations.or (cl_registered c) REG_LOGIN\<rparr>)) sv
            else sv))))"

definition CommandAuth_HandleLocal :: "('d, 'n) kernel_handler" where
  "CommandAuth_HandleLocal E u ps sv =
     bind_res (param ps 0) (\<lambda>password.
     if length password < 3 \<or> length password > 100
     then Inr (FAILED, Clients_Disconnect u PASS_MIMMAX_LENGTH sv)
     else Inr (SUCCESS, on_us u (\<lambda>us. us\<lparr>us_auth := password\<rparr>) sv))"

text \<open>ILOGIN queues the three commands it stands for.\<close>

definition CommandILogin_Handle :: "('d, 'n) kernel_handler" where
  "CommandILogin_Handle E u ps sv =
     (if us_logged (sv_user sv u) \<noteq> 0 then fails u ALREADY_LOGGED sv
      else bind_res (param ps 0) (\<lambda>agent. bind_res (param ps 1) (\<lambda>auth. bind_res (param ps 2) (\<lambda>login.
        Inr (SUCCESS, on_us u (on_client (\<lambda>c. c\<lparr>cl_PendingList := cl_PendingList c @
          [(''AGENT'', [agent]), (''AUTH'', [auth]), (''LOGIN'', [login])]\<rparr>)) sv)))))"

definition CommandExit_Handle :: "('d, 'n) kernel_handler" where
  "CommandExit_Handle E u ps sv = Inr (SUCCESS, Clients_Disconnect u [] (send u BRLD_QUITTING [] sv))"

definition ping_origin :: "string list \<Rightarrow> string res" where
  "ping_origin ps = param ps (if length ps > 1 then 1 else 0)"

definition CommandPing_HandleLocal :: "('d, 'n) kernel_handler" where
  "CommandPing_HandleLocal E u ps sv =
     bind_res (ping_origin ps) (\<lambda>p.
     if p = [] then Inr (FAILED, send u ERR_NO_ORIGIN [''No origin specified''] sv)
     else bind_res (param ps 0) (\<lambda>cookie.
       Inr (SUCCESS, send_event (Pong_message cookie (if length ps > 1 then p else [])) u sv)))"

definition CommandPong_Handle :: "('d, 'n) kernel_handler" where
  "CommandPong_Handle E u ps sv =
     bind_res (ping_origin ps) (\<lambda>p.
     if p = [] then Inr (FAILED, send u ERR_NO_ORIGIN [''No origin specified''] sv)
     else Inr (SUCCESS, if IS_LOCAL sv u then on_us u (\<lambda>us. us\<lparr>us_lastping := True\<rparr>) sv else sv))"

section \<open>Modules\<close>

definition CommandSetAgent_Handle :: "('d, 'n) kernel_handler" where
  "CommandSetAgent_Handle E u ps sv =
     bind_res (param ps 0) (\<lambda>inst. bind_res (param ps 1) (\<lambda>agent.
     let none = Inr (FAILED, NoInstance inst u sv)
     in case FindInstance inst sv of
          None \<Rightarrow> none
        | Some target \<Rightarrow>
            if us_registered (sv_user sv target) \<noteq> REG_OK then none
            else if agent = [] \<or> length agent < 3 \<or> length agent > 15
            then Inr (FAILED, send u ERR_INPUT2 [dec_of_nat ERR_BAD_FORMAT, VALID_AGENT] sv)
            else if \<not> AgentValidator agent
            then Inr (FAILED, send u ERR_INPUT2 [dec_of_nat ERR_BAD_FORMAT, WRONG_AGENT] sv)
            else Inr (SUCCESS, if IS_LOCAL sv target
                               then send u BRLD_OK [PROCESS_OK] (on_us target (User_SetAgent agent) sv) else sv)))"

text \<open>The idle time is an \<open>unsigned long\<close>: a time before the last command is a very long one.\<close>

definition GetIdle :: "int \<Rightarrow> client \<Rightarrow> 64 word" where
  "GetIdle now c = of_int (now - cl_touchbase c)"

definition ModuleQuitIdlers_OnEveryTwoSeconds :: "u32 \<Rightarrow> 'd Kernel \<Rightarrow> 'd Kernel" where
  "ModuleQuitIdlers_OnEveryTwoSeconds limit sv =
     fold (\<lambda>u sv. if GetIdle (w_now (sv_world sv)) (us_client (sv_user sv u)) \<ge> ucast limit
                  then Clients_Disconnect u ''IDLE_REACHED'' sv else sv) (local_users sv) sv"

end
