(* ===== verification/ChannelFacts.thy ===== *)
theory ChannelFacts
  imports LoginCommands
begin

text \<open>
  The invariant of channels and subscriptions, on the tables that the two share: who is subscribed
  to a channel has it among its own channels, once, and a channel without subscribers is gone.
\<close>

section \<open>The tables\<close>

lemma equals_from_refl: "equals_from s s"
  by (induction s) (auto simp: deref_def)

lemma engine_equals_refl [simp]: "engine_equals s s"
  by (simp add: engine_equals_def equals_from_refl)

type_synonym channels = "(string \<times> Channel) list"

definition at_channel :: "string \<Rightarrow> (Channel \<Rightarrow> Channel) \<Rightarrow> channels \<Rightarrow> channels" where
  "at_channel k f L = map (\<lambda>p. if fst p = k then (fst p, f (snd p)) else p) L"

lemma ChannelList_on_channel [simp]: "ChannelList (on_channel k f sv) = at_channel k f (ChannelList sv)"
  by (simp add: on_channel_def at_channel_def)

lemma fst_at_channel [simp]: "map fst (at_channel k f L) = map fst L"
  by (induction L) (auto simp: at_channel_def)

lemma set_at_channel:
  "(j, c) \<in> set (at_channel k f L) \<longleftrightarrow> (\<exists>c0. (j, c0) \<in> set L \<and> c = (if j = k then f c0 else c0))"
  by (force simp: at_channel_def image_iff)

lemma ex_at_channel:
  "(\<exists>c. (j, c) \<in> set (at_channel k f L) \<and> P c) \<longleftrightarrow>
   (\<exists>c. (j, c) \<in> set L \<and> P (if j = k then f c else c))"
  by (auto simp: set_at_channel)

lemma sorted_wrt_at_channel:
  "sorted_wrt (\<lambda>p q. \<not> engine_equals (fst p) (fst q)) (at_channel k f L) =
   sorted_wrt (\<lambda>p q. \<not> engine_equals (fst p) (fst q)) L"
proof -
  have "sorted_wrt (\<lambda>p q. \<not> engine_equals (fst p) (fst q)) M =
        sorted_wrt (\<lambda>x y. \<not> engine_equals x y) (map fst M)" for M :: channels
    by (simp add: sorted_wrt_map)
  then show ?thesis by simp
qed

text \<open>
  The invariant, up to a name \<open>void\<close> whose channel may be empty and pairs \<open>going\<close> of a user that
  is leaving for good and a channel where it still is.
\<close>

definition channel_ok :: "string set \<Rightarrow> (nat \<times> string) set \<Rightarrow> (nat \<Rightarrow> bool) \<Rightarrow> string \<Rightarrow> Channel \<Rightarrow> bool" where
  "channel_ok void going quit k c \<longleftrightarrow>
     ch_name c = k \<and> (k \<notin> void \<longrightarrow> subscribedlist c \<noteq> []) \<and> keys_strict (subscribedlist c) \<and>
     (\<forall>p \<in> set (subscribedlist c). sub_user (snd p) = fst p \<and> sub_chan (snd p) = k \<and>
        (quit (fst p) \<longrightarrow> (fst p, k) \<in> going))"

definition channels_ok ::
  "string set \<Rightarrow> (nat \<times> string) set \<Rightarrow> channels \<Rightarrow> (nat \<Rightarrow> string list) \<Rightarrow> (nat \<Rightarrow> bool) \<Rightarrow> bool" where
  "channels_ok void going L chans quit \<longleftrightarrow>
     sorted_wrt (\<lambda>p q. \<not> engine_equals (fst p) (fst q)) L \<and> distinct (map fst L) \<and>
     (\<forall>p \<in> set L. channel_ok void going quit (fst p) (snd p)) \<and>
     (\<forall>u. \<not> quit u \<longrightarrow> distinct (chans u) \<and>
        (\<forall>k. k \<in> set (chans u) \<longleftrightarrow> (\<exists>c. (k, c) \<in> set L \<and> Channel_IsSubscribed u c)))"

lemma channels_okI:
  assumes "sorted_wrt (\<lambda>p q. \<not> engine_equals (fst p) (fst q)) L" "distinct (map fst L)"
    and "\<And>k c. (k, c) \<in> set L \<Longrightarrow> channel_ok void going quit k c"
    and "\<And>u. \<not> quit u \<Longrightarrow> distinct (chans u)"
    and "\<And>u k. \<not> quit u \<Longrightarrow> k \<in> set (chans u) \<longleftrightarrow> (\<exists>c. (k, c) \<in> set L \<and> Channel_IsSubscribed u c)"
  shows "channels_ok void going L chans quit"
  unfolding channels_ok_def using assms by simp

lemma channels_okD:
  assumes "channels_ok void going L chans quit"
  shows "sorted_wrt (\<lambda>p q. \<not> engine_equals (fst p) (fst q)) L" "distinct (map fst L)"
    and "\<And>k c. (k, c) \<in> set L \<Longrightarrow> channel_ok void going quit k c"
    and "\<And>u. \<not> quit u \<Longrightarrow> distinct (chans u)"
    and "\<And>u k. \<not> quit u \<Longrightarrow> k \<in> set (chans u) \<longleftrightarrow> (\<exists>c. (k, c) \<in> set L \<and> Channel_IsSubscribed u c)"
  using assms unfolding channels_ok_def by (simp_all, fastforce)

lemma unique_channel:
  assumes "distinct (map fst L)" "(k, c) \<in> set L" "(k, d) \<in> set L"
  shows "c = d"
  using assms eq_key_imp_eq_value by fastforce

lemma find_own_name:
  assumes "sorted_wrt (\<lambda>p q. \<not> engine_equals (fst p) (fst q)) L" "k \<in> fst ` set L"
  shows "\<exists>c. find (\<lambda>p. engine_equals (fst p) k) L = Some (k, c)"
  using assms
proof (induction L)
  case (Cons p L)
  then show ?case by (cases p) auto
qed simp

section \<open>Entering and leaving\<close>

text \<open>A new channel is empty.\<close>

lemma ok_new:
  assumes ok: "channels_ok {} {} L chans quit"
    and none: "find (\<lambda>p. engine_equals (fst p) k) L = None"
    and new: "ch_name c0 = k" "subscribedlist c0 = []"
  shows "channels_ok {k} {} (L @ [(k, c0)]) chans quit"
proof -
  note d = channels_okD [OF ok]
  from none have far: "\<forall>p\<in>set L. \<not> engine_equals (fst p) k" unfolding find_None_iff by blast
  then have notin: "k \<notin> fst ` set L" by fastforce
  show ?thesis
  proof (rule channels_okI, goal_cases)
    case 1 show ?case using d(1) far by (simp add: sorted_wrt_append)
  next
    case 2 show ?case using d(2) notin by simp
  next
    case (3 j c)
    then show ?case
    proof (cases "(j, c) \<in> set L")
      case True then show ?thesis using d(3) by (fastforce simp: channel_ok_def)
    next
      case False then show ?thesis using 3 new by (simp add: channel_ok_def)
    qed
  next
    case (4 u) then show ?case using d(4) by blast
  next
    case (5 u j) then show ?case using d(5) [OF 5] new by (auto simp: Channel_IsSubscribed_def)
  qed
qed

lemma IsSubscribed_map_insert:
  "Channel_IsSubscribed v (c\<lparr>subscribedlist := map_insert u m (subscribedlist c)\<rparr>) \<longleftrightarrow>
   v = u \<or> Channel_IsSubscribed v c"
  by (auto simp: Channel_IsSubscribed_def set_map_insert)

lemma IsSubscribed_erase:
  "Channel_IsSubscribed v (c\<lparr>subscribedlist := erase_key u (subscribedlist c)\<rparr>) \<longleftrightarrow>
   v \<noteq> u \<and> Channel_IsSubscribed v c"
  by (auto simp: Channel_IsSubscribed_def)

lemma channel_ok_insert:
  assumes "channel_ok void {} quit k c" "\<not> Channel_IsSubscribed u c" "\<not> quit u" "sub_user m = u" "sub_chan m = k"
  shows "channel_ok {} {} quit k (c\<lparr>subscribedlist := map_insert u m (subscribedlist c)\<rparr>)"
proof -
  have "u \<notin> fst ` set (subscribedlist c)" using assms(2) by (simp add: Channel_IsSubscribed_def)
  moreover have "map_insert u m (subscribedlist c) \<noteq> []" using calculation by (simp add: map_insert_def)
  ultimately show ?thesis
    using assms by (simp add: channel_ok_def set_map_insert keys_strict_map_insert)
qed

lemma ok_enter:
  assumes ok: "channels_ok {k} {} L chans quit"
    and c: "(k, c) \<in> set L" "\<not> Channel_IsSubscribed u c" and u: "\<not> quit u"
    and m: "sub_user m = u" "sub_chan m = k"
  shows "channels_ok {} {}
     (at_channel k (\<lambda>c. c\<lparr>subscribedlist := map_insert u m (subscribedlist c)\<rparr>) L)
     (chans(u := k # chans u)) quit"
    (is "channels_ok _ _ ?L ?chans _")
proof -
  note d = channels_okD [OF ok]
  have c_only: "(k, c') \<in> set L \<Longrightarrow> c' = c" for c' using unique_channel [OF d(2)] c(1) by blast
  have notin: "k \<notin> set (chans u)" using d(5) [OF u, of k] c c_only by blast
  show ?thesis
  proof (rule channels_okI, goal_cases)
    case 1 show ?case using d(1) by (simp add: sorted_wrt_at_channel)
  next
    case 2 show ?case using d(2) by simp
  next
    case (3 j c')
    then obtain c0 where c0: "(j, c0) \<in> set L" and
      c': "c' = (if j = k then c0\<lparr>subscribedlist := map_insert u m (subscribedlist c0)\<rparr> else c0)"
      by (auto simp: set_at_channel)
    show ?case
    proof (cases "j = k")
      case True
      with c0 c_only have "c0 = c" by blast
      with True c' channel_ok_insert [OF d(3) [OF c(1)] c(2) u m] show ?thesis by simp
    next
      case False
      with d(3) [OF c0] c' show ?thesis by (simp add: channel_ok_def)
    qed
  next
    case (4 v) then show ?case using d(4) [OF 4] notin by auto
  next
    case (5 v j)
    have "(\<exists>c'. (j, c') \<in> set ?L \<and> Channel_IsSubscribed v c') \<longleftrightarrow>
          (\<exists>c'. (j, c') \<in> set L \<and> (j = k \<and> v = u \<or> Channel_IsSubscribed v c'))"
      by (cases "j = k") (simp_all add: ex_at_channel IsSubscribed_map_insert)
    also have "\<dots> \<longleftrightarrow> j = k \<and> v = u \<or> j \<in> set (chans v)"
      using d(5) [OF 5] c(1) by blast
    finally show ?case by auto
  qed
qed

lemma ok_erase:
  assumes ok: "channels_ok {} going L chans quit"
    and chans': "\<And>v. \<not> quit v \<Longrightarrow> distinct (chans' v) \<and> set (chans' v) = set (chans v) - (if v = u then {k} else {})"
  shows "channels_ok {k} (going - {(u, k)})
     (at_channel k (\<lambda>c. c\<lparr>subscribedlist := erase_key u (subscribedlist c)\<rparr>) L) chans' quit"
    (is "channels_ok _ _ ?L _ _")
proof -
  note d = channels_okD [OF ok]
  show ?thesis
  proof (rule channels_okI, goal_cases)
    case 1 show ?case using d(1) by (simp add: sorted_wrt_at_channel)
  next
    case 2 show ?case using d(2) by simp
  next
    case (3 j c')
    then obtain c0 where c0: "(j, c0) \<in> set L" and
      c': "c' = (if j = k then c0\<lparr>subscribedlist := erase_key u (subscribedlist c0)\<rparr> else c0)"
      by (auto simp: set_at_channel)
    from d(3) [OF c0] c' show ?case by (auto simp: channel_ok_def)
  next
    case (4 v) then show ?case using chans' by blast
  next
    case (5 v j)
    have "(\<exists>c'. (j, c') \<in> set ?L \<and> Channel_IsSubscribed v c') \<longleftrightarrow>
          (\<exists>c'. (j, c') \<in> set L \<and> Channel_IsSubscribed v c') \<and> \<not> (j = k \<and> v = u)"
      by (simp add: ex_at_channel) (auto simp: IsSubscribed_erase)
    then show ?case using d(5) [OF 5] chans' [OF 5] by simp
  qed
qed

lemma channels_ok_mono:
  assumes ok: "channels_ok void going L chans quit"
    and "\<And>k c. (k, c) \<in> set L \<Longrightarrow> channel_ok void going quit k c \<Longrightarrow> channel_ok void' going' quit k c"
  shows "channels_ok void' going' L chans quit"
proof (rule channels_okI)
  note d = channels_okD [OF ok]
  show "channel_ok void' going' quit k c" if "(k, c) \<in> set L" for k c using assms(2) d(3) that by blast
  show "distinct (chans u)" if "\<not> quit u" for u by (rule d(4) [OF that])
  show "(k \<in> set (chans u)) \<longleftrightarrow> (\<exists>c. (k, c) \<in> set L \<and> Channel_IsSubscribed u c)" if "\<not> quit u" for u k
    by (rule d(5) [OF that])
qed (rule channels_okD [OF ok])+

lemma ok_no_subscription:
  assumes "channels_ok void going L chans quit"
    and none: "\<And>c. (k, c) \<in> set L \<Longrightarrow> \<not> Channel_IsSubscribed u c"
  shows "channels_ok void (going - {(u, k)}) L chans quit"
proof (rule channels_ok_mono [OF assms(1)])
  fix j c assume j: "(j, c) \<in> set L" and ok: "channel_ok void going quit j c"
  have "fst p \<noteq> u" if "p \<in> set (subscribedlist c)" "j = k" for p
    using none [of c] j that by (auto simp: Channel_IsSubscribed_def)
  with ok show "channel_ok void (going - {(u, k)}) quit j c" by (auto simp: channel_ok_def)
qed

lemma ok_filled:
  assumes "channels_ok {k} going L chans quit" "\<And>c. (k, c) \<in> set L \<Longrightarrow> subscribedlist c \<noteq> []"
  shows "channels_ok {} going L chans quit"
proof (rule channels_ok_mono [OF assms(1)])
  fix j c assume "(j, c) \<in> set L" "channel_ok {k} going quit j c"
  then show "channel_ok {} going quit j c"
    using assms(2) [of c] by (cases "j = k") (auto simp: channel_ok_def)
qed

lemma ok_dropped:
  assumes ok: "channels_ok {k} going L chans quit" and c: "(k, c) \<in> set L" "subscribedlist c = []"
  shows "channels_ok {} going (filter (\<lambda>p. fst p \<noteq> k) L) chans quit"
proof -
  note d = channels_okD [OF ok]
  have c_only: "(k, c') \<in> set L \<Longrightarrow> c' = c" for c' using unique_channel [OF d(2)] c(1) by blast
  show ?thesis
  proof (rule channels_okI, goal_cases)
    case 1 show ?case using d(1) by (simp add: sorted_wrt_filter)
  next
    case 2 show ?case using d(2) by (simp add: distinct_map_filter)
  next
    case (3 j c') then show ?case using d(3) [of j c'] by (auto simp: channel_ok_def)
  next
    case (4 v) then show ?case using d(4) by blast
  next
    case (5 v j)
    have "(\<exists>c'. (j, c') \<in> set (filter (\<lambda>p. fst p \<noteq> k) L) \<and> Channel_IsSubscribed v c') \<longleftrightarrow>
          j \<noteq> k \<and> (\<exists>c'. (j, c') \<in> set L \<and> Channel_IsSubscribed v c')"
      by auto
    moreover have "\<not> Channel_IsSubscribed v c" using c(2) by (simp add: Channel_IsSubscribed_def)
    then have "\<not> (\<exists>c'. (k, c') \<in> set L \<and> Channel_IsSubscribed v c')" using c_only by blast
    ultimately show ?case using d(5) [OF 5, of j] by blast
  qed
qed

end
