(* ===== verification/KernelFacts.thy ===== *)
theory KernelFacts
  imports ChannelFacts
begin

text \<open>
  What every operation of the main loop keeps: a rule for what a call ensures when it returns, the
  relation of states that differ in nothing of the users' and the channels' tables, and the
  invariant of these tables, kept by every operation on channels.
\<close>

section \<open>What a call ensures\<close>

definition ensures :: "'a res \<Rightarrow> ('a \<Rightarrow> bool) \<Rightarrow> bool" where
  "ensures m P \<longleftrightarrow> (\<forall>x. m = Inr x \<longrightarrow> P x)"

lemma ensures_Inr [simp]: "ensures (Inr x) P \<longleftrightarrow> P x"
  by (simp add: ensures_def)

lemma ensures_Inl [simp]: "ensures (Inl e) P"
  by (simp add: ensures_def)

lemma ensures_bind:
  assumes "ensures m Q" "\<And>x. Q x \<Longrightarrow> ensures (f x) P"
  shows "ensures (bind_res m f) P"
  using assms by (cases m) auto

lemma ensures_any: "(\<And>x. ensures (f x) P) \<Longrightarrow> ensures (bind_res m f) P"
  by (cases m) auto

lemma ensures_mono: "ensures m Q \<Longrightarrow> (\<And>x. Q x \<Longrightarrow> P x) \<Longrightarrow> ensures m P"
  by (simp add: ensures_def)

lemma fold_res_simps [simp]:
  "fold_res f [] s = Inr s"
  "fold_res f (x # xs) s = bind_res (f x s) (fold_res f xs)"
proof -
  have *: "foldl (\<lambda>r x. bind_res r (f x)) (Inl e) xs = Inl e" for e xs
    by (induction xs) auto
  show "fold_res f [] s = Inr s" by (simp add: fold_res_def)
  show "fold_res f (x # xs) s = bind_res (f x s) (fold_res f xs)"
    by (cases "f x s") (simp_all add: fold_res_def *)
qed

lemma ensures_fold:
  assumes "\<And>x s. x \<in> set xs \<Longrightarrow> P s \<Longrightarrow> ensures (f x s) P" "P s"
  shows "ensures (fold_res f xs s) P"
  using assms
proof (induction xs arbitrary: s)
  case (Cons x xs)
  have "ensures (f x s) P" using Cons.prems by simp
  then show ?case using Cons by (auto intro: ensures_bind)
qed simp

lemma fold_keeps:
  assumes "\<And>x s. x \<in> set xs \<Longrightarrow> P s \<Longrightarrow> P (f x s)" "P s"
  shows "P (fold f xs s)"
  using assms by (induction xs arbitrary: s) auto

lemma ensures_with_loop:
  assumes h: "\<And>ps s. P s \<Longrightarrow> ensures (h ps s) (\<lambda>(r, s). P s)"
    and log: "\<And>e s. P s \<Longrightarrow> P (occurs e s)" and s: "P s"
  shows "ensures (with_loop result name u splithere extra usemax h ps s) (\<lambda>(r, s). P s)"
proof -
  have loop: "ensures (loop_tokens h name loc splithere extra dupes sp items2 items s) P"
    if "P s" for loc dupes sp items2 items s
    using that
  proof (induction items arbitrary: dupes sp items2 s)
    case (Cons item items)
    have step: "ensures (bind_res (h sp' s) (\<lambda>(result, sv).
        loop_tokens h name loc splithere extra (item # dupes) sp' i2 items
          (if loc then occurs (Post_command name sp' result) sv else sv))) P" for sp' i2
      by (rule ensures_bind [OF h]) (use Cons log in auto)
    show ?case
      unfolding loop_tokens.simps Let_def
      by (cases "snd (items_extract items2)") (simp add: step Cons split: prod.split)
  qed simp
  have inner: "ensures (bind_res (loop_tokens h name loc splithere extra [] ps i2 toks s) (\<lambda>sv. Inr (Some sv)))
      (\<lambda>done. case done of None \<Rightarrow> True | Some s \<Rightarrow> P s)" for loc i2 toks
    by (rule ensures_bind [OF loop [OF s]]) simp
  have "ensures (HasLoop h name u ps splithere extra usemax s) (\<lambda>done. case done of None \<Rightarrow> True | Some s \<Rightarrow> P s)"
    unfolding HasLoop_def Let_def by (simp add: ensures_any inner)
  then show ?thesis
    unfolding with_loop_def
    by (rule ensures_bind) (auto intro: h s split: option.splits)
qed

section \<open>States that differ in nothing of the tables\<close>

text \<open>What of a user the tables depend on.\<close>

definition seen :: "LocalUser \<Rightarrow> string list \<times> bool \<times> int \<times> nat \<times> string \<times> UserType \<times> string \<times> string" where
  "seen us = (us_chans us, us_quitting us, us_logged us, us_registered us, us_login us, us_type us,
     us_instance us, us_uuid us)"

definition calm :: "'d Kernel \<Rightarrow> 'd Kernel \<Rightarrow> bool" where
  "calm sv sv' \<longleftrightarrow> ChannelList sv' = ChannelList sv \<and> logins sv' = logins sv \<and>
     clientlist sv' = clientlist sv \<and> uuid_list sv' = uuid_list sv \<and>
     (\<forall>u. seen (sv_user sv' u) = seen (sv_user sv u)) \<and> sv_next sv \<le> sv_next sv'"

named_theorems calm_rules

lemma calm_refl [simp]: "calm sv sv"
  by (simp add: calm_def)

lemma calm_trans: "calm a b \<Longrightarrow> calm b c \<Longrightarrow> calm a c"
  by (simp add: calm_def)

lemma calm_occurs [simp]: "calm sv (occurs e sv')  \<longleftrightarrow> calm sv sv'"
  by (simp add: calm_def occurs_def)

lemma calm_tell [simp]: "calm sv (tell u f sv') \<longleftrightarrow> calm sv sv'"
  by (simp add: calm_def tell_def)

lemma calm_send_event [simp]: "calm sv (send_event m u sv') \<longleftrightarrow> calm sv sv'"
  by (simp add: send_event_def)

lemma calm_NoChannel [simp]: "calm sv (NoChannel c u sv') \<longleftrightarrow> calm sv sv'"
  by (simp add: NoChannel_def)

lemma calm_NoInstance [simp]: "calm sv (NoInstance c u sv') \<longleftrightarrow> calm sv sv'"
  by (simp add: NoInstance_def)

lemma calm_update [simp]:
  "calm sv (sv'\<lparr>sv_world := a\<rparr>) \<longleftrightarrow> calm sv sv'"
  "calm sv (sv'\<lparr>sv_log := b\<rparr>) \<longleftrightarrow> calm sv sv'"
  "calm sv (sv'\<lparr>cache_logins := c\<rparr>) \<longleftrightarrow> calm sv sv'"
  "calm sv (sv'\<lparr>MonitorList := d\<rparr>) \<longleftrightarrow> calm sv sv'"
  "calm sv (sv'\<lparr>NotifyList := e\<rparr>) \<longleftrightarrow> calm sv sv'"
  "calm sv (sv'\<lparr>sv_session := f\<rparr>) \<longleftrightarrow> calm sv sv'"
  "calm sv (sv'\<lparr>sessions := g\<rparr>) \<longleftrightarrow> calm sv sv'"
  "calm sv (sv'\<lparr>sv_group := h\<rparr>) \<longleftrightarrow> calm sv sv'"
  "calm sv (sv'\<lparr>GroupList := i\<rparr>) \<longleftrightarrow> calm sv sv'"
  "calm sv (sv'\<lparr>AwaitingExit := j\<rparr>) \<longleftrightarrow> calm sv sv'"
  "calm sv (sv'\<lparr>not_registered_track := k\<rparr>) \<longleftrightarrow> calm sv sv'"
  "calm sv (sv'\<lparr>local_users := l\<rparr>) \<longleftrightarrow> calm sv sv'"
  by (simp_all add: calm_def)

lemma calm_next: "calm sv sv' \<Longrightarrow> n \<ge> sv_next sv' \<Longrightarrow> calm sv (sv'\<lparr>sv_next := n\<rparr>)"
  by (simp add: calm_def)

lemma calm_on_us:
  assumes "\<And>us. seen (f us) = seen us"
  shows "calm sv (on_us u f sv') \<longleftrightarrow> calm sv sv'"
proof -
  have same: "seen (sv_user (on_us u f sv') v) = seen (sv_user sv' v)" for v using assms by simp
  show ?thesis unfolding calm_def by (simp only: same) simp
qed

lemma calm_on_world: "calm sv sv' \<Longrightarrow> ensures (on_world f sv') (calm sv)"
  by (auto simp: on_world_def intro!: ensures_any)

lemma calm_from_world: "calm sv sv' \<Longrightarrow> ensures (from_world f sv') (\<lambda>(x, s). calm sv s)"
  by (auto simp: from_world_def intro!: ensures_any)

lemma calm_Write [simp]: "calm sv (Channel_Write c m X sv') \<longleftrightarrow> calm sv sv'"
proof -
  have "calm sv (fold (\<lambda>p sv. if fst p \<in> X then sv else send_event m (fst p) sv) xs s) \<longleftrightarrow> calm sv s" for xs s
    by (induction xs arbitrary: s) auto
  then show ?thesis by (simp add: Channel_Write_def)
qed

lemma calm_SendSlist [simp]: "calm sv (CommandSlist_SendSlist u c sv') \<longleftrightarrow> calm sv sv'"
  by (simp add: CommandSlist_SendSlist_def)

lemma calm_OnUserJoin: "calm sv sv' \<Longrightarrow> ensures (ModuleCoreDB_OnUserJoin E memb sv') (calm sv)"
  by (simp add: ModuleCoreDB_OnUserJoin_def calm_on_world)

lemma calm_OnUserPart: "calm sv sv' \<Longrightarrow> ensures (ModuleCoreDB_OnUserPart E memb sv') (calm sv)"
  by (simp add: ModuleCoreDB_OnUserPart_def calm_on_world)

lemma calm_OnPostJoin: "calm sv sv' \<Longrightarrow> ensures (CoreModChannel_OnPostJoin u k sv') (calm sv)"
  by (simp add: CoreModChannel_OnPostJoin_def split: option.split)

section \<open>The invariant of the tables\<close>

definition chans_of :: "'d Kernel \<Rightarrow> nat \<Rightarrow> string list" where
  "chans_of sv u = us_chans (sv_user sv u)"

definition quit_of :: "'d Kernel \<Rightarrow> nat \<Rightarrow> bool" where
  "quit_of sv u = us_quitting (sv_user sv u)"

definition type_of :: "'d Kernel \<Rightarrow> nat \<Rightarrow> UserType" where
  "type_of sv u = us_type (sv_user sv u)"

lemma users_update [simp]:
  "chans_of (sv\<lparr>sv_user := F(u := x)\<rparr>) = (chans_of (sv\<lparr>sv_user := F\<rparr>))(u := us_chans x)"
  "quit_of (sv\<lparr>sv_user := F(u := x)\<rparr>) = (quit_of (sv\<lparr>sv_user := F\<rparr>))(u := us_quitting x)"
  "type_of (sv\<lparr>sv_user := F(u := x)\<rparr>) = (type_of (sv\<lparr>sv_user := F\<rparr>))(u := us_type x)"
  "chans_of (sv\<lparr>sv_user := sv_user s\<rparr>) = chans_of s"
  "quit_of (sv\<lparr>sv_user := sv_user s\<rparr>) = quit_of s"
  "type_of (sv\<lparr>sv_user := sv_user s\<rparr>) = type_of s"
  by (rule ext; simp add: chans_of_def quit_of_def type_of_def)+

lemma users_kept [simp]:
  "chans_of (sv\<lparr>ChannelList := L\<rparr>) = chans_of sv" "quit_of (sv\<lparr>ChannelList := L\<rparr>) = quit_of sv"
  "type_of (sv\<lparr>ChannelList := L\<rparr>) = type_of sv"
  "chans_of (on_channel k f sv) = chans_of sv" "quit_of (on_channel k f sv) = quit_of sv"
  "type_of (on_channel k f sv) = type_of sv" "sv_user (on_channel k f sv) = sv_user sv"
  "logins (on_channel k f sv) = logins sv" "sv_next (on_channel k f sv) = sv_next sv"
  "clientlist (on_channel k f sv) = clientlist sv" "uuid_list (on_channel k f sv) = uuid_list sv"
  by (auto simp: chans_of_def quit_of_def type_of_def on_channel_def)

lemma users_same [simp]:
  "(chans_of sv)(u := us_chans (sv_user sv u)) = chans_of sv"
  "(quit_of sv)(u := us_quitting (sv_user sv u)) = quit_of sv"
  "(type_of sv)(u := us_type (sv_user sv u)) = type_of sv"
  by (rule ext; simp add: chans_of_def quit_of_def type_of_def)+

text \<open>
  Besides the channels: who is found by its login is connected, has logged in and is there once,
  under its own login; whoever is registered with a login is there; who has not logged in goes by
  its unique identifier; an address that is not yet used counts as a user that has left; whoever
  the tables of instances and identifiers name is connected and goes by that name, up to case.
\<close>

definition logins_ok :: "'d Kernel \<Rightarrow> bool" where
  "logins_ok sv \<longleftrightarrow> distinct (map snd (logins sv)) \<and>
     (\<forall>p \<in> set (logins sv). \<not> us_quitting (sv_user sv (snd p)) \<and> us_logged (sv_user sv (snd p)) \<noteq> 0 \<and>
        us_login (sv_user sv (snd p)) = fst p) \<and>
     (\<forall>u. us_registered (sv_user sv u) \<in> {REG_NONE, REG_USER, REG_LOGIN, REG_LOGINUSER, REG_OK} \<and>
        (us_registered (sv_user sv u) \<in> {REG_LOGIN, REG_LOGINUSER, REG_OK} \<longrightarrow>
           us_quitting (sv_user sv u) \<or> u \<in> snd ` set (logins sv))) \<and>
     (\<forall>u. \<not> us_quitting (sv_user sv u) \<and> us_logged (sv_user sv u) = 0 \<longrightarrow>
        us_instance (sv_user sv u) = us_uuid (sv_user sv u)) \<and>
     (\<forall>u \<ge> sv_next sv. us_quitting (sv_user sv u)) \<and>
     (\<forall>p \<in> set (clientlist sv). \<not> us_quitting (sv_user sv (snd p)) \<and>
        engine_equals (fst p) (us_instance (sv_user sv (snd p)))) \<and>
     (\<forall>p \<in> set (uuid_list sv). \<not> us_quitting (sv_user sv (snd p)) \<and>
        engine_equals (fst p) (us_uuid (sv_user sv (snd p))))"

definition kernel_ok :: "'d Kernel \<Rightarrow> bool" where
  "kernel_ok sv \<longleftrightarrow> channels_ok {} {} (ChannelList sv) (chans_of sv) (quit_of sv) \<and> logins_ok sv"

text \<open>The invariant, with the users connected, those logged in and their types what they were.\<close>

type_synonym connected = "(nat \<Rightarrow> bool) \<times> (string \<times> nat) list \<times> (nat \<Rightarrow> UserType)"

definition conn :: "'d Kernel \<Rightarrow> connected" where
  "conn sv = (quit_of sv, logins sv, type_of sv)"

definition held :: "connected \<Rightarrow> 'd Kernel \<Rightarrow> bool" where
  "held K sv \<longleftrightarrow> kernel_ok sv \<and> conn sv = K"

lemma seen_eq: "seen us = seen us' \<longleftrightarrow>
  us_chans us = us_chans us' \<and> us_quitting us = us_quitting us' \<and> us_logged us = us_logged us' \<and>
  us_registered us = us_registered us' \<and> us_login us = us_login us' \<and> us_type us = us_type us' \<and>
  us_instance us = us_instance us' \<and> us_uuid us = us_uuid us'"
  by (simp add: seen_def)

lemma calm_channels:
  assumes "calm sv sv'"
  shows "ChannelList sv' = ChannelList sv" "chans_of sv' = chans_of sv" "quit_of sv' = quit_of sv"
    "conn sv' = conn sv"
  using assms by (auto simp: calm_def seen_eq conn_def chans_of_def quit_of_def type_of_def)

lemma calm_logins_ok: "calm sv sv' \<Longrightarrow> logins_ok sv \<Longrightarrow> logins_ok sv'"
  unfolding calm_def seen_eq logins_ok_def by simp

lemma calm_ok: "calm sv sv' \<Longrightarrow> kernel_ok sv \<Longrightarrow> kernel_ok sv'"
  using calm_logins_ok [of sv sv'] calm_channels [of sv sv'] by (simp add: kernel_ok_def)

lemma calm_held: "calm sv sv' \<Longrightarrow> held K sv \<Longrightarrow> held K sv'"
  using calm_ok [of sv sv'] calm_channels [of sv sv'] by (simp add: held_def)

text \<open>Every step that is calm keeps it.\<close>

lemma held_step: "held K sv \<Longrightarrow> ensures m (calm sv) \<Longrightarrow> ensures m (held K)"
  by (auto simp: ensures_def intro: calm_held)

lemma held_step2: "held K sv \<Longrightarrow> ensures m (\<lambda>(x, s). calm sv s) \<Longrightarrow> ensures m (\<lambda>(x, s). held K s)"
  by (auto simp: ensures_def intro: calm_held)

section \<open>Channels\<close>

lemma channel_at_iff:
  assumes "channels_ok void going (ChannelList sv) chans quit"
  shows "channel_at sv k = Some c \<longleftrightarrow> (k, c) \<in> set (ChannelList sv)"
  using channels_okD(2) [OF assms] by (rule map_of_eq_Some_iff)

lemma logins_ok_ChannelList [simp]: "logins_ok (sv\<lparr>ChannelList := L\<rparr>) = logins_ok sv"
  by (simp add: logins_ok_def)

lemma conn_ChannelList [simp]: "conn (sv\<lparr>ChannelList := L\<rparr>) = conn sv"
  by (simp add: conn_def)

lemma removal_ok:
  assumes ok: "channels_ok {k} going (ChannelList sv) chans quit"
  shows "\<exists>L. Channels_CheckRemoval k sv = sv\<lparr>ChannelList := L\<rparr> \<and> channels_ok {} going L chans quit"
proof (cases "channel_at sv k")
  case None
  then have "(k, c) \<notin> set (ChannelList sv)" for c using channel_at_iff [OF ok] by (metis option.distinct(1))
  then have "channels_ok {} going (ChannelList sv) chans quit" using ok_filled [OF ok] by blast
  moreover have "Channels_CheckRemoval k sv = sv\<lparr>ChannelList := ChannelList sv\<rparr>"
    using None by (simp add: Channels_CheckRemoval_def)
  ultimately show ?thesis by blast
next
  case (Some c)
  then have c: "(k, c) \<in> set (ChannelList sv)" using channel_at_iff [OF ok] by blast
  note d = channels_okD [OF ok]
  have name: "ch_name c = k" using d(3) [OF c] by (simp add: channel_ok_def)
  obtain c' where "find (\<lambda>p. engine_equals (fst p) k) (ChannelList sv) = Some (k, c')"
    using find_own_name [OF d(1), of k] c by force
  then have found: "Channels_Find (ch_name c) sv = Some k" by (simp add: Channels_Find_def name)
  show ?thesis
  proof (cases "subscribedlist c = []")
    case True
    then have "Channels_CheckRemoval k sv = sv\<lparr>ChannelList := filter (\<lambda>p. fst p \<noteq> k) (ChannelList sv)\<rparr>"
      using Some found by (simp add: Channels_CheckRemoval_def)
    with ok_dropped [OF ok c True] show ?thesis by blast
  next
    case False
    then have "Channels_CheckRemoval k sv = sv\<lparr>ChannelList := ChannelList sv\<rparr>"
      using Some by (simp add: Channels_CheckRemoval_def)
    moreover have "channels_ok {} going (ChannelList sv) chans quit"
      using ok_filled [OF ok] False unique_channel [OF d(2)] c by metis
    ultimately show ?thesis by blast
  qed
qed

lemma delete_ok:
  assumes ok: "channels_ok {} going (ChannelList sv) chans0 quit"
    and rel: "\<And>v. \<not> quit v \<Longrightarrow> distinct (chans v) \<and> set (chans v) = set (chans0 v) - (if v = u then {k} else {})"
  shows "\<exists>L. Channel_DeleteUser u k sv = sv\<lparr>ChannelList := L\<rparr> \<and> channels_ok {} (going - {(u, k)}) L chans quit"
proof (cases "\<exists>c. channel_at sv k = Some c \<and> Channel_IsSubscribed u c")
  case True
  then have "Channel_DeleteUser u k sv =
      Channels_CheckRemoval k (on_channel k (\<lambda>c. c\<lparr>subscribedlist := erase_key u (subscribedlist c)\<rparr>) sv)"
    by (auto simp: Channel_DeleteUser_def)
  moreover obtain L where
    "Channels_CheckRemoval k (on_channel k (\<lambda>c. c\<lparr>subscribedlist := erase_key u (subscribedlist c)\<rparr>) sv) =
       (on_channel k (\<lambda>c. c\<lparr>subscribedlist := erase_key u (subscribedlist c)\<rparr>) sv)\<lparr>ChannelList := L\<rparr>"
    "channels_ok {} (going - {(u, k)}) L chans quit"
    using removal_ok [of k "going - {(u, k)}" "on_channel k (\<lambda>c. c\<lparr>subscribedlist := erase_key u (subscribedlist c)\<rparr>) sv" chans quit]
      ok_erase [OF ok rel] by auto
  ultimately show ?thesis by (auto simp: on_channel_def)
next
  case False
  then have same: "Channel_DeleteUser u k sv = sv\<lparr>ChannelList := ChannelList sv\<rparr>"
    by (auto simp: Channel_DeleteUser_def split: option.split)
  have none: "\<not> Channel_IsSubscribed u c" if "(k, c) \<in> set (ChannelList sv)" for c
    using False channel_at_iff [OF ok] that by blast
  have ok': "channels_ok {} (going - {(u, k)}) (ChannelList sv) chans0 quit"
    by (rule ok_no_subscription [OF ok none])
  have sets: "distinct (chans v) \<and> set (chans v) = set (chans0 v)" if "\<not> quit v" for v
    using rel [OF that] channels_okD(5) [OF ok that, of k] none by auto
  have "channels_ok {} (going - {(u, k)}) (ChannelList sv) chans quit"
    using ok' sets unfolding channels_ok_def by simp
  with same show ?thesis by blast
qed

lemma empty_channels_ok:
  assumes "channels_ok {} ({u} \<times> set ks) (ChannelList sv) chans quit" "quit u"
  shows "\<exists>L. fold (Channel_DeleteUser u) ks sv = sv\<lparr>ChannelList := L\<rparr> \<and> channels_ok {} {} L chans quit"
  using assms
proof (induction ks arbitrary: sv)
  case Nil
  then show ?case by (intro exI [of _ "ChannelList sv"]) simp
next
  case (Cons k ks)
  have "distinct (chans v) \<and> set (chans v) = set (chans v) - (if v = u then {k} else {})" if "\<not> quit v" for v
    using that Cons.prems(2) channels_okD(4) [OF Cons.prems(1) that] by auto
  from delete_ok [OF Cons.prems(1) this] obtain L where
    L: "Channel_DeleteUser u k sv = sv\<lparr>ChannelList := L\<rparr>"
    "channels_ok {} ({u} \<times> set (k # ks) - {(u, k)}) L chans quit" by blast
  have "channels_ok {} ({u} \<times> set ks) L chans quit"
    by (rule channels_ok_mono [OF L(2)]) (auto simp: channel_ok_def)
  with Cons.IH [of "sv\<lparr>ChannelList := L\<rparr>"] Cons.prems(2) L(1) show ?case by auto
qed

lemma logins_ok_cong:
  assumes "logins s = logins sv" "sv_next s = sv_next sv" "clientlist s = clientlist sv" "uuid_list s = uuid_list sv"
    and "\<And>v. us_client (sv_user s v) = us_client (sv_user sv v)" "\<And>v. us_logged (sv_user s v) = us_logged (sv_user sv v)"
    and "\<And>v. us_instance (sv_user s v) = us_instance (sv_user sv v)" "\<And>v. us_uuid (sv_user s v) = us_uuid (sv_user sv v)"
  shows "logins_ok s = logins_ok sv"
  by (simp add: logins_ok_def assms)

lemma chans_update [simp]:
  "logins_ok (sv\<lparr>sv_user := (sv_user sv)(u := (sv_user sv u)\<lparr>us_chans := x\<rparr>)\<rparr>) = logins_ok sv"
  "conn (sv\<lparr>sv_user := (sv_user sv)(u := (sv_user sv u)\<lparr>us_chans := x\<rparr>)\<rparr>) = conn sv"
  by (rule logins_ok_cong) (simp_all add: conn_def)

lemma channel_update [simp]:
  "logins_ok (on_channel k f sv) = logins_ok sv" "conn (on_channel k f sv) = conn sv"
  by (rule logins_ok_cong) (simp_all add: conn_def)

lemma heldI: "channels_ok {} {} (ChannelList sv) (chans_of sv) (quit_of sv) \<Longrightarrow> logins_ok sv \<Longrightarrow> conn sv = K \<Longrightarrow> held K sv"
  by (simp add: held_def kernel_ok_def)

lemma heldD:
  assumes "held K sv"
  shows "channels_ok {} {} (ChannelList sv) (chans_of sv) (quit_of sv)" "logins_ok sv" "conn sv = K"
  using assms by (simp_all add: held_def kernel_ok_def)

lemma part_state:
  assumes held: "held K sv"
  shows "held K (Channel_DeleteUser u k (on_us u (\<lambda>us. us\<lparr>us_chans := remove1 k (us_chans us)\<rparr>) sv))"
proof -
  let ?s = "on_us u (\<lambda>us. us\<lparr>us_chans := remove1 k (us_chans us)\<rparr>) sv"
  note h = heldD [OF held]
  have ok: "channels_ok {} {} (ChannelList ?s) (chans_of sv) (quit_of sv)" using h(1) by simp
  have "distinct (chans_of ?s v) \<and> set (chans_of ?s v) = set (chans_of sv v) - (if v = u then {k} else {})"
    if "\<not> quit_of sv v" for v
    using channels_okD(4) [OF h(1) that] by (auto simp: distinct_remove1 set_remove1_eq chans_of_def)
  from delete_ok [where chans = "chans_of ?s" and u = u and k = k, OF ok this] obtain L where
    L: "Channel_DeleteUser u k ?s = ?s\<lparr>ChannelList := L\<rparr>" "channels_ok {} {} L (chans_of ?s) (quit_of sv)"
    by auto
  have "held K (?s\<lparr>ChannelList := L\<rparr>)"
  proof (rule heldI)
    show "logins_ok (?s\<lparr>ChannelList := L\<rparr>)" unfolding logins_ok_ChannelList by (simp add: h(2))
    show "conn (?s\<lparr>ChannelList := L\<rparr>) = K" unfolding conn_ChannelList by (simp add: h(3))
    show "channels_ok {} {} (ChannelList (?s\<lparr>ChannelList := L\<rparr>)) (chans_of (?s\<lparr>ChannelList := L\<rparr>)) (quit_of (?s\<lparr>ChannelList := L\<rparr>))"
      using L(2) unfolding users_kept by simp
  qed
  then show ?thesis unfolding L(1) .
qed

lemma part_held:
  assumes held: "held K sv"
  shows "ensures (Channel_PartUser E u k sv) (\<lambda>(b, s). held K s)"
proof -
  have "ensures (bind_res (ModuleCoreDB_OnUserPart E memb sv) (\<lambda>sv.
      let sv = Channel_Write c (Part_message u (ch_name c)) {} sv;
          sv = on_us u (\<lambda>us. us\<lparr>us_chans := remove1 k (us_chans us)\<rparr>) sv
      in Inr (True, Channel_DeleteUser u k sv))) (\<lambda>(b, s). held K s)" for memb c
  proof (rule ensures_bind [OF held_step [OF held calm_OnUserPart [OF calm_refl]]])
    fix s assume "held K s"
    then have "held K (Channel_Write c (Part_message u (ch_name c)) {} s)"
      by (rule calm_held [rotated]) simp
    from part_state [OF this, of u k] show "ensures (let sv = Channel_Write c (Part_message u (ch_name c)) {} s;
          sv = on_us u (\<lambda>us. us\<lparr>us_chans := remove1 k (us_chans us)\<rparr>) sv
      in Inr (True, Channel_DeleteUser u k sv)) (\<lambda>(b, s). held K s)"
      unfolding Let_def by simp
  qed
  then show ?thesis
    using held unfolding Channel_PartUser_def by (auto split: option.split)
qed

lemma execute_held:
  assumes ok: "channels_ok {k} {} (ChannelList sv) (chans_of sv) (quit_of sv)" "logins_ok sv"
    and c: "(k, c) \<in> set (ChannelList sv)" "\<not> Channel_IsSubscribed u c"
    and u: "\<not> quit_of sv u" "IS_LOCAL sv u"
  shows "ensures (Channel_ExecuteJoin E fromconnect u k sv) (held (conn sv))"
proof -
  let ?memb = "\<lparr>sub_user = u, sub_chan = ch_name c, from_connect = fromconnect\<rparr>"
  let ?ins = "\<lambda>c. c\<lparr>subscribedlist := map_insert u ?memb (subscribedlist c)\<rparr>"
  let ?s = "on_us u (\<lambda>us. us\<lparr>us_chans := k # us_chans us\<rparr>) (on_channel k ?ins sv)"
  have name: "ch_name c = k" using channels_okD(3) [OF ok(1) c(1)] by (simp add: channel_ok_def)
  have at: "channel_at sv k = Some c" using channel_at_iff [OF ok(1)] c(1) by blast
  have ins: "channels_ok {} {} (at_channel k ?ins (ChannelList sv)) ((chans_of sv)(u := k # chans_of sv u)) (quit_of sv)"
    by (rule ok_enter [OF ok(1) c u(1)]) (simp_all add: name)
  from ins have "channels_ok {} {} (ChannelList ?s) (chans_of ?s) (quit_of ?s)"
    unfolding users_update by (simp add: chans_of_def)
  moreover have "logins_ok ?s" "conn ?s = conn sv" using ok(2)
    by (simp_all only: chans_update channel_update)
  ultimately have held: "held (conn sv) ?s" by (rule heldI)
  have "ensures (bind_res (ModuleCoreDB_OnUserJoin E ?memb ?s) (\<lambda>sv.
          case channel_at sv k of None \<Rightarrow> Inl Undefined_behaviour
          | Some c \<Rightarrow> CoreModChannel_OnPostJoin u k (Channel_Write c (Join_message u (ch_name c)) {} sv))) (held (conn sv))"
  proof (rule ensures_bind [OF held_step [OF held calm_OnUserJoin [OF calm_refl]]])
    fix s assume s: "held (conn sv) s"
    then have "held (conn sv) (Channel_Write c m {} s)" for c m by (rule calm_held [rotated]) simp
    then show "ensures (case channel_at s k of None \<Rightarrow> Inl Undefined_behaviour
          | Some c \<Rightarrow> CoreModChannel_OnPostJoin u k (Channel_Write c (Join_message u (ch_name c)) {} s)) (held (conn sv))"
      by (auto split: option.split intro: held_step [OF _ calm_OnPostJoin [OF calm_refl]])
  qed
  then show ?thesis
    using u(2) c(2) at by (simp add: Channel_ExecuteJoin_def Channel_AddUser_def Let_def)
qed

text \<open>What \<open>JoinUser\<close> goes on with.\<close>

lemma join_target_calm: "join_target u cname sv = Inl s \<Longrightarrow> calm sv s"
  by (auto simp: join_target_def Let_def split: if_splits option.splits)

definition present :: "connected \<Rightarrow> nat \<Rightarrow> bool" where
  "present K u \<longleftrightarrow> \<not> fst K u"

definition active :: "connected \<Rightarrow> nat \<Rightarrow> bool" where
  "active K u \<longleftrightarrow> present K u \<and> snd (snd K) u = CLIENT_TYPE_LOCAL"

lemma held_present: "held K sv \<Longrightarrow> present K u \<longleftrightarrow> \<not> quit_of sv u"
  by (auto simp: held_def conn_def present_def)

lemma held_active: "held K sv \<Longrightarrow> active K u \<longleftrightarrow> present K u \<and> IS_LOCAL sv u"
  by (auto simp: held_def conn_def active_def type_of_def)

lemma join_enter_held:
  assumes held: "held K sv" and active: "active K u"
  shows "ensures (join_enter E fromconnect u name chan sv) (\<lambda>(b, s). held K s)"
proof -
  have u: "\<not> quit_of sv u" "IS_LOCAL sv u"
    using active held_active [OF held] held_present [OF held] by auto
  show ?thesis
proof (cases chan)
  case None
  note h = heldD [OF held]
  have "ensures (bind_res (new_Channel name sv) (\<lambda>sv.
      bind_res (Channel_ExecuteJoin E fromconnect u name sv) (\<lambda>sv. Inr (True, sv)))) (\<lambda>(b, s). held K s)"
  proof (cases "Channels_Find name sv")
    case (Some k) then show ?thesis by (simp add: new_Channel_def)
  next
    case none: None
    let ?c = "\<lparr>ch_name = name, ch_created = w_now (sv_world sv), muted = False, subscribedlist = []\<rparr>"
    let ?s = "sv\<lparr>ChannelList := ChannelList sv @ [(name, ?c)]\<rparr>"
    have "find (\<lambda>p. engine_equals (fst p) name) (ChannelList sv) = None"
      using none by (simp add: Channels_Find_def)
    from ok_new [OF h(1) this, of ?c]
    have "channels_ok {name} {} (ChannelList ?s) (chans_of ?s) (quit_of ?s)" by simp
    then have "ensures (Channel_ExecuteJoin E fromconnect u name ?s) (held (conn ?s))"
      by (rule execute_held [where c = ?c]) (use h(2) u in \<open>simp_all add: Channel_IsSubscribed_def\<close>)
    then have "ensures (bind_res (Channel_ExecuteJoin E fromconnect u name ?s) (\<lambda>sv. Inr (True, sv))) (\<lambda>(b, s). held K s)"
      by (rule ensures_bind) (use h(3) in simp)
    then show ?thesis using none by (simp add: new_Channel_def)
  qed
  then show ?thesis by (simp add: join_enter_def None)
next
  case (Some k)
  note h = heldD [OF held]
  have "ensures (bind_res (Channel_ExecuteJoin E fromconnect u k sv) (\<lambda>sv. Inr (True, sv))) (\<lambda>(b, s). held K s)"
  proof (cases "\<exists>c. channel_at sv k = Some c \<and> \<not> Channel_IsSubscribed u c")
    case False
    then show ?thesis
      using u(2) by (auto simp: Channel_ExecuteJoin_def Channel_AddUser_def split: option.split)
  next
    case True
    then obtain c where c: "(k, c) \<in> set (ChannelList sv)" "\<not> Channel_IsSubscribed u c"
      using channel_at_iff [OF h(1)] by blast
    have "channels_ok {k} {} (ChannelList sv) (chans_of sv) (quit_of sv)"
      by (rule channels_ok_mono [OF h(1)]) (simp add: channel_ok_def)
    then have "ensures (Channel_ExecuteJoin E fromconnect u k sv) (held (conn sv))"
      by (rule execute_held [OF _ h(2) c u])
    then show ?thesis by (rule ensures_bind) (use h(3) in simp)
  qed
  then show ?thesis by (simp add: join_enter_def Some)
qed
qed

lemma join_override_held:
  assumes "held K sv" "active K u"
  shows "ensures (JoinUser_override E fromconnect u cname sv) (\<lambda>(b, s). held K s)"
  using assms join_target_calm [of u cname sv]
  by (auto simp: JoinUser_override_def split: sum.split intro: calm_held join_enter_held)

lemma held_tell [simp]: "held K (tell u f sv) \<longleftrightarrow> held K sv"
proof
  assume "held K sv" then show "held K (tell u f sv)" by (rule calm_held [rotated]) simp
next
  assume "held K (tell u f sv)"
  moreover have "calm (tell u f sv) sv" by (simp add: calm_def tell_def)
  ultimately show "held K sv" by (rule calm_held [rotated])
qed

lemma held_NoChannel [simp]: "held K (NoChannel c u sv) \<longleftrightarrow> held K sv"
  by (simp add: NoChannel_def)

lemma held_NoInstance [simp]: "held K (NoInstance c u sv) \<longleftrightarrow> held K sv"
  by (simp add: NoInstance_def)

lemma ensures_fst_bind:
  "ensures m (\<lambda>(b, s). P s) \<Longrightarrow> (\<And>b s. P s \<Longrightarrow> ensures (f (b, s)) Q) \<Longrightarrow> ensures (bind_res m f) Q"
  by (cases m) auto

lemma OnUserPreJoin_held:
  assumes "held K sv" "active K u"
  shows "ensures (OnUserPreJoin E u chan cname m sv) (\<lambda>(b, s). held K s)"
  using assms
  by (cases m) (auto split: option.split intro!: ensures_fst_bind [OF join_override_held])

lemma ask_modules_held:
  assumes "held K sv" "active K u"
  shows "ensures (ask_modules E u chan cname ms sv) (\<lambda>(b, s). held K s)"
  using assms
proof (induction ms arbitrary: sv)
  case (Cons m ms)
  have "ensures (bind_res (OnUserPreJoin E u chan cname m sv) (\<lambda>(stop, sv).
      if stop then Inr (True, sv) else ask_modules E u chan cname ms sv)) (\<lambda>(b, s). held K s)"
    by (rule ensures_fst_bind [OF OnUserPreJoin_held [OF Cons.prems]]) (simp add: Cons)
  then show ?case by simp
qed simp

lemma join_held:
  assumes "held K sv" "active K u"
  shows "ensures (Channel_JoinUser E fromconnect u cname override sv) (\<lambda>(b, s). held K s)"
proof (cases "join_target u cname sv")
  case (Inl s)
  with join_target_calm [OF this] assms show ?thesis by (auto simp: Channel_JoinUser_def intro: calm_held)
next
  case (Inr p)
  obtain name chan where p: "p = (name, chan)" by (cases p)
  have "ensures (bind_res (ask_modules E u chan name (sv_modules sv) sv) (\<lambda>(stop, sv).
      if stop then Inr (False, sv) else join_enter E fromconnect u name chan sv)) (\<lambda>(b, s). held K s)"
    by (rule ensures_fst_bind [OF ask_modules_held [OF assms]]) (simp add: join_enter_held assms(2))
  moreover have "ensures (join_enter E fromconnect u name chan sv) (\<lambda>(b, s). held K s)"
    by (rule join_enter_held [OF assms])
  ultimately show ?thesis by (simp add: Channel_JoinUser_def Inr p)
qed

section \<open>The users of a login\<close>

text \<open>Who is found by a login is connected.\<close>

lemma FindLogin_connected:
  assumes "held K sv" "u \<in> set (FindLogin login state sv)"
  shows "present K u"
  using assms heldD(2) [OF assms(1)] held_present [OF assms(1)]
  by (auto simp: FindLogin_def logins_ok_def quit_of_def)

lemma join_if_local:
  assumes "held K sv" "present K u"
  shows "IS_LOCAL sv u \<Longrightarrow> ensures (bind_res (Channel_JoinUser E fromconnect u c True sv) (\<lambda>(_, sv). Inr sv)) (held K)"
  using assms held_active [OF assms(1)] by (auto intro!: ensures_fst_bind [OF join_held])

lemma sync_Join_held:
  assumes sv: "held K sv"
  shows "ensures (ClientManager_Join E skip login channel sv) (held K)"
  unfolding ClientManager_Join_def
  by (rule ensures_fold) (auto intro!: join_if_local sv intro: FindLogin_connected [OF sv])

lemma sync_Part_held:
  assumes sv: "held K sv"
  shows "ensures (ClientManager_Part E skip login channel sv) (held K)"
  unfolding ClientManager_Part_def
  using sv by (auto split: option.split intro!: ensures_fold ensures_fst_bind [OF part_held])

lemma autojoin_held:
  assumes sv: "held K sv" "present K u"
  shows "ensures (core_Autojoin E u sv) (held K)"
  unfolding core_Autojoin_def
  by (rule ensures_fst_bind [OF held_step2 [OF sv(1) calm_from_world [OF calm_refl]]])
    (auto intro!: ensures_fold join_if_local sv(2))

lemma module_autojoin_held:
  assumes sv: "held K sv" "present K u"
  shows "ensures (ModuleAutojoin_OnPostConnect E chans u sv) (held K)"
  unfolding ModuleAutojoin_OnPostConnect_def
  by (rule ensures_fold) (auto intro!: join_if_local sv)

section \<open>The commands on channels\<close>

text \<open>A command of a local user who is connected keeps the invariant.\<close>

definition keeps :: "('d, 'n) env \<Rightarrow> ('d, 'n) kernel_handler \<Rightarrow> bool" where
  "keeps E h \<longleftrightarrow> (\<forall>K u ps sv. held K sv \<longrightarrow> active K u \<longrightarrow> ensures (h E u ps sv) (\<lambda>(r, s). held K s))"

lemma keepsI:
  "(\<And>K u ps sv. held K sv \<Longrightarrow> active K u \<Longrightarrow> ensures (h E u ps sv) (\<lambda>(r, s). held K s)) \<Longrightarrow> keeps E h"
  by (simp only: keeps_def) blast

lemma keepsD:
  "keeps E h \<Longrightarrow> held K sv \<Longrightarrow> active K u \<Longrightarrow> ensures (h E u ps sv) (\<lambda>(r, s). held K s)"
  by (simp only: keeps_def)

lemma held_occurs: "held K sv \<Longrightarrow> held K (occurs e sv)"
  by (rule calm_held [of sv]) simp_all

lemma loop_held:
  assumes "keeps E h" "held K sv" "active K u"
  shows "ensures (with_loop result name u splithere extra usemax (h E u) ps sv) (\<lambda>(r, s). held K s)"
  by (rule ensures_with_loop) (auto intro: held_occurs keepsD assms)

end
