(* ===== verification/KernelHistory.thy ===== *)
theory KernelHistory
  imports KernelFacts
begin

text \<open>
  The invariant of the tables over all that happens: every command on channels, logging in and
  out, the commands on users and groups, new connections and the end of one.
\<close>

section \<open>Commands on channels\<close>

lemma at_channel_ok:
  assumes ok: "channels_ok void going L chans quit"
    and f: "\<And>c. ch_name (f c) = ch_name c" "\<And>c. subscribedlist (f c) = subscribedlist c"
  shows "channels_ok void going (at_channel k f L) chans quit"
proof (rule channels_okI)
  note d = channels_okD [OF ok]
  show "sorted_wrt (\<lambda>p q. \<not> engine_equals (fst p) (fst q)) (at_channel k f L)"
    using d(1) by (simp add: sorted_wrt_at_channel)
  show "distinct (map fst (at_channel k f L))" using d(2) by simp
  show "channel_ok void going quit j c" if mem: "(j, c) \<in> set (at_channel k f L)" for j c
  proof -
    obtain c0 where "(j, c0) \<in> set L" "c = (if j = k then f c0 else c0)"
      using mem unfolding set_at_channel by blast
    with d(3) [of j c0] f show ?thesis by (cases "j = k") (simp_all add: channel_ok_def)
  qed
  show "distinct (chans u)" if "\<not> quit u" for u by (rule d(4) [OF that])
  show "(j \<in> set (chans u)) \<longleftrightarrow> (\<exists>c. (j, c) \<in> set (at_channel k f L) \<and> Channel_IsSubscribed u c)"
    if "\<not> quit u" for u j
    using d(5) [OF that] f by (simp add: ex_at_channel Channel_IsSubscribed_def if_distrib cong: if_cong)
qed

lemma held_muted: "held K sv \<Longrightarrow> held K (on_channel k (\<lambda>c. c\<lparr>muted := b\<rparr>) sv)"
  using heldD [of K sv] by (intro heldI) (auto intro: at_channel_ok)

lemma ensures_param: "(\<And>x. ensures (f x) P) \<Longrightarrow> ensures (bind_res (param ps i) f) P"
  by (rule ensures_any)

lemma sync_join_held: "held K sv \<Longrightarrow> ensures (sync_join E u c sv) (held K)"
  by (simp add: sync_join_def sync_Join_held)

lemma sync_part_held: "held K sv \<Longrightarrow> ensures (sync_part E u c sv) (held K)"
  by (simp add: sync_part_def sync_Part_held)

lemma keeps_join_one: "keeps E join_one"
  by (rule keepsI)
    (auto simp: join_one_def split: option.split
      intro!: ensures_param ensures_fst_bind [OF join_held] ensures_bind [OF sync_join_held])

lemma keeps_part_one: "keeps E part_one"
  by (rule keepsI)
    (auto simp: part_one_def split: option.split
      intro!: ensures_param ensures_fst_bind [OF part_held] ensures_bind [OF sync_part_held])

lemma keeps_hop_one: "keeps E hop_one"
  by (rule keepsI)
    (auto simp: hop_one_def split: option.split
      intro!: ensures_param ensures_fst_bind [OF part_held] ensures_fst_bind [OF join_held])

lemma keeps_slist_one: "keeps E slist_one"
  by (rule keepsI)
    (auto simp: slist_one_def CommandSlist_SendSlist_def split: option.split intro!: ensures_param)

lemma keeps_JOIN: "keeps E CommandJoin_HandleLocal"
  by (rule keepsI) (simp add: CommandJoin_HandleLocal_def loop_held [OF keeps_join_one])

lemma keeps_PART: "keeps E CommandPart_Handle"
  by (rule keepsI) (simp add: CommandPart_Handle_def loop_held [OF keeps_part_one])

lemma keeps_HOP: "keeps E CommandHop_HandleLocal"
  by (rule keepsI) (simp add: CommandHop_HandleLocal_def loop_held [OF keeps_hop_one])

lemma keeps_SLIST: "keeps E CommandSlist_HandleLocal"
  by (rule keepsI) (simp add: CommandSlist_HandleLocal_def loop_held [OF keeps_slist_one])

lemma keeps_PARTALL: "keeps E CommandPartAll_Handle"
  by (rule keepsI)
    (auto simp: CommandPartAll_Handle_def intro!: ensures_bind [OF ensures_fold] ensures_fst_bind [OF part_held])

lemma keeps_MUTE: "keeps E CommandMute_Handle"
  by (rule keepsI)
    (auto simp: CommandMute_Handle_def held_muted split: option.split intro!: ensures_param)

lemma keeps_UNMUTE: "keeps E CommandUnmute_Handle"
  by (rule keepsI)
    (auto simp: CommandUnmute_Handle_def held_muted split: option.split intro!: ensures_param)

lemma keeps_lists:
  "keeps E CommandMyChans_Handle" "keeps E CommandChans_Handle" "keeps E CommandUsers_Handle"
  "keeps E CommandListChans_Handle"
  by (rule keepsI, auto simp: CommandMyChans_Handle_def CommandChans_Handle_def CommandUsers_Handle_def
      CommandListChans_Handle_def Let_def split: option.split prod.split intro!: ensures_param)+

lemma massjoin_held: "held K sv \<Longrightarrow> ensures (massjoin_one E channel dest (n, sv)) (\<lambda>(n, s). held K s)"
  using held_present [of K sv dest] held_active [of K sv dest]
  by (auto simp: massjoin_one_def quit_of_def intro!: ensures_fst_bind [OF join_held])

lemma keeps_MASSJOIN: "keeps E CommandMassJoin_Handle"
proof (rule keepsI)
  fix K :: connected and u ps and sv :: "'a Kernel"
  assume sv: "held K sv"
  have "ensures (fold_res (massjoin_one E channel) us (0, sv)) (\<lambda>(n, s). held K s)" for channel us
    by (rule ensures_fold) (auto simp: sv intro: massjoin_held)
  then show "ensures (CommandMassJoin_Handle E u ps sv) (\<lambda>(r, s). held K s)"
    unfolding CommandMassJoin_Handle_def
    by (intro ensures_param ensures_fst_bind) auto
qed

section \<open>Publishing\<close>

lemma calm_touch: "calm sv (on_us u (on_client (\<lambda>c. c\<lparr>cl_touchbase := t\<rparr>)) s) \<longleftrightarrow> calm sv s"
  by (rule calm_on_us) (simp add: seen_def)

lemma calm_AlertPost: "calm sv s \<Longrightarrow> calm sv (snd (AlertPostEvent u s))"
  by (simp add: AlertPostEvent_def calm_touch)

lemma calm_AlertPre: "AlertPreEvents u t msg s = (b, s') \<Longrightarrow> calm sv s \<Longrightarrow> calm sv s'"
  by (auto simp: AlertPreEvents_def OnInstancePrePublish_def
      split: MessageTarget.splits option.splits prod.splits bool.splits if_splits)

lemma calm_AlertPre_fst: "calm sv (snd (AlertPreEvents u t msg sv))"
  by (metis calm_AlertPre calm_refl prod.collapse)

lemma calm_publish_targets:
  "calm sv (snd (HandleChannelTarget u p0 msg sv))"
  "calm sv (snd (HandleServerTarget u p0 msg sv))"
  "calm sv (snd (HandleUserTarget u p0 msg sv))"
proof -
  have fold: "calm sv (fold (\<lambda>u sv. if us_registered (sv_user sv u) = REG_OK \<longrightarrow> u = v then sv
      else send_event m u sv) us s)" if "calm sv s" for m us s v
    by (rule fold_keeps) (use that in auto)
  show "calm sv (snd (HandleChannelTarget u p0 msg sv))"
    by (auto simp: HandleChannelTarget_def calm_AlertPost split: option.split prod.split bool.split
        dest!: calm_AlertPre [where sv = sv])
  show "calm sv (snd (HandleServerTarget u p0 msg sv))"
    by (auto simp: HandleServerTarget_def calm_AlertPost fold split: option.split prod.split bool.split
        dest!: calm_AlertPre [where sv = sv])
  show "calm sv (snd (HandleUserTarget u p0 msg sv))"
    by (auto simp: HandleUserTarget_def calm_AlertPost split: option.split prod.split bool.split
        dest!: calm_AlertPre [where sv = sv])
qed

lemma calm_keeps:
  assumes "\<And>u ps sv. ensures (h E u ps sv) (\<lambda>(r, s). calm sv s)"
  shows "keeps E h"
  by (rule keepsI) (auto intro: held_step2 assms)

lemma keeps_publish_one: "keeps E publish_one"
proof (rule calm_keeps)
  show "ensures (publish_one E u ps sv) (\<lambda>(r, s). calm sv s)" for u ps and sv :: "'a Kernel"
    using calm_publish_targets [of sv u]
    by (auto simp: publish_one_def case_prod_beta intro!: ensures_param)
qed

lemma keeps_PUBLISH: "keeps E CommandMessage_Handle"
  by (rule keepsI) (simp add: CommandMessage_Handle_def loop_held [OF keeps_publish_one])

lemma keeps_SQUERY: "keeps E CommandSQuery_HandleLocal"
proof (rule calm_keeps)
  show "ensures (CommandSQuery_HandleLocal E u ps sv) (\<lambda>(r, s). calm sv s)" for u ps and sv :: "'a Kernel"
    by (auto simp: CommandSQuery_HandleLocal_def case_prod_beta Let_def calm_AlertPre_fst calm_AlertPost
        intro!: ensures_param split: option.split bool.split)
qed

section \<open>The end of a user\<close>

lemma set_erase_first:
  "distinct (map snd L) \<Longrightarrow> set (erase_first (\<lambda>p. snd p = u) L) = {p \<in> set L. snd p \<noteq> u}"
  by (induction L) (auto simp: image_iff)

lemma distinct_erase_first: "distinct (map snd L) \<Longrightarrow> distinct (map snd (erase_first (\<lambda>p. snd p = u) L))"
proof (induction L)
  case (Cons p L)
  then have "set (erase_first (\<lambda>p. snd p = u) L) \<subseteq> set L" by (auto simp: set_erase_first)
  with Cons show ?case by (auto simp: image_iff)
qed simp

text \<open>The tables without the user of that instance and that identifier.\<close>

definition struck :: "nat \<Rightarrow> LocalUser \<Rightarrow> 'd Kernel \<Rightarrow> 'd Kernel" where
  "struck u us sv =
     (let sv = EraseLogin u (sv\<lparr>clientlist := imap_erase (us_instance us) (clientlist sv)\<rparr>)
      in sv\<lparr>uuid_list := imap_erase (us_uuid us) (uuid_list sv)\<rparr>)"

lemma calm_struck: "calm a b \<Longrightarrow> calm (struck u us a) (struck u us b)"
  by (simp add: calm_def struck_def EraseLogin_def)

lemma struck_simps [simp]:
  "ChannelList (struck u us sv) = ChannelList sv" "sv_user (struck u us sv) = sv_user sv"
  "logins (struck u us sv) = erase_first (\<lambda>p. snd p = u) (logins sv)" "sv_next (struck u us sv) = sv_next sv"
  "clientlist (struck u us sv) = imap_erase (us_instance us) (clientlist sv)"
  "uuid_list (struck u us sv) = imap_erase (us_uuid us) (uuid_list sv)"
  by (simp_all add: struck_def EraseLogin_def)

text \<open>The user marked as quitting, and taken from the tables.\<close>

definition gone :: "nat \<Rightarrow> 'd Kernel \<Rightarrow> 'd Kernel" where
  "gone u sv = struck u (sv_user sv u) (on_us u (on_client (\<lambda>c. c\<lparr>cl_quitting := True\<rparr>)) sv)"

lemma gone_user: "sv_user (gone u sv) v = (if v = u then on_client (\<lambda>c. c\<lparr>cl_quitting := True\<rparr>) (sv_user sv u) else sv_user sv v)"
  by (simp add: gone_def)

lemma gone_simps [simp]:
  "ChannelList (gone u sv) = ChannelList sv" "chans_of (gone u sv) = chans_of sv"
  "quit_of (gone u sv) = (quit_of sv)(u := True)" "sv_next (gone u sv) = sv_next sv"
  "logins (gone u sv) = erase_first (\<lambda>p. snd p = u) (logins sv)"
  "clientlist (gone u sv) = imap_erase (us_instance (sv_user sv u)) (clientlist sv)"
  "uuid_list (gone u sv) = imap_erase (us_uuid (sv_user sv u)) (uuid_list sv)"
  "us_chans (sv_user (gone u sv) v) = us_chans (sv_user sv v)"
proof -
  show "chans_of (gone u sv) = chans_of sv" by (rule ext) (simp add: chans_of_def gone_user)
  show "quit_of (gone u sv) = (quit_of sv)(u := True)" by (rule ext) (simp add: quit_of_def gone_user)
qed (simp_all add: gone_user, simp_all add: gone_def)

lemma gone_logins_ok:
  assumes ok: "logins_ok sv" shows "logins_ok (gone u sv)"
proof -
  have d: "distinct (map snd (logins sv))" using ok by (simp add: logins_ok_def)
  have eq: "us_quitting (sv_user (gone u sv) v) = (v = u \<or> us_quitting (sv_user sv v))"
    "us_logged (sv_user (gone u sv) v) = us_logged (sv_user sv v)"
    "us_login (sv_user (gone u sv) v) = us_login (sv_user sv v)"
    "us_registered (sv_user (gone u sv) v) = us_registered (sv_user sv v)"
    "us_instance (sv_user (gone u sv) v) = us_instance (sv_user sv v)"
    "us_uuid (sv_user (gone u sv) v) = us_uuid (sv_user sv v)" for v
    by (auto simp: gone_def)
  show ?thesis
    using ok distinct_erase_first [OF d] unfolding logins_ok_def eq gone_simps set_erase_first [OF d]
    by (auto simp: imap_erase_def)
qed

lemma gone_channels_ok:
  assumes ok: "channels_ok {} {} (ChannelList sv) (chans_of sv) (quit_of sv)" and u: "\<not> quit_of sv u"
  shows "channels_ok {} ({u} \<times> set (us_chans (sv_user sv u))) (ChannelList sv) (chans_of sv) ((quit_of sv)(u := True))"
proof (rule channels_okI)
  note d = channels_okD [OF ok]
  show "channel_ok {} ({u} \<times> set (us_chans (sv_user sv u))) ((quit_of sv)(u := True)) k c"
    if kc: "(k, c) \<in> set (ChannelList sv)" for k c
  proof -
    have "k \<in> set (us_chans (sv_user sv u))" if "p \<in> set (subscribedlist c)" "fst p = u" for p
      using d(5) [OF u, of k] kc that by (auto simp: chans_of_def Channel_IsSubscribed_def)
    then show ?thesis using d(3) [OF kc] by (auto simp: channel_ok_def)
  qed
  show "distinct (chans_of sv v)" if "\<not> ((quit_of sv)(u := True)) v" for v
    using d(4) [of v] that by (auto split: if_splits)
  show "(k \<in> set (chans_of sv v)) \<longleftrightarrow> (\<exists>c. (k, c) \<in> set (ChannelList sv) \<and> Channel_IsSubscribed v c)"
    if "\<not> ((quit_of sv)(u := True)) v" for v k
    using d(5) [of v] that by (auto split: if_splits)
qed (rule channels_okD [OF ok])+

lemma empty_after:
  assumes ok: "kernel_ok sv" and u: "\<not> quit_of sv u" and calm: "calm (gone u sv) s"
  shows "kernel_ok (User_CheckEmptyChannels u s)"
proof -
  note c = calm_channels [OF calm]
  have chans: "us_chans (sv_user s u) = us_chans (sv_user sv u)"
    using calm by (simp add: calm_def seen_eq)
  have "channels_ok {} ({u} \<times> set (us_chans (sv_user s u))) (ChannelList s) (chans_of s) (quit_of s)"
    using gone_channels_ok [OF _ u] ok by (simp add: c chans kernel_ok_def)
  then obtain L where L: "fold (Channel_DeleteUser u) (us_chans (sv_user s u)) s = s\<lparr>ChannelList := L\<rparr>"
    "channels_ok {} {} L (chans_of s) (quit_of s)"
    using empty_channels_ok by (metis c(3) fun_upd_same gone_simps(3))
  have "logins_ok s" using calm_logins_ok [OF calm gone_logins_ok] ok by (simp add: kernel_ok_def)
  with L(2) show ?thesis unfolding User_CheckEmptyChannels_def L(1) by (simp add: kernel_ok_def)
qed

lemma calm_fold_send [simp]: "calm sv (fold (send_event m) us s) \<longleftrightarrow> calm sv s"
  by (induction us arbitrary: s) auto

lemma calm_if [simp]:
  "calm sv (if b then x else y) \<longleftrightarrow> (if b then calm sv x else calm sv y)"
  by simp

text \<open>What \<open>Clients_Disconnect\<close> does between the mark and the tables is calm.\<close>

definition farewell :: "nat \<Rightarrow> string \<Rightarrow> LocalUser \<Rightarrow> nat list \<Rightarrow> bool \<Rightarrow> 'd Kernel \<Rightarrow> 'd Kernel" where
  "farewell u quitmsg us near loc sv =
     (let sv = (if loc then send_event (Error_message (''Closing connection: ('' @ c_str (us_agent us) @ ''@'' @
                          c_str (us_realhost us) @ '') ['' @ c_str quitmsg @ '']'')) u
                          (send u BRLD_ERROR [quitmsg] sv) else sv);
          sv = (if \<not> cl_Locked (us_client us) then occurs (Culled u) sv
                else sv\<lparr>AwaitingExit := AwaitingExit sv @ [u]\<rparr>);
          sv = (if us_registered us = REG_OK then fold (send_event (Quit_message u quitmsg)) near sv
                else sv\<lparr>not_registered_track := not_registered_track sv - 1\<rparr>);
          sv = (if loc then (occurs (Closed u) sv)\<lparr>local_users := remove1 u (local_users sv)\<rparr> else sv)
      in sv)"

lemma calm_farewell [simp]: "calm sv (farewell u quitmsg us near loc s) \<longleftrightarrow> calm sv s"
  by (simp add: farewell_def Let_def)

lemma disconnect_farewell:
  assumes "\<not> us_quitting (sv_user sv u)" "\<not> IS_SERVER sv u"
  shows "\<exists>near. Clients_Disconnect u msg sv = User_CheckEmptyChannels u
    (struck u (sv_user sv u) (farewell u msg (sv_user sv u) near (IS_LOCAL sv u)
        (on_us u (on_client (\<lambda>c. c\<lparr>cl_quitting := True\<rparr>)) sv)))"
  unfolding Clients_Disconnect_def farewell_def struck_def Let_def if_not_P [OF assms(1)] if_not_P [OF assms(2)]
  by (rule exI, rule refl)

lemma disconnect_ok:
  assumes ok: "kernel_ok sv" shows "kernel_ok (Clients_Disconnect u msg sv)"
proof (cases "us_quitting (sv_user sv u) \<or> IS_SERVER sv u")
  case False
  then obtain near where eq: "Clients_Disconnect u msg sv = User_CheckEmptyChannels u
    (struck u (sv_user sv u) (farewell u msg (sv_user sv u) near (IS_LOCAL sv u)
        (on_us u (on_client (\<lambda>c. c\<lparr>cl_quitting := True\<rparr>)) sv)))"
    using disconnect_farewell [of sv u msg] by blast
  have "calm (gone u sv) (struck u (sv_user sv u) (farewell u msg (sv_user sv u) near (IS_LOCAL sv u)
        (on_us u (on_client (\<lambda>c. c\<lparr>cl_quitting := True\<rparr>)) sv)))"
    unfolding gone_def by (rule calm_struck) simp
  with empty_after [OF ok, of u] False show ?thesis unfolding eq by (simp add: quit_of_def)
qed (auto simp: Clients_Disconnect_def ok)

end
