(* ===== verification/KernelSteps.thy ===== *)
theory KernelSteps
  imports KernelHistory
begin

text \<open>
  The steps of the server that touch users and channels, and the invariant of its tables in every
  state they reach.
\<close>

section \<open>Operations on the database\<close>

text \<open>A call that leaves the tables alone.\<close>

definition gently :: "'d Kernel \<Rightarrow> ('a \<times> 'd Kernel) res \<Rightarrow> bool" where
  "gently sv m \<longleftrightarrow> ensures m (\<lambda>(x, s). calm sv s)"

lemma gently_Inr [simp]: "gently sv (Inr (x, s)) \<longleftrightarrow> calm sv s"
  by (simp add: gently_def)

lemma gently_Inl [simp]: "gently sv (Inl e)"
  by (simp add: gently_def)

lemma gently_bind:
  assumes "gently sv m" "\<And>x s. calm sv s \<Longrightarrow> gently sv (f (x, s))"
  shows "gently sv (bind_res m f)"
  using assms by (cases m) (auto simp: gently_def)

lemma gently_after:
  assumes "ensures m (calm sv)" "\<And>s. calm sv s \<Longrightarrow> gently sv (f s)"
  shows "gently sv (bind_res m f)"
  using assms by (cases m) (auto simp: gently_def)

lemma gently_param:
  assumes "\<And>x. gently sv (f x)"
  shows "gently sv (bind_res (param ps i) f)"
  using assms by (cases "param ps i") auto

lemma calm_bind:
  assumes "ensures m (calm sv)" "\<And>s. calm sv s \<Longrightarrow> ensures (f s) (calm sv)"
  shows "ensures (bind_res m f) (calm sv)"
  using assms by (cases m) auto

lemma calm_bind2:
  assumes "gently sv m" "\<And>x s. calm sv s \<Longrightarrow> ensures (f (x, s)) (calm sv)"
  shows "ensures (bind_res m f) (calm sv)"
  using assms by (cases m) (auto simp: gently_def)

lemma gently_world:
  assumes "calm sv s"
  shows "gently sv (from_world f s)" "gently sv (get_field E user key s)"
    "gently sv (UserHelper_CheckFlags E user s)" "gently sv (user_exists E user s)"
  using calm_from_world [OF assms]
  by (simp_all add: gently_def get_field_def UserHelper_CheckFlags_def user_exists_def)

lemma calm_world:
  assumes "calm sv s"
  shows "ensures (on_world f s) (calm sv)" "ensures (set_field E user key val s) (calm sv)"
    "ensures (del_field E user key s) (calm sv)" "ensures (UserHelper_SetFlags E user flags s) (calm sv)"
    "ensures (UserHelper_DeleteFlags E user s) (calm sv)"
  using calm_on_world [OF assms]
  by (simp_all add: set_field_def del_field_def UserHelper_SetFlags_def UserHelper_DeleteFlags_def)

lemma calm_cache [simp]:
  "calm sv (LoginCache_Add user pass s) \<longleftrightarrow> calm sv s"
  "calm sv (LoginCache_Remove user s) \<longleftrightarrow> calm sv s"
  "calm sv (LoginCache_Reset s) \<longleftrightarrow> calm sv s"
  by (simp_all add: LoginCache_Add_def LoginCache_RemoveLastCache_def LoginCache_Remove_def
      LoginCache_Reset_def Let_def)

lemma calm_send_fold [simp]: "calm sv (fold (\<lambda>u. send u code ps) us s) \<longleftrightarrow> calm sv s"
  by (induction us arbitrary: s) auto

lemma gently_HasFlags: "calm sv s \<Longrightarrow> gently sv (UserHelper_HasFlags E user s)"
  unfolding UserHelper_HasFlags_def by (rule gently_bind [OF gently_world(2)]) simp_all

lemma gently_CheckPass: "calm sv s \<Longrightarrow> gently sv (UserHelper_CheckPass E H user key s)"
  unfolding UserHelper_CheckPass_def Let_def
  by (auto intro!: gently_bind [OF gently_world(2)] split: option.split)

lemma gently_Add: "calm sv s \<Longrightarrow> gently sv (UserHelper_Add E H user pass s)"
  unfolding UserHelper_Add_def Let_def
  by (auto intro!: gently_after [OF calm_world(2)] calm_next split: option.split)

lemma gently_ChangePass: "calm sv s \<Longrightarrow> gently sv (UserHelper_ChangePass E H user pass s)"
  unfolding UserHelper_ChangePass_def Let_def
  by (auto intro!: gently_after [OF calm_world(2)] calm_next split: option.split)

lemma calm_Remove: "calm sv s \<Longrightarrow> ensures (UserHelper_Remove E user s) (calm sv)"
  unfolding UserHelper_Remove_def by (auto intro!: calm_bind calm_world)

section \<open>Sessions and groups\<close>

lemma calm_Attach [simp]: "calm sv (SessionManager_Attach u login flags s)" if "calm sv s"
proof -
  have eq: "SessionManager_Attach u login flags s =
      (let (attach, s) = (case SessionManager_Find login s of
           None \<Rightarrow> SessionManager_Add login flags s
         | Some a \<Rightarrow> (Some a, s\<lparr>sv_session := (sv_session s)(a := Session_SetFlags (sv_session s a) flags)\<rparr>))
       in occurs (OnAdmin u flags) (on_us u (\<lambda>us. us\<lparr>us_session := attach\<rparr>) s))"
    by (simp add: SessionManager_Attach_def)
  have add: "calm sv (snd (SessionManager_Add login flags s))"
    using that by (auto simp: SessionManager_Add_def Let_def intro: calm_next)
  have us: "calm sv (on_us u (\<lambda>us. us\<lparr>us_session := a\<rparr>) s') \<longleftrightarrow> calm sv s'" for a s'
    by (rule calm_on_us) (simp add: seen_def)
  show ?thesis
    unfolding eq Let_def using that add by (simp add: us case_prod_beta split: option.split)
qed

lemma calm_AttachExternal [simp]: "calm sv s \<Longrightarrow> calm sv (SessionManager_AttachExternal login flags s)"
  unfolding SessionManager_AttachExternal_def by (rule fold_keeps) auto

lemma calm_NotifyFlags [simp]: "calm sv (SessionManager_NotifyFlags login flags s) \<longleftrightarrow> calm sv s"
  by (simp add: SessionManager_NotifyFlags_def)

lemma calm_groups:
  assumes "calm sv s"
  shows "calm sv (on_us v (User_PushGroup a) s)" "calm sv (on_us v (User_RemoveGroup a) s)"
    "calm sv (on_us v (\<lambda>us. us\<lparr>us_Groups := gs\<rparr>) s)"
  by (subst calm_on_us; simp add: assms seen_def User_PushGroup_def User_RemoveGroup_def)+

lemma calm_group_fold:
  assumes "calm sv s"
  shows "calm sv (fold (\<lambda>v. on_us v (User_PushGroup a)) us s)"
    "calm sv (fold (\<lambda>v. on_us v (User_RemoveGroup a)) us s)"
    "calm sv (ClientManager_RemoveGroup a s)"
  unfolding ClientManager_RemoveGroup_def
  by (rule fold_keeps, use assms in \<open>auto intro: calm_groups\<close>)+

lemma gently_update_group: "calm sv s \<Longrightarrow> gently sv (update_group E flags a s)"
  by (cases "Group_UpdateFlags E flags (sv_group s a) (sv_world s)") (auto simp: update_group_def)

lemma gently_GroupAdd: "calm sv s \<Longrightarrow> gently sv (GroupManager_Add E gname flags s)"
  unfolding GroupManager_Add_def Let_def
  by (auto intro!: gently_bind [OF gently_update_group] calm_next)

lemma gently_ResetFlags: "calm sv s \<Longrightarrow> gently sv (GroupManager_ResetFlags E name s)"
  unfolding GroupManager_ResetFlags_def
  by (auto intro!: gently_after [OF calm_world(1)] split: option.split)

lemma calm_fold_res:
  assumes "\<And>x s. calm sv s \<Longrightarrow> ensures (f x s) (calm sv)" "calm sv s"
  shows "ensures (fold_res f xs s) (calm sv)"
  by (rule ensures_fold) (use assms in auto)

lemma calm_delete_from_user: "calm sv s \<Longrightarrow> ensures (delete_from_user E name login s) (calm sv)"
  unfolding delete_from_user_def
  by (auto intro!: calm_bind2 [OF gently_world(1)] calm_fold_res calm_world)

lemma gently_GroupDelete: "calm sv s \<Longrightarrow> gently sv (GroupManager_Delete E gname s)"
  unfolding GroupManager_Delete_def Let_def
  by (auto intro!: gently_after [OF calm_world(1)] gently_bind [OF gently_world(1)]
      gently_after [OF calm_fold_res] calm_delete_from_user calm_group_fold split: option.split)

lemma gently_keeps:
  assumes "\<And>u ps sv. gently sv (h E u ps sv)"
  shows "keeps E h"
  by (rule calm_keeps) (use assms in \<open>simp add: gently_def\<close>)

lemma keeps_group_commands:
  "keeps E CommandGroupAdd_Handle" "keeps E CommandGroups_Handle" "keeps E CommandDelGroup_Handle"
  "keeps E CommandGShow_Handle" "keeps E CommandGFlags_Handle" "keeps E CommandMyGroups_Handle"
  "keeps E CommandAssign_Handle" "keeps E CommandGList_Handle" "keeps E CommandGReset_Handle"
  "keeps E CommandUnAssign_Handle" "keeps E CommandFlagUpdate_Handle"
  by (rule gently_keeps, auto simp: CommandGroupAdd_Handle_def CommandGroups_Handle_def
      CommandDelGroup_Handle_def CommandGShow_Handle_def CommandGFlags_Handle_def
      CommandMyGroups_Handle_def CommandAssign_Handle_def CommandGList_Handle_def
      CommandGReset_Handle_def CommandUnAssign_Handle_def CommandFlagUpdate_Handle_def send_items_def
      intro!: gently_param gently_bind [OF gently_GroupAdd] gently_bind [OF gently_GroupDelete]
        gently_bind [OF gently_world(1)] gently_bind [OF gently_world(4)] gently_after [OF calm_world(2)]
        gently_after [OF calm_world(3)] gently_bind [OF gently_ResetFlags]
        gently_bind [OF gently_update_group] calm_group_fold
      split: option.split)+

lemma calm_listing [simp]:
  "calm sv (user_row u shown api name s) \<longleftrightarrow> calm sv s" "calm sv (status_row u shown name s) \<longleftrightarrow> calm sv s"
  "calm sv (wide_top u one two s) \<longleftrightarrow> calm sv s" "calm sv (wide_end u s) \<longleftrightarrow> calm sv s"
  by (simp_all add: user_row_def status_row_def wide_top_def wide_end_def)

lemma calm_flag_lines [simp]:
  "calm sv (fold (\<lambda>c s. case flag_name c of None \<Rightarrow> s | Some n \<Rightarrow> send u BRLD_LOGIN_FLAGS [n] s) fs s) \<longleftrightarrow> calm sv s"
  by (induction fs arbitrary: s) (auto split: option.split)

lemma keeps_flag_commands:
  "keeps E CommandListFlags_Handle" "keeps E CommandGetFlags_Handle" "keeps E CommandDelFlags_Handle"
  "keeps E CommandAddFlag_Handle"
  by (rule gently_keeps, auto simp: CommandListFlags_Handle_def CommandGetFlags_Handle_def
      CommandDelFlags_Handle_def CommandAddFlag_Handle_def Let_def
      intro!: gently_param gently_bind [OF gently_world(3)] gently_bind [OF gently_world(4)]
        gently_bind [OF gently_HasFlags] gently_after [OF calm_world(4)] gently_after [OF calm_world(5)])+

lemma keeps_user_commands:
  "keeps E (CommandAddUser_Handle H)" "keeps E CommandListUsers_Handle" "keeps E CommandGetStatus_Handle"
  "keeps E CommandListStatus_Handle" "keeps E CommandListAdmins_Handle" "keeps E (CommandPasswd_Handle H)"
  "keeps E CommandResetCache_Handle" "keeps E CommandInCache_Handle"
  by (rule gently_keeps, auto simp: CommandAddUser_Handle_def CommandListUsers_Handle_def
      CommandGetStatus_Handle_def CommandListStatus_Handle_def CommandListAdmins_Handle_def
      CommandPasswd_Handle_def CommandResetCache_Handle_def CommandInCache_Handle_def Let_def
      intro!: gently_param gently_bind [OF gently_world(1)] gently_bind [OF gently_world(2)]
        gently_bind [OF gently_Add] gently_bind [OF gently_ChangePass] gently_after [OF calm_fold_res]
        calm_bind2 [OF gently_world(2)] calm_bind2 [OF gently_world(3)])+

lemma seen_touch:
  "seen (us\<lparr>us_auth := a\<rparr>) = seen us" "seen (us\<lparr>us_lastping := b\<rparr>) = seen us"
  "seen (us\<lparr>us_class := c\<rparr>) = seen us" "seen (us\<lparr>us_age := d\<rparr>) = seen us"
  "seen (on_client (\<lambda>c. c\<lparr>cl_database := e\<rparr>) us) = seen us"
  "seen (on_client (\<lambda>c. c\<lparr>cl_touchbase := f\<rparr>) us) = seen us"
  "seen (on_client (\<lambda>c. c\<lparr>cl_next_ping_check := g\<rparr>) us) = seen us"
  "seen (on_client (\<lambda>c. c\<lparr>cl_PendingList := l c\<rparr>) us) = seen us"
  "seen (User_SetAgent agent us) = seen us"
  by (simp_all add: seen_def User_SetAgent_def)

lemma calm_us:
  assumes "calm sv s"
  shows "calm sv (on_us u (\<lambda>us. us\<lparr>us_auth := a\<rparr>) s)" "calm sv (on_us u (\<lambda>us. us\<lparr>us_lastping := b\<rparr>) s)"
    "calm sv (on_us u (\<lambda>us. us\<lparr>us_class := c\<rparr>) s)" "calm sv (on_us u (\<lambda>us. us\<lparr>us_age := d\<rparr>) s)"
    "calm sv (on_us u (on_client (\<lambda>c. c\<lparr>cl_database := e\<rparr>)) s)"
    "calm sv (on_us u (on_client (\<lambda>c. c\<lparr>cl_next_ping_check := g\<rparr>)) s)"
    "calm sv (on_us u (on_client (\<lambda>c. c\<lparr>cl_PendingList := l c\<rparr>)) s)"
    "calm sv (on_us u (User_SetAgent agent) s)"
    "calm sv (on_us u (\<lambda>us. (on_client (\<lambda>c. c\<lparr>cl_touchbase := f\<rparr>) us)\<lparr>us_class := c\<rparr>) s)"
  by (subst calm_on_us; simp add: assms seen_touch)+

lemma keeps_small_commands:
  "keeps E CommandILogin_Handle" "keeps E CommandPing_HandleLocal" "keeps E CommandPong_Handle"
  "keeps E CommandSetAgent_Handle"
  by (rule gently_keeps, auto simp: CommandILogin_Handle_def CommandPing_HandleLocal_def
      CommandPong_Handle_def CommandSetAgent_Handle_def ping_origin_def Let_def
      intro!: gently_param calm_us simp del: fun_upd_apply split: option.split)+

section \<open>Commands by which users come and go\<close>

definition preserves :: "('d, 'n) env \<Rightarrow> ('d, 'n) kernel_handler \<Rightarrow> bool" where
  "preserves E h \<longleftrightarrow> (\<forall>u ps sv. kernel_ok sv \<longrightarrow> \<not> us_quitting (sv_user sv u) \<longrightarrow> IS_LOCAL sv u \<longrightarrow>
     w_now (sv_world sv) \<noteq> 0 \<longrightarrow> ensures (h E u ps sv) (\<lambda>(r, s). kernel_ok s))"

lemma preservesI:
  "(\<And>u ps sv. kernel_ok sv \<Longrightarrow> \<not> us_quitting (sv_user sv u) \<Longrightarrow> IS_LOCAL sv u \<Longrightarrow>
     w_now (sv_world sv) \<noteq> 0 \<Longrightarrow> ensures (h E u ps sv) (\<lambda>(r, s). kernel_ok s)) \<Longrightarrow> preserves E h"
  unfolding preserves_def by blast

lemma keeps_preserves:
  assumes "keeps E h" shows "preserves E h"
proof (rule preservesI)
  fix u ps and sv :: "'a Kernel"
  assume sv: "kernel_ok sv" "\<not> us_quitting (sv_user sv u)" "IS_LOCAL sv u"
  have held: "held (conn sv) sv" using sv(1) by (simp add: held_def)
  moreover have "active (conn sv) u"
    using sv held_present [OF held, of u] held_active [OF held, of u] by (simp add: quit_of_def)
  ultimately have "ensures (h E u ps sv) (\<lambda>(r, s). held (conn sv) s)" by (rule keepsD [OF assms])
  then show "ensures (h E u ps sv) (\<lambda>(r, s). kernel_ok s)"
    by (rule ensures_mono) (auto simp: held_def)
qed

lemma disconnect_all_ok: "kernel_ok sv \<Longrightarrow> kernel_ok (snd (ClientManager_DisconnectAll login msg sv))"
  unfolding ClientManager_DisconnectAll_def
  by (rule fold_keeps [where P = "\<lambda>p. kernel_ok (snd p)"]) (auto simp: disconnect_ok)

lemma ok_ensures: "kernel_ok sv \<Longrightarrow> ensures m (calm sv) \<Longrightarrow> ensures m kernel_ok"
  by (auto simp: ensures_def intro: calm_ok)

lemma ok_gently: "kernel_ok sv \<Longrightarrow> gently sv m \<Longrightarrow> ensures m (\<lambda>(x, s). kernel_ok s)"
  by (auto simp: gently_def ensures_def intro: calm_ok)

lemma ok_tell: "kernel_ok sv \<Longrightarrow> kernel_ok (tell u f sv)"
  by (rule calm_ok [of sv]) simp_all

lemma ok_Remove: "kernel_ok sv \<Longrightarrow> kernel_ok (LoginCache_Remove user sv)"
  by (rule calm_ok [of sv]) simp_all

lemma preserves_EXIT: "preserves E CommandExit_Handle"
  by (rule preservesI) (simp add: CommandExit_Handle_def disconnect_ok ok_tell)

lemma preserves_AUTH: "preserves E CommandAuth_HandleLocal"
  by (rule preservesI)
    (auto simp: CommandAuth_HandleLocal_def disconnect_ok simp del: fun_upd_apply
      intro!: ensures_param calm_ok [OF calm_us(1) [OF calm_refl]])

lemma preserves_DELUSER: "preserves E CommandDelUser_Handle"
  by (rule preservesI)
    (auto simp: CommandDelUser_Handle_def disconnect_all_ok ok_tell
      intro!: ensures_param ensures_bind [OF ok_ensures [OF _ calm_Remove [OF calm_refl]]])

lemma preserves_SETSTATUS: "preserves E CommandSetStatus_Handle"
  by (rule preservesI)
    (auto simp: CommandSetStatus_Handle_def disconnect_all_ok ok_tell ok_Remove Let_def
      intro!: ensures_param ensures_bind [OF ok_ensures [OF _ calm_world(2) [OF calm_refl]]])

text \<open>A change of one user that leaves its channels and that it has not left.\<close>

lemma ok_user:
  assumes ok: "kernel_ok sv" and f: "us_chans (f (sv_user sv u)) = us_chans (sv_user sv u)"
    "us_quitting (f (sv_user sv u)) = us_quitting (sv_user sv u)"
    and l: "logins_ok (on_us u f sv)"
  shows "kernel_ok (on_us u f sv)"
proof -
  have "chans_of (on_us u f sv) = chans_of sv" "quit_of (on_us u f sv) = quit_of sv"
    using f by (auto simp: chans_of_def quit_of_def)
  then show ?thesis using ok l by (simp add: kernel_ok_def)
qed

lemma agent_bits:
  assumes "r \<in> {REG_NONE, REG_USER, REG_LOGIN, REG_LOGINUSER, REG_OK}"
  shows "Bit_Operations.and r REG_USER \<noteq> 0 \<longleftrightarrow> r \<in> {REG_USER, REG_LOGINUSER, REG_OK}"
    "Bit_Operations.or r REG_USER = (if r = REG_NONE then REG_USER else if r = REG_LOGIN then REG_LOGINUSER else r)"
    "r < REG_LOGINUSER \<Longrightarrow> Bit_Operations.or r REG_LOGIN = (if r = REG_USER then REG_LOGINUSER else REG_LOGIN)"
proof -
  have v: "Bit_Operations.and (0::nat) 1 = 0" "Bit_Operations.and (1::nat) 1 = 1" "Bit_Operations.and (2::nat) 1 = 0"
    "Bit_Operations.and (3::nat) 1 = 1" "Bit_Operations.and (7::nat) 1 = 1" "Bit_Operations.or (0::nat) 1 = 1"
    "Bit_Operations.or (1::nat) 1 = 1" "Bit_Operations.or (2::nat) 1 = 3" "Bit_Operations.or (3::nat) 1 = 3"
    "Bit_Operations.or (7::nat) 1 = 7" "Bit_Operations.or (0::nat) 2 = 2" "Bit_Operations.or (1::nat) 2 = 3"
    "Bit_Operations.or (2::nat) 2 = 2"
    by code_simp+
  note reg = REG_NONE_def REG_USER_def REG_LOGIN_def REG_LOGINUSER_def REG_OK_def
  show "Bit_Operations.and r REG_USER \<noteq> 0 \<longleftrightarrow> r \<in> {REG_USER, REG_LOGINUSER, REG_OK}"
    "Bit_Operations.or r REG_USER = (if r = REG_NONE then REG_USER else if r = REG_LOGIN then REG_LOGINUSER else r)"
    "r < REG_LOGINUSER \<Longrightarrow> Bit_Operations.or r REG_LOGIN = (if r = REG_USER then REG_LOGINUSER else REG_LOGIN)"
    using assms v unfolding reg by auto
qed

lemma reg_distinct:
  "REG_USER \<noteq> REG_LOGIN" "REG_USER \<noteq> REG_LOGINUSER" "REG_USER \<noteq> REG_OK" "REG_NONE \<noteq> REG_LOGIN"
  "REG_NONE \<noteq> REG_LOGINUSER" "REG_NONE \<noteq> REG_OK" "REG_NONE \<noteq> REG_USER" "REG_LOGIN \<noteq> REG_LOGINUSER"
  by (simp_all add: REG_NONE_def REG_USER_def REG_LOGIN_def REG_LOGINUSER_def REG_OK_def)

lemma logins_okD:
  assumes "logins_ok sv"
  shows "distinct (map snd (logins sv))"
    "\<And>p. p \<in> set (logins sv) \<Longrightarrow> \<not> us_quitting (sv_user sv (snd p)) \<and> us_logged (sv_user sv (snd p)) \<noteq> 0 \<and>
        us_login (sv_user sv (snd p)) = fst p"
    "\<And>u. us_registered (sv_user sv u) \<in> {REG_NONE, REG_USER, REG_LOGIN, REG_LOGINUSER, REG_OK}"
    "\<And>u. us_registered (sv_user sv u) \<in> {REG_LOGIN, REG_LOGINUSER, REG_OK} \<Longrightarrow>
           us_quitting (sv_user sv u) \<or> u \<in> snd ` set (logins sv)"
    "\<And>u. \<not> us_quitting (sv_user sv u) \<Longrightarrow> us_logged (sv_user sv u) = 0 \<Longrightarrow>
        us_instance (sv_user sv u) = us_uuid (sv_user sv u)"
    "\<And>u. u \<ge> sv_next sv \<Longrightarrow> us_quitting (sv_user sv u)"
    "\<And>p. p \<in> set (clientlist sv) \<Longrightarrow> \<not> us_quitting (sv_user sv (snd p)) \<and>
        engine_equals (fst p) (us_instance (sv_user sv (snd p)))"
    "\<And>p. p \<in> set (uuid_list sv) \<Longrightarrow> \<not> us_quitting (sv_user sv (snd p)) \<and>
        engine_equals (fst p) (us_uuid (sv_user sv (snd p)))"
  using assms unfolding logins_ok_def by blast+

text \<open>The entries of a table after an entry is set or erased.\<close>

lemma set_imap_set:
  "p \<in> set (imap_set k v ps) \<Longrightarrow> p \<in> set ps \<or> engine_equals (fst p) k \<and> snd p = v"
  by (induction ps) (auto split: if_splits)

lemma set_imap_erase: "p \<in> set (imap_erase k ps) \<longleftrightarrow> p \<in> set ps \<and> \<not> engine_equals (fst p) k"
  by (auto simp: imap_erase_def)

lemma imap_find_set: "imap_find k ps = Some v \<Longrightarrow> \<exists>p \<in> set ps. snd p = v"
  by (induction ps) (auto split: if_splits)

text \<open>The bits of the registration of a user who is there.\<close>

lemma ok_registered:
  assumes ok: "kernel_ok sv"
    and r: "r \<in> {REG_NONE, REG_USER, REG_LOGIN, REG_LOGINUSER, REG_OK}"
    and u: "r \<in> {REG_LOGIN, REG_LOGINUSER, REG_OK} \<Longrightarrow> us_quitting (sv_user sv u) \<or> u \<in> snd ` set (logins sv)"
  shows "kernel_ok (on_us u (on_client (\<lambda>c. c\<lparr>cl_registered := r\<rparr>)) sv)"
proof (rule ok_user [OF ok])
  have l: "logins_ok sv" using ok by (simp add: kernel_ok_def)
  show "logins_ok (on_us u (on_client (\<lambda>c. c\<lparr>cl_registered := r\<rparr>)) sv)"
    unfolding logins_ok_def
    using logins_okD [OF l] r u by (intro conjI) auto
qed simp_all

lemma preserves_AGENT: "preserves E CommandAgent_HandleLocal"
proof (rule preservesI)
  fix u ps and sv :: "'a Kernel"
  assume ok: "kernel_ok sv" and u: "\<not> us_quitting (sv_user sv u)"
  let ?r = "us_registered (sv_user sv u)"
  have l: "logins_ok sv" using ok by (simp add: kernel_ok_def)
  note bits = agent_bits [OF logins_okD(3) [OF l, of u]]
  have "kernel_ok (on_us u (\<lambda>us. on_client (\<lambda>c. c\<lparr>cl_registered :=
            Bit_Operations.or (cl_registered c) REG_USER\<rparr>) (User_SetAgent agent us)) sv)" for agent
  proof -
    let ?s = "on_us u (User_SetAgent agent) sv"
    have s: "kernel_ok ?s" by (rule calm_ok [OF calm_us(8) [OF calm_refl] ok])
    have r: "us_registered (sv_user ?s u) = ?r" "logins ?s = logins sv"
      by (simp_all add: User_SetAgent_def)
    have "kernel_ok (on_us u (on_client (\<lambda>c. c\<lparr>cl_registered := Bit_Operations.or ?r REG_USER\<rparr>)) ?s)"
    proof (rule ok_registered [OF s])
      show "Bit_Operations.or ?r REG_USER \<in> {REG_NONE, REG_USER, REG_LOGIN, REG_LOGINUSER, REG_OK}"
        using bits(2) logins_okD(3) [OF l, of u] by auto
      show "us_quitting (sv_user ?s u) \<or> u \<in> snd ` set (logins ?s)"
        if "Bit_Operations.or ?r REG_USER \<in> {REG_LOGIN, REG_LOGINUSER, REG_OK}"
        using that bits(2) logins_okD(3,4) [OF l, of u] r(2) u by (auto simp: reg_distinct split: if_splits)
    qed
    moreover have "on_us u (\<lambda>us. on_client (\<lambda>c. c\<lparr>cl_registered :=
            Bit_Operations.or (cl_registered c) REG_USER\<rparr>) (User_SetAgent agent us)) sv =
        on_us u (on_client (\<lambda>c. c\<lparr>cl_registered := Bit_Operations.or ?r REG_USER\<rparr>)) ?s"
      by (simp add: User_SetAgent_def)
    ultimately show ?thesis by simp
  qed
  then show "ensures (CommandAgent_HandleLocal E u ps sv) (\<lambda>(r, s). kernel_ok s)"
    using ok unfolding CommandAgent_HandleLocal_def
    by (intro ensures_param) (simp add: ok_tell del: fun_upd_apply)
qed

section \<open>Logging in\<close>

lemma not_in_logins:
  assumes "logins_ok sv" "us_logged (sv_user sv u) = 0" shows "u \<notin> snd ` set (logins sv)"
  using logins_okD(2) [OF assms(1)] assms(2) by auto

text \<open>The login of a user who has not logged in, and the time of it.\<close>

lemma ok_mark:
  assumes ok: "kernel_ok sv" and u: "us_logged (sv_user sv u) = 0" and that: "now \<noteq> 0"
  shows "kernel_ok (on_us u (\<lambda>us. (on_client (\<lambda>c. c\<lparr>cl_login := login\<rparr>) us)\<lparr>us_logged := now\<rparr>) sv)"
proof (rule ok_user [OF ok])
  have l: "logins_ok sv" using ok by (simp add: kernel_ok_def)
  have out: "p \<in> set (logins sv) \<Longrightarrow> snd p \<noteq> u" for p using not_in_logins [OF l u] by blast
  show "logins_ok (on_us u (\<lambda>us. (on_client (\<lambda>c. c\<lparr>cl_login := login\<rparr>) us)\<lparr>us_logged := now\<rparr>) sv)"
    unfolding logins_ok_def
    using logins_okD [OF l] out that by (intro conjI) auto
qed simp_all

text \<open>It enters the list of logins.\<close>

lemma ok_logged:
  assumes ok: "kernel_ok sv" and u: "u \<notin> snd ` set (logins sv)" "\<not> us_quitting (sv_user sv u)"
    "us_logged (sv_user sv u) \<noteq> 0" "us_login (sv_user sv u) = login"
  shows "kernel_ok ((on_us u (\<lambda>us. us\<lparr>us_instance := inst\<rparr>) sv)\<lparr>clientlist :=
      imap_set inst u (imap_erase (us_instance (sv_user sv u)) (clientlist sv)), logins := logins sv @ [(login, u)]\<rparr>)"
    (is "kernel_ok ?s")
proof -
  have l: "logins_ok sv" using ok by (simp add: kernel_ok_def)
  have inst: "\<not> us_quitting (sv_user sv (snd p)) \<and>
      engine_equals (fst p) (if snd p = u then inst else us_instance (sv_user sv (snd p)))"
    if "p \<in> set (imap_set inst u (imap_erase (us_instance (sv_user sv u)) (clientlist sv)))" for p
    using set_imap_set [OF that] logins_okD(7) [OF l, of p] u(2) by (auto simp: set_imap_erase)
  have eq: "us_client (sv_user ?s v) = us_client (sv_user sv v)" "us_logged (sv_user ?s v) = us_logged (sv_user sv v)"
    "us_uuid (sv_user ?s v) = us_uuid (sv_user sv v)"
    "us_instance (sv_user ?s v) = (if v = u then inst else us_instance (sv_user sv v))" "sv_next ?s = sv_next sv"
    "logins ?s = logins sv @ [(login, u)]" "uuid_list ?s = uuid_list sv"
    "clientlist ?s = imap_set inst u (imap_erase (us_instance (sv_user sv u)) (clientlist sv))" for v
    by auto
  have "logins_ok ?s" unfolding logins_ok_def eq
    by (intro conjI) (use logins_okD [OF l] u inst in auto)
  moreover have "chans_of ?s = chans_of sv" by (rule ext) (simp add: chans_of_def)
  moreover have "quit_of ?s = quit_of sv" by (rule ext) (simp add: quit_of_def)
  ultimately show ?thesis using ok by (simp add: kernel_ok_def)
qed

text \<open>After \<open>SetLogin\<close> has said yes, the user is in the list of logins.\<close>

lemma set_login_ok:
  assumes ok: "kernel_ok sv" and now: "w_now (sv_world sv) \<noteq> 0"
  shows "ensures (User_SetLogin E H u login sv)
    (\<lambda>(yes, s). kernel_ok s \<and> (yes \<longrightarrow> u \<in> snd ` set (logins s)))"
proof (cases "us_logged (sv_user sv u) \<noteq> 0 \<or> us_quitting (sv_user sv u)")
  case True then show ?thesis using ok by (auto simp: User_SetLogin_def ok_tell Let_def)
next
  case False
  let ?us = "sv_user sv u"
  let ?s = "on_us u (\<lambda>us. (on_client (\<lambda>c. c\<lparr>cl_login := login\<rparr>) us)\<lparr>us_logged := w_now (sv_world sv)\<rparr>) sv"
  let ?new = "''I-'' @ login @ ''-'' @ us_uuid ?us"
  have l: "logins_ok sv" using ok by (simp add: kernel_ok_def)
  have s: "kernel_ok ?s" using ok_mark [OF ok _ now] False by blast
  have out: "u \<notin> snd ` set (logins ?s)" using not_in_logins [OF l] False by simp
  have new: "us_instance ?us \<noteq> ?new" using logins_okD(5) [OF l, of u] False by (auto dest: arg_cong [of _ _ length])
  have "ensures (bind_res (UserHelper_CheckPass E H login (us_auth ?us) ?s) (\<lambda>(ok, sv).
           if \<not> ok
           then Inr (False, Clients_Disconnect u ''Wrong password.'' (send u ERR_WRONG_PASS [] sv))
           else
             (let newlogin = ?new; InUse = FindInstanceOnly login sv
              in if InUse = Some u \<and> newlogin = us_instance ?us then Inr (True, sv)
                 else if InUse \<noteq> None \<and> InUse \<noteq> Some u
                 then Inr (False, Clients_Disconnect (the InUse) ''Internal error.'' sv)
                 else
                   (let sv' = (if InUse = None then on_us u (\<lambda>us. us\<lparr>us_age := w_now (sv_world (sv0::'a Kernel))\<rparr>) sv else sv);
                        sv = on_us u (\<lambda>us. us\<lparr>us_instance := newlogin\<rparr>) sv'
                    in Inr (True, sv\<lparr>clientlist := imap_set newlogin u (imap_erase (us_instance ?us) (clientlist sv)),
                                   logins := logins sv @ [(login, u)]\<rparr>)))))
     (\<lambda>(yes, s). kernel_ok s \<and> (yes \<longrightarrow> u \<in> snd ` set (logins s)))" (is "ensures (bind_res _ ?f) ?P") for sv0
  proof (rule ensures_bind [OF gently_CheckPass [OF calm_refl, unfolded gently_def]])
    fix p :: "bool \<times> 'a Kernel" assume "case p of (x, s) \<Rightarrow> calm ?s s"
    then obtain yes t where p: "p = (yes, t)" and t: "calm ?s t" by (cases p) auto
    have tok: "kernel_ok t" by (rule calm_ok [OF t s])
    have enter: "kernel_ok ((on_us u (\<lambda>us. us\<lparr>us_instance := ?new\<rparr>) t')\<lparr>clientlist :=
        imap_set ?new u (imap_erase (us_instance ?us) (clientlist t')), logins := logins t' @ [(login, u)]\<rparr>)"
      if "calm t t'" for t'
    proof -
      have c: "calm ?s t'" by (rule calm_trans [OF t that])
      then have same: "seen (sv_user t' u) = seen (sv_user ?s u)" "logins t' = logins ?s" by (simp_all add: calm_def)
      then have inst: "us_instance ?us = us_instance (sv_user t' u)" by (simp add: seen_eq)
      show ?thesis unfolding inst using same out False now
        by (intro ok_logged [OF calm_ok [OF c s]]) (simp_all add: seen_eq)
    qed
    have age: "calm t (on_us u (\<lambda>us. us\<lparr>us_age := d\<rparr>) t)" for d by (rule calm_us(4)) simp
    show "ensures (?f p) ?P"
      using tok enter [OF calm_refl] enter [OF age] new
      by (auto simp: p Let_def disconnect_ok ok_tell simp del: fun_upd_apply)
  qed
  from this [of sv] show ?thesis using False by (simp add: User_SetLogin_def Let_def)
qed

lemma registered_login_ok:
  assumes s: "kernel_ok s" "u \<in> snd ` set (logins s)"
  shows "kernel_ok (if us_registered (sv_user s u) < REG_LOGINUSER
       then on_us u (on_client (\<lambda>c. c\<lparr>cl_registered := Bit_Operations.or (cl_registered c) REG_LOGIN\<rparr>)) s else s)"
proof -
  have l: "logins_ok s" using s by (simp add: kernel_ok_def)
  note bits = agent_bits [OF logins_okD(3) [OF l, of u]]
  have "kernel_ok (on_us u (on_client (\<lambda>c. c\<lparr>cl_registered := Bit_Operations.or (us_registered (sv_user s u)) REG_LOGIN\<rparr>)) s)"
    if "us_registered (sv_user s u) < REG_LOGINUSER"
    by (rule ok_registered [OF s(1)]) (use bits(3) [OF that] s(2) in auto)
  then show ?thesis using s(1) by (simp del: fun_upd_apply)
qed

lemma preserves_LOGIN: "preserves E (CommandLogin_HandleLocal H)"
proof (rule preservesI)
  fix u ps and sv :: "'a Kernel"
  assume ok: "kernel_ok sv" and now: "w_now (sv_world sv) \<noteq> 0"
  have rest: "ensures (bind_res (from_world (STHelper_Get E ''dbuser'' login) s) (\<lambda>(dbuser, sv).
       let database = (if dbuser = [] then DefaultDB sv
                       else case e_find E dbuser of None \<Rightarrow> DefaultDB sv | Some d \<Rightarrow> Some d);
           sv = on_us u (on_client (\<lambda>c. c\<lparr>cl_database := database\<rparr>)) sv
       in Inr (SUCCESS,
            if us_registered (sv_user sv u) < REG_LOGINUSER
            then on_us u (on_client (\<lambda>c. c\<lparr>cl_registered := Bit_Operations.or (cl_registered c) REG_LOGIN\<rparr>)) sv
            else sv))) (\<lambda>(r, s). kernel_ok s)"
    if s: "kernel_ok s" "u \<in> snd ` set (logins s)" for s :: "'a Kernel" and login
  proof (rule ensures_bind [OF gently_world(1) [OF calm_refl, unfolded gently_def]], unfold split_paired_all prod.case)
    fix dbuser s'
    assume "calm s s'"
    then have c: "calm s (on_us u (on_client (\<lambda>c. c\<lparr>cl_database := d\<rparr>)) s')" for d by (rule calm_us(5))
    have mem: "u \<in> snd ` set (logins (on_us u (on_client (\<lambda>c. c\<lparr>cl_database := d\<rparr>)) s'))" for d
      using c [of d] s(2) unfolding calm_def by simp
    show "ensures (let database = (if dbuser = [] then DefaultDB s'
                       else case e_find E dbuser of None \<Rightarrow> DefaultDB s' | Some d \<Rightarrow> Some d);
           sv = on_us u (on_client (\<lambda>c. c\<lparr>cl_database := database\<rparr>)) s'
       in Inr (SUCCESS,
            if us_registered (sv_user sv u) < REG_LOGINUSER
            then on_us u (on_client (\<lambda>c. c\<lparr>cl_registered := Bit_Operations.or (cl_registered c) REG_LOGIN\<rparr>)) sv
            else sv)) (\<lambda>(r, s). kernel_ok s)"
      unfolding Let_def ensures_Inr prod.case by (rule registered_login_ok [OF calm_ok [OF c s(1)] mem])
  qed
  show "ensures (CommandLogin_HandleLocal H E u ps sv) (\<lambda>(r, s). kernel_ok s)"
    unfolding CommandLogin_HandleLocal_def
  proof (intro ensures_param ensures_bind [OF set_login_ok [OF ok now]])
    fix login and p :: "bool \<times> 'a Kernel"
    assume "case p of (yes, s) \<Rightarrow> kernel_ok s \<and> (yes \<longrightarrow> u \<in> snd ` set (logins s))"
    then obtain yes s where p: "p = (yes, s)" "kernel_ok s" "yes \<Longrightarrow> u \<in> snd ` set (logins s)" by (cases p) auto
    show "ensures (case p of (ok, sv) \<Rightarrow> if \<not> ok then Inr (FAILED, sv)
     else bind_res (from_world (STHelper_Get E ''dbuser'' login) sv) (\<lambda>(dbuser, sv).
       let database = (if dbuser = [] then DefaultDB sv
                       else case e_find E dbuser of None \<Rightarrow> DefaultDB sv | Some d \<Rightarrow> Some d);
           sv = on_us u (on_client (\<lambda>c. c\<lparr>cl_database := database\<rparr>)) sv
       in Inr (SUCCESS,
            if us_registered (sv_user sv u) < REG_LOGINUSER
            then on_us u (on_client (\<lambda>c. c\<lparr>cl_registered := Bit_Operations.or (cl_registered c) REG_LOGIN\<rparr>)) sv
            else sv))) (\<lambda>(r, s). kernel_ok s)"
      unfolding p(1) prod.case using p(2,3) rest [of s login] by (cases yes) simp_all
  qed
qed

section \<open>Connections\<close>

text \<open>A user that begins: nobody has been at its address, which counted as one that has left.\<close>

lemma ok_new_user:
  assumes ok: "kernel_ok sv"
  shows "kernel_ok (sv\<lparr>sv_user := (sv_user sv)(sv_next sv := new_LocalUser raw uid ip port now),
     sv_next := sv_next sv + 1, uuid_list := uuid_list sv @ [(uid, sv_next sv)], not_registered_track := b,
     clientlist := imap_set uid (sv_next sv) (clientlist sv), local_users := d\<rparr>)"
    (is "kernel_ok ?s")
proof -
  let ?u = "sv_next sv"
  have ch: "channels_ok {} {} (ChannelList sv) (chans_of sv) (quit_of sv)" and l: "logins_ok sv"
    using ok by (simp_all add: kernel_ok_def)
  have left: "quit_of sv ?u" using logins_okD(6) [OF l, of ?u] by (simp add: quit_of_def)
  have out: "p \<in> set (logins sv) \<Longrightarrow> snd p \<noteq> ?u" for p
    using logins_okD(2) [OF l, of p] left by (auto simp: quit_of_def)
  have inst: "\<not> us_quitting (sv_user ?s (snd p)) \<and> engine_equals (fst p) (us_instance (sv_user ?s (snd p)))"
    if "p \<in> set (imap_set uid ?u (clientlist sv))" for p
    using set_imap_set [OF that] logins_okD(7) [OF l, of p] left
    by (auto simp: new_LocalUser_def quit_of_def)
  have uid: "\<not> us_quitting (sv_user ?s (snd p)) \<and> engine_equals (fst p) (us_uuid (sv_user ?s (snd p)))"
    if "p \<in> set (uuid_list sv @ [(uid, ?u)])" for p
    using that logins_okD(8) [OF l, of p] left by (auto simp: new_LocalUser_def quit_of_def)
  have none: "\<not> Channel_IsSubscribed ?u k" if "(n, k) \<in> set (ChannelList sv)" for n k
    using channels_okD(3) [OF ch that] left by (auto simp: channel_ok_def Channel_IsSubscribed_def)
  have "chans_of ?s = (chans_of sv)(?u := [])" by (rule ext) (simp add: chans_of_def new_LocalUser_def)
  moreover have "quit_of ?s = (quit_of sv)(?u := False)" by (rule ext) (simp add: quit_of_def new_LocalUser_def)
  moreover have "channels_ok {} {} (ChannelList sv) ((chans_of sv)(?u := [])) ((quit_of sv)(?u := False))"
  proof (rule channels_okI)
    note d = channels_okD [OF ch]
    show "channel_ok {} {} ((quit_of sv)(?u := False)) k c" if "(k, c) \<in> set (ChannelList sv)" for k c
      using d(3) [OF that] by (auto simp: channel_ok_def)
    show "distinct (((chans_of sv)(?u := [])) v)" if "\<not> ((quit_of sv)(?u := False)) v" for v
      using d(4) [of v] that by (cases "v = ?u") simp_all
    show "(k \<in> set (((chans_of sv)(?u := [])) v)) \<longleftrightarrow> (\<exists>c. (k, c) \<in> set (ChannelList sv) \<and> Channel_IsSubscribed v c)"
      if "\<not> ((quit_of sv)(?u := False)) v" for v k
      using d(5) [of v k] that none [of k] by (cases "v = ?u") auto
  qed (rule channels_okD [OF ch])+
  moreover have "logins_ok ?s"
    unfolding logins_ok_def
    by (intro conjI) (use logins_okD(1-6) [OF l] out inst uid in \<open>auto simp: new_LocalUser_def reg_distinct\<close>)
  ultimately show ?thesis by (simp add: kernel_ok_def)
qed

lemma calm_set_class: "calm sv s \<Longrightarrow> calm sv (LocalUser_set_class N classname u s)"
  unfolding LocalUser_set_class_def Let_def
  by (auto simp del: fun_upd_apply split: option.split intro: calm_us)

lemma add_user_ok:
  assumes ok: "kernel_ok sv"
  shows "ensures (Clients_AddUser N limit raw uid ip port socket_ok hook sv) kernel_ok"
  using ok_new_user [OF ok] unfolding Clients_AddUser_def Let_def
  by (auto simp del: fun_upd_apply intro!: disconnect_ok calm_ok [OF calm_set_class [OF calm_refl]] split: option.split)

lemma calm_LoadNotify: "calm sv s \<Longrightarrow> ensures (LoadNotify E u s) (calm sv)"
  unfolding LoadNotify_def by (auto simp: Notifier_Add_def split: option.split intro!: calm_bind2 [OF gently_world(1)])

lemma calm_LoadGroups: "calm sv s \<Longrightarrow> ensures (LoadGroups E u s) (calm sv)"
proof -
  assume s: "calm sv s"
  have "calm sv (fold (\<lambda>name s. case GroupManager_Find name s of
      None \<Rightarrow> s | Some a \<Rightarrow> on_us u (User_PushGroup a) s) gs s)" if "calm sv s" for gs s
    by (rule fold_keeps) (use that in \<open>auto simp del: fun_upd_apply split: option.split intro: calm_groups\<close>)
  then show ?thesis
    unfolding LoadGroups_def Let_def
    by (auto simp: s simp del: fun_upd_apply split: option.split
        intro!: calm_bind2 [OF gently_world(1)] calm_groups(3))
qed

text \<open>The greeting is calm, up to the channels it takes the user to.\<close>

lemma post_connect_held:
  assumes held: "held K sv" and u: "present K u"
  shows "ensures (ModuleCoreDB_OnPostConnect E version u sv) (held K)"
proof -
  have ok: "calm sv s \<Longrightarrow> held K s" for s by (rule calm_held [OF _ held])
  have "ensures (let sv = send u BRLD_CONNECTED [c_str version @ '' '' @ conv_numeric (w_now (sv_world s))] s;
         login = us_login (sv_user sv u)
     in case SessionManager_Find login sv of
          Some a \<Rightarrow> LoadNotify E u (SessionManager_Attach u login (ss_rawflags (sv_session sv a)) sv)
        | None \<Rightarrow>
            bind_res (UserHelper_CheckFlags E login sv) (\<lambda>(flags, sv).
            bind_res (LoadNotify E u (SessionManager_Attach u login flags sv)) (\<lambda>sv.
              if \<not> Settings_AsBool autojoin sv then Inr sv else core_Autojoin E u sv))) (held K)"
    if s: "calm sv s" for s
  proof -
    have notify: "ensures (LoadNotify E u (SessionManager_Attach u l f s')) (held K)" if "calm sv s'" for l f s'
      by (rule held_step [OF held calm_LoadNotify]) (simp add: that)
    have begin_with: "ensures (bind_res (LoadNotify E u (SessionManager_Attach u l f s')) (\<lambda>sv.
              if \<not> Settings_AsBool autojoin sv then Inr sv else core_Autojoin E u sv)) (held K)" if "calm sv s'" for l f s'
      by (rule ensures_bind [OF notify [OF that]]) (simp add: autojoin_held u)
    have "ensures (bind_res (UserHelper_CheckFlags E l s') (\<lambda>(flags, sv).
            bind_res (LoadNotify E u (SessionManager_Attach u l flags sv)) (\<lambda>sv.
              if \<not> Settings_AsBool autojoin sv then Inr sv else core_Autojoin E u sv))) (held K)" if "calm sv s'" for l s'
      by (rule ensures_bind [OF gently_world(3) [OF that, unfolded gently_def]]) (auto intro: begin_with)
    then show ?thesis unfolding Let_def using notify s by (simp split: option.split)
  qed
  then show ?thesis
    unfolding ModuleCoreDB_OnPostConnect_def by (rule ensures_bind [OF calm_LoadGroups [OF calm_refl]])
qed

lemma check_con_conf_ok: "kernel_ok sv \<Longrightarrow> kernel_ok (LocalUser_check_con_conf u sv)"
  unfolding LocalUser_check_con_conf_def
  by (auto simp del: fun_upd_apply split: option.split intro: disconnect_ok calm_ok [OF calm_us(6) [OF calm_refl]])

text \<open>Who is disconnected has left, unless it was no user at all.\<close>

lemma users_emptied: "sv_user (User_CheckEmptyChannels u s) = sv_user s"
proof -
  have one: "sv_user (Channel_DeleteUser u k s) = sv_user s" for k and s :: "'a Kernel"
    by (simp add: Channel_DeleteUser_def Channels_CheckRemoval_def split: option.split)
  have "sv_user (fold (Channel_DeleteUser u) ks s) = sv_user s" for ks
    by (induction ks arbitrary: s) (simp_all add: one)
  then show ?thesis by (simp add: User_CheckEmptyChannels_def)
qed

lemma disconnect_quits:
  assumes "\<not> IS_SERVER sv u" shows "us_quitting (sv_user (Clients_Disconnect u msg sv) u)"
proof (cases "us_quitting (sv_user sv u)")
  case True then show ?thesis by (simp add: Clients_Disconnect_def)
next
  case False
  with assms obtain near where eq: "Clients_Disconnect u msg sv = User_CheckEmptyChannels u
    (struck u (sv_user sv u) (farewell u msg (sv_user sv u) near (IS_LOCAL sv u)
        (on_us u (on_client (\<lambda>c. c\<lparr>cl_quitting := True\<rparr>)) sv)))"
    using disconnect_farewell [of sv u msg] by blast
  let ?f = "farewell u msg (sv_user sv u) near (IS_LOCAL sv u) (on_us u (on_client (\<lambda>c. c\<lparr>cl_quitting := True\<rparr>)) sv)"
  have "calm (on_us u (on_client (\<lambda>c. c\<lparr>cl_quitting := True\<rparr>)) sv) ?f" by simp
  then have "seen (sv_user ?f u) = seen (on_client (\<lambda>c. c\<lparr>cl_quitting := True\<rparr>) (sv_user sv u))"
    unfolding calm_def by simp
  then show ?thesis unfolding eq by (simp add: users_emptied seen_eq)
qed

lemma disconnect_leaves: "Clients_Disconnect u msg sv = sv \<or> us_quitting (sv_user (Clients_Disconnect u msg sv) u)"
  using disconnect_quits [of sv u msg] by (cases "IS_SERVER sv u") (simp_all add: Clients_Disconnect_def)

lemma check_con_conf_leaves:
  "calm sv (LocalUser_check_con_conf u sv) \<or> us_quitting (sv_user (LocalUser_check_con_conf u sv) u)"
proof -
  have d: "calm sv (Clients_Disconnect u m sv) \<or> us_quitting (sv_user (Clients_Disconnect u m sv) u)" for m
    using disconnect_leaves [of u m sv] calm_refl [of sv] by fastforce
  show ?thesis unfolding LocalUser_check_con_conf_def
    using d calm_us(6) [OF calm_refl [of sv], of u] by (simp del: fun_upd_apply split: option.split)
qed

lemma ack_ok:
  assumes ok: "kernel_ok sv" and reg: "us_registered (sv_user sv u) = REG_LOGINUSER"
  shows "ensures (LocalUser_ack_connection E N version chans u sv) kernel_ok"
proof -
  let ?s = "LocalUser_set_class N [] u (on_us u (\<lambda>us. (on_client (\<lambda>c. c\<lparr>cl_touchbase := w_now (sv_world sv)\<rparr>) us)\<lparr>us_class := None\<rparr>) sv)"
  let ?t = "LocalUser_check_con_conf u ?s"
  have calm_s: "calm sv ?s" by (rule calm_set_class) (rule calm_us(9) [OF calm_refl])
  have t: "kernel_ok ?t" by (rule check_con_conf_ok [OF calm_ok [OF calm_s ok]])
  have goes_on: "ensures (bind_res (ModuleCoreDB_OnPostConnect E version u (on_us u (on_client (\<lambda>c. c\<lparr>cl_registered := REG_OK\<rparr>)) s'))
      (ModuleAutojoin_OnPostConnect E chans u)) kernel_ok"
    if there: "\<not> us_quitting (sv_user ?t u)" and s': "calm ?t s'" for s'
  proof -
    let ?r = "on_us u (on_client (\<lambda>c. c\<lparr>cl_registered := REG_OK\<rparr>)) s'"
    have "calm sv s'" using check_con_conf_leaves [of ?s u] there calm_s s' by (blast intro: calm_trans)
    then have u: "us_registered (sv_user s' u) = REG_LOGINUSER" and ok': "kernel_ok s'"
      using reg calm_ok [OF _ ok] by (simp_all add: calm_def seen_eq)
    have here: "\<not> us_quitting (sv_user s' u)" using there s' by (simp add: calm_def seen_eq)
    have "u \<in> snd ` set (logins s')"
      using logins_okD(4) [of s' u] ok' u here by (simp add: kernel_ok_def)
    then have r: "kernel_ok ?r" by (intro ok_registered [OF ok']) simp_all
    then have held: "held (conn ?r) ?r" by (simp add: held_def)
    have "present (conn ?r) u" using held_present [OF held, of u] here by (simp add: quit_of_def)
    with held have "ensures (bind_res (ModuleCoreDB_OnPostConnect E version u ?r)
      (ModuleAutojoin_OnPostConnect E chans u)) (held (conn ?r))"
      by (intro ensures_bind [OF post_connect_held]) (auto intro: module_autojoin_held)
    then show ?thesis by (rule ensures_mono) (simp add: held_def)
  qed
  show ?thesis
    unfolding LocalUser_ack_connection_def Let_def
    using t goes_on [of ?t] goes_on [of "?t\<lparr>not_registered_track := not_registered_track ?t - 1\<rparr>"]
    by (simp del: fun_upd_apply)
qed

lemma timeout_ok: "kernel_ok sv \<Longrightarrow> kernel_ok (VerifyRegistrationTimeout u sv)"
  by (simp add: VerifyRegistrationTimeout_def disconnect_ok)

lemma flush_ok:
  assumes ok: "kernel_ok sv"
  shows "ensures (ClientManager_Flush E N version chans modules_ready sv) kernel_ok"
  unfolding ClientManager_Flush_def VerifyModules_def
  by (rule ensures_fold) (auto simp: ok timeout_ok ack_ok)

lemma idlers_ok: "kernel_ok sv \<Longrightarrow> kernel_ok (ModuleQuitIdlers_OnEveryTwoSeconds limit sv)"
  unfolding ModuleQuitIdlers_OnEveryTwoSeconds_def by (rule fold_keeps) (auto simp: disconnect_ok)

lemma force_exits_ok: "kernel_ok sv \<Longrightarrow> kernel_ok (Clients_ForceExits sv)"
proof (rule calm_ok [of sv])
  show "calm sv (Clients_ForceExits sv)"
    unfolding Clients_ForceExits_def Let_def calm_update by (rule fold_keeps) auto
qed

lemma destroy_ok:
  assumes ok: "kernel_ok sv" and u: "us_quitting (sv_user sv u)"
  shows "kernel_ok (User_destroy u sv)"
proof -
  let ?f = "\<lambda>us. (on_client (\<lambda>c. c\<lparr>cl_Locked := False\<rparr>) us)\<lparr>us_Groups := [], us_instance := []\<rparr>"
  have l: "logins_ok sv" using ok by (simp add: kernel_ok_def)
  have "kernel_ok (on_us u ?f sv)"
  proof (rule ok_user [OF ok])
    show "logins_ok (on_us u ?f sv)"
      unfolding logins_ok_def using logins_okD [OF l] u by (intro conjI) auto
  qed simp_all
  moreover have "calm (on_us u ?f sv) (User_destroy u sv)"
    by (simp add: User_destroy_def SessionManager_DetermineLifetime_def MonitorHandler_Remove_def
        Notifier_Remove_def Let_def calm_def)
  ultimately show ?thesis by (rule calm_ok [rotated])
qed

section \<open>Other commands\<close>

lemma keeps_alert_commands:
  "keeps E CommandMonitor_Handle" "keeps E CommandMonitorReset_Handle" "keeps E CommandMonitorList_Handle"
  "keeps E CommandStopMonitor_Handle" "keeps E CommandNotifier_Handle" "keeps E CommandNotifyReset_Handle"
  "keeps E CommandStopNotify_Handle"
  by (rule gently_keeps, auto simp: CommandMonitor_Handle_def CommandMonitorReset_Handle_def
      CommandMonitorList_Handle_def CommandStopMonitor_Handle_def CommandNotifier_Handle_def
      CommandNotifyReset_Handle_def CommandStopNotify_Handle_def MonitorHandler_Add_def
      MonitorHandler_Remove_def MonitorHandler_Reset_def Notifier_Add_def Notifier_Remove_def
      Notifier_Reset_def calm_def tell_def on_world_def bind_res_def seen_def Let_def
      split: option.split list.split sum.split if_splits)+

lemma keeps_FORCEPART: "keeps E CommandForcePart_Handle"
proof (rule keepsI)
  fix K :: connected and u ps and sv :: "'a Kernel"
  assume "held K sv" "active K u"
  moreover have "keeps E forcepart_one"
    by (rule keepsI)
      (auto simp: forcepart_one_def Let_def split: option.split prod.split
        intro!: ensures_param ensures_fst_bind [OF part_held])
  ultimately show "ensures (CommandForcePart_Handle E u ps sv) (\<lambda>(r, s). held K s)"
    by (simp add: CommandForcePart_Handle_def loop_held)
qed

text \<open>Whom the tables of instances and identifiers find is connected.\<close>

lemma FindInstance_connected:
  assumes "held K sv" "FindInstance inst sv = Some u"
  shows "present K u"
proof -
  have "(\<exists>p \<in> set (clientlist sv). snd p = u) \<or> (\<exists>p \<in> set (uuid_list sv). snd p = u)"
    using assms(2) imap_find_set unfolding FindInstance_def FindUUID_def FindInstanceOnly_def
    by (metis (full_types))
  then show ?thesis
    using logins_okD(7,8) [OF heldD(2) [OF assms(1)]] held_present [OF assms(1)] by (auto simp: quit_of_def)
qed

lemma keeps_forcejoin_one: "keeps E forcejoin_one"
proof (rule keepsI)
  fix K :: connected and u ps and sv :: "'a Kernel"
  assume sv: "held K sv" "active K u"
  have join: "ensures (bind_res (Channel_JoinUser E False dest channel True sv) (\<lambda>(joined, sv).
      if joined then Inr (SUCCESS, sv) else Inr (FAILED, send u ERR_INPUT [PROCESS_ERROR] sv))) (\<lambda>(r, s). held K s)"
    if "FindInstance inst sv = Some dest" "IS_LOCAL sv dest" for inst dest channel
  proof -
    have "active K dest"
      using FindInstance_connected [OF sv(1) that(1)] held_active [OF sv(1)] that(2) by blast
    then show ?thesis by (intro ensures_fst_bind [OF join_held [OF sv(1)]]) auto
  qed
  show "ensures (forcejoin_one E u ps sv) (\<lambda>(r, s). held K s)"
    unfolding forcejoin_one_def Let_def
    by (intro ensures_param ensures_any) (auto simp: sv(1) join split: option.split)
qed

lemma keeps_FORCEJOIN: "keeps E CommandForceJoin_Handle"
  by (rule keepsI) (simp add: CommandForceJoin_Handle_def loop_held [OF keeps_forcejoin_one])

lemma calm_told_fold:
  "calm sv (fold (\<lambda>p s. if A p s then s else if B p s then s else if C p then send (fst p) code ps s else s) xs s) \<longleftrightarrow> calm sv s"
  by (induction xs arbitrary: s) auto

lemma alerts_ok:
  "kernel_ok sv \<Longrightarrow> kernel_ok (MonitorHandler_Flush sv)" "kernel_ok sv \<Longrightarrow> kernel_ok (Notifier_Flush sv)"
proof -
  have rest: "calm sv (s\<lparr>monitor_buffer := x\<rparr>) \<longleftrightarrow> calm sv s" "calm sv (s\<lparr>notify_events := y\<rparr>) \<longleftrightarrow> calm sv s" for s x y
    by (simp_all add: calm_def)
  have "calm sv (MonitorHandler_Flush sv)" "calm sv (Notifier_Flush sv)"
    unfolding MonitorHandler_Flush_def Notifier_Flush_def
    by (auto simp: rest calm_told_fold split: list.split)
  then show "kernel_ok sv \<Longrightarrow> kernel_ok (MonitorHandler_Flush sv)" "kernel_ok sv \<Longrightarrow> kernel_ok (Notifier_Flush sv)"
    by (blast intro: calm_ok)+
qed

section \<open>The steps\<close>

definition kernel_commands :: "HashProvider option \<Rightarrow> ('d, 'n) kernel_handler list" where
  "kernel_commands H =
     [CommandJoin_HandleLocal, CommandPart_Handle, CommandHop_HandleLocal, CommandPartAll_Handle,
      CommandSlist_HandleLocal, CommandMute_Handle, CommandUnmute_Handle, CommandMyChans_Handle,
      CommandChans_Handle, CommandUsers_Handle, CommandListChans_Handle, CommandMassJoin_Handle,
      CommandForceJoin_Handle, CommandForcePart_Handle, CommandMessage_Handle, CommandSQuery_HandleLocal,
      CommandLogin_HandleLocal H, CommandAgent_HandleLocal, CommandAuth_HandleLocal,
      CommandILogin_Handle, CommandExit_Handle, CommandPing_HandleLocal, CommandPong_Handle,
      CommandSetAgent_Handle, CommandAddUser_Handle H, CommandDelUser_Handle, CommandSetStatus_Handle,
      CommandPasswd_Handle H, CommandListUsers_Handle, CommandGetStatus_Handle,
      CommandListStatus_Handle, CommandListAdmins_Handle, CommandResetCache_Handle,
      CommandInCache_Handle, CommandListFlags_Handle, CommandGetFlags_Handle, CommandDelFlags_Handle,
      CommandAddFlag_Handle, CommandGroupAdd_Handle, CommandGroups_Handle, CommandDelGroup_Handle,
      CommandGShow_Handle, CommandGFlags_Handle, CommandMyGroups_Handle, CommandAssign_Handle,
      CommandGList_Handle, CommandGReset_Handle, CommandUnAssign_Handle, CommandFlagUpdate_Handle,
      CommandMonitor_Handle, CommandMonitorReset_Handle, CommandMonitorList_Handle,
      CommandStopMonitor_Handle, CommandNotifier_Handle, CommandNotifyReset_Handle,
      CommandStopNotify_Handle]"

lemma kernel_commands_preserve: "h \<in> set (kernel_commands H) \<Longrightarrow> preserves E h"
proof -
  have "list_all (preserves E) (kernel_commands H)"
    unfolding kernel_commands_def list.pred_inject
    by (intro conjI TrueI list.pred_inject(1) preserves_LOGIN preserves_AGENT preserves_AUTH preserves_EXIT preserves_DELUSER
        preserves_SETSTATUS keeps_preserves [OF keeps_JOIN] keeps_preserves [OF keeps_PART]
        keeps_preserves [OF keeps_HOP] keeps_preserves [OF keeps_PARTALL] keeps_preserves [OF keeps_SLIST]
        keeps_preserves [OF keeps_MUTE] keeps_preserves [OF keeps_UNMUTE] keeps_lists [THEN keeps_preserves]
        keeps_preserves [OF keeps_MASSJOIN] keeps_preserves [OF keeps_FORCEJOIN]
        keeps_preserves [OF keeps_FORCEPART]
        keeps_preserves [OF keeps_PUBLISH] keeps_preserves [OF keeps_SQUERY]
        keeps_small_commands [THEN keeps_preserves] keeps_user_commands [THEN keeps_preserves]
        keeps_flag_commands [THEN keeps_preserves] keeps_group_commands [THEN keeps_preserves]
        keeps_alert_commands [THEN keeps_preserves])
  then show "h \<in> set (kernel_commands H) \<Longrightarrow> preserves E h" by (simp add: list_all_iff)
qed

text \<open>
  What happens to the tables: a command of a user that has not left, a new connection, the checks of
  the main loop on the users that are not yet connected, those that are idle and those that have
  left, the alerts, and anything that the data threads do to the world.
\<close>

inductive kernel_step ::
  "('d, 'n) env \<Rightarrow> HashProvider option \<Rightarrow> network \<Rightarrow> 'd Kernel \<Rightarrow> 'd Kernel \<Rightarrow> bool"
  for E :: "('d, 'n) env" and H :: "HashProvider option" and N :: network
where
  command: "kernel_step E H N sv sv'"
    if "h \<in> set (kernel_commands H)" "\<not> us_quitting (sv_user sv u)" "IS_LOCAL sv u"
      "w_now (sv_world sv) \<noteq> 0" "h E u ps sv = Inr (r, sv')"
| connection: "kernel_step E H N sv sv'"
    if "Clients_AddUser N limit raw uid ip port socket_ok hook_error sv = Inr sv'"
| flush: "kernel_step E H N sv sv'"
    if "ClientManager_Flush E N version chans modules_ready sv = Inr sv'"
| idlers: "kernel_step E H N sv (ModuleQuitIdlers_OnEveryTwoSeconds limit sv)"
| exits: "kernel_step E H N sv (Clients_ForceExits sv)"
| culled: "kernel_step E H N sv (User_destroy u sv)" if "us_quitting (sv_user sv u)"
| monitors: "kernel_step E H N sv (MonitorHandler_Flush sv)"
| notifies: "kernel_step E H N sv (Notifier_Flush sv)"
| threads: "kernel_step E H N sv (sv\<lparr>sv_world := w\<rparr>)"

lemma kernel_step_ok: "kernel_step E H N sv sv' \<Longrightarrow> kernel_ok sv \<Longrightarrow> kernel_ok sv'"
proof (induction rule: kernel_step.induct)
  case (command h sv u ps r sv')
  then show ?case
    using kernel_commands_preserve [OF command(1), of E] unfolding preserves_def ensures_def by fastforce
next
  case (connection limit raw uid ip port socket_ok hook_error sv sv')
  then show ?case using add_user_ok [of sv N] unfolding ensures_def by blast
next
  case (flush version chans modules_ready sv sv')
  then show ?case using flush_ok [of sv E N] unfolding ensures_def by blast
next
  case (threads sv w)
  show ?case by (rule calm_ok [OF _ threads]) simp
qed (simp_all add: idlers_ok force_exits_ok destroy_ok alerts_ok)

text \<open>The state in which the server starts: no channel, nobody logged in, nobody connected or named.\<close>

definition kernel_start :: "'d Kernel \<Rightarrow> bool" where
  "kernel_start sv \<longleftrightarrow> ChannelList sv = [] \<and> logins sv = [] \<and> clientlist sv = [] \<and> uuid_list sv = [] \<and>
     (\<forall>u. us_quitting (sv_user sv u) \<and> us_registered (sv_user sv u) = REG_NONE)"

lemma kernel_start_ok: "kernel_start sv \<Longrightarrow> kernel_ok sv"
  by (simp add: kernel_start_def kernel_ok_def channels_ok_def logins_ok_def quit_of_def reg_distinct)

definition kernel_reachable ::
  "('d, 'n) env \<Rightarrow> HashProvider option \<Rightarrow> network \<Rightarrow> 'd Kernel \<Rightarrow> 'd Kernel \<Rightarrow> bool" where
  "kernel_reachable E H N = (kernel_step E H N)\<^sup>*\<^sup>*"

lemma kernel_reachable_ok: "kernel_reachable E H N sv sv' \<Longrightarrow> kernel_start sv \<Longrightarrow> kernel_ok sv'"
  unfolding kernel_reachable_def
  by (induction rule: rtranclp_induct) (auto intro: kernel_start_ok kernel_step_ok)

end
