(* ===== verification/KernelRun.thy ===== *)
theory KernelRun
  imports KernelSteps CommandPaths
begin

text \<open>
  A run of the server from its start, at which the properties of its tables are evaluated.
\<close>

text \<open>A server that has just started, two connections, and a channel that both join.\<close>

definition no_network :: network where
  "no_network = \<lparr>inet_pton4 = (\<lambda>_. None), inet_pton6 = (\<lambda>_. None), WildcardIPv6 = False\<rparr>"

definition nobody :: LocalUser where
  "nobody = (new_LocalUser (sample_user []) [] [] 0 0)\<lparr>us_client := (sample_user [])\<lparr>cl_quitting := True, cl_registered := REG_NONE\<rparr>, us_Groups := [0]\<rparr>"

text \<open>The passwords are their own hashes, and that of the user is in the cache.\<close>

definition plain_hash :: HashProvider where
  "plain_hash = \<lparr>hp_Generate = (\<lambda>_ s. s), hp_Compare = (=)\<rparr>"

definition any_class :: ConfigConnect where
  "any_class = \<lparr>cc_type = CC_ALLOW, cc_name = ''main'', cc_host = ''*'', cc_ports = [], cc_registered = None, cc_reason = []\<rparr>"

definition fresh_kernel :: "table Kernel" where
  "fresh_kernel = \<lparr>sv_world = (world_of [] [])\<lparr>w_now := 1000\<rparr>, sv_user = (\<lambda>_. nobody), local_users = [], clientlist = [],
     uuid_list = [], logins = [], AwaitingExit = [], not_registered_track = 0, ChannelList = [],
     sv_group = (\<lambda>_. sample_group ''p''), GroupList = [], sv_session = (\<lambda>_. \<lparr>ss_rawflags = [], can_admin = False,
       can_execute = False, can_manage = False\<rparr>), sessions = [], cache_logins = [(''joe'', ''pass'')],
     SetMap = [(''allowchans'', ''1'')], sv_next = 0, ServerName = ''beryl'', DefaultDB = Some 0, sv_modules = [],
     Classes = [any_class], MonitorList = [], monitor_buffer = [], NotifyList = [], notify_events = [], sv_log = []\<rparr>"

datatype act =
    Connects string
  | Agent nat string
  | Auth nat string
  | Login nat string
  | Joins nat string
  | Main_loop

definition act_command :: "(table, int) kernel_handler \<Rightarrow> nat \<Rightarrow> string \<Rightarrow> table Kernel \<Rightarrow> table Kernel option" where
  "act_command h u p sv =
     (if us_quitting (sv_user sv u) \<or> \<not> IS_LOCAL sv u \<or> w_now (sv_world sv) = 0 then None
      else case h sample_env u [p] sv of Inr (_, s) \<Rightarrow> Some s | Inl _ \<Rightarrow> None)"

definition act_res :: "table Kernel res \<Rightarrow> table Kernel option" where
  "act_res m = (case m of Inr s \<Rightarrow> Some s | Inl _ \<Rightarrow> None)"

primrec act_step :: "act \<Rightarrow> table Kernel \<Rightarrow> table Kernel option" where
  "act_step (Connects uid) sv = act_res (Clients_AddUser no_network 9 (sample_user []) uid [] 6378 True None sv)"
| "act_step (Agent u p) sv = act_command CommandAgent_HandleLocal u p sv"
| "act_step (Auth u p) sv = act_command CommandAuth_HandleLocal u p sv"
| "act_step (Login u p) sv = act_command (CommandLogin_HandleLocal (Some plain_hash)) u p sv"
| "act_step (Joins u p) sv = act_command CommandJoin_HandleLocal u p sv"
| "act_step Main_loop sv = act_res (ClientManager_Flush sample_env no_network [] [] (\<lambda>_. True) sv)"

primrec act_run :: "act list \<Rightarrow> table Kernel \<Rightarrow> table Kernel option" where
  "act_run [] sv = Some sv"
| "act_run (a # as) sv = (case act_step a sv of None \<Rightarrow> None | Some s \<Rightarrow> act_run as s)"

lemma act_command_step:
  assumes "act_command h u p sv = Some s" "h \<in> set (kernel_commands H)"
  shows "kernel_step sample_env H N sv s"
  using assms by (auto simp: act_command_def split: if_splits sum.splits intro!: kernel_step.command)

lemma act_step_step: "act_step a sv = Some s \<Longrightarrow> kernel_step sample_env (Some plain_hash) no_network sv s"
  by (cases a)
    (auto simp: kernel_commands_def act_res_def split: sum.splits
      intro: act_command_step kernel_step.connection kernel_step.flush)

lemma act_run_reaches: "act_run as sv = Some s \<Longrightarrow> kernel_reachable sample_env (Some plain_hash) no_network sv s"
proof (induction as arbitrary: sv)
  case (Cons a as)
  then obtain s1 where "act_step a sv = Some s1" "act_run as s1 = Some s" by (auto split: option.splits)
  with Cons.IH [of s1] act_step_step [of a sv s1] show ?case
    unfolding kernel_reachable_def by (auto intro: converse_rtranclp_into_rtranclp)
qed (simp add: kernel_reachable_def)

text \<open>A user that connects, logs in and joins.\<close>

definition joining :: "act list" where
  "joining = [Connects ''10'', Agent 0 ''agent'', Auth 0 ''pass'', Login 0 ''joe'', Main_loop, Joins 0 ''#a'']"

definition chan_a :: Channel where
  "chan_a = \<lparr>ch_name = ''#a'', ch_created = 1000, muted = False,
     subscribedlist = [(0, \<lparr>sub_user = 0, sub_chan = ''#a'', from_connect = False\<rparr>)]\<rparr>"

lemma joined_channels: "map_option (\<lambda>s. (ChannelList s, IS_LOCAL s 0, IS_LOCAL s 5, User_InGroup CHR ''p'' (client_of s 5)))
    (act_run joining fresh_kernel) = Some ([(''#a'', chan_a)], True, True, True)"
  by code_simp

lemma fresh_starts: "kernel_start fresh_kernel"
  by (simp add: kernel_start_def fresh_kernel_def nobody_def)

lemma joined_state:
  "\<exists>sv. kernel_reachable sample_env (Some plain_hash) no_network fresh_kernel sv \<and>
     ChannelList sv = [(''#a'', chan_a)] \<and> IS_LOCAL sv 0 \<and> IS_LOCAL sv 5 \<and> User_InGroup CHR ''p'' (client_of sv 5)"
proof -
  obtain sv where "act_run joining fresh_kernel = Some sv" "ChannelList sv = [(''#a'', chan_a)]"
    "IS_LOCAL sv 0" "IS_LOCAL sv 5" "User_InGroup CHR ''p'' (client_of sv 5)"
    using joined_channels by (auto simp: map_option_case split: option.splits)
  then show ?thesis using act_run_reaches by blast
qed

lemma in_chan_a: "Channel_IsSubscribed u chan_a \<longleftrightarrow> u = 0"
  by (simp add: chan_a_def Channel_IsSubscribed_def)

end
