(* ===== verification/CidrFacts.thy ===== *)
theory CidrFacts
  imports Cidr
begin

unbundle bit_operations_syntax

text \<open>
  The mask of the first bits of an address: two addresses have the same masks exactly when they
  agree in these bits.
\<close>

text \<open>The bits of an address from the highest of its first byte.\<close>

definition addr_bit :: "u8 list \<Rightarrow> nat \<Rightarrow> bool" where
  "addr_bit bytes i = bit (bytes ! (i div 8)) (7 - i mod 8)"

definition top_bits :: "nat \<Rightarrow> u8" where
  "top_bits r = ucast ((drop_bit r 0xFF00 :: u32) AND 0xFF)"

lemma bit_top_bits: "bit (top_bits r) n \<longleftrightarrow> n < 8 \<and> 8 \<le> r + n \<and> r + n < 16"
proof -
  have a: "(0xFF :: u32) = mask 8" "(0xFF00 :: u32) = push_bit 8 (mask 8)"
    by (simp_all add: mask_eq_exp_minus_1)
  show ?thesis
    unfolding top_bits_def a
    by (auto simp: bit_simps)
qed

lemma top_bits_eq:
  assumes "r < 8"
  shows "x AND top_bits r = y AND top_bits r \<longleftrightarrow> (\<forall>j<r. bit x (7 - j) = bit y (7 - j))"
proof
  assume eq: "x AND top_bits r = y AND top_bits r"
  show "\<forall>j<r. bit x (7 - j) = bit y (7 - j)"
  proof (intro allI impI)
    fix j assume j: "j < r"
    have "bit (top_bits r) (7 - j)" using j assms unfolding bit_top_bits by arith
    moreover have "bit (x AND top_bits r) (7 - j) = bit (y AND top_bits r) (7 - j)" using eq by simp
    ultimately show "bit x (7 - j) = bit y (7 - j)" by (simp add: bit_and_iff)
  qed
next
  assume eq: "\<forall>j<r. bit x (7 - j) = bit y (7 - j)"
  show "x AND top_bits r = y AND top_bits r"
  proof (rule bit_eqI)
    fix n
    show "bit (x AND top_bits r) n = bit (y AND top_bits r) n"
    proof (cases "bit (top_bits r) n")
      case True
      then have "n < 8" "7 - n < r" "7 - (7 - n) = n" using assms by (auto simp: bit_top_bits)
      with eq have "bit x n = bit y n" by metis
      then show ?thesis by (simp add: bit_and_iff)
    qed (simp add: bit_and_iff)
  qed
qed

lemma byte_eq: "x = y \<longleftrightarrow> (\<forall>j<8. bit (x :: u8) (7 - j) = bit y (7 - j))"
proof
  assume eq: "\<forall>j<8. bit x (7 - j) = bit y (7 - j)"
  show "x = y"
  proof (rule bit_eqI)
    fix n assume "possible_bit TYPE(u8) n"
    then have "n < 8" by simp
    then have "7 - n < 8" "7 - (7 - n) = n" by simp_all
    with eq show "bit x n = bit y n" by metis
  qed
qed simp

lemma all_bits:
  "(\<forall>i<n. addr_bit a i = addr_bit b i) \<longleftrightarrow>
   (\<forall>k<n div 8. a ! k = b ! k) \<and> (\<forall>j<n mod 8. bit (a ! (n div 8)) (7 - j) = bit (b ! (n div 8)) (7 - j))"
proof -
  have "(\<forall>i<n. P (i div 8) (i mod 8)) \<longleftrightarrow> (\<forall>k<n div 8. \<forall>j<8. P k j) \<and> (\<forall>j<n mod 8. P (n div 8) j)"
    for P :: "nat \<Rightarrow> nat \<Rightarrow> bool"
  proof (intro iffI conjI allI impI)
    fix k j :: nat
    assume h: "\<forall>i<n. P (i div 8) (i mod 8)" and k: "k < n div 8" "j < 8"
    have "8 * Suc k \<le> 8 * (n div 8)" using k(1) by (intro mult_le_mono2) simp
    also have "\<dots> \<le> n" by simp
    finally have "8 * k + j < n" using k(2) by simp
    with h [rule_format, of "8 * k + j"] k show "P k j" by simp
  next
    fix j
    assume h: "\<forall>i<n. P (i div 8) (i mod 8)" and j: "j < n mod 8"
    then have "8 * (n div 8) + j < n" "j < 8" by (simp_all add: minus_mult_div_eq_mod [symmetric] less_diff_conv)
    with h [rule_format, of "8 * (n div 8) + j"] show "P (n div 8) j" by simp
  next
    fix i
    assume h: "(\<forall>k<n div 8. \<forall>j<8. P k j) \<and> (\<forall>j<n mod 8. P (n div 8) j)" and i: "i < n"
    show "P (i div 8) (i mod 8)"
    proof (cases "i div 8 < n div 8")
      case True then show ?thesis using h by simp
    next
      case False
      then have "i div 8 = n div 8" using i div_le_mono [of i n 8] by simp
      moreover then have "i mod 8 < n mod 8" using i by (metis div_mult_mod_eq nat_add_left_cancel_less)
      ultimately show ?thesis using h by simp
    qed
  qed
  from this [of "\<lambda>k j. bit (a ! k) (7 - j) = bit (b ! k) (7 - j)"]
  show ?thesis by (simp add: addr_bit_def byte_eq)
qed

lemma masked_eq:
  assumes "length a = m" "length b = m" "m \<le> 16" "n \<le> 8 * m"
  shows "masked a n n = masked b n n \<longleftrightarrow> (\<forall>i<n. addr_bit a i = addr_bit b i)"
proof -
  let ?f = "\<lambda>c i. if i < m then (if i < n div 8 then c ! i else if i = n div 8 then c ! i AND top_bits (n mod 8) else 0) else 0"
  have f: "masked a n n = map (?f a) [0..<16]" "masked b n n = map (?f b) [0..<16]"
    using assms by (simp_all add: masked_def top_bits_def Let_def)
  have "masked a n n = masked b n n \<longleftrightarrow> (\<forall>i<16. ?f a i = ?f b i)" unfolding f by auto
  also have "\<dots> \<longleftrightarrow> (\<forall>k<n div 8. a ! k = b ! k) \<and>
      (n div 8 < m \<longrightarrow> a ! (n div 8) AND top_bits (n mod 8) = b ! (n div 8) AND top_bits (n mod 8))"
  proof -
    have "n div 8 \<le> m" using assms(4) by simp
    then show ?thesis using assms(3) by (auto split: if_splits)
  qed
  also have "\<dots> \<longleftrightarrow> (\<forall>i<n. addr_bit a i = addr_bit b i)"
  proof -
    have "n mod 8 = 0" if "\<not> n div 8 < m"
    proof -
      have "8 * m \<le> 8 * (n div 8)" using that by (intro mult_le_mono2) simp
      then have "n = 8 * m" using assms(4) times_div_less_eq_dividend [of 8 n] by linarith
      then show ?thesis by simp
    qed
    then show ?thesis unfolding all_bits by (cases "n div 8 < m") (auto simp: top_bits_eq)
  qed
  finally show ?thesis .
qed

end
