(* ===== verification/KernelClaims.thy ===== *)
theory KernelClaims
  imports KernelRun CidrFacts
begin

text \<open>
  What the tables of users and channels promise: the subscriptions agree, a message reaches the
  subscribers and nobody else, a login has its password checked, and an address is matched by its
  first bits.
\<close>

section \<open>Subscriptions\<close>

text \<open>
  C6: Users and channels always agree. In every state that the commands of the kernel (all that
  are modelled, FORCEJOIN, FORCEPART and MASSJOIN included, run by a connected user with any
  parameters), new connections, the rounds of the main loop, the sweeps of idle users and the
  removal of those that left can reach from the empty server: a connected user lists a channel
  exactly when the channel lists it as a subscriber, no channel is listed twice, no channel is
  without subscribers, all subscribers are connected, the names of two channels differ up to case,
  and every registered user is found in the table of logins under its login.
\<close>

theorem subscriptions_agree:
  assumes "kernel_reachable E H N sv0 sv" "kernel_start sv0"
  shows "(\<forall>u k. \<not> us_quitting (sv_user sv u) \<longrightarrow>
      (k \<in> set (us_chans (sv_user sv u)) \<longleftrightarrow> (\<exists>c. (k, c) \<in> set (ChannelList sv) \<and> Channel_IsSubscribed u c))) \<and>
    (\<forall>u. \<not> us_quitting (sv_user sv u) \<longrightarrow> distinct (us_chans (sv_user sv u))) \<and>
    (\<forall>k c. (k, c) \<in> set (ChannelList sv) \<longrightarrow> ch_name c = k \<and> subscribedlist c \<noteq> [] \<and>
      (\<forall>u. Channel_IsSubscribed u c \<longrightarrow> \<not> us_quitting (sv_user sv u))) \<and>
    sorted_wrt (\<lambda>p q. \<not> engine_equals (fst p) (fst q)) (ChannelList sv) \<and>
    (\<forall>u. us_registered (sv_user sv u) = REG_OK \<and> \<not> us_quitting (sv_user sv u) \<longrightarrow>
      (us_login (sv_user sv u), u) \<in> set (logins sv))"
proof (intro conjI)
  have ok: "kernel_ok sv" by (rule kernel_reachable_ok [OF assms])
  then have ch: "channels_ok {} {} (ChannelList sv) (chans_of sv) (quit_of sv)" and l: "logins_ok sv"
    by (simp_all add: kernel_ok_def)
  note d = channels_okD [OF ch, unfolded chans_of_def quit_of_def]
  show "\<forall>u k. \<not> us_quitting (sv_user sv u) \<longrightarrow>
      (k \<in> set (us_chans (sv_user sv u)) \<longleftrightarrow> (\<exists>c. (k, c) \<in> set (ChannelList sv) \<and> Channel_IsSubscribed u c))"
    using d(5) by blast
  show "\<forall>u. \<not> us_quitting (sv_user sv u) \<longrightarrow> distinct (us_chans (sv_user sv u))" using d(4) by blast
  show "sorted_wrt (\<lambda>p q. \<not> engine_equals (fst p) (fst q)) (ChannelList sv)" by (rule d(1))
  show "\<forall>k c. (k, c) \<in> set (ChannelList sv) \<longrightarrow> ch_name c = k \<and> subscribedlist c \<noteq> [] \<and>
      (\<forall>u. Channel_IsSubscribed u c \<longrightarrow> \<not> us_quitting (sv_user sv u))"
    using d(3) by (fastforce simp: channel_ok_def Channel_IsSubscribed_def)
  show "\<forall>u. us_registered (sv_user sv u) = REG_OK \<and> \<not> us_quitting (sv_user sv u) \<longrightarrow>
      (us_login (sv_user sv u), u) \<in> set (logins sv)"
    using logins_okD(2,4) [OF l] by fastforce
qed


lemma subscriptions_agree_witness:
  "\<exists>sv. kernel_reachable sample_env (Some plain_hash) no_network fresh_kernel sv \<and> kernel_start fresh_kernel \<and>
     (''#a'', chan_a) \<in> set (ChannelList sv) \<and> \<not> us_quitting (sv_user sv 0) \<and>
     set (us_chans (sv_user sv 0)) = {''#a''}"
proof -
  obtain sv where r: "kernel_reachable sample_env (Some plain_hash) no_network fresh_kernel sv"
    and ch: "ChannelList sv = [(''#a'', chan_a)]" using joined_state by blast
  show ?thesis
    using subscriptions_agree [OF r fresh_starts] r fresh_starts
    by (intro exI [of _ sv]) (auto simp: ch in_chan_a)
qed

section \<open>Messages\<close>

text \<open>A write to a channel adds to the log, and does nothing else.\<close>

lemma Write_log:
  "Channel_Write c m X sv = sv\<lparr>sv_log := sv_log sv @
     map (\<lambda>p. Wrote (fst p) m) (filter (\<lambda>p. fst p \<notin> X \<and> IS_LOCAL sv (fst p)) (subscribedlist c))\<rparr>"
proof -
  have "fold (\<lambda>p sv. if fst p \<in> X then sv else send_event m (fst p) sv) ps sv = sv\<lparr>sv_log :=
     sv_log sv @ map (\<lambda>p. Wrote (fst p) m) (filter (\<lambda>p. fst p \<notin> X \<and> IS_LOCAL sv (fst p)) ps)\<rparr>" for ps
  proof (induction ps arbitrary: sv)
    case (Cons p ps)
    have "sv_user (send_event m (fst p) sv) = sv_user sv" by (simp add: send_event_def occurs_def)
    then show ?case using Cons by (auto simp: send_event_def occurs_def)
  qed simp
  then show ?thesis by (simp add: Channel_Write_def)
qed

definition may_publish :: "nat \<Rightarrow> Channel \<Rightarrow> 'd Kernel \<Rightarrow> bool" where
  "may_publish u c sv \<longleftrightarrow> \<not> muted c \<and>
     (User_InGroup CHR ''p'' (client_of sv u) \<or> User_IsAdmin (client_of sv u) \<or> Channel_IsSubscribed u c)"

lemma AlertPre_channel:
  assumes "channel_at sv k = Some c" "IS_LOCAL sv u" "msg \<noteq> []"
  shows "AlertPreEvents u (TYPE_CHANNEL k) msg sv =
    (if may_publish u c sv then (True, sv)
     else (False, send u ERR_INPUT2 (if muted c then [dec_of_nat ERR_MUTED, CHAN_MUTED]
        else [dec_of_nat ERR_CANNOTSENDTOCHAN, NO_EXTERNAL]) sv))"
  using assms by (auto simp: AlertPreEvents_def OnInstancePrePublish_def may_publish_def)

text \<open>
  C7: A message on a channel reaches its subscribers and nobody else. In every reachable state, a
  local user publishes a text that is not empty on an existing channel. When the channel is not
  muted and the user is subscribed to it, an administrator or in a group with the letter p, the
  command succeeds and all it does is to send the message to exactly the other local connected
  users that list the channel, once each, and to note the time of the publisher's last activity.
  Otherwise it fails and all it does is to send one error line to the publisher.
\<close>

theorem publish_reaches:
  assumes run: "kernel_reachable E H N sv0 sv" "kernel_start sv0"
    and c: "find_channel (c_str p0) sv = Some (k, c)" "deref p0 = CHR 0x23"
    and u: "IS_LOCAL sv u" and msg: "msg \<noteq> []"
  shows "\<exists>r sv'. publish_one E u [p0, msg] sv = Inr (r, sv') \<and>
    (if may_publish u c sv
     then r = SUCCESS \<and> (\<exists>vs. distinct vs \<and>
       (\<forall>v. v \<in> set vs \<longleftrightarrow> v \<noteq> u \<and> IS_LOCAL sv v \<and> \<not> us_quitting (sv_user sv v) \<and> k \<in> set (us_chans (sv_user sv v))) \<and>
       sv' = on_us u (on_client (\<lambda>c. c\<lparr>cl_touchbase := w_now (sv_world sv)\<rparr>))
         (sv\<lparr>sv_log := sv_log sv @ map (\<lambda>v. Wrote v (Publish_message u (ch_name c) msg)) vs\<rparr>))
     else r = FAILED \<and> sv' = send u ERR_INPUT2 (if muted c then [dec_of_nat ERR_MUTED, CHAN_MUTED]
       else [dec_of_nat ERR_CANNOTSENDTOCHAN, NO_EXTERNAL]) sv)"
proof -
  have ok: "kernel_ok sv" by (rule kernel_reachable_ok [OF run])
  then have ch: "channels_ok {} {} (ChannelList sv) (chans_of sv) (quit_of sv)" by (simp add: kernel_ok_def)
  note d = channels_okD [OF ch, unfolded chans_of_def quit_of_def]
  have at: "channel_at sv k = Some c" using c(1) by (auto simp: find_channel_def split: option.splits)
  then have kc: "(k, c) \<in> set (ChannelList sv)" using channel_at_iff [OF ch] by blast
  have h: "publish_one E u [p0, msg] sv = Inr (HandleChannelTarget u p0 msg sv)"
    using msg c(2) by (simp add: publish_one_def param_def)
  show ?thesis
  proof (cases "may_publish u c sv")
    case False
    then show ?thesis
      using AlertPre_channel [OF at u msg] by (simp add: h HandleChannelTarget_def c(1))
  next
    case True
    let ?vs = "filter (\<lambda>v. v \<noteq> u \<and> IS_LOCAL sv v) (map fst (subscribedlist c))"
    have "keys_strict (subscribedlist c)" using channels_okD(3) [OF ch kc] by (simp add: channel_ok_def)
    then have dist: "distinct ?vs" by (simp add: strict_sorted_iff)
    have left: "\<not> us_quitting (sv_user sv v)" if "Channel_IsSubscribed v c" for v
      using channels_okD(3) [OF ch kc] that
      by (auto simp: channel_ok_def Channel_IsSubscribed_def quit_of_def)
    have "Channel_IsSubscribed v c \<longleftrightarrow> \<not> us_quitting (sv_user sv v) \<and> k \<in> set (us_chans (sv_user sv v))" for v
      using d(5) [of v k] left [of v] kc unique_channel [OF d(2) kc] by blast
    then have "v \<in> set ?vs \<longleftrightarrow> v \<noteq> u \<and> IS_LOCAL sv v \<and> \<not> us_quitting (sv_user sv v) \<and> k \<in> set (us_chans (sv_user sv v))" for v
      unfolding Channel_IsSubscribed_def by auto
    moreover have "Channel_Write c m {u} sv = sv\<lparr>sv_log := sv_log sv @ map (\<lambda>v. Wrote v m) ?vs\<rparr>" for m
      unfolding Write_log filter_map by (simp add: comp_def)
    ultimately have "\<exists>vs. distinct vs \<and>
       (\<forall>v. v \<in> set vs \<longleftrightarrow> v \<noteq> u \<and> IS_LOCAL sv v \<and> \<not> us_quitting (sv_user sv v) \<and> k \<in> set (us_chans (sv_user sv v))) \<and>
       Channel_Write c m {u} sv = sv\<lparr>sv_log := sv_log sv @ map (\<lambda>v. Wrote v m) vs\<rparr>" for m
      using dist by blast
    then obtain vs where vs: "distinct vs"
      "\<forall>v. v \<in> set vs \<longleftrightarrow> v \<noteq> u \<and> IS_LOCAL sv v \<and> \<not> us_quitting (sv_user sv v) \<and> k \<in> set (us_chans (sv_user sv v))"
      "Channel_Write c (Publish_message u (ch_name c) msg) {u} sv =
         sv\<lparr>sv_log := sv_log sv @ map (\<lambda>v. Wrote v (Publish_message u (ch_name c) msg)) vs\<rparr>" by blast
    have "publish_one E u [p0, msg] sv =
        Inr (AlertPostEvent u (Channel_Write c (Publish_message u (ch_name c) msg) {u} sv))"
      using AlertPre_channel [OF at u msg] True by (simp add: h HandleChannelTarget_def c(1))
    with True u vs show ?thesis by (auto simp: AlertPostEvent_def)
  qed
qed

text \<open>Address 5 is that of a publisher who has not subscribed, but whose group lets it.\<close>

lemma publish_reaches_witness:
  "\<exists>sv r sv' vs. kernel_reachable sample_env (Some plain_hash) no_network fresh_kernel sv \<and>
     publish_one sample_env 5 [''#A'', ''news''] sv = Inr (r, sv') \<and> r = SUCCESS \<and> (0 \<in> set vs \<longleftrightarrow> IS_LOCAL sv 0 \<and> \<not> us_quitting (sv_user sv 0) \<and>
       ''#a'' \<in> set (us_chans (sv_user sv 0))) \<and>
     sv_log sv' = sv_log sv @ map (\<lambda>v. Wrote v (Publish_message 5 ''#a'' ''news'')) vs"
proof -
  obtain sv where r: "kernel_reachable sample_env (Some plain_hash) no_network fresh_kernel sv"
    and ch: "ChannelList sv = [(''#a'', chan_a)]" and l: "IS_LOCAL sv 5" "User_InGroup CHR ''p'' (client_of sv 5)"
    using joined_state by blast
  have eq: "engine_equals ''#a'' ''#A''" "c_str ''#A'' = ''#A''" "deref ''#A'' = CHR 0x23" by code_simp+
  have c: "find_channel (c_str ''#A'') sv = Some (''#a'', chan_a)"
    by (simp add: find_channel_def Channels_Find_def ch eq)
  have may: "may_publish 5 chan_a sv" "ch_name chan_a = ''#a''" using l by (simp_all add: may_publish_def chan_a_def)
  have msg: "''news'' \<noteq> []" by simp
  from publish_reaches [OF r fresh_starts c eq(3) l(1) msg] r may show ?thesis by fastforce
qed

section \<open>Logging in\<close>

text \<open>A password is that of a hash in the cache, or, when there is none, of the one in the database.\<close>

definition accepted :: "('d, 'n) env \<Rightarrow> HashProvider option \<Rightarrow> string \<Rightarrow> string \<Rightarrow> 'd Kernel \<Rightarrow> bool" where
  "accepted E H user key sv \<longleftrightarrow> (\<exists>provider h. H = Some provider \<and> hp_Compare provider key h \<and>
     (case map_of (cache_logins sv) user of
        Some hashed \<Rightarrow> h = hashed
      | None \<Rightarrow> \<exists>status w1 w2. UserHelper_Find E user ''status'' (sv_world sv) = Inr (status, w1) \<and>
          Helpers_as_bool status False \<and> UserHelper_Find E user ''pass'' w1 = Inr (h, w2)))"

lemma CheckPass_accepted:
  assumes "UserHelper_CheckPass E H user key sv = Inr (b, sv')"
  shows "b = accepted E H user key sv"
proof (cases "map_of (cache_logins sv) user")
  case (Some h)
  then show ?thesis
    using assms by (auto simp: UserHelper_CheckPass_def LoginCache_InCache_def accepted_def split: option.splits if_splits)
next
  case None
  then show ?thesis
    using assms by (auto simp: UserHelper_CheckPass_def LoginCache_InCache_def accepted_def bind_res_def
        get_field_def from_world_def split: sum.splits option.splits if_splits)
qed

lemma accepted_mark [simp]: "accepted E H user key (sv\<lparr>sv_user := f\<rparr>) = accepted E H user key sv"
  by (cases "map_of (cache_logins sv) user") (simp_all add: accepted_def)

text \<open>What \<open>SetLogin\<close> does for a user who has not logged in.\<close>

lemma SetLogin_accepts:
  assumes u: "IS_LOCAL sv u" "us_logged (sv_user sv u) = 0" "\<not> us_quitting (sv_user sv u)"
    and set: "User_SetLogin E H u login sv = Inr (b, sv')"
  shows "if accepted E H login (us_auth (sv_user sv u)) sv then b \<longrightarrow> us_login (sv_user sv' u) = login
    else \<not> b \<and> us_quitting (sv_user sv' u)"
proof -
  let ?s = "on_us u (\<lambda>us. (on_client (\<lambda>c. c\<lparr>cl_login := login\<rparr>) us)\<lparr>us_logged := w_now (sv_world sv)\<rparr>) sv"
  obtain yes t where pass: "UserHelper_CheckPass E H login (us_auth (sv_user sv u)) ?s = Inr (yes, t)"
    using set u by (auto simp: User_SetLogin_def Let_def bind_res_def split: sum.splits)
  have yes: "yes = accepted E H login (us_auth (sv_user sv u)) sv" using CheckPass_accepted [OF pass] by simp
  have "calm ?s t" using gently_CheckPass [OF calm_refl [of ?s], of E H login "us_auth (sv_user sv u)"] pass
    by (simp add: gently_def)
  then have t: "us_login (sv_user t u) = login" "IS_LOCAL t u" using u(1) by (auto simp: calm_def seen_eq)
  show ?thesis
  proof (cases yes)
    case False
    have "IS_LOCAL (send u ERR_WRONG_PASS [] t) u" using t(2) by (simp add: tell_def)
    then have "us_quitting (sv_user (Clients_Disconnect u ''Wrong password.'' (send u ERR_WRONG_PASS [] t)) u)"
      by (intro disconnect_quits) simp
    then show ?thesis using set u pass False yes by (auto simp: User_SetLogin_def Let_def)
  next
    case True
    then show ?thesis using set u pass yes t(1)
      by (auto simp: User_SetLogin_def Let_def split: if_splits)
  qed
qed

text \<open>What \<open>LOGIN\<close> does once \<open>SetLogin\<close> has answered: the login of the user stays what it set.\<close>

lemma Login_after_SetLogin:
  assumes run: "CommandLogin_HandleLocal H E u [login] sv = Inr (r, sv')"
    and set: "User_SetLogin E H u login sv = Inr (b, s)"
  shows "if b then \<exists>s1. calm s s1 \<and> r = SUCCESS \<and> us_login (sv_user sv' u) = us_login (sv_user s1 u)
    else r = FAILED \<and> sv' = s"
proof (cases b)
  case False
  then show ?thesis using run set by (simp add: CommandLogin_HandleLocal_def param_def)
next
  case True
  then obtain x s1 where w: "from_world (STHelper_Get E ''dbuser'' login) s = Inr (x, s1)"
    using run set by (auto simp: CommandLogin_HandleLocal_def param_def bind_res_def split: sum.splits)
  have c: "calm s s1"
    using gently_world(1) [OF calm_refl [of s], of "STHelper_Get E ''dbuser'' login"] w by (simp add: gently_def)
  let ?t = "\<lambda>d. on_us u (on_client (\<lambda>c. c\<lparr>cl_database := d\<rparr>)) s1"
  let ?r = "\<lambda>t. if us_registered (sv_user t u) < REG_LOGINUSER
      then on_us u (on_client (\<lambda>c. c\<lparr>cl_registered := Bit_Operations.or (cl_registered c) REG_LOGIN\<rparr>)) t else t"
  let ?d = "if x = [] then DefaultDB s1 else case e_find E x of None \<Rightarrow> DefaultDB s1 | Some d \<Rightarrow> Some d"
  have eq: "CommandLogin_HandleLocal H E u [login] sv = Inr (SUCCESS, ?r (?t ?d))"
  proof -
    have "param [login] 0 = Inr login" by (simp add: param_def)
    then show ?thesis using True
      by (simp only: CommandLogin_HandleLocal_def set w Let_def bind_res.simps prod.case if_False not_True_eq_False)
  qed
  have pair: "(SUCCESS, ?r (?t ?d)) = (r, sv')"
    by (rule sum.inject(2) [THEN iffD1, OF trans [OF sym [OF eq] run]])
  have r: "SUCCESS = r" by (rule arg_cong [OF pair, of fst, unfolded fst_conv])
  have s': "?r (?t ?d) = sv'" by (rule arg_cong [OF pair, of snd, unfolded snd_conv])
  have "us_login (sv_user (?r (?t d)) u) = us_login (sv_user s1 u)" for d by simp
  then have "r = SUCCESS \<and> us_login (sv_user sv' u) = us_login (sv_user s1 u)"
    unfolding r [symmetric] s' [symmetric] by blast
  with c show ?thesis using True by auto
qed

text \<open>
  C10: Nobody logs in without the password: a LOGIN that comes back, of a connected local user
  that has not logged in yet, succeeds only if the hashing provider accepts the password the user
  gave for the hash the cache keeps of that login or, when it keeps none, for the one in the core
  database of an active user, and then the login of the user is the one it asked for; when the
  password is not accepted the command fails and the user is disconnected.
\<close>

theorem login_checks_password:
  assumes "IS_LOCAL sv u" "us_logged (sv_user sv u) = 0" "\<not> us_quitting (sv_user sv u)"
    and "CommandLogin_HandleLocal H E u [login] sv = Inr (r, sv')"
  shows "(r = SUCCESS \<longrightarrow> accepted E H login (us_auth (sv_user sv u)) sv \<and> us_login (sv_user sv' u) = login) \<and>
    (\<not> accepted E H login (us_auth (sv_user sv u)) sv \<longrightarrow> r = FAILED \<and> us_quitting (sv_user sv' u))"
proof -
  obtain b s where set: "User_SetLogin E H u login sv = Inr (b, s)"
    using assms(4) by (auto simp: CommandLogin_HandleLocal_def param_def bind_res_def split: sum.splits)
  note rest = Login_after_SetLogin [OF assms(4) set]
  have "us_login (sv_user s1 u) = us_login (sv_user s u)" if "calm s s1" for s1
    using that by (simp add: calm_def seen_eq)
  note same = this
  note sl = SetLogin_accepts [OF assms(1-3) set]
  show ?thesis
  proof (cases b)
    case False
    then have r: "r = FAILED" "sv' = s" using rest by simp_all
    show ?thesis using sl unfolding r by (simp split: if_split_asm)
  next
    case True
    then obtain s1 where s1: "calm s s1" "r = SUCCESS" "us_login (sv_user sv' u) = us_login (sv_user s1 u)"
      using rest by auto
    have "accepted E H login (us_auth (sv_user sv u)) sv" "us_login (sv_user s u) = login"
      using sl True by (simp_all split: if_split_asm)
    then show ?thesis using same [OF s1(1)] s1(3) by simp
  qed
qed

definition waiting_kernel :: "string \<Rightarrow> table Kernel" where
  "waiting_kernel auth = fresh_kernel\<lparr>sv_user := (\<lambda>_. (new_LocalUser (sample_user []) ''10'' [] 6378 1000)\<lparr>us_auth := auth\<rparr>)\<rparr>"

lemma wrong_password:
  "\<exists>sv'. CommandLogin_HandleLocal (Some plain_hash) sample_env 0 [''joe''] (waiting_kernel ''guess'') = Inr (FAILED, sv')"
proof -
  have "LoginCache_InCache (Some plain_hash) ''joe'' ''guess'' (waiting_kernel ''guess''\<lparr>sv_user := f\<rparr>) = - 1" for f
    by (simp add: LoginCache_InCache_def waiting_kernel_def fresh_kernel_def plain_hash_def)
  then have "UserHelper_CheckPass sample_env (Some plain_hash) ''joe'' ''guess'' (waiting_kernel ''guess''\<lparr>sv_user := f\<rparr>) =
      Inr (False, waiting_kernel ''guess''\<lparr>sv_user := f\<rparr>)" for f
    by (simp add: UserHelper_CheckPass_def)
  moreover have "us_auth (sv_user (waiting_kernel ''guess'') 0) = ''guess''" "us_logged (sv_user (waiting_kernel ''guess'') 0) = 0"
    "\<not> us_quitting (sv_user (waiting_kernel ''guess'') 0)"
    by (simp_all add: waiting_kernel_def new_LocalUser_def)
  ultimately show ?thesis
    by (simp add: CommandLogin_HandleLocal_def User_SetLogin_def param_def Let_def)
qed

lemma login_checks_password_witness:
  "\<exists>sv'. CommandLogin_HandleLocal (Some plain_hash) sample_env 0 [''joe''] (waiting_kernel ''guess'') = Inr (FAILED, sv') \<and>
     us_quitting (sv_user sv' 0)"
proof -
  obtain sv' where run: "CommandLogin_HandleLocal (Some plain_hash) sample_env 0 [''joe''] (waiting_kernel ''guess'') = Inr (FAILED, sv')"
    using wrong_password by blast
  have u: "IS_LOCAL (waiting_kernel ''guess'') 0" "us_logged (sv_user (waiting_kernel ''guess'') 0) = 0"
    "\<not> us_quitting (sv_user (waiting_kernel ''guess'') 0)" "us_auth (sv_user (waiting_kernel ''guess'') 0) = ''guess''"
    by (simp_all add: waiting_kernel_def new_LocalUser_def)
  have no: "\<not> accepted sample_env (Some plain_hash) ''joe'' ''guess'' (waiting_kernel ''guess'')"
    by (simp add: accepted_def waiting_kernel_def fresh_kernel_def plain_hash_def)
  show ?thesis using login_checks_password [OF u(1-3) run] no run u(4) by auto
qed

section \<open>Addresses\<close>

text \<open>
  A mask of either family: its length is cut to that of the addresses, and an address is in it when
  it has its first bits.
\<close>

lemma masked_full: "length a = m \<Longrightarrow> 8 * m < n \<Longrightarrow> masked a (8 * m) n = masked a (8 * m) (8 * m)"
  by (simp add: masked_def Let_def)

lemma sa_mask_eq:
  "length a = 4 \<Longrightarrow> length b = 4 \<Longrightarrow>
     sa2cidr (AF_INET b q) n = sa2cidr (AF_INET a p) (ci_length (sa2cidr (AF_INET b q) n)) \<longleftrightarrow>
     (\<forall>i < min n 32. addr_bit a i = addr_bit b i)"
  "length a = 16 \<Longrightarrow> length b = 16 \<Longrightarrow>
     sa2cidr (AF_INET6 b q) n = sa2cidr (AF_INET6 a p) (ci_length (sa2cidr (AF_INET6 b q) n)) \<longleftrightarrow>
     (\<forall>i < min n 128. addr_bit a i = addr_bit b i)"
  using masked_full [of b 4 n] masked_full [of b 16 n]
  by (auto simp: sa2cidr_def Let_def masked_eq min_def)

definition family_bits :: "sockaddrs \<Rightarrow> (u8 list \<times> nat) option" where
  "family_bits sa = (case sa of AF_INET a p \<Rightarrow> Some (a, 32) | AF_INET6 a p \<Rightarrow> Some (a, 128) | _ \<Rightarrow> None)"

text \<open>
  C16: An address matches a mask network/length exactly when both are of the same family and the
  first bits of the address, as many as the length says and at most 32 or 128, are those of the
  network. A length of more than 255 counts as 0, by the conversion to an unsigned char.
\<close>

theorem match_address_prefix:
  assumes pton: "\<forall>s a. inet_pton4 N s = Some a \<longrightarrow> length a = 4" "\<forall>s a. inet_pton6 N s = Some a \<longrightarrow> length a = 16"
    and chars: "list_all hex_or_sep net" "list_all is_digit len" "len \<noteq> []"
    and net: "aptosa N net 0 = (True, b)" and addr: "aptosa N address 0 = (True, a)"
  shows "match_address N address (net @ ''/'' @ len) \<longleftrightarrow>
    (case (family_bits a, family_bits b) of
       (Some (x, k), Some (y, l)) \<Rightarrow> k = l \<and> (\<forall>i < min (convto_num_uchar len) k. addr_bit x i = addr_bit y i)
     | _ \<Rightarrow> False)"
proof -
  have slash: "rsplit CHR ''/'' (net @ CHR ''/'' # len) = Some (net, len)"
  proof -
    have not_digit: "\<not> is_digit CHR ''/''" by code_simp
    have "takeWhile (\<lambda>x. x \<noteq> CHR ''/'') (rev (net @ ''/'' @ len)) = rev len"
      using chars(2) not_digit by (auto simp: takeWhile_append list_all_iff)
    then show ?thesis by (simp add: rsplit_def)
  qed
  have cases: "(\<exists>x p. sa = AF_INET x p \<and> length x = 4) \<or> (\<exists>x p. sa = AF_INET6 x p \<and> length x = 16)"
    if "aptosa N s 0 = (True, sa)" for s sa
    using that pton by (auto simp: aptosa_def split: if_splits option.splits)
  have "match_address N address (net @ ''/'' @ len) \<longleftrightarrow> sa2cidr b (convto_num_uchar len) = sa2cidr a (ci_length (sa2cidr b (convto_num_uchar len)))"
    using chars by (simp add: match_address_def slash addr cidr_of_def net Let_def)
  also have "\<dots> \<longleftrightarrow> (case (family_bits a, family_bits b) of
       (Some (x, k), Some (y, l)) \<Rightarrow> k = l \<and> (\<forall>i < min (convto_num_uchar len) k. addr_bit x i = addr_bit y i)
     | _ \<Rightarrow> False)"
    using cases [OF net] cases [OF addr]
    by (elim disjE exE conjE) (simp_all add: family_bits_def sa_mask_eq, simp_all add: sa2cidr_def Let_def)
  finally show ?thesis .
qed

definition small_network :: network where
  "small_network = \<lparr>inet_pton4 = (\<lambda>s. if s = ''10.1.2.3'' then Some [10, 1, 2, 3] else if s = ''10.1.3.0'' then Some [10, 1, 3, 0] else None),
     inet_pton6 = (\<lambda>_. None), WildcardIPv6 = False\<rparr>"

lemma match_address_prefix_witness:
  "match_address small_network ''10.1.2.3'' ''10.1.3.0/23'' \<and> \<not> match_address small_network ''10.1.2.3'' ''10.1.3.0/24''"
proof -
  have p: "\<forall>s a. inet_pton4 small_network s = Some a \<longrightarrow> length a = 4" "\<forall>s a. inet_pton6 small_network s = Some a \<longrightarrow> length a = 16"
    by (auto simp: small_network_def split: if_splits)
  have c: "list_all hex_or_sep ''10.1.3.0''" "list_all is_digit ''23''" "list_all is_digit ''24''"
    by code_simp+
  have n: "convto_num_uchar ''23'' = 23" "convto_num_uchar ''24'' = 24"
    by (simp_all add: convto_num_uchar_def scan_int_def is_digit_def isspace_def)
  have str: "c_str ''10.1.3.0'' = ''10.1.3.0''" "c_str ''10.1.2.3'' = ''10.1.2.3''" "deref ''10.1.3.0'' = CHR ''1''" "deref ''10.1.2.3'' = CHR ''1''"
    by code_simp+
  have a: "aptosa small_network ''10.1.3.0'' 0 = (True, AF_INET [10, 1, 3, 0] 0)" "aptosa small_network ''10.1.2.3'' 0 = (True, AF_INET [10, 1, 2, 3] 0)"
    by (simp_all add: aptosa_def str, simp_all add: small_network_def htons_def)
  have b: "\<forall>i<23. addr_bit [10, 1, 2, 3] i = addr_bit [10, 1, 3, 0] i" "addr_bit [10, 1, 2, 3] 23 \<noteq> addr_bit [10, 1, 3, 0] 23"
    by code_simp+
  have "match_address small_network ''10.1.2.3'' (''10.1.3.0'' @ ''/'' @ ''23'')"
    using match_address_prefix [OF p c(1,2) _ a] b by (simp add: family_bits_def n)
  moreover have "\<not> match_address small_network ''10.1.2.3'' (''10.1.3.0'' @ ''/'' @ ''24'')"
    using match_address_prefix [OF p c(1,3) _ a] b by (auto simp: family_bits_def n intro!: exI [of _ 23])
  ultimately show ?thesis by simp
qed

end
