(* ===== verification/Spec2Isabelle.thy ===== *)
theory Spec2Isabelle
  imports Extras ScanQueries MultiFacts ReplyFacts ServerFacts DiffQueries OperationFacts EtcFacts
    CommandPaths ProtocolFacts ValidatorFacts KernelClaims
begin

text \<open>
  BerylDB is a key/value server.  A client's command becomes a query, an object of a class derived
  from \<open>QueryBase\<close>; a data thread calls its \<open>Prepare\<close>, which looks the key up, checks its type
  against the one the command works on and calls the class's \<open>Run\<close>, which reads and writes one
  RocksDB store; \<open>Process\<close> then turns the query into the reply.  This development models that core,
  from the conversions of bytes to the histories of commands.

  The parts, from the bottom up, with the files under \<open>src/\<close> they model:

    \<^item> \<open>Prelude\<close>: results with errors as values (\<open>fault\<close>), the collections of facts, generic lemmas.
    \<^item> \<open>Converter\<close> (\<open>include/converter.h\<close>): bytes as text of zeros and ones and back, numbers and
      their decimal texts at 32 bits, the tests on parameters.  Both round trips.
    \<^item> \<open>Extras\<close> (\<open>include/extras.h\<close>): the text helpers the queries call.
    \<^item> \<open>Nodes\<close> (\<open>nodes.cpp\<close>, \<open>include/nodes.h\<close>): the token streams that take stored names apart.
    \<^item> \<open>Wildcard\<close> (\<open>daemon.cpp\<close>): the matcher of key masks, equivalent to a language of masks.
    \<^item> \<open>Handler_Base\<close>, \<open>List_Handler\<close>, \<open>Vector_Handler\<close>, \<open>Map_Handler\<close>, \<open>MultiMap_Handler\<close>
      (\<open>brldb/*_handler.cpp\<close>): the containers a value decodes to.  The locale \<open>handler_codec\<close> is
      their common contract, that decoding inverts encoding on well formed containers; each
      container interprets it on its own \<open>Create\<close> and \<open>as_string\<close>, and from it follow the
      theorems on stored histories: any sequence of decode, operate, encode computes what the
      operations compute on the abstract container.
    \<^item> \<open>Timers\<close> (\<open>brldb/expires.cpp\<close>, \<open>brldb/futures.cpp\<close>): the two registries of deadlines.  The
      locale \<open>timer_registry\<close> states what a registry promises, a map from keys to deadlines, whether
      an addition gives the deadline or a time to live; both managers interpret it.
    \<^item> \<open>QueryBase\<close>, \<open>QueryOutcomes\<close> (\<open>brldb/query.cpp\<close>, \<open>include/brldb/query.h\<close>): the query as a
      record, the world it acts on, and every member function of \<open>QueryBase\<close>, with \<open>Prepare\<close>
      split as the source's switch is.  \<open>write_outcome\<close> and \<open>read_outcome\<close> say once for all classes
      what the checks of \<open>Prepare\<close> let through, \<open>refused\<close> what the others answer, and \<open>submitted\<close> that
      a world is another one with exactly one batch handed to the store, taken or not.
    \<^item> \<open>Sample_Store\<close>: a concrete store, on which every property with a hypothesis is applied once.
    \<^item> \<open>KeyQueries\<close>, \<open>KeyFacts\<close> (\<open>brldb/keys.cpp\<close>): commands on a plain key.
    \<^item> \<open>Hints\<close> (\<open>brldb/*_hints.cpp\<close>): commands on a key of any type.
    \<^item> \<open>Paging\<close>, \<open>ScanQueries\<close> (\<open>brldb/keys.cpp\<close>, \<open>engine.cpp\<close>): commands that walk the store, and
      the pages of fifty elements they answer.
    \<^item> \<open>ListQueries\<close>, \<open>ListFacts\<close> (\<open>brldb/lists.cpp\<close>) and \<open>VectorQueries\<close> (\<open>brldb/vectors.cpp\<close>).
    \<^item> \<open>MapQueries\<close>, \<open>MapFacts\<close> (\<open>brldb/maps.cpp\<close>) and \<open>MultiQueries\<close>, \<open>MultiFacts\<close>
      (\<open>brldb/multis.cpp\<close>).
    \<^item> \<open>Store_Invariant\<close>: the commands together, as the steps of a store; the invariant over all
      histories.
    \<^item> \<open>Replies\<close>, \<open>ReplyFacts\<close> (\<open>brldb/dbflush.cpp\<close>, \<open>brldb/flush.cpp\<close>, \<open>daemon.cpp\<close>): the lines a
      client receives, from the access code or from the \<open>Process\<close> of the class, in the formats of
      the two kinds of clients.
    \<^item> \<open>DiffQueries\<close> (\<open>brldb/diff.cpp\<close>, \<open>diff_hints.cpp\<close>): the comparison of two keys of one type, and
      what its client receives.
    \<^item> \<open>Operations\<close>, \<open>OperationFacts\<close> (\<open>brldb/operation.cpp\<close>): counts and flushes of a whole select,
      the arithmetic on a key.
    \<^item> \<open>EtcQueries\<close>, \<open>EtcFacts\<close> (\<open>brldb/etc.cpp\<close>): deadlines and future values, their loading at
      start, the reset of a database.  A lemma on loading, proved in the locale \<open>timer_registry\<close>,
      gives both theorems on restarts.
    \<^item> \<open>QueryFrame\<close>: what no \<open>Run\<close> changes of a query, its user and its flags, and whose pages it
      attaches.
    \<^item> \<open>Dispatch\<close>, \<open>DispatchFacts\<close>, \<open>ServerFacts\<close> (\<open>brldb/dbflush.cpp\<close>, \<open>clients.cpp\<close>, \<open>reducer.cpp\<close>):
      the server as a transition system, \<open>server_step\<close>.  Its state has the users at their
      addresses, the lists that refer to them, the data threads with their queues, and a log of
      the replies.  Clients push, connect and leave; the main loop posts and replies; each thread
      takes, prepares and hands over in three steps; the flusher pauses, resumes and resets; all
      in any order.  \<open>server_ok\<close> is the invariant of the reachable states, from which the order
      of the replies, the absence of dangling references and the locked users follow.

    \<^item> \<open>Validators\<close>, \<open>ValidatorFacts\<close> (\<open>daemon.cpp\<close>, \<open>engine.cpp\<close>): which names are valid, durations.
    \<^item> \<open>Accounts\<close> (\<open>managers/c_maps.cpp\<close>, \<open>group.cpp\<close>, \<open>login.cpp\<close>, \<open>instances.cpp\<close>): the maps of the
      core database, the flags of groups and sessions, what a user may do.
    \<^item> \<open>Requests\<close> (\<open>managers/keys.cpp\<close>, \<open>globals.cpp\<close>, \<open>expires.cpp\<close>): from a command to the query
      object it pushes.
    \<^item> \<open>Commands\<close> (\<open>commands.cpp\<close>, \<open>include/maker.h\<close>), \<open>KeyCommands\<close>, \<open>ListCommands\<close>, \<open>MapCommands\<close>,
      \<open>TimerCommands\<close> (\<open>coremods/core_*\<close>): each command class, its constructor as a record and its
      \<open>Handle\<close> as a function on the session of a user.
    \<^item> \<open>Protocol\<close>, \<open>ProtocolFacts\<close> (\<open>coremods/core_serialize.cpp\<close>, \<open>nodes.cpp\<close>): lines, parsed and
      written, and that one inverts the other.
    \<^item> \<open>CommandProc\<close>, \<open>CommandFacts\<close>, \<open>CommandPaths\<close> (\<open>commandproc.cpp\<close>): the table of commands, the
      queues of a user, \<open>Execute\<close>, \<open>Flush\<close>.  \<open>well_formed\<close> says what a command must be for \<open>Execute\<close>
      to come back with everything but the log untouched; the tables of commands satisfy it, and
      from it follow that no client brings the main loop down, that only those allowed push
      queries, whatever the group manager made of their groups (\<open>group_made\<close>), and that \<open>MULTI\<close> keeps
      the order of a queue whose names the table \<open>serves\<close>.  \<open>set_get_commands\<close> joins the layers, from the
      command to the reply.

    \<^item> \<open>Server\<close> (\<open>clients.cpp\<close>, \<open>settings.cpp\<close>, \<open>commands.cpp\<close>, \<open>include/instances.h\<close>): the tables of the
      main loop.  In the record \<open>Kernel\<close>, users, channels, sessions and groups are kept at addresses
      or names, so that what the code shares is shared; it has the settings, the cache of logins,
      the monitors, and a log of the lines and events that were sent.  \<open>HasLoop\<close> runs a command
      over a list of targets.
    \<^item> \<open>Channels\<close>, \<open>ChannelFacts\<close> (\<open>channels.cpp\<close>, \<open>coremods/core_dbload.cpp\<close>, \<open>modules/m_chainjoin.cpp\<close>,
      \<open>m_forward.cpp\<close>, \<open>m_chanrestrict.cpp\<close>, \<open>m_autojoin.cpp\<close>): joining, leaving, writing to the
      subscribers, what the core database keeps of it.
    \<^item> \<open>ChannelCommands\<close> (\<open>coremods/core_channel\<close>, \<open>core_publish.cpp\<close>, \<open>modules/m_*join.cpp\<close>,
      \<open>m_forcepart.cpp\<close>): the commands on channels, and publishing on them, to users and to the server.
    \<^item> \<open>Alerts\<close> (\<open>alerts.cpp\<close>, \<open>coremods/core_monitor\<close>, \<open>core_notifier\<close>): those who watch.
    \<^item> \<open>Cidr\<close>, \<open>CidrFacts\<close> (\<open>socket.cpp\<close>, \<open>cidr.cpp\<close>): addresses and masks.
    \<^item> \<open>Logins\<close> (\<open>group.cpp\<close>, \<open>login.cpp\<close>, \<open>clients.cpp\<close>, \<open>instances.cpp\<close>, \<open>managers/user.cpp\<close>): groups,
      sessions, passwords and their cache, the life of a user from its connection to its removal.
    \<^item> \<open>LoginCommands\<close> (\<open>coremods/core_user\<close>, \<open>core_umanager\<close>, \<open>core_groups\<close>): their commands.
    \<^item> \<open>KernelFacts\<close>, \<open>KernelHistory\<close>, \<open>KernelSteps\<close>: \<open>kernel_ok\<close>, that users, channels and logins agree.
      \<open>calm\<close> relates two states in which these tables are the same, \<open>ensures\<close> says what a result
      satisfies if there is one; an operation \<open>keeps\<close> or \<open>preserves\<close> the invariant.  \<open>kernel_step\<close> has a
      step for every command of these theories, run by a connected user with any parameters, for a
      new connection, the main loop's rounds and the removal of users.  The invariant includes that
      the table of instances and the one of identifiers hold users that are there, since \<open>FORCEJOIN\<close>
      takes its target from the first.
    \<^item> \<open>KernelRun\<close>, \<open>KernelClaims\<close>: a run from the connection of a user to a channel with a subscriber,
      and the properties: subscriptions agree, messages reach the subscribers, a login has its
      password checked, masks match by the first bits.

  How the state corresponds to the code.  \<open>query\<close> has the fields of \<open>QueryBase\<close> with the prefix
  \<open>q_\<close>; \<open>world\<close> has the databases, the two registries of the kernel, the clock, the queries pushed
  back to clients (\<open>w_results\<close>) and the answers \<open>CheckIterator\<close> will give when an iteration asks
  whether the client has gone (\<open>w_interrupts\<close>).  A \<open>Run\<close> is a function from a query and a world to
  both updated, or to a \<open>fault\<close>: an uncaught exception or undefined behaviour is a value of the
  model.  Locks are not; \<open>GetTTL\<close> and \<open>GetTTE\<close>, which lock a mutex twice and which nothing calls, are
  not modelled.

  What the theorems assume.  RocksDB is not part of the repository: it is the parameter
  \<open>'d rocks\<close>, and \<open>rocks_ok R view\<close> states what its documentation promises, that \<open>Get\<close> reads the
  view of the store, that a batch is applied as a whole or not at all, that the iterator visits
  every entry once.  \<open>ready\<close> says that the query carries a database that is open and a key where
  the class requires one.  Doubles are a parameter (\<open>dbl\<close>) of the numeric operations.  Databases are
  numbered.  Container sizes are below the width of the counter that iterates over them where a
  theorem says so.

  Loops.  Every loop of the modelled code is a recursion Isabelle knows to end, by structure or by
  a measure, but the two that may not end: \<open>count_occur\<close> is a partial function with values in
  \<open>option\<close>, and its theorem says when it returns.  No fuel is used.  \<open>MatchInternal\<close> restarts at
  saved positions: its measure is lexicographic in the restart position and the rest of the text.

  What the groups of lemmas show.  Functional behaviour of the commands on every branch, refusals
  and failed writes included (\<open>*_query_outcome\<close>); refinement of the abstract containers and
  registries (\<open>*_history\<close>); equivalence of the matcher and the tokeniser with their
  specifications; round trips; the names under which data is stored never collide; the invariant
  that a name has one type.  Where the code departs from what it means to do, the theorem states
  what it does: \<open>LSORT\<close> reverses, \<open>RENAME\<close> to itself loses the value, \<open>COPY\<close> of a missing key
  writes a record without a type, \<open>HSETNX\<close> of a free name writes under the empty name,
  \<open>HLIST\<close> of fifty fields follows a dead iterator, \<open>LDEL\<close> deletes plain keys, \<open>LRFRONT\<close> reads a destroyed element,
  \<open>SUBSTR\<close> throws, \<open>OCCURS\<close> loops, a duration of a year is read back longer, \<open>DIFF\<close> loses its full pages, \<open>EXPIRE\<close> answers OK for a deadline
  that was not stored, a small quotient stops being a number.

  Of the dispatcher: interrupted queries leave their user locked, users that leave while locked are
  never freed, a list with an empty element may exhaust the memory.

  Granularity.  \<open>Prepare\<close> of a data thread is one step, since \<open>query_mute\<close> is held over it; so is a
  round of the main loop, whose notifications are under \<open>mute\<close>.  The answers of the flags that
  other threads set are inputs (\<open>w_interrupts\<close>, \<open>stops\<close>), and so are the random choice of a thread
  and the veto of the modules.

  Not modelled.  The classes of \<open>geo.cpp\<close> and \<open>dbsize_query\<close>, which are floating point; opening and closing the
  threads and the databases, queries without a database; the commands of \<open>core_dbmanager\<close>,
  \<open>core_admin\<close>, \<open>core_config\<close> and \<open>core_info\<close>, which act on files, the process, the loaded modules and the
  configuration; the tags of a line; the notices to notifiers (\<open>falert\<close>) inside other operations, and
  what modules beyond those named do with theirs; sockets and event loops, the parser of the
  configuration, the loading of modules and logging, which are system calls or bookkeeping around
  this core; vendored code.  Of the tables of the main loop: the constructors of the commands, which
  the command processor reads, are modelled for the commands on keys only.
\<close>

end
